(* ===== verification/GRD_Prelude.thy ===== *)
theory GRD_Prelude
  imports Main "HOL-Library.Word"
begin

text \<open>
  Prelude of the development of gradido-blockchain-core: the machine types of the C code,
  the faults a C expression can have, the result codes every function answers with, and the
  lemmas on words the components share.

  C integers are words of their width; a signed value is the same word read by \<open>sint\<close>.
  A function that can abort (\<open>assert\<close>) or run into undefined behaviour answers with
  \<open>c_fault + 'a\<close>, the fault on the left.
\<close>

unbundle bit_operations_syntax

section \<open>Machine types\<close>

type_synonym u8 = "8 word"
type_synonym u16 = "16 word"
type_synonym u32 = "32 word"
type_synonym u64 = "64 word"
type_synonym u128 = "128 word"
type_synonym i32 = "32 word"
type_synonym i64 = "64 word"
type_synonym bytes = "8 word list"

abbreviation INT64_MAX :: i64 where "INT64_MAX \<equiv> 0x7FFFFFFFFFFFFFFF"
abbreviation INT64_MIN :: i64 where "INT64_MIN \<equiv> 0x8000000000000000"
abbreviation UINT32_MAX :: u32 where "UINT32_MAX \<equiv> 0xFFFFFFFF"

section \<open>Faults and results\<close>

datatype c_fault =
    AssertFailed          \<comment> \<open>an \<open>assert\<close> does not hold: the process aborts\<close>
  | IndexOutOfBounds      \<comment> \<open>an array is read outside its elements\<close>
  | SignedOverflow        \<comment> \<open>a signed operation leaves its type\<close>
  | NullDereference       \<comment> \<open>a NULL pointer is followed\<close>
  | OtherUnionMember      \<comment> \<open>a member of a union is read that was not the one set\<close>

definition fbind :: "'e + 'a \<Rightarrow> ('a \<Rightarrow> 'e + 'b) \<Rightarrow> 'e + 'b" where
  "fbind x f = (case x of Inl e \<Rightarrow> Inl e | Inr a \<Rightarrow> f a)"

lemma fbind_simps [simp]:
  "fbind (Inl e) f = Inl e"
  "fbind (Inr a) f = f a"
  by (simp_all add: fbind_def)

lemma fbind_eq_Inr: "fbind x f = Inr b \<longleftrightarrow> (\<exists>a. x = Inr a \<and> f a = Inr b)"
  by (cases x) simp_all

text \<open>
  The result codes of \<open>arnm/result.h\<close> the code names, and the three codes of
  \<open>include/gradido_blockchain_core/result.h\<close> counted on top of them.
\<close>

datatype arnm_result =
    ARNM_SUCCESS
  | ARNM_WARNING_ARENA_MEMORY_NOT_RECLAIMED
  | ARNM_ERROR_NULL_POINTER
  | ARNM_ERROR_INVALID_PARAM
  | ARNM_ERROR_INVALID_STATE
  | ARNM_ERROR_INVALID_ENUM_TYPE
  | ARNM_ERROR_ENUM_UNKNOWN
  | ARNM_ERROR_ENUM_UNHANDLED
  | ARNM_ERROR_OUT_OF_MEMORY
  | ARNM_ERROR_RESOURCE_SIZE_EXCEED
  | ARNM_ERROR_ARITHMETIC_OVERFLOW
  | ARNM_ERROR_ARRAY_INDEX_OUT_OF_BOUNDS
  | ARNM_ERROR_DECODE_FAILED
  | ARNM_ERROR_ENCODE_FAILED
  | ARNM_ERROR_DESTINATION_BUFFER_TO_SMALL
  | ARNM_ERROR_NOT_INITIALIZED
  | GRD_ERROR_PB_UNHANDLED_ONEOF_BRANCH
  | GRD_ERROR_PB_UNHANDLED_PARAMETER
  | GRD_ERROR_PB_INCORRECT_VERSION

text \<open>The project names its own codes and leaves every other code to arnm's naming function.\<close>

definition grd_result_to_string :: "(arnm_result \<Rightarrow> string) \<Rightarrow> arnm_result \<Rightarrow> string" where
  "grd_result_to_string arnm_result_to_string result =
     (case result of
        GRD_ERROR_PB_UNHANDLED_ONEOF_BRANCH \<Rightarrow> ''GRD_ERROR_PB_UNHANDLED_ONEOF_BRANCH''
      | GRD_ERROR_PB_UNHANDLED_PARAMETER \<Rightarrow> ''GRD_ERROR_PB_UNHANDLED_PARAMETER''
      | GRD_ERROR_PB_INCORRECT_VERSION \<Rightarrow> ''GRD_ERROR_PB_INCORRECT_VERSION''
      | _ \<Rightarrow> arnm_result_to_string result)"

section \<open>Collections\<close>

named_theorems word_nat \<open>unat of word operations, read in nat\<close>

declare unat_word_ariths [word_nat]

section \<open>Words\<close>

lemma unat_lt_64: "unat (w :: u64) < 18446744073709551616"
  using unsigned_less [of w, where 'a = nat] by simp

lemma unat_lt_32: "unat (w :: u32) < 4294967296"
  using unsigned_less [of w, where 'a = nat] by simp

lemma unat_lt_8: "unat (w :: u8) < 256"
  using unsigned_less [of w, where 'a = nat] by simp

lemma unat_lt_128: "unat (w :: u128) < 340282366920938463463374607431768211456"
  using unsigned_less [of w, where 'a = nat] by simp

lemma unat_ucast_mod [word_nat]:
  "unat (ucast (w :: 'a::len word) :: 'b::len word) = unat w mod 2 ^ LENGTH('b)"
  by (simp add: unsigned_ucast_eq take_bit_eq_mod)

lemma unat_ucast_up:
  "LENGTH('a) \<le> LENGTH('b) \<Longrightarrow> unat (ucast (w :: 'a::len word) :: 'b::len word) = unat w"
proof -
  assume le: "LENGTH('a) \<le> LENGTH('b)"
  have "unat w < 2 ^ LENGTH('a)" by (rule unsigned_less)
  also have "(2::nat) ^ LENGTH('a) \<le> 2 ^ LENGTH('b)" using le by simp
  finally show ?thesis by (simp add: unat_ucast_mod)
qed

lemma unat_ucast_ups [simp]:
  "unat (ucast (a :: u64) :: u128) = unat a"
  "unat (ucast (b :: u32) :: u64) = unat b"
  "unat (ucast (c :: u8) :: u64) = unat c"
  "unat (ucast (c :: u8) :: u32) = unat c"
  by (simp_all add: unat_ucast_up)

lemma unat_drop_bit_div [word_nat]: "unat (drop_bit n (w :: 'a::len word)) = unat w div 2 ^ n"
  by (metis unat_drop_bit_eq drop_bit_eq_div)

lemma unat_push_bit_mod [word_nat]:
  "unat (push_bit n (w :: 'a::len word)) = unat w * 2 ^ n mod 2 ^ LENGTH('a)"
  by (metis unsigned_push_bit_eq take_bit_eq_mod push_bit_eq_mult)

lemma unat_take_bit_mod [word_nat]: "unat (take_bit n (w :: 'a::len word)) = unat w mod 2 ^ n"
  by (metis unsigned_take_bit_eq take_bit_eq_mod)

lemma word_less_unat: "(a :: 'a::len word) < b \<longleftrightarrow> unat a < unat b"
  by (simp add: word_less_iff_unsigned)

lemma word_le_unat: "(a :: 'a::len word) \<le> b \<longleftrightarrow> unat a \<le> unat b"
  by (simp add: word_less_eq_iff_unsigned)

lemma word_eq_unatI: "unat a = unat b \<Longrightarrow> (a :: 'a::len word) = b"
  by (simp add: word_unat_eq_iff)

lemma unat_minus_word:
  assumes "(w :: 'a::len word) \<noteq> 0"
  shows "unat (- w) = 2 ^ LENGTH('a) - unat w"
proof -
  have "uint w \<noteq> 0" using assms by (simp add: uint_0_iff)
  moreover have "uint w mod 2 ^ LENGTH('a) = uint w" by (rule uint_idem)
  ultimately have "uint (- w) = 2 ^ LENGTH('a) - uint w"
    by (simp add: uint_word_ariths zmod_zminus1_eq_if)
  then have "nat (uint (- w)) = nat (2 ^ LENGTH('a) - uint w)" by simp
  also have "\<dots> = nat (2 ^ LENGTH('a)) - nat (uint w)"
    by (rule nat_diff_distrib') simp_all
  finally show ?thesis by (simp add: nat_power_eq)
qed

lemma unat_mult_small: "unat x * unat y < 18446744073709551616 \<Longrightarrow> unat (x * y :: u64) = unat x * unat y"
  by (simp add: unat_word_ariths)

lemma unat_add_small: "unat x + unat y < 18446744073709551616 \<Longrightarrow> unat (x + y :: u64) = unat x + unat y"
  by (simp add: unat_word_ariths)

text \<open>Two's complement: \<open>sint\<close> from \<open>unat\<close>.\<close>

lemma uint_lt_64: "uint (w :: u64) < 18446744073709551616"
  using uint_bounded [of w] by simp

lemma uint_unat: "uint (w :: 'a::len word) = int (unat w)"
  by simp

lemma sint_64: "sint (w :: i64) =
  (if uint w < 9223372036854775808 then uint w else uint w - 18446744073709551616)"
proof -
  have "sint w = (uint w + 2 ^ 63) mod 2 ^ 64 - 2 ^ 63"
    by (simp add: sint_uint signed_take_bit_eq_take_bit_shift take_bit_eq_mod)
  moreover have "(x + 2 ^ 63) mod 2 ^ 64 - 2 ^ 63 =
      (if x < 9223372036854775808 then x else x - 18446744073709551616)"
    if "0 \<le> x" "x < 18446744073709551616" for x :: int
    using that mod_pos_geq [of "2 ^ 64" "x + 2 ^ 63"] by simp
  ultimately show ?thesis using uint_lt_64 [of w] by simp
qed

lemma sint_64_range:
  "- 9223372036854775808 \<le> sint (w :: i64)" "sint (w :: i64) < 9223372036854775808"
  using sint_greater_eq [of w] sint_less [of w] by simp_all

lemma sint_nonneg_uint: "0 \<le> sint (w :: i64) \<Longrightarrow> sint w = uint w"
  using uint_lt_64 [of w] unfolding sint_64 by (simp split: if_splits)

lemma sint_nonneg_iff: "0 \<le> sint (w :: i64) \<longleftrightarrow> unat w < 9223372036854775808"
proof -
  have "0 \<le> sint w \<longleftrightarrow> uint w < 9223372036854775808"
    using uint_lt_64 [of w] unfolding sint_64 by simp
  also have "\<dots> \<longleftrightarrow> unat w < 9223372036854775808"
    unfolding uint_unat by linarith
  finally show ?thesis .
qed

lemma sint_nonneg_unat: "0 \<le> sint (w :: i64) \<Longrightarrow> sint w = int (unat w)"
  by (simp add: sint_nonneg_uint)

lemma sint_word_of_int_64:
  assumes "- 9223372036854775808 \<le> k" "k < 9223372036854775808"
  shows "sint (word_of_int k :: i64) = k"
proof -
  have "uint (word_of_int k :: i64) = k mod 18446744073709551616" by (simp add: uint_word_of_int)
  moreover have "k mod 18446744073709551616 = (if 0 \<le> k then k else k + 18446744073709551616)"
    using assms mod_add_self2 [of k 18446744073709551616] by (auto simp: mod_pos_pos_trivial simp del: mod_add_self2)
  ultimately show ?thesis using assms unfolding sint_64 by simp
qed

end
