(* ===== verification/GRD_Fixed128.thy ===== *)
theory GRD_Fixed128
  imports GRD_Prelude
begin

text \<open>
  The Q64.64 fixed point numbers of \<open>third_party/r128/r128.h\<close>, as \<open>src/data/unit.c\<close>
  compiles them (\<open>R128_STDC_ONLY\<close>), and the two multiplications \<open>unit.c\<close> adds: one on
  \<open>__uint128_t\<close>, one on the 256 bit limbs of \<open>third_party/fp256\<close>. The abstraction
  \<open>r128_nat\<close> reads the pair \<open>(hi, lo)\<close> as one 128 bit natural number.
\<close>

section \<open>The representation\<close>

record R128 =
  r_lo :: u64
  r_hi :: u64

definition r128_nat :: "R128 \<Rightarrow> nat" where
  "r128_nat a = unat (r_hi a) * 2 ^ 64 + unat (r_lo a)"

definition R128_zero :: R128 where "R128_zero = \<lparr>r_lo = 0, r_hi = 0\<rparr>"
definition R128_one :: R128 where "R128_one = \<lparr>r_lo = 0, r_hi = 1\<rparr>"
definition R128_max :: R128 where
  "R128_max = \<lparr>r_lo = 0xffffffffffffffff, r_hi = 0x7fffffffffffffff\<rparr>"
definition R128_min :: R128 where "R128_min = \<lparr>r_lo = 0, r_hi = 0x8000000000000000\<rparr>"

section \<open>Conversions and rounding\<close>

definition r128FromInt :: "i64 \<Rightarrow> R128" where
  "r128FromInt v = \<lparr>r_lo = 0, r_hi = v\<rparr>"

definition r128ToInt :: "R128 \<Rightarrow> i64" where
  "r128ToInt v = (if sint (r_hi v) < 0 then r_hi v + (if r_lo v \<noteq> 0 then 1 else 0) else r_hi v)"

definition r128IsNeg :: "R128 \<Rightarrow> bool" where
  "r128IsNeg v = (sint (r_hi v) < 0)"

definition r128Round :: "R128 \<Rightarrow> R128" where
  "r128Round v =
     (let half = 0x8000000000000000 + (if sint (r_hi v) < 0 then 1 else 0)
      in \<lparr>r_lo = 0, r_hi = r_hi v + (if r_lo v \<ge> half then 1 else 0)\<rparr>)"

section \<open>Addition, negation, shift\<close>

definition r128Add :: "R128 \<Rightarrow> R128 \<Rightarrow> R128" where
  "r128Add a b =
     (let l = r_lo a + r_lo b; carry = (if l < r_lo a then 1 else 0)
      in \<lparr>r_lo = l, r_hi = r_hi a + r_hi b + carry\<rparr>)"

definition r128Sub :: "R128 \<Rightarrow> R128 \<Rightarrow> R128" where
  "r128Sub a b =
     (let l = r_lo a - r_lo b; borrow = (if l > r_lo a then 1 else 0)
      in \<lparr>r_lo = l, r_hi = r_hi a - r_hi b - borrow\<rparr>)"

definition r128__neg :: "R128 \<Rightarrow> R128" where
  "r128__neg src =
     (if r_lo src \<noteq> 0 then \<lparr>r_lo = NOT (r_lo src) + 1, r_hi = NOT (r_hi src)\<rparr>
      else \<lparr>r_lo = 0, r_hi = NOT (r_hi src) + 1\<rparr>)"

definition r128Shl :: "R128 \<Rightarrow> nat \<Rightarrow> R128" where
  "r128Shl src amount =
     (let amount = amount mod 128 in
      if amount \<ge> 64 then \<lparr>r_lo = 0, r_hi = push_bit (amount - 64) (r_lo src)\<rparr>
      else if amount \<noteq> 0 then
        \<lparr>r_lo = push_bit amount (r_lo src),
         r_hi = push_bit amount (r_hi src) OR drop_bit (64 - amount) (r_lo src)\<rparr>
      else src)"

section \<open>Multiplication on \<open>__uint128_t\<close>\<close>

definition r128Mul_precise :: "R128 \<Rightarrow> R128 \<Rightarrow> R128" where
  "r128Mul_precise a b =
     (let p1 = (ucast (r_hi a) :: u128) * ucast (r_lo b);
          p2 = (ucast (r_lo a) :: u128) * ucast (r_hi b);
          low = drop_bit 64 ((ucast (r_lo a) :: u128) * ucast (r_lo b))
                + ucast (ucast p1 :: u64) + ucast (ucast p2 :: u64)
      in \<lparr>r_lo = ucast low,
          r_hi = ucast (drop_bit 64 p1 + drop_bit 64 p2
                        + ucast (r_hi a) * ucast (r_hi b) + drop_bit 64 low)\<rparr>)"

definition r128Mul_specialized_factor :: "R128 \<Rightarrow> R128 \<Rightarrow> R128" where
  "r128Mul_specialized_factor a b =
     (let p1 = (ucast (r_hi a) :: u128) * ucast (r_lo b);
          low = drop_bit 64 ((ucast (r_lo a) :: u128) * ucast (r_lo b)) + ucast (ucast p1 :: u64)
      in \<lparr>r_lo = ucast low, r_hi = ucast (drop_bit 64 p1 + drop_bit 64 low)\<rparr>)"

section \<open>Multiplication on 64 bit limbs\<close>

text \<open>The macro \<open>LL_MUL64\<close>: high and low word of a 64 by 64 bit product.\<close>

definition LL_MUL64 :: "u64 \<Rightarrow> u64 \<Rightarrow> u64 \<times> u64" where
  "LL_MUL64 a b =
     (let ah = drop_bit 32 a; al = a AND 0xffffffff;
          bh = drop_bit 32 b; bl = b AND 0xffffffff;
          t1 = al * bh; t2 = ah * bl;
          rl = al * bl; rh = ah * bh;
          t1 = t1 + drop_bit 32 rl;
          rl = rl AND 0xffffffff;
          t1 = t1 + t2;
          rh = (if t1 < t2 then rh + 0x100000000 else rh);
          rl = rl OR push_bit 32 t1;
          rh = rh + drop_bit 32 t1
      in (rh, rl))"

text \<open>\<open>r += x; c += (r < x)\<close>, the carry step every row of \<open>ll_u256_mul\<close> is made of.\<close>

definition add_carry :: "u64 \<Rightarrow> u64 \<Rightarrow> u64 \<Rightarrow> u64 \<times> u64" where
  "add_carry r c x = (let r = r + x in (r, c + (if r < x then 1 else 0)))"

text \<open>One row: \<open>ad * b\<close> added to the running limbs \<open>(r1, r2, r3, r0)\<close>; the first row starts
  from nothing. Each row answers its own low limb and the four limbs carried on.\<close>

definition ll_row_first :: "u64 \<times> u64 \<times> u64 \<times> u64 \<Rightarrow> u64 \<Rightarrow> u64 \<times> u64 \<times> u64 \<times> u64 \<times> u64" where
  "ll_row_first a b = (case a of (a0, a1, a2, a3) \<Rightarrow>
     let (h, l) = LL_MUL64 a0 b; d = l;
         (t, r1) = LL_MUL64 a1 b; (r1, t) = add_carry r1 t h;
         (h, r2) = LL_MUL64 a2 b; (r2, h) = add_carry r2 h t;
         (r0, r3) = LL_MUL64 a3 b; (r3, r0) = add_carry r3 r0 h
     in (d, r1, r2, r3, r0))"

definition ll_row :: "u64 \<times> u64 \<times> u64 \<times> u64 \<Rightarrow> u64 \<Rightarrow> u64 \<times> u64 \<times> u64 \<times> u64
    \<Rightarrow> u64 \<times> u64 \<times> u64 \<times> u64 \<times> u64" where
  "ll_row a b r = (case a of (a0, a1, a2, a3) \<Rightarrow> case r of (r1, r2, r3, r0) \<Rightarrow>
     let (h, l) = LL_MUL64 a0 b; (r1, h) = add_carry r1 h l; d = r1;
         (t, l) = LL_MUL64 a1 b; (r2, t) = add_carry r2 t h; (r2, t) = add_carry r2 t l;
         (h, l) = LL_MUL64 a2 b; (r3, h) = add_carry r3 h t; (r3, h) = add_carry r3 h l;
         (r1, l) = LL_MUL64 a3 b; (r0, r1) = add_carry r0 r1 h; (r0, r1) = add_carry r0 r1 l
     in (d, r2, r3, r0, r1))"

definition ll_u256_mul :: "u64 \<times> u64 \<times> u64 \<times> u64 \<Rightarrow> u64 \<times> u64 \<times> u64 \<times> u64 \<Rightarrow> u64 list" where
  "ll_u256_mul a b = (case b of (b0, b1, b2, b3) \<Rightarrow>
     let (d0, s0) = ll_row_first a b0;
         (d1, s1) = ll_row a b1 s0;
         (d2, s2) = ll_row a b2 s1;
         (d3, r4, r5, r6, r7) = ll_row a b3 s2
     in [d0, d1, d2, d3, r4, r5, r6, r7])"

text \<open>\<open>fp256_set_limbs\<close> copies up to four limbs and counts the ones in use.\<close>

record fp256 =
  limbs :: "u64 list"
  nlimbs :: nat

fun LL_NUM_LIMBS :: "u64 list \<Rightarrow> nat \<Rightarrow> nat" where
  "LL_NUM_LIMBS a 0 = 0"
| "LL_NUM_LIMBS a (Suc n) = (if a ! n > 0 then 1 + n else LL_NUM_LIMBS a n)"

definition fp256_num_limbs :: "u64 list \<Rightarrow> nat" where
  "fp256_num_limbs d = LL_NUM_LIMBS d 4"

definition fp256_set_limbs :: "u64 list \<Rightarrow> nat \<Rightarrow> fp256 option" where
  "fp256_set_limbs xs l =
     (if l > 4 then None
      else let d = take l xs @ replicate (4 - l) 0 in Some \<lparr>limbs = d, nlimbs = fp256_num_limbs d\<rparr>)"

definition fp256_mul :: "u64 \<times> u64 \<times> u64 \<times> u64 \<Rightarrow> u64 \<times> u64 \<times> u64 \<times> u64 \<Rightarrow> (fp256 \<times> fp256) option" where
  "fp256_mul a b =
     (let rd = ll_u256_mul a b in
      case fp256_set_limbs rd 4 of None \<Rightarrow> None
      | Some rlo \<Rightarrow> (case fp256_set_limbs (drop 4 rd) 4 of None \<Rightarrow> None
        | Some rhi \<Rightarrow> Some (rhi, rlo)))"

text \<open>The \<open>r128Mul_precise\<close> of a compiler without \<open>__uint128_t\<close>. The result code of
  \<open>fp256_mul\<close> is not looked at there; on this call it is always the success one.\<close>

definition r128Mul_precise_fp256 :: "R128 \<Rightarrow> R128 \<Rightarrow> R128" where
  "r128Mul_precise_fp256 a b =
     (case fp256_mul (r_lo a, r_hi a, 0, 0) (r_lo b, r_hi b, 0, 0) of
        None \<Rightarrow> R128_zero
      | Some (rhi, rlo) \<Rightarrow> \<lparr>r_lo = limbs rlo ! 1, r_hi = limbs rlo ! 2\<rparr>)"

section \<open>The multiplications compute the truncated product\<close>

lemma nat_two_limbs_mod:
  fixes B q r :: nat
  shows "0 < B \<Longrightarrow> (q * B + r) mod (B * B) = ((q + r div B) mod B) * B + r mod B"
  by (simp add: mod_mult2_eq)

lemma mult_le_64: "unat (a :: u64) * unat (b :: u64) \<le> 340282366920938463426481119284349108225"
proof -
  have "unat a * unat b \<le> 18446744073709551615 * 18446744073709551615"
    using unat_lt_64 [of a] unat_lt_64 [of b] by (intro mult_le_mono) simp_all
  then show ?thesis by simp
qed

lemma mult_mod_128 [simp]:
  "unat (a :: u64) * unat (b :: u64) mod 340282366920938463463374607431768211456 = unat a * unat b"
  using mult_le_64 [of a b] by simp

lemma r128Mul_precise_nat:
  "r128_nat (r128Mul_precise a b) = r128_nat a * r128_nat b div 2 ^ 64 mod 2 ^ 128"
proof -
  let ?B = "18446744073709551616 :: nat"
  define X where "X = unat (r_lo a) * unat (r_lo b)"
  define p1 where "p1 = unat (r_hi a) * unat (r_lo b)"
  define p2 where "p2 = unat (r_lo a) * unat (r_hi b)"
  define H where "H = unat (r_hi a) * unat (r_hi b)"
  define low where "low = X div ?B + p1 mod ?B + p2 mod ?B"
  have "X div ?B \<le> ?B" using mult_le_64 [of "r_lo a" "r_lo b"] by (simp add: X_def)
  then have "low < 340282366920938463463374607431768211456"
    unfolding low_def
    using mod_less_divisor [of ?B p1] mod_less_divisor [of ?B p2] by linarith
  then have l: "low mod 340282366920938463463374607431768211456 = low" by simp
  have r: "r128_nat (r128Mul_precise a b) =
      ((p1 div ?B + p2 div ?B + H + low div ?B) mod ?B) * ?B + low mod ?B"
    using l by (simp add: r128Mul_precise_def r128_nat_def Let_def
        unat_word_ariths unat_ucast_mod unat_drop_bit_div X_def p1_def p2_def H_def low_def
        mod_mod_cancel mod_simps)
  have "r128_nat a * r128_nat b = (H * ?B + p1 + p2) * ?B + X"
    by (simp add: r128_nat_def X_def p1_def p2_def H_def algebra_simps)
  then have "r128_nat a * r128_nat b div 2 ^ 64 = H * ?B + p1 + p2 + X div ?B"
    by simp
  also have "\<dots> = (p1 div ?B + p2 div ?B + H) * ?B + low"
    unfolding low_def by (simp add: algebra_simps)
  finally show ?thesis
    unfolding r using nat_two_limbs_mod [of ?B "p1 div ?B + p2 div ?B + H" low] by simp
qed
lemma r128Mul_specialized_eq:
  assumes "r_hi b = 0"
  shows "r128Mul_specialized_factor a b = r128Mul_precise a b"
  using assms by (simp add: r128Mul_specialized_factor_def r128Mul_precise_def Let_def)


lemma and_mask32: "(a :: u64) AND 0xffffffff = take_bit 32 a"
  by (simp add: take_bit_eq_mask mask_eq_exp_minus_1)

lemma unat_and_mask32: "unat ((a :: u64) AND 0xffffffff) = unat a mod 4294967296"
  unfolding and_mask32 unat_take_bit_mod by simp

lemma or_push32:
  "unat (x :: u64) < 4294967296 \<Longrightarrow> unat (x OR push_bit 32 t) = unat x + unat t mod 4294967296 * 4294967296"
proof -
  assume x: "unat x < 4294967296"
  have xt: "x = take_bit 32 x"
    using x by (intro word_eq_unatI) (simp only: unat_take_bit_mod, simp)
  have "x OR push_bit 32 t = x + push_bit 32 t"
    by (subst xt, subst (2) xt, rule disjunctive_add [symmetric]) (auto simp: bit_simps)
  moreover have "unat (push_bit 32 t) = unat t mod 4294967296 * 4294967296"
    unfolding unat_push_bit_mod using mod_mult_mult2 [of "unat t" 4294967296 4294967296] by simp
  moreover have "unat t mod 4294967296 \<le> 4294967295"
    using mod_less_divisor [of 4294967296 "unat t"] by linarith
  ultimately show ?thesis using x by (simp add: unat_word_ariths)
qed

lemma LL_MUL64_correct:
  "LL_MUL64 a b = (rh, rl) \<Longrightarrow> unat rh * 2 ^ 64 + unat rl = unat a * unat b"
proof -
  assume eq: "LL_MUL64 a b = (rh, rl)"
  let ?W = "4294967296 :: nat"
  define ah al bh bl where d: "ah = unat a div ?W" "al = unat a mod ?W" "bh = unat b div ?W" "bl = unat b mod ?W"
  have lt: "ah \<le> ?W - 1" "al \<le> ?W - 1" "bh \<le> ?W - 1" "bl \<le> ?W - 1"
    using unat_lt_64 [of a] unat_lt_64 [of b] by (simp_all add: d div_less_iff_less_mult less_Suc_eq_le [symmetric])
  have m: "x * y \<le> 18446744065119617025" if "x \<le> ?W - 1" "y \<le> ?W - 1" for x y
    using mult_le_mono [OF that] by simp
  define t1 where "t1 = al * bh + al * bl div ?W"
  define t where "t = (t1 + ah * bl) mod 18446744073709551616"
  define c where "c = (if t < ah * bl then 1 else 0 :: nat)"
  have "al * bl div ?W \<le> ?W - 1" using m [of al bl] lt by simp
  then have t1: "t1 < 18446744073709551616" unfolding t1_def using m [of al bh] lt by simp
  have t2: "ah * bl < 18446744073709551616" using m [of ah bl] lt by simp
  have tc: "c * 18446744073709551616 + t = t1 + ah * bl"
    using t1 t2 unfolding c_def t_def
    using mod_if [of "t1 + ah * bl" "18446744073709551616"] mod_if [of "t1 + ah * bl - 18446744073709551616" "18446744073709551616"]
    by auto
  have rl: "unat rl = al * bl mod ?W + t mod ?W * ?W"
    using eq m [of al bl] m [of al bh] m [of ah bl] lt t1
    by (auto simp: LL_MUL64_def Let_def or_push32 unat_and_mask32 unat_word_ariths unat_drop_bit_div
        d [symmetric] t_def t1_def)
  have rh: "unat rh = (ah * bh + c * ?W + t div ?W) mod 18446744073709551616"
    using eq m [of al bl] m [of al bh] m [of ah bl] m [of ah bh] lt t1
    by (auto simp: LL_MUL64_def Let_def unat_and_mask32 unat_word_ariths unat_drop_bit_div
        d [symmetric] t_def t1_def c_def word_less_unat mod_simps add.assoc)
  have "unat a = ah * ?W + al" "unat b = bh * ?W + bl" by (simp_all add: d)
  then have ab: "unat a * unat b = ah * bh * (?W * ?W) + (al * bh + ah * bl) * ?W + al * bl"
    by (simp add: algebra_simps)
  have "(ah * bh + c * ?W + t div ?W) * 2 ^ 64 + unat rl = ah * bh * (?W * ?W)
      + (c * 18446744073709551616 + t) * ?W + al * bl mod ?W"
  proof -
    define q r where qr: "q = t div ?W" "r = t mod ?W"
    have "t = q * ?W + r" by (simp only: qr div_mult_mod_eq)
    then have "t * ?W = q * 2 ^ 64 + r * ?W" by (simp add: algebra_simps)
    then show ?thesis unfolding rl qr by (simp add: algebra_simps)
  qed
  also have "\<dots> = ah * bh * (?W * ?W) + (al * bh + ah * bl) * ?W + al * bl"
  proof -
    define q r where qr: "q = al * bl div ?W" "r = al * bl mod ?W"
    have "al * bl = q * ?W + r" by (simp only: qr div_mult_mod_eq)
    then show ?thesis unfolding tc t1_def qr [symmetric] by (simp add: algebra_simps)
  qed
  finally have tot: "(ah * bh + c * ?W + t div ?W) * 2 ^ 64 + unat rl = unat a * unat b"
    by (simp only: ab)
  have "ah * bh + c * ?W + t div ?W < 18446744073709551616"
    using tot mult_le_64 [of a b] by simp
  then show ?thesis using tot rh by simp
qed

lemma r128_nat_inj: "r128_nat a = r128_nat b \<longleftrightarrow> a = b"
proof
  assume eq: "r128_nat a = r128_nat b"
  have "unat (r_lo a) = r128_nat a mod 2 ^ 64" "unat (r_hi a) = r128_nat a div 2 ^ 64"
    "unat (r_lo b) = r128_nat b mod 2 ^ 64" "unat (r_hi b) = r128_nat b div 2 ^ 64"
    using unat_lt_64 [of "r_lo a"] unat_lt_64 [of "r_lo b"] by (simp_all add: r128_nat_def)
  then have "r_lo a = r_lo b" "r_hi a = r_hi b" using eq by (simp_all add: word_unat_eq_iff)
  then show "a = b" by simp
qed simp

lemma add_carry_val:
  assumes "add_carry r c x = (r', c')"
    and "unat c * 18446744073709551616 + unat r + unat x < 340282366920938463463374607431768211456"
  shows "unat c' * 18446744073709551616 + unat r' = unat c * 18446744073709551616 + unat r + unat x"
proof -
  let ?B = "18446744073709551616 :: nat"
  have r': "unat r' = (unat r + unat x) mod ?B"
    and c': "unat c' = (unat c + (if unat r' < unat x then 1 else 0)) mod ?B"
    using assms(1) unat_lt_64 [of c]
    by (auto simp: add_carry_def Let_def unat_word_ariths word_less_unat)
  show ?thesis
  proof (cases "unat r + unat x < ?B")
    case True
    then have "unat r' = unat r + unat x" using r' by simp
    then show ?thesis using c' unat_lt_64 [of c] by simp
  next
    case False
    then have r'': "unat r' = unat r + unat x - ?B"
      using r' unat_lt_64 [of r] unat_lt_64 [of x] by (simp add: le_mod_geq)
    then have "unat r' < unat x" using unat_lt_64 [of r] False by linarith
    moreover have "unat c + 1 < ?B" using assms(2) False by linarith
    ultimately have "unat c' = unat c + 1" using c' by simp
    then show ?thesis using r'' False by simp
  qed
qed

lemma mac1:
  assumes "LL_MUL64 a b = (h, l)" "add_carry r h l = (r', h')"
  shows "unat h' * 18446744073709551616 + unat r' = unat a * unat b + unat r"
  using add_carry_val [OF assms(2)] LL_MUL64_correct [OF assms(1)] mult_le_64 [of a b] unat_lt_64 [of r]
  by simp

lemma mac1':
  assumes "LL_MUL64 a b = (h, l)" "add_carry l h x = (r', h')"
  shows "unat h' * 18446744073709551616 + unat r' = unat a * unat b + unat x"
  using add_carry_val [OF assms(2)] LL_MUL64_correct [OF assms(1)] mult_le_64 [of a b] unat_lt_64 [of x]
  by simp

lemma mac2:
  assumes "LL_MUL64 a b = (t, l)" "add_carry r t x = (r', t')" "add_carry r' t' l = (r'', t'')"
  shows "unat t'' * 18446744073709551616 + unat r'' = unat a * unat b + unat r + unat x"
proof -
  have m: "unat t * 18446744073709551616 + unat l = unat a * unat b"
    using LL_MUL64_correct [OF assms(1)] by simp
  then have t: "unat t * 18446744073709551616 \<le> 340282366920938463426481119284349108225"
    using mult_le_64 [of a b] by linarith
  have "unat t' * 18446744073709551616 + unat r' = unat t * 18446744073709551616 + unat r + unat x"
    using add_carry_val [OF assms(2)] t unat_lt_64 [of r] unat_lt_64 [of x] by simp
  then show ?thesis
    using add_carry_val [OF assms(3)] m mult_le_64 [of a b] unat_lt_64 [of r] unat_lt_64 [of x] by simp
qed

definition limbs4 :: "u64 \<times> u64 \<times> u64 \<times> u64 \<Rightarrow> nat" where
  "limbs4 a = (case a of (a0, a1, a2, a3) \<Rightarrow>
     unat a0 + 2 ^ 64 * (unat a1 + 2 ^ 64 * (unat a2 + 2 ^ 64 * unat a3)))"

lemma ll_row_first_val:
  assumes "ll_row_first a b = (d, s)"
  shows "unat d + 2 ^ 64 * limbs4 s = limbs4 a * unat b"
proof -
  obtain a0 a1 a2 a3 where a: "a = (a0, a1, a2, a3)" by (cases a)
  obtain h0 l0 where 0: "LL_MUL64 a0 b = (h0, l0)" by fastforce
  obtain t1 l1 where 1: "LL_MUL64 a1 b = (t1, l1)" by fastforce
  obtain h2 l2 where 2: "LL_MUL64 a2 b = (h2, l2)" by fastforce
  obtain t3 l3 where 3: "LL_MUL64 a3 b = (t3, l3)" by fastforce
  obtain r1 t1' where c1: "add_carry l1 t1 h0 = (r1, t1')" by fastforce
  obtain r2 h2' where c2: "add_carry l2 h2 t1' = (r2, h2')" by fastforce
  obtain r3 r0 where c3: "add_carry l3 t3 h2' = (r3, r0)" by fastforce
  have "d = l0" "s = (r1, r2, r3, r0)"
    using assms by (simp_all add: ll_row_first_def a 0 1 2 3 c1 c2 c3)
  then show ?thesis
    using LL_MUL64_correct [OF 0] mac1' [OF 1 c1] mac1' [OF 2 c2] mac1' [OF 3 c3]
    by (simp add: limbs4_def a algebra_simps)
qed

lemma ll_row_val:
  assumes "ll_row a b r = (d, s)"
  shows "unat d + 2 ^ 64 * limbs4 s = limbs4 r + limbs4 a * unat b"
proof -
  obtain a0 a1 a2 a3 where a: "a = (a0, a1, a2, a3)" by (cases a)
  obtain r1 r2 r3 r0 where r: "r = (r1, r2, r3, r0)" by (cases r)
  obtain h0 l0 where 0: "LL_MUL64 a0 b = (h0, l0)" by fastforce
  obtain t1 l1 where 1: "LL_MUL64 a1 b = (t1, l1)" by fastforce
  obtain h2 l2 where 2: "LL_MUL64 a2 b = (h2, l2)" by fastforce
  obtain t3 l3 where 3: "LL_MUL64 a3 b = (t3, l3)" by fastforce
  obtain d0 h0' where c0: "add_carry r1 h0 l0 = (d0, h0')" by fastforce
  obtain x1 y1 where c1: "add_carry r2 t1 h0' = (x1, y1)" by fastforce
  obtain x1' y1' where c1': "add_carry x1 y1 l1 = (x1', y1')" by fastforce
  obtain x2 y2 where c2: "add_carry r3 h2 y1' = (x2, y2)" by fastforce
  obtain x2' y2' where c2': "add_carry x2 y2 l2 = (x2', y2')" by fastforce
  obtain x3 y3 where c3: "add_carry r0 t3 y2' = (x3, y3)" by fastforce
  obtain x3' y3' where c3': "add_carry x3 y3 l3 = (x3', y3')" by fastforce
  have "d = d0" "s = (x1', x2', x3', y3')"
    using assms by (simp_all add: ll_row_def a r 0 1 2 3 c0 c1 c1' c2 c2' c3 c3')
  then show ?thesis
    using mac1 [OF 0 c0] mac2 [OF 1 c1 c1'] mac2 [OF 2 c2 c2'] mac2 [OF 3 c3 c3']
    by (simp add: limbs4_def a r algebra_simps)
qed

fun limbs_val :: "u64 list \<Rightarrow> nat" where
  "limbs_val [] = 0"
| "limbs_val (x # xs) = unat x + 2 ^ 64 * limbs_val xs"

lemma ll_u256_mul_val: "limbs_val (ll_u256_mul a b) = limbs4 a * limbs4 b"
proof -
  obtain b0 b1 b2 b3 where b: "b = (b0, b1, b2, b3)" by (cases b)
  obtain d0 s0 where 0: "ll_row_first a b0 = (d0, s0)" by (meson surj_pair)
  obtain d1 s1 where 1: "ll_row a b1 s0 = (d1, s1)" by (meson surj_pair)
  obtain d2 s2 where 2: "ll_row a b2 s1 = (d2, s2)" by (meson surj_pair)
  obtain d3 r4 r5 r6 r7 where 3: "ll_row a b3 s2 = (d3, r4, r5, r6, r7)" by (cases "ll_row a b3 s2") auto
  show ?thesis
    using ll_row_first_val [OF 0] ll_row_val [OF 1] ll_row_val [OF 2] ll_row_val [OF 3]
    by (simp add: ll_u256_mul_def b 0 1 2 3 limbs4_def [of "(b0, _)"] limbs4_def [of "(r4, _)"] algebra_simps)
qed
lemma ll_u256_mul_length: "length (ll_u256_mul a b) = 8"
  by (auto simp: ll_u256_mul_def split: prod.splits)

lemma limbs_val_nth1_2:
  assumes "length xs = 8"
  shows "unat (xs ! 2) * 2 ^ 64 + unat (xs ! 1) = limbs_val xs div 2 ^ 64 mod 2 ^ 128"
proof -
  obtain x0 x1 x2 ys where xs: "xs = x0 # x1 # x2 # ys"
    using assms by (auto simp: numeral_eq_Suc length_Suc_conv)
  let ?r = "unat x1 + 18446744073709551616 * unat x2"
  have "limbs_val xs div 2 ^ 64 = ?r + 2 ^ 128 * limbs_val ys"
    using unat_lt_64 [of x0] by (simp add: xs)
  moreover have "?r < 2 ^ 128" using unat_lt_64 [of x1] unat_lt_64 [of x2] by simp
  ultimately show ?thesis by (simp add: xs)
qed

lemma r128Mul_precise_fp256_eq: "r128Mul_precise_fp256 a b = r128Mul_precise a b"
proof -
  let ?rd = "ll_u256_mul (r_lo a, r_hi a, 0, 0) (r_lo b, r_hi b, 0, 0)"
  let ?f = "r128Mul_precise_fp256 a b"
  have f: "r_lo ?f = ?rd ! 1" "r_hi ?f = ?rd ! 2"
    by (simp_all add: r128Mul_precise_fp256_def fp256_mul_def Let_def fp256_set_limbs_def ll_u256_mul_length)
  have "limbs_val ?rd = r128_nat a * r128_nat b"
    by (simp add: ll_u256_mul_val limbs4_def r128_nat_def algebra_simps)
  then have "r128_nat ?f = r128_nat a * r128_nat b div 2 ^ 64 mod 2 ^ 128"
    using limbs_val_nth1_2 [OF ll_u256_mul_length, of "(r_lo a, r_hi a, 0, 0)" "(r_lo b, r_hi b, 0, 0)"] f
    by (simp add: r128_nat_def)
  then show ?thesis
    by (intro iffD1 [OF r128_nat_inj]) (simp only: r128Mul_precise_nat)
qed

section \<open>Properties\<close>

text \<open>The product of two Q64.64 numbers computed with \<open>__uint128_t\<close> is the exact product shifted
  down by 64 bits and cut to 128 bits: the carries of the two cross products and of the low product
  are all accounted for.\<close>

lemma r128Mul_precise_exact:
  "r128_nat (r128Mul_precise a b) = r128_nat a * r128_nat b div 2 ^ 64 mod 2 ^ 128"
  by (rule r128Mul_precise_nat)

text \<open>The 256 bit multiplication of the fallback leaves all eight limbs of the exact 512 bit
  product.\<close>

lemma ll_u256_mul_exact: "limbs_val (ll_u256_mul a b) = limbs4 a * limbs4 b"
  by (rule ll_u256_mul_val)

text \<open>C6: A compiler without a 128 bit integer computes the same factor and the same amount: the
  multiplication on 64 bit limbs agrees with the one on \<open>__uint128_t\<close> for every pair of operands, and
  the shortened one of the factor chain agrees with both where the integer part of its second
  operand is zero.\<close>

theorem multiplications_agree:
  "r128Mul_precise_fp256 a b = r128Mul_precise a b
    \<and> (r_hi b = 0 \<longrightarrow> r128Mul_specialized_factor a b = r128Mul_precise_fp256 a b)"
  by (simp add: r128Mul_precise_fp256_eq r128Mul_specialized_eq)

theorem multiplications_agree_witness:
  "r128Mul_specialized_factor \<lparr>r_lo = 7, r_hi = 1\<rparr> \<lparr>r_lo = 18446743668527564940, r_hi = 0\<rparr>
    = r128Mul_precise_fp256 \<lparr>r_lo = 7, r_hi = 1\<rparr> \<lparr>r_lo = 18446743668527564940, r_hi = 0\<rparr>"
  using multiplications_agree by simp

end
