(* ===== verification/GRD_R128_Div.thy ===== *)
theory GRD_R128_Div
  imports GRD_Fixed128
begin

text \<open>
  The long division of \<open>third_party/r128/r128.h\<close> that \<open>unit.c\<close> reaches through
  \<open>r128Div\<close>: leading zeros, the 64 by 32 and 128 by 64 bit steps, normalisation, and the two
  digit estimates with their refinement loops. Every \<open>R128_ASSERT\<close> on values is a branch of
  the model.
\<close>

section \<open>Pieces\<close>

definition clz_step :: "nat \<Rightarrow> nat \<times> u64 \<Rightarrow> nat \<times> u64" where
  "clz_step k s = (case s of (n, x) \<Rightarrow>
     let y = drop_bit k x in if y \<noteq> 0 then (n - k, y) else (n, x))"

definition r128__clz64 :: "u64 \<Rightarrow> nat" where
  "r128__clz64 x =
     (let (n, x) = fold clz_step [32, 16, 8, 4, 2, 1] (64, x) in n - unat x)"

definition r128__umul64 :: "u32 \<Rightarrow> u32 \<Rightarrow> u64" where
  "r128__umul64 a b = ucast a * ucast b"

text \<open>Quotient and remainder of \<open>(nhi, nlo)\<close> by \<open>d\<close>, each cut to 32 bits.\<close>

definition r128__udiv64 :: "u32 \<Rightarrow> u32 \<Rightarrow> u32 \<Rightarrow> u32 \<times> u32" where
  "r128__udiv64 nlo nhi d =
     (let n64 = push_bit 32 (ucast nhi :: u64) OR ucast nlo
      in (ucast (n64 div ucast d), ucast (n64 mod ucast d)))"

definition r128__umul128 :: "u64 \<Rightarrow> u64 \<Rightarrow> R128" where
  "r128__umul128 a b =
     (let alo = (ucast a :: u32); ahi = (ucast (drop_bit 32 a) :: u32);
          blo = (ucast b :: u32); bhi = (ucast (drop_bit 32 b) :: u32);
          p0 = r128__umul64 alo blo; p1 = r128__umul64 alo bhi;
          p2 = r128__umul64 ahi blo; p3 = r128__umul64 ahi bhi;
          carry = drop_bit 32 (ucast (ucast p1 :: u32) + ucast (ucast p2 :: u32) + drop_bit 32 p0);
          l = p0 + push_bit 32 (p1 + p2);
          h = p3 + ucast ((ucast (drop_bit 32 p1) :: u32) + ucast (drop_bit 32 p2)) + carry
      in \<lparr>r_lo = l, r_hi = h\<rparr>)"

definition r128__ucmp :: "R128 \<Rightarrow> R128 \<Rightarrow> int" where
  "r128__ucmp a b =
     (if r_hi a \<noteq> r_hi b then (if r_hi a > r_hi b then 1 else -1)
      else if r_lo a = r_lo b then 0 else if r_lo a > r_lo b then 1 else -1)"

section \<open>The refinement loops\<close>

text \<open>\<open>refine1\<close> and \<open>refine0\<close> of \<open>r128__udiv128\<close>: lower the estimated digit while its product
  with the low half of the divisor is above what is left.\<close>

function refine32 :: "u32 \<Rightarrow> u32 \<Rightarrow> u32 \<Rightarrow> u32 \<Rightarrow> u32 \<Rightarrow> u32" where
  "refine32 d1 d0 n q r =
     (if r128__umul64 q d0 > push_bit 32 (ucast r) + ucast n then
        (if r < NOT d1 + 1 then refine32 d1 d0 n (q - 1) (r + d1) else q - 1)
      else q)"
  by pat_completeness auto
termination
proof (relation "measure (\<lambda>(d1, d0, n, q, r). 4294967296 - unat r)", goal_cases)
  case (2 d1 d0 n q r)
  then have lt: "unat r < unat (- d1)" by (simp add: word_less_unat not_eq_complement)
  then have "d1 \<noteq> 0" by auto
  then have "unat (- d1) = 4294967296 - unat d1"
    by (simp add: unat_minus_word)
  then have "unat (r + d1) = unat r + unat d1" using lt by (simp add: unat_word_ariths)
  moreover have "unat d1 > 0" using \<open>d1 \<noteq> 0\<close> by (simp add: unat_gt_0)
  ultimately show ?case using unat_lt_32 [of r] by simp
qed simp

declare refine32.simps [simp del]

text \<open>The same loops of \<open>r128__udiv\<close>, one digit of 64 bits at a time.\<close>

function refine64 :: "u64 \<Rightarrow> u64 \<Rightarrow> u64 \<Rightarrow> u64 \<Rightarrow> u64 \<Rightarrow> u64" where
  "refine64 d1 d0 t0lo q t0hi =
     (if r128__ucmp (r128__umul128 q d0) \<lparr>r_lo = t0lo, r_hi = t0hi\<rparr> > 0 then
        (if t0hi < NOT d1 + 1 then refine64 d1 d0 t0lo (q - 1) (t0hi + d1) else q - 1)
      else q)"
  by pat_completeness auto
termination
proof (relation "measure (\<lambda>(d1, d0, n, q, r). 18446744073709551616 - unat r)", goal_cases)
  case (2 d1 d0 n q r)
  then have lt: "unat r < unat (- d1)" by (simp add: word_less_unat not_eq_complement)
  then have "d1 \<noteq> 0" by auto
  then have "unat (- d1) = 18446744073709551616 - unat d1"
    by (simp add: unat_minus_word)
  then have "unat (r + d1) = unat r + unat d1" using lt by (simp add: unat_word_ariths)
  moreover have "unat d1 > 0" using \<open>d1 \<noteq> 0\<close> by (simp add: unat_gt_0)
  ultimately show ?case using unat_lt_64 [of r] by simp
qed simp

declare refine64.simps [simp del]

section \<open>128 by 64 bits\<close>

text \<open>One digit of \<open>r128__udiv128\<close>: the estimate from the top halves, then the refinement. The
  assertion is the one in front of the estimate.\<close>

definition digit32 :: "u32 \<Rightarrow> u32 \<Rightarrow> u32 \<Rightarrow> u32 \<Rightarrow> u32 \<Rightarrow> c_fault + u32" where
  "digit32 d1 d0 n2 n1 n0 =
     (if \<not> n2 \<le> d1 then Inl AssertFailed
      else let (q, r) = (if n2 < d1 then r128__udiv64 n1 n2 d1 else (0xffffffff, n1 + d1))
           in Inr (refine32 d1 d0 n0 q r))"

definition rest32 :: "u32 \<Rightarrow> u32 \<Rightarrow> u32 \<Rightarrow> u32 \<Rightarrow> u32 \<Rightarrow> u64" where
  "rest32 d1 d0 q n1 n0 =
     push_bit 32 (ucast n1) + ucast n0 - (r128__umul64 q d0 + push_bit 32 (r128__umul64 q d1))"

definition r128__udiv128 :: "u64 \<Rightarrow> u64 \<Rightarrow> u64 \<Rightarrow> c_fault + (u64 \<times> u64)" where
  "r128__udiv128 nlo nhi d =
     (if d = 0 then Inl AssertFailed
      else if \<not> nhi < d then Inl AssertFailed
      else
        let shift = r128__clz64 d;
            n = (if shift \<noteq> 0 then r128Shl \<lparr>r_lo = nlo, r_hi = nhi\<rparr> shift
                 else \<lparr>r_lo = nlo, r_hi = nhi\<rparr>);
            d = push_bit shift d;
            n3 = ucast (drop_bit 32 (r_hi n)); n2 = ucast (r_hi n);
            n1 = ucast (drop_bit 32 (r_lo n)); n0 = ucast (r_lo n);
            d1 = ucast (drop_bit 32 d); d0 = ucast d
        in fbind (digit32 d1 d0 n3 n2 n1) (\<lambda>q1.
           let tmp = rest32 d1 d0 q1 n2 n1; n2 = ucast (drop_bit 32 tmp); n1 = ucast tmp
           in fbind (digit32 d1 d0 n2 n1 n0) (\<lambda>q0.
              let tmp = rest32 d1 d0 q0 n1 n0
              in Inr (push_bit 32 (ucast q1) + ucast q0, drop_bit shift tmp))))"

section \<open>Normalisation and the 128 by 128 bit quotient\<close>

text \<open>\<open>None\<close> is the overflow answer of \<open>r128__norm\<close>; otherwise \<open>(n2, n1, n0, d1, d0)\<close>.\<close>

definition r128__norm :: "R128 \<Rightarrow> R128 \<Rightarrow> (u64 \<times> u64 \<times> u64 \<times> u64 \<times> u64) option" where
  "r128__norm n d =
     (let d1 = r_hi d; d0 = r_lo d; n1 = r_hi n; n0 = r_lo n in
      if d1 \<noteq> 0 then
        let shift = r128__clz64 d1 in
        if shift \<noteq> 0 then
          Some (drop_bit (64 - shift) n1,
                push_bit shift n1 OR drop_bit (64 - shift) n0, push_bit shift n0,
                push_bit shift d1 OR drop_bit (64 - shift) d0, push_bit shift d0)
        else Some (0, n1, n0, d1, d0)
      else
        let shift = r128__clz64 d0 in
        if r128__clz64 n1 \<le> shift then None
        else if shift \<noteq> 0 then
          Some (push_bit shift n1 OR drop_bit (64 - shift) n0, push_bit shift n0, 0,
                push_bit shift d0, 0)
        else Some (n1, n0, 0, d0, 0))"

definition digit64 :: "u64 \<Rightarrow> u64 \<Rightarrow> u64 \<Rightarrow> u64 \<Rightarrow> u64 \<Rightarrow> c_fault + u64" where
  "digit64 d1 d0 n2 n1 n0 =
     (if \<not> n2 \<le> d1 then Inl AssertFailed
      else fbind (if n2 < d1 then r128__udiv128 n1 n2 d1 else Inr (0xffffffffffffffff, n1 + d1))
             (\<lambda>(q, r). Inr (refine64 d1 d0 n0 q r)))"

definition rest64 :: "u64 \<Rightarrow> u64 \<Rightarrow> u64 \<Rightarrow> u64 \<Rightarrow> u64 \<Rightarrow> R128" where
  "rest64 d1 d0 q n1 n0 =
     r128Sub \<lparr>r_lo = n0, r_hi = n1\<rparr>
       (r128Add (r128__umul128 q d0) \<lparr>r_lo = 0, r_hi = r_lo (r128__umul128 q d1)\<rparr>)"

definition r128__udiv :: "R128 \<Rightarrow> R128 \<Rightarrow> c_fault + R128" where
  "r128__udiv dividend divisor =
     (if r_hi divisor = 0 \<and> r_lo divisor = 0 then Inl AssertFailed
      else case r128__norm dividend divisor of
        None \<Rightarrow> Inr R128_max
      | Some (n3, n2, n1, d1, d0) \<Rightarrow>
          fbind (digit64 d1 d0 n3 n2 n1) (\<lambda>qhi.
            let tmp = rest64 d1 d0 qhi n2 n1
            in fbind (digit64 d1 d0 (r_hi tmp) (r_lo tmp) 0) (\<lambda>qlo.
               Inr \<lparr>r_lo = qlo, r_hi = qhi\<rparr>)))"

definition r128Div :: "R128 \<Rightarrow> R128 \<Rightarrow> c_fault + R128" where
  "r128Div a b =
     (let neg_a = r128IsNeg a;
          tn = (if neg_a then r128__neg a else a) in
      if r_lo b = 0 \<and> r_hi b = 0 then Inr (if neg_a then R128_min else R128_max)
      else
        let neg_b = r128IsNeg b; td = (if neg_b then r128__neg b else b)
        in fbind (r128__udiv tn td) (\<lambda>tq. Inr (if neg_a \<noteq> neg_b then r128__neg tq else tq)))"

end
