(* ===== verification/GRD_Decay.thy ===== *)
theory GRD_Decay
  imports GRD_R128_Div "HOL-Library.Signed_Division"
begin

text \<open>
  The decay of \<open>src/data/unit.c\<close>: half of a value is gone after a year. The tables are the
  source's own; \<open>grdd_unit_calculate_decay\<close> multiplies one table entry per set bit of the
  seconds left after the whole years, \<open>grdd_unit_calculate_decay_windowed\<close> one entry per
  window of five bits. Amounts and durations are the C \<open>int64_t\<close>, a 64 bit word read by
  \<open>sint\<close>; an \<open>assert\<close> that does not hold and a read past the table are faults.
\<close>

section \<open>Constants\<close>

definition SECONDS_PER_YEAR :: i64 where "SECONDS_PER_YEAR = 31556952"
definition DECAY_START_TIME :: i64 where "DECAY_START_TIME = 1620927991"

definition DECAY_POWERS :: "u64 list" where
  "DECAY_POWERS = [
    18446743668527564940, 18446743263345587163, 18446742452981658309, 18446740832253907398,
    18446737590798832767, 18446731107890392267, 18446718142080346313, 18446692210487594564,
    18446640347411451525, 18446536621696605848, 18446329172016664620, 18445914279655690837,
    18445084522928643346, 18443425121448271984, 18440106766335414243, 18433471847125226169,
    18420209169759874097, 18393712435208807257, 18340833254760868098, 18235530516106764452,
    18026735334708307356, 17616289656815978922, 16823221487369777986, 15342587292489394070,
    12760787697116905635, 8827449548832185865, 4224261215193812073, 967345930690427918,
    50727550937131514, 139498028150492, 1054912443, 0]"

definition DECAY_WINDOW_0 :: "u64 list" where
  "DECAY_WINDOW_0 = [
    0, 18446743668527564940, 18446743263345587163, 18446742858163618286,
    18446742452981658309, 18446742047799707232, 18446741642617765054, 18446741237435831776,
    18446740832253907398, 18446740427071991920, 18446740021890085341, 18446739616708187663,
    18446739211526298884, 18446738806344419006, 18446738401162548026, 18446737995980685947,
    18446737590798832767, 18446737185616988487, 18446736780435153107, 18446736375253326627,
    18446735970071509047, 18446735564889700367, 18446735159707900586, 18446734754526109705,
    18446734349344327723, 18446733944162554642, 18446733538980790460, 18446733133799035179,
    18446732728617288797, 18446732323435551316, 18446731918253822732, 18446731513072103050]"

definition DECAY_WINDOW_1 :: "u64 list" where
  "DECAY_WINDOW_1 = [
    0, 18446731107890392267, 18446718142080346313, 18446705176279413747,
    18446692210487594564, 18446679244704888756, 18446666278931296319, 18446653313166817243,
    18446640347411451525, 18446627381665199157, 18446614415928060133, 18446601450200034445,
    18446588484481122090, 18446575518771323058, 18446562553070637346, 18446549587379064944,
    18446536621696605848, 18446523656023260051, 18446510690359027547, 18446497724703908328,
    18446484759057902390, 18446471793421009725, 18446458827793230328, 18446445862174564189,
    18446432896565011306, 18446419930964571671, 18446406965373245277, 18446393999791032116,
    18446381034217932186, 18446368068653945477, 18446355103099071985, 18446342137553311701]"

definition DECAY_WINDOW_2 :: "u64 list" where
  "DECAY_WINDOW_2 = [
    0, 18446329172016664620, 18445914279655690837, 18445499396626420375,
    18445084522928643346, 18444669658562149868, 18444254803526730063, 18443839957822174058,
    18443425121448271984, 18443010294404813977, 18442595476691590178, 18442180668308390734,
    18441765869255005793, 18441351079531225511, 18440936299136840048, 18440521528071639569,
    18440106766335414243, 18439692013927954243, 18439277270849049749, 18438862537098490943,
    18438447812676068014, 18438033097581571155, 18437618391814790563, 18437203695375516440,
    18436789008263538994, 18436374330478648436, 18435959662020634982, 18435545002889288855,
    18435130353084400278, 18434715712605759483, 18434301081453156706, 18433886459626382186]"

definition DECAY_WINDOW_3 :: "u64 list" where
  "DECAY_WINDOW_3 = [
    0, 18433471847125226169, 18420209169759874097, 18406956034742938873,
    18393712435208807257, 18380478364296805743, 18367253815151197000, 18354038780921176327,
    18340833254760868098, 18327637229829322220, 18314450699290510586, 18301273656313323535,
    18288106094071566313, 18274948005743955540, 18261799384514115668, 18248660223570575459,
    18235530516106764452, 18222410255321009437, 18209299434416530932, 18196198046601439662,
    18183106085088733040, 18170023543096291654, 18156950413846875747, 18143886690568121716,
    18130832366492538593, 18117787434857504547, 18104751888905263377, 18091725721882921013,
    18078708927042442016, 18065701497640646084, 18052703426939204557, 18039714708204636929]"

definition DECAY_WINDOW_4 :: "u64 list" where
  "DECAY_WINDOW_4 = [
    0, 18026735334708307356, 17616289656815978922, 17215189301377912781,
    16823221487369777986, 16440178278518672654, 16065856472994338283, 15700057495611963861,
    15342587292489394070, 14993256228102857962, 14651878984686606850, 14318274463923093616,
    13992265690871540739, 13673679720083931792, 13362347543858621587, 13058104002582894116,
    12760787697116905635, 12470240903172533159, 12186309487641706924, 11908842826829839573,
    11637693726550975433, 11372718344042270932, 11113776111656382281, 10860729662291279777,
    10613444756517929730, 10371790211367185761, 10135637830738111368, 9904862337390815887,
    9679341306487726470, 9458955100648040196, 9243586806480903142, 9033122172563647674]"

definition DECAY_WINDOW_FACTORS :: "u64 list list" where
  "DECAY_WINDOW_FACTORS =
     [DECAY_WINDOW_0, DECAY_WINDOW_1, DECAY_WINDOW_2, DECAY_WINDOW_3, DECAY_WINDOW_4]"

definition DECAY_WINDOW_BITS :: nat where "DECAY_WINDOW_BITS = 5"
definition DECAY_WINDOWS :: nat where "DECAY_WINDOWS = 5"
definition DECAY_WINDOW_SIZE :: u64 where "DECAY_WINDOW_SIZE = push_bit DECAY_WINDOW_BITS 1"

section \<open>The factor, bit by bit\<close>

text \<open>The loop over the exponent: entry \<open>i\<close> of the table for bit \<open>i\<close>. The table has 32 entries
  and the exponent 64 bits, so the read has a bound to keep.\<close>

function decay_factor_loop :: "nat \<Rightarrow> u64 \<Rightarrow> R128 \<Rightarrow> c_fault + R128" where
  "decay_factor_loop i e factor =
     (if e > 0 then
        (if e AND 1 = 1 then
           (if i < length DECAY_POWERS then
              decay_factor_loop (Suc i) (drop_bit 1 e)
                (r128Mul_specialized_factor factor \<lparr>r_lo = DECAY_POWERS ! i, r_hi = 0\<rparr>)
            else Inl IndexOutOfBounds)
         else decay_factor_loop (Suc i) (drop_bit 1 e) factor)
      else Inr factor)"
  by pat_completeness auto
termination
proof (relation "measure (\<lambda>(i, e, f). unat e)", goal_cases)
  case (2 i e f)
  then have "unat e > 0" by (simp add: word_less_unat)
  then show ?case using unat_drop_bit_div [of 1 e] by simp
next
  case (3 i e f)
  then have "unat e > 0" by (simp add: word_less_unat)
  then show ?case using unat_drop_bit_div [of 1 e] by simp
qed simp

declare decay_factor_loop.simps [simp del]

text \<open>What follows the shift by whole years: the factor, its inverse for a growing value, the
  product, the rounding and the overflow test.\<close>

definition decay_remainder :: "i64 \<Rightarrow> i64 \<Rightarrow> i64 \<Rightarrow> c_fault + i64" where
  "decay_remainder gdd gdd_temp duration =
     (let negative = sint duration < 0;
          e = (if negative then - duration else duration)
      in fbind (decay_factor_loop 0 e R128_one) (\<lambda>factor.
         fbind (if negative then r128Div R128_one factor else Inr factor) (\<lambda>factor.
         let decayed = r128ToInt (r128Round (r128Mul_precise (r128FromInt gdd_temp) factor))
         in Inr (if negative \<and> sint gdd > 0 \<and> sint decayed < 0 then INT64_MAX else decayed))))"

definition grdd_unit_calculate_decay :: "i64 \<Rightarrow> i64 \<Rightarrow> c_fault + i64" where
  "grdd_unit_calculate_decay gdd duration =
     (if duration = 0 then Inr gdd
      else if sint gdd < 0 then Inl AssertFailed
      else if sint duration \<ge> sint SECONDS_PER_YEAR then
        let times = word_of_int (sint duration sdiv sint SECONDS_PER_YEAR) :: u64
        in if times > 63 then Inr 0
           else
             let duration = duration - times * SECONDS_PER_YEAR;
                 gdd_temp = signed_drop_bit (unat times) gdd
             in if duration = 0 then Inr gdd_temp else decay_remainder gdd gdd_temp duration
      else decay_remainder gdd gdd duration)"

section \<open>The factor, window by window\<close>

definition window_digit :: "u64 \<Rightarrow> nat \<Rightarrow> u64" where
  "window_digit remainder window =
     drop_bit (window * DECAY_WINDOW_BITS) remainder AND (DECAY_WINDOW_SIZE - 1)"

definition window_step :: "u64 \<Rightarrow> R128 \<Rightarrow> nat \<Rightarrow> R128" where
  "window_step remainder factor window =
     (let digit = window_digit remainder window in
      if digit = 0 then factor
      else r128Mul_specialized_factor factor
             \<lparr>r_lo = DECAY_WINDOW_FACTORS ! window ! unat digit, r_hi = 0\<rparr>)"

definition windowed_remainder :: "i64 \<Rightarrow> i64 \<Rightarrow> i64" where
  "windowed_remainder gdd_temp duration =
     (let factor = foldl (window_step duration) R128_one [0..<DECAY_WINDOWS]
      in r128ToInt (r128Round (r128Mul_precise (r128FromInt gdd_temp) factor)))"

definition grdd_unit_calculate_decay_windowed :: "i64 \<Rightarrow> i64 \<Rightarrow> c_fault + i64" where
  "grdd_unit_calculate_decay_windowed gdd duration =
     (if sint gdd < 0 then Inl AssertFailed
      else if sint duration < 0 then grdd_unit_calculate_decay gdd duration
      else if duration = 0 then Inr gdd
      else if sint duration \<ge> sint SECONDS_PER_YEAR then
        let times = word_of_int (sint duration sdiv sint SECONDS_PER_YEAR) :: u64
        in if times > 63 then Inr 0
           else Inr (windowed_remainder (signed_drop_bit (unat times) gdd)
                       (duration - times * SECONDS_PER_YEAR))
      else Inr (windowed_remainder gdd duration))"

section \<open>The factor as a chain of truncated products\<close>

definition q64_step :: "nat \<Rightarrow> nat \<Rightarrow> nat" where
  "q64_step F p = F * p div 2 ^ 64"

definition decay_power :: "nat \<Rightarrow> nat" where
  "decay_power i = unat (DECAY_POWERS ! i)"

fun set_bits_from :: "nat \<Rightarrow> nat \<Rightarrow> nat list" where
  "set_bits_from i e =
     (if e = 0 then [] else (if odd e then [i] else []) @ set_bits_from (Suc i) (e div 2))"

declare set_bits_from.simps [simp del]

definition decay_chain :: "nat \<Rightarrow> nat" where
  "decay_chain e = foldl q64_step (2 ^ 64) (map decay_power (filter (bit e) [0..<32]))"

lemma set_bits_from_filter:
  "e < 2 ^ n \<Longrightarrow> set_bits_from i e = map (\<lambda>j. j + i) (filter (bit e) [0..<n])"
proof (induction n arbitrary: i e)
  case 0
  then show ?case by (simp add: set_bits_from.simps)
next
  case (Suc n)
  have upt: "[0..<Suc n] = 0 # map Suc [0..<n]" by (simp add: upt_conv_Cons map_Suc_upt del: upt_Suc)
  have IH: "set_bits_from (Suc i) (e div 2) = map (\<lambda>j. j + Suc i) (filter (bit (e div 2)) [0..<n])"
    using Suc by simp
  show ?case
  proof (cases "e = 0")
    case True
    then show ?thesis by (simp add: set_bits_from.simps)
  next
    case False
    then show ?thesis
      by (simp add: set_bits_from.simps [of i e] IH upt bit_Suc filter_map comp_def bit_0 del: upt_Suc)
  qed
qed

lemma q64_step_le: "p \<le> 2 ^ 64 \<Longrightarrow> q64_step F p \<le> F"
proof -
  assume "p \<le> 2 ^ 64"
  then have "F * p \<le> F * 2 ^ 64" by (rule mult_le_mono2)
  then have "F * p div 2 ^ 64 \<le> F * 2 ^ 64 div 2 ^ 64" by (rule div_le_mono)
  then show ?thesis by (simp add: q64_step_def)
qed

lemma q64_chain_le: "\<forall>p \<in> set ps. p \<le> 2 ^ 64 \<Longrightarrow> foldl q64_step F ps \<le> F"
proof (induction ps arbitrary: F)
  case (Cons p ps)
  have "foldl q64_step (q64_step F p) ps \<le> q64_step F p" using Cons by simp
  also have "\<dots> \<le> F" using Cons.prems by (simp add: q64_step_le)
  finally show ?case by simp
qed simp

lemma decay_power_le: "decay_power i \<le> 2 ^ 64"
  using unat_lt_64 [of "DECAY_POWERS ! i"] by (simp add: decay_power_def)

lemma decay_chain_le: "decay_chain e \<le> 2 ^ 64"
  unfolding decay_chain_def using decay_power_le by (intro q64_chain_le) auto

lemma r128Mul_factor_nat:
  assumes "r128_nat a \<le> 2 ^ 64"
  shows "r128_nat (r128Mul_specialized_factor a \<lparr>r_lo = p, r_hi = 0\<rparr>) = q64_step (r128_nat a) (unat p)"
proof -
  have "r128_nat a * unat p div 2 ^ 64 \<le> 2 ^ 64"
    using q64_step_le [of "unat p" "r128_nat a"] unat_lt_64 [of p] assms
    by (simp add: q64_step_def)
  then have "r128_nat a * unat p div 2 ^ 64 < 2 ^ 128" by simp
  then show ?thesis
    by (simp add: r128Mul_specialized_eq r128Mul_precise_nat q64_step_def r128_nat_def [of "\<lparr>r_lo = p, r_hi = 0\<rparr>"])
qed

lemma unat_and_1: "((e :: u64) AND 1 = 1) = odd (unat e)"
  by (simp add: and_one_eq odd_iff_mod_2_eq_one word_unat_eq_iff unat_mod)

lemma decay_factor_loop_nat:
  assumes "unat e < 2 ^ (32 - i)" "i \<le> 32" "r128_nat f \<le> 2 ^ 64"
  shows "\<exists>f'. decay_factor_loop i e f = Inr f'
     \<and> r128_nat f' = foldl q64_step (r128_nat f) (map decay_power (set_bits_from i (unat e)))"
  using assms
proof (induction i e f rule: decay_factor_loop.induct)
  case (1 i e f)
  show ?case
  proof (cases "e = 0")
    case True
    then show ?thesis by (simp add: decay_factor_loop.simps set_bits_from.simps)
  next
    case False
    then have pos: "e > 0" "unat e \<noteq> 0" by (simp_all add: word_less_unat word_unat_eq_iff)
    have i: "i < 32"
    proof (rule ccontr)
      assume "\<not> i < 32"
      then show False using 1(3,4) pos by simp
    qed
    then have "(2::nat) ^ (32 - i) = 2 * 2 ^ (32 - Suc i)"
      by (metis Suc_diff_Suc power_Suc)
    then have lt: "unat (drop_bit 1 e) < 2 ^ (32 - Suc i)"
      using 1(3) by (simp add: unat_drop_bit_div)
    have half: "unat (drop_bit (Suc 0) e) = unat e div 2" by (simp add: unat_drop_bit_div)
    have len: "i < length DECAY_POWERS" using i by (simp add: DECAY_POWERS_def)
    show ?thesis
    proof (cases "odd (unat e)")
      case True
      let ?f = "r128Mul_specialized_factor f \<lparr>r_lo = DECAY_POWERS ! i, r_hi = 0\<rparr>"
      have f: "r128_nat ?f = q64_step (r128_nat f) (decay_power i)"
        using 1(5) by (simp add: r128Mul_factor_nat decay_power_def)
      then have "r128_nat ?f \<le> 2 ^ 64"
        using q64_step_le [OF decay_power_le, of "r128_nat f" i] 1(5) by simp
      then show ?thesis
        using 1(1) [OF pos(1)] True len lt i f pos
        by (simp add: decay_factor_loop.simps [of i e f] set_bits_from.simps [of i "unat e"] unat_and_1 half)
    next
      case False
      then show ?thesis
        using 1(2) [OF pos(1)] lt i 1(5) pos
        by (simp add: decay_factor_loop.simps [of i e f] set_bits_from.simps [of i "unat e"] unat_and_1 half)
    qed
  qed
qed

lemma r128_one_nat: "r128_nat R128_one = 2 ^ 64"
  by (simp add: R128_one_def r128_nat_def)

lemma decay_factor_chain:
  assumes "unat e < 2 ^ 32"
  shows "\<exists>f. decay_factor_loop 0 e R128_one = Inr f \<and> r128_nat f = decay_chain (unat e)"
  using decay_factor_loop_nat [of e 0 R128_one] assms
  by (simp add: r128_one_nat decay_chain_def set_bits_from_filter [OF assms])

section \<open>Product and rounding\<close>

definition q64_round_mul :: "nat \<Rightarrow> nat \<Rightarrow> nat" where
  "q64_round_mul g F = (g * F + 2 ^ 63) div 2 ^ 64"

lemma q64_round_mul_le: "F \<le> 2 ^ 64 \<Longrightarrow> q64_round_mul g F \<le> g"
proof -
  assume "F \<le> 2 ^ 64"
  then have "g * F \<le> g * 2 ^ 64" by (rule mult_le_mono2)
  then have "g * F + 2 ^ 63 < (g + 1) * 2 ^ 64" 
    unfolding add_mult_distrib mult_1 by (rule add_le_less_mono) simp
  then have "q64_round_mul g F < g + 1"
    unfolding q64_round_mul_def by (rule less_mult_imp_div_less)
  then show ?thesis by simp
qed


lemma round_up_half: "lo < 18446744073709551616 \<Longrightarrow>
    (hi * 18446744073709551616 + lo + 9223372036854775808) div 18446744073709551616
    = hi + (if 9223372036854775808 \<le> lo then 1 else (0::nat))"
  by (auto simp: div_nat_eqI)

lemma r128_round_to_int_nat:
  assumes "r128_nat m \<le> 9223372036854775807 * 2 ^ 64"
  shows "unat (r128ToInt (r128Round m)) = (r128_nat m + 2 ^ 63) div 2 ^ 64"
proof -
  let ?c = "if 9223372036854775808 \<le> unat (r_lo m) then 1 else 0"
  have hi: "unat (r_hi m) + ?c < 9223372036854775808"
    using assms unfolding r128_nat_def by simp
  have pos: "\<not> sint (r_hi m) < 0"
    using hi by (simp add: not_less sint_nonneg_iff)
  have "(r128_nat m + 2 ^ 63) div 2 ^ 64 = unat (r_hi m) + ?c"
    using round_up_half [OF unat_lt_64 [of "r_lo m"], of "unat (r_hi m)"]
    by (simp add: r128_nat_def)
  moreover have "unat (r_hi (r128Round m)) = unat (r_hi m) + ?c"
    using hi pos by (simp add: r128Round_def Let_def word_le_unat unat_word_ariths)
  moreover have "\<not> sint (r_hi (r128Round m)) < 0"
    using hi calculation by (simp add: not_less sint_nonneg_iff)
  ultimately show ?thesis by (simp add: r128ToInt_def)
qed

lemma round_product_nat:
  assumes "0 \<le> sint g" "r128_nat f \<le> 2 ^ 64"
  shows "unat (r128ToInt (r128Round (r128Mul_precise (r128FromInt g) f)))
    = q64_round_mul (unat g) (r128_nat f)"
proof -
  let ?m = "r128Mul_precise (r128FromInt g) f"
  have g: "unat g \<le> 9223372036854775807" using assms(1) by (simp add: sint_nonneg_iff)
  have gf: "unat g * r128_nat f \<le> 9223372036854775807 * 2 ^ 64"
    using mult_le_mono [OF g assms(2)] .
  have cancel: "a * 2 ^ 64 * b div 2 ^ 64 = a * (b :: nat)" for a b
    by (metis mult.assoc mult.commute nonzero_mult_div_cancel_left power_not_zero zero_neq_numeral)
  have "r128_nat ?m = unat g * 2 ^ 64 * r128_nat f div 2 ^ 64 mod 2 ^ 128"
    by (simp add: r128Mul_precise_nat r128FromInt_def r128_nat_def [of "\<lparr>r_lo = 0, r_hi = g\<rparr>"])
  also have "\<dots> = unat g * r128_nat f"
    unfolding cancel by (rule mod_less, rule le_less_trans [OF gf]) simp
  finally have m: "r128_nat ?m = unat g * r128_nat f" .
  then have "r128_nat ?m \<le> 9223372036854775807 * 2 ^ 64" using gf by (simp only:)
  then show ?thesis using r128_round_to_int_nat m by (simp only: q64_round_mul_def)
qed

section \<open>The bit chain\<close>

definition decay_spec :: "nat \<Rightarrow> nat \<Rightarrow> nat" where
  "decay_spec g t =
     (if t div 31556952 > 63 then 0
      else q64_round_mul (g div 2 ^ (t div 31556952)) (decay_chain (t mod 31556952)))"

lemma decay_chain_0: "decay_chain 0 = 2 ^ 64"
  by (simp add: decay_chain_def)

lemma q64_round_mul_one: "q64_round_mul g (2 ^ 64) = g"
  unfolding q64_round_mul_def by (rule div_nat_eqI) simp_all

lemma decay_remainder_nat:
  assumes "0 \<le> sint g" "unat d < 2 ^ 32"
  shows "\<exists>r. decay_remainder g0 g d = Inr r \<and> unat r = q64_round_mul (unat g) (decay_chain (unat d))"
proof -
  obtain f where f: "decay_factor_loop 0 d R128_one = Inr f" "r128_nat f = decay_chain (unat d)"
    using decay_factor_chain [OF assms(2)] by blast
  have nonneg: "\<not> sint d < 0" using assms(2) by (simp add: not_less sint_nonneg_iff)
  have "r128_nat f \<le> 2 ^ 64" using decay_chain_le f by simp
  from round_product_nat [OF assms(1) this] f nonneg show ?thesis
    by (simp add: decay_remainder_def)
qed

text \<open>Whole years and the rest.\<close>

lemma unat_word_of_nat_less: "n < 2 ^ 64 \<Longrightarrow> unat (word_of_nat n :: u64) = n"
  by (simp add: unat_of_nat)

lemma sdiv_int: "int a sdiv int b = int (a div b)"
  by (cases "b = 0") (auto simp: signed_divide_int_def zdiv_int sgn_if)

lemma whole_years:
  assumes "31556952 \<le> sint (d :: i64)"
  shows "unat (word_of_int (sint d sdiv sint SECONDS_PER_YEAR) :: u64) = unat d div 31556952"
proof -
  have d: "sint d = int (unat d)" using assms by (simp only: sint_nonneg_unat)
  have y: "sint SECONDS_PER_YEAR = int 31556952" by (simp add: SECONDS_PER_YEAR_def)
  have "sint d sdiv sint SECONDS_PER_YEAR = int (unat d div 31556952)"
    unfolding d y by (rule sdiv_int)
  moreover have "unat d div 31556952 < 2 ^ 64"
    using unat_lt_64 [of d] by simp
  ultimately show ?thesis by (simp only: of_int_of_nat_eq unat_word_of_nat_less)
qed

lemma rest_of_year:
  assumes "unat t = unat d div 31556952"
  shows "unat ((d :: i64) - t * SECONDS_PER_YEAR) = unat d mod 31556952"
proof -
  have m: "unat (t * SECONDS_PER_YEAR) = unat d div 31556952 * 31556952"
    using unat_lt_64 [of d] div_times_less_eq_dividend [of "unat d" 31556952] assms
    by (simp add: unat_word_ariths SECONDS_PER_YEAR_def)
  then have "t * SECONDS_PER_YEAR \<le> d" by (simp add: word_le_unat)
  then show ?thesis using m by (simp add: unat_sub minus_div_mult_eq_mod)
qed

lemma signed_drop_bit_nonneg:
  assumes "0 \<le> sint (g :: i64)"
  shows "unat (signed_drop_bit n g) = unat g div 2 ^ n" "0 \<le> sint (signed_drop_bit n g)"
proof -
  have "sint (signed_drop_bit n g) = int (unat g div 2 ^ n)"
    using assms by (simp add: sint_signed_drop_bit_eq sint_nonneg_unat drop_bit_eq_div zdiv_int)
  then show *: "0 \<le> sint (signed_drop_bit n g)"
    by (metis of_nat_0_le_iff)
  show "unat (signed_drop_bit n g) = unat g div 2 ^ n"
    using sint_nonneg_unat [OF *] \<open>sint (signed_drop_bit n g) = int (unat g div 2 ^ n)\<close> by (metis of_nat_eq_iff)
qed

lemma seconds_reach_year:
  assumes "0 \<le> sint (d :: i64)"
  shows "sint SECONDS_PER_YEAR \<le> sint d \<longleftrightarrow> 31556952 \<le> unat d"
proof -
  have "sint SECONDS_PER_YEAR = int 31556952" by (simp add: SECONDS_PER_YEAR_def)
  then show ?thesis using sint_nonneg_unat [OF assms] by (metis of_nat_le_iff)
qed

lemma calculate_decay_nat:
  assumes "0 \<le> sint g" "0 \<le> sint d"
  shows "\<exists>r. grdd_unit_calculate_decay g d = Inr r \<and> unat r = decay_spec (unat g) (unat d)"
proof -
  have "\<not> sint g < 0" using assms by simp
  note g = this
  consider "d = 0" | "d \<noteq> 0" "unat d < 31556952" | "d \<noteq> 0" "31556952 \<le> unat d" by linarith
  then show ?thesis
  proof cases
    case 1
    then show ?thesis
      by (simp add: grdd_unit_calculate_decay_def decay_spec_def decay_chain_0 q64_round_mul_one [simplified])
  next
    case 2
    then have "\<not> sint SECONDS_PER_YEAR \<le> sint d" using seconds_reach_year [OF assms(2)] by simp
    moreover have "unat d < 2 ^ 32" using 2 by simp
    ultimately show ?thesis
      using decay_remainder_nat [OF assms(1), of d g] 2 g
      by (simp add: grdd_unit_calculate_decay_def decay_spec_def)
  next
    case 3
    define t where "t = (word_of_int (sint d sdiv sint SECONDS_PER_YEAR) :: u64)"
    define r where "r = d - t * SECONDS_PER_YEAR"
    have y: "sint SECONDS_PER_YEAR \<le> sint d" using seconds_reach_year [OF assms(2)] 3 by simp
    then have t: "unat t = unat d div 31556952"
      unfolding t_def by (intro whole_years) (simp add: SECONDS_PER_YEAR_def)
    then have r: "unat r = unat d mod 31556952" unfolding r_def by (rule rest_of_year)
    have e: "grdd_unit_calculate_decay g d =
        (if 63 < t then Inr 0 else if r = 0 then Inr (signed_drop_bit (unat t) g)
         else decay_remainder g (signed_drop_bit (unat t) g) r)"
      using 3 g y by (simp add: grdd_unit_calculate_decay_def Let_def t_def r_def)
    have "unat r < 31556952" by (simp add: r)
    then have rl: "unat r < 2 ^ 32" by simp
    have r0: "r = 0 \<longleftrightarrow> unat d mod 31556952 = 0" by (metis r unat_eq_zero)
    show ?thesis
      using decay_remainder_nat [OF signed_drop_bit_nonneg(2) [OF assms(1)] rl, of g "unat t"]
      by (auto simp: e decay_spec_def word_less_unat t r r0 signed_drop_bit_nonneg(1) [OF assms(1)]
        decay_chain_0 q64_round_mul_one [simplified])
  qed
qed

section \<open>Properties of the decay\<close>

lemma decay_spec_le: "decay_spec g t \<le> g"
proof -
  have "q64_round_mul (g div 2 ^ (t div 31556952)) (decay_chain (t mod 31556952)) \<le> g div 2 ^ (t div 31556952)"
    by (rule q64_round_mul_le [OF decay_chain_le])
  also have "\<dots> \<le> g" by simp
  finally show ?thesis by (simp add: decay_spec_def)
qed

lemma q64_round_mul_mono: "g \<le> h \<Longrightarrow> q64_round_mul g F \<le> q64_round_mul h F"
  unfolding q64_round_mul_def by (intro div_le_mono add_le_mono mult_le_mono1 order_refl)

lemma decay_spec_mono: "g \<le> h \<Longrightarrow> decay_spec g t \<le> decay_spec h t"
  by (simp add: decay_spec_def q64_round_mul_mono div_le_mono)

lemma decay_spec_years: "y \<le> 63 \<Longrightarrow> decay_spec g (y * 31556952) = g div 2 ^ y"
  by (simp add: decay_spec_def decay_chain_0 q64_round_mul_one [simplified])

lemma decay_spec_split:
  assumes "t < 31556952" "y \<le> 63"
  shows "decay_spec (decay_spec g (y * 31556952)) t = decay_spec g (y * 31556952 + t)"
  unfolding decay_spec_years [OF assms(2)] using assms by (simp add: decay_spec_def)

text \<open>C1: For every balance and every duration that are not negative the decay ends without a fault,
  and the amount left is the one of the specification: nothing after 64 years, else the balance
  halved once per whole year, times the chain of the table entries at the set bits of the seconds
  left, each product truncated to 64 fractional bits, rounded half up at the end.\<close>

theorem calculate_decay_exact:
  assumes "0 \<le> sint gdd" "0 \<le> sint duration"
  shows "\<exists>r. grdd_unit_calculate_decay gdd duration = Inr r
    \<and> unat r = decay_spec (unat gdd) (unat duration)"
  using assms by (rule calculate_decay_nat)

theorem calculate_decay_exact_witness:
  "\<exists>r. grdd_unit_calculate_decay 1000000 31556953 = Inr r \<and> unat r = decay_spec 1000000 31556953"
  using calculate_decay_exact [of 1000000 31556953] by simp

lemma decay_result_nat:
  assumes "0 \<le> sint gdd" "0 \<le> sint duration" "grdd_unit_calculate_decay gdd duration = Inr r"
  shows "sint r = int (decay_spec (unat gdd) (unat duration))"
proof -
  have r: "unat r = decay_spec (unat gdd) (unat duration)"
    using calculate_decay_nat [OF assms(1,2)] assms(3) by auto
  then have "unat r \<le> unat gdd" using decay_spec_le by simp
  then have "0 \<le> sint r" using assms(1) by (simp add: sint_nonneg_iff)
  from sint_nonneg_unat [OF this] show ?thesis by (simp only: r)
qed

text \<open>Decay never makes a balance negative and never makes it larger.\<close>

lemma calculate_decay_bounds:
  assumes "0 \<le> sint gdd" "0 \<le> sint duration" "grdd_unit_calculate_decay gdd duration = Inr r"
  shows "0 \<le> sint r \<and> sint r \<le> sint gdd"
  using decay_result_nat [OF assms] sint_nonneg_unat [OF assms(1)] decay_spec_le [of "unat gdd" "unat duration"]
  by linarith



text \<open>C4: Whole years can be split off: decaying over \<open>y\<close> years and then over the seconds left
  within a year gives the amount of decaying over both at once.\<close>

theorem calculate_decay_split:
  assumes "0 \<le> sint gdd" "y \<le> 63" "t < 31556952"
    and "grdd_unit_calculate_decay gdd (word_of_nat (y * 31556952)) = Inr r"
  shows "grdd_unit_calculate_decay r (word_of_nat t) = grdd_unit_calculate_decay gdd (word_of_nat (y * 31556952 + t))"
proof -
  have y: "y * 31556952 \<le> 63 * 31556952" using assms(2) by (rule mult_le_mono1)
  have u: "unat (word_of_nat n :: i64) = n" "0 \<le> sint (word_of_nat n :: i64)" if "n \<le> 64 * 31556952" for n
  proof -
    show n: "unat (word_of_nat n :: i64) = n" using that by (simp add: unat_of_nat)
    show "0 \<le> sint (word_of_nat n :: i64)" unfolding sint_nonneg_iff n using that by simp
  qed
  have u1: "y * 31556952 \<le> 64 * 31556952" "t \<le> 64 * 31556952" "y * 31556952 + t \<le> 64 * 31556952"
    using y assms(3) by simp_all
  have r: "unat r = decay_spec (unat gdd) (y * 31556952)"
    using calculate_decay_nat [OF assms(1) u(2) [OF u1(1)]] assms(4) u(1) [OF u1(1)] by auto
  then have "unat r \<le> unat gdd" using decay_spec_le by simp
  then have p: "0 \<le> sint r" using assms(1) by (simp add: sint_nonneg_iff)
  obtain a where a: "grdd_unit_calculate_decay r (word_of_nat t) = Inr a" "unat a = decay_spec (unat r) t"
    using calculate_decay_nat [OF p u(2) [OF u1(2)]] by (auto simp only: u(1) [OF u1(2)])
  obtain b where b: "grdd_unit_calculate_decay gdd (word_of_nat (y * 31556952 + t)) = Inr b"
    "unat b = decay_spec (unat gdd) (y * 31556952 + t)"
    using calculate_decay_nat [OF assms(1) u(2) [OF u1(3)]] by (auto simp only: u(1) [OF u1(3)])
  have "a = b" using a(2) b(2) by (simp add: r decay_spec_split [OF assms(3,2)] word_unat_eq_iff)
  then show ?thesis using a(1) b(1) by (simp only:)
qed

theorem calculate_decay_split_witness:
  "grdd_unit_calculate_decay 250000 86400 = grdd_unit_calculate_decay 1000000 63200304"
proof -
  have "grdd_unit_calculate_decay 1000000 63113904 = Inr 250000"
    using calculate_decay_nat [of 1000000 63113904] decay_spec_years [of 2 1000000]
    by (auto simp: word_unat_eq_iff)
  then show ?thesis using calculate_decay_split [of 1000000 2 86400 250000] by simp
qed

end
