(* ===== verification/GRD_Decay_Tables.thy ===== *)
theory GRD_Decay_Tables
  imports GRD_Decay
begin

text \<open>
  The programs of \<open>helper/\<close> that print the tables of \<open>src/data/unit.c\<close>, and the proof that the
  tables in the source are what they print: \<open>DECAY_POWERS\<close> is the chain of squares of the factor of
  one second, and the entry \<open>[j][c]\<close> of \<open>DECAY_WINDOW_FACTORS\<close> is the factor of \<open>c * 2 ^ (5 * j)\<close>
  seconds as the bit chain has it.
\<close>

section \<open>\<open>helper/precalculate_decay_table.c\<close>\<close>

text \<open>Its multiplication takes the magnitudes of both operands and leaves the sign out of the
  result.\<close>

definition table_magnitude :: "R128 \<Rightarrow> R128" where
  "table_magnitude a = (if r128IsNeg a then r128__neg a else a)"

definition table_mul :: "R128 \<Rightarrow> R128 \<Rightarrow> R128" where
  "table_mul a b =
     (let ta = table_magnitude a; tb = table_magnitude b;
          p0 = (ucast (r_lo ta) :: u128) * ucast (r_lo tb);
          p1 = (ucast (r_hi ta) :: u128) * ucast (r_lo tb);
          p2 = (ucast (r_lo ta) :: u128) * ucast (r_hi tb);
          p3 = (ucast (r_hi ta) :: u128) * ucast (r_hi tb);
          low = drop_bit 64 p0 + ucast (ucast p1 :: u64) + ucast (ucast p2 :: u64);
          high = drop_bit 64 p1 + drop_bit 64 p2 + p3 + drop_bit 64 low
      in \<lparr>r_lo = ucast low, r_hi = ucast high\<rparr>)"

definition DECAY_FACTOR_PER_SECOND :: u64 where
  "DECAY_FACTOR_PER_SECOND = 18446743668527564940"

text \<open>The values the loop of \<open>main\<close> prints in \<open>n\<close> rounds, from \<open>base\<close> on.\<close>

fun table_rounds :: "nat \<Rightarrow> R128 \<Rightarrow> u64 list" where
  "table_rounds 0 base = []"
| "table_rounds (Suc n) base = r_lo base # table_rounds n (table_mul base base)"

definition precalculate_decay_table :: "u64 list" where
  "precalculate_decay_table = table_rounds 32 \<lparr>r_lo = DECAY_FACTOR_PER_SECOND, r_hi = 0\<rparr>"

section \<open>\<open>helper/precalculate_decay_windows.c\<close>\<close>

definition mul_high :: "u64 \<Rightarrow> u64 \<Rightarrow> u64" where
  "mul_high a b =
     (let a_lo = ucast (ucast a :: u32) :: u64; a_hi = drop_bit 32 a;
          b_lo = ucast (ucast b :: u32) :: u64; b_hi = drop_bit 32 b;
          lo_lo = a_lo * b_lo; hi_lo = a_hi * b_lo; lo_hi = a_lo * b_hi; hi_hi = a_hi * b_hi;
          cross = drop_bit 32 lo_lo + ucast (ucast hi_lo :: u32) + lo_hi
      in hi_hi + drop_bit 32 hi_lo + drop_bit 32 cross)"

text \<open>The state is the pair \<open>(*hi, *lo)\<close>.\<close>

definition mul_q64 :: "u64 \<times> u64 \<Rightarrow> u64 \<Rightarrow> u64 \<times> u64" where
  "mul_q64 s b = (case s of (hi, lo) \<Rightarrow> if hi = 1 \<and> lo = 0 then (0, b) else (0, mul_high lo b))"

definition helper_DECAY_POWERS :: "u64 list" where
  "helper_DECAY_POWERS = [
    18446743668527564940, 18446743263345587163, 18446742452981658309,
    18446740832253907398, 18446737590798832767, 18446731107890392267,
    18446718142080346313, 18446692210487594564, 18446640347411451525,
    18446536621696605848, 18446329172016664620, 18445914279655690837,
    18445084522928643346, 18443425121448271984, 18440106766335414243,
    18433471847125226169, 18420209169759874097, 18393712435208807257,
    18340833254760868098, 18235530516106764452, 18026735334708307356,
    17616289656815978922, 16823221487369777986, 15342587292489394070,
    12760787697116905635]"

definition window_entry :: "nat \<Rightarrow> nat \<Rightarrow> u64" where
  "window_entry j c =
     snd (foldl (\<lambda>s i. if c div 2 ^ i mod 2 = 1 then mul_q64 s (helper_DECAY_POWERS ! (i + j * 5)) else s)
            (1, 0) [0..<5])"

definition precalculate_decay_windows :: "u64 list list" where
  "precalculate_decay_windows = map (\<lambda>j. 0 # map (window_entry j) [1..<32]) [0..<5]"

section \<open>The chain of squares\<close>

lemma decay_power_values:
  "decay_power 0 = 18446743668527564940"
  "decay_power (Suc 0) = 18446743263345587163"
  "decay_power 2 = 18446742452981658309"
  "decay_power 3 = 18446740832253907398"
  "decay_power 4 = 18446737590798832767"
  "decay_power 5 = 18446731107890392267"
  "decay_power 6 = 18446718142080346313"
  "decay_power 7 = 18446692210487594564"
  "decay_power 8 = 18446640347411451525"
  "decay_power 9 = 18446536621696605848"
  "decay_power 10 = 18446329172016664620"
  "decay_power 11 = 18445914279655690837"
  "decay_power 12 = 18445084522928643346"
  "decay_power 13 = 18443425121448271984"
  "decay_power 14 = 18440106766335414243"
  "decay_power 15 = 18433471847125226169"
  "decay_power 16 = 18420209169759874097"
  "decay_power 17 = 18393712435208807257"
  "decay_power 18 = 18340833254760868098"
  "decay_power 19 = 18235530516106764452"
  "decay_power 20 = 18026735334708307356"
  "decay_power 21 = 17616289656815978922"
  "decay_power 22 = 16823221487369777986"
  "decay_power 23 = 15342587292489394070"
  "decay_power 24 = 12760787697116905635"
  "decay_power 25 = 8827449548832185865"
  "decay_power 26 = 4224261215193812073"
  "decay_power 27 = 967345930690427918"
  "decay_power 28 = 50727550937131514"
  "decay_power 29 = 139498028150492"
  "decay_power 30 = 1054912443"
  "decay_power 31 = 0"
  by (simp_all add: decay_power_def DECAY_POWERS_def)

lemma q64_step_num: "q64_step (numeral a) (numeral b) = numeral a * numeral b div 18446744073709551616"
  by (simp add: q64_step_def)

lemma table_mul_nat:
  assumes "r_hi b = 0"
  shows "r_hi (table_mul b b) = 0"
    and "unat (r_lo (table_mul b b)) = q64_step (unat (r_lo b)) (unat (r_lo b))"
proof -
  have m: "table_mul b b = r128Mul_precise b b"
    using assms by (simp add: table_mul_def table_magnitude_def r128IsNeg_def r128Mul_precise_def Let_def)
  have b: "r128_nat b = unat (r_lo b)" using assms by (simp add: r128_nat_def)
  have le: "q64_step (unat (r_lo b)) (unat (r_lo b)) \<le> unat (r_lo b)"
    using unat_lt_64 [of "r_lo b"] by (intro q64_step_le) simp
  then have "r128_nat (table_mul b b) = q64_step (unat (r_lo b)) (unat (r_lo b))"
    using unat_lt_64 [of "r_lo b"] by (simp add: m r128Mul_precise_nat b q64_step_def)
  then have *: "unat (r_hi (table_mul b b)) * 18446744073709551616 + unat (r_lo (table_mul b b))
      = q64_step (unat (r_lo b)) (unat (r_lo b))"
    by (simp add: r128_nat_def)
  then have "unat (r_hi (table_mul b b)) = 0" using le unat_lt_64 [of "r_lo b"] by simp
  then show "r_hi (table_mul b b) = 0" "unat (r_lo (table_mul b b)) = q64_step (unat (r_lo b)) (unat (r_lo b))"
    using * by (simp_all add: word_unat_eq_iff)
qed

fun squares :: "nat \<Rightarrow> nat \<Rightarrow> nat list" where
  "squares 0 p = []"
| "squares (Suc n) p = p # squares n (q64_step p p)"

lemma table_rounds_nat: "r_hi b = 0 \<Longrightarrow> map unat (table_rounds n b) = squares n (unat (r_lo b))"
  by (induction n arbitrary: b) (simp_all add: table_mul_nat)

lemma squares_step: "squares n p = (if n = 0 then [] else p # squares (n - 1) (q64_step p p))"
  by (cases n) simp_all

lemma squares_32: "squares 32 18446743668527564940 = map unat DECAY_POWERS"
  by (simp add: squares_step [of _ "numeral _"] q64_step_num DECAY_POWERS_def)

lemma unat_map_inj: "map unat xs = map unat (ys :: u64 list) \<Longrightarrow> xs = ys"
  using inj_map_eq_map [of "unat :: u64 \<Rightarrow> nat"] by (simp add: inj_def word_unat_eq_iff)

section \<open>The high half\<close>

lemma schoolbook_split:
  fixes HH LH xq xr hq hr lq lr :: nat
  assumes "xr < 4294967296" "lr < 4294967296" "xq * 4294967296 + xr = lq + hr + LH"
  shows "(HH * 18446744073709551616 + ((hq * 4294967296 + hr) + LH) * 4294967296 + (lq * 4294967296 + lr))
     div 18446744073709551616 = HH + hq + xq"
  using assms by (intro div_nat_eqI) simp_all

lemma schoolbook_high:
  fixes HH HL LH LL :: nat
  defines "x \<equiv> LL div 4294967296 + HL mod 4294967296 + LH"
  shows "(HH * 18446744073709551616 + (HL + LH) * 4294967296 + LL) div 18446744073709551616
     = HH + HL div 4294967296 + x div 4294967296"
  using schoolbook_split [of "x mod 4294967296" "LL mod 4294967296" "x div 4294967296"
      "LL div 4294967296" "HL mod 4294967296" LH HH "HL div 4294967296"]
  by (simp only: div_mult_mod_eq x_def mod_less_divisor zero_less_numeral simp_thms True_implies_equals)

lemma mul_high_bounds:
  fixes HH HL LH LL :: nat
  assumes "HH \<le> 18446744065119617025" "HL \<le> 18446744065119617025" "LH \<le> 18446744065119617025"
    "LL \<le> 18446744065119617025"
  shows "LL div 4294967296 + HL mod 4294967296 < 18446744073709551616"
    and "LL div 4294967296 + HL mod 4294967296 + LH < 18446744073709551616"
    and "HH + HL div 4294967296 < 18446744073709551616"
    and "x < 18446744073709551616 \<Longrightarrow> HH + HL div 4294967296 + x div 4294967296 < 18446744073709551616"
proof -
  have "LL div 4294967296 \<le> 18446744065119617025 div 4294967296" using assms(4) by (rule div_le_mono)
  then have l: "LL div 4294967296 \<le> 4294967294" by simp
  have h: "HL mod 4294967296 \<le> 4294967295" using mod_less_divisor [of 4294967296 HL] by linarith
  have "HL div 4294967296 \<le> 18446744065119617025 div 4294967296" using assms(2) by (rule div_le_mono)
  then have hq: "HL div 4294967296 \<le> 4294967294" by simp
  show "LL div 4294967296 + HL mod 4294967296 < 18446744073709551616" using l h by linarith
  show "LL div 4294967296 + HL mod 4294967296 + LH < 18446744073709551616" using l h assms(3) by linarith
  show "HH + HL div 4294967296 < 18446744073709551616" using hq assms(1) by linarith
  assume "x < 18446744073709551616"
  then have "x div 4294967296 < 4294967296" by (simp add: less_mult_imp_div_less)
  then show "HH + HL div 4294967296 + x div 4294967296 < 18446744073709551616" using hq assms(1) by linarith
qed

lemma mul_high_nat: "unat (mul_high a b) = unat a * unat b div 2 ^ 64"
proof -
  define al ah bl bh :: u64 where "al = ucast (ucast a :: u32)" "ah = drop_bit 32 a"
    "bl = ucast (ucast b :: u32)" "bh = drop_bit 32 b"
  note d = this
  have v: "unat al = unat a mod 4294967296" "unat ah = unat a div 4294967296"
    "unat bl = unat b mod 4294967296" "unat bh = unat b div 4294967296"
    by (simp_all add: d unat_ucast_mod unat_drop_bit_div)
  then have lt: "unat al \<le> 4294967295" "unat ah \<le> 4294967295" "unat bl \<le> 4294967295" "unat bh \<le> 4294967295"
    using unat_lt_64 [of a] unat_lt_64 [of b] by (simp_all add: less_Suc_eq_le [symmetric] less_mult_imp_div_less)
  have m: "unat x * unat y \<le> 18446744065119617025" "unat (x * y) = unat x * unat y"
    if "unat x \<le> 4294967295" "unat y \<le> 4294967295" for x y :: u64
  proof -
    show "unat x * unat y \<le> 18446744065119617025" using mult_le_mono [OF that] by simp
    then show "unat (x * y) = unat x * unat y" by (intro unat_mult_small) linarith
  qed
  note ll = m [OF lt(1) lt(3)] and lh = m [OF lt(1) lt(4)] and hl = m [OF lt(2) lt(3)] and hh = m [OF lt(2) lt(4)]
  note bs = mul_high_bounds [OF hh(1) hl(1) lh(1) ll(1)]
  define x where "x = drop_bit 32 (al * bl) + ucast (ucast (ah * bl) :: u32) + al * bh"
  have x: "unat x = unat al * unat bl div 4294967296 + unat ah * unat bl mod 4294967296 + unat al * unat bh"
    unfolding x_def using bs by (simp add: unat_add_small ll(2) lh(2) hl(2) unat_drop_bit_div unat_ucast_mod)
  have e: "mul_high a b = ah * bh + drop_bit 32 (ah * bl) + drop_bit 32 x"
    by (simp add: mul_high_def Let_def d x_def)
  have "unat (mul_high a b) = unat ah * unat bh + unat ah * unat bl div 4294967296 + unat x div 4294967296"
    unfolding e using bs(3) bs(4) [OF unat_lt_64 [of x]]
    by (simp add: unat_add_small hh(2) hl(2) unat_drop_bit_div)
  also have "\<dots> = (unat ah * unat bh * 18446744073709551616
      + (unat ah * unat bl + unat al * unat bh) * 4294967296 + unat al * unat bl) div 18446744073709551616"
    unfolding x by (rule schoolbook_high [symmetric])
  also have "unat ah * unat bh * 18446744073709551616
      + (unat ah * unat bl + unat al * unat bh) * 4294967296 + unat al * unat bl
      = (unat ah * 4294967296 + unat al) * (unat bh * 4294967296 + unat bl)"
    by (simp add: algebra_simps)
  also have "\<dots> = unat a * unat b" by (simp only: v div_mult_mod_eq)
  finally show ?thesis by simp
qed

section \<open>The window table\<close>

definition q64_val :: "u64 \<times> u64 \<Rightarrow> nat" where
  "q64_val s = unat (fst s) * 2 ^ 64 + unat (snd s)"

lemma mul_q64_val:
  assumes "q64_val s \<le> 2 ^ 64"
  shows "q64_val (mul_q64 s b) = q64_step (q64_val s) (unat b)"
proof -
  obtain hi lo where s: "s = (hi, lo)" by (cases s)
  have "unat hi = 0 \<or> unat hi = 1 \<and> unat lo = 0" using assms by (simp add: q64_val_def s) linarith
  then show ?thesis
    by (auto simp: mul_q64_def s q64_val_def q64_step_def mul_high_nat word_unat_eq_iff)
qed

fun pick :: "nat \<Rightarrow> 'a list \<Rightarrow> 'a list" where
  "pick c [] = []"
| "pick c (p # ps) = (if odd c then [p] else []) @ pick (c div 2) ps"

lemma set_bits_pick: "c < 2 ^ n \<Longrightarrow> set_bits_from i c = pick c [i..<i + n]"
proof (induction n arbitrary: i c)
  case (Suc n)
  have "pick (c div 2) [Suc i..<Suc i + n] = set_bits_from (Suc i) (c div 2)"
    using Suc.prems by (intro Suc.IH [symmetric]) simp
  moreover have "[i..<i + Suc n] = i # [Suc i..<Suc i + n]" by (simp add: upt_conv_Cons)
  ultimately show ?case
    by (cases "c = 0") (simp_all add: set_bits_from.simps [of i c] set_bits_from.simps [of _ 0] del: upt_Suc)
qed (simp add: set_bits_from.simps)

lemma set_bits_double: "set_bits_from i (2 * e) = set_bits_from (Suc i) e"
  by (cases "e = 0") (simp_all add: set_bits_from.simps [of i "2 * e"] set_bits_from.simps [of _ 0])

lemma set_bits_shift: "set_bits_from i (c * 2 ^ k) = set_bits_from (i + k) c"
proof (induction k arbitrary: i)
  case (Suc k)
  have "set_bits_from i (c * 2 ^ Suc k) = set_bits_from (Suc i) (c * 2 ^ k)"
    using set_bits_double [of i "c * 2 ^ k"] by (simp add: mult.left_commute)
  then show ?case by (simp add: Suc)
qed simp

lemma pick_map: "pick c (map f xs) = map f (pick c xs)"
  by (induction xs arbitrary: c) simp_all

lemma decay_chain_pick:
  assumes "c < 32" "j < 5"
  shows "decay_chain (c * 2 ^ (5 * j)) = foldl q64_step (2 ^ 64) (pick c (map decay_power [5 * j..<5 * j + 5]))"
proof -
  have "c * 2 ^ (5 * j) < 2 ^ 5 * 2 ^ (5 * j)" using assms(1) by simp
  also have "\<dots> \<le> (2::nat) ^ 32"
    unfolding power_add [symmetric] using assms(2) by (intro power_increasing) simp_all
  finally have "c * 2 ^ (5 * j) < 2 ^ 32" .
  from set_bits_from_filter [OF this, of 0] set_bits_pick [of c 5 "5 * j"] assms(1)
  show ?thesis by (simp add: decay_chain_def set_bits_shift pick_map)
qed
lemma foldl_pick:
  "foldl (\<lambda>s i. if c div 2 ^ i mod 2 = 1 then g s (f i) else s) s [a..<a + n]
    = foldl g s (pick (c div 2 ^ a) (map f [a..<a + n]))" for c :: nat
proof (induction n arbitrary: a s)
  case (Suc n)
  have "[a..<a + Suc n] = a # [Suc a..<Suc a + n]" by (simp add: upt_conv_Cons)
  then show ?case
    using Suc.IH [of _ "Suc a"]
    by (simp add: odd_iff_mod_2_eq_one div_mult2_eq mult.commute [of 2] del: upt_Suc)
qed simp

lemma mul_q64_chain:
  "q64_val s \<le> 2 ^ 64 \<Longrightarrow> q64_val (foldl mul_q64 s ps) = foldl q64_step (q64_val s) (map unat ps)"
proof (induction ps arbitrary: s)
  case (Cons p ps)
  have "q64_step (q64_val s) (unat p) \<le> q64_val s"
    using unat_lt_64 [of p] by (intro q64_step_le) simp
  then have "q64_val (mul_q64 s p) \<le> 2 ^ 64"
    unfolding mul_q64_val [OF Cons.prems] using Cons.prems by (rule le_trans)
  from Cons.IH [OF this] show ?case by (simp add: mul_q64_val [OF Cons.prems])
qed simp

lemma helper_powers_take: "helper_DECAY_POWERS = take 25 DECAY_POWERS"
  by (simp add: helper_DECAY_POWERS_def DECAY_POWERS_def)

lemma window_entry_val:
  assumes "c < 32" "j < 5" "decay_chain (c * 2 ^ (5 * j)) < 2 ^ 64"
  shows "unat (window_entry j c) = decay_chain (c * 2 ^ (5 * j))"
proof -
  let ?ps = "map (\<lambda>i. helper_DECAY_POWERS ! (i + j * 5)) [0..<5]"
  let ?s = "foldl mul_q64 (1, 0) (pick c ?ps)"
  have "map unat ?ps = map (\<lambda>i. decay_power (i + 5 * j)) [0..<5]"
    using assms(2) by (simp add: helper_powers_take decay_power_def mult.commute)
  also have "\<dots> = map decay_power (map (\<lambda>i. i + 5 * j) [0..<5])" by simp
  also have "map (\<lambda>i. i + 5 * j) [0..<5] = [5 * j..<5 * j + 5]"
    by (simp add: map_add_upt add.commute)
  finally have ps: "map unat ?ps = map decay_power [5 * j..<5 * j + 5]" .
  have w: "window_entry j c = snd ?s"
    using foldl_pick [of c mul_q64 "\<lambda>i. helper_DECAY_POWERS ! (i + j * 5)" "(1, 0)" 0 5]
    by (simp add: window_entry_def)
  have "q64_val (1, 0) = 2 ^ 64" by (simp add: q64_val_def)
  then have "q64_val ?s = decay_chain (c * 2 ^ (5 * j))"
    using mul_q64_chain [of "(1, 0)" "pick c ?ps"]
    by (simp only: decay_chain_pick [OF assms(1,2)] pick_map [symmetric] ps order_refl simp_thms True_implies_equals)
  then have "unat (fst ?s) * 18446744073709551616 + unat (snd ?s) = decay_chain (c * 2 ^ (5 * j))"
    by (simp add: q64_val_def)
  then show ?thesis using assms(3) w unat_lt_64 [of "snd ?s"]
    by (cases "unat (fst ?s) = 0") simp_all
qed

text \<open>All 32 factors of a window at once: every further bit doubles the table.\<close>

fun double_table :: "nat list \<Rightarrow> nat list \<Rightarrow> nat list" where
  "double_table T [] = T"
| "double_table T (p # ps) = double_table (T @ map (\<lambda>F. q64_step F p) T) ps"

lemma double_table_nth:
  assumes "0 < length T" "c < length T * 2 ^ length ps"
  shows "double_table T ps ! c = foldl q64_step (T ! (c mod length T)) (pick (c div length T) ps)"
  using assms
proof (induction ps arbitrary: T)
  case (Cons p ps)
  let ?m = "length T" and ?T = "T @ map (\<lambda>F. q64_step F p) T"
  have l: "length ?T = ?m * 2" by simp
  have m: "c mod length ?T = ?m * (c div ?m mod 2) + c mod ?m" unfolding l by (rule mod_mult2_eq)
  have lt: "c mod ?m < ?m" using Cons.prems by simp
  have "?T ! (c mod length ?T) = (if odd (c div ?m) then q64_step (T ! (c mod ?m)) p else T ! (c mod ?m))"
    unfolding m using lt by (auto simp: nth_append odd_iff_mod_2_eq_one even_iff_mod_2_eq_zero)
  moreover have "c div length ?T = c div ?m div 2" unfolding l by (rule div_mult2_eq)
  moreover have "c < length ?T * 2 ^ length ps" using Cons.prems(2) unfolding l by (simp add: mult.assoc)
  moreover have "0 < length ?T" using Cons.prems(1) by simp
  ultimately show ?case using Cons.IH [of ?T] by simp
qed simp

lemma q64_step_one: "q64_step 18446744073709551616 p = p"
  by (simp add: q64_step_def)

lemma window_bits:
  "[0..<5] = [0, 1, 2, 3, 4]"
  "[5..<10] = [5, 6, 7, 8, 9]"
  "[10..<15] = [10, 11, 12, 13, 14]"
  "[15..<20] = [15, 16, 17, 18, 19]"
  "[20..<25] = [20, 21, 22, 23, 24]"
  by (simp_all add: upt_rec)

lemma window_tables:
  "double_table [2 ^ 64] (map decay_power [0..<5]) = 2 ^ 64 # map unat (tl DECAY_WINDOW_0)"
  "double_table [2 ^ 64] (map decay_power [5..<10]) = 2 ^ 64 # map unat (tl DECAY_WINDOW_1)"
  "double_table [2 ^ 64] (map decay_power [10..<15]) = 2 ^ 64 # map unat (tl DECAY_WINDOW_2)"
  "double_table [2 ^ 64] (map decay_power [15..<20]) = 2 ^ 64 # map unat (tl DECAY_WINDOW_3)"
  "double_table [2 ^ 64] (map decay_power [20..<25]) = 2 ^ 64 # map unat (tl DECAY_WINDOW_4)"
  unfolding window_bits
  by (simp_all add: decay_power_values q64_step_num q64_step_one DECAY_WINDOW_0_def
    DECAY_WINDOW_1_def DECAY_WINDOW_2_def DECAY_WINDOW_3_def DECAY_WINDOW_4_def)

lemma less_5_cases: "(j :: nat) < 5 \<Longrightarrow> j = 0 \<or> j = 1 \<or> j = 2 \<or> j = 3 \<or> j = 4"
  by linarith

lemma window_factors_double:
  assumes "j < 5"
  shows "double_table [2 ^ 64] (map decay_power [5 * j..<5 * j + 5])
    = 2 ^ 64 # map unat (tl (DECAY_WINDOW_FACTORS ! j))"
proof -
  have "DECAY_WINDOW_FACTORS ! 0 = DECAY_WINDOW_0" "DECAY_WINDOW_FACTORS ! 1 = DECAY_WINDOW_1"
    "DECAY_WINDOW_FACTORS ! 2 = DECAY_WINDOW_2" "DECAY_WINDOW_FACTORS ! 3 = DECAY_WINDOW_3"
    "DECAY_WINDOW_FACTORS ! 4 = DECAY_WINDOW_4"
    by (simp_all add: DECAY_WINDOW_FACTORS_def)
  note w = this
  have n: "5 * 0 = (0::nat)" "5 * 1 = (5::nat)" "5 * 2 = (10::nat)" "5 * 3 = (15::nat)" "5 * 4 = (20::nat)"
    "0 + 5 = (5::nat)" "5 + 5 = (10::nat)" "10 + 5 = (15::nat)" "15 + 5 = (20::nat)" "20 + 5 = (25::nat)"
    by simp_all
  show ?thesis
    using less_5_cases [OF assms]
    by (elim disjE; hypsubst; unfold w n) (rule window_tables)+
qed

lemma window_lengths: "j < 5 \<Longrightarrow> length (DECAY_WINDOW_FACTORS ! j) = 32 \<and> hd (DECAY_WINDOW_FACTORS ! j) = 0"
  using less_5_cases [of j]
  by (auto simp: DECAY_WINDOW_FACTORS_def DECAY_WINDOW_0_def
    DECAY_WINDOW_1_def DECAY_WINDOW_2_def DECAY_WINDOW_3_def DECAY_WINDOW_4_def)

lemma window_factor_chain:
  assumes "j < 5" "0 < c" "c < 32"
  shows "unat (DECAY_WINDOW_FACTORS ! j ! c) = decay_chain (c * 2 ^ (5 * j))"
proof -
  have "DECAY_WINDOW_FACTORS ! j ! c = tl (DECAY_WINDOW_FACTORS ! j) ! (c - 1)"
    using assms window_lengths [of j] by (simp add: nth_tl)
  moreover have "(2 ^ 64 # map unat (tl (DECAY_WINDOW_FACTORS ! j))) ! c
      = unat (tl (DECAY_WINDOW_FACTORS ! j) ! (c - 1))"
    using assms window_lengths [of j] by (simp add: nth_Cons')
  ultimately show ?thesis
    using double_table_nth [of "[2 ^ 64]" c "map decay_power [5 * j..<5 * j + 5]"]
      window_factors_double [OF assms(1)] decay_chain_pick [OF assms(3,1)] assms by simp
qed

lemma precalculate_decay_windows_eq: "precalculate_decay_windows = DECAY_WINDOW_FACTORS"
proof (rule nth_equalityI)
  show "length precalculate_decay_windows = length DECAY_WINDOW_FACTORS"
    by (simp add: precalculate_decay_windows_def DECAY_WINDOW_FACTORS_def)
  fix j assume "j < length precalculate_decay_windows"
  then have j: "j < 5" by (simp add: precalculate_decay_windows_def)
  show "precalculate_decay_windows ! j = DECAY_WINDOW_FACTORS ! j"
  proof (rule nth_equalityI)
    show "length (precalculate_decay_windows ! j) = length (DECAY_WINDOW_FACTORS ! j)"
      using j by (simp add: precalculate_decay_windows_def window_lengths)
    fix c assume "c < length (precalculate_decay_windows ! j)"
    then have c: "c < 32" using j by (simp add: precalculate_decay_windows_def)
    show "precalculate_decay_windows ! j ! c = DECAY_WINDOW_FACTORS ! j ! c"
    proof (cases "c = 0")
      case True
      have "DECAY_WINDOW_FACTORS ! j \<noteq> []" using window_lengths [OF j] by auto
      then show ?thesis using True j window_lengths [OF j]
        by (simp add: precalculate_decay_windows_def hd_conv_nth)
    next
      case False
      then have "unat (window_entry j c) = unat (DECAY_WINDOW_FACTORS ! j ! c)"
        using window_entry_val [OF c j] window_factor_chain [OF j _ c]
          unat_lt_64 [of "DECAY_WINDOW_FACTORS ! j ! c"] by simp
      then show ?thesis using j c False
        by (simp add: precalculate_decay_windows_def word_unat_eq_iff nth_Cons')
    qed
  qed
qed

lemma precalculate_decay_table_eq: "precalculate_decay_table = DECAY_POWERS"
  by (rule unat_map_inj)
    (simp add: precalculate_decay_table_def table_rounds_nat DECAY_FACTOR_PER_SECOND_def squares_32)

section \<open>Properties of the tables\<close>

text \<open>The 32 powers in \<open>src/data/unit.c\<close> are what \<open>helper/precalculate_decay_table.c\<close> prints: the
  factor of one second, squared and truncated 31 times.\<close>

lemma decay_powers_generated: "precalculate_decay_table = DECAY_POWERS"
  by (rule precalculate_decay_table_eq)

text \<open>C5: The window table in \<open>src/data/unit.c\<close> is what \<open>helper/precalculate_decay_windows.c\<close> prints.\<close>

theorem decay_windows_generated: "precalculate_decay_windows = DECAY_WINDOW_FACTORS"
  by (rule precalculate_decay_windows_eq)

text \<open>\<open>mul_high\<close> is the exact high half of the 128 bit product; none of its sums wraps.\<close>

lemma mul_high_exact: "unat (mul_high a b) = unat a * unat b div 2 ^ 64"
  by (rule mul_high_nat)

end
