(* ===== verification/GRD_Decay_Windowed.thy ===== *)
theory GRD_Decay_Windowed
  imports GRD_Decay_Tables Complex_Main
begin

text \<open>
  The windowed decay: the factor it multiplies together, and how far it can be from the factor of
  the bit chain. Both chains truncate downwards from the same exact product, at most once per
  multiplication, so the two amounts differ by at most one unit for every balance below
  61 trillion Gradido.
\<close>

section \<open>The factor of the windows\<close>

definition window_value :: "nat \<Rightarrow> nat \<Rightarrow> nat" where
  "window_value e j = e div 32 ^ j mod 32"

definition windowed_chain :: "nat \<Rightarrow> nat" where
  "windowed_chain e = foldl q64_step (2 ^ 64) (map (\<lambda>j. decay_chain (window_value e j * 32 ^ j)) [0..<5])"

definition windowed_spec :: "nat \<Rightarrow> nat \<Rightarrow> nat" where
  "windowed_spec g t =
     (if t div 31556952 > 63 then 0
      else q64_round_mul (g div 2 ^ (t div 31556952)) (windowed_chain (t mod 31556952)))"

lemma window_digit_nat: "unat (window_digit e j) = window_value (unat e) j"
proof -
  have "DECAY_WINDOW_SIZE - 1 = (mask 5 :: u64)"
    by (simp add: DECAY_WINDOW_SIZE_def DECAY_WINDOW_BITS_def mask_eq_exp_minus_1)
  then have "window_digit e j = take_bit 5 (drop_bit (j * 5) e)"
    by (simp add: window_digit_def DECAY_WINDOW_BITS_def take_bit_eq_mask)
  then show ?thesis
    by (simp add: window_value_def unat_take_bit_mod unat_drop_bit_div power_mult mult.commute [of j])
qed

lemma window_step_nat:
  assumes "j < 5" "r128_nat f \<le> 2 ^ 64"
  shows "r128_nat (window_step e f j) = q64_step (r128_nat f) (decay_chain (window_value (unat e) j * 32 ^ j))"
proof (cases "window_value (unat e) j = 0")
  case True
  then have "window_digit e j = 0" by (simp add: word_unat_eq_iff window_digit_nat)
  then show ?thesis using True by (simp add: window_step_def decay_chain_0 q64_step_def)
next
  case False
  have "window_value (unat e) j < 32" by (simp add: window_value_def)
  then have "unat (DECAY_WINDOW_FACTORS ! j ! unat (window_digit e j))
      = decay_chain (window_value (unat e) j * 2 ^ (5 * j))"
    using False assms(1) by (simp add: window_digit_nat window_factor_chain)
  moreover have "window_digit e j \<noteq> 0" using False by (simp add: word_unat_eq_iff window_digit_nat)
  ultimately show ?thesis
    by (simp add: window_step_def Let_def r128Mul_factor_nat [OF assms(2)] power_mult)
qed

lemma windowed_factor_nat:
  assumes "\<forall>j \<in> set js. j < 5" "r128_nat f \<le> 2 ^ 64"
  shows "r128_nat (foldl (window_step e) f js)
    = foldl q64_step (r128_nat f) (map (\<lambda>j. decay_chain (window_value (unat e) j * 32 ^ j)) js)"
  using assms
proof (induction js arbitrary: f)
  case (Cons j js)
  have "r128_nat (window_step e f j) \<le> r128_nat f"
    using Cons.prems by (subst window_step_nat) (simp_all add: q64_step_le [OF decay_chain_le])
  then have "r128_nat (window_step e f j) \<le> 2 ^ 64" using Cons.prems(2) by (rule le_trans)
  from Cons.IH [OF _ this] Cons.prems window_step_nat [OF _ Cons.prems(2), of j e] show ?case by simp
qed simp

lemma windowed_chain_le: "windowed_chain e \<le> 2 ^ 64"
  unfolding windowed_chain_def by (rule q64_chain_le) (use decay_chain_le in auto)

lemma windowed_remainder_nat:
  assumes "0 \<le> sint g"
  shows "unat (windowed_remainder g d) = q64_round_mul (unat g) (windowed_chain (unat d))"
proof -
  let ?f = "foldl (window_step d) R128_one [0..<DECAY_WINDOWS]"
  have f: "r128_nat ?f = windowed_chain (unat d)"
    by (subst windowed_factor_nat) (simp_all add: DECAY_WINDOWS_def r128_one_nat windowed_chain_def)
  then have "r128_nat ?f \<le> 2 ^ 64" using windowed_chain_le by simp
  from round_product_nat [OF assms this] f show ?thesis by (simp add: windowed_remainder_def)
qed

lemma windowed_chain_0: "windowed_chain 0 = 2 ^ 64"
proof -
  have "foldl q64_step (2 ^ 64) (map (\<lambda>j. decay_chain (window_value 0 j * 32 ^ j)) js) = 2 ^ 64" for js
    by (induction js) (simp_all add: window_value_def decay_chain_0 q64_step_def)
  then show ?thesis by (simp add: windowed_chain_def)
qed

lemma calculate_decay_windowed_nat:
  assumes "0 \<le> sint g" "0 \<le> sint d"
  shows "\<exists>r. grdd_unit_calculate_decay_windowed g d = Inr r \<and> unat r = windowed_spec (unat g) (unat d)"
proof -
  have g: "\<not> sint g < 0" "\<not> sint d < 0" using assms by simp_all
  consider "d = 0" | "d \<noteq> 0" "unat d < 31556952" | "d \<noteq> 0" "31556952 \<le> unat d" by linarith
  then show ?thesis
  proof cases
    case 1
    then show ?thesis using g
      by (simp add: grdd_unit_calculate_decay_windowed_def windowed_spec_def windowed_chain_0
        q64_round_mul_one [simplified])
  next
    case 2
    then have "\<not> sint SECONDS_PER_YEAR \<le> sint d" using seconds_reach_year [OF assms(2)] by simp
    then show ?thesis
      using windowed_remainder_nat [OF assms(1)] 2 g
      by (simp add: grdd_unit_calculate_decay_windowed_def windowed_spec_def)
  next
    case 3
    define t where "t = (word_of_int (sint d sdiv sint SECONDS_PER_YEAR) :: u64)"
    have y: "sint SECONDS_PER_YEAR \<le> sint d" using seconds_reach_year [OF assms(2)] 3 by simp
    then have t: "unat t = unat d div 31556952"
      unfolding t_def by (intro whole_years) (simp add: SECONDS_PER_YEAR_def)
    have e: "grdd_unit_calculate_decay_windowed g d =
        (if 63 < t then Inr 0
         else Inr (windowed_remainder (signed_drop_bit (unat t) g) (d - t * SECONDS_PER_YEAR)))"
      using 3 g y by (simp add: grdd_unit_calculate_decay_windowed_def Let_def t_def)
    show ?thesis
      using windowed_remainder_nat [OF signed_drop_bit_nonneg(2) [OF assms(1)], of "unat t"
          "d - t * SECONDS_PER_YEAR"]
      by (simp add: e windowed_spec_def word_less_unat t rest_of_year [OF t] signed_drop_bit_nonneg(1) [OF assms(1)])
  qed
qed

section \<open>The truncation error of a chain\<close>

definition q64_near :: "real \<Rightarrow> nat \<Rightarrow> real \<Rightarrow> bool" where
  "q64_near k W r = (0 \<le> r \<and> r \<le> 1 \<and> real W \<le> 2 ^ 64 * r \<and> 2 ^ 64 * r - k \<le> real W)"

lemma prod_list_unit: "\<forall>r \<in> set rs. 0 \<le> r \<and> r \<le> 1 \<Longrightarrow> 0 \<le> prod_list rs \<and> prod_list rs \<le> (1 :: real)"
  by (induction rs) (auto intro: mult_le_one)

lemma list_all2_near_unit: "list_all2 (q64_near k) Ws rs \<Longrightarrow> \<forall>r \<in> set rs. 0 \<le> r \<and> r \<le> 1"
  by (induction rule: list_all2_induct) (auto simp: q64_near_def)

lemma q64_step_real:
  "real (q64_step F W) \<le> real F * real W / 2 ^ 64" "real F * real W / 2 ^ 64 - 1 \<le> real (q64_step F W)"
proof -
  have "real (q64_step F W) = of_int \<lfloor>real (F * W) / real (2 ^ 64)\<rfloor>"
    unfolding q64_step_def by (simp only: floor_divide_of_nat_eq of_int_of_nat_eq)
  moreover have "real (F * W) / real (2 ^ 64) = real F * real W / 2 ^ 64" by simp
  ultimately show "real (q64_step F W) \<le> real F * real W / 2 ^ 64"
    "real F * real W / 2 ^ 64 - 1 \<le> real (q64_step F W)"
    using of_int_floor_le [of "real F * real W / 2 ^ 64"] real_of_int_floor_gt_diff_one [of "real F * real W / 2 ^ 64"]
    by linarith+
qed

lemma q64_step_near:
  assumes "q64_near k W r" "F \<le> 2 ^ 64" "0 \<le> k"
  shows "real (q64_step F W) \<le> real F * r" "real F * r - (k + 1) \<le> real (q64_step F W)"
proof -
  have W: "real W / 2 ^ 64 \<le> r" "r - k / 2 ^ 64 \<le> real W / 2 ^ 64"
    using assms(1) by (simp_all add: q64_near_def field_simps)
  have F: "real F \<le> 2 ^ 64" using assms(2) by (metis of_nat_le_iff of_nat_numeral of_nat_power)
  have "real F * (real W / 2 ^ 64) \<le> real F * r" using W(1) by (rule mult_left_mono) simp
  then show "real (q64_step F W) \<le> real F * r" using q64_step_real(1) [of F W] by simp
  have "real F * (k / 2 ^ 64) \<le> 2 ^ 64 * (k / 2 ^ 64)" using F assms(3) by (intro mult_right_mono) simp_all
  then have "real F * (k / 2 ^ 64) \<le> k" by simp
  moreover have "real F * (r - k / 2 ^ 64) \<le> real F * (real W / 2 ^ 64)" using W(2) by (rule mult_left_mono) simp
  ultimately show "real F * r - (k + 1) \<le> real (q64_step F W)"
    using q64_step_real(2) [of F W] by (simp add: right_diff_distrib)
qed

lemma chain_near:
  assumes "list_all2 (q64_near k) Ws rs" "F \<le> 2 ^ 64" "0 \<le> k"
  shows "real (foldl q64_step F Ws) \<le> real F * prod_list rs
    \<and> real F * prod_list rs - real (length Ws) * (k + 1) \<le> real (foldl q64_step F Ws)"
  using assms
proof (induction Ws rs arbitrary: F rule: list_all2_induct)
  case (Cons W Ws r rs)
  let ?F = "q64_step F W"
  have W: "q64_near k W r" and P: "0 \<le> prod_list rs" "prod_list rs \<le> 1"
    using Cons.hyps prod_list_unit [OF list_all2_near_unit, of k Ws rs] by auto
  note s = q64_step_near [OF W Cons.prems]
  have "real W \<le> 2 ^ 64" using W by (simp add: q64_near_def)
  then have "W \<le> 2 ^ 64" by (metis of_nat_le_iff of_nat_numeral of_nat_power)
  then have "?F \<le> 2 ^ 64" using q64_step_le [of W F] Cons.prems(1) by linarith
  note IH = Cons.IH [OF this Cons.prems(2)]
  have "real ?F * prod_list rs \<le> real F * r * prod_list rs" using s(1) P(1) by (rule mult_right_mono)
  moreover have "(real F * r - (k + 1)) * prod_list rs \<le> real ?F * prod_list rs"
    using s(2) P(1) by (rule mult_right_mono)
  moreover have "(k + 1) * prod_list rs \<le> (k + 1) * 1"
    using P(2) Cons.prems(2) by (intro mult_left_mono) simp_all
  ultimately show ?case using IH by (simp add: algebra_simps)
qed simp

section \<open>Windows against bits\<close>

definition decay_exact :: "nat \<Rightarrow> real" where
  "decay_exact e = prod_list (map (\<lambda>i. real (decay_power i) / 2 ^ 64) (set_bits_from 0 e))"

lemma bit_near: "q64_near 0 (decay_power i) (real (decay_power i) / 2 ^ 64)"
proof -
  have "real (decay_power i) \<le> 2 ^ 64"
    using decay_power_le [of i] by (metis of_nat_le_iff of_nat_numeral of_nat_power)
  then show ?thesis by (simp add: q64_near_def)
qed

lemma decay_chain_near:
  assumes "e < 2 ^ 32"
  shows "real (decay_chain e) \<le> 2 ^ 64 * decay_exact e"
    "2 ^ 64 * decay_exact e - real (length (set_bits_from 0 e)) \<le> real (decay_chain e)"
proof -
  have c: "decay_chain e = foldl q64_step (2 ^ 64) (map decay_power (set_bits_from 0 e))"
    using set_bits_from_filter [OF assms, of 0] by (simp add: decay_chain_def)
  have "list_all2 (q64_near 0) (map decay_power xs) (map (\<lambda>i. real (decay_power i) / 2 ^ 64) xs)" for xs
    by (induction xs) (simp_all only: list.map list_all2_Nil list_all2_Cons bit_near simp_thms)
  from chain_near [OF this, of "2 ^ 64" "set_bits_from 0 e"]
  show "real (decay_chain e) \<le> 2 ^ 64 * decay_exact e"
    "2 ^ 64 * decay_exact e - real (length (set_bits_from 0 e)) \<le> real (decay_chain e)"
    by (simp_all add: c decay_exact_def)
qed

lemma pick_append: "pick c (xs @ ys) = pick c xs @ pick (c div 2 ^ length xs) ys"
  by (induction xs arbitrary: c) (simp_all add: div_mult2_eq)

lemma pick_mod: "pick (c mod 2 ^ length xs) xs = pick c xs"
proof (induction xs arbitrary: c)
  case (Cons x xs)
  have "c mod (2 * 2 ^ length xs) div 2 = c div 2 mod 2 ^ length xs"
    by (simp add: mod_mult2_eq)
  then show ?case using Cons by (simp add: dvd_mod_iff)
qed simp

lemma length_pick: "length (pick c xs) \<le> length xs"
  by (induction xs arbitrary: c) (simp_all add: le_SucI)

lemma window_bits_pick:
  "set_bits_from 0 (window_value e j * 32 ^ j) = pick (e div 32 ^ j) [5 * j..<5 * j + 5]"
proof -
  have "window_value e j < 2 ^ 5" by (simp add: window_value_def)
  from set_bits_pick [OF this, of "5 * j"]
  have "set_bits_from 0 (window_value e j * 2 ^ (5 * j)) = pick (window_value e j) [5 * j..<5 * j + 5]"
    by (simp add: set_bits_shift)
  also have "\<dots> = pick (e div 32 ^ j) [5 * j..<5 * j + 5]"
    using pick_mod [of "e div 32 ^ j" "[5 * j..<5 * j + 5]"] by (simp add: window_value_def)
  finally show ?thesis by (simp add: power_mult)
qed

lemma windows_cover:
  assumes "e < 2 ^ 25"
  shows "set_bits_from 0 e = concat (map (\<lambda>j. set_bits_from 0 (window_value e j * 32 ^ j)) [0..<5])"
proof -
  have "[0..<25] = [0..<0+5] @ [5..<5+5] @ [10..<10+5] @ [15..<15+5] @ [20..<20+(5::nat)]"
    by (simp add: upt_rec)
  then have "pick e [0..<25] = pick e [0..<0+5] @ pick (e div 32) [5..<5+5] @ pick (e div 32 ^ 2) [10..<10+5]
      @ pick (e div 32 ^ 3) [15..<15+5] @ pick (e div 32 ^ 4) [20..<20+5]"
    by (simp add: pick_append div_mult2_eq [symmetric])
  then show ?thesis
    using set_bits_pick [OF assms, of 0] by (simp add: window_bits_pick window_bits(1))
qed

lemma window_near:
  assumes "j < 5"
  shows "q64_near 5 (decay_chain (window_value e j * 32 ^ j)) (decay_exact (window_value e j * 32 ^ j))"
proof -
  let ?e = "window_value e j * 32 ^ j"
  have "window_value e j \<le> 31" by (simp add: window_value_def less_Suc_eq_le [symmetric])
  moreover have "(32::nat) ^ j \<le> 32 ^ 4" using assms by (intro power_increasing) simp_all
  ultimately have "?e \<le> 31 * 32 ^ 4" by (rule mult_le_mono)
  then have e: "?e < 2 ^ 32" by simp
  have "length (set_bits_from 0 ?e) \<le> 5"
    unfolding window_bits_pick using length_pick [of _ "[5 * j..<5 * j + 5]"] by simp
  then have l: "real (length (set_bits_from 0 ?e)) \<le> 5" by simp
  have "\<forall>r \<in> set (map (\<lambda>i. real (decay_power i) / 2 ^ 64) xs). 0 \<le> r \<and> r \<le> 1" for xs
    using bit_near by (auto simp: q64_near_def)
  from prod_list_unit [OF this] have "0 \<le> decay_exact ?e \<and> decay_exact ?e \<le> 1"
    by (simp add: decay_exact_def)
  then show ?thesis using decay_chain_near [OF e] l by (simp add: q64_near_def)
qed

lemma decay_exact_windows:
  assumes "e < 2 ^ 25"
  shows "decay_exact e = prod_list (map (\<lambda>j. decay_exact (window_value e j * 32 ^ j)) [0..<5])"
proof -
  have "prod_list (map f (concat xss)) = prod_list (map (\<lambda>xs. prod_list (map f xs)) xss)"
    for f :: "nat \<Rightarrow> real" and xss by (induction xss) simp_all
  then show ?thesis unfolding decay_exact_def windows_cover [OF assms] by (simp add: comp_def)
qed

lemma windowed_chain_near:
  assumes "e < 2 ^ 25"
  shows "real (windowed_chain e) \<le> 2 ^ 64 * decay_exact e"
    "2 ^ 64 * decay_exact e - 30 \<le> real (windowed_chain e)"
proof -
  have "list_all2 (q64_near 5) (map (\<lambda>j. decay_chain (window_value e j * 32 ^ j)) js)
      (map (\<lambda>j. decay_exact (window_value e j * 32 ^ j)) js)" if "\<forall>j \<in> set js. j < 5" for js
    using that by (induction js) (simp_all add: window_near)
  from chain_near [OF this, of "[0..<5]" "2 ^ 64"]
  show "real (windowed_chain e) \<le> 2 ^ 64 * decay_exact e"
    "2 ^ 64 * decay_exact e - 30 \<le> real (windowed_chain e)"
    by (simp_all add: windowed_chain_def decay_exact_windows [OF assms])
qed

lemma chains_near:
  assumes "e < 2 ^ 25"
  shows "decay_chain e \<le> windowed_chain e + 30" "windowed_chain e \<le> decay_chain e + 30"
proof -
  have "length (set_bits_from 0 e) \<le> 25"
    using length_pick [of e "[0..<25]"] set_bits_pick [OF assms, of 0] by simp
  then have l: "real (length (set_bits_from 0 e)) \<le> 25" by simp
  have "e < 2 ^ 32" using assms by simp
  note b = decay_chain_near [OF this] and w = windowed_chain_near [OF assms]
  have "real (decay_chain e) \<le> real (windowed_chain e) + 30" using b(1) w(2) by linarith
  then show "decay_chain e \<le> windowed_chain e + 30" by linarith
  have "real (windowed_chain e) \<le> real (decay_chain e) + 30" using b(2) w(1) l by linarith
  then show "windowed_chain e \<le> decay_chain e + 30" by linarith
qed

lemma q64_round_mul_near:
  assumes "F \<le> G + 30" "30 * g \<le> n * 18446744073709551616"
  shows "q64_round_mul g F \<le> q64_round_mul g G + n"
proof -
  have "g * F \<le> g * G + 30 * g" using mult_le_mono2 [OF assms(1), of g] by (simp add: algebra_simps)
  then have "g * F + 9223372036854775808 \<le> (g * G + 9223372036854775808) + n * 18446744073709551616"
    using assms(2) by linarith
  then have "(g * F + 9223372036854775808) div 18446744073709551616
      \<le> ((g * G + 9223372036854775808) + n * 18446744073709551616) div 18446744073709551616"
    by (rule div_le_mono)
  then show ?thesis by (simp add: q64_round_mul_def)
qed

lemma windowed_spec_near:
  assumes "30 * g \<le> n * 18446744073709551616"
  shows "windowed_spec g t \<le> decay_spec g t + n" "decay_spec g t \<le> windowed_spec g t + n"
proof -
  let ?g = "g div 2 ^ (t div 31556952)" and ?e = "t mod 31556952"
  have "?e < 31556952" by simp
  then have e: "?e < 2 ^ 25" by simp
  have "30 * ?g \<le> 30 * g" by simp
  then have g: "30 * ?g \<le> n * 18446744073709551616" using assms by (rule le_trans)
  show "windowed_spec g t \<le> decay_spec g t + n" "decay_spec g t \<le> windowed_spec g t + n"
    using q64_round_mul_near [OF chains_near(1) [OF e] g] q64_round_mul_near [OF chains_near(2) [OF e] g]
    by (simp_all add: windowed_spec_def decay_spec_def)
qed

section \<open>Properties of the windowed decay\<close>

text \<open>C2: The windowed decay, five multiplications instead of up to 25, ends without a fault and
  differs from the bit chain by at most one unit (a ten thousandth of a Gradido) for balances up to
  614891469123651720 units, and by at most 15 units for any balance.\<close>

theorem windowed_close:
  assumes "0 \<le> sint gdd" "0 \<le> sint duration"
  shows "\<exists>a b. grdd_unit_calculate_decay_windowed gdd duration = Inr a
    \<and> grdd_unit_calculate_decay gdd duration = Inr b
    \<and> \<bar>int (unat a) - int (unat b)\<bar> \<le> (if unat gdd \<le> 614891469123651720 then 1 else 15)"
proof -
  obtain a where a: "grdd_unit_calculate_decay_windowed gdd duration = Inr a"
    "unat a = windowed_spec (unat gdd) (unat duration)"
    using calculate_decay_windowed_nat [OF assms] by blast
  obtain b where b: "grdd_unit_calculate_decay gdd duration = Inr b"
    "unat b = decay_spec (unat gdd) (unat duration)"
    using calculate_decay_nat [OF assms] by blast
  define n :: nat where "n = (if unat gdd \<le> 614891469123651720 then 1 else 15)"
  have "30 * unat gdd \<le> n * 18446744073709551616"
    using assms(1) unfolding n_def sint_nonneg_iff by simp
  from windowed_spec_near [OF this, of "unat duration"]
  have "\<bar>int (unat a) - int (unat b)\<bar> \<le> int n" unfolding a(2) b(2) by linarith
  then show ?thesis using a(1) b(1) by (auto simp: n_def split: if_splits)
qed

theorem windowed_close_witness:
  "\<exists>a b. grdd_unit_calculate_decay_windowed 1000000 86399 = Inr a
    \<and> grdd_unit_calculate_decay 1000000 86399 = Inr b \<and> \<bar>int (unat a) - int (unat b)\<bar> \<le> 1"
  using windowed_close [of 1000000 86399] by simp

end
