(* ===== verification/GRD_Text.thy ===== *)
theory GRD_Text
  imports GRD_Prelude "HOL-Library.Char_ord"
begin

text \<open>
  C strings and buffers: a string is the list of its characters before the terminator, a buffer the
  list of the characters its memory holds. Writes are checked against the memory there is, so a
  write past the end is a fault and not an extension. The number conversions of arnm are not part of
  the repository: the record \<open>arnm_conv\<close> stands for them, and \<open>arnm_conv_ok\<close> is what its callers
  rely on, the plain decimal digits.
\<close>

section \<open>Characters of the C library\<close>

definition c_isdigit :: "char \<Rightarrow> bool" where
  "c_isdigit c = (48 \<le> (of_char c :: nat) \<and> (of_char c :: nat) \<le> 57)"

definition c_isspace :: "char \<Rightarrow> bool" where
  "c_isspace c = ((of_char c :: nat) = 32 \<or> 9 \<le> (of_char c :: nat) \<and> (of_char c :: nat) \<le> 13)"

definition digit_val :: "char \<Rightarrow> nat" where
  "digit_val c = of_char c - 48"

definition digit_char :: "nat \<Rightarrow> char" where
  "digit_char d = char_of (d + 48)"

definition NUL :: char where "NUL = CHR 0x00"

text \<open>\<open>*p\<close> of a pointer into a string: the terminator at its end.\<close>

definition peek :: "string \<Rightarrow> char" where
  "peek p = (case p of [] \<Rightarrow> NUL | c # _ \<Rightarrow> c)"

lemma of_char_digit: "d < 10 \<Longrightarrow> (of_char (digit_char d) :: nat) = d + 48"
  by (simp add: digit_char_def)

lemma digit_char_simps [simp]:
  "d < 10 \<Longrightarrow> c_isdigit (digit_char d)"
  "d < 10 \<Longrightarrow> digit_val (digit_char d) = d"
  "d < 10 \<Longrightarrow> \<not> c_isspace (digit_char d)"
  by (simp_all add: c_isdigit_def c_isspace_def digit_val_def of_char_digit)

lemma digit_char_neq [simp]:
  "d < 10 \<Longrightarrow> digit_char d \<noteq> CHR ''-''" "d < 10 \<Longrightarrow> digit_char d \<noteq> CHR ''+''"
  "d < 10 \<Longrightarrow> digit_char d \<noteq> CHR ''.''" "d < 10 \<Longrightarrow> digit_char d \<noteq> NUL"
  using of_char_digit [of d] by (auto simp: NUL_def)

section \<open>Decimal text\<close>

fun decimal :: "nat \<Rightarrow> string" where
  "decimal n = (if n < 10 then [digit_char n] else decimal (n div 10) @ [digit_char (n mod 10)])"

declare decimal.simps [simp del]

definition digits_val :: "nat \<Rightarrow> string \<Rightarrow> nat" where
  "digits_val n ds = foldl (\<lambda>n c. n * 10 + digit_val c) n ds"

definition decimal_int :: "int \<Rightarrow> string" where
  "decimal_int n = (if n < 0 then CHR ''-'' # decimal (nat (- n)) else decimal (nat n))"

lemma digits_val_simps [simp]:
  "digits_val n [] = n"
  "digits_val n (c # cs) = digits_val (n * 10 + digit_val c) cs"
  "digits_val n (xs @ ys) = digits_val (digits_val n xs) ys"
  by (simp_all add: digits_val_def)

lemma decimal_not_empty [simp]: "decimal n \<noteq> []"
  by (simp add: decimal.simps)

lemma decimal_digits: "\<forall>c \<in> set (decimal n). \<exists>d < 10. c = digit_char d"
proof (induction n rule: decimal.induct)
  case (1 n)
  have "n mod 10 < 10" by simp
  then show ?case using 1 by (subst decimal.simps) (auto simp del: mod_less_divisor)
qed

lemma decimal_isdigit: "c \<in> set (decimal n) \<Longrightarrow> c_isdigit c"
  using decimal_digits [of n] by auto

lemma digits_val_decimal [simp]: "digits_val 0 (decimal n) = n"
  by (induction n rule: decimal.induct) (subst decimal.simps, simp)

lemma hd_decimal: "\<exists>d < 10. hd (decimal n) = digit_char d"
  using decimal_digits [of n] by simp

lemma decimal_length_pos: "0 < length (decimal n)"
  by simp

lemma decimal_length_le: "n < 10 ^ k \<Longrightarrow> 0 < k \<Longrightarrow> length (decimal n) \<le> k"
proof (induction n arbitrary: k rule: decimal.induct)
  case (1 n)
  show ?case
  proof (cases "n < 10")
    case False
    then obtain k' where k: "k = Suc k'" "0 < k'"
      using "1.prems" by (cases k; cases "k - 1") auto
    then show ?thesis using 1 False by (subst decimal.simps) (simp add: less_mult_imp_div_less mult.commute)
  qed (use 1 in \<open>simp add: decimal.simps\<close>)
qed

lemma decimal_length_gt: "10 ^ k \<le> n \<Longrightarrow> k < length (decimal n)"
proof (induction n arbitrary: k rule: decimal.induct)
  case (1 n)
  show ?case
  proof (cases "n < 10")
    case True
    moreover have "(10::nat) \<le> 10 ^ k" if "k \<noteq> 0" using that by (cases k) simp_all
    ultimately have "k = 0" using "1.prems" by fastforce
    then show ?thesis by (simp add: decimal.simps)
  next
    case False
    show ?thesis
    proof (cases k)
      case (Suc k')
      then have "10 ^ k' \<le> n div 10" using "1.prems" by (simp add: less_eq_div_iff_mult_less_eq mult.commute)
      then show ?thesis using 1 False Suc by (subst decimal.simps) simp
    qed simp
  qed
qed

text \<open>The last four digits split off: what the decimal point of an amount separates.\<close>

definition pad4 :: "nat \<Rightarrow> string" where
  "pad4 n = [digit_char (n div 1000 mod 10), digit_char (n div 100 mod 10),
             digit_char (n div 10 mod 10), digit_char (n mod 10)]"

lemma decimal_snoc: "10 \<le> n \<Longrightarrow> decimal n = decimal (n div 10) @ [digit_char (n mod 10)]"
  by (subst decimal.simps) simp

lemma decimal_snocs:
  "100 \<le> n \<Longrightarrow> decimal (n div 10) = decimal (n div 100) @ [digit_char (n div 10 mod 10)]"
  "1000 \<le> n \<Longrightarrow> decimal (n div 100) = decimal (n div 1000) @ [digit_char (n div 100 mod 10)]"
  "10000 \<le> n \<Longrightarrow> decimal (n div 1000) = decimal (n div 10000) @ [digit_char (n div 1000 mod 10)]"
  using decimal_snoc [of "n div 10"] decimal_snoc [of "n div 100"] decimal_snoc [of "n div 1000"]
  by (simp_all add: div_mult2_eq [symmetric] less_eq_div_iff_mult_less_eq)

lemma decimal_split4: "10000 \<le> n \<Longrightarrow> decimal n = decimal (n div 10000) @ pad4 n"
  by (simp add: decimal_snoc [of n] decimal_snocs pad4_def)

lemma decimal_pad4:
  assumes "n < 10000"
  shows "replicate (4 - length (decimal n)) (digit_char 0) @ decimal n = pad4 n"
proof -
  have one: "decimal m = [digit_char m]" if "m < 10" for m using that by (simp add: decimal.simps)
  have z: "replicate 1 c = [c]" "replicate 2 c = [c, c]" "replicate 3 c = [c, c, c]" for c :: char
    by (simp_all add: numeral_eq_Suc)
  consider "n < 10" | "10 \<le> n" "n < 100" | "100 \<le> n" "n < 1000" | "1000 \<le> n" by linarith
  then show ?thesis
  proof cases
    case 1 then show ?thesis by (simp add: one z pad4_def)
  next
    case 2
    then have "n div 10 < 10" by simp
    then show ?thesis using 2 by (simp add: decimal_snoc [of n] one z(2) [simplified] pad4_def)
  next
    case 3
    then have "n div 100 < 10" by simp
    then show ?thesis using 3 by (simp add: decimal_snoc [of n] decimal_snocs one z(1) [simplified] pad4_def)
  next
    case 4
    then have "n div 1000 < 10" using assms by simp
    then show ?thesis using 4 by (simp add: decimal_snoc [of n] decimal_snocs one pad4_def)
  qed
qed

section \<open>Memory\<close>

definition mem_write :: "string \<Rightarrow> nat \<Rightarrow> string \<Rightarrow> c_fault + string" where
  "mem_write buf i cs =
     (if i + length cs \<le> length buf then Inr (take i buf @ cs @ drop (i + length cs) buf)
      else Inl IndexOutOfBounds)"

definition mem_move :: "string \<Rightarrow> nat \<Rightarrow> nat \<Rightarrow> nat \<Rightarrow> c_fault + string" where
  "mem_move buf dst src n =
     (if src + n \<le> length buf then mem_write buf dst (take n (drop src buf)) else Inl IndexOutOfBounds)"

definition mem_set :: "string \<Rightarrow> nat \<Rightarrow> char \<Rightarrow> nat \<Rightarrow> c_fault + string" where
  "mem_set buf i c n = mem_write buf i (replicate n c)"

text \<open>The string a buffer holds: up to its terminator.\<close>

definition c_string :: "string \<Rightarrow> string" where
  "c_string buf = takeWhile (\<lambda>c. c \<noteq> NUL) buf"

section \<open>The conversions of arnm\<close>

text \<open>The size of a number's text, and the characters the conversion of a known size writes before
  the terminator it closes them with; it answers their count.\<close>

record arnm_conv =
  uint64_to_string_size :: "u64 \<Rightarrow> nat"
  uint64_to_string_known :: "u64 \<Rightarrow> u8 \<Rightarrow> string"
  int64_to_string_size :: "i64 \<Rightarrow> nat"
  int64_to_string_known :: "i64 \<Rightarrow> u8 \<Rightarrow> string"

definition arnm_conv_ok :: "arnm_conv \<Rightarrow> bool" where
  "arnm_conv_ok A \<longleftrightarrow>
     (\<forall>v. uint64_to_string_size A v = length (decimal (unat v))
        \<and> uint64_to_string_known A v (of_nat (length (decimal (unat v)))) = decimal (unat v)
        \<and> int64_to_string_size A v = length (decimal_int (sint v))
        \<and> int64_to_string_known A v (of_nat (length (decimal_int (sint v)))) = decimal_int (sint v))"

definition decimal_conv :: arnm_conv where
  "decimal_conv = \<lparr>uint64_to_string_size = \<lambda>v. length (decimal (unat v)),
     uint64_to_string_known = \<lambda>v _. decimal (unat v),
     int64_to_string_size = \<lambda>v. length (decimal_int (sint v)),
     int64_to_string_known = \<lambda>v _. decimal_int (sint v)\<rparr>"

lemma decimal_conv_ok: "arnm_conv_ok decimal_conv"
  by (simp add: arnm_conv_ok_def decimal_conv_def)

end
