(* ===== verification/GRD_Unit.thy ===== *)
theory GRD_Unit
  imports GRD_Text GRD_Decay
begin

text \<open>
  The other operations of \<open>src/data/unit.c\<close>: rounding to a precision, parsing and printing an
  amount, and the seconds that count for the decay. An amount is an \<open>int64_t\<close> in ten thousandths of
  a Gradido. An out parameter is a cell, \<open>None\<close> for a \<open>NULL\<close> pointer. The two conversions from and
  to \<open>double\<close> are not modelled.
\<close>

section \<open>Rounding\<close>

definition POW10 :: "u64 list" where
  "POW10 = [1, 10, 100, 1000, 10000]"

definition grdd_unit_round_to_precision :: "i64 option \<Rightarrow> i64 \<Rightarrow> u8 \<Rightarrow> bool \<times> i64 option" where
  "grdd_unit_round_to_precision result value precision =
     (if result = None \<or> precision > 4 then (False, result)
      else if precision = 4 then (True, Some value)
      else
        let divisor = POW10 ! (4 - unat precision);
            half = divisor div 2;
            gdd = (if sint value < 0 then - value else value);
            rounded = ((gdd + half) div divisor) * divisor
        in if rounded > INT64_MAX then (False, result)
           else (True, Some (if sint value < 0 then - rounded else rounded)))"

section \<open>Parsing\<close>

text \<open>\<open>strtoll\<close> in base ten: blanks, a sign, digits; the value pinned to the type, and the rest of
  the string, all of it where there was no digit.\<close>

definition strtoll_sign :: "string \<Rightarrow> bool \<times> string" where
  "strtoll_sign p =
     (case p of [] \<Rightarrow> (False, p)
      | c # q \<Rightarrow> if c = CHR ''-'' then (True, q) else if c = CHR ''+'' then (False, q) else (False, p))"

definition strtoll :: "string \<Rightarrow> int \<times> string" where
  "strtoll p =
     (let (negative, q) = strtoll_sign (dropWhile c_isspace p);
          ds = takeWhile c_isdigit q;
          v = int (digits_val 0 ds)
      in if ds = [] then (0, p)
         else (if negative then max (- 9223372036854775808) (- v) else min 9223372036854775807 v,
               dropWhile c_isdigit q))"

text \<open>The first four digits after the point.\<close>

fun frac_digits :: "string \<Rightarrow> nat \<Rightarrow> int \<Rightarrow> string \<times> nat \<times> int" where
  "frac_digits [] digits v = ([], digits, v)"
| "frac_digits (c # p) digits v =
     (if c_isdigit c \<and> digits < 4 then frac_digits p (Suc digits) (v * 10 + int (digit_val c))
      else (c # p, digits, v))"

text \<open>What follows the point: four digits, padded, and the fifth one rounds; its carry can leave the
  range of \<open>integerPart\<close>.\<close>

definition parse_fraction :: "string \<Rightarrow> int \<Rightarrow> c_fault + (string \<times> int \<times> int)" where
  "parse_fraction p integerPart =
     (let (p, digits, v) = frac_digits p 0 0;
          fractionalPart = v * 10 ^ (4 - digits)
      in if c_isdigit (peek p) then
           fbind (if digit_val (peek p) \<ge> 5 then
                    if fractionalPart + 1 \<ge> 10000 then
                      if integerPart = 9223372036854775807 then Inl SignedOverflow
                      else Inr (integerPart + 1, 0)
                    else Inr (integerPart, fractionalPart + 1)
                  else Inr (integerPart, fractionalPart))
             (\<lambda>(integerPart, fractionalPart). Inr (dropWhile c_isdigit p, integerPart, fractionalPart))
         else Inr (p, integerPart, fractionalPart))"

text \<open>The end of the string, the range of the whole part and the sign.\<close>

definition unit_of_parts :: "i64 option \<Rightarrow> bool \<Rightarrow> string \<times> int \<times> int \<Rightarrow> bool \<times> i64 option" where
  "unit_of_parts resultGdd negative parts =
     (case parts of (p, integerPart, fractionalPart) \<Rightarrow>
      if peek p \<noteq> NUL then (False, resultGdd)
      else if integerPart > 922337203685476 \<or> integerPart < - 922337203685476
      then (False, resultGdd)
      else
        let integerPart = (if negative then - integerPart else integerPart);
            fractionalPart = (if negative then - fractionalPart else fractionalPart)
        in (True, Some (word_of_int (integerPart * 10000 + fractionalPart))))"

definition grdd_unit_from_string :: "i64 option \<Rightarrow> string option \<Rightarrow> c_fault + (bool \<times> i64 option)" where
  "grdd_unit_from_string resultGdd gdd_string =
     (case gdd_string of None \<Rightarrow> Inr (False, resultGdd) | Some s \<Rightarrow>
      if resultGdd = None then Inr (False, resultGdd)
      else
        let negative = (peek s = CHR ''-''); p = (if negative then tl s else s);
            (integerPart, end_p) = strtoll p
        in if end_p = p \<and> peek p \<noteq> CHR ''.'' then Inr (False, resultGdd)
           else fbind (if peek end_p = CHR ''.'' then parse_fraction (tl end_p) integerPart
                       else Inr (end_p, integerPart, 0))
                  (\<lambda>parts. Inr (unit_of_parts resultGdd negative parts)))"

section \<open>Printing\<close>

definition put_uint64 :: "arnm_conv \<Rightarrow> string \<Rightarrow> nat \<Rightarrow> u64 \<Rightarrow> nat \<Rightarrow> c_fault + (nat \<times> string)" where
  "put_uint64 A buf i v sz =
     (let cs = uint64_to_string_known A v (word_of_nat sz)
      in fbind (mem_write buf i (cs @ [NUL])) (\<lambda>buf. Inr (length cs, buf)))"

text \<open>Precision zero: the whole part only.\<close>

definition to_string_whole :: "arnm_conv \<Rightarrow> string \<Rightarrow> nat \<Rightarrow> nat \<Rightarrow> u64 \<Rightarrow> c_fault + (int \<times> string)" where
  "to_string_whole A buf bufferSize cursor magnitude =
     (let integerPart = magnitude div 10000;
          sz = uint64_to_string_size A integerPart
      in if bufferSize < cursor + sz + 1 then Inr (int (cursor + sz), buf)
         else fbind (put_uint64 A buf cursor integerPart sz) (\<lambda>(n, buf). Inr (int (cursor + n), buf)))"

text \<open>Zeros in front of fewer than five digits.\<close>

definition pad_digits :: "string \<Rightarrow> nat \<Rightarrow> nat \<Rightarrow> c_fault + (nat \<times> string)" where
  "pad_digits buf cursor count =
     (if count < 5 then
        let padding = 5 - count
        in fbind (mem_move buf (padding + cursor) cursor (count + 1)) (\<lambda>buf.
           fbind (mem_set buf cursor CHR ''0'' padding) (\<lambda>buf. Inr (cursor + padding, buf)))
      else Inr (cursor, buf))"

text \<open>The last four digits moved up by one for the point, and the string cut to the precision.\<close>

definition insert_point :: "string \<Rightarrow> nat \<Rightarrow> nat \<Rightarrow> c_fault + (int \<times> string)" where
  "insert_point buf cursor precision =
     fbind (mem_move buf (cursor - 3) (cursor - 4) 5) (\<lambda>buf.
     let cursor = cursor + 1 in
     fbind (mem_write buf (cursor - 5) [CHR ''.'']) (\<lambda>buf.
     if precision \<noteq> 4 then
       let cursor = cursor - (4 - precision)
       in fbind (mem_write buf cursor [NUL]) (\<lambda>buf. Inr (int cursor, buf))
     else Inr (int cursor, buf)))"

definition to_string_places :: "arnm_conv \<Rightarrow> string \<Rightarrow> nat \<Rightarrow> nat \<Rightarrow> u64 \<Rightarrow> nat \<Rightarrow> c_fault + (int \<times> string)" where
  "to_string_places A buf bufferSize cursor magnitude precision =
     (let count = uint64_to_string_size A magnitude in
      if count < 5 \<and> bufferSize < cursor + 7 then Inr (int (cursor + 6), buf)
      else if bufferSize < cursor + count + 2 then Inr (int (cursor + count + 1), buf)
      else fbind (put_uint64 A buf cursor magnitude count) (\<lambda>(n, buf).
        if count \<noteq> n then Inr (-3, buf)
        else fbind (pad_digits buf cursor count) (\<lambda>(cursor, buf).
             insert_point buf (cursor + count) precision)))"

definition grdd_unit_to_string :: "arnm_conv \<Rightarrow> string option \<Rightarrow> nat \<Rightarrow> i64 \<Rightarrow> u8
    \<Rightarrow> c_fault + (int \<times> string option)" where
  "grdd_unit_to_string A buffer bufferSize value precision =
     (case buffer of None \<Rightarrow> Inr (-1, None) | Some buf \<Rightarrow>
      if bufferSize = 0 then Inr (-1, Some buf)
      else
        let precision = (if precision > 4 then 4 else precision) in
        (case grdd_unit_round_to_precision (Some 0) value precision of
          (True, Some rounded) \<Rightarrow>
            let negative = sint rounded < 0;
                magnitude = (if negative then - rounded else rounded);
                cursor = (if negative then 1 else 0)
            in fbind (if negative then mem_write buf 0 [CHR ''-''] else Inr buf) (\<lambda>buf.
               fbind (if precision = 0 then to_string_whole A buf bufferSize cursor magnitude
                      else to_string_places A buf bufferSize cursor magnitude (unat precision))
                 (\<lambda>(n, buf). Inr (n, Some buf)))
        | _ \<Rightarrow> Inr (-2, Some buf)))"

section \<open>The duration of a decay\<close>

definition grdd_unit_decay_start_time :: i64 where
  "grdd_unit_decay_start_time = DECAY_START_TIME"

definition grdd_unit_calculate_duration_seconds :: "i64 \<Rightarrow> i64 \<Rightarrow> i64 option \<Rightarrow> bool \<times> i64 option" where
  "grdd_unit_calculate_duration_seconds startTime endTime outSeconds =
     (if outSeconds = None then (False, outSeconds)
      else if sint startTime > sint endTime then (False, outSeconds)
      else
        let start = (if sint startTime > sint DECAY_START_TIME then startTime else DECAY_START_TIME);
            end_t = (if sint endTime > sint DECAY_START_TIME then endTime else DECAY_START_TIME)
        in (True, Some (if start = end_t then 0 else end_t - start)))"


section \<open>What rounding does\<close>

definition round_nat :: "nat \<Rightarrow> nat \<Rightarrow> nat" where
  "round_nat p m = (m + 10 ^ (4 - p) div 2) div 10 ^ (4 - p) * 10 ^ (4 - p)"

definition round_int :: "nat \<Rightarrow> int \<Rightarrow> int" where
  "round_int p v = (if v < 0 then - int (round_nat p (nat (- v))) else int (round_nat p (nat v)))"

lemma round_nat_4: "round_nat 4 m = m"
  by (simp add: round_nat_def)

lemma round_int_4: "round_int 4 v = v"
  by (simp add: round_int_def round_nat_4)

definition magnitude :: "i64 \<Rightarrow> u64" where
  "magnitude v = (if sint v < 0 then - v else v)"

lemma unat_magnitude: "unat (magnitude v) = nat \<bar>sint v\<bar>"
proof (cases "sint v < 0")
  case True
  then have "v \<noteq> 0" by auto
  then have u: "unat (- v) = 18446744073709551616 - unat v" by (simp add: unat_minus_word)
  have "uint v = sint v + 18446744073709551616"
    using True uint_lt_64 [of v] unfolding sint_64 by (simp split: if_splits)
  then have "int (unat v) = sint v + 18446744073709551616" by simp
  then have "int (18446744073709551616 - unat v) = - sint v"
    using unat_lt_64 [of v] by (simp add: of_nat_diff)
  then show ?thesis using True u by (simp add: magnitude_def)
next
  case False
  then have "0 \<le> sint v" by simp
  from sint_nonneg_unat [OF this] have "nat (sint v) = unat v" by simp
  then show ?thesis using False by (simp add: magnitude_def)
qed

lemma magnitude_bound: "unat (magnitude v) \<le> 9223372036854775808"
  using sint_64_range [of v] unfolding unat_magnitude by linarith

lemma sint_of_nat_64: "n < 9223372036854775808 \<Longrightarrow> unat w = n \<Longrightarrow> sint (w :: i64) = int n"
  using sint_nonneg_iff [of w] sint_nonneg_unat [of w] by auto

lemma sint_uminus_64:
  assumes "unat w < 9223372036854775808"
  shows "sint (- w :: i64) = - int (unat w)"
proof (cases "w = 0")
  case False
  then have "unat (- w) = 18446744073709551616 - unat w" by (simp add: unat_minus_word)
  then have e: "int (unat (- w)) = 18446744073709551616 - int (unat w)"
    using unat_lt_64 [of w] by (simp add: of_nat_diff)
  moreover have "0 < unat w" using False by (simp add: unat_gt_0)
  ultimately have "\<not> int (unat (- w)) < 9223372036854775808" using assms by linarith
  then show ?thesis using e unfolding sint_64 uint_unat by (simp only: if_False)
qed simp

lemma POW10_nat: "p < 4 \<Longrightarrow> unat (POW10 ! (4 - p)) = 10 ^ (4 - p)"
proof -
  assume "p < 4"
  then consider "p = 0" | "p = 1" | "p = 2" | "p = 3" by linarith
  then show ?thesis by cases (simp_all add: POW10_def)
qed

lemma round_nat_le: "round_nat p m \<le> m + 5000"
proof -
  have "round_nat p m \<le> m + 10 ^ (4 - p) div 2" by (simp add: round_nat_def)
  also have "10 ^ (4 - p) div 2 \<le> 10 ^ 4 div (2::nat)" by (intro div_le_mono power_increasing) simp_all
  finally show ?thesis by simp
qed

lemma round_to_precision_val:
  assumes "p \<le> 4"
  shows "grdd_unit_round_to_precision (Some r) v p =
    (if p = 4 then (True, Some v)
     else let m = round_nat (unat p) (unat (magnitude v)) in
       if 9223372036854775807 < m then (False, Some r)
       else (True, Some (if sint v < 0 then - word_of_nat m else word_of_nat m)))"
proof (cases "p = 4")
  case False
  then have p: "unat p < 4" using assms by (simp add: word_le_unat word_unat_eq_iff)
  define d :: u64 where "d = POW10 ! (4 - unat p)"
  have d: "unat d = 10 ^ (4 - unat p)" unfolding d_def by (rule POW10_nat [OF p])
  have "(10::nat) ^ (4 - unat p) \<le> 10 ^ 4" by (intro power_increasing) simp_all
  then have d4: "unat d \<le> 10000" by (simp add: d)
  let ?m = "round_nat (unat p) (unat (magnitude v))"
  have h: "unat (magnitude v + d div 2) = unat (magnitude v) + unat d div 2"
    using magnitude_bound [of v] d4 by (simp add: unat_word_ariths unat_div)
  have "round_nat (unat p) (unat (magnitude v)) < 18446744073709551616"
    using round_nat_le [of "unat p" "unat (magnitude v)"] magnitude_bound [of v] by simp
  then have r: "unat ((magnitude v + d div 2) div d * d) = ?m"
    by (subst unat_mult_small) (simp_all add: unat_div h round_nat_def d)
  then have w: "(magnitude v + d div 2) div d * d = word_of_nat ?m" by (simp add: r [symmetric])
  show ?thesis
    using False assms r p unfolding grdd_unit_round_to_precision_def
    by (simp add: Let_def d_def [symmetric] magnitude_def [symmetric] word_less_unat w [symmetric] not_less)
qed (simp add: grdd_unit_round_to_precision_def)

lemma round_to_precision_int:
  assumes "p \<le> 4"
  shows "grdd_unit_round_to_precision (Some r) v p =
    (if p \<noteq> 4 \<and> 9223372036854775807 < \<bar>round_int (unat p) (sint v)\<bar> then (False, Some r)
     else (True, Some (word_of_int (round_int (unat p) (sint v)))))"
proof -
  have m: "nat \<bar>round_int (unat p) (sint v)\<bar> = round_nat (unat p) (unat (magnitude v))"
    by (simp add: round_int_def unat_magnitude)
  then have "9223372036854775807 < \<bar>round_int (unat p) (sint v)\<bar>
     \<longleftrightarrow> 9223372036854775807 < round_nat (unat p) (unat (magnitude v))" by linarith
  moreover have "word_of_int (round_int (unat p) (sint v)) =
     (if sint v < 0 then - word_of_nat (round_nat (unat p) (unat (magnitude v)))
      else word_of_nat (round_nat (unat p) (unat (magnitude v))) :: i64)"
    by (simp add: round_int_def unat_magnitude)
  ultimately show ?thesis
    using assms by (cases "p = 4") (simp_all add: round_to_precision_val round_int_4 Let_def)
qed

section \<open>What printing writes\<close>

definition unit_text :: "nat \<Rightarrow> int \<Rightarrow> string" where
  "unit_text p v = (if v < 0 then ''-'' else '''') @ decimal (nat \<bar>v\<bar> div 10000)
     @ (if p = 0 then '''' else CHR ''.'' # take p (pad4 (nat \<bar>v\<bar>)))"

text \<open>The room the code asks for: the text with all four places, whatever the precision, but the
  whole part alone for precision zero.\<close>

definition unit_room :: "nat \<Rightarrow> int \<Rightarrow> nat" where
  "unit_room p v = length (unit_text (if p = 0 then 0 else 4) v)"

lemma mem_write_app [simp]:
  "i = length pre \<Longrightarrow> length cs \<le> length rest \<Longrightarrow>
    mem_write (pre @ rest) i cs = Inr (pre @ cs @ drop (length cs) rest)"
  by (simp add: mem_write_def)

lemma put_uint64_app:
  assumes "arnm_conv_ok A" "length (decimal (unat v)) < length rest"
  shows "put_uint64 A (pre @ rest) (length pre) v (length (decimal (unat v)))
    = Inr (length (decimal (unat v)), pre @ decimal (unat v) @ NUL # drop (Suc (length (decimal (unat v)))) rest)"
  using assms by (simp add: put_uint64_def arnm_conv_ok_def Let_def)

lemma length_pad4 [simp]: "length (pad4 n) = 4"
  by (simp add: pad4_def)

lemma to_string_whole_text:
  assumes "arnm_conv_ok A" "bufferSize \<le> length pre + length rest"
  shows "to_string_whole A (pre @ rest) bufferSize (length pre) m =
    (let t = decimal (unat m div 10000) in
     if bufferSize \<le> length pre + length t then Inr (int (length pre + length t), pre @ rest)
     else Inr (int (length pre + length t), pre @ t @ NUL # drop (Suc (length t)) rest))"
proof -
  have d: "unat (m div 10000) = unat m div 10000" by (simp add: unat_div)
  then have s: "uint64_to_string_size A (m div 10000) = length (decimal (unat m div 10000))"
    using assms(1) by (simp add: arnm_conv_ok_def)
  show ?thesis
  proof (cases "bufferSize \<le> length pre + length (decimal (unat m div 10000))")
    case False
    then have "length (decimal (unat (m div 10000))) < length rest" using assms(2) by (simp add: d)
    from put_uint64_app [OF assms(1) this, of pre] False show ?thesis
      by (simp add: to_string_whole_def Let_def s d)
  qed (simp add: to_string_whole_def Let_def s)
qed

lemma insert_point_text:
  assumes "length r1 = 4" "1 \<le> length r2" "p \<le> 4"
  shows "insert_point (pre @ r1 @ NUL # r2) (length pre + 4) p
   = Inr (int (length pre + 1 + p), pre @ CHR ''.'' # take p r1 @ NUL # drop (p + 1) (r1 @ NUL # drop 1 r2))"
proof -
  obtain a b c d where r1: "r1 = [a, b, c, d]"
    using assms(1) by (auto simp: numeral_eq_Suc length_Suc_conv)
  have "mem_move (pre @ r1 @ NUL # r2) (length pre + 4 - 3) (length pre + 4 - 4) 5
      = mem_write ((pre @ [a]) @ (b # c # d # NUL # r2)) (length (pre @ [a])) (r1 @ [NUL])"
    using assms(2) by (simp add: mem_move_def r1 del: mem_write_app)
  also have "\<dots> = Inr (pre @ [a] @ r1 @ NUL # drop 1 r2)"
    using assms(2) by (subst mem_write_app) (simp_all add: r1)
  finally have move: "mem_move (pre @ r1 @ NUL # r2) (length pre + 4 - 3) (length pre + 4 - 4) 5
      = Inr (pre @ [a] @ r1 @ NUL # drop 1 r2)" .
  have dot: "mem_write (pre @ [a] @ r1 @ NUL # drop 1 r2) (length pre + 4 + 1 - 5) [CHR ''.'']
      = Inr (pre @ CHR ''.'' # r1 @ NUL # drop 1 r2)"
    by (subst mem_write_app) simp_all
  have q: "pre @ CHR ''.'' # r1 @ NUL # drop 1 r2
      = (pre @ CHR ''.'' # take p r1) @ drop p r1 @ NUL # drop 1 r2"
    by (metis append.assoc append_Cons append_take_drop_id)
  have i: "length pre + 4 + 1 - (4 - p) = length (pre @ CHR ''.'' # take p r1)"
    using assms(1,3) by simp
  have "drop (p + 1) (r1 @ NUL # drop 1 r2) = drop 1 (drop p r1 @ NUL # drop 1 r2)"
    using assms(1,3) by simp
  then have cut: "mem_write (pre @ CHR ''.'' # r1 @ NUL # drop 1 r2) (length pre + 4 + 1 - (4 - p)) [NUL]
      = Inr (pre @ CHR ''.'' # take p r1 @ NUL # drop (p + 1) (r1 @ NUL # drop 1 r2))"
    unfolding q i by (subst mem_write_app) simp_all
  show ?thesis
  proof (cases "p = 4")
    case True
    then show ?thesis using assms(1) unfolding insert_point_def move fbind_simps Let_def dot by simp
  next
    case False
    then show ?thesis using assms(3) unfolding insert_point_def move fbind_simps Let_def dot cut by simp
  qed
qed

text \<open>The digits with their zeros: at least five of them.\<close>

definition digits5 :: "nat \<Rightarrow> string" where
  "digits5 m = decimal (m div 10000) @ pad4 m"

lemma digits5_padded:
  assumes "m < 10000"
  shows "replicate (5 - length (decimal m)) CHR ''0'' @ decimal m = digits5 m"
proof -
  have z: "digit_char 0 = CHR ''0''" by code_simp
  have "length (decimal m) \<le> 4" using decimal_length_le [of m 4] assms by simp
  then have "5 - length (decimal m) = Suc (4 - length (decimal m))" by simp
  then show ?thesis
    using decimal_pad4 [OF assms] assms by (simp add: digits5_def decimal.simps [of 0] z)
qed

lemma pad_digits_short:
  assumes "length (decimal m) < 5" "7 \<le> length rest"
  shows "pad_digits (pre @ decimal m @ NUL # drop (Suc (length (decimal m))) rest) (length pre) (length (decimal m))
    = Inr (length pre + (5 - length (decimal m)), pre @ digits5 m @ NUL # drop 6 rest)"
proof -
  define n where "n = length (decimal m)"
  define k where "k = 5 - n"
  have n: "0 < n" "n + k = 5" using assms(1) decimal_length_pos [of m] by (simp_all add: n_def k_def)
  have "\<not> 10 ^ 4 \<le> m" using decimal_length_gt [of 4 m] assms(1) by linarith
  then have m: "m < 10000" by simp
  define b where "b = decimal m @ NUL # drop (Suc n) rest"
  have lb: "length b = length rest" and tb: "take (n + 1) b = decimal m @ [NUL]"
    using assms(2) n by (simp_all add: n_def b_def)
  have db: "drop (n + 1) (drop k b) = drop 6 rest"
  proof -
    have "drop (n + 1) b = drop (n + 1) rest" by (simp add: b_def n_def)
    then have "drop k (drop (n + 1) b) = drop (k + n + 1) rest" by (simp add: add.assoc)
    moreover have "k + n + 1 = 6" using n by simp
    ultimately show ?thesis by (simp add: add.commute [of k])
  qed
  have "mem_move (pre @ b) (k + length pre) (length pre) (n + 1)
      = mem_write (pre @ b) (length pre + k) (decimal m @ [NUL])"
    using assms(2) n tb by (auto simp add: mem_move_def lb add.commute simp del: mem_write_app)
  also have "\<dots> = mem_write ((pre @ take k b) @ drop k b) (length (pre @ take k b)) (decimal m @ [NUL])"
    using lb n assms(2) by (simp add: min_def del: mem_write_app)
  also have "\<dots> = Inr ((pre @ take k b) @ (decimal m @ [NUL]) @ drop (n + 1) (drop k b))"
    using lb n assms(2) by (subst mem_write_app) (simp_all add: n_def)
  finally have 1: "mem_move (pre @ b) (k + length pre) (length pre) (n + 1)
     = Inr (pre @ take k b @ (decimal m @ [NUL]) @ drop 6 rest)" by (simp only: db append.assoc)
  have lk: "length (take k b) = k" using lb n assms(2) by simp
  have "mem_set (pre @ take k b @ (decimal m @ [NUL]) @ drop 6 rest) (length pre) CHR ''0'' k
      = Inr (pre @ replicate k CHR ''0'' @ (decimal m @ [NUL]) @ drop 6 rest)"
    unfolding mem_set_def using lk by (subst mem_write_app) simp_all
  moreover have "replicate k CHR ''0'' @ decimal m = digits5 m"
    using digits5_padded [OF m] by (simp add: k_def n_def)
  then have "replicate k CHR ''0'' @ (decimal m @ [NUL]) @ drop 6 rest = digits5 m @ NUL # drop 6 rest"
    by (metis append.assoc append_Cons append_Nil)
  ultimately show ?thesis using 1 assms(1) by (simp add: k_def n_def b_def pad_digits_def)
qed

lemma to_string_places_text:
  assumes "arnm_conv_ok A" "bufferSize \<le> length pre + length rest" "0 < p" "p \<le> 4"
  shows "to_string_places A (pre @ rest) bufferSize (length pre) m p =
    (let t = decimal (unat m div 10000) @ CHR ''.'' # take p (pad4 (unat m));
         room = length (decimal (unat m div 10000)) + 5 in
     if bufferSize \<le> length pre + room then Inr (int (length pre + room), pre @ rest)
     else Inr (int (length pre + length t), pre @ t @ NUL #
       drop (p + 1) (pad4 (unat m) @ NUL # drop (room + 1) rest)))"
proof -
  define n where "n = length (decimal (unat m))"
  define D where "D = decimal (unat m div 10000)"
  have s: "uint64_to_string_size A m = n" using assms(1) by (simp add: arnm_conv_ok_def n_def)
  have lD: "length D + 4 = (if n < 5 then 5 else n)"
  proof (cases "unat m < 10000")
    case True
    then show ?thesis
      using decimal_length_le [of "unat m" 4] by (simp add: n_def D_def decimal.simps [of 0])
  next
    case False
    then show ?thesis using decimal_split4 [of "unat m"] decimal_length_gt [of 4 "unat m"]
      by (simp add: n_def D_def)
  qed
  show ?thesis
  proof (cases "bufferSize \<le> length pre + (length D + 5)")
    case True
    then have "n < 5 \<and> bufferSize < length pre + 7 \<or> \<not> n < 5 \<and> bufferSize < length pre + n + 2"
      using lD by (auto split: if_splits)
    then show ?thesis
      using True lD by (auto simp: to_string_places_def Let_def s D_def [symmetric])
  next
    case False
    then have big: "\<not> (n < 5 \<and> bufferSize < length pre + 7)" "\<not> bufferSize < length pre + n + 2"
      "n < length rest" "n < 5 \<Longrightarrow> 7 \<le> length rest" "length D + 6 \<le> length rest"
      using lD assms(2) by (auto split: if_splits)
    let ?r = "drop (length D + 5) rest" and ?c = "length pre + (if n < 5 then 5 - n else 0)"
    have put: "put_uint64 A (pre @ rest) (length pre) m n
        = Inr (n, pre @ decimal (unat m) @ NUL # drop (Suc n) rest)"
      using put_uint64_app [OF assms(1), of m rest pre] big(3) by (simp add: n_def)
    have pad: "pad_digits (pre @ decimal (unat m) @ NUL # drop (Suc n) rest) (length pre) n
       = Inr (?c, (pre @ D) @ pad4 (unat m) @ NUL # ?r)"
    proof (cases "n < 5")
      case True
      then have "drop 6 rest = ?r" using lD by simp
      then show ?thesis using pad_digits_short [of "unat m" rest pre] True big(4)
        by (simp add: n_def digits5_def D_def)
    next
      case f: False
      then have "10000 \<le> unat m"
        using decimal_length_le [of "unat m" 4] by (cases "unat m < 10000") (simp_all add: n_def)
      moreover have "Suc n = length D + 5" using lD f by simp
      then have "drop (Suc n) rest = ?r" by (simp only:)
      ultimately show ?thesis using f decimal_split4 by (simp add: D_def pad_digits_def)
    qed
    have cur: "?c + n = length (pre @ D) + 4"
      using lD by (auto split: if_splits)
    have "1 \<le> length ?r" using big(5) by simp
    note pt = insert_point_text [OF length_pad4 this assms(4), of "pre @ D" "unat m"]
    have "to_string_places A (pre @ rest) bufferSize (length pre) m p
        = insert_point ((pre @ D) @ pad4 (unat m) @ NUL # ?r) (?c + n) p"
      unfolding to_string_places_def Let_def s if_not_P [OF big(1)] if_not_P [OF big(2)] put fbind_simps
        prod.case pad by simp
    then show ?thesis unfolding cur pt
      using False assms(4) by (simp add: Let_def D_def [symmetric])
  qed
qed


lemma length_unit_text: "p \<le> 4 \<Longrightarrow> length (unit_text p v)
    = (if v < 0 then 1 else 0) + length (decimal (nat \<bar>v\<bar> div 10000)) + (if p = 0 then 0 else p + 1)"
  by (simp add: unit_text_def)

lemma unit_room_le: "unit_room p v \<le> length (decimal (nat \<bar>v\<bar> div 10000)) + 6"
  by (simp add: unit_room_def length_unit_text)

text \<open>What a call does once the value is rounded: the text and a terminator in the buffer, or the
  size it needs and nothing but the sign written.\<close>

lemma to_string_text:
  assumes "arnm_conv_ok A" "0 < bufferSize" "bufferSize \<le> length buf"
    and "grdd_unit_round_to_precision (Some 0) v (min p 4) = (True, Some r)"
  defines "q \<equiv> unat (min p 4)"
  shows "if unit_room q (sint r) < bufferSize
    then \<exists>tl. grdd_unit_to_string A (Some buf) bufferSize v p =
        Inr (int (length (unit_text q (sint r))), Some (unit_text q (sint r) @ NUL # tl))
        \<and> length (unit_text q (sint r) @ NUL # tl) = length buf
    else \<exists>buf'. grdd_unit_to_string A (Some buf) bufferSize v p =
        Inr (int (unit_room q (sint r)), Some buf') \<and> length buf' = length buf"
proof -
  define neg where "neg \<longleftrightarrow> sint r < 0"
  define pre rest where "pre = (if neg then ''-'' else '''')" "rest = (if neg then tl buf else buf)"
  note pr = this
  have m: "(if neg then - r else r) = magnitude r" by (simp add: magnitude_def neg_def)
  have mi: "unat (magnitude r) = nat \<bar>sint r\<bar>" by (rule unat_magnitude)
  have w: "(if neg then mem_write buf 0 [CHR ''-''] else Inr buf) = Inr (pre @ rest)"
    using assms(2,3) by (cases buf) (simp_all add: pr mem_write_def)
  have lp: "length pre + length rest = length buf" using assms(2,3) by (cases buf) (simp_all add: pr)
  have cur: "(if neg then 1 else 0) = length pre" by (simp add: pr)
  have p4: "(if 4 < p then 4 else p) = min p 4"
    unfolding min_def not_le [symmetric] by simp
  have q4: "q \<le> 4" unfolding q_def by (simp add: min_def word_le_unat)
  let ?body = "if q = 0 then to_string_whole A (pre @ rest) bufferSize (length pre) (magnitude r)
     else to_string_places A (pre @ rest) bufferSize (length pre) (magnitude r) q"
  have q0: "min p 4 = 0 \<longleftrightarrow> q = 0" by (simp only: q_def unat_eq_zero)
  have e: "grdd_unit_to_string A (Some buf) bufferSize v p = fbind ?body (\<lambda>(n, buf). Inr (n, Some buf))"
    using assms(2) unfolding grdd_unit_to_string_def option.case Let_def p4 assms(4) prod.case bool.case
      neg_def [symmetric] m cur w fbind_simps q0 q_def [symmetric] by simp
  show ?thesis
  proof (cases "q = 0")
    case True
    show ?thesis
      using to_string_whole_text [OF assms(1), of bufferSize pre rest "magnitude r"] assms(3) lp True
      by (auto simp: e unit_room_def unit_text_def mi pr neg_def Let_def)
  next
    case False
    then have "0 < q" by simp
    from to_string_places_text [OF assms(1) _ this q4, of bufferSize pre rest "magnitude r"] assms(3) lp False q4
    show ?thesis
      by (auto simp: e unit_room_def unit_text_def mi pr neg_def Let_def)
  qed
qed


section \<open>What parsing reads\<close>

definition digits :: "string \<Rightarrow> bool" where
  "digits ds = list_all c_isdigit ds"

text \<open>The nearest unit to the decimal number \<open>ds.fs\<close>, halves up.\<close>

definition nearest_unit :: "string \<Rightarrow> string \<Rightarrow> nat" where
  "nearest_unit ds fs =
     (digits_val 0 (ds @ fs) * 20000 + 10 ^ length fs) div (2 * 10 ^ length fs)"

lemma digits_val_acc: "digits_val n ds = n * 10 ^ length ds + digits_val 0 ds"
proof (induction ds arbitrary: n)
  case (Cons d ds)
  show ?case
    using Cons [of "n * 10 + digit_val d"] Cons [of "digit_val d"] by (simp add: algebra_simps)
qed simp

lemma digit_val_le: "c_isdigit c \<Longrightarrow> digit_val c \<le> 9"
  by (auto simp: c_isdigit_def digit_val_def)

lemma digits_val_less: "digits ds \<Longrightarrow> digits_val 0 ds < 10 ^ length ds"
proof (induction ds)
  case (Cons d ds)
  then have "digit_val d \<le> 9" "digits_val 0 ds < 10 ^ length ds"
    using digit_val_le [of d] by (simp_all add: digits_def)
  then have "digit_val d * 10 ^ length ds + digits_val 0 ds < 9 * 10 ^ length ds + 10 ^ length ds"
    by (intro add_le_less_mono mult_le_mono1)
  then show ?case using digits_val_acc [of "digit_val d" ds] by simp
qed simp

lemma takeWhile_digits: "digits ds \<Longrightarrow> \<not> c_isdigit (peek q) \<Longrightarrow>
    takeWhile c_isdigit (ds @ q) = ds \<and> dropWhile c_isdigit (ds @ q) = q"
  by (induction ds) (auto simp: digits_def peek_def split: list.splits)

lemma isdigit_props: "c_isdigit c \<Longrightarrow> \<not> c_isspace c \<and> c \<noteq> CHR ''-'' \<and> c \<noteq> CHR ''+'' \<and> c \<noteq> CHR ''.'' \<and> c \<noteq> NUL"
  by (auto simp: c_isdigit_def c_isspace_def NUL_def)

lemma isdigit_marks [simp]: "\<not> c_isdigit CHR ''.''" "\<not> c_isdigit NUL" "\<not> c_isspace CHR ''-''"
  by (simp_all add: c_isdigit_def c_isspace_def NUL_def)

lemma strtoll_digits:
  assumes "digits ds" "ds \<noteq> []" "\<not> c_isdigit (peek q)"
  shows "strtoll (ds @ q) = (min 9223372036854775807 (int (digits_val 0 ds)), q)"
proof -
  obtain d ds' where ds: "ds = d # ds'" using assms(2) by (cases ds) auto
  then have "c_isdigit d" using assms(1) by (simp add: digits_def)
  note p = isdigit_props [OF this]
  have "dropWhile c_isspace (ds @ q) = ds @ q" "strtoll_sign (ds @ q) = (False, ds @ q)"
    using p by (simp_all add: ds strtoll_sign_def)
  then show ?thesis
    using takeWhile_digits [OF assms(1,3)] assms(2) by (simp add: strtoll_def Let_def)
qed

lemma frac_digits_take:
  "digits fs \<Longrightarrow> n \<le> 4 \<Longrightarrow> \<not> c_isdigit (peek q) \<Longrightarrow>
    frac_digits (fs @ q) n v = (drop (4 - n) fs @ q, min 4 (n + length fs),
      v * 10 ^ length (take (4 - n) fs) + int (digits_val 0 (take (4 - n) fs)))"
proof (induction fs arbitrary: n v)
  case Nil
  then show ?case by (cases q) (simp_all add: peek_def)
next
  case (Cons c fs)
  show ?case
  proof (cases "n = 4")
    case False
    then have n: "4 - n = Suc (4 - Suc n)" "Suc n \<le> 4" using Cons.prems by simp_all
    have "digits fs" "c_isdigit c" using Cons.prems by (simp_all add: digits_def)
    then show ?thesis
      using Cons.IH [of "Suc n" "v * 10 + int (digit_val c)"] n Cons.prems(3)
        digits_val_acc [of "digit_val c" "take (4 - Suc n) fs"]
      by (simp add: algebra_simps)
  qed simp
qed


text \<open>The first four digits with the fifth one rounding, the padding included.\<close>

definition round4 :: "string \<Rightarrow> nat" where
  "round4 fs = digits_val 0 (take 4 fs) * 10 ^ (4 - length fs)
     + (if 4 < length fs \<and> 5 \<le> digit_val (fs ! 4) then 1 else 0)"

lemma round_fifth:
  fixes a b X R :: nat
  assumes "R < X" "b \<le> 9"
  shows "(((a * 10 + b) * X + R) * 20000 + 100000 * X) div (200000 * X) = a + (if 5 \<le> b then 1 else 0)"
proof -
  define Y where "Y = b * X"
  have e: "((a * 10 + b) * X + R) * 20000 + 100000 * X = (20000 * Y + 20000 * R + 100000 * X) + a * (200000 * X)"
    by (simp add: Y_def algebra_simps)
  have "(20000 * Y + 20000 * R + 100000 * X) div (200000 * X) = (if 5 \<le> b then 1 else 0)"
  proof (cases "5 \<le> b")
    case True
    then have "5 * X \<le> Y" "Y \<le> 9 * X" unfolding Y_def using assms(2) by (simp_all del: One_nat_def)
    then show ?thesis using True assms(1) by (simp add: div_nat_eqI)
  next
    case False
    then have "Y \<le> 4 * X" unfolding Y_def by simp
    then show ?thesis using False assms(1) by simp
  qed
  then show ?thesis unfolding e using assms(1) by simp
qed

lemma round4_nearest:
  assumes "digits ds" "digits fs"
  shows "nearest_unit ds fs = digits_val 0 ds * 10000 + round4 fs"
proof -
  define n F D where "n = length fs" "F = digits_val 0 fs" "D = digits_val 0 ds"
  have N: "digits_val 0 (ds @ fs) = D * 10 ^ n + F"
    using digits_val_acc [of "digits_val 0 ds" fs] by (simp add: n_F_D_def)
  have E: "digits_val 0 (ds @ fs) * 20000 + 10 ^ n = (F * 20000 + 10 ^ n) + D * 10000 * (2 * 10 ^ n)"
    unfolding N by (simp add: algebra_simps)
  have "nearest_unit ds fs = ((F * 20000 + 10 ^ n) + D * 10000 * (2 * 10 ^ n)) div (2 * 10 ^ n)"
    unfolding nearest_unit_def n_F_D_def(1) [symmetric] E ..
  also have "\<dots> = D * 10000 + (F * 20000 + 10 ^ n) div (2 * 10 ^ n)"
    by (rule div_mult_self1) simp
  finally have split: "nearest_unit ds fs = D * 10000 + (F * 20000 + 10 ^ n) div (2 * 10 ^ n)" .
  show ?thesis
  proof (cases "n \<le> 4")
    case True
    then have "(10::nat) ^ 4 = 10 ^ n * 10 ^ (4 - n)" by (simp add: power_add [symmetric])
    then have "F * 20000 + 10 ^ n = 10 ^ n + F * 10 ^ (4 - n) * (2 * 10 ^ n)" by simp
    then have "(F * 20000 + 10 ^ n) div (2 * 10 ^ n) = (10 ^ n + F * 10 ^ (4 - n) * (2 * 10 ^ n)) div (2 * 10 ^ n)"
      by (simp only:)
    also have "\<dots> = F * 10 ^ (4 - n) + 10 ^ n div (2 * 10 ^ n)" by (rule div_mult_self1) simp
    finally have "(F * 20000 + 10 ^ n) div (2 * 10 ^ n) = F * 10 ^ (4 - n)" by simp
    then show ?thesis using True by (simp add: split round4_def n_F_D_def)
  next
    case False
    define f d rs where "f = take 4 fs" "d = fs ! 4" "rs = drop 5 fs"
    have fs: "fs = f @ d # rs"
      using False id_take_nth_drop [of 4 fs] unfolding f_d_rs_def n_F_D_def by simp
    have n: "n = 5 + length rs" using False by (simp add: f_d_rs_def n_F_D_def)
    have "digits (d # rs)" using assms(2) fs by (simp add: digits_def)
    then have R: "digits_val 0 rs < 10 ^ length rs" "digit_val d \<le> 9"
      using digits_val_less [of rs] digit_val_le [of d] by (simp_all add: digits_def)
    have F: "F = (digits_val 0 f * 10 + digit_val d) * 10 ^ length rs + digits_val 0 rs"
      using digits_val_acc [of "digits_val 0 f * 10 + digit_val d" rs]
      unfolding n_F_D_def by (subst fs) simp
    have "10 ^ n = 100000 * (10::nat) ^ length rs" "2 * 10 ^ n = 200000 * (10::nat) ^ length rs"
      by (simp_all add: n power_add)
    then have "(F * 20000 + 10 ^ n) div (2 * 10 ^ n) = digits_val 0 f + (if 5 \<le> digit_val d then 1 else 0)"
      unfolding F using round_fifth [OF R] by (simp only:)
    then show ?thesis using False unfolding split round4_def f_d_rs_def n_F_D_def by simp
  qed
qed


lemma round4_le:
  assumes "digits fs"
  shows "round4 fs \<le> 10000" "digits_val 0 (take 4 fs) * 10 ^ (4 - length fs) \<le> 9999"
proof -
  have "digits (take 4 fs)" using assms by (auto simp: digits_def list_all_iff dest: in_set_takeD)
  from digits_val_less [OF this] have "digits_val 0 (take 4 fs) < 10 ^ min 4 (length fs)" by (simp add: min.commute)
  then have "digits_val 0 (take 4 fs) * 10 ^ (4 - length fs) < 10 ^ min 4 (length fs) * 10 ^ (4 - length fs)"
    by (rule mult_strict_right_mono) simp
  also have "\<dots> = 10 ^ 4" by (simp add: power_add [symmetric] min_def)
  finally show *: "digits_val 0 (take 4 fs) * 10 ^ (4 - length fs) \<le> 9999" by simp
  then show "round4 fs \<le> 10000" by (auto simp: round4_def)
qed

lemma parse_fraction_digits:
  assumes "digits fs" "ip < 9223372036854775807"
  shows "parse_fraction fs ip =
    Inr ([], if round4 fs = 10000 then (ip + 1, 0) else (ip, int (round4 fs)))"
proof -
  let ?v = "digits_val 0 (take 4 fs) * 10 ^ (4 - length fs)"
  have np: "\<not> c_isdigit (peek [])" by (simp add: peek_def)
  have f: "frac_digits fs 0 0 = (drop 4 fs, min 4 (length fs), int (digits_val 0 (take 4 fs)))"
    using frac_digits_take [OF assms(1) _ np, of 0 0] by simp
  have pad: "(4::nat) - min 4 (length fs) = 4 - length fs" by (simp add: min_def)
  show ?thesis
  proof (cases "4 < length fs")
    case False
    then have "drop 4 fs = []" by simp
    then show ?thesis using round4_le [OF assms(1)] False
      by (simp add: parse_fraction_def f pad round4_def peek_def)
  next
    case True
    then have d: "drop 4 fs = fs ! 4 # drop 5 fs" using Cons_nth_drop_Suc [of 4 fs] by simp
    have dig: "c_isdigit (fs ! 4)" using assms(1) True by (simp add: digits_def list_all_length)
    have rest: "dropWhile c_isdigit (drop 4 fs) = []"
      using assms(1) by (auto simp: digits_def list_all_iff dest: in_set_dropD)
    show ?thesis using round4_le(2) [OF assms(1)] True dig assms(2)
      by (auto simp: parse_fraction_def f pad round4_def rest peek_def d [symmetric] simp del: dropWhile_eq_Nil_conv)
         (auto simp: d)
  qed
qed

lemma from_string_unsigned:
  assumes "digits ds" "ds \<noteq> []" "digits fs" "digits_val 0 ds < 9223372036854775807"
    and "q = (if fs = [] then '''' else CHR ''.'' # fs) \<or> q = CHR ''.'' # fs"
    and "s = (if negative then CHR ''-'' # ds @ q else ds @ q)"
  shows "grdd_unit_from_string (Some r) (Some s) =
    Inr (if nearest_unit ds fs \<le> 9223372036854769999
         then (True, Some (word_of_int (if negative then - int (nearest_unit ds fs) else int (nearest_unit ds fs))))
         else (False, Some r))"
proof -
  let ?u = "nearest_unit ds fs" and ?D = "digits_val 0 ds"
  obtain d ds' where ds: "ds = d # ds'" using assms(2) by (cases ds) auto
  then have d: "c_isdigit d" using assms(1) by (simp add: digits_def)
  note p = isdigit_props [OF d]
  have sign: "(peek s = CHR ''-'') = negative" "(if negative then tl s else s) = ds @ q"
    using p by (simp_all add: assms(6) peek_def ds)
  have nq: "\<not> c_isdigit (peek q)" using assms(5) by (auto simp: peek_def split: if_splits)
  have st: "strtoll (ds @ q) = (int ?D, q)"
    using strtoll_digits [OF assms(1,2) nq] assms(4) by simp
  have neq: "q \<noteq> ds @ q" using ds by simp
  define ipf where "ipf = (if round4 fs = 10000 then (int ?D + 1, 0) else (int ?D, int (round4 fs)))"
  have frac: "(if peek q = CHR ''.'' then parse_fraction (tl q) (int ?D) else Inr (q, int ?D, 0)) = Inr ([], ipf)"
  proof (cases "peek q = CHR ''.''")
    case True
    then have "q = CHR ''.'' # fs" using assms(5) by (auto simp: peek_def NUL_def split: if_splits)
    then show ?thesis using True parse_fraction_digits [OF assms(3), of "int ?D"] assms(4) by (simp add: ipf_def)
  next
    case False
    then have "q = [] \<and> fs = []" using assms(5) by (auto simp: peek_def split: if_splits)
    then show ?thesis using False by (simp add: ipf_def round4_def)
  qed
  have e: "grdd_unit_from_string (Some r) (Some s) = Inr (unit_of_parts (Some r) negative ([], ipf))"
    unfolding grdd_unit_from_string_def option.case Let_def sign st prod.case frac fbind_simps
    using neq by simp
  have u: "?u = ?D * 10000 + round4 fs" by (rule round4_nearest [OF assms(1,3)])
  have le: "round4 fs \<le> 10000" by (rule round4_le(1) [OF assms(3)])
  have ip: "fst ipf * 10000 + snd ipf = int ?u" "\<not> fst ipf < - 922337203685476"
    "fst ipf \<le> 922337203685476 \<longleftrightarrow> ?u \<le> 9223372036854769999"
    using u le by (auto simp: ipf_def)
  have "unit_of_parts (Some r) negative ([], ipf) =
     (if fst ipf \<le> 922337203685476
      then (True, Some (word_of_int (if negative then - (fst ipf * 10000 + snd ipf) else fst ipf * 10000 + snd ipf)))
      else (False, Some r))"
    using ip(2) by (cases ipf) (simp add: unit_of_parts_def peek_def Let_def algebra_simps)
  then show ?thesis unfolding e ip(1,3) by simp
qed

lemma pad4_digits: "digits (pad4 n)"
  by (simp add: digits_def pad4_def)

lemma pad4_val: "digits_val 0 (pad4 n) = n mod 10000"
proof -
  have "n mod 10000 = n div 1000 mod 10 * 1000 + n div 100 mod 10 * 100 + n div 10 mod 10 * 10 + n mod 10"
    using mod_mult2_eq [of n 10 1000] mod_mult2_eq [of "n div 10" 10 100] mod_mult2_eq [of "n div 100" 10 10]
    by (simp add: div_mult2_eq [symmetric])
  then show ?thesis by (simp add: pad4_def algebra_simps)
qed

lemma nearest_unit_exact: "nearest_unit (decimal (n div 10000)) (pad4 n) = n"
proof -
  have "digits (decimal m)" for m using decimal_isdigit by (simp add: digits_def list_all_iff)
  from round4_nearest [OF this pad4_digits] show ?thesis
    by (simp add: round4_def pad4_val)
qed

section \<open>Properties of amounts\<close>

lemma round_nat_near:
  fixes m :: nat
  assumes "even d" "0 < d"
  shows "m \<le> (m + d div 2) div d * d + d div 2" "(m + d div 2) div d * d \<le> m + d div 2"
proof -
  have "m + d div 2 = (m + d div 2) div d * d + (m + d div 2) mod d" by simp
  moreover have "(m + d div 2) mod d < d" using assms(2) by simp
  moreover have "d = d div 2 + d div 2" using assms(1) by presburger
  ultimately show "m \<le> (m + d div 2) div d * d + d div 2" by linarith
  show "(m + d div 2) div d * d \<le> m + d div 2" by simp
qed

lemma round_int_near:
  assumes "p \<le> 4"
  shows "10 ^ (4 - p) dvd round_int p v" "2 * \<bar>round_int p v - v\<bar> \<le> 10 ^ (4 - p)"
proof -
  have "int (10 ^ (4 - p)) dvd int (round_nat p m)" for m
    unfolding int_dvd_int_iff by (simp add: round_nat_def)
  then have "(10 :: int) ^ (4 - p) dvd int (round_nat p m)" for m by simp
  then show "10 ^ (4 - p) dvd round_int p v" by (simp add: round_int_def)
  have near: "2 * \<bar>int (round_nat p m) - int m\<bar> \<le> 10 ^ (4 - p)" for m
  proof (cases "p = 4")
    case False
    then obtain k where k: "4 - p = Suc k" using assms by (cases "4 - p") auto
    define d where "d = (10::nat) ^ (4 - p)"
    have d: "even d" "0 < d" by (simp_all add: d_def k)
    obtain h where h: "d = 2 * h" using d(1) by (elim evenE)
    have "m \<le> round_nat p m + d div 2" "round_nat p m \<le> m + d div 2"
      using round_nat_near [OF d, of m] unfolding round_nat_def d_def [symmetric] by simp_all
    then have "2 * \<bar>int (round_nat p m) - int m\<bar> \<le> int d" unfolding h by (simp add: abs_le_iff)
    then show ?thesis by (simp add: d_def)
  qed (simp add: round_nat_4)
  show "2 * \<bar>round_int p v - v\<bar> \<le> 10 ^ (4 - p)"
    using near [of "nat v"] near [of "nat (- v)"]
    by (cases "v < 0") (simp_all add: round_int_def abs_if split: if_splits)
qed

lemma round_to_precision_sint:
  assumes "p \<le> 4" "grdd_unit_round_to_precision (Some r0) v p = (True, Some r)"
  shows "sint r = round_int (unat p) (sint v)"
proof (cases "p = 4")
  case True
  then show ?thesis using assms by (simp add: round_to_precision_val round_int_4)
next
  case False
  then have b: "\<bar>round_int (unat p) (sint v)\<bar> \<le> 9223372036854775807"
    and r: "r = word_of_int (round_int (unat p) (sint v))"
    using assms by (auto simp: round_to_precision_int split: if_splits)
  show ?thesis unfolding r using b
    by (intro sint_word_of_int_64) simp_all
qed





text \<open>C7: Printing: for every value the rounding accepts, a buffer of at least the claimed size and
  a number conversion that writes the decimal digits, no byte outside the buffer is touched; the
  buffer holds exactly the amount with the sign, the point and the places asked for, terminated, and
  its length is returned; a buffer that is too small is refused with the length it needs.\<close>

theorem to_string_exact:
  assumes "arnm_conv_ok A" "0 < bufferSize" "bufferSize \<le> length buf"
    and "grdd_unit_round_to_precision (Some 0) v (min p 4) = (True, Some r)"
    and "t = unit_text (unat (min p 4)) (sint r)" and "room = unit_room (unat (min p 4)) (sint r)"
  shows "\<exists>n buf'. grdd_unit_to_string A (Some buf) bufferSize v p = Inr (int n, Some buf')
    \<and> length buf' = length buf
    \<and> (if room < bufferSize then n = length t \<and> take (n + 1) buf' = t @ [NUL] else n = room)"
proof (cases "room < bufferSize")
  case True
  then obtain rest where "grdd_unit_to_string A (Some buf) bufferSize v p = Inr (int (length t), Some (t @ NUL # rest))"
    "length (t @ NUL # rest) = length buf"
    using to_string_text [OF assms(1-4)] unfolding assms(5,6) by auto
  then show ?thesis using True by auto
next
  case False
  then show ?thesis using to_string_text [OF assms(1-4)] unfolding assms(5,6) by auto
qed

theorem to_string_exact_witness:
  "\<exists>n buf'. grdd_unit_to_string decimal_conv (Some (replicate 9 CHR ''x'')) 9 (- 12345) 2 = Inr (int n, Some buf')
    \<and> length buf' = 9 \<and> n = 5 \<and> take 6 buf' = ''-1.23'' @ [NUL]"
proof -
  have m: "min (2 :: u8) 4 = 2" by (simp add: min_def)
  have r: "grdd_unit_round_to_precision (Some 0) (- 12345) (min 2 4) = (True, Some (- 12300))"
    by (simp add: m grdd_unit_round_to_precision_def POW10_def)
  have c: "digit_char 1 = CHR ''1''" "digit_char 2 = CHR ''2''" "digit_char 3 = CHR ''3''" by code_simp+
  have t: "unit_text (unat (min (2 :: u8) 4)) (sint (- 12300 :: i64)) = ''-1.23''"
    using c by (simp add: m unit_text_def pad4_def decimal.simps)
  have "unit_room (unat (min (2 :: u8) 4)) (sint (- 12300 :: i64)) = 7"
    using c by (simp add: m unit_room_def unit_text_def pad4_def decimal.simps)
  then show ?thesis
    using to_string_exact [OF decimal_conv_ok _ _ r refl refl, of 9 "replicate 9 CHR ''x''"] t
    by (auto simp: numeral_eq_Suc)
qed

text \<open>C8: What is printed with four places is read back as the same amount, for every amount up to
  922337203685476.9999 Gradido in magnitude.\<close>

theorem string_roundtrip:
  assumes "arnm_conv_ok A" "\<bar>sint v\<bar> \<le> 9223372036854769999" "24 \<le> length buf"
    and "grdd_unit_to_string A (Some buf) (length buf) v 4 = Inr (n, Some buf')"
  shows "grdd_unit_from_string (Some r) (Some (c_string buf')) = Inr (True, Some v)"
proof -
  let ?m = "nat \<bar>sint v\<bar>" and ?t = "unit_text 4 (sint v)"
  have m4: "min (4 :: u8) 4 = 4" by simp
  have r: "grdd_unit_round_to_precision (Some 0) v (min 4 4) = (True, Some v)"
    by (simp add: grdd_unit_round_to_precision_def)
  have "?m div 10000 < 10 ^ 15" using assms(2) by simp
  then have "length (decimal (?m div 10000)) \<le> 15" by (rule decimal_length_le) simp
  then have l: "unit_room 4 (sint v) < length buf"
    using assms(3) unit_room_le [of 4 "sint v"] by linarith
  have dig: "digits (decimal k)" for k using decimal_isdigit by (simp add: digits_def list_all_iff)
  obtain rest where "buf' = ?t @ NUL # rest"
    using to_string_text [OF assms(1), of "length buf" buf v 4 v] r l assms(3,4) by fastforce
  moreover have nn: "digits cs \<Longrightarrow> \<forall>c \<in> set cs. c \<noteq> NUL" for cs
    unfolding digits_def list_all_iff using isdigit_props by blast
  have "\<forall>c \<in> set ?t. c \<noteq> NUL"
    using nn [OF dig] nn [OF pad4_digits] by (auto simp: unit_text_def NUL_def)
  ultimately have s: "c_string buf' = ?t" by (simp add: c_string_def takeWhile_append)
  have n: "nearest_unit (decimal (?m div 10000)) (pad4 ?m) = ?m" by (rule nearest_unit_exact)
  have D: "digits_val 0 (decimal (?m div 10000)) < 9223372036854775807" using assms(2) by simp
  have "grdd_unit_from_string (Some r) (Some ?t) =
      Inr (True, Some (word_of_int (if sint v < 0 then - int ?m else int ?m)))"
    using from_string_unsigned [OF dig _ pad4_digits D disjI2 [OF refl] refl, of r "sint v < 0"] n assms(2)
    by (cases "sint v < 0") (simp_all add: unit_text_def)
  moreover have "(if sint v < 0 then - int ?m else int ?m) = sint v" by simp
  ultimately show ?thesis unfolding s by simp
qed

theorem string_roundtrip_witness:
  "\<exists>n buf'. grdd_unit_to_string decimal_conv (Some (replicate 24 CHR ''x'')) 24 (- 7) 4 = Inr (n, Some buf')
    \<and> grdd_unit_from_string (Some 0) (Some (c_string buf')) = Inr (True, Some (- 7))"
proof -
  have r: "grdd_unit_round_to_precision (Some 0) (- 7) (min 4 4) = (True, Some (- 7))"
    by (simp add: grdd_unit_round_to_precision_def)
  have "length (replicate 24 CHR ''x'') = 24" by (rule length_replicate)
  then obtain n buf' where
    "grdd_unit_to_string decimal_conv (Some (replicate 24 CHR ''x'')) (length (replicate 24 CHR ''x'')) (- 7) 4 = Inr (n, Some buf')"
    using to_string_text [OF decimal_conv_ok _ order_refl r, of "replicate 24 CHR ''x''"] by (auto split: if_splits)
  from string_roundtrip [OF decimal_conv_ok _ _ this, of 0] this show ?thesis by auto
qed

text \<open>C11: The seconds that count for the decay are those of the interval that lie after its start
  time; they never overflow and are never negative, and an interval that ends before it begins is
  refused with the result untouched.\<close>

theorem duration_seconds_exact:
  "grdd_unit_calculate_duration_seconds s e (Some d) =
     (if sint s > sint e then (False, Some d)
      else (True, Some (word_of_int (max (sint e) 1620927991 - max (sint s) 1620927991))))
   \<and> (sint s \<le> sint e \<longrightarrow> (\<exists>r. grdd_unit_calculate_duration_seconds s e (Some d) = (True, Some r)
        \<and> sint r = max (sint e) 1620927991 - max (sint s) 1620927991 \<and> 0 \<le> sint r))"
proof -
  have D: "sint DECAY_START_TIME = 1620927991" by (simp add: DECAY_START_TIME_def)
  let ?s = "if sint s > sint DECAY_START_TIME then s else DECAY_START_TIME"
  let ?e = "if sint e > sint DECAY_START_TIME then e else DECAY_START_TIME"
  have m: "sint ?s = max (sint s) 1620927991" "sint ?e = max (sint e) 1620927991"
    by (simp_all add: D max_def)
  have "(if x = y then 0 else y - x) = word_of_int (sint y - sint x)" for x y :: i64 by simp
  from this [of ?s ?e] have v: "(if ?s = ?e then 0 else ?e - ?s)
      = word_of_int (max (sint e) 1620927991 - max (sint s) 1620927991)" by (simp only: m)
  have 1: "grdd_unit_calculate_duration_seconds s e (Some d) =
     (if sint s > sint e then (False, Some d)
      else (True, Some (word_of_int (max (sint e) 1620927991 - max (sint s) 1620927991))))"
    unfolding v [symmetric] by (simp add: grdd_unit_calculate_duration_seconds_def Let_def)
  have 2: "sint (word_of_int (max (sint e) 1620927991 - max (sint s) 1620927991) :: i64)
      = max (sint e) 1620927991 - max (sint s) 1620927991"
    using sint_64_range [of s] sint_64_range [of e] by (intro sint_word_of_int_64) auto
  show ?thesis using 1 2 by (auto simp del: of_int_diff)
qed

theorem duration_seconds_exact_witness:
  "grdd_unit_calculate_duration_seconds 0 1620927999 (Some 0) = (True, Some 8)"
  using duration_seconds_exact [of 0 1620927999 0] by simp

end
