(* ===== verification/GRD_Data.thy ===== *)
theory GRD_Data
  imports GRD_Prelude
begin

text \<open>
  The data the components share: the enumerations of \<open>types/\<close>, the records of \<open>data/\<close> and
  \<open>data/runtime/complete_transaction.h\<close> with the reading calls of \<open>complete_transaction.c\<close>, and the
  comparisons on bytes. An enumeration is the 32 bit value it is in memory, since the code checks its
  range; an array of bytes is a list; a pointer that may be \<open>NULL\<close> is an option. The members of the
  two unions of a transaction are separate fields, each read behind a test of \<open>transaction_type\<close>.
\<close>

section \<open>Enumerations\<close>

type_synonym grdt_transaction = u32
type_synonym grdt_address = u32
type_synonym grdt_cross_group = u32
type_synonym grdt_ledger_anchor = u32
type_synonym grdt_memo_key = u32

abbreviation GRDT_TRANSACTION_NONE :: grdt_transaction where "GRDT_TRANSACTION_NONE \<equiv> 0"
abbreviation GRDT_TRANSACTION_CREATION :: grdt_transaction where "GRDT_TRANSACTION_CREATION \<equiv> 1"
abbreviation GRDT_TRANSACTION_TRANSFER :: grdt_transaction where "GRDT_TRANSACTION_TRANSFER \<equiv> 2"
abbreviation GRDT_TRANSACTION_COMMUNITY_FRIENDS_UPDATE :: grdt_transaction where
  "GRDT_TRANSACTION_COMMUNITY_FRIENDS_UPDATE \<equiv> 3"
abbreviation GRDT_TRANSACTION_REGISTER_ADDRESS :: grdt_transaction where
  "GRDT_TRANSACTION_REGISTER_ADDRESS \<equiv> 4"
abbreviation GRDT_TRANSACTION_DEFERRED_TRANSFER :: grdt_transaction where
  "GRDT_TRANSACTION_DEFERRED_TRANSFER \<equiv> 5"
abbreviation GRDT_TRANSACTION_COMMUNITY_ROOT :: grdt_transaction where
  "GRDT_TRANSACTION_COMMUNITY_ROOT \<equiv> 6"
abbreviation GRDT_TRANSACTION_REDEEM_DEFERRED_TRANSFER :: grdt_transaction where
  "GRDT_TRANSACTION_REDEEM_DEFERRED_TRANSFER \<equiv> 7"
abbreviation GRDT_TRANSACTION_TIMEOUT_DEFERRED_TRANSFER :: grdt_transaction where
  "GRDT_TRANSACTION_TIMEOUT_DEFERRED_TRANSFER \<equiv> 8"
abbreviation GRDT_TRANSACTION_COUNT :: grdt_transaction where "GRDT_TRANSACTION_COUNT \<equiv> 9"

abbreviation GRDT_ADDRESS_NONE :: grdt_address where "GRDT_ADDRESS_NONE \<equiv> 0"
abbreviation GRDT_ADDRESS_COMMUNITY_HUMAN :: grdt_address where "GRDT_ADDRESS_COMMUNITY_HUMAN \<equiv> 1"
abbreviation GRDT_ADDRESS_COMMUNITY_GMW :: grdt_address where "GRDT_ADDRESS_COMMUNITY_GMW \<equiv> 2"
abbreviation GRDT_ADDRESS_COMMUNITY_AUF :: grdt_address where "GRDT_ADDRESS_COMMUNITY_AUF \<equiv> 3"
abbreviation GRDT_ADDRESS_COMMUNITY_PROJECT :: grdt_address where "GRDT_ADDRESS_COMMUNITY_PROJECT \<equiv> 4"
abbreviation GRDT_ADDRESS_SUBACCOUNT :: grdt_address where "GRDT_ADDRESS_SUBACCOUNT \<equiv> 5"
abbreviation GRDT_ADDRESS_CRYPTO_ACCOUNT :: grdt_address where "GRDT_ADDRESS_CRYPTO_ACCOUNT \<equiv> 6"
abbreviation GRDT_ADDRESS_DEFERRED_TRANSFER :: grdt_address where "GRDT_ADDRESS_DEFERRED_TRANSFER \<equiv> 7"

abbreviation GRDT_CROSS_GROUP_LOCAL :: grdt_cross_group where "GRDT_CROSS_GROUP_LOCAL \<equiv> 0"
abbreviation GRDT_CROSS_GROUP_INBOUND :: grdt_cross_group where "GRDT_CROSS_GROUP_INBOUND \<equiv> 1"
abbreviation GRDT_CROSS_GROUP_OUTBOUND :: grdt_cross_group where "GRDT_CROSS_GROUP_OUTBOUND \<equiv> 2"
abbreviation GRDT_CROSS_GROUP_CROSS :: grdt_cross_group where "GRDT_CROSS_GROUP_CROSS \<equiv> 3"
abbreviation GRDT_CROSS_GROUP_NONE :: grdt_cross_group where "GRDT_CROSS_GROUP_NONE \<equiv> 4"

abbreviation SIGN_PUBLIC_KEY_SIZE :: nat where "SIGN_PUBLIC_KEY_SIZE \<equiv> 32"
abbreviation GENERIC_HASH_SIZE :: nat where "GENERIC_HASH_SIZE \<equiv> 32"
abbreviation SIGN_SIGNATURE_SIZE :: nat where "SIGN_SIGNATURE_SIZE \<equiv> 64"
abbreviation ARNM_UUID_BINARY_SIZE :: nat where "ARNM_UUID_BINARY_SIZE \<equiv> 16"

section \<open>Bytes\<close>

text \<open>\<open>0 == memcmp(a, b, n)\<close>.\<close>

definition memcmp_eq :: "bytes \<Rightarrow> bytes \<Rightarrow> nat \<Rightarrow> bool" where
  "memcmp_eq a b n = (take n a = take n b)"

definition GRDC_EMPTY_CHUNK_SIZE :: nat where "GRDC_EMPTY_CHUNK_SIZE = 32"

definition zeros :: "nat \<Rightarrow> bytes" where "zeros n = replicate n 0"

text \<open>Whether \<open>size\<close> bytes are all zero, a chunk at a time.\<close>

function grdc_is_empty_loop :: "bytes \<Rightarrow> nat \<Rightarrow> bool" where
  "grdc_is_empty_loop bs n =
     (if n > GRDC_EMPTY_CHUNK_SIZE then
        (if \<not> memcmp_eq bs (zeros GRDC_EMPTY_CHUNK_SIZE) GRDC_EMPTY_CHUNK_SIZE then False
         else grdc_is_empty_loop (drop GRDC_EMPTY_CHUNK_SIZE bs) (n - GRDC_EMPTY_CHUNK_SIZE))
      else memcmp_eq bs (zeros GRDC_EMPTY_CHUNK_SIZE) n)"
  by pat_completeness auto
termination by (relation "measure snd") (auto simp: GRDC_EMPTY_CHUNK_SIZE_def)

declare grdc_is_empty_loop.simps [simp del]

definition grdc_is_empty :: "bytes \<Rightarrow> nat \<Rightarrow> bool" where
  "grdc_is_empty bs n = (if n = 0 then True else grdc_is_empty_loop bs n)"

lemma memcmp_eq_full: "length a = n \<Longrightarrow> length b = n \<Longrightarrow> memcmp_eq a b n \<longleftrightarrow> a = b"
  by (simp add: memcmp_eq_def)

lemma grdc_is_empty_loop_zeros: "n \<le> length bs \<Longrightarrow> grdc_is_empty_loop bs n \<longleftrightarrow> take n bs = zeros n"
proof (induction bs n rule: grdc_is_empty_loop.induct)
  case (1 bs n)
  show ?case
  proof (cases "n > 32")
    case False
    then show ?thesis by (simp add: grdc_is_empty_loop.simps GRDC_EMPTY_CHUNK_SIZE_def memcmp_eq_def zeros_def min_def)
  next
    case True
    have t: "take n bs = take 32 bs @ take (n - 32) (drop 32 bs)"
      using True by (metis le_add_diff_inverse less_imp_le take_add)
    have z: "zeros n = zeros 32 @ zeros (n - 32)"
      using True by (simp add: zeros_def replicate_add [symmetric])
    have l: "length (take 32 bs) = length (zeros 32)" using True "1.prems" by (simp add: zeros_def)
    have "take 32 (zeros 32) = zeros 32" by (simp add: zeros_def)
    then show ?thesis
      using 1 True unfolding grdc_is_empty_loop.simps [of bs n] t z append_eq_append_conv [OF disjI1 [OF l]]
      by (simp add: GRDC_EMPTY_CHUNK_SIZE_def memcmp_eq_def)
  qed
qed

lemma grdc_is_empty_zeros: "n \<le> length bs \<Longrightarrow> grdc_is_empty bs n \<longleftrightarrow> take n bs = zeros n"
  using grdc_is_empty_loop_zeros [of n bs] by (simp add: grdc_is_empty_def zeros_def)

lemma grdc_is_empty_key: "length k = n \<Longrightarrow> grdc_is_empty k n \<longleftrightarrow> k = zeros n"
  by (simp add: grdc_is_empty_zeros)

section \<open>Records\<close>

record grdd_timestamp =
  seconds :: i64
  nanos :: i32

record grdw_account_balance =
  ab_pubkey :: bytes
  ab_balance :: i64
  ab_community_uuid :: bytes

record grdw_encrypted_memo =
  em_type :: grdt_memo_key
  em_memo :: bytes

record grdw_signature_pair =
  sp_public_key :: bytes
  sp_signature :: bytes

record grdw_hiero_account_id =
  shardNum :: i64
  realmNum :: i64
  accountNum :: i64

record grdw_hiero_transaction_id =
  transactionValidStart :: grdd_timestamp
  accountID :: grdw_hiero_account_id

text \<open>The union of a ledger anchor is read behind its \<open>type\<close>.\<close>

record grdw_ledger_anchor =
  la_type :: grdt_ledger_anchor
  hiero_transaction_id :: grdw_hiero_transaction_id
  la_id :: u64

record transfer_detail =
  sender_pubkey :: bytes
  recipient_pubkey :: bytes
  amount :: i64
  coin_community_uuid :: bytes

record register_detail =
  user_public_key :: bytes
  name_hash :: bytes
  account_public_key :: bytes

record root_detail =
  public_key :: bytes
  gmw_public_key :: bytes
  auf_public_key :: bytes

record grdr_complete_transaction =
  tx_nr :: u64
  confirmed_at :: grdd_timestamp
  created_at :: grdd_timestamp
  tx_community_uuid :: bytes
  ledger_anchor :: grdw_ledger_anchor
  transfer :: transfer_detail
  register_address :: register_detail
  community_root :: root_detail
  target_date :: i64
  timeout_duration :: i64
  previous_tx :: u64
  address_type :: grdt_address
  derivation_index :: u32
  transaction_type :: grdt_transaction
  tx_running_hash :: bytes
  account_balances :: "grdw_account_balance list"
  encrypted_memos :: "grdw_encrypted_memo list"
  signature_pairs :: "grdw_signature_pair list"
  cross_group_type :: grdt_cross_group
  tx_pairing_community_uuid :: "bytes option"
  pairing_ledger_anchor :: "grdw_ledger_anchor option"
  body_bytes :: bytes

definition zero_timestamp :: grdd_timestamp where
  "zero_timestamp = \<lparr>seconds = 0, nanos = 0\<rparr>"

definition zero_anchor :: grdw_ledger_anchor where
  "zero_anchor = \<lparr>la_type = 0, hiero_transaction_id =
     \<lparr>transactionValidStart = zero_timestamp, accountID = \<lparr>shardNum = 0, realmNum = 0, accountNum = 0\<rparr>\<rparr>,
     la_id = 0\<rparr>"

text \<open>\<open>memset\<close> over the whole struct: what \<open>init\<close> and \<open>release\<close> leave.\<close>

definition grdr_complete_transaction_init :: grdr_complete_transaction where
  "grdr_complete_transaction_init =
     \<lparr>tx_nr = 0, confirmed_at = zero_timestamp, created_at = zero_timestamp,
      tx_community_uuid = zeros ARNM_UUID_BINARY_SIZE, ledger_anchor = zero_anchor,
      transfer = \<lparr>sender_pubkey = zeros SIGN_PUBLIC_KEY_SIZE, recipient_pubkey = zeros SIGN_PUBLIC_KEY_SIZE,
        amount = 0, coin_community_uuid = zeros ARNM_UUID_BINARY_SIZE\<rparr>,
      register_address = \<lparr>user_public_key = zeros SIGN_PUBLIC_KEY_SIZE, name_hash = zeros GENERIC_HASH_SIZE,
        account_public_key = zeros SIGN_PUBLIC_KEY_SIZE\<rparr>,
      community_root = \<lparr>public_key = zeros SIGN_PUBLIC_KEY_SIZE, gmw_public_key = zeros SIGN_PUBLIC_KEY_SIZE,
        auf_public_key = zeros SIGN_PUBLIC_KEY_SIZE\<rparr>,
      target_date = 0, timeout_duration = 0, previous_tx = 0, address_type = 0, derivation_index = 0,
      transaction_type = 0, tx_running_hash = zeros GENERIC_HASH_SIZE, account_balances = [],
      encrypted_memos = [], signature_pairs = [], cross_group_type = 0,
      tx_pairing_community_uuid = None, pairing_ledger_anchor = None, body_bytes = []\<rparr>"

section \<open>Reading a transaction\<close>

definition is_transfer_type :: "grdt_transaction \<Rightarrow> bool" where
  "is_transfer_type t = (t = GRDT_TRANSACTION_TRANSFER
     \<or> t = GRDT_TRANSACTION_REDEEM_DEFERRED_TRANSFER \<or> t = GRDT_TRANSACTION_DEFERRED_TRANSFER)"

definition grdr_complete_transaction_get_confirmed_at :: "grdr_complete_transaction option \<Rightarrow> grdd_timestamp option" where
  "grdr_complete_transaction_get_confirmed_at tx = map_option confirmed_at tx"

definition grdr_complete_transaction_get_created_at :: "grdr_complete_transaction option \<Rightarrow> grdd_timestamp option" where
  "grdr_complete_transaction_get_created_at tx = map_option created_at tx"

definition grdr_complete_transaction_get_tx_community_uuid :: "grdr_complete_transaction option \<Rightarrow> bytes option" where
  "grdr_complete_transaction_get_tx_community_uuid tx = map_option tx_community_uuid tx"

definition grdr_complete_transaction_get_ledger_anchor :: "grdr_complete_transaction option \<Rightarrow> grdw_ledger_anchor option" where
  "grdr_complete_transaction_get_ledger_anchor tx = map_option ledger_anchor tx"

definition grdr_complete_transaction_get_account_balance_for_public_key ::
  "grdr_complete_transaction option \<Rightarrow> bytes option \<Rightarrow> grdw_account_balance option" where
  "grdr_complete_transaction_get_account_balance_for_public_key tx key =
     (case (tx, key) of (Some tx, Some key) \<Rightarrow>
        find (\<lambda>b. memcmp_eq (ab_pubkey b) key SIGN_PUBLIC_KEY_SIZE) (account_balances tx)
      | _ \<Rightarrow> None)"

definition grdr_complete_transaction_get_sender_community_uuid ::
  "grdr_complete_transaction option \<Rightarrow> bytes option" where
  "grdr_complete_transaction_get_sender_community_uuid tx =
     (case tx of None \<Rightarrow> None | Some tx \<Rightarrow>
        if cross_group_type tx = GRDT_CROSS_GROUP_LOCAL \<or> cross_group_type tx = GRDT_CROSS_GROUP_OUTBOUND
        then Some (tx_community_uuid tx)
        else if cross_group_type tx = GRDT_CROSS_GROUP_INBOUND then tx_pairing_community_uuid tx
        else None)"

definition grdr_complete_transaction_get_recipient_community_uuid ::
  "grdr_complete_transaction option \<Rightarrow> bytes option" where
  "grdr_complete_transaction_get_recipient_community_uuid tx =
     (case tx of None \<Rightarrow> None | Some tx \<Rightarrow>
        if cross_group_type tx = GRDT_CROSS_GROUP_LOCAL \<or> cross_group_type tx = GRDT_CROSS_GROUP_INBOUND
        then Some (tx_community_uuid tx)
        else if cross_group_type tx = GRDT_CROSS_GROUP_OUTBOUND then tx_pairing_community_uuid tx
        else None)"

definition grdr_complete_transaction_get_sender_public_key ::
  "grdr_complete_transaction option \<Rightarrow> bytes option" where
  "grdr_complete_transaction_get_sender_public_key tx =
     (case tx of None \<Rightarrow> None | Some tx \<Rightarrow>
        if is_transfer_type (transaction_type tx) then Some (sender_pubkey (transfer tx)) else None)"

definition grdr_complete_transaction_get_recipient_public_key ::
  "grdr_complete_transaction option \<Rightarrow> bytes option" where
  "grdr_complete_transaction_get_recipient_public_key tx =
     (case tx of None \<Rightarrow> None | Some tx \<Rightarrow>
        if is_transfer_type (transaction_type tx) \<or> transaction_type tx = GRDT_TRANSACTION_CREATION
        then Some (recipient_pubkey (transfer tx)) else None)"

definition grdr_complete_transaction_get_registered_account ::
  "grdr_complete_transaction option \<Rightarrow> bytes option" where
  "grdr_complete_transaction_get_registered_account tx =
     (case tx of None \<Rightarrow> None | Some tx \<Rightarrow>
        if transaction_type tx = GRDT_TRANSACTION_REGISTER_ADDRESS
        then Some (account_public_key (register_address tx)) else None)"

definition grdr_complete_transaction_get_transaction_type ::
  "grdr_complete_transaction option \<Rightarrow> grdt_transaction" where
  "grdr_complete_transaction_get_transaction_type tx =
     (case tx of None \<Rightarrow> GRDT_TRANSACTION_NONE | Some tx \<Rightarrow> transaction_type tx)"

definition grdr_complete_transaction_get_amount :: "grdr_complete_transaction option \<Rightarrow> i64" where
  "grdr_complete_transaction_get_amount tx =
     (case tx of None \<Rightarrow> 0 | Some tx \<Rightarrow>
        if is_transfer_type (transaction_type tx) \<or> transaction_type tx = GRDT_TRANSACTION_CREATION
        then amount (transfer tx) else 0)"

definition grdr_complete_transaction_get_target_date :: "grdr_complete_transaction option \<Rightarrow> i64" where
  "grdr_complete_transaction_get_target_date tx =
     (case tx of None \<Rightarrow> 0 | Some tx \<Rightarrow>
        if transaction_type tx = GRDT_TRANSACTION_CREATION then target_date tx else 0)"

definition grdr_complete_transaction_get_timeout_duration :: "grdr_complete_transaction option \<Rightarrow> i64" where
  "grdr_complete_transaction_get_timeout_duration tx =
     (case tx of None \<Rightarrow> 0 | Some tx \<Rightarrow>
        if transaction_type tx = GRDT_TRANSACTION_DEFERRED_TRANSFER then timeout_duration tx else 0)"

text \<open>The fixed sizes of the arrays in the structs.\<close>

definition wf_balance :: "grdw_account_balance \<Rightarrow> bool" where
  "wf_balance b = (length (ab_pubkey b) = SIGN_PUBLIC_KEY_SIZE
     \<and> length (ab_community_uuid b) = ARNM_UUID_BINARY_SIZE)"

definition wf_transaction :: "grdr_complete_transaction \<Rightarrow> bool" where
  "wf_transaction tx = (
     length (tx_community_uuid tx) = ARNM_UUID_BINARY_SIZE
     \<and> length (sender_pubkey (transfer tx)) = SIGN_PUBLIC_KEY_SIZE
     \<and> length (recipient_pubkey (transfer tx)) = SIGN_PUBLIC_KEY_SIZE
     \<and> length (user_public_key (register_address tx)) = SIGN_PUBLIC_KEY_SIZE
     \<and> length (account_public_key (register_address tx)) = SIGN_PUBLIC_KEY_SIZE
     \<and> length (public_key (community_root tx)) = SIGN_PUBLIC_KEY_SIZE
     \<and> length (gmw_public_key (community_root tx)) = SIGN_PUBLIC_KEY_SIZE
     \<and> length (auf_public_key (community_root tx)) = SIGN_PUBLIC_KEY_SIZE
     \<and> list_all wf_balance (account_balances tx)
     \<and> list_all (\<lambda>s. length (sp_public_key s) = SIGN_PUBLIC_KEY_SIZE) (signature_pairs tx))"

text \<open>\<open>grdc_is_empty\<close>, which compares a chunk of 32 bytes at a time, answers whether all of the
  bytes are zero, for every length.\<close>

lemma is_empty_exact:
  assumes "n \<le> length bs"
  shows "grdc_is_empty bs n \<longleftrightarrow> (\<forall>i < n. bs ! i = 0)"
  using assms by (auto simp: grdc_is_empty_zeros zeros_def list_eq_iff_nth_eq)

end
