(* ===== verification/GRD_Pbtools.thy ===== *)
theory GRD_Pbtools
  imports GRD_Data "HOL-Library.While_Combinator"
begin

text \<open>
  The protobuf runtime of \<open>third_party/pbtools/pbtools.c\<close>, as far as the generated messages use it: the
  heap messages are allocated from, the encoder, which writes a message from its end to its start, and
  the decoder. An \<open>int\<close> of the C code is an \<open>int\<close> here, and where a \<open>size_t\<close> is cast to it the cast
  is \<open>c_int\<close>. The bytes an encoder has written are the list \<open>enc_out\<close>, the content of its buffer
  from \<open>pos + 1\<close> on; a decoder holds the bytes it reads from \<open>buf_p\<close> on. The heap
  is shared by all decoders of a message; it is a field of each, handed on.
\<close>

section \<open>The heap\<close>

definition c_int :: "nat \<Rightarrow> int" where "c_int n = sint (word_of_nat n :: i32)"

abbreviation INT_MAX :: int where "INT_MAX \<equiv> 2147483647"

record pb_heap =
  hp_base :: nat
  hp_size :: int
  hp_pos :: int

definition SIZEOF_HEAP :: nat where "SIZEOF_HEAP = 16"
definition ALIGN_MESSAGE :: nat where "ALIGN_MESSAGE = 8"

definition heap_new :: "nat \<Rightarrow> nat \<Rightarrow> pb_heap option" where
  "heap_new address n =
     (if SIZEOF_HEAP \<le> n
      then Some \<lparr>hp_base = address, hp_size = c_int n, hp_pos = int SIZEOF_HEAP\<rparr> else None)"

text \<open>Whether there was room, and the heap after it; alignments are powers of two.\<close>

definition heap_alloc :: "nat \<Rightarrow> nat \<Rightarrow> pb_heap \<Rightarrow> bool \<times> pb_heap" where
  "heap_alloc n alignment h =
     (let left = hp_size h - hp_pos h in
      if c_int n \<le> left then
        (let rest = nat (int (hp_base h) + hp_pos h) mod alignment in
         if rest = 0 then (True, h\<lparr>hp_pos := hp_pos h + c_int n\<rparr>)
         else (let padded = n + (alignment - rest) in
               if c_int padded \<le> left then (True, h\<lparr>hp_pos := hp_pos h + c_int padded\<rparr>)
               else (False, h)))
      else (False, h))"

section \<open>The encoder\<close>

definition PBTOOLS_BAD_WIRE_TYPE :: int where "PBTOOLS_BAD_WIRE_TYPE = 1"
definition PBTOOLS_OUT_OF_DATA :: int where "PBTOOLS_OUT_OF_DATA = 2"
definition PBTOOLS_OUT_OF_MEMORY :: int where "PBTOOLS_OUT_OF_MEMORY = 3"
definition PBTOOLS_ENCODE_BUFFER_FULL :: int where "PBTOOLS_ENCODE_BUFFER_FULL = 4"
definition PBTOOLS_BAD_FIELD_NUMBER :: int where "PBTOOLS_BAD_FIELD_NUMBER = 5"
definition PBTOOLS_VARINT_OVERFLOW :: int where "PBTOOLS_VARINT_OVERFLOW = 6"
definition PBTOOLS_SEEK_OVERFLOW :: int where "PBTOOLS_SEEK_OVERFLOW = 7"
definition PBTOOLS_LENGTH_DELIMITED_OVERFLOW :: int where "PBTOOLS_LENGTH_DELIMITED_OVERFLOW = 8"

lemmas pb_error_codes = PBTOOLS_BAD_WIRE_TYPE_def PBTOOLS_OUT_OF_DATA_def PBTOOLS_OUT_OF_MEMORY_def
  PBTOOLS_ENCODE_BUFFER_FULL_def PBTOOLS_BAD_FIELD_NUMBER_def PBTOOLS_VARINT_OVERFLOW_def
  PBTOOLS_SEEK_OVERFLOW_def PBTOOLS_LENGTH_DELIMITED_OVERFLOW_def

abbreviation PBTOOLS_WIRE_TYPE_VARINT :: nat where "PBTOOLS_WIRE_TYPE_VARINT \<equiv> 0"
abbreviation PBTOOLS_WIRE_TYPE_64_BIT :: nat where "PBTOOLS_WIRE_TYPE_64_BIT \<equiv> 1"
abbreviation PBTOOLS_WIRE_TYPE_LENGTH_DELIMITED :: nat where "PBTOOLS_WIRE_TYPE_LENGTH_DELIMITED \<equiv> 2"
abbreviation PBTOOLS_WIRE_TYPE_32_BIT :: nat where "PBTOOLS_WIRE_TYPE_32_BIT \<equiv> 5"

record pb_encoder =
  enc_size :: int
  enc_pos :: int
  enc_out :: bytes

text \<open>A writing call answers with the encoder, or with the fault of copying a negative size.\<close>

type_synonym pb_write = "pb_encoder \<Rightarrow> c_fault + pb_encoder"

definition encoder_init :: "nat \<Rightarrow> pb_encoder" where
  "encoder_init n = \<lparr>enc_size = c_int n, enc_pos = c_int n - 1, enc_out = []\<rparr>"

definition encoder_get_result :: "pb_encoder \<Rightarrow> int" where
  "encoder_get_result e = (if 0 \<le> enc_pos e then enc_size e - enc_pos e - 1 else enc_pos e)"

definition encoder_abort :: "int \<Rightarrow> pb_encoder \<Rightarrow> pb_encoder" where
  "encoder_abort err e = (if 0 \<le> enc_size e then e\<lparr>enc_size := - err, enc_pos := - err\<rparr> else e)"

definition encoder_write :: "bytes \<Rightarrow> pb_write" where
  "encoder_write buf e =
     (let n = c_int (length buf) in
      if n \<le> enc_pos e then
        (if n < 0 then Inl IndexOutOfBounds
         else Inr (e\<lparr>enc_pos := enc_pos e - n, enc_out := buf @ enc_out e\<rparr>))
      else Inr (encoder_abort PBTOOLS_ENCODE_BUFFER_FULL e))"

text \<open>The bytes of a varint, in the order of \<open>buf\<close>.\<close>

function varint_bytes :: "u64 \<Rightarrow> bytes" where
  "varint_bytes v =
     (let b = ucast v OR 0x80; v' = drop_bit 7 v in
      if v' > 0 then b # varint_bytes v' else [b AND 0x7F])"
  by pat_completeness auto
termination
proof (relation "measure unat")
  fix v b v' :: "'a"
  show "wf (measure (unat :: u64 \<Rightarrow> nat))" by simp
next
  fix v v' :: u64 and b :: u8
  assume "v' = drop_bit 7 v" "0 < v'"
  moreover have "unat v' = unat v div 128" using \<open>v' = drop_bit 7 v\<close> by (simp add: unat_drop_bit_div)
  moreover have "unat v' \<noteq> 0" using \<open>0 < v'\<close> by (simp add: word_less_unat)
  ultimately have "unat v' < unat v" by simp
  then show "(v', v) \<in> measure unat" by simp
qed

declare varint_bytes.simps [simp del]

definition encoder_write_varint :: "u64 \<Rightarrow> pb_write" where
  "encoder_write_varint v = encoder_write (varint_bytes v)"

definition encoder_write_tag :: "nat \<Rightarrow> nat \<Rightarrow> pb_write" where
  "encoder_write_tag field wire =
     encoder_write_varint (ucast (push_bit 3 (word_of_nat field :: u32)) OR ucast (word_of_nat wire :: u32))"

definition encoder_write_tagged_varint_always :: "nat \<Rightarrow> nat \<Rightarrow> u64 \<Rightarrow> pb_write" where
  "encoder_write_tagged_varint_always field wire v e =
     fbind (encoder_write_varint v e) (encoder_write_tag field wire)"

definition encoder_write_tagged_varint :: "nat \<Rightarrow> nat \<Rightarrow> u64 \<Rightarrow> pb_write" where
  "encoder_write_tagged_varint field wire v e =
     (if v > 0 then fbind (encoder_write_varint v e) (encoder_write_tag field wire) else Inr e)"

definition encoder_write_length_delimited :: "nat \<Rightarrow> u64 \<Rightarrow> pb_write" where
  "encoder_write_length_delimited field v e =
     fbind (encoder_write_varint v e) (encoder_write_tag field PBTOOLS_WIRE_TYPE_LENGTH_DELIMITED)"

definition pbtools_encoder_write_int32 :: "nat \<Rightarrow> i32 \<Rightarrow> pb_write" where
  "pbtools_encoder_write_int32 field v =
     encoder_write_tagged_varint field PBTOOLS_WIRE_TYPE_VARINT (scast v)"

definition pbtools_encoder_write_int64 :: "nat \<Rightarrow> i64 \<Rightarrow> pb_write" where
  "pbtools_encoder_write_int64 field v = encoder_write_tagged_varint field PBTOOLS_WIRE_TYPE_VARINT v"

definition pbtools_encoder_write_uint64 :: "nat \<Rightarrow> u64 \<Rightarrow> pb_write" where
  "pbtools_encoder_write_uint64 field v = encoder_write_tagged_varint field PBTOOLS_WIRE_TYPE_VARINT v"

definition pbtools_encoder_write_uint32 :: "nat \<Rightarrow> u32 \<Rightarrow> pb_write" where
  "pbtools_encoder_write_uint32 field v = pbtools_encoder_write_uint64 field (ucast v)"

definition pbtools_encoder_write_bool :: "nat \<Rightarrow> bool \<Rightarrow> pb_write" where
  "pbtools_encoder_write_bool field v e = (if v then pbtools_encoder_write_int32 field 1 e else Inr e)"

definition pbtools_encoder_write_enum :: "nat \<Rightarrow> u32 \<Rightarrow> pb_write" where
  "pbtools_encoder_write_enum field v = pbtools_encoder_write_int32 field v"

definition pbtools_encoder_write_bytes :: "nat \<Rightarrow> bytes \<Rightarrow> pb_write" where
  "pbtools_encoder_write_bytes field v e =
     (if v \<noteq> [] then fbind (encoder_write v e)
        (encoder_write_tagged_varint field PBTOOLS_WIRE_TYPE_LENGTH_DELIMITED (word_of_nat (length v)))
      else Inr e)"

definition pbtools_encoder_write_int64_always :: "nat \<Rightarrow> i64 \<Rightarrow> pb_write" where
  "pbtools_encoder_write_int64_always field v =
     encoder_write_tagged_varint_always field PBTOOLS_WIRE_TYPE_VARINT v"

definition pbtools_encoder_write_uint64_always :: "nat \<Rightarrow> u64 \<Rightarrow> pb_write" where
  "pbtools_encoder_write_uint64_always field v =
     encoder_write_tagged_varint_always field PBTOOLS_WIRE_TYPE_VARINT v"

definition pbtools_encoder_write_bytes_always :: "nat \<Rightarrow> bytes \<Rightarrow> pb_write" where
  "pbtools_encoder_write_bytes_always field v e =
     fbind (encoder_write v e)
       (encoder_write_tagged_varint_always field PBTOOLS_WIRE_TYPE_LENGTH_DELIMITED (word_of_nat (length v)))"

definition pbtools_encoder_sub_message_encode ::
  "nat \<Rightarrow> ('m \<Rightarrow> pb_write) \<Rightarrow> 'm option \<Rightarrow> pb_write" where
  "pbtools_encoder_sub_message_encode field encode_inner message e =
     (case message of None \<Rightarrow> Inr e | Some m \<Rightarrow>
        fbind (encode_inner m e) (\<lambda>e'.
          encoder_write_length_delimited field (word_of_int (enc_pos e - enc_pos e')) e'))"

text \<open>The member of a union is encoded even when it is empty; that it is there is not asked.\<close>

definition pbtools_encoder_sub_message_encode_always ::
  "nat \<Rightarrow> ('m \<Rightarrow> pb_write) \<Rightarrow> 'm option \<Rightarrow> pb_write" where
  "pbtools_encoder_sub_message_encode_always field encode_inner message e =
     (case message of None \<Rightarrow> Inl NullDereference | Some m \<Rightarrow>
        fbind (encode_inner m e) (\<lambda>e'.
          encoder_write_tagged_varint_always field PBTOOLS_WIRE_TYPE_LENGTH_DELIMITED
            (word_of_int (enc_pos e - enc_pos e')) e'))"

text \<open>The items of a repeated field, the last one first.\<close>

fun encode_items :: "nat \<Rightarrow> ('m \<Rightarrow> pb_write) \<Rightarrow> 'm list \<Rightarrow> pb_write" where
  "encode_items field encode_inner [] e = Inr e"
| "encode_items field encode_inner (m # ms) e =
     fbind (encode_inner m e) (\<lambda>e'.
       fbind (encoder_write_length_delimited field (word_of_int (enc_pos e - enc_pos e')) e')
         (encode_items field encode_inner ms))"

definition pbtools_encode_repeated_inner :: "nat \<Rightarrow> ('m \<Rightarrow> pb_write) \<Rightarrow> 'm list \<Rightarrow> pb_write" where
  "pbtools_encode_repeated_inner field encode_inner items = encode_items field encode_inner (rev items)"

text \<open>The number of bytes written, or a negative error, and the bytes at the start of the buffer.\<close>

definition pbtools_message_encode :: "('m \<Rightarrow> pb_write) \<Rightarrow> 'm \<Rightarrow> nat \<Rightarrow> c_fault + (int \<times> bytes)" where
  "pbtools_message_encode encode_inner m n =
     fbind (encode_inner m (encoder_init n)) (\<lambda>e. Inr (encoder_get_result e, enc_out e))"

section \<open>The decoder\<close>

record pb_decoder =
  dec_buf :: bytes
  dec_size :: int
  dec_pos :: int
  dec_heap :: pb_heap

definition decoder_init :: "bytes \<Rightarrow> nat \<Rightarrow> pb_heap \<Rightarrow> pb_decoder" where
  "decoder_init buf n h = \<lparr>dec_buf = buf, dec_size = c_int n, dec_pos = 0, dec_heap = h\<rparr>"

definition decoder_abort :: "int \<Rightarrow> pb_decoder \<Rightarrow> pb_decoder" where
  "decoder_abort err d = (if 0 \<le> dec_pos d then d\<lparr>dec_size := - err, dec_pos := - err\<rparr> else d)"

definition decoder_heap_alloc :: "nat \<Rightarrow> nat \<Rightarrow> pb_decoder \<Rightarrow> bool \<times> pb_decoder" where
  "decoder_heap_alloc n alignment d =
     (case heap_alloc n alignment (dec_heap d) of
        (True, h) \<Rightarrow> (True, d\<lparr>dec_heap := h\<rparr>)
      | (False, h) \<Rightarrow> (False, decoder_abort PBTOOLS_OUT_OF_MEMORY (d\<lparr>dec_heap := h\<rparr>)))"

definition decoder_left :: "pb_decoder \<Rightarrow> int" where
  "decoder_left d = dec_size d - dec_pos d"

definition pbtools_decoder_available :: "pb_decoder \<Rightarrow> bool" where
  "pbtools_decoder_available d = (dec_pos d < dec_size d)"

definition decoder_get :: "pb_decoder \<Rightarrow> u8 \<times> pb_decoder" where
  "decoder_get d =
     (if pbtools_decoder_available d then (dec_buf d ! nat (dec_pos d), d\<lparr>dec_pos := dec_pos d + 1\<rparr>)
      else (0, decoder_abort PBTOOLS_OUT_OF_DATA d))"

definition decoder_read :: "nat \<Rightarrow> pb_decoder \<Rightarrow> bytes \<times> pb_decoder" where
  "decoder_read n d =
     (if c_int n \<le> dec_size d - dec_pos d
      then (take n (drop (nat (dec_pos d)) (dec_buf d)), d\<lparr>dec_pos := dec_pos d + c_int n\<rparr>)
      else (zeros n, decoder_abort PBTOOLS_OUT_OF_DATA d))"

text \<open>The last byte read, the value, and the decoder.\<close>

function read_varint_loop :: "nat \<Rightarrow> u64 \<Rightarrow> pb_decoder \<Rightarrow> u8 \<times> u64 \<times> pb_decoder" where
  "read_varint_loop offset v d =
     (case decoder_get d of (byte, d') \<Rightarrow>
        (let v' = v OR push_bit offset (ucast byte AND 0x7F) in
         if offset + 7 < 64 \<and> byte AND 0x80 \<noteq> 0 then read_varint_loop (offset + 7) v' d'
         else (byte, v', d')))"
  by pat_completeness auto
termination by (relation "measure (\<lambda>(offset, v, d). 64 - offset)") auto

declare read_varint_loop.simps [simp del]

definition decoder_read_varint :: "pb_decoder \<Rightarrow> u64 \<times> pb_decoder" where
  "decoder_read_varint d =
     (case read_varint_loop 0 0 d of (byte, v, d') \<Rightarrow>
        if byte AND 0x80 \<noteq> 0 then (0, decoder_abort PBTOOLS_VARINT_OVERFLOW d') else (v, d'))"

definition read_varint_check_wire_type :: "nat \<Rightarrow> nat \<Rightarrow> pb_decoder \<Rightarrow> u64 \<times> pb_decoder" where
  "read_varint_check_wire_type wire expected d =
     (if wire \<noteq> expected then (0, decoder_abort PBTOOLS_BAD_WIRE_TYPE d) else decoder_read_varint d)"

definition decoder_read_length_delimited :: "nat \<Rightarrow> pb_decoder \<Rightarrow> u64 \<times> pb_decoder" where
  "decoder_read_length_delimited wire d =
     (case read_varint_check_wire_type wire PBTOOLS_WIRE_TYPE_LENGTH_DELIMITED d of (n, d') \<Rightarrow>
        if INT_MAX \<le> int (unat n) then (0, decoder_abort PBTOOLS_LENGTH_DELIMITED_OVERFLOW d')
        else (n, d'))"

text \<open>The field number, the wire type, and the decoder.\<close>

definition pbtools_decoder_read_tag :: "pb_decoder \<Rightarrow> nat \<times> nat \<times> pb_decoder" where
  "pbtools_decoder_read_tag d =
     (case decoder_read_varint d of (v, d') \<Rightarrow>
        (let value = ucast v :: u32; field = unat (drop_bit 3 value); wire = unat (value AND 7) in
         if field = 0 then (field, wire, decoder_abort PBTOOLS_BAD_FIELD_NUMBER d')
         else (field, wire, d')))"

definition pbtools_decoder_read_uint64 :: "nat \<Rightarrow> pb_decoder \<Rightarrow> u64 \<times> pb_decoder" where
  "pbtools_decoder_read_uint64 wire = read_varint_check_wire_type wire PBTOOLS_WIRE_TYPE_VARINT"

definition pbtools_decoder_read_int64 :: "nat \<Rightarrow> pb_decoder \<Rightarrow> i64 \<times> pb_decoder" where
  "pbtools_decoder_read_int64 wire = read_varint_check_wire_type wire PBTOOLS_WIRE_TYPE_VARINT"

definition pbtools_decoder_read_int32 :: "nat \<Rightarrow> pb_decoder \<Rightarrow> i32 \<times> pb_decoder" where
  "pbtools_decoder_read_int32 wire d =
     (case pbtools_decoder_read_int64 wire d of (v, d') \<Rightarrow> (ucast v, d'))"

definition pbtools_decoder_read_uint32 :: "nat \<Rightarrow> pb_decoder \<Rightarrow> u32 \<times> pb_decoder" where
  "pbtools_decoder_read_uint32 wire d =
     (case pbtools_decoder_read_uint64 wire d of (v, d') \<Rightarrow> (ucast v, d'))"

definition pbtools_decoder_read_bool :: "nat \<Rightarrow> pb_decoder \<Rightarrow> bool \<times> pb_decoder" where
  "pbtools_decoder_read_bool wire d =
     (case pbtools_decoder_read_int32 wire d of (v, d') \<Rightarrow> (v \<noteq> 0, d'))"

definition pbtools_decoder_read_enum :: "nat \<Rightarrow> pb_decoder \<Rightarrow> u32 \<times> pb_decoder" where
  "pbtools_decoder_read_enum wire = pbtools_decoder_read_int32 wire"

text \<open>Without room for the bytes the pointer is \<open>NULL\<close> and the decoding has failed.\<close>

definition pbtools_decoder_read_bytes :: "nat \<Rightarrow> pb_decoder \<Rightarrow> bytes \<times> pb_decoder" where
  "pbtools_decoder_read_bytes wire d =
     (case decoder_read_length_delimited wire d of (n, d1) \<Rightarrow>
        (case decoder_heap_alloc (unat n) 1 d1 of
           (False, d2) \<Rightarrow> ([], d2)
         | (True, d2) \<Rightarrow> decoder_read (unat n) d2))"

definition decoder_init_slice :: "pb_decoder \<Rightarrow> int \<Rightarrow> pb_decoder" where
  "decoder_init_slice parent n =
     (if n \<le> dec_size parent - dec_pos parent
      then \<lparr>dec_buf = drop (nat (dec_pos parent)) (dec_buf parent), dec_size = n, dec_pos = 0,
            dec_heap = dec_heap parent\<rparr>
      else \<lparr>dec_buf = drop (nat (dec_pos parent)) (dec_buf parent), dec_size = - PBTOOLS_OUT_OF_DATA,
            dec_pos = - PBTOOLS_OUT_OF_DATA, dec_heap = dec_heap parent\<rparr>)"

definition decoder_seek :: "int \<Rightarrow> pb_decoder \<Rightarrow> pb_decoder" where
  "decoder_seek offset d =
     (if dec_pos d < 0 then d
      else if offset < 0 then decoder_abort (- offset) d
      else if INT_MAX < dec_pos d + offset then decoder_abort PBTOOLS_SEEK_OVERFLOW d
      else if dec_size d < dec_pos d + offset
      then decoder_abort PBTOOLS_OUT_OF_DATA (d\<lparr>dec_pos := dec_pos d + offset\<rparr>)
      else d\<lparr>dec_pos := dec_pos d + offset\<rparr>)"

definition pbtools_decoder_skip_field :: "nat \<Rightarrow> pb_decoder \<Rightarrow> pb_decoder" where
  "pbtools_decoder_skip_field wire d =
     (if wire = PBTOOLS_WIRE_TYPE_VARINT then snd (decoder_read_varint d)
      else if wire = PBTOOLS_WIRE_TYPE_64_BIT then decoder_seek 8 d
      else if wire = PBTOOLS_WIRE_TYPE_LENGTH_DELIMITED then
        (case decoder_read_length_delimited wire d of (n, d') \<Rightarrow> decoder_seek (int (unat n)) d')
      else if wire = PBTOOLS_WIRE_TYPE_32_BIT then decoder_seek 4 d
      else decoder_abort PBTOOLS_BAD_WIRE_TYPE d)"

section \<open>Messages\<close>

text \<open>The calls of an encoding function, one after the other.\<close>

fun write_all :: "pb_write list \<Rightarrow> pb_write" where
  "write_all [] e = Inr e"
| "write_all (w # ws) e = fbind (w e) (write_all ws)"

text \<open>The loop of every decoding function: while there are bytes, a tag is read and the switch of the
  message, \<open>field\<close>, takes it from there. The state \<open>'s\<close> is the message, with the notes on a
  repeated field where it has one.\<close>

definition decode_fields ::
  "(nat \<Rightarrow> nat \<Rightarrow> 's \<times> pb_decoder \<Rightarrow> 's \<times> pb_decoder) \<Rightarrow> 's \<times> pb_decoder \<Rightarrow> 's \<times> pb_decoder" where
  "decode_fields field = while (\<lambda>(s, d). pbtools_decoder_available d)
     (\<lambda>(s, d). case pbtools_decoder_read_tag d of (tag, wire, d') \<Rightarrow> field tag wire (s, d'))"

text \<open>An answer of \<open>False\<close> is the -1 of the code; the heap is that of the message.\<close>

definition pbtools_sub_message_alloc :: "nat \<Rightarrow> 'm \<Rightarrow> 'm option \<Rightarrow> pb_heap \<Rightarrow> bool \<times> 'm option \<times> pb_heap" where
  "pbtools_sub_message_alloc n init message h =
     (case heap_alloc n ALIGN_MESSAGE h of
        (False, h') \<Rightarrow> (False, message, h')
      | (True, h') \<Rightarrow> (True, Some init, h'))"

definition pbtools_alloc_repeated :: "nat \<Rightarrow> 'm \<Rightarrow> nat \<Rightarrow> 'm list \<Rightarrow> pb_heap \<Rightarrow> bool \<times> 'm list \<times> pb_heap" where
  "pbtools_alloc_repeated item_size init n items h =
     (case heap_alloc (item_size * n) ALIGN_MESSAGE h of
        (False, h') \<Rightarrow> (False, items, h')
      | (True, h') \<Rightarrow> (True, replicate n init, h'))"

text \<open>A new message at the start of a workspace, with the heap in the rest of it.\<close>

definition pbtools_message_new :: "nat \<Rightarrow> nat \<Rightarrow> nat \<Rightarrow> 'm \<Rightarrow> ('m \<times> pb_heap) option" where
  "pbtools_message_new address n message_size init =
     (case heap_new address n of None \<Rightarrow> None
      | Some h \<Rightarrow> (case heap_alloc message_size ALIGN_MESSAGE h of
            (False, h') \<Rightarrow> None | (True, h') \<Rightarrow> Some (init, h')))"

definition pbtools_decoder_sub_message_decode ::
  "nat \<Rightarrow> 'm \<Rightarrow> ('m \<Rightarrow> pb_decoder \<Rightarrow> 'm \<times> pb_decoder) \<Rightarrow> nat \<Rightarrow> 'm option \<times> pb_decoder \<Rightarrow> 'm option \<times> pb_decoder" where
  "pbtools_decoder_sub_message_decode n init decode_inner wire s =
     (case decoder_heap_alloc n ALIGN_MESSAGE (snd s) of
        (False, d) \<Rightarrow> (fst s, d)
      | (True, d) \<Rightarrow>
          (case decoder_read_length_delimited wire d of (len, d1) \<Rightarrow>
             (case decode_inner init (decoder_init_slice d1 (int (unat len))) of (m, sub) \<Rightarrow>
                (Some m, decoder_seek (dec_pos sub) (d1\<lparr>dec_heap := dec_heap sub\<rparr>)))))"

text \<open>The notes on a repeated field: how many items there are, and a decoder that stands at the length
  of the first one.\<close>

record pb_repeated_info =
  ri_decoder :: pb_decoder
  ri_length :: nat
  ri_tag :: nat

definition pbtools_repeated_info_init :: "nat \<Rightarrow> pb_decoder \<Rightarrow> pb_repeated_info" where
  "pbtools_repeated_info_init tag d = \<lparr>ri_decoder = d, ri_length = 0, ri_tag = tag\<rparr>"

definition repeated_info_init_decode :: "pb_decoder \<Rightarrow> pb_repeated_info \<Rightarrow> pb_repeated_info" where
  "repeated_info_init_decode d i =
     (if ri_length i = 0 then i\<lparr>ri_decoder := decoder_init_slice d (decoder_left d)\<rparr> else i)"

definition pbtools_repeated_info_decode ::
  "nat \<Rightarrow> pb_repeated_info \<times> pb_decoder \<Rightarrow> pb_repeated_info \<times> pb_decoder" where
  "pbtools_repeated_info_decode wire s =
     (let i = repeated_info_init_decode (snd s) (fst s) in
      case decoder_read_length_delimited wire (snd s) of (n, d) \<Rightarrow>
        (i\<lparr>ri_length := Suc (ri_length i)\<rparr>, decoder_seek (int (unat n)) d))"

text \<open>One item is decoded into the next free place of \<open>items\<close>; \<open>n\<close> places are filled.\<close>

definition decode_repeated_inner_item ::
  "('m \<Rightarrow> pb_decoder \<Rightarrow> 'm \<times> pb_decoder) \<Rightarrow> 'm list \<times> nat \<times> pb_decoder \<Rightarrow> 'm list \<times> nat \<times> pb_decoder" where
  "decode_repeated_inner_item decode_inner s =
     (case s of (items, n, d) \<Rightarrow>
       (case decoder_read_length_delimited PBTOOLS_WIRE_TYPE_LENGTH_DELIMITED d of (len, d1) \<Rightarrow>
         (case decode_inner (items ! n) (decoder_init_slice d1 (int (unat len))) of (m, sub) \<Rightarrow>
            (items[n := m], Suc n, decoder_seek (dec_pos sub) (d1\<lparr>dec_heap := dec_heap sub\<rparr>)))))"

definition are_more_items_to_decode :: "nat \<Rightarrow> nat \<times> pb_decoder \<Rightarrow> bool" where
  "are_more_items_to_decode len s = (pbtools_decoder_available (snd s) \<and> fst s < len)"

definition decode_items ::
  "('m \<Rightarrow> pb_decoder \<Rightarrow> 'm \<times> pb_decoder) \<Rightarrow> nat \<Rightarrow> nat \<Rightarrow> 'm list \<times> nat \<times> pb_decoder \<Rightarrow> 'm list \<times> nat \<times> pb_decoder" where
  "decode_items decode_inner tag len = while (\<lambda>s. are_more_items_to_decode len (snd s))
     (\<lambda>s. case s of (items, n, d) \<Rightarrow>
        (case pbtools_decoder_read_tag d of (t, wire, d') \<Rightarrow>
           if t = tag then decode_repeated_inner_item decode_inner (items, n, d')
           else (items, n, pbtools_decoder_skip_field wire d')))"

text \<open>Without room for the items the function returns, and nothing tells the caller.\<close>

definition pbtools_decode_repeated_inner ::
  "nat \<Rightarrow> 'm \<Rightarrow> ('m \<Rightarrow> pb_decoder \<Rightarrow> 'm \<times> pb_decoder) \<Rightarrow> pb_repeated_info \<Rightarrow> 'm list \<times> pb_decoder \<Rightarrow> 'm list \<times> pb_decoder" where
  "pbtools_decode_repeated_inner item_size init decode_inner i s =
     (if ri_length i = 0 then s
      else (case pbtools_alloc_repeated item_size init (ri_length i) (fst s) (dec_heap (snd s)) of
              (False, items, h) \<Rightarrow> (items, (snd s)\<lparr>dec_heap := h\<rparr>)
            | (True, items, h) \<Rightarrow>
                (case decode_items decode_inner (ri_tag i) (ri_length i)
                        (decode_repeated_inner_item decode_inner (items, 0, (ri_decoder i)\<lparr>dec_heap := h\<rparr>)) of
                   (items', n, rd) \<Rightarrow>
                     (items', (if dec_pos rd < 0 then decoder_abort (- dec_pos rd) (snd s) else snd s)
                        \<lparr>dec_heap := dec_heap rd\<rparr>))))"

definition pbtools_message_decode ::
  "('m \<Rightarrow> pb_decoder \<Rightarrow> 'm \<times> pb_decoder) \<Rightarrow> 'm \<Rightarrow> bytes \<Rightarrow> nat \<Rightarrow> pb_heap \<Rightarrow> int \<times> 'm \<times> pb_heap" where
  "pbtools_message_decode decode_inner m encoded n h =
     (case decode_inner m (decoder_init encoded n h) of (m', d) \<Rightarrow> (dec_pos d, m', dec_heap d))"

end
