(* ===== verification/GRD_Wire_Bytes.thy ===== *)
theory GRD_Wire_Bytes
  imports GRD_Pbtools
begin

text \<open>
  What the calls of pbtools do to bytes: the bytes a writing call puts in front of what is written, and
  what a reading call takes from the front of what is left. \<open>writes w bs\<close> says the first, \<open>takes\<close> and
  \<open>decodes\<close> the second, each with the room it needs in the heap; they compose, so that a message is read
  back field by field. The last section bounds every reading call on arbitrary bytes: a decoder never
  goes back and never leaves its bytes, hence every decoding loop ends.
\<close>

section \<open>Varints\<close>

lemma c_int_small: "n < 2147483648 \<Longrightarrow> c_int n = int n"
proof -
  assume n: "n < 2147483648"
  then have u: "unat (word_of_nat n :: i32) = n" by (simp add: unsigned_of_nat take_bit_nat_eq_self)
  have "uint (word_of_nat n :: i32) = int n" unfolding uint_unat u ..
  then have "sint (word_of_nat n :: i32) = signed_take_bit 31 (int n)"
    unfolding sint_uint by simp
  also have "\<dots> = int n" using n by (simp add: signed_take_bit_int_eq_self)
  finally show ?thesis by (simp add: c_int_def)
qed

lemma bit_80: "\<exists>e :: u8. e = 0x80 \<and> (\<forall>n. bit e n \<longleftrightarrow> n = 7)"
proof -
  have "(0x80 :: u8) = 2 ^ 7" by simp
  then have "bit (0x80 :: u8) n \<longleftrightarrow> n = 7" for n by (simp only: bit_exp_iff) auto
  then show ?thesis by blast
qed

lemma varint_byte_more:
  "(ucast (v :: u64) OR 0x80 :: u8) AND 0x80 \<noteq> 0"
  "(ucast ((ucast v OR 0x80) :: u8) :: u64) AND 0x7F = take_bit 7 v"
proof -
  obtain e :: u8 where e: "e = 0x80" "bit e n \<longleftrightarrow> n = 7" for n using bit_80 by blast
  have "bit ((ucast v OR e :: u8) AND e) 7" by (simp add: bit_simps e(2))
  then show "(ucast (v :: u64) OR 0x80 :: u8) AND 0x80 \<noteq> 0" using e(1) by auto
  have m: "0x7F = (mask 7 :: u64)" by (simp add: mask_eq_exp_minus_1)
  show "(ucast ((ucast v OR 0x80) :: u8) :: u64) AND 0x7F = take_bit 7 v"
    unfolding m e(1) [symmetric] take_bit_eq_mask [symmetric]
    by (rule bit_word_eqI) (auto simp: bit_simps e(2))
qed

lemma varint_byte_last:
  "((ucast (v :: u64) OR 0x80 :: u8) AND 0x7F) AND 0x80 = 0"
  "(ucast ((ucast v OR 0x80 :: u8) AND 0x7F) :: u64) AND 0x7F = take_bit 7 v"
proof -
  obtain e :: u8 where e: "e = 0x80" "bit e n \<longleftrightarrow> n = 7" for n using bit_80 by blast
  have m: "0x7F = (mask 7 :: u64)" "0x7F = (mask 7 :: u8)" by (simp_all add: mask_eq_exp_minus_1)
  show "((ucast (v :: u64) OR 0x80 :: u8) AND 0x7F) AND 0x80 = 0"
    unfolding m e(1) [symmetric] by (rule bit_word_eqI) (auto simp: bit_simps e(2))
  show "(ucast ((ucast v OR 0x80 :: u8) AND 0x7F) :: u64) AND 0x7F = take_bit 7 v"
    unfolding m e(1) [symmetric] take_bit_eq_mask [symmetric]
    by (rule bit_word_eqI) (auto simp: bit_simps e(2))
qed

lemma varint_not_empty: "varint_bytes v \<noteq> []"
  by (subst varint_bytes.simps) (simp add: Let_def)

lemma varint_length_le: "unat v < 2 ^ (7 * n) \<Longrightarrow> 0 < n \<Longrightarrow> length (varint_bytes v) \<le> n"
proof (induction v arbitrary: n rule: varint_bytes.induct)
  case (1 v)
  show ?case
  proof (cases "drop_bit 7 v > 0")
    case False
    then show ?thesis using "1.prems" by (subst varint_bytes.simps) (simp add: Let_def)
  next
    case True
    obtain m where n: "n = Suc m" using "1.prems" by (cases n) auto
    have d: "unat (drop_bit 7 v) = unat v div 128" by (simp add: unat_drop_bit_div)
    have "unat (drop_bit 7 v) < 2 ^ (7 * m)"
      using "1.prems" unfolding d n by (simp add: less_mult_imp_div_less power_add mult.commute)
    moreover have "0 < m"
      using True \<open>unat (drop_bit 7 v) < 2 ^ (7 * m)\<close> by (cases m) (auto simp: word_less_unat)
    ultimately have "length (varint_bytes (drop_bit 7 v)) \<le> m" by (rule "1.IH" [OF refl refl True])
    then show ?thesis using True n by (subst varint_bytes.simps) (simp add: Let_def)
  qed
qed

lemma varint_length: "length (varint_bytes v) \<le> 10"
  by (rule varint_length_le) (use unat_lt_64 [of v] in simp_all)

section \<open>Standing at bytes\<close>

text \<open>A decoder in order that has exactly \<open>bs\<close> left, and the room left in its heap.\<close>

definition at_bytes :: "bytes \<Rightarrow> pb_decoder \<Rightarrow> bool" where
  "at_bytes bs d \<longleftrightarrow> 0 \<le> dec_pos d \<and> dec_pos d \<le> dec_size d \<and> dec_size d \<le> INT_MAX
     \<and> dec_size d \<le> int (length (dec_buf d))
     \<and> take (nat (dec_size d - dec_pos d)) (drop (nat (dec_pos d)) (dec_buf d)) = bs"

definition heap_room :: "nat \<Rightarrow> pb_heap \<Rightarrow> bool" where
  "heap_room n h \<longleftrightarrow> 0 \<le> hp_pos h \<and> hp_size h \<le> INT_MAX \<and> int n \<le> hp_size h - hp_pos h"

abbreviation room :: "nat \<Rightarrow> pb_decoder \<Rightarrow> bool" where
  "room n d \<equiv> heap_room n (dec_heap d)"

text \<open>What no reading call changes of its decoder.\<close>

definition same_bytes :: "pb_decoder \<Rightarrow> pb_decoder \<Rightarrow> bool" where
  "same_bytes d d' \<longleftrightarrow> dec_size d' = dec_size d \<and> dec_buf d' = dec_buf d
     \<and> hp_size (dec_heap d') = hp_size (dec_heap d)"

lemma same_bytes_trans: "same_bytes a b \<Longrightarrow> same_bytes b c \<Longrightarrow> same_bytes a c"
  by (simp add: same_bytes_def)

lemma at_bytes_length: "at_bytes bs d \<Longrightarrow> dec_size d = dec_pos d + int (length bs)"
  by (auto simp: at_bytes_def)

lemma at_bytes_available: "at_bytes bs d \<Longrightarrow> pbtools_decoder_available d \<longleftrightarrow> bs \<noteq> []"
  using at_bytes_length [of bs d] by (auto simp: pbtools_decoder_available_def)

lemma at_bytes_moved:
  assumes "at_bytes (xs @ rest) d"
  shows "at_bytes rest (d\<lparr>dec_pos := dec_pos d + int (length xs)\<rparr>)"
proof -
  have l: "dec_size d = dec_pos d + int (length xs) + int (length rest)"
    using at_bytes_length [OF assms] by simp
  have "take (length xs + length rest) (drop (nat (dec_pos d)) (dec_buf d)) = xs @ rest"
    using assms l by (simp add: at_bytes_def nat_add_distrib)
  then have "drop (length xs) (take (length xs + length rest) (drop (nat (dec_pos d)) (dec_buf d))) = rest" by simp
  then have "take (length rest) (drop (nat (dec_pos d) + length xs) (dec_buf d)) = rest"
    by (simp add: drop_take add.commute)
  then show ?thesis using assms l by (simp add: at_bytes_def nat_add_distrib)
qed

lemma at_bytes_take:
  assumes "at_bytes (xs @ rest) d"
  shows "take (length xs) (drop (nat (dec_pos d)) (dec_buf d)) = xs"
proof -
  have l: "dec_size d = dec_pos d + int (length xs) + int (length rest)"
    using at_bytes_length [OF assms] by simp
  have "take (length xs + length rest) (drop (nat (dec_pos d)) (dec_buf d)) = xs @ rest"
    using assms l by (simp add: at_bytes_def nat_add_distrib)
  then have "take (length xs) (take (length xs + length rest) (drop (nat (dec_pos d)) (dec_buf d))) = xs" by simp
  then show ?thesis by simp
qed

lemma at_bytes_heap [simp]: "at_bytes bs (d\<lparr>dec_heap := h\<rparr>) = at_bytes bs d"
  by (simp add: at_bytes_def)

lemma decoder_get_at:
  assumes "at_bytes (b # rest) d"
  shows "decoder_get d = (b, d\<lparr>dec_pos := dec_pos d + 1\<rparr>)"
proof -
  have "take 1 (drop (nat (dec_pos d)) (dec_buf d)) = [b]"
    using at_bytes_take [of "[b]" rest d] assms by simp
  then have "dec_buf d ! nat (dec_pos d) = b"
    by (metis Cons_nth_drop_Suc One_nat_def drop_eq_Nil2 linorder_not_less list.inject list.simps(3) take_Nil take_Suc_Cons)
  then show ?thesis using at_bytes_available [OF assms] by (simp add: decoder_get_def)
qed

lemma varint_more_fits:
  assumes "0 < drop_bit 7 (v :: u64)" "unat v < 2 ^ (64 - offset)"
  shows "offset + 7 < 64" "unat (drop_bit 7 v) < 2 ^ (64 - (offset + 7))"
proof -
  have du: "unat (drop_bit 7 v) = unat v div 128" by (simp add: unat_drop_bit_div)
  have "unat v \<ge> 128" using assms(1) du by (simp add: word_less_unat)
  then have "(2 :: nat) ^ 7 < 2 ^ (64 - offset)" using assms(2) by simp
  then have "7 < 64 - offset" using power_less_imp_less_exp [of "2 :: nat" 7 "64 - offset"] by simp
  then show o: "offset + 7 < 64" by simp
  have "64 - offset = 7 + (64 - (offset + 7))" using o by simp
  then have "(2::nat) ^ (64 - offset) = 2 ^ 7 * 2 ^ (64 - (offset + 7))" by (metis power_add)
  then show "unat (drop_bit 7 v) < 2 ^ (64 - (offset + 7))"
    using assms(2) unfolding du by (simp add: less_mult_imp_div_less mult.commute)
qed

lemma varint_split: "push_bit offset (take_bit 7 v) OR push_bit (offset + 7) (drop_bit 7 v) = push_bit offset (v :: u64)"
proof -
  have "take_bit 7 v OR push_bit 7 (drop_bit 7 v) = v"
  proof (rule bit_word_eqI)
    fix n show "bit (take_bit 7 v OR push_bit 7 (drop_bit 7 v)) n \<longleftrightarrow> bit v n" if "n < LENGTH(64)"
      using that by (cases "n < 7") (auto simp: bit_simps not_less)
  qed
  then show ?thesis by (metis push_bit_or push_bit_push_bit)
qed

lemma varint_loop_at:
  assumes "at_bytes (varint_bytes v @ rest) d" "offset < 64" "unat v < 2 ^ (64 - offset)"
  shows "\<exists>b. read_varint_loop offset acc d = (b, acc OR push_bit offset v,
           d\<lparr>dec_pos := dec_pos d + int (length (varint_bytes v))\<rparr>) \<and> b AND 0x80 = 0"
  using assms
proof (induction v arbitrary: acc d offset rule: varint_bytes.induct)
  case (1 v)
  show ?case
  proof (cases "drop_bit 7 v > 0")
    case False
    then have z: "drop_bit 7 v = 0" by (simp add: word_less_unat word_unat_eq_iff)
    have vb: "varint_bytes v = [(ucast v OR 0x80) AND 0x7F]" using False by (subst varint_bytes.simps) (simp add: Let_def)
    have v: "take_bit 7 v = v" using bits_ident [of 7 v] z by simp
    have at: "at_bytes (((ucast v OR 0x80) AND 0x7F) # rest) d" using "1.prems"(1) unfolding vb by simp
    have "read_varint_loop offset acc d = ((ucast v OR 0x80) AND 0x7F, acc OR push_bit offset v,
        d\<lparr>dec_pos := dec_pos d + 1\<rparr>)"
      by (subst read_varint_loop.simps)
        (simp only: decoder_get_at [OF at] prod.case Let_def varint_byte_last v simp_thms if_False)
    then show ?thesis by (simp add: vb varint_byte_last)
  next
    case True
    have vb: "varint_bytes v = (ucast v OR 0x80) # varint_bytes (drop_bit 7 v)"
      using True by (subst varint_bytes.simps) (simp add: Let_def)
    let ?d = "d\<lparr>dec_pos := dec_pos d + 1\<rparr>"
    note o = varint_more_fits [OF True "1.prems"(3)]
    have at: "at_bytes (varint_bytes (drop_bit 7 v) @ rest) ?d"
      using at_bytes_moved [of "[ucast v OR 0x80]" "varint_bytes (drop_bit 7 v) @ rest" d] "1.prems"(1) vb by simp
    obtain b where b: "read_varint_loop (offset + 7) (acc OR push_bit offset (take_bit 7 v)) ?d =
        (b, (acc OR push_bit offset (take_bit 7 v)) OR push_bit (offset + 7) (drop_bit 7 v),
          ?d\<lparr>dec_pos := dec_pos ?d + int (length (varint_bytes (drop_bit 7 v)))\<rparr>)" "b AND 0x80 = 0"
      using "1.IH" [OF refl refl True at o] by blast
    have g: "decoder_get d = (ucast v OR 0x80, ?d)"
      using decoder_get_at [of "ucast v OR 0x80" "varint_bytes (drop_bit 7 v) @ rest" d] "1.prems"(1) vb by simp
    have step: "read_varint_loop offset acc d =
        read_varint_loop (offset + 7) (acc OR push_bit offset (take_bit 7 v)) ?d"
      by (subst read_varint_loop.simps)
        (simp only: g prod.case Let_def varint_byte_more o(1) simp_thms if_True)
    show ?thesis using b unfolding step vb or.assoc varint_split by (simp add: add.assoc)
  qed
qed

definition moved :: "nat \<Rightarrow> pb_decoder \<Rightarrow> pb_decoder" where
  "moved n d = d\<lparr>dec_pos := dec_pos d + int n\<rparr>"

lemma moved_simps [simp]:
  "dec_size (moved n d) = dec_size d" "dec_buf (moved n d) = dec_buf d" "dec_heap (moved n d) = dec_heap d"
  "dec_pos (moved n d) = dec_pos d + int n"
  by (simp_all add: moved_def)

lemma moved_at: "at_bytes (xs @ rest) d \<Longrightarrow> at_bytes rest (moved (length xs) d)"
  unfolding moved_def by (rule at_bytes_moved)

lemma read_varint_at:
  assumes "at_bytes (varint_bytes v @ rest) d"
  shows "decoder_read_varint d = (v, moved (length (varint_bytes v)) d)"
proof -
  have "unat v < 2 ^ (64 - 0)" using unat_lt_64 [of v] by simp
  from varint_loop_at [OF assms _ this, of 0] show ?thesis
    by (auto simp: decoder_read_varint_def moved_def)
qed

section \<open>Tags and lengths\<close>

definition tag_bytes :: "nat \<Rightarrow> nat \<Rightarrow> bytes" where
  "tag_bytes field wire =
     varint_bytes (ucast (push_bit 3 (word_of_nat field :: u32)) OR ucast (word_of_nat wire :: u32))"

definition field_ok :: "nat \<Rightarrow> bool" where "field_ok k \<longleftrightarrow> 0 < k \<and> k < 536870912"

lemma tag_value:
  assumes "k < 536870912" "w < 8"
  shows "unat (ucast (push_bit 3 (word_of_nat k :: u32)) OR ucast (word_of_nat w :: u32) :: u64) = 8 * k + w"
proof -
  have k: "unat (push_bit 3 (word_of_nat k :: u32)) = 8 * k"
    using assms by (simp add: unat_push_bit_mod unsigned_of_nat take_bit_nat_eq_self)
  have w: "unat (word_of_nat w :: u32) = w" using assms by (simp add: unsigned_of_nat take_bit_nat_eq_self)
  let ?a = "ucast (push_bit 3 (word_of_nat k :: u32)) :: u64" and ?b = "ucast (word_of_nat w :: u32) :: u64"
  have "?a AND ?b = 0"
  proof (rule bit_word_eqI)
    fix n
    have "\<not> bit ?b n" if "3 \<le> n"
    proof -
      have "unat ?b < 2 ^ 3" using assms w by simp
      then have "take_bit 3 ?b = ?b" by (simp add: word_eq_unatI unat_take_bit_mod)
      then show ?thesis using that by (metis bit_take_bit_iff leD)
    qed
    moreover have "\<not> bit ?a n" if "n < 3" using that by (simp add: bit_simps)
    ultimately show "bit (?a AND ?b) n \<longleftrightarrow> bit 0 n" by (cases "n < 3") (auto simp: bit_and_iff)
  qed
  then have "?a OR ?b = ?a + ?b" by (simp add: disjunctive_add_eq_or)
  then show ?thesis using k w assms by (simp add: unat_word_ariths)
qed

lemma read_tag_at:
  assumes "at_bytes (tag_bytes k w @ rest) d" "field_ok k" "w < 8"
  shows "pbtools_decoder_read_tag d = (k, w, moved (length (tag_bytes k w)) d)"
proof -
  let ?v = "ucast (push_bit 3 (word_of_nat k :: u32)) OR ucast (word_of_nat w :: u32) :: u64"
  have v: "unat ?v = 8 * k + w" using assms by (intro tag_value) (simp_all add: field_ok_def)
  have r: "decoder_read_varint d = (?v, moved (length (tag_bytes k w)) d)"
    unfolding tag_bytes_def by (rule read_varint_at) (use assms in \<open>simp add: tag_bytes_def\<close>)
  have c: "unat (ucast ?v :: u32) = 8 * k + w" unfolding unat_ucast_mod v using assms by (simp add: field_ok_def)
  have m: "(7 :: u32) = mask 3" by (simp add: mask_eq_exp_minus_1)
  have "unat (drop_bit 3 (ucast ?v :: u32)) = k" unfolding unat_drop_bit_div c using assms by simp
  moreover have "unat ((ucast ?v :: u32) AND 7) = w"
    unfolding m take_bit_eq_mask [symmetric] unat_take_bit_mod c using assms by simp
  ultimately show ?thesis using assms by (simp add: pbtools_decoder_read_tag_def r Let_def field_ok_def)
qed

lemma read_length_at:
  assumes "at_bytes (varint_bytes (word_of_nat n) @ rest) d" "n < 2147483647"
  shows "decoder_read_length_delimited 2 d = (word_of_nat n, moved (length (varint_bytes (word_of_nat n))) d)"
    "unat (word_of_nat n :: u64) = n" "uint (word_of_nat n :: u64) = int n"
proof -
  show u: "unat (word_of_nat n :: u64) = n" using assms by (simp add: unsigned_of_nat take_bit_nat_eq_self)
  then show "uint (word_of_nat n :: u64) = int n" unfolding uint_unat by simp
  show "decoder_read_length_delimited 2 d = (word_of_nat n, moved (length (varint_bytes (word_of_nat n))) d)"
  proof -
    have "\<not> INT_MAX \<le> int (unat (word_of_nat n :: u64))" unfolding u using assms(2) by simp
    then show ?thesis
      by (simp only: decoder_read_length_delimited_def read_varint_check_wire_type_def
          read_varint_at [OF assms(1)] simp_thms if_False prod.case)
  qed
qed

section \<open>Room\<close>

lemma heap_alloc_room:
  assumes "heap_room (n + 7 + r) h" "0 < a" "a \<le> 8"
  shows "\<exists>h'. heap_alloc n a h = (True, h') \<and> heap_room r h' \<and> hp_size h' = hp_size h"
proof -
  let ?rest = "nat (int (hp_base h) + hp_pos h) mod a"
  have lt: "?rest < a" using assms by simp
  have n: "n \<le> 2147483640" using assms by (simp add: heap_room_def)
  have "n + a - q < 2147483648" if "q \<noteq> 0" for q using that n assms by linarith
  then have small: "c_int n = int n" "?rest \<noteq> 0 \<Longrightarrow> c_int (n + a - ?rest) = int (n + a - ?rest)"
    using n by (simp_all add: c_int_small)
  have "int n \<le> hp_size h - hp_pos h" using assms by (simp add: heap_room_def)
  moreover have "?rest \<noteq> 0 \<Longrightarrow> int (n + (a - ?rest)) \<le> hp_size h - hp_pos h"
    using assms lt by (simp add: heap_room_def)
  ultimately show ?thesis
    using assms lt small unfolding heap_alloc_def Let_def by (auto simp: heap_room_def)
qed

lemma heap_alloc_bytes:
  assumes "heap_room (n + r) h"
  shows "\<exists>h'. heap_alloc n 1 h = (True, h') \<and> heap_room r h' \<and> hp_size h' = hp_size h"
proof -
  have "c_int n = int n" using assms by (intro c_int_small) (simp add: heap_room_def)
  then show ?thesis using assms unfolding heap_alloc_def Let_def by (auto simp: heap_room_def)
qed

lemma heap_room_le: "heap_room n h \<Longrightarrow> m \<le> n \<Longrightarrow> heap_room m h"
  by (simp add: heap_room_def)


section \<open>Reading fields\<close>

text \<open>The encoding of a field: nothing where the value is the default.\<close>

definition varint_field_always :: "nat \<Rightarrow> u64 \<Rightarrow> bytes" where
  "varint_field_always k v = tag_bytes k 0 @ varint_bytes v"

definition varint_field :: "nat \<Rightarrow> u64 \<Rightarrow> bytes" where
  "varint_field k v = (if v = 0 then [] else varint_field_always k v)"

definition length_field :: "nat \<Rightarrow> bytes \<Rightarrow> bytes" where
  "length_field k bs = tag_bytes k 2 @ varint_bytes (word_of_nat (length bs)) @ bs"

definition bytes_field :: "nat \<Rightarrow> bytes \<Rightarrow> bytes" where
  "bytes_field k bs = (if bs = [] then [] else length_field k bs)"

text \<open>A decoding loop takes \<open>bs\<close>, whatever comes after, and goes on with \<open>s'\<close> for \<open>s\<close>; \<open>k\<close> is
  the room it needs.\<close>

definition takes ::
  "(nat \<Rightarrow> nat \<Rightarrow> 's \<times> pb_decoder \<Rightarrow> 's \<times> pb_decoder) \<Rightarrow> bytes \<Rightarrow> 's \<Rightarrow> 's \<Rightarrow> nat \<Rightarrow> bool" where
  "takes field bs s s' k \<longleftrightarrow> (\<forall>d rest r. at_bytes (bs @ rest) d \<and> room (k + r) d \<longrightarrow>
     (\<exists>d'. decode_fields field (s, d) = decode_fields field (s', d')
        \<and> at_bytes rest d' \<and> room r d' \<and> same_bytes d d'))"

text \<open>A decoding function reads all of \<open>bs\<close> and answers with \<open>m\<close>.\<close>

definition decodes :: "('m \<Rightarrow> pb_decoder \<Rightarrow> 'm \<times> pb_decoder) \<Rightarrow> 'm \<Rightarrow> bytes \<Rightarrow> 'm \<Rightarrow> nat \<Rightarrow> bool" where
  "decodes decode_inner init bs m k \<longleftrightarrow> (\<forall>d r. at_bytes bs d \<and> room (k + r) d \<longrightarrow>
     (\<exists>d'. decode_inner init d = (m, d') \<and> at_bytes [] d' \<and> room r d' \<and> same_bytes d d'))"

lemma takes_none [simp]: "takes field [] s s 0"
  by (auto simp: takes_def same_bytes_def)

lemma takes_append:
  assumes "takes field as s s1 k" "takes field bs s1 s2 l"
  shows "takes field (as @ bs) s s2 (k + l)"
  unfolding takes_def
proof (intro allI impI, elim conjE)
  fix d rest r
  assume "at_bytes ((as @ bs) @ rest) d" "room (k + l + r) d"
  then have "at_bytes (as @ bs @ rest) d" "room (k + (l + r)) d" by (simp_all add: add.assoc)
  with assms(1) obtain d1 where d1: "decode_fields field (s, d) = decode_fields field (s1, d1)"
    "at_bytes (bs @ rest) d1" "room (l + r) d1" "same_bytes d d1"
    unfolding takes_def by blast
  with assms(2) obtain d2 where "decode_fields field (s1, d1) = decode_fields field (s2, d2)"
    "at_bytes rest d2" "room r d2" "same_bytes d1 d2"
    unfolding takes_def by blast
  with d1 show "\<exists>d'. decode_fields field (s, d) = decode_fields field (s2, d') \<and> at_bytes rest d' \<and> room r d'
      \<and> same_bytes d d'"
    by (metis same_bytes_trans)
qed

lemma decode_fields_end: "at_bytes [] d \<Longrightarrow> decode_fields field (s, d) = (s, d)"
  using at_bytes_available [of "[]" d] unfolding decode_fields_def by (subst while_unfold) simp

lemma takes_decodes:
  assumes "takes field bs init m k"
  shows "decodes (\<lambda>m d. decode_fields field (m, d)) init bs m k"
  unfolding decodes_def
proof (intro allI impI, elim conjE)
  fix d r
  assume "at_bytes bs d" "room (k + r) d"
  then have "at_bytes (bs @ []) d" "room (k + r) d" by simp_all
  with assms obtain d' where d': "decode_fields field (init, d) = decode_fields field (m, d')"
    "at_bytes [] d'" "room r d'" "same_bytes d d'"
    unfolding takes_def by blast
  have "decode_fields field (m, d') = (m, d')" by (rule decode_fields_end [OF d'(2)])
  with d' show "\<exists>d'. decode_fields field (init, d) = (m, d') \<and> at_bytes [] d' \<and> room r d' \<and> same_bytes d d'"
    by auto
qed

text \<open>One turn of the loop: a tag, and what its branch of the switch takes.\<close>

lemma takes_field:
  assumes k: "field_ok k" "w < 8"
    and branch: "\<And>d rest r. at_bytes (bs @ rest) d \<Longrightarrow> room (n + r) d \<Longrightarrow>
      \<exists>d'. field k w (s, d) = (s', d') \<and> at_bytes rest d' \<and> room r d' \<and> same_bytes d d'"
  shows "takes field (tag_bytes k w @ bs) s s' n"
  unfolding takes_def
proof (intro allI impI, elim conjE)
  fix d rest r
  assume at: "at_bytes ((tag_bytes k w @ bs) @ rest) d" and room: "room (n + r) d"
  let ?d = "moved (length (tag_bytes k w)) d"
  have t: "pbtools_decoder_read_tag d = (k, w, ?d)"
    by (rule read_tag_at) (use at k in simp_all)
  have "at_bytes (bs @ rest) ?d" by (rule moved_at) (use at in simp)
  then obtain d' where d': "field k w (s, ?d) = (s', d')" "at_bytes rest d'" "room r d'" "same_bytes ?d d'"
    using branch [of rest ?d r] room by auto
  have "tag_bytes k w \<noteq> []" by (simp add: tag_bytes_def varint_not_empty)
  then have "pbtools_decoder_available d" using at_bytes_available [OF at] by simp
  then have "decode_fields field (s, d) = decode_fields field (s', d')"
    unfolding decode_fields_def by (subst while_unfold) (simp add: t d'(1))
  with d' show "\<exists>d'. decode_fields field (s, d) = decode_fields field (s', d') \<and> at_bytes rest d' \<and> room r d'
      \<and> same_bytes d d'"
    by (auto simp: same_bytes_def)
qed

lemma takes_varint_always:
  assumes "field_ok k"
    and read: "\<And>d d'. decoder_read_varint d = (v, d') \<Longrightarrow> field k 0 (s, d) = (s', d')"
  shows "takes field (varint_field_always k v) s s' 0"
  unfolding varint_field_always_def
proof (rule takes_field)
  fix d rest r
  assume at: "at_bytes (varint_bytes v @ rest) d" and room: "room (0 + r) d"
  show "\<exists>d'. field k 0 (s, d) = (s', d') \<and> at_bytes rest d' \<and> room r d' \<and> same_bytes d d'"
    using read [OF read_varint_at [OF at]] moved_at [OF at] room by (auto simp: same_bytes_def)
qed (use assms in simp_all)

lemma takes_varint:
  assumes "field_ok k" "v = 0 \<Longrightarrow> s = s'"
    and "\<And>d d'. decoder_read_varint d = (v, d') \<Longrightarrow> field k 0 (s, d) = (s', d')"
  shows "takes field (varint_field k v) s s' 0"
proof -
  have "takes field (varint_field_always k v) s s' 0"
    by (rule takes_varint_always [OF assms(1)]) (rule assms(3))
  then show ?thesis using assms(2) by (auto simp: varint_field_def)
qed

lemma decoder_read_at:
  assumes "at_bytes (bs @ rest) d" "length bs < 2147483648"
  shows "decoder_read (length bs) d = (bs, moved (length bs) d)"
  using assms at_bytes_length [OF assms(1)] at_bytes_take [OF assms(1)]
  by (simp add: decoder_read_def c_int_small moved_def)

lemma read_bytes_at:
  assumes at: "at_bytes (varint_bytes (word_of_nat (length bs)) @ bs @ rest) d" and n: "length bs < 2147483647"
    and room: "room (length bs + r) d"
  shows "\<exists>d'. pbtools_decoder_read_bytes 2 d = (bs, d') \<and> at_bytes rest d' \<and> room r d' \<and> same_bytes d d'"
proof -
  let ?d = "moved (length (varint_bytes (word_of_nat (length bs)))) d"
  obtain h where h: "heap_alloc (length bs) 1 (dec_heap ?d) = (True, h)" "heap_room r h" "hp_size h = hp_size (dec_heap d)"
    using heap_alloc_bytes [OF room] by auto
  have at1: "at_bytes (bs @ rest) (?d\<lparr>dec_heap := h\<rparr>)" using moved_at [OF at] by simp
  have "pbtools_decoder_read_bytes 2 d = (bs, moved (length bs) (?d\<lparr>dec_heap := h\<rparr>))"
    using decoder_read_at [OF at1] n read_length_at [OF at n] h
    by (simp add: pbtools_decoder_read_bytes_def decoder_heap_alloc_def)
  then show ?thesis using moved_at [OF at1] h by (auto simp: same_bytes_def)
qed

lemma takes_bytes:
  assumes "field_ok k" "length bs < 2147483647" "bs = [] \<Longrightarrow> s = s'"
    and read: "\<And>d d'. pbtools_decoder_read_bytes 2 d = (bs, d') \<Longrightarrow> field k 2 (s, d) = (s', d')"
  shows "takes field (bytes_field k bs) s s' (length bs)"
proof (cases "bs = []")
  case True then show ?thesis using assms(3) by (simp add: bytes_field_def)
next
  case False
  have "takes field (tag_bytes k 2 @ varint_bytes (word_of_nat (length bs)) @ bs) s s' (length bs)"
  proof (rule takes_field)
    fix d rest r
    assume "at_bytes ((varint_bytes (word_of_nat (length bs)) @ bs) @ rest) d" "room (length bs + r) d"
    then show "\<exists>d'. field k 2 (s, d) = (s', d') \<and> at_bytes rest d' \<and> room r d' \<and> same_bytes d d'"
      using read_bytes_at [of bs rest d r] assms(2) read by (metis append.assoc)
  qed (use assms in simp_all)
  then show ?thesis using False by (simp add: bytes_field_def length_field_def)
qed

text \<open>A message in a message: its bytes are the slice, and the decoder goes on behind them.\<close>

lemma slice_at:
  assumes "at_bytes (bs @ rest) d"
  shows "at_bytes bs (decoder_init_slice d (int (length bs)))"
    "dec_heap (decoder_init_slice d (int (length bs))) = dec_heap d"
    "dec_pos (decoder_init_slice d (int (length bs))) = 0"
    "dec_size (decoder_init_slice d (int (length bs))) = int (length bs)"
  using assms at_bytes_length [OF assms] at_bytes_take [OF assms]
  by (auto simp: decoder_init_slice_def at_bytes_def)

lemma seek_at:
  assumes "at_bytes (bs @ rest) d"
  shows "decoder_seek (int (length bs)) d = moved (length bs) d"
  using assms at_bytes_length [OF assms] by (simp add: decoder_seek_def moved_def at_bytes_def)

lemma slice_decodes:
  assumes dec: "decodes decode_inner init bs m k" and at: "at_bytes (bs @ rest) d" and room: "room (k + r) d"
  shows "\<exists>sub. decode_inner init (decoder_init_slice d (int (length bs))) = (m, sub) \<and> heap_room r (dec_heap sub)
    \<and> hp_size (dec_heap sub) = hp_size (dec_heap d)
    \<and> decoder_seek (dec_pos sub) (d\<lparr>dec_heap := dec_heap sub\<rparr>) = moved (length bs) (d\<lparr>dec_heap := dec_heap sub\<rparr>)"
proof -
  let ?s = "decoder_init_slice d (int (length bs))"
  have "room (k + r) ?s" using slice_at(2) [OF at] room by simp
  then obtain sub where sub: "decode_inner init ?s = (m, sub)" "at_bytes [] sub" "room r sub" "same_bytes ?s sub"
    using dec slice_at(1) [OF at] unfolding decodes_def by blast
  have "dec_pos sub = int (length bs)"
    using at_bytes_length [OF sub(2)] sub(4) slice_at(4) [OF at] by (simp add: same_bytes_def)
  moreover have "hp_size (dec_heap sub) = hp_size (dec_heap d)"
    using sub(4) slice_at(2) [OF at] by (simp add: same_bytes_def)
  ultimately show ?thesis using sub seek_at [of bs rest "d\<lparr>dec_heap := dec_heap sub\<rparr>"] at by simp
qed

lemma sub_message_at:
  assumes dec: "decodes decode_inner init bs m k" and n: "length bs < 2147483647"
    and at: "at_bytes (varint_bytes (word_of_nat (length bs)) @ bs @ rest) d" and room: "room (n + 7 + k + r) d"
  shows "\<exists>d'. pbtools_decoder_sub_message_decode n init decode_inner 2 (old, d) = (Some m, d')
    \<and> at_bytes rest d' \<and> room r d' \<and> same_bytes d d'"
proof -
  obtain h where h: "heap_alloc n ALIGN_MESSAGE (dec_heap d) = (True, h)" "heap_room (k + r) h" "hp_size h = hp_size (dec_heap d)"
    using heap_alloc_room [of n "k + r" "dec_heap d" ALIGN_MESSAGE] room
    by (auto simp: ALIGN_MESSAGE_def add.assoc)
  let ?d0 = "d\<lparr>dec_heap := h\<rparr>"
  let ?d1 = "moved (length (varint_bytes (word_of_nat (length bs)))) ?d0"
  have at0: "at_bytes (varint_bytes (word_of_nat (length bs)) @ bs @ rest) ?d0" using at by simp
  note len = read_length_at [OF at0 n]
  have at1: "at_bytes (bs @ rest) ?d1" by (rule moved_at [OF at0])
  obtain sub where sub: "decode_inner init (decoder_init_slice ?d1 (int (length bs))) = (m, sub)"
    "heap_room r (dec_heap sub)" "hp_size (dec_heap sub) = hp_size h"
    "decoder_seek (dec_pos sub) (?d1\<lparr>dec_heap := dec_heap sub\<rparr>) = moved (length bs) (?d1\<lparr>dec_heap := dec_heap sub\<rparr>)"
    using slice_decodes [OF dec at1] h by auto
  have "at_bytes rest (moved (length bs) (?d1\<lparr>dec_heap := dec_heap sub\<rparr>))" by (rule moved_at) (use at1 in simp)
  then show ?thesis
    using h sub unfolding pbtools_decoder_sub_message_decode_def
    by (simp add: decoder_heap_alloc_def len same_bytes_def)
qed

lemma takes_sub_always:
  assumes "field_ok k" "decodes decode_inner init bs m l" "length bs < 2147483647"
    and read: "\<And>d d'. pbtools_decoder_sub_message_decode n init decode_inner 2 (old, d) = (Some m, d') \<Longrightarrow>
      field k 2 (s, d) = (s', d')"
  shows "takes field (length_field k bs) s s' (n + 7 + l)"
  unfolding length_field_def
proof (rule takes_field)
  fix d rest r
  assume "at_bytes ((varint_bytes (word_of_nat (length bs)) @ bs) @ rest) d" "room (n + 7 + l + r) d"
  then show "\<exists>d'. field k 2 (s, d) = (s', d') \<and> at_bytes rest d' \<and> room r d' \<and> same_bytes d d'"
    using sub_message_at [OF assms(2,3), of rest d n r old] read by (metis append.assoc)
qed (use assms in simp_all)


section \<open>Reading repeated fields\<close>

text \<open>The first pass counts the items and counted where the first one starts.\<close>

definition counted :: "nat \<Rightarrow> bytes list \<Rightarrow> pb_repeated_info \<Rightarrow> bool" where
  "counted k bss i \<longleftrightarrow> ri_tag i = k \<and> ri_length i = length bss
     \<and> (bss \<noteq> [] \<longrightarrow> (\<exists>tail. at_bytes (drop (length (tag_bytes k 2)) (concat (map (length_field k) bss)) @ tail) (ri_decoder i)))"

lemma skip_item_at:
  assumes at: "at_bytes (varint_bytes (word_of_nat (length bs)) @ bs @ rest) d" and n: "length bs < 2147483647"
  shows "\<exists>i' d'. pbtools_repeated_info_decode 2 (i, d) = (i', d') \<and> at_bytes rest d' \<and> dec_heap d' = dec_heap d
    \<and> same_bytes d d' \<and> i' = (repeated_info_init_decode d i)\<lparr>ri_length := Suc (ri_length i)\<rparr>"
proof -
  let ?d = "moved (length (varint_bytes (word_of_nat (length bs)))) d"
  note len = read_length_at [OF at n]
  have at1: "at_bytes (bs @ rest) ?d" by (rule moved_at [OF at])
  have l: "ri_length (repeated_info_init_decode d i) = ri_length i" by (simp add: repeated_info_init_decode_def)
  have "pbtools_repeated_info_decode 2 (i, d) =
      ((repeated_info_init_decode d i)\<lparr>ri_length := Suc (ri_length i)\<rparr>, moved (length bs) ?d)"
    using seek_at [OF at1] by (simp add: pbtools_repeated_info_decode_def Let_def len l)
  then show ?thesis using moved_at [OF at1] by (auto simp: same_bytes_def)
qed

lemma takes_item:
  assumes "field_ok k" "length bs < 2147483647"
    and branch: "\<And>d. field k 2 ((m, i), d) = (case pbtools_repeated_info_decode 2 (i, d) of (i, d) \<Rightarrow> ((m, i), d))"
    and i: "ri_length i \<noteq> 0"
  shows "takes field (length_field k bs) (m, i) (m, i\<lparr>ri_length := Suc (ri_length i)\<rparr>) 0"
  unfolding length_field_def
proof (rule takes_field)
  fix d rest r
  assume "at_bytes ((varint_bytes (word_of_nat (length bs)) @ bs) @ rest) d" "room (0 + r) d"
  then show "\<exists>d'. field k 2 ((m, i), d) = ((m, i\<lparr>ri_length := Suc (ri_length i)\<rparr>), d') \<and> at_bytes rest d' \<and> room r d'
      \<and> same_bytes d d'"
    using skip_item_at [of bs rest d i] assms(2) i unfolding branch by (auto simp: repeated_info_init_decode_def)
qed (use assms in simp_all)

lemma takes_more_items:
  assumes "field_ok k" "\<And>bs. bs \<in> set bss \<Longrightarrow> length bs < 2147483647"
    and branch: "\<And>i d. field k 2 ((m, i), d) = (case pbtools_repeated_info_decode 2 (i, d) of (i, d) \<Rightarrow> ((m, i), d))"
    and "ri_length i \<noteq> 0"
  shows "takes field (concat (map (length_field k) bss)) (m, i) (m, i\<lparr>ri_length := ri_length i + length bss\<rparr>) 0"
  using assms(2,4)
proof (induction bss arbitrary: i)
  case Nil then show ?case by simp
next
  case (Cons bs bss)
  have "takes field (length_field k bs) (m, i) (m, i\<lparr>ri_length := Suc (ri_length i)\<rparr>) 0"
    by (rule takes_item) (use Cons.prems assms branch in simp_all)
  from takes_append [OF this Cons.IH] Cons.prems show ?case by simp
qed

lemma takes_items:
  assumes k: "field_ok k" and n: "\<And>bs. bs \<in> set bss \<Longrightarrow> length bs < 2147483647" and ne: "bss \<noteq> []"
    and branch: "\<And>i d. field k 2 ((m, i), d) = (case pbtools_repeated_info_decode 2 (i, d) of (i, d) \<Rightarrow> ((m, i), d))"
    and i: "ri_length i = 0" "ri_tag i = k"
    and at: "at_bytes (concat (map (length_field k) bss) @ rest) d" and room: "room r d"
  shows "\<exists>i' d'. decode_fields field ((m, i), d) = decode_fields field ((m, i'), d') \<and> counted k bss i'
    \<and> at_bytes rest d' \<and> room r d' \<and> same_bytes d d'"
proof -
  obtain b bs where bss: "bss = b # bs" using ne by (cases bss) auto
  let ?more = "concat (map (length_field k) bs)"
  let ?d = "moved (length (tag_bytes k 2)) d"
  have at0: "at_bytes (tag_bytes k 2 @ varint_bytes (word_of_nat (length b)) @ b @ ?more @ rest) d"
    using at by (simp add: bss length_field_def)
  have t: "pbtools_decoder_read_tag d = (k, 2, ?d)" by (rule read_tag_at [OF at0 k]) simp
  have at1: "at_bytes (varint_bytes (word_of_nat (length b)) @ b @ ?more @ rest) ?d" by (rule moved_at [OF at0])
  obtain i1 d1 where d1: "pbtools_repeated_info_decode 2 (i, ?d) = (i1, d1)" "at_bytes (?more @ rest) d1"
    "dec_heap d1 = dec_heap d" "same_bytes ?d d1" "i1 = (repeated_info_init_decode ?d i)\<lparr>ri_length := 1\<rparr>"
    using skip_item_at [OF at1, of i] n i by (auto simp: bss)
  have "tag_bytes k 2 \<noteq> []" by (simp add: tag_bytes_def varint_not_empty)
  then have "pbtools_decoder_available d" using at_bytes_available [OF at0] by simp
  then have first: "decode_fields field ((m, i), d) = decode_fields field ((m, i1), d1)"
    unfolding decode_fields_def by (subst while_unfold) (simp add: t branch d1(1))
  let ?i2 = "i1\<lparr>ri_length := ri_length i1 + length bs\<rparr>"
  have "takes field ?more (m, i1) (m, ?i2) 0"
    by (rule takes_more_items) (use k n branch d1 in \<open>simp_all add: bss\<close>)
  then obtain d2 where d2: "decode_fields field ((m, i1), d1) = decode_fields field ((m, ?i2), d2)"
    "at_bytes rest d2" "room r d2" "same_bytes d1 d2"
    unfolding takes_def using d1(2,3) room by (metis add_0)
  have left: "decoder_left ?d = int (length (varint_bytes (word_of_nat (length b)) @ b @ ?more @ rest))"
    using at_bytes_length [OF at1] by (simp add: decoder_left_def)
  have "at_bytes (varint_bytes (word_of_nat (length b)) @ b @ ?more @ rest)
      (decoder_init_slice ?d (decoder_left ?d))"
    unfolding left by (rule slice_at(1) [where rest = "[]"]) (use at1 in simp)
  then have "counted k bss ?i2"
    using i d1(5) by (auto simp: counted_def bss length_field_def repeated_info_init_decode_def)
  then show ?thesis
    using first d2 d1(4) by (intro exI conjI) (auto simp: same_bytes_def)
qed

text \<open>The second pass reads the items it has made room for.\<close>

lemma item_at:
  assumes dec: "decodes decode_inner init bs m l" and n: "length bs < 2147483647"
    and items: "items ! j = init"
    and at: "at_bytes (varint_bytes (word_of_nat (length bs)) @ bs @ rest) d" and room: "room (l + r) d"
  shows "\<exists>d'. decode_repeated_inner_item decode_inner (items, j, d) = (items[j := m], Suc j, d')
    \<and> at_bytes rest d' \<and> room r d' \<and> hp_size (dec_heap d') = hp_size (dec_heap d)"
proof -
  let ?d1 = "moved (length (varint_bytes (word_of_nat (length bs)))) d"
  note len = read_length_at [OF at n]
  have at1: "at_bytes (bs @ rest) ?d1" by (rule moved_at [OF at])
  obtain sub where sub: "decode_inner init (decoder_init_slice ?d1 (int (length bs))) = (m, sub)"
    "heap_room r (dec_heap sub)" "hp_size (dec_heap sub) = hp_size (dec_heap d)"
    "decoder_seek (dec_pos sub) (?d1\<lparr>dec_heap := dec_heap sub\<rparr>) = moved (length bs) (?d1\<lparr>dec_heap := dec_heap sub\<rparr>)"
    using slice_decodes [OF dec at1] room by auto
  have "at_bytes rest (moved (length bs) (?d1\<lparr>dec_heap := dec_heap sub\<rparr>))" by (rule moved_at) (use at1 in simp)
  then show ?thesis using sub items by (simp add: decode_repeated_inner_item_def len)
qed

lemma items_at:
  assumes k: "field_ok k"
    and items: "list_all2 (\<lambda>bs m. decodes decode_inner init bs m (need m) \<and> length bs < 2147483647) bss ms"
    and at: "at_bytes (concat (map (length_field k) bss) @ rest) d"
    and room: "room (sum_list (map need ms) + r) d"
  shows "\<exists>d' rest'. decode_items decode_inner k (length ds + length ms) (ds @ replicate (length ms) init, length ds, d) =
      (ds @ ms, length ds + length ms, d') \<and> at_bytes rest' d' \<and> room r d' \<and> hp_size (dec_heap d') = hp_size (dec_heap d)"
  using items at room
proof (induction bss ms arbitrary: ds d rule: list_all2_induct)
  case Nil
  then show ?case
    unfolding decode_items_def by (subst while_unfold) (auto simp: are_more_items_to_decode_def)
next
  case (Cons bs bss m ms)
  let ?d = "moved (length (tag_bytes k 2)) d" and ?items = "ds @ replicate (length (m # ms)) init"
  let ?len = "length ds + length (m # ms)"
  have at0: "at_bytes (tag_bytes k 2 @ varint_bytes (word_of_nat (length bs)) @ bs @ concat (map (length_field k) bss) @ rest) d"
    using Cons.prems by (simp add: length_field_def [of k bs])
  have t: "pbtools_decoder_read_tag d = (k, 2, ?d)" by (rule read_tag_at [OF at0 k]) simp
  obtain d1 where d1: "decode_repeated_inner_item decode_inner (?items, length ds, ?d) =
      (?items[length ds := m], Suc (length ds), d1)"
    "at_bytes (concat (map (length_field k) bss) @ rest) d1" "room (sum_list (map need ms) + r) d1"
    "hp_size (dec_heap d1) = hp_size (dec_heap d)"
    using item_at [of decode_inner init bs m "need m" ?items "length ds" "concat (map (length_field k) bss) @ rest" ?d
        "sum_list (map need ms) + r"] Cons.hyps Cons.prems(2) moved_at [OF at0]
    by (auto simp: nth_append add.assoc)
  have "tag_bytes k 2 \<noteq> []" by (simp add: tag_bytes_def varint_not_empty)
  then have more: "are_more_items_to_decode ?len (length ds, d)"
    using at_bytes_available [OF at0] by (simp add: are_more_items_to_decode_def)
  have "decode_items decode_inner k ?len (?items, length ds, d) =
      decode_items decode_inner k ?len (?items[length ds := m], Suc (length ds), d1)"
    unfolding decode_items_def by (subst while_unfold) (use more d1(1) in \<open>simp add: t\<close>)
  moreover have "?items[length ds := m] = (ds @ [m]) @ replicate (length ms) init"
    by (simp add: list_update_append)
  ultimately show ?case using Cons.IH [OF d1(2,3), of "ds @ [m]"] d1(4) by simp
qed

lemma decode_repeated_at:
  assumes k: "field_ok k" and i: "counted k bss i"
    and items: "list_all2 (\<lambda>bs m. decodes decode_inner init bs m (need m) \<and> length bs < 2147483647) bss ms"
    and at: "at_bytes rest d" and room: "room (n * length ms + 7 + sum_list (map need ms) + r) d"
  shows "\<exists>d'. pbtools_decode_repeated_inner n init decode_inner i ([], d) = (ms, d') \<and> at_bytes rest d' \<and> room r d'
    \<and> same_bytes d d'"
proof (cases ms)
  case Nil
  then have "bss = []" using items by auto
  then show ?thesis using i at room Nil
    by (auto simp: pbtools_decode_repeated_inner_def counted_def same_bytes_def intro: heap_room_le)
next
  case (Cons m ms')
  obtain b bs where bss: "bss = b # bs" using Cons items by (auto simp: list_all2_Cons2)
  let ?more = "concat (map (length_field k) bs)"
  have len: "ri_length i = length ms" using i list_all2_lengthD [OF items] by (simp add: counted_def)
  obtain h where h: "heap_alloc (n * length ms) ALIGN_MESSAGE (dec_heap d) = (True, h)"
    "heap_room (sum_list (map need ms) + r) h" "hp_size h = hp_size (dec_heap d)"
    using heap_alloc_room [of "n * length ms" "sum_list (map need ms) + r" "dec_heap d" ALIGN_MESSAGE] room
    by (auto simp: ALIGN_MESSAGE_def add.assoc)
  obtain tail where "at_bytes (drop (length (tag_bytes k 2)) (concat (map (length_field k) bss)) @ tail) (ri_decoder i)"
    using i by (auto simp: counted_def bss)
  then have at0: "at_bytes (varint_bytes (word_of_nat (length b)) @ b @ ?more @ tail) ((ri_decoder i)\<lparr>dec_heap := h\<rparr>)"
    by (simp add: bss length_field_def)
  obtain rd where rd: "decode_repeated_inner_item decode_inner (replicate (length ms) init, 0, (ri_decoder i)\<lparr>dec_heap := h\<rparr>) =
      ((replicate (length ms) init)[0 := m], Suc 0, rd)" "at_bytes (?more @ tail) rd" "room (sum_list (map need ms') + r) rd"
    "hp_size (dec_heap rd) = hp_size h"
    using item_at [of decode_inner init b m "need m" "replicate (length ms) init" 0 "?more @ tail"
        "(ri_decoder i)\<lparr>dec_heap := h\<rparr>" "sum_list (map need ms') + r"] items h at0
    by (auto simp: bss Cons add.assoc)
  have first: "(replicate (length ms) init)[0 := m] = [m] @ replicate (length ms') init" by (simp add: Cons)
  have "list_all2 (\<lambda>bs m. decodes decode_inner init bs m (need m) \<and> length bs < 2147483647) bs ms'"
    using items by (simp add: bss Cons)
  from items_at [OF k this rd(2,3), of "[m]"] obtain rd' tail' where
    "decode_items decode_inner k (length ms) ([m] @ replicate (length ms') init, Suc 0, rd) = (ms, length ms, rd')"
    "at_bytes tail' rd'" "room r rd'" "hp_size (dec_heap rd') = hp_size (dec_heap rd)"
    by (auto simp: Cons)
  then show ?thesis
    using at i len h rd(1,4) unfolding first
    by (auto simp: pbtools_decode_repeated_inner_def pbtools_alloc_repeated_def counted_def same_bytes_def at_bytes_def Cons)
qed


section \<open>Writing\<close>

text \<open>A call that writes \<open>bs\<close> puts it in front of what is there, as long as its room is larger;
  one byte of the buffer is never used. Without the room the encoder is full, and stays so.\<close>

definition enc_open :: "pb_encoder \<Rightarrow> bool" where
  "enc_open e \<longleftrightarrow> 0 \<le> enc_size e \<and> 0 \<le> enc_pos e \<and> enc_pos e \<le> INT_MAX"

definition enc_full :: "pb_encoder \<Rightarrow> bool" where
  "enc_full e \<longleftrightarrow> enc_size e = - PBTOOLS_ENCODE_BUFFER_FULL \<and> enc_pos e = - PBTOOLS_ENCODE_BUFFER_FULL"

definition put_bytes :: "bytes \<Rightarrow> pb_encoder \<Rightarrow> pb_encoder" where
  "put_bytes bs e = e\<lparr>enc_pos := enc_pos e - int (length bs), enc_out := bs @ enc_out e\<rparr>"

definition writes :: "pb_write \<Rightarrow> bytes \<Rightarrow> bool" where
  "writes w bs \<longleftrightarrow>
     (\<forall>e. enc_open e \<and> int (length bs) \<le> enc_pos e \<longrightarrow> w e = Inr (put_bytes bs e))
     \<and> (\<forall>e. enc_open e \<and> enc_pos e < int (length bs) \<longrightarrow> (\<exists>e'. w e = Inr e' \<and> enc_full e'))
     \<and> (\<forall>e. enc_full e \<longrightarrow> (\<exists>e'. w e = Inr e' \<and> enc_full e'))"

lemma put_bytes_open: "enc_open e \<Longrightarrow> int (length bs) \<le> enc_pos e \<Longrightarrow> enc_open (put_bytes bs e)"
  by (simp add: enc_open_def put_bytes_def)

lemma put_bytes_put: "put_bytes as (put_bytes bs e) = put_bytes (as @ bs) e"
  by (simp add: put_bytes_def)

lemma writes_none: "writes Inr []"
  by (auto simp: writes_def put_bytes_def enc_open_def)

lemma writes_all_Nil [simp]: "writes (write_all []) []"
  using writes_none by (simp add: writes_def)

lemma writes_then:
  assumes v: "writes v as" and w: "writes w bs"
  shows "writes (\<lambda>e. fbind (v e) w) (bs @ as)"
  unfolding writes_def
proof (intro conjI allI impI; (elim conjE)?)
  fix e assume e: "enc_open e" "int (length (bs @ as)) \<le> enc_pos e"
  then have "v e = Inr (put_bytes as e)" using v by (simp add: writes_def)
  moreover have "w (put_bytes as e) = Inr (put_bytes bs (put_bytes as e))"
    using w e put_bytes_open [of e as] by (simp add: writes_def) (simp add: put_bytes_def)
  ultimately show "fbind (v e) w = Inr (put_bytes (bs @ as) e)" by (simp add: put_bytes_put)
next
  fix e assume e: "enc_open e" "enc_pos e < int (length (bs @ as))"
  show "\<exists>e'. fbind (v e) w = Inr e' \<and> enc_full e'"
  proof (cases "int (length as) \<le> enc_pos e")
    case True
    then have "v e = Inr (put_bytes as e)" using v e by (simp add: writes_def)
    moreover have "enc_pos (put_bytes as e) < int (length bs)" using e by (simp add: put_bytes_def)
    ultimately show ?thesis using w put_bytes_open [OF e(1) True] by (simp add: writes_def)
  next
    case False
    then obtain e' where "v e = Inr e'" "enc_full e'" using v e by (auto simp: writes_def)
    then show ?thesis using w by (simp add: writes_def)
  qed
next
  fix e assume "enc_full e"
  then obtain e' where "v e = Inr e'" "enc_full e'" using v by (auto simp: writes_def)
  then show "\<exists>e'. fbind (v e) w = Inr e' \<and> enc_full e'" using w by (simp add: writes_def)
qed

lemma writes_all_Cons:
  "writes w as \<Longrightarrow> writes (write_all ws) bs \<Longrightarrow> writes (write_all (w # ws)) (bs @ as)"
  using writes_then [of w as "write_all ws" bs] by (simp add: writes_def)

lemma writes_encoder_write: "length bs < 2147483648 \<Longrightarrow> writes (encoder_write bs) bs"
  by (auto simp: writes_def encoder_write_def c_int_small put_bytes_def encoder_abort_def enc_full_def enc_open_def
      PBTOOLS_ENCODE_BUFFER_FULL_def)

lemma writes_varint: "writes (encoder_write_varint v) (varint_bytes v)"
  unfolding encoder_write_varint_def by (rule writes_encoder_write) (use varint_length [of v] in simp)

lemma writes_tag: "writes (encoder_write_tag k w) (tag_bytes k w)"
  unfolding encoder_write_tag_def tag_bytes_def by (rule writes_varint)

lemma writes_varint_always: "writes (encoder_write_tagged_varint_always k 0 v) (varint_field_always k v)"
  using writes_then [OF writes_varint [of v] writes_tag [of k 0]]
  by (simp add: writes_def encoder_write_tagged_varint_always_def varint_field_always_def)

lemma tagged_always: "0 < v \<Longrightarrow> encoder_write_tagged_varint k w v = encoder_write_tagged_varint_always k w v"
  by (rule ext) (simp add: encoder_write_tagged_varint_def encoder_write_tagged_varint_always_def)

lemma writes_varint_field: "writes (encoder_write_tagged_varint k 0 v) (varint_field k v)"
proof (cases "v = 0")
  case True
  have "encoder_write_tagged_varint k 0 v = Inr" by (rule ext) (simp add: encoder_write_tagged_varint_def True)
  then show ?thesis using writes_none by (simp add: varint_field_def True)
next
  case False
  have "0 < v" using False by (simp add: word_neq_0_conv)
  then show ?thesis using writes_varint_always [of k v] False by (simp add: varint_field_def tagged_always)
qed

lemma writes_length: "writes (encoder_write_length_delimited k v) (tag_bytes k 2 @ varint_bytes v)"
  using writes_then [OF writes_varint [of v] writes_tag [of k 2]]
  by (simp add: writes_def encoder_write_length_delimited_def)

lemma writes_length_always:
  "writes (encoder_write_tagged_varint_always k 2 v) (tag_bytes k 2 @ varint_bytes v)"
  using writes_then [OF writes_varint [of v] writes_tag [of k 2]]
  by (simp add: writes_def encoder_write_tagged_varint_always_def)

lemma writes_bytes:
  assumes "length bs < 2147483648"
  shows "writes (pbtools_encoder_write_bytes k bs) (bytes_field k bs)"
proof (cases "bs = []")
  case True
  have "pbtools_encoder_write_bytes k bs = Inr" by (rule ext) (simp add: pbtools_encoder_write_bytes_def True)
  then show ?thesis using writes_none by (simp add: bytes_field_def True)
next
  case False
  have "unat (word_of_nat (length bs) :: u64) = length bs"
    using assms by (simp add: unsigned_of_nat take_bit_nat_eq_self)
  then have "0 < (word_of_nat (length bs) :: u64)" using False by (simp add: word_less_unat)
  then have "pbtools_encoder_write_bytes k bs =
      (\<lambda>e. fbind (encoder_write bs e) (encoder_write_tagged_varint_always k 2 (word_of_nat (length bs))))"
    using False by (intro ext) (simp add: pbtools_encoder_write_bytes_def tagged_always)
  then show ?thesis
    using writes_then [OF writes_encoder_write [OF assms] writes_length_always [of k "word_of_nat (length bs)"]] False
    by (simp add: bytes_field_def length_field_def)
qed

text \<open>The length of a message is the distance the encoder has moved.\<close>

lemma writes_measured:
  assumes w: "writes w bs" and tag: "\<And>v. writes (wl v) (tag_bytes k 2 @ varint_bytes v)"
  shows "writes (\<lambda>e. fbind (w e) (\<lambda>e'. wl (word_of_int (enc_pos e - enc_pos e')) e')) (length_field k bs)"
  unfolding writes_def
proof (intro conjI allI impI; (elim conjE)?)
  let ?v = "word_of_nat (length bs) :: u64"
  have both: "writes (\<lambda>e. fbind (w e) (wl ?v)) (length_field k bs)"
    using writes_then [OF w tag [of ?v]] by (simp add: length_field_def)
  { fix e assume e: "enc_open e" "int (length bs) \<le> enc_pos e"
    then have p: "w e = Inr (put_bytes bs e)" using w by (simp add: writes_def)
    have "word_of_int (enc_pos e - enc_pos (put_bytes bs e)) = ?v" by (simp add: put_bytes_def)
    then have "fbind (w e) (\<lambda>e'. wl (word_of_int (enc_pos e - enc_pos e')) e') = fbind (w e) (wl ?v)"
      by (simp add: p) }
  note same = this
  { fix e assume e: "enc_open e" "int (length (length_field k bs)) \<le> enc_pos e"
    then have "int (length bs) \<le> enc_pos e" by (simp add: length_field_def)
    then show "fbind (w e) (\<lambda>e'. wl (word_of_int (enc_pos e - enc_pos e')) e') = Inr (put_bytes (length_field k bs) e)"
      using both e same by (simp add: writes_def) }
  { fix e assume e: "enc_open e" "enc_pos e < int (length (length_field k bs))"
    show "\<exists>e'. fbind (w e) (\<lambda>e'. wl (word_of_int (enc_pos e - enc_pos e')) e') = Inr e' \<and> enc_full e'"
    proof (cases "int (length bs) \<le> enc_pos e")
      case True
      then show ?thesis using both e same by (simp add: writes_def)
    next
      case False
      then obtain e' where "w e = Inr e'" "enc_full e'" using w e by (auto simp: writes_def)
      then show ?thesis using tag by (simp add: writes_def)
    qed }
  { fix e assume "enc_full e"
    then obtain e' where "w e = Inr e'" "enc_full e'" using w by (auto simp: writes_def)
    then show "\<exists>e'. fbind (w e) (\<lambda>e'. wl (word_of_int (enc_pos e - enc_pos e')) e') = Inr e' \<and> enc_full e'"
      using tag by (simp add: writes_def) }
qed

definition sub_field :: "nat \<Rightarrow> ('m \<Rightarrow> bytes) \<Rightarrow> 'm option \<Rightarrow> bytes" where
  "sub_field k enc m = (case m of None \<Rightarrow> [] | Some m \<Rightarrow> length_field k (enc m))"

lemma writes_sub_always:
  assumes "writes (encode_inner m) bs"
  shows "writes (pbtools_encoder_sub_message_encode_always k encode_inner (Some m)) (length_field k bs)"
  using writes_measured [OF assms writes_length_always]
  by (simp add: writes_def pbtools_encoder_sub_message_encode_always_def)

lemma writes_sub:
  assumes "\<And>m. message = Some m \<Longrightarrow> writes (encode_inner m) (enc m)"
  shows "writes (pbtools_encoder_sub_message_encode k encode_inner message) (sub_field k enc message)"
proof (cases message)
  case None
  have "pbtools_encoder_sub_message_encode k encode_inner message = Inr"
    by (rule ext) (simp add: pbtools_encoder_sub_message_encode_def None)
  then show ?thesis using writes_none by (simp add: sub_field_def None)
next
  case (Some m)
  show ?thesis
    using writes_measured [OF assms [OF Some] writes_length]
    by (simp add: writes_def pbtools_encoder_sub_message_encode_def sub_field_def Some)
qed

lemma writes_items:
  assumes "\<And>m. m \<in> set ms \<Longrightarrow> writes (encode_inner m) (enc m)"
  shows "writes (encode_items k encode_inner ms) (concat (map (\<lambda>m. length_field k (enc m)) (rev ms)))"
  using assms
proof (induction ms)
  case Nil
  have "encode_items k encode_inner [] = Inr" by (rule ext) simp
  then show ?case using writes_none by simp
next
  case (Cons m ms)
  have m: "writes (\<lambda>e. fbind (encode_inner m e) (\<lambda>e'.
      encoder_write_length_delimited k (word_of_int (enc_pos e - enc_pos e')) e')) (length_field k (enc m))"
    by (rule writes_measured [OF _ writes_length]) (use Cons.prems in simp)
  have "encode_items k encode_inner (m # ms) =
      (\<lambda>e. fbind (fbind (encode_inner m e) (\<lambda>e'.
          encoder_write_length_delimited k (word_of_int (enc_pos e - enc_pos e')) e')) (encode_items k encode_inner ms))"
    by (rule ext) (simp add: fbind_def split: sum.splits)
  then show ?case using writes_then [OF m Cons.IH] Cons.prems by simp
qed

lemma writes_repeated:
  assumes "\<And>m. m \<in> set ms \<Longrightarrow> writes (encode_inner m) (enc m)"
  shows "writes (pbtools_encode_repeated_inner k encode_inner ms) (concat (map (\<lambda>m. length_field k (enc m)) ms))"
  unfolding pbtools_encode_repeated_inner_def
  using writes_items [of "rev ms" encode_inner enc k] assms by simp

lemma writes_message:
  assumes "writes (encode_inner m) bs" "0 < n" "n < 2147483648"
  shows "length bs < n \<Longrightarrow> pbtools_message_encode encode_inner m n = Inr (int (length bs), bs)"
    "n \<le> length bs \<Longrightarrow> \<exists>out. pbtools_message_encode encode_inner m n = Inr (- PBTOOLS_ENCODE_BUFFER_FULL, out)"
proof -
  let ?e = "encoder_init n"
  have e: "enc_open ?e" "enc_pos ?e = int n - 1" "enc_size ?e = int n" "enc_out ?e = []"
    using assms by (simp_all add: encoder_init_def enc_open_def c_int_small)
  show "pbtools_message_encode encode_inner m n = Inr (int (length bs), bs)" if "length bs < n"
  proof -
    have "encode_inner m ?e = Inr (put_bytes bs ?e)" using assms(1) e that by (simp add: writes_def)
    then show ?thesis using e that by (simp add: pbtools_message_encode_def encoder_get_result_def put_bytes_def)
  qed
  show "\<exists>out. pbtools_message_encode encode_inner m n = Inr (- PBTOOLS_ENCODE_BUFFER_FULL, out)" if "n \<le> length bs"
  proof -
    have "enc_pos ?e < int (length bs)" using e that by simp
    then obtain e' where "encode_inner m ?e = Inr e'" "enc_full e'" using assms(1) e by (auto simp: writes_def)
    then show ?thesis
      by (simp add: pbtools_message_encode_def encoder_get_result_def enc_full_def PBTOOLS_ENCODE_BUFFER_FULL_def)
  qed
qed


end
