(* ===== verification/GRD_Messages.thy ===== *)
theory GRD_Messages
  imports GRD_Pbtools
begin

text \<open>
  The messages of the gradido protocol as \<open>data/proto/gradido\<close> declares them, each with the functions
  pbtools generated for it: the value \<open>init\<close> leaves, the calls that encode it, the switch that
  decodes one field (\<open>_field\<close>) and the loop around it, and the allocation of its members. The member
  \<open>base\<close>, a pointer to the heap, is the heap handed along. The members of a union are separate
  fields, each read behind its discriminator; a pointer \<open>init\<close> does not set is \<open>None\<close>. The sizes are
  those of the structs on a host with 64 bit pointers.
\<close>

section \<open>Enumerations\<close>

abbreviation proto_gradido_account_id_account_none_e :: u32 where
  "proto_gradido_account_id_account_none_e \<equiv> 0"
abbreviation proto_gradido_account_id_account_account_num_e :: u32 where
  "proto_gradido_account_id_account_account_num_e \<equiv> 1"
abbreviation proto_gradido_account_id_account_alias_e :: u32 where
  "proto_gradido_account_id_account_alias_e \<equiv> 2"
abbreviation proto_gradido_ledger_anchor_anchor_id_none_e :: u32 where
  "proto_gradido_ledger_anchor_anchor_id_none_e \<equiv> 0"
abbreviation proto_gradido_ledger_anchor_anchor_id_hiero_transaction_id_e :: u32 where
  "proto_gradido_ledger_anchor_anchor_id_hiero_transaction_id_e \<equiv> 1"
abbreviation proto_gradido_ledger_anchor_anchor_id_id_e :: u32 where
  "proto_gradido_ledger_anchor_anchor_id_id_e \<equiv> 2"
abbreviation proto_gradido_transaction_body_data_none_e :: u32 where
  "proto_gradido_transaction_body_data_none_e \<equiv> 0"
abbreviation proto_gradido_transaction_body_data_transfer_e :: u32 where
  "proto_gradido_transaction_body_data_transfer_e \<equiv> 1"
abbreviation proto_gradido_transaction_body_data_creation_e :: u32 where
  "proto_gradido_transaction_body_data_creation_e \<equiv> 2"
abbreviation proto_gradido_transaction_body_data_community_friends_update_e :: u32 where
  "proto_gradido_transaction_body_data_community_friends_update_e \<equiv> 3"
abbreviation proto_gradido_transaction_body_data_register_address_e :: u32 where
  "proto_gradido_transaction_body_data_register_address_e \<equiv> 4"
abbreviation proto_gradido_transaction_body_data_deferred_transfer_e :: u32 where
  "proto_gradido_transaction_body_data_deferred_transfer_e \<equiv> 5"
abbreviation proto_gradido_transaction_body_data_community_root_e :: u32 where
  "proto_gradido_transaction_body_data_community_root_e \<equiv> 6"
abbreviation proto_gradido_transaction_body_data_redeem_deferred_transfer_e :: u32 where
  "proto_gradido_transaction_body_data_redeem_deferred_transfer_e \<equiv> 7"
abbreviation proto_gradido_transaction_body_data_timeout_deferred_transfer_e :: u32 where
  "proto_gradido_transaction_body_data_timeout_deferred_transfer_e \<equiv> 8"

section \<open>\<open>account_balance\<close>\<close>

record proto_gradido_account_balance_t =
  pab_pubkey :: bytes
  pab_balance :: i64
  pab_community_uuid :: bytes

definition SIZEOF_account_balance :: nat where "SIZEOF_account_balance = 48"

definition proto_gradido_account_balance_init :: proto_gradido_account_balance_t where
  "proto_gradido_account_balance_init =
     \<lparr>pab_pubkey = [],
      pab_balance = 0,
      pab_community_uuid = []\<rparr>"

definition proto_gradido_account_balance_encode_inner :: "proto_gradido_account_balance_t \<Rightarrow> pb_write" where
  "proto_gradido_account_balance_encode_inner m = write_all
     [pbtools_encoder_write_bytes 3 (pab_community_uuid m),
      pbtools_encoder_write_int64 2 (pab_balance m),
      pbtools_encoder_write_bytes 1 (pab_pubkey m)]"

definition proto_gradido_account_balance_field ::
  "nat \<Rightarrow> nat \<Rightarrow> proto_gradido_account_balance_t \<times> pb_decoder \<Rightarrow> proto_gradido_account_balance_t \<times> pb_decoder" where
  "proto_gradido_account_balance_field tag wire s =
     (case s of (m, d) \<Rightarrow>
      if tag = 1 then (case pbtools_decoder_read_bytes wire d of (v, d) \<Rightarrow> (m\<lparr>pab_pubkey := v\<rparr>, d))
      else if tag = 2 then (case pbtools_decoder_read_int64 wire d of (v, d) \<Rightarrow> (m\<lparr>pab_balance := v\<rparr>, d))
      else if tag = 3 then (case pbtools_decoder_read_bytes wire d of (v, d) \<Rightarrow> (m\<lparr>pab_community_uuid := v\<rparr>, d))
      else (m, pbtools_decoder_skip_field wire d))"

definition proto_gradido_account_balance_decode_inner :: "proto_gradido_account_balance_t \<Rightarrow> pb_decoder \<Rightarrow> proto_gradido_account_balance_t \<times> pb_decoder" where
  "proto_gradido_account_balance_decode_inner m d = decode_fields proto_gradido_account_balance_field (m, d)"

definition proto_gradido_account_balance_encode_repeated_inner :: "nat \<Rightarrow> proto_gradido_account_balance_t list \<Rightarrow> pb_write" where
  "proto_gradido_account_balance_encode_repeated_inner field items = pbtools_encode_repeated_inner field proto_gradido_account_balance_encode_inner items"

definition proto_gradido_account_balance_decode_repeated_inner ::
  "pb_repeated_info \<Rightarrow> proto_gradido_account_balance_t list \<times> pb_decoder \<Rightarrow> proto_gradido_account_balance_t list \<times> pb_decoder" where
  "proto_gradido_account_balance_decode_repeated_inner =
     pbtools_decode_repeated_inner SIZEOF_account_balance proto_gradido_account_balance_init proto_gradido_account_balance_decode_inner"

section \<open>\<open>duration_seconds\<close>\<close>

record proto_gradido_duration_seconds_t =
  pds_seconds :: u64

definition SIZEOF_duration_seconds :: nat where "SIZEOF_duration_seconds = 16"

definition proto_gradido_duration_seconds_init :: proto_gradido_duration_seconds_t where
  "proto_gradido_duration_seconds_init =
     \<lparr>pds_seconds = 0\<rparr>"

definition proto_gradido_duration_seconds_encode_inner :: "proto_gradido_duration_seconds_t \<Rightarrow> pb_write" where
  "proto_gradido_duration_seconds_encode_inner m = write_all
     [pbtools_encoder_write_uint64 1 (pds_seconds m)]"

definition proto_gradido_duration_seconds_field ::
  "nat \<Rightarrow> nat \<Rightarrow> proto_gradido_duration_seconds_t \<times> pb_decoder \<Rightarrow> proto_gradido_duration_seconds_t \<times> pb_decoder" where
  "proto_gradido_duration_seconds_field tag wire s =
     (case s of (m, d) \<Rightarrow>
      if tag = 1 then (case pbtools_decoder_read_uint64 wire d of (v, d) \<Rightarrow> (m\<lparr>pds_seconds := v\<rparr>, d))
      else (m, pbtools_decoder_skip_field wire d))"

definition proto_gradido_duration_seconds_decode_inner :: "proto_gradido_duration_seconds_t \<Rightarrow> pb_decoder \<Rightarrow> proto_gradido_duration_seconds_t \<times> pb_decoder" where
  "proto_gradido_duration_seconds_decode_inner m d = decode_fields proto_gradido_duration_seconds_field (m, d)"

section \<open>\<open>encrypted_memo\<close>\<close>

record proto_gradido_encrypted_memo_t =
  pem_type :: u32
  pem_memo :: bytes

definition SIZEOF_encrypted_memo :: nat where "SIZEOF_encrypted_memo = 32"

definition proto_gradido_encrypted_memo_init :: proto_gradido_encrypted_memo_t where
  "proto_gradido_encrypted_memo_init =
     \<lparr>pem_type = 0,
      pem_memo = []\<rparr>"

definition proto_gradido_encrypted_memo_encode_inner :: "proto_gradido_encrypted_memo_t \<Rightarrow> pb_write" where
  "proto_gradido_encrypted_memo_encode_inner m = write_all
     [pbtools_encoder_write_bytes 2 (pem_memo m),
      pbtools_encoder_write_enum 1 (pem_type m)]"

definition proto_gradido_encrypted_memo_field ::
  "nat \<Rightarrow> nat \<Rightarrow> proto_gradido_encrypted_memo_t \<times> pb_decoder \<Rightarrow> proto_gradido_encrypted_memo_t \<times> pb_decoder" where
  "proto_gradido_encrypted_memo_field tag wire s =
     (case s of (m, d) \<Rightarrow>
      if tag = 1 then (case pbtools_decoder_read_enum wire d of (v, d) \<Rightarrow> (m\<lparr>pem_type := v\<rparr>, d))
      else if tag = 2 then (case pbtools_decoder_read_bytes wire d of (v, d) \<Rightarrow> (m\<lparr>pem_memo := v\<rparr>, d))
      else (m, pbtools_decoder_skip_field wire d))"

definition proto_gradido_encrypted_memo_decode_inner :: "proto_gradido_encrypted_memo_t \<Rightarrow> pb_decoder \<Rightarrow> proto_gradido_encrypted_memo_t \<times> pb_decoder" where
  "proto_gradido_encrypted_memo_decode_inner m d = decode_fields proto_gradido_encrypted_memo_field (m, d)"

definition proto_gradido_encrypted_memo_encode_repeated_inner :: "nat \<Rightarrow> proto_gradido_encrypted_memo_t list \<Rightarrow> pb_write" where
  "proto_gradido_encrypted_memo_encode_repeated_inner field items = pbtools_encode_repeated_inner field proto_gradido_encrypted_memo_encode_inner items"

definition proto_gradido_encrypted_memo_decode_repeated_inner ::
  "pb_repeated_info \<Rightarrow> proto_gradido_encrypted_memo_t list \<times> pb_decoder \<Rightarrow> proto_gradido_encrypted_memo_t list \<times> pb_decoder" where
  "proto_gradido_encrypted_memo_decode_repeated_inner =
     pbtools_decode_repeated_inner SIZEOF_encrypted_memo proto_gradido_encrypted_memo_init proto_gradido_encrypted_memo_decode_inner"

section \<open>\<open>signature_pair\<close>\<close>

record proto_gradido_signature_pair_t =
  psp_pubkey :: bytes
  psp_signature :: bytes

definition SIZEOF_signature_pair :: nat where "SIZEOF_signature_pair = 40"

definition proto_gradido_signature_pair_init :: proto_gradido_signature_pair_t where
  "proto_gradido_signature_pair_init =
     \<lparr>psp_pubkey = [],
      psp_signature = []\<rparr>"

definition proto_gradido_signature_pair_encode_inner :: "proto_gradido_signature_pair_t \<Rightarrow> pb_write" where
  "proto_gradido_signature_pair_encode_inner m = write_all
     [pbtools_encoder_write_bytes 2 (psp_signature m),
      pbtools_encoder_write_bytes 1 (psp_pubkey m)]"

definition proto_gradido_signature_pair_field ::
  "nat \<Rightarrow> nat \<Rightarrow> proto_gradido_signature_pair_t \<times> pb_decoder \<Rightarrow> proto_gradido_signature_pair_t \<times> pb_decoder" where
  "proto_gradido_signature_pair_field tag wire s =
     (case s of (m, d) \<Rightarrow>
      if tag = 1 then (case pbtools_decoder_read_bytes wire d of (v, d) \<Rightarrow> (m\<lparr>psp_pubkey := v\<rparr>, d))
      else if tag = 2 then (case pbtools_decoder_read_bytes wire d of (v, d) \<Rightarrow> (m\<lparr>psp_signature := v\<rparr>, d))
      else (m, pbtools_decoder_skip_field wire d))"

definition proto_gradido_signature_pair_decode_inner :: "proto_gradido_signature_pair_t \<Rightarrow> pb_decoder \<Rightarrow> proto_gradido_signature_pair_t \<times> pb_decoder" where
  "proto_gradido_signature_pair_decode_inner m d = decode_fields proto_gradido_signature_pair_field (m, d)"

definition proto_gradido_signature_pair_encode_repeated_inner :: "nat \<Rightarrow> proto_gradido_signature_pair_t list \<Rightarrow> pb_write" where
  "proto_gradido_signature_pair_encode_repeated_inner field items = pbtools_encode_repeated_inner field proto_gradido_signature_pair_encode_inner items"

definition proto_gradido_signature_pair_decode_repeated_inner ::
  "pb_repeated_info \<Rightarrow> proto_gradido_signature_pair_t list \<times> pb_decoder \<Rightarrow> proto_gradido_signature_pair_t list \<times> pb_decoder" where
  "proto_gradido_signature_pair_decode_repeated_inner =
     pbtools_decode_repeated_inner SIZEOF_signature_pair proto_gradido_signature_pair_init proto_gradido_signature_pair_decode_inner"

section \<open>\<open>signature_map\<close>\<close>

record proto_gradido_signature_map_t =
  psm_sig_pair :: "proto_gradido_signature_pair_t list"

definition SIZEOF_signature_map :: nat where "SIZEOF_signature_map = 24"

definition proto_gradido_signature_map_init :: proto_gradido_signature_map_t where
  "proto_gradido_signature_map_init =
     \<lparr>psm_sig_pair = []\<rparr>"

definition proto_gradido_signature_map_encode_inner :: "proto_gradido_signature_map_t \<Rightarrow> pb_write" where
  "proto_gradido_signature_map_encode_inner m = write_all
     [proto_gradido_signature_pair_encode_repeated_inner 1 (psm_sig_pair m)]"

definition proto_gradido_signature_map_field ::
  "nat \<Rightarrow> nat \<Rightarrow> (proto_gradido_signature_map_t \<times> pb_repeated_info) \<times> pb_decoder \<Rightarrow> (proto_gradido_signature_map_t \<times> pb_repeated_info) \<times> pb_decoder" where
  "proto_gradido_signature_map_field tag wire s =
     (case s of ((m, i), d) \<Rightarrow>
      if tag = 1 then (case pbtools_repeated_info_decode wire (i, d) of (i, d) \<Rightarrow> ((m, i), d))
      else ((m, i), pbtools_decoder_skip_field wire d))"

definition proto_gradido_signature_map_decode_inner :: "proto_gradido_signature_map_t \<Rightarrow> pb_decoder \<Rightarrow> proto_gradido_signature_map_t \<times> pb_decoder" where
  "proto_gradido_signature_map_decode_inner m d =
     (case decode_fields proto_gradido_signature_map_field ((m, pbtools_repeated_info_init 1 d), d) of ((m, i), d) \<Rightarrow>
        (case proto_gradido_signature_pair_decode_repeated_inner i (psm_sig_pair m, d) of (v, d) \<Rightarrow>
           (m\<lparr>psm_sig_pair := v\<rparr>, d)))"

definition proto_gradido_signature_map_sig_pair_alloc ::
  "proto_gradido_signature_map_t \<Rightarrow> nat \<Rightarrow> pb_heap \<Rightarrow> bool \<times> proto_gradido_signature_map_t \<times> pb_heap" where
  "proto_gradido_signature_map_sig_pair_alloc m len h =
     (case pbtools_alloc_repeated SIZEOF_signature_pair proto_gradido_signature_pair_init len (psm_sig_pair m) h of (ok, v, h) \<Rightarrow>
        (ok, m\<lparr>psm_sig_pair := v\<rparr>, h))"

section \<open>\<open>timestamp\<close>\<close>

record proto_gradido_timestamp_t =
  pts_seconds :: i64
  pts_nanos :: i32

definition SIZEOF_timestamp :: nat where "SIZEOF_timestamp = 24"

definition proto_gradido_timestamp_init :: proto_gradido_timestamp_t where
  "proto_gradido_timestamp_init =
     \<lparr>pts_seconds = 0,
      pts_nanos = 0\<rparr>"

definition proto_gradido_timestamp_encode_inner :: "proto_gradido_timestamp_t \<Rightarrow> pb_write" where
  "proto_gradido_timestamp_encode_inner m = write_all
     [pbtools_encoder_write_int32 2 (pts_nanos m),
      pbtools_encoder_write_int64 1 (pts_seconds m)]"

definition proto_gradido_timestamp_field ::
  "nat \<Rightarrow> nat \<Rightarrow> proto_gradido_timestamp_t \<times> pb_decoder \<Rightarrow> proto_gradido_timestamp_t \<times> pb_decoder" where
  "proto_gradido_timestamp_field tag wire s =
     (case s of (m, d) \<Rightarrow>
      if tag = 1 then (case pbtools_decoder_read_int64 wire d of (v, d) \<Rightarrow> (m\<lparr>pts_seconds := v\<rparr>, d))
      else if tag = 2 then (case pbtools_decoder_read_int32 wire d of (v, d) \<Rightarrow> (m\<lparr>pts_nanos := v\<rparr>, d))
      else (m, pbtools_decoder_skip_field wire d))"

definition proto_gradido_timestamp_decode_inner :: "proto_gradido_timestamp_t \<Rightarrow> pb_decoder \<Rightarrow> proto_gradido_timestamp_t \<times> pb_decoder" where
  "proto_gradido_timestamp_decode_inner m d = decode_fields proto_gradido_timestamp_field (m, d)"

section \<open>\<open>timestamp_seconds\<close>\<close>

record proto_gradido_timestamp_seconds_t =
  pss_seconds :: i64

definition SIZEOF_timestamp_seconds :: nat where "SIZEOF_timestamp_seconds = 16"

definition proto_gradido_timestamp_seconds_init :: proto_gradido_timestamp_seconds_t where
  "proto_gradido_timestamp_seconds_init =
     \<lparr>pss_seconds = 0\<rparr>"

definition proto_gradido_timestamp_seconds_encode_inner :: "proto_gradido_timestamp_seconds_t \<Rightarrow> pb_write" where
  "proto_gradido_timestamp_seconds_encode_inner m = write_all
     [pbtools_encoder_write_int64 1 (pss_seconds m)]"

definition proto_gradido_timestamp_seconds_field ::
  "nat \<Rightarrow> nat \<Rightarrow> proto_gradido_timestamp_seconds_t \<times> pb_decoder \<Rightarrow> proto_gradido_timestamp_seconds_t \<times> pb_decoder" where
  "proto_gradido_timestamp_seconds_field tag wire s =
     (case s of (m, d) \<Rightarrow>
      if tag = 1 then (case pbtools_decoder_read_int64 wire d of (v, d) \<Rightarrow> (m\<lparr>pss_seconds := v\<rparr>, d))
      else (m, pbtools_decoder_skip_field wire d))"

definition proto_gradido_timestamp_seconds_decode_inner :: "proto_gradido_timestamp_seconds_t \<Rightarrow> pb_decoder \<Rightarrow> proto_gradido_timestamp_seconds_t \<times> pb_decoder" where
  "proto_gradido_timestamp_seconds_decode_inner m d = decode_fields proto_gradido_timestamp_seconds_field (m, d)"

section \<open>\<open>transfer_amount\<close>\<close>

record proto_gradido_transfer_amount_t =
  pta_pubkey :: bytes
  pta_amount :: i64
  pta_community_uuid :: bytes

definition SIZEOF_transfer_amount :: nat where "SIZEOF_transfer_amount = 48"

definition proto_gradido_transfer_amount_init :: proto_gradido_transfer_amount_t where
  "proto_gradido_transfer_amount_init =
     \<lparr>pta_pubkey = [],
      pta_amount = 0,
      pta_community_uuid = []\<rparr>"

definition proto_gradido_transfer_amount_encode_inner :: "proto_gradido_transfer_amount_t \<Rightarrow> pb_write" where
  "proto_gradido_transfer_amount_encode_inner m = write_all
     [pbtools_encoder_write_bytes 3 (pta_community_uuid m),
      pbtools_encoder_write_int64 2 (pta_amount m),
      pbtools_encoder_write_bytes 1 (pta_pubkey m)]"

definition proto_gradido_transfer_amount_field ::
  "nat \<Rightarrow> nat \<Rightarrow> proto_gradido_transfer_amount_t \<times> pb_decoder \<Rightarrow> proto_gradido_transfer_amount_t \<times> pb_decoder" where
  "proto_gradido_transfer_amount_field tag wire s =
     (case s of (m, d) \<Rightarrow>
      if tag = 1 then (case pbtools_decoder_read_bytes wire d of (v, d) \<Rightarrow> (m\<lparr>pta_pubkey := v\<rparr>, d))
      else if tag = 2 then (case pbtools_decoder_read_int64 wire d of (v, d) \<Rightarrow> (m\<lparr>pta_amount := v\<rparr>, d))
      else if tag = 3 then (case pbtools_decoder_read_bytes wire d of (v, d) \<Rightarrow> (m\<lparr>pta_community_uuid := v\<rparr>, d))
      else (m, pbtools_decoder_skip_field wire d))"

definition proto_gradido_transfer_amount_decode_inner :: "proto_gradido_transfer_amount_t \<Rightarrow> pb_decoder \<Rightarrow> proto_gradido_transfer_amount_t \<times> pb_decoder" where
  "proto_gradido_transfer_amount_decode_inner m d = decode_fields proto_gradido_transfer_amount_field (m, d)"

section \<open>\<open>community_friends_update\<close>\<close>

record proto_gradido_community_friends_update_t =
  pfu_color_fusion :: bool

definition SIZEOF_community_friends_update :: nat where "SIZEOF_community_friends_update = 16"

definition proto_gradido_community_friends_update_init :: proto_gradido_community_friends_update_t where
  "proto_gradido_community_friends_update_init =
     \<lparr>pfu_color_fusion = False\<rparr>"

definition proto_gradido_community_friends_update_encode_inner :: "proto_gradido_community_friends_update_t \<Rightarrow> pb_write" where
  "proto_gradido_community_friends_update_encode_inner m = write_all
     [pbtools_encoder_write_bool 1 (pfu_color_fusion m)]"

definition proto_gradido_community_friends_update_field ::
  "nat \<Rightarrow> nat \<Rightarrow> proto_gradido_community_friends_update_t \<times> pb_decoder \<Rightarrow> proto_gradido_community_friends_update_t \<times> pb_decoder" where
  "proto_gradido_community_friends_update_field tag wire s =
     (case s of (m, d) \<Rightarrow>
      if tag = 1 then (case pbtools_decoder_read_bool wire d of (v, d) \<Rightarrow> (m\<lparr>pfu_color_fusion := v\<rparr>, d))
      else (m, pbtools_decoder_skip_field wire d))"

definition proto_gradido_community_friends_update_decode_inner :: "proto_gradido_community_friends_update_t \<Rightarrow> pb_decoder \<Rightarrow> proto_gradido_community_friends_update_t \<times> pb_decoder" where
  "proto_gradido_community_friends_update_decode_inner m d = decode_fields proto_gradido_community_friends_update_field (m, d)"

section \<open>\<open>community_root\<close>\<close>

record proto_gradido_community_root_t =
  pcr_pubkey :: bytes
  pcr_gmw_pubkey :: bytes
  pcr_auf_pubkey :: bytes

definition SIZEOF_community_root :: nat where "SIZEOF_community_root = 56"

definition proto_gradido_community_root_init :: proto_gradido_community_root_t where
  "proto_gradido_community_root_init =
     \<lparr>pcr_pubkey = [],
      pcr_gmw_pubkey = [],
      pcr_auf_pubkey = []\<rparr>"

definition proto_gradido_community_root_encode_inner :: "proto_gradido_community_root_t \<Rightarrow> pb_write" where
  "proto_gradido_community_root_encode_inner m = write_all
     [pbtools_encoder_write_bytes 3 (pcr_auf_pubkey m),
      pbtools_encoder_write_bytes 2 (pcr_gmw_pubkey m),
      pbtools_encoder_write_bytes 1 (pcr_pubkey m)]"

definition proto_gradido_community_root_field ::
  "nat \<Rightarrow> nat \<Rightarrow> proto_gradido_community_root_t \<times> pb_decoder \<Rightarrow> proto_gradido_community_root_t \<times> pb_decoder" where
  "proto_gradido_community_root_field tag wire s =
     (case s of (m, d) \<Rightarrow>
      if tag = 1 then (case pbtools_decoder_read_bytes wire d of (v, d) \<Rightarrow> (m\<lparr>pcr_pubkey := v\<rparr>, d))
      else if tag = 2 then (case pbtools_decoder_read_bytes wire d of (v, d) \<Rightarrow> (m\<lparr>pcr_gmw_pubkey := v\<rparr>, d))
      else if tag = 3 then (case pbtools_decoder_read_bytes wire d of (v, d) \<Rightarrow> (m\<lparr>pcr_auf_pubkey := v\<rparr>, d))
      else (m, pbtools_decoder_skip_field wire d))"

definition proto_gradido_community_root_decode_inner :: "proto_gradido_community_root_t \<Rightarrow> pb_decoder \<Rightarrow> proto_gradido_community_root_t \<times> pb_decoder" where
  "proto_gradido_community_root_decode_inner m d = decode_fields proto_gradido_community_root_field (m, d)"

section \<open>\<open>register_address\<close>\<close>

record proto_gradido_register_address_t =
  pra_user_pubkey :: bytes
  pra_address_type :: u32
  pra_name_hash :: bytes
  pra_account_pubkey :: bytes
  pra_derivation_index :: u32

definition SIZEOF_register_address :: nat where "SIZEOF_register_address = 72"

definition proto_gradido_register_address_init :: proto_gradido_register_address_t where
  "proto_gradido_register_address_init =
     \<lparr>pra_user_pubkey = [],
      pra_address_type = 0,
      pra_name_hash = [],
      pra_account_pubkey = [],
      pra_derivation_index = 0\<rparr>"

definition proto_gradido_register_address_encode_inner :: "proto_gradido_register_address_t \<Rightarrow> pb_write" where
  "proto_gradido_register_address_encode_inner m = write_all
     [pbtools_encoder_write_uint32 5 (pra_derivation_index m),
      pbtools_encoder_write_bytes 4 (pra_account_pubkey m),
      pbtools_encoder_write_bytes 3 (pra_name_hash m),
      pbtools_encoder_write_enum 2 (pra_address_type m),
      pbtools_encoder_write_bytes 1 (pra_user_pubkey m)]"

definition proto_gradido_register_address_field ::
  "nat \<Rightarrow> nat \<Rightarrow> proto_gradido_register_address_t \<times> pb_decoder \<Rightarrow> proto_gradido_register_address_t \<times> pb_decoder" where
  "proto_gradido_register_address_field tag wire s =
     (case s of (m, d) \<Rightarrow>
      if tag = 1 then (case pbtools_decoder_read_bytes wire d of (v, d) \<Rightarrow> (m\<lparr>pra_user_pubkey := v\<rparr>, d))
      else if tag = 2 then (case pbtools_decoder_read_enum wire d of (v, d) \<Rightarrow> (m\<lparr>pra_address_type := v\<rparr>, d))
      else if tag = 3 then (case pbtools_decoder_read_bytes wire d of (v, d) \<Rightarrow> (m\<lparr>pra_name_hash := v\<rparr>, d))
      else if tag = 4 then (case pbtools_decoder_read_bytes wire d of (v, d) \<Rightarrow> (m\<lparr>pra_account_pubkey := v\<rparr>, d))
      else if tag = 5 then (case pbtools_decoder_read_uint32 wire d of (v, d) \<Rightarrow> (m\<lparr>pra_derivation_index := v\<rparr>, d))
      else (m, pbtools_decoder_skip_field wire d))"

definition proto_gradido_register_address_decode_inner :: "proto_gradido_register_address_t \<Rightarrow> pb_decoder \<Rightarrow> proto_gradido_register_address_t \<times> pb_decoder" where
  "proto_gradido_register_address_decode_inner m d = decode_fields proto_gradido_register_address_field (m, d)"

section \<open>\<open>gradido_creation\<close>\<close>

record proto_gradido_gradido_creation_t =
  pgc_recipient_p :: "proto_gradido_transfer_amount_t option"
  pgc_target_date_p :: "proto_gradido_timestamp_seconds_t option"

definition SIZEOF_gradido_creation :: nat where "SIZEOF_gradido_creation = 24"

definition proto_gradido_gradido_creation_init :: proto_gradido_gradido_creation_t where
  "proto_gradido_gradido_creation_init =
     \<lparr>pgc_recipient_p = None,
      pgc_target_date_p = None\<rparr>"

definition proto_gradido_gradido_creation_encode_inner :: "proto_gradido_gradido_creation_t \<Rightarrow> pb_write" where
  "proto_gradido_gradido_creation_encode_inner m = write_all
     [pbtools_encoder_sub_message_encode 3 proto_gradido_timestamp_seconds_encode_inner (pgc_target_date_p m),
      pbtools_encoder_sub_message_encode 1 proto_gradido_transfer_amount_encode_inner (pgc_recipient_p m)]"

definition proto_gradido_gradido_creation_field ::
  "nat \<Rightarrow> nat \<Rightarrow> proto_gradido_gradido_creation_t \<times> pb_decoder \<Rightarrow> proto_gradido_gradido_creation_t \<times> pb_decoder" where
  "proto_gradido_gradido_creation_field tag wire s =
     (case s of (m, d) \<Rightarrow>
      if tag = 1 then (case pbtools_decoder_sub_message_decode SIZEOF_transfer_amount proto_gradido_transfer_amount_init
             proto_gradido_transfer_amount_decode_inner wire (pgc_recipient_p m, d) of (v, d) \<Rightarrow> (m\<lparr>pgc_recipient_p := v\<rparr>, d))
      else if tag = 3 then (case pbtools_decoder_sub_message_decode SIZEOF_timestamp_seconds proto_gradido_timestamp_seconds_init
             proto_gradido_timestamp_seconds_decode_inner wire (pgc_target_date_p m, d) of (v, d) \<Rightarrow> (m\<lparr>pgc_target_date_p := v\<rparr>, d))
      else (m, pbtools_decoder_skip_field wire d))"

definition proto_gradido_gradido_creation_decode_inner :: "proto_gradido_gradido_creation_t \<Rightarrow> pb_decoder \<Rightarrow> proto_gradido_gradido_creation_t \<times> pb_decoder" where
  "proto_gradido_gradido_creation_decode_inner m d = decode_fields proto_gradido_gradido_creation_field (m, d)"

definition proto_gradido_gradido_creation_recipient_alloc ::
  "proto_gradido_gradido_creation_t \<Rightarrow> pb_heap \<Rightarrow> bool \<times> proto_gradido_gradido_creation_t \<times> pb_heap" where
  "proto_gradido_gradido_creation_recipient_alloc m h =
     (case pbtools_sub_message_alloc SIZEOF_transfer_amount proto_gradido_transfer_amount_init (pgc_recipient_p m) h of (ok, v, h) \<Rightarrow>
        (ok, m\<lparr>pgc_recipient_p := v\<rparr>, h))"

definition proto_gradido_gradido_creation_target_date_alloc ::
  "proto_gradido_gradido_creation_t \<Rightarrow> pb_heap \<Rightarrow> bool \<times> proto_gradido_gradido_creation_t \<times> pb_heap" where
  "proto_gradido_gradido_creation_target_date_alloc m h =
     (case pbtools_sub_message_alloc SIZEOF_timestamp_seconds proto_gradido_timestamp_seconds_init (pgc_target_date_p m) h of (ok, v, h) \<Rightarrow>
        (ok, m\<lparr>pgc_target_date_p := v\<rparr>, h))"

section \<open>\<open>gradido_transfer\<close>\<close>

record proto_gradido_gradido_transfer_t =
  pgt_sender_p :: "proto_gradido_transfer_amount_t option"
  pgt_recipient :: bytes

definition SIZEOF_gradido_transfer :: nat where "SIZEOF_gradido_transfer = 32"

definition proto_gradido_gradido_transfer_init :: proto_gradido_gradido_transfer_t where
  "proto_gradido_gradido_transfer_init =
     \<lparr>pgt_sender_p = None,
      pgt_recipient = []\<rparr>"

definition proto_gradido_gradido_transfer_encode_inner :: "proto_gradido_gradido_transfer_t \<Rightarrow> pb_write" where
  "proto_gradido_gradido_transfer_encode_inner m = write_all
     [pbtools_encoder_write_bytes 2 (pgt_recipient m),
      pbtools_encoder_sub_message_encode 1 proto_gradido_transfer_amount_encode_inner (pgt_sender_p m)]"

definition proto_gradido_gradido_transfer_field ::
  "nat \<Rightarrow> nat \<Rightarrow> proto_gradido_gradido_transfer_t \<times> pb_decoder \<Rightarrow> proto_gradido_gradido_transfer_t \<times> pb_decoder" where
  "proto_gradido_gradido_transfer_field tag wire s =
     (case s of (m, d) \<Rightarrow>
      if tag = 1 then (case pbtools_decoder_sub_message_decode SIZEOF_transfer_amount proto_gradido_transfer_amount_init
             proto_gradido_transfer_amount_decode_inner wire (pgt_sender_p m, d) of (v, d) \<Rightarrow> (m\<lparr>pgt_sender_p := v\<rparr>, d))
      else if tag = 2 then (case pbtools_decoder_read_bytes wire d of (v, d) \<Rightarrow> (m\<lparr>pgt_recipient := v\<rparr>, d))
      else (m, pbtools_decoder_skip_field wire d))"

definition proto_gradido_gradido_transfer_decode_inner :: "proto_gradido_gradido_transfer_t \<Rightarrow> pb_decoder \<Rightarrow> proto_gradido_gradido_transfer_t \<times> pb_decoder" where
  "proto_gradido_gradido_transfer_decode_inner m d = decode_fields proto_gradido_gradido_transfer_field (m, d)"

definition proto_gradido_gradido_transfer_sender_alloc ::
  "proto_gradido_gradido_transfer_t \<Rightarrow> pb_heap \<Rightarrow> bool \<times> proto_gradido_gradido_transfer_t \<times> pb_heap" where
  "proto_gradido_gradido_transfer_sender_alloc m h =
     (case pbtools_sub_message_alloc SIZEOF_transfer_amount proto_gradido_transfer_amount_init (pgt_sender_p m) h of (ok, v, h) \<Rightarrow>
        (ok, m\<lparr>pgt_sender_p := v\<rparr>, h))"

section \<open>\<open>gradido_deferred_transfer\<close>\<close>

record proto_gradido_gradido_deferred_transfer_t =
  pdt_transfer_p :: "proto_gradido_gradido_transfer_t option"
  pdt_timeout_duration_p :: "proto_gradido_duration_seconds_t option"

definition SIZEOF_gradido_deferred_transfer :: nat where "SIZEOF_gradido_deferred_transfer = 24"

definition proto_gradido_gradido_deferred_transfer_init :: proto_gradido_gradido_deferred_transfer_t where
  "proto_gradido_gradido_deferred_transfer_init =
     \<lparr>pdt_transfer_p = None,
      pdt_timeout_duration_p = None\<rparr>"

definition proto_gradido_gradido_deferred_transfer_encode_inner :: "proto_gradido_gradido_deferred_transfer_t \<Rightarrow> pb_write" where
  "proto_gradido_gradido_deferred_transfer_encode_inner m = write_all
     [pbtools_encoder_sub_message_encode 2 proto_gradido_duration_seconds_encode_inner (pdt_timeout_duration_p m),
      pbtools_encoder_sub_message_encode 1 proto_gradido_gradido_transfer_encode_inner (pdt_transfer_p m)]"

definition proto_gradido_gradido_deferred_transfer_field ::
  "nat \<Rightarrow> nat \<Rightarrow> proto_gradido_gradido_deferred_transfer_t \<times> pb_decoder \<Rightarrow> proto_gradido_gradido_deferred_transfer_t \<times> pb_decoder" where
  "proto_gradido_gradido_deferred_transfer_field tag wire s =
     (case s of (m, d) \<Rightarrow>
      if tag = 1 then (case pbtools_decoder_sub_message_decode SIZEOF_gradido_transfer proto_gradido_gradido_transfer_init
             proto_gradido_gradido_transfer_decode_inner wire (pdt_transfer_p m, d) of (v, d) \<Rightarrow> (m\<lparr>pdt_transfer_p := v\<rparr>, d))
      else if tag = 2 then (case pbtools_decoder_sub_message_decode SIZEOF_duration_seconds proto_gradido_duration_seconds_init
             proto_gradido_duration_seconds_decode_inner wire (pdt_timeout_duration_p m, d) of (v, d) \<Rightarrow> (m\<lparr>pdt_timeout_duration_p := v\<rparr>, d))
      else (m, pbtools_decoder_skip_field wire d))"

definition proto_gradido_gradido_deferred_transfer_decode_inner :: "proto_gradido_gradido_deferred_transfer_t \<Rightarrow> pb_decoder \<Rightarrow> proto_gradido_gradido_deferred_transfer_t \<times> pb_decoder" where
  "proto_gradido_gradido_deferred_transfer_decode_inner m d = decode_fields proto_gradido_gradido_deferred_transfer_field (m, d)"

definition proto_gradido_gradido_deferred_transfer_transfer_alloc ::
  "proto_gradido_gradido_deferred_transfer_t \<Rightarrow> pb_heap \<Rightarrow> bool \<times> proto_gradido_gradido_deferred_transfer_t \<times> pb_heap" where
  "proto_gradido_gradido_deferred_transfer_transfer_alloc m h =
     (case pbtools_sub_message_alloc SIZEOF_gradido_transfer proto_gradido_gradido_transfer_init (pdt_transfer_p m) h of (ok, v, h) \<Rightarrow>
        (ok, m\<lparr>pdt_transfer_p := v\<rparr>, h))"

definition proto_gradido_gradido_deferred_transfer_timeout_duration_alloc ::
  "proto_gradido_gradido_deferred_transfer_t \<Rightarrow> pb_heap \<Rightarrow> bool \<times> proto_gradido_gradido_deferred_transfer_t \<times> pb_heap" where
  "proto_gradido_gradido_deferred_transfer_timeout_duration_alloc m h =
     (case pbtools_sub_message_alloc SIZEOF_duration_seconds proto_gradido_duration_seconds_init (pdt_timeout_duration_p m) h of (ok, v, h) \<Rightarrow>
        (ok, m\<lparr>pdt_timeout_duration_p := v\<rparr>, h))"

section \<open>\<open>gradido_redeem_deferred_transfer\<close>\<close>

record proto_gradido_gradido_redeem_deferred_transfer_t =
  prt_deferred_transfer_transaction_nr :: u64
  prt_transfer_p :: "proto_gradido_gradido_transfer_t option"

definition SIZEOF_gradido_redeem_deferred_transfer :: nat where "SIZEOF_gradido_redeem_deferred_transfer = 24"

definition proto_gradido_gradido_redeem_deferred_transfer_init :: proto_gradido_gradido_redeem_deferred_transfer_t where
  "proto_gradido_gradido_redeem_deferred_transfer_init =
     \<lparr>prt_deferred_transfer_transaction_nr = 0,
      prt_transfer_p = None\<rparr>"

definition proto_gradido_gradido_redeem_deferred_transfer_encode_inner :: "proto_gradido_gradido_redeem_deferred_transfer_t \<Rightarrow> pb_write" where
  "proto_gradido_gradido_redeem_deferred_transfer_encode_inner m = write_all
     [pbtools_encoder_sub_message_encode 2 proto_gradido_gradido_transfer_encode_inner (prt_transfer_p m),
      pbtools_encoder_write_uint64 1 (prt_deferred_transfer_transaction_nr m)]"

definition proto_gradido_gradido_redeem_deferred_transfer_field ::
  "nat \<Rightarrow> nat \<Rightarrow> proto_gradido_gradido_redeem_deferred_transfer_t \<times> pb_decoder \<Rightarrow> proto_gradido_gradido_redeem_deferred_transfer_t \<times> pb_decoder" where
  "proto_gradido_gradido_redeem_deferred_transfer_field tag wire s =
     (case s of (m, d) \<Rightarrow>
      if tag = 1 then (case pbtools_decoder_read_uint64 wire d of (v, d) \<Rightarrow> (m\<lparr>prt_deferred_transfer_transaction_nr := v\<rparr>, d))
      else if tag = 2 then (case pbtools_decoder_sub_message_decode SIZEOF_gradido_transfer proto_gradido_gradido_transfer_init
             proto_gradido_gradido_transfer_decode_inner wire (prt_transfer_p m, d) of (v, d) \<Rightarrow> (m\<lparr>prt_transfer_p := v\<rparr>, d))
      else (m, pbtools_decoder_skip_field wire d))"

definition proto_gradido_gradido_redeem_deferred_transfer_decode_inner :: "proto_gradido_gradido_redeem_deferred_transfer_t \<Rightarrow> pb_decoder \<Rightarrow> proto_gradido_gradido_redeem_deferred_transfer_t \<times> pb_decoder" where
  "proto_gradido_gradido_redeem_deferred_transfer_decode_inner m d = decode_fields proto_gradido_gradido_redeem_deferred_transfer_field (m, d)"

definition proto_gradido_gradido_redeem_deferred_transfer_transfer_alloc ::
  "proto_gradido_gradido_redeem_deferred_transfer_t \<Rightarrow> pb_heap \<Rightarrow> bool \<times> proto_gradido_gradido_redeem_deferred_transfer_t \<times> pb_heap" where
  "proto_gradido_gradido_redeem_deferred_transfer_transfer_alloc m h =
     (case pbtools_sub_message_alloc SIZEOF_gradido_transfer proto_gradido_gradido_transfer_init (prt_transfer_p m) h of (ok, v, h) \<Rightarrow>
        (ok, m\<lparr>prt_transfer_p := v\<rparr>, h))"

section \<open>\<open>gradido_timeout_deferred_transfer\<close>\<close>

record proto_gradido_gradido_timeout_deferred_transfer_t =
  pto_deferred_transfer_transaction_nr :: u64

definition SIZEOF_gradido_timeout_deferred_transfer :: nat where "SIZEOF_gradido_timeout_deferred_transfer = 16"

definition proto_gradido_gradido_timeout_deferred_transfer_init :: proto_gradido_gradido_timeout_deferred_transfer_t where
  "proto_gradido_gradido_timeout_deferred_transfer_init =
     \<lparr>pto_deferred_transfer_transaction_nr = 0\<rparr>"

definition proto_gradido_gradido_timeout_deferred_transfer_encode_inner :: "proto_gradido_gradido_timeout_deferred_transfer_t \<Rightarrow> pb_write" where
  "proto_gradido_gradido_timeout_deferred_transfer_encode_inner m = write_all
     [pbtools_encoder_write_uint64 1 (pto_deferred_transfer_transaction_nr m)]"

definition proto_gradido_gradido_timeout_deferred_transfer_field ::
  "nat \<Rightarrow> nat \<Rightarrow> proto_gradido_gradido_timeout_deferred_transfer_t \<times> pb_decoder \<Rightarrow> proto_gradido_gradido_timeout_deferred_transfer_t \<times> pb_decoder" where
  "proto_gradido_gradido_timeout_deferred_transfer_field tag wire s =
     (case s of (m, d) \<Rightarrow>
      if tag = 1 then (case pbtools_decoder_read_uint64 wire d of (v, d) \<Rightarrow> (m\<lparr>pto_deferred_transfer_transaction_nr := v\<rparr>, d))
      else (m, pbtools_decoder_skip_field wire d))"

definition proto_gradido_gradido_timeout_deferred_transfer_decode_inner :: "proto_gradido_gradido_timeout_deferred_transfer_t \<Rightarrow> pb_decoder \<Rightarrow> proto_gradido_gradido_timeout_deferred_transfer_t \<times> pb_decoder" where
  "proto_gradido_gradido_timeout_deferred_transfer_decode_inner m d = decode_fields proto_gradido_gradido_timeout_deferred_transfer_field (m, d)"

section \<open>\<open>account_id\<close>\<close>

record proto_gradido_account_id_t =
  pai_shard_num :: i64
  pai_realm_num :: i64
  pai_account :: u32
  pai_account_num :: i64
  pai_alias :: bytes

definition SIZEOF_account_id :: nat where "SIZEOF_account_id = 48"

definition proto_gradido_account_id_init :: proto_gradido_account_id_t where
  "proto_gradido_account_id_init =
     \<lparr>pai_shard_num = 0,
      pai_realm_num = 0,
      pai_account = 0,
      pai_account_num = 0,
      pai_alias = []\<rparr>"

definition proto_gradido_account_id_encode_inner :: "proto_gradido_account_id_t \<Rightarrow> pb_write" where
  "proto_gradido_account_id_encode_inner m = write_all
     [pbtools_encoder_write_int64 2 (pai_realm_num m),
      pbtools_encoder_write_int64 1 (pai_shard_num m),
      (if pai_account m = proto_gradido_account_id_account_account_num_e then pbtools_encoder_write_int64_always 3 (pai_account_num m)
       else if pai_account m = proto_gradido_account_id_account_alias_e then pbtools_encoder_write_bytes_always 4 (pai_alias m)
       else Inr)]"

definition proto_gradido_account_id_account_num_decode ::
  "nat \<Rightarrow> proto_gradido_account_id_t \<times> pb_decoder \<Rightarrow> proto_gradido_account_id_t \<times> pb_decoder" where
  "proto_gradido_account_id_account_num_decode wire s =
     (case pbtools_decoder_read_int64 wire (snd s) of (v, d) \<Rightarrow>
        ((fst s)\<lparr>pai_account := proto_gradido_account_id_account_account_num_e, pai_account_num := v\<rparr>, d))"

definition proto_gradido_account_id_alias_decode ::
  "nat \<Rightarrow> proto_gradido_account_id_t \<times> pb_decoder \<Rightarrow> proto_gradido_account_id_t \<times> pb_decoder" where
  "proto_gradido_account_id_alias_decode wire s =
     (case pbtools_decoder_read_bytes wire (snd s) of (v, d) \<Rightarrow>
        ((fst s)\<lparr>pai_account := proto_gradido_account_id_account_alias_e, pai_alias := v\<rparr>, d))"

definition proto_gradido_account_id_field ::
  "nat \<Rightarrow> nat \<Rightarrow> proto_gradido_account_id_t \<times> pb_decoder \<Rightarrow> proto_gradido_account_id_t \<times> pb_decoder" where
  "proto_gradido_account_id_field tag wire s =
     (case s of (m, d) \<Rightarrow>
      if tag = 1 then (case pbtools_decoder_read_int64 wire d of (v, d) \<Rightarrow> (m\<lparr>pai_shard_num := v\<rparr>, d))
      else if tag = 2 then (case pbtools_decoder_read_int64 wire d of (v, d) \<Rightarrow> (m\<lparr>pai_realm_num := v\<rparr>, d))
      else if tag = 3 then proto_gradido_account_id_account_num_decode wire (m, d)
      else if tag = 4 then proto_gradido_account_id_alias_decode wire (m, d)
      else (m, pbtools_decoder_skip_field wire d))"

definition proto_gradido_account_id_decode_inner :: "proto_gradido_account_id_t \<Rightarrow> pb_decoder \<Rightarrow> proto_gradido_account_id_t \<times> pb_decoder" where
  "proto_gradido_account_id_decode_inner m d = decode_fields proto_gradido_account_id_field (m, d)"

section \<open>\<open>transaction_id\<close>\<close>

record proto_gradido_transaction_id_t =
  pti_transaction_valid_start_p :: "proto_gradido_timestamp_t option"
  pti_account_id_p :: "proto_gradido_account_id_t option"
  pti_scheduled :: bool
  pti_nonce :: i32

definition SIZEOF_transaction_id :: nat where "SIZEOF_transaction_id = 32"

definition proto_gradido_transaction_id_init :: proto_gradido_transaction_id_t where
  "proto_gradido_transaction_id_init =
     \<lparr>pti_transaction_valid_start_p = None,
      pti_account_id_p = None,
      pti_scheduled = False,
      pti_nonce = 0\<rparr>"

definition proto_gradido_transaction_id_encode_inner :: "proto_gradido_transaction_id_t \<Rightarrow> pb_write" where
  "proto_gradido_transaction_id_encode_inner m = write_all
     [pbtools_encoder_write_int32 4 (pti_nonce m),
      pbtools_encoder_write_bool 3 (pti_scheduled m),
      pbtools_encoder_sub_message_encode 2 proto_gradido_account_id_encode_inner (pti_account_id_p m),
      pbtools_encoder_sub_message_encode 1 proto_gradido_timestamp_encode_inner (pti_transaction_valid_start_p m)]"

definition proto_gradido_transaction_id_field ::
  "nat \<Rightarrow> nat \<Rightarrow> proto_gradido_transaction_id_t \<times> pb_decoder \<Rightarrow> proto_gradido_transaction_id_t \<times> pb_decoder" where
  "proto_gradido_transaction_id_field tag wire s =
     (case s of (m, d) \<Rightarrow>
      if tag = 1 then (case pbtools_decoder_sub_message_decode SIZEOF_timestamp proto_gradido_timestamp_init
             proto_gradido_timestamp_decode_inner wire (pti_transaction_valid_start_p m, d) of (v, d) \<Rightarrow> (m\<lparr>pti_transaction_valid_start_p := v\<rparr>, d))
      else if tag = 2 then (case pbtools_decoder_sub_message_decode SIZEOF_account_id proto_gradido_account_id_init
             proto_gradido_account_id_decode_inner wire (pti_account_id_p m, d) of (v, d) \<Rightarrow> (m\<lparr>pti_account_id_p := v\<rparr>, d))
      else if tag = 3 then (case pbtools_decoder_read_bool wire d of (v, d) \<Rightarrow> (m\<lparr>pti_scheduled := v\<rparr>, d))
      else if tag = 4 then (case pbtools_decoder_read_int32 wire d of (v, d) \<Rightarrow> (m\<lparr>pti_nonce := v\<rparr>, d))
      else (m, pbtools_decoder_skip_field wire d))"

definition proto_gradido_transaction_id_decode_inner :: "proto_gradido_transaction_id_t \<Rightarrow> pb_decoder \<Rightarrow> proto_gradido_transaction_id_t \<times> pb_decoder" where
  "proto_gradido_transaction_id_decode_inner m d = decode_fields proto_gradido_transaction_id_field (m, d)"

definition proto_gradido_transaction_id_transaction_valid_start_alloc ::
  "proto_gradido_transaction_id_t \<Rightarrow> pb_heap \<Rightarrow> bool \<times> proto_gradido_transaction_id_t \<times> pb_heap" where
  "proto_gradido_transaction_id_transaction_valid_start_alloc m h =
     (case pbtools_sub_message_alloc SIZEOF_timestamp proto_gradido_timestamp_init (pti_transaction_valid_start_p m) h of (ok, v, h) \<Rightarrow>
        (ok, m\<lparr>pti_transaction_valid_start_p := v\<rparr>, h))"

definition proto_gradido_transaction_id_account_id_alloc ::
  "proto_gradido_transaction_id_t \<Rightarrow> pb_heap \<Rightarrow> bool \<times> proto_gradido_transaction_id_t \<times> pb_heap" where
  "proto_gradido_transaction_id_account_id_alloc m h =
     (case pbtools_sub_message_alloc SIZEOF_account_id proto_gradido_account_id_init (pti_account_id_p m) h of (ok, v, h) \<Rightarrow>
        (ok, m\<lparr>pti_account_id_p := v\<rparr>, h))"

section \<open>\<open>ledger_anchor\<close>\<close>

record proto_gradido_ledger_anchor_t =
  pla_type :: u32
  pla_anchor_id :: u32
  pla_hiero_transaction_id_p :: "proto_gradido_transaction_id_t option"
  pla_id :: u64

definition SIZEOF_ledger_anchor :: nat where "SIZEOF_ledger_anchor = 24"

definition proto_gradido_ledger_anchor_init :: proto_gradido_ledger_anchor_t where
  "proto_gradido_ledger_anchor_init =
     \<lparr>pla_type = 0,
      pla_anchor_id = 0,
      pla_hiero_transaction_id_p = None,
      pla_id = 0\<rparr>"

definition proto_gradido_ledger_anchor_encode_inner :: "proto_gradido_ledger_anchor_t \<Rightarrow> pb_write" where
  "proto_gradido_ledger_anchor_encode_inner m = write_all
     [pbtools_encoder_write_enum 1 (pla_type m),
      (if pla_anchor_id m = proto_gradido_ledger_anchor_anchor_id_hiero_transaction_id_e then pbtools_encoder_sub_message_encode_always 3 proto_gradido_transaction_id_encode_inner (pla_hiero_transaction_id_p m)
       else if pla_anchor_id m = proto_gradido_ledger_anchor_anchor_id_id_e then pbtools_encoder_write_uint64_always 4 (pla_id m)
       else Inr)]"

definition proto_gradido_ledger_anchor_hiero_transaction_id_decode ::
  "nat \<Rightarrow> proto_gradido_ledger_anchor_t \<times> pb_decoder \<Rightarrow> proto_gradido_ledger_anchor_t \<times> pb_decoder" where
  "proto_gradido_ledger_anchor_hiero_transaction_id_decode wire s =
     (case pbtools_decoder_sub_message_decode SIZEOF_transaction_id proto_gradido_transaction_id_init
             proto_gradido_transaction_id_decode_inner wire (pla_hiero_transaction_id_p (fst s), snd s) of (v, d) \<Rightarrow>
        ((fst s)\<lparr>pla_anchor_id := proto_gradido_ledger_anchor_anchor_id_hiero_transaction_id_e, pla_hiero_transaction_id_p := v\<rparr>, d))"

definition proto_gradido_ledger_anchor_id_decode ::
  "nat \<Rightarrow> proto_gradido_ledger_anchor_t \<times> pb_decoder \<Rightarrow> proto_gradido_ledger_anchor_t \<times> pb_decoder" where
  "proto_gradido_ledger_anchor_id_decode wire s =
     (case pbtools_decoder_read_uint64 wire (snd s) of (v, d) \<Rightarrow>
        ((fst s)\<lparr>pla_anchor_id := proto_gradido_ledger_anchor_anchor_id_id_e, pla_id := v\<rparr>, d))"

definition proto_gradido_ledger_anchor_field ::
  "nat \<Rightarrow> nat \<Rightarrow> proto_gradido_ledger_anchor_t \<times> pb_decoder \<Rightarrow> proto_gradido_ledger_anchor_t \<times> pb_decoder" where
  "proto_gradido_ledger_anchor_field tag wire s =
     (case s of (m, d) \<Rightarrow>
      if tag = 1 then (case pbtools_decoder_read_enum wire d of (v, d) \<Rightarrow> (m\<lparr>pla_type := v\<rparr>, d))
      else if tag = 3 then proto_gradido_ledger_anchor_hiero_transaction_id_decode wire (m, d)
      else if tag = 4 then proto_gradido_ledger_anchor_id_decode wire (m, d)
      else (m, pbtools_decoder_skip_field wire d))"

definition proto_gradido_ledger_anchor_decode_inner :: "proto_gradido_ledger_anchor_t \<Rightarrow> pb_decoder \<Rightarrow> proto_gradido_ledger_anchor_t \<times> pb_decoder" where
  "proto_gradido_ledger_anchor_decode_inner m d = decode_fields proto_gradido_ledger_anchor_field (m, d)"

definition proto_gradido_ledger_anchor_hiero_transaction_id_alloc ::
  "proto_gradido_ledger_anchor_t \<Rightarrow> pb_heap \<Rightarrow> bool \<times> proto_gradido_ledger_anchor_t \<times> pb_heap" where
  "proto_gradido_ledger_anchor_hiero_transaction_id_alloc m h =
     (case pbtools_sub_message_alloc SIZEOF_transaction_id proto_gradido_transaction_id_init (pla_hiero_transaction_id_p m) h of (ok, v, h) \<Rightarrow>
        (ok, m\<lparr>pla_anchor_id := proto_gradido_ledger_anchor_anchor_id_hiero_transaction_id_e, pla_hiero_transaction_id_p := v\<rparr>, h))"

section \<open>\<open>gradido_transaction\<close>\<close>

record proto_gradido_gradido_transaction_t =
  pgx_sig_map_p :: "proto_gradido_signature_map_t option"
  pgx_body_bytes :: bytes
  pgx_pairing_ledger_anchor_p :: "proto_gradido_ledger_anchor_t option"

definition SIZEOF_gradido_transaction :: nat where "SIZEOF_gradido_transaction = 40"

definition proto_gradido_gradido_transaction_init :: proto_gradido_gradido_transaction_t where
  "proto_gradido_gradido_transaction_init =
     \<lparr>pgx_sig_map_p = None,
      pgx_body_bytes = [],
      pgx_pairing_ledger_anchor_p = None\<rparr>"

definition proto_gradido_gradido_transaction_encode_inner :: "proto_gradido_gradido_transaction_t \<Rightarrow> pb_write" where
  "proto_gradido_gradido_transaction_encode_inner m = write_all
     [pbtools_encoder_sub_message_encode 3 proto_gradido_ledger_anchor_encode_inner (pgx_pairing_ledger_anchor_p m),
      pbtools_encoder_write_bytes 2 (pgx_body_bytes m),
      pbtools_encoder_sub_message_encode 1 proto_gradido_signature_map_encode_inner (pgx_sig_map_p m)]"

definition proto_gradido_gradido_transaction_field ::
  "nat \<Rightarrow> nat \<Rightarrow> proto_gradido_gradido_transaction_t \<times> pb_decoder \<Rightarrow> proto_gradido_gradido_transaction_t \<times> pb_decoder" where
  "proto_gradido_gradido_transaction_field tag wire s =
     (case s of (m, d) \<Rightarrow>
      if tag = 1 then (case pbtools_decoder_sub_message_decode SIZEOF_signature_map proto_gradido_signature_map_init
             proto_gradido_signature_map_decode_inner wire (pgx_sig_map_p m, d) of (v, d) \<Rightarrow> (m\<lparr>pgx_sig_map_p := v\<rparr>, d))
      else if tag = 2 then (case pbtools_decoder_read_bytes wire d of (v, d) \<Rightarrow> (m\<lparr>pgx_body_bytes := v\<rparr>, d))
      else if tag = 3 then (case pbtools_decoder_sub_message_decode SIZEOF_ledger_anchor proto_gradido_ledger_anchor_init
             proto_gradido_ledger_anchor_decode_inner wire (pgx_pairing_ledger_anchor_p m, d) of (v, d) \<Rightarrow> (m\<lparr>pgx_pairing_ledger_anchor_p := v\<rparr>, d))
      else (m, pbtools_decoder_skip_field wire d))"

definition proto_gradido_gradido_transaction_decode_inner :: "proto_gradido_gradido_transaction_t \<Rightarrow> pb_decoder \<Rightarrow> proto_gradido_gradido_transaction_t \<times> pb_decoder" where
  "proto_gradido_gradido_transaction_decode_inner m d = decode_fields proto_gradido_gradido_transaction_field (m, d)"

definition proto_gradido_gradido_transaction_sig_map_alloc ::
  "proto_gradido_gradido_transaction_t \<Rightarrow> pb_heap \<Rightarrow> bool \<times> proto_gradido_gradido_transaction_t \<times> pb_heap" where
  "proto_gradido_gradido_transaction_sig_map_alloc m h =
     (case pbtools_sub_message_alloc SIZEOF_signature_map proto_gradido_signature_map_init (pgx_sig_map_p m) h of (ok, v, h) \<Rightarrow>
        (ok, m\<lparr>pgx_sig_map_p := v\<rparr>, h))"

definition proto_gradido_gradido_transaction_pairing_ledger_anchor_alloc ::
  "proto_gradido_gradido_transaction_t \<Rightarrow> pb_heap \<Rightarrow> bool \<times> proto_gradido_gradido_transaction_t \<times> pb_heap" where
  "proto_gradido_gradido_transaction_pairing_ledger_anchor_alloc m h =
     (case pbtools_sub_message_alloc SIZEOF_ledger_anchor proto_gradido_ledger_anchor_init (pgx_pairing_ledger_anchor_p m) h of (ok, v, h) \<Rightarrow>
        (ok, m\<lparr>pgx_pairing_ledger_anchor_p := v\<rparr>, h))"

definition proto_gradido_gradido_transaction_new :: "nat \<Rightarrow> nat \<Rightarrow> (proto_gradido_gradido_transaction_t \<times> pb_heap) option" where
  "proto_gradido_gradido_transaction_new address n = pbtools_message_new address n SIZEOF_gradido_transaction proto_gradido_gradido_transaction_init"

definition proto_gradido_gradido_transaction_encode :: "proto_gradido_gradido_transaction_t \<Rightarrow> nat \<Rightarrow> c_fault + (int \<times> bytes)" where
  "proto_gradido_gradido_transaction_encode = pbtools_message_encode proto_gradido_gradido_transaction_encode_inner"

definition proto_gradido_gradido_transaction_decode ::
  "proto_gradido_gradido_transaction_t \<Rightarrow> bytes \<Rightarrow> nat \<Rightarrow> pb_heap \<Rightarrow> int \<times> proto_gradido_gradido_transaction_t \<times> pb_heap" where
  "proto_gradido_gradido_transaction_decode = pbtools_message_decode proto_gradido_gradido_transaction_decode_inner"

section \<open>\<open>transaction_body\<close>\<close>

record proto_gradido_transaction_body_t =
  pbx_memos :: "proto_gradido_encrypted_memo_t list"
  pbx_created_at_p :: "proto_gradido_timestamp_t option"
  pbx_version_number :: u32
  pbx_type :: u32
  pbx_other_community_uuid :: bytes
  pbx_data :: u32
  pbx_transfer_p :: "proto_gradido_gradido_transfer_t option"
  pbx_creation_p :: "proto_gradido_gradido_creation_t option"
  pbx_community_friends_update_p :: "proto_gradido_community_friends_update_t option"
  pbx_register_address_p :: "proto_gradido_register_address_t option"
  pbx_deferred_transfer_p :: "proto_gradido_gradido_deferred_transfer_t option"
  pbx_community_root_p :: "proto_gradido_community_root_t option"
  pbx_redeem_deferred_transfer_p :: "proto_gradido_gradido_redeem_deferred_transfer_t option"
  pbx_timeout_deferred_transfer_p :: "proto_gradido_gradido_timeout_deferred_transfer_t option"

definition SIZEOF_transaction_body :: nat where "SIZEOF_transaction_body = 72"

definition proto_gradido_transaction_body_init :: proto_gradido_transaction_body_t where
  "proto_gradido_transaction_body_init =
     \<lparr>pbx_memos = [],
      pbx_created_at_p = None,
      pbx_version_number = 0,
      pbx_type = 0,
      pbx_other_community_uuid = [],
      pbx_data = 0,
      pbx_transfer_p = None,
      pbx_creation_p = None,
      pbx_community_friends_update_p = None,
      pbx_register_address_p = None,
      pbx_deferred_transfer_p = None,
      pbx_community_root_p = None,
      pbx_redeem_deferred_transfer_p = None,
      pbx_timeout_deferred_transfer_p = None\<rparr>"

definition proto_gradido_transaction_body_encode_inner :: "proto_gradido_transaction_body_t \<Rightarrow> pb_write" where
  "proto_gradido_transaction_body_encode_inner m = write_all
     [pbtools_encoder_write_bytes 5 (pbx_other_community_uuid m),
      pbtools_encoder_write_enum 4 (pbx_type m),
      pbtools_encoder_write_uint32 3 (pbx_version_number m),
      pbtools_encoder_sub_message_encode 2 proto_gradido_timestamp_encode_inner (pbx_created_at_p m),
      proto_gradido_encrypted_memo_encode_repeated_inner 1 (pbx_memos m),
      (if pbx_data m = proto_gradido_transaction_body_data_transfer_e then pbtools_encoder_sub_message_encode_always 6 proto_gradido_gradido_transfer_encode_inner (pbx_transfer_p m)
       else if pbx_data m = proto_gradido_transaction_body_data_creation_e then pbtools_encoder_sub_message_encode_always 7 proto_gradido_gradido_creation_encode_inner (pbx_creation_p m)
       else if pbx_data m = proto_gradido_transaction_body_data_community_friends_update_e then pbtools_encoder_sub_message_encode_always 8 proto_gradido_community_friends_update_encode_inner (pbx_community_friends_update_p m)
       else if pbx_data m = proto_gradido_transaction_body_data_register_address_e then pbtools_encoder_sub_message_encode_always 9 proto_gradido_register_address_encode_inner (pbx_register_address_p m)
       else if pbx_data m = proto_gradido_transaction_body_data_deferred_transfer_e then pbtools_encoder_sub_message_encode_always 10 proto_gradido_gradido_deferred_transfer_encode_inner (pbx_deferred_transfer_p m)
       else if pbx_data m = proto_gradido_transaction_body_data_community_root_e then pbtools_encoder_sub_message_encode_always 11 proto_gradido_community_root_encode_inner (pbx_community_root_p m)
       else if pbx_data m = proto_gradido_transaction_body_data_redeem_deferred_transfer_e then pbtools_encoder_sub_message_encode_always 12 proto_gradido_gradido_redeem_deferred_transfer_encode_inner (pbx_redeem_deferred_transfer_p m)
       else if pbx_data m = proto_gradido_transaction_body_data_timeout_deferred_transfer_e then pbtools_encoder_sub_message_encode_always 13 proto_gradido_gradido_timeout_deferred_transfer_encode_inner (pbx_timeout_deferred_transfer_p m)
       else Inr)]"

definition proto_gradido_transaction_body_transfer_decode ::
  "nat \<Rightarrow> proto_gradido_transaction_body_t \<times> pb_decoder \<Rightarrow> proto_gradido_transaction_body_t \<times> pb_decoder" where
  "proto_gradido_transaction_body_transfer_decode wire s =
     (case pbtools_decoder_sub_message_decode SIZEOF_gradido_transfer proto_gradido_gradido_transfer_init
             proto_gradido_gradido_transfer_decode_inner wire (pbx_transfer_p (fst s), snd s) of (v, d) \<Rightarrow>
        ((fst s)\<lparr>pbx_data := proto_gradido_transaction_body_data_transfer_e, pbx_transfer_p := v\<rparr>, d))"

definition proto_gradido_transaction_body_creation_decode ::
  "nat \<Rightarrow> proto_gradido_transaction_body_t \<times> pb_decoder \<Rightarrow> proto_gradido_transaction_body_t \<times> pb_decoder" where
  "proto_gradido_transaction_body_creation_decode wire s =
     (case pbtools_decoder_sub_message_decode SIZEOF_gradido_creation proto_gradido_gradido_creation_init
             proto_gradido_gradido_creation_decode_inner wire (pbx_creation_p (fst s), snd s) of (v, d) \<Rightarrow>
        ((fst s)\<lparr>pbx_data := proto_gradido_transaction_body_data_creation_e, pbx_creation_p := v\<rparr>, d))"

definition proto_gradido_transaction_body_community_friends_update_decode ::
  "nat \<Rightarrow> proto_gradido_transaction_body_t \<times> pb_decoder \<Rightarrow> proto_gradido_transaction_body_t \<times> pb_decoder" where
  "proto_gradido_transaction_body_community_friends_update_decode wire s =
     (case pbtools_decoder_sub_message_decode SIZEOF_community_friends_update proto_gradido_community_friends_update_init
             proto_gradido_community_friends_update_decode_inner wire (pbx_community_friends_update_p (fst s), snd s) of (v, d) \<Rightarrow>
        ((fst s)\<lparr>pbx_data := proto_gradido_transaction_body_data_community_friends_update_e, pbx_community_friends_update_p := v\<rparr>, d))"

definition proto_gradido_transaction_body_register_address_decode ::
  "nat \<Rightarrow> proto_gradido_transaction_body_t \<times> pb_decoder \<Rightarrow> proto_gradido_transaction_body_t \<times> pb_decoder" where
  "proto_gradido_transaction_body_register_address_decode wire s =
     (case pbtools_decoder_sub_message_decode SIZEOF_register_address proto_gradido_register_address_init
             proto_gradido_register_address_decode_inner wire (pbx_register_address_p (fst s), snd s) of (v, d) \<Rightarrow>
        ((fst s)\<lparr>pbx_data := proto_gradido_transaction_body_data_register_address_e, pbx_register_address_p := v\<rparr>, d))"

definition proto_gradido_transaction_body_deferred_transfer_decode ::
  "nat \<Rightarrow> proto_gradido_transaction_body_t \<times> pb_decoder \<Rightarrow> proto_gradido_transaction_body_t \<times> pb_decoder" where
  "proto_gradido_transaction_body_deferred_transfer_decode wire s =
     (case pbtools_decoder_sub_message_decode SIZEOF_gradido_deferred_transfer proto_gradido_gradido_deferred_transfer_init
             proto_gradido_gradido_deferred_transfer_decode_inner wire (pbx_deferred_transfer_p (fst s), snd s) of (v, d) \<Rightarrow>
        ((fst s)\<lparr>pbx_data := proto_gradido_transaction_body_data_deferred_transfer_e, pbx_deferred_transfer_p := v\<rparr>, d))"

definition proto_gradido_transaction_body_community_root_decode ::
  "nat \<Rightarrow> proto_gradido_transaction_body_t \<times> pb_decoder \<Rightarrow> proto_gradido_transaction_body_t \<times> pb_decoder" where
  "proto_gradido_transaction_body_community_root_decode wire s =
     (case pbtools_decoder_sub_message_decode SIZEOF_community_root proto_gradido_community_root_init
             proto_gradido_community_root_decode_inner wire (pbx_community_root_p (fst s), snd s) of (v, d) \<Rightarrow>
        ((fst s)\<lparr>pbx_data := proto_gradido_transaction_body_data_community_root_e, pbx_community_root_p := v\<rparr>, d))"

definition proto_gradido_transaction_body_redeem_deferred_transfer_decode ::
  "nat \<Rightarrow> proto_gradido_transaction_body_t \<times> pb_decoder \<Rightarrow> proto_gradido_transaction_body_t \<times> pb_decoder" where
  "proto_gradido_transaction_body_redeem_deferred_transfer_decode wire s =
     (case pbtools_decoder_sub_message_decode SIZEOF_gradido_redeem_deferred_transfer proto_gradido_gradido_redeem_deferred_transfer_init
             proto_gradido_gradido_redeem_deferred_transfer_decode_inner wire (pbx_redeem_deferred_transfer_p (fst s), snd s) of (v, d) \<Rightarrow>
        ((fst s)\<lparr>pbx_data := proto_gradido_transaction_body_data_redeem_deferred_transfer_e, pbx_redeem_deferred_transfer_p := v\<rparr>, d))"

definition proto_gradido_transaction_body_timeout_deferred_transfer_decode ::
  "nat \<Rightarrow> proto_gradido_transaction_body_t \<times> pb_decoder \<Rightarrow> proto_gradido_transaction_body_t \<times> pb_decoder" where
  "proto_gradido_transaction_body_timeout_deferred_transfer_decode wire s =
     (case pbtools_decoder_sub_message_decode SIZEOF_gradido_timeout_deferred_transfer proto_gradido_gradido_timeout_deferred_transfer_init
             proto_gradido_gradido_timeout_deferred_transfer_decode_inner wire (pbx_timeout_deferred_transfer_p (fst s), snd s) of (v, d) \<Rightarrow>
        ((fst s)\<lparr>pbx_data := proto_gradido_transaction_body_data_timeout_deferred_transfer_e, pbx_timeout_deferred_transfer_p := v\<rparr>, d))"

definition proto_gradido_transaction_body_field ::
  "nat \<Rightarrow> nat \<Rightarrow> (proto_gradido_transaction_body_t \<times> pb_repeated_info) \<times> pb_decoder \<Rightarrow> (proto_gradido_transaction_body_t \<times> pb_repeated_info) \<times> pb_decoder" where
  "proto_gradido_transaction_body_field tag wire s =
     (case s of ((m, i), d) \<Rightarrow>
      if tag = 1 then (case pbtools_repeated_info_decode wire (i, d) of (i, d) \<Rightarrow> ((m, i), d))
      else if tag = 2 then (case pbtools_decoder_sub_message_decode SIZEOF_timestamp proto_gradido_timestamp_init
             proto_gradido_timestamp_decode_inner wire (pbx_created_at_p m, d) of (v, d) \<Rightarrow> ((m\<lparr>pbx_created_at_p := v\<rparr>, i), d))
      else if tag = 3 then (case pbtools_decoder_read_uint32 wire d of (v, d) \<Rightarrow> ((m\<lparr>pbx_version_number := v\<rparr>, i), d))
      else if tag = 4 then (case pbtools_decoder_read_enum wire d of (v, d) \<Rightarrow> ((m\<lparr>pbx_type := v\<rparr>, i), d))
      else if tag = 5 then (case pbtools_decoder_read_bytes wire d of (v, d) \<Rightarrow> ((m\<lparr>pbx_other_community_uuid := v\<rparr>, i), d))
      else if tag = 6 then (case proto_gradido_transaction_body_transfer_decode wire (m, d) of (m, d) \<Rightarrow> ((m, i), d))
      else if tag = 7 then (case proto_gradido_transaction_body_creation_decode wire (m, d) of (m, d) \<Rightarrow> ((m, i), d))
      else if tag = 8 then (case proto_gradido_transaction_body_community_friends_update_decode wire (m, d) of (m, d) \<Rightarrow> ((m, i), d))
      else if tag = 9 then (case proto_gradido_transaction_body_register_address_decode wire (m, d) of (m, d) \<Rightarrow> ((m, i), d))
      else if tag = 10 then (case proto_gradido_transaction_body_deferred_transfer_decode wire (m, d) of (m, d) \<Rightarrow> ((m, i), d))
      else if tag = 11 then (case proto_gradido_transaction_body_community_root_decode wire (m, d) of (m, d) \<Rightarrow> ((m, i), d))
      else if tag = 12 then (case proto_gradido_transaction_body_redeem_deferred_transfer_decode wire (m, d) of (m, d) \<Rightarrow> ((m, i), d))
      else if tag = 13 then (case proto_gradido_transaction_body_timeout_deferred_transfer_decode wire (m, d) of (m, d) \<Rightarrow> ((m, i), d))
      else ((m, i), pbtools_decoder_skip_field wire d))"

definition proto_gradido_transaction_body_decode_inner :: "proto_gradido_transaction_body_t \<Rightarrow> pb_decoder \<Rightarrow> proto_gradido_transaction_body_t \<times> pb_decoder" where
  "proto_gradido_transaction_body_decode_inner m d =
     (case decode_fields proto_gradido_transaction_body_field ((m, pbtools_repeated_info_init 1 d), d) of ((m, i), d) \<Rightarrow>
        (case proto_gradido_encrypted_memo_decode_repeated_inner i (pbx_memos m, d) of (v, d) \<Rightarrow>
           (m\<lparr>pbx_memos := v\<rparr>, d)))"

definition proto_gradido_transaction_body_memos_alloc ::
  "proto_gradido_transaction_body_t \<Rightarrow> nat \<Rightarrow> pb_heap \<Rightarrow> bool \<times> proto_gradido_transaction_body_t \<times> pb_heap" where
  "proto_gradido_transaction_body_memos_alloc m len h =
     (case pbtools_alloc_repeated SIZEOF_encrypted_memo proto_gradido_encrypted_memo_init len (pbx_memos m) h of (ok, v, h) \<Rightarrow>
        (ok, m\<lparr>pbx_memos := v\<rparr>, h))"

definition proto_gradido_transaction_body_created_at_alloc ::
  "proto_gradido_transaction_body_t \<Rightarrow> pb_heap \<Rightarrow> bool \<times> proto_gradido_transaction_body_t \<times> pb_heap" where
  "proto_gradido_transaction_body_created_at_alloc m h =
     (case pbtools_sub_message_alloc SIZEOF_timestamp proto_gradido_timestamp_init (pbx_created_at_p m) h of (ok, v, h) \<Rightarrow>
        (ok, m\<lparr>pbx_created_at_p := v\<rparr>, h))"

definition proto_gradido_transaction_body_transfer_alloc ::
  "proto_gradido_transaction_body_t \<Rightarrow> pb_heap \<Rightarrow> bool \<times> proto_gradido_transaction_body_t \<times> pb_heap" where
  "proto_gradido_transaction_body_transfer_alloc m h =
     (case pbtools_sub_message_alloc SIZEOF_gradido_transfer proto_gradido_gradido_transfer_init (pbx_transfer_p m) h of (ok, v, h) \<Rightarrow>
        (ok, m\<lparr>pbx_data := proto_gradido_transaction_body_data_transfer_e, pbx_transfer_p := v\<rparr>, h))"

definition proto_gradido_transaction_body_creation_alloc ::
  "proto_gradido_transaction_body_t \<Rightarrow> pb_heap \<Rightarrow> bool \<times> proto_gradido_transaction_body_t \<times> pb_heap" where
  "proto_gradido_transaction_body_creation_alloc m h =
     (case pbtools_sub_message_alloc SIZEOF_gradido_creation proto_gradido_gradido_creation_init (pbx_creation_p m) h of (ok, v, h) \<Rightarrow>
        (ok, m\<lparr>pbx_data := proto_gradido_transaction_body_data_creation_e, pbx_creation_p := v\<rparr>, h))"

definition proto_gradido_transaction_body_community_friends_update_alloc ::
  "proto_gradido_transaction_body_t \<Rightarrow> pb_heap \<Rightarrow> bool \<times> proto_gradido_transaction_body_t \<times> pb_heap" where
  "proto_gradido_transaction_body_community_friends_update_alloc m h =
     (case pbtools_sub_message_alloc SIZEOF_community_friends_update proto_gradido_community_friends_update_init (pbx_community_friends_update_p m) h of (ok, v, h) \<Rightarrow>
        (ok, m\<lparr>pbx_data := proto_gradido_transaction_body_data_community_friends_update_e, pbx_community_friends_update_p := v\<rparr>, h))"

definition proto_gradido_transaction_body_register_address_alloc ::
  "proto_gradido_transaction_body_t \<Rightarrow> pb_heap \<Rightarrow> bool \<times> proto_gradido_transaction_body_t \<times> pb_heap" where
  "proto_gradido_transaction_body_register_address_alloc m h =
     (case pbtools_sub_message_alloc SIZEOF_register_address proto_gradido_register_address_init (pbx_register_address_p m) h of (ok, v, h) \<Rightarrow>
        (ok, m\<lparr>pbx_data := proto_gradido_transaction_body_data_register_address_e, pbx_register_address_p := v\<rparr>, h))"

definition proto_gradido_transaction_body_deferred_transfer_alloc ::
  "proto_gradido_transaction_body_t \<Rightarrow> pb_heap \<Rightarrow> bool \<times> proto_gradido_transaction_body_t \<times> pb_heap" where
  "proto_gradido_transaction_body_deferred_transfer_alloc m h =
     (case pbtools_sub_message_alloc SIZEOF_gradido_deferred_transfer proto_gradido_gradido_deferred_transfer_init (pbx_deferred_transfer_p m) h of (ok, v, h) \<Rightarrow>
        (ok, m\<lparr>pbx_data := proto_gradido_transaction_body_data_deferred_transfer_e, pbx_deferred_transfer_p := v\<rparr>, h))"

definition proto_gradido_transaction_body_community_root_alloc ::
  "proto_gradido_transaction_body_t \<Rightarrow> pb_heap \<Rightarrow> bool \<times> proto_gradido_transaction_body_t \<times> pb_heap" where
  "proto_gradido_transaction_body_community_root_alloc m h =
     (case pbtools_sub_message_alloc SIZEOF_community_root proto_gradido_community_root_init (pbx_community_root_p m) h of (ok, v, h) \<Rightarrow>
        (ok, m\<lparr>pbx_data := proto_gradido_transaction_body_data_community_root_e, pbx_community_root_p := v\<rparr>, h))"

definition proto_gradido_transaction_body_redeem_deferred_transfer_alloc ::
  "proto_gradido_transaction_body_t \<Rightarrow> pb_heap \<Rightarrow> bool \<times> proto_gradido_transaction_body_t \<times> pb_heap" where
  "proto_gradido_transaction_body_redeem_deferred_transfer_alloc m h =
     (case pbtools_sub_message_alloc SIZEOF_gradido_redeem_deferred_transfer proto_gradido_gradido_redeem_deferred_transfer_init (pbx_redeem_deferred_transfer_p m) h of (ok, v, h) \<Rightarrow>
        (ok, m\<lparr>pbx_data := proto_gradido_transaction_body_data_redeem_deferred_transfer_e, pbx_redeem_deferred_transfer_p := v\<rparr>, h))"

definition proto_gradido_transaction_body_timeout_deferred_transfer_alloc ::
  "proto_gradido_transaction_body_t \<Rightarrow> pb_heap \<Rightarrow> bool \<times> proto_gradido_transaction_body_t \<times> pb_heap" where
  "proto_gradido_transaction_body_timeout_deferred_transfer_alloc m h =
     (case pbtools_sub_message_alloc SIZEOF_gradido_timeout_deferred_transfer proto_gradido_gradido_timeout_deferred_transfer_init (pbx_timeout_deferred_transfer_p m) h of (ok, v, h) \<Rightarrow>
        (ok, m\<lparr>pbx_data := proto_gradido_transaction_body_data_timeout_deferred_transfer_e, pbx_timeout_deferred_transfer_p := v\<rparr>, h))"

definition proto_gradido_transaction_body_new :: "nat \<Rightarrow> nat \<Rightarrow> (proto_gradido_transaction_body_t \<times> pb_heap) option" where
  "proto_gradido_transaction_body_new address n = pbtools_message_new address n SIZEOF_transaction_body proto_gradido_transaction_body_init"

definition proto_gradido_transaction_body_encode :: "proto_gradido_transaction_body_t \<Rightarrow> nat \<Rightarrow> c_fault + (int \<times> bytes)" where
  "proto_gradido_transaction_body_encode = pbtools_message_encode proto_gradido_transaction_body_encode_inner"

definition proto_gradido_transaction_body_decode ::
  "proto_gradido_transaction_body_t \<Rightarrow> bytes \<Rightarrow> nat \<Rightarrow> pb_heap \<Rightarrow> int \<times> proto_gradido_transaction_body_t \<times> pb_heap" where
  "proto_gradido_transaction_body_decode = pbtools_message_decode proto_gradido_transaction_body_decode_inner"

section \<open>\<open>confirmed_transaction\<close>\<close>

record proto_gradido_confirmed_transaction_t =
  pcx_id :: u64
  pcx_transaction_p :: "proto_gradido_gradido_transaction_t option"
  pcx_confirmed_at_p :: "proto_gradido_timestamp_t option"
  pcx_version_number :: u32
  pcx_running_hash :: bytes
  pcx_ledger_anchor_p :: "proto_gradido_ledger_anchor_t option"
  pcx_account_balances :: "proto_gradido_account_balance_t list"

definition SIZEOF_confirmed_transaction :: nat where "SIZEOF_confirmed_transaction = 80"

definition proto_gradido_confirmed_transaction_init :: proto_gradido_confirmed_transaction_t where
  "proto_gradido_confirmed_transaction_init =
     \<lparr>pcx_id = 0,
      pcx_transaction_p = None,
      pcx_confirmed_at_p = None,
      pcx_version_number = 0,
      pcx_running_hash = [],
      pcx_ledger_anchor_p = None,
      pcx_account_balances = []\<rparr>"

definition proto_gradido_confirmed_transaction_encode_inner :: "proto_gradido_confirmed_transaction_t \<Rightarrow> pb_write" where
  "proto_gradido_confirmed_transaction_encode_inner m = write_all
     [proto_gradido_account_balance_encode_repeated_inner 7 (pcx_account_balances m),
      pbtools_encoder_sub_message_encode 6 proto_gradido_ledger_anchor_encode_inner (pcx_ledger_anchor_p m),
      pbtools_encoder_write_bytes 5 (pcx_running_hash m),
      pbtools_encoder_write_uint32 4 (pcx_version_number m),
      pbtools_encoder_sub_message_encode 3 proto_gradido_timestamp_encode_inner (pcx_confirmed_at_p m),
      pbtools_encoder_sub_message_encode 2 proto_gradido_gradido_transaction_encode_inner (pcx_transaction_p m),
      pbtools_encoder_write_uint64 1 (pcx_id m)]"

definition proto_gradido_confirmed_transaction_field ::
  "nat \<Rightarrow> nat \<Rightarrow> (proto_gradido_confirmed_transaction_t \<times> pb_repeated_info) \<times> pb_decoder \<Rightarrow> (proto_gradido_confirmed_transaction_t \<times> pb_repeated_info) \<times> pb_decoder" where
  "proto_gradido_confirmed_transaction_field tag wire s =
     (case s of ((m, i), d) \<Rightarrow>
      if tag = 1 then (case pbtools_decoder_read_uint64 wire d of (v, d) \<Rightarrow> ((m\<lparr>pcx_id := v\<rparr>, i), d))
      else if tag = 2 then (case pbtools_decoder_sub_message_decode SIZEOF_gradido_transaction proto_gradido_gradido_transaction_init
             proto_gradido_gradido_transaction_decode_inner wire (pcx_transaction_p m, d) of (v, d) \<Rightarrow> ((m\<lparr>pcx_transaction_p := v\<rparr>, i), d))
      else if tag = 3 then (case pbtools_decoder_sub_message_decode SIZEOF_timestamp proto_gradido_timestamp_init
             proto_gradido_timestamp_decode_inner wire (pcx_confirmed_at_p m, d) of (v, d) \<Rightarrow> ((m\<lparr>pcx_confirmed_at_p := v\<rparr>, i), d))
      else if tag = 4 then (case pbtools_decoder_read_uint32 wire d of (v, d) \<Rightarrow> ((m\<lparr>pcx_version_number := v\<rparr>, i), d))
      else if tag = 5 then (case pbtools_decoder_read_bytes wire d of (v, d) \<Rightarrow> ((m\<lparr>pcx_running_hash := v\<rparr>, i), d))
      else if tag = 6 then (case pbtools_decoder_sub_message_decode SIZEOF_ledger_anchor proto_gradido_ledger_anchor_init
             proto_gradido_ledger_anchor_decode_inner wire (pcx_ledger_anchor_p m, d) of (v, d) \<Rightarrow> ((m\<lparr>pcx_ledger_anchor_p := v\<rparr>, i), d))
      else if tag = 7 then (case pbtools_repeated_info_decode wire (i, d) of (i, d) \<Rightarrow> ((m, i), d))
      else ((m, i), pbtools_decoder_skip_field wire d))"

definition proto_gradido_confirmed_transaction_decode_inner :: "proto_gradido_confirmed_transaction_t \<Rightarrow> pb_decoder \<Rightarrow> proto_gradido_confirmed_transaction_t \<times> pb_decoder" where
  "proto_gradido_confirmed_transaction_decode_inner m d =
     (case decode_fields proto_gradido_confirmed_transaction_field ((m, pbtools_repeated_info_init 7 d), d) of ((m, i), d) \<Rightarrow>
        (case proto_gradido_account_balance_decode_repeated_inner i (pcx_account_balances m, d) of (v, d) \<Rightarrow>
           (m\<lparr>pcx_account_balances := v\<rparr>, d)))"

definition proto_gradido_confirmed_transaction_transaction_alloc ::
  "proto_gradido_confirmed_transaction_t \<Rightarrow> pb_heap \<Rightarrow> bool \<times> proto_gradido_confirmed_transaction_t \<times> pb_heap" where
  "proto_gradido_confirmed_transaction_transaction_alloc m h =
     (case pbtools_sub_message_alloc SIZEOF_gradido_transaction proto_gradido_gradido_transaction_init (pcx_transaction_p m) h of (ok, v, h) \<Rightarrow>
        (ok, m\<lparr>pcx_transaction_p := v\<rparr>, h))"

definition proto_gradido_confirmed_transaction_confirmed_at_alloc ::
  "proto_gradido_confirmed_transaction_t \<Rightarrow> pb_heap \<Rightarrow> bool \<times> proto_gradido_confirmed_transaction_t \<times> pb_heap" where
  "proto_gradido_confirmed_transaction_confirmed_at_alloc m h =
     (case pbtools_sub_message_alloc SIZEOF_timestamp proto_gradido_timestamp_init (pcx_confirmed_at_p m) h of (ok, v, h) \<Rightarrow>
        (ok, m\<lparr>pcx_confirmed_at_p := v\<rparr>, h))"

definition proto_gradido_confirmed_transaction_ledger_anchor_alloc ::
  "proto_gradido_confirmed_transaction_t \<Rightarrow> pb_heap \<Rightarrow> bool \<times> proto_gradido_confirmed_transaction_t \<times> pb_heap" where
  "proto_gradido_confirmed_transaction_ledger_anchor_alloc m h =
     (case pbtools_sub_message_alloc SIZEOF_ledger_anchor proto_gradido_ledger_anchor_init (pcx_ledger_anchor_p m) h of (ok, v, h) \<Rightarrow>
        (ok, m\<lparr>pcx_ledger_anchor_p := v\<rparr>, h))"

definition proto_gradido_confirmed_transaction_account_balances_alloc ::
  "proto_gradido_confirmed_transaction_t \<Rightarrow> nat \<Rightarrow> pb_heap \<Rightarrow> bool \<times> proto_gradido_confirmed_transaction_t \<times> pb_heap" where
  "proto_gradido_confirmed_transaction_account_balances_alloc m len h =
     (case pbtools_alloc_repeated SIZEOF_account_balance proto_gradido_account_balance_init len (pcx_account_balances m) h of (ok, v, h) \<Rightarrow>
        (ok, m\<lparr>pcx_account_balances := v\<rparr>, h))"

definition proto_gradido_confirmed_transaction_new :: "nat \<Rightarrow> nat \<Rightarrow> (proto_gradido_confirmed_transaction_t \<times> pb_heap) option" where
  "proto_gradido_confirmed_transaction_new address n = pbtools_message_new address n SIZEOF_confirmed_transaction proto_gradido_confirmed_transaction_init"

definition proto_gradido_confirmed_transaction_encode :: "proto_gradido_confirmed_transaction_t \<Rightarrow> nat \<Rightarrow> c_fault + (int \<times> bytes)" where
  "proto_gradido_confirmed_transaction_encode = pbtools_message_encode proto_gradido_confirmed_transaction_encode_inner"

definition proto_gradido_confirmed_transaction_decode ::
  "proto_gradido_confirmed_transaction_t \<Rightarrow> bytes \<Rightarrow> nat \<Rightarrow> pb_heap \<Rightarrow> int \<times> proto_gradido_confirmed_transaction_t \<times> pb_heap" where
  "proto_gradido_confirmed_transaction_decode = pbtools_message_decode proto_gradido_confirmed_transaction_decode_inner"

end
