(* ===== verification/GRD_Codec.thy ===== *)
theory GRD_Codec
  imports GRD_Wire_Bytes GRD_Messages
begin

text \<open>
  The encoding of every message and its way back. For each message, \<open>_bytes\<close> is the encoding
  the protobuf format asks for, its fields in the order the generated code leaves them, and \<open>_need\<close>
  bounds the room in the heap that reading it takes. The locale \<open>message\<close> states the contract of a
  message: the encoding function writes these bytes, and the decoding function reads the message back
  from them. Members and items of other messages, and whole buffers, follow from the contract alone;
  every message fulfils it by an interpretation.
\<close>

section \<open>Scalars\<close>

lemma read_int64_varint: "pbtools_decoder_read_int64 0 d = decoder_read_varint d"
  by (simp add: pbtools_decoder_read_int64_def read_varint_check_wire_type_def)

lemma read_uint64_varint: "pbtools_decoder_read_uint64 0 d = decoder_read_varint d"
  by (simp add: pbtools_decoder_read_uint64_def read_varint_check_wire_type_def)

lemma read_int32_varint: "pbtools_decoder_read_int32 0 d = (case decoder_read_varint d of (v, d') \<Rightarrow> (ucast v, d'))"
  by (simp add: pbtools_decoder_read_int32_def read_int64_varint)

lemma read_uint32_varint: "pbtools_decoder_read_uint32 0 d = (case decoder_read_varint d of (v, d') \<Rightarrow> (ucast v, d'))"
  by (simp add: pbtools_decoder_read_uint32_def read_uint64_varint)

lemma read_enum_varint: "pbtools_decoder_read_enum 0 d = (case decoder_read_varint d of (v, d') \<Rightarrow> (ucast v, d'))"
  by (simp add: pbtools_decoder_read_enum_def read_int32_varint)

lemma read_bool_varint:
  "pbtools_decoder_read_bool 0 d = (case decoder_read_varint d of (v, d') \<Rightarrow> ((ucast v :: i32) \<noteq> 0, d'))"
  by (simp add: pbtools_decoder_read_bool_def read_int32_varint split: prod.splits)

lemmas read_varints = read_int64_varint read_uint64_varint read_int32_varint read_uint32_varint
  read_enum_varint read_bool_varint

lemma widened [simp]:
  "ucast (scast (v :: i32) :: i64) = v" "ucast (ucast (w :: u32) :: u64) = w"
  "scast v = (0 :: i64) \<longleftrightarrow> v = 0" "(ucast w :: u64) = 0 \<longleftrightarrow> w = 0"
proof -
  show 1: "ucast (scast v :: i64) = v"
    by (rule bit_word_eqI) (auto simp: bit_simps)
  show 2: "ucast (ucast w :: u64) = w"
    by (rule bit_word_eqI) (simp add: bit_simps)
  show "scast v = (0 :: i64) \<longleftrightarrow> v = 0" using 1 by (metis unsigned_0 signed_0)
  show "(ucast w :: u64) = 0 \<longleftrightarrow> w = 0" using 2 by (metis unsigned_0)
qed

definition bool_word :: "bool \<Rightarrow> u64" where "bool_word b = (if b then 1 else 0)"

lemma bool_word_simps [simp]: "bool_word b = 0 \<longleftrightarrow> \<not> b" "(ucast (bool_word b) :: i32) \<noteq> 0 \<longleftrightarrow> b"
  by (simp_all add: bool_word_def)

lemma writes_int64: "writes (pbtools_encoder_write_int64 k v) (varint_field k v)"
  by (simp add: pbtools_encoder_write_int64_def writes_varint_field)

lemma writes_uint64: "writes (pbtools_encoder_write_uint64 k v) (varint_field k v)"
  by (simp add: pbtools_encoder_write_uint64_def writes_varint_field)

lemma writes_int32: "writes (pbtools_encoder_write_int32 k v) (varint_field k (scast v))"
  by (simp add: pbtools_encoder_write_int32_def writes_varint_field)

lemma writes_uint32: "writes (pbtools_encoder_write_uint32 k v) (varint_field k (ucast v))"
  by (simp add: pbtools_encoder_write_uint32_def writes_uint64)

lemma writes_enum: "writes (pbtools_encoder_write_enum k v) (varint_field k (scast v))"
  by (simp add: pbtools_encoder_write_enum_def writes_int32)

lemma writes_bool: "writes (pbtools_encoder_write_bool k v) (varint_field k (bool_word v))"
proof (cases v)
  case True
  have "pbtools_encoder_write_bool k v = pbtools_encoder_write_int32 k 1"
    by (rule ext) (simp add: pbtools_encoder_write_bool_def True)
  then show ?thesis using writes_int32 [of k 1] by (simp add: bool_word_def True)
next
  case False
  have "pbtools_encoder_write_bool k v = Inr" by (rule ext) (simp add: pbtools_encoder_write_bool_def False)
  then show ?thesis using writes_none by (simp add: bool_word_def varint_field_def False)
qed

lemma writes_int64_always: "writes (pbtools_encoder_write_int64_always k v) (varint_field_always k v)"
  by (simp add: pbtools_encoder_write_int64_always_def writes_varint_always)

lemma writes_uint64_always: "writes (pbtools_encoder_write_uint64_always k v) (varint_field_always k v)"
  by (simp add: pbtools_encoder_write_uint64_always_def writes_varint_always)

lemma field_lengths:
  "length bs \<le> length (length_field k bs)" "length bs \<le> length (bytes_field k bs)"
  by (simp_all add: length_field_def bytes_field_def)

text \<open>A message that can be decoded is shorter than this.\<close>

definition short :: "bytes \<Rightarrow> bool" where "short bs \<longleftrightarrow> length bs < 2147483647"

lemma short_append: "short (as @ bs) \<longleftrightarrow> length as + length bs < 2147483647"
  by (simp add: short_def)

lemma short_parts:
  "short (as @ bs) \<Longrightarrow> short as" "short (as @ bs) \<Longrightarrow> short bs"
  "short (length_field k bs) \<Longrightarrow> short bs" "short (bytes_field k bs) \<Longrightarrow> short bs"
  using field_lengths(1) [of bs k] field_lengths(2) [of bs k] by (simp_all add: short_def)

lemma writes_bytes_short: "short (bytes_field k bs) \<Longrightarrow> writes (pbtools_encoder_write_bytes k bs) (bytes_field k bs)"
  using field_lengths [of bs k] by (intro writes_bytes) (simp add: short_def)

lemma takes_bytes_short:
  assumes "field_ok k" "short (bytes_field k bs)" "bs = [] \<Longrightarrow> s = s'"
    and "\<And>d d'. pbtools_decoder_read_bytes 2 d = (bs, d') \<Longrightarrow> field k 2 (s, d) = (s', d')"
  shows "takes field (bytes_field k bs) s s' (length bs)"
  using assms(1) _ assms(3,4) by (rule takes_bytes) (use assms(2) field_lengths [of bs k] in \<open>simp add: short_def\<close>)

lemma pred_option_True [simp]: "pred_option (\<lambda>m. True) v"
  by (cases v) simp_all

section \<open>The contract of a message\<close>

definition sub_need :: "nat \<Rightarrow> ('m \<Rightarrow> nat) \<Rightarrow> 'm option \<Rightarrow> nat" where
  "sub_need n need m = (case m of None \<Rightarrow> 0 | Some m \<Rightarrow> n + 7 + need m)"

definition items_need :: "nat \<Rightarrow> ('m \<Rightarrow> nat) \<Rightarrow> 'm list \<Rightarrow> nat" where
  "items_need n need ms = n * length ms + 7 + sum_list (map need ms)"

definition items_field :: "nat \<Rightarrow> ('m \<Rightarrow> bytes) \<Rightarrow> 'm list \<Rightarrow> bytes" where
  "items_field k enc ms = concat (map (\<lambda>m. length_field k (enc m)) ms)"

lemma items_field_short: "short (items_field k enc ms) \<Longrightarrow> m \<in> set ms \<Longrightarrow> short (enc m)"
  by (induction ms) (auto simp: items_field_def dest: short_parts)

locale message =
  fixes encode_inner :: "'m \<Rightarrow> pb_write"
    and init :: 'm
    and decode_inner :: "'m \<Rightarrow> pb_decoder \<Rightarrow> 'm \<times> pb_decoder"
    and enc :: "'m \<Rightarrow> bytes"
    and need :: "'m \<Rightarrow> nat"
    and proper :: "'m \<Rightarrow> bool"
  assumes encodes: "proper m \<Longrightarrow> short (enc m) \<Longrightarrow> writes (encode_inner m) (enc m)"
    and reads_back: "proper m \<Longrightarrow> short (enc m) \<Longrightarrow> decodes decode_inner init (enc m) m (need m)"
begin

lemma sub_writes:
  assumes "pred_option proper v" "short (sub_field k enc v)"
  shows "writes (pbtools_encoder_sub_message_encode k encode_inner v) (sub_field k enc v)"
  by (rule writes_sub) (use assms in \<open>auto simp: sub_field_def intro!: encodes dest: short_parts(3)\<close>)

lemma sub_takes:
  assumes "field_ok k" "pred_option proper v" "short (sub_field k enc v)" "v = None \<Longrightarrow> s = s'"
    and read: "\<And>d d'. pbtools_decoder_sub_message_decode n init decode_inner 2 (old, d) = (v, d') \<Longrightarrow>
      field k 2 (s, d) = (s', d')"
  shows "takes field (sub_field k enc v) s s' (sub_need n need v)"
proof (cases v)
  case None then show ?thesis using assms(4) by (simp add: sub_field_def sub_need_def)
next
  case (Some m)
  have short: "short (enc m)" by (rule short_parts(3)) (use assms(3) in \<open>simp add: sub_field_def Some\<close>)
  have "takes field (length_field k (enc m)) s s' (n + 7 + need m)"
    by (rule takes_sub_always [OF assms(1) reads_back, where old = old])
      (use assms(2) short read in \<open>simp_all add: Some short_def\<close>)
  then show ?thesis by (simp add: Some sub_field_def sub_need_def)
qed

lemma always_writes:
  assumes "proper m" "short (length_field k (enc m))"
  shows "writes (pbtools_encoder_sub_message_encode_always k encode_inner (Some m)) (length_field k (enc m))"
  by (rule writes_sub_always) (rule encodes [OF assms(1) short_parts(3) [OF assms(2)]])

lemma always_takes:
  assumes "field_ok k" "proper m" "short (length_field k (enc m))"
    and "\<And>d d'. pbtools_decoder_sub_message_decode n init decode_inner 2 (old, d) = (Some m, d') \<Longrightarrow>
      field k 2 (s, d) = (s', d')"
  shows "takes field (length_field k (enc m)) s s' (n + 7 + need m)"
  using sub_takes [of k "Some m" s s' n old field] assms by (simp add: sub_field_def sub_need_def)

lemma items_writes:
  assumes "list_all proper ms" "short (items_field k enc ms)"
  shows "writes (pbtools_encode_repeated_inner k encode_inner ms) (items_field k enc ms)"
  unfolding items_field_def
proof (rule writes_repeated)
  fix m assume m: "m \<in> set ms"
  then have "proper m" using assms(1) by (simp add: list_all_iff)
  then show "writes (encode_inner m) (enc m)" by (rule encodes [OF _ items_field_short [OF assms(2) m]])
qed

lemma items_counted:
  assumes "field_ok k" "short (items_field k enc ms)"
    and "\<And>i d. field k 2 ((m, i), d) = (case pbtools_repeated_info_decode 2 (i, d) of (i, d) \<Rightarrow> ((m, i), d))"
    and "ri_length i = 0" "ri_tag i = k" "at_bytes (items_field k enc ms @ rest) d" "room r d"
  shows "\<exists>i' d'. decode_fields field ((m, i), d) = decode_fields field ((m, i'), d') \<and> counted k (map enc ms) i'
    \<and> at_bytes rest d' \<and> room r d' \<and> same_bytes d d'"
proof (cases "ms = []")
  case True
  then show ?thesis using assms by (intro exI) (auto simp: items_field_def counted_def same_bytes_def)
next
  case False
  show ?thesis
    by (rule takes_items) (use assms items_field_short False in \<open>auto simp: items_field_def short_def comp_def\<close>)
qed

lemma items_read:
  assumes "field_ok k" "list_all proper ms" "short (items_field k enc ms)" "counted k (map enc ms) i"
    and "at_bytes rest d" "room (items_need n need ms + r) d"
  shows "\<exists>d'. pbtools_decode_repeated_inner n init decode_inner i ([], d) = (ms, d') \<and> at_bytes rest d' \<and> room r d'
    \<and> same_bytes d d'"
proof (rule decode_repeated_at [OF assms(1,4) _ assms(5)])
  show "list_all2 (\<lambda>bs m. decodes decode_inner init bs m (need m) \<and> length bs < 2147483647) (map enc ms) ms"
    using assms(2) items_field_short [OF assms(3)]
    by (auto simp: list_all2_conv_all_nth list_all_length short_def intro!: reads_back)
qed (use assms(6) in \<open>simp add: items_need_def\<close>)

text \<open>A message that has the items between other fields: its loop counts them, and they are decoded
  when it has ended.\<close>

lemma host_decodes:
  assumes before: "\<And>i. takes field as (start, i) (mid, i) ka"
    and after: "\<And>i. takes field bs (mid, i) (fin, i) kb"
    and branch: "\<And>m i d. field k 2 ((m, i), d) = (case pbtools_repeated_info_decode 2 (i, d) of (i, d) \<Rightarrow> ((m, i), d))"
    and host: "\<And>m d. host_decode m d =
      (case decode_fields field ((m, pbtools_repeated_info_init k d), d) of ((m, i), d) \<Rightarrow>
        (case pbtools_decode_repeated_inner n init decode_inner i (get m, d) of (v, d) \<Rightarrow> (put v m, d)))"
    and m: "get fin = []" "put ms fin = m"
    and ms: "field_ok k" "list_all proper ms" "short (items_field k enc ms)"
  shows "decodes host_decode start (as @ items_field k enc ms @ bs) m (ka + (kb + items_need n need ms))"
  unfolding decodes_def
proof (intro allI impI, elim conjE)
  fix d r
  assume at: "at_bytes (as @ items_field k enc ms @ bs) d"
    and room: "room (ka + (kb + items_need n need ms) + r) d"
  let ?i = "pbtools_repeated_info_init k d"
  have i: "ri_length ?i = 0" "ri_tag ?i = k" by (simp_all add: pbtools_repeated_info_init_def)
  obtain d1 where d1: "decode_fields field ((start, ?i), d) = decode_fields field ((mid, ?i), d1)"
    "at_bytes (items_field k enc ms @ bs) d1" "room (kb + (items_need n need ms + r)) d1" "same_bytes d d1"
    using before [of ?i] at room unfolding takes_def by (metis add.assoc)
  obtain i2 d2 where d2: "decode_fields field ((mid, ?i), d1) = decode_fields field ((mid, i2), d2)"
    "counted k (map enc ms) i2" "at_bytes bs d2" "room (kb + (items_need n need ms + r)) d2" "same_bytes d1 d2"
    using items_counted [where m = mid and field = field, OF ms(1,3) branch i d1(2,3)] by blast
  obtain d3 where d3: "decode_fields field ((mid, i2), d2) = decode_fields field ((fin, i2), d3)"
    "at_bytes [] d3" "room (items_need n need ms + r) d3" "same_bytes d2 d3"
    using after [of i2] d2(3,4) unfolding takes_def by (metis append_Nil2)
  obtain d4 where d4: "pbtools_decode_repeated_inner n init decode_inner i2 ([], d3) = (ms, d4)" "at_bytes [] d4"
    "room r d4" "same_bytes d3 d4"
    using items_read [OF ms d2(2) d3(2,3)] by blast
  have "host_decode start d = (m, d4)"
    unfolding host d1(1) d2(1) d3(1) decode_fields_end [OF d3(2)] by (simp add: m d4(1))
  moreover have "same_bytes d d4" using d1 d2 d3 d4 by (blast intro: same_bytes_trans)
  ultimately show "\<exists>d'. host_decode start d = (m, d') \<and> at_bytes [] d' \<and> room r d' \<and> same_bytes d d'"
    using d4 by blast
qed

text \<open>A buffer with more room than the message is long takes its encoding, and decoding these bytes
  gives the message back and has read all of them.\<close>

lemma buffer_encodes:
  assumes "proper m" "short (enc m)" "length (enc m) < n" "n < 2147483648"
  shows "pbtools_message_encode encode_inner m n = Inr (int (length (enc m)), enc m)"
  by (rule writes_message(1) [OF encodes]) (use assms in simp_all)

lemma buffer_full:
  assumes "proper m" "short (enc m)" "n \<le> length (enc m)" "0 < n" "n < 2147483648"
  shows "\<exists>out. pbtools_message_encode encode_inner m n = Inr (- PBTOOLS_ENCODE_BUFFER_FULL, out)"
  by (rule writes_message(2) [OF encodes]) (use assms in simp_all)

lemma buffer_decodes:
  assumes "proper m" "short (enc m)" "heap_room (need m + r) h"
  shows "\<exists>h'. pbtools_message_decode decode_inner init (enc m) (length (enc m)) h = (int (length (enc m)), m, h')
    \<and> heap_room r h' \<and> hp_size h' = hp_size h"
proof -
  let ?d = "decoder_init (enc m) (length (enc m)) h"
  have at: "at_bytes (enc m) ?d"
    using assms(2) by (simp add: decoder_init_def at_bytes_def c_int_small short_def)
  obtain d' where d': "decode_inner init ?d = (m, d')" "at_bytes [] d'" "room r d'" "same_bytes ?d d'"
    using reads_back [OF assms(1,2)] at assms(3) unfolding decodes_def by (fastforce simp: decoder_init_def)
  have "dec_pos d' = int (length (enc m))"
    using at_bytes_length [OF d'(2)] at_bytes_length [OF at] d'(4) by (simp add: same_bytes_def decoder_init_def)
  then show ?thesis using d' by (simp add: pbtools_message_decode_def same_bytes_def decoder_init_def)
qed

end

section \<open>\<open>account_balance\<close>\<close>

definition account_balance_bytes :: "proto_gradido_account_balance_t \<Rightarrow> bytes" where
  "account_balance_bytes m =
     bytes_field 1 (pab_pubkey m) @
     varint_field 2 (pab_balance m) @
     bytes_field 3 (pab_community_uuid m)"

definition account_balance_need :: "proto_gradido_account_balance_t \<Rightarrow> nat" where
  "account_balance_need m = length (pab_pubkey m) + length (pab_community_uuid m)"

lemmas account_balance_simps = proto_gradido_account_balance_field_def proto_gradido_account_balance_init_def field_ok_def read_varints

interpretation account_balance: message proto_gradido_account_balance_encode_inner proto_gradido_account_balance_init proto_gradido_account_balance_decode_inner
  account_balance_bytes account_balance_need "\<lambda>m. True"
proof
  let ?f = proto_gradido_account_balance_field and ?s0 = proto_gradido_account_balance_init
  fix m :: proto_gradido_account_balance_t
  assume short: "short (account_balance_bytes m)"
  note parts = short [unfolded account_balance_bytes_def]
  note s1 = short_parts(1) [OF parts]
  note s3 = short_parts(2) [OF short_parts(2) [OF parts]]
  have "writes (proto_gradido_account_balance_encode_inner m) ((([] @ bytes_field 1 (pab_pubkey m)) @ varint_field 2 (pab_balance m)) @ bytes_field 3 (pab_community_uuid m))"
    unfolding proto_gradido_account_balance_encode_inner_def
    by (intro writes_all_Cons writes_all_Nil writes_bytes_short [OF s3] writes_int64 writes_bytes_short [OF s1])
  then show "writes (proto_gradido_account_balance_encode_inner m) (account_balance_bytes m)" by (simp add: account_balance_bytes_def)
  let ?s1 = "?s0\<lparr>pab_pubkey := pab_pubkey m\<rparr>"
  let ?s2 = "?s1\<lparr>pab_balance := pab_balance m\<rparr>"
  let ?s3 = "?s2\<lparr>pab_community_uuid := pab_community_uuid m\<rparr>"
  have t1: "takes ?f (bytes_field 1 (pab_pubkey m)) ?s0 ?s1 (length (pab_pubkey m))"
    by (rule takes_bytes_short [OF _ s1]) (simp_all add: account_balance_simps)
  have t2: "takes ?f (varint_field 2 (pab_balance m)) ?s1 ?s2 0"
    by (rule takes_varint) (simp_all add: account_balance_simps)
  have t3: "takes ?f (bytes_field 3 (pab_community_uuid m)) ?s2 ?s3 (length (pab_community_uuid m))"
    by (rule takes_bytes_short [OF _ s3]) (simp_all add: account_balance_simps)
  have all: "?s3 = m" by (cases m) (simp add: proto_gradido_account_balance_init_def)
  have "takes ?f (account_balance_bytes m) ?s0 m (account_balance_need m)"
    using takes_append [OF t1 takes_append [OF t2 t3]] unfolding all by (simp add: account_balance_bytes_def account_balance_need_def add.assoc)
  from takes_decodes [OF this] show "decodes proto_gradido_account_balance_decode_inner proto_gradido_account_balance_init (account_balance_bytes m) m (account_balance_need m)"
    by (simp add: proto_gradido_account_balance_decode_inner_def [abs_def])
qed

section \<open>\<open>duration_seconds\<close>\<close>

definition duration_seconds_bytes :: "proto_gradido_duration_seconds_t \<Rightarrow> bytes" where
  "duration_seconds_bytes m =
     varint_field 1 (pds_seconds m)"

definition duration_seconds_need :: "proto_gradido_duration_seconds_t \<Rightarrow> nat" where
  "duration_seconds_need m = 0"

lemmas duration_seconds_simps = proto_gradido_duration_seconds_field_def proto_gradido_duration_seconds_init_def field_ok_def read_varints

interpretation duration_seconds: message proto_gradido_duration_seconds_encode_inner proto_gradido_duration_seconds_init proto_gradido_duration_seconds_decode_inner
  duration_seconds_bytes duration_seconds_need "\<lambda>m. True"
proof
  let ?f = proto_gradido_duration_seconds_field and ?s0 = proto_gradido_duration_seconds_init
  fix m :: proto_gradido_duration_seconds_t
  assume short: "short (duration_seconds_bytes m)"
  note parts = short [unfolded duration_seconds_bytes_def]
  have "writes (proto_gradido_duration_seconds_encode_inner m) ([] @ varint_field 1 (pds_seconds m))"
    unfolding proto_gradido_duration_seconds_encode_inner_def
    by (intro writes_all_Cons writes_all_Nil writes_uint64)
  then show "writes (proto_gradido_duration_seconds_encode_inner m) (duration_seconds_bytes m)" by (simp add: duration_seconds_bytes_def)
  let ?s1 = "?s0\<lparr>pds_seconds := pds_seconds m\<rparr>"
  have t1: "takes ?f (varint_field 1 (pds_seconds m)) ?s0 ?s1 0"
    by (rule takes_varint) (simp_all add: duration_seconds_simps)
  have all: "?s1 = m" by (cases m) (simp add: proto_gradido_duration_seconds_init_def)
  have "takes ?f (duration_seconds_bytes m) ?s0 m (duration_seconds_need m)"
    using t1 unfolding all by (simp add: duration_seconds_bytes_def duration_seconds_need_def add.assoc)
  from takes_decodes [OF this] show "decodes proto_gradido_duration_seconds_decode_inner proto_gradido_duration_seconds_init (duration_seconds_bytes m) m (duration_seconds_need m)"
    by (simp add: proto_gradido_duration_seconds_decode_inner_def [abs_def])
qed

section \<open>\<open>encrypted_memo\<close>\<close>

definition encrypted_memo_bytes :: "proto_gradido_encrypted_memo_t \<Rightarrow> bytes" where
  "encrypted_memo_bytes m =
     varint_field 1 (scast (pem_type m)) @
     bytes_field 2 (pem_memo m)"

definition encrypted_memo_need :: "proto_gradido_encrypted_memo_t \<Rightarrow> nat" where
  "encrypted_memo_need m = length (pem_memo m)"

lemmas encrypted_memo_simps = proto_gradido_encrypted_memo_field_def proto_gradido_encrypted_memo_init_def field_ok_def read_varints

interpretation encrypted_memo: message proto_gradido_encrypted_memo_encode_inner proto_gradido_encrypted_memo_init proto_gradido_encrypted_memo_decode_inner
  encrypted_memo_bytes encrypted_memo_need "\<lambda>m. True"
proof
  let ?f = proto_gradido_encrypted_memo_field and ?s0 = proto_gradido_encrypted_memo_init
  fix m :: proto_gradido_encrypted_memo_t
  assume short: "short (encrypted_memo_bytes m)"
  note parts = short [unfolded encrypted_memo_bytes_def]
  note s2 = short_parts(2) [OF parts]
  have "writes (proto_gradido_encrypted_memo_encode_inner m) (([] @ varint_field 1 (scast (pem_type m))) @ bytes_field 2 (pem_memo m))"
    unfolding proto_gradido_encrypted_memo_encode_inner_def
    by (intro writes_all_Cons writes_all_Nil writes_bytes_short [OF s2] writes_enum)
  then show "writes (proto_gradido_encrypted_memo_encode_inner m) (encrypted_memo_bytes m)" by (simp add: encrypted_memo_bytes_def)
  let ?s1 = "?s0\<lparr>pem_type := pem_type m\<rparr>"
  let ?s2 = "?s1\<lparr>pem_memo := pem_memo m\<rparr>"
  have t1: "takes ?f (varint_field 1 (scast (pem_type m))) ?s0 ?s1 0"
    by (rule takes_varint) (simp_all add: encrypted_memo_simps)
  have t2: "takes ?f (bytes_field 2 (pem_memo m)) ?s1 ?s2 (length (pem_memo m))"
    by (rule takes_bytes_short [OF _ s2]) (simp_all add: encrypted_memo_simps)
  have all: "?s2 = m" by (cases m) (simp add: proto_gradido_encrypted_memo_init_def)
  have "takes ?f (encrypted_memo_bytes m) ?s0 m (encrypted_memo_need m)"
    using takes_append [OF t1 t2] unfolding all by (simp add: encrypted_memo_bytes_def encrypted_memo_need_def add.assoc)
  from takes_decodes [OF this] show "decodes proto_gradido_encrypted_memo_decode_inner proto_gradido_encrypted_memo_init (encrypted_memo_bytes m) m (encrypted_memo_need m)"
    by (simp add: proto_gradido_encrypted_memo_decode_inner_def [abs_def])
qed

section \<open>\<open>signature_pair\<close>\<close>

definition signature_pair_bytes :: "proto_gradido_signature_pair_t \<Rightarrow> bytes" where
  "signature_pair_bytes m =
     bytes_field 1 (psp_pubkey m) @
     bytes_field 2 (psp_signature m)"

definition signature_pair_need :: "proto_gradido_signature_pair_t \<Rightarrow> nat" where
  "signature_pair_need m = length (psp_pubkey m) + length (psp_signature m)"

lemmas signature_pair_simps = proto_gradido_signature_pair_field_def proto_gradido_signature_pair_init_def field_ok_def read_varints

interpretation signature_pair: message proto_gradido_signature_pair_encode_inner proto_gradido_signature_pair_init proto_gradido_signature_pair_decode_inner
  signature_pair_bytes signature_pair_need "\<lambda>m. True"
proof
  let ?f = proto_gradido_signature_pair_field and ?s0 = proto_gradido_signature_pair_init
  fix m :: proto_gradido_signature_pair_t
  assume short: "short (signature_pair_bytes m)"
  note parts = short [unfolded signature_pair_bytes_def]
  note s1 = short_parts(1) [OF parts]
  note s2 = short_parts(2) [OF parts]
  have "writes (proto_gradido_signature_pair_encode_inner m) (([] @ bytes_field 1 (psp_pubkey m)) @ bytes_field 2 (psp_signature m))"
    unfolding proto_gradido_signature_pair_encode_inner_def
    by (intro writes_all_Cons writes_all_Nil writes_bytes_short [OF s2] writes_bytes_short [OF s1])
  then show "writes (proto_gradido_signature_pair_encode_inner m) (signature_pair_bytes m)" by (simp add: signature_pair_bytes_def)
  let ?s1 = "?s0\<lparr>psp_pubkey := psp_pubkey m\<rparr>"
  let ?s2 = "?s1\<lparr>psp_signature := psp_signature m\<rparr>"
  have t1: "takes ?f (bytes_field 1 (psp_pubkey m)) ?s0 ?s1 (length (psp_pubkey m))"
    by (rule takes_bytes_short [OF _ s1]) (simp_all add: signature_pair_simps)
  have t2: "takes ?f (bytes_field 2 (psp_signature m)) ?s1 ?s2 (length (psp_signature m))"
    by (rule takes_bytes_short [OF _ s2]) (simp_all add: signature_pair_simps)
  have all: "?s2 = m" by (cases m) (simp add: proto_gradido_signature_pair_init_def)
  have "takes ?f (signature_pair_bytes m) ?s0 m (signature_pair_need m)"
    using takes_append [OF t1 t2] unfolding all by (simp add: signature_pair_bytes_def signature_pair_need_def add.assoc)
  from takes_decodes [OF this] show "decodes proto_gradido_signature_pair_decode_inner proto_gradido_signature_pair_init (signature_pair_bytes m) m (signature_pair_need m)"
    by (simp add: proto_gradido_signature_pair_decode_inner_def [abs_def])
qed

section \<open>\<open>timestamp\<close>\<close>

definition timestamp_bytes :: "proto_gradido_timestamp_t \<Rightarrow> bytes" where
  "timestamp_bytes m =
     varint_field 1 (pts_seconds m) @
     varint_field 2 (scast (pts_nanos m))"

definition timestamp_need :: "proto_gradido_timestamp_t \<Rightarrow> nat" where
  "timestamp_need m = 0"

lemmas timestamp_simps = proto_gradido_timestamp_field_def proto_gradido_timestamp_init_def field_ok_def read_varints

interpretation timestamp: message proto_gradido_timestamp_encode_inner proto_gradido_timestamp_init proto_gradido_timestamp_decode_inner
  timestamp_bytes timestamp_need "\<lambda>m. True"
proof
  let ?f = proto_gradido_timestamp_field and ?s0 = proto_gradido_timestamp_init
  fix m :: proto_gradido_timestamp_t
  assume short: "short (timestamp_bytes m)"
  note parts = short [unfolded timestamp_bytes_def]
  have "writes (proto_gradido_timestamp_encode_inner m) (([] @ varint_field 1 (pts_seconds m)) @ varint_field 2 (scast (pts_nanos m)))"
    unfolding proto_gradido_timestamp_encode_inner_def
    by (intro writes_all_Cons writes_all_Nil writes_int32 writes_int64)
  then show "writes (proto_gradido_timestamp_encode_inner m) (timestamp_bytes m)" by (simp add: timestamp_bytes_def)
  let ?s1 = "?s0\<lparr>pts_seconds := pts_seconds m\<rparr>"
  let ?s2 = "?s1\<lparr>pts_nanos := pts_nanos m\<rparr>"
  have t1: "takes ?f (varint_field 1 (pts_seconds m)) ?s0 ?s1 0"
    by (rule takes_varint) (simp_all add: timestamp_simps)
  have t2: "takes ?f (varint_field 2 (scast (pts_nanos m))) ?s1 ?s2 0"
    by (rule takes_varint) (simp_all add: timestamp_simps)
  have all: "?s2 = m" by (cases m) (simp add: proto_gradido_timestamp_init_def)
  have "takes ?f (timestamp_bytes m) ?s0 m (timestamp_need m)"
    using takes_append [OF t1 t2] unfolding all by (simp add: timestamp_bytes_def timestamp_need_def add.assoc)
  from takes_decodes [OF this] show "decodes proto_gradido_timestamp_decode_inner proto_gradido_timestamp_init (timestamp_bytes m) m (timestamp_need m)"
    by (simp add: proto_gradido_timestamp_decode_inner_def [abs_def])
qed

section \<open>\<open>timestamp_seconds\<close>\<close>

definition timestamp_seconds_bytes :: "proto_gradido_timestamp_seconds_t \<Rightarrow> bytes" where
  "timestamp_seconds_bytes m =
     varint_field 1 (pss_seconds m)"

definition timestamp_seconds_need :: "proto_gradido_timestamp_seconds_t \<Rightarrow> nat" where
  "timestamp_seconds_need m = 0"

lemmas timestamp_seconds_simps = proto_gradido_timestamp_seconds_field_def proto_gradido_timestamp_seconds_init_def field_ok_def read_varints

interpretation timestamp_seconds: message proto_gradido_timestamp_seconds_encode_inner proto_gradido_timestamp_seconds_init proto_gradido_timestamp_seconds_decode_inner
  timestamp_seconds_bytes timestamp_seconds_need "\<lambda>m. True"
proof
  let ?f = proto_gradido_timestamp_seconds_field and ?s0 = proto_gradido_timestamp_seconds_init
  fix m :: proto_gradido_timestamp_seconds_t
  assume short: "short (timestamp_seconds_bytes m)"
  note parts = short [unfolded timestamp_seconds_bytes_def]
  have "writes (proto_gradido_timestamp_seconds_encode_inner m) ([] @ varint_field 1 (pss_seconds m))"
    unfolding proto_gradido_timestamp_seconds_encode_inner_def
    by (intro writes_all_Cons writes_all_Nil writes_int64)
  then show "writes (proto_gradido_timestamp_seconds_encode_inner m) (timestamp_seconds_bytes m)" by (simp add: timestamp_seconds_bytes_def)
  let ?s1 = "?s0\<lparr>pss_seconds := pss_seconds m\<rparr>"
  have t1: "takes ?f (varint_field 1 (pss_seconds m)) ?s0 ?s1 0"
    by (rule takes_varint) (simp_all add: timestamp_seconds_simps)
  have all: "?s1 = m" by (cases m) (simp add: proto_gradido_timestamp_seconds_init_def)
  have "takes ?f (timestamp_seconds_bytes m) ?s0 m (timestamp_seconds_need m)"
    using t1 unfolding all by (simp add: timestamp_seconds_bytes_def timestamp_seconds_need_def add.assoc)
  from takes_decodes [OF this] show "decodes proto_gradido_timestamp_seconds_decode_inner proto_gradido_timestamp_seconds_init (timestamp_seconds_bytes m) m (timestamp_seconds_need m)"
    by (simp add: proto_gradido_timestamp_seconds_decode_inner_def [abs_def])
qed

section \<open>\<open>transfer_amount\<close>\<close>

definition transfer_amount_bytes :: "proto_gradido_transfer_amount_t \<Rightarrow> bytes" where
  "transfer_amount_bytes m =
     bytes_field 1 (pta_pubkey m) @
     varint_field 2 (pta_amount m) @
     bytes_field 3 (pta_community_uuid m)"

definition transfer_amount_need :: "proto_gradido_transfer_amount_t \<Rightarrow> nat" where
  "transfer_amount_need m = length (pta_pubkey m) + length (pta_community_uuid m)"

lemmas transfer_amount_simps = proto_gradido_transfer_amount_field_def proto_gradido_transfer_amount_init_def field_ok_def read_varints

interpretation transfer_amount: message proto_gradido_transfer_amount_encode_inner proto_gradido_transfer_amount_init proto_gradido_transfer_amount_decode_inner
  transfer_amount_bytes transfer_amount_need "\<lambda>m. True"
proof
  let ?f = proto_gradido_transfer_amount_field and ?s0 = proto_gradido_transfer_amount_init
  fix m :: proto_gradido_transfer_amount_t
  assume short: "short (transfer_amount_bytes m)"
  note parts = short [unfolded transfer_amount_bytes_def]
  note s1 = short_parts(1) [OF parts]
  note s3 = short_parts(2) [OF short_parts(2) [OF parts]]
  have "writes (proto_gradido_transfer_amount_encode_inner m) ((([] @ bytes_field 1 (pta_pubkey m)) @ varint_field 2 (pta_amount m)) @ bytes_field 3 (pta_community_uuid m))"
    unfolding proto_gradido_transfer_amount_encode_inner_def
    by (intro writes_all_Cons writes_all_Nil writes_bytes_short [OF s3] writes_int64 writes_bytes_short [OF s1])
  then show "writes (proto_gradido_transfer_amount_encode_inner m) (transfer_amount_bytes m)" by (simp add: transfer_amount_bytes_def)
  let ?s1 = "?s0\<lparr>pta_pubkey := pta_pubkey m\<rparr>"
  let ?s2 = "?s1\<lparr>pta_amount := pta_amount m\<rparr>"
  let ?s3 = "?s2\<lparr>pta_community_uuid := pta_community_uuid m\<rparr>"
  have t1: "takes ?f (bytes_field 1 (pta_pubkey m)) ?s0 ?s1 (length (pta_pubkey m))"
    by (rule takes_bytes_short [OF _ s1]) (simp_all add: transfer_amount_simps)
  have t2: "takes ?f (varint_field 2 (pta_amount m)) ?s1 ?s2 0"
    by (rule takes_varint) (simp_all add: transfer_amount_simps)
  have t3: "takes ?f (bytes_field 3 (pta_community_uuid m)) ?s2 ?s3 (length (pta_community_uuid m))"
    by (rule takes_bytes_short [OF _ s3]) (simp_all add: transfer_amount_simps)
  have all: "?s3 = m" by (cases m) (simp add: proto_gradido_transfer_amount_init_def)
  have "takes ?f (transfer_amount_bytes m) ?s0 m (transfer_amount_need m)"
    using takes_append [OF t1 takes_append [OF t2 t3]] unfolding all by (simp add: transfer_amount_bytes_def transfer_amount_need_def add.assoc)
  from takes_decodes [OF this] show "decodes proto_gradido_transfer_amount_decode_inner proto_gradido_transfer_amount_init (transfer_amount_bytes m) m (transfer_amount_need m)"
    by (simp add: proto_gradido_transfer_amount_decode_inner_def [abs_def])
qed

section \<open>\<open>community_friends_update\<close>\<close>

definition community_friends_update_bytes :: "proto_gradido_community_friends_update_t \<Rightarrow> bytes" where
  "community_friends_update_bytes m =
     varint_field 1 (bool_word (pfu_color_fusion m))"

definition community_friends_update_need :: "proto_gradido_community_friends_update_t \<Rightarrow> nat" where
  "community_friends_update_need m = 0"

lemmas community_friends_update_simps = proto_gradido_community_friends_update_field_def proto_gradido_community_friends_update_init_def field_ok_def read_varints

interpretation community_friends_update: message proto_gradido_community_friends_update_encode_inner proto_gradido_community_friends_update_init proto_gradido_community_friends_update_decode_inner
  community_friends_update_bytes community_friends_update_need "\<lambda>m. True"
proof
  let ?f = proto_gradido_community_friends_update_field and ?s0 = proto_gradido_community_friends_update_init
  fix m :: proto_gradido_community_friends_update_t
  assume short: "short (community_friends_update_bytes m)"
  note parts = short [unfolded community_friends_update_bytes_def]
  have "writes (proto_gradido_community_friends_update_encode_inner m) ([] @ varint_field 1 (bool_word (pfu_color_fusion m)))"
    unfolding proto_gradido_community_friends_update_encode_inner_def
    by (intro writes_all_Cons writes_all_Nil writes_bool)
  then show "writes (proto_gradido_community_friends_update_encode_inner m) (community_friends_update_bytes m)" by (simp add: community_friends_update_bytes_def)
  let ?s1 = "?s0\<lparr>pfu_color_fusion := pfu_color_fusion m\<rparr>"
  have t1: "takes ?f (varint_field 1 (bool_word (pfu_color_fusion m))) ?s0 ?s1 0"
    by (rule takes_varint) (simp_all add: community_friends_update_simps)
  have all: "?s1 = m" by (cases m) (simp add: proto_gradido_community_friends_update_init_def)
  have "takes ?f (community_friends_update_bytes m) ?s0 m (community_friends_update_need m)"
    using t1 unfolding all by (simp add: community_friends_update_bytes_def community_friends_update_need_def add.assoc)
  from takes_decodes [OF this] show "decodes proto_gradido_community_friends_update_decode_inner proto_gradido_community_friends_update_init (community_friends_update_bytes m) m (community_friends_update_need m)"
    by (simp add: proto_gradido_community_friends_update_decode_inner_def [abs_def])
qed

section \<open>\<open>community_root\<close>\<close>

definition community_root_bytes :: "proto_gradido_community_root_t \<Rightarrow> bytes" where
  "community_root_bytes m =
     bytes_field 1 (pcr_pubkey m) @
     bytes_field 2 (pcr_gmw_pubkey m) @
     bytes_field 3 (pcr_auf_pubkey m)"

definition community_root_need :: "proto_gradido_community_root_t \<Rightarrow> nat" where
  "community_root_need m = length (pcr_pubkey m) + length (pcr_gmw_pubkey m) + length (pcr_auf_pubkey m)"

lemmas community_root_simps = proto_gradido_community_root_field_def proto_gradido_community_root_init_def field_ok_def read_varints

interpretation community_root: message proto_gradido_community_root_encode_inner proto_gradido_community_root_init proto_gradido_community_root_decode_inner
  community_root_bytes community_root_need "\<lambda>m. True"
proof
  let ?f = proto_gradido_community_root_field and ?s0 = proto_gradido_community_root_init
  fix m :: proto_gradido_community_root_t
  assume short: "short (community_root_bytes m)"
  note parts = short [unfolded community_root_bytes_def]
  note s1 = short_parts(1) [OF parts]
  note s2 = short_parts(1) [OF short_parts(2) [OF parts]]
  note s3 = short_parts(2) [OF short_parts(2) [OF parts]]
  have "writes (proto_gradido_community_root_encode_inner m) ((([] @ bytes_field 1 (pcr_pubkey m)) @ bytes_field 2 (pcr_gmw_pubkey m)) @ bytes_field 3 (pcr_auf_pubkey m))"
    unfolding proto_gradido_community_root_encode_inner_def
    by (intro writes_all_Cons writes_all_Nil writes_bytes_short [OF s3] writes_bytes_short [OF s2] writes_bytes_short [OF s1])
  then show "writes (proto_gradido_community_root_encode_inner m) (community_root_bytes m)" by (simp add: community_root_bytes_def)
  let ?s1 = "?s0\<lparr>pcr_pubkey := pcr_pubkey m\<rparr>"
  let ?s2 = "?s1\<lparr>pcr_gmw_pubkey := pcr_gmw_pubkey m\<rparr>"
  let ?s3 = "?s2\<lparr>pcr_auf_pubkey := pcr_auf_pubkey m\<rparr>"
  have t1: "takes ?f (bytes_field 1 (pcr_pubkey m)) ?s0 ?s1 (length (pcr_pubkey m))"
    by (rule takes_bytes_short [OF _ s1]) (simp_all add: community_root_simps)
  have t2: "takes ?f (bytes_field 2 (pcr_gmw_pubkey m)) ?s1 ?s2 (length (pcr_gmw_pubkey m))"
    by (rule takes_bytes_short [OF _ s2]) (simp_all add: community_root_simps)
  have t3: "takes ?f (bytes_field 3 (pcr_auf_pubkey m)) ?s2 ?s3 (length (pcr_auf_pubkey m))"
    by (rule takes_bytes_short [OF _ s3]) (simp_all add: community_root_simps)
  have all: "?s3 = m" by (cases m) (simp add: proto_gradido_community_root_init_def)
  have "takes ?f (community_root_bytes m) ?s0 m (community_root_need m)"
    using takes_append [OF t1 takes_append [OF t2 t3]] unfolding all by (simp add: community_root_bytes_def community_root_need_def add.assoc)
  from takes_decodes [OF this] show "decodes proto_gradido_community_root_decode_inner proto_gradido_community_root_init (community_root_bytes m) m (community_root_need m)"
    by (simp add: proto_gradido_community_root_decode_inner_def [abs_def])
qed

section \<open>\<open>register_address\<close>\<close>

definition register_address_bytes :: "proto_gradido_register_address_t \<Rightarrow> bytes" where
  "register_address_bytes m =
     bytes_field 1 (pra_user_pubkey m) @
     varint_field 2 (scast (pra_address_type m)) @
     bytes_field 3 (pra_name_hash m) @
     bytes_field 4 (pra_account_pubkey m) @
     varint_field 5 (ucast (pra_derivation_index m))"

definition register_address_need :: "proto_gradido_register_address_t \<Rightarrow> nat" where
  "register_address_need m = length (pra_user_pubkey m) + length (pra_name_hash m) + length (pra_account_pubkey m)"

lemmas register_address_simps = proto_gradido_register_address_field_def proto_gradido_register_address_init_def field_ok_def read_varints

interpretation register_address: message proto_gradido_register_address_encode_inner proto_gradido_register_address_init proto_gradido_register_address_decode_inner
  register_address_bytes register_address_need "\<lambda>m. True"
proof
  let ?f = proto_gradido_register_address_field and ?s0 = proto_gradido_register_address_init
  fix m :: proto_gradido_register_address_t
  assume short: "short (register_address_bytes m)"
  note parts = short [unfolded register_address_bytes_def]
  note s1 = short_parts(1) [OF parts]
  note s3 = short_parts(1) [OF short_parts(2) [OF short_parts(2) [OF parts]]]
  note s4 = short_parts(1) [OF short_parts(2) [OF short_parts(2) [OF short_parts(2) [OF parts]]]]
  have "writes (proto_gradido_register_address_encode_inner m) ((((([] @ bytes_field 1 (pra_user_pubkey m)) @ varint_field 2 (scast (pra_address_type m))) @ bytes_field 3 (pra_name_hash m)) @ bytes_field 4 (pra_account_pubkey m)) @ varint_field 5 (ucast (pra_derivation_index m)))"
    unfolding proto_gradido_register_address_encode_inner_def
    by (intro writes_all_Cons writes_all_Nil writes_uint32 writes_bytes_short [OF s4] writes_bytes_short [OF s3] writes_enum writes_bytes_short [OF s1])
  then show "writes (proto_gradido_register_address_encode_inner m) (register_address_bytes m)" by (simp add: register_address_bytes_def)
  let ?s1 = "?s0\<lparr>pra_user_pubkey := pra_user_pubkey m\<rparr>"
  let ?s2 = "?s1\<lparr>pra_address_type := pra_address_type m\<rparr>"
  let ?s3 = "?s2\<lparr>pra_name_hash := pra_name_hash m\<rparr>"
  let ?s4 = "?s3\<lparr>pra_account_pubkey := pra_account_pubkey m\<rparr>"
  let ?s5 = "?s4\<lparr>pra_derivation_index := pra_derivation_index m\<rparr>"
  have t1: "takes ?f (bytes_field 1 (pra_user_pubkey m)) ?s0 ?s1 (length (pra_user_pubkey m))"
    by (rule takes_bytes_short [OF _ s1]) (simp_all add: register_address_simps)
  have t2: "takes ?f (varint_field 2 (scast (pra_address_type m))) ?s1 ?s2 0"
    by (rule takes_varint) (simp_all add: register_address_simps)
  have t3: "takes ?f (bytes_field 3 (pra_name_hash m)) ?s2 ?s3 (length (pra_name_hash m))"
    by (rule takes_bytes_short [OF _ s3]) (simp_all add: register_address_simps)
  have t4: "takes ?f (bytes_field 4 (pra_account_pubkey m)) ?s3 ?s4 (length (pra_account_pubkey m))"
    by (rule takes_bytes_short [OF _ s4]) (simp_all add: register_address_simps)
  have t5: "takes ?f (varint_field 5 (ucast (pra_derivation_index m))) ?s4 ?s5 0"
    by (rule takes_varint) (simp_all add: register_address_simps)
  have all: "?s5 = m" by (cases m) (simp add: proto_gradido_register_address_init_def)
  have "takes ?f (register_address_bytes m) ?s0 m (register_address_need m)"
    using takes_append [OF t1 takes_append [OF t2 takes_append [OF t3 takes_append [OF t4 t5]]]] unfolding all by (simp add: register_address_bytes_def register_address_need_def add.assoc)
  from takes_decodes [OF this] show "decodes proto_gradido_register_address_decode_inner proto_gradido_register_address_init (register_address_bytes m) m (register_address_need m)"
    by (simp add: proto_gradido_register_address_decode_inner_def [abs_def])
qed

section \<open>\<open>gradido_creation\<close>\<close>

definition gradido_creation_bytes :: "proto_gradido_gradido_creation_t \<Rightarrow> bytes" where
  "gradido_creation_bytes m =
     sub_field 1 transfer_amount_bytes (pgc_recipient_p m) @
     sub_field 3 timestamp_seconds_bytes (pgc_target_date_p m)"

definition gradido_creation_need :: "proto_gradido_gradido_creation_t \<Rightarrow> nat" where
  "gradido_creation_need m = sub_need SIZEOF_transfer_amount transfer_amount_need (pgc_recipient_p m) + sub_need SIZEOF_timestamp_seconds timestamp_seconds_need (pgc_target_date_p m)"

lemmas gradido_creation_simps = proto_gradido_gradido_creation_field_def proto_gradido_gradido_creation_init_def field_ok_def read_varints

interpretation gradido_creation: message proto_gradido_gradido_creation_encode_inner proto_gradido_gradido_creation_init proto_gradido_gradido_creation_decode_inner
  gradido_creation_bytes gradido_creation_need "\<lambda>m. True"
proof
  let ?f = proto_gradido_gradido_creation_field and ?s0 = proto_gradido_gradido_creation_init
  fix m :: proto_gradido_gradido_creation_t
  assume short: "short (gradido_creation_bytes m)"
  note parts = short [unfolded gradido_creation_bytes_def]
  note s1 = short_parts(1) [OF parts]
  note s3 = short_parts(2) [OF parts]
  have "writes (proto_gradido_gradido_creation_encode_inner m) (([] @ sub_field 1 transfer_amount_bytes (pgc_recipient_p m)) @ sub_field 3 timestamp_seconds_bytes (pgc_target_date_p m))"
    unfolding proto_gradido_gradido_creation_encode_inner_def
    by (intro writes_all_Cons writes_all_Nil timestamp_seconds.sub_writes [OF _ s3] transfer_amount.sub_writes [OF _ s1]) simp_all
  then show "writes (proto_gradido_gradido_creation_encode_inner m) (gradido_creation_bytes m)" by (simp add: gradido_creation_bytes_def)
  let ?s1 = "?s0\<lparr>pgc_recipient_p := pgc_recipient_p m\<rparr>"
  let ?s2 = "?s1\<lparr>pgc_target_date_p := pgc_target_date_p m\<rparr>"
  have t1: "takes ?f (sub_field 1 transfer_amount_bytes (pgc_recipient_p m)) ?s0 ?s1 (sub_need SIZEOF_transfer_amount transfer_amount_need (pgc_recipient_p m))"
    by (rule transfer_amount.sub_takes [OF _ _ s1, where old = None]) (simp_all add: gradido_creation_simps)
  have t2: "takes ?f (sub_field 3 timestamp_seconds_bytes (pgc_target_date_p m)) ?s1 ?s2 (sub_need SIZEOF_timestamp_seconds timestamp_seconds_need (pgc_target_date_p m))"
    by (rule timestamp_seconds.sub_takes [OF _ _ s3, where old = None]) (simp_all add: gradido_creation_simps)
  have all: "?s2 = m" by (cases m) (simp add: proto_gradido_gradido_creation_init_def)
  have "takes ?f (gradido_creation_bytes m) ?s0 m (gradido_creation_need m)"
    using takes_append [OF t1 t2] unfolding all by (simp add: gradido_creation_bytes_def gradido_creation_need_def add.assoc)
  from takes_decodes [OF this] show "decodes proto_gradido_gradido_creation_decode_inner proto_gradido_gradido_creation_init (gradido_creation_bytes m) m (gradido_creation_need m)"
    by (simp add: proto_gradido_gradido_creation_decode_inner_def [abs_def])
qed

section \<open>\<open>gradido_transfer\<close>\<close>

definition gradido_transfer_bytes :: "proto_gradido_gradido_transfer_t \<Rightarrow> bytes" where
  "gradido_transfer_bytes m =
     sub_field 1 transfer_amount_bytes (pgt_sender_p m) @
     bytes_field 2 (pgt_recipient m)"

definition gradido_transfer_need :: "proto_gradido_gradido_transfer_t \<Rightarrow> nat" where
  "gradido_transfer_need m = sub_need SIZEOF_transfer_amount transfer_amount_need (pgt_sender_p m) + length (pgt_recipient m)"

lemmas gradido_transfer_simps = proto_gradido_gradido_transfer_field_def proto_gradido_gradido_transfer_init_def field_ok_def read_varints

interpretation gradido_transfer: message proto_gradido_gradido_transfer_encode_inner proto_gradido_gradido_transfer_init proto_gradido_gradido_transfer_decode_inner
  gradido_transfer_bytes gradido_transfer_need "\<lambda>m. True"
proof
  let ?f = proto_gradido_gradido_transfer_field and ?s0 = proto_gradido_gradido_transfer_init
  fix m :: proto_gradido_gradido_transfer_t
  assume short: "short (gradido_transfer_bytes m)"
  note parts = short [unfolded gradido_transfer_bytes_def]
  note s1 = short_parts(1) [OF parts]
  note s2 = short_parts(2) [OF parts]
  have "writes (proto_gradido_gradido_transfer_encode_inner m) (([] @ sub_field 1 transfer_amount_bytes (pgt_sender_p m)) @ bytes_field 2 (pgt_recipient m))"
    unfolding proto_gradido_gradido_transfer_encode_inner_def
    by (intro writes_all_Cons writes_all_Nil writes_bytes_short [OF s2] transfer_amount.sub_writes [OF _ s1]) simp_all
  then show "writes (proto_gradido_gradido_transfer_encode_inner m) (gradido_transfer_bytes m)" by (simp add: gradido_transfer_bytes_def)
  let ?s1 = "?s0\<lparr>pgt_sender_p := pgt_sender_p m\<rparr>"
  let ?s2 = "?s1\<lparr>pgt_recipient := pgt_recipient m\<rparr>"
  have t1: "takes ?f (sub_field 1 transfer_amount_bytes (pgt_sender_p m)) ?s0 ?s1 (sub_need SIZEOF_transfer_amount transfer_amount_need (pgt_sender_p m))"
    by (rule transfer_amount.sub_takes [OF _ _ s1, where old = None]) (simp_all add: gradido_transfer_simps)
  have t2: "takes ?f (bytes_field 2 (pgt_recipient m)) ?s1 ?s2 (length (pgt_recipient m))"
    by (rule takes_bytes_short [OF _ s2]) (simp_all add: gradido_transfer_simps)
  have all: "?s2 = m" by (cases m) (simp add: proto_gradido_gradido_transfer_init_def)
  have "takes ?f (gradido_transfer_bytes m) ?s0 m (gradido_transfer_need m)"
    using takes_append [OF t1 t2] unfolding all by (simp add: gradido_transfer_bytes_def gradido_transfer_need_def add.assoc)
  from takes_decodes [OF this] show "decodes proto_gradido_gradido_transfer_decode_inner proto_gradido_gradido_transfer_init (gradido_transfer_bytes m) m (gradido_transfer_need m)"
    by (simp add: proto_gradido_gradido_transfer_decode_inner_def [abs_def])
qed

section \<open>\<open>gradido_deferred_transfer\<close>\<close>

definition gradido_deferred_transfer_bytes :: "proto_gradido_gradido_deferred_transfer_t \<Rightarrow> bytes" where
  "gradido_deferred_transfer_bytes m =
     sub_field 1 gradido_transfer_bytes (pdt_transfer_p m) @
     sub_field 2 duration_seconds_bytes (pdt_timeout_duration_p m)"

definition gradido_deferred_transfer_need :: "proto_gradido_gradido_deferred_transfer_t \<Rightarrow> nat" where
  "gradido_deferred_transfer_need m = sub_need SIZEOF_gradido_transfer gradido_transfer_need (pdt_transfer_p m) + sub_need SIZEOF_duration_seconds duration_seconds_need (pdt_timeout_duration_p m)"

lemmas gradido_deferred_transfer_simps = proto_gradido_gradido_deferred_transfer_field_def proto_gradido_gradido_deferred_transfer_init_def field_ok_def read_varints

interpretation gradido_deferred_transfer: message proto_gradido_gradido_deferred_transfer_encode_inner proto_gradido_gradido_deferred_transfer_init proto_gradido_gradido_deferred_transfer_decode_inner
  gradido_deferred_transfer_bytes gradido_deferred_transfer_need "\<lambda>m. True"
proof
  let ?f = proto_gradido_gradido_deferred_transfer_field and ?s0 = proto_gradido_gradido_deferred_transfer_init
  fix m :: proto_gradido_gradido_deferred_transfer_t
  assume short: "short (gradido_deferred_transfer_bytes m)"
  note parts = short [unfolded gradido_deferred_transfer_bytes_def]
  note s1 = short_parts(1) [OF parts]
  note s2 = short_parts(2) [OF parts]
  have "writes (proto_gradido_gradido_deferred_transfer_encode_inner m) (([] @ sub_field 1 gradido_transfer_bytes (pdt_transfer_p m)) @ sub_field 2 duration_seconds_bytes (pdt_timeout_duration_p m))"
    unfolding proto_gradido_gradido_deferred_transfer_encode_inner_def
    by (intro writes_all_Cons writes_all_Nil duration_seconds.sub_writes [OF _ s2] gradido_transfer.sub_writes [OF _ s1]) simp_all
  then show "writes (proto_gradido_gradido_deferred_transfer_encode_inner m) (gradido_deferred_transfer_bytes m)" by (simp add: gradido_deferred_transfer_bytes_def)
  let ?s1 = "?s0\<lparr>pdt_transfer_p := pdt_transfer_p m\<rparr>"
  let ?s2 = "?s1\<lparr>pdt_timeout_duration_p := pdt_timeout_duration_p m\<rparr>"
  have t1: "takes ?f (sub_field 1 gradido_transfer_bytes (pdt_transfer_p m)) ?s0 ?s1 (sub_need SIZEOF_gradido_transfer gradido_transfer_need (pdt_transfer_p m))"
    by (rule gradido_transfer.sub_takes [OF _ _ s1, where old = None]) (simp_all add: gradido_deferred_transfer_simps)
  have t2: "takes ?f (sub_field 2 duration_seconds_bytes (pdt_timeout_duration_p m)) ?s1 ?s2 (sub_need SIZEOF_duration_seconds duration_seconds_need (pdt_timeout_duration_p m))"
    by (rule duration_seconds.sub_takes [OF _ _ s2, where old = None]) (simp_all add: gradido_deferred_transfer_simps)
  have all: "?s2 = m" by (cases m) (simp add: proto_gradido_gradido_deferred_transfer_init_def)
  have "takes ?f (gradido_deferred_transfer_bytes m) ?s0 m (gradido_deferred_transfer_need m)"
    using takes_append [OF t1 t2] unfolding all by (simp add: gradido_deferred_transfer_bytes_def gradido_deferred_transfer_need_def add.assoc)
  from takes_decodes [OF this] show "decodes proto_gradido_gradido_deferred_transfer_decode_inner proto_gradido_gradido_deferred_transfer_init (gradido_deferred_transfer_bytes m) m (gradido_deferred_transfer_need m)"
    by (simp add: proto_gradido_gradido_deferred_transfer_decode_inner_def [abs_def])
qed

section \<open>\<open>gradido_redeem_deferred_transfer\<close>\<close>

definition gradido_redeem_deferred_transfer_bytes :: "proto_gradido_gradido_redeem_deferred_transfer_t \<Rightarrow> bytes" where
  "gradido_redeem_deferred_transfer_bytes m =
     varint_field 1 (prt_deferred_transfer_transaction_nr m) @
     sub_field 2 gradido_transfer_bytes (prt_transfer_p m)"

definition gradido_redeem_deferred_transfer_need :: "proto_gradido_gradido_redeem_deferred_transfer_t \<Rightarrow> nat" where
  "gradido_redeem_deferred_transfer_need m = sub_need SIZEOF_gradido_transfer gradido_transfer_need (prt_transfer_p m)"

lemmas gradido_redeem_deferred_transfer_simps = proto_gradido_gradido_redeem_deferred_transfer_field_def proto_gradido_gradido_redeem_deferred_transfer_init_def field_ok_def read_varints

interpretation gradido_redeem_deferred_transfer: message proto_gradido_gradido_redeem_deferred_transfer_encode_inner proto_gradido_gradido_redeem_deferred_transfer_init proto_gradido_gradido_redeem_deferred_transfer_decode_inner
  gradido_redeem_deferred_transfer_bytes gradido_redeem_deferred_transfer_need "\<lambda>m. True"
proof
  let ?f = proto_gradido_gradido_redeem_deferred_transfer_field and ?s0 = proto_gradido_gradido_redeem_deferred_transfer_init
  fix m :: proto_gradido_gradido_redeem_deferred_transfer_t
  assume short: "short (gradido_redeem_deferred_transfer_bytes m)"
  note parts = short [unfolded gradido_redeem_deferred_transfer_bytes_def]
  note s2 = short_parts(2) [OF parts]
  have "writes (proto_gradido_gradido_redeem_deferred_transfer_encode_inner m) (([] @ varint_field 1 (prt_deferred_transfer_transaction_nr m)) @ sub_field 2 gradido_transfer_bytes (prt_transfer_p m))"
    unfolding proto_gradido_gradido_redeem_deferred_transfer_encode_inner_def
    by (intro writes_all_Cons writes_all_Nil gradido_transfer.sub_writes [OF _ s2] writes_uint64) simp_all
  then show "writes (proto_gradido_gradido_redeem_deferred_transfer_encode_inner m) (gradido_redeem_deferred_transfer_bytes m)" by (simp add: gradido_redeem_deferred_transfer_bytes_def)
  let ?s1 = "?s0\<lparr>prt_deferred_transfer_transaction_nr := prt_deferred_transfer_transaction_nr m\<rparr>"
  let ?s2 = "?s1\<lparr>prt_transfer_p := prt_transfer_p m\<rparr>"
  have t1: "takes ?f (varint_field 1 (prt_deferred_transfer_transaction_nr m)) ?s0 ?s1 0"
    by (rule takes_varint) (simp_all add: gradido_redeem_deferred_transfer_simps)
  have t2: "takes ?f (sub_field 2 gradido_transfer_bytes (prt_transfer_p m)) ?s1 ?s2 (sub_need SIZEOF_gradido_transfer gradido_transfer_need (prt_transfer_p m))"
    by (rule gradido_transfer.sub_takes [OF _ _ s2, where old = None]) (simp_all add: gradido_redeem_deferred_transfer_simps)
  have all: "?s2 = m" by (cases m) (simp add: proto_gradido_gradido_redeem_deferred_transfer_init_def)
  have "takes ?f (gradido_redeem_deferred_transfer_bytes m) ?s0 m (gradido_redeem_deferred_transfer_need m)"
    using takes_append [OF t1 t2] unfolding all by (simp add: gradido_redeem_deferred_transfer_bytes_def gradido_redeem_deferred_transfer_need_def add.assoc)
  from takes_decodes [OF this] show "decodes proto_gradido_gradido_redeem_deferred_transfer_decode_inner proto_gradido_gradido_redeem_deferred_transfer_init (gradido_redeem_deferred_transfer_bytes m) m (gradido_redeem_deferred_transfer_need m)"
    by (simp add: proto_gradido_gradido_redeem_deferred_transfer_decode_inner_def [abs_def])
qed

section \<open>\<open>gradido_timeout_deferred_transfer\<close>\<close>

definition gradido_timeout_deferred_transfer_bytes :: "proto_gradido_gradido_timeout_deferred_transfer_t \<Rightarrow> bytes" where
  "gradido_timeout_deferred_transfer_bytes m =
     varint_field 1 (pto_deferred_transfer_transaction_nr m)"

definition gradido_timeout_deferred_transfer_need :: "proto_gradido_gradido_timeout_deferred_transfer_t \<Rightarrow> nat" where
  "gradido_timeout_deferred_transfer_need m = 0"

lemmas gradido_timeout_deferred_transfer_simps = proto_gradido_gradido_timeout_deferred_transfer_field_def proto_gradido_gradido_timeout_deferred_transfer_init_def field_ok_def read_varints

interpretation gradido_timeout_deferred_transfer: message proto_gradido_gradido_timeout_deferred_transfer_encode_inner proto_gradido_gradido_timeout_deferred_transfer_init proto_gradido_gradido_timeout_deferred_transfer_decode_inner
  gradido_timeout_deferred_transfer_bytes gradido_timeout_deferred_transfer_need "\<lambda>m. True"
proof
  let ?f = proto_gradido_gradido_timeout_deferred_transfer_field and ?s0 = proto_gradido_gradido_timeout_deferred_transfer_init
  fix m :: proto_gradido_gradido_timeout_deferred_transfer_t
  assume short: "short (gradido_timeout_deferred_transfer_bytes m)"
  note parts = short [unfolded gradido_timeout_deferred_transfer_bytes_def]
  have "writes (proto_gradido_gradido_timeout_deferred_transfer_encode_inner m) ([] @ varint_field 1 (pto_deferred_transfer_transaction_nr m))"
    unfolding proto_gradido_gradido_timeout_deferred_transfer_encode_inner_def
    by (intro writes_all_Cons writes_all_Nil writes_uint64)
  then show "writes (proto_gradido_gradido_timeout_deferred_transfer_encode_inner m) (gradido_timeout_deferred_transfer_bytes m)" by (simp add: gradido_timeout_deferred_transfer_bytes_def)
  let ?s1 = "?s0\<lparr>pto_deferred_transfer_transaction_nr := pto_deferred_transfer_transaction_nr m\<rparr>"
  have t1: "takes ?f (varint_field 1 (pto_deferred_transfer_transaction_nr m)) ?s0 ?s1 0"
    by (rule takes_varint) (simp_all add: gradido_timeout_deferred_transfer_simps)
  have all: "?s1 = m" by (cases m) (simp add: proto_gradido_gradido_timeout_deferred_transfer_init_def)
  have "takes ?f (gradido_timeout_deferred_transfer_bytes m) ?s0 m (gradido_timeout_deferred_transfer_need m)"
    using t1 unfolding all by (simp add: gradido_timeout_deferred_transfer_bytes_def gradido_timeout_deferred_transfer_need_def add.assoc)
  from takes_decodes [OF this] show "decodes proto_gradido_gradido_timeout_deferred_transfer_decode_inner proto_gradido_gradido_timeout_deferred_transfer_init (gradido_timeout_deferred_transfer_bytes m) m (gradido_timeout_deferred_transfer_need m)"
    by (simp add: proto_gradido_gradido_timeout_deferred_transfer_decode_inner_def [abs_def])
qed

end
