(* ===== verification/GRD_Codec_Tx.thy ===== *)
theory GRD_Codec_Tx
  imports GRD_Codec
begin

text \<open>
  The contracts of the messages with a repeated field or a union: the signature map, the account and the
  ledger anchor of hiero, the gradido transaction, the transaction body and the confirmed transaction.
  A message with a union is \<open>proper\<close> when the member its discriminator names is there and no other.
  At the end the sizes of what is read back are bounded by the bytes read.
\<close>

section \<open>\<open>signature_map\<close>\<close>

definition signature_map_bytes :: "proto_gradido_signature_map_t \<Rightarrow> bytes" where
  "signature_map_bytes m =
     items_field 1 signature_pair_bytes (psm_sig_pair m)"

definition signature_map_need :: "proto_gradido_signature_map_t \<Rightarrow> nat" where
  "signature_map_need m = items_need SIZEOF_signature_pair signature_pair_need (psm_sig_pair m)"

lemmas signature_map_simps = proto_gradido_signature_map_field_def proto_gradido_signature_map_init_def field_ok_def

interpretation signature_map: message proto_gradido_signature_map_encode_inner proto_gradido_signature_map_init
  proto_gradido_signature_map_decode_inner signature_map_bytes signature_map_need "\<lambda>m. True"
proof
  fix m :: proto_gradido_signature_map_t
  assume short: "short (signature_map_bytes m)"
  note s1 = short [unfolded signature_map_bytes_def]
  have w: "writes (proto_gradido_signature_pair_encode_repeated_inner 1 (psm_sig_pair m))
      (items_field 1 signature_pair_bytes (psm_sig_pair m))"
    unfolding proto_gradido_signature_pair_encode_repeated_inner_def
    by (rule signature_pair.items_writes [OF _ s1]) (simp add: list_all_iff)
  have "writes (proto_gradido_signature_map_encode_inner m) ([] @ items_field 1 signature_pair_bytes (psm_sig_pair m))"
    unfolding proto_gradido_signature_map_encode_inner_def by (intro writes_all_Cons writes_all_Nil w)
  then show "writes (proto_gradido_signature_map_encode_inner m) (signature_map_bytes m)"
    by (simp add: signature_map_bytes_def)
  have "decodes proto_gradido_signature_map_decode_inner proto_gradido_signature_map_init
      ([] @ items_field 1 signature_pair_bytes (psm_sig_pair m) @ []) m (0 + (0 + signature_map_need m))"
    unfolding signature_map_need_def
  proof (rule signature_pair.host_decodes [where mid = proto_gradido_signature_map_init and fin = proto_gradido_signature_map_init])
    show "proto_gradido_signature_map_decode_inner m d =
        (case decode_fields proto_gradido_signature_map_field ((m, pbtools_repeated_info_init 1 d), d) of ((m, i), d) \<Rightarrow>
          (case pbtools_decode_repeated_inner SIZEOF_signature_pair proto_gradido_signature_pair_init
              proto_gradido_signature_pair_decode_inner i (psm_sig_pair m, d) of
            (v, d) \<Rightarrow> (m\<lparr>psm_sig_pair := v\<rparr>, d)))" for m d
      by (simp add: proto_gradido_signature_map_decode_inner_def proto_gradido_signature_pair_decode_repeated_inner_def)
  qed (use s1 in \<open>simp_all add: signature_map_simps list_all_iff\<close>)
  then show "decodes proto_gradido_signature_map_decode_inner proto_gradido_signature_map_init
      (signature_map_bytes m) m (signature_map_need m)"
    by (simp add: signature_map_bytes_def)
qed

section \<open>\<open>account_id\<close>\<close>

definition account_id_proper :: "proto_gradido_account_id_t \<Rightarrow> bool" where
  "account_id_proper m \<longleftrightarrow> pai_alias m = [] \<and>
     (pai_account m = proto_gradido_account_id_account_account_num_e
      \<or> pai_account m = proto_gradido_account_id_account_none_e \<and> pai_account_num m = 0)"

definition account_id_bytes :: "proto_gradido_account_id_t \<Rightarrow> bytes" where
  "account_id_bytes m =
     (if pai_account m = proto_gradido_account_id_account_account_num_e
      then varint_field_always 3 (pai_account_num m) else []) @
     varint_field 1 (pai_shard_num m) @
     varint_field 2 (pai_realm_num m)"

definition account_id_need :: "proto_gradido_account_id_t \<Rightarrow> nat" where
  "account_id_need m = 0"

lemmas account_id_simps = proto_gradido_account_id_field_def proto_gradido_account_id_init_def
  proto_gradido_account_id_account_num_decode_def field_ok_def read_varints

interpretation account_id: message proto_gradido_account_id_encode_inner proto_gradido_account_id_init
  proto_gradido_account_id_decode_inner account_id_bytes account_id_need account_id_proper
proof
  let ?f = proto_gradido_account_id_field and ?s0 = proto_gradido_account_id_init
  fix m :: proto_gradido_account_id_t
  assume proper: "account_id_proper m"
  let ?one = "if pai_account m = 1 then varint_field_always 3 (pai_account_num m) else []"
  have one: "writes (if pai_account m = 1 then pbtools_encoder_write_int64_always 3 (pai_account_num m)
       else if pai_account m = 2 then pbtools_encoder_write_bytes_always 4 (pai_alias m) else Inr) ?one"
    using proper writes_int64_always writes_none by (auto simp: account_id_proper_def)
  have "writes (proto_gradido_account_id_encode_inner m)
      ((([] @ ?one) @ varint_field 1 (pai_shard_num m)) @ varint_field 2 (pai_realm_num m))"
    unfolding proto_gradido_account_id_encode_inner_def
    by (intro writes_all_Cons writes_all_Nil writes_int64 one)
  then show "writes (proto_gradido_account_id_encode_inner m) (account_id_bytes m)" by (simp add: account_id_bytes_def)
  let ?s1 = "?s0\<lparr>pai_account := pai_account m, pai_account_num := pai_account_num m\<rparr>"
  let ?s2 = "?s1\<lparr>pai_shard_num := pai_shard_num m\<rparr>"
  let ?s3 = "?s2\<lparr>pai_realm_num := pai_realm_num m\<rparr>"
  have t1: "takes ?f ?one ?s0 ?s1 0"
  proof (cases "pai_account m = 1")
    case True
    have "takes ?f (varint_field_always 3 (pai_account_num m)) ?s0 ?s1 0"
      by (rule takes_varint_always) (simp_all add: account_id_simps True)
    then show ?thesis by (simp add: True)
  next
    case False
    then have "?s1 = ?s0" using proper by (simp add: account_id_proper_def proto_gradido_account_id_init_def)
    then show ?thesis using False by simp
  qed
  have t2: "takes ?f (varint_field 1 (pai_shard_num m)) ?s1 ?s2 0"
    by (rule takes_varint) (simp_all add: account_id_simps)
  have t3: "takes ?f (varint_field 2 (pai_realm_num m)) ?s2 ?s3 0"
    by (rule takes_varint) (simp_all add: account_id_simps)
  have all: "?s3 = m" using proper by (cases m) (simp add: proto_gradido_account_id_init_def account_id_proper_def)
  have "takes ?f (account_id_bytes m) ?s0 m (account_id_need m)"
    using takes_append [OF t1 takes_append [OF t2 t3]] unfolding all by (simp add: account_id_bytes_def account_id_need_def)
  from takes_decodes [OF this] show "decodes proto_gradido_account_id_decode_inner ?s0 (account_id_bytes m) m (account_id_need m)"
    by (simp add: proto_gradido_account_id_decode_inner_def [abs_def])
qed

section \<open>\<open>transaction_id\<close>\<close>

definition transaction_id_proper :: "proto_gradido_transaction_id_t \<Rightarrow> bool" where
  "transaction_id_proper m \<longleftrightarrow> pred_option account_id_proper (pti_account_id_p m)"

definition transaction_id_bytes :: "proto_gradido_transaction_id_t \<Rightarrow> bytes" where
  "transaction_id_bytes m =
     sub_field 1 timestamp_bytes (pti_transaction_valid_start_p m) @
     sub_field 2 account_id_bytes (pti_account_id_p m) @
     varint_field 3 (bool_word (pti_scheduled m)) @
     varint_field 4 (scast (pti_nonce m))"

definition transaction_id_need :: "proto_gradido_transaction_id_t \<Rightarrow> nat" where
  "transaction_id_need m = sub_need SIZEOF_timestamp timestamp_need (pti_transaction_valid_start_p m) + sub_need SIZEOF_account_id account_id_need (pti_account_id_p m)"

lemmas transaction_id_simps = proto_gradido_transaction_id_field_def proto_gradido_transaction_id_init_def field_ok_def read_varints

interpretation transaction_id: message proto_gradido_transaction_id_encode_inner proto_gradido_transaction_id_init proto_gradido_transaction_id_decode_inner
  transaction_id_bytes transaction_id_need transaction_id_proper
proof
  let ?f = proto_gradido_transaction_id_field and ?s0 = proto_gradido_transaction_id_init
  fix m :: proto_gradido_transaction_id_t
  assume proper: "transaction_id_proper m" and short: "short (transaction_id_bytes m)"
  note parts = short [unfolded transaction_id_bytes_def]
  note s1 = short_parts(1) [OF parts]
  note s2 = short_parts(1) [OF short_parts(2) [OF parts]]
  have "writes (proto_gradido_transaction_id_encode_inner m) (((([] @ sub_field 1 timestamp_bytes (pti_transaction_valid_start_p m)) @ sub_field 2 account_id_bytes (pti_account_id_p m)) @ varint_field 3 (bool_word (pti_scheduled m))) @ varint_field 4 (scast (pti_nonce m)))"
    unfolding proto_gradido_transaction_id_encode_inner_def
    by (intro writes_all_Cons writes_all_Nil writes_int32 writes_bool account_id.sub_writes [OF _ s2] timestamp.sub_writes [OF _ s1]) (use proper in \<open>simp_all add: transaction_id_proper_def\<close>)
  then show "writes (proto_gradido_transaction_id_encode_inner m) (transaction_id_bytes m)" by (simp add: transaction_id_bytes_def)
  let ?s1 = "?s0\<lparr>pti_transaction_valid_start_p := pti_transaction_valid_start_p m\<rparr>"
  let ?s2 = "?s1\<lparr>pti_account_id_p := pti_account_id_p m\<rparr>"
  let ?s3 = "?s2\<lparr>pti_scheduled := pti_scheduled m\<rparr>"
  let ?s4 = "?s3\<lparr>pti_nonce := pti_nonce m\<rparr>"
  have t1: "takes ?f (sub_field 1 timestamp_bytes (pti_transaction_valid_start_p m)) ?s0 ?s1 (sub_need SIZEOF_timestamp timestamp_need (pti_transaction_valid_start_p m))"
    by (rule timestamp.sub_takes [OF _ _ s1, where old = None]) (use proper in \<open>simp_all add: transaction_id_simps transaction_id_proper_def\<close>)
  have t2: "takes ?f (sub_field 2 account_id_bytes (pti_account_id_p m)) ?s1 ?s2 (sub_need SIZEOF_account_id account_id_need (pti_account_id_p m))"
    by (rule account_id.sub_takes [OF _ _ s2, where old = None]) (use proper in \<open>simp_all add: transaction_id_simps transaction_id_proper_def\<close>)
  have t3: "takes ?f (varint_field 3 (bool_word (pti_scheduled m))) ?s2 ?s3 0"
    by (rule takes_varint) (simp_all add: transaction_id_simps)
  have t4: "takes ?f (varint_field 4 (scast (pti_nonce m))) ?s3 ?s4 0"
    by (rule takes_varint) (simp_all add: transaction_id_simps)
  have all: "?s4 = m" by (cases m) (simp add: proto_gradido_transaction_id_init_def)
  have "takes ?f (transaction_id_bytes m) ?s0 m (transaction_id_need m)"
    using takes_append [OF t1 takes_append [OF t2 takes_append [OF t3 t4]]] unfolding all by (simp add: transaction_id_bytes_def transaction_id_need_def add.assoc)
  from takes_decodes [OF this] show "decodes proto_gradido_transaction_id_decode_inner proto_gradido_transaction_id_init (transaction_id_bytes m) m (transaction_id_need m)"
    by (simp add: proto_gradido_transaction_id_decode_inner_def [abs_def])
qed

section \<open>\<open>ledger_anchor\<close>\<close>

definition ledger_anchor_proper :: "proto_gradido_ledger_anchor_t \<Rightarrow> bool" where
  "ledger_anchor_proper m \<longleftrightarrow>
     (if pla_anchor_id m = proto_gradido_ledger_anchor_anchor_id_hiero_transaction_id_e
      then (\<exists>h. pla_hiero_transaction_id_p m = Some h \<and> transaction_id_proper h) \<and> pla_id m = 0
      else if pla_anchor_id m = proto_gradido_ledger_anchor_anchor_id_id_e then pla_hiero_transaction_id_p m = None
      else pla_anchor_id m = 0 \<and> pla_hiero_transaction_id_p m = None \<and> pla_id m = 0)"

definition ledger_anchor_bytes :: "proto_gradido_ledger_anchor_t \<Rightarrow> bytes" where
  "ledger_anchor_bytes m =
     (if pla_anchor_id m = proto_gradido_ledger_anchor_anchor_id_hiero_transaction_id_e
      then sub_field 3 transaction_id_bytes (pla_hiero_transaction_id_p m)
      else if pla_anchor_id m = proto_gradido_ledger_anchor_anchor_id_id_e then varint_field_always 4 (pla_id m)
      else []) @
     varint_field 1 (scast (pla_type m))"

definition ledger_anchor_need :: "proto_gradido_ledger_anchor_t \<Rightarrow> nat" where
  "ledger_anchor_need m = sub_need SIZEOF_transaction_id transaction_id_need (pla_hiero_transaction_id_p m)"

lemmas ledger_anchor_simps = proto_gradido_ledger_anchor_field_def proto_gradido_ledger_anchor_init_def
  proto_gradido_ledger_anchor_hiero_transaction_id_decode_def proto_gradido_ledger_anchor_id_decode_def
  field_ok_def read_varints

interpretation ledger_anchor: message proto_gradido_ledger_anchor_encode_inner proto_gradido_ledger_anchor_init
  proto_gradido_ledger_anchor_decode_inner ledger_anchor_bytes ledger_anchor_need ledger_anchor_proper
proof
  let ?f = proto_gradido_ledger_anchor_field and ?s0 = proto_gradido_ledger_anchor_init
  fix m :: proto_gradido_ledger_anchor_t
  assume proper: "ledger_anchor_proper m" and short: "short (ledger_anchor_bytes m)"
  let ?one = "if pla_anchor_id m = 1 then sub_field 3 transaction_id_bytes (pla_hiero_transaction_id_p m)
      else if pla_anchor_id m = 2 then varint_field_always 4 (pla_id m) else []"
  let ?s1 = "?s0\<lparr>pla_anchor_id := pla_anchor_id m, pla_hiero_transaction_id_p := pla_hiero_transaction_id_p m,
      pla_id := pla_id m\<rparr>"
  let ?s2 = "?s1\<lparr>pla_type := pla_type m\<rparr>"
  have one: "short ?one" using short_parts(1) [OF short [unfolded ledger_anchor_bytes_def]] .
  have both: "writes (if pla_anchor_id m = 1
        then pbtools_encoder_sub_message_encode_always 3 proto_gradido_transaction_id_encode_inner (pla_hiero_transaction_id_p m)
        else if pla_anchor_id m = 2 then pbtools_encoder_write_uint64_always 4 (pla_id m) else Inr) ?one
      \<and> takes ?f ?one ?s0 ?s1 (ledger_anchor_need m)"
  proof (cases "pla_anchor_id m = 1")
    case True
    then obtain h where h: "pla_hiero_transaction_id_p m = Some h" "transaction_id_proper h" "pla_id m = 0"
      using proper by (auto simp: ledger_anchor_proper_def)
    have short: "short (length_field 3 (transaction_id_bytes h))" using one True h by (simp add: sub_field_def)
    have "takes ?f (length_field 3 (transaction_id_bytes h)) ?s0 ?s1
        (SIZEOF_transaction_id + 7 + transaction_id_need h)"
      by (rule transaction_id.always_takes [OF _ h(2) short, where old = None]) (simp_all add: ledger_anchor_simps True h)
    then show ?thesis using transaction_id.always_writes [OF h(2) short] True h
      by (simp add: sub_field_def ledger_anchor_need_def sub_need_def)
  next
    case no: False
    show ?thesis
    proof (cases "pla_anchor_id m = 2")
      case True
      have "takes ?f (varint_field_always 4 (pla_id m)) ?s0 ?s1 0"
        by (rule takes_varint_always) (use proper in \<open>simp_all add: ledger_anchor_simps ledger_anchor_proper_def True\<close>)
      then show ?thesis using writes_uint64_always True proper
        by (simp add: ledger_anchor_need_def ledger_anchor_proper_def sub_need_def)
    next
      case False
      then have "?s1 = ?s0" using proper no by (simp add: ledger_anchor_proper_def proto_gradido_ledger_anchor_init_def)
      then show ?thesis using no False proper writes_none
        by (simp add: ledger_anchor_need_def ledger_anchor_proper_def sub_need_def)
    qed
  qed
  have "writes (proto_gradido_ledger_anchor_encode_inner m) (([] @ ?one) @ varint_field 1 (scast (pla_type m)))"
    unfolding proto_gradido_ledger_anchor_encode_inner_def
    by (intro writes_all_Cons writes_all_Nil writes_enum conjunct1 [OF both])
  then show "writes (proto_gradido_ledger_anchor_encode_inner m) (ledger_anchor_bytes m)" by (simp add: ledger_anchor_bytes_def)
  have t2: "takes ?f (varint_field 1 (scast (pla_type m))) ?s1 ?s2 0"
    by (rule takes_varint) (simp_all add: ledger_anchor_simps)
  have all: "?s2 = m" by (cases m) (simp add: proto_gradido_ledger_anchor_init_def)
  have "takes ?f (ledger_anchor_bytes m) ?s0 m (ledger_anchor_need m)"
    using takes_append [OF conjunct2 [OF both] t2] unfolding all by (simp add: ledger_anchor_bytes_def)
  from takes_decodes [OF this] show "decodes proto_gradido_ledger_anchor_decode_inner ?s0 (ledger_anchor_bytes m) m (ledger_anchor_need m)"
    by (simp add: proto_gradido_ledger_anchor_decode_inner_def [abs_def])
qed

section \<open>\<open>gradido_transaction\<close>\<close>

definition gradido_transaction_proper :: "proto_gradido_gradido_transaction_t \<Rightarrow> bool" where
  "gradido_transaction_proper m \<longleftrightarrow> pred_option ledger_anchor_proper (pgx_pairing_ledger_anchor_p m)"

definition gradido_transaction_bytes :: "proto_gradido_gradido_transaction_t \<Rightarrow> bytes" where
  "gradido_transaction_bytes m =
     sub_field 1 signature_map_bytes (pgx_sig_map_p m) @
     bytes_field 2 (pgx_body_bytes m) @
     sub_field 3 ledger_anchor_bytes (pgx_pairing_ledger_anchor_p m)"

definition gradido_transaction_need :: "proto_gradido_gradido_transaction_t \<Rightarrow> nat" where
  "gradido_transaction_need m = sub_need SIZEOF_signature_map signature_map_need (pgx_sig_map_p m) + length (pgx_body_bytes m) + sub_need SIZEOF_ledger_anchor ledger_anchor_need (pgx_pairing_ledger_anchor_p m)"

lemmas gradido_transaction_simps = proto_gradido_gradido_transaction_field_def proto_gradido_gradido_transaction_init_def field_ok_def read_varints

interpretation gradido_transaction: message proto_gradido_gradido_transaction_encode_inner proto_gradido_gradido_transaction_init proto_gradido_gradido_transaction_decode_inner
  gradido_transaction_bytes gradido_transaction_need gradido_transaction_proper
proof
  let ?f = proto_gradido_gradido_transaction_field and ?s0 = proto_gradido_gradido_transaction_init
  fix m :: proto_gradido_gradido_transaction_t
  assume proper: "gradido_transaction_proper m" and short: "short (gradido_transaction_bytes m)"
  note parts = short [unfolded gradido_transaction_bytes_def]
  note s1 = short_parts(1) [OF parts]
  note s2 = short_parts(1) [OF short_parts(2) [OF parts]]
  note s3 = short_parts(2) [OF short_parts(2) [OF parts]]
  have "writes (proto_gradido_gradido_transaction_encode_inner m) ((([] @ sub_field 1 signature_map_bytes (pgx_sig_map_p m)) @ bytes_field 2 (pgx_body_bytes m)) @ sub_field 3 ledger_anchor_bytes (pgx_pairing_ledger_anchor_p m))"
    unfolding proto_gradido_gradido_transaction_encode_inner_def
    by (intro writes_all_Cons writes_all_Nil ledger_anchor.sub_writes [OF _ s3] writes_bytes_short [OF s2] signature_map.sub_writes [OF _ s1]) (use proper in \<open>simp_all add: gradido_transaction_proper_def\<close>)
  then show "writes (proto_gradido_gradido_transaction_encode_inner m) (gradido_transaction_bytes m)" by (simp add: gradido_transaction_bytes_def)
  let ?s1 = "?s0\<lparr>pgx_sig_map_p := pgx_sig_map_p m\<rparr>"
  let ?s2 = "?s1\<lparr>pgx_body_bytes := pgx_body_bytes m\<rparr>"
  let ?s3 = "?s2\<lparr>pgx_pairing_ledger_anchor_p := pgx_pairing_ledger_anchor_p m\<rparr>"
  have t1: "takes ?f (sub_field 1 signature_map_bytes (pgx_sig_map_p m)) ?s0 ?s1 (sub_need SIZEOF_signature_map signature_map_need (pgx_sig_map_p m))"
    by (rule signature_map.sub_takes [OF _ _ s1, where old = None]) (use proper in \<open>simp_all add: gradido_transaction_simps gradido_transaction_proper_def\<close>)
  have t2: "takes ?f (bytes_field 2 (pgx_body_bytes m)) ?s1 ?s2 (length (pgx_body_bytes m))"
    by (rule takes_bytes_short [OF _ s2]) (simp_all add: gradido_transaction_simps)
  have t3: "takes ?f (sub_field 3 ledger_anchor_bytes (pgx_pairing_ledger_anchor_p m)) ?s2 ?s3 (sub_need SIZEOF_ledger_anchor ledger_anchor_need (pgx_pairing_ledger_anchor_p m))"
    by (rule ledger_anchor.sub_takes [OF _ _ s3, where old = None]) (use proper in \<open>simp_all add: gradido_transaction_simps gradido_transaction_proper_def\<close>)
  have all: "?s3 = m" by (cases m) (simp add: proto_gradido_gradido_transaction_init_def)
  have "takes ?f (gradido_transaction_bytes m) ?s0 m (gradido_transaction_need m)"
    using takes_append [OF t1 takes_append [OF t2 t3]] unfolding all by (simp add: gradido_transaction_bytes_def gradido_transaction_need_def add.assoc)
  from takes_decodes [OF this] show "decodes proto_gradido_gradido_transaction_decode_inner proto_gradido_gradido_transaction_init (gradido_transaction_bytes m) m (gradido_transaction_need m)"
    by (simp add: proto_gradido_gradido_transaction_decode_inner_def [abs_def])
qed

section \<open>\<open>transaction_body\<close>\<close>

text \<open>The member of the union: its bytes and the room it needs.\<close>

definition body_data_bytes :: "proto_gradido_transaction_body_t \<Rightarrow> bytes" where
  "body_data_bytes m =
     (if pbx_data m = proto_gradido_transaction_body_data_transfer_e
      then sub_field 6 gradido_transfer_bytes (pbx_transfer_p m)
      else if pbx_data m = proto_gradido_transaction_body_data_creation_e
      then sub_field 7 gradido_creation_bytes (pbx_creation_p m)
      else if pbx_data m = proto_gradido_transaction_body_data_community_friends_update_e
      then sub_field 8 community_friends_update_bytes (pbx_community_friends_update_p m)
      else if pbx_data m = proto_gradido_transaction_body_data_register_address_e
      then sub_field 9 register_address_bytes (pbx_register_address_p m)
      else if pbx_data m = proto_gradido_transaction_body_data_deferred_transfer_e
      then sub_field 10 gradido_deferred_transfer_bytes (pbx_deferred_transfer_p m)
      else if pbx_data m = proto_gradido_transaction_body_data_community_root_e
      then sub_field 11 community_root_bytes (pbx_community_root_p m)
      else if pbx_data m = proto_gradido_transaction_body_data_redeem_deferred_transfer_e
      then sub_field 12 gradido_redeem_deferred_transfer_bytes (pbx_redeem_deferred_transfer_p m)
      else if pbx_data m = proto_gradido_transaction_body_data_timeout_deferred_transfer_e
      then sub_field 13 gradido_timeout_deferred_transfer_bytes (pbx_timeout_deferred_transfer_p m)
      else [])"

definition body_data_need :: "proto_gradido_transaction_body_t \<Rightarrow> nat" where
  "body_data_need m =
     sub_need SIZEOF_gradido_transfer gradido_transfer_need (pbx_transfer_p m) +
     sub_need SIZEOF_gradido_creation gradido_creation_need (pbx_creation_p m) +
     sub_need SIZEOF_community_friends_update community_friends_update_need (pbx_community_friends_update_p m) +
     sub_need SIZEOF_register_address register_address_need (pbx_register_address_p m) +
     sub_need SIZEOF_gradido_deferred_transfer gradido_deferred_transfer_need (pbx_deferred_transfer_p m) +
     sub_need SIZEOF_community_root community_root_need (pbx_community_root_p m) +
     sub_need SIZEOF_gradido_redeem_deferred_transfer gradido_redeem_deferred_transfer_need (pbx_redeem_deferred_transfer_p m) +
     sub_need SIZEOF_gradido_timeout_deferred_transfer gradido_timeout_deferred_transfer_need (pbx_timeout_deferred_transfer_p m)"

definition transaction_body_proper :: "proto_gradido_transaction_body_t \<Rightarrow> bool" where
  "transaction_body_proper m \<longleftrightarrow> pbx_data m \<le> 8
     \<and> (pbx_transfer_p m \<noteq> None \<longleftrightarrow> pbx_data m = proto_gradido_transaction_body_data_transfer_e)
     \<and> (pbx_creation_p m \<noteq> None \<longleftrightarrow> pbx_data m = proto_gradido_transaction_body_data_creation_e)
     \<and> (pbx_community_friends_update_p m \<noteq> None \<longleftrightarrow> pbx_data m = proto_gradido_transaction_body_data_community_friends_update_e)
     \<and> (pbx_register_address_p m \<noteq> None \<longleftrightarrow> pbx_data m = proto_gradido_transaction_body_data_register_address_e)
     \<and> (pbx_deferred_transfer_p m \<noteq> None \<longleftrightarrow> pbx_data m = proto_gradido_transaction_body_data_deferred_transfer_e)
     \<and> (pbx_community_root_p m \<noteq> None \<longleftrightarrow> pbx_data m = proto_gradido_transaction_body_data_community_root_e)
     \<and> (pbx_redeem_deferred_transfer_p m \<noteq> None \<longleftrightarrow> pbx_data m = proto_gradido_transaction_body_data_redeem_deferred_transfer_e)
     \<and> (pbx_timeout_deferred_transfer_p m \<noteq> None \<longleftrightarrow> pbx_data m = proto_gradido_transaction_body_data_timeout_deferred_transfer_e)"

definition transaction_body_bytes :: "proto_gradido_transaction_body_t \<Rightarrow> bytes" where
  "transaction_body_bytes m =
     body_data_bytes m @
     items_field 1 encrypted_memo_bytes (pbx_memos m) @
     sub_field 2 timestamp_bytes (pbx_created_at_p m) @
     varint_field 3 (ucast (pbx_version_number m)) @
     varint_field 4 (scast (pbx_type m)) @
     bytes_field 5 (pbx_other_community_uuid m)"

definition transaction_body_need :: "proto_gradido_transaction_body_t \<Rightarrow> nat" where
  "transaction_body_need m =
     body_data_need m +
     (sub_need SIZEOF_timestamp timestamp_need (pbx_created_at_p m) + length (pbx_other_community_uuid m) +
      items_need SIZEOF_encrypted_memo encrypted_memo_need (pbx_memos m))"

lemmas transaction_body_simps = proto_gradido_transaction_body_field_def field_ok_def read_varints

lemmas body_data_simps = proto_gradido_transaction_body_init_def transaction_body_simps
  proto_gradido_transaction_body_transfer_decode_def
  proto_gradido_transaction_body_creation_decode_def
  proto_gradido_transaction_body_community_friends_update_decode_def
  proto_gradido_transaction_body_register_address_decode_def
  proto_gradido_transaction_body_deferred_transfer_decode_def
  proto_gradido_transaction_body_community_root_decode_def
  proto_gradido_transaction_body_redeem_deferred_transfer_decode_def
  proto_gradido_transaction_body_timeout_deferred_transfer_decode_def

lemma u32_le_8:
  assumes "(d :: u32) \<le> 8"
  obtains "d = 0" | "d = 1" | "d = 2" | "d = 3" | "d = 4" | "d = 5" | "d = 6" | "d = 7" | "d = 8"
proof -
  have "unat d \<le> 8" using assms by (simp add: word_le_unat)
  then have "unat d \<in> {0, 1, 2, 3, 4, 5, 6, 7, 8}" by auto
  then show ?thesis using that by (auto simp: word_unat_eq_iff)
qed

text \<open>Writing and reading one member, for any state of the notes on the memos.\<close>

definition body_data_set :: "proto_gradido_transaction_body_t \<Rightarrow> proto_gradido_transaction_body_t" where
  "body_data_set m = proto_gradido_transaction_body_init
     \<lparr>pbx_data := pbx_data m,
      pbx_transfer_p := pbx_transfer_p m,
      pbx_creation_p := pbx_creation_p m,
      pbx_community_friends_update_p := pbx_community_friends_update_p m,
      pbx_register_address_p := pbx_register_address_p m,
      pbx_deferred_transfer_p := pbx_deferred_transfer_p m,
      pbx_community_root_p := pbx_community_root_p m,
      pbx_redeem_deferred_transfer_p := pbx_redeem_deferred_transfer_p m,
      pbx_timeout_deferred_transfer_p := pbx_timeout_deferred_transfer_p m\<rparr>"

definition body_data_write :: "proto_gradido_transaction_body_t \<Rightarrow> pb_write" where
  "body_data_write m =
     (if pbx_data m = 1 then pbtools_encoder_sub_message_encode_always 6 proto_gradido_gradido_transfer_encode_inner (pbx_transfer_p m)
       else if pbx_data m = 2 then pbtools_encoder_sub_message_encode_always 7 proto_gradido_gradido_creation_encode_inner (pbx_creation_p m)
       else if pbx_data m = 3 then pbtools_encoder_sub_message_encode_always 8 proto_gradido_community_friends_update_encode_inner (pbx_community_friends_update_p m)
       else if pbx_data m = 4 then pbtools_encoder_sub_message_encode_always 9 proto_gradido_register_address_encode_inner (pbx_register_address_p m)
       else if pbx_data m = 5 then pbtools_encoder_sub_message_encode_always 10 proto_gradido_gradido_deferred_transfer_encode_inner (pbx_deferred_transfer_p m)
       else if pbx_data m = 6 then pbtools_encoder_sub_message_encode_always 11 proto_gradido_community_root_encode_inner (pbx_community_root_p m)
       else if pbx_data m = 7 then pbtools_encoder_sub_message_encode_always 12 proto_gradido_gradido_redeem_deferred_transfer_encode_inner (pbx_redeem_deferred_transfer_p m)
       else if pbx_data m = 8 then pbtools_encoder_sub_message_encode_always 13 proto_gradido_gradido_timeout_deferred_transfer_encode_inner (pbx_timeout_deferred_transfer_p m)
       else Inr)"

lemma body_data_both:
  assumes proper: "transaction_body_proper m" and short: "short (body_data_bytes m)"
  shows "writes (body_data_write m) (body_data_bytes m)
    \<and> takes proto_gradido_transaction_body_field (body_data_bytes m) (proto_gradido_transaction_body_init, i)
        (body_data_set m, i) (body_data_need m)"
proof -
  let ?f = proto_gradido_transaction_body_field and ?s0 = proto_gradido_transaction_body_init
  note member = proper [unfolded transaction_body_proper_def]
  have "pbx_data m \<le> 8" using member by blast
  then show ?thesis
  proof (cases rule: u32_le_8)
    case 1
    have "body_data_set m = ?s0" using member 1 by (simp add: body_data_set_def proto_gradido_transaction_body_init_def)
    then show ?thesis using writes_none member 1
      by (simp add: body_data_bytes_def body_data_write_def body_data_need_def sub_need_def)
  next
    case 2
    then obtain v where v: "pbx_transfer_p m = Some v" using member by auto
    have s: "short (length_field 6 (gradido_transfer_bytes v))" using short v 2 by (simp add: body_data_bytes_def sub_field_def)
    have "takes ?f (length_field 6 (gradido_transfer_bytes v)) (?s0, i) (body_data_set m, i) (SIZEOF_gradido_transfer + 7 + gradido_transfer_need v)"
      by (rule gradido_transfer.always_takes [OF _ _ s, where old = None])
        (use member 2 in \<open>simp_all add: body_data_simps body_data_set_def v\<close>)
    then show ?thesis using gradido_transfer.always_writes [OF _ s] member v 2
      by (simp add: body_data_bytes_def body_data_write_def body_data_need_def sub_field_def sub_need_def)
  next
    case 3
    then obtain v where v: "pbx_creation_p m = Some v" using member by auto
    have s: "short (length_field 7 (gradido_creation_bytes v))" using short v 3 by (simp add: body_data_bytes_def sub_field_def)
    have "takes ?f (length_field 7 (gradido_creation_bytes v)) (?s0, i) (body_data_set m, i) (SIZEOF_gradido_creation + 7 + gradido_creation_need v)"
      by (rule gradido_creation.always_takes [OF _ _ s, where old = None])
        (use member 3 in \<open>simp_all add: body_data_simps body_data_set_def v\<close>)
    then show ?thesis using gradido_creation.always_writes [OF _ s] member v 3
      by (simp add: body_data_bytes_def body_data_write_def body_data_need_def sub_field_def sub_need_def)
  next
    case 4
    then obtain v where v: "pbx_community_friends_update_p m = Some v" using member by auto
    have s: "short (length_field 8 (community_friends_update_bytes v))" using short v 4 by (simp add: body_data_bytes_def sub_field_def)
    have "takes ?f (length_field 8 (community_friends_update_bytes v)) (?s0, i) (body_data_set m, i) (SIZEOF_community_friends_update + 7 + community_friends_update_need v)"
      by (rule community_friends_update.always_takes [OF _ _ s, where old = None])
        (use member 4 in \<open>simp_all add: body_data_simps body_data_set_def v\<close>)
    then show ?thesis using community_friends_update.always_writes [OF _ s] member v 4
      by (simp add: body_data_bytes_def body_data_write_def body_data_need_def sub_field_def sub_need_def)
  next
    case 5
    then obtain v where v: "pbx_register_address_p m = Some v" using member by auto
    have s: "short (length_field 9 (register_address_bytes v))" using short v 5 by (simp add: body_data_bytes_def sub_field_def)
    have "takes ?f (length_field 9 (register_address_bytes v)) (?s0, i) (body_data_set m, i) (SIZEOF_register_address + 7 + register_address_need v)"
      by (rule register_address.always_takes [OF _ _ s, where old = None])
        (use member 5 in \<open>simp_all add: body_data_simps body_data_set_def v\<close>)
    then show ?thesis using register_address.always_writes [OF _ s] member v 5
      by (simp add: body_data_bytes_def body_data_write_def body_data_need_def sub_field_def sub_need_def)
  next
    case 6
    then obtain v where v: "pbx_deferred_transfer_p m = Some v" using member by auto
    have s: "short (length_field 10 (gradido_deferred_transfer_bytes v))" using short v 6 by (simp add: body_data_bytes_def sub_field_def)
    have "takes ?f (length_field 10 (gradido_deferred_transfer_bytes v)) (?s0, i) (body_data_set m, i) (SIZEOF_gradido_deferred_transfer + 7 + gradido_deferred_transfer_need v)"
      by (rule gradido_deferred_transfer.always_takes [OF _ _ s, where old = None])
        (use member 6 in \<open>simp_all add: body_data_simps body_data_set_def v\<close>)
    then show ?thesis using gradido_deferred_transfer.always_writes [OF _ s] member v 6
      by (simp add: body_data_bytes_def body_data_write_def body_data_need_def sub_field_def sub_need_def)
  next
    case 7
    then obtain v where v: "pbx_community_root_p m = Some v" using member by auto
    have s: "short (length_field 11 (community_root_bytes v))" using short v 7 by (simp add: body_data_bytes_def sub_field_def)
    have "takes ?f (length_field 11 (community_root_bytes v)) (?s0, i) (body_data_set m, i) (SIZEOF_community_root + 7 + community_root_need v)"
      by (rule community_root.always_takes [OF _ _ s, where old = None])
        (use member 7 in \<open>simp_all add: body_data_simps body_data_set_def v\<close>)
    then show ?thesis using community_root.always_writes [OF _ s] member v 7
      by (simp add: body_data_bytes_def body_data_write_def body_data_need_def sub_field_def sub_need_def)
  next
    case 8
    then obtain v where v: "pbx_redeem_deferred_transfer_p m = Some v" using member by auto
    have s: "short (length_field 12 (gradido_redeem_deferred_transfer_bytes v))" using short v 8 by (simp add: body_data_bytes_def sub_field_def)
    have "takes ?f (length_field 12 (gradido_redeem_deferred_transfer_bytes v)) (?s0, i) (body_data_set m, i) (SIZEOF_gradido_redeem_deferred_transfer + 7 + gradido_redeem_deferred_transfer_need v)"
      by (rule gradido_redeem_deferred_transfer.always_takes [OF _ _ s, where old = None])
        (use member 8 in \<open>simp_all add: body_data_simps body_data_set_def v\<close>)
    then show ?thesis using gradido_redeem_deferred_transfer.always_writes [OF _ s] member v 8
      by (simp add: body_data_bytes_def body_data_write_def body_data_need_def sub_field_def sub_need_def)
  next
    case 9
    then obtain v where v: "pbx_timeout_deferred_transfer_p m = Some v" using member by auto
    have s: "short (length_field 13 (gradido_timeout_deferred_transfer_bytes v))" using short v 9 by (simp add: body_data_bytes_def sub_field_def)
    have "takes ?f (length_field 13 (gradido_timeout_deferred_transfer_bytes v)) (?s0, i) (body_data_set m, i) (SIZEOF_gradido_timeout_deferred_transfer + 7 + gradido_timeout_deferred_transfer_need v)"
      by (rule gradido_timeout_deferred_transfer.always_takes [OF _ _ s, where old = None])
        (use member 9 in \<open>simp_all add: body_data_simps body_data_set_def v\<close>)
    then show ?thesis using gradido_timeout_deferred_transfer.always_writes [OF _ s] member v 9
      by (simp add: body_data_bytes_def body_data_write_def body_data_need_def sub_field_def sub_need_def)
  qed
qed

interpretation transaction_body: message proto_gradido_transaction_body_encode_inner proto_gradido_transaction_body_init
  proto_gradido_transaction_body_decode_inner transaction_body_bytes transaction_body_need transaction_body_proper
proof
  let ?f = proto_gradido_transaction_body_field and ?s0 = proto_gradido_transaction_body_init
  fix m :: proto_gradido_transaction_body_t
  assume proper: "transaction_body_proper m" and short: "short (transaction_body_bytes m)"
  note parts = short [unfolded transaction_body_bytes_def]
  note s0 = short_parts(1) [OF parts]
  note parts = short_parts(2) [OF parts]
  note s1 = short_parts(1) [OF parts]
  note s2 = short_parts(1) [OF short_parts(2) [OF parts]]
  note s5 = short_parts(2) [OF short_parts(2) [OF short_parts(2) [OF short_parts(2) [OF parts]]]]
  have data: "writes (body_data_write m) (body_data_bytes m)" using body_data_both [OF proper s0] by blast
  have memos: "writes (proto_gradido_encrypted_memo_encode_repeated_inner 1 (pbx_memos m))
      (items_field 1 encrypted_memo_bytes (pbx_memos m))"
    unfolding proto_gradido_encrypted_memo_encode_repeated_inner_def
    by (rule encrypted_memo.items_writes [OF _ s1]) (simp add: list_all_iff)
  have "writes (proto_gradido_transaction_body_encode_inner m)
      (((((([] @ body_data_bytes m) @ items_field 1 encrypted_memo_bytes (pbx_memos m)) @
        sub_field 2 timestamp_bytes (pbx_created_at_p m)) @ varint_field 3 (ucast (pbx_version_number m))) @
        varint_field 4 (scast (pbx_type m))) @ bytes_field 5 (pbx_other_community_uuid m))"
    unfolding proto_gradido_transaction_body_encode_inner_def body_data_write_def [symmetric]
    by (intro writes_all_Cons writes_all_Nil writes_bytes_short [OF s5] writes_enum writes_uint32
        timestamp.sub_writes [OF _ s2] memos data) simp
  then show "writes (proto_gradido_transaction_body_encode_inner m) (transaction_body_bytes m)"
    by (simp add: transaction_body_bytes_def)
  let ?s1 = "body_data_set m"
  let ?s2 = "?s1\<lparr>pbx_created_at_p := pbx_created_at_p m\<rparr>"
  let ?s3 = "?s2\<lparr>pbx_version_number := pbx_version_number m\<rparr>"
  let ?s4 = "?s3\<lparr>pbx_type := pbx_type m\<rparr>"
  let ?s5 = "?s4\<lparr>pbx_other_community_uuid := pbx_other_community_uuid m\<rparr>"
  have rest: "takes ?f (sub_field 2 timestamp_bytes (pbx_created_at_p m) @ varint_field 3 (ucast (pbx_version_number m)) @
      varint_field 4 (scast (pbx_type m)) @ bytes_field 5 (pbx_other_community_uuid m)) (?s1, i) (?s5, i)
      (sub_need SIZEOF_timestamp timestamp_need (pbx_created_at_p m) + length (pbx_other_community_uuid m))" for i
  proof -
    note set_simps = transaction_body_simps body_data_set_def proto_gradido_transaction_body_init_def
    have t2: "takes ?f (sub_field 2 timestamp_bytes (pbx_created_at_p m)) (?s1, i) (?s2, i)
        (sub_need SIZEOF_timestamp timestamp_need (pbx_created_at_p m))"
      by (rule timestamp.sub_takes [OF _ _ s2, where old = None]) (simp_all add: set_simps)
    have t3: "takes ?f (varint_field 3 (ucast (pbx_version_number m))) (?s2, i) (?s3, i) 0"
      by (rule takes_varint) (simp_all add: set_simps)
    have t4: "takes ?f (varint_field 4 (scast (pbx_type m))) (?s3, i) (?s4, i) 0"
      by (rule takes_varint) (simp_all add: set_simps)
    have t5: "takes ?f (bytes_field 5 (pbx_other_community_uuid m)) (?s4, i) (?s5, i) (length (pbx_other_community_uuid m))"
      by (rule takes_bytes_short [OF _ s5]) (simp_all add: set_simps)
    show ?thesis using takes_append [OF t2 takes_append [OF t3 takes_append [OF t4 t5]]] by simp
  qed
  have "decodes proto_gradido_transaction_body_decode_inner ?s0 (transaction_body_bytes m) m (transaction_body_need m)"
    unfolding transaction_body_need_def transaction_body_bytes_def
  proof (rule encrypted_memo.host_decodes [OF _ rest, where get = pbx_memos and put = "\<lambda>v. pbx_memos_update (\<lambda>_. v)"])
    show "takes ?f (body_data_bytes m) (?s0, i) (?s1, i) (body_data_need m)" for i
      using body_data_both [OF proper s0] by blast
    show "?f 1 2 ((m, i), d) = (case pbtools_repeated_info_decode 2 (i, d) of (i, d) \<Rightarrow> ((m, i), d))" for m i d
      by (simp add: transaction_body_simps)
    show "proto_gradido_transaction_body_decode_inner m d =
        (case decode_fields ?f ((m, pbtools_repeated_info_init 1 d), d) of ((m, i), d) \<Rightarrow>
          (case pbtools_decode_repeated_inner SIZEOF_encrypted_memo proto_gradido_encrypted_memo_init
              proto_gradido_encrypted_memo_decode_inner i (pbx_memos m, d) of
            (v, d) \<Rightarrow> (m\<lparr>pbx_memos := v\<rparr>, d)))" for m d
      by (simp add: proto_gradido_transaction_body_decode_inner_def proto_gradido_encrypted_memo_decode_repeated_inner_def)
    show "pbx_memos ?s5 = []" by (simp add: body_data_set_def proto_gradido_transaction_body_init_def)
    show "?s5\<lparr>pbx_memos := pbx_memos m\<rparr> = m" by (cases m) (simp add: body_data_set_def proto_gradido_transaction_body_init_def)
  qed (use s1 in \<open>simp_all add: field_ok_def list_all_iff\<close>)
  then show "decodes proto_gradido_transaction_body_decode_inner ?s0 (transaction_body_bytes m) m (transaction_body_need m)" .
qed

section \<open>\<open>confirmed_transaction\<close>\<close>

definition confirmed_transaction_proper :: "proto_gradido_confirmed_transaction_t \<Rightarrow> bool" where
  "confirmed_transaction_proper m \<longleftrightarrow> pred_option gradido_transaction_proper (pcx_transaction_p m)
     \<and> pred_option ledger_anchor_proper (pcx_ledger_anchor_p m)"

definition confirmed_transaction_bytes :: "proto_gradido_confirmed_transaction_t \<Rightarrow> bytes" where
  "confirmed_transaction_bytes m =
     (varint_field 1 (pcx_id m) @
      sub_field 2 gradido_transaction_bytes (pcx_transaction_p m) @
      sub_field 3 timestamp_bytes (pcx_confirmed_at_p m) @
      varint_field 4 (ucast (pcx_version_number m)) @
      bytes_field 5 (pcx_running_hash m) @
      sub_field 6 ledger_anchor_bytes (pcx_ledger_anchor_p m)) @
     items_field 7 account_balance_bytes (pcx_account_balances m)"

definition confirmed_transaction_need :: "proto_gradido_confirmed_transaction_t \<Rightarrow> nat" where
  "confirmed_transaction_need m =
     (sub_need SIZEOF_gradido_transaction gradido_transaction_need (pcx_transaction_p m) +
      sub_need SIZEOF_timestamp timestamp_need (pcx_confirmed_at_p m) +
      length (pcx_running_hash m) +
      sub_need SIZEOF_ledger_anchor ledger_anchor_need (pcx_ledger_anchor_p m)) +
     items_need SIZEOF_account_balance account_balance_need (pcx_account_balances m)"

lemmas confirmed_transaction_simps = proto_gradido_confirmed_transaction_field_def
  proto_gradido_confirmed_transaction_init_def field_ok_def read_varints

interpretation confirmed_transaction: message proto_gradido_confirmed_transaction_encode_inner
  proto_gradido_confirmed_transaction_init proto_gradido_confirmed_transaction_decode_inner
  confirmed_transaction_bytes confirmed_transaction_need confirmed_transaction_proper
proof
  let ?f = proto_gradido_confirmed_transaction_field and ?s0 = proto_gradido_confirmed_transaction_init
  fix m :: proto_gradido_confirmed_transaction_t
  assume proper: "confirmed_transaction_proper m" and short: "short (confirmed_transaction_bytes m)"
  note proper = proper [unfolded confirmed_transaction_proper_def]
  note parts = short_parts(1) [OF short [unfolded confirmed_transaction_bytes_def]]
  note s7 = short_parts(2) [OF short [unfolded confirmed_transaction_bytes_def]]
  note parts = short_parts(2) [OF parts]
  note s2 = short_parts(1) [OF parts]
  note parts = short_parts(2) [OF parts]
  note s3 = short_parts(1) [OF parts]
  note parts = short_parts(2) [OF short_parts(2) [OF parts]]
  note s5 = short_parts(1) [OF parts]
  note s6 = short_parts(2) [OF parts]
  have balances: "writes (proto_gradido_account_balance_encode_repeated_inner 7 (pcx_account_balances m))
      (items_field 7 account_balance_bytes (pcx_account_balances m))"
    unfolding proto_gradido_account_balance_encode_repeated_inner_def
    by (rule account_balance.items_writes [OF _ s7]) (simp add: list_all_iff)
  have "writes (proto_gradido_confirmed_transaction_encode_inner m)
      ((((((([] @ varint_field 1 (pcx_id m)) @ sub_field 2 gradido_transaction_bytes (pcx_transaction_p m)) @ sub_field 3 timestamp_bytes (pcx_confirmed_at_p m)) @ varint_field 4 (ucast (pcx_version_number m))) @ bytes_field 5 (pcx_running_hash m)) @ sub_field 6 ledger_anchor_bytes (pcx_ledger_anchor_p m)) @ items_field 7 account_balance_bytes (pcx_account_balances m))"
    unfolding proto_gradido_confirmed_transaction_encode_inner_def
    by (intro writes_all_Cons writes_all_Nil balances ledger_anchor.sub_writes [OF _ s6] writes_bytes_short [OF s5]
        writes_uint32 timestamp.sub_writes [OF _ s3] gradido_transaction.sub_writes [OF _ s2] writes_uint64)
      (use proper in simp_all)
  then show "writes (proto_gradido_confirmed_transaction_encode_inner m) (confirmed_transaction_bytes m)"
    by (simp add: confirmed_transaction_bytes_def)
  let ?s1 = "?s0\<lparr>pcx_id := pcx_id m\<rparr>"
  let ?s2 = "?s1\<lparr>pcx_transaction_p := pcx_transaction_p m\<rparr>"
  let ?s3 = "?s2\<lparr>pcx_confirmed_at_p := pcx_confirmed_at_p m\<rparr>"
  let ?s4 = "?s3\<lparr>pcx_version_number := pcx_version_number m\<rparr>"
  let ?s5 = "?s4\<lparr>pcx_running_hash := pcx_running_hash m\<rparr>"
  let ?s6 = "?s5\<lparr>pcx_ledger_anchor_p := pcx_ledger_anchor_p m\<rparr>"
  have before: "takes ?f (varint_field 1 (pcx_id m) @ sub_field 2 gradido_transaction_bytes (pcx_transaction_p m) @ sub_field 3 timestamp_bytes (pcx_confirmed_at_p m) @ varint_field 4 (ucast (pcx_version_number m)) @ bytes_field 5 (pcx_running_hash m) @ sub_field 6 ledger_anchor_bytes (pcx_ledger_anchor_p m)) (?s0, i) (?s6, i)
      (sub_need SIZEOF_gradido_transaction gradido_transaction_need (pcx_transaction_p m) + sub_need SIZEOF_timestamp timestamp_need (pcx_confirmed_at_p m) + length (pcx_running_hash m) + sub_need SIZEOF_ledger_anchor ledger_anchor_need (pcx_ledger_anchor_p m))" for i
  proof -
    have t1: "takes ?f (varint_field 1 (pcx_id m)) (?s0, i) (?s1, i) 0"
      by (rule takes_varint) (simp_all add: confirmed_transaction_simps)
    have t2: "takes ?f (sub_field 2 gradido_transaction_bytes (pcx_transaction_p m)) (?s1, i) (?s2, i) (sub_need SIZEOF_gradido_transaction gradido_transaction_need (pcx_transaction_p m))"
      by (rule gradido_transaction.sub_takes [OF _ _ s2, where old = None]) (use proper in \<open>simp_all add: confirmed_transaction_simps\<close>)
    have t3: "takes ?f (sub_field 3 timestamp_bytes (pcx_confirmed_at_p m)) (?s2, i) (?s3, i) (sub_need SIZEOF_timestamp timestamp_need (pcx_confirmed_at_p m))"
      by (rule timestamp.sub_takes [OF _ _ s3, where old = None]) (use proper in \<open>simp_all add: confirmed_transaction_simps\<close>)
    have t4: "takes ?f (varint_field 4 (ucast (pcx_version_number m))) (?s3, i) (?s4, i) 0"
      by (rule takes_varint) (simp_all add: confirmed_transaction_simps)
    have t5: "takes ?f (bytes_field 5 (pcx_running_hash m)) (?s4, i) (?s5, i) (length (pcx_running_hash m))"
      by (rule takes_bytes_short [OF _ s5]) (simp_all add: confirmed_transaction_simps)
    have t6: "takes ?f (sub_field 6 ledger_anchor_bytes (pcx_ledger_anchor_p m)) (?s5, i) (?s6, i) (sub_need SIZEOF_ledger_anchor ledger_anchor_need (pcx_ledger_anchor_p m))"
      by (rule ledger_anchor.sub_takes [OF _ _ s6, where old = None]) (use proper in \<open>simp_all add: confirmed_transaction_simps\<close>)
    show ?thesis
      using takes_append [OF t1 takes_append [OF t2 takes_append [OF t3 takes_append [OF t4 takes_append [OF t5 t6]]]]]
      by (simp add: add.assoc)
  qed
  have "decodes proto_gradido_confirmed_transaction_decode_inner ?s0 ((varint_field 1 (pcx_id m) @ sub_field 2 gradido_transaction_bytes (pcx_transaction_p m) @ sub_field 3 timestamp_bytes (pcx_confirmed_at_p m) @ varint_field 4 (ucast (pcx_version_number m)) @ bytes_field 5 (pcx_running_hash m) @ sub_field 6 ledger_anchor_bytes (pcx_ledger_anchor_p m)) @
      items_field 7 account_balance_bytes (pcx_account_balances m) @ []) m
      ((sub_need SIZEOF_gradido_transaction gradido_transaction_need (pcx_transaction_p m) + sub_need SIZEOF_timestamp timestamp_need (pcx_confirmed_at_p m) + length (pcx_running_hash m) + sub_need SIZEOF_ledger_anchor ledger_anchor_need (pcx_ledger_anchor_p m)) + (0 + items_need SIZEOF_account_balance account_balance_need (pcx_account_balances m)))"
  proof (rule account_balance.host_decodes [OF before, where bs = "[]" and kb = 0 and fin = ?s6
        and get = pcx_account_balances and put = "\<lambda>v. pcx_account_balances_update (\<lambda>_. v)"])
    show "proto_gradido_confirmed_transaction_decode_inner m d =
        (case decode_fields ?f ((m, pbtools_repeated_info_init 7 d), d) of ((m, i), d) \<Rightarrow>
          (case pbtools_decode_repeated_inner SIZEOF_account_balance proto_gradido_account_balance_init
              proto_gradido_account_balance_decode_inner i (pcx_account_balances m, d) of
            (v, d) \<Rightarrow> (m\<lparr>pcx_account_balances := v\<rparr>, d)))" for m d
      by (simp add: proto_gradido_confirmed_transaction_decode_inner_def
          proto_gradido_account_balance_decode_repeated_inner_def)
    show "?s6\<lparr>pcx_account_balances := pcx_account_balances m\<rparr> = m"
      by (cases m) (simp add: proto_gradido_confirmed_transaction_init_def)
  qed (use s7 in \<open>simp_all add: confirmed_transaction_simps list_all_iff\<close>)
  then show "decodes proto_gradido_confirmed_transaction_decode_inner ?s0 (confirmed_transaction_bytes m) m (confirmed_transaction_need m)"
    by (simp add: confirmed_transaction_bytes_def confirmed_transaction_need_def)
qed

end
