(* ===== verification/GRD_Decode_Ends.thy ===== *)
theory GRD_Decode_Ends
  imports GRD_Codec_Tx
begin

text \<open>
  Decoding arbitrary bytes. A decoder in order stands inside its bytes, one that has failed has a negative
  size and position; no reading call goes back or leaves the bytes, and reading a tag moves on. So every
  decoding loop ends, and what it answers is a negative error or the position behind the last byte. The locale
  \<open>switch\<close> states what the switch of a message has to keep for that; every message fulfils it.
\<close>

section \<open>Advancing\<close>

definition sane :: "pb_decoder \<Rightarrow> bool" where
  "sane d \<longleftrightarrow> 0 \<le> dec_pos d \<and> dec_pos d \<le> dec_size d \<and> dec_size d \<le> INT_MAX
       \<and> dec_size d \<le> int (length (dec_buf d))
     \<or> dec_pos d < 0 \<and> dec_size d = dec_pos d"

definition remaining :: "pb_decoder \<Rightarrow> nat" where
  "remaining d = nat (dec_size d - dec_pos d)"

definition advances :: "pb_decoder \<Rightarrow> pb_decoder \<Rightarrow> bool" where
  "advances d d' \<longleftrightarrow> sane d' \<and> remaining d' \<le> remaining d
     \<and> (0 \<le> dec_pos d' \<longrightarrow> 0 \<le> dec_pos d \<and> dec_pos d \<le> dec_pos d' \<and> dec_size d' = dec_size d)"

lemma advances_refl: "sane d \<Longrightarrow> advances d d"
  by (simp add: advances_def)

lemma advances_trans: "advances a b \<Longrightarrow> advances b c \<Longrightarrow> advances a c"
  by (auto simp: advances_def)

lemma advances_sane: "advances a b \<Longrightarrow> sane b"
  by (simp add: advances_def)

lemma advances_heap [simp]: "advances d (d'\<lparr>dec_heap := h\<rparr>) = advances d d'"
  "sane (d\<lparr>dec_heap := h\<rparr>) = sane d"
  by (simp_all add: advances_def sane_def remaining_def)

lemma advances_from_heap [simp]: "advances (d\<lparr>dec_heap := h\<rparr>) d' = advances d d'"
  by (simp add: advances_def remaining_def)

lemma abort_advances: "sane d \<Longrightarrow> 0 < err \<Longrightarrow> advances d (decoder_abort err d)"
  by (auto simp: decoder_abort_def advances_def sane_def remaining_def)

lemmas error_abort [simp] = abort_advances [of _ PBTOOLS_BAD_WIRE_TYPE] abort_advances [of _ PBTOOLS_OUT_OF_DATA]
  abort_advances [of _ PBTOOLS_OUT_OF_MEMORY] abort_advances [of _ PBTOOLS_BAD_FIELD_NUMBER]
  abort_advances [of _ PBTOOLS_VARINT_OVERFLOW] abort_advances [of _ PBTOOLS_SEEK_OVERFLOW]
  abort_advances [of _ PBTOOLS_LENGTH_DELIMITED_OVERFLOW]

lemma error_codes_pos [simp]:
  "0 < PBTOOLS_BAD_WIRE_TYPE" "0 < PBTOOLS_OUT_OF_DATA" "0 < PBTOOLS_OUT_OF_MEMORY" "0 < PBTOOLS_BAD_FIELD_NUMBER"
  "0 < PBTOOLS_VARINT_OVERFLOW" "0 < PBTOOLS_SEEK_OVERFLOW" "0 < PBTOOLS_LENGTH_DELIMITED_OVERFLOW"
  by (simp_all add: pb_error_codes)

lemma get_advances: "sane d \<Longrightarrow> advances d (snd (decoder_get d))"
  by (auto simp: decoder_get_def pbtools_decoder_available_def advances_def sane_def remaining_def
      decoder_abort_def pb_error_codes)

lemma get_moves: "sane d \<Longrightarrow> pbtools_decoder_available d \<Longrightarrow> remaining (snd (decoder_get d)) < remaining d"
  by (auto simp: decoder_get_def pbtools_decoder_available_def remaining_def)

lemma varint_loop_advances: "sane d \<Longrightarrow> read_varint_loop offset v d = (b, v', d') \<Longrightarrow> advances (snd (decoder_get d)) d'"
proof (induction offset v d arbitrary: b v' d' rule: read_varint_loop.induct)
  case (1 offset v d)
  obtain byte d1 where g: "decoder_get d = (byte, d1)" by fastforce
  have s: "sane d1" using advances_sane [OF get_advances [OF "1.prems"(1)]] g by simp
  show ?case
  proof (cases "offset + 7 < 64 \<and> byte AND 0x80 \<noteq> 0")
    case True
    then have "read_varint_loop (offset + 7) (v OR push_bit offset (ucast byte AND 0x7F)) d1 = (b, v', d')"
      using "1.prems"(2) g by (subst (asm) read_varint_loop.simps) (simp add: Let_def del: push_bit_and)
    from "1.IH" [OF g [symmetric] refl True s this] get_advances [OF s] show ?thesis
      by (simp add: g) (blast intro: advances_trans)
  next
    case False
    then have "d' = d1" using "1.prems"(2) g
      by (subst (asm) read_varint_loop.simps) (simp add: Let_def del: push_bit_and split: if_splits)
    then show ?thesis using advances_refl [OF s] g by simp
  qed
qed

lemma varint_moves: "sane d \<Longrightarrow> advances (snd (decoder_get d)) (snd (decoder_read_varint d))"
proof -
  assume d: "sane d"
  obtain b v d1 where l: "read_varint_loop 0 0 d = (b, v, d1)" by (metis prod_cases3)
  have a: "advances (snd (decoder_get d)) d1" by (rule varint_loop_advances [OF d l])
  then show ?thesis
    using advances_trans [OF a abort_advances [OF advances_sane [OF a], of PBTOOLS_VARINT_OVERFLOW]]
    by (simp add: decoder_read_varint_def l)
qed

lemma varint_advances: "sane d \<Longrightarrow> advances d (snd (decoder_read_varint d))"
  using varint_moves get_advances by (blast intro: advances_trans)

lemma check_advances: "sane d \<Longrightarrow> advances d (snd (read_varint_check_wire_type wire expected d))"
  by (simp add: read_varint_check_wire_type_def varint_advances)

lemma length_advances: "sane d \<Longrightarrow> advances d (snd (decoder_read_length_delimited wire d))"
  using check_advances [of d wire 2] abort_advances [OF advances_sane, of d _ PBTOOLS_LENGTH_DELIMITED_OVERFLOW]
  by (auto simp: decoder_read_length_delimited_def split: prod.split intro: advances_trans)

lemma length_below: "unat (fst (decoder_read_length_delimited wire d)) < 2147483647"
proof -
  have "int (unat n) < 2147483647 \<Longrightarrow> unat n < 2147483647" for n :: u64 by linarith
  then show ?thesis by (auto simp: decoder_read_length_delimited_def not_le split: prod.split)
qed

lemma tag_moves:
  assumes d: "sane d" "pbtools_decoder_available d" and t: "pbtools_decoder_read_tag d = (tag, wire, d')"
  shows "advances d d'" "remaining d' < remaining d"
proof -
  obtain v d1 where v: "decoder_read_varint d = (v, d1)" by fastforce
  have a: "advances (snd (decoder_get d)) d1" using varint_moves [OF d(1)] v by simp
  have "d' = d1 \<or> d' = decoder_abort PBTOOLS_BAD_FIELD_NUMBER d1"
    using t by (auto simp: pbtools_decoder_read_tag_def v Let_def split: if_splits)
  then have b: "advances (snd (decoder_get d)) d'"
    using a abort_advances [OF advances_sane [OF a], of PBTOOLS_BAD_FIELD_NUMBER] by (auto intro: advances_trans)
  then show "advances d d'" using get_advances [OF d(1)] by (rule advances_trans [rotated])
  show "remaining d' < remaining d" using b get_moves [OF d] by (simp add: advances_def)
qed

lemma read_advances:
  assumes "sane d"
  shows "advances d (snd (pbtools_decoder_read_int64 wire d))" "advances d (snd (pbtools_decoder_read_uint64 wire d))"
    "advances d (snd (pbtools_decoder_read_int32 wire d))" "advances d (snd (pbtools_decoder_read_uint32 wire d))"
    "advances d (snd (pbtools_decoder_read_bool wire d))" "advances d (snd (pbtools_decoder_read_enum wire d))"
  using check_advances [OF assms, of wire 0]
  by (simp_all add: pbtools_decoder_read_int64_def pbtools_decoder_read_uint64_def pbtools_decoder_read_int32_def
      pbtools_decoder_read_uint32_def pbtools_decoder_read_bool_def pbtools_decoder_read_enum_def split_def)

lemma alloc_advances: "sane d \<Longrightarrow> advances d (snd (decoder_heap_alloc n a d))"
  using abort_advances [of "d\<lparr>dec_heap := h\<rparr>" PBTOOLS_OUT_OF_MEMORY for h]
  by (auto simp: decoder_heap_alloc_def advances_refl split: prod.split bool.split)

lemma bytes_advances: "sane d \<Longrightarrow> advances d (snd (pbtools_decoder_read_bytes wire d))"
proof -
  assume d: "sane d"
  obtain n d1 where n: "decoder_read_length_delimited wire d = (n, d1)" by fastforce
  have a1: "advances d d1" using length_advances [OF d, of wire] n by simp
  have small: "unat n < 2147483647" using length_below [of wire d] n by simp
  obtain ok d2 where h: "decoder_heap_alloc (unat n) 1 d1 = (ok, d2)" by fastforce
  have a2: "advances d d2" using alloc_advances [OF advances_sane [OF a1], of "unat n" 1] h a1 by (auto intro: advances_trans)
  have s: "sane d2" by (rule advances_sane [OF a2])
  have "advances d2 (snd (decoder_read (unat n) d2))"
  proof (cases "int (unat n) \<le> dec_size d2 - dec_pos d2")
    case True
    have "advances d2 (d2\<lparr>dec_pos := dec_pos d2 + k\<rparr>)" if "0 \<le> k" "k \<le> dec_size d2 - dec_pos d2" for k
      using s that by (auto simp: advances_def sane_def remaining_def)
    from this [OF _ True] have "advances d2 (d2\<lparr>dec_pos := dec_pos d2 + int (unat n)\<rparr>)" by linarith
    then show ?thesis using True c_int_small [of "unat n"] small by (simp add: decoder_read_def del: of_nat_unat)
  next
    case False
    then show ?thesis using s c_int_small [of "unat n"] small by (simp add: decoder_read_def del: of_nat_unat)
  qed
  then show ?thesis using a2 h by (auto simp: pbtools_decoder_read_bytes_def n split: bool.split intro: advances_trans)
qed

lemma seek_advances: "sane d \<Longrightarrow> advances d (decoder_seek offset d)"
  using abort_advances [of d "- offset"]
  by (auto simp: decoder_seek_def advances_refl decoder_abort_def advances_def sane_def remaining_def pb_error_codes)

lemma skip_advances: "sane d \<Longrightarrow> advances d (pbtools_decoder_skip_field wire d)"
proof -
  assume d: "sane d"
  obtain n d1 where n: "decoder_read_length_delimited 2 d = (n, d1)" by fastforce
  have "advances d d1" using length_advances [OF d, of 2] n by simp
  then have "advances d (decoder_seek (int (unat n)) d1)"
    using seek_advances [OF advances_sane] by (blast intro: advances_trans)
  then show ?thesis using d n by (simp add: pbtools_decoder_skip_field_def varint_advances seek_advances)
qed

lemma slice_sane: "sane d \<Longrightarrow> 0 \<le> n \<Longrightarrow> sane (decoder_init_slice d n)"
  by (auto simp: decoder_init_slice_def sane_def pb_error_codes)

lemma sub_advances:
  "sane d \<Longrightarrow> advances d (snd (pbtools_decoder_sub_message_decode n init decode_inner wire (old, d)))"
proof -
  assume d: "sane d"
  obtain ok d1 where h: "decoder_heap_alloc n ALIGN_MESSAGE d = (ok, d1)" by fastforce
  have a1: "advances d d1" using alloc_advances [OF d, of n ALIGN_MESSAGE] h by simp
  obtain len d2 where l: "decoder_read_length_delimited wire d1 = (len, d2)" by fastforce
  have a2: "advances d d2" using length_advances [OF advances_sane [OF a1], of wire] l a1 by (auto intro: advances_trans)
  have "advances d (decoder_seek k (d2\<lparr>dec_heap := g\<rparr>))" for k g
    using a2 seek_advances [of "d2\<lparr>dec_heap := g\<rparr>" k] advances_sane [OF a2] by (auto intro: advances_trans)
  then show ?thesis using a1
    by (auto simp: pbtools_decoder_sub_message_decode_def h l split: bool.split prod.split)
qed

lemma counting_advances: "sane d \<Longrightarrow> advances d (snd (pbtools_repeated_info_decode wire (i, d)))"
proof -
  assume d: "sane d"
  obtain n d1 where n: "decoder_read_length_delimited wire d = (n, d1)" by fastforce
  have "advances d d1" using length_advances [OF d, of wire] n by simp
  then show ?thesis using seek_advances [OF advances_sane, of d d1 "int (unat n)"]
    by (auto simp: pbtools_repeated_info_decode_def Let_def n intro: advances_trans)
qed

lemma repeated_advances:
  "sane d \<Longrightarrow> advances d (snd (pbtools_decode_repeated_inner n init decode_inner i (items, d)))"
  using abort_advances [of d]
  by (auto simp: pbtools_decode_repeated_inner_def advances_refl split: prod.split bool.split)

lemma item_advances:
  assumes d: "sane d" and r: "decode_repeated_inner_item decode_inner (items, j, d) = (items', j', d')"
  shows "advances d d'"
proof -
  obtain len d1 where l: "decoder_read_length_delimited 2 d = (len, d1)" by fastforce
  have a1: "advances d d1" using length_advances [OF d, of 2] l by simp
  have "advances d (decoder_seek k (d1\<lparr>dec_heap := g\<rparr>))" for k g
    using a1 seek_advances [of "d1\<lparr>dec_heap := g\<rparr>" k] advances_sane [OF a1] by (auto intro: advances_trans)
  then show ?thesis using r by (auto simp: decode_repeated_inner_item_def l split: prod.splits)
qed

lemma advances_end: "sane d' \<Longrightarrow> \<not> pbtools_decoder_available d' \<Longrightarrow> dec_pos d' < 0 \<or> dec_pos d' = dec_size d'"
  by (auto simp: sane_def pbtools_decoder_available_def)

section \<open>Every loop ends\<close>

text \<open>The loop of a switch, as one that may not end.\<close>

definition fields_end :: "(nat \<Rightarrow> nat \<Rightarrow> 's \<times> pb_decoder \<Rightarrow> 's \<times> pb_decoder) \<Rightarrow> bool" where
  "fields_end field \<longleftrightarrow> (\<forall>s d. sane d \<longrightarrow>
     (\<exists>s' d'. while_option (\<lambda>(s, d). pbtools_decoder_available d)
        (\<lambda>(s, d). case pbtools_decoder_read_tag d of (tag, wire, d') \<Rightarrow> field tag wire (s, d')) (s, d) = Some (s', d')
      \<and> advances d d'))"

definition items_end :: "('m \<Rightarrow> pb_decoder \<Rightarrow> 'm \<times> pb_decoder) \<Rightarrow> bool" where
  "items_end decode_inner \<longleftrightarrow> (\<forall>tag len items n d. sane d \<longrightarrow>
     while_option (\<lambda>s. are_more_items_to_decode len (snd s))
       (\<lambda>s. case s of (items, n, d) \<Rightarrow>
          (case pbtools_decoder_read_tag d of (t, wire, d') \<Rightarrow>
             if t = tag then decode_repeated_inner_item decode_inner (items, n, d')
             else (items, n, pbtools_decoder_skip_field wire d'))) (items, n, d) \<noteq> None)"

lemma items_loop_ends: "items_end decode_inner"
  unfolding items_end_def
proof (intro allI impI)
  fix tag len n d and items :: "'a list"
  assume d: "sane d"
  let ?b = "\<lambda>s :: 'a list \<times> nat \<times> pb_decoder. are_more_items_to_decode len (snd s)"
  let ?c = "\<lambda>s. case s of (items, n, d) \<Rightarrow>
      (case pbtools_decoder_read_tag d of (t, wire, d') \<Rightarrow>
         if t = tag then decode_repeated_inner_item decode_inner (items, n, d')
         else (items, n, pbtools_decoder_skip_field wire d'))"
  have turn: "sane (snd (snd (?c (xs, j, d)))) \<and> remaining (snd (snd (?c (xs, j, d)))) < remaining d"
    if d: "sane d" and more: "?b (xs, j, d)" for xs :: "'a list" and j d
  proof -
    have av: "pbtools_decoder_available d" using more by (simp add: are_more_items_to_decode_def)
    obtain t wire d1 where t: "pbtools_decoder_read_tag d = (t, wire, d1)" by (metis prod_cases3)
    note m = tag_moves [OF d av t]
    obtain xs' j' d2 where r: "decode_repeated_inner_item decode_inner (xs, j, d1) = (xs', j', d2)" by (metis prod_cases3)
    have "advances d1 d2" by (rule item_advances [OF advances_sane [OF m(1)] r])
    moreover have "advances d1 (pbtools_decoder_skip_field wire d1)" by (rule skip_advances [OF advances_sane [OF m(1)]])
    ultimately show ?thesis using m(2) by (auto simp: t r advances_def)
  qed
  have "\<exists>t. while_option ?b ?c (items, n, d) = Some t"
  proof (rule measure_while_option_Some [where P = "\<lambda>s. sane (snd (snd s))" and f = "\<lambda>s. remaining (snd (snd s))"])
    fix s assume "sane (snd (snd s))" "?b s"
    then show "sane (snd (snd (?c s))) \<and> remaining (snd (snd (?c s))) < remaining (snd (snd s))"
      using turn [of "snd (snd s)" "fst s" "fst (snd s)"] by (simp only: prod.collapse)
  qed (use d in simp)
  then show "while_option ?b ?c (items, n, d) \<noteq> None" by simp
qed

text \<open>What a switch does to the decoder decides whether its loop ends.\<close>

locale switch =
  fixes field :: "nat \<Rightarrow> nat \<Rightarrow> 's \<times> pb_decoder \<Rightarrow> 's \<times> pb_decoder"
  assumes branch: "sane d \<Longrightarrow> advances d (snd (field tag wire (s, d)))"
begin

lemma turn:
  assumes "sane d" "pbtools_decoder_available d" "pbtools_decoder_read_tag d = (tag, wire, d1)"
  shows "advances d (snd (field tag wire (s, d1)))" "remaining (snd (field tag wire (s, d1))) < remaining d"
proof -
  note m = tag_moves [OF assms]
  have b: "advances d1 (snd (field tag wire (s, d1)))" by (rule branch [OF advances_sane [OF m(1)]])
  show "advances d (snd (field tag wire (s, d1)))" by (rule advances_trans [OF m(1) b])
  show "remaining (snd (field tag wire (s, d1))) < remaining d" using b m(2) by (simp add: advances_def)
qed

lemma loop_ends: "fields_end field"
  unfolding fields_end_def
proof (intro allI impI)
  fix s d assume d: "sane d"
  let ?b = "\<lambda>(s :: 's, d). pbtools_decoder_available d"
  let ?c = "\<lambda>(s, d). case pbtools_decoder_read_tag d of (tag, wire, d') \<Rightarrow> field tag wire (s, d')"
  have t: "advances d (snd (?c (s, d))) \<and> remaining (snd (?c (s, d))) < remaining d"
    if "sane d" "pbtools_decoder_available d" for s d
  proof -
    obtain tag wire d1 where r: "pbtools_decoder_read_tag d = (tag, wire, d1)" by (metis prod_cases3)
    show ?thesis using turn [OF that r, of s] by (simp add: r)
  qed
  have "\<exists>r. while_option ?b ?c (s, d) = Some r"
  proof (rule measure_while_option_Some [where P = "\<lambda>s. sane (snd s)" and f = "\<lambda>s. remaining (snd s)"])
    fix s assume "sane (snd s)" "?b s"
    then show "sane (snd (?c s)) \<and> remaining (snd (?c s)) < remaining (snd s)"
      using t [of "snd s" "fst s"] advances_sane by (auto simp: split_def)
  qed (use d in simp)
  then obtain r where r: "while_option ?b ?c (s, d) = Some r" by blast
  have "advances d (snd r)"
  proof (rule while_option_rule [where P = "\<lambda>s. advances d (snd s)", OF _ r])
    fix s assume s: "advances d (snd s)" "?b s"
    then show "advances d (snd (?c s))"
      using t [of "snd s" "fst s"] advances_sane [OF s(1)] by (auto simp: split_def intro: advances_trans)
  qed (use advances_refl [OF d] in simp)
  with r show "\<exists>s' d'. while_option ?b ?c (s, d) = Some (s', d') \<and> advances d d'"
    by (metis prod.collapse)
qed

lemma fields_read:
  assumes "sane d" "decode_fields field (s, d) = (s', d')"
  shows "advances d d' \<and> (dec_pos d' < 0 \<or> dec_pos d' = dec_size d')"
proof -
  obtain s1 d1 where r: "while_option (\<lambda>(s, d). pbtools_decoder_available d)
      (\<lambda>(s, d). case pbtools_decoder_read_tag d of (tag, wire, d') \<Rightarrow> field tag wire (s, d')) (s, d) = Some (s1, d1)"
    "advances d d1"
    using loop_ends assms(1) unfolding fields_end_def by blast
  then have "(s', d') = (s1, d1)" using assms(2) by (simp add: decode_fields_def while_def)
  then show ?thesis using r advances_end [OF advances_sane [OF r(2)]] while_option_stop [OF r(1)] by simp
qed

end

lemma snd_case [simp]: "snd (case p of (v, d) \<Rightarrow> (f v d, d)) = snd p"
  by (simp add: split_def)

lemmas branch_advances = read_advances bytes_advances sub_advances counting_advances skip_advances

interpretation account_balance_switch: switch proto_gradido_account_balance_field
  by unfold_locales (auto simp: proto_gradido_account_balance_field_def branch_advances split: prod.split)

interpretation duration_seconds_switch: switch proto_gradido_duration_seconds_field
  by unfold_locales (auto simp: proto_gradido_duration_seconds_field_def branch_advances split: prod.split)

interpretation encrypted_memo_switch: switch proto_gradido_encrypted_memo_field
  by unfold_locales (auto simp: proto_gradido_encrypted_memo_field_def branch_advances split: prod.split)

interpretation signature_pair_switch: switch proto_gradido_signature_pair_field
  by unfold_locales (auto simp: proto_gradido_signature_pair_field_def branch_advances split: prod.split)

interpretation signature_map_switch: switch proto_gradido_signature_map_field
  by unfold_locales (auto simp: proto_gradido_signature_map_field_def branch_advances split: prod.split)

interpretation timestamp_switch: switch proto_gradido_timestamp_field
  by unfold_locales (auto simp: proto_gradido_timestamp_field_def branch_advances split: prod.split)

interpretation timestamp_seconds_switch: switch proto_gradido_timestamp_seconds_field
  by unfold_locales (auto simp: proto_gradido_timestamp_seconds_field_def branch_advances split: prod.split)

interpretation transfer_amount_switch: switch proto_gradido_transfer_amount_field
  by unfold_locales (auto simp: proto_gradido_transfer_amount_field_def branch_advances split: prod.split)

interpretation community_friends_update_switch: switch proto_gradido_community_friends_update_field
  by unfold_locales (auto simp: proto_gradido_community_friends_update_field_def branch_advances split: prod.split)

interpretation community_root_switch: switch proto_gradido_community_root_field
  by unfold_locales (auto simp: proto_gradido_community_root_field_def branch_advances split: prod.split)

interpretation register_address_switch: switch proto_gradido_register_address_field
  by unfold_locales (auto simp: proto_gradido_register_address_field_def branch_advances split: prod.split)

interpretation gradido_creation_switch: switch proto_gradido_gradido_creation_field
  by unfold_locales (auto simp: proto_gradido_gradido_creation_field_def branch_advances split: prod.split)

interpretation gradido_transfer_switch: switch proto_gradido_gradido_transfer_field
  by unfold_locales (auto simp: proto_gradido_gradido_transfer_field_def branch_advances split: prod.split)

interpretation gradido_deferred_transfer_switch: switch proto_gradido_gradido_deferred_transfer_field
  by unfold_locales (auto simp: proto_gradido_gradido_deferred_transfer_field_def branch_advances split: prod.split)

interpretation gradido_redeem_deferred_transfer_switch: switch proto_gradido_gradido_redeem_deferred_transfer_field
  by unfold_locales (auto simp: proto_gradido_gradido_redeem_deferred_transfer_field_def branch_advances split: prod.split)

interpretation gradido_timeout_deferred_transfer_switch: switch proto_gradido_gradido_timeout_deferred_transfer_field
  by unfold_locales (auto simp: proto_gradido_gradido_timeout_deferred_transfer_field_def branch_advances split: prod.split)

interpretation account_id_switch: switch proto_gradido_account_id_field
  by unfold_locales (auto simp: proto_gradido_account_id_field_def
    proto_gradido_account_id_account_num_decode_def
    proto_gradido_account_id_alias_decode_def branch_advances split: prod.split)

interpretation transaction_id_switch: switch proto_gradido_transaction_id_field
  by unfold_locales (auto simp: proto_gradido_transaction_id_field_def branch_advances split: prod.split)

interpretation ledger_anchor_switch: switch proto_gradido_ledger_anchor_field
  by unfold_locales (auto simp: proto_gradido_ledger_anchor_field_def
    proto_gradido_ledger_anchor_hiero_transaction_id_decode_def
    proto_gradido_ledger_anchor_id_decode_def branch_advances split: prod.split)

interpretation gradido_transaction_switch: switch proto_gradido_gradido_transaction_field
  by unfold_locales (auto simp: proto_gradido_gradido_transaction_field_def branch_advances split: prod.split)

interpretation transaction_body_switch: switch proto_gradido_transaction_body_field
  by unfold_locales (auto simp: proto_gradido_transaction_body_field_def
    proto_gradido_transaction_body_transfer_decode_def
    proto_gradido_transaction_body_creation_decode_def
    proto_gradido_transaction_body_community_friends_update_decode_def
    proto_gradido_transaction_body_register_address_decode_def
    proto_gradido_transaction_body_deferred_transfer_decode_def
    proto_gradido_transaction_body_community_root_decode_def
    proto_gradido_transaction_body_redeem_deferred_transfer_decode_def
    proto_gradido_transaction_body_timeout_deferred_transfer_decode_def branch_advances split: prod.split)

interpretation confirmed_transaction_switch: switch proto_gradido_confirmed_transaction_field
  by unfold_locales (auto simp: proto_gradido_confirmed_transaction_field_def branch_advances split: prod.split)

end
