(* ===== verification/GRD_Message_Api.thy ===== *)
theory GRD_Message_Api
  imports GRD_Messages
begin

text \<open>
  What else pbtools generated for every message of \<open>data/proto/gradido\<close>: a new message in a workspace,
  the message to bytes, bytes to the message, and the same for a repeated field of it. The root messages have
  theirs in \<open>GRD_Messages\<close>. At the end stands \<open>topic_id\<close>, a message no other one holds.
\<close>

section \<open>Members of a union set to their start\<close>

definition proto_gradido_account_id_account_num_init :: "proto_gradido_account_id_t \<Rightarrow> proto_gradido_account_id_t" where
  "proto_gradido_account_id_account_num_init m =
     m\<lparr>pai_account := proto_gradido_account_id_account_account_num_e, pai_account_num := 0\<rparr>"

definition proto_gradido_account_id_alias_init :: "proto_gradido_account_id_t \<Rightarrow> proto_gradido_account_id_t" where
  "proto_gradido_account_id_alias_init m =
     m\<lparr>pai_account := proto_gradido_account_id_account_alias_e, pai_alias := []\<rparr>"

definition proto_gradido_ledger_anchor_id_init :: "proto_gradido_ledger_anchor_t \<Rightarrow> proto_gradido_ledger_anchor_t" where
  "proto_gradido_ledger_anchor_id_init m =
     m\<lparr>pla_anchor_id := proto_gradido_ledger_anchor_anchor_id_id_e, pla_id := 0\<rparr>"

section \<open>\<open>topic_id\<close>\<close>

record proto_gradido_topic_id_t =
  ptp_shard_num :: i64
  ptp_realm_num :: i64
  ptp_topic_num :: i64

definition SIZEOF_topic_id :: nat where "SIZEOF_topic_id = 32"

definition proto_gradido_topic_id_init :: proto_gradido_topic_id_t where
  "proto_gradido_topic_id_init = \<lparr>ptp_shard_num = 0, ptp_realm_num = 0, ptp_topic_num = 0\<rparr>"

definition proto_gradido_topic_id_encode_inner :: "proto_gradido_topic_id_t \<Rightarrow> pb_write" where
  "proto_gradido_topic_id_encode_inner m = write_all
     [pbtools_encoder_write_int64 3 (ptp_topic_num m),
      pbtools_encoder_write_int64 2 (ptp_realm_num m),
      pbtools_encoder_write_int64 1 (ptp_shard_num m)]"

definition proto_gradido_topic_id_field ::
  "nat \<Rightarrow> nat \<Rightarrow> proto_gradido_topic_id_t \<times> pb_decoder \<Rightarrow> proto_gradido_topic_id_t \<times> pb_decoder" where
  "proto_gradido_topic_id_field tag wire s =
     (case s of (m, d) \<Rightarrow>
      if tag = 1 then (case pbtools_decoder_read_int64 wire d of (v, d) \<Rightarrow> (m\<lparr>ptp_shard_num := v\<rparr>, d))
      else if tag = 2 then (case pbtools_decoder_read_int64 wire d of (v, d) \<Rightarrow> (m\<lparr>ptp_realm_num := v\<rparr>, d))
      else if tag = 3 then (case pbtools_decoder_read_int64 wire d of (v, d) \<Rightarrow> (m\<lparr>ptp_topic_num := v\<rparr>, d))
      else (m, pbtools_decoder_skip_field wire d))"

definition proto_gradido_topic_id_decode_inner :: "proto_gradido_topic_id_t \<Rightarrow> pb_decoder \<Rightarrow> proto_gradido_topic_id_t \<times> pb_decoder" where
  "proto_gradido_topic_id_decode_inner m d = decode_fields proto_gradido_topic_id_field (m, d)"

section \<open>The calls of \<open>account_balance\<close>\<close>

definition proto_gradido_account_balance_new :: "nat \<Rightarrow> nat \<Rightarrow> (proto_gradido_account_balance_t \<times> pb_heap) option" where
  "proto_gradido_account_balance_new address n = pbtools_message_new address n SIZEOF_account_balance proto_gradido_account_balance_init"

definition proto_gradido_account_balance_encode :: "proto_gradido_account_balance_t \<Rightarrow> nat \<Rightarrow> c_fault + (int \<times> bytes)" where
  "proto_gradido_account_balance_encode = pbtools_message_encode proto_gradido_account_balance_encode_inner"

definition proto_gradido_account_balance_decode :: "proto_gradido_account_balance_t \<Rightarrow> bytes \<Rightarrow> nat \<Rightarrow> pb_heap \<Rightarrow> int \<times> proto_gradido_account_balance_t \<times> pb_heap" where
  "proto_gradido_account_balance_decode = pbtools_message_decode proto_gradido_account_balance_decode_inner"

section \<open>The calls of \<open>duration_seconds\<close>\<close>

definition proto_gradido_duration_seconds_encode_repeated_inner :: "nat \<Rightarrow> proto_gradido_duration_seconds_t list \<Rightarrow> pb_write" where
  "proto_gradido_duration_seconds_encode_repeated_inner field items = pbtools_encode_repeated_inner field proto_gradido_duration_seconds_encode_inner items"

definition proto_gradido_duration_seconds_decode_repeated_inner ::
  "pb_repeated_info \<Rightarrow> proto_gradido_duration_seconds_t list \<times> pb_decoder \<Rightarrow> proto_gradido_duration_seconds_t list \<times> pb_decoder" where
  "proto_gradido_duration_seconds_decode_repeated_inner =
     pbtools_decode_repeated_inner SIZEOF_duration_seconds proto_gradido_duration_seconds_init proto_gradido_duration_seconds_decode_inner"

definition proto_gradido_duration_seconds_new :: "nat \<Rightarrow> nat \<Rightarrow> (proto_gradido_duration_seconds_t \<times> pb_heap) option" where
  "proto_gradido_duration_seconds_new address n = pbtools_message_new address n SIZEOF_duration_seconds proto_gradido_duration_seconds_init"

definition proto_gradido_duration_seconds_encode :: "proto_gradido_duration_seconds_t \<Rightarrow> nat \<Rightarrow> c_fault + (int \<times> bytes)" where
  "proto_gradido_duration_seconds_encode = pbtools_message_encode proto_gradido_duration_seconds_encode_inner"

definition proto_gradido_duration_seconds_decode :: "proto_gradido_duration_seconds_t \<Rightarrow> bytes \<Rightarrow> nat \<Rightarrow> pb_heap \<Rightarrow> int \<times> proto_gradido_duration_seconds_t \<times> pb_heap" where
  "proto_gradido_duration_seconds_decode = pbtools_message_decode proto_gradido_duration_seconds_decode_inner"

section \<open>The calls of \<open>encrypted_memo\<close>\<close>

definition proto_gradido_encrypted_memo_new :: "nat \<Rightarrow> nat \<Rightarrow> (proto_gradido_encrypted_memo_t \<times> pb_heap) option" where
  "proto_gradido_encrypted_memo_new address n = pbtools_message_new address n SIZEOF_encrypted_memo proto_gradido_encrypted_memo_init"

definition proto_gradido_encrypted_memo_encode :: "proto_gradido_encrypted_memo_t \<Rightarrow> nat \<Rightarrow> c_fault + (int \<times> bytes)" where
  "proto_gradido_encrypted_memo_encode = pbtools_message_encode proto_gradido_encrypted_memo_encode_inner"

definition proto_gradido_encrypted_memo_decode :: "proto_gradido_encrypted_memo_t \<Rightarrow> bytes \<Rightarrow> nat \<Rightarrow> pb_heap \<Rightarrow> int \<times> proto_gradido_encrypted_memo_t \<times> pb_heap" where
  "proto_gradido_encrypted_memo_decode = pbtools_message_decode proto_gradido_encrypted_memo_decode_inner"

section \<open>The calls of \<open>signature_pair\<close>\<close>

definition proto_gradido_signature_pair_new :: "nat \<Rightarrow> nat \<Rightarrow> (proto_gradido_signature_pair_t \<times> pb_heap) option" where
  "proto_gradido_signature_pair_new address n = pbtools_message_new address n SIZEOF_signature_pair proto_gradido_signature_pair_init"

definition proto_gradido_signature_pair_encode :: "proto_gradido_signature_pair_t \<Rightarrow> nat \<Rightarrow> c_fault + (int \<times> bytes)" where
  "proto_gradido_signature_pair_encode = pbtools_message_encode proto_gradido_signature_pair_encode_inner"

definition proto_gradido_signature_pair_decode :: "proto_gradido_signature_pair_t \<Rightarrow> bytes \<Rightarrow> nat \<Rightarrow> pb_heap \<Rightarrow> int \<times> proto_gradido_signature_pair_t \<times> pb_heap" where
  "proto_gradido_signature_pair_decode = pbtools_message_decode proto_gradido_signature_pair_decode_inner"

section \<open>The calls of \<open>signature_map\<close>\<close>

definition proto_gradido_signature_map_encode_repeated_inner :: "nat \<Rightarrow> proto_gradido_signature_map_t list \<Rightarrow> pb_write" where
  "proto_gradido_signature_map_encode_repeated_inner field items = pbtools_encode_repeated_inner field proto_gradido_signature_map_encode_inner items"

definition proto_gradido_signature_map_decode_repeated_inner ::
  "pb_repeated_info \<Rightarrow> proto_gradido_signature_map_t list \<times> pb_decoder \<Rightarrow> proto_gradido_signature_map_t list \<times> pb_decoder" where
  "proto_gradido_signature_map_decode_repeated_inner =
     pbtools_decode_repeated_inner SIZEOF_signature_map proto_gradido_signature_map_init proto_gradido_signature_map_decode_inner"

definition proto_gradido_signature_map_new :: "nat \<Rightarrow> nat \<Rightarrow> (proto_gradido_signature_map_t \<times> pb_heap) option" where
  "proto_gradido_signature_map_new address n = pbtools_message_new address n SIZEOF_signature_map proto_gradido_signature_map_init"

definition proto_gradido_signature_map_encode :: "proto_gradido_signature_map_t \<Rightarrow> nat \<Rightarrow> c_fault + (int \<times> bytes)" where
  "proto_gradido_signature_map_encode = pbtools_message_encode proto_gradido_signature_map_encode_inner"

definition proto_gradido_signature_map_decode :: "proto_gradido_signature_map_t \<Rightarrow> bytes \<Rightarrow> nat \<Rightarrow> pb_heap \<Rightarrow> int \<times> proto_gradido_signature_map_t \<times> pb_heap" where
  "proto_gradido_signature_map_decode = pbtools_message_decode proto_gradido_signature_map_decode_inner"

section \<open>The calls of \<open>timestamp\<close>\<close>

definition proto_gradido_timestamp_encode_repeated_inner :: "nat \<Rightarrow> proto_gradido_timestamp_t list \<Rightarrow> pb_write" where
  "proto_gradido_timestamp_encode_repeated_inner field items = pbtools_encode_repeated_inner field proto_gradido_timestamp_encode_inner items"

definition proto_gradido_timestamp_decode_repeated_inner ::
  "pb_repeated_info \<Rightarrow> proto_gradido_timestamp_t list \<times> pb_decoder \<Rightarrow> proto_gradido_timestamp_t list \<times> pb_decoder" where
  "proto_gradido_timestamp_decode_repeated_inner =
     pbtools_decode_repeated_inner SIZEOF_timestamp proto_gradido_timestamp_init proto_gradido_timestamp_decode_inner"

definition proto_gradido_timestamp_new :: "nat \<Rightarrow> nat \<Rightarrow> (proto_gradido_timestamp_t \<times> pb_heap) option" where
  "proto_gradido_timestamp_new address n = pbtools_message_new address n SIZEOF_timestamp proto_gradido_timestamp_init"

definition proto_gradido_timestamp_encode :: "proto_gradido_timestamp_t \<Rightarrow> nat \<Rightarrow> c_fault + (int \<times> bytes)" where
  "proto_gradido_timestamp_encode = pbtools_message_encode proto_gradido_timestamp_encode_inner"

definition proto_gradido_timestamp_decode :: "proto_gradido_timestamp_t \<Rightarrow> bytes \<Rightarrow> nat \<Rightarrow> pb_heap \<Rightarrow> int \<times> proto_gradido_timestamp_t \<times> pb_heap" where
  "proto_gradido_timestamp_decode = pbtools_message_decode proto_gradido_timestamp_decode_inner"

section \<open>The calls of \<open>timestamp_seconds\<close>\<close>

definition proto_gradido_timestamp_seconds_encode_repeated_inner :: "nat \<Rightarrow> proto_gradido_timestamp_seconds_t list \<Rightarrow> pb_write" where
  "proto_gradido_timestamp_seconds_encode_repeated_inner field items = pbtools_encode_repeated_inner field proto_gradido_timestamp_seconds_encode_inner items"

definition proto_gradido_timestamp_seconds_decode_repeated_inner ::
  "pb_repeated_info \<Rightarrow> proto_gradido_timestamp_seconds_t list \<times> pb_decoder \<Rightarrow> proto_gradido_timestamp_seconds_t list \<times> pb_decoder" where
  "proto_gradido_timestamp_seconds_decode_repeated_inner =
     pbtools_decode_repeated_inner SIZEOF_timestamp_seconds proto_gradido_timestamp_seconds_init proto_gradido_timestamp_seconds_decode_inner"

definition proto_gradido_timestamp_seconds_new :: "nat \<Rightarrow> nat \<Rightarrow> (proto_gradido_timestamp_seconds_t \<times> pb_heap) option" where
  "proto_gradido_timestamp_seconds_new address n = pbtools_message_new address n SIZEOF_timestamp_seconds proto_gradido_timestamp_seconds_init"

definition proto_gradido_timestamp_seconds_encode :: "proto_gradido_timestamp_seconds_t \<Rightarrow> nat \<Rightarrow> c_fault + (int \<times> bytes)" where
  "proto_gradido_timestamp_seconds_encode = pbtools_message_encode proto_gradido_timestamp_seconds_encode_inner"

definition proto_gradido_timestamp_seconds_decode :: "proto_gradido_timestamp_seconds_t \<Rightarrow> bytes \<Rightarrow> nat \<Rightarrow> pb_heap \<Rightarrow> int \<times> proto_gradido_timestamp_seconds_t \<times> pb_heap" where
  "proto_gradido_timestamp_seconds_decode = pbtools_message_decode proto_gradido_timestamp_seconds_decode_inner"

section \<open>The calls of \<open>transfer_amount\<close>\<close>

definition proto_gradido_transfer_amount_encode_repeated_inner :: "nat \<Rightarrow> proto_gradido_transfer_amount_t list \<Rightarrow> pb_write" where
  "proto_gradido_transfer_amount_encode_repeated_inner field items = pbtools_encode_repeated_inner field proto_gradido_transfer_amount_encode_inner items"

definition proto_gradido_transfer_amount_decode_repeated_inner ::
  "pb_repeated_info \<Rightarrow> proto_gradido_transfer_amount_t list \<times> pb_decoder \<Rightarrow> proto_gradido_transfer_amount_t list \<times> pb_decoder" where
  "proto_gradido_transfer_amount_decode_repeated_inner =
     pbtools_decode_repeated_inner SIZEOF_transfer_amount proto_gradido_transfer_amount_init proto_gradido_transfer_amount_decode_inner"

definition proto_gradido_transfer_amount_new :: "nat \<Rightarrow> nat \<Rightarrow> (proto_gradido_transfer_amount_t \<times> pb_heap) option" where
  "proto_gradido_transfer_amount_new address n = pbtools_message_new address n SIZEOF_transfer_amount proto_gradido_transfer_amount_init"

definition proto_gradido_transfer_amount_encode :: "proto_gradido_transfer_amount_t \<Rightarrow> nat \<Rightarrow> c_fault + (int \<times> bytes)" where
  "proto_gradido_transfer_amount_encode = pbtools_message_encode proto_gradido_transfer_amount_encode_inner"

definition proto_gradido_transfer_amount_decode :: "proto_gradido_transfer_amount_t \<Rightarrow> bytes \<Rightarrow> nat \<Rightarrow> pb_heap \<Rightarrow> int \<times> proto_gradido_transfer_amount_t \<times> pb_heap" where
  "proto_gradido_transfer_amount_decode = pbtools_message_decode proto_gradido_transfer_amount_decode_inner"

section \<open>The calls of \<open>community_friends_update\<close>\<close>

definition proto_gradido_community_friends_update_encode_repeated_inner :: "nat \<Rightarrow> proto_gradido_community_friends_update_t list \<Rightarrow> pb_write" where
  "proto_gradido_community_friends_update_encode_repeated_inner field items = pbtools_encode_repeated_inner field proto_gradido_community_friends_update_encode_inner items"

definition proto_gradido_community_friends_update_decode_repeated_inner ::
  "pb_repeated_info \<Rightarrow> proto_gradido_community_friends_update_t list \<times> pb_decoder \<Rightarrow> proto_gradido_community_friends_update_t list \<times> pb_decoder" where
  "proto_gradido_community_friends_update_decode_repeated_inner =
     pbtools_decode_repeated_inner SIZEOF_community_friends_update proto_gradido_community_friends_update_init proto_gradido_community_friends_update_decode_inner"

definition proto_gradido_community_friends_update_new :: "nat \<Rightarrow> nat \<Rightarrow> (proto_gradido_community_friends_update_t \<times> pb_heap) option" where
  "proto_gradido_community_friends_update_new address n = pbtools_message_new address n SIZEOF_community_friends_update proto_gradido_community_friends_update_init"

definition proto_gradido_community_friends_update_encode :: "proto_gradido_community_friends_update_t \<Rightarrow> nat \<Rightarrow> c_fault + (int \<times> bytes)" where
  "proto_gradido_community_friends_update_encode = pbtools_message_encode proto_gradido_community_friends_update_encode_inner"

definition proto_gradido_community_friends_update_decode :: "proto_gradido_community_friends_update_t \<Rightarrow> bytes \<Rightarrow> nat \<Rightarrow> pb_heap \<Rightarrow> int \<times> proto_gradido_community_friends_update_t \<times> pb_heap" where
  "proto_gradido_community_friends_update_decode = pbtools_message_decode proto_gradido_community_friends_update_decode_inner"

section \<open>The calls of \<open>community_root\<close>\<close>

definition proto_gradido_community_root_encode_repeated_inner :: "nat \<Rightarrow> proto_gradido_community_root_t list \<Rightarrow> pb_write" where
  "proto_gradido_community_root_encode_repeated_inner field items = pbtools_encode_repeated_inner field proto_gradido_community_root_encode_inner items"

definition proto_gradido_community_root_decode_repeated_inner ::
  "pb_repeated_info \<Rightarrow> proto_gradido_community_root_t list \<times> pb_decoder \<Rightarrow> proto_gradido_community_root_t list \<times> pb_decoder" where
  "proto_gradido_community_root_decode_repeated_inner =
     pbtools_decode_repeated_inner SIZEOF_community_root proto_gradido_community_root_init proto_gradido_community_root_decode_inner"

definition proto_gradido_community_root_new :: "nat \<Rightarrow> nat \<Rightarrow> (proto_gradido_community_root_t \<times> pb_heap) option" where
  "proto_gradido_community_root_new address n = pbtools_message_new address n SIZEOF_community_root proto_gradido_community_root_init"

definition proto_gradido_community_root_encode :: "proto_gradido_community_root_t \<Rightarrow> nat \<Rightarrow> c_fault + (int \<times> bytes)" where
  "proto_gradido_community_root_encode = pbtools_message_encode proto_gradido_community_root_encode_inner"

definition proto_gradido_community_root_decode :: "proto_gradido_community_root_t \<Rightarrow> bytes \<Rightarrow> nat \<Rightarrow> pb_heap \<Rightarrow> int \<times> proto_gradido_community_root_t \<times> pb_heap" where
  "proto_gradido_community_root_decode = pbtools_message_decode proto_gradido_community_root_decode_inner"

section \<open>The calls of \<open>confirmed_transaction\<close>\<close>

definition proto_gradido_confirmed_transaction_encode_repeated_inner :: "nat \<Rightarrow> proto_gradido_confirmed_transaction_t list \<Rightarrow> pb_write" where
  "proto_gradido_confirmed_transaction_encode_repeated_inner field items = pbtools_encode_repeated_inner field proto_gradido_confirmed_transaction_encode_inner items"

definition proto_gradido_confirmed_transaction_decode_repeated_inner ::
  "pb_repeated_info \<Rightarrow> proto_gradido_confirmed_transaction_t list \<times> pb_decoder \<Rightarrow> proto_gradido_confirmed_transaction_t list \<times> pb_decoder" where
  "proto_gradido_confirmed_transaction_decode_repeated_inner =
     pbtools_decode_repeated_inner SIZEOF_confirmed_transaction proto_gradido_confirmed_transaction_init proto_gradido_confirmed_transaction_decode_inner"

section \<open>The calls of \<open>gradido_creation\<close>\<close>

definition proto_gradido_gradido_creation_encode_repeated_inner :: "nat \<Rightarrow> proto_gradido_gradido_creation_t list \<Rightarrow> pb_write" where
  "proto_gradido_gradido_creation_encode_repeated_inner field items = pbtools_encode_repeated_inner field proto_gradido_gradido_creation_encode_inner items"

definition proto_gradido_gradido_creation_decode_repeated_inner ::
  "pb_repeated_info \<Rightarrow> proto_gradido_gradido_creation_t list \<times> pb_decoder \<Rightarrow> proto_gradido_gradido_creation_t list \<times> pb_decoder" where
  "proto_gradido_gradido_creation_decode_repeated_inner =
     pbtools_decode_repeated_inner SIZEOF_gradido_creation proto_gradido_gradido_creation_init proto_gradido_gradido_creation_decode_inner"

definition proto_gradido_gradido_creation_new :: "nat \<Rightarrow> nat \<Rightarrow> (proto_gradido_gradido_creation_t \<times> pb_heap) option" where
  "proto_gradido_gradido_creation_new address n = pbtools_message_new address n SIZEOF_gradido_creation proto_gradido_gradido_creation_init"

definition proto_gradido_gradido_creation_encode :: "proto_gradido_gradido_creation_t \<Rightarrow> nat \<Rightarrow> c_fault + (int \<times> bytes)" where
  "proto_gradido_gradido_creation_encode = pbtools_message_encode proto_gradido_gradido_creation_encode_inner"

definition proto_gradido_gradido_creation_decode :: "proto_gradido_gradido_creation_t \<Rightarrow> bytes \<Rightarrow> nat \<Rightarrow> pb_heap \<Rightarrow> int \<times> proto_gradido_gradido_creation_t \<times> pb_heap" where
  "proto_gradido_gradido_creation_decode = pbtools_message_decode proto_gradido_gradido_creation_decode_inner"

section \<open>The calls of \<open>gradido_transaction\<close>\<close>

definition proto_gradido_gradido_transaction_encode_repeated_inner :: "nat \<Rightarrow> proto_gradido_gradido_transaction_t list \<Rightarrow> pb_write" where
  "proto_gradido_gradido_transaction_encode_repeated_inner field items = pbtools_encode_repeated_inner field proto_gradido_gradido_transaction_encode_inner items"

definition proto_gradido_gradido_transaction_decode_repeated_inner ::
  "pb_repeated_info \<Rightarrow> proto_gradido_gradido_transaction_t list \<times> pb_decoder \<Rightarrow> proto_gradido_gradido_transaction_t list \<times> pb_decoder" where
  "proto_gradido_gradido_transaction_decode_repeated_inner =
     pbtools_decode_repeated_inner SIZEOF_gradido_transaction proto_gradido_gradido_transaction_init proto_gradido_gradido_transaction_decode_inner"

section \<open>The calls of \<open>gradido_transfer\<close>\<close>

definition proto_gradido_gradido_transfer_encode_repeated_inner :: "nat \<Rightarrow> proto_gradido_gradido_transfer_t list \<Rightarrow> pb_write" where
  "proto_gradido_gradido_transfer_encode_repeated_inner field items = pbtools_encode_repeated_inner field proto_gradido_gradido_transfer_encode_inner items"

definition proto_gradido_gradido_transfer_decode_repeated_inner ::
  "pb_repeated_info \<Rightarrow> proto_gradido_gradido_transfer_t list \<times> pb_decoder \<Rightarrow> proto_gradido_gradido_transfer_t list \<times> pb_decoder" where
  "proto_gradido_gradido_transfer_decode_repeated_inner =
     pbtools_decode_repeated_inner SIZEOF_gradido_transfer proto_gradido_gradido_transfer_init proto_gradido_gradido_transfer_decode_inner"

definition proto_gradido_gradido_transfer_new :: "nat \<Rightarrow> nat \<Rightarrow> (proto_gradido_gradido_transfer_t \<times> pb_heap) option" where
  "proto_gradido_gradido_transfer_new address n = pbtools_message_new address n SIZEOF_gradido_transfer proto_gradido_gradido_transfer_init"

definition proto_gradido_gradido_transfer_encode :: "proto_gradido_gradido_transfer_t \<Rightarrow> nat \<Rightarrow> c_fault + (int \<times> bytes)" where
  "proto_gradido_gradido_transfer_encode = pbtools_message_encode proto_gradido_gradido_transfer_encode_inner"

definition proto_gradido_gradido_transfer_decode :: "proto_gradido_gradido_transfer_t \<Rightarrow> bytes \<Rightarrow> nat \<Rightarrow> pb_heap \<Rightarrow> int \<times> proto_gradido_gradido_transfer_t \<times> pb_heap" where
  "proto_gradido_gradido_transfer_decode = pbtools_message_decode proto_gradido_gradido_transfer_decode_inner"

section \<open>The calls of \<open>gradido_deferred_transfer\<close>\<close>

definition proto_gradido_gradido_deferred_transfer_encode_repeated_inner :: "nat \<Rightarrow> proto_gradido_gradido_deferred_transfer_t list \<Rightarrow> pb_write" where
  "proto_gradido_gradido_deferred_transfer_encode_repeated_inner field items = pbtools_encode_repeated_inner field proto_gradido_gradido_deferred_transfer_encode_inner items"

definition proto_gradido_gradido_deferred_transfer_decode_repeated_inner ::
  "pb_repeated_info \<Rightarrow> proto_gradido_gradido_deferred_transfer_t list \<times> pb_decoder \<Rightarrow> proto_gradido_gradido_deferred_transfer_t list \<times> pb_decoder" where
  "proto_gradido_gradido_deferred_transfer_decode_repeated_inner =
     pbtools_decode_repeated_inner SIZEOF_gradido_deferred_transfer proto_gradido_gradido_deferred_transfer_init proto_gradido_gradido_deferred_transfer_decode_inner"

definition proto_gradido_gradido_deferred_transfer_new :: "nat \<Rightarrow> nat \<Rightarrow> (proto_gradido_gradido_deferred_transfer_t \<times> pb_heap) option" where
  "proto_gradido_gradido_deferred_transfer_new address n = pbtools_message_new address n SIZEOF_gradido_deferred_transfer proto_gradido_gradido_deferred_transfer_init"

definition proto_gradido_gradido_deferred_transfer_encode :: "proto_gradido_gradido_deferred_transfer_t \<Rightarrow> nat \<Rightarrow> c_fault + (int \<times> bytes)" where
  "proto_gradido_gradido_deferred_transfer_encode = pbtools_message_encode proto_gradido_gradido_deferred_transfer_encode_inner"

definition proto_gradido_gradido_deferred_transfer_decode :: "proto_gradido_gradido_deferred_transfer_t \<Rightarrow> bytes \<Rightarrow> nat \<Rightarrow> pb_heap \<Rightarrow> int \<times> proto_gradido_gradido_deferred_transfer_t \<times> pb_heap" where
  "proto_gradido_gradido_deferred_transfer_decode = pbtools_message_decode proto_gradido_gradido_deferred_transfer_decode_inner"

section \<open>The calls of \<open>gradido_redeem_deferred_transfer\<close>\<close>

definition proto_gradido_gradido_redeem_deferred_transfer_encode_repeated_inner :: "nat \<Rightarrow> proto_gradido_gradido_redeem_deferred_transfer_t list \<Rightarrow> pb_write" where
  "proto_gradido_gradido_redeem_deferred_transfer_encode_repeated_inner field items = pbtools_encode_repeated_inner field proto_gradido_gradido_redeem_deferred_transfer_encode_inner items"

definition proto_gradido_gradido_redeem_deferred_transfer_decode_repeated_inner ::
  "pb_repeated_info \<Rightarrow> proto_gradido_gradido_redeem_deferred_transfer_t list \<times> pb_decoder \<Rightarrow> proto_gradido_gradido_redeem_deferred_transfer_t list \<times> pb_decoder" where
  "proto_gradido_gradido_redeem_deferred_transfer_decode_repeated_inner =
     pbtools_decode_repeated_inner SIZEOF_gradido_redeem_deferred_transfer proto_gradido_gradido_redeem_deferred_transfer_init proto_gradido_gradido_redeem_deferred_transfer_decode_inner"

definition proto_gradido_gradido_redeem_deferred_transfer_new :: "nat \<Rightarrow> nat \<Rightarrow> (proto_gradido_gradido_redeem_deferred_transfer_t \<times> pb_heap) option" where
  "proto_gradido_gradido_redeem_deferred_transfer_new address n = pbtools_message_new address n SIZEOF_gradido_redeem_deferred_transfer proto_gradido_gradido_redeem_deferred_transfer_init"

definition proto_gradido_gradido_redeem_deferred_transfer_encode :: "proto_gradido_gradido_redeem_deferred_transfer_t \<Rightarrow> nat \<Rightarrow> c_fault + (int \<times> bytes)" where
  "proto_gradido_gradido_redeem_deferred_transfer_encode = pbtools_message_encode proto_gradido_gradido_redeem_deferred_transfer_encode_inner"

definition proto_gradido_gradido_redeem_deferred_transfer_decode :: "proto_gradido_gradido_redeem_deferred_transfer_t \<Rightarrow> bytes \<Rightarrow> nat \<Rightarrow> pb_heap \<Rightarrow> int \<times> proto_gradido_gradido_redeem_deferred_transfer_t \<times> pb_heap" where
  "proto_gradido_gradido_redeem_deferred_transfer_decode = pbtools_message_decode proto_gradido_gradido_redeem_deferred_transfer_decode_inner"

section \<open>The calls of \<open>gradido_timeout_deferred_transfer\<close>\<close>

definition proto_gradido_gradido_timeout_deferred_transfer_encode_repeated_inner :: "nat \<Rightarrow> proto_gradido_gradido_timeout_deferred_transfer_t list \<Rightarrow> pb_write" where
  "proto_gradido_gradido_timeout_deferred_transfer_encode_repeated_inner field items = pbtools_encode_repeated_inner field proto_gradido_gradido_timeout_deferred_transfer_encode_inner items"

definition proto_gradido_gradido_timeout_deferred_transfer_decode_repeated_inner ::
  "pb_repeated_info \<Rightarrow> proto_gradido_gradido_timeout_deferred_transfer_t list \<times> pb_decoder \<Rightarrow> proto_gradido_gradido_timeout_deferred_transfer_t list \<times> pb_decoder" where
  "proto_gradido_gradido_timeout_deferred_transfer_decode_repeated_inner =
     pbtools_decode_repeated_inner SIZEOF_gradido_timeout_deferred_transfer proto_gradido_gradido_timeout_deferred_transfer_init proto_gradido_gradido_timeout_deferred_transfer_decode_inner"

definition proto_gradido_gradido_timeout_deferred_transfer_new :: "nat \<Rightarrow> nat \<Rightarrow> (proto_gradido_gradido_timeout_deferred_transfer_t \<times> pb_heap) option" where
  "proto_gradido_gradido_timeout_deferred_transfer_new address n = pbtools_message_new address n SIZEOF_gradido_timeout_deferred_transfer proto_gradido_gradido_timeout_deferred_transfer_init"

definition proto_gradido_gradido_timeout_deferred_transfer_encode :: "proto_gradido_gradido_timeout_deferred_transfer_t \<Rightarrow> nat \<Rightarrow> c_fault + (int \<times> bytes)" where
  "proto_gradido_gradido_timeout_deferred_transfer_encode = pbtools_message_encode proto_gradido_gradido_timeout_deferred_transfer_encode_inner"

definition proto_gradido_gradido_timeout_deferred_transfer_decode :: "proto_gradido_gradido_timeout_deferred_transfer_t \<Rightarrow> bytes \<Rightarrow> nat \<Rightarrow> pb_heap \<Rightarrow> int \<times> proto_gradido_gradido_timeout_deferred_transfer_t \<times> pb_heap" where
  "proto_gradido_gradido_timeout_deferred_transfer_decode = pbtools_message_decode proto_gradido_gradido_timeout_deferred_transfer_decode_inner"

section \<open>The calls of \<open>account_id\<close>\<close>

definition proto_gradido_account_id_encode_repeated_inner :: "nat \<Rightarrow> proto_gradido_account_id_t list \<Rightarrow> pb_write" where
  "proto_gradido_account_id_encode_repeated_inner field items = pbtools_encode_repeated_inner field proto_gradido_account_id_encode_inner items"

definition proto_gradido_account_id_decode_repeated_inner ::
  "pb_repeated_info \<Rightarrow> proto_gradido_account_id_t list \<times> pb_decoder \<Rightarrow> proto_gradido_account_id_t list \<times> pb_decoder" where
  "proto_gradido_account_id_decode_repeated_inner =
     pbtools_decode_repeated_inner SIZEOF_account_id proto_gradido_account_id_init proto_gradido_account_id_decode_inner"

definition proto_gradido_account_id_new :: "nat \<Rightarrow> nat \<Rightarrow> (proto_gradido_account_id_t \<times> pb_heap) option" where
  "proto_gradido_account_id_new address n = pbtools_message_new address n SIZEOF_account_id proto_gradido_account_id_init"

definition proto_gradido_account_id_encode :: "proto_gradido_account_id_t \<Rightarrow> nat \<Rightarrow> c_fault + (int \<times> bytes)" where
  "proto_gradido_account_id_encode = pbtools_message_encode proto_gradido_account_id_encode_inner"

definition proto_gradido_account_id_decode :: "proto_gradido_account_id_t \<Rightarrow> bytes \<Rightarrow> nat \<Rightarrow> pb_heap \<Rightarrow> int \<times> proto_gradido_account_id_t \<times> pb_heap" where
  "proto_gradido_account_id_decode = pbtools_message_decode proto_gradido_account_id_decode_inner"

section \<open>The calls of \<open>topic_id\<close>\<close>

definition proto_gradido_topic_id_encode_repeated_inner :: "nat \<Rightarrow> proto_gradido_topic_id_t list \<Rightarrow> pb_write" where
  "proto_gradido_topic_id_encode_repeated_inner field items = pbtools_encode_repeated_inner field proto_gradido_topic_id_encode_inner items"

definition proto_gradido_topic_id_decode_repeated_inner ::
  "pb_repeated_info \<Rightarrow> proto_gradido_topic_id_t list \<times> pb_decoder \<Rightarrow> proto_gradido_topic_id_t list \<times> pb_decoder" where
  "proto_gradido_topic_id_decode_repeated_inner =
     pbtools_decode_repeated_inner SIZEOF_topic_id proto_gradido_topic_id_init proto_gradido_topic_id_decode_inner"

definition proto_gradido_topic_id_new :: "nat \<Rightarrow> nat \<Rightarrow> (proto_gradido_topic_id_t \<times> pb_heap) option" where
  "proto_gradido_topic_id_new address n = pbtools_message_new address n SIZEOF_topic_id proto_gradido_topic_id_init"

definition proto_gradido_topic_id_encode :: "proto_gradido_topic_id_t \<Rightarrow> nat \<Rightarrow> c_fault + (int \<times> bytes)" where
  "proto_gradido_topic_id_encode = pbtools_message_encode proto_gradido_topic_id_encode_inner"

definition proto_gradido_topic_id_decode :: "proto_gradido_topic_id_t \<Rightarrow> bytes \<Rightarrow> nat \<Rightarrow> pb_heap \<Rightarrow> int \<times> proto_gradido_topic_id_t \<times> pb_heap" where
  "proto_gradido_topic_id_decode = pbtools_message_decode proto_gradido_topic_id_decode_inner"

section \<open>The calls of \<open>transaction_id\<close>\<close>

definition proto_gradido_transaction_id_encode_repeated_inner :: "nat \<Rightarrow> proto_gradido_transaction_id_t list \<Rightarrow> pb_write" where
  "proto_gradido_transaction_id_encode_repeated_inner field items = pbtools_encode_repeated_inner field proto_gradido_transaction_id_encode_inner items"

definition proto_gradido_transaction_id_decode_repeated_inner ::
  "pb_repeated_info \<Rightarrow> proto_gradido_transaction_id_t list \<times> pb_decoder \<Rightarrow> proto_gradido_transaction_id_t list \<times> pb_decoder" where
  "proto_gradido_transaction_id_decode_repeated_inner =
     pbtools_decode_repeated_inner SIZEOF_transaction_id proto_gradido_transaction_id_init proto_gradido_transaction_id_decode_inner"

definition proto_gradido_transaction_id_new :: "nat \<Rightarrow> nat \<Rightarrow> (proto_gradido_transaction_id_t \<times> pb_heap) option" where
  "proto_gradido_transaction_id_new address n = pbtools_message_new address n SIZEOF_transaction_id proto_gradido_transaction_id_init"

definition proto_gradido_transaction_id_encode :: "proto_gradido_transaction_id_t \<Rightarrow> nat \<Rightarrow> c_fault + (int \<times> bytes)" where
  "proto_gradido_transaction_id_encode = pbtools_message_encode proto_gradido_transaction_id_encode_inner"

definition proto_gradido_transaction_id_decode :: "proto_gradido_transaction_id_t \<Rightarrow> bytes \<Rightarrow> nat \<Rightarrow> pb_heap \<Rightarrow> int \<times> proto_gradido_transaction_id_t \<times> pb_heap" where
  "proto_gradido_transaction_id_decode = pbtools_message_decode proto_gradido_transaction_id_decode_inner"

section \<open>The calls of \<open>ledger_anchor\<close>\<close>

definition proto_gradido_ledger_anchor_encode_repeated_inner :: "nat \<Rightarrow> proto_gradido_ledger_anchor_t list \<Rightarrow> pb_write" where
  "proto_gradido_ledger_anchor_encode_repeated_inner field items = pbtools_encode_repeated_inner field proto_gradido_ledger_anchor_encode_inner items"

definition proto_gradido_ledger_anchor_decode_repeated_inner ::
  "pb_repeated_info \<Rightarrow> proto_gradido_ledger_anchor_t list \<times> pb_decoder \<Rightarrow> proto_gradido_ledger_anchor_t list \<times> pb_decoder" where
  "proto_gradido_ledger_anchor_decode_repeated_inner =
     pbtools_decode_repeated_inner SIZEOF_ledger_anchor proto_gradido_ledger_anchor_init proto_gradido_ledger_anchor_decode_inner"

definition proto_gradido_ledger_anchor_new :: "nat \<Rightarrow> nat \<Rightarrow> (proto_gradido_ledger_anchor_t \<times> pb_heap) option" where
  "proto_gradido_ledger_anchor_new address n = pbtools_message_new address n SIZEOF_ledger_anchor proto_gradido_ledger_anchor_init"

definition proto_gradido_ledger_anchor_encode :: "proto_gradido_ledger_anchor_t \<Rightarrow> nat \<Rightarrow> c_fault + (int \<times> bytes)" where
  "proto_gradido_ledger_anchor_encode = pbtools_message_encode proto_gradido_ledger_anchor_encode_inner"

definition proto_gradido_ledger_anchor_decode :: "proto_gradido_ledger_anchor_t \<Rightarrow> bytes \<Rightarrow> nat \<Rightarrow> pb_heap \<Rightarrow> int \<times> proto_gradido_ledger_anchor_t \<times> pb_heap" where
  "proto_gradido_ledger_anchor_decode = pbtools_message_decode proto_gradido_ledger_anchor_decode_inner"

section \<open>The calls of \<open>register_address\<close>\<close>

definition proto_gradido_register_address_encode_repeated_inner :: "nat \<Rightarrow> proto_gradido_register_address_t list \<Rightarrow> pb_write" where
  "proto_gradido_register_address_encode_repeated_inner field items = pbtools_encode_repeated_inner field proto_gradido_register_address_encode_inner items"

definition proto_gradido_register_address_decode_repeated_inner ::
  "pb_repeated_info \<Rightarrow> proto_gradido_register_address_t list \<times> pb_decoder \<Rightarrow> proto_gradido_register_address_t list \<times> pb_decoder" where
  "proto_gradido_register_address_decode_repeated_inner =
     pbtools_decode_repeated_inner SIZEOF_register_address proto_gradido_register_address_init proto_gradido_register_address_decode_inner"

definition proto_gradido_register_address_new :: "nat \<Rightarrow> nat \<Rightarrow> (proto_gradido_register_address_t \<times> pb_heap) option" where
  "proto_gradido_register_address_new address n = pbtools_message_new address n SIZEOF_register_address proto_gradido_register_address_init"

definition proto_gradido_register_address_encode :: "proto_gradido_register_address_t \<Rightarrow> nat \<Rightarrow> c_fault + (int \<times> bytes)" where
  "proto_gradido_register_address_encode = pbtools_message_encode proto_gradido_register_address_encode_inner"

definition proto_gradido_register_address_decode :: "proto_gradido_register_address_t \<Rightarrow> bytes \<Rightarrow> nat \<Rightarrow> pb_heap \<Rightarrow> int \<times> proto_gradido_register_address_t \<times> pb_heap" where
  "proto_gradido_register_address_decode = pbtools_message_decode proto_gradido_register_address_decode_inner"

section \<open>The calls of \<open>transaction_body\<close>\<close>

definition proto_gradido_transaction_body_encode_repeated_inner :: "nat \<Rightarrow> proto_gradido_transaction_body_t list \<Rightarrow> pb_write" where
  "proto_gradido_transaction_body_encode_repeated_inner field items = pbtools_encode_repeated_inner field proto_gradido_transaction_body_encode_inner items"

definition proto_gradido_transaction_body_decode_repeated_inner ::
  "pb_repeated_info \<Rightarrow> proto_gradido_transaction_body_t list \<times> pb_decoder \<Rightarrow> proto_gradido_transaction_body_t list \<times> pb_decoder" where
  "proto_gradido_transaction_body_decode_repeated_inner =
     pbtools_decode_repeated_inner SIZEOF_transaction_body proto_gradido_transaction_body_init proto_gradido_transaction_body_decode_inner"

end
