(* ===== verification/GRD_Protocol.thy ===== *)
theory GRD_Protocol
  imports GRD_Decode_Ends GRD_Message_Api
begin

text \<open>
  What the encoded form of a transaction promises: what is written can be read back, a buffer that is too
  short is refused, bytes from anywhere are read to an end, and what happens when the heap is too small for
  the items of a repeated field.
\<close>

section \<open>A sample\<close>

definition sample_signatures :: proto_gradido_signature_map_t where
  "sample_signatures = \<lparr>psm_sig_pair = [\<lparr>psp_pubkey = [1, 2], psp_signature = [3]\<rparr>]\<rparr>"

definition sample_confirmed :: proto_gradido_confirmed_transaction_t where
  "sample_confirmed = proto_gradido_confirmed_transaction_init
     \<lparr>pcx_id := 300,
      pcx_transaction_p := Some (proto_gradido_gradido_transaction_init
        \<lparr>pgx_sig_map_p := Some sample_signatures, pgx_body_bytes := [7, 7]\<rparr>),
      pcx_confirmed_at_p := Some \<lparr>pts_seconds = 1, pts_nanos = 0\<rparr>,
      pcx_running_hash := [9]\<rparr>"

lemma sample_signatures_bytes: "signature_map_bytes sample_signatures = [10, 7, 10, 2, 1, 2, 18, 1, 3]"
  by code_simp

lemma sample_bytes: "confirmed_transaction_bytes sample_confirmed =
   [8, 172, 2, 18, 15, 10, 9, 10, 7, 10, 2, 1, 2, 18, 1, 3, 18, 2, 7, 7, 26, 2, 8, 1, 42, 1, 9]"
  by code_simp

lemma sample_need: "confirmed_transaction_need sample_confirmed = 169"
  by code_simp

lemma sample_proper: "confirmed_transaction_proper sample_confirmed"
  by (simp add: sample_confirmed_def confirmed_transaction_proper_def gradido_transaction_proper_def
      proto_gradido_gradido_transaction_init_def proto_gradido_confirmed_transaction_init_def)

section \<open>There and back\<close>

text \<open>C24: A confirmed transaction written to a buffer with room for it is read back from the bytes written,
  all of them: the transaction with its signatures and its pairing anchor, the date, the hash, the anchor of
  the ledger and every balance. The one byte of room more than the encoding has is the one the encoder never
  uses.\<close>
theorem confirmed_transaction_roundtrip:
  assumes "confirmed_transaction_proper m" "short (confirmed_transaction_bytes m)"
    and "length (confirmed_transaction_bytes m) < n" "n < 2147483648"
    and "heap_room (confirmed_transaction_need m) h"
  shows "\<exists>bs h'. proto_gradido_confirmed_transaction_encode m n = Inr (int (length bs), bs)
    \<and> proto_gradido_confirmed_transaction_decode proto_gradido_confirmed_transaction_init bs (length bs) h
      = (int (length bs), m, h')"
  unfolding proto_gradido_confirmed_transaction_encode_def proto_gradido_confirmed_transaction_decode_def
  using confirmed_transaction.buffer_encodes [OF assms(1-4)]
    confirmed_transaction.buffer_decodes [OF assms(1,2), of 0 h] assms(5) by auto

theorem confirmed_transaction_roundtrip_witness:
  "\<exists>bs h'. proto_gradido_confirmed_transaction_encode sample_confirmed 100 = Inr (int (length bs), bs)
    \<and> proto_gradido_confirmed_transaction_decode proto_gradido_confirmed_transaction_init bs (length bs)
        \<lparr>hp_base = 0, hp_size = 1024, hp_pos = 16\<rparr> = (int (length bs), sample_confirmed, h')"
  by (rule confirmed_transaction_roundtrip)
    (simp_all add: sample_proper sample_bytes sample_need short_def heap_room_def)

section \<open>A buffer that is too short\<close>

text \<open>C25: A buffer with no more bytes than the encoding is long is refused: every root message answers the
  error for a full buffer, whichever field did not fit.\<close>
theorem short_buffer_refused:
  assumes "0 < n" "n < 2147483648"
  shows "(confirmed_transaction_proper c \<and> short (confirmed_transaction_bytes c) \<and> n \<le> length (confirmed_transaction_bytes c)
      \<longrightarrow> (\<exists>out. proto_gradido_confirmed_transaction_encode c n = Inr (- PBTOOLS_ENCODE_BUFFER_FULL, out)))
    \<and> (transaction_body_proper b \<and> short (transaction_body_bytes b) \<and> n \<le> length (transaction_body_bytes b)
      \<longrightarrow> (\<exists>out. proto_gradido_transaction_body_encode b n = Inr (- PBTOOLS_ENCODE_BUFFER_FULL, out)))
    \<and> (gradido_transaction_proper g \<and> short (gradido_transaction_bytes g) \<and> n \<le> length (gradido_transaction_bytes g)
      \<longrightarrow> (\<exists>out. proto_gradido_gradido_transaction_encode g n = Inr (- PBTOOLS_ENCODE_BUFFER_FULL, out)))"
  unfolding proto_gradido_confirmed_transaction_encode_def proto_gradido_transaction_body_encode_def
    proto_gradido_gradido_transaction_encode_def
  using assms by (auto intro: confirmed_transaction.buffer_full transaction_body.buffer_full gradido_transaction.buffer_full)

theorem short_buffer_refused_witness:
  "\<exists>out. proto_gradido_confirmed_transaction_encode sample_confirmed 27 = Inr (- PBTOOLS_ENCODE_BUFFER_FULL, out)"
  using short_buffer_refused [of 27 sample_confirmed undefined undefined] by (simp add: sample_proper sample_bytes short_def)

section \<open>Bytes from anywhere\<close>

lemma advances_read_all:
  assumes "advances d d'" "dec_pos d < 0 \<or> dec_pos d = dec_size d"
  shows "dec_pos d' < 0 \<or> dec_pos d' = dec_size d'"
  using assms by (auto simp: advances_def sane_def)

lemma init_sane: "length bs < 2147483648 \<Longrightarrow> sane (decoder_init bs (length bs) h)"
  by (simp add: decoder_init_def sane_def c_int_small)

text \<open>A message read by one loop, or by a loop and the items it has counted.\<close>

lemma message_read:
  assumes n: "length bs < 2147483648"
    and inner: "\<And>d r. sane d \<Longrightarrow> r = decode_inner m d \<Longrightarrow> advances d (snd r) \<and> (dec_pos (snd r) < 0 \<or> dec_pos (snd r) = dec_size (snd r))"
    and r: "r = fst (pbtools_message_decode decode_inner m bs (length bs) h)"
  shows "r < 0 \<or> r = int (length bs)"
proof -
  let ?d = "decoder_init bs (length bs) h"
  obtain m' d' where d': "decode_inner m ?d = (m', d')" by fastforce
  have "advances ?d d'" "dec_pos d' < 0 \<or> dec_pos d' = dec_size d'"
    using inner [OF init_sane [OF n] d' [symmetric]] by simp_all
  moreover have "dec_size ?d = int (length bs)" using n by (simp add: decoder_init_def c_int_small)
  ultimately show ?thesis using r by (auto simp: pbtools_message_decode_def d' advances_def)
qed

lemma body_read:
  assumes "sane d" "r = proto_gradido_transaction_body_decode_inner m d"
  shows "advances d (snd r) \<and> (dec_pos (snd r) < 0 \<or> dec_pos (snd r) = dec_size (snd r))"
proof -
  obtain m1 i1 d1 where f: "decode_fields proto_gradido_transaction_body_field ((m, pbtools_repeated_info_init 1 d), d) = ((m1, i1), d1)"
    by (metis prod.collapse)
  note e = transaction_body_switch.fields_read [OF assms(1) f]
  obtain v d2 where v: "proto_gradido_encrypted_memo_decode_repeated_inner i1 (pbx_memos m1, d1) = (v, d2)" by fastforce
  have "advances d1 d2"
    using repeated_advances [OF advances_sane [OF conjunct1 [OF e]], of SIZEOF_encrypted_memo proto_gradido_encrypted_memo_init
        proto_gradido_encrypted_memo_decode_inner i1 "pbx_memos m1"]
    by (simp add: v [unfolded proto_gradido_encrypted_memo_decode_repeated_inner_def])
  moreover have "snd r = d2"
    using assms(2) by (simp only: proto_gradido_transaction_body_decode_inner_def f v prod.case snd_conv)
  ultimately show ?thesis using e advances_read_all [of d1 d2] by (auto intro: advances_trans)
qed

lemma confirmed_read:
  assumes "sane d" "r = proto_gradido_confirmed_transaction_decode_inner m d"
  shows "advances d (snd r) \<and> (dec_pos (snd r) < 0 \<or> dec_pos (snd r) = dec_size (snd r))"
proof -
  obtain m1 i1 d1 where f: "decode_fields proto_gradido_confirmed_transaction_field ((m, pbtools_repeated_info_init 7 d), d) = ((m1, i1), d1)"
    by (metis prod.collapse)
  note e = confirmed_transaction_switch.fields_read [OF assms(1) f]
  obtain v d2 where v: "proto_gradido_account_balance_decode_repeated_inner i1 (pcx_account_balances m1, d1) = (v, d2)" by fastforce
  have "advances d1 d2"
    using repeated_advances [OF advances_sane [OF conjunct1 [OF e]], of SIZEOF_account_balance proto_gradido_account_balance_init
        proto_gradido_account_balance_decode_inner i1 "pcx_account_balances m1"]
    by (simp add: v [unfolded proto_gradido_account_balance_decode_repeated_inner_def])
  moreover have "snd r = d2"
    using assms(2) by (simp only: proto_gradido_confirmed_transaction_decode_inner_def f v prod.case snd_conv)
  ultimately show ?thesis using e advances_read_all [of d1 d2] by (auto intro: advances_trans)
qed

lemma gradido_transaction_read:
  assumes "sane d" "r = proto_gradido_gradido_transaction_decode_inner m d"
  shows "advances d (snd r) \<and> (dec_pos (snd r) < 0 \<or> dec_pos (snd r) = dec_size (snd r))"
  using gradido_transaction_switch.fields_read [OF assms(1), of m "fst r" "snd r"] assms(2)
  by (simp add: proto_gradido_gradido_transaction_decode_inner_def)

lemmas every_loop_ends = confirmed_transaction_switch.loop_ends transaction_body_switch.loop_ends
  gradido_transaction_switch.loop_ends signature_map_switch.loop_ends signature_pair_switch.loop_ends
  encrypted_memo_switch.loop_ends account_balance_switch.loop_ends ledger_anchor_switch.loop_ends
  transaction_id_switch.loop_ends account_id_switch.loop_ends timestamp_switch.loop_ends
  timestamp_seconds_switch.loop_ends duration_seconds_switch.loop_ends transfer_amount_switch.loop_ends
  gradido_transfer_switch.loop_ends gradido_creation_switch.loop_ends community_friends_update_switch.loop_ends
  register_address_switch.loop_ends community_root_switch.loop_ends gradido_deferred_transfer_switch.loop_ends
  gradido_redeem_deferred_transfer_switch.loop_ends gradido_timeout_deferred_transfer_switch.loop_ends
  items_loop_ends

text \<open>C26: Bytes from anywhere are read to an end. Whatever stands in them, the loop of every message a
  confirmed transaction or a body can hold ends, so does the loop over the items of a repeated field, and
  decoding answers a negative error or the number of the bytes, never that it stopped between.\<close>
theorem any_bytes_are_read:
  assumes "length bs < 2147483648"
  shows "(fields_end proto_gradido_confirmed_transaction_field \<and> fields_end proto_gradido_transaction_body_field
      \<and> fields_end proto_gradido_gradido_transaction_field \<and> fields_end proto_gradido_signature_map_field
      \<and> fields_end proto_gradido_signature_pair_field \<and> fields_end proto_gradido_encrypted_memo_field
      \<and> fields_end proto_gradido_account_balance_field \<and> fields_end proto_gradido_ledger_anchor_field
      \<and> fields_end proto_gradido_transaction_id_field \<and> fields_end proto_gradido_account_id_field
      \<and> fields_end proto_gradido_timestamp_field \<and> fields_end proto_gradido_timestamp_seconds_field
      \<and> fields_end proto_gradido_duration_seconds_field \<and> fields_end proto_gradido_transfer_amount_field
      \<and> fields_end proto_gradido_gradido_transfer_field \<and> fields_end proto_gradido_gradido_creation_field
      \<and> fields_end proto_gradido_community_friends_update_field \<and> fields_end proto_gradido_register_address_field
      \<and> fields_end proto_gradido_community_root_field \<and> fields_end proto_gradido_gradido_deferred_transfer_field
      \<and> fields_end proto_gradido_gradido_redeem_deferred_transfer_field \<and> fields_end proto_gradido_gradido_timeout_deferred_transfer_field
      \<and> items_end proto_gradido_signature_pair_decode_inner \<and> items_end proto_gradido_encrypted_memo_decode_inner
      \<and> items_end proto_gradido_account_balance_decode_inner)
    \<and> (fst (proto_gradido_confirmed_transaction_decode c bs (length bs) h) < 0
      \<or> fst (proto_gradido_confirmed_transaction_decode c bs (length bs) h) = int (length bs))
    \<and> (fst (proto_gradido_transaction_body_decode b bs (length bs) h) < 0
      \<or> fst (proto_gradido_transaction_body_decode b bs (length bs) h) = int (length bs))
    \<and> (fst (proto_gradido_gradido_transaction_decode g bs (length bs) h) < 0
      \<or> fst (proto_gradido_gradido_transaction_decode g bs (length bs) h) = int (length bs))"
  unfolding proto_gradido_confirmed_transaction_decode_def proto_gradido_transaction_body_decode_def
    proto_gradido_gradido_transaction_decode_def
  by (intro conjI message_read [OF assms confirmed_read refl] message_read [OF assms body_read refl]
      message_read [OF assms gradido_transaction_read refl] every_loop_ends)

theorem any_bytes_are_read_witness:
  "length [0x80 :: u8, 0xFF, 8] < 2147483648 \<and>
   (fst (proto_gradido_confirmed_transaction_decode proto_gradido_confirmed_transaction_init [0x80, 0xFF, 8]
       (length [0x80 :: u8, 0xFF, 8]) \<lparr>hp_base = 0, hp_size = 64, hp_pos = 16\<rparr>) < 0
    \<or> fst (proto_gradido_confirmed_transaction_decode proto_gradido_confirmed_transaction_init [0x80, 0xFF, 8]
       (length [0x80 :: u8, 0xFF, 8]) \<lparr>hp_base = 0, hp_size = 64, hp_pos = 16\<rparr>) = 3)"
  using any_bytes_are_read [of "[0x80, 0xFF, 8]" proto_gradido_confirmed_transaction_init
      "\<lparr>hp_base = 0, hp_size = 64, hp_pos = 16\<rparr>" proto_gradido_transaction_body_init
      proto_gradido_gradido_transaction_init] by simp

section \<open>A heap that is too small\<close>

lemma seek_heap [simp]: "dec_heap (decoder_seek offset d) = dec_heap d"
  by (simp add: decoder_seek_def decoder_abort_def)

lemma abort_heap [simp]: "dec_heap (decoder_abort err d) = dec_heap d"
  by (simp add: decoder_abort_def)

lemma get_heap: "dec_heap (snd (decoder_get d)) = dec_heap d"
  by (simp add: decoder_get_def)

lemma varint_loop_heap: "dec_heap (snd (snd (read_varint_loop offset v d))) = dec_heap d"
proof (induction offset v d rule: read_varint_loop.induct)
  case (1 offset v d)
  obtain byte d1 where g: "decoder_get d = (byte, d1)" by fastforce
  have h: "dec_heap d1 = dec_heap d" using get_heap [of d] g by simp
  show ?case
    using "1.IH" [OF g [symmetric] refl] h
    by (subst read_varint_loop.simps) (simp add: g Let_def del: push_bit_and)
qed

lemma varint_heap [simp]: "dec_heap (snd (decoder_read_varint d)) = dec_heap d"
  using varint_loop_heap [of 0 0 d] by (auto simp: decoder_read_varint_def split: prod.split)

lemma length_heap: "dec_heap (snd (decoder_read_length_delimited wire d)) = dec_heap d"
  by (auto simp: decoder_read_length_delimited_def read_varint_check_wire_type_def split: prod.split)
    (metis varint_heap snd_conv)+

lemma tag_heap: "pbtools_decoder_read_tag d = (tag, wire, d') \<Longrightarrow> dec_heap d' = dec_heap d"
  by (auto simp: pbtools_decoder_read_tag_def Let_def split: prod.splits if_splits) (metis varint_heap snd_conv)+

lemma counting_heap: "dec_heap (snd (pbtools_repeated_info_decode wire (i, d))) = dec_heap d"
  by (auto simp: pbtools_repeated_info_decode_def Let_def split: prod.split) (metis length_heap snd_conv)

lemma skip_heap: "dec_heap (pbtools_decoder_skip_field wire d) = dec_heap d"
  by (auto simp: pbtools_decoder_skip_field_def split: prod.split) (metis length_heap snd_conv)

lemma signature_map_field_heap: "dec_heap (snd (proto_gradido_signature_map_field tag wire (s, d))) = dec_heap d"
  by (auto simp: proto_gradido_signature_map_field_def skip_heap split: prod.split) (metis counting_heap snd_conv)

lemma counting_loop_heap:
  assumes "sane d" "decode_fields proto_gradido_signature_map_field (s, d) = (s', d')"
  shows "dec_heap d' = dec_heap d"
proof -
  let ?b = "\<lambda>(s, d). pbtools_decoder_available d"
  let ?c = "\<lambda>(s, d). case pbtools_decoder_read_tag d of (tag, wire, d') \<Rightarrow> proto_gradido_signature_map_field tag wire (s, d')"
  obtain s1 d1 where r: "while_option ?b ?c (s, d) = Some (s1, d1)"
    using signature_map_switch.loop_ends assms(1) unfolding fields_end_def by blast
  have "dec_heap (snd (s1, d1)) = dec_heap d"
  proof (rule while_option_rule [where P = "\<lambda>t. dec_heap (snd t) = dec_heap d", OF _ r])
    fix t :: "(proto_gradido_signature_map_t \<times> pb_repeated_info) \<times> pb_decoder" assume "dec_heap (snd t) = dec_heap d"
    then show "dec_heap (snd (?c t)) = dec_heap d"
      by (auto simp: signature_map_field_heap split: prod.split dest: tag_heap)
  qed simp
  moreover have "(s', d') = (s1, d1)" using r assms(2) by (simp add: decode_fields_def while_def)
  ultimately show ?thesis by simp
qed

text \<open>C27: A signature map whose pairs do not fit in the heap is decoded without one word about it: the answer is
  that of a success, the number of the bytes, and the map has no signature at all.\<close>
theorem signatures_lost:
  assumes "short (signature_map_bytes m)" "psm_sig_pair m \<noteq> []"
    and n: "SIZEOF_signature_pair * length (psm_sig_pair m) < 2147483648"
    and full: "hp_size h - hp_pos h < int (SIZEOF_signature_pair * length (psm_sig_pair m))"
    and h: "0 \<le> hp_pos h" "hp_pos h \<le> hp_size h" "hp_size h \<le> INT_MAX"
  shows "proto_gradido_signature_map_decode proto_gradido_signature_map_init (signature_map_bytes m)
      (length (signature_map_bytes m)) h = (int (length (signature_map_bytes m)), m\<lparr>psm_sig_pair := []\<rparr>, h)"
proof -
  let ?bs = "signature_map_bytes m" and ?m0 = proto_gradido_signature_map_init
  let ?d = "decoder_init ?bs (length ?bs) h"
  let ?i = "pbtools_repeated_info_init 1 ?d"
  have len: "length ?bs < 2147483648" using assms(1) by (simp add: short_def)
  have at: "at_bytes (items_field 1 signature_pair_bytes (psm_sig_pair m) @ []) ?d"
    using assms(1) by (simp add: decoder_init_def at_bytes_def c_int_small short_def signature_map_bytes_def)
  have "room 0 ?d" using h by (simp add: decoder_init_def heap_room_def)
  then obtain i' d' where c: "decode_fields proto_gradido_signature_map_field ((?m0, ?i), ?d)
      = decode_fields proto_gradido_signature_map_field ((?m0, i'), d')"
    "counted 1 (map signature_pair_bytes (psm_sig_pair m)) i'" "at_bytes [] d'" "same_bytes ?d d'"
    using signature_pair.items_counted [of 1 "psm_sig_pair m" proto_gradido_signature_map_field ?m0 ?i "[]" ?d 0] at assms(1)
    by (auto simp: signature_map_simps signature_map_bytes_def pbtools_repeated_info_init_def)
  have read: "decode_fields proto_gradido_signature_map_field ((?m0, ?i), ?d) = ((?m0, i'), d')"
    unfolding c(1) by (rule decode_fields_end [OF c(3)])
  have heap: "dec_heap d' = h" using counting_loop_heap [OF init_sane [OF len] read] by (simp add: decoder_init_def)
  have "dec_pos d' = int (length ?bs)"
    using at_bytes_length [OF c(3)] c(4) len by (simp add: same_bytes_def decoder_init_def c_int_small)
  moreover have "ri_length i' = length (psm_sig_pair m)" using c(2) by (simp add: counted_def)
  moreover have "\<not> c_int (SIZEOF_signature_pair * length (psm_sig_pair m)) \<le> hp_size h - hp_pos h"
    using full by (simp add: c_int_small [OF n])
  ultimately show ?thesis
    using assms(2) read heap
    by (simp add: proto_gradido_signature_map_decode_def pbtools_message_decode_def proto_gradido_signature_map_decode_inner_def
        proto_gradido_signature_pair_decode_repeated_inner_def pbtools_decode_repeated_inner_def
        pbtools_alloc_repeated_def heap_alloc_def Let_def proto_gradido_signature_map_init_def)
qed

theorem signatures_lost_witness:
  "proto_gradido_signature_map_decode proto_gradido_signature_map_init [10, 7, 10, 2, 1, 2, 18, 1, 3]
      (length [10 :: u8, 7, 10, 2, 1, 2, 18, 1, 3]) \<lparr>hp_base = 0, hp_size = 48, hp_pos = 16\<rparr> = (9, \<lparr>psm_sig_pair = []\<rparr>, \<lparr>hp_base = 0, hp_size = 48, hp_pos = 16\<rparr>)"
  using signatures_lost [of sample_signatures "\<lparr>hp_base = 0, hp_size = 48, hp_pos = 16\<rparr>"]
  by (simp add: sample_signatures_bytes short_def) (simp add: sample_signatures_def SIZEOF_signature_pair_def)

end
