(* ===== verification/GRD_Arnm.thy ===== *)
theory GRD_Arnm
  imports GRD_Data
begin

text \<open>
  What the index uses of arnm: roaring bitmaps with their queries, key maps, and the room of bucket
  vectors. arnm is not part of the repository, so its operations are the fields of a record the
  definitions take as an argument, and \<open>arnm_laws\<close> states what their callers rely on, in terms of the
  numbers a bitmap holds and the keys a map has in the order of their ids. An allocation may be
  refused at any time: the laws say what is unchanged then, never that it succeeds. The state of the
  allocator is the type \<open>'p\<close>, passed along. \<open>GRD_Arnm_List\<close> has an instance on plain
  lists that fulfils the laws.
\<close>

section \<open>Sequencing\<close>

text \<open>A call whose refusal ends the function, and a loop of such calls.\<close>

definition bind_ok :: "arnm_result \<times> 'x \<Rightarrow> ('x \<Rightarrow> arnm_result \<times> 'x) \<Rightarrow> arnm_result \<times> 'x" where
  "bind_ok r f = (if fst r = ARNM_SUCCESS then f (snd r) else r)"

fun for_each :: "('a \<Rightarrow> 'x \<Rightarrow> arnm_result \<times> 'x) \<Rightarrow> 'a list \<Rightarrow> 'x \<Rightarrow> arnm_result \<times> 'x" where
  "for_each f [] s = (ARNM_SUCCESS, s)"
| "for_each f (a # as) s = bind_ok (f a s) (for_each f as)"

section \<open>The operations\<close>

record 's roaring_query =
  q_all :: "'s list"
  q_any :: "'s list"
  q_none :: "'s list"
  q_min :: u32
  q_max :: u32

record ('s, 'm, 'p) arnm_ops =
  pool_init :: "'p \<Rightarrow> arnm_result \<times> 'p"
  pool_release :: "'p \<Rightarrow> 'p"
  bvec_init :: "nat \<Rightarrow> 'p \<Rightarrow> arnm_result \<times> 'p"
  bvec_reserve :: "u32 \<Rightarrow> 'p \<Rightarrow> arnm_result \<times> 'p"
  bvec_grow :: "'p \<Rightarrow> arnm_result \<times> 'p"
  bvec_free :: "'p \<Rightarrow> 'p"
  key_map_none :: "'m"
  key_map_init :: "nat \<Rightarrow> nat \<Rightarrow> 'p \<Rightarrow> arnm_result \<times> 'm \<times> 'p"
  key_map_reserve :: "'m \<Rightarrow> u32 \<Rightarrow> 'p \<Rightarrow> arnm_result \<times> 'm \<times> 'p"
  key_map_free :: "'m \<Rightarrow> 'p \<Rightarrow> 'p"
  key_map_clear :: "'m \<Rightarrow> 'm"
  key_map_get_or_insert :: "'m \<Rightarrow> bytes \<Rightarrow> 'p \<Rightarrow> arnm_result \<times> u32 \<times> 'm \<times> 'p"
  key_map_find :: "'m \<Rightarrow> bytes \<Rightarrow> u32 option"
  key_map_size :: "'m \<Rightarrow> u32"
  roaring_none :: "'s"
  roaring_add :: "'s \<Rightarrow> u32 \<Rightarrow> 'p \<Rightarrow> arnm_result \<times> 's \<times> 'p"
  roaring_free :: "'s \<Rightarrow> 'p \<Rightarrow> 's \<times> 'p"
  roaring_maximum :: "'s \<Rightarrow> u32 option"
  roaring_contains :: "'s \<Rightarrow> u32 \<Rightarrow> bool"
  query_cardinality :: "'s roaring_query \<Rightarrow> arnm_result \<times> u64"
  query_listing :: "'s roaring_query \<Rightarrow> u32 \<Rightarrow> u32 \<Rightarrow> bool \<Rightarrow> arnm_result \<times> u32 list \<times> u64"
  query_page :: "'s roaring_query \<Rightarrow> u32 \<Rightarrow> u32 \<Rightarrow> bool \<Rightarrow> arnm_result \<times> u32 list"

text \<open>The elements of a vector are a list; growing it up to \<open>n\<close> elements asks for room one element at
  a time and keeps what it got when the room ends.\<close>

function grow_to :: "('s, 'm, 'p) arnm_ops \<Rightarrow> nat \<Rightarrow> 'e \<Rightarrow> 'e list \<times> 'p \<Rightarrow> arnm_result \<times> 'e list \<times> 'p" where
  "grow_to A n e s =
     (if length (fst s) < n then
        (case bvec_grow A (snd s) of (r, p) \<Rightarrow>
           if r \<noteq> ARNM_SUCCESS then (r, fst s, p) else grow_to A n e (fst s @ [e], p))
      else (ARNM_SUCCESS, s))"
  by pat_completeness auto
termination by (relation "measure (\<lambda>(A, n, e, s). n - length (fst s))") auto

declare grow_to.simps [simp del]

section \<open>What is relied on\<close>

definition query_names_set :: "'s roaring_query \<Rightarrow> bool" where
  "query_names_set q = (q_all q \<noteq> [] \<or> q_any q \<noteq> [])"

text \<open>The numbers a query matches.\<close>

definition query_set :: "('s \<Rightarrow> nat set) \<Rightarrow> 's roaring_query \<Rightarrow> nat set" where
  "query_set els q = {v. unat (q_min q) \<le> v \<and> v \<le> unat (q_max q)
     \<and> (\<forall>s \<in> set (q_all q). v \<in> els s)
     \<and> (q_any q = [] \<or> (\<exists>s \<in> set (q_any q). v \<in> els s))
     \<and> (\<forall>s \<in> set (q_none q). v \<notin> els s)}"

text \<open>A page of a set of numbers, from either end.\<close>

definition page_of :: "nat set \<Rightarrow> nat \<Rightarrow> nat \<Rightarrow> bool \<Rightarrow> nat list" where
  "page_of S skip n descending =
     take n (drop skip ((if descending then rev else id) (sorted_list_of_set S)))"

definition set_laws :: "('s, 'm, 'p) arnm_ops \<Rightarrow> ('s \<Rightarrow> nat set) \<Rightarrow> bool" where
  "set_laws A els \<longleftrightarrow>
     els (roaring_none A) = {}
     \<and> (\<forall>s. \<forall>v \<in> els s. v < 2 ^ 32)
     \<and> (\<forall>s v p r s' p'. roaring_add A s v p = (r, s', p') \<longrightarrow>
          els s' = (if r = ARNM_SUCCESS then insert (unat v) (els s) else els s))
     \<and> (\<forall>s p. els (fst (roaring_free A s p)) = {})
     \<and> (\<forall>s v. roaring_contains A s v \<longleftrightarrow> unat v \<in> els s)
     \<and> (\<forall>s. roaring_maximum A s = (if els s = {} then None else Some (word_of_nat (Max (els s)))))"

definition query_laws :: "('s, 'm, 'p) arnm_ops \<Rightarrow> ('s \<Rightarrow> nat set) \<Rightarrow> bool" where
  "query_laws A els \<longleftrightarrow>
     (\<forall>q. query_names_set q \<and> q_min q \<le> q_max q \<longrightarrow>
        query_cardinality A q = (ARNM_SUCCESS, word_of_nat (card (query_set els q)))
        \<and> (\<forall>skip n desc. query_listing A q skip n desc =
             (ARNM_SUCCESS, map word_of_nat (page_of (query_set els q) (unat skip) (unat n) desc),
              word_of_nat (card (query_set els q))))
        \<and> (\<forall>skip n desc. query_page A q skip n desc =
             (ARNM_SUCCESS, map word_of_nat (page_of (query_set els q) (unat skip) (unat n) desc))))"

definition map_laws :: "('s, 'm, 'p) arnm_ops \<Rightarrow> ('m \<Rightarrow> bytes list) \<Rightarrow> bool" where
  "map_laws A ks \<longleftrightarrow>
     (\<forall>m. distinct (ks m))
     \<and> ks (key_map_none A) = []
     \<and> (\<forall>n b p r m p'. key_map_init A n b p = (r, m, p') \<longrightarrow> ks m = [])
     \<and> (\<forall>m n p r m' p'. key_map_reserve A m n p = (r, m', p') \<longrightarrow> ks m' = ks m)
     \<and> (\<forall>m. ks (key_map_clear A m) = [])
     \<and> (\<forall>m k p r i m' p'. key_map_get_or_insert A m k p = (r, i, m', p') \<longrightarrow>
          (if r = ARNM_SUCCESS
           then unat i < length (ks m') \<and> ks m' ! unat i = k \<and> ks m' = (if k \<in> set (ks m) then ks m else ks m @ [k])
           else ks m' = ks m))
     \<and> (\<forall>m k. case key_map_find A m k of None \<Rightarrow> k \<notin> set (ks m)
          | Some i \<Rightarrow> unat i < length (ks m) \<and> ks m ! unat i = k)
     \<and> (\<forall>m. unat (key_map_size A m) = length (ks m))"

definition arnm_laws :: "('s, 'm, 'p) arnm_ops \<Rightarrow> ('s \<Rightarrow> nat set) \<Rightarrow> ('m \<Rightarrow> bytes list) \<Rightarrow> bool" where
  "arnm_laws A els ks \<longleftrightarrow> set_laws A els \<and> query_laws A els \<and> map_laws A ks"

end
