(* ===== verification/GRD_Filter.thy ===== *)
theory GRD_Filter
  imports GRD_Data
begin

text \<open>
  The filter of \<open>blockchain/transactions_filter.c\<close>: what a question about transactions names. A zero
  means \<open>not set\<close> throughout.
\<close>

type_synonym grdb_address_role = u32

abbreviation GRDB_ADDRESS_ROLE_NONE :: grdb_address_role where "GRDB_ADDRESS_ROLE_NONE \<equiv> 0"
abbreviation GRDB_ADDRESS_ROLE_INVOLVED :: grdb_address_role where "GRDB_ADDRESS_ROLE_INVOLVED \<equiv> 1"
abbreviation GRDB_ADDRESS_ROLE_BALANCE :: grdb_address_role where "GRDB_ADDRESS_ROLE_BALANCE \<equiv> 2"

record grdb_transactions_filter =
  f_public_key :: bytes
  f_coin_community_uuid :: bytes
  f_role :: grdb_address_role
  f_transaction_type :: grdt_transaction
  f_min_tx_nr :: u64
  f_max_tx_nr :: u64
  f_from_seconds :: i64
  f_to_seconds :: i64

definition empty_filter :: grdb_transactions_filter where
  "empty_filter = \<lparr>f_public_key = zeros SIGN_PUBLIC_KEY_SIZE,
     f_coin_community_uuid = zeros ARNM_UUID_BINARY_SIZE, f_role = GRDB_ADDRESS_ROLE_NONE,
     f_transaction_type = GRDT_TRANSACTION_NONE, f_min_tx_nr = 0, f_max_tx_nr = 0,
     f_from_seconds = 0, f_to_seconds = 0\<rparr>"

fun all_zero :: "bytes \<Rightarrow> nat \<Rightarrow> bool" where
  "all_zero bs 0 = True"
| "all_zero [] (Suc n) = False"
| "all_zero (b # bs) (Suc n) = (if b \<noteq> 0 then False else all_zero bs n)"

definition grdb_transactions_filter_init :: "grdb_transactions_filter option \<Rightarrow> grdb_transactions_filter option" where
  "grdb_transactions_filter_init f = (case f of None \<Rightarrow> None | Some _ \<Rightarrow> Some empty_filter)"

text \<open>\<open>malloc\<close> may answer \<open>NULL\<close>: the argument says whether it had room.\<close>

definition grdb_transactions_filter_create :: "bool \<Rightarrow> grdb_transactions_filter option" where
  "grdb_transactions_filter_create room = (if room then Some empty_filter else None)"

definition grdb_transactions_filter_set_address ::
  "grdb_transactions_filter option \<Rightarrow> bytes option \<Rightarrow> grdb_address_role
     \<Rightarrow> arnm_result \<times> grdb_transactions_filter option" where
  "grdb_transactions_filter_set_address f key role =
     (case f of None \<Rightarrow> (ARNM_ERROR_NULL_POINTER, None) | Some g \<Rightarrow>
      if role > GRDB_ADDRESS_ROLE_BALANCE then (ARNM_ERROR_INVALID_ENUM_TYPE, Some g)
      else if role = GRDB_ADDRESS_ROLE_NONE then
        (ARNM_SUCCESS, Some (g\<lparr>f_public_key := zeros SIGN_PUBLIC_KEY_SIZE, f_role := GRDB_ADDRESS_ROLE_NONE\<rparr>))
      else (case key of None \<Rightarrow> (ARNM_ERROR_NULL_POINTER, Some g)
        | Some k \<Rightarrow> (ARNM_SUCCESS, Some (g\<lparr>f_public_key := k, f_role := role\<rparr>))))"

definition grdb_transactions_filter_set_transaction_type ::
  "grdb_transactions_filter option \<Rightarrow> grdt_transaction \<Rightarrow> arnm_result \<times> grdb_transactions_filter option" where
  "grdb_transactions_filter_set_transaction_type f t =
     (case f of None \<Rightarrow> (ARNM_ERROR_NULL_POINTER, None) | Some g \<Rightarrow>
      if t \<ge> GRDT_TRANSACTION_COUNT then (ARNM_ERROR_INVALID_ENUM_TYPE, Some g)
      else (ARNM_SUCCESS, Some (g\<lparr>f_transaction_type := t\<rparr>)))"

definition grdb_transactions_filter_set_coin_community ::
  "grdb_transactions_filter option \<Rightarrow> bytes option \<Rightarrow> arnm_result \<times> grdb_transactions_filter option" where
  "grdb_transactions_filter_set_coin_community f uuid =
     (case f of None \<Rightarrow> (ARNM_ERROR_NULL_POINTER, None) | Some g \<Rightarrow>
      (case uuid of None \<Rightarrow> (ARNM_SUCCESS, Some (g\<lparr>f_coin_community_uuid := zeros ARNM_UUID_BINARY_SIZE\<rparr>))
      | Some u \<Rightarrow>
          if all_zero u ARNM_UUID_BINARY_SIZE then (ARNM_ERROR_INVALID_PARAM, Some g)
          else (ARNM_SUCCESS, Some (g\<lparr>f_coin_community_uuid := u\<rparr>))))"

definition grdb_transactions_filter_set_tx_range ::
  "grdb_transactions_filter option \<Rightarrow> u64 \<Rightarrow> u64 \<Rightarrow> arnm_result \<times> grdb_transactions_filter option" where
  "grdb_transactions_filter_set_tx_range f min_nr max_nr =
     (case f of None \<Rightarrow> (ARNM_ERROR_NULL_POINTER, None)
      | Some g \<Rightarrow> (ARNM_SUCCESS, Some (g\<lparr>f_min_tx_nr := min_nr, f_max_tx_nr := max_nr\<rparr>)))"

definition grdb_transactions_filter_set_date_range ::
  "grdb_transactions_filter option \<Rightarrow> i64 \<Rightarrow> i64 \<Rightarrow> arnm_result \<times> grdb_transactions_filter option" where
  "grdb_transactions_filter_set_date_range f from_s to_s =
     (case f of None \<Rightarrow> (ARNM_ERROR_NULL_POINTER, None)
      | Some g \<Rightarrow> (ARNM_SUCCESS, Some (g\<lparr>f_from_seconds := from_s, f_to_seconds := to_s\<rparr>)))"

definition grdb_transactions_filter_address :: "grdb_transactions_filter option \<Rightarrow> bytes option" where
  "grdb_transactions_filter_address f =
     (case f of None \<Rightarrow> None
      | Some g \<Rightarrow> if f_role g = GRDB_ADDRESS_ROLE_NONE then None else Some (f_public_key g))"

definition grdb_transactions_filter_coin_community :: "grdb_transactions_filter option \<Rightarrow> bytes option" where
  "grdb_transactions_filter_coin_community f =
     (case f of None \<Rightarrow> None
      | Some g \<Rightarrow> if all_zero (f_coin_community_uuid g) ARNM_UUID_BINARY_SIZE then None
                  else Some (f_coin_community_uuid g))"

lemma all_zero_zeros: "length bs = n \<Longrightarrow> all_zero bs n \<longleftrightarrow> bs = zeros n"
  by (induction bs n rule: all_zero.induct) (auto simp: zeros_def)

text \<open>What a filter may hold: the sizes of its arrays, a role and a type that exist.\<close>

definition wf_filter :: "grdb_transactions_filter \<Rightarrow> bool" where
  "wf_filter f = (length (f_public_key f) = SIGN_PUBLIC_KEY_SIZE
     \<and> length (f_coin_community_uuid f) = ARNM_UUID_BINARY_SIZE
     \<and> f_role f \<le> GRDB_ADDRESS_ROLE_BALANCE \<and> f_transaction_type f < GRDT_TRANSACTION_COUNT
     \<and> (f_role f = GRDB_ADDRESS_ROLE_NONE \<longrightarrow> f_public_key f = zeros SIGN_PUBLIC_KEY_SIZE))"

lemma wf_empty_filter: "wf_filter empty_filter"
  by (simp add: wf_filter_def empty_filter_def zeros_def)



text \<open>What is set is what is read back: an address is answered exactly while a role is set, the
  coin's community exactly while one is set.\<close>

lemma filter_reads_back:
  assumes "length key = SIGN_PUBLIC_KEY_SIZE" "length uuid = ARNM_UUID_BINARY_SIZE" "uuid \<noteq> zeros ARNM_UUID_BINARY_SIZE"
    and "role \<noteq> GRDB_ADDRESS_ROLE_NONE" "role \<le> GRDB_ADDRESS_ROLE_BALANCE"
    and "grdb_transactions_filter_set_address (Some f) (Some key) role = (r1, g)"
    and "grdb_transactions_filter_set_coin_community g (Some uuid) = (r2, h)"
  shows "r1 = ARNM_SUCCESS \<and> r2 = ARNM_SUCCESS \<and> grdb_transactions_filter_address h = Some key
    \<and> grdb_transactions_filter_coin_community h = Some uuid"
  using assms all_zero_zeros [OF assms(2)]
  by (auto simp: grdb_transactions_filter_set_address_def grdb_transactions_filter_set_coin_community_def
    grdb_transactions_filter_address_def grdb_transactions_filter_coin_community_def not_less split: if_splits)


end
