(* ===== verification/GRD_Transactions.thy ===== *)
theory GRD_Transactions
  imports GRD_Arnm GRD_Filter
begin

text \<open>
  The index of \<open>blockchain/transactions.c\<close>: sets of transaction numbers per address and role, per
  type, per foreign coin, and the largest number of every day; and the questions answered from them.
  The allocator \<open>source\<close> and the pool are the memory of type \<open>'p\<close>, passed next to the index. Numbers in
  the sets are offsets from \<open>base_tx_nr\<close>. The day of a second is an integer: it fits an \<open>int64_t\<close> with
  room to spare.
\<close>

section \<open>The index\<close>

abbreviation GRDB_PAGE_MAX :: u32 where "GRDB_PAGE_MAX \<equiv> 1000"
abbreviation INDEX_KEYS_BUCKET_LOG2 :: nat where "INDEX_KEYS_BUCKET_LOG2 \<equiv> 10"
abbreviation INDEX_SETS_BUCKET_LOG2 :: nat where "INDEX_SETS_BUCKET_LOG2 \<equiv> 9"
abbreviation INDEX_DAYS_BUCKET_LOG2 :: nat where "INDEX_DAYS_BUCKET_LOG2 \<equiv> 10"
abbreviation INDEX_COINS_BUCKET_LOG2 :: nat where "INDEX_COINS_BUCKET_LOG2 \<equiv> 6"
abbreviation INDEX_SECONDS_PER_DAY :: int where "INDEX_SECONDS_PER_DAY \<equiv> 86400"

record grdb_transactions_options =
  o_base_tx_nr :: u64
  o_expected_addresses :: u32
  o_expected_days :: u32

record 's grdb_address_sets =
  as_balance :: 's
  as_signed :: 's
  as_other :: 's

record ('s, 'm) grdb_transactions =
  gt_addresses :: 'm
  gt_address_sets :: "'s grdb_address_sets list"
  gt_day_max_tx :: "u32 list"
  gt_per_type :: "'s list"
  gt_coin_communities :: 'm
  gt_coin_sets :: "'s list"
  gt_foreign :: 's
  gt_chain_community_uuid :: bytes
  gt_base_tx_nr :: u64
  gt_min_tx_nr :: u64
  gt_max_tx_nr :: u64
  gt_first_day :: int
  gt_transaction_count :: u32
  gt_ready :: bool

text \<open>\<open>memset(index, 0, sizeof(*index))\<close>.\<close>

definition zero_index :: "('s, 'm, 'p) arnm_ops \<Rightarrow> ('s, 'm) grdb_transactions" where
  "zero_index A = \<lparr>gt_addresses = key_map_none A, gt_address_sets = [], gt_day_max_tx = [],
     gt_per_type = replicate (unat GRDT_TRANSACTION_COUNT) (roaring_none A),
     gt_coin_communities = key_map_none A, gt_coin_sets = [], gt_foreign = roaring_none A,
     gt_chain_community_uuid = zeros ARNM_UUID_BINARY_SIZE, gt_base_tx_nr = 0, gt_min_tx_nr = 0,
     gt_max_tx_nr = 0, gt_first_day = 0, gt_transaction_count = 0, gt_ready = False\<rparr>"

definition empty_address_sets :: "('s, 'm, 'p) arnm_ops \<Rightarrow> 's grdb_address_sets" where
  "empty_address_sets A = \<lparr>as_balance = roaring_none A, as_signed = roaring_none A, as_other = roaring_none A\<rparr>"

section \<open>Small readings\<close>

definition day_of_second :: "i64 \<Rightarrow> c_fault + int" where
  "day_of_second s =
     (if sint s \<ge> 0 then Inr (sint s div INDEX_SECONDS_PER_DAY)
      else if - sint s + INDEX_SECONDS_PER_DAY > 9223372036854775807 then Inl SignedOverflow
      else Inr (- ((- sint s + INDEX_SECONDS_PER_DAY - 1) div INDEX_SECONDS_PER_DAY)))"

definition set_ends_at :: "('s, 'm, 'p) arnm_ops \<Rightarrow> 's \<Rightarrow> u32 \<Rightarrow> bool" where
  "set_ends_at A s offset = (roaring_maximum A s = Some offset)"

section \<open>Building\<close>

text \<open>Every failure label gives back what the steps before it took.\<close>

definition grdb_transactions_init :: "('s, 'm, 'p) arnm_ops \<Rightarrow> ('s, 'm) grdb_transactions option
    \<Rightarrow> grdb_transactions_options option \<Rightarrow> 'p \<Rightarrow> arnm_result \<times> ('s, 'm) grdb_transactions option \<times> 'p" where
  "grdb_transactions_init A index options mem =
     (if index = None then (ARNM_ERROR_NULL_POINTER, None, mem) else
      let options = (case options of None \<Rightarrow> \<lparr>o_base_tx_nr = 0, o_expected_addresses = 0, o_expected_days = 0\<rparr>
                     | Some o' \<Rightarrow> o');
          index = (zero_index A)\<lparr>gt_base_tx_nr := o_base_tx_nr options\<rparr>;
          fail_pool = (\<lambda>r mem. (r, Some (zero_index A), pool_release A mem));
          fail_map = (\<lambda>r addr mem. fail_pool r (key_map_free A addr mem));
          fail_sets = (\<lambda>r addr mem. fail_map r addr (bvec_free A mem));
          fail_days_only = (\<lambda>r addr mem. fail_sets r addr (bvec_free A mem));
          fail_coin_map = (\<lambda>r addr coins mem. fail_days_only r addr (key_map_free A coins mem));
          fail_days = (\<lambda>r addr coins mem. fail_coin_map r addr coins (bvec_free A mem))
      in
      case pool_init A mem of (r, mem) \<Rightarrow> if r \<noteq> ARNM_SUCCESS then (r, Some index, mem) else
      case key_map_init A SIGN_PUBLIC_KEY_SIZE INDEX_KEYS_BUCKET_LOG2 mem of (r, addr, mem) \<Rightarrow>
        if r \<noteq> ARNM_SUCCESS then fail_pool r mem else
      case bvec_init A INDEX_SETS_BUCKET_LOG2 mem of (r, mem) \<Rightarrow> if r \<noteq> ARNM_SUCCESS then fail_map r addr mem else
      case bvec_init A INDEX_DAYS_BUCKET_LOG2 mem of (r, mem) \<Rightarrow> if r \<noteq> ARNM_SUCCESS then fail_sets r addr mem else
      case key_map_init A ARNM_UUID_BINARY_SIZE INDEX_COINS_BUCKET_LOG2 mem of (r, coins, mem) \<Rightarrow>
        if r \<noteq> ARNM_SUCCESS then fail_days_only r addr mem else
      case bvec_init A INDEX_COINS_BUCKET_LOG2 mem of (r, mem) \<Rightarrow>
        if r \<noteq> ARNM_SUCCESS then fail_coin_map r addr coins mem else
      case (if o_expected_addresses options \<noteq> 0 then
              (case key_map_reserve A addr (o_expected_addresses options) mem of (r, addr, mem) \<Rightarrow>
                 if r = ARNM_SUCCESS
                 then (case bvec_reserve A (o_expected_addresses options) mem of (r, mem) \<Rightarrow> (r, addr, mem))
                 else (r, addr, mem))
            else (ARNM_SUCCESS, addr, mem)) of (r, addr, mem) \<Rightarrow>
        if r \<noteq> ARNM_SUCCESS then fail_days r addr coins mem else
      case (if o_expected_days options \<noteq> 0 then bvec_reserve A (o_expected_days options) mem
            else (ARNM_SUCCESS, mem)) of (r, mem) \<Rightarrow>
        if r \<noteq> ARNM_SUCCESS then fail_days r addr coins mem
        else (ARNM_SUCCESS, Some (index\<lparr>gt_addresses := addr, gt_coin_communities := coins, gt_ready := True\<rparr>), mem))"

definition free_set :: "('s, 'm, 'p) arnm_ops \<Rightarrow> 's \<Rightarrow> 'p \<Rightarrow> 'p" where
  "free_set A s mem = snd (roaring_free A s mem)"

definition free_sets :: "('s, 'm, 'p) arnm_ops \<Rightarrow> ('s, 'm) grdb_transactions \<Rightarrow> 'p \<Rightarrow> 'p" where
  "free_sets A idx mem =
     free_set A (gt_foreign idx)
       (fold (free_set A) (gt_coin_sets idx)
         (fold (free_set A) (gt_per_type idx)
           (fold (\<lambda>s mem. free_set A (as_other s) (free_set A (as_signed s) (free_set A (as_balance s) mem)))
              (gt_address_sets idx) mem)))"

definition grdb_transactions_release :: "('s, 'm, 'p) arnm_ops \<Rightarrow> ('s, 'm) grdb_transactions option \<Rightarrow> 'p
    \<Rightarrow> ('s, 'm) grdb_transactions option \<times> 'p" where
  "grdb_transactions_release A index mem =
     (case index of None \<Rightarrow> (None, mem) | Some idx \<Rightarrow>
      if \<not> gt_ready idx then (index, mem)
      else (Some (zero_index A),
            pool_release A (key_map_free A (gt_addresses idx) (bvec_free A (bvec_free A
              (key_map_free A (gt_coin_communities idx) (bvec_free A (free_sets A idx mem))))))))"

definition grdb_transactions_reset :: "('s, 'm, 'p) arnm_ops \<Rightarrow> ('s, 'm) grdb_transactions option \<Rightarrow> 'p
    \<Rightarrow> ('s, 'm) grdb_transactions option \<times> 'p" where
  "grdb_transactions_reset A index mem =
     (case index of None \<Rightarrow> (None, mem) | Some idx \<Rightarrow>
      if \<not> gt_ready idx then (index, mem)
      else (Some (idx\<lparr>gt_per_type := replicate (unat GRDT_TRANSACTION_COUNT) (roaring_none A),
              gt_foreign := roaring_none A, gt_chain_community_uuid := zeros ARNM_UUID_BINARY_SIZE,
              gt_coin_communities := key_map_clear A (gt_coin_communities idx), gt_coin_sets := [],
              gt_addresses := key_map_clear A (gt_addresses idx), gt_address_sets := [],
              gt_day_max_tx := [], gt_min_tx_nr := 0, gt_max_tx_nr := 0, gt_first_day := 0,
              gt_transaction_count := 0\<rparr>), free_sets A idx mem))"

section \<open>Adding\<close>

text \<open>The id of a key's sets, the vector grown up to it.\<close>

definition sets_for_key :: "('s, 'm, 'p) arnm_ops \<Rightarrow> bytes \<Rightarrow> ('s, 'm) grdb_transactions \<times> 'p
    \<Rightarrow> arnm_result \<times> nat \<times> ('s, 'm) grdb_transactions \<times> 'p" where
  "sets_for_key A key s = (case s of (idx, mem) \<Rightarrow>
     case key_map_get_or_insert A (gt_addresses idx) key mem of (r, i, m, mem) \<Rightarrow>
     let idx = idx\<lparr>gt_addresses := m\<rparr> in
     if r \<noteq> ARNM_SUCCESS then (r, 0, idx, mem)
     else case grow_to A (unat i + 1) (empty_address_sets A) (gt_address_sets idx, mem) of (r, v, mem) \<Rightarrow>
       (r, unat i, idx\<lparr>gt_address_sets := v\<rparr>, mem))"

definition coin_set_for_uuid :: "('s, 'm, 'p) arnm_ops \<Rightarrow> bytes \<Rightarrow> ('s, 'm) grdb_transactions \<times> 'p
    \<Rightarrow> arnm_result \<times> nat \<times> ('s, 'm) grdb_transactions \<times> 'p" where
  "coin_set_for_uuid A uuid s = (case s of (idx, mem) \<Rightarrow>
     case key_map_get_or_insert A (gt_coin_communities idx) uuid mem of (r, i, m, mem) \<Rightarrow>
     let idx = idx\<lparr>gt_coin_communities := m\<rparr> in
     if r \<noteq> ARNM_SUCCESS then (r, 0, idx, mem)
     else case grow_to A (unat i + 1) (roaring_none A) (gt_coin_sets idx, mem) of (r, v, mem) \<Rightarrow>
       (r, unat i, idx\<lparr>gt_coin_sets := v\<rparr>, mem))"

definition note_day :: "('s, 'm, 'p) arnm_ops \<Rightarrow> int \<Rightarrow> u32 \<Rightarrow> ('s, 'm) grdb_transactions \<times> 'p
    \<Rightarrow> arnm_result \<times> ('s, 'm) grdb_transactions \<times> 'p" where
  "note_day A day offset s = (case s of (idx, mem) \<Rightarrow>
     let idx = (if gt_transaction_count idx = 0 then idx\<lparr>gt_first_day := day\<rparr> else idx) in
     if day < gt_first_day idx then (ARNM_ERROR_INVALID_PARAM, idx, mem)
     else if day - gt_first_day idx > 4294967295 then (ARNM_ERROR_RESOURCE_SIZE_EXCEED, idx, mem)
     else let day_index = nat (day - gt_first_day idx) in
       case grow_to A (day_index + 1) 0 (gt_day_max_tx idx, mem) of (r, days, mem) \<Rightarrow>
       if r \<noteq> ARNM_SUCCESS then (r, idx\<lparr>gt_day_max_tx := days\<rparr>, mem)
       else (ARNM_SUCCESS, idx\<lparr>gt_day_max_tx :=
              (if days ! day_index < offset + 1 then days[day_index := offset + 1] else days)\<rparr>, mem))"

definition add_signed :: "('s, 'm, 'p) arnm_ops \<Rightarrow> u32 \<Rightarrow> bytes \<Rightarrow> ('s, 'm) grdb_transactions \<times> 'p
    \<Rightarrow> arnm_result \<times> ('s, 'm) grdb_transactions \<times> 'p" where
  "add_signed A offset key s = (case sets_for_key A key s of (r, i, idx, mem) \<Rightarrow>
     if r \<noteq> ARNM_SUCCESS then (r, idx, mem)
     else let sets = gt_address_sets idx ! i in
       case roaring_add A (as_signed sets) offset mem of (r, b, mem) \<Rightarrow>
       (r, idx\<lparr>gt_address_sets := (gt_address_sets idx)[i := sets\<lparr>as_signed := b\<rparr>]\<rparr>, mem))"

definition add_balance_set :: "('s, 'm, 'p) arnm_ops \<Rightarrow> u32 \<Rightarrow> bytes \<Rightarrow> ('s, 'm) grdb_transactions \<times> 'p
    \<Rightarrow> arnm_result \<times> ('s, 'm) grdb_transactions \<times> 'p" where
  "add_balance_set A offset key s = (case sets_for_key A key s of (r, i, idx, mem) \<Rightarrow>
     if r \<noteq> ARNM_SUCCESS then (r, idx, mem)
     else let sets = gt_address_sets idx ! i in
       case roaring_add A (as_balance sets) offset mem of (r, b, mem) \<Rightarrow>
       (r, idx\<lparr>gt_address_sets := (gt_address_sets idx)[i := sets\<lparr>as_balance := b\<rparr>]\<rparr>, mem))"

text \<open>A key named in the body: the third role only when neither of the first two took it.\<close>

definition add_other :: "('s, 'm, 'p) arnm_ops \<Rightarrow> u32 \<Rightarrow> bytes \<Rightarrow> ('s, 'm) grdb_transactions \<times> 'p
    \<Rightarrow> arnm_result \<times> ('s, 'm) grdb_transactions \<times> 'p" where
  "add_other A offset key s = (case sets_for_key A key s of (r, i, idx, mem) \<Rightarrow>
     if r \<noteq> ARNM_SUCCESS then (r, idx, mem)
     else let sets = gt_address_sets idx ! i in
       if set_ends_at A (as_signed sets) offset \<or> set_ends_at A (as_balance sets) offset
       then (ARNM_SUCCESS, idx, mem)
       else case roaring_add A (as_other sets) offset mem of (r, b, mem) \<Rightarrow>
         (r, idx\<lparr>gt_address_sets := (gt_address_sets idx)[i := sets\<lparr>as_other := b\<rparr>]\<rparr>, mem))"

definition add_coin :: "('s, 'm, 'p) arnm_ops \<Rightarrow> u32 \<Rightarrow> bytes \<Rightarrow> ('s, 'm) grdb_transactions \<times> 'p
    \<Rightarrow> arnm_result \<times> ('s, 'm) grdb_transactions \<times> 'p" where
  "add_coin A offset uuid s = (case coin_set_for_uuid A uuid s of (r, i, idx, mem) \<Rightarrow>
     if r \<noteq> ARNM_SUCCESS then (r, idx, mem)
     else case roaring_add A (gt_coin_sets idx ! i) offset mem of (r, b, mem) \<Rightarrow>
       (r, idx\<lparr>gt_coin_sets := (gt_coin_sets idx)[i := b]\<rparr>, mem))"

definition add_foreign :: "('s, 'm, 'p) arnm_ops \<Rightarrow> u32 \<Rightarrow> ('s, 'm) grdb_transactions \<times> 'p
    \<Rightarrow> arnm_result \<times> ('s, 'm) grdb_transactions \<times> 'p" where
  "add_foreign A offset s = (case s of (idx, mem) \<Rightarrow>
     case roaring_add A (gt_foreign idx) offset mem of (r, b, mem) \<Rightarrow> (r, idx\<lparr>gt_foreign := b\<rparr>, mem))"

definition add_type :: "('s, 'm, 'p) arnm_ops \<Rightarrow> u32 \<Rightarrow> grdt_transaction \<Rightarrow> ('s, 'm) grdb_transactions \<times> 'p
    \<Rightarrow> arnm_result \<times> ('s, 'm) grdb_transactions \<times> 'p" where
  "add_type A offset t s = (case s of (idx, mem) \<Rightarrow>
     case roaring_add A (gt_per_type idx ! unat t) offset mem of (r, b, mem) \<Rightarrow>
       (r, idx\<lparr>gt_per_type := (gt_per_type idx)[unat t := b]\<rparr>, mem))"

text \<open>The bodies of the three loops.\<close>

definition signature_step :: "('s, 'm, 'p) arnm_ops \<Rightarrow> u32 \<Rightarrow> grdw_signature_pair
    \<Rightarrow> ('s, 'm) grdb_transactions \<times> 'p \<Rightarrow> arnm_result \<times> ('s, 'm) grdb_transactions \<times> 'p" where
  "signature_step A offset sp s =
     (if grdc_is_empty (sp_public_key sp) SIGN_PUBLIC_KEY_SIZE then (ARNM_SUCCESS, s)
      else add_signed A offset (sp_public_key sp) s)"

definition balance_step :: "('s, 'm, 'p) arnm_ops \<Rightarrow> u32 \<Rightarrow> grdw_account_balance
    \<Rightarrow> ('s, 'm) grdb_transactions \<times> 'p \<Rightarrow> arnm_result \<times> ('s, 'm) grdb_transactions \<times> 'p" where
  "balance_step A offset b s =
     bind_ok (if \<not> grdc_is_empty (ab_pubkey b) SIGN_PUBLIC_KEY_SIZE
              then add_balance_set A offset (ab_pubkey b) s else (ARNM_SUCCESS, s)) (\<lambda>s.
     if \<not> memcmp_eq (ab_community_uuid b) (gt_chain_community_uuid (fst s)) ARNM_UUID_BINARY_SIZE
     then bind_ok (add_coin A offset (ab_community_uuid b) s) (add_foreign A offset)
     else (ARNM_SUCCESS, s))"

definition named_keys :: "grdr_complete_transaction \<Rightarrow> bytes option list" where
  "named_keys tx =
     (if transaction_type tx \<in> {GRDT_TRANSACTION_CREATION, GRDT_TRANSACTION_TRANSFER,
           GRDT_TRANSACTION_DEFERRED_TRANSFER, GRDT_TRANSACTION_REDEEM_DEFERRED_TRANSFER}
      then [Some (sender_pubkey (transfer tx)), Some (recipient_pubkey (transfer tx)), None]
      else if transaction_type tx = GRDT_TRANSACTION_REGISTER_ADDRESS
      then [Some (user_public_key (register_address tx)), Some (account_public_key (register_address tx)), None]
      else if transaction_type tx = GRDT_TRANSACTION_COMMUNITY_ROOT
      then [Some (public_key (community_root tx)), Some (gmw_public_key (community_root tx)),
            Some (auf_public_key (community_root tx))]
      else [None, None, None])"

definition named_step :: "('s, 'm, 'p) arnm_ops \<Rightarrow> u32 \<Rightarrow> bytes option
    \<Rightarrow> ('s, 'm) grdb_transactions \<times> 'p \<Rightarrow> arnm_result \<times> ('s, 'm) grdb_transactions \<times> 'p" where
  "named_step A offset named s =
     (case named of None \<Rightarrow> (ARNM_SUCCESS, s)
      | Some key \<Rightarrow> if grdc_is_empty key SIGN_PUBLIC_KEY_SIZE then (ARNM_SUCCESS, s)
                    else add_other A offset key s)"

text \<open>What the first transaction says about the chain.\<close>

definition first_transaction :: "grdr_complete_transaction \<Rightarrow> ('s, 'm) grdb_transactions \<Rightarrow> ('s, 'm) grdb_transactions" where
  "first_transaction tx idx =
     (if gt_transaction_count idx = 0
      then idx\<lparr>gt_min_tx_nr := tx_nr tx, gt_chain_community_uuid := tx_community_uuid tx\<rparr> else idx)"

definition add_marks :: "('s, 'm, 'p) arnm_ops \<Rightarrow> u32 \<Rightarrow> int \<Rightarrow> grdr_complete_transaction
    \<Rightarrow> ('s, 'm) grdb_transactions \<times> 'p \<Rightarrow> arnm_result \<times> ('s, 'm) grdb_transactions \<times> 'p" where
  "add_marks A offset day tx s =
     bind_ok (note_day A day offset s) (\<lambda>(idx, mem).
     bind_ok (for_each (signature_step A offset) (signature_pairs tx) (first_transaction tx idx, mem)) (\<lambda>s.
     bind_ok (for_each (balance_step A offset) (account_balances tx) s) (\<lambda>s.
     bind_ok (for_each (named_step A offset) (named_keys tx) s) (\<lambda>s.
     bind_ok (add_type A offset (transaction_type tx) s) (\<lambda>(idx, mem).
     (ARNM_SUCCESS, idx\<lparr>gt_max_tx_nr := tx_nr tx,
                        gt_transaction_count := gt_transaction_count idx + 1\<rparr>, mem))))))"

definition grdb_transactions_add :: "('s, 'm, 'p) arnm_ops \<Rightarrow> ('s, 'm) grdb_transactions option
    \<Rightarrow> grdr_complete_transaction option \<Rightarrow> 'p
    \<Rightarrow> c_fault + (arnm_result \<times> ('s, 'm) grdb_transactions option \<times> 'p)" where
  "grdb_transactions_add A index tx mem =
     (case (index, tx) of
        (Some idx, Some tx) \<Rightarrow>
          if \<not> gt_ready idx then Inr (ARNM_ERROR_INVALID_STATE, index, mem)
          else if tx_nr tx < gt_base_tx_nr idx then Inr (ARNM_ERROR_INVALID_PARAM, index, mem)
          else if gt_transaction_count idx \<noteq> 0 \<and> tx_nr tx \<noteq> gt_max_tx_nr idx + 1
          then Inr (ARNM_ERROR_INVALID_PARAM, index, mem)
          else if tx_nr tx - gt_base_tx_nr idx > 4294967295
          then Inr (ARNM_ERROR_RESOURCE_SIZE_EXCEED, index, mem)
          else if transaction_type tx \<ge> GRDT_TRANSACTION_COUNT
          then Inr (ARNM_ERROR_INVALID_ENUM_TYPE, index, mem)
          else fbind (day_of_second (seconds (confirmed_at tx))) (\<lambda>day.
            case add_marks A (ucast (tx_nr tx - gt_base_tx_nr idx)) day tx (idx, mem) of
              (r, idx, mem) \<Rightarrow> Inr (r, Some idx, mem))
      | _ \<Rightarrow> Inr (ARNM_ERROR_NULL_POINTER, index, mem))"

section \<open>Asking\<close>

text \<open>The largest day index at or below \<open>cursor\<close> that holds anything, \<open>k\<close> entries looked at.\<close>

fun noted_down :: "u32 list \<Rightarrow> nat \<Rightarrow> nat \<Rightarrow> nat option" where
  "noted_down days cursor 0 = None"
| "noted_down days cursor (Suc k) = (if days ! cursor \<noteq> 0 then Some cursor else noted_down days (cursor - 1) k)"

text \<open>The days of the span as indices into the table, clamped to it.\<close>

definition day_bounds :: "('s, 'm) grdb_transactions \<Rightarrow> i64 \<Rightarrow> i64 \<Rightarrow> c_fault + (int \<times> int)" where
  "day_bounds idx from_second to_second =
     (let days = int (length (gt_day_max_tx idx)) in
      fbind (if to_second \<noteq> 0 then fbind (day_of_second to_second) (\<lambda>d. Inr (d - gt_first_day idx))
             else Inr (days - 1)) (\<lambda>last.
      if last < 0 then Inr (0, -1)
      else let last = (if last > days - 1 then days - 1 else last) in
      fbind (if from_second \<noteq> 0 then fbind (day_of_second from_second) (\<lambda>d. Inr (d - gt_first_day idx))
             else Inr 0) (\<lambda>first.
      Inr (if first < 0 then 0 else first, last))))"

definition range_of_days :: "('s, 'm) grdb_transactions \<Rightarrow> i64 \<Rightarrow> i64 \<Rightarrow> c_fault + (u64 \<times> u64) option" where
  "range_of_days idx from_second to_second =
     fbind (day_bounds idx from_second to_second) (\<lambda>(first, last).
     if first > last then Inr None
     else case noted_down (gt_day_max_tx idx) (nat last) (nat (last - first + 1)) of
       None \<Rightarrow> Inr None
     | Some cursor \<Rightarrow>
         let end_offset = gt_day_max_tx idx ! cursor - 1;
             start_offset =
               (case noted_down (gt_day_max_tx idx) (nat first - 1) (nat first) of
                  None \<Rightarrow> ucast (gt_min_tx_nr idx - gt_base_tx_nr idx)
                | Some before \<Rightarrow> gt_day_max_tx idx ! before)
         in if start_offset > end_offset then Inr None
            else Inr (Some (gt_base_tx_nr idx + ucast start_offset, gt_base_tx_nr idx + ucast end_offset)))"

definition grdb_transactions_range_of_days :: "('s, 'm) grdb_transactions option \<Rightarrow> i64 \<Rightarrow> i64
    \<Rightarrow> u64 option \<Rightarrow> u64 option \<Rightarrow> c_fault + (bool \<times> u64 option \<times> u64 option)" where
  "grdb_transactions_range_of_days index from_second to_second min_out max_out =
     (case index of None \<Rightarrow> Inr (False, min_out, max_out) | Some idx \<Rightarrow>
      if \<not> gt_ready idx \<or> gt_transaction_count idx = 0 \<or> min_out = None \<or> max_out = None
      then Inr (False, min_out, max_out)
      else fbind (range_of_days idx from_second to_second) (\<lambda>r.
        case r of None \<Rightarrow> Inr (False, min_out, max_out)
        | Some (lo, hi) \<Rightarrow> Inr (True, Some lo, Some hi)))"

text \<open>The sets an address adds to a query: the ones all of which, and the ones any of which must hold
  a number. \<open>None\<close> when nothing can match.\<close>

definition query_address :: "('s, 'm, 'p) arnm_ops \<Rightarrow> ('s, 'm) grdb_transactions \<Rightarrow> grdb_transactions_filter
    \<Rightarrow> ('s list \<times> 's list) option" where
  "query_address A idx f =
     (if f_role f = GRDB_ADDRESS_ROLE_NONE then Some ([], [])
      else case key_map_find A (gt_addresses idx) (f_public_key f) of
        None \<Rightarrow> None
      | Some i \<Rightarrow>
          if unat i \<ge> length (gt_address_sets idx) then None
          else let sets = gt_address_sets idx ! unat i in
            if f_role f = GRDB_ADDRESS_ROLE_BALANCE then Some ([as_balance sets], [])
            else Some ([], [as_balance sets, as_signed sets, as_other sets]))"

definition query_type :: "('s, 'm) grdb_transactions \<Rightarrow> grdb_transactions_filter \<Rightarrow> 's list option" where
  "query_type idx f =
     (if f_transaction_type f = GRDT_TRANSACTION_NONE then Some []
      else if f_transaction_type f \<ge> GRDT_TRANSACTION_COUNT then None
      else Some [gt_per_type idx ! unat (f_transaction_type f)])"

text \<open>The sets a coin adds: one that must hold the number, or one that must not.\<close>

definition query_coin :: "('s, 'm, 'p) arnm_ops \<Rightarrow> ('s, 'm) grdb_transactions \<Rightarrow> grdb_transactions_filter
    \<Rightarrow> ('s list \<times> 's list) option" where
  "query_coin A idx f =
     (case grdb_transactions_filter_coin_community (Some f) of
        None \<Rightarrow> Some ([], [])
      | Some uuid \<Rightarrow>
          if memcmp_eq uuid (gt_chain_community_uuid idx) ARNM_UUID_BINARY_SIZE then Some ([], [gt_foreign idx])
          else (case key_map_find A (gt_coin_communities idx) uuid of
            None \<Rightarrow> None
          | Some i \<Rightarrow> if unat i \<ge> length (gt_coin_sets idx) then None
                      else Some ([gt_coin_sets idx ! unat i], [])))"

text \<open>The span of offsets: the numbers the filter names, narrowed by its days and by what the index
  holds.\<close>

definition query_span :: "('s, 'm) grdb_transactions \<Rightarrow> grdb_transactions_filter \<Rightarrow> c_fault + (u32 \<times> u32) option" where
  "query_span idx f =
     (let min_tx = (if f_min_tx_nr f \<noteq> 0 then f_min_tx_nr f else gt_min_tx_nr idx);
          max_tx = (if f_max_tx_nr f \<noteq> 0 then f_max_tx_nr f else gt_max_tx_nr idx) in
      fbind (if f_from_seconds f \<noteq> 0 \<or> f_to_seconds f \<noteq> 0
             then fbind (range_of_days idx (f_from_seconds f) (f_to_seconds f)) (\<lambda>r.
               case r of None \<Rightarrow> Inr None
               | Some (day_min, day_max) \<Rightarrow>
                   Inr (Some (if day_min > min_tx then day_min else min_tx,
                              if day_max < max_tx then day_max else max_tx)))
             else Inr (Some (min_tx, max_tx))) (\<lambda>r.
      case r of None \<Rightarrow> Inr None
      | Some (min_tx, max_tx) \<Rightarrow>
          let min_tx = (if min_tx < gt_min_tx_nr idx then gt_min_tx_nr idx else min_tx);
              max_tx = (if max_tx > gt_max_tx_nr idx then gt_max_tx_nr idx else max_tx);
              min_tx = (if min_tx < gt_base_tx_nr idx then gt_base_tx_nr idx else min_tx)
          in if max_tx < min_tx then Inr None
             else let max_tx = (if max_tx - gt_base_tx_nr idx > 4294967295
                                then gt_base_tx_nr idx + 4294967295 else max_tx)
                  in if min_tx - gt_base_tx_nr idx > 4294967295 then Inr None
                     else Inr (Some (ucast (min_tx - gt_base_tx_nr idx), ucast (max_tx - gt_base_tx_nr idx)))))"

definition query_of_filter :: "('s, 'm, 'p) arnm_ops \<Rightarrow> ('s, 'm) grdb_transactions \<Rightarrow> grdb_transactions_filter
    \<Rightarrow> c_fault + 's roaring_query option" where
  "query_of_filter A idx f =
     (if gt_transaction_count idx = 0 then Inr None
      else case (query_address A idx f, query_type idx f, query_coin A idx f) of
        (Some (all_a, any_a), Some all_t, Some (all_c, none_c)) \<Rightarrow>
          fbind (query_span idx f) (\<lambda>r. case r of None \<Rightarrow> Inr None
            | Some (lo, hi) \<Rightarrow> Inr (Some \<lparr>q_all = all_a @ all_t @ all_c, q_any = any_a, q_none = none_c,
                                       q_min = lo, q_max = hi\<rparr>))
      | _ \<Rightarrow> Inr None)"

definition names_no_set :: "'s roaring_query \<Rightarrow> bool" where
  "names_no_set q = (q_all q = [] \<and> q_any q = [])"

definition span_excludes :: "('s, 'm, 'p) arnm_ops \<Rightarrow> 's roaring_query \<Rightarrow> u32 \<Rightarrow> bool" where
  "span_excludes A q offset = list_ex (\<lambda>s. roaring_contains A s offset) (q_none q)"

definition span_cardinality :: "('s, 'm, 'p) arnm_ops \<Rightarrow> 's roaring_query \<Rightarrow> arnm_result \<times> u64" where
  "span_cardinality A q =
     (let inside = ucast (q_max q) - ucast (q_min q) + 1 in
      if q_none q \<noteq> [] then
        (case query_cardinality A \<lparr>q_all = [], q_any = q_none q, q_none = [], q_min = q_min q, q_max = q_max q\<rparr> of
           (r, taken) \<Rightarrow> if r \<noteq> ARNM_SUCCESS then (r, 0)
                         else (ARNM_SUCCESS, if taken < inside then inside - taken else 0))
      else (ARNM_SUCCESS, inside))"

text \<open>The walk over the span; the first number is how many steps are left.\<close>

fun span_walk :: "('s, 'm, 'p) arnm_ops \<Rightarrow> 's roaring_query \<Rightarrow> bool \<Rightarrow> nat \<Rightarrow> nat \<Rightarrow> nat \<Rightarrow> nat \<Rightarrow> u32 list" where
  "span_walk A q descending 0 step skip room = []"
| "span_walk A q descending (Suc k) step skip room =
     (if room = 0 then []
      else let offset = (if descending then q_max q - word_of_nat step else q_min q + word_of_nat step) in
        if span_excludes A q offset then span_walk A q descending k (step + 1) skip room
        else if skip > 0 then span_walk A q descending k (step + 1) (skip - 1) room
        else offset # span_walk A q descending k (step + 1) skip (room - 1))"

definition span_page :: "('s, 'm, 'p) arnm_ops \<Rightarrow> 's roaring_query \<Rightarrow> u32 \<Rightarrow> u32 \<Rightarrow> bool \<Rightarrow> u32 list" where
  "span_page A q skip n descending =
     span_walk A q descending (unat (q_max q) - unat (q_min q) + 1) 0 (unat skip) (unat n)"

definition grdb_transactions_count :: "('s, 'm, 'p) arnm_ops \<Rightarrow> ('s, 'm) grdb_transactions option
    \<Rightarrow> grdb_transactions_filter option \<Rightarrow> u64 option \<Rightarrow> c_fault + (arnm_result \<times> u64 option)" where
  "grdb_transactions_count A index filter_in out =
     (case (index, filter_in, out) of
        (Some idx, Some f, Some _) \<Rightarrow>
          if \<not> gt_ready idx then Inr (ARNM_ERROR_INVALID_STATE, out)
          else fbind (query_of_filter A idx f) (\<lambda>q. case q of
            None \<Rightarrow> Inr (ARNM_SUCCESS, Some 0)
          | Some q \<Rightarrow>
              (case (if names_no_set q then span_cardinality A q else query_cardinality A q) of
                 (r, n) \<Rightarrow> Inr (r, if r = ARNM_SUCCESS then Some n else out)))
      | _ \<Rightarrow> Inr (ARNM_ERROR_NULL_POINTER, out))"

text \<open>A page: the numbers go to the front of the buffer \<open>out\<close>, which must have room for them.\<close>

definition grdb_transactions_listing :: "('s, 'm, 'p) arnm_ops \<Rightarrow> ('s, 'm) grdb_transactions option
    \<Rightarrow> grdb_transactions_filter option \<Rightarrow> u32 \<Rightarrow> u32 \<Rightarrow> bool \<Rightarrow> u64 list option \<Rightarrow> u32 option \<Rightarrow> u64 option
    \<Rightarrow> c_fault + (arnm_result \<times> u64 list option \<times> u32 option \<times> u64 option)" where
  "grdb_transactions_listing A index filter_in skip n descending out written count =
     (case (index, filter_in) of
        (Some idx, Some f) \<Rightarrow>
          if written = None \<or> count = None \<or> n \<noteq> 0 \<and> out = None
          then Inr (ARNM_ERROR_NULL_POINTER, out, written, count)
          else if \<not> gt_ready idx then Inr (ARNM_ERROR_INVALID_STATE, out, written, count)
          else if n > GRDB_PAGE_MAX then Inr (ARNM_ERROR_INVALID_PARAM, out, written, count)
          else fbind (query_of_filter A idx f) (\<lambda>q. case q of
            None \<Rightarrow> Inr (ARNM_SUCCESS, out, Some 0, Some 0)
          | Some q \<Rightarrow>
              (case (if names_no_set q then
                       (case span_cardinality A q of (r, matches) \<Rightarrow>
                          (r, if r = ARNM_SUCCESS \<and> n \<noteq> 0 then span_page A q skip n descending else [], matches))
                     else query_listing A q skip n descending) of
                 (r, offsets, matches) \<Rightarrow>
                   if r \<noteq> ARNM_SUCCESS then Inr (r, out, written, count)
                   else
                     let taken = map (\<lambda>o'. gt_base_tx_nr idx + ucast o') offsets;
                         buf = (case out of None \<Rightarrow> [] | Some b \<Rightarrow> b)
                     in if length taken > length buf then Inl IndexOutOfBounds
                        else Inr (ARNM_SUCCESS, map_option (\<lambda>b. taken @ drop (length taken) b) out,
                                  Some (word_of_nat (length taken)), Some matches)))
      | _ \<Rightarrow> Inr (ARNM_ERROR_NULL_POINTER, out, written, count))"

definition grdb_transactions_newest :: "('s, 'm, 'p) arnm_ops \<Rightarrow> ('s, 'm) grdb_transactions option
    \<Rightarrow> grdb_transactions_filter option \<Rightarrow> u64 option \<Rightarrow> c_fault + (bool \<times> u64 option)" where
  "grdb_transactions_newest A index filter_in out =
     (case (index, filter_in, out) of
        (Some idx, Some f, Some _) \<Rightarrow>
          if \<not> gt_ready idx then Inr (False, out)
          else fbind (query_of_filter A idx f) (\<lambda>q. case q of
            None \<Rightarrow> Inr (False, out)
          | Some q \<Rightarrow>
              (case (if names_no_set q then (ARNM_SUCCESS, span_page A q 0 1 True)
                     else query_page A q 0 1 True) of
                 (r, page) \<Rightarrow>
                   if r \<noteq> ARNM_SUCCESS \<or> page = [] then Inr (False, out)
                   else Inr (True, Some (gt_base_tx_nr idx + ucast (hd page)))))
      | _ \<Rightarrow> Inr (False, out))"

section \<open>Reading what is in it\<close>

definition grdb_transactions_size :: "('s, 'm) grdb_transactions option \<Rightarrow> u32" where
  "grdb_transactions_size index = (case index of None \<Rightarrow> 0 | Some idx \<Rightarrow> gt_transaction_count idx)"

definition grdb_transactions_address_count :: "('s, 'm, 'p) arnm_ops \<Rightarrow> ('s, 'm) grdb_transactions option \<Rightarrow> u32" where
  "grdb_transactions_address_count A index =
     (case index of None \<Rightarrow> 0 | Some idx \<Rightarrow> if gt_ready idx then key_map_size A (gt_addresses idx) else 0)"

definition grdb_transactions_coin_community_count :: "('s, 'm, 'p) arnm_ops \<Rightarrow> ('s, 'm) grdb_transactions option \<Rightarrow> u32" where
  "grdb_transactions_coin_community_count A index =
     (case index of None \<Rightarrow> 0 | Some idx \<Rightarrow> if gt_ready idx then key_map_size A (gt_coin_communities idx) else 0)"

definition grdb_transactions_address :: "('s, 'm, 'p) arnm_ops \<Rightarrow> ('s, 'm) grdb_transactions option
    \<Rightarrow> bytes option \<Rightarrow> 's grdb_address_sets option" where
  "grdb_transactions_address A index key =
     (case (index, key) of
        (Some idx, Some k) \<Rightarrow>
          if \<not> gt_ready idx then None
          else (case key_map_find A (gt_addresses idx) k of
            None \<Rightarrow> None
          | Some i \<Rightarrow> if unat i \<ge> length (gt_address_sets idx) then None else Some (gt_address_sets idx ! unat i))
      | _ \<Rightarrow> None)"

end
