(* ===== verification/GRD_Marks.thy ===== *)
theory GRD_Marks
  imports GRD_Transactions
begin

text \<open>
  What the sets of an index hold, as marks on transaction numbers, and that every step of
  \<open>grdb_transactions_add\<close> puts its own marks on its own number and touches nothing else, whether the
  step is refused halfway or not.
\<close>

section \<open>Keys and the vector behind them\<close>

text \<open>What a key leads to: the element its id names, \<open>d\<close> when it has none.\<close>

definition look :: "('s, 'm, 'p) arnm_ops \<Rightarrow> 'e \<Rightarrow> 'm \<Rightarrow> 'e list \<Rightarrow> bytes \<Rightarrow> 'e" where
  "look A d m v k = (case key_map_find A m k of None \<Rightarrow> d
     | Some i \<Rightarrow> if unat i < length v then v ! unat i else d)"

lemma laws_map: "arnm_laws A els ks \<Longrightarrow> map_laws A ks"
  and laws_set: "arnm_laws A els ks \<Longrightarrow> set_laws A els"
  and laws_query: "arnm_laws A els ks \<Longrightarrow> query_laws A els"
  by (simp_all add: arnm_laws_def)

lemma find_Some:
  assumes "map_laws A ks"
  shows "key_map_find A m k = Some i \<longleftrightarrow> unat i < length (ks m) \<and> ks m ! unat i = k"
proof -
  have c: "case key_map_find A m k of None \<Rightarrow> k \<notin> set (ks m)
          | Some i \<Rightarrow> unat i < length (ks m) \<and> ks m ! unat i = k"
    using assms unfolding map_laws_def by blast
  have d: "distinct (ks m)" using assms by (simp add: map_laws_def)
  show ?thesis
  proof (cases "key_map_find A m k")
    case None
    then show ?thesis using c by (auto simp: in_set_conv_nth)
  next
    case (Some j)
    then show ?thesis using c d by (auto simp: nth_eq_iff_index_eq word_unat_eq_iff)
  qed
qed

lemma find_None:
  assumes "map_laws A ks"
  shows "key_map_find A m k = None \<longleftrightarrow> k \<notin> set (ks m)"
proof -
  have c: "case key_map_find A m k of None \<Rightarrow> k \<notin> set (ks m)
          | Some i \<Rightarrow> unat i < length (ks m) \<and> ks m ! unat i = k"
    using assms unfolding map_laws_def by blast
  then show ?thesis by (auto split: option.splits)
qed

lemma find_cong:
  assumes "map_laws A ks" "ks m' = ks m"
  shows "key_map_find A m' k = key_map_find A m k"
proof (cases "key_map_find A m k")
  case None
  then have "key_map_find A m' k = None" using assms(2) by (simp add: find_None [OF assms(1)])
  then show ?thesis using None by simp
next
  case (Some i)
  then have "key_map_find A m' k = Some i" using assms(2) by (simp add: find_Some [OF assms(1)])
  then show ?thesis using Some by simp
qed

lemma find_append:
  assumes L: "map_laws A ks" and e: "ks m' = ks m @ [k']" and ne: "k \<in> set (ks m)"
  shows "key_map_find A m' k = key_map_find A m k"
proof -
  obtain i where i: "key_map_find A m k = Some i" using ne find_None [OF L] by (metis option.exhaust)
  then have "unat i < length (ks m)" "ks m ! unat i = k" using find_Some [OF L] by auto
  then have "key_map_find A m' k = Some i" using e by (simp add: find_Some [OF L] nth_append)
  then show ?thesis using i by simp
qed

lemma look_grown:
  assumes L: "map_laws A ks" and e: "ks m' = ks m \<or> ks m' = ks m @ [k']"
    and l: "length v \<le> length (ks m)"
  shows "look A d m' (v @ replicate j d) k = look A d m v k"
proof (cases "k \<in> set (ks m)")
  case True
  have "key_map_find A m' k = key_map_find A m k" using e find_cong [OF L] find_append [OF L _ True] by metis
  then show ?thesis by (auto simp: look_def nth_append split: option.splits)
next
  case False
  have n: "key_map_find A m k = None" using False find_None [OF L] by blast
  show ?thesis
  proof (cases "key_map_find A m' k")
    case None
    then show ?thesis by (simp add: look_def n)
  next
    case (Some i)
    have i: "unat i < length (ks m')" "ks m' ! unat i = k" using Some find_Some [OF L] by auto
    have "\<not> unat i < length (ks m)"
    proof
      assume "unat i < length (ks m)"
      then have "k \<in> set (ks m)" using i e by (auto simp: nth_append)
      then show False using False by simp
    qed
    then show ?thesis using l Some n by (auto simp: look_def nth_append)
  qed
qed

lemma look_update:
  assumes L: "map_laws A ks" and f: "key_map_find A m k = Some i" and l: "unat i < length v"
  shows "look A d m (v[unat i := x]) k' = (if k' = k then x else look A d m v k')"
proof (cases "key_map_find A m k'")
  case None
  then show ?thesis using f by (auto simp: look_def)
next
  case (Some j)
  have d: "distinct (ks m)" using L by (simp add: map_laws_def)
  have ij: "unat i < length (ks m)" "ks m ! unat i = k" "unat j < length (ks m)" "ks m ! unat j = k'"
    using f Some find_Some [OF L] by auto
  have "k' = k \<longleftrightarrow> unat j = unat i" using nth_eq_iff_index_eq [OF d ij(3,1)] ij by auto
  then show ?thesis using f l Some by (auto simp: look_def)
qed

lemma grow_to_grown:
  assumes "grow_to A n e (v, p) = (r, v', p')"
  shows "(\<exists>j. v' = v @ replicate j e) \<and> length v' \<le> max n (length v) \<and> (r = ARNM_SUCCESS \<longrightarrow> n \<le> length v')"
  using assms
proof (induction A n e "(v, p)" arbitrary: v p rule: grow_to.induct)
  case (1 A n e v p)
  show ?case
  proof (cases "length v < n")
    case False
    then have "v' = v" "r = ARNM_SUCCESS" using "1.prems" by (simp_all add: grow_to.simps)
    then show ?thesis using False by (auto intro: exI [of _ 0])
  next
    case True
    obtain r1 p1 where g: "bvec_grow A p = (r1, p1)" by fastforce
    show ?thesis
    proof (cases "r1 = ARNM_SUCCESS")
      case False
      then have "v' = v" "r = r1" using "1.prems" True g by (simp_all add: grow_to.simps)
      then show ?thesis using True False by (auto intro: exI [of _ 0])
    next
      case t: True
      have "grow_to A n e (v @ [e], p1) = (r, v', p')" using "1.prems" True g t by (simp add: grow_to.simps)
      then have "(\<exists>j. v' = (v @ [e]) @ replicate j e) \<and> length v' \<le> max n (length (v @ [e]))
                 \<and> (r = ARNM_SUCCESS \<longrightarrow> n \<le> length v')"
        using "1.hyps" True g t by simp
      moreover have "(v @ [e]) @ replicate j e = v @ replicate (Suc j) e" for j by simp
      ultimately show ?thesis using True by (metis length_append_singleton max.absorb1 max.absorb2 Suc_leI less_or_eq_imp_le)
    qed
  qed
qed

section \<open>Marks\<close>

datatype index_mark = Signed bytes | Balance bytes | Other bytes | Coin bytes | Foreign | OfType grdt_transaction

definition addr_look :: "('s, 'm, 'p) arnm_ops \<Rightarrow> ('s, 'm) grdb_transactions \<Rightarrow> bytes \<Rightarrow> 's grdb_address_sets" where
  "addr_look A idx = look A (empty_address_sets A) (gt_addresses idx) (gt_address_sets idx)"

definition coin_look :: "('s, 'm, 'p) arnm_ops \<Rightarrow> ('s, 'm) grdb_transactions \<Rightarrow> bytes \<Rightarrow> 's" where
  "coin_look A idx = look A (roaring_none A) (gt_coin_communities idx) (gt_coin_sets idx)"

text \<open>The offsets an index has under a mark.\<close>

primrec holds :: "('s, 'm, 'p) arnm_ops \<Rightarrow> ('s \<Rightarrow> nat set) \<Rightarrow> ('s, 'm) grdb_transactions \<Rightarrow> index_mark \<Rightarrow> nat set" where
  "holds A els idx (Signed k) = els (as_signed (addr_look A idx k))"
| "holds A els idx (Balance k) = els (as_balance (addr_look A idx k))"
| "holds A els idx (Other k) = els (as_other (addr_look A idx k))"
| "holds A els idx (Coin u) = els (coin_look A idx u)"
| "holds A els idx Foreign = els (gt_foreign idx)"
| "holds A els idx (OfType t) = (if unat t < length (gt_per_type idx) then els (gt_per_type idx ! unat t) else {})"

text \<open>Every element of a vector belongs to a key, and there is a set for every type.\<close>

definition wf_index :: "('m \<Rightarrow> bytes list) \<Rightarrow> ('s, 'm) grdb_transactions \<Rightarrow> bool" where
  "wf_index ks idx \<longleftrightarrow> length (gt_address_sets idx) \<le> length (ks (gt_addresses idx))
     \<and> length (gt_coin_sets idx) \<le> length (ks (gt_coin_communities idx))
     \<and> length (gt_per_type idx) = unat GRDT_TRANSACTION_COUNT"

text \<open>The fields no step on the sets touches.\<close>

definition frame :: "('s, 'm) grdb_transactions \<Rightarrow> u32 list \<times> bytes \<times> u64 \<times> u64 \<times> u64 \<times> int \<times> u32 \<times> bool" where
  "frame idx = (gt_day_max_tx idx, gt_chain_community_uuid idx, gt_base_tx_nr idx, gt_min_tx_nr idx,
     gt_max_tx_nr idx, gt_first_day idx, gt_transaction_count idx, gt_ready idx)"

text \<open>A step put the marks \<open>M\<close> on \<open>off\<close> - all of them, or some when it was refused.\<close>

definition put :: "nat \<Rightarrow> index_mark set \<Rightarrow> (index_mark \<Rightarrow> nat set) \<Rightarrow> index_mark \<Rightarrow> nat set" where
  "put off M h m = (if m \<in> M then insert off (h m) else h m)"

definition adds :: "('s, 'm, 'p) arnm_ops \<Rightarrow> ('s \<Rightarrow> nat set) \<Rightarrow> ('m \<Rightarrow> bytes list) \<Rightarrow> nat \<Rightarrow> index_mark set
    \<Rightarrow> ('s, 'm) grdb_transactions \<Rightarrow> arnm_result \<times> ('s, 'm) grdb_transactions \<times> 'p \<Rightarrow> bool" where
  "adds A els ks off M idx res = (case res of (r, idx', mem') \<Rightarrow>
     wf_index ks idx' \<and> frame idx' = frame idx
     \<and> (\<exists>M'. M' \<subseteq> M \<and> (r = ARNM_SUCCESS \<longrightarrow> M' = M) \<and> holds A els idx' = put off M' (holds A els idx)))"

lemma put_empty [simp]: "put off {} h = h"
  by (auto simp: put_def)

lemma put_put: "put off M2 (put off M1 h) = put off (M1 \<union> M2) h"
  by (rule ext) (auto simp: put_def)

lemma adds_none: "wf_index ks idx \<Longrightarrow> adds A els ks off {} idx (r, idx, mem)"
  by (simp add: adds_def)

lemma adds_bind_ok:
  assumes a: "adds A els ks off M1 idx res"
    and b: "\<And>idx' mem'. res = (ARNM_SUCCESS, idx', mem') \<Longrightarrow> adds A els ks off M2 idx' (f (idx', mem'))"
  shows "adds A els ks off (M1 \<union> M2) idx (bind_ok res f)"
proof -
  obtain r idx' mem' where res: "res = (r, idx', mem')" by (cases res) auto
  obtain M' where M': "M' \<subseteq> M1" "r = ARNM_SUCCESS \<longrightarrow> M' = M1" "holds A els idx' = put off M' (holds A els idx)"
    and w: "wf_index ks idx'" "frame idx' = frame idx"
    using a by (auto simp: adds_def res)
  show ?thesis
  proof (cases "r = ARNM_SUCCESS")
    case False
    then show ?thesis using M' w by (auto simp: adds_def bind_ok_def res)
  next
    case True
    have "adds A els ks off M2 idx' (f (idx', mem'))" using b res True by simp
    then obtain r2 idx2 mem2 M2' where f: "f (idx', mem') = (r2, idx2, mem2)" "M2' \<subseteq> M2"
      "r2 = ARNM_SUCCESS \<longrightarrow> M2' = M2" "holds A els idx2 = put off M2' (holds A els idx')"
      "wf_index ks idx2" "frame idx2 = frame idx'"
      by (auto simp: adds_def split: prod.splits)
    have "holds A els idx2 = put off (M1 \<union> M2') (holds A els idx)" using f M' True by (simp add: put_put)
    then show ?thesis using f w True by (auto simp: adds_def bind_ok_def res intro!: exI [of _ "M1 \<union> M2'"])
  qed
qed

section \<open>The sets of a key\<close>

lemma roaring_add_els:
  assumes "arnm_laws A els ks" "roaring_add A s v p = (r, s', p')"
  shows "els s' = (if r = ARNM_SUCCESS then insert (unat v) (els s) else els s)"
  using assms unfolding arnm_laws_def set_laws_def by blast

lemma get_or_insert_keys:
  assumes "arnm_laws A els ks" "key_map_get_or_insert A m k p = (r, i, m', p')"
  shows "ks m' = ks m \<or> ks m' = ks m @ [k]"
    and "r = ARNM_SUCCESS \<Longrightarrow> key_map_find A m' k = Some i \<and> unat i < length (ks m')"
proof -
  have M: "map_laws A ks" using assms(1) by (rule laws_map)
  then have "if r = ARNM_SUCCESS
           then unat i < length (ks m') \<and> ks m' ! unat i = k \<and> ks m' = (if k \<in> set (ks m) then ks m else ks m @ [k])
           else ks m' = ks m"
    using assms(2) unfolding map_laws_def by blast
  then have "ks m' = ks m \<or> ks m' = ks m @ [k]"
    and "r = ARNM_SUCCESS \<Longrightarrow> unat i < length (ks m') \<and> ks m' ! unat i = k"
    by (metis+)
  then show "ks m' = ks m \<or> ks m' = ks m @ [k]"
    and "r = ARNM_SUCCESS \<Longrightarrow> key_map_find A m' k = Some i \<and> unat i < length (ks m')"
    by (simp_all add: find_Some [OF M])
qed

lemma sets_for_key_opens:
  fixes A :: "('s, 'm, 'p) arnm_ops"
  assumes L: "arnm_laws A els ks" and w: "wf_index ks idx"
    and s: "sets_for_key A k (idx, mem) = (r, i, idx', mem')"
  shows "adds A els ks off {} idx (r, idx', mem')"
    and "r = ARNM_SUCCESS \<Longrightarrow> \<exists>j. key_map_find A (gt_addresses idx') k = Some j \<and> i = unat j \<and> i < length (gt_address_sets idx')
           \<and> gt_address_sets idx' ! i = addr_look A idx' k"
proof -
  obtain r1 j m1 p1 where g: "key_map_get_or_insert A (gt_addresses idx) k mem = (r1, j, m1, p1)" by (metis prod_cases4)
  note ki = get_or_insert_keys [OF L g]
  have lg: "length v \<le> length (ks (gt_addresses idx)) \<Longrightarrow> look A d m1 (v @ replicate n d) x = look A d (gt_addresses idx) v x"
    for d :: "'s grdb_address_sets" and v n x
    using look_grown [OF laws_map [OF L] ki(1)] .
  have h: "holds A els (idx\<lparr>gt_addresses := m1, gt_address_sets := v @ replicate n (empty_address_sets A)\<rparr>) = holds A els idx"
    if "v = gt_address_sets idx" for v n
  proof
    fix m show "holds A els (idx\<lparr>gt_addresses := m1, gt_address_sets := v @ replicate n (empty_address_sets A)\<rparr>) m = holds A els idx m"
      using lg w that
      by (cases m) (simp_all add: addr_look_def coin_look_def wf_index_def)
  qed
  have fr: "frame (idx\<lparr>gt_addresses := m1, gt_address_sets := v\<rparr>) = frame idx" for v by (simp add: frame_def)
  have n: "adds A els ks off {} idx (r, idx', mem') \<and> (r = ARNM_SUCCESS \<longrightarrow> i = unat j \<and> i < length (gt_address_sets idx') \<and> gt_addresses idx' = m1 \<and> r1 = ARNM_SUCCESS)"
  proof (cases "r1 = ARNM_SUCCESS")
    case False
    then have e: "r = r1" "idx' = idx\<lparr>gt_addresses := m1\<rparr>" using s g by (auto simp: sets_for_key_def)
    have "idx' = idx\<lparr>gt_addresses := m1, gt_address_sets := gt_address_sets idx @ replicate 0 (empty_address_sets A)\<rparr>"
      using e by simp
    then have "holds A els idx' = holds A els idx" using h by metis
    moreover have "wf_index ks idx'" using w e ki(1) by (auto simp: wf_index_def)
    moreover have "frame idx' = frame idx" using e by (simp add: frame_def)
    ultimately show ?thesis using e False by (simp add: adds_def)
  next
    case True
    obtain r2 v p2 where gr: "grow_to A (unat j + 1) (empty_address_sets A) (gt_address_sets idx, p1) = (r2, v, p2)" by (metis prod_cases3)
    then have e: "r = r2" "i = unat j" "idx' = idx\<lparr>gt_addresses := m1, gt_address_sets := v\<rparr>"
      using s g True by (auto simp: sets_for_key_def)
    from grow_to_grown [OF gr] obtain n where v: "v = gt_address_sets idx @ replicate n (empty_address_sets A)"
      "length v \<le> max (unat j + 1) (length (gt_address_sets idx))" "r2 = ARNM_SUCCESS \<longrightarrow> unat j + 1 \<le> length v" by blast
    have "length v \<le> length (ks m1)" using v(2) ki w True by (auto simp: wf_index_def)
    then have "wf_index ks idx'" using w by (simp add: wf_index_def e)
    then show ?thesis using e v(1,3) h [OF refl] fr True by (auto simp: adds_def)
  qed
  then show "adds A els ks off {} idx (r, idx', mem')" by blast
  show "\<exists>j. key_map_find A (gt_addresses idx') k = Some j \<and> i = unat j \<and> i < length (gt_address_sets idx')
          \<and> gt_address_sets idx' ! i = addr_look A idx' k" if "r = ARNM_SUCCESS"
    using n that ki(2) by (auto simp: addr_look_def look_def)
qed


lemma coin_set_for_uuid_opens:
  fixes A :: "('s, 'm, 'p) arnm_ops"
  assumes L: "arnm_laws A els ks" and w: "wf_index ks idx"
    and s: "coin_set_for_uuid A k (idx, mem) = (r, i, idx', mem')"
  shows "adds A els ks off {} idx (r, idx', mem')"
    and "r = ARNM_SUCCESS \<Longrightarrow> \<exists>j. key_map_find A (gt_coin_communities idx') k = Some j \<and> i = unat j \<and> i < length (gt_coin_sets idx')
           \<and> gt_coin_sets idx' ! i = coin_look A idx' k"
proof -
  obtain r1 j m1 p1 where g: "key_map_get_or_insert A (gt_coin_communities idx) k mem = (r1, j, m1, p1)" by (metis prod_cases4)
  note ki = get_or_insert_keys [OF L g]
  have lg: "length v \<le> length (ks (gt_coin_communities idx)) \<Longrightarrow> look A d m1 (v @ replicate n d) x = look A d (gt_coin_communities idx) v x"
    for d :: 's and v n x
    using look_grown [OF laws_map [OF L] ki(1)] .
  have h: "holds A els (idx\<lparr>gt_coin_communities := m1, gt_coin_sets := v @ replicate n (roaring_none A)\<rparr>) = holds A els idx"
    if "v = gt_coin_sets idx" for v n
  proof
    fix m show "holds A els (idx\<lparr>gt_coin_communities := m1, gt_coin_sets := v @ replicate n (roaring_none A)\<rparr>) m = holds A els idx m"
      using lg w that by (cases m) (simp_all add: addr_look_def coin_look_def wf_index_def)
  qed
  have fr: "frame (idx\<lparr>gt_coin_communities := m1, gt_coin_sets := v\<rparr>) = frame idx" for v by (simp add: frame_def)
  have n: "adds A els ks off {} idx (r, idx', mem') \<and> (r = ARNM_SUCCESS \<longrightarrow> i = unat j \<and> i < length (gt_coin_sets idx') \<and> gt_coin_communities idx' = m1 \<and> r1 = ARNM_SUCCESS)"
  proof (cases "r1 = ARNM_SUCCESS")
    case False
    then have e: "r = r1" "idx' = idx\<lparr>gt_coin_communities := m1\<rparr>" using s g by (auto simp: coin_set_for_uuid_def)
    have "idx' = idx\<lparr>gt_coin_communities := m1, gt_coin_sets := gt_coin_sets idx @ replicate 0 (roaring_none A)\<rparr>"
      using e by simp
    then have "holds A els idx' = holds A els idx" using h by metis
    moreover have "wf_index ks idx'" using w e ki(1) by (auto simp: wf_index_def)
    moreover have "frame idx' = frame idx" using e by (simp add: frame_def)
    ultimately show ?thesis using e False by (simp add: adds_def)
  next
    case True
    obtain r2 v p2 where gr: "grow_to A (unat j + 1) (roaring_none A) (gt_coin_sets idx, p1) = (r2, v, p2)" by (metis prod_cases3)
    then have e: "r = r2" "i = unat j" "idx' = idx\<lparr>gt_coin_communities := m1, gt_coin_sets := v\<rparr>"
      using s g True by (auto simp: coin_set_for_uuid_def)
    from grow_to_grown [OF gr] obtain n where v: "v = gt_coin_sets idx @ replicate n (roaring_none A)"
      "length v \<le> max (unat j + 1) (length (gt_coin_sets idx))" "r2 = ARNM_SUCCESS \<longrightarrow> unat j + 1 \<le> length v" by blast
    have "length v \<le> length (ks m1)" using v(2) ki w True by (auto simp: wf_index_def)
    then have "wf_index ks idx'" using w by (simp add: wf_index_def e)
    then show ?thesis using e v(1,3) h [OF refl] fr True by (auto simp: adds_def)
  qed
  then show "adds A els ks off {} idx (r, idx', mem')" by blast
  show "\<exists>j. key_map_find A (gt_coin_communities idx') k = Some j \<and> i = unat j \<and> i < length (gt_coin_sets idx')
          \<and> gt_coin_sets idx' ! i = coin_look A idx' k" if "r = ARNM_SUCCESS"
    using n that ki(2) by (auto simp: coin_look_def look_def)
qed

section \<open>The steps\<close>

lemma adds_after:
  assumes "adds A els ks off {} idx (r0, idx0, mem0)" "adds A els ks off M idx0 res"
  shows "adds A els ks off M idx res"
  using assms by (auto simp: adds_def)

text \<open>Writing one set of a key.\<close>

lemma holds_address_update:
  assumes L: "arnm_laws A els ks" and f: "key_map_find A (gt_addresses idx) k = Some j"
    and l: "unat j < length (gt_address_sets idx)"
  shows "addr_look A (idx\<lparr>gt_address_sets := (gt_address_sets idx)[unat j := x]\<rparr>) k' = (if k' = k then x else addr_look A idx k')"
  using look_update [OF laws_map [OF L] f l] by (simp add: addr_look_def)

lemma holds_coin_update:
  assumes L: "arnm_laws A els ks" and f: "key_map_find A (gt_coin_communities idx) k = Some j"
    and l: "unat j < length (gt_coin_sets idx)"
  shows "coin_look A (idx\<lparr>gt_coin_sets := (gt_coin_sets idx)[unat j := x]\<rparr>) k' = (if k' = k then x else coin_look A idx k')"
  using look_update [OF laws_map [OF L] f l] by (simp add: coin_look_def)

lemma adds_I:
  assumes "wf_index ks idx'" "frame idx' = frame idx"
    and "holds A els idx' = put off (if r = ARNM_SUCCESS then M else {}) (holds A els idx)"
  shows "adds A els ks off M idx (r, idx', mem')"
  using assms by (auto simp: adds_def intro!: exI [of _ "if r = ARNM_SUCCESS then M else {}"])

lemma put_apply: "put off M h m = (if m \<in> M then insert off (h m) else h m)"
  by (simp add: put_def)

lemma add_signed_adds:
  assumes L: "arnm_laws A els ks" and w: "wf_index ks idx"
  shows "adds A els ks (unat off) {Signed k} idx (add_signed A off k (idx, mem))"
proof -
  obtain r i idx1 mem1 where s: "sets_for_key A k (idx, mem) = (r, i, idx1, mem1)" by (metis prod_cases4)
  note o = sets_for_key_opens [OF L w s]
  show ?thesis
  proof (cases "r = ARNM_SUCCESS")
    case False
    then show ?thesis using o(1) [of "unat off"] by (auto simp: add_signed_def s adds_def)
  next
    case True
    obtain j where j: "key_map_find A (gt_addresses idx1) k = Some j" "i = unat j" "unat j < length (gt_address_sets idx1)"
      "gt_address_sets idx1 ! unat j = addr_look A idx1 k" using o(2) [OF True] by blast
    obtain r2 b p2 where a: "roaring_add A (as_signed (addr_look A idx1 k)) off mem1 = (r2, b, p2)" by (metis prod_cases3)
    have w1: "wf_index ks idx1" using o(1) by (simp add: adds_def)
    let ?i = "idx1\<lparr>gt_address_sets := (gt_address_sets idx1)[unat j := addr_look A idx1 k\<lparr>as_signed := b\<rparr>]\<rparr>"
    have e: "add_signed A off k (idx, mem) = (r2, ?i, p2)"
      using j a True by (simp add: add_signed_def s Let_def)
    have "holds A els ?i m = put (unat off) (if r2 = ARNM_SUCCESS then {Signed k} else {}) (holds A els idx1) m" for m
      using holds_address_update [OF L j(1,3)] roaring_add_els [OF L a]
      by (cases m) (auto simp: put_apply coin_look_def)
    then have "adds A els ks (unat off) {Signed k} idx1 (r2, ?i, p2)"
      using w1 by (intro adds_I) (auto simp: wf_index_def frame_def)
    then show ?thesis using adds_after [OF o(1)] e by metis
  qed
qed

lemma add_balance_set_adds:
  assumes L: "arnm_laws A els ks" and w: "wf_index ks idx"
  shows "adds A els ks (unat off) {Balance k} idx (add_balance_set A off k (idx, mem))"
proof -
  obtain r i idx1 mem1 where s: "sets_for_key A k (idx, mem) = (r, i, idx1, mem1)" by (metis prod_cases4)
  note o = sets_for_key_opens [OF L w s]
  show ?thesis
  proof (cases "r = ARNM_SUCCESS")
    case False
    then show ?thesis using o(1) [of "unat off"] by (auto simp: add_balance_set_def s adds_def)
  next
    case True
    obtain j where j: "key_map_find A (gt_addresses idx1) k = Some j" "i = unat j" "unat j < length (gt_address_sets idx1)"
      "gt_address_sets idx1 ! unat j = addr_look A idx1 k" using o(2) [OF True] by blast
    obtain r2 b p2 where a: "roaring_add A (as_balance (addr_look A idx1 k)) off mem1 = (r2, b, p2)" by (metis prod_cases3)
    have w1: "wf_index ks idx1" using o(1) by (simp add: adds_def)
    let ?i = "idx1\<lparr>gt_address_sets := (gt_address_sets idx1)[unat j := addr_look A idx1 k\<lparr>as_balance := b\<rparr>]\<rparr>"
    have e: "add_balance_set A off k (idx, mem) = (r2, ?i, p2)"
      using j a True by (simp add: add_balance_set_def s Let_def)
    have "holds A els ?i m = put (unat off) (if r2 = ARNM_SUCCESS then {Balance k} else {}) (holds A els idx1) m" for m
      using holds_address_update [OF L j(1,3)] roaring_add_els [OF L a]
      by (cases m) (auto simp: put_apply coin_look_def)
    then have "adds A els ks (unat off) {Balance k} idx1 (r2, ?i, p2)"
      using w1 by (intro adds_I) (auto simp: wf_index_def frame_def)
    then show ?thesis using adds_after [OF o(1)] e by metis
  qed
qed

text \<open>The largest element is the current offset just when the offset is in the set.\<close>

lemma set_ends_at_iff:
  assumes L: "arnm_laws A els ks" and le: "\<And>v. v \<in> els s \<Longrightarrow> v \<le> unat off"
  shows "set_ends_at A s off \<longleftrightarrow> unat off \<in> els s"
proof -
  have m: "roaring_maximum A s = (if els s = {} then None else Some (word_of_nat (Max (els s))))"
    and b: "\<And>v. v \<in> els s \<Longrightarrow> v < 2 ^ 32"
    using laws_set [OF L] unfolding set_laws_def by blast+
  have fin: "finite (els s)" by (rule finite_subset [of _ "{..<2 ^ 32}"]) (use b in auto)
  show ?thesis
  proof (cases "els s = {}")
    case True
    then show ?thesis using m by (simp add: set_ends_at_def)
  next
    case False
    have M: "Max (els s) \<in> els s" using False fin by simp
    have "set_ends_at A s off \<longleftrightarrow> word_of_nat (Max (els s)) = off" using m False by (simp add: set_ends_at_def)
    also have "\<dots> \<longleftrightarrow> Max (els s) = unat off"
      using b [OF M] by (auto simp: word_unat_eq_iff unat_of_nat)
    also have "\<dots> \<longleftrightarrow> unat off \<in> els s" using M fin le by (metis Max_eqI)
    finally show ?thesis .
  qed
qed

lemma add_other_adds:
  assumes L: "arnm_laws A els ks" and w: "wf_index ks idx"
    and le: "\<And>m v. v \<in> holds A els idx m \<Longrightarrow> v \<le> unat off"
  shows "adds A els ks (unat off)
           (if unat off \<in> holds A els idx (Signed k) \<union> holds A els idx (Balance k) then {} else {Other k})
           idx (add_other A off k (idx, mem))"
proof -
  obtain r i idx1 mem1 where s: "sets_for_key A k (idx, mem) = (r, i, idx1, mem1)" by (metis prod_cases4)
  note o = sets_for_key_opens [OF L w s]
  show ?thesis
  proof (cases "r = ARNM_SUCCESS")
    case False
    then show ?thesis using o(1) [of "unat off"] by (auto simp: add_other_def s adds_def)
  next
    case True
    obtain j where j: "key_map_find A (gt_addresses idx1) k = Some j" "i = unat j" "unat j < length (gt_address_sets idx1)"
      "gt_address_sets idx1 ! unat j = addr_look A idx1 k" using o(2) [OF True] by blast
    have w1: "wf_index ks idx1" and h1: "holds A els idx1 = holds A els idx" using o(1) by (auto simp: adds_def)
    have ends: "set_ends_at A (as_signed (addr_look A idx1 k)) off \<longleftrightarrow> unat off \<in> holds A els idx (Signed k)"
      "set_ends_at A (as_balance (addr_look A idx1 k)) off \<longleftrightarrow> unat off \<in> holds A els idx (Balance k)"
      using le [of _ "Signed k"] le [of _ "Balance k"] set_ends_at_iff [OF L] by (simp_all add: h1 [symmetric])
    show ?thesis
    proof (cases "unat off \<in> holds A els idx (Signed k) \<union> holds A els idx (Balance k)")
      case T: True
      then have "add_other A off k (idx, mem) = (ARNM_SUCCESS, idx1, mem1)"
        using ends j True by (auto simp: add_other_def s Let_def)
      then show ?thesis using T o(1) True by simp
    next
      case F: False
      obtain r2 b p2 where a: "roaring_add A (as_other (addr_look A idx1 k)) off mem1 = (r2, b, p2)" by (metis prod_cases3)
      let ?i = "idx1\<lparr>gt_address_sets := (gt_address_sets idx1)[unat j := addr_look A idx1 k\<lparr>as_other := b\<rparr>]\<rparr>"
      have e: "add_other A off k (idx, mem) = (r2, ?i, p2)"
        using j a True F ends by (simp add: add_other_def s Let_def)
      have "holds A els ?i m = put (unat off) (if r2 = ARNM_SUCCESS then {Other k} else {}) (holds A els idx1) m" for m
        using holds_address_update [OF L j(1,3)] roaring_add_els [OF L a]
        by (cases m) (auto simp: put_apply coin_look_def)
      then have "adds A els ks (unat off) {Other k} idx1 (r2, ?i, p2)"
        using w1 by (intro adds_I) (auto simp: wf_index_def frame_def)
      then show ?thesis using adds_after [OF o(1)] e F by metis
    qed
  qed
qed

lemma add_coin_adds:
  assumes L: "arnm_laws A els ks" and w: "wf_index ks idx"
  shows "adds A els ks (unat off) {Coin k} idx (add_coin A off k (idx, mem))"
proof -
  obtain r i idx1 mem1 where s: "coin_set_for_uuid A k (idx, mem) = (r, i, idx1, mem1)" by (metis prod_cases4)
  note o = coin_set_for_uuid_opens [OF L w s]
  show ?thesis
  proof (cases "r = ARNM_SUCCESS")
    case False
    then show ?thesis using o(1) [of "unat off"] by (auto simp: add_coin_def s adds_def)
  next
    case True
    obtain j where j: "key_map_find A (gt_coin_communities idx1) k = Some j" "i = unat j" "unat j < length (gt_coin_sets idx1)"
      "gt_coin_sets idx1 ! unat j = coin_look A idx1 k" using o(2) [OF True] by blast
    obtain r2 b p2 where a: "roaring_add A (coin_look A idx1 k) off mem1 = (r2, b, p2)" by (metis prod_cases3)
    have w1: "wf_index ks idx1" using o(1) by (simp add: adds_def)
    let ?i = "idx1\<lparr>gt_coin_sets := (gt_coin_sets idx1)[unat j := b]\<rparr>"
    have e: "add_coin A off k (idx, mem) = (r2, ?i, p2)"
      using j a True by (simp add: add_coin_def s Let_def)
    have "holds A els ?i m = put (unat off) (if r2 = ARNM_SUCCESS then {Coin k} else {}) (holds A els idx1) m" for m
      using holds_coin_update [OF L j(1,3)] roaring_add_els [OF L a]
      by (cases m) (auto simp: put_apply addr_look_def)
    then have "adds A els ks (unat off) {Coin k} idx1 (r2, ?i, p2)"
      using w1 by (intro adds_I) (auto simp: wf_index_def frame_def)
    then show ?thesis using adds_after [OF o(1)] e by metis
  qed
qed

lemma add_foreign_adds:
  assumes L: "arnm_laws A els ks" and w: "wf_index ks idx"
  shows "adds A els ks (unat off) {Foreign} idx (add_foreign A off (idx, mem))"
proof -
  obtain r2 b p2 where a: "roaring_add A (gt_foreign idx) off mem = (r2, b, p2)" by (metis prod_cases3)
  have "holds A els (idx\<lparr>gt_foreign := b\<rparr>) m = put (unat off) (if r2 = ARNM_SUCCESS then {Foreign} else {}) (holds A els idx) m" for m
    using roaring_add_els [OF L a] by (cases m) (auto simp: put_apply addr_look_def coin_look_def)
  then show ?thesis using w a by (auto simp: add_foreign_def wf_index_def frame_def intro!: adds_I)
qed

lemma add_type_adds:
  assumes L: "arnm_laws A els ks" and w: "wf_index ks idx" and t: "t < GRDT_TRANSACTION_COUNT"
  shows "adds A els ks (unat off) {OfType t} idx (add_type A off t (idx, mem))"
proof -
  obtain r2 b p2 where a: "roaring_add A (gt_per_type idx ! unat t) off mem = (r2, b, p2)" by (metis prod_cases3)
  have l: "unat t < length (gt_per_type idx)" using w t by (simp add: wf_index_def word_less_nat_alt)
  have "holds A els (idx\<lparr>gt_per_type := (gt_per_type idx)[unat t := b]\<rparr>) m
      = put (unat off) (if r2 = ARNM_SUCCESS then {OfType t} else {}) (holds A els idx) m" for m
    using roaring_add_els [OF L a] l
    by (cases m) (auto simp: put_apply addr_look_def coin_look_def nth_list_update word_unat_eq_iff)
  then show ?thesis using w a by (auto simp: add_type_def wf_index_def frame_def intro!: adds_I)
qed

end
