(* ===== verification/GRD_Arnm_List.thy ===== *)
theory GRD_Arnm_List
  imports GRD_Transactions
begin

text \<open>
  An instance of the operations of arnm on plain lists that fulfils the laws the index relies on: a bitmap
  is a list of numbers, a map the list of its keys. It never refuses room but for a map that is full. With it a small
  index is computed, which the witnesses use.
\<close>

type_synonym list_set = "u32 list"
type_synonym list_map = "bytes list"

definition list_els :: "list_set \<Rightarrow> nat set" where
  "list_els s = unat ` set s"

definition list_keys :: "list_map \<Rightarrow> bytes list" where
  "list_keys m = take 4294967295 (remdups m)"

fun index_from :: "nat \<Rightarrow> bytes list \<Rightarrow> bytes \<Rightarrow> nat option" where
  "index_from n [] k = None"
| "index_from n (x # xs) k = (if x = k then Some n else index_from (Suc n) xs k)"

definition list_find :: "list_map \<Rightarrow> bytes \<Rightarrow> u32 option" where
  "list_find m k = map_option word_of_nat (index_from 0 (list_keys m) k)"

definition list_get_or_insert :: "list_map \<Rightarrow> bytes \<Rightarrow> unit \<Rightarrow> arnm_result \<times> u32 \<times> list_map \<times> unit" where
  "list_get_or_insert m k p = (case list_find m k of Some i \<Rightarrow> (ARNM_SUCCESS, i, m, p)
     | None \<Rightarrow> if length (list_keys m) < 4294967295
               then (ARNM_SUCCESS, word_of_nat (length (list_keys m)), list_keys m @ [k], p)
               else (ARNM_ERROR_RESOURCE_SIZE_EXCEED, 0, m, p))"

definition list_matches :: "list_set roaring_query \<Rightarrow> u32 list" where
  "list_matches q = filter (\<lambda>v. q_min q \<le> v \<and> v \<le> q_max q \<and> list_all (\<lambda>s. v \<in> set s) (q_all q)
      \<and> (q_any q = [] \<or> list_ex (\<lambda>s. v \<in> set s) (q_any q)) \<and> \<not> list_ex (\<lambda>s. v \<in> set s) (q_none q))
    (sort (remdups (concat (q_all q @ q_any q))))"

definition list_arnm :: "(list_set, list_map, unit) arnm_ops" where
  "list_arnm = \<lparr>pool_init = (\<lambda>p. (ARNM_SUCCESS, p)), pool_release = (\<lambda>p. p),
     bvec_init = (\<lambda>n p. (ARNM_SUCCESS, p)), bvec_reserve = (\<lambda>n p. (ARNM_SUCCESS, p)),
     bvec_grow = (\<lambda>p. (ARNM_SUCCESS, p)), bvec_free = (\<lambda>p. p),
     key_map_none = [], key_map_init = (\<lambda>n b p. (ARNM_SUCCESS, [], p)),
     key_map_reserve = (\<lambda>m n p. (ARNM_SUCCESS, m, p)), key_map_free = (\<lambda>m p. p), key_map_clear = (\<lambda>m. []),
     key_map_get_or_insert = list_get_or_insert, key_map_find = list_find,
     key_map_size = (\<lambda>m. word_of_nat (length (list_keys m))),
     roaring_none = [], roaring_add = (\<lambda>s v p. (ARNM_SUCCESS, v # s, p)), roaring_free = (\<lambda>s p. ([], p)),
     roaring_maximum = (\<lambda>s. if s = [] then None else Some (foldr max s 0)), roaring_contains = (\<lambda>s v. v \<in> set s),
     query_cardinality = (\<lambda>q. (ARNM_SUCCESS, word_of_nat (length (list_matches q)))),
     query_listing = (\<lambda>q skip n desc. (ARNM_SUCCESS,
        take (unat n) (drop (unat skip) ((if desc then rev else id) (list_matches q))), word_of_nat (length (list_matches q)))),
     query_page = (\<lambda>q skip n desc. (ARNM_SUCCESS, take (unat n) (drop (unat skip) ((if desc then rev else id) (list_matches q)))))\<rparr>"

lemma index_from_spec:
  "index_from n xs k = (if k \<in> set xs then Some (n + (LEAST i. xs ! i = k \<and> i < length xs)) else None)"
proof (induction xs arbitrary: n)
  case (Cons x xs)
  show ?case
  proof (cases "x = k")
    case True
    have "(LEAST i. (x # xs) ! i = k \<and> i < length (x # xs)) = 0" using True by (intro Least_equality) auto
    then show ?thesis using True by simp
  next
    case False
    show ?thesis
    proof (cases "k \<in> set xs")
      case T: True
      then obtain j where j: "xs ! j = k \<and> j < length xs" by (auto simp: in_set_conv_nth)
      then have "(LEAST i. (x # xs) ! i = k \<and> i < length (x # xs)) = Suc (LEAST i. (x # xs) ! Suc i = k \<and> Suc i < length (x # xs))"
        using False by (intro Least_Suc [of _ "Suc j"]) auto
      then show ?thesis using False T Cons.IH by simp
    qed (use False Cons.IH in simp)
  qed
qed simp

lemma list_keys_laws: "distinct (list_keys m)" "length (list_keys m) < 4294967296"
  by (simp_all add: list_keys_def)

lemma list_find_spec:
  "case list_find m k of None \<Rightarrow> k \<notin> set (list_keys m)
     | Some i \<Rightarrow> unat i < length (list_keys m) \<and> list_keys m ! unat i = k"
proof (cases "k \<in> set (list_keys m)")
  case False
  then show ?thesis by (simp add: list_find_def index_from_spec)
next
  case True
  let ?P = "\<lambda>i. list_keys m ! i = k \<and> i < length (list_keys m)"
  define i where "i = (LEAST i. ?P i)"
  obtain j where "?P j" using True by (auto simp: in_set_conv_nth)
  then have i: "?P i" unfolding i_def by (rule LeastI)
  then have "unat (word_of_nat i :: u32) = i"
    using list_keys_laws(2) [of m] by (simp add: unsigned_of_nat take_bit_nat_eq_self)
  then show ?thesis using True i by (simp add: list_find_def index_from_spec i_def [symmetric])
qed

lemma list_keys_snoc:
  assumes "k \<notin> set (list_keys m)" "length (list_keys m) < 4294967295"
  shows "list_keys (list_keys m @ [k]) = list_keys m @ [k]"
proof -
  have "distinct (list_keys m @ [k])" using assms(1) list_keys_laws(1) by simp
  then have r: "remdups (list_keys m @ [k]) = list_keys m @ [k]" by (simp add: distinct_remdups_id)
  show ?thesis unfolding list_keys_def [of "list_keys m @ [k]"] r using assms(2) by simp
qed

lemma list_map_laws: "map_laws list_arnm list_keys"
proof -
  have g: "if r = ARNM_SUCCESS
           then unat i < length (list_keys m') \<and> list_keys m' ! unat i = k
             \<and> list_keys m' = (if k \<in> set (list_keys m) then list_keys m else list_keys m @ [k])
           else list_keys m' = list_keys m"
    if "list_get_or_insert m k p = (r, i, m', p')" for m k p r i m' p'
  proof (cases "list_find m k")
    case (Some j)
    then have "r = ARNM_SUCCESS" "i = j" "m' = m" using that by (simp_all add: list_get_or_insert_def)
    then show ?thesis using list_find_spec [where m = m and k = k] Some by (auto dest: nth_mem)
  next
    case None
    then have n: "k \<notin> set (list_keys m)" using list_find_spec [where m = m and k = k] by simp
    show ?thesis
    proof (cases "length (list_keys m) < 4294967295")
      case True
      then have e: "r = ARNM_SUCCESS" "i = word_of_nat (length (list_keys m))" "m' = list_keys m @ [k]"
        using that None by (simp_all add: list_get_or_insert_def)
      have "unat i = length (list_keys m)" using True unfolding e(2) by (simp add: unsigned_of_nat take_bit_nat_eq_self)
      then show ?thesis using n e list_keys_snoc [OF n True] by (simp add: nth_append)
    next
      case False
      then have "r \<noteq> ARNM_SUCCESS" "m' = m" using that None by (simp_all add: list_get_or_insert_def)
      then show ?thesis by simp
    qed
  qed
  have s: "unat (word_of_nat (length (list_keys m)) :: u32) = length (list_keys m)" for m
    using list_keys_laws(2) [of m] by (simp add: unsigned_of_nat take_bit_nat_eq_self)
  have e: "list_keys [] = []" by (simp add: list_keys_def)
  show ?thesis
    unfolding map_laws_def list_arnm_def arnm_ops.select_convs
    by (intro conjI allI impI; (erule g | (use list_keys_laws(1) e s list_find_spec in auto)))
qed

lemma foldr_max_word: "s \<noteq> [] \<Longrightarrow> unat (foldr max s (0 :: u32)) = Max (unat ` set s)"
proof (induction s)
  case (Cons a s)
  have m: "unat (max a b) = max (unat a) (unat b)" for a b :: u32 by (simp add: max_def word_le_nat_alt)
  show ?case using Cons m by (cases "s = []") simp_all
qed simp

lemma list_set_laws: "set_laws list_arnm list_els"
proof -
  have "Some (foldr max s (0 :: u32)) = Some (word_of_nat (Max (list_els s)))" if "s \<noteq> []" for s
    using foldr_max_word [OF that] by (simp add: list_els_def word_unat_eq_iff flip: foldr_max_word [OF that])
  moreover have "\<forall>v \<in> list_els s. v < 2 ^ 32" for s using unat_lt_32 by (auto simp: list_els_def)
  ultimately show ?thesis
    unfolding set_laws_def list_arnm_def arnm_ops.select_convs by (auto simp: list_els_def inj_image_mem_iff)
qed

lemma list_matches_set:
  assumes "query_names_set q"
  shows "unat ` set (list_matches q) = query_set list_els q"
proof -
  have m: "unat v \<in> list_els s \<longleftrightarrow> v \<in> set s" for v s by (auto simp: list_els_def dest!: iffD2 [OF word_unat_eq_iff])
  have a: "unat v \<in> query_set list_els q \<longleftrightarrow> v \<in> set (list_matches q)" for v
    using assms by (auto simp: query_set_def list_matches_def query_names_set_def m word_le_nat_alt list_all_iff list_ex_iff neq_Nil_conv)
  show ?thesis
  proof (intro equalityI subsetI)
    fix v assume v: "v \<in> query_set list_els q"
    then obtain w :: u32 where "v = unat w"
      using assms by (auto simp: query_set_def query_names_set_def list_els_def neq_Nil_conv)
    then show "v \<in> unat ` set (list_matches q)" using a v by simp
  qed (use a in auto)
qed

lemma list_query_laws: "query_laws list_arnm list_els"
proof -
  have p: "card (query_set list_els q) = length (list_matches q)
      \<and> map word_of_nat (page_of (query_set list_els q) skip n d) = take n (drop skip ((if d then rev else id) (list_matches q)))"
    if q: "query_names_set q" for q skip n d
  proof -
    have s: "sorted (list_matches q)" "distinct (list_matches q)"
      by (simp_all add: list_matches_def sorted_wrt_filter)
    have i: "inj_on unat (set (list_matches q))" by (rule inj_onI) (simp add: word_unat_eq_iff)
    have sm: "sorted (map unat (list_matches q))"
      using s(1) by (simp add: sorted_map sorted_wrt_iff_nth_less word_le_nat_alt)
    have dm: "distinct (map unat (list_matches q))" using s(2) i by (simp add: distinct_map)
    have sl: "sorted_list_of_set (query_set list_els q) = map unat (list_matches q)"
      using sorted_list_of_set.idem_if_sorted_distinct [OF sm dm] list_matches_set [OF q] by simp
    have "card (query_set list_els q) = length (list_matches q)"
      using list_matches_set [OF q] distinct_card [OF dm] by simp
    then show ?thesis
      by (simp add: page_of_def sl take_map [symmetric] drop_map [symmetric] rev_map [symmetric] comp_def)
  qed
  show ?thesis unfolding query_laws_def list_arnm_def arnm_ops.select_convs
    by (intro allI impI conjI) (use p in auto)
qed

lemma list_arnm_laws: "arnm_laws list_arnm list_els list_keys"
  by (simp add: arnm_laws_def list_map_laws list_set_laws list_query_laws)

section \<open>A small index\<close>

text \<open>One transaction, signed with one key, moving the balance of another in a foreign coin.\<close>

definition key_a :: bytes where "key_a = replicate 32 1"

definition key_b :: bytes where "key_b = replicate 32 2"

definition coin_c :: bytes where "coin_c = replicate 16 3"

definition sample_tx :: "grdr_complete_transaction" where
  "sample_tx = grdr_complete_transaction_init\<lparr>tx_nr := 5, transaction_type := GRDT_TRANSACTION_COMMUNITY_FRIENDS_UPDATE,
     confirmed_at := \<lparr>seconds = 86400, nanos = 0\<rparr>,
     signature_pairs := [\<lparr>sp_public_key = key_a, sp_signature = []\<rparr>],
     account_balances := [\<lparr>ab_pubkey = key_b, ab_balance = 1, ab_community_uuid = coin_c\<rparr>]\<rparr>"

definition fresh_index :: "(list_set, list_map) grdb_transactions" where "fresh_index = (zero_index list_arnm)\<lparr>gt_ready := True, gt_base_tx_nr := 5\<rparr>"

definition noted_index :: "(list_set, list_map) grdb_transactions" where "noted_index = fresh_index\<lparr>gt_first_day := 1, gt_day_max_tx := [1], gt_min_tx_nr := 5\<rparr>"

definition sample_index :: "(list_set, list_map) grdb_transactions" where
  "sample_index = noted_index\<lparr>gt_addresses := [key_a, key_b],
     gt_address_sets := [\<lparr>as_balance = [], as_signed = [0], as_other = []\<rparr>, \<lparr>as_balance = [0], as_signed = [], as_other = []\<rparr>],
     gt_coin_communities := [coin_c], gt_coin_sets := [[0]], gt_foreign := [0], gt_per_type := [[], [], [], [0], [], [], [], [], []],
     gt_max_tx_nr := 5, gt_transaction_count := 1\<rparr>"

lemma sample_keys: "key_a \<noteq> key_b" "key_b \<noteq> key_a" "grdc_is_empty key_a 32 = False" "grdc_is_empty key_b 32 = False"
  "memcmp_eq coin_c (zeros 16) 16 = False"
  by (simp_all add: key_a_def key_b_def coin_c_def grdc_is_empty_zeros zeros_def memcmp_eq_def)

lemma list_find_small: "list_find [] k = None" "list_find [a] k = (if a = k then Some 0 else None)"
 "a \<noteq> b \<Longrightarrow> list_find [a,b] k = (if a = k then Some 0 else if b = k then Some 1 else None)"
  by (simp_all add: list_find_def list_keys_def)

lemma list_keys_small: "list_keys [] = []" "list_keys [a] = [a]" "a \<noteq> b \<Longrightarrow> list_keys [a,b] = [a,b]"
  by (simp_all add: list_keys_def)

lemma sample_day: "day_of_second 86400 = Inr 1" by (simp add: day_of_second_def)

lemma sample_note_day: "note_day list_arnm 1 0 (fresh_index, ()) = (ARNM_SUCCESS, fresh_index\<lparr>gt_first_day := 1, gt_day_max_tx := [1]\<rparr>, ())"
  by (simp add: note_day_def fresh_index_def zero_index_def grow_to.simps list_arnm_def)

lemma sample_first: "first_transaction sample_tx (fresh_index\<lparr>gt_first_day := 1, gt_day_max_tx := [1]\<rparr>) = noted_index"
  by (simp add: first_transaction_def noted_index_def fresh_index_def zero_index_def sample_tx_def grdr_complete_transaction_init_def)

lemma sample_signed: "add_signed list_arnm 0 key_a (noted_index, ()) = (ARNM_SUCCESS, noted_index\<lparr>gt_addresses := [key_a],
     gt_address_sets := [\<lparr>as_balance = [], as_signed = [0], as_other = []\<rparr>]\<rparr>, ())"
  by (simp add: add_signed_def sets_for_key_def noted_index_def fresh_index_def zero_index_def grow_to.simps list_arnm_def
      list_get_or_insert_def list_find_small list_keys_small empty_address_sets_def)

lemma sample_balance: "add_balance_set list_arnm 0 key_b (noted_index\<lparr>gt_addresses := [key_a],
     gt_address_sets := [\<lparr>as_balance = [], as_signed = [0], as_other = []\<rparr>]\<rparr>, ()) = (ARNM_SUCCESS, 
   noted_index\<lparr>gt_addresses := [key_a,key_b],
     gt_address_sets := [\<lparr>as_balance = [], as_signed = [0], as_other = []\<rparr>, \<lparr>as_balance = [0], as_signed = [], as_other = []\<rparr>]\<rparr>, ())"
  by (simp add: add_balance_set_def sets_for_key_def noted_index_def fresh_index_def zero_index_def grow_to.simps list_arnm_def
      list_get_or_insert_def list_find_small list_keys_small empty_address_sets_def sample_keys)

lemma sample_coin: "add_coin list_arnm 0 coin_c (i, ()) = (ARNM_SUCCESS, i\<lparr>gt_coin_communities := [coin_c], gt_coin_sets := [[0]]\<rparr>, ())"
  if "gt_coin_communities i = []" "gt_coin_sets i = []"
  using that by (simp add: add_coin_def coin_set_for_uuid_def grow_to.simps list_arnm_def
      list_get_or_insert_def list_find_small list_keys_small)

lemma sample_added: "grdb_transactions_add list_arnm (Some fresh_index) (Some sample_tx) () = Inr (ARNM_SUCCESS, Some sample_index, ())"
proof -
  have f: "gt_ready fresh_index" "gt_base_tx_nr fresh_index = 5" "gt_transaction_count fresh_index = 0"
    by (simp_all add: fresh_index_def zero_index_def)
  have nine: "replicate 9 x = [x, x, x, x, x, x, x, x, x]" for x :: list_set by (simp add: numeral_eq_Suc)
  have n: "gt_chain_community_uuid noted_index = zeros 16" "gt_coin_communities noted_index = []" "gt_coin_sets noted_index = []"
   "gt_foreign noted_index = []" "gt_per_type noted_index = [[],[],[],[],[],[],[],[],[]]" "gt_transaction_count noted_index = 0"
    by (simp_all add: noted_index_def fresh_index_def zero_index_def list_arnm_def nine)
  have t: "tx_nr sample_tx = 5" "transaction_type sample_tx = 3" "seconds (confirmed_at sample_tx) = 86400"
    "signature_pairs sample_tx = [\<lparr>sp_public_key = key_a, sp_signature = []\<rparr>]"
    "account_balances sample_tx = [\<lparr>ab_pubkey = key_b, ab_balance = 1, ab_community_uuid = coin_c\<rparr>]"
    "named_keys sample_tx = [None, None, None]"
    by (simp_all add: sample_tx_def named_keys_def)
  have g: "add_foreign list_arnm 0 (i, ()) = (ARNM_SUCCESS, i\<lparr>gt_foreign := 0 # gt_foreign i\<rparr>, ())"
    "add_type list_arnm 0 ty (i, ()) = (ARNM_SUCCESS, i\<lparr>gt_per_type := (gt_per_type i)[unat ty := 0 # gt_per_type i ! unat ty]\<rparr>, ())" for i ty
    by (simp_all add: add_foreign_def add_type_def list_arnm_def)
  have a: "add_marks list_arnm 0 1 sample_tx (fresh_index, ()) = (ARNM_SUCCESS, sample_index, ())"
    by (simp add: add_marks_def bind_ok_def sample_note_day sample_first t signature_step_def balance_step_def
      named_step_def sample_keys sample_signed sample_balance sample_coin n g sample_index_def)
  show ?thesis using f t sample_day a by (simp add: grdb_transactions_add_def)
qed

end
