(* ===== verification/GRD_Index.thy ===== *)
theory GRD_Index
  imports GRD_Marks GRD_Arnm_List
begin

text \<open>
  The marks of a transaction, and \<open>stands_for\<close>: an index holds exactly the marks of the transactions that
  were added. Every operation keeps it.
\<close>

section \<open>The loops\<close>

lemma for_each_adds:
  assumes f: "\<And>a idx mem. a \<in> set as \<Longrightarrow> wf_index ks idx \<Longrightarrow> P idx \<Longrightarrow> adds A els ks off (M a) idx (f a (idx, mem))"
    and p: "\<And>a idx idx' mem'. a \<in> set as \<Longrightarrow> P idx \<Longrightarrow> adds A els ks off (M a) idx (ARNM_SUCCESS, idx', mem') \<Longrightarrow> P idx'"
    and w: "wf_index ks idx" "P idx"
  shows "adds A els ks off (\<Union>a \<in> set as. M a) idx (for_each f as (idx, mem))"
  using assms
proof (induction as arbitrary: idx mem)
  case Nil
  then show ?case by (simp add: adds_none)
next
  case (Cons a as)
  have a: "adds A els ks off (M a) idx (f a (idx, mem))" using Cons.prems by simp
  have "adds A els ks off (M a \<union> (\<Union>a \<in> set as. M a)) idx (bind_ok (f a (idx, mem)) (for_each f as))"
  proof (rule adds_bind_ok [OF a])
    fix idx' mem' assume e: "f a (idx, mem) = (ARNM_SUCCESS, idx', mem')"
    have "P idx'" using Cons.prems(2) [of a idx idx' mem'] Cons.prems(4) a e by simp
    moreover have "wf_index ks idx'" using a e by (simp add: adds_def)
    ultimately show "adds A els ks off (\<Union>a \<in> set as. M a) idx' (for_each f as (idx', mem'))"
      by (intro Cons.IH) (use Cons.prems(1,2) in \<open>meson list.set_intros(2)\<close>)+
  qed
  then show ?case by simp
qed

text \<open>What a transaction says: who signed, whose balance it moved, whom its body names, which coins
  other than the chain's its balances are in.\<close>

definition signed_keys :: "grdr_complete_transaction \<Rightarrow> bytes set" where
  "signed_keys tx = sp_public_key ` set (signature_pairs tx) - {zeros SIGN_PUBLIC_KEY_SIZE}"

definition balance_keys :: "grdr_complete_transaction \<Rightarrow> bytes set" where
  "balance_keys tx = ab_pubkey ` set (account_balances tx) - {zeros SIGN_PUBLIC_KEY_SIZE}"

definition body_keys :: "grdr_complete_transaction \<Rightarrow> bytes set" where
  "body_keys tx = {k. Some k \<in> set (named_keys tx)} - {zeros SIGN_PUBLIC_KEY_SIZE}"

definition foreign_coins :: "bytes \<Rightarrow> grdr_complete_transaction \<Rightarrow> bytes set" where
  "foreign_coins c tx = ab_community_uuid ` set (account_balances tx) - {c}"

definition named_marks :: "grdr_complete_transaction \<Rightarrow> index_mark set" where
  "named_marks tx = Other ` (body_keys tx - signed_keys tx - balance_keys tx)"

definition balance_marks :: "bytes \<Rightarrow> grdr_complete_transaction \<Rightarrow> index_mark set" where
  "balance_marks c tx = Balance ` balance_keys tx \<union> Coin ` foreign_coins c tx
     \<union> (if foreign_coins c tx = {} then {} else {Foreign})"

definition transaction_marks :: "bytes \<Rightarrow> grdr_complete_transaction \<Rightarrow> index_mark set" where
  "transaction_marks c tx = Signed ` signed_keys tx \<union> (balance_marks c tx \<union> (named_marks tx \<union> {OfType (transaction_type tx)}))"

lemma bind_ok_id: "bind_ok (ARNM_SUCCESS, s) f = f s"
  by (simp add: bind_ok_def)

lemma signatures_adds:
  fixes A :: "('s, 'm, 'p) arnm_ops"
  assumes L: "arnm_laws A els ks" and t: "wf_transaction tx" and w: "wf_index ks idx"
  shows "adds A els ks (unat off) (Signed ` signed_keys tx) idx
           (for_each (signature_step A off) (signature_pairs tx) (idx, mem))"
proof -
  let ?M = "\<lambda>sp. if sp_public_key sp = zeros SIGN_PUBLIC_KEY_SIZE then {} else {Signed (sp_public_key sp)}"
  have l: "length (sp_public_key sp) = SIGN_PUBLIC_KEY_SIZE" if "sp \<in> set (signature_pairs tx)" for sp
    using t that by (auto simp: wf_transaction_def list_all_iff)
  have "adds A els ks (unat off) (\<Union>sp \<in> set (signature_pairs tx). ?M sp) idx
           (for_each (signature_step A off) (signature_pairs tx) (idx, mem))"
  proof (rule for_each_adds [where P = "\<lambda>_. True"])
    fix sp and idx :: "('s, 'm) grdb_transactions" and mem :: 'p assume "sp \<in> set (signature_pairs tx)" "wf_index ks idx"
    then show "adds A els ks (unat off) (?M sp) idx (signature_step A off sp (idx, mem))"
      using add_signed_adds [OF L] l by (simp add: signature_step_def adds_none grdc_is_empty_key)
  qed (use w in auto)
  moreover have "(\<Union>sp \<in> set (signature_pairs tx). ?M sp) = Signed ` signed_keys tx"
    by (auto simp: signed_keys_def)
  ultimately show ?thesis by simp
qed

lemma balances_adds:
  fixes A :: "('s, 'm, 'p) arnm_ops"
  assumes L: "arnm_laws A els ks" and t: "wf_transaction tx" and w: "wf_index ks idx"
    and c: "length (gt_chain_community_uuid idx) = ARNM_UUID_BINARY_SIZE"
  shows "adds A els ks (unat off) (balance_marks (gt_chain_community_uuid idx) tx) idx
           (for_each (balance_step A off) (account_balances tx) (idx, mem))"
proof -
  define c where "c = gt_chain_community_uuid idx"
  let ?B = "\<lambda>b. if ab_pubkey b = zeros SIGN_PUBLIC_KEY_SIZE then {} else {Balance (ab_pubkey b)}"
  let ?C = "\<lambda>b. if ab_community_uuid b = c then {} else {Coin (ab_community_uuid b)} \<union> {Foreign}"
  have l: "length (ab_pubkey b) = SIGN_PUBLIC_KEY_SIZE" "length (ab_community_uuid b) = ARNM_UUID_BINARY_SIZE"
    if "b \<in> set (account_balances tx)" for b
    using t that by (auto simp: wf_transaction_def list_all_iff wf_balance_def)
  have "adds A els ks (unat off) (\<Union>b \<in> set (account_balances tx). ?B b \<union> ?C b) idx
           (for_each (balance_step A off) (account_balances tx) (idx, mem))"
  proof (rule for_each_adds [where P = "\<lambda>idx. gt_chain_community_uuid idx = c"])
    fix b and idx :: "('s, 'm) grdb_transactions" and mem :: 'p assume b: "b \<in> set (account_balances tx)" and wf: "wf_index ks idx" and ci: "gt_chain_community_uuid idx = c"
    show "adds A els ks (unat off) (?B b \<union> ?C b) idx (balance_step A off b (idx, mem))"
      unfolding balance_step_def
    proof (rule adds_bind_ok)
      let ?r = "if \<not> grdc_is_empty (ab_pubkey b) SIGN_PUBLIC_KEY_SIZE
              then add_balance_set A off (ab_pubkey b) (idx, mem) else (ARNM_SUCCESS, (idx, mem))"
      show a: "adds A els ks (unat off) (?B b) idx ?r"
        using wf add_balance_set_adds [OF L] l(1) [OF b] by (simp add: adds_none grdc_is_empty_key)
      fix idx' mem' assume e: "?r = (ARNM_SUCCESS, idx', mem')"
      have wf': "wf_index ks idx'" and ci': "gt_chain_community_uuid idx' = c"
        using a ci unfolding e by (auto simp: adds_def frame_def)
      have "adds A els ks (unat off) ({Coin (ab_community_uuid b)} \<union> {Foreign}) idx'
             (bind_ok (add_coin A off (ab_community_uuid b) (idx', mem')) (add_foreign A off))"
      proof (rule adds_bind_ok [OF add_coin_adds [OF L wf']])
        fix idx2 mem2 assume e2: "add_coin A off (ab_community_uuid b) (idx', mem') = (ARNM_SUCCESS, idx2, mem2)"
        have "wf_index ks idx2"
          using add_coin_adds [OF L wf', of off "ab_community_uuid b" mem'] unfolding e2 by (auto simp: adds_def)
        then show "adds A els ks (unat off) {Foreign} idx2 (add_foreign A off (idx2, mem2))" by (rule add_foreign_adds [OF L])
      qed
      then show "adds A els ks (unat off) (?C b) idx'
          (if \<not> memcmp_eq (ab_community_uuid b) (gt_chain_community_uuid (fst (idx', mem'))) ARNM_UUID_BINARY_SIZE
           then bind_ok (add_coin A off (ab_community_uuid b) (idx', mem')) (add_foreign A off)
           else (ARNM_SUCCESS, (idx', mem')))"
        using wf' ci' l(2) [OF b] c c_def by (simp add: memcmp_eq_full adds_none)
    qed
  qed (use w c_def in \<open>auto simp: adds_def frame_def\<close>)
  moreover have "(\<Union>b \<in> set (account_balances tx). ?B b \<union> ?C b) = balance_marks c tx"
  proof -
    have "(\<Union>b \<in> set (account_balances tx). ?B b) = Balance ` balance_keys tx"
      by (auto simp: balance_keys_def split: if_splits)
    moreover have "(\<Union>b \<in> set (account_balances tx). ?C b)
        = Coin ` foreign_coins c tx \<union> (if foreign_coins c tx = {} then {} else {Foreign})"
      by (auto simp: foreign_coins_def split: if_splits)
    ultimately show ?thesis by (simp add: balance_marks_def UN_Un_distrib Un_assoc)
  qed
  ultimately show ?thesis by (simp add: c_def)
qed

text \<open>By then the signatures and balances stand: a key is left to the third role when the current offset
  is not under either.\<close>

lemma named_adds:
  fixes A :: "('s, 'm, 'p) arnm_ops"
  assumes L: "arnm_laws A els ks" and t: "wf_transaction tx" and w: "wf_index ks idx"
    and le: "\<And>m v. v \<in> holds A els idx m \<Longrightarrow> v \<le> unat off"
    and K: "\<And>k. unat off \<in> holds A els idx (Signed k) \<union> holds A els idx (Balance k) \<longleftrightarrow> k \<in> signed_keys tx \<union> balance_keys tx"
  shows "adds A els ks (unat off) (named_marks tx) idx (for_each (named_step A off) (named_keys tx) (idx, mem))"
proof -
  let ?M = "\<lambda>n. case n of None \<Rightarrow> {} | Some k \<Rightarrow>
     if k = zeros SIGN_PUBLIC_KEY_SIZE \<or> k \<in> signed_keys tx \<union> balance_keys tx then {} else {Other k}"
  let ?P = "\<lambda>idx. (\<forall>m v. v \<in> holds A els idx m \<longrightarrow> v \<le> unat off)
     \<and> (\<forall>k. unat off \<in> holds A els idx (Signed k) \<union> holds A els idx (Balance k) \<longleftrightarrow> k \<in> signed_keys tx \<union> balance_keys tx)"
  have l: "length k = SIGN_PUBLIC_KEY_SIZE" if "Some k \<in> set (named_keys tx)" for k
    using t that by (auto simp: wf_transaction_def named_keys_def split: if_splits)
  have "adds A els ks (unat off) (\<Union>n \<in> set (named_keys tx). ?M n) idx
           (for_each (named_step A off) (named_keys tx) (idx, mem))"
  proof (rule for_each_adds [where P = ?P])
    fix n and idx :: "('s, 'm) grdb_transactions" and mem :: 'p assume n: "n \<in> set (named_keys tx)" and wf: "wf_index ks idx" and p: "?P idx"
    show "adds A els ks (unat off) (?M n) idx (named_step A off n (idx, mem))"
    proof (cases n)
      case None
      then show ?thesis using wf by (simp add: named_step_def adds_none)
    next
      case (Some k)
      have "adds A els ks (unat off) (if k \<in> signed_keys tx \<union> balance_keys tx then {} else {Other k}) idx
              (add_other A off k (idx, mem))"
        using add_other_adds [OF L wf, of off k mem] p by simp
      then show ?thesis using wf l n by (simp add: named_step_def Some adds_none grdc_is_empty_key)
    qed
  next
    fix n and idx idx' :: "('s, 'm) grdb_transactions" and mem' :: 'p assume n: "n \<in> set (named_keys tx)" and p: "?P idx"
      and a: "adds A els ks (unat off) (?M n) idx (ARNM_SUCCESS, idx', mem')"
    have h: "holds A els idx' = put (unat off) (?M n) (holds A els idx)" using a by (auto simp: adds_def)
    have "Signed k \<notin> ?M n" "Balance k \<notin> ?M n" for k by (auto split: option.splits)
    then show "?P idx'" using p by (simp add: h put_apply)
  qed (use w le K in auto)
  moreover have "(\<Union>n \<in> set (named_keys tx). ?M n) = named_marks tx"
    by (auto simp: named_marks_def body_keys_def split: option.splits if_splits)
  ultimately show ?thesis by simp
qed

section \<open>The steps of one transaction on the sets\<close>

definition set_steps :: "('s, 'm, 'p) arnm_ops \<Rightarrow> u32 \<Rightarrow> grdr_complete_transaction
    \<Rightarrow> ('s, 'm) grdb_transactions \<times> 'p \<Rightarrow> arnm_result \<times> ('s, 'm) grdb_transactions \<times> 'p" where
  "set_steps A off tx s =
     bind_ok (for_each (signature_step A off) (signature_pairs tx) s) (\<lambda>s.
     bind_ok (for_each (balance_step A off) (account_balances tx) s) (\<lambda>s.
     bind_ok (for_each (named_step A off) (named_keys tx) s) (add_type A off (transaction_type tx))))"

definition finish :: "grdr_complete_transaction \<Rightarrow> ('s, 'm) grdb_transactions \<Rightarrow> ('s, 'm) grdb_transactions" where
  "finish tx idx = idx\<lparr>gt_max_tx_nr := tx_nr tx, gt_transaction_count := gt_transaction_count idx + 1\<rparr>"

lemma bind_ok_assoc: "bind_ok (bind_ok a f) g = bind_ok a (\<lambda>s. bind_ok (f s) g)"
  by (simp add: bind_ok_def)

lemma add_marks_split:
  "add_marks A off day tx s = bind_ok (note_day A day off s) (\<lambda>(idx, mem).
     bind_ok (set_steps A off tx (first_transaction tx idx, mem)) (\<lambda>(idx, mem). (ARNM_SUCCESS, finish tx idx, mem)))"
  by (simp add: add_marks_def set_steps_def bind_ok_assoc finish_def)

lemma set_steps_adds:
  fixes A :: "('s, 'm, 'p) arnm_ops"
  assumes L: "arnm_laws A els ks" and t: "wf_transaction tx" "transaction_type tx < GRDT_TRANSACTION_COUNT"
    and w: "wf_index ks idx" and u: "gt_chain_community_uuid idx = c" "length c = ARNM_UUID_BINARY_SIZE"
    and le: "\<And>m v. v \<in> holds A els idx m \<Longrightarrow> v \<le> unat off"
    and own: "\<And>m. unat off \<in> holds A els idx m \<Longrightarrow> m \<in> transaction_marks c tx"
  shows "adds A els ks (unat off) (transaction_marks c tx) idx (set_steps A off tx (idx, mem))"
  unfolding set_steps_def transaction_marks_def
proof (rule adds_bind_ok [OF signatures_adds [OF L t(1) w]])
  fix i1 :: "('s, 'm) grdb_transactions" and m1 :: 'p
  assume e1: "for_each (signature_step A off) (signature_pairs tx) (idx, mem) = (ARNM_SUCCESS, i1, m1)"
  have s1: "wf_index ks i1" "gt_chain_community_uuid i1 = c"
    "holds A els i1 = put (unat off) (Signed ` signed_keys tx) (holds A els idx)"
    using signatures_adds [OF L t(1) w, of off mem] u unfolding e1 by (auto simp: adds_def frame_def)
  have b: "adds A els ks (unat off) (balance_marks c tx) i1 (for_each (balance_step A off) (account_balances tx) (i1, m1))"
    using balances_adds [OF L t(1) s1(1)] s1(2) u(2) by simp
  show "adds A els ks (unat off) (balance_marks c tx \<union> (named_marks tx \<union> {OfType (transaction_type tx)})) i1
     (bind_ok (for_each (balance_step A off) (account_balances tx) (i1, m1)) (\<lambda>s.
      bind_ok (for_each (named_step A off) (named_keys tx) s) (add_type A off (transaction_type tx))))"
  proof (rule adds_bind_ok [OF b])
    fix i2 :: "('s, 'm) grdb_transactions" and m2 :: 'p
    assume e2: "for_each (balance_step A off) (account_balances tx) (i1, m1) = (ARNM_SUCCESS, i2, m2)"
    have s2: "wf_index ks i2" "holds A els i2 = put (unat off) (Signed ` signed_keys tx \<union> balance_marks c tx) (holds A els idx)"
      using b s1(3) unfolding e2 by (auto simp: adds_def put_put)
    have K: "unat off \<in> holds A els i2 (Signed k) \<union> holds A els i2 (Balance k) \<longleftrightarrow> k \<in> signed_keys tx \<union> balance_keys tx" for k
      using own [of "Signed k"] own [of "Balance k"]
      by (auto simp: s2(2) put_apply transaction_marks_def balance_marks_def named_marks_def split: if_splits)
    have le2: "v \<le> unat off" if "v \<in> holds A els i2 m" for m v
      using that le by (auto simp: s2(2) put_apply split: if_splits)
    note n = named_adds [OF L t(1) s2(1) le2 K]
    show "adds A els ks (unat off) (named_marks tx \<union> {OfType (transaction_type tx)}) i2
       (bind_ok (for_each (named_step A off) (named_keys tx) (i2, m2)) (add_type A off (transaction_type tx)))"
    proof (rule adds_bind_ok [OF n])
      fix i3 :: "('s, 'm) grdb_transactions" and m3 :: 'p
      assume e3: "for_each (named_step A off) (named_keys tx) (i2, m2) = (ARNM_SUCCESS, i3, m3)"
      have "wf_index ks i3" using n [where mem = m2] unfolding e3 by (auto simp: adds_def)
      then show "adds A els ks (unat off) {OfType (transaction_type tx)} i3 (add_type A off (transaction_type tx) (i3, m3))"
        by (rule add_type_adds [OF L _ t(2)])
    qed
  qed
qed

section \<open>What an index stands for\<close>

definition second_day :: "i64 \<Rightarrow> int" where
  "second_day s = (case day_of_second s of Inr d \<Rightarrow> d | Inl _ \<Rightarrow> 0)"

definition day_of :: "grdr_complete_transaction \<Rightarrow> int" where
  "day_of tx = second_day (seconds (confirmed_at tx))"

definition offset_of :: "u64 \<Rightarrow> grdr_complete_transaction \<Rightarrow> nat" where
  "offset_of base tx = unat (tx_nr tx) - unat base"

text \<open>The entry of a day: one more than the last offset of it.\<close>

definition day_top :: "u64 \<Rightarrow> grdr_complete_transaction list \<Rightarrow> int \<Rightarrow> nat" where
  "day_top base txs d = fold (\<lambda>tx m. if day_of tx = d then Suc (offset_of base tx) else m) txs 0"

definition numbered :: "u64 \<Rightarrow> grdr_complete_transaction list \<Rightarrow> bool" where
  "numbered base txs \<longleftrightarrow>
     (\<forall>i < length txs. unat (tx_nr (txs ! i)) = unat (tx_nr (hd txs)) + i)
     \<and> (\<forall>tx \<in> set txs. base \<le> tx_nr tx \<and> offset_of base tx < 4294967295
          \<and> wf_transaction tx \<and> transaction_type tx < GRDT_TRANSACTION_COUNT)"

definition chain_uuid :: "grdr_complete_transaction list \<Rightarrow> grdr_complete_transaction option \<Rightarrow> bytes" where
  "chain_uuid txs pend = (case txs of t # _ \<Rightarrow> tx_community_uuid t
     | [] \<Rightarrow> (case pend of Some p \<Rightarrow> tx_community_uuid p | None \<Rightarrow> []))"

definition expected :: "u64 \<Rightarrow> bytes \<Rightarrow> grdr_complete_transaction list \<Rightarrow> index_mark \<Rightarrow> nat set" where
  "expected base c txs m = offset_of base ` {tx \<in> set txs. m \<in> transaction_marks c tx}"

definition days_stand :: "('s, 'm) grdb_transactions \<Rightarrow> grdr_complete_transaction list
    \<Rightarrow> grdr_complete_transaction option \<Rightarrow> bool" where
  "days_stand idx txs pend \<longleftrightarrow>
     (txs \<noteq> [] \<longrightarrow> gt_first_day idx = day_of (hd txs))
     \<and> (\<forall>p. txs = [] \<and> pend = Some p \<longrightarrow> gt_first_day idx = day_of p)
     \<and> (\<forall>tx \<in> set txs. gt_first_day idx \<le> day_of tx \<and> day_of tx < gt_first_day idx + int (length (gt_day_max_tx idx)))
     \<and> (\<forall>i < length (gt_day_max_tx idx).
          unat (gt_day_max_tx idx ! i) = day_top (gt_base_tx_nr idx) txs (gt_first_day idx + int i)
          \<or> (\<exists>p. pend = Some p \<and> day_of p = gt_first_day idx + int i
               \<and> unat (gt_day_max_tx idx ! i) = offset_of (gt_base_tx_nr idx) p + 1))"

text \<open>\<open>txs\<close> are in the index. \<open>pend\<close> is a transaction that was refused halfway for want of memory: some of
  its marks stand already, and it is the one to add next.\<close>

definition stands_for :: "('s, 'm, 'p) arnm_ops \<Rightarrow> ('s \<Rightarrow> nat set) \<Rightarrow> ('m \<Rightarrow> bytes list) \<Rightarrow> ('s, 'm) grdb_transactions
    \<Rightarrow> grdr_complete_transaction list \<Rightarrow> grdr_complete_transaction option \<Rightarrow> bool" where
  "stands_for A els ks idx txs pend \<longleftrightarrow>
     wf_index ks idx \<and> gt_ready idx \<and> numbered (gt_base_tx_nr idx) txs
     \<and> unat (gt_transaction_count idx) = length txs
     \<and> (txs \<noteq> [] \<longrightarrow> gt_min_tx_nr idx = tx_nr (hd txs) \<and> gt_max_tx_nr idx = tx_nr (last txs)
          \<and> gt_chain_community_uuid idx = tx_community_uuid (hd txs))
     \<and> (\<forall>p. pend = Some p \<longrightarrow> gt_base_tx_nr idx \<le> tx_nr p
          \<and> (txs \<noteq> [] \<longrightarrow> unat (tx_nr p) = unat (tx_nr (last txs)) + 1))
     \<and> (\<exists>R. (\<forall>m \<in> R. \<exists>p. pend = Some p \<and> m \<in> transaction_marks (chain_uuid txs pend) p)
          \<and> holds A els idx = put (case pend of None \<Rightarrow> 0 | Some p \<Rightarrow> offset_of (gt_base_tx_nr idx) p) R
               (expected (gt_base_tx_nr idx) (chain_uuid txs pend) txs))
     \<and> days_stand idx txs pend"

lemma day_top_snoc: "day_top base (txs @ [tx]) d = (if day_of tx = d then Suc (offset_of base tx) else day_top base txs d)"
  by (simp add: day_top_def)

lemma day_top_none: "\<forall>tx \<in> set txs. day_of tx \<noteq> d \<Longrightarrow> day_top base txs d = 0"
  by (induction txs rule: rev_induct) (auto simp: day_top_snoc day_top_def)

lemma day_top_le: "\<forall>tx \<in> set txs. offset_of base tx < n \<Longrightarrow> day_top base txs d \<le> n"
  by (induction txs rule: rev_induct) (auto simp: day_top_snoc day_top_def)

lemma expected_Nil: "expected base c [] = (\<lambda>m. {})"
  by (rule ext) (simp add: expected_def)

lemma expected_snoc:
  "expected base c (txs @ [tx]) = put (offset_of base tx) (transaction_marks c tx) (expected base c txs)"
  by (rule ext) (auto simp: expected_def put_def)

section \<open>Days\<close>

text \<open>After a transaction noted its day, the table stands for it as pending, and holds its entry.\<close>

lemma note_day_stands:
  assumes d: "days_stand idx txs pend" and p: "pend = None \<or> pend = Some tx"
    and c: "gt_transaction_count idx = 0 \<longleftrightarrow> txs = []"
    and o: "unat off = offset_of (gt_base_tx_nr idx) tx" "unat off < 4294967295"
    and below: "\<forall>t \<in> set txs. offset_of (gt_base_tx_nr idx) t < unat off"
    and n: "note_day A (day_of tx) off (idx, mem) = (r, idx', mem')"
  shows "\<exists>v f. idx' = idx\<lparr>gt_day_max_tx := v, gt_first_day := f\<rparr>"
    and "r \<noteq> ARNM_SUCCESS \<Longrightarrow> idx' = idx \<or> days_stand idx' txs (Some tx)"
    and "r = ARNM_SUCCESS \<Longrightarrow> days_stand idx' txs (Some tx) \<and> days_stand idx' (txs @ [tx]) None"
proof -
  define fd where "fd = (if txs = [] then day_of tx else gt_first_day idx)"
  define i0 where "i0 = idx\<lparr>gt_first_day := fd\<rparr>"
  have first: "(if gt_transaction_count idx = 0 then idx\<lparr>gt_first_day := day_of tx\<rparr> else idx) = i0"
    using c by (simp add: i0_def fd_def)
  have i0: "gt_first_day i0 = fd" "gt_day_max_tx i0 = gt_day_max_tx idx" "gt_base_tx_nr i0 = gt_base_tx_nr idx"
    by (simp_all add: i0_def)
  define base where "base = gt_base_tx_nr idx"
  define days where "days = gt_day_max_tx idx"
  have inside: "fd \<le> day_of t \<and> day_of t < fd + int (length days)" if "t \<in> set txs" for t
    using d that by (auto simp: days_stand_def fd_def days_def)
  have fdhd: "txs \<noteq> [] \<Longrightarrow> fd = day_of (hd txs)" using d by (simp add: days_stand_def fd_def)
  have slots: "unat (days ! i) = day_top base txs (fd + int i)
      \<or> day_of tx = fd + int i \<and> unat (days ! i) = offset_of base tx + 1" if "i < length days" for i
  proof (cases "txs = []")
    case False
    then show ?thesis using d p that by (fastforce simp: days_stand_def fd_def days_def base_def)
  next
    case True
    then have "gt_first_day idx = fd \<or> pend = None" using d p by (auto simp: days_stand_def fd_def)
    moreover have "unat (days ! i) = 0 \<or> (\<exists>q. pend = Some q \<and> day_of q = gt_first_day idx + int i \<and> unat (days ! i) = offset_of base q + 1)"
      using d that True by (auto simp: days_stand_def days_def base_def day_top_def)
    ultimately show ?thesis using p True by (auto simp: day_top_def)
  qed
  have grown: "days_stand (i0\<lparr>gt_day_max_tx := days @ replicate j 0\<rparr>) txs (Some tx)" for j
  proof -
    have z: "day_top base txs (fd + int i) = 0" if "length days \<le> i" for i
      using inside that by (intro day_top_none) fastforce
    have "unat ((days @ replicate j 0) ! i) = day_top base txs (fd + int i)
      \<or> day_of tx = fd + int i \<and> unat ((days @ replicate j 0) ! i) = offset_of base tx + 1"
      if "i < length (days @ replicate j 0)" for i
      using slots [of i] z [of i] that by (cases "i < length days") (auto simp: nth_append)
    moreover have "fd \<le> day_of t \<and> day_of t < fd + int (length (days @ replicate j 0))" if "t \<in> set txs" for t
      using inside [OF that] by simp
    moreover have "txs = [] \<Longrightarrow> fd = day_of tx" by (simp add: fd_def)
    ultimately show ?thesis using fdhd by (simp add: days_stand_def i0_def base_def)
  qed
  consider (low) "day_of tx < fd" | (far) "\<not> day_of tx < fd" "day_of tx - fd > 4294967295"
    | (ok) "\<not> day_of tx < fd" "\<not> day_of tx - fd > 4294967295" by blast
  then have "idx' = i0\<lparr>gt_day_max_tx := gt_day_max_tx idx'\<rparr>
    \<and> (r \<noteq> ARNM_SUCCESS \<longrightarrow> idx' = idx \<or> days_stand idx' txs (Some tx))
    \<and> (r = ARNM_SUCCESS \<longrightarrow> days_stand idx' txs (Some tx) \<and> days_stand idx' (txs @ [tx]) None)"
  proof cases
    case low
    then have "txs \<noteq> []" "r \<noteq> ARNM_SUCCESS" "idx' = i0" using n unfolding note_day_def prod.case first Let_def i0
      by (auto simp: fd_def)
    then show ?thesis by (simp add: i0_def fd_def)
  next
    case far
    then have "txs \<noteq> []" "r \<noteq> ARNM_SUCCESS" "idx' = i0" using n unfolding note_day_def prod.case first Let_def i0
      by (auto simp: fd_def)
    then show ?thesis by (simp add: i0_def fd_def)
  next
    case ok
    define k where "k = nat (day_of tx - fd)"
    obtain r1 v p1 where g: "grow_to A (k + 1) 0 (days, mem) = (r1, v, p1)" by (metis prod_cases3)
    obtain j where v: "v = days @ replicate j 0" "r1 = ARNM_SUCCESS \<longrightarrow> k + 1 \<le> length v" using grow_to_grown [OF g] by blast
    show ?thesis
    proof (cases "r1 = ARNM_SUCCESS")
      case False
      then have "r = r1" "idx' = i0\<lparr>gt_day_max_tx := v\<rparr>"
        using n ok g unfolding note_day_def prod.case first Let_def i0 days_def k_def by auto
      then show ?thesis using False grown v(1) by simp
    next
      case True
      define w where "w = (if v ! k < off + 1 then v[k := off + 1] else v)"
      have e: "r = ARNM_SUCCESS" "idx' = i0\<lparr>gt_day_max_tx := w\<rparr>"
        using n ok g True unfolding note_day_def prod.case first Let_def i0 days_def k_def w_def by auto
      have kl: "k < length v" using v(2) True by simp
      have fk: "fd + int k = day_of tx" using ok by (simp add: k_def)
      have o1: "unat (off + 1) = offset_of base tx + 1" using o by (simp add: base_def unat_word_ariths unat_add_small)
      have gv: "days_stand (i0\<lparr>gt_day_max_tx := v\<rparr>) txs (Some tx)" using grown v(1) by simp
      have wl: "length w = length v" by (simp add: w_def)
      have vs: "unat (v ! i) = day_top base txs (fd + int i) \<or> day_of tx = fd + int i \<and> unat (v ! i) = offset_of base tx + 1"
        if "i < length v" for i
        using gv that by (auto simp: days_stand_def i0_def base_def)
      have "unat (v ! k) \<le> offset_of base tx + 1"
        using vs [OF kl] day_top_le [of txs base "offset_of base tx" "fd + int k"] below o(1) by (auto simp: base_def)
      then have wk: "unat (w ! k) = offset_of base tx + 1"
        using o1 kl by (auto simp: w_def word_less_nat_alt)
      have wi: "w ! i = v ! i" if "i \<noteq> k" for i using that by (simp add: w_def)
      have ws: "unat (w ! i) = day_top base (txs @ [tx]) (fd + int i)" if "i < length v" for i
        using vs [OF that] wk wi [of i] fk by (cases "i = k") (auto simp: day_top_snoc)
      have ws': "unat (w ! i) = day_top base txs (fd + int i) \<or> day_of tx = fd + int i \<and> unat (w ! i) = offset_of base tx + 1"
        if "i < length v" for i
        using ws [OF that] by (auto simp: day_top_snoc split: if_splits)
      have a: "days_stand idx' txs (Some tx)"
        using gv ws' by (simp add: days_stand_def e(2) wl i0_def base_def)
      have b: "days_stand idx' (txs @ [tx]) None"
        using gv ws fk kl by (auto simp: days_stand_def e(2) wl i0_def base_def hd_append fd_def)
      show ?thesis using a b e by (auto simp: i0_def)
    qed
  qed
  then have all: "idx' = i0\<lparr>gt_day_max_tx := gt_day_max_tx idx'\<rparr>"
    "r \<noteq> ARNM_SUCCESS \<longrightarrow> idx' = idx \<or> days_stand idx' txs (Some tx)"
    "r = ARNM_SUCCESS \<longrightarrow> days_stand idx' txs (Some tx) \<and> days_stand idx' (txs @ [tx]) None" by blast+
  have "idx' = idx\<lparr>gt_day_max_tx := gt_day_max_tx idx', gt_first_day := fd\<rparr>"
    by (subst all(1)) (simp add: i0_def)
  then show "\<exists>v f. idx' = idx\<lparr>gt_day_max_tx := v, gt_first_day := f\<rparr>" by blast
  show "r \<noteq> ARNM_SUCCESS \<Longrightarrow> idx' = idx \<or> days_stand idx' txs (Some tx)" using all(2) by blast
  show "r = ARNM_SUCCESS \<Longrightarrow> days_stand idx' txs (Some tx) \<and> days_stand idx' (txs @ [tx]) None" using all(3) by blast
qed

section \<open>Adding a transaction\<close>

lemma numbered_nth:
  assumes "numbered base txs" "t \<in> set txs"
  shows "unat (tx_nr (hd txs)) \<le> unat (tx_nr t) \<and> unat (tx_nr t) \<le> unat (tx_nr (last txs))"
proof -
  obtain i where i: "i < length txs" "t = txs ! i" using assms(2) by (auto simp: in_set_conv_nth)
  then have "txs \<noteq> []" by auto
  then have "unat (tx_nr (last txs)) = unat (tx_nr (hd txs)) + (length txs - 1)"
    using assms(1) by (simp add: numbered_def last_conv_nth)
  moreover have "unat (tx_nr t) = unat (tx_nr (hd txs)) + i" using assms(1) i by (simp add: numbered_def)
  ultimately show ?thesis using i(1) by linarith
qed

lemma numbered_snoc:
  "numbered base (txs @ [tx]) \<longleftrightarrow> numbered base txs
     \<and> base \<le> tx_nr tx \<and> offset_of base tx < 4294967295 \<and> wf_transaction tx \<and> transaction_type tx < GRDT_TRANSACTION_COUNT
     \<and> (txs \<noteq> [] \<longrightarrow> unat (tx_nr tx) = unat (tx_nr (last txs)) + 1)"
proof (cases "txs = []")
  case True
  then show ?thesis by (simp add: numbered_def)
next
  case False
  have l: "unat (tx_nr (last txs)) = unat (tx_nr (hd txs)) + (length txs - 1)" if "numbered base txs"
    using that False by (simp add: numbered_def last_conv_nth)
  have n: "(\<forall>i < length (txs @ [tx]). unat (tx_nr ((txs @ [tx]) ! i)) = unat (tx_nr (hd (txs @ [tx]))) + i)
     \<longleftrightarrow> (\<forall>i < length txs. unat (tx_nr (txs ! i)) = unat (tx_nr (hd txs)) + i)
       \<and> unat (tx_nr tx) = unat (tx_nr (hd txs)) + length txs"
    using False by (auto simp: nth_append less_Suc_eq)
  have "0 < length txs" using False by simp
  then show ?thesis using l False unfolding numbered_def n by (auto simp: numbered_def)
qed

lemma chain_uuid_snoc: "chain_uuid (txs @ [tx]) p = chain_uuid txs (Some tx)"
  by (cases txs) (simp_all add: chain_uuid_def)

lemma holds_cong:
  assumes "gt_addresses i = gt_addresses j" "gt_address_sets i = gt_address_sets j" "gt_per_type i = gt_per_type j"
    "gt_coin_communities i = gt_coin_communities j" "gt_coin_sets i = gt_coin_sets j" "gt_foreign i = gt_foreign j"
  shows "holds A els i = holds A els j"
proof
  fix m show "holds A els i m = holds A els j m" using assms by (cases m) (simp_all add: addr_look_def coin_look_def)
qed

text \<open>What stands is also what stands with the transaction to come as the pending one.\<close>

lemma stands_own:
  assumes s: "stands_for A els ks idx txs pend" and p: "pend = None \<or> pend = Some tx"
  shows "\<exists>R. R \<subseteq> transaction_marks (chain_uuid txs (Some tx)) tx
    \<and> holds A els idx = put (offset_of (gt_base_tx_nr idx) tx) R
        (expected (gt_base_tx_nr idx) (chain_uuid txs (Some tx)) txs)"
proof (cases "pend = None")
  case False
  then show ?thesis using s p by (auto simp: stands_for_def)
next
  case True
  have "expected b (chain_uuid txs None) txs = expected b (chain_uuid txs (Some tx)) txs" for b
    by (cases txs) (simp_all add: chain_uuid_def expected_Nil)
  then show ?thesis using s True by (auto simp: stands_for_def intro!: exI [of _ "{}"])
qed

lemma frameD:
  assumes "frame i = frame j"
  shows "gt_day_max_tx i = gt_day_max_tx j" "gt_chain_community_uuid i = gt_chain_community_uuid j"
    "gt_base_tx_nr i = gt_base_tx_nr j" "gt_min_tx_nr i = gt_min_tx_nr j" "gt_max_tx_nr i = gt_max_tx_nr j"
    "gt_first_day i = gt_first_day j" "gt_transaction_count i = gt_transaction_count j" "gt_ready i = gt_ready j"
  using assms by (simp_all add: frame_def)

lemma days_stand_cong:
  assumes "gt_day_max_tx i = gt_day_max_tx j" "gt_first_day i = gt_first_day j" "gt_base_tx_nr i = gt_base_tx_nr j"
  shows "days_stand i txs p = days_stand j txs p"
  using assms by (simp add: days_stand_def)

lemma stands_community:
  assumes "stands_for A els ks idx txs pend" "wf_transaction tx"
  shows "gt_chain_community_uuid (first_transaction tx idx) = chain_uuid txs (Some tx)"
    and "length (chain_uuid txs (Some tx)) = ARNM_UUID_BINARY_SIZE"
proof -
  have c: "gt_transaction_count idx = 0 \<longleftrightarrow> txs = []"
    using assms(1) unfolding stands_for_def by (metis length_0_conv unat_0 unsigned_eq_0_iff)
  show "gt_chain_community_uuid (first_transaction tx idx) = chain_uuid txs (Some tx)"
    using assms c by (cases txs) (auto simp: first_transaction_def chain_uuid_def stands_for_def)
  show "length (chain_uuid txs (Some tx)) = ARNM_UUID_BINARY_SIZE"
    using assms by (cases txs) (auto simp: chain_uuid_def stands_for_def numbered_def wf_transaction_def)
qed

lemma add_marks_stands:
  fixes A :: "('s, 'm, 'p) arnm_ops"
  assumes L: "arnm_laws A els ks" and s: "stands_for A els ks idx txs pend" and p: "pend = None \<or> pend = Some tx"
    and num: "numbered (gt_base_tx_nr idx) (txs @ [tx])"
    and o: "unat off = offset_of (gt_base_tx_nr idx) tx"
    and a: "add_marks A off (day_of tx) tx (idx, mem) = (r, idx', mem')"
  shows "gt_base_tx_nr idx' = gt_base_tx_nr idx \<and> (if r = ARNM_SUCCESS then stands_for A els ks idx' (txs @ [tx]) None
         else idx' = idx \<or> stands_for A els ks idx' txs (Some tx))"
proof -
  let ?base = "gt_base_tx_nr idx" and ?c = "chain_uuid txs (Some tx)"
  have t: "wf_transaction tx" "transaction_type tx < GRDT_TRANSACTION_COUNT" "offset_of ?base tx < 4294967295" "?base \<le> tx_nr tx"
    and n1: "numbered ?base txs" and nx: "txs \<noteq> [] \<longrightarrow> unat (tx_nr tx) = unat (tx_nr (last txs)) + 1"
    using num by (auto simp: numbered_snoc)
  have below: "\<forall>x \<in> set txs. offset_of ?base x < unat off"
  proof
    fix x assume x: "x \<in> set txs"
    then have "unat (tx_nr x) < unat (tx_nr tx)" using numbered_nth [OF n1 x] nx by fastforce
    moreover have "unat ?base \<le> unat (tx_nr x)" using n1 x by (auto simp: numbered_def word_le_nat_alt)
    ultimately show "offset_of ?base x < unat off" by (simp add: o offset_of_def)
  qed
  have cnt: "unat (gt_transaction_count idx) = length txs" using s by (simp add: stands_for_def)
  then have c: "gt_transaction_count idx = 0 \<longleftrightarrow> txs = []" by (metis length_0_conv unat_0 unsigned_eq_0_iff)
  have ds: "days_stand idx txs pend" using s by (simp add: stands_for_def)
  obtain r1 i1 m1 where nd: "note_day A (day_of tx) off (idx, mem) = (r1, i1, m1)" by (metis prod_cases3)
  note day = note_day_stands [OF ds p c o _ below nd]
  have off: "unat off < 4294967295" using o t by simp
  obtain v f where i1: "i1 = idx\<lparr>gt_day_max_tx := v, gt_first_day := f\<rparr>" using day(1) off by blast
  obtain R where R: "R \<subseteq> transaction_marks ?c tx" "holds A els idx = put (unat off) R (expected ?base ?c txs)"
    using stands_own [OF s p] o by metis
  define i2 where "i2 = first_transaction tx i1"
  have h2: "holds A els i2 = holds A els idx"
    by (rule holds_cong) (simp_all add: i2_def i1 first_transaction_def)
  have i2: "wf_index ks i2" "gt_chain_community_uuid i2 = ?c"
    "gt_base_tx_nr i2 = ?base" "gt_ready i2" "gt_transaction_count i2 = gt_transaction_count idx"
    "txs \<noteq> [] \<Longrightarrow> gt_min_tx_nr i2 = tx_nr (hd txs) \<and> gt_max_tx_nr i2 = tx_nr (last txs)"
    "txs = [] \<Longrightarrow> gt_min_tx_nr i2 = tx_nr tx"
    using s stands_community(1) [OF s t(1)] c
    by (auto simp: i2_def i1 first_transaction_def wf_index_def stands_for_def split: if_splits)
  have d2: "days_stand i2 ts q = days_stand i1 ts q" for ts q
    by (rule days_stand_cong) (simp_all add: i2_def first_transaction_def)
  have rest: "stands_for A els ks j txs (Some tx)" if "frame j = frame i2" "wf_index ks j" "days_stand i1 txs (Some tx)"
    "holds A els j = put (unat off) R' (expected ?base ?c txs)" "R' \<subseteq> transaction_marks ?c tx" for j R'
  proof -
    have dj: "days_stand j txs (Some tx)" using that(3) d2 days_stand_cong [of j i2] frameD [OF that(1)] by simp
    have cu: "txs \<noteq> [] \<Longrightarrow> gt_chain_community_uuid i2 = tx_community_uuid (hd txs)"
      using i2(2) by (cases txs) (simp_all add: chain_uuid_def)
    have hj: "\<exists>R. (\<forall>m \<in> R. \<exists>p. Some tx = Some p \<and> m \<in> transaction_marks ?c p)
      \<and> holds A els j = put (case Some tx of None \<Rightarrow> 0 | Some p \<Rightarrow> offset_of ?base p) R (expected ?base ?c txs)"
      using that(4,5) o by (intro exI [of _ R']) auto
    show ?thesis
      unfolding stands_for_def frameD [OF that(1)] i2(3,5)
      using dj cu hj that(2) i2(4,6) n1 cnt t(4) nx by simp
  qed
  show ?thesis
  proof (cases "r1 = ARNM_SUCCESS")
    case False
    then have e: "r = r1" "idx' = i1" using a by (auto simp: add_marks_split nd bind_ok_def)
    have "i1 = idx \<or> days_stand i1 txs (Some tx)" using day(2) off False by blast
    moreover have "stands_for A els ks i1 txs (Some tx)" if "days_stand i1 txs (Some tx)"
    proof (cases "txs = []")
      case True
      then have b: "gt_base_tx_nr i1 = ?base" "gt_ready i1" "unat (gt_transaction_count i1) = 0" "wf_index ks i1"
        using i1 s cnt by (auto simp: stands_for_def wf_index_def)
      have "holds A els i1 = holds A els idx" by (rule holds_cong) (simp_all add: i1)
      then show ?thesis using True b that n1 t(4) R o by (auto simp: stands_for_def)
    next
      case False
      then have "i2 = i1" using c by (simp add: i2_def first_transaction_def i1)
      then show ?thesis using rest [of i1 R] that i2 h2 R by simp
    qed
    ultimately show ?thesis using e False i1 by auto
  next
    case True
    have dd: "days_stand i1 txs (Some tx)" "days_stand i1 (txs @ [tx]) None" using day(3) off True by blast+
    obtain r3 i3 m3 where ss: "set_steps A off tx (i2, m1) = (r3, i3, m3)" by (metis prod_cases3)
    have "adds A els ks (unat off) (transaction_marks ?c tx) i2 (set_steps A off tx (i2, m1))"
    proof (rule set_steps_adds [OF L t(1,2) i2(1,2) stands_community(2) [OF s t(1)]])
      show "v \<le> unat off" if "v \<in> holds A els i2 m" for m v
        using that below less_imp_le by (auto simp: h2 R(2) put_apply expected_def split: if_splits)
      show "m \<in> transaction_marks ?c tx" if "unat off \<in> holds A els i2 m" for m
        using that below R(1) by (auto simp: h2 R(2) put_apply expected_def split: if_splits)
    qed
    then obtain M' where M': "wf_index ks i3" "frame i3 = frame i2" "M' \<subseteq> transaction_marks ?c tx"
      "r3 = ARNM_SUCCESS \<longrightarrow> M' = transaction_marks ?c tx" "holds A els i3 = put (unat off) M' (holds A els i2)"
      unfolding ss by (auto simp: adds_def)
    have h3: "holds A els i3 = put (unat off) (R \<union> M') (expected ?base ?c txs)"
      using M'(5) h2 R(2) by (simp add: put_put)
    show ?thesis
    proof (cases "r3 = ARNM_SUCCESS")
      case False
      then have e: "r = r3" "idx' = i3" using a True ss by (auto simp: add_marks_split nd bind_ok_def i2_def)
      show ?thesis using rest [OF M'(2,1) dd(1) h3] R(1) M'(3) e False frameD(3) [OF M'(2)] i2(3) by auto
    next
      case t3: True
      then have e: "r = ARNM_SUCCESS" "idx' = finish tx i3" using a True ss by (auto simp: add_marks_split nd bind_ok_def i2_def)
      have "R \<union> M' = transaction_marks ?c tx" using M'(3,4) R(1) t3 by auto
      then have "holds A els (finish tx i3) = expected ?base ?c (txs @ [tx])"
        using h3 o holds_cong [of "finish tx i3" i3 A els] by (simp add: expected_snoc finish_def)
      moreover have "unat (gt_transaction_count idx + 1) = length (txs @ [tx])"
      proof -
        have "length txs \<le> offset_of ?base tx"
        proof (cases "txs = []")
          case False
          then have "unat (tx_nr (last txs)) = unat (tx_nr (hd txs)) + (length txs - 1)" "?base \<le> tx_nr (hd txs)"
            using n1 by (simp_all add: numbered_def last_conv_nth)
          then show ?thesis using nx False by (simp add: offset_of_def word_le_nat_alt)
        qed simp
        then show ?thesis using cnt t(3) by (simp add: unat_word_ariths unat_add_small)
      qed
      moreover have "days_stand (finish tx i3) (txs @ [tx]) None"
        using dd(2) d2 days_stand_cong [of "finish tx i3" i2] frameD [OF M'(2)] by (simp add: finish_def)
      moreover have "gt_min_tx_nr i2 = tx_nr (hd (txs @ [tx])) \<and> gt_chain_community_uuid i2 = tx_community_uuid (hd (txs @ [tx]))"
        using i2(2,6,7) by (cases txs) (simp_all add: chain_uuid_def)
      ultimately have "stands_for A els ks (finish tx i3) (txs @ [tx]) None"
        using M'(1) i2(3,4,5) num frameD [OF M'(2)]
        by (auto simp: stands_for_def finish_def wf_index_def chain_uuid_snoc intro!: exI [of _ "{}"])
      then show ?thesis using e frameD(3) [OF M'(2)] i2(3) by (simp add: finish_def)
    qed
  qed
qed

lemma unat_distance:
  assumes "base \<le> n"
  shows "unat (n - base :: u64) = unat n - unat base"
  using assms by (simp add: unat_sub)

lemma unat_ucast_32: "\<not> (w :: u64) > 4294967295 \<Longrightarrow> unat (ucast w :: u32) = unat w"
  by (simp add: unsigned_ucast_eq word_less_nat_alt take_bit_nat_eq_self)

lemma add_stands:
  assumes "arnm_laws A els ks" "stands_for A els ks idx txs pend" "pend = None \<or> pend = Some tx"
    and "wf_transaction tx" "tx_nr tx - gt_base_tx_nr idx \<noteq> 4294967295"
    and "grdb_transactions_add A (Some idx) (Some tx) mem = Inr (r, idx', mem')"
  shows "\<exists>j. idx' = Some j \<and> gt_base_tx_nr j = gt_base_tx_nr idx \<and>
    (if r = ARNM_SUCCESS then stands_for A els ks j (txs @ [tx]) None
     else j = idx \<or> stands_for A els ks j txs (Some tx))"
proof (cases "tx_nr tx < gt_base_tx_nr idx \<or> (gt_transaction_count idx \<noteq> 0 \<and> tx_nr tx \<noteq> gt_max_tx_nr idx + 1)
    \<or> tx_nr tx - gt_base_tx_nr idx > 4294967295 \<or> transaction_type tx \<ge> GRDT_TRANSACTION_COUNT")
  case True
  then show ?thesis using assms(2,6) by (auto simp: grdb_transactions_add_def stands_for_def split: if_splits)
next
  case False
  note g = False
  have rdy: "gt_ready idx" and cnt: "unat (gt_transaction_count idx) = length txs" and n: "numbered (gt_base_tx_nr idx) txs"
    and mx: "txs \<noteq> [] \<Longrightarrow> gt_max_tx_nr idx = tx_nr (last txs)"
    using assms(2) by (auto simp: stands_for_def)
  have c: "gt_transaction_count idx = 0 \<longleftrightarrow> txs = []" using cnt by (metis length_0_conv unat_0 unsigned_eq_0_iff)
  have b: "gt_base_tx_nr idx \<le> tx_nr tx" using g by (simp add: not_less)
  obtain d where d: "day_of_second (seconds (confirmed_at tx)) = Inr d"
    using assms(6) g rdy by (auto simp: grdb_transactions_add_def fbind_eq_Inr split: if_splits)
  let ?off = "ucast (tx_nr tx - gt_base_tx_nr idx) :: u32"
  obtain r1 i1 m1 where am: "add_marks A ?off (day_of tx) tx (idx, mem) = (r1, i1, m1)" by (metis prod_cases3)
  have e: "r = r1" "idx' = Some i1"
    using assms(6) g rdy am d by (auto simp: grdb_transactions_add_def day_of_def second_day_def split: if_splits)
  have o: "unat ?off = offset_of (gt_base_tx_nr idx) tx"
    using g unat_ucast_32 unat_distance [OF b] by (simp add: offset_of_def)
  have "unat (tx_nr tx - gt_base_tx_nr idx) < 4294967295"
  proof -
    have "tx_nr tx - gt_base_tx_nr idx < 4294967295" using g assms(5) by (simp add: not_less le_neq_trans)
    then show ?thesis by (simp add: word_less_nat_alt)
  qed
  then have lt: "offset_of (gt_base_tx_nr idx) tx < 4294967295" by (simp add: unat_distance [OF b] offset_of_def)
  have "unat (tx_nr tx) = unat (tx_nr (last txs)) + 1" if "txs \<noteq> []"
  proof -
    have t: "tx_nr tx = tx_nr (last txs) + 1" using g c mx that by simp
    have w: "unat (tx_nr tx) = (unat (tx_nr (last txs)) + 1) mod 2 ^ 64" by (simp add: t unat_word_ariths)
    have "unat (tx_nr (last txs)) + 1 \<noteq> 2 ^ 64"
    proof
      assume z: "unat (tx_nr (last txs)) + 1 = 2 ^ 64"
      then have "unat (tx_nr tx) = 0" using w by simp
      then have "unat (gt_base_tx_nr idx) = 0" using b unfolding word_le_nat_alt by linarith
      moreover have "offset_of (gt_base_tx_nr idx) (last txs) < 4294967295" using n that by (simp add: numbered_def)
      ultimately show False using z by (simp add: offset_of_def)
    qed
    then show ?thesis using w unat_lt_64 [of "tx_nr (last txs)"] by simp
  qed
  then have "numbered (gt_base_tx_nr idx) (txs @ [tx])" using g lt assms(4) n by (simp add: numbered_snoc not_less not_le)
  then show ?thesis using add_marks_stands [OF assms(1-3) _ o am] e by auto
qed


section \<open>A fresh index\<close>

lemma fresh_stands:
  assumes L: "arnm_laws A els ks"
    and i: "gt_address_sets i = []" "gt_coin_sets i = []" "gt_foreign i = roaring_none A" "gt_day_max_tx i = []"
      "gt_per_type i = replicate (unat GRDT_TRANSACTION_COUNT) (roaring_none A)" "gt_transaction_count i = 0" "gt_ready i"
  shows "stands_for A els ks i [] None"
proof -
  have e: "els (roaring_none A) = {}" using L by (simp add: arnm_laws_def set_laws_def)
  have "holds A els i m = {}" for m
    using i e by (cases m) (auto simp: addr_look_def coin_look_def look_def empty_address_sets_def word_less_nat_alt split: option.splits)
  then have "holds A els i = put 0 {} (expected (gt_base_tx_nr i) (chain_uuid [] None) [])"
    by (simp add: expected_Nil fun_eq_iff)
  then show ?thesis using i by (auto simp: stands_for_def wf_index_def numbered_def days_stand_def intro!: exI [of _ "{}"])
qed

lemma init_stands:
  assumes L: "arnm_laws A els ks" and r: "grdb_transactions_init A (Some i0) (Some o') mem = (r, i, mem')"
  shows "\<exists>j. i = Some j \<and> (if r = ARNM_SUCCESS then stands_for A els ks j [] None \<and> gt_base_tx_nr j = o_base_tx_nr o'
     else \<not> gt_ready j)"
proof (cases "r = ARNM_SUCCESS")
  case True
  then obtain addr coins where e: "i = Some ((zero_index A)\<lparr>gt_base_tx_nr := o_base_tx_nr o', gt_addresses := addr,
      gt_coin_communities := coins, gt_ready := True\<rparr>)"
    using r by (auto simp: grdb_transactions_init_def Let_def split: prod.splits if_splits)
  show ?thesis unfolding e using True fresh_stands [OF L] by (simp add: zero_index_def)
next
  case False
  then show ?thesis using r by (auto simp: grdb_transactions_init_def Let_def zero_index_def split: prod.splits if_splits)
qed

lemma fresh_index_stands: "stands_for list_arnm list_els list_keys fresh_index [] None"
  by (rule fresh_stands [OF list_arnm_laws]) (simp_all add: fresh_index_def zero_index_def list_arnm_def)

lemma sample_wf: "wf_transaction sample_tx"
  by (simp add: wf_transaction_def sample_tx_def grdr_complete_transaction_init_def wf_balance_def zeros_def
    key_a_def key_b_def coin_c_def)

text \<open>A new index, and one that was reset, stand for no transaction; an index whose start was refused at
  any step is not ready.\<close>

lemma index_starts_empty:
  assumes "arnm_laws A els ks"
    and "grdb_transactions_init A (Some i0) (Some o') mem = (r, i, mem')"
    and "stands_for A els ks idx txs pend"
  shows "(\<exists>j. i = Some j \<and> (if r = ARNM_SUCCESS then stands_for A els ks j [] None \<and> gt_base_tx_nr j = o_base_tx_nr o'
            else \<not> gt_ready j))
    \<and> (\<exists>j. fst (grdb_transactions_reset A (Some idx) mem) = Some j \<and> stands_for A els ks j [] None
            \<and> gt_base_tx_nr j = gt_base_tx_nr idx)"
proof -
  have "gt_ready idx" using assms(3) by (simp add: stands_for_def)
  then show ?thesis
    using init_stands [OF assms(1,2)] fresh_stands [OF assms(1)] by (simp add: grdb_transactions_reset_def)
qed


text \<open>C12: The index refines the list of the transactions added to it. A transaction that is taken is
  appended, with exactly the marks it names; one that is refused leaves the index as it was, or, when
  memory ran out halfway, standing for the same transactions with this one as the one to try again.\<close>

theorem add_refines:
  assumes "arnm_laws A els ks" "stands_for A els ks idx txs pend" "pend = None \<or> pend = Some tx"
    and "wf_transaction tx" "tx_nr tx - gt_base_tx_nr idx \<noteq> 4294967295"
    and "grdb_transactions_add A (Some idx) (Some tx) mem = Inr (r, idx', mem')"
  shows "\<exists>j. idx' = Some j \<and>
    (if r = ARNM_SUCCESS then stands_for A els ks j (txs @ [tx]) None
     else j = idx \<or> stands_for A els ks j txs (Some tx))"
  using add_stands [OF assms] by blast

theorem add_refines_witness:
  "stands_for list_arnm list_els list_keys sample_index [sample_tx] None"
proof -
  have "tx_nr sample_tx - gt_base_tx_nr fresh_index \<noteq> 4294967295" by (simp add: sample_tx_def fresh_index_def)
  from add_refines [OF list_arnm_laws fresh_index_stands _ sample_wf this sample_added] show ?thesis by simp
qed

lemma sample_stands: "stands_for list_arnm list_els list_keys sample_index [sample_tx] None"
proof -
  have "tx_nr sample_tx - gt_base_tx_nr fresh_index \<noteq> 4294967295" by (simp add: sample_tx_def fresh_index_def)
  from add_stands [OF list_arnm_laws fresh_index_stands _ sample_wf this sample_added] show ?thesis by simp
qed

end
