(* ===== verification/GRD_Query.thy ===== *)
theory GRD_Query
  imports GRD_Index
begin

text \<open>
  The answers of the index: a question names exactly the transactions that fulfil it, read off the list
  the index stands for - by day, by address and role, by type, by coin and by number. Counting, paging
  and the newest match follow from it. The days are asked to be in order, as a chain confirms them.
\<close>

section \<open>The day table\<close>

text \<open>The transactions with the one that may be pending.\<close>

definition with_pending :: "grdr_complete_transaction list \<Rightarrow> grdr_complete_transaction option \<Rightarrow> grdr_complete_transaction list" where
  "with_pending txs pend = txs @ (case pend of None \<Rightarrow> [] | Some p \<Rightarrow> [p])"

definition days_in_order :: "grdr_complete_transaction list \<Rightarrow> bool" where
  "days_in_order txs = sorted (map day_of txs)"

lemma noted_down_Some:
  "noted_down days cursor k = Some j \<Longrightarrow> k \<le> cursor + 1 \<Longrightarrow>
     j \<le> cursor \<and> cursor < j + k \<and> days ! j \<noteq> 0 \<and> (\<forall>i. j < i \<and> i \<le> cursor \<longrightarrow> days ! i = 0)"
proof (induction days cursor k rule: noted_down.induct)
  case (2 days cursor k)
  show ?case
  proof (cases "days ! cursor \<noteq> 0")
    case True
    then show ?thesis using 2 by auto
  next
    case False
    then have n: "noted_down days (cursor - 1) k = Some j" using "2.prems" by simp
    then have k: "k \<noteq> 0" by (cases k) auto
    then have c: "cursor \<noteq> 0" using "2.prems"(2) by simp
    have "j \<le> cursor - 1 \<and> cursor - 1 < j + k \<and> days ! j \<noteq> 0 \<and> (\<forall>i. j < i \<and> i \<le> cursor - 1 \<longrightarrow> days ! i = 0)"
      using "2.IH" False n "2.prems"(2) c by simp
    moreover have "i \<le> cursor - 1 \<or> i = cursor" if "i \<le> cursor" for i using that by linarith
    ultimately show ?thesis using False c by (metis (no_types, lifting) Suc_pred' add_Suc_right le_Suc_eq less_Suc_eq_le not_less_eq bot_nat_0.not_eq_extremum)
  qed
qed auto

lemma noted_down_None:
  "noted_down days cursor k = None \<Longrightarrow> k \<le> cursor + 1 \<Longrightarrow> i \<le> cursor \<Longrightarrow> cursor < i + k \<Longrightarrow> days ! i = 0"
proof (induction days cursor k rule: noted_down.induct)
  case (2 days cursor k)
  have z: "days ! cursor = 0" "noted_down days (cursor - 1) k = None" using "2.prems"(1) by (auto split: if_splits)
  show ?case
  proof (cases "i = cursor")
    case True
    then show ?thesis using z by simp
  next
    case False
    then show ?thesis using "2.IH" z "2.prems" by simp
  qed
qed auto

lemma day_top_Some:
  "day_top base txs d \<noteq> 0 \<Longrightarrow> \<exists>t \<in> set txs. day_of t = d \<and> day_top base txs d = Suc (offset_of base t)"
  by (induction txs rule: rev_induct) (auto simp: day_top_snoc day_top_def split: if_splits)

lemma numbered_offset:
  assumes "numbered base txs" "i < length txs"
  shows "offset_of base (txs ! i) = offset_of base (hd txs) + i"
proof -
  have "txs \<noteq> []" using assms(2) by auto
  then have "base \<le> tx_nr (hd txs)" using assms(1) by (simp add: numbered_def)
  then show ?thesis using assms by (simp add: numbered_def offset_of_def word_le_nat_alt)
qed

lemma day_top_ge:
  assumes n: "numbered base txs" and t: "t \<in> set txs" "day_of t = d"
  shows "Suc (offset_of base t) \<le> day_top base txs d"
  using n t
proof (induction txs rule: rev_induct)
  case (snoc x xs)
  have nx: "numbered base xs" using snoc.prems(1) by (simp add: numbered_snoc)
  show ?case
  proof (cases "t \<in> set xs")
    case True
    have "unat (tx_nr t) \<le> unat (tx_nr x)"
      using numbered_nth [OF nx True] snoc.prems(1) True by (auto simp: numbered_snoc)
    then have "offset_of base t \<le> offset_of base x" by (simp add: offset_of_def)
    then show ?thesis using snoc.IH [OF nx True] snoc.prems(3) by (simp add: day_top_snoc)
  next
    case False
    then show ?thesis using snoc.prems by (simp add: day_top_snoc)
  qed
qed simp

text \<open>Later days have larger numbers.\<close>

lemma later_day:
  assumes n: "numbered base txs" and s: "days_in_order txs"
    and t: "t \<in> set txs" "u \<in> set txs" "day_of t < day_of u"
  shows "offset_of base t < offset_of base u"
proof -
  obtain i j where ij: "i < length txs" "t = txs ! i" "j < length txs" "u = txs ! j"
    using t by (auto simp: in_set_conv_nth)
  have "i < j"
  proof (rule ccontr)
    assume "\<not> i < j"
    then have "map day_of txs ! j \<le> map day_of txs ! i"
      using s ij by (intro sorted_nth_mono) (auto simp: days_in_order_def)
    then show False using ij t by simp
  qed
  then show ?thesis using numbered_offset [OF n] ij by simp
qed

text \<open>How the table of an index lies around a transaction in it.\<close>

lemma slots:
  assumes d: "days_stand idx txs pend" and n: "numbered base txs" "base = gt_base_tx_nr idx"
    and s: "days_in_order (with_pending txs pend)"
    and p: "\<forall>p t. pend = Some p \<and> t \<in> set txs \<longrightarrow> offset_of base t < offset_of base p"
    and t: "t \<in> set txs" and j: "j < length (gt_day_max_tx idx)"
  shows "day_of t \<le> gt_first_day idx + int j \<Longrightarrow> gt_day_max_tx idx ! j \<noteq> 0 \<or> day_of t = gt_first_day idx + int j
           \<Longrightarrow> offset_of base t < unat (gt_day_max_tx idx ! j)"
    and "gt_first_day idx + int j < day_of t \<Longrightarrow> unat (gt_day_max_tx idx ! j) \<le> offset_of base t"
proof -
  let ?d = "gt_first_day idx + int j" and ?v = "unat (gt_day_max_tx idx ! j)"
  have so: "days_in_order txs" using s by (simp add: days_in_order_def with_pending_def sorted_append)
  have pd: "day_of t \<le> day_of p" if "pend = Some p" for p
    using s t that by (simp add: days_in_order_def with_pending_def sorted_append)
  consider (top) "?v = day_top base txs ?d" | (pending) p where "pend = Some p" "day_of p = ?d" "?v = Suc (offset_of base p)"
  proof -
    have "?v = day_top base txs ?d \<or> (\<exists>p. pend = Some p \<and> day_of p = ?d \<and> ?v = offset_of base p + 1)"
      using d j unfolding days_stand_def n(2) by blast
    then show ?thesis using that by (metis Suc_eq_plus1)
  qed
  then have x: "(day_of t \<le> ?d \<and> (?v \<noteq> 0 \<or> day_of t = ?d) \<longrightarrow> offset_of base t < ?v) \<and> (?d < day_of t \<longrightarrow> ?v \<le> offset_of base t)"
  proof cases
    case top
    have a: "offset_of base t < ?v" if "day_of t = ?d" using day_top_ge [OF n(1) t that] top by simp
    have b: "(day_of t < ?d \<longrightarrow> offset_of base t < ?v) \<and> (?d < day_of t \<longrightarrow> ?v \<le> offset_of base t)" if "?v \<noteq> 0"
    proof -
      have "day_top base txs ?d \<noteq> 0" using top that by simp
      then obtain u where u: "u \<in> set txs" "day_of u = ?d" "?v = Suc (offset_of base u)"
        using day_top_Some top by metis
      show ?thesis using later_day [OF n(1) so t u(1)] later_day [OF n(1) so u(1) t] u(2,3) by linarith
    qed
    show ?thesis
    proof (cases "?v = 0")
      case True
      then show ?thesis using a by linarith
    next
      case False
      then show ?thesis using a b by linarith
    qed
  next
    case pending
    then show ?thesis using p t pending(1) pd [OF pending(1)] by fastforce
  qed
  have z: "gt_day_max_tx idx ! j \<noteq> 0 \<longleftrightarrow> ?v \<noteq> 0" by (simp only: unsigned_eq_0_iff)
  show "day_of t \<le> ?d \<Longrightarrow> gt_day_max_tx idx ! j \<noteq> 0 \<or> day_of t = ?d \<Longrightarrow> offset_of base t < ?v"
    using x unfolding z by blast
  show "?d < day_of t \<Longrightarrow> ?v \<le> offset_of base t"
    using x by blast
qed

definition in_days :: "i64 \<Rightarrow> i64 \<Rightarrow> int \<Rightarrow> bool" where
  "in_days from_s to_s d \<longleftrightarrow> (from_s \<noteq> 0 \<longrightarrow> second_day from_s \<le> d) \<and> (to_s \<noteq> 0 \<longrightarrow> d \<le> second_day to_s)"

lemma day_bounds_exact:
  assumes "day_bounds idx from_s to_s = Inr (a, b)"
  shows "0 \<le> a \<and> b < int (length (gt_day_max_tx idx))
     \<and> (\<forall>d. gt_first_day idx \<le> d \<and> d < gt_first_day idx + int (length (gt_day_max_tx idx)) \<longrightarrow>
          (in_days from_s to_s d \<longleftrightarrow> a \<le> d - gt_first_day idx \<and> d - gt_first_day idx \<le> b))"
proof -
  define len where "len = int (length (gt_day_max_tx idx))"
  have l0: "0 \<le> len" by (simp add: len_def)
  obtain l where l: "(if to_s \<noteq> 0 then fbind (day_of_second to_s) (\<lambda>d. Inr (d - gt_first_day idx)) else Inr (len - 1)) = Inr l"
    using assms unfolding day_bounds_def Let_def len_def by (auto simp: fbind_eq_Inr split: if_splits)
  have l1: "l = (if to_s \<noteq> 0 then second_day to_s - gt_first_day idx else len - 1)"
    using l by (auto simp: fbind_eq_Inr second_day_def split: if_splits)
  show ?thesis
  proof (cases "l < 0")
    case True
    then have "a = 0" "b = -1" using assms l unfolding day_bounds_def Let_def len_def by simp_all
    then show ?thesis using True l1 l0 unfolding len_def [symmetric] in_days_def by (auto split: if_splits)
  next
    case False
    obtain f where f: "(if from_s \<noteq> 0 then fbind (day_of_second from_s) (\<lambda>d. Inr (d - gt_first_day idx)) else Inr 0) = Inr f"
      "a = (if f < 0 then 0 else f)" "b = (if l > len - 1 then len - 1 else l)"
      using assms l False unfolding day_bounds_def Let_def len_def by (auto simp: fbind_eq_Inr split: if_splits)
    have f1: "f = (if from_s \<noteq> 0 then second_day from_s - gt_first_day idx else 0)"
      using f(1) by (auto simp: fbind_eq_Inr second_day_def split: if_splits)
    show ?thesis unfolding len_def [symmetric] in_days_def using f(2,3) f1 l1 False by (auto split: if_splits)
  qed
qed

lemma slot_source:
  assumes d: "days_stand idx txs pend" and n: "numbered base txs" "base = gt_base_tx_nr idx"
    and p: "\<forall>p. pend = Some p \<longrightarrow> base \<le> tx_nr p"
    and j: "j < length (gt_day_max_tx idx)" "gt_day_max_tx idx ! j \<noteq> 0"
  shows "unat base + unat (gt_day_max_tx idx ! j - 1) < 2 ^ 64
    \<and> unat (gt_day_max_tx idx ! j) = Suc (unat (gt_day_max_tx idx ! j - 1))"
proof -
  let ?v = "gt_day_max_tx idx ! j"
  have nz: "unat ?v \<noteq> 0" using j(2) by (metis unsigned_eq_0_iff)
  have "unat ?v = day_top base txs (gt_first_day idx + int j)
      \<or> (\<exists>p. pend = Some p \<and> day_of p = gt_first_day idx + int j \<and> unat ?v = offset_of base p + 1)"
    using d j(1) unfolding days_stand_def n(2) by blast
  then obtain u where u: "base \<le> tx_nr u" "unat ?v = Suc (offset_of base u)"
  proof (elim disjE exE conjE)
    assume e: "unat ?v = day_top base txs (gt_first_day idx + int j)"
    then obtain u where "u \<in> set txs" "day_top base txs (gt_first_day idx + int j) = Suc (offset_of base u)"
      using day_top_Some nz by metis
    then show thesis using that [of u] e n(1) by (simp add: numbered_def)
  qed (use p that in auto)
  have s: "unat (?v - 1) = unat ?v - 1" using j(2) by (rule unat_minus_one)
  have "unat base + offset_of base u = unat (tx_nr u)" using u(1) by (simp add: offset_of_def word_le_nat_alt)
  then show ?thesis using s u(2) unat_lt_64 [of "tx_nr u"] by simp
qed

lemma range_of_days_exact:
  assumes d: "days_stand idx txs pend" and n: "numbered base txs" "base = gt_base_tx_nr idx"
    and s: "days_in_order (with_pending txs pend)"
    and p: "\<forall>p t. pend = Some p \<and> t \<in> set txs \<longrightarrow> offset_of base t < offset_of base p"
    and pb: "\<forall>p. pend = Some p \<longrightarrow> base \<le> tx_nr p"
    and mn: "gt_min_tx_nr idx = tx_nr (hd txs)" and t: "t \<in> set txs"
    and r: "range_of_days idx from_s to_s = Inr r"
  shows "(case r of None \<Rightarrow> False | Some (lo, hi) \<Rightarrow> lo \<le> tx_nr t \<and> tx_nr t \<le> hi) \<longleftrightarrow> in_days from_s to_s (day_of t)"
proof -
  define days where "days = gt_day_max_tx idx"
  obtain a b where ab: "day_bounds idx from_s to_s = Inr (a, b)"
    using r by (auto simp: range_of_days_def fbind_eq_Inr)
  note bd = day_bounds_exact [OF ab]
  define i where "i = nat (day_of t - gt_first_day idx)"
  have ti: "gt_first_day idx \<le> day_of t" "day_of t < gt_first_day idx + int (length days)"
    using d t by (auto simp: days_stand_def days_def)
  have i: "day_of t = gt_first_day idx + int i" "i < length days" using ti by (simp_all add: i_def)
  have ind: "in_days from_s to_s (day_of t) \<longleftrightarrow> a \<le> int i \<and> int i \<le> b" using bd ti i unfolding days_def by auto
  note sl = slots [OF d n s p t, folded days_def]
  have zi: "days ! i \<noteq> 0" proof
    assume "days ! i = 0"
    then have "unat (days ! i) = 0" by simp
    then show False using sl(1) [OF i(2)] i(1) by simp
  qed
  have base: "base \<le> tx_nr t" using n t by (auto simp: numbered_def)
  have at: "\<And>w :: u32. unat base + unat w < 2 ^ 64 \<Longrightarrow> unat (base + ucast w) = unat base + unat w"
    by (simp add: unat_add_small)
  have cmp: "base + ucast w \<le> tx_nr t \<longleftrightarrow> unat w \<le> offset_of base t" "tx_nr t \<le> base + ucast w \<longleftrightarrow> offset_of base t \<le> unat w"
    if "unat base + unat w < 2 ^ 64" for w :: u32
    using at [OF that] base by (auto simp: word_le_nat_alt offset_of_def)
  show ?thesis
  proof (cases "a > b")
    case True
    then have "r = None" using r ab by (simp add: range_of_days_def)
    then show ?thesis using ind True by auto
  next
    case False
    have an: "0 \<le> a" "0 \<le> b" "nat b < length days" using bd False by (auto simp: days_def)
    have kk: "nat (b - a + 1) = nat b - nat a + 1" using an False by linarith
    have ind': "in_days from_s to_s (day_of t) \<longleftrightarrow> nat a \<le> i \<and> i \<le> nat b"
      unfolding ind using an by (simp add: nat_le_iff le_nat_iff)
    have ab': "nat a \<le> nat b" using False by simp
    show ?thesis
    proof (cases "noted_down days (nat b) (nat (b - a + 1))")
      case None
      then have "r = None" using r ab False by (simp add: range_of_days_def days_def)
      moreover have "\<not> (nat a \<le> i \<and> i \<le> nat b)"
      proof
        assume x: "nat a \<le> i \<and> i \<le> nat b"
        then have "nat b < i + nat (b - a + 1)" using kk ab' by linarith
        then show False using noted_down_None [OF None, of i] kk x zi by simp
      qed
      ultimately show ?thesis using ind' by simp
    next
      case (Some c)
      have c: "c \<le> nat b" "nat a \<le> c" "days ! c \<noteq> 0" "\<forall>x. c < x \<and> x \<le> nat b \<longrightarrow> days ! x = 0"
        using noted_down_Some [OF Some] kk ab' by auto
      have cl: "c < length days" using c(1) an(3) by simp
      note ce = slot_source [OF d n pb, folded days_def, OF cl c(3)]
      define e where "e = days ! c - 1"
      have e: "unat base + unat e < 2 ^ 64" "unat (days ! c) = Suc (unat e)" using ce by (auto simp: e_def)
      have ic: "i \<le> nat b \<longleftrightarrow> i \<le> c"
      proof
        assume "i \<le> nat b"
        then show "i \<le> c" using c(4) zi by (cases "c < i") auto
      qed (use c(1) in simp)
      have tc: "offset_of base t \<le> unat e \<longleftrightarrow> i \<le> c"
      proof
        assume "i \<le> c"
        then show "offset_of base t \<le> unat e" using sl(1) [OF cl] c(3) i(1) e(2) by simp
      next
        assume le: "offset_of base t \<le> unat e"
        show "i \<le> c"
        proof (rule ccontr)
          assume "\<not> i \<le> c"
          then have "gt_first_day idx + int c < day_of t" using i(1) by simp
          then show False using sl(2) [OF cl] e(2) le by simp
        qed
      qed
      define st where "st = (case noted_down days (nat a - 1) (nat a) of
                  None \<Rightarrow> ucast (gt_min_tx_nr idx - gt_base_tx_nr idx) | Some before \<Rightarrow> days ! before)"
      have ts: "unat st \<le> offset_of base t \<longleftrightarrow> nat a \<le> i"
      proof (cases "noted_down days (nat a - 1) (nat a)")
        case N: None
        have hd: "hd txs \<in> set txs" using t by (cases txs) auto
        have "base \<le> tx_nr (hd txs)" "offset_of base (hd txs) < 4294967295" using n hd by (auto simp: numbered_def)
        then have "unat st = offset_of base (hd txs)"
          using N by (simp add: st_def mn n(2) [symmetric] unat_ucast_32 unat_distance offset_of_def word_less_nat_alt)
        then have "unat st \<le> offset_of base t"
          using numbered_nth [OF n(1) t] by (simp add: offset_of_def diff_le_mono)
        moreover have "nat a \<le> i" proof (rule ccontr)
          assume "\<not> nat a \<le> i"
          then have "i \<le> nat a - 1" "nat a - 1 < i + nat a" by linarith+
          then show False using noted_down_None [OF N, of i] zi by simp
        qed
        ultimately show ?thesis by simp
      next
        case S: (Some f)
        have a0: "nat a \<noteq> 0" using S by (cases "nat a") auto
        have f: "f < nat a" "days ! f \<noteq> 0" "\<forall>x. f < x \<and> x < nat a \<longrightarrow> days ! x = 0"
          using noted_down_Some [OF S] a0 by auto
        have fl: "f < length days" using f(1) c(1,2) an(3) by simp
        have st: "unat st = unat (days ! f)" using S by (simp add: st_def)
        show ?thesis
        proof
          assume "nat a \<le> i"
          then show "unat st \<le> offset_of base t" using sl(2) [OF fl] f(1) i(1) st by simp
        next
          assume le: "unat st \<le> offset_of base t"
          show "nat a \<le> i"
          proof (rule ccontr)
            assume na: "\<not> nat a \<le> i"
            then have "i \<le> f" using f(3) zi by (cases "f < i") auto
            then show False using sl(1) [OF fl] f(2) i(1) st le by simp
          qed
        qed
      qed
      have "range_of_days idx from_s to_s = (if st > e then Inr None else Inr (Some (base + ucast st, base + ucast e)))"
        unfolding range_of_days_def ab fbind_simps prod.case days_def [symmetric] Let_def st_def e_def n(2) [symmetric]
        using Some False by simp
      then have rr: "r = (if st > e then None else Some (base + ucast st, base + ucast e))"
        using r by (simp split: if_splits)
      show ?thesis
      proof (cases "st > e")
        case True
        then have "\<not> (nat a \<le> i \<and> i \<le> c)" using ts tc by (auto simp: word_less_nat_alt)
        moreover note ic
        ultimately show ?thesis using rr True ind' by simp
      next
        case F: False
        then have "unat base + unat st < 2 ^ 64" using e(1) by (simp add: word_less_nat_alt)
        then have "base + ucast st \<le> tx_nr t \<and> tx_nr t \<le> base + ucast e \<longleftrightarrow> nat a \<le> i \<and> i \<le> c"
          using cmp e(1) ts tc by simp
        moreover note ic
        ultimately show ?thesis using rr F ind' by simp
      qed
    qed
  qed
qed

section \<open>What a question names\<close>

definition tx_matches :: "bytes \<Rightarrow> grdb_transactions_filter \<Rightarrow> grdr_complete_transaction \<Rightarrow> bool" where
  "tx_matches c f tx \<longleftrightarrow>
     (f_role f \<noteq> GRDB_ADDRESS_ROLE_NONE \<longrightarrow> f_public_key f \<in> balance_keys tx
        \<or> f_role f \<noteq> GRDB_ADDRESS_ROLE_BALANCE \<and> f_public_key f \<in> signed_keys tx \<union> body_keys tx)
     \<and> (f_transaction_type f \<noteq> GRDT_TRANSACTION_NONE \<longrightarrow> transaction_type tx = f_transaction_type f)
     \<and> (case grdb_transactions_filter_coin_community (Some f) of None \<Rightarrow> True
        | Some u \<Rightarrow> if u = c then foreign_coins c tx = {} else u \<in> foreign_coins c tx)
     \<and> (f_min_tx_nr f \<noteq> 0 \<longrightarrow> f_min_tx_nr f \<le> tx_nr tx) \<and> (f_max_tx_nr f \<noteq> 0 \<longrightarrow> tx_nr tx \<le> f_max_tx_nr f)
     \<and> in_days (f_from_seconds f) (f_to_seconds f) (day_of tx)"

definition matching :: "grdb_transactions_filter \<Rightarrow> grdr_complete_transaction list \<Rightarrow> grdr_complete_transaction list" where
  "matching f txs = filter (tx_matches (chain_uuid txs None) f) txs"

lemma numbered_mem:
  assumes "numbered base txs" "txs \<noteq> []" "unat (tx_nr (hd txs)) \<le> n" "n \<le> unat (tx_nr (last txs))"
  shows "\<exists>t \<in> set txs. unat (tx_nr t) = n"
proof -
  define i where "i = n - unat (tx_nr (hd txs))"
  have "unat (tx_nr (last txs)) = unat (tx_nr (hd txs)) + (length txs - 1)"
    using assms(1,2) by (simp add: numbered_def last_conv_nth)
  moreover have "0 < length txs" using assms(2) by simp
  ultimately have i: "i < length txs" using assms(3,4) unfolding i_def by linarith
  then have "unat (tx_nr (txs ! i)) = n" using assms(1,3) by (simp add: numbered_def i_def)
  then show ?thesis using i nth_mem by blast
qed

lemma offset_inj:
  assumes "numbered base txs" "t \<in> set txs" "u \<in> set txs" "offset_of base t = offset_of base u"
  shows "t = u"
proof -
  obtain i j where ij: "i < length txs" "t = txs ! i" "j < length txs" "u = txs ! j"
    using assms(2,3) by (auto simp: in_set_conv_nth)
  then have "i = j" using assms(4) numbered_offset [OF assms(1)] by simp
  then show ?thesis using ij by simp
qed

lemma pending_above:
  assumes "stands_for A els ks idx txs pend"
  shows "\<forall>p t. pend = Some p \<and> t \<in> set txs \<longrightarrow> offset_of (gt_base_tx_nr idx) t < offset_of (gt_base_tx_nr idx) p"
proof (intro allI impI)
  fix p t assume a: "pend = Some p \<and> t \<in> set txs"
  have n: "numbered (gt_base_tx_nr idx) txs" and p: "txs \<noteq> [] \<longrightarrow> unat (tx_nr p) = unat (tx_nr (last txs)) + 1"
    using assms a by (auto simp: stands_for_def)
  have "txs \<noteq> []" using a by auto
  then have "unat (tx_nr t) < unat (tx_nr p)" using numbered_nth [OF n] a p by fastforce
  moreover have "unat (gt_base_tx_nr idx) \<le> unat (tx_nr t)" using n a by (auto simp: numbered_def word_le_nat_alt)
  ultimately show "offset_of (gt_base_tx_nr idx) t < offset_of (gt_base_tx_nr idx) p" by (simp add: offset_of_def)
qed

lemma holds_offset:
  assumes s: "stands_for A els ks idx txs pend" and t: "t \<in> set txs"
  shows "offset_of (gt_base_tx_nr idx) t \<in> holds A els idx m \<longleftrightarrow> m \<in> transaction_marks (chain_uuid txs None) t"
proof -
  have n: "numbered (gt_base_tx_nr idx) txs" using s by (simp add: stands_for_def)
  have c: "chain_uuid txs pend = chain_uuid txs None" using t by (cases txs) (auto simp: chain_uuid_def)
  obtain R where R: "\<forall>m \<in> R. \<exists>p. pend = Some p \<and> m \<in> transaction_marks (chain_uuid txs pend) p"
    "holds A els idx = put (case pend of None \<Rightarrow> 0 | Some p \<Rightarrow> offset_of (gt_base_tx_nr idx) p) R
       (expected (gt_base_tx_nr idx) (chain_uuid txs None) txs)"
    using s c by (auto simp: stands_for_def)
  have e: "offset_of (gt_base_tx_nr idx) t \<in> expected (gt_base_tx_nr idx) (chain_uuid txs None) txs m
      \<longleftrightarrow> m \<in> transaction_marks (chain_uuid txs None) t"
    using offset_inj [OF n t] t by (auto simp: expected_def)
  show ?thesis
  proof (cases pend)
    case None
    then have "R = {}" using R(1) by blast
    then show ?thesis using R(2) e by simp
  next
    case (Some p)
    then have "offset_of (gt_base_tx_nr idx) t < offset_of (gt_base_tx_nr idx) p" using pending_above [OF s] t by blast
    then show ?thesis using R(2) e Some by (simp add: put_apply)
  qed
qed

text \<open>The part of a question that names a span of numbers.\<close>

definition in_span :: "grdb_transactions_filter \<Rightarrow> grdr_complete_transaction \<Rightarrow> bool" where
  "in_span f tx \<longleftrightarrow> (f_min_tx_nr f \<noteq> 0 \<longrightarrow> f_min_tx_nr f \<le> tx_nr tx) \<and> (f_max_tx_nr f \<noteq> 0 \<longrightarrow> tx_nr tx \<le> f_max_tx_nr f)
     \<and> in_days (f_from_seconds f) (f_to_seconds f) (day_of tx)"

lemma clamped_span:
  fixes lo hi base :: u64
  assumes n: "numbered base txs" "txs \<noteq> []"
    and P: "\<forall>t \<in> set txs. P t \<longleftrightarrow> lo \<le> tx_nr t \<and> tx_nr t \<le> hi"
    and r: "r = (let min_tx = (if lo < tx_nr (hd txs) then tx_nr (hd txs) else lo);
              max_tx = (if hi > tx_nr (last txs) then tx_nr (last txs) else hi);
              min_tx = (if min_tx < base then base else min_tx)
          in if max_tx < min_tx then None
             else let max_tx = (if max_tx - base > 4294967295 then base + 4294967295 else max_tx)
                  in if min_tx - base > 4294967295 then None
                     else Some (ucast (min_tx - base) :: u32, ucast (max_tx - base) :: u32))"
  shows "case r of None \<Rightarrow> \<forall>t \<in> set txs. \<not> P t
    | Some (a, b) \<Rightarrow> a \<le> b \<and> {v. unat a \<le> v \<and> v \<le> unat b} = offset_of base ` {t \<in> set txs. P t}"
proof -
  define mi where "mi = (if lo < tx_nr (hd txs) then tx_nr (hd txs) else lo)"
  define ma where "ma = (if hi > tx_nr (last txs) then tx_nr (last txs) else hi)"
  have hl: "hd txs \<in> set txs" "last txs \<in> set txs" using n(2) by simp_all
  have bh: "base \<le> tx_nr (hd txs)" and ol: "offset_of base (last txs) < 4294967295" using n(1) hl by (auto simp: numbered_def)
  have bmi: "base \<le> mi" using bh by (auto simp: mi_def)
  then have nb: "\<not> mi < base" by (simp add: not_less)
  have bnd: "tx_nr (hd txs) \<le> mi" "ma \<le> tx_nr (last txs)" by (auto simp: mi_def ma_def)
  have mm: "mi = max lo (tx_nr (hd txs))" "ma = min hi (tx_nr (last txs))"
    by (auto simp: mi_def ma_def max_def min_def)
  have P': "P t \<longleftrightarrow> mi \<le> tx_nr t \<and> tx_nr t \<le> ma" if "t \<in> set txs" for t
  proof -
    have "tx_nr (hd txs) \<le> tx_nr t" "tx_nr t \<le> tx_nr (last txs)"
      using numbered_nth [OF n(1) that] by (simp_all add: word_le_nat_alt)
    then show ?thesis using P that by (simp add: mm)
  qed
  show ?thesis
  proof (cases "ma < mi")
    case True
    then have "r = None" using r nb True by (simp add: Let_def mi_def [symmetric] ma_def [symmetric])
    then show ?thesis using P' True by (auto simp: not_le)
  next
    case False
    have bma: "base \<le> ma" using False bmi by simp
    have d: "unat (mi - base) = unat mi - unat base" "unat (ma - base) = unat ma - unat base"
      using unat_distance bmi bma by blast+
    have le: "unat ma - unat base < 4294967295" using bnd(2) ol by (simp add: offset_of_def word_le_nat_alt)
    have le': "unat mi - unat base < 4294967295" using le False by (simp add: word_less_nat_alt)
    have small: "\<not> ma - base > 4294967295" "\<not> mi - base > 4294967295"
      using le le' d by (simp_all add: word_less_nat_alt)
    then have rr: "r = Some (ucast (mi - base), ucast (ma - base))"
      using r nb False by (simp add: Let_def mi_def [symmetric] ma_def [symmetric])
    have ua: "unat (ucast (mi - base) :: u32) = unat mi - unat base" "unat (ucast (ma - base) :: u32) = unat ma - unat base"
      using unat_ucast_32 small d by metis+
    have "{v. unat mi - unat base \<le> v \<and> v \<le> unat ma - unat base} = offset_of base ` {t \<in> set txs. P t}" (is "?L = ?R")
    proof
      show "?R \<subseteq> ?L"
      proof
        fix v assume "v \<in> ?R"
        then obtain t where "v = offset_of base t" "unat mi \<le> unat (tx_nr t)" "unat (tx_nr t) \<le> unat ma"
          using P' by (auto simp: word_le_nat_alt)
        then show "v \<in> ?L" by (simp add: offset_of_def diff_le_mono)
      qed
      show "?L \<subseteq> ?R"
      proof
        fix v assume v: "v \<in> ?L"
        have b: "unat base \<le> unat mi" "unat base \<le> unat ma" using bmi bma by (simp_all add: word_le_nat_alt)
        have "unat (tx_nr (hd txs)) \<le> unat base + v" "unat base + v \<le> unat (tx_nr (last txs))"
          using v b bnd unfolding word_le_nat_alt by auto
        then obtain t where t: "t \<in> set txs" "unat (tx_nr t) = unat base + v" using numbered_mem [OF n] by blast
        have "P t" using P' [OF t(1)] v b t(2) unfolding word_le_nat_alt by auto
        moreover have "v = offset_of base t" using t(2) by (simp add: offset_of_def)
        ultimately show "v \<in> ?R" using t(1) by blast
      qed
    qed
    then show ?thesis using False by (simp add: rr ua word_le_nat_alt word_less_nat_alt diff_le_mono not_less)
  qed
qed

lemma query_span_exact:
  assumes s: "stands_for A els ks idx txs pend" and o: "days_in_order (with_pending txs pend)" and ne: "txs \<noteq> []"
    and r: "query_span idx f = Inr r"
  shows "case r of None \<Rightarrow> \<forall>t \<in> set txs. \<not> in_span f t
    | Some (a, b) \<Rightarrow> a \<le> b \<and> {v. unat a \<le> v \<and> v \<le> unat b} = offset_of (gt_base_tx_nr idx) ` {t \<in> set txs. in_span f t}"
proof -
  let ?base = "gt_base_tx_nr idx"
  have n: "numbered ?base txs" and d: "days_stand idx txs pend" and pb: "\<forall>p. pend = Some p \<longrightarrow> ?base \<le> tx_nr p"
    and mm: "gt_min_tx_nr idx = tx_nr (hd txs)" "gt_max_tx_nr idx = tx_nr (last txs)"
    using s ne by (auto simp: stands_for_def)
  define lo where "lo = (if f_min_tx_nr f \<noteq> 0 then f_min_tx_nr f else tx_nr (hd txs))"
  define hi where "hi = (if f_max_tx_nr f \<noteq> 0 then f_max_tx_nr f else tx_nr (last txs))"
  have nums: "(f_min_tx_nr f \<noteq> 0 \<longrightarrow> f_min_tx_nr f \<le> tx_nr t) \<and> (f_max_tx_nr f \<noteq> 0 \<longrightarrow> tx_nr t \<le> f_max_tx_nr f)
      \<longleftrightarrow> lo \<le> tx_nr t \<and> tx_nr t \<le> hi" if "t \<in> set txs" for t
    using numbered_nth [OF n that] by (simp add: lo_def hi_def word_le_nat_alt)
  define days where "days = (if f_from_seconds f \<noteq> 0 \<or> f_to_seconds f \<noteq> 0
             then fbind (range_of_days idx (f_from_seconds f) (f_to_seconds f)) (\<lambda>r.
               case r of None \<Rightarrow> Inr None
               | Some (day_min, day_max) \<Rightarrow>
                   Inr (Some (if day_min > lo then day_min else lo, if day_max < hi then day_max else hi)))
             else Inr (Some (lo, hi)))"
  have days': "fbind days (\<lambda>r.
      case r of None \<Rightarrow> Inr None
      | Some (min_tx, max_tx) \<Rightarrow>
          let min_tx = (if min_tx < tx_nr (hd txs) then tx_nr (hd txs) else min_tx);
              max_tx = (if max_tx > tx_nr (last txs) then tx_nr (last txs) else max_tx);
              min_tx = (if min_tx < ?base then ?base else min_tx)
          in if max_tx < min_tx then Inr None
             else let max_tx = (if max_tx - ?base > 4294967295 then ?base + 4294967295 else max_tx)
                  in if min_tx - ?base > 4294967295 then Inr None
                     else Inr (Some (ucast (min_tx - ?base), ucast (max_tx - ?base)))) = Inr r"
    using r unfolding query_span_def Let_def days_def lo_def hi_def mm .
  then obtain x where x: "days = Inr x" by (auto simp: fbind_eq_Inr)
  have xs: "case x of None \<Rightarrow> \<forall>t \<in> set txs. \<not> in_span f t
      | Some (a, b) \<Rightarrow> \<forall>t \<in> set txs. in_span f t \<longleftrightarrow> a \<le> tx_nr t \<and> tx_nr t \<le> b"
  proof (cases "f_from_seconds f \<noteq> 0 \<or> f_to_seconds f \<noteq> 0")
    case False
    then have "x = Some (lo, hi)" using x by (simp add: days_def)
    then show ?thesis using nums False by (auto simp: in_span_def in_days_def)
  next
    case True
    then obtain y where y: "range_of_days idx (f_from_seconds f) (f_to_seconds f) = Inr y"
      using x by (auto simp: days_def fbind_eq_Inr)
    have e: "(case y of None \<Rightarrow> False | Some (lo, hi) \<Rightarrow> lo \<le> tx_nr t \<and> tx_nr t \<le> hi)
        \<longleftrightarrow> in_days (f_from_seconds f) (f_to_seconds f) (day_of t)" if "t \<in> set txs" for t
      by (rule range_of_days_exact [OF d n refl o pending_above [OF s] pb mm(1) that y])
    show ?thesis
    proof (cases y)
      case None
      then have "x = None" using x y True by (simp add: days_def)
      then show ?thesis using e None by (auto simp: in_span_def)
    next
      case (Some ab)
      obtain a b where ab: "ab = (a, b)" by (cases ab)
      have "x = Some (max a lo, min b hi)"
        using x y True Some ab by (auto simp: days_def max_def min_def split: if_splits)
      then show ?thesis using e nums Some ab by (auto simp: in_span_def)
    qed
  qed
  show ?thesis
  proof (cases x)
    case None
    then have "r = None" using days' x by simp
    then show ?thesis using xs None by simp
  next
    case (Some ab)
    obtain a b where ab: "ab = (a, b)" by (cases ab)
    have P: "\<forall>t \<in> set txs. in_span f t \<longleftrightarrow> a \<le> tx_nr t \<and> tx_nr t \<le> b" using xs Some ab by simp
    have "r = (let min_tx = (if a < tx_nr (hd txs) then tx_nr (hd txs) else a);
              max_tx = (if b > tx_nr (last txs) then tx_nr (last txs) else b);
              min_tx = (if min_tx < ?base then ?base else min_tx)
          in if max_tx < min_tx then None
             else let max_tx = (if max_tx - ?base > 4294967295 then ?base + 4294967295 else max_tx)
                  in if min_tx - ?base > 4294967295 then None
                     else Some (ucast (min_tx - ?base), ucast (max_tx - ?base)))"
      using days' unfolding x Some ab fbind_simps option.case prod.case Let_def by (simp split: if_splits)
    then show ?thesis by (rule clamped_span [OF n ne P])
  qed
qed

section \<open>The query of a filter\<close>

lemma look_missing:
  assumes "arnm_laws A els ks"
  shows "key_map_find A (gt_addresses idx) k = None \<Longrightarrow> addr_look A idx k = empty_address_sets A"
    and "key_map_find A (gt_addresses idx) k = Some i \<Longrightarrow> \<not> unat i < length (gt_address_sets idx) \<Longrightarrow> addr_look A idx k = empty_address_sets A"
    and "key_map_find A (gt_coin_communities idx) u = None \<Longrightarrow> coin_look A idx u = roaring_none A"
    and "key_map_find A (gt_coin_communities idx) u = Some i \<Longrightarrow> \<not> unat i < length (gt_coin_sets idx) \<Longrightarrow> coin_look A idx u = roaring_none A"
  by (simp_all add: addr_look_def coin_look_def look_def)

lemma empty_set_els: "arnm_laws A els ks \<Longrightarrow> els (roaring_none A) = {}"
  by (simp add: arnm_laws_def set_laws_def)

text \<open>One part of a query: all of these sets, any of those, none of these.\<close>

definition passes :: "('s \<Rightarrow> nat set) \<Rightarrow> 's list \<Rightarrow> 's list \<Rightarrow> 's list \<Rightarrow> nat \<Rightarrow> bool" where
  "passes els alls anys nones v \<longleftrightarrow> (\<forall>s \<in> set alls. v \<in> els s) \<and> (anys = [] \<or> (\<exists>s \<in> set anys. v \<in> els s))
     \<and> (\<forall>s \<in> set nones. v \<notin> els s)"

lemma query_address_exact:
  assumes L: "arnm_laws A els ks"
  shows "case query_address A idx f of
      None \<Rightarrow> f_role f \<noteq> GRDB_ADDRESS_ROLE_NONE
        \<and> (\<forall>m \<in> {Balance (f_public_key f), Signed (f_public_key f), Other (f_public_key f)}. holds A els idx m = {})
    | Some (alls, anys) \<Rightarrow> passes els alls anys [] v \<longleftrightarrow> (f_role f \<noteq> GRDB_ADDRESS_ROLE_NONE \<longrightarrow>
        v \<in> holds A els idx (Balance (f_public_key f))
        \<or> f_role f \<noteq> GRDB_ADDRESS_ROLE_BALANCE
          \<and> v \<in> holds A els idx (Signed (f_public_key f)) \<union> holds A els idx (Other (f_public_key f)))"
proof (cases "key_map_find A (gt_addresses idx) (f_public_key f)")
  case None
  then show ?thesis
    using empty_set_els [OF L] by (auto simp: query_address_def look_missing(1) [OF L] empty_address_sets_def passes_def)
next
  case (Some i)
  show ?thesis
  proof (cases "unat i < length (gt_address_sets idx)")
    case False
    then show ?thesis
      using Some empty_set_els [OF L] look_missing(2) [OF L Some False]
      by (auto simp: query_address_def empty_address_sets_def passes_def)
  next
    case True
    then show ?thesis using Some by (auto simp: query_address_def passes_def addr_look_def look_def Let_def)
  qed
qed

lemma query_type_exact:
  assumes w: "wf_index ks idx"
  shows "case query_type idx f of
      None \<Rightarrow> f_transaction_type f \<noteq> GRDT_TRANSACTION_NONE \<and> f_transaction_type f \<ge> GRDT_TRANSACTION_COUNT
    | Some alls \<Rightarrow> passes els alls [] [] v \<longleftrightarrow>
        (f_transaction_type f \<noteq> GRDT_TRANSACTION_NONE \<longrightarrow> v \<in> holds A els idx (OfType (f_transaction_type f)))"
  using w by (auto simp: query_type_def passes_def wf_index_def word_le_nat_alt)

lemma query_coin_exact:
  assumes L: "arnm_laws A els ks" and f: "length (f_coin_community_uuid f) = ARNM_UUID_BINARY_SIZE"
    and c: "gt_chain_community_uuid idx = c" "length c = ARNM_UUID_BINARY_SIZE"
  shows "case query_coin A idx f of
      None \<Rightarrow> \<exists>u. grdb_transactions_filter_coin_community (Some f) = Some u \<and> u \<noteq> c \<and> holds A els idx (Coin u) = {}
    | Some (alls, nones) \<Rightarrow> passes els alls [] nones v \<longleftrightarrow>
        (case grdb_transactions_filter_coin_community (Some f) of None \<Rightarrow> True
         | Some u \<Rightarrow> if u = c then v \<notin> holds A els idx Foreign else v \<in> holds A els idx (Coin u))"
proof (cases "grdb_transactions_filter_coin_community (Some f)")
  case None
  then show ?thesis by (simp add: query_coin_def passes_def)
next
  case (Some u)
  have lu: "length u = ARNM_UUID_BINARY_SIZE" using Some f by (auto simp: grdb_transactions_filter_coin_community_def split: if_splits)
  have m: "memcmp_eq u (gt_chain_community_uuid idx) ARNM_UUID_BINARY_SIZE \<longleftrightarrow> u = c" using lu c by (simp add: memcmp_eq_full)
  show ?thesis
  proof (cases "u = c")
    case True
    then show ?thesis using Some m by (simp add: query_coin_def passes_def)
  next
    case ne: False
    show ?thesis
    proof (cases "key_map_find A (gt_coin_communities idx) u")
      case None
      then show ?thesis using Some m ne empty_set_els [OF L] by (simp add: query_coin_def look_missing(3) [OF L])
    next
      case (Some i)
      note i = Some
      show ?thesis
        using \<open>grdb_transactions_filter_coin_community (Some f) = Some u\<close> m ne i empty_set_els [OF L]
          look_missing(4) [OF L i]
        by (cases "unat i < length (gt_coin_sets idx)") (simp_all add: query_coin_def passes_def coin_look_def look_def not_le)
    qed
  qed
qed

lemma mark_iff:
  "Balance k \<in> transaction_marks c t \<longleftrightarrow> k \<in> balance_keys t"
  "Signed k \<in> transaction_marks c t \<longleftrightarrow> k \<in> signed_keys t"
  "Other k \<in> transaction_marks c t \<longleftrightarrow> k \<in> body_keys t - signed_keys t - balance_keys t"
  "Coin u \<in> transaction_marks c t \<longleftrightarrow> u \<in> foreign_coins c t"
  "Foreign \<in> transaction_marks c t \<longleftrightarrow> foreign_coins c t \<noteq> {}"
  "OfType ty \<in> transaction_marks c t \<longleftrightarrow> transaction_type t = ty"
  by (auto simp: transaction_marks_def balance_marks_def named_marks_def)

text \<open>The three parts of a question, read off the marks of a transaction in the index.\<close>

definition address_asked :: "grdb_transactions_filter \<Rightarrow> grdr_complete_transaction \<Rightarrow> bool" where
  "address_asked f tx \<longleftrightarrow> (f_role f \<noteq> GRDB_ADDRESS_ROLE_NONE \<longrightarrow> f_public_key f \<in> balance_keys tx
        \<or> f_role f \<noteq> GRDB_ADDRESS_ROLE_BALANCE \<and> f_public_key f \<in> signed_keys tx \<union> body_keys tx)"

definition type_asked :: "grdb_transactions_filter \<Rightarrow> grdr_complete_transaction \<Rightarrow> bool" where
  "type_asked f tx \<longleftrightarrow> (f_transaction_type f \<noteq> GRDT_TRANSACTION_NONE \<longrightarrow> transaction_type tx = f_transaction_type f)"

definition coin_asked :: "bytes \<Rightarrow> grdb_transactions_filter \<Rightarrow> grdr_complete_transaction \<Rightarrow> bool" where
  "coin_asked c f tx \<longleftrightarrow> (case grdb_transactions_filter_coin_community (Some f) of None \<Rightarrow> True
        | Some u \<Rightarrow> if u = c then foreign_coins c tx = {} else u \<in> foreign_coins c tx)"

lemma tx_matches_parts:
  "tx_matches c f tx \<longleftrightarrow> in_span f tx \<and> address_asked f tx \<and> type_asked f tx \<and> coin_asked c f tx"
  by (auto simp: tx_matches_def in_span_def address_asked_def type_asked_def coin_asked_def)

lemma address_part:
  assumes L: "arnm_laws A els ks" and s: "stands_for A els ks idx txs pend" and t: "t \<in> set txs"
  shows "case query_address A idx f of None \<Rightarrow> \<not> address_asked f t
    | Some (alls, anys) \<Rightarrow> passes els alls anys [] (offset_of (gt_base_tx_nr idx) t) \<longleftrightarrow> address_asked f t"
proof (cases "query_address A idx f")
  case None
  then have h: "f_role f \<noteq> GRDB_ADDRESS_ROLE_NONE"
    "holds A els idx (Balance (f_public_key f)) = {}" "holds A els idx (Signed (f_public_key f)) = {}"
    "holds A els idx (Other (f_public_key f)) = {}"
    using query_address_exact [OF L, where idx = idx and f = f] by simp_all
  show ?thesis
    using h holds_offset [OF s t, of "Balance (f_public_key f)"] holds_offset [OF s t, of "Signed (f_public_key f)"]
      holds_offset [OF s t, of "Other (f_public_key f)"] None
    by (simp add: mark_iff address_asked_def)
next
  case (Some p)
  then obtain alls anys where p: "query_address A idx f = Some (alls, anys)" by (cases p) auto
  show ?thesis
    using query_address_exact [OF L, where idx = idx and f = f and v = "offset_of (gt_base_tx_nr idx) t"] p
      holds_offset [OF s t, of "Balance (f_public_key f)"] holds_offset [OF s t, of "Signed (f_public_key f)"]
      holds_offset [OF s t, of "Other (f_public_key f)"]
    by (auto simp: mark_iff address_asked_def)
qed

lemma type_part:
  assumes s: "stands_for A els ks idx txs pend" and t: "t \<in> set txs"
  shows "case query_type idx f of None \<Rightarrow> \<not> type_asked f t
    | Some alls \<Rightarrow> passes els alls [] [] (offset_of (gt_base_tx_nr idx) t) \<longleftrightarrow> type_asked f t"
proof -
  have w: "wf_index ks idx" and ty: "transaction_type t < GRDT_TRANSACTION_COUNT"
    using s t by (auto simp: stands_for_def numbered_def)
  show ?thesis
    using query_type_exact [OF w, where f = f and els = els and v = "offset_of (gt_base_tx_nr idx) t" and A = A] ty
      holds_offset [OF s t, of "OfType (f_transaction_type f)"]
    by (auto simp: mark_iff type_asked_def not_le split: option.splits)
qed

lemma coin_part:
  assumes L: "arnm_laws A els ks" and s: "stands_for A els ks idx txs pend" and t: "t \<in> set txs"
    and f: "length (f_coin_community_uuid f) = ARNM_UUID_BINARY_SIZE"
  shows "case query_coin A idx f of None \<Rightarrow> \<not> coin_asked (chain_uuid txs None) f t
    | Some (alls, nones) \<Rightarrow> passes els alls [] nones (offset_of (gt_base_tx_nr idx) t) \<longleftrightarrow> coin_asked (chain_uuid txs None) f t"
proof -
  have c: "gt_chain_community_uuid idx = chain_uuid txs None" "length (chain_uuid txs None) = ARNM_UUID_BINARY_SIZE"
    using s t by (cases txs; auto simp: stands_for_def chain_uuid_def numbered_def wf_transaction_def)+
  note q = query_coin_exact [OF L f c]
  note h = holds_offset [OF s t, of "Coin u" for u] holds_offset [OF s t, of Foreign]
  show ?thesis
  proof (cases "query_coin A idx f")
    case None
    then obtain u where "grdb_transactions_filter_coin_community (Some f) = Some u" "u \<noteq> chain_uuid txs None" "holds A els idx (Coin u) = {}"
      using q by auto
    then show ?thesis using None h(1) [of u] by (simp add: coin_asked_def mark_iff)
  next
    case (Some p)
    then obtain alls nones where p: "query_coin A idx f = Some (alls, nones)" by (cases p) auto
    show ?thesis using q [where v = "offset_of (gt_base_tx_nr idx) t"] p h by (simp add: coin_asked_def mark_iff split: option.splits)
  qed
qed

lemma query_set_passes:
  "query_set els q = {v. unat (q_min q) \<le> v \<and> v \<le> unat (q_max q)} \<inter> {v. passes els (q_all q) (q_any q) (q_none q) v}"
  by (auto simp: query_set_def passes_def)

lemma passes_append:
  "passes els (a1 @ a2 @ a3) anys nones v \<longleftrightarrow> passes els a1 anys [] v \<and> passes els a2 [] [] v \<and> passes els a3 [] nones v"
  by (auto simp: passes_def)

text \<open>The seconds a day can be computed from without leaving 64 bits.\<close>

definition days_readable :: "grdb_transactions_filter \<Rightarrow> bool" where
  "days_readable f \<longleftrightarrow> - 9223372036854689407 \<le> sint (f_from_seconds f) \<and> - 9223372036854689407 \<le> sint (f_to_seconds f)"

lemma day_of_second_readable: "- 9223372036854689407 \<le> sint s \<Longrightarrow> day_of_second s = Inr (second_day s)"
  by (simp add: day_of_second_def second_day_def)

lemma query_readable:
  assumes "days_readable f"
  shows "\<exists>r. query_of_filter A idx f = Inr r"
proof -
  have "\<exists>a b. day_bounds idx (f_from_seconds f) (f_to_seconds f) = Inr (a, b)"
    using assms by (simp add: day_bounds_def days_readable_def day_of_second_readable Let_def)
  then obtain a b where b: "day_bounds idx (f_from_seconds f) (f_to_seconds f) = Inr (a, b)" by blast
  have r: "\<exists>r. range_of_days idx (f_from_seconds f) (f_to_seconds f) = Inr r"
    unfolding range_of_days_def b fbind_simps prod.case Let_def by (simp split: option.split)
  have "\<exists>r. query_span idx f = Inr r"
    using r unfolding query_span_def Let_def by (auto split: option.splits)
  then show ?thesis unfolding query_of_filter_def by (auto split: option.splits)
qed

lemma query_exact:
  assumes L: "arnm_laws A els ks" and s: "stands_for A els ks idx txs pend" and o: "days_in_order (with_pending txs pend)"
    and f: "wf_filter f" and r: "query_of_filter A idx f = Inr r"
  shows "case r of None \<Rightarrow> matching f txs = []
    | Some q \<Rightarrow> q_min q \<le> q_max q \<and> query_set els q = offset_of (gt_base_tx_nr idx) ` set (matching f txs)"
proof (cases "txs = []")
  case True
  then have "gt_transaction_count idx = 0" using s by (simp add: stands_for_def unsigned_eq_0_iff)
  then show ?thesis using r True by (simp add: query_of_filter_def matching_def)
next
  case ne: False
  let ?c = "chain_uuid txs None" and ?off = "offset_of (gt_base_tx_nr idx)"
  have cnt: "gt_transaction_count idx \<noteq> 0" using s ne by (auto simp: stands_for_def)
  have lu: "length (f_coin_community_uuid f) = ARNM_UUID_BINARY_SIZE" using f by (simp add: wf_filter_def)
  have parts: "\<forall>t \<in> set txs. tx_matches ?c f t \<longleftrightarrow> in_span f t \<and> address_asked f t \<and> type_asked f t \<and> coin_asked ?c f t"
    by (simp add: tx_matches_parts)
  note pa = address_part [OF L s, where f = f] and pt = type_part [OF s, where f = f] and pc = coin_part [OF L s _ lu]
  show ?thesis
  proof (cases "query_address A idx f = None \<or> query_type idx f = None \<or> query_coin A idx f = None")
    case True
    then have "r = None" using r cnt by (auto simp: query_of_filter_def split: option.splits)
    moreover have "\<not> tx_matches ?c f t" if "t \<in> set txs" for t
      using True pa [OF that] pt [OF that] pc [OF that] by (auto simp: tx_matches_parts)
    ultimately show ?thesis by (auto simp: matching_def filter_empty_conv)
  next
    case False
    then obtain aa ya at ac nc where q: "query_address A idx f = Some (aa, ya)" "query_type idx f = Some at" "query_coin A idx f = Some (ac, nc)"
      by auto
    obtain x where x: "query_span idx f = Inr x" using r cnt q by (auto simp: query_of_filter_def fbind_eq_Inr)
    note sp = query_span_exact [OF s o ne x]
    show ?thesis
    proof (cases x)
      case None
      then have "r = None" using r cnt q x by (simp add: query_of_filter_def)
      then show ?thesis using sp None by (auto simp: matching_def filter_empty_conv tx_matches_parts)
    next
      case (Some ab)
      obtain a b where ab: "ab = (a, b)" by (cases ab)
      have rr: "r = Some \<lparr>q_all = aa @ at @ ac, q_any = ya, q_none = nc, q_min = a, q_max = b\<rparr>"
        using r cnt q x Some ab by (simp add: query_of_filter_def)
      have sp': "a \<le> b" "{v. unat a \<le> v \<and> v \<le> unat b} = ?off ` {t \<in> set txs. in_span f t}"
        using sp Some ab by simp_all
      have "passes els (aa @ at @ ac) ya nc (?off t) \<longleftrightarrow> address_asked f t \<and> type_asked f t \<and> coin_asked ?c f t"
        if "t \<in> set txs" for t
        using pa [OF that] pt [OF that] pc [OF that] q by (simp add: passes_append)
      then have "?off ` {t \<in> set txs. in_span f t} \<inter> {v. passes els (aa @ at @ ac) ya nc v} = ?off ` set (matching f txs)"
        by (auto simp: matching_def tx_matches_parts)
      then show ?thesis using sp' rr by (simp add: query_set_passes)
    qed
  qed
qed

section \<open>Counting and paging\<close>

text \<open>A page of a list, from either end.\<close>

definition list_page :: "nat \<Rightarrow> nat \<Rightarrow> bool \<Rightarrow> 'a list \<Rightarrow> 'a list" where
  "list_page skip n descending xs = take n (drop skip ((if descending then rev else id) xs))"

lemma map_list_page: "map f (list_page skip n descending xs) = list_page skip n descending (map f xs)"
  by (simp add: list_page_def take_map drop_map rev_map)

lemma page_of_set:
  assumes "sorted xs" "distinct xs"
  shows "page_of (set xs) skip n descending = list_page skip n descending xs"
  using assms by (simp add: page_of_def list_page_def sorted_list_of_set.idem_if_sorted_distinct)

lemma word_nat_32: "v \<le> unat (m :: u32) \<Longrightarrow> unat (word_of_nat v :: u32) = v"
  using unat_lt_32 [of m] by (simp add: unsigned_of_nat take_bit_nat_eq_self)

lemma span_excludes_iff:
  assumes "arnm_laws A els ks"
  shows "span_excludes A q off \<longleftrightarrow> (\<exists>s \<in> set (q_none q). unat off \<in> els s)"
  using assms by (simp add: span_excludes_def list_ex_iff arnm_laws_def set_laws_def)

lemma word_nat_64: "v < 18446744073709551616 \<Longrightarrow> unat (word_of_nat v :: u64) = v"
  by (simp add: unsigned_of_nat take_bit_nat_eq_self)

text \<open>The walk goes through the span in order, and drops and takes as a page does.\<close>

lemma span_walk_page:
  "span_walk A q descending k step skip room =
     take room (drop skip (filter (\<lambda>v. \<not> span_excludes A q v)
       (map (\<lambda>i. if descending then q_max q - word_of_nat i else q_min q + word_of_nat i) [step ..< step + k])))"
proof (induction k arbitrary: step skip room)
  case 0
  then show ?case by simp
next
  case (Suc k)
  have u: "[step ..< step + Suc k] = step # [step + 1 ..< (step + 1) + k]" by (simp add: upt_conv_Cons)
  show ?case
  proof (cases "room = 0")
    case False
    then obtain room' where r: "room = Suc room'" by (cases room) auto
    show ?thesis
      unfolding span_walk.simps Suc.IH u Let_def using r by (cases skip) (simp_all add: upt_conv_Cons)
  qed simp
qed

lemma span_set:
  assumes "names_no_set q"
  shows "query_set els q = set (filter (\<lambda>v. \<not> (\<exists>s \<in> set (q_none q). v \<in> els s)) [unat (q_min q) ..< Suc (unat (q_max q))])"
  using assms by (auto simp: query_set_def names_no_set_def)

lemma span_page_exact:
  assumes L: "arnm_laws A els ks" and n: "names_no_set q" and le: "q_min q \<le> q_max q"
  shows "span_page A q skip n descending = map word_of_nat (page_of (query_set els q) (unat skip) (unat n) descending)"
proof -
  let ?a = "unat (q_min q)" and ?b = "unat (q_max q)"
  let ?ok = "\<lambda>v. \<not> (\<exists>s \<in> set (q_none q). v \<in> els s)"
  have ab: "?a \<le> ?b" using le by (simp add: word_le_nat_alt)
  have up: "map (\<lambda>i. q_min q + word_of_nat i) [0 ..< ?b - ?a + 1] = map word_of_nat [?a ..< Suc ?b]"
  proof -
    have "map (\<lambda>i. q_min q + word_of_nat i) [0 ..< ?b - ?a + 1] = map (\<lambda>i. word_of_nat (i + ?a)) [0 ..< ?b - ?a + 1]"
      by (simp add: add.commute)
    also have "\<dots> = map word_of_nat (map (\<lambda>i. i + ?a) [0 ..< ?b - ?a + 1])" by simp
    also have "map (\<lambda>i. i + ?a) [0 ..< ?b - ?a + 1] = [?a ..< Suc ?b]" using ab by (simp add: map_add_upt)
    finally show ?thesis .
  qed
  have down: "map (\<lambda>i. q_max q - word_of_nat i) [0 ..< ?b - ?a + 1] = map word_of_nat (rev [?a ..< Suc ?b])"
  proof (rule nth_equalityI)
    show l: "length (map (\<lambda>i. q_max q - word_of_nat i) [0 ..< ?b - ?a + 1]) = length (map word_of_nat (rev [?a ..< Suc ?b]))"
      using ab by simp
    fix i assume "i < length (map (\<lambda>i. q_max q - word_of_nat i) [0 ..< ?b - ?a + 1])"
    then have i: "i \<le> ?b - ?a" by simp
    have r: "rev [?a ..< Suc ?b] ! i = ?b - i" using i ab by (simp add: rev_nth del: upt_Suc)
    have "word_of_nat (?b - i) = q_max q - word_of_nat i" using i by (simp add: of_nat_diff)
    then show "map (\<lambda>i. q_max q - word_of_nat i) [0 ..< ?b - ?a + 1] ! i = map word_of_nat (rev [?a ..< Suc ?b]) ! i"
      using i r ab by (simp del: upt_Suc)
  qed
  have f: "filter (\<lambda>v. \<not> span_excludes A q v) (map word_of_nat vs) = map word_of_nat (filter ?ok vs)" if "set vs \<subseteq> {?a .. ?b}" for vs
    using that by (induction vs) (auto simp: span_excludes_iff [OF L] word_nat_32)
  have fr: "filter ?ok (rev [?a ..< Suc ?b]) = rev (filter ?ok [?a ..< Suc ?b])" by (simp only: rev_filter)
  have p: "page_of (query_set els q) (unat skip) (unat n) descending
      = list_page (unat skip) (unat n) descending (filter ?ok [?a ..< Suc ?b])"
    unfolding span_set [OF n] by (rule page_of_set) (auto intro: sorted_wrt_filter distinct_filter simp del: upt_Suc)
  show ?thesis
  proof (cases descending)
    case True
    have "span_page A q skip n descending = take (unat n) (drop (unat skip) (filter (\<lambda>v. \<not> span_excludes A q v) (map word_of_nat (rev [?a ..< Suc ?b]))))"
      unfolding span_page_def span_walk_page down [symmetric] using True by simp
    also have "\<dots> = take (unat n) (drop (unat skip) (map word_of_nat (rev (filter ?ok [?a ..< Suc ?b]))))"
      by (subst f) (auto simp: rev_filter simp del: upt_Suc)
    finally show ?thesis using True unfolding p by (simp add: list_page_def take_map drop_map del: upt_Suc)
  next
    case False
    have "span_page A q skip n descending = take (unat n) (drop (unat skip) (filter (\<lambda>v. \<not> span_excludes A q v) (map word_of_nat [?a ..< Suc ?b])))"
      unfolding span_page_def span_walk_page up [symmetric] using False by simp
    also have "\<dots> = take (unat n) (drop (unat skip) (map word_of_nat (filter ?ok [?a ..< Suc ?b])))"
      by (subst f) (auto simp del: upt_Suc)
    finally show ?thesis using False unfolding p by (simp add: list_page_def take_map drop_map del: upt_Suc)
  qed
qed

lemma span_cardinality_exact:
  assumes L: "arnm_laws A els ks" and n: "names_no_set q" and le: "q_min q \<le> q_max q"
  shows "span_cardinality A q = (ARNM_SUCCESS, word_of_nat (card (query_set els q)))"
proof -
  let ?a = "unat (q_min q)" and ?b = "unat (q_max q)"
  define taken where "taken = {v. ?a \<le> v \<and> v \<le> ?b \<and> (\<exists>s \<in> set (q_none q). v \<in> els s)}"
  have ab: "?a \<le> ?b" "?b < 4294967296" using le unat_lt_32 by (auto simp: word_le_nat_alt)
  have fin: "taken \<subseteq> {?a .. ?b}" by (auto simp: taken_def)
  have q: "query_set els q = {?a .. ?b} - taken" using n by (auto simp: query_set_def names_no_set_def taken_def)
  have c: "card (query_set els q) = (?b - ?a + 1) - card taken" 
  proof -
    have "card ({?a .. ?b} - taken) = Suc ?b - ?a - card taken" using fin finite_subset [OF fin] by (simp add: card_Diff_subset)
    then show ?thesis unfolding q using ab(1) by (simp add: Suc_diff_le)
  qed
  have ct: "card taken \<le> ?b - ?a + 1" using card_mono [OF _ fin] ab by simp
  have inside: "(ucast (q_max q) - ucast (q_min q) + 1 :: u64) = word_of_nat (?b - ?a + 1)"
    using ab by (simp add: of_nat_diff)
  have u: "unat (word_of_nat (?b - ?a + 1) :: u64) = ?b - ?a + 1" "unat (word_of_nat (card taken) :: u64) = card taken"
    using ab ct by (auto intro!: word_nat_64 simp del: of_nat_add of_nat_Suc)
  show ?thesis
  proof (cases "q_none q = []")
    case True
    then have "taken = {}" by (simp add: taken_def)
    then show ?thesis using True c by (simp add: span_cardinality_def inside)
  next
    case False
    let ?q = "\<lparr>q_all = [], q_any = q_none q, q_none = [], q_min = q_min q, q_max = q_max q\<rparr>"
    have "query_set els ?q = taken" using False by (auto simp: query_set_def taken_def)
    then have "query_cardinality A ?q = (ARNM_SUCCESS, word_of_nat (card taken))"
      using L le False by (simp add: arnm_laws_def query_laws_def query_names_set_def)
    then have "span_cardinality A q = (ARNM_SUCCESS, if (word_of_nat (card taken) :: u64) < word_of_nat (?b - ?a + 1)
        then word_of_nat (?b - ?a + 1) - word_of_nat (card taken) else 0)"
      using False by (simp add: span_cardinality_def inside Let_def)
    also have "\<dots> = (ARNM_SUCCESS, word_of_nat ((?b - ?a + 1) - card taken))"
      using ct u by (auto simp: word_less_nat_alt of_nat_diff)
    finally show ?thesis using c by simp
  qed
qed

text \<open>The three ways to answer a query, whichever of the two algorithms is taken.\<close>

lemma query_answers:
  assumes L: "arnm_laws A els ks" and le: "q_min q \<le> q_max q"
  shows "(if names_no_set q then span_cardinality A q else query_cardinality A q) = (ARNM_SUCCESS, word_of_nat (card (query_set els q)))"
    and "(if names_no_set q then (case span_cardinality A q of (r, matches) \<Rightarrow>
            (r, if r = ARNM_SUCCESS \<and> n \<noteq> 0 then span_page A q skip n d else [], matches)) else query_listing A q skip n d)
         = (ARNM_SUCCESS, map word_of_nat (page_of (query_set els q) (unat skip) (unat n) d), word_of_nat (card (query_set els q)))"
    and "(if names_no_set q then (ARNM_SUCCESS, span_page A q skip n d) else query_page A q skip n d)
         = (ARNM_SUCCESS, map word_of_nat (page_of (query_set els q) (unat skip) (unat n) d))"
proof -
  have Q: "\<not> names_no_set q \<Longrightarrow> query_names_set q" by (auto simp: names_no_set_def query_names_set_def)
  have ql: "query_names_set q \<Longrightarrow> query_cardinality A q = (ARNM_SUCCESS, word_of_nat (card (query_set els q)))"
    "query_names_set q \<Longrightarrow> query_listing A q skip n d = (ARNM_SUCCESS, map word_of_nat (page_of (query_set els q) (unat skip) (unat n) d), word_of_nat (card (query_set els q)))"
    "query_names_set q \<Longrightarrow> query_page A q skip n d = (ARNM_SUCCESS, map word_of_nat (page_of (query_set els q) (unat skip) (unat n) d))"
    using L le unfolding arnm_laws_def query_laws_def by blast+
  have z: "n = 0 \<Longrightarrow> page_of (query_set els q) (unat skip) (unat n) d = []" by (simp add: page_of_def)
  show "(if names_no_set q then span_cardinality A q else query_cardinality A q) = (ARNM_SUCCESS, word_of_nat (card (query_set els q)))"
    using Q ql(1) span_cardinality_exact [OF L _ le] by simp
  show "(if names_no_set q then (case span_cardinality A q of (r, matches) \<Rightarrow>
            (r, if r = ARNM_SUCCESS \<and> n \<noteq> 0 then span_page A q skip n d else [], matches)) else query_listing A q skip n d)
         = (ARNM_SUCCESS, map word_of_nat (page_of (query_set els q) (unat skip) (unat n) d), word_of_nat (card (query_set els q)))"
    using Q ql(2) span_cardinality_exact [OF L _ le] span_page_exact [OF L _ le] z by simp
  show "(if names_no_set q then (ARNM_SUCCESS, span_page A q skip n d) else query_page A q skip n d)
         = (ARNM_SUCCESS, map word_of_nat (page_of (query_set els q) (unat skip) (unat n) d))"
    using Q ql(3) span_page_exact [OF L _ le] by simp
qed

section \<open>The answers\<close>

lemma matching_numbered:
  assumes s: "stands_for A els ks idx txs pend"
  shows "sorted (map (offset_of (gt_base_tx_nr idx)) (matching f txs))"
    and "distinct (map (offset_of (gt_base_tx_nr idx)) (matching f txs))"
    and "\<forall>t \<in> set (matching f txs). gt_base_tx_nr idx \<le> tx_nr t \<and> offset_of (gt_base_tx_nr idx) t < 4294967295"
proof -
  have n: "numbered (gt_base_tx_nr idx) txs" using s by (simp add: stands_for_def)
  have "map (offset_of (gt_base_tx_nr idx)) txs = map (\<lambda>i. offset_of (gt_base_tx_nr idx) (hd txs) + i) [0 ..< length txs]"
    using numbered_offset [OF n] by (intro nth_equalityI) auto
  then have st: "sorted_wrt (<) (map (offset_of (gt_base_tx_nr idx)) txs)"
    by (simp add: sorted_wrt_iff_nth_less)
  then have "sorted_wrt (<) (map (offset_of (gt_base_tx_nr idx)) (matching f txs))"
    unfolding matching_def by (simp add: sorted_wrt_map sorted_wrt_filter)
  then show "sorted (map (offset_of (gt_base_tx_nr idx)) (matching f txs))"
    "distinct (map (offset_of (gt_base_tx_nr idx)) (matching f txs))"
    by (simp_all add: strict_sorted_iff)
  show "\<forall>t \<in> set (matching f txs). gt_base_tx_nr idx \<le> tx_nr t \<and> offset_of (gt_base_tx_nr idx) t < 4294967295"
    using n by (auto simp: matching_def numbered_def)
qed

lemma offset_back:
  assumes "base \<le> tx_nr t" "offset_of base t < 4294967295"
  shows "base + ucast (word_of_nat (offset_of base t) :: u32) = tx_nr t"
proof -
  have "unat (word_of_nat (offset_of base t) :: u32) = offset_of base t"
    using assms(2) by (simp add: unsigned_of_nat take_bit_nat_eq_self)
  then have "(ucast (word_of_nat (offset_of base t) :: u32) :: u64) = tx_nr t - base"
    using assms(1) by (simp add: word_unat_eq_iff unat_distance offset_of_def)
  then show ?thesis by simp
qed

lemma set_list_page: "set (list_page skip n d xs) \<subseteq> set xs"
  by (auto simp: list_page_def dest!: in_set_takeD in_set_dropD split: if_splits)

lemma numbers_of_page:
  assumes s: "stands_for A els ks idx txs pend"
  shows "map (\<lambda>o'. gt_base_tx_nr idx + ucast (o' :: u32)) (map word_of_nat (page_of (offset_of (gt_base_tx_nr idx) ` set (matching f txs)) skip n d))
     = list_page skip n d (map tx_nr (matching f txs))"
proof -
  have "page_of (offset_of (gt_base_tx_nr idx) ` set (matching f txs)) skip n d
      = map (offset_of (gt_base_tx_nr idx)) (list_page skip n d (matching f txs))"
    using page_of_set [OF matching_numbered(1,2) [OF s]] unfolding map_list_page by simp
  moreover have "gt_base_tx_nr idx + ucast (word_of_nat (offset_of (gt_base_tx_nr idx) t) :: u32) = tx_nr t"
    if "t \<in> set (list_page skip n d (matching f txs))" for t
  proof -
    have "t \<in> set (matching f txs)" using that set_list_page [of skip n d "matching f txs"] by auto
    then have "gt_base_tx_nr idx \<le> tx_nr t \<and> offset_of (gt_base_tx_nr idx) t < 4294967295"
      using matching_numbered(3) [OF s] by simp
    then show ?thesis using offset_back by simp
  qed
  ultimately have "map (\<lambda>o'. gt_base_tx_nr idx + ucast (o' :: u32)) (map word_of_nat (page_of (offset_of (gt_base_tx_nr idx) ` set (matching f txs)) skip n d))
      = map tx_nr (list_page skip n d (matching f txs))" by simp
  then show ?thesis unfolding map_list_page .
qed

lemma index_count:
  assumes "arnm_laws A els ks" "stands_for A els ks idx txs pend" "days_in_order (with_pending txs pend)"
    and "wf_filter f" "days_readable f"
  shows "grdb_transactions_count A (Some idx) (Some f) (Some x)
     = Inr (ARNM_SUCCESS, Some (word_of_nat (length (matching f txs))))"
proof -
  obtain r where r: "query_of_filter A idx f = Inr r" using query_readable assms(5) by blast
  have rdy: "gt_ready idx" using assms(2) by (simp add: stands_for_def)
  note q = query_exact [OF assms(1-4) r]
  show ?thesis
  proof (cases r)
    case None
    then show ?thesis using q r rdy by (simp add: grdb_transactions_count_def)
  next
    case (Some qq)
    have "card (query_set els qq) = length (matching f txs)"
      using q Some distinct_card [OF matching_numbered(2) [OF assms(2)]] by simp
    then show ?thesis using query_answers(1) [OF assms(1), of qq] q Some r rdy
      by (simp add: grdb_transactions_count_def)
  qed
qed

lemma index_listing:
  assumes "arnm_laws A els ks" "stands_for A els ks idx txs pend" "days_in_order (with_pending txs pend)"
    and "wf_filter f" "days_readable f" and "n \<le> GRDB_PAGE_MAX" "case out of None \<Rightarrow> n = 0 | Some buf \<Rightarrow> unat n \<le> length buf"
  shows "grdb_transactions_listing A (Some idx) (Some f) skip n descending out (Some w) (Some c)
    = (let page = list_page (unat skip) (unat n) descending (map tx_nr (matching f txs))
       in Inr (ARNM_SUCCESS, map_option (\<lambda>buf. page @ drop (length page) buf) out, Some (word_of_nat (length page)),
               Some (word_of_nat (length (matching f txs)))))"
proof -
  obtain r where r: "query_of_filter A idx f = Inr r" using query_readable assms(5) by blast
  have rdy: "gt_ready idx" using assms(2) by (simp add: stands_for_def)
  have n: "\<not> n > GRDB_PAGE_MAX" using assms(6) by simp
  note q = query_exact [OF assms(1-4) r]
  show ?thesis
  proof (cases r)
    case None
    then show ?thesis using q r rdy n assms(7)
      by (cases out) (simp_all add: grdb_transactions_listing_def list_page_def)
  next
    case (Some qq)
    have card: "card (query_set els qq) = length (matching f txs)"
      using q Some distinct_card [OF matching_numbered(2) [OF assms(2)]] by simp
    let ?p = "list_page (unat skip) (unat n) descending (map tx_nr (matching f txs))"
    have nums: "map (\<lambda>o'. gt_base_tx_nr idx + ucast (o' :: u32))
        (map word_of_nat (page_of (query_set els qq) (unat skip) (unat n) descending)) = ?p"
      using numbers_of_page [OF assms(2)] q Some by simp
    have nl: "length (page_of (query_set els qq) (unat skip) (unat n) descending) = length ?p"
      using nums by (metis length_map)
    have l: "length ?p \<le> length (case out of None \<Rightarrow> [] | Some b \<Rightarrow> b)"
      using assms(7) by (cases out) (simp_all add: list_page_def)
    have o: "\<not> (n \<noteq> 0 \<and> out = None)" using assms(7) by auto
    have a: "(if names_no_set qq then (case span_cardinality A qq of (r, matches) \<Rightarrow>
            (r, if r = ARNM_SUCCESS \<and> n \<noteq> 0 then span_page A qq skip n descending else [], matches)) else query_listing A qq skip n descending)
         = (ARNM_SUCCESS, map word_of_nat (page_of (query_set els qq) (unat skip) (unat n) descending), word_of_nat (card (query_set els qq)))"
      using query_answers(2) [OF assms(1)] q Some by simp
    show ?thesis
      using r rdy n l nl o nums [simplified] by (simp add: grdb_transactions_listing_def Some a Let_def card)
  qed
qed

lemma index_newest:
  assumes "arnm_laws A els ks" "stands_for A els ks idx txs pend" "days_in_order (with_pending txs pend)"
    and "wf_filter f" "days_readable f"
  shows "grdb_transactions_newest A (Some idx) (Some f) (Some x)
    = Inr (if matching f txs = [] then (False, Some x) else (True, Some (tx_nr (last (matching f txs)))))"
proof -
  obtain r where r: "query_of_filter A idx f = Inr r" using query_readable assms(5) by blast
  have rdy: "gt_ready idx" using assms(2) by (simp add: stands_for_def)
  note q = query_exact [OF assms(1-4) r]
  show ?thesis
  proof (cases r)
    case None
    then show ?thesis using q r rdy by (simp add: grdb_transactions_newest_def)
  next
    case (Some qq)
    let ?ms = "matching f txs" and ?page = "map word_of_nat (page_of (query_set els qq) 0 1 True) :: u32 list"
    have nums: "map (\<lambda>o'. gt_base_tx_nr idx + ucast (o' :: u32)) ?page = list_page 0 1 True (map tx_nr ?ms)"
      using numbers_of_page [OF assms(2), of f 0 1 True] q Some by simp
    have lp: "list_page 0 1 True (map tx_nr ?ms) = (if ?ms = [] then [] else [tx_nr (last ?ms)])"
      by (cases ?ms rule: rev_cases) (simp_all add: list_page_def)
    have a: "(if names_no_set qq then (ARNM_SUCCESS, span_page A qq 0 1 True) else query_page A qq 0 1 True) = (ARNM_SUCCESS, ?page)"
      using query_answers(3) [OF assms(1), of qq 0 1 True] q Some by simp
    have "grdb_transactions_newest A (Some idx) (Some f) (Some x)
        = (if ?page = [] then Inr (False, Some x) else Inr (True, Some (gt_base_tx_nr idx + ucast (hd ?page))))"
      using r rdy by (simp add: grdb_transactions_newest_def Some a)
    also have "\<dots> = Inr (if ?ms = [] then (False, Some x) else (True, Some (tx_nr (last ?ms))))"
      using nums lp by (cases ?page) (auto split: if_splits)
    finally show ?thesis .
  qed
qed

text \<open>The question the witnesses ask: whose balance.\<close>

definition sample_filter :: grdb_transactions_filter where
  "sample_filter = empty_filter\<lparr>f_public_key := key_b, f_role := GRDB_ADDRESS_ROLE_BALANCE\<rparr>"

lemma sample_filter_facts:
  "wf_filter sample_filter" "days_readable sample_filter" "days_in_order (with_pending [sample_tx] None)"
  "matching sample_filter [sample_tx] = [sample_tx]" "tx_nr sample_tx = 5"
proof -
  show "wf_filter sample_filter" by (simp add: wf_filter_def sample_filter_def empty_filter_def key_b_def zeros_def)
  show "days_readable sample_filter" by (simp add: days_readable_def sample_filter_def empty_filter_def)
  show "days_in_order (with_pending [sample_tx] None)" by (simp add: days_in_order_def with_pending_def)
  have z: "all_zero (zeros 16) 16" 
  proof -
    have "length (zeros 16) = 16" by (simp add: zeros_def)
    then show ?thesis using all_zero_zeros by blast
  qed
  have k: "key_b \<noteq> zeros 32" by (simp add: key_b_def zeros_def)
  show "matching sample_filter [sample_tx] = [sample_tx]"
    using z k by (simp add: matching_def tx_matches_def sample_filter_def empty_filter_def sample_tx_def balance_keys_def
      grdb_transactions_filter_coin_community_def in_days_def)
  show "tx_nr sample_tx = 5" by (simp add: sample_tx_def)
qed

text \<open>C14: Counting answers how many of the transactions in the index fulfil the filter.\<close>

theorem count_exact:
  assumes "arnm_laws A els ks" "stands_for A els ks idx txs pend" "days_in_order (with_pending txs pend)"
    and "wf_filter f" "days_readable f"
  shows "grdb_transactions_count A (Some idx) (Some f) (Some x)
     = Inr (ARNM_SUCCESS, Some (word_of_nat (length (matching f txs))))"
  using assms by (rule index_count)

theorem count_exact_witness:
  "grdb_transactions_count list_arnm (Some sample_index) (Some sample_filter) (Some 0) = Inr (ARNM_SUCCESS, Some 1)"
  using count_exact [OF list_arnm_laws sample_stands sample_filter_facts(3,1,2)] sample_filter_facts(4) by simp

text \<open>C13: A page lists the numbers of the transactions that fulfil the filter, from the oldest or from the
  newest, without those to skip and at most as many as asked for, and how many there are in all.\<close>

theorem listing_exact:
  assumes "arnm_laws A els ks" "stands_for A els ks idx txs pend" "days_in_order (with_pending txs pend)"
    and "wf_filter f" "days_readable f" and "n \<le> GRDB_PAGE_MAX" "unat n \<le> length buf"
  shows "grdb_transactions_listing A (Some idx) (Some f) skip n descending (Some buf) (Some w) (Some c)
    = (let page = list_page (unat skip) (unat n) descending (map tx_nr (matching f txs))
       in Inr (ARNM_SUCCESS, Some (page @ drop (length page) buf), Some (word_of_nat (length page)),
               Some (word_of_nat (length (matching f txs)))))"
  using index_listing [OF assms(1-6), where out = "Some buf"] assms(7) by simp

theorem listing_exact_witness:
  "grdb_transactions_listing list_arnm (Some sample_index) (Some sample_filter) 0 2 True (Some [7, 8]) (Some 0) (Some 0)
     = Inr (ARNM_SUCCESS, Some [5, 8], Some 1, Some 1)"
  using listing_exact [OF list_arnm_laws sample_stands sample_filter_facts(3,1,2), of 2 "[7, 8]" 0 True 0 0]
    sample_filter_facts(4,5) by (simp add: list_page_def)

text \<open>The newest match is the last of the transactions that fulfil the filter; with none the answer is
  no, and the place for it is left alone.\<close>

lemma newest_exact:
  assumes "arnm_laws A els ks" "stands_for A els ks idx txs pend" "days_in_order (with_pending txs pend)"
    and "wf_filter f" "days_readable f"
  shows "grdb_transactions_newest A (Some idx) (Some f) (Some x)
    = Inr (if matching f txs = [] then (False, Some x) else (True, Some (tx_nr (last (matching f txs)))))"
  using assms by (rule index_newest)

end
