(* ===== verification/GRD_Addresses.thy ===== *)
theory GRD_Addresses
  imports GRD_Index
begin

text \<open>
  The register of \<open>blockchain/addresses.c\<close>: for every key the transactions that gave it a type, newest
  first, linked through one table, and the last transaction that moved its balance. The loops over the
  links take fuel, one step more than the table has records; \<open>None\<close> stands for a walk that does not end
  within it, and \<open>register_loops_end\<close> shows that it does not happen.
\<close>

section \<open>The register\<close>

abbreviation ADDRESSES_KEYS_BUCKET_LOG2 :: nat where "ADDRESSES_KEYS_BUCKET_LOG2 \<equiv> 10"
abbreviation ADDRESSES_ENTRIES_BUCKET_LOG2 :: nat where "ADDRESSES_ENTRIES_BUCKET_LOG2 \<equiv> 12"
abbreviation ADDRESSES_CHANGES_BUCKET_LOG2 :: nat where "ADDRESSES_CHANGES_BUCKET_LOG2 \<equiv> 12"
abbreviation ADDRESSES_NO_CHANGE :: u32 where "ADDRESSES_NO_CHANGE \<equiv> UINT32_MAX"

record address_entry =
  last_balance_tx :: u64
  last_change :: u32

record type_change =
  tc_tx_nr :: u64
  tc_previous :: u32
  tc_type :: u8

record 'm grdb_addresses =
  ga_keys :: 'm
  ga_entries :: "address_entry list"
  ga_type_changes :: "type_change list"
  ga_max_tx_nr :: u64
  ga_transaction_count :: u32
  ga_ready :: bool

definition zero_addresses :: "('s, 'm, 'p) arnm_ops \<Rightarrow> 'm grdb_addresses" where
  "zero_addresses A = \<lparr>ga_keys = key_map_none A, ga_entries = [], ga_type_changes = [], ga_max_tx_nr = 0,
     ga_transaction_count = 0, ga_ready = False\<rparr>"

definition new_entry :: address_entry where
  "new_entry = \<lparr>last_balance_tx = 0, last_change = ADDRESSES_NO_CHANGE\<rparr>"

definition entry_for_key :: "('s, 'm, 'p) arnm_ops \<Rightarrow> bytes \<Rightarrow> 'm grdb_addresses \<times> 'p
    \<Rightarrow> arnm_result \<times> nat \<times> 'm grdb_addresses \<times> 'p" where
  "entry_for_key A key s = (case s of (idx, mem) \<Rightarrow>
     case key_map_get_or_insert A (ga_keys idx) key mem of (r, i, m, mem) \<Rightarrow>
     let idx = idx\<lparr>ga_keys := m\<rparr> in
     if r \<noteq> ARNM_SUCCESS then (r, 0, idx, mem)
     else case grow_to A (unat i + 1) new_entry (ga_entries idx, mem) of (r, v, mem) \<Rightarrow>
       (r, unat i, idx\<lparr>ga_entries := v\<rparr>, mem))"

definition entry_of_key :: "('s, 'm, 'p) arnm_ops \<Rightarrow> 'm grdb_addresses option \<Rightarrow> bytes option \<Rightarrow> address_entry option" where
  "entry_of_key A index key = (case (index, key) of
     (Some idx, Some k) \<Rightarrow>
       if \<not> ga_ready idx then None
       else (case key_map_find A (ga_keys idx) k of None \<Rightarrow> None
         | Some i \<Rightarrow> if unat i \<ge> length (ga_entries idx) then None else Some (ga_entries idx ! unat i))
     | _ \<Rightarrow> None)"

text \<open>Whether the newest records of a key, the ones with this number, have one of this type.\<close>

fun type_known :: "type_change list \<Rightarrow> u64 \<Rightarrow> u8 \<Rightarrow> u32 \<Rightarrow> nat \<Rightarrow> bool option" where
  "type_known ch nr ty at 0 = None"
| "type_known ch nr ty at (Suc n) =
     (if at = ADDRESSES_NO_CHANGE then Some False
      else let known = ch ! unat at in
        if tc_tx_nr known \<noteq> nr then Some False
        else if tc_type known = ty then Some True
        else type_known ch nr ty (tc_previous known) n)"

definition note_type :: "('s, 'm, 'p) arnm_ops \<Rightarrow> bytes \<Rightarrow> u64 \<Rightarrow> grdt_address \<Rightarrow> 'm grdb_addresses \<times> 'p
    \<Rightarrow> arnm_result \<times> 'm grdb_addresses \<times> 'p" where
  "note_type A key nr ty s =
     (if grdc_is_empty key SIGN_PUBLIC_KEY_SIZE then (ARNM_SUCCESS, s)
      else if ty > GRDT_ADDRESS_DEFERRED_TRANSFER then (ARNM_ERROR_INVALID_ENUM_TYPE, s)
      else case entry_for_key A key s of (r, i, idx, mem) \<Rightarrow>
        if r \<noteq> ARNM_SUCCESS then (r, idx, mem)
        else let entry = ga_entries idx ! i; ch = ga_type_changes idx in
          if type_known ch nr (ucast ty) (last_change entry) (length ch + 1) = Some True then (ARNM_SUCCESS, idx, mem)
          else case bvec_grow A mem of (r, mem) \<Rightarrow>
            if r \<noteq> ARNM_SUCCESS then (r, idx, mem)
            else let ch = ch @ [\<lparr>tc_tx_nr = nr, tc_previous = last_change entry, tc_type = ucast ty\<rparr>] in
              (ARNM_SUCCESS, idx\<lparr>ga_type_changes := ch,
                 ga_entries := (ga_entries idx)[i := entry\<lparr>last_change := word_of_nat (length ch) - 1\<rparr>]\<rparr>, mem))"

section \<open>Building\<close>

definition grdb_addresses_init :: "('s, 'm, 'p) arnm_ops \<Rightarrow> 'm grdb_addresses option \<Rightarrow> u32 option \<Rightarrow> 'p
    \<Rightarrow> arnm_result \<times> 'm grdb_addresses option \<times> 'p" where
  "grdb_addresses_init A index options mem =
     (if index = None then (ARNM_ERROR_NULL_POINTER, None, mem) else
      let expected = (case options of None \<Rightarrow> 0 | Some e \<Rightarrow> e);
          fail_map = (\<lambda>r keys mem. (r, Some (zero_addresses A), key_map_free A keys mem));
          fail_entries = (\<lambda>r keys mem. fail_map r keys (bvec_free A mem));
          fail_changes = (\<lambda>r keys mem. fail_entries r keys (bvec_free A mem))
      in
      case key_map_init A SIGN_PUBLIC_KEY_SIZE ADDRESSES_KEYS_BUCKET_LOG2 mem of (r, keys, mem) \<Rightarrow>
        if r \<noteq> ARNM_SUCCESS then (r, Some ((zero_addresses A)\<lparr>ga_keys := keys\<rparr>), mem) else
      case bvec_init A ADDRESSES_ENTRIES_BUCKET_LOG2 mem of (r, mem) \<Rightarrow> if r \<noteq> ARNM_SUCCESS then fail_map r keys mem else
      case bvec_init A ADDRESSES_CHANGES_BUCKET_LOG2 mem of (r, mem) \<Rightarrow> if r \<noteq> ARNM_SUCCESS then fail_entries r keys mem else
      case (if expected \<noteq> 0 then
              (case key_map_reserve A keys expected mem of (r, keys, mem) \<Rightarrow>
                 if r = ARNM_SUCCESS
                 then (case bvec_reserve A expected mem of (r, mem) \<Rightarrow> (r, keys, mem))
                 else (r, keys, mem))
            else (ARNM_SUCCESS, keys, mem)) of (r, keys, mem) \<Rightarrow>
        if r \<noteq> ARNM_SUCCESS then fail_changes r keys mem
        else (ARNM_SUCCESS, Some ((zero_addresses A)\<lparr>ga_keys := keys, ga_ready := True\<rparr>), mem))"

definition grdb_addresses_release :: "('s, 'm, 'p) arnm_ops \<Rightarrow> 'm grdb_addresses option \<Rightarrow> 'p \<Rightarrow> 'm grdb_addresses option \<times> 'p" where
  "grdb_addresses_release A index mem =
     (case index of None \<Rightarrow> (None, mem) | Some idx \<Rightarrow>
      if \<not> ga_ready idx then (index, mem)
      else (Some (zero_addresses A), key_map_free A (ga_keys idx) (bvec_free A (bvec_free A mem))))"

definition grdb_addresses_reset :: "('s, 'm, 'p) arnm_ops \<Rightarrow> 'm grdb_addresses option \<Rightarrow> 'm grdb_addresses option" where
  "grdb_addresses_reset A index =
     (case index of None \<Rightarrow> None | Some idx \<Rightarrow>
      if \<not> ga_ready idx then index
      else Some (idx\<lparr>ga_keys := key_map_clear A (ga_keys idx), ga_entries := [], ga_type_changes := [],
                     ga_max_tx_nr := 0, ga_transaction_count := 0\<rparr>))"

text \<open>The types a transaction gives, in the order it gives them.\<close>

definition type_marks :: "grdr_complete_transaction \<Rightarrow> (bytes \<times> grdt_address) list" where
  "type_marks tx =
     (if transaction_type tx = GRDT_TRANSACTION_COMMUNITY_ROOT
      then [(gmw_public_key (community_root tx), GRDT_ADDRESS_COMMUNITY_GMW),
            (auf_public_key (community_root tx), GRDT_ADDRESS_COMMUNITY_AUF)]
      else if transaction_type tx = GRDT_TRANSACTION_REGISTER_ADDRESS
      then [(user_public_key (register_address tx), address_type tx),
            (account_public_key (register_address tx), address_type tx)]
      else if transaction_type tx = GRDT_TRANSACTION_DEFERRED_TRANSFER
      then [(recipient_pubkey (transfer tx), GRDT_ADDRESS_DEFERRED_TRANSFER)]
      else [])"

definition note_balance :: "('s, 'm, 'p) arnm_ops \<Rightarrow> u64 \<Rightarrow> grdw_account_balance \<Rightarrow> 'm grdb_addresses \<times> 'p
    \<Rightarrow> arnm_result \<times> 'm grdb_addresses \<times> 'p" where
  "note_balance A nr b s =
     (if grdc_is_empty (ab_pubkey b) SIGN_PUBLIC_KEY_SIZE then (ARNM_SUCCESS, s)
      else case entry_for_key A (ab_pubkey b) s of (r, i, idx, mem) \<Rightarrow>
        if r \<noteq> ARNM_SUCCESS then (r, idx, mem)
        else (ARNM_SUCCESS, idx\<lparr>ga_entries := (ga_entries idx)[i := (ga_entries idx ! i)\<lparr>last_balance_tx := nr\<rparr>]\<rparr>, mem))"

definition grdb_addresses_add :: "('s, 'm, 'p) arnm_ops \<Rightarrow> 'm grdb_addresses option
    \<Rightarrow> grdr_complete_transaction option \<Rightarrow> 'p \<Rightarrow> arnm_result \<times> 'm grdb_addresses option \<times> 'p" where
  "grdb_addresses_add A index tx mem =
     (case (index, tx) of
        (Some idx, Some tx) \<Rightarrow>
          if \<not> ga_ready idx then (ARNM_ERROR_INVALID_STATE, index, mem)
          else if ga_transaction_count idx \<noteq> 0 \<and> tx_nr tx \<le> ga_max_tx_nr idx
          then (ARNM_ERROR_INVALID_PARAM, index, mem)
          else if transaction_type tx \<ge> GRDT_TRANSACTION_COUNT
          then (ARNM_ERROR_INVALID_ENUM_TYPE, index, mem)
          else (case
            bind_ok (for_each (\<lambda>(key, ty). note_type A key (tx_nr tx) ty) (type_marks tx) (idx, mem)) (\<lambda>s.
            bind_ok (for_each (note_balance A (tx_nr tx)) (account_balances tx) s) (\<lambda>(idx, mem).
            (ARNM_SUCCESS, idx\<lparr>ga_max_tx_nr := tx_nr tx,
                               ga_transaction_count := ga_transaction_count idx + 1\<rparr>, mem)))
            of (r, idx, mem) \<Rightarrow> (r, Some idx, mem))
      | _ \<Rightarrow> (ARNM_ERROR_NULL_POINTER, index, mem))"

section \<open>Asking\<close>

definition grdb_addresses_type :: "('s, 'm, 'p) arnm_ops \<Rightarrow> 'm grdb_addresses option \<Rightarrow> bytes option \<Rightarrow> grdt_address" where
  "grdb_addresses_type A index key = (case (index, entry_of_key A index key) of
     (Some idx, Some entry) \<Rightarrow> if last_change entry = ADDRESSES_NO_CHANGE then GRDT_ADDRESS_NONE
       else ucast (tc_type (ga_type_changes idx ! unat (last_change entry)))
     | _ \<Rightarrow> GRDT_ADDRESS_NONE)"

fun type_at_loop :: "type_change list \<Rightarrow> u64 \<Rightarrow> u32 \<Rightarrow> nat \<Rightarrow> u8 option option" where
  "type_at_loop ch at_nr position 0 = None"
| "type_at_loop ch at_nr position (Suc n) =
     (if position = ADDRESSES_NO_CHANGE then Some None
      else let change = ch ! unat position in
        if tc_tx_nr change \<le> at_nr then Some (Some (tc_type change))
        else type_at_loop ch at_nr (tc_previous change) n)"

text \<open>\<open>None\<close>: the walk does not end. Otherwise the answer and what \<open>*out\<close> holds.\<close>

definition grdb_addresses_type_at :: "('s, 'm, 'p) arnm_ops \<Rightarrow> 'm grdb_addresses option \<Rightarrow> bytes option \<Rightarrow> u64
    \<Rightarrow> grdt_address option \<Rightarrow> (bool \<times> grdt_address option) option" where
  "grdb_addresses_type_at A index key at_nr out = (case (index, entry_of_key A index key, out) of
     (Some idx, Some entry, Some _) \<Rightarrow>
       map_option (\<lambda>r. case r of None \<Rightarrow> (False, out) | Some t \<Rightarrow> (True, Some (ucast t)))
         (type_at_loop (ga_type_changes idx) at_nr (last_change entry) (length (ga_type_changes idx) + 1))
     | _ \<Rightarrow> Some (False, out))"

fun type_changes_loop :: "type_change list \<Rightarrow> u32 \<Rightarrow> nat \<Rightarrow> nat \<Rightarrow> u64 list option" where
  "type_changes_loop ch position room 0 = None"
| "type_changes_loop ch position room (Suc n) =
     (if position = ADDRESSES_NO_CHANGE \<or> room = 0 then Some []
      else let change = ch ! unat position in
        map_option ((#) (tc_tx_nr change)) (type_changes_loop ch (tc_previous change) (room - 1) n))"

definition grdb_addresses_type_changes :: "('s, 'm, 'p) arnm_ops \<Rightarrow> 'm grdb_addresses option \<Rightarrow> bytes option
    \<Rightarrow> u64 list option \<Rightarrow> u32 \<Rightarrow> (c_fault + u32 \<times> u64 list option) option" where
  "grdb_addresses_type_changes A index key out size' = (case (index, entry_of_key A index key) of
     (Some idx, Some entry) \<Rightarrow>
       if size' \<noteq> 0 \<and> out = None then Some (Inr (0, out))
       else map_option (\<lambda>found.
              let buf = (case out of None \<Rightarrow> [] | Some b \<Rightarrow> b) in
              if length found > length buf then Inl IndexOutOfBounds
              else Inr (word_of_nat (length found), map_option (\<lambda>b. found @ drop (length found) b) out))
            (type_changes_loop (ga_type_changes idx) (last_change entry) (unat size') (length (ga_type_changes idx) + 1))
     | _ \<Rightarrow> Some (Inr (0, out)))"

definition grdb_addresses_last_balance :: "('s, 'm, 'p) arnm_ops \<Rightarrow> 'm grdb_addresses option \<Rightarrow> bytes option
    \<Rightarrow> u64 option \<Rightarrow> bool \<times> u64 option" where
  "grdb_addresses_last_balance A index key out = (case (entry_of_key A index key, out) of
     (Some entry, Some _) \<Rightarrow> if last_balance_tx entry = 0 then (False, out) else (True, Some (last_balance_tx entry))
     | _ \<Rightarrow> (False, out))"

definition grdb_addresses_knows :: "('s, 'm, 'p) arnm_ops \<Rightarrow> 'm grdb_addresses option \<Rightarrow> bytes option \<Rightarrow> bool" where
  "grdb_addresses_knows A index key = (entry_of_key A index key \<noteq> None)"

definition grdb_addresses_size :: "('s, 'm, 'p) arnm_ops \<Rightarrow> 'm grdb_addresses option \<Rightarrow> u32" where
  "grdb_addresses_size A index =
     (case index of None \<Rightarrow> 0 | Some idx \<Rightarrow> if ga_ready idx then key_map_size A (ga_keys idx) else 0)"

section \<open>The links\<close>

fun walk :: "type_change list \<Rightarrow> u32 \<Rightarrow> nat \<Rightarrow> type_change list" where
  "walk ch at 0 = []"
| "walk ch at (Suc n) = (if at = ADDRESSES_NO_CHANGE then [] else ch ! unat at # walk ch (tc_previous (ch ! unat at)) n)"

definition link_ok :: "nat \<Rightarrow> u32 \<Rightarrow> bool" where
  "link_ok n at = (at = ADDRESSES_NO_CHANGE \<or> unat at < n)"

definition links_ok :: "type_change list \<Rightarrow> bool" where
  "links_ok ch = (\<forall>p < length ch. link_ok p (tc_previous (ch ! p)))"

lemma link_ok_mono: "link_ok n at \<Longrightarrow> n \<le> m \<Longrightarrow> link_ok m at"
  by (auto simp: link_ok_def)

lemma link_next:
  assumes "links_ok ch" "link_ok n at" "at \<noteq> ADDRESSES_NO_CHANGE" "n \<le> length ch" "n = Suc k"
  shows "link_ok k (tc_previous (ch ! unat at))"
proof -
  have at: "unat at < n" using assms(2,3) by (simp add: link_ok_def)
  then have "link_ok (unat at) (tc_previous (ch ! unat at))" using assms(1,4) by (simp add: links_ok_def)
  then show ?thesis using at assms(5) by (auto intro: link_ok_mono)
qed

lemma walk_fuel:
  assumes "links_ok ch" "link_ok n at" "n \<le> length ch" "n < m"
  shows "walk ch at m = walk ch at (Suc n)"
  using assms(2-4)
proof (induction n arbitrary: at m)
  case 0
  then have "at = ADDRESSES_NO_CHANGE" by (simp add: link_ok_def)
  then show ?case using 0 by (cases m) simp_all
next
  case (Suc n)
  obtain k where m: "m = Suc k" using Suc.prems by (cases m) auto
  show ?case
  proof (cases "at = ADDRESSES_NO_CHANGE")
    case False
    have "link_ok n (tc_previous (ch ! unat at))" by (rule link_next [OF assms(1) Suc.prems(1) False Suc.prems(2) refl])
    then show ?thesis using Suc.IH [of "tc_previous (ch ! unat at)" k] Suc.prems m by simp
  qed (simp add: m)
qed

lemma walk_append:
  assumes "links_ok ch" "link_ok n at" "n \<le> length ch"
  shows "walk (ch @ xs) at m = walk ch at m"
  using assms(2,3)
proof (induction m arbitrary: at n)
  case (Suc m)
  show ?case
  proof (cases "at = ADDRESSES_NO_CHANGE")
    case False
    then have at: "unat at < n" using Suc.prems(1) by (simp add: link_ok_def)
    then obtain k where n: "n = Suc k" by (cases n) auto
    have "link_ok k (tc_previous (ch ! unat at))" by (rule link_next [OF assms(1) Suc.prems(1) False Suc.prems(2) n])
    then show ?thesis using Suc.IH [of k "tc_previous (ch ! unat at)"] Suc.prems n at False by (simp add: nth_append)
  qed simp
qed simp

text \<open>The loops read off the walk, and end.\<close>

lemma type_known_walk:
  assumes "links_ok ch" "link_ok n at" "n \<le> length ch"
  shows "type_known ch nr ty at (Suc n) = Some (ty \<in> tc_type ` set (takeWhile (\<lambda>c. tc_tx_nr c = nr) (walk ch at (Suc n))))"
  using assms(2,3)
proof (induction n arbitrary: at)
  case 0
  then show ?case by (simp add: link_ok_def)
next
  case (Suc n)
  show ?case
  proof (cases "at = ADDRESSES_NO_CHANGE")
    case False
    have "link_ok n (tc_previous (ch ! unat at))" by (rule link_next [OF assms(1) Suc.prems(1) False Suc.prems(2) refl])
    then show ?thesis using Suc.IH [of "tc_previous (ch ! unat at)"] Suc.prems False
      unfolding type_known.simps(2) [of _ _ _ _ "Suc n"] walk.simps(2) [of _ _ "Suc n"] by (auto simp: Let_def)
  qed simp
qed

lemma type_at_walk:
  assumes "links_ok ch" "link_ok n at" "n \<le> length ch"
  shows "type_at_loop ch x at (Suc n) = Some (map_option tc_type (find (\<lambda>c. tc_tx_nr c \<le> x) (walk ch at (Suc n))))"
  using assms(2,3)
proof (induction n arbitrary: at)
  case 0
  then show ?case by (simp add: link_ok_def)
next
  case (Suc n)
  show ?case
  proof (cases "at = ADDRESSES_NO_CHANGE")
    case False
    have "link_ok n (tc_previous (ch ! unat at))" by (rule link_next [OF assms(1) Suc.prems(1) False Suc.prems(2) refl])
    then show ?thesis using Suc.IH [of "tc_previous (ch ! unat at)"] Suc.prems False
      unfolding type_at_loop.simps(2) [of _ _ _ "Suc n"] walk.simps(2) [of _ _ "Suc n"] by (simp add: Let_def)
  qed simp
qed

lemma type_changes_walk:
  assumes "links_ok ch" "link_ok n at" "n \<le> length ch"
  shows "type_changes_loop ch at room (Suc n) = Some (take room (map tc_tx_nr (walk ch at (Suc n))))"
  using assms(2,3)
proof (induction n arbitrary: at room)
  case 0
  then show ?case by (simp add: link_ok_def)
next
  case (Suc n)
  show ?case
  proof (cases "at = ADDRESSES_NO_CHANGE \<or> room = 0")
    case False
    then obtain room' where r: "room = Suc room'" by (cases room) auto
    have "link_ok n (tc_previous (ch ! unat at))" using False by (intro link_next [OF assms(1) Suc.prems(1) _ Suc.prems(2) refl]) simp
    then show ?thesis using Suc.IH [of "tc_previous (ch ! unat at)" room'] Suc.prems False r
      unfolding type_changes_loop.simps(2) [of _ _ _ "Suc n"] walk.simps(2) [of _ _ "Suc n"] by (simp add: Let_def)
  qed auto
qed

section \<open>What a register holds\<close>

definition entry_look :: "('s, 'm, 'p) arnm_ops \<Rightarrow> 'm grdb_addresses \<Rightarrow> bytes \<Rightarrow> address_entry" where
  "entry_look A idx = look A new_entry (ga_keys idx) (ga_entries idx)"

text \<open>The types a key was given, newest first, and the last number that moved its balance.\<close>

definition type_history :: "('s, 'm, 'p) arnm_ops \<Rightarrow> 'm grdb_addresses \<Rightarrow> bytes \<Rightarrow> (u64 \<times> u8) list" where
  "type_history A idx k = map (\<lambda>c. (tc_tx_nr c, tc_type c))
     (walk (ga_type_changes idx) (last_change (entry_look A idx k)) (Suc (length (ga_type_changes idx))))"

definition balance_nr :: "('s, 'm, 'p) arnm_ops \<Rightarrow> 'm grdb_addresses \<Rightarrow> bytes \<Rightarrow> u64" where
  "balance_nr A idx k = last_balance_tx (entry_look A idx k)"

definition wf_register :: "('m \<Rightarrow> bytes list) \<Rightarrow> 'm grdb_addresses \<Rightarrow> bool" where
  "wf_register ks idx \<longleftrightarrow> length (ga_entries idx) \<le> length (ks (ga_keys idx)) \<and> links_ok (ga_type_changes idx)
     \<and> (\<forall>e \<in> set (ga_entries idx). link_ok (length (ga_type_changes idx)) (last_change e))"

lemma look_in:
  assumes "P d" "\<forall>e \<in> set v. P e"
  shows "P (look A d m v k)"
  using assms by (auto simp: look_def split: option.splits)

lemma entry_link:
  assumes "wf_register ks idx"
  shows "link_ok (length (ga_type_changes idx)) (last_change (entry_look A idx k))"
proof -
  have "link_ok (length (ga_type_changes idx)) (last_change new_entry)" by (simp add: new_entry_def link_ok_def)
  then show ?thesis unfolding entry_look_def using assms
    by (intro look_in [where P = "\<lambda>e. link_ok (length (ga_type_changes idx)) (last_change e)"]) (simp_all add: wf_register_def)
qed

text \<open>Noting a type for a key, on the histories.\<close>

definition note_history :: "u64 \<Rightarrow> bytes \<times> grdt_address \<Rightarrow> (bytes \<Rightarrow> (u64 \<times> u8) list) \<Rightarrow> bytes \<Rightarrow> (u64 \<times> u8) list" where
  "note_history nr m h = (if fst m = zeros SIGN_PUBLIC_KEY_SIZE \<or> (nr, ucast (snd m)) \<in> set (takeWhile (\<lambda>c. fst c = nr) (h (fst m)))
     then h else h(fst m := (nr, ucast (snd m)) # h (fst m)))"

definition same_register :: "'m grdb_addresses \<Rightarrow> 'm grdb_addresses \<Rightarrow> bool" where
  "same_register i j \<longleftrightarrow> ga_max_tx_nr i = ga_max_tx_nr j \<and> ga_transaction_count i = ga_transaction_count j \<and> ga_ready i = ga_ready j"

lemma entry_for_key_opens:
  assumes L: "arnm_laws A els ks" and w: "wf_register ks idx"
    and s: "entry_for_key A k (idx, mem) = (r, i, idx', mem')"
  shows "wf_register ks idx' \<and> entry_look A idx' = entry_look A idx \<and> same_register idx' idx
           \<and> ga_type_changes idx' = ga_type_changes idx"
    and "r = ARNM_SUCCESS \<Longrightarrow> \<exists>j. key_map_find A (ga_keys idx') k = Some j \<and> i = unat j \<and> i < length (ga_entries idx')
           \<and> ga_entries idx' ! i = entry_look A idx' k"
proof -
  obtain r1 j m1 p1 where g: "key_map_get_or_insert A (ga_keys idx) k mem = (r1, j, m1, p1)" by (metis prod_cases4)
  note ki = get_or_insert_keys [OF L g]
  have wl: "length (ga_entries idx) \<le> length (ks (ga_keys idx))" using w by (simp add: wf_register_def)
  have h: "look A new_entry m1 (ga_entries idx @ replicate n new_entry) = look A new_entry (ga_keys idx) (ga_entries idx)" for n
    using look_grown [OF laws_map [OF L] ki(1) wl] by (rule ext)
  have n: "(wf_register ks idx' \<and> entry_look A idx' = entry_look A idx \<and> same_register idx' idx \<and> ga_type_changes idx' = ga_type_changes idx)
      \<and> (r = ARNM_SUCCESS \<longrightarrow> i = unat j \<and> i < length (ga_entries idx') \<and> ga_keys idx' = m1 \<and> r1 = ARNM_SUCCESS)"
  proof (cases "r1 = ARNM_SUCCESS")
    case False
    then have e: "r = r1" "idx' = idx\<lparr>ga_keys := m1\<rparr>" using s g by (auto simp: entry_for_key_def)
    show ?thesis using w e ki(1) h [of 0] False by (auto simp: wf_register_def entry_look_def same_register_def)
  next
    case True
    obtain r2 v p2 where gr: "grow_to A (unat j + 1) new_entry (ga_entries idx, p1) = (r2, v, p2)" by (metis prod_cases3)
    then have e: "r = r2" "i = unat j" "idx' = idx\<lparr>ga_keys := m1, ga_entries := v\<rparr>"
      using s g True by (auto simp: entry_for_key_def)
    from grow_to_grown [OF gr] obtain n where v: "v = ga_entries idx @ replicate n new_entry"
      "length v \<le> max (unat j + 1) (length (ga_entries idx))" "r2 = ARNM_SUCCESS \<longrightarrow> unat j + 1 \<le> length v" by blast
    have "length v \<le> length (ks m1)" using v(2) ki wl True by auto
    moreover have "\<forall>e \<in> set v. link_ok (length (ga_type_changes idx)) (last_change e)"
      using w by (auto simp: v(1) wf_register_def new_entry_def link_ok_def)
    ultimately show ?thesis using w e v(1,3) h True by (auto simp: wf_register_def entry_look_def same_register_def)
  qed
  then show "wf_register ks idx' \<and> entry_look A idx' = entry_look A idx \<and> same_register idx' idx
           \<and> ga_type_changes idx' = ga_type_changes idx" by blast
  show "\<exists>j. key_map_find A (ga_keys idx') k = Some j \<and> i = unat j \<and> i < length (ga_entries idx')
          \<and> ga_entries idx' ! i = entry_look A idx' k" if "r = ARNM_SUCCESS"
    using n that ki(2) by (auto simp: entry_look_def look_def)
qed

lemma entry_update:
  assumes L: "arnm_laws A els ks" and f: "key_map_find A (ga_keys idx) k = Some j" and l: "unat j < length (ga_entries idx)"
  shows "entry_look A (idx\<lparr>ga_entries := (ga_entries idx)[unat j := x]\<rparr>) k' = (if k' = k then x else entry_look A idx k')"
  using look_update [OF laws_map [OF L] f l] by (simp add: entry_look_def)

lemma entry_look_table [simp]: "entry_look A (idx\<lparr>ga_type_changes := ch\<rparr>) = entry_look A idx"
  by (simp add: entry_look_def)

definition register_same :: "('s, 'm, 'p) arnm_ops \<Rightarrow> ('m \<Rightarrow> bytes list) \<Rightarrow> 'm grdb_addresses \<Rightarrow> 'm grdb_addresses \<Rightarrow> bool" where
  "register_same A ks idx' idx \<longleftrightarrow> wf_register ks idx' \<and> same_register idx' idx
     \<and> length (ga_type_changes idx') \<le> Suc (length (ga_type_changes idx))"

lemma known_pair:
  "(nr, t) \<in> set (takeWhile (\<lambda>c. fst c = nr) (map (\<lambda>c. (tc_tx_nr c, tc_type c)) xs))
     \<longleftrightarrow> t \<in> tc_type ` set (takeWhile (\<lambda>c. tc_tx_nr c = nr) xs)"
  by (induction xs) auto

lemma note_type_refines:
  assumes L: "arnm_laws A els ks" and w: "wf_register ks idx" and k: "length k = SIGN_PUBLIC_KEY_SIZE"
    and room: "length (ga_type_changes idx) < 4294967295"
    and s: "note_type A k nr ty (idx, mem) = (r, idx', mem')"
  shows "register_same A ks idx' idx \<and> balance_nr A idx' = balance_nr A idx
    \<and> type_history A idx' = (if r = ARNM_SUCCESS then note_history nr (k, ty) (type_history A idx) else type_history A idx)"
proof (cases "k = zeros SIGN_PUBLIC_KEY_SIZE \<or> ty > GRDT_ADDRESS_DEFERRED_TRANSFER")
  case True
  then have "idx' = idx" "r = ARNM_SUCCESS \<longrightarrow> k = zeros SIGN_PUBLIC_KEY_SIZE"
    using s k by (auto simp: note_type_def grdc_is_empty_key split: if_splits)
  then show ?thesis using w by (auto simp: note_history_def register_same_def same_register_def)
next
  case F: False
  obtain r1 i i1 m1 where e: "entry_for_key A k (idx, mem) = (r1, i, i1, m1)" by (metis prod_cases4)
  note o = entry_for_key_opens [OF L w e]
  have same: "register_same A ks i1 idx" "balance_nr A i1 = balance_nr A idx" "type_history A i1 = type_history A idx"
    using o(1) by (simp_all add: register_same_def balance_nr_def type_history_def fun_eq_iff)
  have s': "note_type A k nr ty (idx, mem) = (case (r1, i, i1, m1) of (r, i, idx, mem) \<Rightarrow>
        if r \<noteq> ARNM_SUCCESS then (r, idx, mem)
        else let entry = ga_entries idx ! i; ch = ga_type_changes idx in
          if type_known ch nr (ucast ty) (last_change entry) (length ch + 1) = Some True then (ARNM_SUCCESS, idx, mem)
          else case bvec_grow A mem of (r, mem) \<Rightarrow>
            if r \<noteq> ARNM_SUCCESS then (r, idx, mem)
            else let ch = ch @ [\<lparr>tc_tx_nr = nr, tc_previous = last_change entry, tc_type = ucast ty\<rparr>] in
              (ARNM_SUCCESS, idx\<lparr>ga_type_changes := ch,
                 ga_entries := (ga_entries idx)[i := entry\<lparr>last_change := word_of_nat (length ch) - 1\<rparr>]\<rparr>, mem))"
    using F k e by (simp add: note_type_def grdc_is_empty_key)
  show ?thesis
  proof (cases "r1 = ARNM_SUCCESS")
    case False
    then have "r = r1" "idx' = i1" using s s' by simp_all
    then show ?thesis using same False by simp
  next
    case True
    obtain j where j: "key_map_find A (ga_keys i1) k = Some j" "i = unat j" "unat j < length (ga_entries i1)"
      "ga_entries i1 ! unat j = entry_look A i1 k" using o(2) [OF True] by blast
    let ?ch = "ga_type_changes i1" and ?at = "last_change (entry_look A i1 k)"
    have w1: "wf_register ks i1" and ch: "?ch = ga_type_changes idx" using o(1) by auto
    have lk: "links_ok ?ch" and lat: "link_ok (length ?ch) ?at" using w1 entry_link [OF w1] by (auto simp: wf_register_def)
    have tk: "type_known ?ch nr (ucast ty) ?at (length ?ch + 1)
        = Some ((nr, ucast ty) \<in> set (takeWhile (\<lambda>c. fst c = nr) (type_history A i1 k)))"
      unfolding type_history_def known_pair using type_known_walk [OF lk lat order_refl]
      by (simp only: Suc_eq_plus1 [symmetric])
    show ?thesis
    proof (cases "(nr, ucast ty) \<in> set (takeWhile (\<lambda>c. fst c = nr) (type_history A i1 k))")
      case K: True
      then have "r = ARNM_SUCCESS" "idx' = i1" using s s' True tk j by (simp_all del: type_known.simps)
      then show ?thesis using same K by (simp add: note_history_def)
    next
      case K: False
      obtain r2 m2 where gr: "bvec_grow A m1 = (r2, m2)" by fastforce
      show ?thesis
      proof (cases "r2 = ARNM_SUCCESS")
        case False
        then have "r = r2" "idx' = i1" using s s' True tk K j gr by (simp_all del: type_known.simps)
        then show ?thesis using same False by simp
      next
        case G: True
        let ?c = "\<lparr>tc_tx_nr = nr, tc_previous = ?at, tc_type = ucast ty\<rparr>"
        let ?n = "word_of_nat (length ?ch) :: u32"
        let ?i2 = "(i1\<lparr>ga_type_changes := ?ch @ [?c]\<rparr>)\<lparr>ga_entries := (ga_entries i1)[unat j := (entry_look A i1 k)\<lparr>last_change := ?n\<rparr>]\<rparr>"
        have r: "r = ARNM_SUCCESS" and i2: "idx' = ?i2" using s s' True tk K j gr G by (simp_all add: Let_def del: type_known.simps)
        have un: "unat ?n = length ?ch" using room ch by (simp add: unsigned_of_nat take_bit_nat_eq_self)
        have nn: "?n \<noteq> ADDRESSES_NO_CHANGE"
        proof
          assume "?n = ADDRESSES_NO_CHANGE"
          then have "unat ?n = unat ADDRESSES_NO_CHANGE" by (rule arg_cong)
          then show False using un room ch by simp
        qed
        have lk2: "links_ok (?ch @ [?c])" using lk lat by (auto simp: links_ok_def nth_append less_Suc_eq)
        have el: "entry_look A ?i2 k' = (if k' = k then (entry_look A i1 k)\<lparr>last_change := ?n\<rparr> else entry_look A i1 k')" for k'
          using entry_update [OF L, of "i1\<lparr>ga_type_changes := ?ch @ [?c]\<rparr>"] j by simp
        have w2: "wf_register ks ?i2"
        proof -
          have "\<forall>e \<in> set (ga_entries ?i2). link_ok (length (?ch @ [?c])) (last_change e)"
            using w1 un j(3) by (auto simp: wf_register_def link_ok_def dest!: set_update_subset_insert [THEN subsetD])
          then show ?thesis using w1 lk2 by (simp add: wf_register_def)
        qed
        have hk: "type_history A ?i2 k' = (if k' = k then (nr, ucast ty) # type_history A i1 k else type_history A i1 k')" for k'
        proof (cases "k' = k")
          case True
          have "walk (?ch @ [?c]) ?n (Suc (Suc (length ?ch))) = ?c # walk (?ch @ [?c]) ?at (Suc (length ?ch))"
            using nn un by simp
          then show ?thesis using True walk_append [OF lk lat order_refl, of "[?c]" "Suc (length ?ch)"]
            by (simp add: type_history_def el del: walk.simps)
        next
          case False
          let ?a = "last_change (entry_look A i1 k')"
          have la: "link_ok (length ?ch) ?a" by (rule entry_link [OF w1])
          have "walk (?ch @ [?c]) ?a (Suc (Suc (length ?ch))) = walk ?ch ?a (Suc (length ?ch))"
            using walk_append [OF lk la order_refl, of "[?c]"] walk_fuel [OF lk la order_refl, of "Suc (Suc (length ?ch))"]
            by (simp only: lessI less_SucI)
          then show ?thesis using False by (simp add: type_history_def el del: walk.simps)
        qed
        have b: "balance_nr A ?i2 = balance_nr A idx" using same(2) by (auto simp: balance_nr_def el fun_eq_iff)
        have "type_history A ?i2 = note_history nr (k, ty) (type_history A idx)"
          using hk K F same(3) by (auto simp: note_history_def fun_eq_iff)
        then show ?thesis using r i2 b w2 same(1) ch by (simp add: register_same_def same_register_def)
      qed
    qed
  qed
qed

lemma note_balance_refines:
  assumes L: "arnm_laws A els ks" and w: "wf_register ks idx" and k: "length (ab_pubkey b) = SIGN_PUBLIC_KEY_SIZE"
    and s: "note_balance A nr b (idx, mem) = (r, idx', mem')"
  shows "register_same A ks idx' idx \<and> type_history A idx' = type_history A idx
    \<and> balance_nr A idx' = (if r = ARNM_SUCCESS \<and> ab_pubkey b \<noteq> zeros SIGN_PUBLIC_KEY_SIZE
        then (balance_nr A idx)(ab_pubkey b := nr) else balance_nr A idx)"
proof (cases "ab_pubkey b = zeros SIGN_PUBLIC_KEY_SIZE")
  case True
  then have "idx' = idx" using s k by (simp add: note_balance_def grdc_is_empty_key)
  then show ?thesis using True w by (simp add: register_same_def same_register_def)
next
  case F: False
  obtain r1 i i1 m1 where e: "entry_for_key A (ab_pubkey b) (idx, mem) = (r1, i, i1, m1)" by (metis prod_cases4)
  note o = entry_for_key_opens [OF L w e]
  have same: "register_same A ks i1 idx" "balance_nr A i1 = balance_nr A idx" "type_history A i1 = type_history A idx"
    using o(1) by (simp_all add: register_same_def balance_nr_def type_history_def fun_eq_iff)
  show ?thesis
  proof (cases "r1 = ARNM_SUCCESS")
    case False
    then have "r = r1" "idx' = i1" using s k e F by (simp_all add: note_balance_def grdc_is_empty_key)
    then show ?thesis using same False by simp
  next
    case True
    obtain j where j: "key_map_find A (ga_keys i1) (ab_pubkey b) = Some j" "i = unat j" "unat j < length (ga_entries i1)"
      "ga_entries i1 ! unat j = entry_look A i1 (ab_pubkey b)" using o(2) [OF True] by blast
    let ?i2 = "i1\<lparr>ga_entries := (ga_entries i1)[unat j := (entry_look A i1 (ab_pubkey b))\<lparr>last_balance_tx := nr\<rparr>]\<rparr>"
    have r: "r = ARNM_SUCCESS" "idx' = ?i2" using s k e F True j by (simp_all add: note_balance_def grdc_is_empty_key)
    note el = entry_update [OF L j(1,3)]
    have w1: "wf_register ks i1" using o(1) by blast
    have "link_ok (length (ga_type_changes i1)) (last_change (entry_look A i1 (ab_pubkey b)))" by (rule entry_link [OF w1])
    then have w2: "wf_register ks ?i2" using w1
      by (auto simp: wf_register_def dest!: set_update_subset_insert [THEN subsetD])
    have "type_history A ?i2 = type_history A i1" by (auto simp: type_history_def el fun_eq_iff)
    moreover have "balance_nr A ?i2 = (balance_nr A i1)(ab_pubkey b := nr)" by (auto simp: balance_nr_def el fun_eq_iff)
    ultimately show ?thesis using r same w2 F by (simp add: register_same_def same_register_def)
  qed
qed

section \<open>What transactions leave behind\<close>

definition note_types :: "grdr_complete_transaction \<Rightarrow> (bytes \<Rightarrow> (u64 \<times> u8) list) \<Rightarrow> bytes \<Rightarrow> (u64 \<times> u8) list" where
  "note_types tx = fold (note_history (tx_nr tx)) (type_marks tx)"

definition moved :: "grdr_complete_transaction \<Rightarrow> bytes \<Rightarrow> bool" where
  "moved tx k \<longleftrightarrow> k \<noteq> zeros SIGN_PUBLIC_KEY_SIZE \<and> k \<in> ab_pubkey ` set (account_balances tx)"

definition types_after :: "grdr_complete_transaction list \<Rightarrow> bytes \<Rightarrow> (u64 \<times> u8) list" where
  "types_after txs = fold note_types txs (\<lambda>_. [])"

definition balance_after :: "grdr_complete_transaction list \<Rightarrow> bytes \<Rightarrow> u64" where
  "balance_after txs k = (case filter (\<lambda>tx. moved tx k) (rev txs) of [] \<Rightarrow> 0 | tx # _ \<Rightarrow> tx_nr tx)"

lemma types_after_snoc: "types_after (txs @ [tx]) = note_types tx (types_after txs)"
  by (simp add: types_after_def)

lemma balance_after_snoc: "balance_after (txs @ [tx]) k = (if moved tx k then tx_nr tx else balance_after txs k)"
  by (simp add: balance_after_def)

text \<open>What is noted once is not noted again.\<close>

definition noted :: "u64 \<Rightarrow> (bytes \<Rightarrow> (u64 \<times> u8) list) \<Rightarrow> bytes \<times> grdt_address \<Rightarrow> bool" where
  "noted nr h m \<longleftrightarrow> fst m = zeros SIGN_PUBLIC_KEY_SIZE \<or> (nr, ucast (snd m)) \<in> set (takeWhile (\<lambda>c. fst c = nr) (h (fst m)))"

lemma note_history_noted: "noted nr (note_history nr m h) m"
  by (auto simp: noted_def note_history_def)

lemma noted_persists: "noted nr h m \<Longrightarrow> noted nr (note_history nr m' h) m"
  by (auto simp: noted_def note_history_def)

lemma noted_skips: "noted nr h m \<Longrightarrow> note_history nr m h = h"
  by (auto simp: noted_def note_history_def)

lemma fold_noted_persists: "noted nr h m \<Longrightarrow> noted nr (fold (note_history nr) ms h) m"
  by (induction ms arbitrary: h) (simp_all add: noted_persists)

lemma fold_noted: "m \<in> set ms \<Longrightarrow> noted nr (fold (note_history nr) ms h) m"
  by (induction ms arbitrary: h) (auto simp: fold_noted_persists note_history_noted)

lemma fold_skips: "\<forall>m \<in> set ms. noted nr h m \<Longrightarrow> fold (note_history nr) ms h = h"
  by (induction ms) (simp_all add: noted_skips)

lemma fold_note_again:
  "fold (note_history nr) (take i ms) (fold (note_history nr) (take j ms) h) = fold (note_history nr) (take (max i j) ms) h"
proof -
  have n: "fold (note_history nr) (take a ms) (fold (note_history nr) (take b ms) h) = fold (note_history nr) (take b ms) h"
    if "a \<le> b" for a b
  proof (rule fold_skips)
    show "\<forall>m \<in> set (take a ms). noted nr (fold (note_history nr) (take b ms) h) m"
      using that set_take_subset_set_take [of a b ms] by (auto intro: fold_noted)
  qed
  show ?thesis
  proof (cases "i \<le> j")
    case True
    then show ?thesis by (simp add: n max_def)
  next
    case False
    then have t: "take i ms = take j ms @ drop j (take i ms)" using append_take_drop_id [of j "take i ms"] by (simp add: min_def)
    have "fold (note_history nr) (take i ms) (fold (note_history nr) (take j ms) h)
        = fold (note_history nr) (drop j (take i ms)) (fold (note_history nr) (take j ms) (fold (note_history nr) (take j ms) h))"
      by (subst t) (simp only: fold_append comp_apply)
    also have "\<dots> = fold (note_history nr) (take j ms @ drop j (take i ms)) h" by (simp only: n [OF order_refl] fold_append comp_apply)
    finally show ?thesis using False t by (simp add: max_def)
  qed
qed

text \<open>The histories stay in order, newest first, and their past is what earlier transactions left.\<close>

lemma note_history_past:
  assumes "x < nr"
  shows "dropWhile (\<lambda>c. fst c > x) (note_history nr m h k) = dropWhile (\<lambda>c. fst c > x) (h k)"
  using assms by (auto simp: note_history_def)

lemma note_types_past:
  assumes "x < tx_nr tx"
  shows "dropWhile (\<lambda>c. fst c > x) (note_types tx h k) = dropWhile (\<lambda>c. fst c > x) (h k)"
proof -
  have "dropWhile (\<lambda>c. fst c > x) (fold (note_history (tx_nr tx)) ms h k) = dropWhile (\<lambda>c. fst c > x) (h k)" for ms
    by (induction ms arbitrary: h) (simp_all add: note_history_past [OF assms])
  then show ?thesis by (simp add: note_types_def)
qed

lemma note_types_numbers: "c \<in> set (note_types tx h k) \<Longrightarrow> c \<in> set (h k) \<or> fst c = tx_nr tx"
proof -
  have "c \<in> set (fold (note_history (tx_nr tx)) ms h k) \<Longrightarrow> c \<in> set (h k) \<or> fst c = tx_nr tx" for ms
    by (induction ms arbitrary: h) (fastforce simp: note_history_def split: if_splits)+
  then show "c \<in> set (note_types tx h k) \<Longrightarrow> c \<in> set (h k) \<or> fst c = tx_nr tx" by (simp add: note_types_def)
qed

lemma types_after_numbers: "c \<in> set (types_after txs k) \<Longrightarrow> fst c \<in> tx_nr ` set txs"
proof (induction txs rule: rev_induct)
  case (snoc tx txs)
  then show ?case using note_types_numbers [of c tx "types_after txs" k] by (auto simp: types_after_snoc)
qed (simp add: types_after_def)

definition ascending :: "grdr_complete_transaction list \<Rightarrow> bool" where
  "ascending txs = sorted_wrt (\<lambda>s t. tx_nr s < tx_nr t) txs"

lemma types_after_past:
  assumes "ascending txs"
  shows "dropWhile (\<lambda>c. fst c > x) (types_after txs k) = types_after (filter (\<lambda>tx. tx_nr tx \<le> x) txs) k"
  using assms
proof (induction txs rule: rev_induct)
  case (snoc tx txs)
  have a: "ascending txs" "\<forall>t \<in> set txs. tx_nr t < tx_nr tx" using snoc.prems by (auto simp: ascending_def sorted_wrt_append)
  show ?case
  proof (cases "tx_nr tx \<le> x")
    case True
    have "\<forall>t \<in> set (txs @ [tx]). tx_nr t \<le> x" using a(2) True by auto
    then have f: "filter (\<lambda>tx. tx_nr tx \<le> x) (txs @ [tx]) = txs @ [tx]" by (simp add: filter_id_conv)
    have "\<not> fst c > x" if "c \<in> set (types_after (txs @ [tx]) k)" for c
      using types_after_numbers [OF that] \<open>\<forall>t \<in> set (txs @ [tx]). tx_nr t \<le> x\<close> by auto
    then have "dropWhile (\<lambda>c. fst c > x) (types_after (txs @ [tx]) k) = types_after (txs @ [tx]) k"
      by (simp add: dropWhile_eq_self_iff)
    then show ?thesis by (simp only: f)
  next
    case False
    then have "x < tx_nr tx" by simp
    then show ?thesis using snoc.IH [OF a(1)] False note_types_past [of x tx "types_after txs" k]
      by (simp add: types_after_snoc)
  qed
qed (simp add: types_after_def)


section \<open>The register follows the transactions\<close>

definition register_stands :: "('s, 'm, 'p) arnm_ops \<Rightarrow> ('m \<Rightarrow> bytes list) \<Rightarrow> 'm grdb_addresses
    \<Rightarrow> grdr_complete_transaction list \<Rightarrow> grdr_complete_transaction option \<Rightarrow> bool" where
  "register_stands A ks idx txs pend \<longleftrightarrow>
     ga_ready idx \<and> wf_register ks idx \<and> ascending txs
     \<and> unat (ga_transaction_count idx) = length txs \<and> (txs \<noteq> [] \<longrightarrow> ga_max_tx_nr idx = tx_nr (last txs))
     \<and> (\<exists>j. type_history A idx = (case pend of None \<Rightarrow> types_after txs
             | Some p \<Rightarrow> fold (note_history (tx_nr p)) (take j (type_marks p)) (types_after txs)))
     \<and> (\<forall>k. balance_nr A idx k = balance_after txs k
             \<or> (\<exists>p. pend = Some p \<and> moved p k \<and> balance_nr A idx k = tx_nr p))"

lemma register_same_trans:
  assumes "wf_register ks i3" "same_register i3 i2" "same_register i2 i1"
  shows "same_register i3 i1"
  using assms by (simp add: same_register_def)

lemma each_type:
  assumes L: "arnm_laws A els ks" and w: "wf_register ks idx" and k: "\<forall>m \<in> set ms. length (fst m) = SIGN_PUBLIC_KEY_SIZE"
    and room: "length (ga_type_changes idx) + length ms \<le> 4294967295"
    and s: "for_each (\<lambda>(key, ty). note_type A key nr ty) ms (idx, mem) = (r, idx', mem')"
  shows "\<exists>j. wf_register ks idx' \<and> same_register idx' idx \<and> balance_nr A idx' = balance_nr A idx
    \<and> type_history A idx' = fold (note_history nr) (take j ms) (type_history A idx) \<and> (r = ARNM_SUCCESS \<longrightarrow> length ms \<le> j)"
  using w k room s
proof (induction ms arbitrary: idx mem)
  case Nil
  then show ?case by (auto simp: same_register_def)
next
  case (Cons m ms)
  obtain key ty where m: "m = (key, ty)" by fastforce
  obtain r1 i1 m1 where n: "note_type A key nr ty (idx, mem) = (r1, i1, m1)" by (metis prod_cases3)
  have "length key = SIGN_PUBLIC_KEY_SIZE" "length (ga_type_changes idx) < 4294967295" using Cons.prems m by auto
  note one = note_type_refines [OF L Cons.prems(1) this n]
  show ?case
  proof (cases "r1 = ARNM_SUCCESS")
    case False
    then have "r = r1" "idx' = i1" using Cons.prems(4) n m by (simp_all add: bind_ok_def)
    then show ?thesis using one False by (intro exI [of _ 0]) (simp add: register_same_def)
  next
    case True
    then have "for_each (\<lambda>(key, ty). note_type A key nr ty) ms (i1, m1) = (r, idx', mem')"
      using Cons.prems(4) n m by (simp add: bind_ok_def)
    then obtain j where "wf_register ks idx' \<and> same_register idx' i1 \<and> balance_nr A idx' = balance_nr A i1
        \<and> type_history A idx' = fold (note_history nr) (take j ms) (type_history A i1) \<and> (r = ARNM_SUCCESS \<longrightarrow> length ms \<le> j)"
      using Cons.IH [of i1 m1] Cons.prems one by (auto simp: register_same_def)
    then show ?thesis using one True m by (intro exI [of _ "Suc j"]) (auto simp: register_same_def same_register_def)
  qed
qed

lemma each_balance:
  assumes L: "arnm_laws A els ks" and w: "wf_register ks idx" and k: "\<forall>b \<in> set bs. length (ab_pubkey b) = SIGN_PUBLIC_KEY_SIZE"
    and s: "for_each (note_balance A nr) bs (idx, mem) = (r, idx', mem')"
  shows "wf_register ks idx' \<and> same_register idx' idx \<and> type_history A idx' = type_history A idx
    \<and> (\<forall>k. balance_nr A idx' k = balance_nr A idx k
         \<or> (k \<noteq> zeros SIGN_PUBLIC_KEY_SIZE \<and> k \<in> ab_pubkey ` set bs \<and> balance_nr A idx' k = nr))
    \<and> (r = ARNM_SUCCESS \<longrightarrow> (\<forall>k. k \<noteq> zeros SIGN_PUBLIC_KEY_SIZE \<longrightarrow> k \<in> ab_pubkey ` set bs \<longrightarrow> balance_nr A idx' k = nr))"
  using w k s
proof (induction bs arbitrary: idx mem)
  case Nil
  then show ?case by (auto simp: same_register_def)
next
  case (Cons b bs)
  obtain r1 i1 m1 where n: "note_balance A nr b (idx, mem) = (r1, i1, m1)" by (metis prod_cases3)
  have "length (ab_pubkey b) = SIGN_PUBLIC_KEY_SIZE" using Cons.prems by auto
  note one = note_balance_refines [OF L Cons.prems(1) this n]
  show ?case
  proof (cases "r1 = ARNM_SUCCESS")
    case False
    then have "r = r1" "idx' = i1" using Cons.prems n by (simp_all add: bind_ok_def)
    then show ?thesis using one False by (simp add: register_same_def)
  next
    case True
    then have "for_each (note_balance A nr) bs (i1, m1) = (r, idx', mem')" using Cons.prems n by (simp add: bind_ok_def)
    from Cons.IH [OF _ _ this] one Cons.prems have IH: "wf_register ks idx' \<and> same_register idx' i1 \<and> type_history A idx' = type_history A i1
      \<and> (\<forall>k. balance_nr A idx' k = balance_nr A i1 k
         \<or> (k \<noteq> zeros SIGN_PUBLIC_KEY_SIZE \<and> k \<in> ab_pubkey ` set bs \<and> balance_nr A idx' k = nr))
      \<and> (r = ARNM_SUCCESS \<longrightarrow> (\<forall>k. k \<noteq> zeros SIGN_PUBLIC_KEY_SIZE \<longrightarrow> k \<in> ab_pubkey ` set bs \<longrightarrow> balance_nr A idx' k = nr))"
      by (simp add: register_same_def)
    have b1: "balance_nr A i1 k = (if k = ab_pubkey b \<and> k \<noteq> zeros SIGN_PUBLIC_KEY_SIZE then nr else balance_nr A idx k)" for k
      using one True by auto
    have h: "same_register idx' idx" "type_history A idx' = type_history A idx" using IH one by (auto simp: same_register_def register_same_def)
    have v: "balance_nr A idx' k = balance_nr A idx k
         \<or> (k \<noteq> zeros SIGN_PUBLIC_KEY_SIZE \<and> k \<in> ab_pubkey ` set (b # bs) \<and> balance_nr A idx' k = nr)" for k
    proof -
      have "balance_nr A idx' k = balance_nr A i1 k
         \<or> (k \<noteq> zeros SIGN_PUBLIC_KEY_SIZE \<and> k \<in> ab_pubkey ` set bs \<and> balance_nr A idx' k = nr)" using IH by blast
      then show ?thesis using b1 [of k] by (auto split: if_splits)
    qed
    have f: "balance_nr A idx' k = nr" if "r = ARNM_SUCCESS" "k \<noteq> zeros SIGN_PUBLIC_KEY_SIZE" "k \<in> ab_pubkey ` set (b # bs)" for k
    proof (cases "k \<in> ab_pubkey ` set bs")
      case True
      then show ?thesis using IH that by blast
    next
      case False
      then have "balance_nr A i1 k = nr" using b1 [of k] that by simp
      then show ?thesis using IH by metis
    qed
    show ?thesis using IH h v f by blast
  qed
qed


lemma ascending_last:
  assumes "ascending txs" "txs \<noteq> []" "t \<in> set txs"
  shows "tx_nr t \<le> tx_nr (last txs)"
  using assms by (cases txs rule: rev_cases) (auto simp: ascending_def sorted_wrt_append)

lemma ascending_snoc:
  assumes "ascending txs" "txs \<noteq> [] \<longrightarrow> tx_nr (last txs) < tx_nr tx"
  shows "ascending (txs @ [tx])"
proof -
  have "tx_nr t < tx_nr tx" if "t \<in> set txs" for t
    using ascending_last [OF assms(1) _ that] assms(2) that by (cases "txs = []") auto
  then show ?thesis using assms(1) by (simp add: ascending_def sorted_wrt_append)
qed

lemma type_marks_keys:
  assumes "wf_transaction tx"
  shows "\<forall>m \<in> set (type_marks tx). length (fst m) = SIGN_PUBLIC_KEY_SIZE" "length (type_marks tx) \<le> 2"
  using assms by (auto simp: type_marks_def wf_transaction_def)

lemma register_add_stands:
  assumes L: "arnm_laws A els ks" and s: "register_stands A ks idx txs pend" and p: "pend = None \<or> pend = Some tx"
    and t: "wf_transaction tx" and room: "length (ga_type_changes idx) + 2 \<le> 4294967295" "length txs < 4294967295"
    and a: "grdb_addresses_add A (Some idx) (Some tx) mem = (r, idx', mem')"
  shows "\<exists>j. idx' = Some j \<and> (if r = ARNM_SUCCESS then register_stands A ks j (txs @ [tx]) None
    else j = idx \<or> register_stands A ks j txs (Some tx))"
proof (cases "(ga_transaction_count idx \<noteq> 0 \<and> tx_nr tx \<le> ga_max_tx_nr idx) \<or> transaction_type tx \<ge> GRDT_TRANSACTION_COUNT")
  case True
  then show ?thesis using a s by (auto simp: grdb_addresses_add_def register_stands_def split: if_splits)
next
  case g: False
  have w: "wf_register ks idx" "ga_ready idx" "ascending txs" and c: "unat (ga_transaction_count idx) = length txs"
    and mx: "txs \<noteq> [] \<Longrightarrow> ga_max_tx_nr idx = tx_nr (last txs)" using s by (auto simp: register_stands_def)
  have c0: "ga_transaction_count idx = 0 \<longleftrightarrow> txs = []" using c by (metis length_0_conv unat_0 unsigned_eq_0_iff)
  have up: "ascending (txs @ [tx])" using g c0 mx by (intro ascending_snoc [OF w(3)]) (auto simp: not_le)
  obtain j0 where h0: "type_history A idx = fold (note_history (tx_nr tx)) (take j0 (type_marks tx)) (types_after txs)"
  proof (cases pend)
    case None
    then show thesis using s that [of 0] by (simp add: register_stands_def)
  next
    case (Some q)
    then show thesis using s p that by (auto simp: register_stands_def)
  qed
  have b0: "balance_nr A idx k = balance_after txs k \<or> (moved tx k \<and> balance_nr A idx k = tx_nr tx)" for k
  proof -
    have "balance_nr A idx k = balance_after txs k \<or> (\<exists>q. pend = Some q \<and> moved q k \<and> balance_nr A idx k = tx_nr q)"
      using s unfolding register_stands_def by blast
    then show ?thesis using p by auto
  qed
  have stand: "register_stands A ks i txs (Some tx)" if "wf_register ks i" "same_register i idx"
    "type_history A i = fold (note_history (tx_nr tx)) (take j (type_marks tx)) (types_after txs)"
    "\<And>k. balance_nr A i k = balance_after txs k \<or> (moved tx k \<and> balance_nr A i k = tx_nr tx)" for i j
  proof -
    have e: "\<exists>j. type_history A i = (case Some tx of None \<Rightarrow> types_after txs
             | Some p \<Rightarrow> fold (note_history (tx_nr p)) (take j (type_marks p)) (types_after txs))"
      by (rule exI [of _ j]) (simp add: that(3))
    show ?thesis unfolding register_stands_def using that(1,2,4) w c mx e by (auto simp: same_register_def)
  qed
  note keys = type_marks_keys [OF t]
  obtain r1 i1 m1 where n1: "for_each (\<lambda>(key, ty). note_type A key (tx_nr tx) ty) (type_marks tx) (idx, mem) = (r1, i1, m1)"
    by (metis prod_cases3)
  have "length (ga_type_changes idx) + length (type_marks tx) \<le> 4294967295" using room(1) keys(2) by simp
  from each_type [OF L w(1) keys(1) this n1] obtain j1 where e1: "wf_register ks i1" "same_register i1 idx" "balance_nr A i1 = balance_nr A idx"
    "type_history A i1 = fold (note_history (tx_nr tx)) (take j1 (type_marks tx)) (type_history A idx)"
    "r1 = ARNM_SUCCESS \<Longrightarrow> length (type_marks tx) \<le> j1" by blast
  have h1: "type_history A i1 = fold (note_history (tx_nr tx)) (take (max j1 j0) (type_marks tx)) (types_after txs)"
    using e1(4) h0 by (simp add: fold_note_again)
  have s1: "register_stands A ks i1 txs (Some tx)" using e1(1,2) h1 b0 by (intro stand) (simp_all add: e1(3))
  show ?thesis
  proof (cases "r1 = ARNM_SUCCESS")
    case False
    then have "r = r1" "idx' = Some i1" using a n1 w g by (auto simp: grdb_addresses_add_def bind_ok_def)
    then show ?thesis using s1 False by simp
  next
    case True
    obtain r2 i2 m2 where n2: "for_each (note_balance A (tx_nr tx)) (account_balances tx) (i1, m1) = (r2, i2, m2)"
      by (metis prod_cases3)
    have "\<forall>b \<in> set (account_balances tx). length (ab_pubkey b) = SIGN_PUBLIC_KEY_SIZE"
      using t by (auto simp: wf_transaction_def list_all_iff wf_balance_def)
    note e2 = each_balance [OF L e1(1) this n2]
    have sm: "same_register i2 idx" using e1(2) e2 by (auto simp: same_register_def)
    have h2: "type_history A i2 = note_types tx (types_after txs)" using e2 h1 e1(5) True by (simp add: note_types_def)
    have h2': "type_history A i2 = fold (note_history (tx_nr tx)) (take (length (type_marks tx)) (type_marks tx)) (types_after txs)"
      using h2 by (simp add: note_types_def)
    have b2: "balance_nr A i2 k = balance_after txs k \<or> (moved tx k \<and> balance_nr A i2 k = tx_nr tx)" for k
    proof -
      have "balance_nr A i2 k = balance_nr A i1 k \<or> (moved tx k \<and> balance_nr A i2 k = tx_nr tx)"
        using e2 unfolding moved_def by blast
      then show ?thesis using b0 [of k] e1(3) by auto
    qed
    show ?thesis
    proof (cases "r2 = ARNM_SUCCESS")
      case False
      then have "r = r2" "idx' = Some i2" using a n1 n2 True w g by (auto simp: grdb_addresses_add_def bind_ok_def)
      moreover have "register_stands A ks i2 txs (Some tx)" using e2 by (intro stand [OF _ sm h2' b2]) simp
      ultimately show ?thesis using False by simp
    next
      case r2: True
      let ?i3 = "i2\<lparr>ga_max_tx_nr := tx_nr tx, ga_transaction_count := ga_transaction_count i2 + 1\<rparr>"
      have e: "r = ARNM_SUCCESS" "idx' = Some ?i3" using a n1 n2 True r2 w g by (auto simp: grdb_addresses_add_def bind_ok_def)
      have k: "ga_ready ?i3" "wf_register ks ?i3" "type_history A ?i3 = type_history A i2" "balance_nr A ?i3 = balance_nr A i2"
        using e2 sm w by (simp_all add: same_register_def wf_register_def type_history_def balance_nr_def entry_look_def fun_eq_iff
            del: walk.simps)
      have u: "unat (ga_transaction_count i2 + 1) = length (txs @ [tx])"
        using sm c room(2) by (simp add: same_register_def unat_word_ariths unat_add_small)
      have b3: "balance_nr A ?i3 x = balance_after (txs @ [tx]) x" for x
      proof (cases "moved tx x")
        case True
        then have "balance_nr A i2 x = tx_nr tx" using e2 r2 unfolding moved_def by blast
        then show ?thesis using True k(4) by (simp add: balance_after_snoc)
      next
        case False
        then show ?thesis using b2 [of x] k(4) by (simp add: balance_after_snoc)
      qed
      have "register_stands A ks ?i3 (txs @ [tx]) None"
        unfolding register_stands_def using k(1,2,3) u up b3 h2 by (simp add: types_after_snoc)
      then show ?thesis using e by simp
    qed
  qed
qed

lemma fresh_register_stands:
  assumes L: "arnm_laws A els ks" and i: "ga_entries i = []" "ga_type_changes i = []" "ga_transaction_count i = 0" "ga_ready i"
  shows "register_stands A ks i [] None"
proof -
  have "entry_look A i = (\<lambda>k. new_entry)" using i by (auto simp: entry_look_def look_def fun_eq_iff split: option.splits)
  then have "type_history A i = types_after []" "balance_nr A i = (\<lambda>k. 0)"
    by (simp_all add: type_history_def types_after_def balance_nr_def new_entry_def fun_eq_iff)
  then show ?thesis using i
    by (simp add: register_stands_def wf_register_def links_ok_def ascending_def balance_after_def)
qed


section \<open>The questions\<close>

lemma entry_of_key_look:
  assumes "ga_ready idx"
  shows "entry_of_key A (Some idx) (Some k) = Some (entry_look A idx k)
    \<or> (entry_of_key A (Some idx) (Some k) = None \<and> entry_look A idx k = new_entry)"
  using assms by (auto simp: entry_of_key_def entry_look_def look_def split: option.splits)

lemma history_none: "entry_look A idx k = new_entry \<Longrightarrow> type_history A idx k = []"
  by (simp add: type_history_def new_entry_def)

lemma register_loops_end:
  assumes "wf_register ks idx"
  shows "grdb_addresses_type_at A (Some idx) key x out \<noteq> None"
    and "grdb_addresses_type_changes A (Some idx) key buf n \<noteq> None"
    and "type_known (ga_type_changes idx) nr t (last_change (entry_look A idx k)) (length (ga_type_changes idx) + 1) \<noteq> None"
proof -
  have lk: "links_ok (ga_type_changes idx)" using assms by (simp add: wf_register_def)
  have e: "\<exists>k. e = entry_look A idx k" if g: "entry_of_key A (Some idx) key = Some e" for e
  proof -
    obtain a where "key = Some a" "ga_ready idx" using g by (auto simp: entry_of_key_def split: option.splits if_splits)
    then show ?thesis using entry_of_key_look [of idx A a] g by auto
  qed
  show "grdb_addresses_type_at A (Some idx) key x out \<noteq> None"
  proof (cases "entry_of_key A (Some idx) key")
    case (Some e')
    then obtain k where "e' = entry_look A idx k" using e by blast
    then show ?thesis using Some type_at_walk [OF lk entry_link [OF assms, where k = k and A = A] order_refl]
      by (cases out) (simp_all add: grdb_addresses_type_at_def del: type_at_loop.simps walk.simps)
  qed (simp add: grdb_addresses_type_at_def)
  show "grdb_addresses_type_changes A (Some idx) key buf n \<noteq> None"
  proof (cases "entry_of_key A (Some idx) key")
    case (Some e')
    then obtain k where "e' = entry_look A idx k" using e by blast
    then show ?thesis using Some type_changes_walk [OF lk entry_link [OF assms, where k = k and A = A] order_refl]
      by (simp add: grdb_addresses_type_changes_def del: type_changes_loop.simps walk.simps)
  qed (simp add: grdb_addresses_type_changes_def)
  show "type_known (ga_type_changes idx) nr t (last_change (entry_look A idx k)) (length (ga_type_changes idx) + 1) \<noteq> None"
    using type_known_walk [OF lk entry_link [OF assms, where k = k and A = A] order_refl]
    by (simp del: type_known.simps walk.simps)
qed

lemma past_of_walk:
  "(case map_option tc_type (find (\<lambda>c. tc_tx_nr c \<le> x) w) of None \<Rightarrow> a | Some t \<Rightarrow> f t)
    = (case dropWhile (\<lambda>c. fst c > x) (map (\<lambda>c. (tc_tx_nr c, tc_type c)) w) of [] \<Rightarrow> a | c # _ \<Rightarrow> f (snd c))"
  by (induction w) auto

lemma type_at_history:
  assumes "wf_register ks idx" "ga_ready idx"
  shows "grdb_addresses_type_at A (Some idx) (Some k) x (Some t) =
    Some (case dropWhile (\<lambda>c. fst c > x) (type_history A idx k) of [] \<Rightarrow> (False, Some t) | c # _ \<Rightarrow> (True, Some (ucast (snd c))))"
proof -
  let ?w = "walk (ga_type_changes idx) (last_change (entry_look A idx k)) (Suc (length (ga_type_changes idx)))"
  have lk: "links_ok (ga_type_changes idx)" using assms by (simp add: wf_register_def)
  note ws = type_at_walk [OF lk entry_link [OF assms(1), where k = k and A = A] order_refl, where x = x]
  show ?thesis
  proof (cases "entry_of_key A (Some idx) (Some k)")
    case None
    then have "type_history A idx k = []" using entry_of_key_look [OF assms(2)] history_none by force
    then show ?thesis using None by (simp add: grdb_addresses_type_at_def)
  next
    case (Some e)
    then have "e = entry_look A idx k" using entry_of_key_look [OF assms(2), of A k] by auto
    then have "grdb_addresses_type_at A (Some idx) (Some k) x (Some t) =
        Some (case map_option tc_type (find (\<lambda>c. tc_tx_nr c \<le> x) ?w) of None \<Rightarrow> (False, Some t) | Some t \<Rightarrow> (True, Some (ucast t)))"
      using Some ws by (simp add: grdb_addresses_type_at_def del: type_at_loop.simps walk.simps)
    then show ?thesis by (simp only: type_history_def past_of_walk)
  qed
qed

lemma type_history_now:
  assumes "wf_register ks idx" "ga_ready idx"
  shows "grdb_addresses_type A (Some idx) (Some k) = (case type_history A idx k of [] \<Rightarrow> GRDT_ADDRESS_NONE | c # _ \<Rightarrow> ucast (snd c))"
proof (cases "entry_of_key A (Some idx) (Some k)")
  case None
  then have "type_history A idx k = []" using entry_of_key_look [OF assms(2)] history_none by force
  then show ?thesis using None by (simp add: grdb_addresses_type_def)
next
  case (Some e)
  then have "e = entry_look A idx k" using entry_of_key_look [OF assms(2), of A k] by auto
  then show ?thesis using Some by (simp add: grdb_addresses_type_def type_history_def)
qed

lemma type_changes_history:
  assumes "wf_register ks idx" "ga_ready idx"
    and "found = take (unat n) (map fst (type_history A idx k))" "length found \<le> length buf"
  shows "grdb_addresses_type_changes A (Some idx) (Some k) (Some buf) n =
    Some (Inr (word_of_nat (length found), Some (found @ drop (length found) buf)))"
proof -
  have lk: "links_ok (ga_type_changes idx)" using assms by (simp add: wf_register_def)
  note ws = type_changes_walk [OF lk entry_link [OF assms(1), where k = k and A = A] order_refl, where room = "unat n"]
  show ?thesis
  proof (cases "entry_of_key A (Some idx) (Some k)")
    case None
    then have "type_history A idx k = []" using entry_of_key_look [OF assms(2)] history_none by force
    then show ?thesis using None assms(3) by (simp add: grdb_addresses_type_changes_def)
  next
    case (Some e)
    then have "e = entry_look A idx k" using entry_of_key_look [OF assms(2), of A k] by auto
    moreover have "type_changes_loop (ga_type_changes idx) (last_change (entry_look A idx k)) (unat n) (length (ga_type_changes idx) + 1) = Some found"
      using ws by (simp add: assms(3) type_history_def comp_def del: walk.simps type_changes_loop.simps)
    ultimately show ?thesis using Some assms(4)
      by (simp add: grdb_addresses_type_changes_def Let_def del: type_changes_loop.simps walk.simps)
  qed
qed

lemma last_balance_answer:
  assumes "ga_ready idx"
  shows "grdb_addresses_last_balance A (Some idx) (Some k) (Some old) =
    (if balance_nr A idx k = 0 then (False, Some old) else (True, Some (balance_nr A idx k)))"
proof (cases "entry_of_key A (Some idx) (Some k)")
  case None
  then have "entry_look A idx k = new_entry" using entry_of_key_look [OF assms] by force
  then show ?thesis using None by (simp add: grdb_addresses_last_balance_def balance_nr_def new_entry_def)
next
  case (Some e)
  then have "e = entry_look A idx k" using entry_of_key_look [OF assms, of A k] by auto
  then show ?thesis using Some by (simp add: grdb_addresses_last_balance_def balance_nr_def)
qed


section \<open>A small register\<close>

text \<open>One transaction that gives two keys the type of a human's account and moves the balance of the second.\<close>

definition register_tx :: grdr_complete_transaction where
  "register_tx = sample_tx\<lparr>transaction_type := GRDT_TRANSACTION_REGISTER_ADDRESS, address_type := GRDT_ADDRESS_COMMUNITY_HUMAN,
     register_address := \<lparr>user_public_key = key_a, name_hash = zeros GENERIC_HASH_SIZE, account_public_key = key_b\<rparr>\<rparr>"

definition fresh_register :: "list_map grdb_addresses" where "fresh_register = (zero_addresses list_arnm)\<lparr>ga_ready := True\<rparr>"

definition named_register :: "list_map grdb_addresses" where
  "named_register = \<lparr>ga_keys = [key_a, key_b],
     ga_entries = [\<lparr>last_balance_tx = 0, last_change = 0\<rparr>, \<lparr>last_balance_tx = 5, last_change = 1\<rparr>],
     ga_type_changes = [\<lparr>tc_tx_nr = 5, tc_previous = ADDRESSES_NO_CHANGE, tc_type = 1\<rparr>,
                        \<lparr>tc_tx_nr = 5, tc_previous = ADDRESSES_NO_CHANGE, tc_type = 1\<rparr>],
     ga_max_tx_nr = 5, ga_transaction_count = 1, ga_ready = True\<rparr>"

lemma entry_for_key_sample:
  "entry_for_key list_arnm key_a (fresh_register, ()) = (ARNM_SUCCESS, 0, fresh_register\<lparr>ga_keys := [key_a], ga_entries := [new_entry]\<rparr>, ())"
  "ga_keys i = [key_a] \<Longrightarrow> ga_entries i = [e] \<Longrightarrow>
     entry_for_key list_arnm key_b (i, ()) = (ARNM_SUCCESS, 1, i\<lparr>ga_keys := [key_a, key_b], ga_entries := [e, new_entry]\<rparr>, ())"
  "ga_keys i = [key_a, key_b] \<Longrightarrow> ga_entries i = [e, e'] \<Longrightarrow>
     entry_for_key list_arnm key_b (i, ()) = (ARNM_SUCCESS, 1, i, ())"
  by (simp_all add: entry_for_key_def fresh_register_def zero_addresses_def list_arnm_def list_get_or_insert_def
      list_find_small list_keys_small sample_keys grow_to.simps)

lemma named_added: "grdb_addresses_add list_arnm (Some fresh_register) (Some register_tx) () = (ARNM_SUCCESS, Some named_register, ())"
proof -
  have f: "ga_ready fresh_register" "ga_transaction_count fresh_register = 0" "ga_type_changes fresh_register = []" "ga_max_tx_nr fresh_register = 0"
    by (simp_all add: fresh_register_def zero_addresses_def)
  have t: "tx_nr register_tx = 5" "transaction_type register_tx = GRDT_TRANSACTION_REGISTER_ADDRESS"
    "type_marks register_tx = [(key_a, 1), (key_b, 1)]"
    "account_balances register_tx = [\<lparr>ab_pubkey = key_b, ab_balance = 1, ab_community_uuid = coin_c\<rparr>]"
    by (simp_all add: register_tx_def sample_tx_def type_marks_def)
  have g: "bvec_grow list_arnm () = (ARNM_SUCCESS, ())" by (simp add: list_arnm_def)
  let ?a = "fresh_register\<lparr>ga_keys := [key_a], ga_entries := [\<lparr>last_balance_tx = 0, last_change = 0\<rparr>],
    ga_type_changes := [\<lparr>tc_tx_nr = 5, tc_previous = ADDRESSES_NO_CHANGE, tc_type = 1\<rparr>]\<rparr>"
  have a: "note_type list_arnm key_a 5 1 (fresh_register, ()) = (ARNM_SUCCESS, ?a, ())"
    by (simp add: note_type_def sample_keys entry_for_key_sample f g new_entry_def)
  let ?b = "fresh_register\<lparr>ga_keys := [key_a, key_b], ga_entries := [\<lparr>last_balance_tx = 0, last_change = 0\<rparr>, \<lparr>last_balance_tx = 0, last_change = 1\<rparr>],
    ga_type_changes := [\<lparr>tc_tx_nr = 5, tc_previous = ADDRESSES_NO_CHANGE, tc_type = 1\<rparr>, \<lparr>tc_tx_nr = 5, tc_previous = ADDRESSES_NO_CHANGE, tc_type = 1\<rparr>]\<rparr>"
  have b: "note_type list_arnm key_b 5 1 (?a, ()) = (ARNM_SUCCESS, ?b, ())"
    by (simp add: note_type_def sample_keys entry_for_key_sample f g new_entry_def)
  have c: "note_balance list_arnm 5 \<lparr>ab_pubkey = key_b, ab_balance = 1, ab_community_uuid = coin_c\<rparr> (?b, ()) =
    (ARNM_SUCCESS, fresh_register\<lparr>ga_keys := [key_a, key_b],
       ga_entries := [\<lparr>last_balance_tx = 0, last_change = 0\<rparr>, \<lparr>last_balance_tx = 5, last_change = 1\<rparr>],
       ga_type_changes := [\<lparr>tc_tx_nr = 5, tc_previous = ADDRESSES_NO_CHANGE, tc_type = 1\<rparr>,
         \<lparr>tc_tx_nr = 5, tc_previous = ADDRESSES_NO_CHANGE, tc_type = 1\<rparr>]\<rparr>, ())"
    by (simp add: note_balance_def sample_keys entry_for_key_sample)
  show ?thesis using f t
    by (simp add: grdb_addresses_add_def bind_ok_def a b c) (simp add: fresh_register_def zero_addresses_def named_register_def)
qed

lemma register_tx_wf: "wf_transaction register_tx"
  using sample_wf by (simp add: wf_transaction_def register_tx_def key_a_def key_b_def)

lemma fresh_register_holds: "register_stands list_arnm list_keys fresh_register [] None"
  by (rule fresh_register_stands [OF list_arnm_laws]) (simp_all add: fresh_register_def zero_addresses_def)

lemma named_stands: "register_stands list_arnm list_keys named_register [register_tx] None"
proof -
  have "length (ga_type_changes fresh_register) + 2 \<le> 4294967295" by (simp add: fresh_register_def zero_addresses_def)
  from register_add_stands [OF list_arnm_laws fresh_register_holds _ register_tx_wf this _ named_added] show ?thesis by simp
qed

section \<open>What the register promises\<close>

text \<open>C16: The register refines the transactions added to it. Taking one notes the types it gives, each once, and
  makes it the last one for the balances it moves; a refused one leaves the register as it was, or, when memory ran
  out halfway, still standing for the same transactions with this one to be tried again. Trying it again
  notes nothing twice.\<close>

theorem register_refines:
  assumes "arnm_laws A els ks" "register_stands A ks idx txs pend" "pend = None \<or> pend = Some tx"
    and "wf_transaction tx" "length (ga_type_changes idx) + 2 \<le> 4294967295" "length txs < 4294967295"
    and "grdb_addresses_add A (Some idx) (Some tx) mem = (r, idx', mem')"
  shows "\<exists>j. idx' = Some j \<and> (if r = ARNM_SUCCESS then register_stands A ks j (txs @ [tx]) None
    else j = idx \<or> register_stands A ks j txs (Some tx))"
  using assms by (rule register_add_stands)

theorem register_refines_witness: "register_stands list_arnm list_keys named_register [register_tx] None"
proof -
  have "length (ga_type_changes fresh_register) + 2 \<le> 4294967295" by (simp add: fresh_register_def zero_addresses_def)
  from register_refines [OF list_arnm_laws fresh_register_holds _ register_tx_wf this _ named_added] show ?thesis by simp
qed

text \<open>C17: The register answers for any moment: the type an address had at a transaction number is the type the
  transactions up to that number gave it last, whatever came later and whatever half-noted transaction waits to be
  tried again; the current type is the one the last of all gave.\<close>

theorem type_through_time:
  assumes "register_stands A ks idx txs pend" "\<forall>p. pend = Some p \<longrightarrow> x < tx_nr p"
  shows "grdb_addresses_type_at A (Some idx) (Some k) x (Some t) =
      Some (case types_after (filter (\<lambda>tx. tx_nr tx \<le> x) txs) k of [] \<Rightarrow> (False, Some t) | c # _ \<Rightarrow> (True, Some (ucast (snd c))))
    \<and> (pend = None \<longrightarrow> grdb_addresses_type A (Some idx) (Some k) =
         (case types_after txs k of [] \<Rightarrow> GRDT_ADDRESS_NONE | c # _ \<Rightarrow> ucast (snd c)))"
proof -
  have w: "wf_register ks idx" "ga_ready idx" "ascending txs" using assms(1) by (simp_all add: register_stands_def)
  have "dropWhile (\<lambda>c. fst c > x) (type_history A idx k) = dropWhile (\<lambda>c. fst c > x) (types_after txs k)"
  proof (cases pend)
    case None
    then show ?thesis using assms(1) by (simp add: register_stands_def)
  next
    case (Some p)
    have "dropWhile (\<lambda>c. fst c > x) (fold (note_history (tx_nr p)) ms h k) = dropWhile (\<lambda>c. fst c > x) (h k)" for ms h
      using assms(2) Some by (induction ms arbitrary: h) (simp_all add: note_history_past)
    then show ?thesis using assms(1) Some by (auto simp: register_stands_def)
  qed
  moreover have "type_history A idx k = types_after txs k" if "pend = None"
    using assms(1) that by (simp add: register_stands_def)
  ultimately show ?thesis
    by (simp add: type_at_history [OF w(1,2)] type_history_now [OF w(1,2)] types_after_past [OF w(3)])
qed

lemma types_after_named: "types_after [register_tx] key_a = [(5, 1)]"
  by (simp add: types_after_def note_types_def type_marks_def register_tx_def note_history_def sample_tx_def
    key_a_def key_b_def zeros_def)

theorem type_through_time_witness:
  "grdb_addresses_type_at list_arnm (Some named_register) (Some key_a) 7 (Some 0) = Some (True, Some 1)
   \<and> grdb_addresses_type_at list_arnm (Some named_register) (Some key_a) 4 (Some 0) = Some (False, Some 0)
   \<and> grdb_addresses_type list_arnm (Some named_register) (Some key_a) = 1"
proof -
  have n: "tx_nr register_tx = 5" by (simp add: register_tx_def sample_tx_def)
  have e: "types_after [] key_a = []" by (simp add: types_after_def)
  show ?thesis
    using type_through_time [OF named_stands, of 7 key_a 0] type_through_time [OF named_stands, of 4 key_a 0]
    by (simp add: types_after_named n e)
qed


text \<open>C18: The transactions that gave an address a type are listed newest first, one for each record, as many as
  there is room for.\<close>

theorem type_changes_listed:
  assumes "register_stands A ks idx txs None"
    and "found = take (unat n) (map fst (types_after txs k))" "length found \<le> length buf"
  shows "grdb_addresses_type_changes A (Some idx) (Some k) (Some buf) n =
    Some (Inr (word_of_nat (length found), Some (found @ drop (length found) buf)))"
proof -
  have "wf_register ks idx" "ga_ready idx" "type_history A idx = types_after txs"
    using assms(1) by (simp_all add: register_stands_def)
  then show ?thesis using assms(2,3) by (intro type_changes_history) simp_all
qed

theorem type_changes_listed_witness:
  "grdb_addresses_type_changes list_arnm (Some named_register) (Some key_a) (Some [9, 9]) 2 = Some (Inr (1, Some [5, 9]))"
  using type_changes_listed [OF named_stands refl, of 2 key_a "[9, 9]"] by (simp add: types_after_named)

text \<open>C19: The last balance of an address is the number of the last transaction that lists one for it; an address
  no transaction moved, or only one numbered zero, has none.\<close>

theorem last_balance_exact:
  assumes "register_stands A ks idx txs None"
  shows "grdb_addresses_last_balance A (Some idx) (Some k) (Some old) =
    (if balance_after txs k = 0 then (False, Some old) else (True, Some (balance_after txs k)))"
proof -
  have "balance_nr A idx k = balance_after txs k" "ga_ready idx" using assms by (simp_all add: register_stands_def)
  then show ?thesis by (simp add: last_balance_answer)
qed

theorem last_balance_exact_witness:
  "grdb_addresses_last_balance list_arnm (Some named_register) (Some key_b) (Some 1) = (True, Some 5)
   \<and> grdb_addresses_last_balance list_arnm (Some named_register) (Some key_a) (Some 1) = (False, Some 1)"
proof -
  have m: "moved register_tx key_b" "\<not> moved register_tx key_a" "tx_nr register_tx = 5"
    by (simp_all add: moved_def register_tx_def sample_tx_def key_a_def key_b_def zeros_def)
  show ?thesis
    using last_balance_exact [OF named_stands, of key_b 1] last_balance_exact [OF named_stands, of key_a 1]
    by (simp add: balance_after_def m)
qed

end
