(* ===== verification/GRD_Store.thy ===== *)
theory GRD_Store
  imports GRD_Arnm GRD_Data
begin

text \<open>
  The interface of \<open>blockchain/store.c\<close> behind which the transactions of a chain are kept: one call to read
  and two to write. What \<open>user_data\<close> points at is the state of type \<open>'u\<close>, handed to every call and
  returned by it; a call that decodes bytes may fault. A place for an answer is an option: \<open>None\<close> is a NULL pointer, \<open>Some None\<close> a place that
  holds no transaction yet.
\<close>

type_synonym tx_place = "grdr_complete_transaction option option"

record 'u grdb_chain_store =
  st_fetch :: "('u \<Rightarrow> u64 \<Rightarrow> tx_place \<Rightarrow> c_fault + arnm_result \<times> tx_place \<times> 'u) option"
  st_append :: "('u \<Rightarrow> grdr_complete_transaction option \<Rightarrow> arnm_result \<times> grdr_complete_transaction option \<times> 'u) option"
  st_append_serialized :: "('u \<Rightarrow> bytes option \<Rightarrow> c_fault + arnm_result \<times> 'u) option"

definition no_store :: "'u grdb_chain_store" where
  "no_store = \<lparr>st_fetch = None, st_append = None, st_append_serialized = None\<rparr>"

definition grdb_chain_store_is_writable :: "'u grdb_chain_store option \<Rightarrow> bool" where
  "grdb_chain_store_is_writable store = (case store of None \<Rightarrow> False
     | Some st \<Rightarrow> st_append st \<noteq> None \<or> st_append_serialized st \<noteq> None)"

definition grdb_chain_store_is_readable :: "'u grdb_chain_store option \<Rightarrow> bool" where
  "grdb_chain_store_is_readable store = (case store of None \<Rightarrow> False | Some st \<Rightarrow> st_fetch st \<noteq> None)"

definition grdb_chain_store_fetch :: "'u grdb_chain_store option \<Rightarrow> u64 \<Rightarrow> tx_place \<Rightarrow> 'u
    \<Rightarrow> c_fault + arnm_result \<times> tx_place \<times> 'u" where
  "grdb_chain_store_fetch store nr out u =
     (if out = None then Inr (ARNM_ERROR_NULL_POINTER, out, u)
      else case store of None \<Rightarrow> Inr (ARNM_ERROR_INVALID_STATE, out, u)
      | Some st \<Rightarrow> (case st_fetch st of None \<Rightarrow> Inr (ARNM_ERROR_INVALID_STATE, out, u) | Some f \<Rightarrow> f u nr out))"

definition grdb_chain_store_append :: "'u grdb_chain_store option \<Rightarrow> grdr_complete_transaction option \<Rightarrow> 'u
    \<Rightarrow> arnm_result \<times> grdr_complete_transaction option \<times> 'u" where
  "grdb_chain_store_append store tx u =
     (if tx = None then (ARNM_ERROR_NULL_POINTER, tx, u)
      else case store of None \<Rightarrow> (ARNM_ERROR_INVALID_STATE, tx, u)
      | Some st \<Rightarrow> (case st_append st of None \<Rightarrow> (ARNM_ERROR_INVALID_STATE, tx, u) | Some f \<Rightarrow> f u tx))"

text \<open>A memory block without data or of no size is \<open>Some []\<close>.\<close>

definition grdb_chain_store_append_serialized :: "'u grdb_chain_store option \<Rightarrow> bytes option \<Rightarrow> 'u
    \<Rightarrow> c_fault + arnm_result \<times> 'u" where
  "grdb_chain_store_append_serialized store serialized u =
     (if serialized = None \<or> serialized = Some [] then Inr (ARNM_ERROR_NULL_POINTER, u)
      else case store of None \<Rightarrow> Inr (ARNM_ERROR_INVALID_STATE, u)
      | Some st \<Rightarrow> (case st_append_serialized st of None \<Rightarrow> Inr (ARNM_ERROR_INVALID_STATE, u) | Some f \<Rightarrow> f u serialized))"

end
