(* ===== verification/GRD_Chain.thy ===== *)
theory GRD_Chain
  imports GRD_Query GRD_Addresses GRD_Store
begin

text \<open>
  The chain of \<open>blockchain/chain.c\<close>: a row of indices, each over a window of transaction numbers, and one
  register of addresses. Every question is asked of each segment and the answers are put together.
  The memory \<open>source\<close> is the state of type \<open>'p\<close>; the state of the store is passed next to the chain.
\<close>

section \<open>The chain\<close>

abbreviation CHAIN_SEGMENTS_BUCKET_LOG2 :: nat where "CHAIN_SEGMENTS_BUCKET_LOG2 \<equiv> 3"
abbreviation GRDB_SEGMENT_TRANSACTIONS_DEFAULT :: u32 where "GRDB_SEGMENT_TRANSACTIONS_DEFAULT \<equiv> 4194304"

record 'u grdb_chain_options =
  co_segment_transactions :: u32
  co_expected_addresses :: u32
  co_expected_days :: u32
  co_store :: "'u grdb_chain_store option"

record ('s, 'm, 'u) grdb_chain =
  gc_store :: "'u grdb_chain_store"
  gc_segments :: "('s, 'm) grdb_transactions list"
  gc_addresses :: "'m grdb_addresses"
  gc_segment_transactions :: u32
  gc_expected_addresses :: u32
  gc_expected_days :: u32
  gc_first_segment :: u64
  gc_min_tx_nr :: u64
  gc_max_tx_nr :: u64
  gc_transaction_count :: u64
  gc_ready :: bool

definition zero_chain :: "('s, 'm, 'p) arnm_ops \<Rightarrow> ('s, 'm, 'u) grdb_chain" where
  "zero_chain A = \<lparr>gc_store = no_store, gc_segments = [], gc_addresses = zero_addresses A, gc_segment_transactions = 0,
     gc_expected_addresses = 0, gc_expected_days = 0, gc_first_segment = 0, gc_min_tx_nr = 0, gc_max_tx_nr = 0,
     gc_transaction_count = 0, gc_ready = False\<rparr>"

definition segment_of :: "('s, 'm, 'u) grdb_chain \<Rightarrow> u64 \<Rightarrow> u64" where
  "segment_of chain nr = nr div ucast (gc_segment_transactions chain)"

section \<open>Building\<close>

definition grdb_chain_init :: "('s, 'm, 'p) arnm_ops \<Rightarrow> ('s, 'm, 'u) grdb_chain option \<Rightarrow> 'u grdb_chain_options option \<Rightarrow> 'p
    \<Rightarrow> arnm_result \<times> ('s, 'm, 'u) grdb_chain option \<times> 'p" where
  "grdb_chain_init A chain options mem =
     (if chain = None then (ARNM_ERROR_NULL_POINTER, None, mem) else
      let options = (case options of Some o' \<Rightarrow> o'
            | None \<Rightarrow> \<lparr>co_segment_transactions = 0, co_expected_addresses = 0, co_expected_days = 0, co_store = None\<rparr>);
          ch = (zero_chain A)\<lparr>gc_segment_transactions :=
                   (if co_segment_transactions options \<noteq> 0 then co_segment_transactions options else GRDB_SEGMENT_TRANSACTIONS_DEFAULT),
                 gc_expected_addresses := co_expected_addresses options, gc_expected_days := co_expected_days options,
                 gc_store := (case co_store options of None \<Rightarrow> no_store | Some st \<Rightarrow> st)\<rparr>
      in case bvec_init A CHAIN_SEGMENTS_BUCKET_LOG2 mem of (r, mem) \<Rightarrow>
        if r \<noteq> ARNM_SUCCESS then (r, Some (zero_chain A), mem) else
      case grdb_addresses_init A (Some (zero_addresses A)) (Some (co_expected_addresses options)) mem of (r, addresses, mem) \<Rightarrow>
        if r \<noteq> ARNM_SUCCESS then (r, Some (zero_chain A), bvec_free A mem)
        else (case addresses of None \<Rightarrow> (r, Some ch, mem)
          | Some ga \<Rightarrow> (ARNM_SUCCESS, Some (ch\<lparr>gc_addresses := ga, gc_ready := True\<rparr>), mem)))"

definition release_segments :: "('s, 'm, 'p) arnm_ops \<Rightarrow> ('s, 'm, 'u) grdb_chain \<Rightarrow> 'p \<Rightarrow> ('s, 'm, 'u) grdb_chain \<times> 'p" where
  "release_segments A chain mem =
     (chain\<lparr>gc_segments := []\<rparr>,
      fold (\<lambda>seg mem. snd (grdb_transactions_release A (Some seg) mem)) (gc_segments chain) mem)"

definition grdb_chain_release :: "('s, 'm, 'p) arnm_ops \<Rightarrow> ('s, 'm, 'u) grdb_chain option \<Rightarrow> 'p \<Rightarrow> ('s, 'm, 'u) grdb_chain option \<times> 'p" where
  "grdb_chain_release A chain mem =
     (case chain of None \<Rightarrow> (None, mem) | Some ch \<Rightarrow>
      if \<not> gc_ready ch then (chain, mem)
      else case release_segments A ch mem of (ch, mem) \<Rightarrow>
        (Some (zero_chain A), snd (grdb_addresses_release A (Some (gc_addresses ch)) (bvec_free A mem))))"

definition grdb_chain_reset :: "('s, 'm, 'p) arnm_ops \<Rightarrow> ('s, 'm, 'u) grdb_chain option \<Rightarrow> 'p \<Rightarrow> ('s, 'm, 'u) grdb_chain option \<times> 'p" where
  "grdb_chain_reset A chain mem =
     (case chain of None \<Rightarrow> (None, mem) | Some ch \<Rightarrow>
      if \<not> gc_ready ch then (chain, mem)
      else case release_segments A ch mem of (ch, mem) \<Rightarrow>
        (Some (ch\<lparr>gc_addresses := (case grdb_addresses_reset A (Some (gc_addresses ch)) of None \<Rightarrow> gc_addresses ch | Some ga \<Rightarrow> ga),
                  gc_first_segment := 0, gc_min_tx_nr := 0, gc_max_tx_nr := 0, gc_transaction_count := 0\<rparr>), mem))"

definition open_segment :: "('s, 'm, 'p) arnm_ops \<Rightarrow> u64 \<Rightarrow> ('s, 'm, 'u) grdb_chain \<times> 'p
    \<Rightarrow> arnm_result \<times> ('s, 'm, 'u) grdb_chain \<times> 'p" where
  "open_segment A number s = (case s of (ch, mem) \<Rightarrow>
     case bvec_grow A mem of (r, mem) \<Rightarrow>
     if r \<noteq> ARNM_SUCCESS then (r, ch, mem)
     else let options = \<lparr>o_base_tx_nr = segment_of ch number * ucast (gc_segment_transactions ch),
                o_expected_addresses = gc_expected_addresses ch, o_expected_days = gc_expected_days ch\<rparr>
       in case grdb_transactions_init A (Some (zero_index A)) (Some options) mem of (r, slot, mem) \<Rightarrow>
          if r \<noteq> ARNM_SUCCESS then (r, ch, mem)
          else (case slot of None \<Rightarrow> (r, ch, mem)
            | Some seg \<Rightarrow> (ARNM_SUCCESS, ch\<lparr>gc_segments := gc_segments ch @ [seg]\<rparr>, mem)))"

text \<open>The steps of \<open>grdb_chain_add\<close> once the segment is found: the segment takes the transaction unless it holds
  it already, then the register takes it, then the chain counts it.\<close>

definition segment_takes :: "('s, 'm, 'p) arnm_ops \<Rightarrow> ('s, 'm) grdb_transactions \<Rightarrow> grdr_complete_transaction \<Rightarrow> 'p
    \<Rightarrow> c_fault + (arnm_result \<times> ('s, 'm) grdb_transactions option \<times> 'p)" where
  "segment_takes A segment tx mem =
     (if gt_transaction_count segment \<noteq> 0 \<and> gt_max_tx_nr segment = tx_nr tx then Inr (ARNM_SUCCESS, Some segment, mem)
      else grdb_transactions_add A (Some segment) (Some tx) mem)"

definition register_takes :: "('s, 'm, 'p) arnm_ops \<Rightarrow> grdr_complete_transaction \<Rightarrow> ('s, 'm, 'u) grdb_chain \<times> 'p
    \<Rightarrow> arnm_result \<times> ('s, 'm, 'u) grdb_chain \<times> 'p" where
  "register_takes A tx s = (case s of (ch, mem) \<Rightarrow>
     case grdb_addresses_add A (Some (gc_addresses ch)) (Some tx) mem of (r, ga, mem) \<Rightarrow>
     let ch = ch\<lparr>gc_addresses := (case ga of None \<Rightarrow> gc_addresses ch | Some ga \<Rightarrow> ga)\<rparr> in
     if r \<noteq> ARNM_SUCCESS then (r, ch, mem)
     else (ARNM_SUCCESS, ch\<lparr>gc_min_tx_nr := (if gc_transaction_count ch = 0 then tx_nr tx else gc_min_tx_nr ch),
                            gc_max_tx_nr := tx_nr tx, gc_transaction_count := gc_transaction_count ch + 1\<rparr>, mem))"

definition add_at :: "('s, 'm, 'p) arnm_ops \<Rightarrow> nat \<Rightarrow> grdr_complete_transaction \<Rightarrow> ('s, 'm, 'u) grdb_chain \<times> 'p
    \<Rightarrow> c_fault + (arnm_result \<times> ('s, 'm, 'u) grdb_chain \<times> 'p)" where
  "add_at A i tx s = (case s of (ch, mem) \<Rightarrow>
     fbind (segment_takes A (gc_segments ch ! i) tx mem) (\<lambda>(r, seg, mem).
     let ch = ch\<lparr>gc_segments := (case seg of None \<Rightarrow> gc_segments ch | Some seg \<Rightarrow> (gc_segments ch)[i := seg])\<rparr> in
     if r \<noteq> ARNM_SUCCESS then Inr (r, ch, mem) else Inr (register_takes A tx (ch, mem))))"

text \<open>A chain that holds nothing begins at the segment of its first transaction.\<close>

definition begun_at :: "grdr_complete_transaction \<Rightarrow> ('s, 'm, 'u) grdb_chain \<Rightarrow> ('s, 'm, 'u) grdb_chain" where
  "begun_at tx ch = (if gc_transaction_count ch = 0 \<and> gc_segments ch = []
     then ch\<lparr>gc_first_segment := segment_of ch (tx_nr tx)\<rparr> else ch)"

definition place_and_add :: "('s, 'm, 'p) arnm_ops \<Rightarrow> grdr_complete_transaction \<Rightarrow> ('s, 'm, 'u) grdb_chain \<times> 'p
    \<Rightarrow> c_fault + (arnm_result \<times> ('s, 'm, 'u) grdb_chain \<times> 'p)" where
  "place_and_add A tx s = (case s of (ch, mem) \<Rightarrow>
     let number = segment_of ch (tx_nr tx);
         position = number - gc_first_segment ch;
         size' = word_of_nat (length (gc_segments ch)) :: u64
     in if number < gc_first_segment ch then Inr (ARNM_ERROR_INVALID_PARAM, ch, mem)
        else if position > size' then Inr (ARNM_ERROR_INVALID_PARAM, ch, mem)
        else case (if position = size' then open_segment A (tx_nr tx) (ch, mem) else (ARNM_SUCCESS, ch, mem)) of
          (r, ch, mem) \<Rightarrow>
            if r \<noteq> ARNM_SUCCESS then Inr (r, ch, mem)
            else add_at A (unat (ucast position :: u32)) tx (ch, mem))"

definition grdb_chain_add :: "('s, 'm, 'p) arnm_ops \<Rightarrow> ('s, 'm, 'u) grdb_chain option \<Rightarrow> grdr_complete_transaction option \<Rightarrow> 'p
    \<Rightarrow> c_fault + (arnm_result \<times> ('s, 'm, 'u) grdb_chain option \<times> 'p)" where
  "grdb_chain_add A chain tx mem =
     (case (chain, tx) of
        (Some ch, Some tx) \<Rightarrow>
          if \<not> gc_ready ch then Inr (ARNM_ERROR_INVALID_STATE, chain, mem)
          else if tx_nr tx = 0 then Inr (ARNM_ERROR_INVALID_PARAM, chain, mem)
          else if gc_transaction_count ch \<noteq> 0 \<and> tx_nr tx \<noteq> gc_max_tx_nr ch + 1
          then Inr (ARNM_ERROR_INVALID_PARAM, chain, mem)
          else fbind (place_and_add A tx (begun_at tx ch, mem)) (\<lambda>(r, ch, mem). Inr (r, Some ch, mem))
      | _ \<Rightarrow> Inr (ARNM_ERROR_NULL_POINTER, chain, mem))"

section \<open>The transactions themselves\<close>

definition grdb_chain_fetch :: "('s, 'm, 'u) grdb_chain option \<Rightarrow> u64 \<Rightarrow> tx_place \<Rightarrow> 'u
    \<Rightarrow> c_fault + arnm_result \<times> tx_place \<times> 'u" where
  "grdb_chain_fetch chain nr out u =
     (if out = None then Inr (ARNM_ERROR_NULL_POINTER, out, u)
      else case chain of None \<Rightarrow> Inr (ARNM_ERROR_INVALID_STATE, out, u)
      | Some ch \<Rightarrow> if \<not> gc_ready ch then Inr (ARNM_ERROR_INVALID_STATE, out, u)
                   else grdb_chain_store_fetch (Some (gc_store ch)) nr out u)"

text \<open>The loop of \<open>grdb_chain_load\<close>; it might not end, which the value \<open>None\<close> would be. The count is the one of
  the transactions added before.\<close>

partial_function (option) load_loop :: "('s, 'm, 'p) arnm_ops \<Rightarrow> u64 \<Rightarrow> u64 \<Rightarrow> u64 \<Rightarrow> ('s, 'm, 'u) grdb_chain \<Rightarrow> 'u \<Rightarrow> 'p
    \<Rightarrow> (c_fault + (arnm_result \<times> u64 \<times> ('s, 'm, 'u) grdb_chain \<times> 'u \<times> 'p)) option" where
  "load_loop A to_nr number count ch u mem =
     (if to_nr \<noteq> 0 \<and> number > to_nr then Some (Inr (ARNM_SUCCESS, count, ch, u, mem))
      else case grdb_chain_store_fetch (Some (gc_store ch)) number (Some None) u of Inl e \<Rightarrow> Some (Inl e) | Inr (r, tx, u) \<Rightarrow>
        if r = ARNM_ERROR_ARRAY_INDEX_OUT_OF_BOUNDS \<and> to_nr = 0 then Some (Inr (ARNM_SUCCESS, count, ch, u, mem))
        else if r \<noteq> ARNM_SUCCESS then Some (Inr (r, count, ch, u, mem))
        else case grdb_chain_add A (Some ch) (case tx of None \<Rightarrow> None | Some t \<Rightarrow> t) mem of
          Inl e \<Rightarrow> Some (Inl e)
        | Inr (r, ch', mem) \<Rightarrow>
            let ch = (case ch' of None \<Rightarrow> ch | Some c \<Rightarrow> c) in
            if r \<noteq> ARNM_SUCCESS then Some (Inr (r, count, ch, u, mem))
            else load_loop A to_nr (number + 1) (count + 1) ch u mem)"

definition grdb_chain_load :: "('s, 'm, 'p) arnm_ops \<Rightarrow> ('s, 'm, 'u) grdb_chain option \<Rightarrow> u64 \<Rightarrow> u64 \<Rightarrow> u64 option \<Rightarrow> 'u \<Rightarrow> 'p
    \<Rightarrow> (c_fault + (arnm_result \<times> u64 option \<times> ('s, 'm, 'u) grdb_chain option \<times> 'u \<times> 'p)) option" where
  "grdb_chain_load A chain from_nr to_nr loaded u mem =
     (let loaded = map_option (\<lambda>_. 0) loaded in
      case chain of None \<Rightarrow> Some (Inr (ARNM_ERROR_INVALID_STATE, loaded, chain, u, mem))
      | Some ch \<Rightarrow>
        if \<not> gc_ready ch then Some (Inr (ARNM_ERROR_INVALID_STATE, loaded, chain, u, mem))
        else if \<not> grdb_chain_store_is_readable (Some (gc_store ch)) then Some (Inr (ARNM_ERROR_INVALID_STATE, loaded, chain, u, mem))
        else let from_nr = (if from_nr = 0 then 1 else from_nr) in
          if to_nr \<noteq> 0 \<and> to_nr < from_nr then Some (Inr (ARNM_ERROR_INVALID_PARAM, loaded, chain, u, mem))
          else map_option (\<lambda>r. fbind r (\<lambda>(r, count, ch, u, mem). Inr (r, map_option (\<lambda>_. count) loaded, Some ch, u, mem)))
                 (load_loop A to_nr from_nr 0 ch u mem))"

definition grdb_chain_is_writable :: "('s, 'm, 'u) grdb_chain option \<Rightarrow> bool" where
  "grdb_chain_is_writable chain = (case chain of None \<Rightarrow> False
     | Some ch \<Rightarrow> gc_ready ch \<and> grdb_chain_store_is_writable (Some (gc_store ch)))"

section \<open>Asking\<close>

text \<open>The loops over the row, over the answer of one segment.\<close>

fun count_loop :: "('g \<Rightarrow> c_fault + (arnm_result \<times> u64 option)) \<Rightarrow> 'g list \<Rightarrow> u64 \<Rightarrow> c_fault + (arnm_result \<times> u64)" where
  "count_loop ask [] matched = Inr (ARNM_SUCCESS, matched)"
| "count_loop ask (seg # segs) matched = fbind (ask seg) (\<lambda>(r, here).
     if r \<noteq> ARNM_SUCCESS then Inr (r, matched)
     else count_loop ask segs (matched + (case here of None \<Rightarrow> 0 | Some n \<Rightarrow> n)))"

definition grdb_chain_count :: "('s, 'm, 'p) arnm_ops \<Rightarrow> ('s, 'm, 'u) grdb_chain option \<Rightarrow> grdb_transactions_filter option
    \<Rightarrow> u64 option \<Rightarrow> c_fault + (arnm_result \<times> u64 option)" where
  "grdb_chain_count A chain filter_in out =
     (case (chain, filter_in, out) of
        (Some ch, Some f, Some _) \<Rightarrow>
          if \<not> gc_ready ch then Inr (ARNM_ERROR_INVALID_STATE, out)
          else fbind (count_loop (\<lambda>seg. grdb_transactions_count A (Some seg) (Some f) (Some 0)) (gc_segments ch) 0)
            (\<lambda>(r, matched). Inr (r, if r = ARNM_SUCCESS then Some matched else out))
      | _ \<Rightarrow> Inr (ARNM_ERROR_NULL_POINTER, out))"

text \<open>The state of the loop over pages: what is left to skip and to fill, what was taken, the matches so far and
  the buffer.\<close>

fun listing_loop :: "('g \<Rightarrow> u32 \<Rightarrow> u32 \<Rightarrow> u64 list option \<Rightarrow> c_fault + (arnm_result \<times> u64 list option \<times> u32 option \<times> u64 option))
    \<Rightarrow> 'g list \<Rightarrow> u32 \<Rightarrow> u32 \<Rightarrow> u32 \<Rightarrow> u64 \<Rightarrow> u64 list option \<Rightarrow> c_fault + (arnm_result \<times> u32 \<times> u64 \<times> u64 list option)" where
  "listing_loop ask [] skip room taken matches out = Inr (ARNM_SUCCESS, taken, matches, out)"
| "listing_loop ask (seg # segs) skip room taken matches out =
     fbind (ask seg skip room (if room \<noteq> 0 then map_option (drop (unat taken)) out else None)) (\<lambda>(r, part, written, count).
     let out = (case (out, part) of (Some b, Some p) \<Rightarrow> Some (take (unat taken) b @ p) | _ \<Rightarrow> out);
         here_written = (case written of None \<Rightarrow> 0 | Some w \<Rightarrow> w);
         here_count = (case count of None \<Rightarrow> 0 | Some c \<Rightarrow> c)
     in if r \<noteq> ARNM_SUCCESS then Inr (r, taken, matches, out)
        else listing_loop ask segs (if ucast skip \<le> here_count then 0 else skip - ucast here_count)
               (room - here_written) (taken + here_written) (matches + here_count) out)"

definition grdb_chain_listing :: "('s, 'm, 'p) arnm_ops \<Rightarrow> ('s, 'm, 'u) grdb_chain option \<Rightarrow> grdb_transactions_filter option
    \<Rightarrow> u32 \<Rightarrow> u32 \<Rightarrow> bool \<Rightarrow> u64 list option \<Rightarrow> u32 option \<Rightarrow> u64 option
    \<Rightarrow> c_fault + (arnm_result \<times> u64 list option \<times> u32 option \<times> u64 option)" where
  "grdb_chain_listing A chain filter_in skip n descending out written count =
     (case (chain, filter_in) of
        (Some ch, Some f) \<Rightarrow>
          if written = None \<or> count = None \<or> n \<noteq> 0 \<and> out = None then Inr (ARNM_ERROR_NULL_POINTER, out, written, count)
          else if \<not> gc_ready ch then Inr (ARNM_ERROR_INVALID_STATE, out, written, count)
          else if n > GRDB_PAGE_MAX then Inr (ARNM_ERROR_INVALID_PARAM, out, written, count)
          else fbind (listing_loop
              (\<lambda>seg skip room out. grdb_transactions_listing A (Some seg) (Some f) skip room descending out (Some 0) (Some 0))
              ((if descending then rev else id) (gc_segments ch)) skip n 0 0 out)
            (\<lambda>(r, taken, matches, out). Inr (if r = ARNM_SUCCESS then (r, out, Some taken, Some matches) else (r, out, written, count)))
      | _ \<Rightarrow> Inr (ARNM_ERROR_NULL_POINTER, out, written, count))"

fun newest_loop :: "('g \<Rightarrow> u64 option \<Rightarrow> c_fault + (bool \<times> u64 option)) \<Rightarrow> 'g list \<Rightarrow> u64 option \<Rightarrow> c_fault + (bool \<times> u64 option)" where
  "newest_loop ask [] out = Inr (False, out)"
| "newest_loop ask (seg # segs) out = fbind (ask seg out) (\<lambda>(found, out).
     if found then Inr (True, out) else newest_loop ask segs out)"

definition grdb_chain_newest :: "('s, 'm, 'p) arnm_ops \<Rightarrow> ('s, 'm, 'u) grdb_chain option \<Rightarrow> grdb_transactions_filter option
    \<Rightarrow> u64 option \<Rightarrow> c_fault + (bool \<times> u64 option)" where
  "grdb_chain_newest A chain filter_in out =
     (case (chain, filter_in, out) of
        (Some ch, Some f, Some _) \<Rightarrow>
          if \<not> gc_ready ch then Inr (False, out)
          else newest_loop (\<lambda>seg out. grdb_transactions_newest A (Some seg) (Some f) out) (rev (gc_segments ch)) out
      | _ \<Rightarrow> Inr (False, out))"

text \<open>The span of the segments looked at so far, \<open>None\<close> while none was found.\<close>

fun days_loop :: "('g \<Rightarrow> c_fault + (bool \<times> u64 option \<times> u64 option)) \<Rightarrow> 'g list \<Rightarrow> (u64 \<times> u64) option
    \<Rightarrow> c_fault + (u64 \<times> u64) option" where
  "days_loop ask [] span = Inr span"
| "days_loop ask (seg # segs) span = fbind (ask seg) (\<lambda>(found, lo, hi).
     case (found, lo, hi) of
       (True, Some here_min, Some here_max) \<Rightarrow>
         days_loop ask segs (case span of None \<Rightarrow> Some (here_min, here_max)
           | Some (lowest, highest) \<Rightarrow> Some (if here_min < lowest then here_min else lowest,
                                             if here_max > highest then here_max else highest))
     | _ \<Rightarrow> days_loop ask segs span)"

definition grdb_chain_range_of_days :: "('s, 'm, 'u) grdb_chain option \<Rightarrow> i64 \<Rightarrow> i64 \<Rightarrow> u64 option \<Rightarrow> u64 option
    \<Rightarrow> c_fault + (bool \<times> u64 option \<times> u64 option)" where
  "grdb_chain_range_of_days chain from_second to_second min_out max_out =
     (case chain of None \<Rightarrow> Inr (False, min_out, max_out) | Some ch \<Rightarrow>
      if \<not> gc_ready ch \<or> min_out = None \<or> max_out = None then Inr (False, min_out, max_out)
      else fbind (days_loop (\<lambda>seg. grdb_transactions_range_of_days (Some seg) from_second to_second (Some 0) (Some 0))
                    (gc_segments ch) None) (\<lambda>span.
        case span of None \<Rightarrow> Inr (False, min_out, max_out)
        | Some (lowest, highest) \<Rightarrow> Inr (True, Some lowest, Some highest)))"

section \<open>What the chain says about an address\<close>

definition grdb_chain_address_type :: "('s, 'm, 'p) arnm_ops \<Rightarrow> ('s, 'm, 'u) grdb_chain option \<Rightarrow> bytes option \<Rightarrow> grdt_address" where
  "grdb_chain_address_type A chain key =
     (case chain of None \<Rightarrow> GRDT_ADDRESS_NONE | Some ch \<Rightarrow> grdb_addresses_type A (Some (gc_addresses ch)) key)"

definition grdb_chain_address_type_at :: "('s, 'm, 'p) arnm_ops \<Rightarrow> ('s, 'm, 'u) grdb_chain option \<Rightarrow> bytes option \<Rightarrow> u64
    \<Rightarrow> grdt_address option \<Rightarrow> (bool \<times> grdt_address option) option" where
  "grdb_chain_address_type_at A chain key at_nr out =
     (case chain of None \<Rightarrow> Some (False, out) | Some ch \<Rightarrow> grdb_addresses_type_at A (Some (gc_addresses ch)) key at_nr out)"

definition grdb_chain_address_last_balance :: "('s, 'm, 'p) arnm_ops \<Rightarrow> ('s, 'm, 'u) grdb_chain option \<Rightarrow> bytes option
    \<Rightarrow> u64 option \<Rightarrow> bool \<times> u64 option" where
  "grdb_chain_address_last_balance A chain key out =
     (case chain of None \<Rightarrow> (False, out) | Some ch \<Rightarrow> grdb_addresses_last_balance A (Some (gc_addresses ch)) key out)"

definition grdb_chain_knows_address :: "('s, 'm, 'p) arnm_ops \<Rightarrow> ('s, 'm, 'u) grdb_chain option \<Rightarrow> bytes option \<Rightarrow> bool" where
  "grdb_chain_knows_address A chain key =
     (case chain of None \<Rightarrow> False | Some ch \<Rightarrow> grdb_addresses_knows A (Some (gc_addresses ch)) key)"

section \<open>Reading what is in it\<close>

definition grdb_chain_size :: "('s, 'm, 'u) grdb_chain option \<Rightarrow> u64" where
  "grdb_chain_size chain = (case chain of None \<Rightarrow> 0 | Some ch \<Rightarrow> gc_transaction_count ch)"

definition grdb_chain_segment_count :: "('s, 'm, 'u) grdb_chain option \<Rightarrow> u32" where
  "grdb_chain_segment_count chain =
     (case chain of None \<Rightarrow> 0 | Some ch \<Rightarrow> if gc_ready ch then word_of_nat (length (gc_segments ch)) else 0)"

definition grdb_chain_segment :: "('s, 'm, 'u) grdb_chain option \<Rightarrow> u32 \<Rightarrow> ('s, 'm) grdb_transactions option" where
  "grdb_chain_segment chain position =
     (case chain of None \<Rightarrow> None | Some ch \<Rightarrow>
      if \<not> gc_ready ch \<or> position \<ge> word_of_nat (length (gc_segments ch)) then None
      else Some (gc_segments ch ! unat position))"

end
