(* ===== verification/GRD_Row.thy ===== *)
theory GRD_Row
  imports GRD_Chain
begin

text \<open>
  What a chain answers. The interface \<open>segment_answers\<close> is what the chain relies on of a segment: its count, its
  page and its newest match are those of a list of transactions. Inside it the loops over the row are shown to
  answer for the lists end to end; \<open>grdb_transactions\<close> provides it. Then adding to the chain
  is shown to refine appending to one list, and the loading loop to end.
\<close>

section \<open>A row of segments\<close>

locale segment_answers =
  fixes holding :: "'g \<Rightarrow> grdr_complete_transaction list \<Rightarrow> bool"
    and pick :: "grdr_complete_transaction \<Rightarrow> bool"
    and count_in :: "'g \<Rightarrow> c_fault + (arnm_result \<times> u64 option)"
    and page_in :: "bool \<Rightarrow> 'g \<Rightarrow> u32 \<Rightarrow> u32 \<Rightarrow> u64 list option
      \<Rightarrow> c_fault + (arnm_result \<times> u64 list option \<times> u32 option \<times> u64 option)"
    and newest_in :: "'g \<Rightarrow> u64 option \<Rightarrow> c_fault + (bool \<times> u64 option)"
  assumes few: "holding g ts \<Longrightarrow> length ts < 4294967296"
    and count_law: "holding g ts \<Longrightarrow> count_in g = Inr (ARNM_SUCCESS, Some (word_of_nat (length (filter pick ts))))"
    and page_law: "holding g ts \<Longrightarrow> n \<le> GRDB_PAGE_MAX \<Longrightarrow> (case out of None \<Rightarrow> n = 0 | Some b \<Rightarrow> unat n \<le> length b) \<Longrightarrow>
      page_in d g skip n out = (let page = list_page (unat skip) (unat n) d (map tx_nr (filter pick ts)) in
        Inr (ARNM_SUCCESS, map_option (\<lambda>b. page @ drop (length page) b) out, Some (word_of_nat (length page)),
             Some (word_of_nat (length (filter pick ts)))))"
    and newest_law: "holding g ts \<Longrightarrow> newest_in g (Some x)
      = Inr (if filter pick ts = [] then (False, Some x) else (True, Some (tx_nr (last (filter pick ts)))))"
begin

lemma count_row:
  assumes "list_all2 holding gs tss"
  shows "count_loop count_in gs t = Inr (ARNM_SUCCESS, t + word_of_nat (length (filter pick (concat tss))))"
  using assms by (induction gs tss arbitrary: t rule: list_all2_induct) (simp_all add: count_law)

lemma newest_row:
  assumes "list_all2 holding gs tss"
  shows "newest_loop newest_in (rev gs) (Some x) = Inr (if filter pick (concat tss) = [] then (False, Some x)
    else (True, Some (tx_nr (last (filter pick (concat tss))))))"
  using assms
proof (induction gs arbitrary: tss rule: rev_induct)
  case (snoc g gs)
  obtain tss' ts where t: "tss = tss' @ [ts]" "list_all2 holding gs tss'" "holding g ts"
    using snoc.prems by (auto simp: list_all2_append1 list_all2_Cons1)
  show ?case using snoc.IH [OF t(2)] newest_law [OF t(3)] t(1) by (simp add: last_append)
qed simp

definition directed :: "bool \<Rightarrow> grdr_complete_transaction list \<Rightarrow> u64 list" where
  "directed d ts = (if d then rev else id) (map tx_nr (filter pick ts))"

lemma page_directed: "list_page s n d (map tx_nr (filter pick ts)) = take n (drop s (directed d ts))"
  by (simp add: list_page_def directed_def)

lemma split_page: "take n (drop s (xs @ ys)) = take n (drop s xs) @ take (n - length (take n (drop s xs))) (drop (s - length xs) ys)"
  by (cases "length xs - s \<le> n") (simp_all add: min_def)

lemma buffer_step:
  assumes "t + length p + length q \<le> length b"
  shows "take (t + length p) (take t b @ p @ drop (t + length p) b) @ q @ drop (t + length p + length q) (take t b @ p @ drop (t + length p) b)
    = take t b @ (p @ q) @ drop (t + length (p @ q)) b"
proof -
  have "length (take t b) = t" using assms by simp
  then show ?thesis using assms by (simp add: ac_simps)
qed

lemma page_loop:
  assumes "list_all2 holding gs tss" "unat taken + unat room \<le> 1000" "unat taken + unat room \<le> length b"
  shows "listing_loop (page_in d) gs skip room taken matches (Some b) =
    (let page = take (unat room) (drop (unat skip) (concat (map (directed d) tss))) in
     Inr (ARNM_SUCCESS, taken + word_of_nat (length page), matches + word_of_nat (length (filter pick (concat tss))),
          Some (take (unat taken) b @ page @ drop (unat taken + length page) b)))"
  using assms
proof (induction gs tss arbitrary: skip room taken matches b rule: list_all2_induct)
  case Nil
  then show ?case by simp
next
  case (Cons g gs ts tss)
  let ?m = "length (filter pick ts)" and ?page = "take (unat room) (drop (unat skip) (directed d ts))"
  let ?w = "word_of_nat (length ?page) :: u32" and ?c = "word_of_nat ?m :: u64"
  let ?b = "take (unat taken) b @ ?page @ drop (unat taken + length ?page) b"
  have ml: "length (directed d ts) = ?m" by (simp add: directed_def)
  have m: "?m < 4294967296" using few [OF Cons.hyps(1)] length_filter_le [of pick ts] by linarith
  have uc: "unat ?c = ?m" using m by (simp add: unsigned_of_nat take_bit_nat_eq_self)
  have pl: "length ?page \<le> unat room" by simp
  have uw: "unat ?w = length ?page" using pl Cons.prems(1) by (simp add: unsigned_of_nat take_bit_nat_eq_self)
  have skip': "unat (if ucast skip \<le> ?c then 0 else skip - ucast ?c) = unat skip - ?m"
  proof (cases "unat skip \<le> ?m")
    case False
    then have "unat (ucast ?c :: u32) \<le> unat skip" using m uc by (simp add: unsigned_ucast_eq take_bit_nat_eq_self)
    then show ?thesis using False m uc by (simp add: word_le_nat_alt unat_sub_if' unsigned_ucast_eq take_bit_nat_eq_self)
  qed (simp add: word_le_nat_alt uc)
  have room': "unat (room - ?w) = unat room - length ?page" using pl uw by (simp add: unat_sub_if')
  have taken': "unat (taken + ?w) = unat taken + length ?page"
    using pl uw Cons.prems(1) by (simp add: unat_word_ariths)
  define part where "part = (if room \<noteq> 0 then Some (?page @ drop (length ?page) (drop (unat taken) b)) else None)"
  have out: "(case part of None \<Rightarrow> Some b | Some p \<Rightarrow> Some (take (unat taken) b @ p)) = Some ?b"
    by (cases "room = 0") (simp_all add: part_def add.commute)
  have ask: "page_in d g skip room (if room \<noteq> 0 then map_option (drop (unat taken)) (Some b) else None) =
      Inr (ARNM_SUCCESS, part, Some ?w, Some ?c)"
  proof -
    have n: "room \<le> GRDB_PAGE_MAX" using Cons.prems(1) by (simp add: word_le_nat_alt)
    show ?thesis
      using page_law [OF Cons.hyps(1) n, of "if room \<noteq> 0 then Some (drop (unat taken) b) else None" d skip] Cons.prems(2)
      by (auto simp: page_directed part_def Let_def simp del: drop_drop)
  qed
  have len: "length ?b = length b" using pl Cons.prems(2) by simp
  have "unat (taken + ?w) + unat (room - ?w) \<le> 1000" "unat (taken + ?w) + unat (room - ?w) \<le> length ?b"
    using Cons.prems pl len unfolding taken' room' by linarith+
  note IH = Cons.IH [OF this, of "if ucast skip \<le> ?c then 0 else skip - ucast ?c" "matches + ?c"]
  let ?next = "take (unat room - length ?page) (drop (unat skip - ?m) (concat (map (directed d) tss)))"
  have page: "take (unat room) (drop (unat skip) (concat (map (directed d) (ts # tss)))) = ?page @ ?next"
    by (simp add: split_page ml del: take_append drop_append length_take length_drop)
  have step: "listing_loop (page_in d) (g # gs) skip room taken matches (Some b) =
      listing_loop (page_in d) gs (if ucast skip \<le> ?c then 0 else skip - ucast ?c) (room - ?w) (taken + ?w) (matches + ?c) (Some ?b)"
    by (simp only: listing_loop.simps ask fbind_simps prod.case option.case Let_def out refl not_True_eq_False if_False)
  have buf: "take (unat taken + length ?page) ?b @ ?next @ drop (unat taken + length ?page + length ?next) ?b
      = take (unat taken) b @ (?page @ ?next) @ drop (unat taken + length (?page @ ?next)) b"
  proof (rule buffer_step)
    have "length ?next \<le> unat room - length ?page" by simp
    then have "length ?page + length ?next \<le> unat room" using pl by linarith
    then show "unat taken + length ?page + length ?next \<le> length b" using Cons.prems(2) by linarith
  qed
  show ?case
    unfolding step IH page taken' room' skip' Let_def buf
    by (simp only: length_append of_nat_add add.assoc concat.simps filter_append)
qed

end

section \<open>The index is such a segment\<close>

definition segment_holding :: "('s, 'm, 'p) arnm_ops \<Rightarrow> ('s \<Rightarrow> nat set) \<Rightarrow> ('m \<Rightarrow> bytes list) \<Rightarrow> grdb_transactions_filter \<Rightarrow> bytes
    \<Rightarrow> ('s, 'm) grdb_transactions \<Rightarrow> grdr_complete_transaction list \<Rightarrow> bool" where
  "segment_holding A els ks f c seg ts \<longleftrightarrow> arnm_laws A els ks \<and> wf_filter f \<and> days_readable f
     \<and> (\<forall>t \<in> set ts. tx_community_uuid t = c) \<and> (\<exists>p. stands_for A els ks seg ts p \<and> days_in_order (with_pending ts p))"

lemma matching_community: "\<forall>t \<in> set ts. tx_community_uuid t = c \<Longrightarrow> matching f ts = filter (tx_matches c f) ts"
  by (cases ts) (simp_all add: matching_def chain_uuid_def)

interpretation row: segment_answers "segment_holding A els ks f c" "tx_matches c f"
  "\<lambda>seg. grdb_transactions_count A (Some seg) (Some f) (Some 0)"
  "\<lambda>d seg skip n out. grdb_transactions_listing A (Some seg) (Some f) skip n d out (Some 0) (Some 0)"
  "\<lambda>seg out. grdb_transactions_newest A (Some seg) (Some f) out" for A els ks f c
proof
  fix g ts assume h: "segment_holding A els ks f c g ts"
  then obtain p where p: "stands_for A els ks g ts p" "days_in_order (with_pending ts p)" "arnm_laws A els ks" "wf_filter f" "days_readable f"
    and m: "matching f ts = filter (tx_matches c f) ts" by (auto simp: segment_holding_def matching_community)
  show "length ts < 4294967296" using p(1) unat_lt_32 [of "gt_transaction_count g"] by (simp add: stands_for_def)
  show "grdb_transactions_count A (Some g) (Some f) (Some 0) = Inr (ARNM_SUCCESS, Some (word_of_nat (length (filter (tx_matches c f) ts))))"
    using index_count [OF p(3,1,2,4,5)] m by simp
  show "grdb_transactions_listing A (Some g) (Some f) skip n d out (Some 0) (Some 0) =
      (let page = list_page (unat skip) (unat n) d (map tx_nr (filter (tx_matches c f) ts)) in
        Inr (ARNM_SUCCESS, map_option (\<lambda>b. page @ drop (length page) b) out, Some (word_of_nat (length page)),
             Some (word_of_nat (length (filter (tx_matches c f) ts)))))"
    if "n \<le> GRDB_PAGE_MAX" "case out of None \<Rightarrow> n = 0 | Some b \<Rightarrow> unat n \<le> length b" for n out d skip
    using index_listing [OF p(3,1,2,4,5) that] m by simp
  show "grdb_transactions_newest A (Some g) (Some f) (Some x) = Inr (if filter (tx_matches c f) ts = [] then (False, Some x)
      else (True, Some (tx_nr (last (filter (tx_matches c f) ts)))))" for x
    using index_newest [OF p(3,1,2,4,5)] m by simp
qed

section \<open>What a chain stands for\<close>

definition seg_nr :: "u32 \<Rightarrow> grdr_complete_transaction \<Rightarrow> nat" where
  "seg_nr sz tx = unat (tx_nr tx) div unat sz"

text \<open>Segment number \<open>n\<close> stands for the transactions \<open>ts\<close>, all of them in its window, and so is the one that
  may be pending.\<close>

definition seg_stands :: "('s, 'm, 'p) arnm_ops \<Rightarrow> ('s \<Rightarrow> nat set) \<Rightarrow> ('m \<Rightarrow> bytes list) \<Rightarrow> u32 \<Rightarrow> nat \<Rightarrow> ('s, 'm) grdb_transactions
    \<Rightarrow> grdr_complete_transaction list \<Rightarrow> grdr_complete_transaction option \<Rightarrow> bool" where
  "seg_stands A els ks sz n seg ts p \<longleftrightarrow> stands_for A els ks seg ts p \<and> unat (gt_base_tx_nr seg) = n * unat sz
     \<and> (\<forall>t \<in> set ts. seg_nr sz t = n) \<and> (\<forall>q. p = Some q \<longrightarrow> seg_nr sz q = n)"

text \<open>The segments before the last are complete.\<close>

fun row_stands :: "('s, 'm, 'p) arnm_ops \<Rightarrow> ('s \<Rightarrow> nat set) \<Rightarrow> ('m \<Rightarrow> bytes list) \<Rightarrow> u32 \<Rightarrow> nat \<Rightarrow> ('s, 'm) grdb_transactions list
    \<Rightarrow> grdr_complete_transaction list list \<Rightarrow> bool" where
  "row_stands A els ks sz n [] [] = True"
| "row_stands A els ks sz n (seg # segs) (ts # tss) = (seg_stands A els ks sz n seg ts None \<and> ts \<noteq> []
     \<and> row_stands A els ks sz (Suc n) segs tss)"
| "row_stands A els ks sz n _ _ = False"

lemma row_stands_Nil [simp]:
  "row_stands A els ks sz n [] tss \<longleftrightarrow> tss = []" "row_stands A els ks sz n segs [] \<longleftrightarrow> segs = []"
  by (cases tss; simp) (cases segs; simp)

lemma row_stands_snoc:
  "row_stands A els ks sz n (segs @ [seg]) (tss @ [ts]) \<longleftrightarrow>
     row_stands A els ks sz n segs tss \<and> seg_stands A els ks sz (n + length segs) seg ts None \<and> ts \<noteq> []"
proof (induction segs arbitrary: n tss)
  case Nil
  then show ?case by (cases tss) auto
next
  case (Cons s segs)
  then show ?case by (cases tss) auto
qed

lemma row_stands_length: "row_stands A els ks sz n segs tss \<Longrightarrow> length segs = length tss \<and> length segs \<le> length (concat tss)"
  by (induction A els ks sz n segs tss rule: row_stands.induct) (auto simp: Suc_le_eq neq_Nil_conv)

definition shown :: "grdr_complete_transaction list \<Rightarrow> grdr_complete_transaction option \<Rightarrow> bool \<Rightarrow> grdr_complete_transaction list" where
  "shown txs pend half = (if half then with_pending txs pend else txs)"

text \<open>\<open>txs\<close> are the transactions of the chain. \<open>pend\<close> is one that was refused partway and is to be tried again;
  \<open>half\<close> says that its segment holds it already and only the register does not.\<close>

definition run_of :: "grdr_complete_transaction list \<Rightarrow> grdr_complete_transaction option \<Rightarrow> bool" where
  "run_of txs pend \<longleftrightarrow> (\<forall>i < length txs. unat (tx_nr (txs ! i)) = unat (tx_nr (hd txs)) + i)
     \<and> (\<forall>p. pend = Some p \<longrightarrow> txs \<noteq> [] \<longrightarrow> unat (tx_nr p) = unat (tx_nr (last txs)) + 1)"

definition row_of :: "('s, 'm, 'p) arnm_ops \<Rightarrow> ('s \<Rightarrow> nat set) \<Rightarrow> ('m \<Rightarrow> bytes list) \<Rightarrow> ('s, 'm, 'u) grdb_chain
    \<Rightarrow> grdr_complete_transaction list \<Rightarrow> grdr_complete_transaction option \<Rightarrow> bool" where
  "row_of A els ks ch all pend \<longleftrightarrow> (\<exists>front seg tss ts p. gc_segments ch = front @ [seg]
     \<and> row_stands A els ks (gc_segment_transactions ch) (unat (gc_first_segment ch)) front tss
     \<and> seg_stands A els ks (gc_segment_transactions ch) (unat (gc_first_segment ch) + length front) seg ts p
     \<and> (p = None \<or> p = pend) \<and> concat tss @ ts = all
     \<and> (ts = [] \<longrightarrow> (\<exists>q. pend = Some q \<and> seg_nr (gc_segment_transactions ch) q = unat (gc_first_segment ch) + length front)))"

definition head_stands :: "('s, 'm, 'u) grdb_chain \<Rightarrow> grdr_complete_transaction list \<Rightarrow> bool" where
  "head_stands ch txs \<longleftrightarrow> gc_ready ch \<and> gc_segment_transactions ch \<noteq> 0 \<and> unat (gc_transaction_count ch) = length txs
     \<and> (txs \<noteq> [] \<longrightarrow> gc_min_tx_nr ch = tx_nr (hd txs) \<and> gc_max_tx_nr ch = tx_nr (last txs))"

definition chain_stands :: "('s, 'm, 'p) arnm_ops \<Rightarrow> ('s \<Rightarrow> nat set) \<Rightarrow> ('m \<Rightarrow> bytes list) \<Rightarrow> ('s, 'm, 'u) grdb_chain
    \<Rightarrow> grdr_complete_transaction list \<Rightarrow> grdr_complete_transaction option \<Rightarrow> bool \<Rightarrow> bool" where
  "chain_stands A els ks ch txs pend half \<longleftrightarrow>
     head_stands ch txs \<and> run_of txs pend \<and> (half \<longrightarrow> pend \<noteq> None)
     \<and> (\<exists>q. (q = None \<or> q = pend) \<and> register_stands A ks (gc_addresses ch) txs q)
     \<and> (gc_segments ch = [] \<and> txs = [] \<and> \<not> half \<or> row_of A els ks ch (shown txs pend half) pend)"

section \<open>Adding\<close>

lemma open_segment_opens:
  assumes L: "arnm_laws A els ks" and sz: "gc_segment_transactions ch \<noteq> 0"
    and o: "open_segment A (tx_nr tx) (ch, mem) = (r, ch', mem')"
  shows "if r = ARNM_SUCCESS then \<exists>seg. ch' = ch\<lparr>gc_segments := gc_segments ch @ [seg]\<rparr>
           \<and> seg_stands A els ks (gc_segment_transactions ch) (seg_nr (gc_segment_transactions ch) tx) seg [] None
         else ch' = ch"
proof -
  let ?sz = "gc_segment_transactions ch"
  let ?o = "\<lparr>o_base_tx_nr = segment_of ch (tx_nr tx) * ucast ?sz, o_expected_addresses = gc_expected_addresses ch,
     o_expected_days = gc_expected_days ch\<rparr>"
  obtain r1 m1 where g: "bvec_grow A mem = (r1, m1)" by fastforce
  obtain r2 i m2 where n: "grdb_transactions_init A (Some (zero_index A)) (Some ?o) m1 = (r2, i, m2)" by (metis prod_cases3)
  from init_stands [OF L n] obtain j where j: "i = Some j"
    "r2 = ARNM_SUCCESS \<Longrightarrow> stands_for A els ks j [] None \<and> gt_base_tx_nr j = o_base_tx_nr ?o" by (auto split: if_splits)
  have d: "unat (segment_of ch (tx_nr tx)) = seg_nr ?sz tx" by (simp add: segment_of_def seg_nr_def unat_div)
  have "seg_nr ?sz tx * unat ?sz \<le> unat (tx_nr tx)" by (simp add: seg_nr_def)
  then have "seg_nr ?sz tx * unat ?sz < 18446744073709551616" using unat_lt_64 [of "tx_nr tx"] by linarith
  then have b: "unat (o_base_tx_nr ?o) = seg_nr ?sz tx * unat ?sz" by (simp add: d unat_mult_small)
  show ?thesis
  proof (cases "r1 = ARNM_SUCCESS \<and> r2 = ARNM_SUCCESS")
    case True
    then have "r = ARNM_SUCCESS" "ch' = ch\<lparr>gc_segments := gc_segments ch @ [j]\<rparr>"
      using o g n j(1) by (simp_all add: open_segment_def Let_def)
    moreover have "seg_stands A els ks ?sz (seg_nr ?sz tx) j [] None" using j(2) True b by (simp add: seg_stands_def)
    ultimately show ?thesis by auto
  next
    case False
    then have "r \<noteq> ARNM_SUCCESS" "ch' = ch" using o g n by (auto simp: open_segment_def Let_def split: if_splits)
    then show ?thesis by simp
  qed
qed

lemma shown_half: "shown txs (Some tx) True = txs @ [tx]" "shown txs p False = txs"
  by (simp_all add: shown_def with_pending_def)

lemma run_snoc:
  assumes "run_of txs pend" "txs \<noteq> [] \<longrightarrow> unat (tx_nr tx) = unat (tx_nr (last txs)) + 1"
  shows "run_of (txs @ [tx]) None" "run_of txs (Some tx)"
proof -
  have "unat (tx_nr tx) = unat (tx_nr (hd txs)) + length txs" if "txs \<noteq> []"
    using assms that by (simp add: run_of_def last_conv_nth)
  then show "run_of (txs @ [tx]) None" using assms(1) by (cases "txs = []") (auto simp: run_of_def nth_append less_Suc_eq)
  show "run_of txs (Some tx)" using assms by (simp add: run_of_def)
qed

text \<open>The segment that is the one of the transaction takes it, unless it holds it already.\<close>

lemma window_small:
  assumes b: "unat base = n * unat sz" and n: "seg_nr sz tx = n" and sz: "sz \<noteq> (0 :: u32)"
  shows "tx_nr tx - base \<noteq> 4294967295"
proof
  assume f: "tx_nr tx - base = 4294967295"
  have z: "0 < unat sz" using sz by (simp add: unsigned_eq_0_iff neq0_conv [symmetric] del: neq0_conv)
  have q: "unat (tx_nr tx) = n * unat sz + unat (tx_nr tx) mod unat sz"
    using n div_mult_mod_eq [of "unat (tx_nr tx)" "unat sz"] by (simp add: seg_nr_def)
  then have "base \<le> tx_nr tx" using b by (simp add: word_le_nat_alt)
  then have "unat (tx_nr tx - base) = unat (tx_nr tx) mod unat sz" using b q by (simp add: unat_distance)
  moreover have "unat (tx_nr tx) mod unat sz < unat sz" using z by simp
  ultimately have "unat (tx_nr tx - base) < 4294967295" using unat_lt_32 [of sz] by linarith
  then show False using f by simp
qed

lemma segment_takes_stands:
  assumes L: "arnm_laws A els ks" and t: "wf_transaction tx" and sz: "sz \<noteq> 0"
    and s: "seg_stands A els ks sz n seg ts p" "p = None \<or> p = Some tx" and n: "seg_nr sz tx = n"
    and h: "if half then ts \<noteq> [] \<and> last ts = tx else ts \<noteq> [] \<longrightarrow> tx_nr (last ts) \<noteq> tx_nr tx"
    and a: "segment_takes A seg tx mem = Inr (r, seg', mem')"
  shows "\<exists>j. seg' = Some j \<and> (if r = ARNM_SUCCESS then seg_stands A els ks sz n j (if half then ts else ts @ [tx]) None
      else \<not> half \<and> (\<exists>p1. (p1 = None \<or> p1 = Some tx) \<and> seg_stands A els ks sz n j ts p1))"
proof -
  have st: "stands_for A els ks seg ts p" using s(1) by (simp add: seg_stands_def)
  have cnt: "gt_transaction_count seg = 0 \<longleftrightarrow> ts = []"
    using st unfolding stands_for_def by (metis length_0_conv unat_0 unsigned_eq_0_iff)
  have mx: "ts \<noteq> [] \<Longrightarrow> gt_max_tx_nr seg = tx_nr (last ts)" using st by (simp add: stands_for_def)
  show ?thesis
  proof (cases half)
    case True
    have "p = None"
    proof (rule ccontr)
      assume "p \<noteq> None"
      then have "unat (tx_nr tx) = unat (tx_nr (last ts)) + 1" using st s(2) h True by (auto simp: stands_for_def)
      then show False using h True by simp
    qed
    moreover have "seg' = Some seg" "r = ARNM_SUCCESS" using a True h cnt mx by (simp_all add: segment_takes_def)
    ultimately show ?thesis using s(1) True by simp
  next
    case False
    then have g: "grdb_transactions_add A (Some seg) (Some tx) mem = Inr (r, seg', mem')"
      using a h cnt mx by (auto simp: segment_takes_def split: if_splits)
    have d: "tx_nr tx - gt_base_tx_nr seg \<noteq> 4294967295"
      using s(1) n sz by (intro window_small [where sz = sz and n = n]) (simp_all add: seg_stands_def)
    from add_stands [OF L st s(2) t d g] obtain j where j: "seg' = Some j" "gt_base_tx_nr j = gt_base_tx_nr seg"
      "if r = ARNM_SUCCESS then stands_for A els ks j (ts @ [tx]) None else j = seg \<or> stands_for A els ks j ts (Some tx)" by blast
    show ?thesis using j False s n by (auto simp: seg_stands_def split: if_splits)
  qed
qed

text \<open>Then the register takes it, and the chain counts it.\<close>

lemma register_takes_stands:
  assumes L: "arnm_laws A els ks" and t: "wf_transaction tx"
    and room: "length (ga_type_changes (gc_addresses ch)) + 2 \<le> 4294967295" "length txs < 4294967295"
    and c: "head_stands ch txs" and q: "register_stands A ks (gc_addresses ch) txs q" "q = None \<or> q = Some tx"
    and a: "register_takes A tx (ch, mem) = (r, ch', mem')"
  shows "(if r = ARNM_SUCCESS then head_stands ch' (txs @ [tx]) \<and> register_stands A ks (gc_addresses ch') (txs @ [tx]) None
      else head_stands ch' txs \<and> (\<exists>q. (q = None \<or> q = Some tx) \<and> register_stands A ks (gc_addresses ch') txs q))
    \<and> gc_segments ch' = gc_segments ch \<and> gc_first_segment ch' = gc_first_segment ch
    \<and> gc_segment_transactions ch' = gc_segment_transactions ch \<and> gc_store ch' = gc_store ch"
proof -
  obtain r1 g1 m1 where g: "grdb_addresses_add A (Some (gc_addresses ch)) (Some tx) mem = (r1, g1, m1)" by (metis prod_cases3)
  from register_add_stands [OF L q t room g] obtain j where j: "g1 = Some j"
    "if r1 = ARNM_SUCCESS then register_stands A ks j (txs @ [tx]) None else j = gc_addresses ch \<or> register_stands A ks j txs (Some tx)" by blast
  have cnt: "gc_transaction_count ch = 0 \<longleftrightarrow> txs = []"
    using c unfolding head_stands_def by (metis length_0_conv unat_0 unsigned_eq_0_iff)
  show ?thesis
  proof (cases "r1 = ARNM_SUCCESS")
    case False
    then have "r = r1" "ch' = ch\<lparr>gc_addresses := j\<rparr>" using a g j(1) by (simp_all add: register_takes_def Let_def)
    then show ?thesis using False j(2) c q by (auto simp: head_stands_def)
  next
    case True
    then have e: "r = ARNM_SUCCESS" "ch' = ch\<lparr>gc_addresses := j, gc_min_tx_nr := (if gc_transaction_count ch = 0 then tx_nr tx else gc_min_tx_nr ch),
        gc_max_tx_nr := tx_nr tx, gc_transaction_count := gc_transaction_count ch + 1\<rparr>"
      using a g j(1) by (cases "gc_transaction_count ch = 0"; auto simp: register_takes_def Let_def)+
    have "unat (gc_transaction_count ch + 1) = length (txs @ [tx])"
      using c room(2) by (simp add: head_stands_def unat_word_ariths)
    then show ?thesis using True j(2) e c cnt by (cases txs) (auto simp: head_stands_def)
  qed
qed

lemma row_stands_mem:
  "row_stands A els ks sz n segs tss \<Longrightarrow> t \<in> set (concat tss) \<Longrightarrow> n \<le> seg_nr sz t \<and> seg_nr sz t < n + length segs"
proof (induction segs arbitrary: n tss)
  case (Cons seg segs)
  then obtain ts tss' where t: "tss = ts # tss'" by (cases tss) auto
  then show ?case using Cons.IH [of "Suc n" tss'] Cons.prems by (fastforce simp: seg_stands_def)
qed simp

lemma next_window:
  assumes "unat (tx_nr tx) = unat (tx_nr t) + 1" "sz \<noteq> (0 :: u32)"
  shows "seg_nr sz tx = seg_nr sz t \<or> seg_nr sz tx = Suc (seg_nr sz t)"
proof -
  have "0 < unat sz" using assms(2) by (simp add: unsigned_eq_0_iff neq0_conv [symmetric] del: neq0_conv)
  then show ?thesis using assms(1) by (simp add: seg_nr_def div_Suc)
qed

text \<open>The segment of the next transaction is the last of the row, or the one after it.\<close>

definition placed :: "('s, 'm, 'p) arnm_ops \<Rightarrow> ('s \<Rightarrow> nat set) \<Rightarrow> ('m \<Rightarrow> bytes list) \<Rightarrow> ('s, 'm, 'u) grdb_chain
    \<Rightarrow> ('s, 'm) grdb_transactions list \<Rightarrow> grdr_complete_transaction list \<Rightarrow> grdr_complete_transaction \<Rightarrow> bool \<Rightarrow> bool" where
  "placed A els ks ch front txs tx half \<longleftrightarrow> (\<exists>seg tss ts q. gc_segments ch = front @ [seg]
     \<and> row_stands A els ks (gc_segment_transactions ch) (unat (gc_first_segment ch)) front tss
     \<and> seg_stands A els ks (gc_segment_transactions ch) (seg_nr (gc_segment_transactions ch) tx) seg ts q
     \<and> seg_nr (gc_segment_transactions ch) tx = unat (gc_first_segment ch) + length front
     \<and> (q = None \<or> q = Some tx) \<and> concat tss @ ts = shown txs (Some tx) half \<and> (half \<longrightarrow> ts \<noteq> []))"

lemma row_places:
  assumes row: "row_of A els ks ch (shown txs pend half) pend" and p: "pend = None \<or> pend = Some tx" "half \<longrightarrow> pend \<noteq> None"
    and nx: "txs \<noteq> [] \<longrightarrow> unat (tx_nr tx) = unat (tx_nr (last txs)) + 1" and sz: "gc_segment_transactions ch \<noteq> 0"
  obtains (last) front where "placed A els ks ch front txs tx half"
  | (new) tss where "seg_nr (gc_segment_transactions ch) tx = unat (gc_first_segment ch) + length (gc_segments ch)"
      "row_stands A els ks (gc_segment_transactions ch) (unat (gc_first_segment ch)) (gc_segments ch) tss" "concat tss = txs" "\<not> half"
proof -
  let ?sz = "gc_segment_transactions ch" and ?n = "unat (gc_first_segment ch)"
  obtain front seg tss ts q where r: "gc_segments ch = front @ [seg]" "row_stands A els ks ?sz ?n front tss"
    "seg_stands A els ks ?sz (?n + length front) seg ts q" "q = None \<or> q = pend" "concat tss @ ts = shown txs pend half"
    "ts = [] \<longrightarrow> (\<exists>x. pend = Some x \<and> seg_nr ?sz x = ?n + length front)" using row unfolding row_of_def by blast
  have sh: "shown txs pend half = shown txs (Some tx) half" using p by (auto simp: shown_def)
  have at: "placed A els ks ch front txs tx half" if "seg_nr ?sz tx = ?n + length front" "half \<longrightarrow> ts \<noteq> []"
    unfolding placed_def using r that p sh by (intro exI [of _ seg] exI [of _ tss] exI [of _ ts] exI [of _ q]) auto
  show thesis
  proof (cases "ts = []")
    case True
    then have e: "seg_nr ?sz tx = ?n + length front" using r(6) p by auto
    have "\<not> half"
    proof
      assume half
      then have "tx \<in> set (concat tss)" using r(5) True sh by (simp add: shown_half)
      then show False using row_stands_mem [OF r(2)] e by fastforce
    qed
    then show thesis using at e last by blast
  next
    case False
    have l: "seg_nr ?sz (List.last ts) = ?n + length front" using r(3) False by (simp add: seg_stands_def)
    show thesis
    proof (cases half)
      case True
      then have "List.last ts = tx" using r(5) False sh by (cases ts rule: rev_cases) (simp_all add: shown_half)
      then show thesis using at l False last by metis
    next
      case nh: False
      then have txs: "concat tss @ ts = txs" using r(5) by (simp add: shown_def)
      then have "List.last ts = List.last txs" "txs \<noteq> []" using False by auto
      then consider "seg_nr ?sz tx = ?n + length front" | "seg_nr ?sz tx = Suc (?n + length front)"
        using next_window [OF _ sz, of tx "List.last txs"] nx l by auto
      then show thesis
      proof cases
        case 1
        then show thesis using at nh last by blast
      next
        case 2
        then have "q = None" using r(3,4) p by (auto simp: seg_stands_def)
        then have "row_stands A els ks ?sz ?n (front @ [seg]) (tss @ [ts])" using r(2,3) False by (simp add: row_stands_snoc)
        then show thesis using new [of "tss @ [ts]"] 2 r(1) txs nh by simp
      qed
    qed
  qed
qed

lemma placed_add:
  assumes L: "arnm_laws A els ks" and t: "wf_transaction tx"
    and room: "length (ga_type_changes (gc_addresses ch)) + 2 \<le> 4294967295" "length txs < 4294967295"
    and pl: "placed A els ks ch front txs tx half" and c: "head_stands ch txs"
    and rg: "register_stands A ks (gc_addresses ch) txs q" "q = None \<or> q = Some tx"
    and rn: "run_of (txs @ [tx]) None" "run_of txs (Some tx)"
    and nx: "txs \<noteq> [] \<longrightarrow> unat (tx_nr tx) = unat (tx_nr (last txs)) + 1"
    and a: "add_at A (length front) tx (ch, mem) = Inr (r, ch', mem')"
  shows "if r = ARNM_SUCCESS then chain_stands A els ks ch' (txs @ [tx]) None False
    else \<exists>half'. chain_stands A els ks ch' txs (Some tx) half'"
proof -
  let ?sz = "gc_segment_transactions ch" and ?n = "unat (gc_first_segment ch)"
  obtain seg tss ts p where s: "gc_segments ch = front @ [seg]" "row_stands A els ks ?sz ?n front tss"
    "seg_stands A els ks ?sz (seg_nr ?sz tx) seg ts p" "seg_nr ?sz tx = ?n + length front"
    "p = None \<or> p = Some tx" "concat tss @ ts = shown txs (Some tx) half" "half \<longrightarrow> ts \<noteq> []"
    using pl unfolding placed_def by blast
  have sz: "?sz \<noteq> 0" using c by (simp add: head_stands_def)
  have h: "if half then ts \<noteq> [] \<and> last ts = tx else ts \<noteq> [] \<longrightarrow> tx_nr (last ts) \<noteq> tx_nr tx"
  proof (cases "ts = []")
    case False
    then have "last ts = last (shown txs (Some tx) half)" using s(6) by (metis last_appendR)
    moreover have "txs \<noteq> []" if "\<not> half" using s(6) False that by (auto simp: shown_half)
    ultimately show ?thesis using nx False by (auto simp: shown_half)
  qed (use s(7) in simp)
  obtain r1 sg m1 where g: "segment_takes A seg tx mem = Inr (r1, sg, m1)"
    using a s(1) by (auto simp: add_at_def fbind_eq_Inr)
  from segment_takes_stands [OF L t sz s(3,5) refl h g] obtain j where j: "sg = Some j"
    "if r1 = ARNM_SUCCESS then seg_stands A els ks ?sz (seg_nr ?sz tx) j (if half then ts else ts @ [tx]) None
      else \<not> half \<and> (\<exists>p1. (p1 = None \<or> p1 = Some tx) \<and> seg_stands A els ks ?sz (seg_nr ?sz tx) j ts p1)" by blast
  define ch1 where "ch1 = ch\<lparr>gc_segments := front @ [j]\<rparr>"
  have c1: "head_stands ch1 txs" "gc_addresses ch1 = gc_addresses ch" "gc_segment_transactions ch1 = ?sz" "gc_first_segment ch1 = gc_first_segment ch"
    using c by (simp_all add: ch1_def head_stands_def)
  have rw: "row_of A els ks c2 all pend" if "gc_segments c2 = front @ [j]" "gc_segment_transactions c2 = ?sz" "gc_first_segment c2 = gc_first_segment ch"
    "seg_stands A els ks ?sz (seg_nr ?sz tx) j us p1" "p1 = None \<or> p1 = pend" "concat tss @ us = all" "us = [] \<longrightarrow> pend = Some tx" for c2 us p1 all pend
    unfolding row_of_def using that s(2,4)
    by (intro exI [of _ front] exI [of _ j] exI [of _ tss] exI [of _ us] exI [of _ p1]) auto
  show ?thesis
  proof (cases "r1 = ARNM_SUCCESS")
    case False
    then have "r = r1" "ch' = ch1" using a s(1) g j(1) by (simp_all add: add_at_def ch1_def Let_def)
    moreover obtain p1 where "p1 = None \<or> p1 = Some tx" "seg_stands A els ks ?sz (seg_nr ?sz tx) j ts p1" "\<not> half"
      using j(2) False by auto
    then have "row_of A els ks ch1 txs (Some tx)" using s(6) by (intro rw) (simp_all add: ch1_def shown_half)
    then have "chain_stands A els ks ch1 txs (Some tx) False"
      using c1 rn rg by (auto simp: chain_stands_def shown_half)
    ultimately show ?thesis using False by auto
  next
    case True
    then have sj: "seg_stands A els ks ?sz (seg_nr ?sz tx) j (if half then ts else ts @ [tx]) None" using j(2) by simp
    obtain r2 ch2 m2 where g2: "register_takes A tx (ch1, m1) = (r2, ch2, m2)" by (metis prod_cases3)
    have e: "r = r2" "ch' = ch2" using a s(1) g j(1) True g2 by (simp_all add: add_at_def ch1_def Let_def)
    have room1: "length (ga_type_changes (gc_addresses ch1)) + 2 \<le> 4294967295" using room c1 by simp
    note rt = register_takes_stands [OF L t room1 room(2) c1(1) rg(1) [folded c1(2)] rg(2) g2]
    have all: "concat tss @ (if half then ts else ts @ [tx]) = txs @ [tx]" using s(6) by (auto simp: shown_half)
    have us: "(if half then ts else ts @ [tx]) \<noteq> []" using s(7) by auto
    have g3: "gc_segments ch2 = front @ [j]" "gc_segment_transactions ch2 = ?sz" "gc_first_segment ch2 = gc_first_segment ch"
      using rt c1 by (simp_all add: ch1_def)
    have row: "row_of A els ks ch2 (txs @ [tx]) pend" for pend
      using us by (intro rw [OF g3 sj _ all]) simp_all
    show ?thesis
    proof (cases "r2 = ARNM_SUCCESS")
      case True
      then have "chain_stands A els ks ch2 (txs @ [tx]) None False"
        using rt row rn by (auto simp: chain_stands_def shown_half)
      then show ?thesis using e True by simp
    next
      case False
      then have "chain_stands A els ks ch2 txs (Some tx) True"
        using rt row rn by (auto simp: chain_stands_def shown_half)
      then show ?thesis using e False by auto
    qed
  qed
qed

lemma unat_after: "(w :: u64) + 1 \<noteq> 0 \<Longrightarrow> unat (w + 1) = unat w + 1"
  using unatSuc [of w] by (simp add: add.commute)

lemma chain_next:
  assumes "head_stands ch txs" "tx_nr tx \<noteq> 0" "\<not> (gc_transaction_count ch \<noteq> 0 \<and> tx_nr tx \<noteq> gc_max_tx_nr ch + 1)"
  shows "txs \<noteq> [] \<longrightarrow> unat (tx_nr tx) = unat (tx_nr (last txs)) + 1" "gc_transaction_count ch = 0 \<longleftrightarrow> txs = []"
proof -
  show c: "gc_transaction_count ch = 0 \<longleftrightarrow> txs = []"
    using assms(1) unfolding head_stands_def by (metis length_0_conv unat_0 unsigned_eq_0_iff)
  show "txs \<noteq> [] \<longrightarrow> unat (tx_nr tx) = unat (tx_nr (last txs)) + 1"
  proof
    assume "txs \<noteq> []"
    then have e: "tx_nr tx = tx_nr (last txs) + 1" using assms c by (simp add: head_stands_def)
    then have "tx_nr (last txs) + 1 \<noteq> 0" using assms(2) by simp
    then show "unat (tx_nr tx) = unat (tx_nr (last txs)) + 1" unfolding e by (simp add: unat_after)
  qed
qed

lemma place_stands:
  assumes L: "arnm_laws A els ks" and c: "chain_stands A els ks ch txs pend half" and p: "pend = None \<or> pend = Some tx"
    and t: "wf_transaction tx" and room: "length (ga_type_changes (gc_addresses ch)) + 2 \<le> 4294967295" "length txs < 4294967295"
    and nx: "txs \<noteq> [] \<longrightarrow> unat (tx_nr tx) = unat (tx_nr (last txs)) + 1"
    and b: "gc_segments ch = [] \<longrightarrow> gc_first_segment ch = segment_of ch (tx_nr tx)"
    and a: "place_and_add A tx (ch, mem) = Inr (r, ch', mem')"
  shows "if r = ARNM_SUCCESS then chain_stands A els ks ch' (txs @ [tx]) None False
    else \<exists>pend' half'. (pend' = pend \<or> pend' = Some tx) \<and> chain_stands A els ks ch' txs pend' half'"
proof -
  let ?sz = "gc_segment_transactions ch" and ?n = "unat (gc_first_segment ch)" and ?size = "word_of_nat (length (gc_segments ch)) :: u64"
  define pos where "pos = segment_of ch (tx_nr tx) - gc_first_segment ch"
  have hd: "head_stands ch txs" and half: "half \<longrightarrow> pend \<noteq> None" using c by (simp_all add: chain_stands_def)
  have sz: "?sz \<noteq> 0" using hd by (simp add: head_stands_def)
  obtain q where q: "register_stands A ks (gc_addresses ch) txs q" "q = None \<or> q = Some tx"
    using c p unfolding chain_stands_def by blast
  have rn: "run_of (txs @ [tx]) None" "run_of txs (Some tx)" using run_snoc nx c by (auto simp: chain_stands_def)
  have d: "unat (segment_of ch (tx_nr tx)) = seg_nr ?sz tx" by (simp add: segment_of_def seg_nr_def unat_div)
  have up: "unat pos = seg_nr ?sz tx - ?n" "\<not> segment_of ch (tx_nr tx) < gc_first_segment ch" if "?n \<le> seg_nr ?sz tx"
    using that d by (simp_all add: pos_def unat_sub word_le_nat_alt not_less)
  have a': "place_and_add A tx (ch, mem) = (if pos > ?size then Inr (ARNM_ERROR_INVALID_PARAM, ch, mem)
        else case (if pos = ?size then open_segment A (tx_nr tx) (ch, mem) else (ARNM_SUCCESS, ch, mem)) of
          (r, ch, mem) \<Rightarrow> if r \<noteq> ARNM_SUCCESS then Inr (r, ch, mem) else add_at A (unat (ucast pos :: u32)) tx (ch, mem))"
    if "?n \<le> seg_nr ?sz tx" using up(2) [OF that] unfolding place_and_add_def Let_def prod.case pos_def [symmetric]
    by (simp only: if_False)
  consider (last) front where "placed A els ks ch front txs tx half"
    | (new) tss where "seg_nr ?sz tx = ?n + length (gc_segments ch)" "row_stands A els ks ?sz ?n (gc_segments ch) tss"
        "concat tss = txs" "\<not> half"
  proof (cases "gc_segments ch = []")
    case True
    then have "txs = []" "\<not> half" using c by (auto simp: chain_stands_def row_of_def)
    then show thesis using that(2) [of "[]"] True b d by simp
  next
    case False
    then have "row_of A els ks ch (shown txs pend half) pend" using c by (simp add: chain_stands_def)
    then show thesis using row_places [OF _ p half nx sz] that by metis
  qed
  then show ?thesis
  proof cases
    case (last front)
    obtain seg tss ts where f: "gc_segments ch = front @ [seg]" "row_stands A els ks ?sz ?n front tss"
      "seg_nr ?sz tx = ?n + length front" "concat tss @ ts = shown txs (Some tx) half" "half \<longrightarrow> ts \<noteq> []"
      using last unfolding placed_def by blast
    have "length (concat tss) + length ts \<le> length txs + (if half then 1 else 0)"
      using arg_cong [OF f(4), of length] by (auto simp: shown_half)
    then have l: "length front \<le> length txs" using row_stands_length [OF f(2)] f(5) by (cases ts) (auto split: if_splits)
    have pu: "unat pos = length front" using up f(3) by simp
    then have pe: "pos = word_of_nat (length front)" using pu [symmetric] by simp
    have us: "unat ?size = length front + 1" using f(1) l room(2) by (subst word_nat_64) simp_all
    have ps: "\<not> pos > ?size" "pos \<noteq> ?size" "unat (ucast pos :: u32) = length front"
      using pu us l room(2) by (simp_all add: word_less_nat_alt word_unat_eq_iff unsigned_ucast_eq take_bit_nat_eq_self)
    have "add_at A (length front) tx (ch, mem) = Inr (r, ch', mem')" using a a' f(3) ps by simp
    from placed_add [OF L t room last hd q rn nx this] show ?thesis by (auto split: if_splits)
  next
    case (new tss)
    have l: "length (gc_segments ch) \<le> length txs" using row_stands_length [OF new(2)] new(3) by simp
    have pu: "unat pos = length (gc_segments ch)" using up new(1) by simp
    then have pe: "pos = ?size" using pu [symmetric] by simp
    have ps: "unat (ucast pos :: u32) = length (gc_segments ch)"
      using pu l room(2) by (simp add: unsigned_ucast_eq take_bit_nat_eq_self)
    obtain r1 c1 m1 where o: "open_segment A (tx_nr tx) (ch, mem) = (r1, c1, m1)" by (metis prod_cases3)
    note op = open_segment_opens [OF L sz o]
    have a1: "(if r1 \<noteq> ARNM_SUCCESS then Inr (r1, c1, m1) else add_at A (length (gc_segments ch)) tx (c1, m1)) = Inr (r, ch', mem')"
      using a a' new(1) pe ps o by (cases "r1 = ARNM_SUCCESS") simp_all
    show ?thesis
    proof (cases "r1 = ARNM_SUCCESS")
      case False
      then have "r \<noteq> ARNM_SUCCESS" "ch' = ch" using a1 op by auto
      then show ?thesis using c by auto
    next
      case True
      then obtain seg where s: "c1 = ch\<lparr>gc_segments := gc_segments ch @ [seg]\<rparr>" "seg_stands A els ks ?sz (seg_nr ?sz tx) seg [] None"
        using op by auto
      have pl: "placed A els ks c1 (gc_segments ch) txs tx False"
        unfolding placed_def using s new by (intro exI [of _ seg] exI [of _ tss] exI [of _ "[]"] exI [of _ None]) (simp add: shown_half)
      have "add_at A (length (gc_segments ch)) tx (c1, m1) = Inr (r, ch', mem')" using a1 True by simp
      moreover have "head_stands c1 txs" "gc_addresses c1 = gc_addresses ch" using hd s(1) by (simp_all add: head_stands_def)
      ultimately show ?thesis using placed_add [OF L t _ room(2) pl _ _ q(2) rn nx] room(1) q(1) by (auto split: if_splits)
    qed
  qed
qed

lemma chain_add_stands:
  assumes L: "arnm_laws A els ks" and c: "chain_stands A els ks ch txs pend half" and p: "pend = None \<or> pend = Some tx"
    and t: "wf_transaction tx" and room: "length (ga_type_changes (gc_addresses ch)) + 2 \<le> 4294967295" "length txs < 4294967295"
    and a: "grdb_chain_add A (Some ch) (Some tx) mem = Inr (r, ch', mem')"
  shows "\<exists>j. ch' = Some j \<and> (if r = ARNM_SUCCESS then chain_stands A els ks j (txs @ [tx]) None False
    else \<exists>pend' half'. (pend' = pend \<or> pend' = Some tx) \<and> chain_stands A els ks j txs pend' half')"
proof (cases "tx_nr tx = 0 \<or> (gc_transaction_count ch \<noteq> 0 \<and> tx_nr tx \<noteq> gc_max_tx_nr ch + 1)")
  case True
  then show ?thesis using a c by (auto simp: grdb_chain_add_def chain_stands_def head_stands_def split: if_splits)
next
  case g: False
  have hd: "head_stands ch txs" and rdy: "gc_ready ch" using c by (simp_all add: chain_stands_def head_stands_def)
  have nx: "txs \<noteq> [] \<longrightarrow> unat (tx_nr tx) = unat (tx_nr (last txs)) + 1" "gc_transaction_count ch = 0 \<longleftrightarrow> txs = []"
    using chain_next [OF hd] g by blast+
  have c0: "chain_stands A els ks (begun_at tx ch) txs pend half" "gc_addresses (begun_at tx ch) = gc_addresses ch"
    using c by (auto simp: begun_at_def chain_stands_def head_stands_def row_of_def)
  have b: "gc_segments (begun_at tx ch) = [] \<longrightarrow> gc_first_segment (begun_at tx ch) = segment_of (begun_at tx ch) (tx_nr tx)"
    using c nx(2) by (auto simp: begun_at_def segment_of_def chain_stands_def row_of_def)
  obtain r1 j m where j: "place_and_add A tx (begun_at tx ch, mem) = Inr (r1, j, m)" "r = r1" "ch' = Some j"
    using a g rdy by (auto simp: grdb_chain_add_def fbind_eq_Inr)
  from place_stands [OF L c0(1) p t _ room(2) nx(1) b j(1)] room(1) c0(2) j(2,3) show ?thesis by auto
qed

lemma chain_fresh_stands:
  assumes "gc_ready ch" "gc_segment_transactions ch \<noteq> 0" "gc_segments ch = []" "gc_transaction_count ch = 0"
    and "register_stands A ks (gc_addresses ch) [] None"
  shows "chain_stands A els ks ch [] None False"
  using assms by (auto simp: chain_stands_def head_stands_def run_of_def)

lemma chain_init_stands:
  assumes L: "arnm_laws A els ks" and i: "grdb_chain_init A (Some c) options mem = (r, ch, mem')"
  shows "\<exists>j. ch = Some j \<and> (if r = ARNM_SUCCESS then chain_stands A els ks j [] None False else \<not> gc_ready j)"
proof -
  obtain r1 m1 where b: "bvec_init A CHAIN_SEGMENTS_BUCKET_LOG2 mem = (r1, m1)" by fastforce
  obtain r2 g m2 where g: "grdb_addresses_init A (Some (zero_addresses A)) (Some (case options of None \<Rightarrow> 0 | Some o' \<Rightarrow> co_expected_addresses o')) m1
    = (r2, g, m2)" by (metis prod_cases3)
  have nn: "g \<noteq> None" using g by (auto simp: grdb_addresses_init_def Let_def split: prod.splits if_splits)
  have rs: "register_stands A ks j [] None" if "g = Some j" "r2 = ARNM_SUCCESS" for j
    using g that by (intro fresh_register_stands [OF L])
      (auto simp: grdb_addresses_init_def zero_addresses_def Let_def split: prod.splits if_splits)
  show ?thesis
  proof (cases "r1 = ARNM_SUCCESS \<and> r2 = ARNM_SUCCESS")
    case True
    then obtain j where "g = Some j" "register_stands A ks j [] None" using nn rs by blast
    then show ?thesis using i b g True
      by (cases options) (auto simp: grdb_chain_init_def Let_def zero_chain_def intro!: chain_fresh_stands)
  next
    case False
    then show ?thesis using i b g by (cases options) (auto simp: grdb_chain_init_def Let_def zero_chain_def split: if_splits)
  qed
qed

lemma chain_reset_stands:
  assumes L: "arnm_laws A els ks" and c: "chain_stands A els ks ch txs pend half"
  shows "\<exists>j. fst (grdb_chain_reset A (Some ch) mem) = Some j \<and> chain_stands A els ks j [] None False"
proof -
  have r: "gc_ready ch" "gc_segment_transactions ch \<noteq> 0" "ga_ready (gc_addresses ch)"
    using c by (auto simp: chain_stands_def head_stands_def register_stands_def)
  obtain g where "grdb_addresses_reset A (Some (gc_addresses ch)) = Some g" "register_stands A ks g [] None"
  proof (rule that)
    show "grdb_addresses_reset A (Some (gc_addresses ch)) = Some ((gc_addresses ch)\<lparr>ga_keys := key_map_clear A (ga_keys (gc_addresses ch)),
      ga_entries := [], ga_type_changes := [], ga_max_tx_nr := 0, ga_transaction_count := 0\<rparr>)" using r(3) by (simp add: grdb_addresses_reset_def)
  qed (use r(3) in \<open>intro fresh_register_stands [OF L]; simp\<close>)
  then show ?thesis using r by (auto simp: grdb_chain_reset_def release_segments_def intro!: chain_fresh_stands)
qed

section \<open>Asking the row\<close>

lemma sorted_part: "sorted (map day_of (xs @ ys @ zs)) \<Longrightarrow> days_in_order ys"
  by (simp add: days_in_order_def sorted_append)

lemma row_holding:
  assumes "row_stands A els ks sz n segs tss" "arnm_laws A els ks" "wf_filter f" "days_readable f"
    and "\<forall>t \<in> set (concat tss). tx_community_uuid t = c" "sorted (map day_of (concat tss))"
  shows "list_all2 (segment_holding A els ks f c) segs tss"
  using assms
proof (induction segs arbitrary: n tss)
  case (Cons seg segs)
  then obtain ts tss' where t: "tss = ts # tss'" by (cases tss) auto
  have "days_in_order (with_pending ts None)" using Cons.prems(6) t by (simp add: days_in_order_def with_pending_def sorted_append)
  then have "segment_holding A els ks f c seg ts" using Cons.prems t by (auto simp: segment_holding_def seg_stands_def)
  then show ?case using Cons.IH [of "Suc n" tss'] Cons.prems t by (simp add: sorted_append)
qed simp

lemma chain_holding:
  assumes L: "arnm_laws A els ks" and c: "chain_stands A els ks ch txs pend half" and f: "wf_filter f" "days_readable f"
    and u: "\<forall>t \<in> set (shown txs pend half). tx_community_uuid t = c" and d: "days_in_order (with_pending txs pend)"
  obtains tss where "list_all2 (segment_holding A els ks f c) (gc_segments ch) tss" "concat tss = shown txs pend half"
proof (cases "gc_segments ch = []")
  case True
  then have "shown txs pend half = []" using c by (auto simp: chain_stands_def row_of_def shown_def)
  then show thesis using that [of "[]"] True by simp
next
  case False
  then have "row_of A els ks ch (shown txs pend half) pend" using c by (simp add: chain_stands_def)
  then obtain front seg tss ts q sz n where r: "gc_segments ch = front @ [seg]" "row_stands A els ks sz n front tss"
    "seg_stands A els ks sz (n + length front) seg ts q" "q = None \<or> q = pend" "concat tss @ ts = shown txs pend half"
    unfolding row_of_def by blast
  have so: "sorted (map day_of (concat tss @ ts))" using d r(5) by (auto simp: days_in_order_def shown_def with_pending_def sorted_append)
  have "days_in_order (with_pending ts q)"
  proof (cases "q = None \<or> ts = []")
    case True
    then show ?thesis using so by (auto simp: with_pending_def days_in_order_def sorted_append split: option.split)
  next
    case False
    then obtain p where p: "q = Some p" "pend = Some p" using r(4) by auto
    have "day_of t \<le> day_of p" if "t \<in> set ts" for t
    proof -
      have "t \<in> set (with_pending txs pend)" using that arg_cong [OF r(5), of set] by (auto simp: shown_def with_pending_def split: if_splits)
      then show ?thesis using d p by (auto simp: with_pending_def days_in_order_def sorted_append)
    qed
    then show ?thesis using so p by (simp add: with_pending_def days_in_order_def sorted_append)
  qed
  then have "segment_holding A els ks f c seg ts" using r(3,5) L f u by (auto simp: segment_holding_def seg_stands_def dest!: arg_cong [where f = set])
  moreover have "list_all2 (segment_holding A els ks f c) front tss"
    using u so by (intro row_holding [OF r(2) L f]) (auto simp: sorted_append simp flip: r(5))
  ultimately have "list_all2 (segment_holding A els ks f c) (gc_segments ch) (tss @ [ts])" using r(1) by (simp add: list_all2_appendI)
  then show thesis using that r(5) by simp
qed

lemma chain_answer:
  assumes L: "arnm_laws A els ks" and c: "chain_stands A els ks ch txs pend half" and f: "wf_filter f" "days_readable f"
    and u: "\<forall>t \<in> set (shown txs pend half). tx_community_uuid t = c" and d: "days_in_order (with_pending txs pend)"
  shows "grdb_chain_count A (Some ch) (Some f) (Some x) = Inr (ARNM_SUCCESS, Some (word_of_nat (length (matching f (shown txs pend half)))))"
    and "grdb_chain_newest A (Some ch) (Some f) (Some x) = Inr (if matching f (shown txs pend half) = [] then (False, Some x)
      else (True, Some (tx_nr (last (matching f (shown txs pend half))))))"
    and "n \<le> GRDB_PAGE_MAX \<Longrightarrow> unat n \<le> length buf \<Longrightarrow>
      grdb_chain_listing A (Some ch) (Some f) skip n descending (Some buf) (Some w) (Some k)
      = (let page = list_page (unat skip) (unat n) descending (map tx_nr (matching f (shown txs pend half)))
         in Inr (ARNM_SUCCESS, Some (page @ drop (length page) buf), Some (word_of_nat (length page)),
                 Some (word_of_nat (length (matching f (shown txs pend half))))))"
proof -
  obtain tss where h: "list_all2 (segment_holding A els ks f c) (gc_segments ch) tss" and t: "concat tss = shown txs pend half"
    using chain_holding [OF assms] by blast
  have m: "matching f (shown txs pend half) = filter (tx_matches c f) (concat tss)" using matching_community u t by metis
  have rdy: "gc_ready ch" using c by (simp add: chain_stands_def head_stands_def)
  show "grdb_chain_count A (Some ch) (Some f) (Some x) = Inr (ARNM_SUCCESS, Some (word_of_nat (length (matching f (shown txs pend half)))))"
    using rdy row.count_row [OF h] m by (simp add: grdb_chain_count_def)
  show "grdb_chain_newest A (Some ch) (Some f) (Some x) = Inr (if matching f (shown txs pend half) = [] then (False, Some x)
      else (True, Some (tx_nr (last (matching f (shown txs pend half))))))"
    using rdy row.newest_row [OF h, of x] m by (simp add: grdb_chain_newest_def)
  show "grdb_chain_listing A (Some ch) (Some f) skip n descending (Some buf) (Some w) (Some k)
      = (let page = list_page (unat skip) (unat n) descending (map tx_nr (matching f (shown txs pend half)))
         in Inr (ARNM_SUCCESS, Some (page @ drop (length page) buf), Some (word_of_nat (length page)),
                 Some (word_of_nat (length (matching f (shown txs pend half))))))"
    if n: "n \<le> GRDB_PAGE_MAX" "unat n \<le> length buf"
  proof -
    let ?dir = "if descending then rev else id"
    have l: "list_all2 (segment_holding A els ks f c) ((if descending then rev else id) (gc_segments ch)) ((if descending then rev else id) tss)"
      using h by simp
    have dir: "concat (map (row.directed c f descending) ((if descending then rev else id) tss)) = (if descending then rev else id) (map tx_nr (filter (tx_matches c f) (concat tss)))"
      by (cases descending; induction tss) (simp_all add: row.directed_def)
    have len: "length (filter (tx_matches c f) (concat ((if descending then rev else id) tss))) = length (filter (tx_matches c f) (concat tss))"
      by (cases descending; induction tss) simp_all
    have "unat n \<le> 1000" using n(1) by (simp add: word_le_nat_alt)
    then have nn: "\<not> n > GRDB_PAGE_MAX" "unat (0 :: u32) + unat n \<le> 1000" "unat (0 :: u32) + unat n \<le> length buf" using n by simp_all
    show ?thesis
      using rdy nn row.page_loop [OF l nn(2,3), of descending skip 0]
      by (simp add: grdb_chain_listing_def dir len m Let_def list_page_def)
  qed
qed

section \<open>Loading\<close>

lemma open_counts:
  "open_segment A nr (c1, m1) = (r, c2, m2) \<Longrightarrow> gc_transaction_count c2 = gc_transaction_count c1 \<and> gc_store c2 = gc_store c1"
  by (auto simp: open_segment_def Let_def split: prod.splits if_splits option.splits)

lemma register_counts:
  assumes "register_takes A t (c1, m1) = (ARNM_SUCCESS, c2, m2)"
  shows "gc_transaction_count c2 = gc_transaction_count c1 + 1 \<and> gc_max_tx_nr c2 = tx_nr t \<and> gc_store c2 = gc_store c1"
proof -
  obtain r ga m where "grdb_addresses_add A (Some (gc_addresses c1)) (Some t) m1 = (r, ga, m)" by (metis prod_cases3)
  then show ?thesis using assms by (cases "r = ARNM_SUCCESS") (auto simp: register_takes_def Let_def)
qed

lemma add_at_counts:
  assumes "add_at A i t (c1, m1) = Inr (ARNM_SUCCESS, c2, m2)"
  shows "gc_transaction_count c2 = gc_transaction_count c1 + 1 \<and> gc_max_tx_nr c2 = tx_nr t \<and> gc_store c2 = gc_store c1"
proof -
  obtain r seg m where s: "segment_takes A (gc_segments c1 ! i) t m1 = Inr (r, seg, m)"
    using assms by (auto simp: add_at_def fbind_eq_Inr)
  let ?c = "c1\<lparr>gc_segments := (case seg of None \<Rightarrow> gc_segments c1 | Some seg \<Rightarrow> (gc_segments c1)[i := seg])\<rparr>"
  have "register_takes A t (?c, m) = (ARNM_SUCCESS, c2, m2)"
    using assms s by (cases "r = ARNM_SUCCESS") (simp_all add: add_at_def Let_def)
  from register_counts [OF this] show ?thesis by simp
qed

lemma place_counts:
  assumes "place_and_add A t (ch, mem) = Inr (ARNM_SUCCESS, j, mem')"
  shows "gc_transaction_count j = gc_transaction_count ch + 1 \<and> gc_max_tx_nr j = tx_nr t \<and> gc_store j = gc_store ch"
proof -
  let ?pos = "segment_of ch (tx_nr t) - gc_first_segment ch" and ?size = "word_of_nat (length (gc_segments ch)) :: u64"
  obtain r1 c1 m1 where o: "(if ?pos = ?size then open_segment A (tx_nr t) (ch, mem) else (ARNM_SUCCESS, ch, mem)) = (r1, c1, m1)"
    by (metis prod_cases3)
  have "add_at A (unat (ucast ?pos :: u32)) t (c1, m1) = Inr (ARNM_SUCCESS, j, mem')"
    using assms unfolding place_and_add_def Let_def prod.case o
    by (cases "segment_of ch (tx_nr t) < gc_first_segment ch"; cases "?pos > ?size"; cases "r1 = ARNM_SUCCESS") simp_all
  moreover have "gc_transaction_count c1 = gc_transaction_count ch \<and> gc_store c1 = gc_store ch"
    using o open_counts [of A "tx_nr t" ch mem r1 c1 m1] by (cases "?pos = ?size") simp_all
  ultimately show ?thesis using add_at_counts by metis
qed

lemma chain_add_counts:
  assumes "grdb_chain_add A (Some ch) tx mem = Inr (ARNM_SUCCESS, ch', mem')"
  shows "\<exists>t j. tx = Some t \<and> ch' = Some j \<and> tx_nr t \<noteq> 0 \<and> (gc_transaction_count ch \<noteq> 0 \<longrightarrow> tx_nr t = gc_max_tx_nr ch + 1)
    \<and> gc_transaction_count j = gc_transaction_count ch + 1 \<and> gc_max_tx_nr j = tx_nr t \<and> gc_store j = gc_store ch"
proof -
  obtain t where t: "tx = Some t" "gc_ready ch" "tx_nr t \<noteq> 0" "gc_transaction_count ch \<noteq> 0 \<longrightarrow> tx_nr t = gc_max_tx_nr ch + 1"
    using assms by (auto simp: grdb_chain_add_def split: option.splits if_splits)
  then obtain j where j: "place_and_add A t (begun_at t ch, mem) = Inr (ARNM_SUCCESS, j, mem')" "ch' = Some j"
    using assms by (auto simp: grdb_chain_add_def fbind_eq_Inr split: if_splits)
  then show ?thesis using place_counts [OF j(1)] t by (auto simp: begun_at_def)
qed

text \<open>Every transaction the loop adds raises the largest number of the chain, which 64 bits bound: whatever the
  store answers, the loop ends.\<close>

definition counted :: "('s, 'm, 'u) grdb_chain \<Rightarrow> bool" where
  "counted ch \<longleftrightarrow> gc_transaction_count ch \<le> gc_max_tx_nr ch \<or> gc_transaction_count ch = 0"

definition left_to_count :: "('s, 'm, 'u) grdb_chain \<Rightarrow> nat" where
  "left_to_count ch = (if gc_transaction_count ch = 0 then 18446744073709551616 else 18446744073709551615 - unat (gc_max_tx_nr ch))"

lemma added_counted:
  assumes "grdb_chain_add A (Some ch) tx mem = Inr (ARNM_SUCCESS, Some j, mem')" "counted ch"
  shows "counted j \<and> left_to_count j < left_to_count ch"
proof -
  obtain t :: grdr_complete_transaction where t: "tx_nr t \<noteq> 0" "gc_transaction_count ch \<noteq> 0 \<longrightarrow> tx_nr t = gc_max_tx_nr ch + 1"
    "gc_transaction_count j = gc_transaction_count ch + 1" "gc_max_tx_nr j = tx_nr t" using chain_add_counts [OF assms(1)] by blast
  have p: "0 < unat (tx_nr t)" using t(1) by (simp add: unsigned_eq_0_iff neq0_conv [symmetric] del: neq0_conv)
  show ?thesis
  proof (cases "gc_transaction_count ch = 0")
    case True
    have "gc_transaction_count j = 1" using t(3) True by simp
    then show ?thesis using t p True by (simp add: counted_def left_to_count_def word_le_nat_alt)
  next
    case False
    then have e: "unat (tx_nr t) = unat (gc_max_tx_nr ch) + 1" using t(1,2) by (simp add: unat_after)
    have le: "unat (gc_transaction_count ch) \<le> unat (gc_max_tx_nr ch)" using assms(2) False by (simp add: counted_def word_le_nat_alt)
    have m: "unat (tx_nr t) < 18446744073709551616" by (rule unat_lt_64)
    have "unat (gc_transaction_count ch + 1) = unat (gc_transaction_count ch) + 1" using le e m by (simp add: unat_add_small)
    then show ?thesis using t(3,4) e le m by (auto simp: counted_def left_to_count_def word_le_nat_alt)
  qed
qed

lemma load_loop_ends: "counted ch \<Longrightarrow> load_loop A to_nr number count ch u mem \<noteq> None"
proof (induction "left_to_count ch" arbitrary: number count ch u mem rule: less_induct)
  case less
  have "load_loop A to_nr (number + 1) (count + 1) (case c' of None \<Rightarrow> ch | Some c \<Rightarrow> c) u1 m1 \<noteq> None"
    if g: "grdb_chain_add A (Some ch) tx mem = Inr (ARNM_SUCCESS, c', m1)" for tx c' m1 u1
  proof -
    obtain j where j: "c' = Some j" using chain_add_counts [OF g] by blast
    then have "counted j \<and> left_to_count j < left_to_count ch" using added_counted [of A ch tx mem j m1] g less.prems by simp
    then show ?thesis using less.hyps j by simp
  qed
  then show ?case by (subst load_loop.simps) (auto simp: Let_def split: prod.split sum.split)
qed

lemma chain_stands_counted:
  assumes "chain_stands A els ks ch txs pend half" "txs \<noteq> [] \<longrightarrow> tx_nr (hd txs) \<noteq> 0"
  shows "counted ch"
proof (cases "txs = []")
  case True
  then show ?thesis using assms(1) by (simp add: chain_stands_def head_stands_def counted_def unsigned_eq_0_iff)
next
  case False
  then have "unat (tx_nr (last txs)) = unat (tx_nr (hd txs)) + (length txs - 1)" "gc_max_tx_nr ch = tx_nr (last txs)"
    "unat (gc_transaction_count ch) = length txs"
    using assms(1) by (simp_all add: chain_stands_def head_stands_def run_of_def last_conv_nth)
  moreover have "0 < unat (tx_nr (hd txs))" using assms(2) False by (simp add: unsigned_eq_0_iff neq0_conv [symmetric] del: neq0_conv)
  ultimately have "unat (gc_transaction_count ch) \<le> unat (gc_max_tx_nr ch)" using False by (cases txs) simp_all
  then show ?thesis by (simp add: counted_def word_le_nat_alt)
qed

section \<open>A small chain\<close>

definition fresh_chain :: "u32 \<Rightarrow> (list_set, list_map, 'u) grdb_chain" where
  "fresh_chain sz = (zero_chain list_arnm)\<lparr>gc_segment_transactions := sz, gc_addresses := fresh_register, gc_ready := True\<rparr>"

definition moved_register :: "list_map grdb_addresses" where
  "moved_register = fresh_register\<lparr>ga_keys := [key_b], ga_entries := [new_entry\<lparr>last_balance_tx := 5\<rparr>], ga_max_tx_nr := 5, ga_transaction_count := 1\<rparr>"

definition sample_chain :: "u32 \<Rightarrow> (list_set, list_map, 'u) grdb_chain" where
  "sample_chain sz = (fresh_chain sz)\<lparr>gc_segments := [sample_index], gc_addresses := moved_register, gc_first_segment := 5 div ucast sz,
     gc_min_tx_nr := 5, gc_max_tx_nr := 5, gc_transaction_count := 1\<rparr>"

lemma moved_added: "grdb_addresses_add list_arnm (Some fresh_register) (Some sample_tx) () = (ARNM_SUCCESS, Some moved_register, ())"
proof -
  have f: "ga_ready fresh_register" "ga_transaction_count fresh_register = 0"
    by (simp_all add: fresh_register_def zero_addresses_def)
  have t: "tx_nr sample_tx = 5" "transaction_type sample_tx = 3" "type_marks sample_tx = []"
    "account_balances sample_tx = [\<lparr>ab_pubkey = key_b, ab_balance = 1, ab_community_uuid = coin_c\<rparr>]"
    by (simp_all add: sample_tx_def type_marks_def)
  have e: "entry_for_key list_arnm key_b (fresh_register, ()) = (ARNM_SUCCESS, 0, fresh_register\<lparr>ga_keys := [key_b], ga_entries := [new_entry]\<rparr>, ())"
    by (simp add: entry_for_key_def fresh_register_def zero_addresses_def list_arnm_def list_get_or_insert_def
      list_find_small list_keys_small grow_to.simps)
  have b: "note_balance list_arnm 5 \<lparr>ab_pubkey = key_b, ab_balance = 1, ab_community_uuid = coin_c\<rparr> (fresh_register, ()) =
    (ARNM_SUCCESS, fresh_register\<lparr>ga_keys := [key_b], ga_entries := [new_entry\<lparr>last_balance_tx := 5\<rparr>]\<rparr>, ())"
    by (simp add: note_balance_def sample_keys e)
  show ?thesis using f t by (simp add: grdb_addresses_add_def bind_ok_def b moved_register_def)
qed

lemma fresh_index_init:
  "grdb_transactions_init list_arnm (Some i) (Some \<lparr>o_base_tx_nr = 5, o_expected_addresses = 0, o_expected_days = 0\<rparr>) () = (ARNM_SUCCESS, Some fresh_index, ())"
  by (simp add: grdb_transactions_init_def list_arnm_def Let_def fresh_index_def zero_index_def)

lemma sample_chain_added:
  assumes "sz = 1 \<or> sz = 5"
  shows "grdb_chain_add list_arnm (Some (fresh_chain sz :: (list_set, list_map, 'u) grdb_chain)) (Some sample_tx) () = Inr (ARNM_SUCCESS, Some (sample_chain sz), ())"
proof -
  let ?f = "fresh_chain sz :: (list_set, list_map, 'u) grdb_chain"
  let ?c = "?f\<lparr>gc_first_segment := 5 div ucast sz\<rparr>"
  have c: "gc_ready ?f" "gc_segments ?f = []" "gc_transaction_count ?f = 0"
    "gc_addresses ?f = fresh_register" "gc_expected_addresses ?f = 0" "gc_expected_days ?f = 0"
    "gc_segment_transactions ?f = sz" "tx_nr sample_tx = 5"
    by (simp_all add: fresh_chain_def zero_chain_def sample_tx_def)
  have b: "begun_at sample_tx ?f = ?c" using c by (simp add: begun_at_def segment_of_def)
  have "(5 :: u64) div ucast sz * ucast sz = 5" using assms by auto
  then have o: "open_segment list_arnm 5 (?c, ()) = (ARNM_SUCCESS, ?c\<lparr>gc_segments := [fresh_index]\<rparr>, ())"
    using c fresh_index_init by (simp add: open_segment_def segment_of_def Let_def list_arnm_def)
  have f: "gt_transaction_count fresh_index = 0" by (simp add: fresh_index_def zero_index_def)
  have a: "add_at list_arnm 0 sample_tx (?c\<lparr>gc_segments := [fresh_index]\<rparr>, ()) = Inr (ARNM_SUCCESS, sample_chain sz, ())"
    using c f by (simp add: add_at_def segment_takes_def sample_added register_takes_def moved_added sample_chain_def)
  show ?thesis using c b o a by (simp add: grdb_chain_add_def place_and_add_def segment_of_def Let_def)
qed

lemma fresh_chain_stands: "sz \<noteq> 0 \<Longrightarrow> chain_stands list_arnm list_els list_keys (fresh_chain sz) [] None False"
  using fresh_register_holds by (intro chain_fresh_stands) (simp_all add: fresh_chain_def zero_chain_def)

lemma sample_chain_stands:
  assumes "sz = 1 \<or> sz = 5"
  shows "chain_stands list_arnm list_els list_keys (sample_chain sz :: (list_set, list_map, 'u) grdb_chain) [sample_tx] None False"
proof -
  have "length (ga_type_changes (gc_addresses (fresh_chain sz :: (list_set, list_map, 'u) grdb_chain))) + 2 \<le> 4294967295" "sz \<noteq> 0"
    using assms by (auto simp: fresh_chain_def fresh_register_def zero_addresses_def)
  with chain_add_stands [OF list_arnm_laws fresh_chain_stands _ sample_wf _ _ sample_chain_added [OF assms]] show ?thesis by simp
qed

section \<open>What the chain promises\<close>

text \<open>C20: The chain refines the list of its transactions, however it is cut into segments. A transaction that is
  taken is appended; after a refusal the chain stands for the same transactions, with this one perhaps half
  done: some of its marks are set, or its segment holds it and only the register does not. Adding the same
  transaction again picks it up from there.\<close>

theorem chain_refines:
  assumes "arnm_laws A els ks" "chain_stands A els ks ch txs pend half" "pend = None \<or> pend = Some tx"
    and "wf_transaction tx" "length (ga_type_changes (gc_addresses ch)) + 2 \<le> 4294967295" "length txs < 4294967295"
    and "grdb_chain_add A (Some ch) (Some tx) mem = Inr (r, ch', mem')"
  shows "\<exists>j. ch' = Some j \<and> (if r = ARNM_SUCCESS then chain_stands A els ks j (txs @ [tx]) None False
    else \<exists>pend' half'. (pend' = pend \<or> pend' = Some tx) \<and> chain_stands A els ks j txs pend' half')"
  using assms by (rule chain_add_stands)

theorem chain_refines_witness:
  "chain_stands list_arnm list_els list_keys (sample_chain 5 :: (list_set, list_map, unit) grdb_chain) [sample_tx] None False"
proof -
  let ?f = "fresh_chain 5 :: (list_set, list_map, unit) grdb_chain"
  have f: "length (ga_type_changes (gc_addresses ?f)) + 2 \<le> 4294967295"
    by (simp add: fresh_chain_def fresh_register_def zero_addresses_def)
  have s: "chain_stands list_arnm list_els list_keys ?f [] None False" by (rule fresh_chain_stands) simp
  have a: "grdb_chain_add list_arnm (Some ?f) (Some sample_tx) () = Inr (ARNM_SUCCESS, Some (sample_chain 5), ())"
    by (rule sample_chain_added) simp
  from chain_refines [OF list_arnm_laws s _ sample_wf f _ a] show ?thesis by simp
qed

text \<open>A new chain, and one that was reset, stand for no transaction; a chain whose start was refused is not
  ready.\<close>

lemma chain_starts_empty:
  assumes "arnm_laws A els ks"
  shows "(grdb_chain_init A (Some c) options mem = (r, ch, mem') \<longrightarrow>
      (\<exists>j. ch = Some j \<and> (if r = ARNM_SUCCESS then chain_stands A els ks j [] None False else \<not> gc_ready j)))
    \<and> (chain_stands A els ks c txs pend half \<longrightarrow>
      (\<exists>j. fst (grdb_chain_reset A (Some c) mem) = Some j \<and> chain_stands A els ks j [] None False))"
  using chain_init_stands [OF assms] chain_reset_stands [OF assms] by metis

text \<open>C21: Counting, paging and the newest match answer for the list of the transactions, from either end and
  across every segment; one that only the register refused is among them.\<close>

theorem chain_answers:
  assumes "arnm_laws A els ks" "chain_stands A els ks ch txs pend half" "all = shown txs pend half"
    and "\<forall>t \<in> set all. tx_community_uuid t = c" "days_in_order (with_pending txs pend)"
    and "wf_filter f" "days_readable f" "n \<le> GRDB_PAGE_MAX" "unat n \<le> length buf"
  shows "grdb_chain_count A (Some ch) (Some f) (Some x) = Inr (ARNM_SUCCESS, Some (word_of_nat (length (matching f all))))
    \<and> grdb_chain_newest A (Some ch) (Some f) (Some x) =
        Inr (if matching f all = [] then (False, Some x) else (True, Some (tx_nr (last (matching f all)))))
    \<and> grdb_chain_listing A (Some ch) (Some f) skip n descending (Some buf) (Some w) (Some k)
      = (let page = list_page (unat skip) (unat n) descending (map tx_nr (matching f all))
         in Inr (ARNM_SUCCESS, Some (page @ drop (length page) buf), Some (word_of_nat (length page)),
                 Some (word_of_nat (length (matching f all)))))"
  using chain_answer [OF assms(1,2,6,7) _ assms(5)] assms(4,8,9) unfolding assms(3) by blast

lemma sample_chain_asked:
  "sample_tx = t \<Longrightarrow> shown [t] None False = [t]" "with_pending [t] None = [t]"
  by (simp_all add: shown_def with_pending_def)

theorem chain_answers_witness:
  "grdb_chain_listing list_arnm (Some (sample_chain 5 :: (list_set, list_map, unit) grdb_chain)) (Some sample_filter) 0 2 True
     (Some [7, 8]) (Some 0) (Some 0) = Inr (ARNM_SUCCESS, Some [5, 8], Some 1, Some 1)"
proof -
  have s: "chain_stands list_arnm list_els list_keys (sample_chain 5 :: (list_set, list_map, unit) grdb_chain) [sample_tx] None False"
    by (rule sample_chain_stands) simp
  show ?thesis
    using chain_answers [OF list_arnm_laws s refl, of "tx_community_uuid sample_tx" sample_filter 2 "[7, 8]" 0 0 True 0 0]
      sample_filter_facts by (simp add: shown_def list_page_def)
qed

text \<open>C22: The size of a segment changes no answer: two chains that stand for the same transactions, cut differently,
  count alike, give the same pages and the same newest match.\<close>

theorem segment_size_changes_no_answer:
  assumes "arnm_laws A els ks" "chain_stands A els ks ch txs None False" "chain_stands A els ks ch' txs None False"
    and "\<forall>t \<in> set txs. tx_community_uuid t = c" "days_in_order txs"
    and "wf_filter f" "days_readable f" "n \<le> GRDB_PAGE_MAX" "unat n \<le> length buf"
  shows "grdb_chain_count A (Some ch) (Some f) (Some x) = grdb_chain_count A (Some ch') (Some f) (Some x)
    \<and> grdb_chain_newest A (Some ch) (Some f) (Some x) = grdb_chain_newest A (Some ch') (Some f) (Some x)
    \<and> grdb_chain_listing A (Some ch) (Some f) skip n descending (Some buf) (Some w) (Some k)
       = grdb_chain_listing A (Some ch') (Some f) skip n descending (Some buf) (Some w) (Some k)"
proof -
  have d: "days_in_order (with_pending txs None)" using assms(5) by (simp add: with_pending_def)
  have u: "\<forall>t \<in> set (shown txs None False). tx_community_uuid t = c" using assms(4) by (simp add: shown_def)
  note a = chain_answer [OF assms(1,2,6,7) u d] and b = chain_answer [OF assms(1,3,6,7) u d]
  show ?thesis using a(1,2) b(1,2) a(3) [OF assms(8,9)] b(3) [OF assms(8,9)] by metis
qed

theorem segment_size_changes_no_answer_witness:
  "grdb_chain_count list_arnm (Some (sample_chain 1 :: (list_set, list_map, unit) grdb_chain)) (Some sample_filter) (Some 0)
   = grdb_chain_count list_arnm (Some (sample_chain 5 :: (list_set, list_map, unit) grdb_chain)) (Some sample_filter) (Some 0)"
proof -
  have s: "chain_stands list_arnm list_els list_keys (sample_chain 1 :: (list_set, list_map, unit) grdb_chain) [sample_tx] None False"
    "chain_stands list_arnm list_els list_keys (sample_chain 5 :: (list_set, list_map, unit) grdb_chain) [sample_tx] None False"
    by (rule sample_chain_stands; simp)+
  have "days_in_order [sample_tx]" by (simp add: days_in_order_def)
  from segment_size_changes_no_answer [OF list_arnm_laws s _ this sample_filter_facts(1,2), of "tx_community_uuid sample_tx" 0 "[]" 0]
  show ?thesis by simp
qed

text \<open>C23: Loading ends, whatever the store answers and even where the caller names no end or the largest
  number there is: every transaction it adds raises the largest number of the chain.\<close>

theorem load_ends:
  assumes "chain_stands A els ks ch txs pend half" "txs \<noteq> [] \<longrightarrow> tx_nr (hd txs) \<noteq> 0"
  shows "\<exists>r. grdb_chain_load A (Some ch) from_nr to_nr loaded u mem = Some r"
proof -
  have "\<exists>r. load_loop A to_nr number 0 ch u mem = Some r" for number
    using load_loop_ends [OF chain_stands_counted [OF assms]] by fast
  then show ?thesis by (auto simp: grdb_chain_load_def Let_def)
qed

theorem load_ends_witness:
  "\<exists>r. grdb_chain_load list_arnm (Some (sample_chain 5 :: (list_set, list_map, unit) grdb_chain)) 6 0 None () () = Some r"
proof -
  have s: "chain_stands list_arnm list_els list_keys (sample_chain 5 :: (list_set, list_map, unit) grdb_chain) [sample_tx] None False"
    by (rule sample_chain_stands) simp
  have n: "tx_nr sample_tx \<noteq> 0" by (simp add: sample_tx_def)
  from load_ends [OF s] n show ?thesis by simp
qed


end
