(* ===== verification/GRD_Load.thy ===== *)
theory GRD_Load
  imports GRD_Row
begin

text \<open>
  Loading a chain out of its store. A store that holds a run of transactions answers the number of each of them with
  it and every other number as out of bounds, and goes on holding them: the locale \<open>transaction_store\<close>. Over such a
  store the loop of \<open>grdb_chain_load\<close> brings the chain as far as the register and the indices find memory.
\<close>

section \<open>What one addition does\<close>

text \<open>The day of a transaction can be reckoned without leaving the numbers of 64 bits.\<close>

definition day_readable :: "grdr_complete_transaction \<Rightarrow> bool" where
  "day_readable t \<longleftrightarrow> - 9223372036854689407 \<le> sint (seconds (confirmed_at t))"

lemma index_add_no_fault: "day_readable tx \<Longrightarrow> \<exists>x. grdb_transactions_add A (Some idx) (Some tx) mem = Inr x"
  by (auto simp: grdb_transactions_add_def day_readable_def day_of_second_readable split: prod.split)

lemma chain_add_no_fault:
  assumes "day_readable tx"
  shows "\<exists>r ch' mem'. grdb_chain_add A (Some ch) (Some tx) mem = Inr (r, ch', mem')"
proof -
  have "\<exists>x. segment_takes A seg tx m = Inr x" for seg m
    using index_add_no_fault [OF assms, of A seg m] by (auto simp: segment_takes_def)
  then have "\<exists>x. add_at A i tx s = Inr x" for i s
    by (cases s) (simp add: add_at_def fbind_def Let_def split: sum.split prod.split, metis old.sum.distinct(2) old.prod.exhaust)
  then have "\<exists>x. place_and_add A tx s = Inr x" for s
    by (cases s) (auto simp: place_and_add_def Let_def split: prod.split)
  then obtain x where "place_and_add A tx (begun_at tx ch, mem) = Inr x" by blast
  then show ?thesis by (cases x) (simp add: grdb_chain_add_def)
qed

definition changes :: "('s, 'm, 'u) grdb_chain \<Rightarrow> nat" where
  "changes ch = length (ga_type_changes (gc_addresses ch))"

lemma entry_keeps_changes: "entry_for_key A k (idx, mem) = (r, i, idx', mem') \<Longrightarrow> ga_type_changes idx' = ga_type_changes idx"
  by (auto simp: entry_for_key_def Let_def split: prod.splits if_splits)

lemma note_type_grows:
  "note_type A k nr ty (idx, mem) = (r, idx', mem') \<Longrightarrow> length (ga_type_changes idx') \<le> Suc (length (ga_type_changes idx))"
  by (auto simp: note_type_def Let_def split: prod.splits if_splits dest!: entry_keeps_changes)

lemma each_type_grows:
  "for_each (\<lambda>(k, ty). note_type A k nr ty) ms (idx, mem) = (r, idx', mem')
    \<Longrightarrow> length (ga_type_changes idx') \<le> length (ga_type_changes idx) + length ms"
proof (induction ms arbitrary: idx mem)
  case (Cons m ms)
  obtain r1 i1 m1 where n: "note_type A (fst m) nr (snd m) (idx, mem) = (r1, i1, m1)" by (metis prod_cases3)
  show ?case using Cons.prems Cons.IH [of i1 m1] note_type_grows [OF n] n
    by (cases "r1 = ARNM_SUCCESS") (auto simp: bind_ok_def case_prod_unfold)
qed simp

lemma note_balance_keeps: "note_balance A nr b (idx, mem) = (r, idx', mem') \<Longrightarrow> ga_type_changes idx' = ga_type_changes idx"
  by (auto simp: note_balance_def split: prod.splits if_splits dest!: entry_keeps_changes)

lemma each_balance_keeps:
  "for_each (note_balance A nr) bs (idx, mem) = (r, idx', mem') \<Longrightarrow> ga_type_changes idx' = ga_type_changes idx"
proof (induction bs arbitrary: idx mem)
  case (Cons b bs)
  obtain r1 i1 m1 where n: "note_balance A nr b (idx, mem) = (r1, i1, m1)" by (metis prod_cases3)
  show ?case using Cons.prems Cons.IH [of i1 m1] note_balance_keeps [OF n] n
    by (cases "r1 = ARNM_SUCCESS") (auto simp: bind_ok_def)
qed simp

lemma register_add_grows:
  assumes "grdb_addresses_add A (Some idx) (Some tx) mem = (r, Some idx', mem')"
  shows "length (ga_type_changes idx') \<le> length (ga_type_changes idx) + 2"
proof -
  obtain r1 i1 m1 where t: "for_each (\<lambda>(k, ty). note_type A k (tx_nr tx) ty) (type_marks tx) (idx, mem) = (r1, i1, m1)" by (metis prod_cases3)
  obtain r2 i2 m2 where b: "for_each (note_balance A (tx_nr tx)) (account_balances tx) (i1, m1) = (r2, i2, m2)" by (metis prod_cases3)
  have "length (type_marks tx) \<le> 2" by (simp add: type_marks_def)
  then show ?thesis using assms t b each_type_grows [OF t] each_balance_keeps [OF b]
    by (auto simp: grdb_addresses_add_def bind_ok_def split: if_splits)
qed

lemma register_takes_grows:
  assumes "register_takes A tx (ch, mem) = (r, ch', mem')"
  shows "changes ch' \<le> changes ch + 2"
proof -
  obtain r1 ga m1 where g: "grdb_addresses_add A (Some (gc_addresses ch)) (Some tx) mem = (r1, ga, m1)" by (metis prod_cases3)
  show ?thesis using assms g register_add_grows [of A "gc_addresses ch" tx mem r1 _ m1]
    by (cases ga) (auto simp: register_takes_def Let_def changes_def split: if_splits)
qed

lemma add_at_grows: "add_at A i tx (ch, mem) = Inr (r, ch', mem') \<Longrightarrow> changes ch' \<le> changes ch + 2"
  by (auto simp: add_at_def fbind_eq_Inr Let_def changes_def split: if_splits dest!: register_takes_grows)

lemma open_keeps_changes: "open_segment A nr (ch, mem) = (r, ch', mem') \<Longrightarrow> changes ch' = changes ch"
  by (auto simp: open_segment_def Let_def changes_def split: prod.splits if_splits option.splits)

lemma chain_add_grows:
  assumes "grdb_chain_add A (Some ch) (Some tx) mem = Inr (r, Some ch', mem')"
  shows "changes ch' \<le> changes ch + 2"
proof -
  have "changes j \<le> changes c + 2" if "place_and_add A tx (c, mem) = Inr (q, j, m)" for c j q m
    using that by (auto simp: place_and_add_def Let_def split: prod.splits if_splits dest!: open_keeps_changes add_at_grows)
  moreover have "changes (begun_at tx ch) = changes ch" by (simp add: begun_at_def changes_def)
  ultimately show ?thesis using assms by (fastforce simp: grdb_chain_add_def fbind_eq_Inr split: if_splits)
qed

section \<open>The contract of a store\<close>

lemma run_numbers:
  assumes "run_of txs None" "i < length txs"
  shows "unat (tx_nr (txs ! i)) = unat (tx_nr (hd txs)) + i"
  using assms by (simp add: run_of_def)

lemma numbers_not_zero:
  assumes "run_of txs None" "tx_nr (hd txs) \<noteq> 0" "t \<in> set txs"
  shows "tx_nr t \<noteq> 0"
proof -
  obtain i where "i < length txs" "t = txs ! i" using assms(3) by (auto simp: in_set_conv_nth)
  then have "unat (tx_nr t) = unat (tx_nr (hd txs)) + i" using run_numbers [OF assms(1)] by simp
  then show ?thesis using assms(2) by (metis add_is_0 unsigned_0 unsigned_eq_0_iff)
qed

lemma number_after:
  assumes r: "run_of txs None" and h: "tx_nr (hd txs) \<noteq> 0" and k: "k < length txs"
  shows "if Suc k < length txs then tx_nr (txs ! k) + 1 = tx_nr (txs ! Suc k) else tx_nr (txs ! k) + 1 \<notin> tx_nr ` set txs"
proof (cases "Suc k < length txs")
  case True
  have "unat (tx_nr (txs ! Suc k)) = unat (tx_nr (txs ! k)) + 1" using run_numbers [OF r] True by simp
  then have "unat (tx_nr (txs ! k) + 1) = unat (tx_nr (txs ! Suc k))"
    using unat_lt_64 [of "tx_nr (txs ! Suc k)"] by (simp add: unat_add_small)
  then have "tx_nr (txs ! k) + 1 = tx_nr (txs ! Suc k)" by (rule word_eq_unatI)
  then show ?thesis using True by simp
next
  case False
  have "tx_nr (txs ! k) + 1 \<noteq> tx_nr t" if t: "t \<in> set txs" for t
  proof -
    obtain i where i: "i < length txs" "t = txs ! i" using t by (auto simp: in_set_conv_nth)
    have n: "unat (tx_nr (txs ! k)) = unat (tx_nr (hd txs)) + k" "unat (tx_nr t) = unat (tx_nr (hd txs)) + i"
      using run_numbers [OF r] i k by simp_all
    have p: "0 < unat (tx_nr (hd txs))" using h by (simp add: unsigned_eq_0_iff neq0_conv [symmetric] del: neq0_conv)
    show ?thesis
    proof (cases "unat (tx_nr (txs ! k)) = 18446744073709551615")
      case True
      then have "unat (tx_nr (txs ! k) + 1) = 0" by (simp add: unat_word_ariths)
      then show ?thesis using n(2) p by auto
    next
      case f: False
      then have "unat (tx_nr (txs ! k) + 1) = unat (tx_nr (txs ! k)) + 1" using unat_lt_64 [of "tx_nr (txs ! k)"] by (simp add: unat_add_small)
      then show ?thesis using n i False by auto
    qed
  qed
  then show ?thesis using False by auto
qed

text \<open>One round of the loop with no end named.\<close>

lemma load_ended:
  assumes "grdb_chain_store_fetch (Some (gc_store ch)) nr (Some None) u = Inr (ARNM_ERROR_ARRAY_INDEX_OUT_OF_BOUNDS, out, u')"
  shows "load_loop A 0 nr n ch u mem = Some (Inr (ARNM_SUCCESS, n, ch, u', mem))"
  by (subst load_loop.simps) (simp add: assms)

lemma load_added:
  assumes "grdb_chain_store_fetch (Some (gc_store ch)) nr (Some None) u = Inr (ARNM_SUCCESS, Some (Some t), u')"
    and "grdb_chain_add A (Some ch) (Some t) mem = Inr (r, Some j, mem')"
  shows "load_loop A 0 nr n ch u mem =
    (if r = ARNM_SUCCESS then load_loop A 0 (nr + 1) (n + 1) j u' mem' else Some (Inr (r, n, j, u', mem')))"
  by (subst load_loop.simps) (simp add: assms)

locale transaction_store =
  fixes store :: "'u grdb_chain_store" and holds :: "'u \<Rightarrow> grdr_complete_transaction list \<Rightarrow> bool"
  assumes readable: "st_fetch store \<noteq> None"
    and numbers: "holds u txs \<Longrightarrow> run_of txs None \<and> (txs \<noteq> [] \<longrightarrow> tx_nr (hd txs) \<noteq> 0)"
    and held: "holds u txs \<Longrightarrow> t \<in> set txs \<Longrightarrow>
      \<exists>u'. grdb_chain_store_fetch (Some store) (tx_nr t) (Some x) u = Inr (ARNM_SUCCESS, Some (Some t), u') \<and> holds u' txs"
    and not_held: "holds u txs \<Longrightarrow> nr \<notin> tx_nr ` set txs \<Longrightarrow>
      \<exists>u'. grdb_chain_store_fetch (Some store) nr (Some x) u = Inr (ARNM_ERROR_ARRAY_INDEX_OUT_OF_BOUNDS, Some x, u') \<and> holds u' txs"
begin

text \<open>The chain has the first \<open>k\<close> transactions of the store and asks for the next.\<close>

lemma loop_loads:
  assumes L: "arnm_laws A els ks" and wf: "\<forall>t \<in> set txs. wf_transaction t \<and> day_readable t" and len: "length txs \<le> 4294967295"
    and c: "chain_stands A els ks ch (take k txs) None False" "gc_store ch = store" "changes ch + 2 * (length txs - k) \<le> 4294967295"
    and u: "holds u txs" and k: "k \<le> length txs" and nr: "if k < length txs then nr = tx_nr (txs ! k) else nr \<notin> tx_nr ` set txs"
  shows "\<exists>r k' ch' u' mem' pend half. load_loop A 0 nr n ch u mem = Some (Inr (r, n + word_of_nat (k' - k), ch', u', mem'))
    \<and> k \<le> k' \<and> k' \<le> length txs \<and> holds u' txs \<and> chain_stands A els ks ch' (take k' txs) pend half
    \<and> (if r = ARNM_SUCCESS then k' = length txs \<and> pend = None \<and> \<not> half else k' < length txs \<and> (pend = None \<or> pend = Some (txs ! k')))"
  using c u k nr
proof (induction "length txs - k" arbitrary: k ch u mem nr n rule: less_induct)
  case less
  show ?case
  proof (cases "k < length txs")
    case False
    then obtain u' where u': "grdb_chain_store_fetch (Some (gc_store ch)) nr (Some None) u = Inr (ARNM_ERROR_ARRAY_INDEX_OUT_OF_BOUNDS, Some None, u')"
      "holds u' txs" using not_held [OF less.prems(4), of nr None] less.prems(2,6) by auto
    have e: "k = length txs" "take k txs = txs" using False less.prems(5) by simp_all
    have l: "load_loop A 0 nr n ch u mem = Some (Inr (ARNM_SUCCESS, n + word_of_nat (k - k), ch, u', mem))"
      using load_ended [OF u'(1)] by simp
    show ?thesis
    proof (intro exI conjI)
      show "load_loop A 0 nr n ch u mem = Some (Inr (ARNM_SUCCESS, n + word_of_nat (k - k), ch, u', mem))" by (rule l)
      show "chain_stands A els ks ch (take k txs) None False" by (rule less.prems(1))
    qed (use u'(2) e(1) in simp_all)
  next
    case True
    let ?t = "txs ! k"
    have t: "?t \<in> set txs" "nr = tx_nr ?t" using True less.prems(6) by simp_all
    obtain u1 where f: "grdb_chain_store_fetch (Some (gc_store ch)) nr (Some None) u = Inr (ARNM_SUCCESS, Some (Some ?t), u1)" "holds u1 txs"
      using held [OF less.prems(4) t(1), of None] less.prems(2) t(2) by auto
    have w: "wf_transaction ?t" "day_readable ?t" using wf t(1) by blast+
    obtain r ch1 m1 where a: "grdb_chain_add A (Some ch) (Some ?t) mem = Inr (r, ch1, m1)"
      using chain_add_no_fault [OF w(2), of A ch mem] by blast
    have "length (ga_type_changes (gc_addresses ch)) + 2 \<le> 4294967295" using less.prems(3) True by (simp add: changes_def)
    moreover have "length (take k txs) < 4294967295" using True len by simp
    ultimately obtain j where j: "ch1 = Some j"
      "if r = ARNM_SUCCESS then chain_stands A els ks j (take k txs @ [?t]) None False
       else \<exists>pend half. (pend = None \<or> pend = Some ?t) \<and> chain_stands A els ks j (take k txs) pend half"
      using chain_add_stands [OF L less.prems(1) _ w(1) _ _ a] by auto
    show ?thesis
    proof (cases "r = ARNM_SUCCESS")
      case False
      then obtain pend half where "pend = None \<or> pend = Some ?t" "chain_stands A els ks j (take k txs) pend half" using j(2) by auto
      moreover have "load_loop A 0 nr n ch u mem = Some (Inr (r, n, j, u1, m1))" using load_added [OF f(1), of A mem r j m1 n] a j(1) False by simp
      ultimately show ?thesis using False True f(2)
        by (intro exI [of _ r] exI [of _ k] exI [of _ j] exI [of _ u1] exI [of _ m1] exI [of _ pend] exI [of _ half]) simp
    next
      case r: True
      have s: "chain_stands A els ks j (take (Suc k) txs) None False" using j(2) r True by (simp add: take_Suc_conv_app_nth)
      have g: "gc_store j = store" "changes j + 2 * (length txs - Suc k) \<le> 4294967295"
        using chain_add_counts [of A ch "Some ?t" mem ch1 m1] chain_add_grows [of A ch ?t mem r j m1] a j(1) r less.prems(2,3) True by auto
      have "if Suc k < length txs then nr + 1 = tx_nr (txs ! Suc k) else nr + 1 \<notin> tx_nr ` set txs"
        using number_after [of txs k] numbers [OF less.prems(4)] True t(2) by (cases txs) auto
      moreover have "length txs - Suc k < length txs - k" "Suc k \<le> length txs" using True by simp_all
      ultimately obtain r' k' ch' u' mem' pend half where h: "load_loop A 0 (nr + 1) (n + 1) j u1 m1 = Some (Inr (r', n + 1 + word_of_nat (k' - Suc k), ch', u', mem'))"
        "Suc k \<le> k'" "k' \<le> length txs" "holds u' txs" "chain_stands A els ks ch' (take k' txs) pend half"
        "if r' = ARNM_SUCCESS then k' = length txs \<and> pend = None \<and> \<not> half else k' < length txs \<and> (pend = None \<or> pend = Some (txs ! k'))"
        using less.hyps [OF _ s g f(2), of "nr + 1" "n + 1" m1] by (elim exE conjE meta_impE) blast+
      have e: "k' - k = Suc (k' - Suc k)" using h(2) by simp
      have "n + 1 + word_of_nat (k' - Suc k) = n + word_of_nat (k' - k)" unfolding e by simp
      then have "load_loop A 0 nr n ch u mem = Some (Inr (r', n + word_of_nat (k' - k), ch', u', mem'))"
        using h(1) load_added [OF f(1), of A mem r j m1 n] a j(1) r by simp
      then show ?thesis using h(2-6) by (intro exI [of _ r'] exI [of _ k'] exI [of _ ch'] exI [of _ u'] exI [of _ mem'] exI [of _ pend] exI [of _ half]) simp
    qed
  qed
qed

lemma loads:
  assumes "arnm_laws A els ks" "\<forall>t \<in> set txs. wf_transaction t \<and> day_readable t" "length txs \<le> 4294967295"
    and "chain_stands A els ks ch (take k txs) None False" "gc_store ch = store" "changes ch + 2 * (length txs - k) \<le> 4294967295"
    and "holds u txs" "k < length txs"
  shows "\<exists>r k' ch' u' mem' pend half. grdb_chain_load A (Some ch) (tx_nr (txs ! k)) 0 (Some x) u mem
        = Some (Inr (r, Some (word_of_nat (k' - k)), Some ch', u', mem'))
    \<and> k \<le> k' \<and> k' \<le> length txs \<and> holds u' txs \<and> chain_stands A els ks ch' (take k' txs) pend half
    \<and> (if r = ARNM_SUCCESS then k' = length txs \<and> pend = None \<and> \<not> half else k' < length txs \<and> (pend = None \<or> pend = Some (txs ! k')))"
proof -
  have n: "tx_nr (txs ! k) \<noteq> 0" using numbers_not_zero [of txs "txs ! k"] numbers [OF assms(7)] assms(8) by fastforce
  have h: "gc_ready ch" "grdb_chain_store_is_readable (Some (gc_store ch))"
    using assms(4,5) readable by (simp_all add: chain_stands_def head_stands_def grdb_chain_store_is_readable_def)
  have "k \<le> length txs" "if k < length txs then tx_nr (txs ! k) = tx_nr (txs ! k) else tx_nr (txs ! k) \<notin> tx_nr ` set txs" using assms(8) by simp_all
  from loop_loads [OF assms(1-7) this, of 0 mem] obtain r k' ch' u' mem' pend half where
    l: "load_loop A 0 (tx_nr (txs ! k)) 0 ch u mem = Some (Inr (r, word_of_nat (k' - k), ch', u', mem'))" and
    rest: "k \<le> k' \<and> k' \<le> length txs \<and> holds u' txs \<and> chain_stands A els ks ch' (take k' txs) pend half
      \<and> (if r = ARNM_SUCCESS then k' = length txs \<and> pend = None \<and> \<not> half else k' < length txs \<and> (pend = None \<or> pend = Some (txs ! k')))"
    by (auto 0 3)
  have "grdb_chain_load A (Some ch) (tx_nr (txs ! k)) 0 (Some x) u mem = Some (Inr (r, Some (word_of_nat (k' - k)), Some ch', u', mem'))"
    using n h l by (simp add: grdb_chain_load_def)
  then show ?thesis using rest by blast
qed

end

end
