(* ===== verification/GRD_Wire.thy ===== *)
theory GRD_Wire
  imports GRD_Data
begin

text \<open>
  The wire structs of \<open>data/wire\<close>: the specific transactions, the transaction body, the gradido and the
  confirmed transaction, the ledger anchor, and the calls that fill, read and release them. A counted array is a list;
  an array that has been reserved and not filled yet holds zeroed entries. The members of the body's union are
  separate fields, read behind \<open>transaction_type\<close>. What the calls use of arnm is a record of its operations
  (\<open>arnm_memory\<close>), with the state \<open>'p\<close> of the allocator passed along; a result other than \<open>ARNM_SUCCESS\<close> is
  a refusal. A pointer to a struct that may be NULL is an option; there always is an allocator.
\<close>

section \<open>Memory\<close>

record 'p arnm_memory =
  mem_alloc :: "nat \<Rightarrow> 'p \<Rightarrow> arnm_result \<times> 'p"
  mem_free :: "nat \<Rightarrow> 'p \<Rightarrow> 'p"
  mem_clone :: "nat \<Rightarrow> 'p \<Rightarrow> arnm_result \<times> 'p"
  mem_block_alloc :: "u32 \<Rightarrow> 'p \<Rightarrow> arnm_result \<times> 'p"
  mem_block_clone :: "bytes \<Rightarrow> 'p \<Rightarrow> arnm_result \<times> 'p"
  mem_block_realloc :: "u32 \<Rightarrow> u32 \<Rightarrow> 'p \<Rightarrow> arnm_result \<times> u32 \<times> 'p"
  mem_block_free :: "u32 \<Rightarrow> 'p \<Rightarrow> 'p"
  mem_is_arena :: "'p \<Rightarrow> bool"
  mem_arena_remaining :: "'p \<Rightarrow> u32"
  mem_block_address :: "'p \<Rightarrow> nat"
  mem_init_arena :: "u32 \<Rightarrow> arnm_result \<times> 'p"
  mem_init_arena_borrow :: "u32 \<Rightarrow> arnm_result \<times> 'p"
  mem_align8 :: "nat \<Rightarrow> nat"
  sizeof_memory_block :: nat
  max_alloc_size :: nat

text \<open>Calls one after the other, each with the fault or the result of those before it.\<close>

definition then_ok ::
  "c_fault + arnm_result \<times> 's \<Rightarrow> ('s \<Rightarrow> c_fault + arnm_result \<times> 's) \<Rightarrow> c_fault + arnm_result \<times> 's" where
  "then_ok r f = fbind r (\<lambda>(res, s). if res = ARNM_SUCCESS then f s else Inr (res, s))"

text \<open>The result of a call on a member, put into the struct it is a member of.\<close>

definition put_member :: "('m \<Rightarrow> 's) \<Rightarrow> arnm_result \<times> 'm \<Rightarrow> arnm_result \<times> 's" where
  "put_member f r = (fst r, f (snd r))"

lemma then_ok_simps [simp]:
  "then_ok (Inl e) f = Inl e"
  "then_ok (Inr (res, s)) f = (if res = ARNM_SUCCESS then f s else Inr (res, s))"
  by (simp_all add: then_ok_def)

lemma put_member_simp [simp]: "put_member f (r, m) = (r, f m)"
  by (simp add: put_member_def)

definition SIZEOF_grdw_account_balance :: nat where "SIZEOF_grdw_account_balance = 56"
definition SIZEOF_grdw_signature_pair :: nat where "SIZEOF_grdw_signature_pair = 96"
definition SIZEOF_grdw_ledger_anchor :: nat where "SIZEOF_grdw_ledger_anchor = 48"

text \<open>An enumeration, padded, and a memory block.\<close>

definition SIZEOF_grdw_encrypted_memo :: "'p arnm_memory \<Rightarrow> nat" where
  "SIZEOF_grdw_encrypted_memo A = 8 + sizeof_memory_block A"

section \<open>Basic types\<close>

definition grdw_account_balance_get_balance :: "grdw_account_balance option \<Rightarrow> i64" where
  "grdw_account_balance_get_balance b = (case b of None \<Rightarrow> 0 | Some b \<Rightarrow> ab_balance b)"

definition grdw_account_balance_get_public_key :: "grdw_account_balance option \<Rightarrow> bytes option" where
  "grdw_account_balance_get_public_key b = map_option ab_pubkey b"

definition grdw_account_balance_get_community_uuid :: "grdw_account_balance option \<Rightarrow> bytes option" where
  "grdw_account_balance_get_community_uuid b = map_option ab_community_uuid b"

record grdw_timestamp_seconds =
  wts_seconds :: i64

record grdw_transfer_amount =
  wta_pubkey :: bytes
  wta_amount :: i64
  wta_community_uuid :: bytes

section \<open>Specific transactions\<close>

record grdw_community_friends_update =
  wfu_color_fusion :: bool

record grdw_community_root =
  wcr_pubkey :: bytes
  wcr_gmw_pubkey :: bytes
  wcr_auf_pubkey :: bytes

record grdw_gradido_creation =
  wgc_recipient :: grdw_transfer_amount
  wgc_target_date :: grdw_timestamp_seconds

record grdw_gradido_transfer =
  wgt_sender :: grdw_transfer_amount
  wgt_recipient :: bytes

record grdw_gradido_deferred_transfer =
  wdt_transfer :: grdw_gradido_transfer
  wdt_timeout_duration :: u32

record grdw_gradido_redeem_deferred_transfer =
  wrt_deferred_transfer_transaction_nr :: u64
  wrt_transfer :: grdw_gradido_transfer

record grdw_gradido_timeout_deferred_transfer =
  wto_deferred_transfer_transaction_nr :: u64

record grdw_register_address =
  wra_user_pubkey :: bytes
  wra_address_type :: grdt_address
  wra_derivation_index :: u32
  wra_name_hash :: bytes
  wra_account_pubkey :: bytes

definition grdw_community_friends_update_assemble ::
  "grdw_community_friends_update \<Rightarrow> bool \<Rightarrow> grdw_community_friends_update" where
  "grdw_community_friends_update_assemble t color_fusion = t\<lparr>wfu_color_fusion := color_fusion\<rparr>"

text \<open>\<open>memcpy\<close> of a fixed number of bytes from a buffer that may hold more.\<close>

abbreviation key_of :: "bytes \<Rightarrow> bytes" where "key_of b \<equiv> take SIGN_PUBLIC_KEY_SIZE b"
abbreviation hash_of :: "bytes \<Rightarrow> bytes" where "hash_of b \<equiv> take GENERIC_HASH_SIZE b"
abbreviation uuid_of :: "bytes \<Rightarrow> bytes" where "uuid_of b \<equiv> take ARNM_UUID_BINARY_SIZE b"

text \<open>Assembling from pointers, any of which may be NULL: then nothing is done.\<close>

definition grdw_community_root_assemble ::
  "grdw_community_root \<Rightarrow> bytes option \<Rightarrow> bytes option \<Rightarrow> bytes option \<Rightarrow> grdw_community_root" where
  "grdw_community_root_assemble t pubkey gmw auf =
     (case (pubkey, gmw, auf) of (Some pubkey, Some gmw, Some auf) \<Rightarrow>
        t\<lparr>wcr_pubkey := key_of pubkey, wcr_gmw_pubkey := key_of gmw, wcr_auf_pubkey := key_of auf\<rparr>
      | _ \<Rightarrow> t)"

definition grdw_gradido_creation_assemble ::
  "grdw_gradido_creation \<Rightarrow> bytes option \<Rightarrow> i64 \<Rightarrow> bytes option \<Rightarrow> u64 \<Rightarrow> grdw_gradido_creation" where
  "grdw_gradido_creation_assemble t recipient amt uuid target_date_seconds =
     (case (recipient, uuid) of (Some recipient, Some uuid) \<Rightarrow>
        t\<lparr>wgc_recipient := \<lparr>wta_pubkey = key_of recipient, wta_amount = amt, wta_community_uuid = uuid_of uuid\<rparr>,
          wgc_target_date := \<lparr>wts_seconds = target_date_seconds\<rparr>\<rparr>
      | _ \<Rightarrow> t)"

definition grdw_gradido_transfer_assemble ::
  "grdw_gradido_transfer \<Rightarrow> bytes option \<Rightarrow> i64 \<Rightarrow> bytes option \<Rightarrow> bytes option \<Rightarrow> grdw_gradido_transfer" where
  "grdw_gradido_transfer_assemble t sender amt uuid recipient =
     (case (sender, uuid, recipient) of (Some sender, Some uuid, Some recipient) \<Rightarrow>
        t\<lparr>wgt_sender := \<lparr>wta_pubkey = key_of sender, wta_amount = amt, wta_community_uuid = uuid_of uuid\<rparr>,
          wgt_recipient := key_of recipient\<rparr>
      | _ \<Rightarrow> t)"

definition grdw_gradido_deferred_transfer_assemble ::
  "grdw_gradido_deferred_transfer \<Rightarrow> bytes option \<Rightarrow> i64 \<Rightarrow> bytes option \<Rightarrow> bytes option \<Rightarrow> u32
    \<Rightarrow> grdw_gradido_deferred_transfer" where
  "grdw_gradido_deferred_transfer_assemble t sender amt uuid recipient timeout =
     (case (sender, uuid, recipient) of (Some sender, Some uuid, Some recipient) \<Rightarrow>
        t\<lparr>wdt_transfer := (wdt_transfer t)
              \<lparr>wgt_sender := \<lparr>wta_pubkey = key_of sender, wta_amount = amt, wta_community_uuid = uuid_of uuid\<rparr>,
               wgt_recipient := key_of recipient\<rparr>,
          wdt_timeout_duration := timeout\<rparr>
      | _ \<Rightarrow> t)"

definition grdw_gradido_redeem_deferred_transfer_assemble ::
  "grdw_gradido_redeem_deferred_transfer \<Rightarrow> u64 \<Rightarrow> bytes option \<Rightarrow> i64 \<Rightarrow> bytes option \<Rightarrow> bytes option
    \<Rightarrow> grdw_gradido_redeem_deferred_transfer" where
  "grdw_gradido_redeem_deferred_transfer_assemble t nr sender amt uuid recipient =
     (case (sender, uuid, recipient) of (Some sender, Some uuid, Some recipient) \<Rightarrow>
        t\<lparr>wrt_deferred_transfer_transaction_nr := nr,
          wrt_transfer := (wrt_transfer t)
              \<lparr>wgt_sender := \<lparr>wta_pubkey = key_of sender, wta_amount = amt, wta_community_uuid = uuid_of uuid\<rparr>,
               wgt_recipient := key_of recipient\<rparr>\<rparr>
      | _ \<Rightarrow> t)"

definition grdw_gradido_timeout_deferred_transfer_assemble ::
  "grdw_gradido_timeout_deferred_transfer \<Rightarrow> u64 \<Rightarrow> grdw_gradido_timeout_deferred_transfer" where
  "grdw_gradido_timeout_deferred_transfer_assemble t nr = t\<lparr>wto_deferred_transfer_transaction_nr := nr\<rparr>"

definition grdw_register_address_assemble ::
  "grdw_register_address \<Rightarrow> bytes option \<Rightarrow> grdt_address \<Rightarrow> u32 \<Rightarrow> bytes option \<Rightarrow> bytes option
    \<Rightarrow> grdw_register_address" where
  "grdw_register_address_assemble t user type index name account =
     (case (user, name, account) of (Some user, Some name, Some account) \<Rightarrow>
        t\<lparr>wra_user_pubkey := key_of user, wra_address_type := type, wra_derivation_index := index,
          wra_name_hash := hash_of name, wra_account_pubkey := key_of account\<rparr>
      | _ \<Rightarrow> t)"

section \<open>Ledger anchors\<close>

abbreviation GRDT_LEDGER_ANCHOR_UNSPECIFIED :: grdt_ledger_anchor where
  "GRDT_LEDGER_ANCHOR_UNSPECIFIED \<equiv> 0"
abbreviation GRDT_LEDGER_ANCHOR_HIERO_TRANSACTION_ID :: grdt_ledger_anchor where
  "GRDT_LEDGER_ANCHOR_HIERO_TRANSACTION_ID \<equiv> 2"
abbreviation GRDT_LEDGER_ANCHOR_LEGACY_GRADIDO_DB_TRANSACTION_ID :: grdt_ledger_anchor where
  "GRDT_LEDGER_ANCHOR_LEGACY_GRADIDO_DB_TRANSACTION_ID \<equiv> 3"
abbreviation GRDT_LEDGER_ANCHOR_NODE_TRIGGER_TRANSACTION_ID :: grdt_ledger_anchor where
  "GRDT_LEDGER_ANCHOR_NODE_TRIGGER_TRANSACTION_ID \<equiv> 4"
abbreviation GRDT_LEDGER_ANCHOR_LEGACY_GRADIDO_DB_COMMUNITY_ID :: grdt_ledger_anchor where
  "GRDT_LEDGER_ANCHOR_LEGACY_GRADIDO_DB_COMMUNITY_ID \<equiv> 5"
abbreviation GRDT_LEDGER_ANCHOR_LEGACY_GRADIDO_DB_USER_ID :: grdt_ledger_anchor where
  "GRDT_LEDGER_ANCHOR_LEGACY_GRADIDO_DB_USER_ID \<equiv> 6"
abbreviation GRDT_LEDGER_ANCHOR_LEGACY_GRADIDO_DB_CONTRIBUTION_ID :: grdt_ledger_anchor where
  "GRDT_LEDGER_ANCHOR_LEGACY_GRADIDO_DB_CONTRIBUTION_ID \<equiv> 7"
abbreviation GRDT_LEDGER_ANCHOR_LEGACY_GRADIDO_DB_TRANSACTION_LINK_ID :: grdt_ledger_anchor where
  "GRDT_LEDGER_ANCHOR_LEGACY_GRADIDO_DB_TRANSACTION_LINK_ID \<equiv> 8"

definition grdw_ledger_anchor_create :: grdw_ledger_anchor where
  "grdw_ledger_anchor_create = zero_anchor"

definition grdw_ledger_anchor_create_copy :: "grdw_ledger_anchor \<Rightarrow> grdw_ledger_anchor" where
  "grdw_ledger_anchor_create_copy a = a"

definition grdw_ledger_anchor_assemble_hiero_transaction_id ::
  "grdw_ledger_anchor \<Rightarrow> i64 \<Rightarrow> i32 \<Rightarrow> i64 \<Rightarrow> i64 \<Rightarrow> i64 \<Rightarrow> grdw_ledger_anchor" where
  "grdw_ledger_anchor_assemble_hiero_transaction_id a secs nans shard realm account =
     a\<lparr>la_type := GRDT_LEDGER_ANCHOR_HIERO_TRANSACTION_ID,
       hiero_transaction_id := \<lparr>transactionValidStart = \<lparr>seconds = secs, nanos = nans\<rparr>,
         accountID = \<lparr>shardNum = shard, realmNum = realm, accountNum = account\<rparr>\<rparr>\<rparr>"

definition grdw_ledger_anchor_assemble_legacy_id ::
  "grdw_ledger_anchor option \<Rightarrow> grdt_ledger_anchor \<Rightarrow> u64 \<Rightarrow> arnm_result \<times> grdw_ledger_anchor option" where
  "grdw_ledger_anchor_assemble_legacy_id a type k =
     (case a of None \<Rightarrow> (ARNM_ERROR_NULL_POINTER, None) | Some a \<Rightarrow>
        if type = GRDT_LEDGER_ANCHOR_UNSPECIFIED \<or> type = GRDT_LEDGER_ANCHOR_HIERO_TRANSACTION_ID
           \<or> type = GRDT_LEDGER_ANCHOR_NODE_TRIGGER_TRANSACTION_ID
        then (ARNM_ERROR_INVALID_ENUM_TYPE, Some a)
        else (ARNM_SUCCESS, Some (a\<lparr>la_type := type, la_id := k\<rparr>)))"

definition grdw_ledger_anchor_assemble_node_trigger_transaction_id ::
  "grdw_ledger_anchor option \<Rightarrow> u64 \<Rightarrow> arnm_result \<times> grdw_ledger_anchor option" where
  "grdw_ledger_anchor_assemble_node_trigger_transaction_id a k =
     (case a of None \<Rightarrow> (ARNM_ERROR_NULL_POINTER, None) | Some a \<Rightarrow>
        (ARNM_SUCCESS, Some (a\<lparr>la_type := GRDT_LEDGER_ANCHOR_NODE_TRIGGER_TRANSACTION_ID, la_id := k\<rparr>)))"

definition grdw_ledger_anchor_get_type :: "grdw_ledger_anchor option \<Rightarrow> grdt_ledger_anchor" where
  "grdw_ledger_anchor_get_type a = (case a of None \<Rightarrow> GRDT_LEDGER_ANCHOR_UNSPECIFIED | Some a \<Rightarrow> la_type a)"

definition grdw_ledger_anchor_is_legacy :: "grdw_ledger_anchor option \<Rightarrow> bool" where
  "grdw_ledger_anchor_is_legacy a =
     (case a of None \<Rightarrow> False | Some a \<Rightarrow>
        GRDT_LEDGER_ANCHOR_LEGACY_GRADIDO_DB_TRANSACTION_ID = la_type a
        \<or> GRDT_LEDGER_ANCHOR_LEGACY_GRADIDO_DB_COMMUNITY_ID = la_type a
        \<or> GRDT_LEDGER_ANCHOR_LEGACY_GRADIDO_DB_USER_ID = la_type a
        \<or> GRDT_LEDGER_ANCHOR_LEGACY_GRADIDO_DB_CONTRIBUTION_ID = la_type a
        \<or> GRDT_LEDGER_ANCHOR_LEGACY_GRADIDO_DB_TRANSACTION_LINK_ID = la_type a)"

definition grdw_ledger_anchor_is_hiero_transaction_id :: "grdw_ledger_anchor option \<Rightarrow> bool" where
  "grdw_ledger_anchor_is_hiero_transaction_id a =
     (case a of None \<Rightarrow> False | Some a \<Rightarrow> GRDT_LEDGER_ANCHOR_HIERO_TRANSACTION_ID = la_type a)"

definition grdw_ledger_anchor_is_node_trigger_transaction_id :: "grdw_ledger_anchor option \<Rightarrow> bool" where
  "grdw_ledger_anchor_is_node_trigger_transaction_id a =
     (case a of None \<Rightarrow> False | Some a \<Rightarrow> GRDT_LEDGER_ANCHOR_NODE_TRIGGER_TRANSACTION_ID = la_type a)"

definition grdw_ledger_anchor_get_legacy_id :: "grdw_ledger_anchor option \<Rightarrow> u64" where
  "grdw_ledger_anchor_get_legacy_id a =
     (if \<not> grdw_ledger_anchor_is_legacy a then 0 else (case a of None \<Rightarrow> 0 | Some a \<Rightarrow> la_id a))"

definition grdw_ledger_anchor_get_node_trigger_id :: "grdw_ledger_anchor option \<Rightarrow> u64" where
  "grdw_ledger_anchor_get_node_trigger_id a =
     (if \<not> grdw_ledger_anchor_is_node_trigger_transaction_id a then 0
      else (case a of None \<Rightarrow> 0 | Some a \<Rightarrow> la_id a))"

definition grdw_ledger_anchor_get_hiero_transaction_id ::
  "grdw_ledger_anchor option \<Rightarrow> grdw_hiero_transaction_id option" where
  "grdw_ledger_anchor_get_hiero_transaction_id a =
     (if \<not> grdw_ledger_anchor_is_hiero_transaction_id a then None else map_option hiero_transaction_id a)"

section \<open>The transaction body\<close>

record grdw_transaction_body =
  wbx_memos :: "grdw_encrypted_memo list"
  wbx_other_community_uuid :: "bytes option"
  wbx_created_at :: grdd_timestamp
  wbx_transfer :: grdw_gradido_transfer
  wbx_creation :: grdw_gradido_creation
  wbx_community_friends_update :: grdw_community_friends_update
  wbx_register_address :: grdw_register_address
  wbx_deferred_transfer :: grdw_gradido_deferred_transfer
  wbx_community_root :: grdw_community_root
  wbx_redeem_deferred_transfer :: grdw_gradido_redeem_deferred_transfer
  wbx_timeout_deferred_transfer :: grdw_gradido_timeout_deferred_transfer
  wbx_transaction_type :: grdt_transaction
  wbx_type :: grdt_cross_group

definition zero_transfer_amount :: grdw_transfer_amount where
  "zero_transfer_amount = \<lparr>wta_pubkey = zeros SIGN_PUBLIC_KEY_SIZE, wta_amount = 0,
     wta_community_uuid = zeros ARNM_UUID_BINARY_SIZE\<rparr>"

definition zero_transfer :: grdw_gradido_transfer where
  "zero_transfer = \<lparr>wgt_sender = zero_transfer_amount, wgt_recipient = zeros SIGN_PUBLIC_KEY_SIZE\<rparr>"

definition zero_memo :: grdw_encrypted_memo where
  "zero_memo = \<lparr>em_type = 0, em_memo = []\<rparr>"

definition zero_signature_pair :: grdw_signature_pair where
  "zero_signature_pair = \<lparr>sp_public_key = zeros SIGN_PUBLIC_KEY_SIZE, sp_signature = zeros SIGN_SIGNATURE_SIZE\<rparr>"

definition zero_account_balance :: grdw_account_balance where
  "zero_account_balance = \<lparr>ab_pubkey = zeros SIGN_PUBLIC_KEY_SIZE, ab_balance = 0,
     ab_community_uuid = zeros ARNM_UUID_BINARY_SIZE\<rparr>"

definition grdw_transaction_body_init :: grdw_transaction_body where
  "grdw_transaction_body_init =
     \<lparr>wbx_memos = [], wbx_other_community_uuid = None, wbx_created_at = zero_timestamp,
      wbx_transfer = zero_transfer,
      wbx_creation = \<lparr>wgc_recipient = zero_transfer_amount, wgc_target_date = \<lparr>wts_seconds = 0\<rparr>\<rparr>,
      wbx_community_friends_update = \<lparr>wfu_color_fusion = False\<rparr>,
      wbx_register_address = \<lparr>wra_user_pubkey = zeros SIGN_PUBLIC_KEY_SIZE, wra_address_type = 0,
        wra_derivation_index = 0, wra_name_hash = zeros GENERIC_HASH_SIZE,
        wra_account_pubkey = zeros SIGN_PUBLIC_KEY_SIZE\<rparr>,
      wbx_deferred_transfer = \<lparr>wdt_transfer = zero_transfer, wdt_timeout_duration = 0\<rparr>,
      wbx_community_root = \<lparr>wcr_pubkey = zeros SIGN_PUBLIC_KEY_SIZE,
        wcr_gmw_pubkey = zeros SIGN_PUBLIC_KEY_SIZE, wcr_auf_pubkey = zeros SIGN_PUBLIC_KEY_SIZE\<rparr>,
      wbx_redeem_deferred_transfer = \<lparr>wrt_deferred_transfer_transaction_nr = 0, wrt_transfer = zero_transfer\<rparr>,
      wbx_timeout_deferred_transfer = \<lparr>wto_deferred_transfer_transaction_nr = 0\<rparr>,
      wbx_transaction_type = GRDT_TRANSACTION_NONE, wbx_type = 0\<rparr>"

definition grdw_transaction_body_reserve_memos ::
  "'p arnm_memory \<Rightarrow> nat \<Rightarrow> grdw_transaction_body option \<times> 'p \<Rightarrow> arnm_result \<times> grdw_transaction_body option \<times> 'p" where
  "grdw_transaction_body_reserve_memos A n s =
     (case s of (body, p) \<Rightarrow>
       (case body of None \<Rightarrow> (ARNM_ERROR_NULL_POINTER, s)
        | Some b \<Rightarrow>
            if 255 < n then (ARNM_ERROR_INVALID_PARAM, s)
            else (case mem_alloc A (unat (word_of_nat (SIZEOF_grdw_encrypted_memo A * n) :: u32)) p of
                    (r, p') \<Rightarrow> if r \<noteq> ARNM_SUCCESS then (r, body, p')
                      else (ARNM_SUCCESS, Some (b\<lparr>wbx_memos := replicate n zero_memo\<rparr>), p'))))"

text \<open>An array with no entry is the NULL pointer. The memo that is moved is left without its data.\<close>

definition grdw_transaction_body_move_memo ::
  "nat \<Rightarrow> grdw_transaction_body option \<times> grdw_encrypted_memo option
    \<Rightarrow> arnm_result \<times> grdw_transaction_body option \<times> grdw_encrypted_memo option" where
  "grdw_transaction_body_move_memo i s =
     (case s of
        (Some b, Some m) \<Rightarrow>
          if wbx_memos b = [] then (ARNM_ERROR_NULL_POINTER, s)
          else if length (wbx_memos b) \<le> i then (ARNM_ERROR_ARRAY_INDEX_OUT_OF_BOUNDS, s)
          else (ARNM_SUCCESS, Some (b\<lparr>wbx_memos := (wbx_memos b)[i := m]\<rparr>), Some (m\<lparr>em_memo := []\<rparr>))
      | _ \<Rightarrow> (ARNM_ERROR_NULL_POINTER, s))"

definition grdw_transaction_body_copy_memo ::
  "'p arnm_memory \<Rightarrow> grdw_encrypted_memo option \<Rightarrow> nat \<Rightarrow> grdw_transaction_body option \<times> 'p
    \<Rightarrow> arnm_result \<times> grdw_transaction_body option \<times> 'p" where
  "grdw_transaction_body_copy_memo A memo i s =
     (case (fst s, memo) of
        (Some b, Some m) \<Rightarrow>
          if wbx_memos b = [] then (ARNM_ERROR_NULL_POINTER, s)
          else if length (wbx_memos b) \<le> i then (ARNM_ERROR_ARRAY_INDEX_OUT_OF_BOUNDS, s)
          else (let typed = (wbx_memos b ! i)\<lparr>em_type := em_type m\<rparr> in
            case mem_block_clone A (em_memo m) (snd s) of (r, p) \<Rightarrow>
              (r, Some (b\<lparr>wbx_memos := (wbx_memos b)
                 [i := if r = ARNM_SUCCESS then typed\<lparr>em_memo := em_memo m\<rparr> else typed]\<rparr>), p))
      | _ \<Rightarrow> (ARNM_ERROR_NULL_POINTER, s))"

text \<open>Releasing NULL does nothing. The memos are released last first, so that an arena takes the bytes
  back.\<close>

definition free_array :: "'p arnm_memory \<Rightarrow> nat \<Rightarrow> 'p \<Rightarrow> 'p" where
  "free_array A n p = (if n = 0 then p else mem_free A n p)"

definition free_block :: "'p arnm_memory \<Rightarrow> bytes \<Rightarrow> 'p \<Rightarrow> 'p" where
  "free_block A bs p = (if bs = [] then p else mem_block_free A (word_of_nat (length bs)) p)"

definition grdw_transaction_body_free ::
  "'p arnm_memory \<Rightarrow> grdw_transaction_body option \<times> 'p \<Rightarrow> grdw_transaction_body option \<times> 'p" where
  "grdw_transaction_body_free A s =
     (case s of
        (None, p) \<Rightarrow> s
      | (Some b, p) \<Rightarrow>
          (let p = (if wbx_memos b = [] then p
             else free_array A (SIZEOF_grdw_encrypted_memo A * length (wbx_memos b))
                    (foldr (\<lambda>m. free_block A (em_memo m)) (wbx_memos b) p)) in
           (Some grdw_transaction_body_init,
            (if wbx_other_community_uuid b = None then p else free_array A ARNM_UUID_BINARY_SIZE p))))"

section \<open>The gradido transaction\<close>

record grdw_gradido_transaction =
  wgx_sig_map :: "grdw_signature_pair list"
  wgx_body_bytes :: bytes
  wgx_pairing_ledger_anchor :: grdw_ledger_anchor

definition grdw_gradido_transaction_init :: grdw_gradido_transaction where
  "grdw_gradido_transaction_init =
     \<lparr>wgx_sig_map = [], wgx_body_bytes = [], wgx_pairing_ledger_anchor = zero_anchor\<rparr>"

definition grdw_gradido_transaction_reserve_sig_map ::
  "'p arnm_memory \<Rightarrow> u8 \<Rightarrow> grdw_gradido_transaction option \<times> 'p
    \<Rightarrow> arnm_result \<times> grdw_gradido_transaction option \<times> 'p" where
  "grdw_gradido_transaction_reserve_sig_map A n s =
     (case s of
        (None, p) \<Rightarrow> (ARNM_ERROR_NULL_POINTER, s)
      | (Some t, p) \<Rightarrow>
          if n = 0 then (ARNM_ERROR_INVALID_PARAM, s)
          else (case mem_alloc A (SIZEOF_grdw_signature_pair * unat n) p of
                  (r, p') \<Rightarrow> if r \<noteq> ARNM_SUCCESS then (r, Some t, p')
                    else (ARNM_SUCCESS, Some (t\<lparr>wgx_sig_map := replicate (unat n) zero_signature_pair\<rparr>), p')))"

definition grdw_gradido_transaction_copy_sig_map ::
  "grdw_signature_pair option \<Rightarrow> u8 \<Rightarrow> grdw_gradido_transaction option
    \<Rightarrow> arnm_result \<times> grdw_gradido_transaction option" where
  "grdw_gradido_transaction_copy_sig_map pair i t =
     (case (t, pair) of
        (Some t', Some q) \<Rightarrow>
          if length (wgx_sig_map t') \<le> unat i then (ARNM_ERROR_ARRAY_INDEX_OUT_OF_BOUNDS, t)
          else (ARNM_SUCCESS, Some (t'\<lparr>wgx_sig_map := (wgx_sig_map t')[unat i := q]\<rparr>))
      | _ \<Rightarrow> (ARNM_ERROR_NULL_POINTER, t))"

definition grdw_gradido_transaction_free ::
  "'p arnm_memory \<Rightarrow> grdw_gradido_transaction option \<times> 'p \<Rightarrow> grdw_gradido_transaction option \<times> 'p" where
  "grdw_gradido_transaction_free A s =
     (case s of
        (None, p) \<Rightarrow> s
      | (Some t, p) \<Rightarrow>
          (Some grdw_gradido_transaction_init,
           free_array A (SIZEOF_grdw_signature_pair * length (wgx_sig_map t)) (free_block A (wgx_body_bytes t) p)))"

section \<open>The confirmed transaction\<close>

record grdw_confirmed_transaction =
  wcx_id :: u64
  wcx_transaction :: grdw_gradido_transaction
  wcx_confirmed_at :: grdd_timestamp
  wcx_running_hash :: bytes
  wcx_ledger_anchor :: grdw_ledger_anchor
  wcx_account_balances :: "grdw_account_balance list"

definition grdw_confirmed_transaction_init :: grdw_confirmed_transaction where
  "grdw_confirmed_transaction_init =
     \<lparr>wcx_id = 0, wcx_transaction = grdw_gradido_transaction_init, wcx_confirmed_at = zero_timestamp,
      wcx_running_hash = zeros GENERIC_HASH_SIZE, wcx_ledger_anchor = zero_anchor, wcx_account_balances = []\<rparr>"

definition grdw_confirmed_transaction_reserve_account_balances ::
  "'p arnm_memory \<Rightarrow> u8 \<Rightarrow> grdw_confirmed_transaction option \<times> 'p
    \<Rightarrow> arnm_result \<times> grdw_confirmed_transaction option \<times> 'p" where
  "grdw_confirmed_transaction_reserve_account_balances A n s =
     (case s of
        (None, p) \<Rightarrow> (ARNM_ERROR_NULL_POINTER, s)
      | (Some t, p) \<Rightarrow>
          if n = 0 then (ARNM_ERROR_INVALID_PARAM, s)
          else (case mem_alloc A (SIZEOF_grdw_account_balance * unat n) p of
                  (r, p') \<Rightarrow> if r \<noteq> ARNM_SUCCESS then (r, Some t, p')
                    else (ARNM_SUCCESS, Some (t\<lparr>wcx_account_balances := replicate (unat n) zero_account_balance\<rparr>), p')))"

definition grdw_confirmed_transaction_copy_account_balance ::
  "grdw_account_balance option \<Rightarrow> u8 \<Rightarrow> grdw_confirmed_transaction option
    \<Rightarrow> arnm_result \<times> grdw_confirmed_transaction option" where
  "grdw_confirmed_transaction_copy_account_balance balance i t =
     (case (t, balance) of
        (Some t', Some b) \<Rightarrow>
          if length (wcx_account_balances t') \<le> unat i then (ARNM_ERROR_INVALID_PARAM, t)
          else (ARNM_SUCCESS, Some (t'\<lparr>wcx_account_balances := (wcx_account_balances t')[unat i := b]\<rparr>))
      | _ \<Rightarrow> (ARNM_ERROR_NULL_POINTER, t))"

definition grdw_confirmed_transaction_free ::
  "'p arnm_memory \<Rightarrow> grdw_confirmed_transaction option \<times> 'p \<Rightarrow> grdw_confirmed_transaction option \<times> 'p" where
  "grdw_confirmed_transaction_free A s =
     (case s of
        (None, p) \<Rightarrow> s
      | (Some t, p) \<Rightarrow>
          (case grdw_gradido_transaction_free A (Some (wcx_transaction t), p) of (_, p') \<Rightarrow>
             (Some grdw_confirmed_transaction_init,
              free_array A (SIZEOF_grdw_account_balance * length (wcx_account_balances t)) p')))"

section \<open>The number alone\<close>

text \<open>A varint at a position: \<open>None\<close> when the bytes end before it does or it needs more than 64 bits.\<close>

function peek_varint_loop :: "bytes \<Rightarrow> nat \<Rightarrow> u64 \<Rightarrow> nat \<Rightarrow> (u64 \<times> nat) option" where
  "peek_varint_loop bs shift v pos =
     (if shift < 64 then
        (if length bs \<le> pos then None
         else (let byte = bs ! pos in
           if shift = 63 \<and> 1 < byte then None
           else (let v' = v OR push_bit shift (ucast (byte AND 0x7F)) in
             if byte AND 0x80 = 0 then Some (v', Suc pos) else peek_varint_loop bs (shift + 7) v' (Suc pos))))
      else None)"
  by pat_completeness auto
termination by (relation "measure (\<lambda>(bs, shift, v, pos). 64 - shift)") auto

declare peek_varint_loop.simps [simp del]

definition peek_varint :: "bytes \<Rightarrow> nat \<Rightarrow> (u64 \<times> nat) option" where
  "peek_varint bs pos = peek_varint_loop bs 0 0 pos"

definition peek_skip :: "bytes \<Rightarrow> nat \<Rightarrow> u64 \<Rightarrow> nat option" where
  "peek_skip bs pos n = (if length bs - pos < unat n then None else Some (pos + unat n))"

text \<open>Any field but the number is stepped over as what its wire type says.\<close>

definition peek_step :: "bytes \<Rightarrow> u32 \<Rightarrow> nat \<Rightarrow> nat option" where
  "peek_step bs wire pos =
     (if wire = 0 then map_option snd (peek_varint bs pos)
      else if wire = 1 then peek_skip bs pos 8
      else if wire = 2 then
        (case peek_varint bs pos of None \<Rightarrow> None | Some (n, pos') \<Rightarrow> peek_skip bs pos' n)
      else if wire = 5 then peek_skip bs pos 4
      else None)"

definition peek_field :: "bytes \<Rightarrow> u64 \<times> nat \<Rightarrow> (u64 \<times> nat) option" where
  "peek_field bs s =
     (case peek_varint bs (snd s) of
        None \<Rightarrow> None
      | Some (tag, pos) \<Rightarrow>
          (let field = drop_bit 3 tag; wire = ucast (tag AND 7) in
           if field = 0 then None
           else if field = 1 then (if wire \<noteq> 0 then None else peek_varint bs pos)
           else map_option (\<lambda>pos'. (fst s, pos')) (peek_step bs wire pos)))"

lemma peek_varint_loop_moves: "peek_varint_loop bs shift v pos = Some (v', pos') \<Longrightarrow> pos < pos' \<and> pos' \<le> length bs"
proof (induction bs shift v pos rule: peek_varint_loop.induct)
  case (1 bs shift v pos)
  note step = "1.prems" [unfolded peek_varint_loop.simps [of bs shift v pos]]
  then have c: "shift < 64" "pos < length bs" "\<not> (shift = 63 \<and> 1 < bs ! pos)"
    by (auto split: if_splits simp: Let_def)
  show ?case
  proof (cases "bs ! pos AND 0x80 = 0")
    case True
    then show ?thesis using step c by (auto simp: Let_def)
  next
    case False
    then have "peek_varint_loop bs (shift + 7) (v OR push_bit shift (ucast (bs ! pos AND 0x7F))) (Suc pos) = Some (v', pos')"
      using step c by (simp add: Let_def del: push_bit_and)
    moreover have "\<not> length bs \<le> pos" using c by simp
    ultimately show ?thesis using "1.IH" [OF c(1) _ refl c(3) refl False] by auto
  qed
qed

lemma peek_varint_moves: "peek_varint bs pos = Some (v, pos') \<Longrightarrow> pos < pos' \<and> pos' \<le> length bs"
  unfolding peek_varint_def by (rule peek_varint_loop_moves)

lemma peek_step_moves: "peek_step bs wire pos = Some pos' \<Longrightarrow> pos \<le> pos'"
  by (auto simp: peek_step_def peek_skip_def split: if_splits option.splits dest: peek_varint_moves)

lemma peek_field_moves: "peek_field bs (k, pos) = Some (k', pos') \<Longrightarrow> pos < pos'"
  by (auto simp: peek_field_def Let_def split: option.splits if_splits dest!: peek_varint_moves peek_step_moves)

text \<open>The loop over the fields; \<open>None\<close> is the refusal.\<close>

function peek_fields :: "bytes \<Rightarrow> u64 \<times> nat \<Rightarrow> u64 option" where
  "peek_fields bs s =
     (if snd s < length bs then
        (case peek_field bs s of None \<Rightarrow> None | Some s' \<Rightarrow> peek_fields bs s')
      else Some (fst s))"
  by pat_completeness auto
termination
proof (relation "measure (\<lambda>(bs, s). length bs - snd s)")
  fix bs s s' assume "snd s < length bs" "peek_field bs s = Some s'"
  then show "((bs, s'), (bs, s)) \<in> measure (\<lambda>(bs, s). length bs - snd s)"
    using peek_field_moves [of bs "fst s" "snd s" "fst s'" "snd s'"] by simp
qed simp

declare peek_fields.simps [simp del]

text \<open>\<open>None\<close> for the serialized bytes is a NULL pointer, to the block or to its data.\<close>

definition grdw_confirmed_transaction_peek_id :: "bytes option \<Rightarrow> arnm_result \<times> u64 option" where
  "grdw_confirmed_transaction_peek_id serialized =
     (case serialized of
        None \<Rightarrow> (ARNM_ERROR_NULL_POINTER, None)
      | Some bs \<Rightarrow>
          (case peek_fields bs (0, 0) of None \<Rightarrow> (ARNM_ERROR_DECODE_FAILED, None) | Some v \<Rightarrow> (ARNM_SUCCESS, Some v)))"

section \<open>What the decoders share\<close>

definition grdw_pb_workspace_take :: "'p arnm_memory \<Rightarrow> 'p \<Rightarrow> arnm_result \<times> u32 \<times> 'p" where
  "grdw_pb_workspace_take A p =
     (if \<not> mem_is_arena A p then (ARNM_ERROR_INVALID_PARAM, 0, p)
      else (let remaining = mem_arena_remaining A p in
        if remaining = 0 then (ARNM_ERROR_OUT_OF_MEMORY, 0, p)
        else (case mem_block_alloc A remaining p of (r, p') \<Rightarrow> (r, remaining, p'))))"

text \<open>The workspace is its size here; \<open>used\<close> and \<open>decoded\<close> are ints.\<close>

definition grdw_pb_decode_finish ::
  "'p arnm_memory \<Rightarrow> int \<Rightarrow> int \<Rightarrow> u32 \<Rightarrow> u32 \<times> 'p \<Rightarrow> arnm_result \<times> u32 \<times> 'p" where
  "grdw_pb_decode_finish A used decoded expected s =
     (if used < 0 then (ARNM_ERROR_INVALID_STATE, s)
      else (case mem_block_realloc A (fst s) (word_of_int used) (snd s) of
        (r, s') \<Rightarrow>
          if r \<noteq> ARNM_SUCCESS \<and> r \<noteq> ARNM_WARNING_ARENA_MEMORY_NOT_RECLAIMED then (r, s')
          else if - decoded = 3 then (ARNM_ERROR_OUT_OF_MEMORY, s')
          else if decoded < 0 \<or> word_of_int decoded \<noteq> expected then (ARNM_ERROR_DECODE_FAILED, s')
          else (ARNM_SUCCESS, s')))"

end
