(* ===== verification/GRD_Pb_From_Wire.thy ===== *)
theory GRD_Pb_From_Wire
  imports GRD_Wire GRD_Message_Api GRD_Arnm
begin

text \<open>
  The mapping of wire structs to messages, \<open>mapping/pbtools_from_wire.c\<close>: values are copied, byte arrays
  are shared, members are allocated in the heap of the message, which is passed along. Every call answers a result,
  the message as far as it has been filled, and the heap. The struct that is mapped is there; what it is mapped
  to is the message just allocated, so the tests of both for NULL stand only where a caller may hand NULL in.
\<close>

definition GRDU_GRADIDO_PROTOCOL_VERSION :: u32 where
  "GRDU_GRADIDO_PROTOCOL_VERSION = push_bit 16 3 OR 8"

section \<open>Members\<close>

text \<open>A member is allocated and then filled; without room for it the call ends.\<close>

definition alloc_fill ::
  "bool \<times> 'm \<times> pb_heap \<Rightarrow> ('m \<times> pb_heap \<Rightarrow> arnm_result \<times> 'm \<times> pb_heap) \<Rightarrow> arnm_result \<times> 'm \<times> pb_heap" where
  "alloc_fill a f = (case a of (ok, s) \<Rightarrow> if ok then f s else (ARNM_ERROR_OUT_OF_MEMORY, s))"

text \<open>A call on the member a message points to, after which the message points to what it left.\<close>

definition on_member ::
  "('m \<Rightarrow> 'c option) \<Rightarrow> ('c option \<Rightarrow> 'm \<Rightarrow> 'm) \<Rightarrow> ('c \<times> pb_heap \<Rightarrow> arnm_result \<times> 'c \<times> pb_heap)
    \<Rightarrow> 'm \<times> pb_heap \<Rightarrow> arnm_result \<times> 'm \<times> pb_heap" where
  "on_member get put f s =
     (case get (fst s) of
        None \<Rightarrow> (ARNM_ERROR_NULL_POINTER, s)
      | Some c \<Rightarrow> (case f (c, snd s) of (r, c', h') \<Rightarrow> (r, put (Some c') (fst s), h')))"

definition community_uuid_from_wire :: "bytes option \<Rightarrow> bytes \<Rightarrow> bytes" where
  "community_uuid_from_wire uuid dst = (case uuid of None \<Rightarrow> dst | Some u \<Rightarrow> uuid_of u)"

definition memory_block_from_wire :: "bytes \<Rightarrow> bytes \<Rightarrow> bytes" where
  "memory_block_from_wire block dst = (if block = [] then dst else block)"

definition account_balance_from_wire ::
  "grdw_account_balance \<Rightarrow> proto_gradido_account_balance_t \<Rightarrow> proto_gradido_account_balance_t" where
  "account_balance_from_wire b m =
     m\<lparr>pab_pubkey := key_of (ab_pubkey b), pab_balance := ab_balance b,
       pab_community_uuid := community_uuid_from_wire (Some (ab_community_uuid b)) (pab_community_uuid m)\<rparr>"

definition encrypted_memo_from_wire ::
  "grdw_encrypted_memo \<Rightarrow> proto_gradido_encrypted_memo_t \<Rightarrow> proto_gradido_encrypted_memo_t" where
  "encrypted_memo_from_wire e m =
     m\<lparr>pem_type := em_type e, pem_memo := memory_block_from_wire (em_memo e) (pem_memo m)\<rparr>"

definition signature_pair_from_wire ::
  "grdw_signature_pair \<Rightarrow> proto_gradido_signature_pair_t \<Rightarrow> proto_gradido_signature_pair_t" where
  "signature_pair_from_wire q m =
     m\<lparr>psp_pubkey := key_of (sp_public_key q), psp_signature := take SIGN_SIGNATURE_SIZE (sp_signature q)\<rparr>"

definition timestamp_from_wire :: "grdd_timestamp \<Rightarrow> proto_gradido_timestamp_t \<Rightarrow> proto_gradido_timestamp_t" where
  "timestamp_from_wire t m = m\<lparr>pts_nanos := nanos t, pts_seconds := seconds t\<rparr>"

definition timestamp_seconds_from_wire ::
  "grdw_timestamp_seconds \<Rightarrow> proto_gradido_timestamp_seconds_t \<Rightarrow> proto_gradido_timestamp_seconds_t" where
  "timestamp_seconds_from_wire t m = m\<lparr>pss_seconds := wts_seconds t\<rparr>"

definition transfer_amount_from_wire ::
  "grdw_transfer_amount \<Rightarrow> proto_gradido_transfer_amount_t \<Rightarrow> proto_gradido_transfer_amount_t" where
  "transfer_amount_from_wire t m =
     m\<lparr>pta_pubkey := key_of (wta_pubkey t), pta_amount := wta_amount t,
       pta_community_uuid := community_uuid_from_wire (Some (wta_community_uuid t)) (pta_community_uuid m)\<rparr>"

definition hiero_account_id_from_wire ::
  "grdw_hiero_account_id \<Rightarrow> proto_gradido_account_id_t \<Rightarrow> proto_gradido_account_id_t" where
  "hiero_account_id_from_wire a m =
     m\<lparr>pai_account := proto_gradido_account_id_account_account_num_e, pai_account_num := accountNum a,
       pai_realm_num := realmNum a, pai_shard_num := shardNum a\<rparr>"

text \<open>A member that is filled without a result of its own.\<close>

definition fill_member ::
  "('m \<Rightarrow> 'c option) \<Rightarrow> ('c option \<Rightarrow> 'm \<Rightarrow> 'm) \<Rightarrow> ('c \<Rightarrow> 'c) \<Rightarrow> 'm \<Rightarrow> 'm" where
  "fill_member get put f m = put (map_option f (get m)) m"

section \<open>Ledger anchors\<close>

definition hiero_transaction_id_from_wire ::
  "grdw_hiero_transaction_id \<Rightarrow> proto_gradido_transaction_id_t \<times> pb_heap
    \<Rightarrow> arnm_result \<times> proto_gradido_transaction_id_t \<times> pb_heap" where
  "hiero_transaction_id_from_wire t s =
     (case s of (m, h) \<Rightarrow>
       alloc_fill (proto_gradido_transaction_id_transaction_valid_start_alloc (m\<lparr>pti_nonce := 0, pti_scheduled := False\<rparr>) h)
         (\<lambda>(m, h).
           alloc_fill (proto_gradido_transaction_id_account_id_alloc
              (fill_member pti_transaction_valid_start_p (\<lambda>v. pti_transaction_valid_start_p_update (\<lambda>_. v))
                 (timestamp_from_wire (transactionValidStart t)) m) h)
             (\<lambda>(m, h). (ARNM_SUCCESS,
                fill_member pti_account_id_p (\<lambda>v. pti_account_id_p_update (\<lambda>_. v))
                  (hiero_account_id_from_wire (accountID t)) m, h))))"

text \<open>What filling the transaction id answers is dropped.\<close>

definition ledger_anchor_from_wire ::
  "grdw_ledger_anchor \<Rightarrow> proto_gradido_ledger_anchor_t \<times> pb_heap
    \<Rightarrow> arnm_result \<times> proto_gradido_ledger_anchor_t \<times> pb_heap" where
  "ledger_anchor_from_wire a s =
     (case s of (m, h) \<Rightarrow>
       if GRDT_LEDGER_ANCHOR_HIERO_TRANSACTION_ID = la_type a then
         alloc_fill (proto_gradido_ledger_anchor_hiero_transaction_id_alloc m h)
           (\<lambda>(m, h).
             (case on_member pla_hiero_transaction_id_p (\<lambda>v. pla_hiero_transaction_id_p_update (\<lambda>_. v))
                 (hiero_transaction_id_from_wire (hiero_transaction_id a))
                 (m\<lparr>pla_anchor_id := proto_gradido_ledger_anchor_anchor_id_hiero_transaction_id_e\<rparr>, h) of
                (_, m, h) \<Rightarrow> (ARNM_SUCCESS, m\<lparr>pla_type := GRDT_LEDGER_ANCHOR_HIERO_TRANSACTION_ID\<rparr>, h)))
       else (ARNM_SUCCESS, m\<lparr>pla_anchor_id := proto_gradido_ledger_anchor_anchor_id_id_e,
              pla_type := la_type a, pla_id := la_id a\<rparr>, h))"

section \<open>Specific transactions\<close>

definition community_friends_update_from_wire ::
  "grdw_community_friends_update \<Rightarrow> proto_gradido_community_friends_update_t \<times> pb_heap
    \<Rightarrow> arnm_result \<times> proto_gradido_community_friends_update_t \<times> pb_heap" where
  "community_friends_update_from_wire t s = (ARNM_SUCCESS, (fst s)\<lparr>pfu_color_fusion := wfu_color_fusion t\<rparr>, snd s)"

definition community_root_from_wire ::
  "grdw_community_root \<Rightarrow> proto_gradido_community_root_t \<times> pb_heap
    \<Rightarrow> arnm_result \<times> proto_gradido_community_root_t \<times> pb_heap" where
  "community_root_from_wire t s =
     (ARNM_SUCCESS, (fst s)\<lparr>pcr_pubkey := key_of (wcr_pubkey t), pcr_gmw_pubkey := key_of (wcr_gmw_pubkey t),
        pcr_auf_pubkey := key_of (wcr_auf_pubkey t)\<rparr>, snd s)"

definition gradido_creation_from_wire ::
  "grdw_gradido_creation \<Rightarrow> proto_gradido_gradido_creation_t \<times> pb_heap
    \<Rightarrow> arnm_result \<times> proto_gradido_gradido_creation_t \<times> pb_heap" where
  "gradido_creation_from_wire t s =
     (case s of (m, h) \<Rightarrow>
       alloc_fill (proto_gradido_gradido_creation_recipient_alloc m h)
         (\<lambda>(m, h).
           alloc_fill (proto_gradido_gradido_creation_target_date_alloc
              (fill_member pgc_recipient_p (\<lambda>v. pgc_recipient_p_update (\<lambda>_. v))
                 (transfer_amount_from_wire (wgc_recipient t)) m) h)
             (\<lambda>(m, h). (ARNM_SUCCESS,
                fill_member pgc_target_date_p (\<lambda>v. pgc_target_date_p_update (\<lambda>_. v))
                  (timestamp_seconds_from_wire (wgc_target_date t)) m, h))))"

definition gradido_transfer_from_wire ::
  "grdw_gradido_transfer \<Rightarrow> proto_gradido_gradido_transfer_t \<times> pb_heap
    \<Rightarrow> arnm_result \<times> proto_gradido_gradido_transfer_t \<times> pb_heap" where
  "gradido_transfer_from_wire t s =
     (case s of (m, h) \<Rightarrow>
       alloc_fill (proto_gradido_gradido_transfer_sender_alloc (m\<lparr>pgt_recipient := key_of (wgt_recipient t)\<rparr>) h)
         (\<lambda>(m, h). (ARNM_SUCCESS,
            fill_member pgt_sender_p (\<lambda>v. pgt_sender_p_update (\<lambda>_. v))
              (transfer_amount_from_wire (wgt_sender t)) m, h)))"

definition gradido_deferred_transfer_from_wire ::
  "grdw_gradido_deferred_transfer \<Rightarrow> proto_gradido_gradido_deferred_transfer_t \<times> pb_heap
    \<Rightarrow> arnm_result \<times> proto_gradido_gradido_deferred_transfer_t \<times> pb_heap" where
  "gradido_deferred_transfer_from_wire t s =
     (case s of (m, h) \<Rightarrow>
       alloc_fill (proto_gradido_gradido_deferred_transfer_timeout_duration_alloc m h)
         (\<lambda>(m, h).
           alloc_fill (proto_gradido_gradido_deferred_transfer_transfer_alloc
              (fill_member pdt_timeout_duration_p (\<lambda>v. pdt_timeout_duration_p_update (\<lambda>_. v))
                 (\<lambda>d. d\<lparr>pds_seconds := ucast (wdt_timeout_duration t)\<rparr>) m) h)
             (on_member pdt_transfer_p (\<lambda>v. pdt_transfer_p_update (\<lambda>_. v)) (gradido_transfer_from_wire (wdt_transfer t)))))"

definition gradido_redeem_deferred_transfer_from_wire ::
  "grdw_gradido_redeem_deferred_transfer \<Rightarrow> proto_gradido_gradido_redeem_deferred_transfer_t \<times> pb_heap
    \<Rightarrow> arnm_result \<times> proto_gradido_gradido_redeem_deferred_transfer_t \<times> pb_heap" where
  "gradido_redeem_deferred_transfer_from_wire t s =
     (case s of (m, h) \<Rightarrow>
       alloc_fill (proto_gradido_gradido_redeem_deferred_transfer_transfer_alloc
            (m\<lparr>prt_deferred_transfer_transaction_nr := wrt_deferred_transfer_transaction_nr t\<rparr>) h)
         (on_member prt_transfer_p (\<lambda>v. prt_transfer_p_update (\<lambda>_. v)) (gradido_transfer_from_wire (wrt_transfer t))))"

definition gradido_timeout_deferred_transfer_from_wire ::
  "grdw_gradido_timeout_deferred_transfer \<Rightarrow> proto_gradido_gradido_timeout_deferred_transfer_t \<times> pb_heap
    \<Rightarrow> arnm_result \<times> proto_gradido_gradido_timeout_deferred_transfer_t \<times> pb_heap" where
  "gradido_timeout_deferred_transfer_from_wire t s =
     (ARNM_SUCCESS, (fst s)\<lparr>pto_deferred_transfer_transaction_nr := wto_deferred_transfer_transaction_nr t\<rparr>, snd s)"

definition register_address_from_wire ::
  "grdw_register_address \<Rightarrow> proto_gradido_register_address_t \<times> pb_heap
    \<Rightarrow> arnm_result \<times> proto_gradido_register_address_t \<times> pb_heap" where
  "register_address_from_wire t s =
     (ARNM_SUCCESS, (fst s)\<lparr>pra_user_pubkey := key_of (wra_user_pubkey t), pra_address_type := wra_address_type t,
        pra_derivation_index := wra_derivation_index t, pra_name_hash := hash_of (wra_name_hash t),
        pra_account_pubkey := key_of (wra_account_pubkey t)\<rparr>, snd s)"

section \<open>The transaction body\<close>

definition body_data_from_wire ::
  "grdw_transaction_body \<Rightarrow> proto_gradido_transaction_body_t \<times> pb_heap
    \<Rightarrow> arnm_result \<times> proto_gradido_transaction_body_t \<times> pb_heap" where
  "body_data_from_wire b s =
     (case s of (m, h) \<Rightarrow>
      if wbx_transaction_type b = GRDT_TRANSACTION_NONE then
        (ARNM_SUCCESS, m\<lparr>pbx_data := proto_gradido_transaction_body_data_none_e\<rparr>, h)
      else if wbx_transaction_type b = GRDT_TRANSACTION_TRANSFER then
        alloc_fill (proto_gradido_transaction_body_transfer_alloc m h)
          (\<lambda>(m, h). on_member pbx_transfer_p (\<lambda>v. pbx_transfer_p_update (\<lambda>_. v))
             (gradido_transfer_from_wire (wbx_transfer b)) (m\<lparr>pbx_data := proto_gradido_transaction_body_data_transfer_e\<rparr>, h))
      else if wbx_transaction_type b = GRDT_TRANSACTION_CREATION then
        alloc_fill (proto_gradido_transaction_body_creation_alloc m h)
          (\<lambda>(m, h). on_member pbx_creation_p (\<lambda>v. pbx_creation_p_update (\<lambda>_. v))
             (gradido_creation_from_wire (wbx_creation b)) (m\<lparr>pbx_data := proto_gradido_transaction_body_data_creation_e\<rparr>, h))
      else if wbx_transaction_type b = GRDT_TRANSACTION_COMMUNITY_FRIENDS_UPDATE then
        alloc_fill (proto_gradido_transaction_body_community_friends_update_alloc m h)
          (\<lambda>(m, h). on_member pbx_community_friends_update_p (\<lambda>v. pbx_community_friends_update_p_update (\<lambda>_. v))
             (community_friends_update_from_wire (wbx_community_friends_update b)) (m\<lparr>pbx_data := proto_gradido_transaction_body_data_community_friends_update_e\<rparr>, h))
      else if wbx_transaction_type b = GRDT_TRANSACTION_REGISTER_ADDRESS then
        alloc_fill (proto_gradido_transaction_body_register_address_alloc m h)
          (\<lambda>(m, h). on_member pbx_register_address_p (\<lambda>v. pbx_register_address_p_update (\<lambda>_. v))
             (register_address_from_wire (wbx_register_address b)) (m\<lparr>pbx_data := proto_gradido_transaction_body_data_register_address_e\<rparr>, h))
      else if wbx_transaction_type b = GRDT_TRANSACTION_DEFERRED_TRANSFER then
        alloc_fill (proto_gradido_transaction_body_deferred_transfer_alloc m h)
          (\<lambda>(m, h). on_member pbx_deferred_transfer_p (\<lambda>v. pbx_deferred_transfer_p_update (\<lambda>_. v))
             (gradido_deferred_transfer_from_wire (wbx_deferred_transfer b)) (m\<lparr>pbx_data := proto_gradido_transaction_body_data_deferred_transfer_e\<rparr>, h))
      else if wbx_transaction_type b = GRDT_TRANSACTION_COMMUNITY_ROOT then
        alloc_fill (proto_gradido_transaction_body_community_root_alloc m h)
          (\<lambda>(m, h). on_member pbx_community_root_p (\<lambda>v. pbx_community_root_p_update (\<lambda>_. v))
             (community_root_from_wire (wbx_community_root b)) (m\<lparr>pbx_data := proto_gradido_transaction_body_data_community_root_e\<rparr>, h))
      else if wbx_transaction_type b = GRDT_TRANSACTION_REDEEM_DEFERRED_TRANSFER then
        alloc_fill (proto_gradido_transaction_body_redeem_deferred_transfer_alloc m h)
          (\<lambda>(m, h). on_member pbx_redeem_deferred_transfer_p (\<lambda>v. pbx_redeem_deferred_transfer_p_update (\<lambda>_. v))
             (gradido_redeem_deferred_transfer_from_wire (wbx_redeem_deferred_transfer b)) (m\<lparr>pbx_data := proto_gradido_transaction_body_data_redeem_deferred_transfer_e\<rparr>, h))
      else if wbx_transaction_type b = GRDT_TRANSACTION_TIMEOUT_DEFERRED_TRANSFER then
        alloc_fill (proto_gradido_transaction_body_timeout_deferred_transfer_alloc m h)
          (\<lambda>(m, h). on_member pbx_timeout_deferred_transfer_p (\<lambda>v. pbx_timeout_deferred_transfer_p_update (\<lambda>_. v))
             (gradido_timeout_deferred_transfer_from_wire (wbx_timeout_deferred_transfer b)) (m\<lparr>pbx_data := proto_gradido_transaction_body_data_timeout_deferred_transfer_e\<rparr>, h))
      else (ARNM_ERROR_ENUM_UNKNOWN, m, h))"

text \<open>The items allocated, each filled from the entry at its place.\<close>

definition fill_items :: "('e \<Rightarrow> 'm \<Rightarrow> 'm) \<Rightarrow> 'e list \<Rightarrow> 'm list \<Rightarrow> 'm list" where
  "fill_items f es items = map2 f es items"

definition body_memos_from_wire ::
  "grdw_transaction_body \<Rightarrow> proto_gradido_transaction_body_t \<times> pb_heap
    \<Rightarrow> arnm_result \<times> proto_gradido_transaction_body_t \<times> pb_heap" where
  "body_memos_from_wire b s =
     (if wbx_memos b = [] then (ARNM_SUCCESS, s)
      else alloc_fill (proto_gradido_transaction_body_memos_alloc (fst s) (length (wbx_memos b)) (snd s))
        (\<lambda>(m, h). (ARNM_SUCCESS,
           m\<lparr>pbx_memos := fill_items encrypted_memo_from_wire (wbx_memos b) (pbx_memos m)\<rparr>, h)))"

definition body_from_wire ::
  "grdw_transaction_body \<Rightarrow> proto_gradido_transaction_body_t \<times> pb_heap
    \<Rightarrow> arnm_result \<times> proto_gradido_transaction_body_t \<times> pb_heap" where
  "body_from_wire b s =
     bind_ok (body_memos_from_wire b ((fst s)\<lparr>pbx_version_number := GRDU_GRADIDO_PROTOCOL_VERSION\<rparr>, snd s))
       (\<lambda>(m, h).
         alloc_fill (proto_gradido_transaction_body_created_at_alloc
             (m\<lparr>pbx_other_community_uuid :=
                  community_uuid_from_wire (wbx_other_community_uuid b) (pbx_other_community_uuid m)\<rparr>) h)
           (\<lambda>(m, h). body_data_from_wire b
              ((fill_member pbx_created_at_p (\<lambda>v. pbx_created_at_p_update (\<lambda>_. v))
                  (timestamp_from_wire (wbx_created_at b)) m)\<lparr>pbx_type := wbx_type b\<rparr>, h)))"

text \<open>What a public call does with its two pointers: NULL is refused.\<close>

definition on_pointers ::
  "('w \<Rightarrow> 'm \<times> pb_heap \<Rightarrow> arnm_result \<times> 'm \<times> pb_heap) \<Rightarrow> 'w option \<Rightarrow> 'm option \<times> pb_heap
    \<Rightarrow> arnm_result \<times> 'm option \<times> pb_heap" where
  "on_pointers f w s =
     (case (w, fst s) of
        (Some w, Some m) \<Rightarrow> (case f w (m, snd s) of (r, m, h) \<Rightarrow> (r, Some m, h))
      | _ \<Rightarrow> (ARNM_ERROR_NULL_POINTER, s))"

definition grdm_transaction_body_from_wire ::
  "grdw_transaction_body option \<Rightarrow> proto_gradido_transaction_body_t option \<times> pb_heap
    \<Rightarrow> arnm_result \<times> proto_gradido_transaction_body_t option \<times> pb_heap" where
  "grdm_transaction_body_from_wire = on_pointers body_from_wire"

section \<open>The gradido transaction\<close>

definition sig_map_from_wire ::
  "grdw_gradido_transaction \<Rightarrow> proto_gradido_gradido_transaction_t \<times> pb_heap
    \<Rightarrow> arnm_result \<times> proto_gradido_gradido_transaction_t \<times> pb_heap" where
  "sig_map_from_wire t s =
     (if wgx_sig_map t = [] then (ARNM_SUCCESS, s)
      else if 255 \<le> length (wgx_sig_map t) then (ARNM_ERROR_ARRAY_INDEX_OUT_OF_BOUNDS, s)
      else alloc_fill (proto_gradido_gradido_transaction_sig_map_alloc (fst s) (snd s))
        (on_member pgx_sig_map_p (\<lambda>v. pgx_sig_map_p_update (\<lambda>_. v))
          (\<lambda>(sm, h). alloc_fill (proto_gradido_signature_map_sig_pair_alloc sm (length (wgx_sig_map t)) h)
             (\<lambda>(sm, h). (ARNM_SUCCESS,
                sm\<lparr>psm_sig_pair := fill_items signature_pair_from_wire (wgx_sig_map t) (psm_sig_pair sm)\<rparr>, h)))))"

definition pairing_anchor_from_wire ::
  "grdw_gradido_transaction \<Rightarrow> proto_gradido_gradido_transaction_t \<times> pb_heap
    \<Rightarrow> arnm_result \<times> proto_gradido_gradido_transaction_t \<times> pb_heap" where
  "pairing_anchor_from_wire t s =
     (if la_type (wgx_pairing_ledger_anchor t) = GRDT_LEDGER_ANCHOR_UNSPECIFIED then (ARNM_SUCCESS, s)
      else alloc_fill (proto_gradido_gradido_transaction_pairing_ledger_anchor_alloc (fst s) (snd s))
        (on_member pgx_pairing_ledger_anchor_p (\<lambda>v. pgx_pairing_ledger_anchor_p_update (\<lambda>_. v))
          (ledger_anchor_from_wire (wgx_pairing_ledger_anchor t))))"

definition transaction_from_wire ::
  "grdw_gradido_transaction \<Rightarrow> proto_gradido_gradido_transaction_t \<times> pb_heap
    \<Rightarrow> arnm_result \<times> proto_gradido_gradido_transaction_t \<times> pb_heap" where
  "transaction_from_wire t s =
     bind_ok (sig_map_from_wire t s) (\<lambda>s.
     bind_ok (pairing_anchor_from_wire t s) (\<lambda>(m, h).
       (ARNM_SUCCESS, m\<lparr>pgx_body_bytes := memory_block_from_wire (wgx_body_bytes t) (pgx_body_bytes m)\<rparr>, h)))"

definition grdm_gradido_transaction_from_wire ::
  "grdw_gradido_transaction option \<Rightarrow> proto_gradido_gradido_transaction_t option \<times> pb_heap
    \<Rightarrow> arnm_result \<times> proto_gradido_gradido_transaction_t option \<times> pb_heap" where
  "grdm_gradido_transaction_from_wire = on_pointers transaction_from_wire"

section \<open>The confirmed transaction\<close>

definition balances_from_wire ::
  "grdw_confirmed_transaction \<Rightarrow> proto_gradido_confirmed_transaction_t \<times> pb_heap
    \<Rightarrow> arnm_result \<times> proto_gradido_confirmed_transaction_t \<times> pb_heap" where
  "balances_from_wire t s =
     (if wcx_account_balances t = [] then (ARNM_SUCCESS, s)
      else if 255 \<le> length (wcx_account_balances t) then (ARNM_ERROR_ARRAY_INDEX_OUT_OF_BOUNDS, s)
      else alloc_fill (proto_gradido_confirmed_transaction_account_balances_alloc
            (fst s) (length (wcx_account_balances t)) (snd s))
        (\<lambda>(m, h). (ARNM_SUCCESS, m\<lparr>pcx_account_balances :=
           fill_items account_balance_from_wire (wcx_account_balances t) (pcx_account_balances m)\<rparr>, h)))"

definition confirmed_from_wire ::
  "grdw_confirmed_transaction \<Rightarrow> proto_gradido_confirmed_transaction_t \<times> pb_heap
    \<Rightarrow> arnm_result \<times> proto_gradido_confirmed_transaction_t \<times> pb_heap" where
  "confirmed_from_wire t s =
     (case s of (m, h) \<Rightarrow>
       alloc_fill (proto_gradido_confirmed_transaction_transaction_alloc
           (m\<lparr>pcx_version_number := GRDU_GRADIDO_PROTOCOL_VERSION, pcx_id := wcx_id t\<rparr>) h)
         (\<lambda>s. bind_ok (on_member pcx_transaction_p (\<lambda>v. pcx_transaction_p_update (\<lambda>_. v))
               (transaction_from_wire (wcx_transaction t)) s) (\<lambda>(m, h).
            alloc_fill (proto_gradido_confirmed_transaction_confirmed_at_alloc m h) (\<lambda>(m, h).
            alloc_fill (proto_gradido_confirmed_transaction_ledger_anchor_alloc
                ((fill_member pcx_confirmed_at_p (\<lambda>v. pcx_confirmed_at_p_update (\<lambda>_. v))
                   (timestamp_from_wire (wcx_confirmed_at t)) m)
                 \<lparr>pcx_running_hash := hash_of (wcx_running_hash t)\<rparr>) h) (\<lambda>s.
            bind_ok (on_member pcx_ledger_anchor_p (\<lambda>v. pcx_ledger_anchor_p_update (\<lambda>_. v))
               (ledger_anchor_from_wire (wcx_ledger_anchor t)) s) (balances_from_wire t))))))"

definition grdm_confirmed_transaction_from_wire ::
  "grdw_confirmed_transaction option \<Rightarrow> proto_gradido_confirmed_transaction_t option \<times> pb_heap
    \<Rightarrow> arnm_result \<times> proto_gradido_confirmed_transaction_t option \<times> pb_heap" where
  "grdm_confirmed_transaction_from_wire = on_pointers confirmed_from_wire"

end
