(* ===== verification/GRD_Wire_From_Pb.thy ===== *)
theory GRD_Wire_From_Pb
  imports GRD_Pb_From_Wire
begin

text \<open>
  The mapping of decoded messages to wire structs, \<open>mapping/wire_from_pbtools.c\<close>: every length is checked, the
  version is compared, arrays and byte blocks are allocated anew, and members are filled in the order of the
  code, so that a refusal leaves what was filled before it. A message that may be NULL, since the bytes decoded
  did not hold it, is an option. What the code does not check is a fault: the assertion on the ledger anchor, the
  duration of a deferred transfer, and a union read at a member that was not set.
\<close>

section \<open>Scalars and byte arrays\<close>

definition community_uuid_from_pbtools :: "bytes \<Rightarrow> bytes \<Rightarrow> arnm_result \<times> bytes" where
  "community_uuid_from_pbtools src dst =
     (if length src = ARNM_UUID_BINARY_SIZE then (ARNM_SUCCESS, src)
      else if length src = 0 then (ARNM_SUCCESS, zeros ARNM_UUID_BINARY_SIZE)
      else (ARNM_ERROR_INVALID_PARAM, dst))"

definition memory_block_from_pbtools :: "'p arnm_memory \<Rightarrow> bytes \<Rightarrow> bytes \<times> 'p \<Rightarrow> arnm_result \<times> bytes \<times> 'p" where
  "memory_block_from_pbtools A src s =
     (if src = [] then (ARNM_ERROR_INVALID_PARAM, s)
      else if max_alloc_size A < length src then (ARNM_ERROR_RESOURCE_SIZE_EXCEED, s)
      else (case mem_block_alloc A (word_of_nat (length src)) (snd s) of
              (r, p) \<Rightarrow> if r \<noteq> ARNM_SUCCESS then (r, fst s, p) else (ARNM_SUCCESS, src, p)))"

definition account_balance_from_pbtools ::
  "proto_gradido_account_balance_t option \<Rightarrow> grdw_account_balance \<Rightarrow> arnm_result \<times> grdw_account_balance" where
  "account_balance_from_pbtools m b =
     (case m of None \<Rightarrow> (ARNM_ERROR_NULL_POINTER, b)
      | Some m \<Rightarrow>
          if length (pab_pubkey m) \<noteq> SIGN_PUBLIC_KEY_SIZE then (ARNM_ERROR_INVALID_PARAM, b)
          else (let b = b\<lparr>ab_pubkey := pab_pubkey m, ab_balance := pab_balance m\<rparr> in
            put_member (\<lambda>u. b\<lparr>ab_community_uuid := u\<rparr>)
              (community_uuid_from_pbtools (pab_community_uuid m) (ab_community_uuid b))))"

definition encrypted_memo_from_pbtools ::
  "'p arnm_memory \<Rightarrow> proto_gradido_encrypted_memo_t option \<Rightarrow> grdw_encrypted_memo \<times> 'p
    \<Rightarrow> arnm_result \<times> grdw_encrypted_memo \<times> 'p" where
  "encrypted_memo_from_pbtools A m s =
     (case m of None \<Rightarrow> (ARNM_ERROR_NULL_POINTER, s)
      | Some m \<Rightarrow>
          (let e = (fst s)\<lparr>em_type := pem_type m\<rparr> in
           if 0 < length (pem_memo m) then
             (case memory_block_from_pbtools A (pem_memo m) (em_memo e, snd s) of
                (r, block, p) \<Rightarrow> (r, e\<lparr>em_memo := block\<rparr>, p))
           else (ARNM_SUCCESS, e\<lparr>em_memo := []\<rparr>, snd s)))"

definition signature_pair_from_pbtools ::
  "proto_gradido_signature_pair_t option \<Rightarrow> grdw_signature_pair \<Rightarrow> arnm_result \<times> grdw_signature_pair" where
  "signature_pair_from_pbtools m q =
     (case m of None \<Rightarrow> (ARNM_ERROR_NULL_POINTER, q)
      | Some m \<Rightarrow>
          if length (psp_pubkey m) \<noteq> SIGN_PUBLIC_KEY_SIZE \<or> length (psp_signature m) \<noteq> SIGN_SIGNATURE_SIZE
          then (ARNM_ERROR_INVALID_PARAM, q)
          else (ARNM_SUCCESS, q\<lparr>sp_public_key := psp_pubkey m, sp_signature := psp_signature m\<rparr>))"

definition timestamp_from_pbtools ::
  "proto_gradido_timestamp_t option \<Rightarrow> grdd_timestamp \<Rightarrow> arnm_result \<times> grdd_timestamp" where
  "timestamp_from_pbtools m t =
     (case m of None \<Rightarrow> (ARNM_ERROR_NULL_POINTER, t)
      | Some m \<Rightarrow> (ARNM_SUCCESS, t\<lparr>nanos := pts_nanos m, seconds := pts_seconds m\<rparr>))"

definition timestamp_seconds_from_pbtools ::
  "proto_gradido_timestamp_seconds_t option \<Rightarrow> grdw_timestamp_seconds \<Rightarrow> arnm_result \<times> grdw_timestamp_seconds" where
  "timestamp_seconds_from_pbtools m t =
     (case m of None \<Rightarrow> (ARNM_ERROR_NULL_POINTER, t)
      | Some m \<Rightarrow> (ARNM_SUCCESS, t\<lparr>wts_seconds := pss_seconds m\<rparr>))"

definition transfer_amount_from_pbtools ::
  "proto_gradido_transfer_amount_t option \<Rightarrow> grdw_transfer_amount \<Rightarrow> arnm_result \<times> grdw_transfer_amount" where
  "transfer_amount_from_pbtools m t =
     (case m of None \<Rightarrow> (ARNM_ERROR_NULL_POINTER, t)
      | Some m \<Rightarrow>
          if length (pta_pubkey m) \<noteq> SIGN_PUBLIC_KEY_SIZE then (ARNM_ERROR_INVALID_PARAM, t)
          else (let t = t\<lparr>wta_pubkey := pta_pubkey m, wta_amount := pta_amount m\<rparr> in
            put_member (\<lambda>u. t\<lparr>wta_community_uuid := u\<rparr>)
              (community_uuid_from_pbtools (pta_community_uuid m) (wta_community_uuid t))))"

section \<open>Ledger anchors\<close>

definition hiero_account_id_from_pbtools ::
  "proto_gradido_account_id_t option \<Rightarrow> grdw_hiero_account_id \<Rightarrow> arnm_result \<times> grdw_hiero_account_id" where
  "hiero_account_id_from_pbtools m a =
     (case m of None \<Rightarrow> (ARNM_ERROR_NULL_POINTER, a)
      | Some m \<Rightarrow>
          if proto_gradido_account_id_account_account_num_e \<noteq> pai_account m
          then (GRD_ERROR_PB_UNHANDLED_ONEOF_BRANCH, a)
          else (ARNM_SUCCESS, a\<lparr>accountNum := pai_account_num m, realmNum := pai_realm_num m, shardNum := pai_shard_num m\<rparr>))"

definition hiero_transaction_id_from_pbtools ::
  "proto_gradido_transaction_id_t option \<Rightarrow> grdw_hiero_transaction_id \<Rightarrow> arnm_result \<times> grdw_hiero_transaction_id" where
  "hiero_transaction_id_from_pbtools m t =
     (case m of None \<Rightarrow> (ARNM_ERROR_NULL_POINTER, t)
      | Some m \<Rightarrow>
          if pti_nonce m \<noteq> 0 \<or> pti_scheduled m then (GRD_ERROR_PB_UNHANDLED_PARAMETER, t)
          else bind_ok (put_member (\<lambda>v. t\<lparr>transactionValidStart := v\<rparr>)
                 (timestamp_from_pbtools (pti_transaction_valid_start_p m) (transactionValidStart t)))
               (\<lambda>t. put_member (\<lambda>v. t\<lparr>accountID := v\<rparr>)
                 (hiero_account_id_from_pbtools (pti_account_id_p m) (accountID t))))"

definition ledger_anchor_from_pbtools ::
  "proto_gradido_ledger_anchor_t option \<Rightarrow> grdw_ledger_anchor \<Rightarrow> c_fault + arnm_result \<times> grdw_ledger_anchor" where
  "ledger_anchor_from_pbtools m a =
     (case m of None \<Rightarrow> Inr (ARNM_ERROR_NULL_POINTER, a)
      | Some m \<Rightarrow>
          if GRDT_LEDGER_ANCHOR_HIERO_TRANSACTION_ID = pla_type m then
            (if proto_gradido_ledger_anchor_anchor_id_hiero_transaction_id_e \<noteq> pla_anchor_id m then Inl AssertFailed
             else then_ok (Inr (put_member (\<lambda>v. a\<lparr>hiero_transaction_id := v\<rparr>)
                     (hiero_transaction_id_from_pbtools (pla_hiero_transaction_id_p m) (hiero_transaction_id a))))
                  (\<lambda>a. Inr (ARNM_SUCCESS, a\<lparr>la_type := GRDT_LEDGER_ANCHOR_HIERO_TRANSACTION_ID\<rparr>)))
          else if proto_gradido_ledger_anchor_anchor_id_id_e \<noteq> pla_anchor_id m then Inl OtherUnionMember
          else Inr (ARNM_SUCCESS, a\<lparr>la_type := pla_type m, la_id := pla_id m\<rparr>))"

section \<open>Specific transactions\<close>

definition community_friends_update_from_pbtools ::
  "proto_gradido_community_friends_update_t option \<Rightarrow> grdw_community_friends_update
    \<Rightarrow> arnm_result \<times> grdw_community_friends_update" where
  "community_friends_update_from_pbtools m t =
     (case m of None \<Rightarrow> (ARNM_ERROR_NULL_POINTER, t)
      | Some m \<Rightarrow> (ARNM_SUCCESS, t\<lparr>wfu_color_fusion := pfu_color_fusion m\<rparr>))"

definition community_root_from_pbtools ::
  "proto_gradido_community_root_t option \<Rightarrow> grdw_community_root \<Rightarrow> arnm_result \<times> grdw_community_root" where
  "community_root_from_pbtools m t =
     (case m of None \<Rightarrow> (ARNM_ERROR_NULL_POINTER, t)
      | Some m \<Rightarrow>
          if length (pcr_pubkey m) \<noteq> SIGN_PUBLIC_KEY_SIZE \<or> length (pcr_gmw_pubkey m) \<noteq> SIGN_PUBLIC_KEY_SIZE
             \<or> length (pcr_auf_pubkey m) \<noteq> SIGN_PUBLIC_KEY_SIZE
          then (ARNM_ERROR_INVALID_PARAM, t)
          else (ARNM_SUCCESS, t\<lparr>wcr_pubkey := pcr_pubkey m, wcr_gmw_pubkey := pcr_gmw_pubkey m,
                  wcr_auf_pubkey := pcr_auf_pubkey m\<rparr>))"

definition gradido_creation_from_pbtools ::
  "proto_gradido_gradido_creation_t option \<Rightarrow> grdw_gradido_creation \<Rightarrow> arnm_result \<times> grdw_gradido_creation" where
  "gradido_creation_from_pbtools m t =
     (case m of None \<Rightarrow> (ARNM_ERROR_NULL_POINTER, t)
      | Some m \<Rightarrow>
          bind_ok (put_member (\<lambda>v. t\<lparr>wgc_recipient := v\<rparr>)
              (transfer_amount_from_pbtools (pgc_recipient_p m) (wgc_recipient t)))
            (\<lambda>t. put_member (\<lambda>v. t\<lparr>wgc_target_date := v\<rparr>)
              (timestamp_seconds_from_pbtools (pgc_target_date_p m) (wgc_target_date t))))"

definition gradido_transfer_from_pbtools ::
  "proto_gradido_gradido_transfer_t option \<Rightarrow> grdw_gradido_transfer \<Rightarrow> arnm_result \<times> grdw_gradido_transfer" where
  "gradido_transfer_from_pbtools m t =
     (case m of None \<Rightarrow> (ARNM_ERROR_NULL_POINTER, t)
      | Some m \<Rightarrow>
          if length (pgt_recipient m) \<noteq> SIGN_PUBLIC_KEY_SIZE then (ARNM_ERROR_INVALID_PARAM, t)
          else (let t = t\<lparr>wgt_recipient := pgt_recipient m\<rparr> in
            put_member (\<lambda>v. t\<lparr>wgt_sender := v\<rparr>) (transfer_amount_from_pbtools (pgt_sender_p m) (wgt_sender t))))"

definition gradido_deferred_transfer_from_pbtools ::
  "proto_gradido_gradido_deferred_transfer_t option \<Rightarrow> grdw_gradido_deferred_transfer
    \<Rightarrow> c_fault + arnm_result \<times> grdw_gradido_deferred_transfer" where
  "gradido_deferred_transfer_from_pbtools m t =
     (case m of None \<Rightarrow> Inr (ARNM_ERROR_NULL_POINTER, t)
      | Some m \<Rightarrow>
          (case pdt_timeout_duration_p m of None \<Rightarrow> Inl NullDereference
           | Some d \<Rightarrow>
               if 4294967295 < pds_seconds d then Inr (ARNM_ERROR_RESOURCE_SIZE_EXCEED, t)
               else (let t = t\<lparr>wdt_timeout_duration := ucast (pds_seconds d)\<rparr> in
                 Inr (put_member (\<lambda>v. t\<lparr>wdt_transfer := v\<rparr>)
                   (gradido_transfer_from_pbtools (pdt_transfer_p m) (wdt_transfer t))))))"

definition gradido_redeem_deferred_transfer_from_pbtools ::
  "proto_gradido_gradido_redeem_deferred_transfer_t option \<Rightarrow> grdw_gradido_redeem_deferred_transfer
    \<Rightarrow> arnm_result \<times> grdw_gradido_redeem_deferred_transfer" where
  "gradido_redeem_deferred_transfer_from_pbtools m t =
     (case m of None \<Rightarrow> (ARNM_ERROR_NULL_POINTER, t)
      | Some m \<Rightarrow>
          (let t = t\<lparr>wrt_deferred_transfer_transaction_nr := prt_deferred_transfer_transaction_nr m\<rparr> in
            put_member (\<lambda>v. t\<lparr>wrt_transfer := v\<rparr>) (gradido_transfer_from_pbtools (prt_transfer_p m) (wrt_transfer t))))"

definition gradido_timeout_deferred_transfer_from_pbtools ::
  "proto_gradido_gradido_timeout_deferred_transfer_t option \<Rightarrow> grdw_gradido_timeout_deferred_transfer
    \<Rightarrow> arnm_result \<times> grdw_gradido_timeout_deferred_transfer" where
  "gradido_timeout_deferred_transfer_from_pbtools m t =
     (case m of None \<Rightarrow> (ARNM_ERROR_NULL_POINTER, t)
      | Some m \<Rightarrow> (ARNM_SUCCESS, t\<lparr>wto_deferred_transfer_transaction_nr := pto_deferred_transfer_transaction_nr m\<rparr>))"

definition register_address_from_pbtools ::
  "proto_gradido_register_address_t option \<Rightarrow> grdw_register_address \<Rightarrow> arnm_result \<times> grdw_register_address" where
  "register_address_from_pbtools m t =
     (case m of None \<Rightarrow> (ARNM_ERROR_NULL_POINTER, t)
      | Some m \<Rightarrow>
          if length (pra_user_pubkey m) \<noteq> SIGN_PUBLIC_KEY_SIZE \<or> length (pra_name_hash m) \<noteq> GENERIC_HASH_SIZE
             \<or> length (pra_account_pubkey m) \<noteq> SIGN_PUBLIC_KEY_SIZE
          then (ARNM_ERROR_INVALID_PARAM, t)
          else (ARNM_SUCCESS, t\<lparr>wra_user_pubkey := pra_user_pubkey m, wra_address_type := pra_address_type m,
                  wra_derivation_index := pra_derivation_index m, wra_name_hash := pra_name_hash m,
                  wra_account_pubkey := pra_account_pubkey m\<rparr>))"

section \<open>The transaction body\<close>

definition put_result :: "('m \<Rightarrow> 's) \<Rightarrow> c_fault + arnm_result \<times> 'm \<Rightarrow> c_fault + arnm_result \<times> 's" where
  "put_result f r = fbind r (\<lambda>r. Inr (put_member f r))"

text \<open>A call on the struct itself, which needs no memory.\<close>

definition in_struct ::
  "('w \<Rightarrow> c_fault + arnm_result \<times> 'w) \<Rightarrow> 'w option \<times> 'p \<Rightarrow> c_fault + arnm_result \<times> 'w option \<times> 'p" where
  "in_struct f s =
     (case fst s of None \<Rightarrow> Inr (ARNM_ERROR_NULL_POINTER, s)
      | Some w \<Rightarrow> put_result (\<lambda>w. (Some w, snd s)) (f w))"

definition body_data_from_pbtools ::
  "proto_gradido_transaction_body_t \<Rightarrow> grdw_transaction_body \<Rightarrow> c_fault + arnm_result \<times> grdw_transaction_body" where
  "body_data_from_pbtools m b =
     (if pbx_data m = proto_gradido_transaction_body_data_none_e then
        Inr (ARNM_SUCCESS, b\<lparr>wbx_transaction_type := GRDT_TRANSACTION_NONE\<rparr>)
      else if pbx_data m = proto_gradido_transaction_body_data_transfer_e then
        put_result (\<lambda>v. b\<lparr>wbx_transaction_type := GRDT_TRANSACTION_TRANSFER, wbx_transfer := v\<rparr>)
          (Inr (gradido_transfer_from_pbtools (pbx_transfer_p m) (wbx_transfer b)))
      else if pbx_data m = proto_gradido_transaction_body_data_creation_e then
        put_result (\<lambda>v. b\<lparr>wbx_transaction_type := GRDT_TRANSACTION_CREATION, wbx_creation := v\<rparr>)
          (Inr (gradido_creation_from_pbtools (pbx_creation_p m) (wbx_creation b)))
      else if pbx_data m = proto_gradido_transaction_body_data_community_friends_update_e then
        put_result (\<lambda>v. b\<lparr>wbx_transaction_type := GRDT_TRANSACTION_COMMUNITY_FRIENDS_UPDATE, wbx_community_friends_update := v\<rparr>)
          (Inr (community_friends_update_from_pbtools (pbx_community_friends_update_p m) (wbx_community_friends_update b)))
      else if pbx_data m = proto_gradido_transaction_body_data_register_address_e then
        put_result (\<lambda>v. b\<lparr>wbx_transaction_type := GRDT_TRANSACTION_REGISTER_ADDRESS, wbx_register_address := v\<rparr>)
          (Inr (register_address_from_pbtools (pbx_register_address_p m) (wbx_register_address b)))
      else if pbx_data m = proto_gradido_transaction_body_data_deferred_transfer_e then
        put_result (\<lambda>v. b\<lparr>wbx_transaction_type := GRDT_TRANSACTION_DEFERRED_TRANSFER, wbx_deferred_transfer := v\<rparr>)
          (gradido_deferred_transfer_from_pbtools (pbx_deferred_transfer_p m) (wbx_deferred_transfer b))
      else if pbx_data m = proto_gradido_transaction_body_data_community_root_e then
        put_result (\<lambda>v. b\<lparr>wbx_transaction_type := GRDT_TRANSACTION_COMMUNITY_ROOT, wbx_community_root := v\<rparr>)
          (Inr (community_root_from_pbtools (pbx_community_root_p m) (wbx_community_root b)))
      else if pbx_data m = proto_gradido_transaction_body_data_redeem_deferred_transfer_e then
        put_result (\<lambda>v. b\<lparr>wbx_transaction_type := GRDT_TRANSACTION_REDEEM_DEFERRED_TRANSFER, wbx_redeem_deferred_transfer := v\<rparr>)
          (Inr (gradido_redeem_deferred_transfer_from_pbtools (pbx_redeem_deferred_transfer_p m) (wbx_redeem_deferred_transfer b)))
      else if pbx_data m = proto_gradido_transaction_body_data_timeout_deferred_transfer_e then
        put_result (\<lambda>v. b\<lparr>wbx_transaction_type := GRDT_TRANSACTION_TIMEOUT_DEFERRED_TRANSFER, wbx_timeout_deferred_transfer := v\<rparr>)
          (Inr (gradido_timeout_deferred_transfer_from_pbtools (pbx_timeout_deferred_transfer_p m) (wbx_timeout_deferred_transfer b)))
      else Inr (ARNM_ERROR_ENUM_UNKNOWN, b))"

text \<open>Each memo is read into a temporary one and moved to its place.\<close>

fun memos_from_pbtools ::
  "'p arnm_memory \<Rightarrow> proto_gradido_encrypted_memo_t list \<Rightarrow> nat \<Rightarrow> grdw_transaction_body option \<times> 'p
    \<Rightarrow> arnm_result \<times> grdw_transaction_body option \<times> 'p" where
  "memos_from_pbtools A [] i s = (ARNM_SUCCESS, s)"
| "memos_from_pbtools A (m # ms) i s =
     (case encrypted_memo_from_pbtools A (Some m) (zero_memo, snd s) of
        (r, e, p) \<Rightarrow>
          if r \<noteq> ARNM_SUCCESS then (r, fst s, p)
          else (case grdw_transaction_body_move_memo i (fst s, Some e) of
                  (r, b, _) \<Rightarrow> if r \<noteq> ARNM_SUCCESS then (r, b, p) else memos_from_pbtools A ms (Suc i) (b, p)))"

definition body_memos_from_pbtools ::
  "'p arnm_memory \<Rightarrow> proto_gradido_transaction_body_t \<Rightarrow> grdw_transaction_body option \<times> 'p
    \<Rightarrow> arnm_result \<times> grdw_transaction_body option \<times> 'p" where
  "body_memos_from_pbtools A m s =
     (if pbx_memos m = [] then (ARNM_SUCCESS, s)
      else if 255 \<le> length (pbx_memos m) then (ARNM_ERROR_ARRAY_INDEX_OUT_OF_BOUNDS, s)
      else bind_ok (grdw_transaction_body_reserve_memos A (length (pbx_memos m)) s)
             (memos_from_pbtools A (pbx_memos m) 0))"

definition body_uuid_from_pbtools ::
  "'p arnm_memory \<Rightarrow> proto_gradido_transaction_body_t \<Rightarrow> grdw_transaction_body option \<times> 'p
    \<Rightarrow> arnm_result \<times> grdw_transaction_body option \<times> 'p" where
  "body_uuid_from_pbtools A m s =
     (if pbx_other_community_uuid m = [] then (ARNM_SUCCESS, s)
      else (case mem_alloc A ARNM_UUID_BINARY_SIZE (snd s) of
        (r, p) \<Rightarrow>
          if r \<noteq> ARNM_SUCCESS then (r, fst s, p)
          else put_member (\<lambda>u. (map_option (\<lambda>b. b\<lparr>wbx_other_community_uuid := Some u\<rparr>) (fst s), p))
                 (community_uuid_from_pbtools (pbx_other_community_uuid m) (zeros ARNM_UUID_BINARY_SIZE))))"

definition body_rest_from_pbtools ::
  "proto_gradido_transaction_body_t \<Rightarrow> grdw_transaction_body \<Rightarrow> c_fault + arnm_result \<times> grdw_transaction_body" where
  "body_rest_from_pbtools m b =
     then_ok (Inr (put_member (\<lambda>t. b\<lparr>wbx_created_at := t\<rparr>)
         (timestamp_from_pbtools (pbx_created_at_p m) (wbx_created_at b))))
       (\<lambda>b. body_data_from_pbtools m (b\<lparr>wbx_type := pbx_type m\<rparr>))"

definition grdm_transaction_body_from_pbtools ::
  "'p arnm_memory \<Rightarrow> proto_gradido_transaction_body_t option \<Rightarrow> grdw_transaction_body option \<times> 'p
    \<Rightarrow> c_fault + arnm_result \<times> grdw_transaction_body option \<times> 'p" where
  "grdm_transaction_body_from_pbtools A m s =
     (case (fst s, m) of
        (Some _, Some m) \<Rightarrow>
          if GRDU_GRADIDO_PROTOCOL_VERSION \<noteq> pbx_version_number m then Inr (GRD_ERROR_PB_INCORRECT_VERSION, s)
          else then_ok (Inr (body_memos_from_pbtools A m s)) (\<lambda>s.
               then_ok (Inr (body_uuid_from_pbtools A m s)) (in_struct (body_rest_from_pbtools m)))
      | _ \<Rightarrow> Inr (ARNM_ERROR_NULL_POINTER, s))"

section \<open>The gradido transaction\<close>

text \<open>Items that are read one after the other into a temporary one and copied to their place.\<close>

fun copy_items ::
  "('m option \<Rightarrow> 'e \<Rightarrow> arnm_result \<times> 'e) \<Rightarrow> ('e option \<Rightarrow> u8 \<Rightarrow> 'w option \<Rightarrow> arnm_result \<times> 'w option)
    \<Rightarrow> 'm list \<Rightarrow> nat \<Rightarrow> 'e \<Rightarrow> 'w option \<Rightarrow> arnm_result \<times> 'w option" where
  "copy_items read copy [] i e w = (ARNM_SUCCESS, w)"
| "copy_items read copy (m # ms) i e w =
     (case read (Some m) e of
        (r, e) \<Rightarrow>
          if r \<noteq> ARNM_SUCCESS then (r, w)
          else bind_ok (copy (Some e) (word_of_nat i) w) (copy_items read copy ms (Suc i) e))"

definition sig_map_from_pbtools ::
  "'p arnm_memory \<Rightarrow> proto_gradido_gradido_transaction_t \<Rightarrow> grdw_gradido_transaction option \<times> 'p
    \<Rightarrow> arnm_result \<times> grdw_gradido_transaction option \<times> 'p" where
  "sig_map_from_pbtools A m s =
     (case pgx_sig_map_p m of None \<Rightarrow> (ARNM_SUCCESS, s)
      | Some sm \<Rightarrow>
          if psm_sig_pair sm = [] then (ARNM_SUCCESS, s)
          else if 255 \<le> length (psm_sig_pair sm) then (ARNM_ERROR_ARRAY_INDEX_OUT_OF_BOUNDS, s)
          else bind_ok (grdw_gradido_transaction_reserve_sig_map A (word_of_nat (length (psm_sig_pair sm))) s)
            (\<lambda>(t, p). put_member (\<lambda>t. (t, p))
               (copy_items signature_pair_from_pbtools grdw_gradido_transaction_copy_sig_map (psm_sig_pair sm) 0
                  zero_signature_pair t)))"

definition pairing_anchor_from_pbtools ::
  "proto_gradido_gradido_transaction_t \<Rightarrow> grdw_gradido_transaction \<Rightarrow> c_fault + arnm_result \<times> grdw_gradido_transaction" where
  "pairing_anchor_from_pbtools m t =
     (if pgx_pairing_ledger_anchor_p m = None then Inr (ARNM_SUCCESS, t)
      else put_result (\<lambda>a. t\<lparr>wgx_pairing_ledger_anchor := a\<rparr>)
             (ledger_anchor_from_pbtools (pgx_pairing_ledger_anchor_p m) (wgx_pairing_ledger_anchor t)))"

definition body_bytes_from_pbtools ::
  "'p arnm_memory \<Rightarrow> proto_gradido_gradido_transaction_t \<Rightarrow> grdw_gradido_transaction option \<times> 'p
    \<Rightarrow> arnm_result \<times> grdw_gradido_transaction option \<times> 'p" where
  "body_bytes_from_pbtools A m s =
     (case fst s of None \<Rightarrow> (ARNM_ERROR_NULL_POINTER, s)
      | Some t \<Rightarrow>
          (case memory_block_from_pbtools A (pgx_body_bytes m) (wgx_body_bytes t, snd s) of
             (r, block, p) \<Rightarrow> (r, Some (t\<lparr>wgx_body_bytes := block\<rparr>), p)))"

definition grdm_gradido_transaction_from_pb ::
  "'p arnm_memory \<Rightarrow> proto_gradido_gradido_transaction_t option \<Rightarrow> grdw_gradido_transaction option \<times> 'p
    \<Rightarrow> c_fault + arnm_result \<times> grdw_gradido_transaction option \<times> 'p" where
  "grdm_gradido_transaction_from_pb A m s =
     (case (fst s, m) of
        (Some _, Some m) \<Rightarrow>
          then_ok (Inr (sig_map_from_pbtools A m s)) (\<lambda>s.
          then_ok (in_struct (pairing_anchor_from_pbtools m) s) (\<lambda>s.
            Inr (body_bytes_from_pbtools A m s)))
      | _ \<Rightarrow> Inr (ARNM_ERROR_NULL_POINTER, s))"

section \<open>The confirmed transaction\<close>

definition inner_transaction_from_pbtools ::
  "'p arnm_memory \<Rightarrow> proto_gradido_confirmed_transaction_t \<Rightarrow> grdw_confirmed_transaction option \<times> 'p
    \<Rightarrow> c_fault + arnm_result \<times> grdw_confirmed_transaction option \<times> 'p" where
  "inner_transaction_from_pbtools A m s =
     (case fst s of None \<Rightarrow> Inr (ARNM_ERROR_NULL_POINTER, s)
      | Some c \<Rightarrow>
          put_result (\<lambda>(t, p). (map_option (\<lambda>t. c\<lparr>wcx_transaction := t\<rparr>) t, p))
            (grdm_gradido_transaction_from_pb A (pcx_transaction_p m) (Some (wcx_transaction c), snd s)))"

definition confirmed_rest_from_pbtools ::
  "proto_gradido_confirmed_transaction_t \<Rightarrow> grdw_confirmed_transaction \<Rightarrow> c_fault + arnm_result \<times> grdw_confirmed_transaction" where
  "confirmed_rest_from_pbtools m c =
     then_ok (Inr (put_member (\<lambda>t. c\<lparr>wcx_confirmed_at := t\<rparr>)
         (timestamp_from_pbtools (pcx_confirmed_at_p m) (wcx_confirmed_at c))))
       (\<lambda>c. if length (pcx_running_hash m) \<noteq> GENERIC_HASH_SIZE then Inr (ARNM_ERROR_INVALID_PARAM, c)
            else (let c = c\<lparr>wcx_running_hash := pcx_running_hash m\<rparr> in
              put_result (\<lambda>a. c\<lparr>wcx_ledger_anchor := a\<rparr>)
                (ledger_anchor_from_pbtools (pcx_ledger_anchor_p m) (wcx_ledger_anchor c))))"

definition balances_from_pbtools ::
  "'p arnm_memory \<Rightarrow> proto_gradido_confirmed_transaction_t \<Rightarrow> grdw_confirmed_transaction option \<times> 'p
    \<Rightarrow> arnm_result \<times> grdw_confirmed_transaction option \<times> 'p" where
  "balances_from_pbtools A m s =
     (if pcx_account_balances m = [] then (ARNM_SUCCESS, s)
      else if 255 \<le> length (pcx_account_balances m) then (ARNM_ERROR_ARRAY_INDEX_OUT_OF_BOUNDS, s)
      else bind_ok (grdw_confirmed_transaction_reserve_account_balances A (word_of_nat (length (pcx_account_balances m))) s)
        (\<lambda>(c, p). put_member (\<lambda>c. (c, p))
           (copy_items account_balance_from_pbtools grdw_confirmed_transaction_copy_account_balance
              (pcx_account_balances m) 0 zero_account_balance c)))"

definition grdm_confirmed_transaction_from_pb ::
  "'p arnm_memory \<Rightarrow> proto_gradido_confirmed_transaction_t option \<Rightarrow> grdw_confirmed_transaction option \<times> 'p
    \<Rightarrow> c_fault + arnm_result \<times> grdw_confirmed_transaction option \<times> 'p" where
  "grdm_confirmed_transaction_from_pb A m s =
     (case (fst s, m) of
        (Some c, Some m) \<Rightarrow>
          if GRDU_GRADIDO_PROTOCOL_VERSION \<noteq> pcx_version_number m then Inr (GRD_ERROR_PB_INCORRECT_VERSION, s)
          else then_ok (inner_transaction_from_pbtools A m (Some (c\<lparr>wcx_id := pcx_id m\<rparr>), snd s)) (\<lambda>s.
               then_ok (in_struct (confirmed_rest_from_pbtools m) s) (\<lambda>s.
                 Inr (balances_from_pbtools A m s)))
      | _ \<Rightarrow> Inr (ARNM_ERROR_NULL_POINTER, s))"

end
