(* ===== verification/GRD_Wire_Codec.thy ===== *)
theory GRD_Wire_Codec
  imports GRD_Wire_From_Pb
begin

text \<open>
  Serialized form: \<open>encode\<close> and \<open>decode\<close> of \<open>data/wire\<close>. Both take what is left of the arena as the workspace
  of pbtools; a decode hands the tail back and releases the workspace when the struct has been filled, and keeps
  it when it fails. The three encoders are one course over three messages, and so are the three decoders. A block
  of bytes is a list, a NULL pointer to it or to its data is \<open>None\<close>; the buffer to encode into is its size, and
  what is written to it stands in the answer next to the number of bytes.
\<close>

section \<open>The course of an encode\<close>

definition encode_message ::
  "'p arnm_memory \<Rightarrow> (nat \<Rightarrow> nat \<Rightarrow> ('m \<times> pb_heap) option)
    \<Rightarrow> ('w option \<Rightarrow> 'm option \<times> pb_heap \<Rightarrow> arnm_result \<times> 'm option \<times> pb_heap)
    \<Rightarrow> ('m \<Rightarrow> nat \<Rightarrow> c_fault + int \<times> bytes) \<Rightarrow> u32 option \<Rightarrow> 'w option \<Rightarrow> 'p
    \<Rightarrow> c_fault + arnm_result \<times> (int \<times> bytes) option \<times> 'p" where
  "encode_message A new from_wire encode dst w p =
     (case (dst, w) of
        (Some n, Some _) \<Rightarrow>
          if n = 0 then Inr (ARNM_ERROR_INVALID_PARAM, None, p)
          else (let remaining = mem_arena_remaining A p in
            case mem_block_alloc A remaining p of (r, p) \<Rightarrow>
              if r \<noteq> ARNM_SUCCESS then Inr (r, None, p)
              else (case new (mem_block_address A p) (unat remaining) of
                  None \<Rightarrow> Inr (ARNM_ERROR_OUT_OF_MEMORY, None, p)
                | Some (m, h) \<Rightarrow>
                    (case from_wire w (Some m, h) of (r, m, h) \<Rightarrow>
                       if r \<noteq> ARNM_SUCCESS then Inr (r, None, p)
                       else (case m of None \<Rightarrow> Inl NullDereference
                         | Some m \<Rightarrow> fbind (encode m (unat n)) (\<lambda>(written, out).
                             let p = mem_block_free A remaining p in
                             if PBTOOLS_ENCODE_BUFFER_FULL = - written then Inr (ARNM_ERROR_DESTINATION_BUFFER_TO_SMALL, None, p)
                             else if PBTOOLS_OUT_OF_MEMORY = - written then Inr (ARNM_ERROR_OUT_OF_MEMORY, None, p)
                             else if written < 0 then Inr (ARNM_ERROR_ENCODE_FAILED, None, p)
                             else Inr (ARNM_SUCCESS, Some (written, out), p))))))
      | _ \<Rightarrow> Inr (ARNM_ERROR_NULL_POINTER, None, p))"

section \<open>The course of a decode\<close>

definition decode_message ::
  "'p arnm_memory \<Rightarrow> (nat \<Rightarrow> nat \<Rightarrow> ('m \<times> pb_heap) option) \<Rightarrow> ('m \<Rightarrow> bytes \<Rightarrow> nat \<Rightarrow> pb_heap \<Rightarrow> int \<times> 'm \<times> pb_heap)
    \<Rightarrow> ('m option \<Rightarrow> 'w option \<times> 'p \<Rightarrow> c_fault + arnm_result \<times> 'w option \<times> 'p) \<Rightarrow> bytes option
    \<Rightarrow> 'w option \<times> 'p \<Rightarrow> c_fault + arnm_result \<times> 'w option \<times> 'p" where
  "decode_message A new decode from_pb src s =
     (case (fst s, src) of
        (Some _, Some bs) \<Rightarrow>
          if bs = [] then Inr (ARNM_ERROR_INVALID_PARAM, s)
          else (case grdw_pb_workspace_take A (snd s) of (r, workspace, p) \<Rightarrow>
            if r \<noteq> ARNM_SUCCESS then Inr (r, fst s, p)
            else (case new (mem_block_address A p) (unat workspace) of
                None \<Rightarrow> Inr (ARNM_ERROR_OUT_OF_MEMORY, fst s, p)
              | Some (m, h) \<Rightarrow>
                  (case decode m bs (length bs) h of (decoded, m, h) \<Rightarrow>
                    (case grdw_pb_decode_finish A (hp_pos h) decoded (word_of_nat (length bs)) (workspace, p) of
                       (r, workspace, p) \<Rightarrow>
                         if r \<noteq> ARNM_SUCCESS then Inr (r, fst s, p)
                         else fbind (from_pb (Some m) (fst s, p)) (\<lambda>(r, w, p).
                           Inr (r, w, mem_block_free A workspace p))))))
      | _ \<Rightarrow> Inr (ARNM_ERROR_NULL_POINTER, s))"

section \<open>Body, transaction, confirmed transaction\<close>

definition grdw_transaction_body_encode ::
  "'p arnm_memory \<Rightarrow> u32 option \<Rightarrow> grdw_transaction_body option \<Rightarrow> 'p
    \<Rightarrow> c_fault + arnm_result \<times> (int \<times> bytes) option \<times> 'p" where
  "grdw_transaction_body_encode A = encode_message A proto_gradido_transaction_body_new
     grdm_transaction_body_from_wire proto_gradido_transaction_body_encode"

definition grdw_transaction_body_decode ::
  "'p arnm_memory \<Rightarrow> bytes option \<Rightarrow> grdw_transaction_body option \<times> 'p
    \<Rightarrow> c_fault + arnm_result \<times> grdw_transaction_body option \<times> 'p" where
  "grdw_transaction_body_decode A = decode_message A proto_gradido_transaction_body_new
     proto_gradido_transaction_body_decode (grdm_transaction_body_from_pbtools A)"

definition grdw_gradido_transaction_encode ::
  "'p arnm_memory \<Rightarrow> u32 option \<Rightarrow> grdw_gradido_transaction option \<Rightarrow> 'p
    \<Rightarrow> c_fault + arnm_result \<times> (int \<times> bytes) option \<times> 'p" where
  "grdw_gradido_transaction_encode A = encode_message A proto_gradido_gradido_transaction_new
     grdm_gradido_transaction_from_wire proto_gradido_gradido_transaction_encode"

definition grdw_gradido_transaction_decode ::
  "'p arnm_memory \<Rightarrow> bytes option \<Rightarrow> grdw_gradido_transaction option \<times> 'p
    \<Rightarrow> c_fault + arnm_result \<times> grdw_gradido_transaction option \<times> 'p" where
  "grdw_gradido_transaction_decode A = decode_message A proto_gradido_gradido_transaction_new
     proto_gradido_gradido_transaction_decode (grdm_gradido_transaction_from_pb A)"

definition grdw_confirmed_transaction_encode ::
  "'p arnm_memory \<Rightarrow> u32 option \<Rightarrow> grdw_confirmed_transaction option \<Rightarrow> 'p
    \<Rightarrow> c_fault + arnm_result \<times> (int \<times> bytes) option \<times> 'p" where
  "grdw_confirmed_transaction_encode A = encode_message A proto_gradido_confirmed_transaction_new
     grdm_confirmed_transaction_from_wire proto_gradido_confirmed_transaction_encode"

definition grdw_confirmed_transaction_decode ::
  "'p arnm_memory \<Rightarrow> bytes option \<Rightarrow> grdw_confirmed_transaction option \<times> 'p
    \<Rightarrow> c_fault + arnm_result \<times> grdw_confirmed_transaction option \<times> 'p" where
  "grdw_confirmed_transaction_decode A = decode_message A proto_gradido_confirmed_transaction_new
     proto_gradido_confirmed_transaction_decode (grdm_confirmed_transaction_from_pb A)"

end
