(* ===== verification/GRD_Runtime.thy ===== *)
theory GRD_Runtime
  imports GRD_Wire_Codec
begin

text \<open>
  The runtime record out of its wire structs, \<open>mapping/runtime_from_wire.c\<close>, and out of the bytes of a confirmed
  transaction, \<open>data/runtime/complete_transaction.c\<close>. The record owns an arena for everything it points to: it stands
  next to the record, \<open>None\<close> after a release. The unions of the record are separate fields, read behind its type.
\<close>

type_synonym 'p owned_tx = "grdr_complete_transaction \<times> 'p option"

definition grdr_complete_transaction_release :: "'p owned_tx option \<Rightarrow> 'p owned_tx option" where
  "grdr_complete_transaction_release tx = map_option (\<lambda>_. (grdr_complete_transaction_init, None)) tx"

section \<open>The memory a transaction needs\<close>

definition calculate_memory_size :: "'p arnm_memory \<Rightarrow> grdw_confirmed_transaction \<Rightarrow> grdw_transaction_body \<Rightarrow> nat" where
  "calculate_memory_size A c b =
     mem_align8 A (length (wcx_account_balances c) * SIZEOF_grdw_account_balance)
     + (if wbx_memos b = [] then 0
        else mem_align8 A (length (wbx_memos b) * SIZEOF_grdw_encrypted_memo A)
          + sum_list (map (\<lambda>m. mem_align8 A (length (em_memo m))) (wbx_memos b)))
     + (if wbx_other_community_uuid b = None then 0 else ARNM_UUID_BINARY_SIZE)
     + mem_align8 A (length (wgx_sig_map (wcx_transaction c)) * SIZEOF_grdw_signature_pair)
     + (if GRDT_LEDGER_ANCHOR_UNSPECIFIED = la_type (wgx_pairing_ledger_anchor (wcx_transaction c)) then 0
        else mem_align8 A SIZEOF_grdw_ledger_anchor)
     + mem_align8 A (length (wgx_body_bytes (wcx_transaction c)))"

section \<open>What a transaction has of its own\<close>

definition copy_transfer :: "grdw_gradido_transfer \<Rightarrow> grdr_complete_transaction \<Rightarrow> grdr_complete_transaction" where
  "copy_transfer t tx = tx\<lparr>transfer := (transfer tx)
     \<lparr>sender_pubkey := key_of (wta_pubkey (wgt_sender t)), recipient_pubkey := key_of (wgt_recipient t),
      amount := wta_amount (wgt_sender t), coin_community_uuid := uuid_of (wta_community_uuid (wgt_sender t))\<rparr>\<rparr>"

definition copy_creation :: "grdw_gradido_creation \<Rightarrow> grdr_complete_transaction \<Rightarrow> grdr_complete_transaction" where
  "copy_creation t tx = tx\<lparr>transfer := (transfer tx)
     \<lparr>recipient_pubkey := key_of (wta_pubkey (wgc_recipient t)), amount := wta_amount (wgc_recipient t)\<rparr>,
     target_date := wts_seconds (wgc_target_date t)\<rparr>"

definition copy_register_address :: "grdw_register_address \<Rightarrow> grdr_complete_transaction \<Rightarrow> grdr_complete_transaction" where
  "copy_register_address t tx = tx\<lparr>register_address := (register_address tx)
     \<lparr>user_public_key := key_of (wra_user_pubkey t), name_hash := hash_of (wra_name_hash t),
      account_public_key := key_of (wra_account_pubkey t)\<rparr>,
     address_type := wra_address_type t, derivation_index := wra_derivation_index t\<rparr>"

definition copy_deferred_transfer :: "grdw_gradido_deferred_transfer \<Rightarrow> grdr_complete_transaction \<Rightarrow> grdr_complete_transaction" where
  "copy_deferred_transfer t tx = (copy_transfer (wdt_transfer t) tx)\<lparr>timeout_duration := ucast (wdt_timeout_duration t)\<rparr>"

definition copy_redeem_deferred_transfer ::
  "grdw_gradido_redeem_deferred_transfer \<Rightarrow> grdr_complete_transaction \<Rightarrow> grdr_complete_transaction" where
  "copy_redeem_deferred_transfer t tx =
     (copy_transfer (wrt_transfer t) tx)\<lparr>previous_tx := wrt_deferred_transfer_transaction_nr t\<rparr>"

definition copy_timeout_deferred_transfer ::
  "grdw_gradido_timeout_deferred_transfer \<Rightarrow> grdr_complete_transaction \<Rightarrow> grdr_complete_transaction" where
  "copy_timeout_deferred_transfer t tx = tx\<lparr>previous_tx := wto_deferred_transfer_transaction_nr t\<rparr>"

definition copy_community_root :: "grdw_community_root \<Rightarrow> grdr_complete_transaction \<Rightarrow> grdr_complete_transaction" where
  "copy_community_root t tx = tx\<lparr>community_root := (community_root tx)
     \<lparr>public_key := key_of (wcr_pubkey t), gmw_public_key := key_of (wcr_gmw_pubkey t),
      auf_public_key := key_of (wcr_auf_pubkey t)\<rparr>\<rparr>"

text \<open>The switch over the type; \<open>None\<close> is its default.\<close>

definition copy_specific :: "grdw_transaction_body \<Rightarrow> grdr_complete_transaction \<Rightarrow> grdr_complete_transaction option" where
  "copy_specific b tx =
     (let t = wbx_transaction_type b in
      if t = GRDT_TRANSACTION_TRANSFER then Some (copy_transfer (wbx_transfer b) tx)
      else if t = GRDT_TRANSACTION_CREATION then Some (copy_creation (wbx_creation b) tx)
      else if t = GRDT_TRANSACTION_REGISTER_ADDRESS then Some (copy_register_address (wbx_register_address b) tx)
      else if t = GRDT_TRANSACTION_DEFERRED_TRANSFER then Some (copy_deferred_transfer (wbx_deferred_transfer b) tx)
      else if t = GRDT_TRANSACTION_REDEEM_DEFERRED_TRANSFER then Some (copy_redeem_deferred_transfer (wbx_redeem_deferred_transfer b) tx)
      else if t = GRDT_TRANSACTION_TIMEOUT_DEFERRED_TRANSFER then Some (copy_timeout_deferred_transfer (wbx_timeout_deferred_transfer b) tx)
      else if t = GRDT_TRANSACTION_COMMUNITY_ROOT then Some (copy_community_root (wbx_community_root b) tx)
      else None)"

section \<open>What it points to\<close>

text \<open>Each step takes its memory from the arena and leaves the record as it was when there is none. The memos count
  once all of them have been cloned.\<close>

type_synonym 'p tx_step = "grdr_complete_transaction \<times> 'p \<Rightarrow> arnm_result \<times> grdr_complete_transaction \<times> 'p"

definition taken :: "arnm_result \<times> 'p \<Rightarrow> grdr_complete_transaction \<Rightarrow> grdr_complete_transaction
    \<Rightarrow> arnm_result \<times> grdr_complete_transaction \<times> 'p" where
  "taken r tx tx' = (fst r, if fst r = ARNM_SUCCESS then tx' else tx, snd r)"

definition clone_balances :: "'p arnm_memory \<Rightarrow> grdw_confirmed_transaction \<Rightarrow> 'p tx_step" where
  "clone_balances A c s =
     (if wcx_account_balances c = [] then (ARNM_SUCCESS, s)
      else taken (mem_clone A (length (wcx_account_balances c) * SIZEOF_grdw_account_balance) (snd s))
             (fst s) ((fst s)\<lparr>account_balances := wcx_account_balances c\<rparr>))"

primrec clone_memo_blocks :: "'p arnm_memory \<Rightarrow> grdw_encrypted_memo list \<Rightarrow> 'p \<Rightarrow> arnm_result \<times> 'p" where
  "clone_memo_blocks A [] p = (ARNM_SUCCESS, p)"
| "clone_memo_blocks A (m # ms) p = bind_ok (mem_block_clone A (em_memo m) p) (clone_memo_blocks A ms)"

definition clone_memos :: "'p arnm_memory \<Rightarrow> grdw_transaction_body \<Rightarrow> 'p tx_step" where
  "clone_memos A b s =
     (if wbx_memos b = [] then (ARNM_SUCCESS, s)
      else taken (bind_ok (mem_alloc A (length (wbx_memos b) * SIZEOF_grdw_encrypted_memo A) (snd s))
               (clone_memo_blocks A (wbx_memos b)))
             (fst s) ((fst s)\<lparr>encrypted_memos := wbx_memos b\<rparr>))"

definition clone_signatures :: "'p arnm_memory \<Rightarrow> grdw_gradido_transaction \<Rightarrow> 'p tx_step" where
  "clone_signatures A t s =
     (if wgx_sig_map t = [] then (ARNM_SUCCESS, s)
      else taken (mem_clone A (length (wgx_sig_map t) * SIZEOF_grdw_signature_pair) (snd s))
             (fst s) ((fst s)\<lparr>signature_pairs := wgx_sig_map t\<rparr>))"

definition clone_other_uuid :: "'p arnm_memory \<Rightarrow> grdw_transaction_body \<Rightarrow> 'p tx_step" where
  "clone_other_uuid A b s =
     (let tx = (fst s)\<lparr>cross_group_type := wbx_type b\<rparr> in
      case wbx_other_community_uuid b of None \<Rightarrow> (ARNM_SUCCESS, tx, snd s)
      | Some u \<Rightarrow> taken (mem_clone A ARNM_UUID_BINARY_SIZE (snd s)) tx (tx\<lparr>tx_pairing_community_uuid := Some (uuid_of u)\<rparr>))"

definition clone_pairing_anchor :: "'p arnm_memory \<Rightarrow> grdw_gradido_transaction \<Rightarrow> 'p tx_step" where
  "clone_pairing_anchor A t s =
     (if GRDT_LEDGER_ANCHOR_UNSPECIFIED = la_type (wgx_pairing_ledger_anchor t) then (ARNM_SUCCESS, s)
      else taken (mem_clone A SIZEOF_grdw_ledger_anchor (snd s))
             (fst s) ((fst s)\<lparr>pairing_ledger_anchor := Some (wgx_pairing_ledger_anchor t)\<rparr>))"

definition clone_body_bytes :: "'p arnm_memory \<Rightarrow> grdw_gradido_transaction \<Rightarrow> 'p tx_step" where
  "clone_body_bytes A t s =
     taken (mem_block_clone A (wgx_body_bytes t) (snd s)) (fst s) ((fst s)\<lparr>body_bytes := wgx_body_bytes t\<rparr>)"

definition clone_all :: "'p arnm_memory \<Rightarrow> grdw_transaction_body \<Rightarrow> grdw_confirmed_transaction \<Rightarrow> 'p tx_step" where
  "clone_all A b c s =
     bind_ok (clone_balances A c s) (\<lambda>s.
     bind_ok (clone_memos A b s) (\<lambda>s.
     bind_ok (clone_signatures A (wcx_transaction c) s) (\<lambda>s.
     bind_ok (clone_other_uuid A b s) (\<lambda>s.
     bind_ok (clone_pairing_anchor A (wcx_transaction c) s) (clone_body_bytes A (wcx_transaction c))))))"

section \<open>From the wire structs\<close>

text \<open>What the record has before the switch over the type, and what it gets after it.\<close>

definition tx_head ::
  "grdw_transaction_body \<Rightarrow> grdw_confirmed_transaction \<Rightarrow> bytes \<Rightarrow> grdr_complete_transaction \<Rightarrow> grdr_complete_transaction" where
  "tx_head b c uuid tx = tx\<lparr>tx_nr := wcx_id c, confirmed_at := wcx_confirmed_at c, created_at := wbx_created_at b,
     tx_community_uuid := uuid_of uuid, ledger_anchor := wcx_ledger_anchor c\<rparr>"

definition tx_tail ::
  "grdw_transaction_body \<Rightarrow> grdw_confirmed_transaction \<Rightarrow> grdr_complete_transaction \<Rightarrow> grdr_complete_transaction" where
  "tx_tail b c tx = tx\<lparr>transaction_type := wbx_transaction_type b, tx_running_hash := hash_of (wcx_running_hash c)\<rparr>"

definition grdm_complete_transaction_from_wire ::
  "'p arnm_memory \<Rightarrow> 'p owned_tx option \<Rightarrow> grdw_transaction_body option \<Rightarrow> grdw_confirmed_transaction option \<Rightarrow> bytes
    \<Rightarrow> arnm_result \<times> 'p owned_tx option" where
  "grdm_complete_transaction_from_wire A tx body confirmed uuid =
     (case (grdr_complete_transaction_release tx, body, confirmed) of
        (Some (tx, _), Some b, Some c) \<Rightarrow>
          let memory_size = calculate_memory_size A c b in
          if max_alloc_size A < memory_size then (ARNM_ERROR_RESOURCE_SIZE_EXCEED, Some (tx, None))
          else (case mem_init_arena A (word_of_nat memory_size) of (r, p) \<Rightarrow>
            if r \<noteq> ARNM_SUCCESS then (r, Some (tx, Some p))
            else (let tx = tx_head b c uuid tx in
              case copy_specific b tx of
                None \<Rightarrow> (ARNM_ERROR_ENUM_UNHANDLED, Some (tx, Some p))
              | Some tx \<Rightarrow> (case clone_all A b c (tx_tail b c tx, p) of (r, tx, p) \<Rightarrow> (r, Some (tx, Some p)))))
      | _ \<Rightarrow> (ARNM_ERROR_NULL_POINTER, tx))"

section \<open>From the bytes\<close>

text \<open>The buffer is the size of the memory that is lent to the decoders; a NULL pointer is \<open>None\<close>.\<close>

definition grdr_complete_transaction_init_from_protobuf ::
  "'p arnm_memory \<Rightarrow> 'p owned_tx option \<Rightarrow> bytes option \<Rightarrow> bytes option \<Rightarrow> u32 option
    \<Rightarrow> c_fault + arnm_result \<times> 'p owned_tx option" where
  "grdr_complete_transaction_init_from_protobuf A tx serialized uuid buffer =
     (case (tx, serialized, uuid, buffer) of
        (Some _, Some bs, Some uuid, Some n) \<Rightarrow>
          if bs = [] \<or> n = 0 then Inr (ARNM_ERROR_INVALID_PARAM, tx)
          else (case mem_init_arena_borrow A n of (r, p) \<Rightarrow>
            if r \<noteq> ARNM_SUCCESS then Inr (r, tx)
            else fbind (grdw_confirmed_transaction_decode A (Some bs) (Some grdw_confirmed_transaction_init, p)) (\<lambda>(r, c, p).
              if r \<noteq> ARNM_SUCCESS then Inr (r, tx)
              else fbind (grdw_transaction_body_decode A
                    (case c of None \<Rightarrow> None | Some c \<Rightarrow>
                       if wgx_body_bytes (wcx_transaction c) = [] then None else Some (wgx_body_bytes (wcx_transaction c)))
                    (Some grdw_transaction_body_init, p)) (\<lambda>(r, b, p).
                if r \<noteq> ARNM_SUCCESS then Inr (r, tx)
                else Inr (grdm_complete_transaction_from_wire A (grdr_complete_transaction_release tx) b c uuid))))
      | _ \<Rightarrow> Inr (ARNM_ERROR_NULL_POINTER, tx))"

end
