(* ===== verification/GRD_In_Memory.thy ===== *)
theory GRD_In_Memory
  imports GRD_Load GRD_Runtime
begin

text \<open>
  The store of \<open>blockchain/in_memory.c\<close>: the transactions of a chain in one vector, in the order of their numbers.
  A transaction travels by moving its struct; the arena that comes with it is the transaction's own and is not named
  here. The memory \<open>source\<close> is the state of type \<open>'p\<close>, the memory a decode works in one of type \<open>'q\<close>.
  What \<open>user_data\<close> points at is the store and \<open>source\<close>.
\<close>

section \<open>The store\<close>

abbreviation IN_MEMORY_RECORDS_BUCKET_LOG2 :: nat where "IN_MEMORY_RECORDS_BUCKET_LOG2 \<equiv> 6"
abbreviation GRDB_IN_MEMORY_SCRATCH_DEFAULT :: u32 where "GRDB_IN_MEMORY_SCRATCH_DEFAULT \<equiv> 262144"

record grdb_in_memory_options =
  imo_expected_transactions :: u32
  imo_scratch_bytes :: u32

record grdb_in_memory =
  im_records :: "grdr_complete_transaction list"
  im_scratch :: bool
  im_scratch_size :: u32
  im_community_uuid :: bytes
  im_first_tx_nr :: u64
  im_max_tx_nr :: u64
  im_ready :: bool

definition zero_in_memory :: grdb_in_memory where
  "zero_in_memory = \<lparr>im_records = [], im_scratch = False, im_scratch_size = 0, im_community_uuid = zeros ARNM_UUID_BINARY_SIZE,
     im_first_tx_nr = 0, im_max_tx_nr = 0, im_ready = False\<rparr>"

text \<open>The scratch: what the options name or the default, rounded up to a multiple of eight; \<open>None\<close> where that wraps.\<close>

definition scratch_size_of :: "u32 \<Rightarrow> u32 \<Rightarrow> u32 option" where
  "scratch_size_of standard scratch_bytes =
     (let wanted = (if scratch_bytes \<noteq> 0 then scratch_bytes else standard)
      in if wanted > 4294967295 - 7 then None else Some ((wanted + 7) AND NOT 7))"

definition grdb_in_memory_init :: "('s, 'm, 'p) arnm_ops \<Rightarrow> 'p arnm_memory \<Rightarrow> grdb_in_memory option \<Rightarrow> grdb_in_memory_options option
    \<Rightarrow> bytes option \<Rightarrow> 'p \<Rightarrow> arnm_result \<times> grdb_in_memory option \<times> 'p" where
  "grdb_in_memory_init A M store options uuid mem =
     (case (store, uuid) of
        (Some _, Some uuid) \<Rightarrow>
          let options = (case options of None \<Rightarrow> \<lparr>imo_expected_transactions = 0, imo_scratch_bytes = 0\<rparr> | Some o' \<Rightarrow> o') in
          (case scratch_size_of GRDB_IN_MEMORY_SCRATCH_DEFAULT (imo_scratch_bytes options) of
            None \<Rightarrow> (ARNM_ERROR_ARITHMETIC_OVERFLOW, store, mem)
          | Some size' \<Rightarrow>
              case bvec_init A IN_MEMORY_RECORDS_BUCKET_LOG2 mem of (r, mem) \<Rightarrow>
              if r \<noteq> ARNM_SUCCESS then (r, Some zero_in_memory, mem) else
              case (if imo_expected_transactions options \<noteq> 0 then bvec_reserve A (imo_expected_transactions options) mem
                    else (ARNM_SUCCESS, mem)) of (r, mem) \<Rightarrow>
              if r \<noteq> ARNM_SUCCESS then (r, Some zero_in_memory, bvec_free A mem) else
              case mem_alloc M (unat size') mem of (r, mem) \<Rightarrow>
              if r \<noteq> ARNM_SUCCESS then (r, Some zero_in_memory, bvec_free A mem)
              else (ARNM_SUCCESS, Some (zero_in_memory\<lparr>im_scratch := True, im_scratch_size := size',
                      im_community_uuid := uuid, im_ready := True\<rparr>), mem))
      | _ \<Rightarrow> (ARNM_ERROR_NULL_POINTER, store, mem))"

definition grdb_in_memory_release :: "('s, 'm, 'p) arnm_ops \<Rightarrow> 'p arnm_memory \<Rightarrow> grdb_in_memory option \<Rightarrow> 'p \<Rightarrow> grdb_in_memory option \<times> 'p" where
  "grdb_in_memory_release A M store mem =
     (case store of None \<Rightarrow> (None, mem)
      | Some s \<Rightarrow> if \<not> im_ready s then (store, mem)
          else (Some zero_in_memory,
            (if im_scratch s then mem_free M (unat (im_scratch_size s)) else id) (bvec_free A mem)))"

definition grdb_in_memory_reset :: "grdb_in_memory option \<Rightarrow> grdb_in_memory option" where
  "grdb_in_memory_reset store =
     (case store of None \<Rightarrow> None
      | Some s \<Rightarrow> if \<not> im_ready s then store else Some (s\<lparr>im_records := [], im_first_tx_nr := 0, im_max_tx_nr := 0\<rparr>))"

section \<open>The calls a chain makes\<close>

definition position_of :: "grdb_in_memory \<Rightarrow> u64 \<Rightarrow> u32 option" where
  "position_of store nr =
     (if im_first_tx_nr store = 0 \<or> nr < im_first_tx_nr store \<or> nr > im_max_tx_nr store then None
      else Some (ucast (nr - im_first_tx_nr store)))"

definition in_memory_fetch :: "grdb_in_memory option \<Rightarrow> u64 \<Rightarrow> tx_place \<Rightarrow> arnm_result \<times> tx_place" where
  "in_memory_fetch store nr out =
     (case store of None \<Rightarrow> (ARNM_ERROR_NULL_POINTER, out)
      | Some s \<Rightarrow>
          if \<not> im_ready s \<or> out = None then (ARNM_ERROR_NULL_POINTER, out)
          else (case position_of s nr of
            None \<Rightarrow> (ARNM_ERROR_ARRAY_INDEX_OUT_OF_BOUNDS, out)
          | Some position \<Rightarrow> (ARNM_SUCCESS, Some (Some (im_records s ! unat position)))))"

definition is_next :: "grdb_in_memory \<Rightarrow> u64 \<Rightarrow> bool" where
  "is_next store nr \<longleftrightarrow> nr \<noteq> 0 \<and> (im_first_tx_nr store = 0 \<or> nr = im_max_tx_nr store + 1)"

definition note_appended :: "grdb_in_memory \<Rightarrow> u64 \<Rightarrow> grdb_in_memory" where
  "note_appended store nr = store\<lparr>im_first_tx_nr := (if im_first_tx_nr store = 0 then nr else im_first_tx_nr store), im_max_tx_nr := nr\<rparr>"

text \<open>The move leaves an empty transaction behind.\<close>

definition in_memory_append :: "('s, 'm, 'p) arnm_ops \<Rightarrow> grdb_in_memory option \<Rightarrow> grdr_complete_transaction option \<Rightarrow> 'p
    \<Rightarrow> arnm_result \<times> grdr_complete_transaction option \<times> grdb_in_memory option \<times> 'p" where
  "in_memory_append A store tx mem =
     (case (store, tx) of
        (Some s, Some t) \<Rightarrow>
          if \<not> im_ready s then (ARNM_ERROR_NULL_POINTER, tx, store, mem)
          else if \<not> is_next s (tx_nr t) then (ARNM_ERROR_INVALID_PARAM, tx, store, mem)
          else (case bvec_grow A mem of (r, mem) \<Rightarrow>
            if r \<noteq> ARNM_SUCCESS then (r, tx, store, mem)
            else (ARNM_SUCCESS, Some grdr_complete_transaction_init,
                  Some (note_appended (s\<lparr>im_records := im_records s @ [t]\<rparr>) (tx_nr t)), mem))
      | _ \<Rightarrow> (ARNM_ERROR_NULL_POINTER, tx, store, mem))"

text \<open>The slot is there before the bytes are decoded into it, and is popped where nothing came of it.\<close>

definition in_memory_append_serialized :: "('s, 'm, 'p) arnm_ops \<Rightarrow> 'q arnm_memory \<Rightarrow> grdb_in_memory option \<Rightarrow> bytes option \<Rightarrow> 'p
    \<Rightarrow> c_fault + arnm_result \<times> grdb_in_memory option \<times> 'p" where
  "in_memory_append_serialized A D store serialized mem =
     (case (store, serialized) of
        (Some s, Some bs) \<Rightarrow>
          if \<not> im_ready s then Inr (ARNM_ERROR_NULL_POINTER, store, mem)
          else if bs = [] then Inr (ARNM_ERROR_INVALID_PARAM, store, mem)
          else (case bvec_grow A mem of (r, mem) \<Rightarrow>
            if r \<noteq> ARNM_SUCCESS then Inr (r, store, mem)
            else fbind (grdr_complete_transaction_init_from_protobuf D (Some (grdr_complete_transaction_init, None)) (Some bs)
                (Some (im_community_uuid s)) (Some (im_scratch_size s))) (\<lambda>(r, kept).
              case kept of None \<Rightarrow> Inr (r, store, mem)
              | Some (t, _) \<Rightarrow>
                  if r \<noteq> ARNM_SUCCESS then Inr (r, store, mem)
                  else if \<not> is_next s (tx_nr t) then Inr (ARNM_ERROR_INVALID_PARAM, store, mem)
                  else Inr (ARNM_SUCCESS, Some (note_appended (s\<lparr>im_records := im_records s @ [t]\<rparr>) (tx_nr t)), mem)))
      | _ \<Rightarrow> Inr (ARNM_ERROR_NULL_POINTER, store, mem))"

definition in_memory_store :: "('s, 'm, 'p) arnm_ops \<Rightarrow> 'q arnm_memory \<Rightarrow> (grdb_in_memory option \<times> 'p) grdb_chain_store" where
  "in_memory_store A D = \<lparr>
     st_fetch = Some (\<lambda>(s, mem) nr out. case in_memory_fetch s nr out of (r, out) \<Rightarrow> Inr (r, out, (s, mem))),
     st_append = Some (\<lambda>(s, mem) tx. in_memory_append A s tx mem),
     st_append_serialized = Some (\<lambda>(s, mem) bs. in_memory_append_serialized A D s bs mem)\<rparr>"

definition grdb_in_memory_as_store :: "('s, 'm, 'p) arnm_ops \<Rightarrow> 'q arnm_memory \<Rightarrow> grdb_in_memory option
    \<Rightarrow> (grdb_in_memory option \<times> 'p) grdb_chain_store" where
  "grdb_in_memory_as_store A D store =
     (case store of None \<Rightarrow> no_store | Some s \<Rightarrow> if im_ready s then in_memory_store A D else no_store)"

section \<open>Reading what is in it\<close>

definition grdb_in_memory_size :: "grdb_in_memory option \<Rightarrow> u64" where
  "grdb_in_memory_size store =
     (case store of None \<Rightarrow> 0
      | Some s \<Rightarrow> if \<not> im_ready s \<or> im_first_tx_nr s = 0 then 0 else im_max_tx_nr s - im_first_tx_nr s + 1)"

definition grdb_in_memory_at :: "grdb_in_memory option \<Rightarrow> u64 \<Rightarrow> grdr_complete_transaction option" where
  "grdb_in_memory_at store nr =
     (if store = None then None
      else case in_memory_fetch store nr (Some None) of (r, found) \<Rightarrow>
        if r = ARNM_SUCCESS then (case found of None \<Rightarrow> None | Some t \<Rightarrow> t) else None)"

section \<open>It holds a run of transactions\<close>

definition in_memory_holds :: "grdb_in_memory \<Rightarrow> grdr_complete_transaction list \<Rightarrow> bool" where
  "in_memory_holds s txs \<longleftrightarrow>
     im_ready s \<and> im_records s = txs \<and> length txs \<le> 4294967295 \<and> run_of txs None
     \<and> (if txs = [] then im_first_tx_nr s = 0 \<and> im_max_tx_nr s = 0
        else im_first_tx_nr s = tx_nr (hd txs) \<and> im_max_tx_nr s = tx_nr (last txs) \<and> tx_nr (hd txs) \<noteq> 0)"

text \<open>The number a transaction has to have to come next.\<close>

definition follows :: "grdr_complete_transaction list \<Rightarrow> grdr_complete_transaction \<Rightarrow> bool" where
  "follows txs t \<longleftrightarrow> tx_nr t \<noteq> 0 \<and> (txs = [] \<or> unat (tx_nr t) = unat (tx_nr (last txs)) + 1)"

definition with_number :: "grdr_complete_transaction list \<Rightarrow> u64 \<Rightarrow> grdr_complete_transaction option" where
  "with_number txs nr = find (\<lambda>t. tx_nr t = nr) txs"

lemma run_last: "run_of txs None \<Longrightarrow> txs \<noteq> [] \<Longrightarrow> unat (tx_nr (last txs)) = unat (tx_nr (hd txs)) + (length txs - 1)"
  by (simp add: run_of_def last_conv_nth)

lemma with_number_nth:
  assumes "run_of txs None" "i < length txs"
  shows "with_number txs (tx_nr (txs ! i)) = Some (txs ! i)"
proof -
  have "tx_nr (txs ! j) \<noteq> tx_nr (txs ! i)" if "j < i" for j
    using run_numbers [OF assms(1), of j] run_numbers [OF assms] that assms(2) by auto
  then show ?thesis using assms(2) by (auto simp: with_number_def find_Some_iff)
qed

lemma with_number_position:
  assumes h: "in_memory_holds s txs"
  shows "case position_of s nr of None \<Rightarrow> with_number txs nr = None | Some p \<Rightarrow> with_number txs nr = Some (txs ! unat p)"
proof (cases "txs = []")
  case True
  then show ?thesis using h by (simp add: in_memory_holds_def position_of_def with_number_def)
next
  case F: False
  let ?f = "unat (tx_nr (hd txs))"
  have s: "im_first_tx_nr s = tx_nr (hd txs)" "im_max_tx_nr s = tx_nr (last txs)" "im_first_tx_nr s \<noteq> 0" and r: "run_of txs None"
    and l: "length txs \<le> 4294967295" using h F by (auto simp: in_memory_holds_def)
  have last: "unat (tx_nr (last txs)) = ?f + (length txs - 1)" by (rule run_last [OF r F])
  show ?thesis
  proof (cases "?f \<le> unat nr \<and> unat nr \<le> unat (tx_nr (last txs))")
    case True
    let ?i = "unat nr - ?f"
    have i: "?i < length txs" using True last F by (cases txs) auto
    have u: "unat (nr - tx_nr (hd txs)) = ?i" using True by (intro unat_sub) (simp add: word_le_nat_alt)
    have p: "position_of s nr = Some (ucast (nr - tx_nr (hd txs)))" "unat (ucast (nr - tx_nr (hd txs)) :: u32) = ?i"
      using s True u i l by (simp_all add: position_of_def word_less_nat_alt unsigned_ucast_eq take_bit_nat_eq_self)
    have "unat (tx_nr (txs ! ?i)) = unat nr" using run_numbers [OF r i] True by simp
    then have "tx_nr (txs ! ?i) = nr" by (rule word_eq_unatI)
    then show ?thesis using with_number_nth [OF r i] p by simp
  next
    case False
    have "tx_nr t \<noteq> nr" if "t \<in> set txs" for t
      using that run_numbers [OF r] last False F by (fastforce simp: in_set_conv_nth)
    then have "with_number txs nr = None" by (auto simp: with_number_def find_None_iff)
    moreover have "position_of s nr = None" using s False by (auto simp: position_of_def word_less_nat_alt)
    ultimately show ?thesis by simp
  qed
qed

lemma fetched:
  assumes "in_memory_holds s txs"
  shows "in_memory_fetch (Some s) nr (Some x) =
    (case with_number txs nr of None \<Rightarrow> (ARNM_ERROR_ARRAY_INDEX_OUT_OF_BOUNDS, Some x) | Some t \<Rightarrow> (ARNM_SUCCESS, Some (Some t)))"
  using with_number_position [OF assms, of nr] assms by (cases "position_of s nr") (simp_all add: in_memory_fetch_def in_memory_holds_def)

lemma next_follows: "in_memory_holds s txs \<Longrightarrow> is_next s (tx_nr t) \<longleftrightarrow> follows txs t"
proof (cases "txs = []")
  case False
  assume "in_memory_holds s txs"
  then have m: "im_first_tx_nr s \<noteq> 0" "im_max_tx_nr s = tx_nr (last txs)" using False by (simp_all add: in_memory_holds_def)
  have "tx_nr t = n + 1 \<longleftrightarrow> unat (tx_nr t) = unat n + 1" if t: "tx_nr t \<noteq> 0" for n
  proof
    assume "tx_nr t = n + 1"
    then show "unat (tx_nr t) = unat n + 1" using unat_after [of n] t by metis
  next
    assume "unat (tx_nr t) = unat n + 1"
    then show "tx_nr t = n + 1" using unat_lt_64 [of "tx_nr t"] by (intro word_eq_unatI) (simp add: unat_add_small)
  qed
  then show ?thesis using m False by (auto simp: is_next_def follows_def)
qed (simp add: in_memory_holds_def is_next_def follows_def)

lemma appended_holds:
  assumes h: "in_memory_holds s txs" and f: "follows txs t" and l: "length txs < 4294967295"
  shows "in_memory_holds (note_appended (s\<lparr>im_records := im_records s @ [t]\<rparr>) (tx_nr t)) (txs @ [t])"
proof -
  have r: "run_of (txs @ [t]) None" using h f run_last [of txs]
    by (cases "txs = []") (auto simp: run_of_def in_memory_holds_def follows_def nth_append less_Suc_eq)
  show ?thesis using h f l r
    by (cases "txs = []") (simp_all add: in_memory_holds_def follows_def note_appended_def)
qed

text \<open>What the three calls come to over a store that holds \<open>txs\<close>.\<close>

lemma append_result:
  assumes h: "in_memory_holds s txs" and l: "length txs < 4294967295" and a: "in_memory_append A (Some s) (Some t) mem = (r, t', s', mem')"
  shows "\<exists>j. s' = Some j \<and> (if r = ARNM_SUCCESS then follows txs t \<and> t' = Some grdr_complete_transaction_init \<and> in_memory_holds j (txs @ [t])
    else t' = Some t \<and> j = s) \<and> (\<not> follows txs t \<longrightarrow> r = ARNM_ERROR_INVALID_PARAM)"
proof -
  obtain r1 m1 where g: "bvec_grow A mem = (r1, m1)" by fastforce
  have rdy: "im_ready s" using h by (simp add: in_memory_holds_def)
  show ?thesis
  proof (cases "follows txs t \<and> r1 = ARNM_SUCCESS")
    case True
    then show ?thesis using a rdy g next_follows [OF h, of t] appended_holds [OF h _ l, of t] by (auto simp: in_memory_append_def)
  next
    case False
    then show ?thesis using a rdy g next_follows [OF h, of t] by (auto simp: in_memory_append_def split: if_splits)
  qed
qed

lemma from_wire_keeps_place: "snd (grdm_complete_transaction_from_wire D (Some t) b c uuid) \<noteq> None"
  by (cases t) (simp add: grdm_complete_transaction_from_wire_def grdr_complete_transaction_release_def Let_def split: option.split prod.split)

lemma from_protobuf_keeps_place:
  "grdr_complete_transaction_init_from_protobuf D (Some t) (Some bs) (Some uuid) (Some n) = Inr (r, k) \<Longrightarrow> k \<noteq> None"
  using from_wire_keeps_place [of D "(grdr_complete_transaction_init, None)"]
  by (auto simp: grdr_complete_transaction_init_from_protobuf_def grdr_complete_transaction_release_def fbind_eq_Inr
      split: if_splits prod.splits) (metis snd_conv)+

lemma append_serialized_result:
  assumes h: "in_memory_holds s txs" and l: "length txs < 4294967295"
    and a: "in_memory_append_serialized A D (Some s) (Some bs) mem = Inr (r, s', mem')"
  shows "\<exists>j. s' = Some j \<and> (if r = ARNM_SUCCESS then \<exists>t q. grdr_complete_transaction_init_from_protobuf D (Some (grdr_complete_transaction_init, None))
        (Some bs) (Some (im_community_uuid s)) (Some (im_scratch_size s)) = Inr (ARNM_SUCCESS, Some (t, q))
        \<and> follows txs t \<and> in_memory_holds j (txs @ [t])
    else j = s)"
proof -
  let ?d = "grdr_complete_transaction_init_from_protobuf D (Some (grdr_complete_transaction_init, None)) (Some bs)
    (Some (im_community_uuid s)) (Some (im_scratch_size s))"
  obtain r1 m1 where g: "bvec_grow A mem = (r1, m1)" by fastforce
  have rdy: "im_ready s" using h by (simp add: in_memory_holds_def)
  show ?thesis
  proof (cases "bs = [] \<or> r1 \<noteq> ARNM_SUCCESS")
    case True
    then show ?thesis using a g rdy by (auto simp: in_memory_append_serialized_def split: if_splits)
  next
    case False
    then obtain q k where d: "?d = Inr (q, k)" using a g rdy by (auto simp: in_memory_append_serialized_def fbind_eq_Inr)
    show ?thesis
    proof (cases "\<exists>t p. k = Some (t, p) \<and> q = ARNM_SUCCESS \<and> is_next s (tx_nr t)")
      case True
      then obtain t p where t: "k = Some (t, p)" "q = ARNM_SUCCESS" "is_next s (tx_nr t)" by blast
      have f: "follows txs t" using t(3) next_follows [OF h] by simp
      show ?thesis using a False g d t f appended_holds [OF h f l] rdy by (auto simp: in_memory_append_serialized_def)
    next
      case n: False
      then have "r \<noteq> ARNM_SUCCESS \<and> s' = Some s" using a False g d rdy from_protobuf_keeps_place [OF d]
        by (auto simp: in_memory_append_serialized_def split: option.splits prod.splits if_splits)
      then show ?thesis by simp
    qed
  qed
qed

section \<open>A chain over it\<close>

lemma store_fetches:
  assumes "in_memory_holds s txs"
  shows "grdb_chain_store_fetch (Some (in_memory_store A D)) nr (Some x) (Some s, mem) =
      Inr (case with_number txs nr of None \<Rightarrow> (ARNM_ERROR_ARRAY_INDEX_OUT_OF_BOUNDS, Some x, (Some s, mem))
        | Some t \<Rightarrow> (ARNM_SUCCESS, Some (Some t), (Some s, mem)))"
  using fetched [OF assms, of nr x] by (simp add: grdb_chain_store_fetch_def in_memory_store_def split: option.split)

definition keeps :: "grdb_in_memory option \<times> 'p \<Rightarrow> grdr_complete_transaction list \<Rightarrow> bool" where
  "keeps u txs \<longleftrightarrow> (\<exists>s. fst u = Some s \<and> in_memory_holds s txs)"

interpretation kept: transaction_store "in_memory_store A D" keeps
  for A :: "('s, 'm, 'p) arnm_ops" and D :: "'q arnm_memory"
proof (unfold_locales, goal_cases)
  case 1
  show ?case by (simp add: in_memory_store_def)
next
  case (2 u txs)
  then show ?case by (auto simp: keeps_def in_memory_holds_def)
next
  case (3 u txs t x)
  then obtain s mem i where s: "u = (Some s, mem)" "in_memory_holds s txs" "i < length txs" "t = txs ! i"
    by (cases u) (auto simp: keeps_def in_set_conv_nth)
  then have "with_number txs (tx_nr t) = Some t" using with_number_nth [of txs i] by (simp add: in_memory_holds_def)
  then show ?case using store_fetches [OF s(2), of A D "tx_nr t" x mem] s by (simp add: keeps_def)
next
  case (4 u txs nr x)
  then obtain s mem where s: "u = (Some s, mem)" "in_memory_holds s txs" by (cases u) (auto simp: keeps_def)
  have "with_number txs nr = None" using 4(2) by (auto simp: with_number_def find_None_iff)
  then show ?case using store_fetches [OF s(2), of A D nr x mem] s by (simp add: keeps_def)
qed


text \<open>A store with the one transaction of the samples.\<close>

definition sample_store :: grdb_in_memory where
  "sample_store = zero_in_memory\<lparr>im_scratch := True, im_scratch_size := 262144, im_ready := True, im_records := [sample_tx],
     im_first_tx_nr := 5, im_max_tx_nr := 5\<rparr>"

lemma sample_store_holds: "in_memory_holds sample_store [sample_tx]"
  by (simp add: in_memory_holds_def sample_store_def zero_in_memory_def run_of_def sample_tx_def)


text \<open>C35: A chain is brought up from a store that holds a run of transactions: loading from the first one the chain does
  not have ends without a fault. When it reports success the chain stands for all of them; when memory ran out it
  stands for a first part of them, and the next one is the one to go on with. What it counts is what it added.\<close>
theorem store_is_loaded:
  assumes "arnm_laws A els ks" "\<forall>t \<in> set txs. wf_transaction t \<and> day_readable t"
    and "chain_stands A els ks ch (take k txs) None False" "gc_store ch = grdb_in_memory_as_store B D (Some s)"
    and "changes ch + 2 * (length txs - k) \<le> 4294967295" "in_memory_holds s txs" "k < length txs"
  shows "\<exists>r k' ch' u' mem' pend half. grdb_chain_load A (Some ch) (tx_nr (txs ! k)) 0 (Some x) (Some s, m) mem
        = Some (Inr (r, Some (word_of_nat (k' - k)), Some ch', u', mem'))
    \<and> k \<le> k' \<and> k' \<le> length txs \<and> chain_stands A els ks ch' (take k' txs) pend half
    \<and> (if r = ARNM_SUCCESS then k' = length txs \<and> pend = None \<and> \<not> half else k' < length txs \<and> (pend = None \<or> pend = Some (txs ! k')))"
proof -
  have "gc_store ch = in_memory_store B D" "length txs \<le> 4294967295"
    using assms(4,6) by (simp_all add: grdb_in_memory_as_store_def in_memory_holds_def)
  moreover have "keeps (Some s, m) txs" using assms(6) by (simp add: keeps_def)
  ultimately show ?thesis using kept.loads [OF assms(1,2) _ assms(3) _ assms(5) _ assms(7), of B D "(Some s, m)" x mem] by blast
qed

theorem store_is_loaded_witness:
  "\<forall>D :: unit arnm_memory. \<exists>r n ch' u' mem'.
     grdb_chain_load list_arnm (Some ((fresh_chain 5)\<lparr>gc_store := grdb_in_memory_as_store list_arnm D (Some sample_store)\<rparr>)) 5 0 (Some 0)
       (Some sample_store, ()) () = Some (Inr (r, n, Some ch', u', mem'))
     \<and> (r = ARNM_SUCCESS \<longrightarrow> n = Some 1 \<and> chain_stands list_arnm list_els list_keys ch' [sample_tx] None False)"
proof
  fix D :: "unit arnm_memory"
  let ?ch = "(fresh_chain 5)\<lparr>gc_store := grdb_in_memory_as_store list_arnm D (Some sample_store)\<rparr>"
  have s: "chain_stands list_arnm list_els list_keys ?ch (take 0 [sample_tx]) None False"
    using fresh_register_holds by (simp add: chain_fresh_stands fresh_chain_def zero_chain_def)
  have w: "\<forall>t \<in> set [sample_tx]. wf_transaction t \<and> day_readable t" using sample_wf by (simp add: day_readable_def sample_tx_def)
  have c: "changes ?ch + 2 * (length [sample_tx] - 0) \<le> 4294967295"
    by (simp add: changes_def fresh_chain_def fresh_register_def zero_addresses_def)
  have n: "tx_nr ([sample_tx] ! 0) = 5" by (simp add: sample_tx_def)
  show "\<exists>r n ch' u' mem'. grdb_chain_load list_arnm (Some ?ch) 5 0 (Some 0) (Some sample_store, ()) () = Some (Inr (r, n, Some ch', u', mem'))
     \<and> (r = ARNM_SUCCESS \<longrightarrow> n = Some 1 \<and> chain_stands list_arnm list_els list_keys ch' [sample_tx] None False)"
    using store_is_loaded [OF list_arnm_laws w s _ c sample_store_holds, of list_arnm D 0 "()" "()"] n by fastforce
qed

end
