(* ===== verification/GRD_Wire_Fills.thy ===== *)
theory GRD_Wire_Fills
  imports GRD_Wire_Codec GRD_Codec_Tx
begin

text \<open>
  From a wire struct to its message. \<open>_ok\<close> says the arrays of a struct have their lengths, \<open>_view\<close> is a struct
  with each union as far as its discriminator reads it, and \<open>_message\<close> is the message a struct stands for:
  with room in the heap the mapping fills exactly this message (\<open>fills\<close>, with the room it takes), and the
  message is a proper one.
\<close>

section \<open>Structs in order\<close>

definition amount_ok :: "grdw_transfer_amount \<Rightarrow> bool" where
  "amount_ok t \<longleftrightarrow> length (wta_pubkey t) = 32 \<and> length (wta_community_uuid t) = 16"

definition transfer_ok :: "grdw_gradido_transfer \<Rightarrow> bool" where
  "transfer_ok t \<longleftrightarrow> amount_ok (wgt_sender t) \<and> length (wgt_recipient t) = 32"

definition register_ok :: "grdw_register_address \<Rightarrow> bool" where
  "register_ok t \<longleftrightarrow> length (wra_user_pubkey t) = 32 \<and> length (wra_name_hash t) = 32
     \<and> length (wra_account_pubkey t) = 32"

definition root_ok :: "grdw_community_root \<Rightarrow> bool" where
  "root_ok t \<longleftrightarrow> length (wcr_pubkey t) = 32 \<and> length (wcr_gmw_pubkey t) = 32 \<and> length (wcr_auf_pubkey t) = 32"

definition signature_ok :: "grdw_signature_pair \<Rightarrow> bool" where
  "signature_ok q \<longleftrightarrow> length (sp_public_key q) = 32 \<and> length (sp_signature q) = 64"

definition balance_ok :: "grdw_account_balance \<Rightarrow> bool" where
  "balance_ok b \<longleftrightarrow> length (ab_pubkey b) = 32 \<and> length (ab_community_uuid b) = 16"

definition body_ok :: "grdw_transaction_body \<Rightarrow> bool" where
  "body_ok b \<longleftrightarrow> wbx_transaction_type b \<le> 8 \<and> length (wbx_memos b) < 255
     \<and> pred_option (\<lambda>u. length u = 16) (wbx_other_community_uuid b)
     \<and> (wbx_transaction_type b = GRDT_TRANSACTION_TRANSFER \<longrightarrow> transfer_ok (wbx_transfer b))
     \<and> (wbx_transaction_type b = GRDT_TRANSACTION_CREATION \<longrightarrow> amount_ok (wgc_recipient (wbx_creation b)))
     \<and> (wbx_transaction_type b = GRDT_TRANSACTION_REGISTER_ADDRESS \<longrightarrow> register_ok (wbx_register_address b))
     \<and> (wbx_transaction_type b = GRDT_TRANSACTION_DEFERRED_TRANSFER \<longrightarrow> transfer_ok (wdt_transfer (wbx_deferred_transfer b)))
     \<and> (wbx_transaction_type b = GRDT_TRANSACTION_COMMUNITY_ROOT \<longrightarrow> root_ok (wbx_community_root b))
     \<and> (wbx_transaction_type b = GRDT_TRANSACTION_REDEEM_DEFERRED_TRANSFER \<longrightarrow> transfer_ok (wrt_transfer (wbx_redeem_deferred_transfer b)))"

definition transaction_ok :: "grdw_gradido_transaction \<Rightarrow> bool" where
  "transaction_ok t \<longleftrightarrow> list_all signature_ok (wgx_sig_map t) \<and> length (wgx_sig_map t) < 255 \<and> wgx_body_bytes t \<noteq> []"

definition confirmed_ok :: "grdw_confirmed_transaction \<Rightarrow> bool" where
  "confirmed_ok t \<longleftrightarrow> transaction_ok (wcx_transaction t) \<and> length (wcx_running_hash t) = 32
     \<and> list_all balance_ok (wcx_account_balances t) \<and> length (wcx_account_balances t) < 255"

section \<open>What the discriminators read\<close>

definition anchor_view :: "grdw_ledger_anchor \<Rightarrow> grdw_ledger_anchor" where
  "anchor_view a =
     (if la_type a = GRDT_LEDGER_ANCHOR_HIERO_TRANSACTION_ID
      then zero_anchor\<lparr>la_type := la_type a, hiero_transaction_id := hiero_transaction_id a\<rparr>
      else zero_anchor\<lparr>la_type := la_type a, la_id := la_id a\<rparr>)"

definition body_data_view :: "grdw_transaction_body \<Rightarrow> grdw_transaction_body \<Rightarrow> grdw_transaction_body" where
  "body_data_view b b0 =
     (let b0 = b0\<lparr>wbx_transaction_type := wbx_transaction_type b\<rparr>; t = wbx_transaction_type b in
      if t = GRDT_TRANSACTION_TRANSFER then b0\<lparr>wbx_transfer := wbx_transfer b\<rparr>
      else if t = GRDT_TRANSACTION_CREATION then b0\<lparr>wbx_creation := wbx_creation b\<rparr>
      else if t = GRDT_TRANSACTION_COMMUNITY_FRIENDS_UPDATE
      then b0\<lparr>wbx_community_friends_update := wbx_community_friends_update b\<rparr>
      else if t = GRDT_TRANSACTION_REGISTER_ADDRESS then b0\<lparr>wbx_register_address := wbx_register_address b\<rparr>
      else if t = GRDT_TRANSACTION_DEFERRED_TRANSFER then b0\<lparr>wbx_deferred_transfer := wbx_deferred_transfer b\<rparr>
      else if t = GRDT_TRANSACTION_COMMUNITY_ROOT then b0\<lparr>wbx_community_root := wbx_community_root b\<rparr>
      else if t = GRDT_TRANSACTION_REDEEM_DEFERRED_TRANSFER
      then b0\<lparr>wbx_redeem_deferred_transfer := wbx_redeem_deferred_transfer b\<rparr>
      else if t = GRDT_TRANSACTION_TIMEOUT_DEFERRED_TRANSFER
      then b0\<lparr>wbx_timeout_deferred_transfer := wbx_timeout_deferred_transfer b\<rparr>
      else b0)"

definition body_view :: "grdw_transaction_body \<Rightarrow> grdw_transaction_body" where
  "body_view b = body_data_view b (grdw_transaction_body_init
     \<lparr>wbx_memos := wbx_memos b, wbx_other_community_uuid := wbx_other_community_uuid b,
      wbx_created_at := wbx_created_at b, wbx_type := wbx_type b\<rparr>)"

definition transaction_view :: "grdw_gradido_transaction \<Rightarrow> grdw_gradido_transaction" where
  "transaction_view t = t\<lparr>wgx_pairing_ledger_anchor :=
     (if la_type (wgx_pairing_ledger_anchor t) = GRDT_LEDGER_ANCHOR_UNSPECIFIED then zero_anchor
      else anchor_view (wgx_pairing_ledger_anchor t))\<rparr>"

definition confirmed_view :: "grdw_confirmed_transaction \<Rightarrow> grdw_confirmed_transaction" where
  "confirmed_view t = t\<lparr>wcx_transaction := transaction_view (wcx_transaction t),
     wcx_ledger_anchor := anchor_view (wcx_ledger_anchor t)\<rparr>"

section \<open>The messages structs stand for\<close>

definition amount_message :: "grdw_transfer_amount \<Rightarrow> proto_gradido_transfer_amount_t" where
  "amount_message t = \<lparr>pta_pubkey = key_of (wta_pubkey t), pta_amount = wta_amount t,
     pta_community_uuid = uuid_of (wta_community_uuid t)\<rparr>"

definition transfer_message :: "grdw_gradido_transfer \<Rightarrow> proto_gradido_gradido_transfer_t" where
  "transfer_message t = \<lparr>pgt_sender_p = Some (amount_message (wgt_sender t)), pgt_recipient = key_of (wgt_recipient t)\<rparr>"

definition creation_message :: "grdw_gradido_creation \<Rightarrow> proto_gradido_gradido_creation_t" where
  "creation_message t = \<lparr>pgc_recipient_p = Some (amount_message (wgc_recipient t)),
     pgc_target_date_p = Some \<lparr>pss_seconds = wts_seconds (wgc_target_date t)\<rparr>\<rparr>"

definition deferred_message :: "grdw_gradido_deferred_transfer \<Rightarrow> proto_gradido_gradido_deferred_transfer_t" where
  "deferred_message t = \<lparr>pdt_transfer_p = Some (transfer_message (wdt_transfer t)),
     pdt_timeout_duration_p = Some \<lparr>pds_seconds = ucast (wdt_timeout_duration t)\<rparr>\<rparr>"

definition redeem_message :: "grdw_gradido_redeem_deferred_transfer \<Rightarrow> proto_gradido_gradido_redeem_deferred_transfer_t" where
  "redeem_message t = \<lparr>prt_deferred_transfer_transaction_nr = wrt_deferred_transfer_transaction_nr t,
     prt_transfer_p = Some (transfer_message (wrt_transfer t))\<rparr>"

definition timeout_message :: "grdw_gradido_timeout_deferred_transfer \<Rightarrow> proto_gradido_gradido_timeout_deferred_transfer_t" where
  "timeout_message t = \<lparr>pto_deferred_transfer_transaction_nr = wto_deferred_transfer_transaction_nr t\<rparr>"

definition friends_message :: "grdw_community_friends_update \<Rightarrow> proto_gradido_community_friends_update_t" where
  "friends_message t = \<lparr>pfu_color_fusion = wfu_color_fusion t\<rparr>"

definition root_message :: "grdw_community_root \<Rightarrow> proto_gradido_community_root_t" where
  "root_message t = \<lparr>pcr_pubkey = key_of (wcr_pubkey t), pcr_gmw_pubkey = key_of (wcr_gmw_pubkey t),
     pcr_auf_pubkey = key_of (wcr_auf_pubkey t)\<rparr>"

definition register_message :: "grdw_register_address \<Rightarrow> proto_gradido_register_address_t" where
  "register_message t = \<lparr>pra_user_pubkey = key_of (wra_user_pubkey t), pra_address_type = wra_address_type t,
     pra_name_hash = hash_of (wra_name_hash t), pra_account_pubkey = key_of (wra_account_pubkey t),
     pra_derivation_index = wra_derivation_index t\<rparr>"

definition timestamp_message :: "grdd_timestamp \<Rightarrow> proto_gradido_timestamp_t" where
  "timestamp_message t = \<lparr>pts_seconds = seconds t, pts_nanos = nanos t\<rparr>"

definition memo_message :: "grdw_encrypted_memo \<Rightarrow> proto_gradido_encrypted_memo_t" where
  "memo_message e = \<lparr>pem_type = em_type e, pem_memo = em_memo e\<rparr>"

definition signature_message :: "grdw_signature_pair \<Rightarrow> proto_gradido_signature_pair_t" where
  "signature_message q = \<lparr>psp_pubkey = key_of (sp_public_key q), psp_signature = take 64 (sp_signature q)\<rparr>"

definition balance_message :: "grdw_account_balance \<Rightarrow> proto_gradido_account_balance_t" where
  "balance_message b = \<lparr>pab_pubkey = key_of (ab_pubkey b), pab_balance = ab_balance b,
     pab_community_uuid = uuid_of (ab_community_uuid b)\<rparr>"

definition hiero_message :: "grdw_hiero_transaction_id \<Rightarrow> proto_gradido_transaction_id_t" where
  "hiero_message t = \<lparr>pti_transaction_valid_start_p = Some (timestamp_message (transactionValidStart t)),
     pti_account_id_p = Some \<lparr>pai_shard_num = shardNum (accountID t), pai_realm_num = realmNum (accountID t),
       pai_account = proto_gradido_account_id_account_account_num_e, pai_account_num = accountNum (accountID t),
       pai_alias = []\<rparr>,
     pti_scheduled = False, pti_nonce = 0\<rparr>"

definition anchor_message :: "grdw_ledger_anchor \<Rightarrow> proto_gradido_ledger_anchor_t" where
  "anchor_message a =
     (if la_type a = GRDT_LEDGER_ANCHOR_HIERO_TRANSACTION_ID
      then \<lparr>pla_type = la_type a, pla_anchor_id = proto_gradido_ledger_anchor_anchor_id_hiero_transaction_id_e,
            pla_hiero_transaction_id_p = Some (hiero_message (hiero_transaction_id a)), pla_id = 0\<rparr>
      else \<lparr>pla_type = la_type a, pla_anchor_id = proto_gradido_ledger_anchor_anchor_id_id_e,
            pla_hiero_transaction_id_p = None, pla_id = la_id a\<rparr>)"

definition body_data_message ::
  "grdw_transaction_body \<Rightarrow> proto_gradido_transaction_body_t \<Rightarrow> proto_gradido_transaction_body_t" where
  "body_data_message b m =
     (let t = wbx_transaction_type b in
      if t = GRDT_TRANSACTION_TRANSFER
      then m\<lparr>pbx_data := proto_gradido_transaction_body_data_transfer_e, pbx_transfer_p := Some (transfer_message (wbx_transfer b))\<rparr>
      else if t = GRDT_TRANSACTION_CREATION
      then m\<lparr>pbx_data := proto_gradido_transaction_body_data_creation_e, pbx_creation_p := Some (creation_message (wbx_creation b))\<rparr>
      else if t = GRDT_TRANSACTION_COMMUNITY_FRIENDS_UPDATE
      then m\<lparr>pbx_data := proto_gradido_transaction_body_data_community_friends_update_e,
             pbx_community_friends_update_p := Some (friends_message (wbx_community_friends_update b))\<rparr>
      else if t = GRDT_TRANSACTION_REGISTER_ADDRESS
      then m\<lparr>pbx_data := proto_gradido_transaction_body_data_register_address_e,
             pbx_register_address_p := Some (register_message (wbx_register_address b))\<rparr>
      else if t = GRDT_TRANSACTION_DEFERRED_TRANSFER
      then m\<lparr>pbx_data := proto_gradido_transaction_body_data_deferred_transfer_e,
             pbx_deferred_transfer_p := Some (deferred_message (wbx_deferred_transfer b))\<rparr>
      else if t = GRDT_TRANSACTION_COMMUNITY_ROOT
      then m\<lparr>pbx_data := proto_gradido_transaction_body_data_community_root_e,
             pbx_community_root_p := Some (root_message (wbx_community_root b))\<rparr>
      else if t = GRDT_TRANSACTION_REDEEM_DEFERRED_TRANSFER
      then m\<lparr>pbx_data := proto_gradido_transaction_body_data_redeem_deferred_transfer_e,
             pbx_redeem_deferred_transfer_p := Some (redeem_message (wbx_redeem_deferred_transfer b))\<rparr>
      else if t = GRDT_TRANSACTION_TIMEOUT_DEFERRED_TRANSFER
      then m\<lparr>pbx_data := proto_gradido_transaction_body_data_timeout_deferred_transfer_e,
             pbx_timeout_deferred_transfer_p := Some (timeout_message (wbx_timeout_deferred_transfer b))\<rparr>
      else m\<lparr>pbx_data := proto_gradido_transaction_body_data_none_e\<rparr>)"

definition body_message :: "grdw_transaction_body \<Rightarrow> proto_gradido_transaction_body_t" where
  "body_message b = body_data_message b (proto_gradido_transaction_body_init
     \<lparr>pbx_memos := map memo_message (wbx_memos b), pbx_created_at_p := Some (timestamp_message (wbx_created_at b)),
      pbx_version_number := GRDU_GRADIDO_PROTOCOL_VERSION, pbx_type := wbx_type b,
      pbx_other_community_uuid := (case wbx_other_community_uuid b of None \<Rightarrow> [] | Some u \<Rightarrow> uuid_of u)\<rparr>)"

definition transaction_message :: "grdw_gradido_transaction \<Rightarrow> proto_gradido_gradido_transaction_t" where
  "transaction_message t =
     \<lparr>pgx_sig_map_p = (if wgx_sig_map t = [] then None else Some \<lparr>psm_sig_pair = map signature_message (wgx_sig_map t)\<rparr>),
      pgx_body_bytes = wgx_body_bytes t,
      pgx_pairing_ledger_anchor_p =
        (if la_type (wgx_pairing_ledger_anchor t) = GRDT_LEDGER_ANCHOR_UNSPECIFIED then None
         else Some (anchor_message (wgx_pairing_ledger_anchor t)))\<rparr>"

definition confirmed_message :: "grdw_confirmed_transaction \<Rightarrow> proto_gradido_confirmed_transaction_t" where
  "confirmed_message t =
     \<lparr>pcx_id = wcx_id t, pcx_transaction_p = Some (transaction_message (wcx_transaction t)),
      pcx_confirmed_at_p = Some (timestamp_message (wcx_confirmed_at t)),
      pcx_version_number = GRDU_GRADIDO_PROTOCOL_VERSION, pcx_running_hash = hash_of (wcx_running_hash t),
      pcx_ledger_anchor_p = Some (anchor_message (wcx_ledger_anchor t)),
      pcx_account_balances = map balance_message (wcx_account_balances t)\<rparr>"

section \<open>The mapping fills these messages\<close>

definition fills :: "('m \<times> pb_heap \<Rightarrow> arnm_result \<times> 'm \<times> pb_heap) \<Rightarrow> 'm \<Rightarrow> 'm \<Rightarrow> nat \<Rightarrow> bool" where
  "fills f m m' k \<longleftrightarrow> (\<forall>h r. heap_room (k + r) h \<longrightarrow> (\<exists>h'. f (m, h) = (ARNM_SUCCESS, m', h') \<and> heap_room r h'))"

lemma fills_done: "(\<And>h. f (m, h) = (ARNM_SUCCESS, m', h)) \<Longrightarrow> fills f m m' 0"
  by (simp add: fills_def)

lemma fills_more: "fills f m m' k \<Longrightarrow> k \<le> k' \<Longrightarrow> fills f m m' k'"
  unfolding fills_def
proof (intro allI impI)
  fix h r assume f: "\<forall>h r. heap_room (k + r) h \<longrightarrow> (\<exists>h'. f (m, h) = (ARNM_SUCCESS, m', h') \<and> heap_room r h')"
    and k: "k \<le> k'" and h: "heap_room (k' + r) h"
  have "heap_room (k + (k' - k + r)) h" using k h by simp
  then obtain h' where "f (m, h) = (ARNM_SUCCESS, m', h')" "heap_room (k' - k + r) h'" using f by blast
  then show "\<exists>h'. f (m, h) = (ARNM_SUCCESS, m', h') \<and> heap_room r h'"
    by (intro exI [of _ h']) (simp add: heap_room_def)
qed

lemma sub_alloc_room:
  assumes "heap_room (n + 7 + r) h"
  shows "\<exists>h'. pbtools_sub_message_alloc n init old h = (True, Some init, h') \<and> heap_room r h'"
  using heap_alloc_room [OF assms, of ALIGN_MESSAGE]
  by (auto simp: pbtools_sub_message_alloc_def ALIGN_MESSAGE_def)

lemma fills_alloc:
  assumes f: "\<And>h. f (m, h) = alloc_fill (case pbtools_sub_message_alloc n init old h of (ok, v, h) \<Rightarrow> (ok, put v, h)) g"
    and g: "fills g (put (Some init)) m' k"
  shows "fills f m m' (n + 7 + k)"
  unfolding fills_def
proof (intro allI impI)
  fix h r assume "heap_room (n + 7 + k + r) h"
  then obtain h1 where h1: "pbtools_sub_message_alloc n init old h = (True, Some init, h1)" "heap_room (k + r) h1"
    using sub_alloc_room [of n "k + r" h init old] by (auto simp: add.assoc)
  then show "\<exists>h'. f (m, h) = (ARNM_SUCCESS, m', h') \<and> heap_room r h'"
    using g unfolding fills_def f by (simp add: alloc_fill_def)
qed

lemma fills_on_member:
  assumes "get m = Some c" "fills g c c' k" "put (Some c') m = m'"
  shows "fills (on_member get put g) m m' k"
  using assms unfolding fills_def on_member_def by fastforce

lemma fills_bind:
  assumes "fills f m m1 k1" "fills g m1 m2 k2"
  shows "fills (\<lambda>s. bind_ok (f s) g) m m2 (k1 + k2)"
  unfolding fills_def
proof (intro allI impI)
  fix h r assume "heap_room (k1 + k2 + r) h"
  then obtain h1 where "f (m, h) = (ARNM_SUCCESS, m1, h1)" "heap_room (k2 + r) h1"
    using assms(1) unfolding fills_def add.assoc by blast
  then show "\<exists>h'. bind_ok (f (m, h)) g = (ARNM_SUCCESS, m2, h') \<and> heap_room r h'"
    using assms(2) unfolding fills_def by (simp add: bind_ok_def)
qed

lemma fills_items:
  assumes f: "\<And>h. f (m, h) = alloc_fill (case pbtools_alloc_repeated n init len old h of (ok, v, h) \<Rightarrow> (ok, put v, h))
      (\<lambda>(m, h). (ARNM_SUCCESS, fin m, h))"
    and fin: "fin (put (replicate len init)) = m'"
  shows "fills f m m' (n * len + 7)"
  unfolding fills_def
proof (intro allI impI)
  fix h r assume "heap_room (n * len + 7 + r) h"
  from heap_alloc_room [OF this, of ALIGN_MESSAGE]
  obtain h1 where "heap_alloc (n * len) ALIGN_MESSAGE h = (True, h1)" "heap_room r h1"
    by (auto simp: ALIGN_MESSAGE_def)
  then show "\<exists>h'. f (m, h) = (ARNM_SUCCESS, m', h') \<and> heap_room r h'"
    unfolding f by (simp add: pbtools_alloc_repeated_def alloc_fill_def fin)
qed

lemma fill_items_image:
  "(\<And>e. e \<in> set es \<Longrightarrow> f e init = g e) \<Longrightarrow> fill_items f es (replicate (length es) init) = map g es"
  by (induction es) (auto simp: fill_items_def)

lemmas scalar_mapping = community_uuid_from_wire_def memory_block_from_wire_def account_balance_from_wire_def
  encrypted_memo_from_wire_def signature_pair_from_wire_def timestamp_from_wire_def timestamp_seconds_from_wire_def
  transfer_amount_from_wire_def hiero_account_id_from_wire_def fill_member_def

lemmas scalar_messages = amount_message_def timestamp_message_def memo_message_def signature_message_def
  balance_message_def proto_gradido_transfer_amount_init_def proto_gradido_timestamp_init_def
  proto_gradido_timestamp_seconds_init_def proto_gradido_duration_seconds_init_def proto_gradido_encrypted_memo_init_def
  proto_gradido_signature_pair_init_def proto_gradido_account_balance_init_def proto_gradido_account_id_init_def

lemma transfer_fills: "fills (gradido_transfer_from_wire t) proto_gradido_gradido_transfer_init (transfer_message t) (SIZEOF_transfer_amount + 7 + 0)"
  by (rule fills_alloc [where init = proto_gradido_transfer_amount_init and old = None
        and put = "\<lambda>v. proto_gradido_gradido_transfer_init\<lparr>pgt_recipient := key_of (wgt_recipient t), pgt_sender_p := v\<rparr>"
        and g = "\<lambda>(m, h). (ARNM_SUCCESS, fill_member pgt_sender_p (\<lambda>v. pgt_sender_p_update (\<lambda>_. v))
              (transfer_amount_from_wire (wgt_sender t)) m, h)"])
    (simp_all add: gradido_transfer_from_wire_def proto_gradido_gradido_transfer_sender_alloc_def fills_done
      proto_gradido_gradido_transfer_init_def transfer_message_def scalar_mapping scalar_messages)

lemmas needs = sub_need_def items_need_def gradido_transfer_need_def gradido_creation_need_def transfer_amount_need_def
  timestamp_seconds_need_def timestamp_need_def gradido_deferred_transfer_need_def duration_seconds_need_def
  gradido_redeem_deferred_transfer_need_def transaction_id_need_def account_id_need_def ledger_anchor_need_def

lemma transfer_need: "fills (gradido_transfer_from_wire t) proto_gradido_gradido_transfer_init (transfer_message t)
    (gradido_transfer_need (transfer_message t))"
  by (rule fills_more [OF transfer_fills]) (simp add: needs transfer_message_def)

lemma creation_need: "fills (gradido_creation_from_wire t) proto_gradido_gradido_creation_init (creation_message t)
    (gradido_creation_need (creation_message t))"
proof (rule fills_more)
  let ?m1 = "\<lambda>v. proto_gradido_gradido_creation_init\<lparr>pgc_recipient_p := v\<rparr>"
  let ?m2 = "\<lambda>v. proto_gradido_gradido_creation_init\<lparr>pgc_recipient_p := Some (amount_message (wgc_recipient t)), pgc_target_date_p := v\<rparr>"
  let ?last = "\<lambda>(m, h). (ARNM_SUCCESS, fill_member pgc_target_date_p (\<lambda>v. pgc_target_date_p_update (\<lambda>_. v))
      (timestamp_seconds_from_wire (wgc_target_date t)) m, h)"
  have last: "fills ?last (?m2 (Some proto_gradido_timestamp_seconds_init)) (creation_message t) 0"
    by (rule fills_done) (simp add: creation_message_def scalar_mapping scalar_messages proto_gradido_gradido_creation_init_def)
  have "fills (\<lambda>(m, h). alloc_fill (proto_gradido_gradido_creation_target_date_alloc
        (fill_member pgc_recipient_p (\<lambda>v. pgc_recipient_p_update (\<lambda>_. v))
           (transfer_amount_from_wire (wgc_recipient t)) m) h) ?last)
      (?m1 (Some proto_gradido_transfer_amount_init)) (creation_message t) (SIZEOF_timestamp_seconds + 7 + 0)"
    by (rule fills_alloc [where old = None and put = ?m2, OF _ last])
      (simp add: proto_gradido_gradido_creation_target_date_alloc_def scalar_mapping scalar_messages
        proto_gradido_gradido_creation_init_def)
  from this show "fills (gradido_creation_from_wire t) proto_gradido_gradido_creation_init (creation_message t)
      (SIZEOF_transfer_amount + 7 + (SIZEOF_timestamp_seconds + 7 + 0))"
    by (rule fills_alloc [where old = None and put = ?m1, rotated])
      (simp add: gradido_creation_from_wire_def proto_gradido_gradido_creation_recipient_alloc_def
        proto_gradido_gradido_creation_init_def)
  show "SIZEOF_transfer_amount + 7 + (SIZEOF_timestamp_seconds + 7 + 0) \<le> gradido_creation_need (creation_message t)"
    by (simp add: needs creation_message_def)
qed

lemma redeem_need: "fills (gradido_redeem_deferred_transfer_from_wire t) proto_gradido_gradido_redeem_deferred_transfer_init
    (redeem_message t) (gradido_redeem_deferred_transfer_need (redeem_message t))"
proof (rule fills_more)
  let ?m = "\<lambda>v. proto_gradido_gradido_redeem_deferred_transfer_init
    \<lparr>prt_deferred_transfer_transaction_nr := wrt_deferred_transfer_transaction_nr t, prt_transfer_p := v\<rparr>"
  have "fills (on_member prt_transfer_p (\<lambda>v. prt_transfer_p_update (\<lambda>_. v)) (gradido_transfer_from_wire (wrt_transfer t)))
      (?m (Some proto_gradido_gradido_transfer_init)) (redeem_message t) (gradido_transfer_need (transfer_message (wrt_transfer t)))"
    by (rule fills_on_member [OF _ transfer_need])
      (simp_all add: redeem_message_def proto_gradido_gradido_redeem_deferred_transfer_init_def)
  from this show "fills (gradido_redeem_deferred_transfer_from_wire t) proto_gradido_gradido_redeem_deferred_transfer_init
      (redeem_message t) (SIZEOF_gradido_transfer + 7 + gradido_transfer_need (transfer_message (wrt_transfer t)))"
    by (rule fills_alloc [where old = None and put = ?m, rotated])
      (simp add: gradido_redeem_deferred_transfer_from_wire_def proto_gradido_gradido_redeem_deferred_transfer_transfer_alloc_def
        proto_gradido_gradido_redeem_deferred_transfer_init_def)
qed (simp add: gradido_redeem_deferred_transfer_need_def sub_need_def redeem_message_def)

lemma deferred_need: "fills (gradido_deferred_transfer_from_wire t) proto_gradido_gradido_deferred_transfer_init
    (deferred_message t) (gradido_deferred_transfer_need (deferred_message t))"
proof (rule fills_more)
  let ?m1 = "\<lambda>v. proto_gradido_gradido_deferred_transfer_init\<lparr>pdt_timeout_duration_p := v\<rparr>"
  let ?m2 = "\<lambda>v. proto_gradido_gradido_deferred_transfer_init
    \<lparr>pdt_timeout_duration_p := Some \<lparr>pds_seconds = ucast (wdt_timeout_duration t)\<rparr>, pdt_transfer_p := v\<rparr>"
  let ?g = "on_member pdt_transfer_p (\<lambda>v. pdt_transfer_p_update (\<lambda>_. v)) (gradido_transfer_from_wire (wdt_transfer t))"
  have g: "fills ?g (?m2 (Some proto_gradido_gradido_transfer_init)) (deferred_message t)
      (gradido_transfer_need (transfer_message (wdt_transfer t)))"
    by (rule fills_on_member [OF _ transfer_need])
      (simp_all add: deferred_message_def proto_gradido_gradido_deferred_transfer_init_def)
  have "fills (\<lambda>(m, h). alloc_fill (proto_gradido_gradido_deferred_transfer_transfer_alloc
        (fill_member pdt_timeout_duration_p (\<lambda>v. pdt_timeout_duration_p_update (\<lambda>_. v))
           (\<lambda>d. d\<lparr>pds_seconds := ucast (wdt_timeout_duration t)\<rparr>) m) h) ?g)
      (?m1 (Some proto_gradido_duration_seconds_init)) (deferred_message t)
      (SIZEOF_gradido_transfer + 7 + gradido_transfer_need (transfer_message (wdt_transfer t)))"
    by (rule fills_alloc [where old = None and put = ?m2, OF _ g])
      (simp add: proto_gradido_gradido_deferred_transfer_transfer_alloc_def fill_member_def scalar_messages
        proto_gradido_gradido_deferred_transfer_init_def)
  from this show "fills (gradido_deferred_transfer_from_wire t) proto_gradido_gradido_deferred_transfer_init
      (deferred_message t) (SIZEOF_duration_seconds + 7 + (SIZEOF_gradido_transfer + 7 + gradido_transfer_need (transfer_message (wdt_transfer t))))"
    by (rule fills_alloc [where old = None and put = ?m1, rotated])
      (simp add: gradido_deferred_transfer_from_wire_def proto_gradido_gradido_deferred_transfer_timeout_duration_alloc_def
        proto_gradido_gradido_deferred_transfer_init_def)
qed (simp add: gradido_deferred_transfer_need_def duration_seconds_need_def sub_need_def deferred_message_def)

lemma hiero_need: "fills (hiero_transaction_id_from_wire t) proto_gradido_transaction_id_init (hiero_message t)
    (transaction_id_need (hiero_message t))"
proof (rule fills_more)
  let ?m1 = "\<lambda>v. proto_gradido_transaction_id_init\<lparr>pti_nonce := 0, pti_scheduled := False, pti_transaction_valid_start_p := v\<rparr>"
  let ?m2 = "\<lambda>v. proto_gradido_transaction_id_init\<lparr>pti_nonce := 0, pti_scheduled := False,
    pti_transaction_valid_start_p := Some (timestamp_message (transactionValidStart t)), pti_account_id_p := v\<rparr>"
  let ?last = "\<lambda>(m, h). (ARNM_SUCCESS, fill_member pti_account_id_p (\<lambda>v. pti_account_id_p_update (\<lambda>_. v))
      (hiero_account_id_from_wire (accountID t)) m, h)"
  have last: "fills ?last (?m2 (Some proto_gradido_account_id_init)) (hiero_message t) 0"
    by (rule fills_done) (simp add: hiero_message_def scalar_mapping scalar_messages proto_gradido_transaction_id_init_def)
  have "fills (\<lambda>(m, h). alloc_fill (proto_gradido_transaction_id_account_id_alloc
        (fill_member pti_transaction_valid_start_p (\<lambda>v. pti_transaction_valid_start_p_update (\<lambda>_. v))
           (timestamp_from_wire (transactionValidStart t)) m) h) ?last)
      (?m1 (Some proto_gradido_timestamp_init)) (hiero_message t) (SIZEOF_account_id + 7 + 0)"
    by (rule fills_alloc [where old = None and put = ?m2, OF _ last])
      (simp add: proto_gradido_transaction_id_account_id_alloc_def scalar_mapping scalar_messages
        proto_gradido_transaction_id_init_def)
  from this show "fills (hiero_transaction_id_from_wire t) proto_gradido_transaction_id_init (hiero_message t)
      (SIZEOF_timestamp + 7 + (SIZEOF_account_id + 7 + 0))"
    by (rule fills_alloc [where old = None and put = ?m1, rotated])
      (simp add: hiero_transaction_id_from_wire_def proto_gradido_transaction_id_transaction_valid_start_alloc_def
        proto_gradido_transaction_id_init_def)
qed (simp add: needs hiero_message_def)

lemma anchor_need: "fills (ledger_anchor_from_wire a) proto_gradido_ledger_anchor_init (anchor_message a)
    (ledger_anchor_need (anchor_message a))"
proof (cases "la_type a = GRDT_LEDGER_ANCHOR_HIERO_TRANSACTION_ID")
  case False
  have "fills (ledger_anchor_from_wire a) proto_gradido_ledger_anchor_init (anchor_message a) 0"
    by (rule fills_done) (use False in \<open>simp add: ledger_anchor_from_wire_def anchor_message_def proto_gradido_ledger_anchor_init_def\<close>)
  then show ?thesis by (rule fills_more) simp
next
  case True
  let ?put = "\<lambda>v. pla_hiero_transaction_id_p_update (\<lambda>_. v)"
  let ?on = "on_member pla_hiero_transaction_id_p ?put (hiero_transaction_id_from_wire (hiero_transaction_id a))"
  let ?m = "\<lambda>v. proto_gradido_ledger_anchor_init
    \<lparr>pla_anchor_id := proto_gradido_ledger_anchor_anchor_id_hiero_transaction_id_e, pla_hiero_transaction_id_p := v\<rparr>"
  have "fills ?on (?m (Some proto_gradido_transaction_id_init)) (?m (Some (hiero_message (hiero_transaction_id a))))
      (transaction_id_need (hiero_message (hiero_transaction_id a)))"
    by (rule fills_on_member [OF _ hiero_need]) (simp_all add: proto_gradido_ledger_anchor_init_def)
  then have "fills (\<lambda>(m, h). case ?on (m\<lparr>pla_anchor_id := proto_gradido_ledger_anchor_anchor_id_hiero_transaction_id_e\<rparr>, h) of
        (_, m, h) \<Rightarrow> (ARNM_SUCCESS, m\<lparr>pla_type := GRDT_LEDGER_ANCHOR_HIERO_TRANSACTION_ID\<rparr>, h))
      (?m (Some proto_gradido_transaction_id_init)) (anchor_message a)
      (transaction_id_need (hiero_message (hiero_transaction_id a)))"
    using True unfolding fills_def
    by (fastforce simp: anchor_message_def proto_gradido_ledger_anchor_init_def)
  then have "fills (ledger_anchor_from_wire a) proto_gradido_ledger_anchor_init (anchor_message a)
      (SIZEOF_transaction_id + 7 + transaction_id_need (hiero_message (hiero_transaction_id a)))"
    by (rule fills_alloc [where old = None and put = ?m, rotated])
      (use True in \<open>simp add: ledger_anchor_from_wire_def proto_gradido_ledger_anchor_hiero_transaction_id_alloc_def
        proto_gradido_ledger_anchor_init_def\<close>)
  then show ?thesis using True by (simp add: ledger_anchor_need_def anchor_message_def sub_need_def)
qed

lemma friends_need: "fills (community_friends_update_from_wire t) proto_gradido_community_friends_update_init (friends_message t)
    (community_friends_update_need (friends_message t))"
  by (rule fills_more [OF fills_done]) (simp_all add: community_friends_update_from_wire_def friends_message_def
      proto_gradido_community_friends_update_init_def)

lemma root_need: "fills (community_root_from_wire t) proto_gradido_community_root_init (root_message t)
    (community_root_need (root_message t))"
  by (rule fills_more [OF fills_done]) (simp_all add: community_root_from_wire_def root_message_def
      proto_gradido_community_root_init_def)

lemma register_need: "fills (register_address_from_wire t) proto_gradido_register_address_init (register_message t)
    (register_address_need (register_message t))"
  by (rule fills_more [OF fills_done]) (simp_all add: register_address_from_wire_def register_message_def
      proto_gradido_register_address_init_def)

lemma timeout_need: "fills (gradido_timeout_deferred_transfer_from_wire t) proto_gradido_gradido_timeout_deferred_transfer_init
    (timeout_message t) (gradido_timeout_deferred_transfer_need (timeout_message t))"
  by (rule fills_more [OF fills_done]) (simp_all add: gradido_timeout_deferred_transfer_from_wire_def timeout_message_def
      proto_gradido_gradido_timeout_deferred_transfer_init_def)

lemma fills_data:
  assumes f: "\<And>h. f (m, h) = alloc_fill (case pbtools_sub_message_alloc n init old h of (ok, v, h) \<Rightarrow> (ok, put v, h))
      (\<lambda>(m, h). on_member get upd g (adj m, h))"
    and g: "get (adj (put (Some init))) = Some init" "fills g init c k" "upd (Some c) (adj (put (Some init))) = m'"
    and k: "n + 7 + k \<le> k'"
  shows "fills f m m' k'"
proof (rule fills_more [OF fills_alloc [OF f] k])
  have "fills (on_member get upd g) (adj (put (Some init))) m' k"
    using g by (rule fills_on_member)
  then show "fills (\<lambda>(m, h). on_member get upd g (adj m, h)) (put (Some init)) m' k"
    by (simp add: fills_def)
qed

lemma body_data_parts:
  "sub_need SIZEOF_gradido_creation gradido_creation_need (pbx_creation_p m) \<le> body_data_need m"
  "sub_need SIZEOF_gradido_transfer gradido_transfer_need (pbx_transfer_p m) \<le> body_data_need m"
  "sub_need SIZEOF_community_friends_update community_friends_update_need (pbx_community_friends_update_p m) \<le> body_data_need m"
  "sub_need SIZEOF_register_address register_address_need (pbx_register_address_p m) \<le> body_data_need m"
  "sub_need SIZEOF_gradido_deferred_transfer gradido_deferred_transfer_need (pbx_deferred_transfer_p m) \<le> body_data_need m"
  "sub_need SIZEOF_community_root community_root_need (pbx_community_root_p m) \<le> body_data_need m"
  "sub_need SIZEOF_gradido_redeem_deferred_transfer gradido_redeem_deferred_transfer_need (pbx_redeem_deferred_transfer_p m)
    \<le> body_data_need m"
  "sub_need SIZEOF_gradido_timeout_deferred_transfer gradido_timeout_deferred_transfer_need (pbx_timeout_deferred_transfer_p m)
    \<le> body_data_need m"
  unfolding body_data_need_def by linarith+

lemma data_need:
  assumes b: "wbx_transaction_type b \<le> 8"
  shows "fills (body_data_from_wire b) m (body_data_message b m) (body_data_need (body_data_message b m))"
  using b
proof (cases rule: u32_le_8)
  case 1
  then have "fills (body_data_from_wire b) m (body_data_message b m) 0"
    by (intro fills_done) (simp add: body_data_from_wire_def body_data_message_def)
  then show ?thesis by (rule fills_more) simp
next
  case 2
  then show ?thesis
    by (intro fills_data [where n = SIZEOF_gradido_creation and init = proto_gradido_gradido_creation_init and old = "pbx_creation_p m"
          and put = "\<lambda>v. m\<lparr>pbx_data := proto_gradido_transaction_body_data_creation_e, pbx_creation_p := v\<rparr>"
          and get = pbx_creation_p and upd = "\<lambda>v. pbx_creation_p_update (\<lambda>_. v)"
          and adj = "\<lambda>m. m\<lparr>pbx_data := proto_gradido_transaction_body_data_creation_e\<rparr>", OF _ _ creation_need])
      (simp add: body_data_from_wire_def body_data_message_def proto_gradido_transaction_body_creation_alloc_def Let_def,
        simp_all add: body_data_message_def Let_def, use body_data_parts(1) [of "body_data_message b m"] in
        \<open>simp add: body_data_message_def sub_need_def Let_def\<close>)
next
  case 3
  then show ?thesis
    by (intro fills_data [where n = SIZEOF_gradido_transfer and init = proto_gradido_gradido_transfer_init and old = "pbx_transfer_p m"
          and put = "\<lambda>v. m\<lparr>pbx_data := proto_gradido_transaction_body_data_transfer_e, pbx_transfer_p := v\<rparr>"
          and get = pbx_transfer_p and upd = "\<lambda>v. pbx_transfer_p_update (\<lambda>_. v)"
          and adj = "\<lambda>m. m\<lparr>pbx_data := proto_gradido_transaction_body_data_transfer_e\<rparr>", OF _ _ transfer_need])
      (simp add: body_data_from_wire_def body_data_message_def proto_gradido_transaction_body_transfer_alloc_def Let_def,
        simp_all add: body_data_message_def Let_def, use body_data_parts(2) [of "body_data_message b m"] in
        \<open>simp add: body_data_message_def sub_need_def Let_def\<close>)
next
  case 4
  then show ?thesis
    by (intro fills_data [where n = SIZEOF_community_friends_update and init = proto_gradido_community_friends_update_init and old = "pbx_community_friends_update_p m"
          and put = "\<lambda>v. m\<lparr>pbx_data := proto_gradido_transaction_body_data_community_friends_update_e, pbx_community_friends_update_p := v\<rparr>"
          and get = pbx_community_friends_update_p and upd = "\<lambda>v. pbx_community_friends_update_p_update (\<lambda>_. v)"
          and adj = "\<lambda>m. m\<lparr>pbx_data := proto_gradido_transaction_body_data_community_friends_update_e\<rparr>", OF _ _ friends_need])
      (simp add: body_data_from_wire_def body_data_message_def proto_gradido_transaction_body_community_friends_update_alloc_def Let_def,
        simp_all add: body_data_message_def Let_def, use body_data_parts(3) [of "body_data_message b m"] in
        \<open>simp add: body_data_message_def sub_need_def Let_def\<close>)
next
  case 5
  then show ?thesis
    by (intro fills_data [where n = SIZEOF_register_address and init = proto_gradido_register_address_init and old = "pbx_register_address_p m"
          and put = "\<lambda>v. m\<lparr>pbx_data := proto_gradido_transaction_body_data_register_address_e, pbx_register_address_p := v\<rparr>"
          and get = pbx_register_address_p and upd = "\<lambda>v. pbx_register_address_p_update (\<lambda>_. v)"
          and adj = "\<lambda>m. m\<lparr>pbx_data := proto_gradido_transaction_body_data_register_address_e\<rparr>", OF _ _ register_need])
      (simp add: body_data_from_wire_def body_data_message_def proto_gradido_transaction_body_register_address_alloc_def Let_def,
        simp_all add: body_data_message_def Let_def, use body_data_parts(4) [of "body_data_message b m"] in
        \<open>simp add: body_data_message_def sub_need_def Let_def\<close>)
next
  case 6
  then show ?thesis
    by (intro fills_data [where n = SIZEOF_gradido_deferred_transfer and init = proto_gradido_gradido_deferred_transfer_init and old = "pbx_deferred_transfer_p m"
          and put = "\<lambda>v. m\<lparr>pbx_data := proto_gradido_transaction_body_data_deferred_transfer_e, pbx_deferred_transfer_p := v\<rparr>"
          and get = pbx_deferred_transfer_p and upd = "\<lambda>v. pbx_deferred_transfer_p_update (\<lambda>_. v)"
          and adj = "\<lambda>m. m\<lparr>pbx_data := proto_gradido_transaction_body_data_deferred_transfer_e\<rparr>", OF _ _ deferred_need])
      (simp add: body_data_from_wire_def body_data_message_def proto_gradido_transaction_body_deferred_transfer_alloc_def Let_def,
        simp_all add: body_data_message_def Let_def, use body_data_parts(5) [of "body_data_message b m"] in
        \<open>simp add: body_data_message_def sub_need_def Let_def\<close>)
next
  case 7
  then show ?thesis
    by (intro fills_data [where n = SIZEOF_community_root and init = proto_gradido_community_root_init and old = "pbx_community_root_p m"
          and put = "\<lambda>v. m\<lparr>pbx_data := proto_gradido_transaction_body_data_community_root_e, pbx_community_root_p := v\<rparr>"
          and get = pbx_community_root_p and upd = "\<lambda>v. pbx_community_root_p_update (\<lambda>_. v)"
          and adj = "\<lambda>m. m\<lparr>pbx_data := proto_gradido_transaction_body_data_community_root_e\<rparr>", OF _ _ root_need])
      (simp add: body_data_from_wire_def body_data_message_def proto_gradido_transaction_body_community_root_alloc_def Let_def,
        simp_all add: body_data_message_def Let_def, use body_data_parts(6) [of "body_data_message b m"] in
        \<open>simp add: body_data_message_def sub_need_def Let_def\<close>)
next
  case 8
  then show ?thesis
    by (intro fills_data [where n = SIZEOF_gradido_redeem_deferred_transfer and init = proto_gradido_gradido_redeem_deferred_transfer_init and old = "pbx_redeem_deferred_transfer_p m"
          and put = "\<lambda>v. m\<lparr>pbx_data := proto_gradido_transaction_body_data_redeem_deferred_transfer_e, pbx_redeem_deferred_transfer_p := v\<rparr>"
          and get = pbx_redeem_deferred_transfer_p and upd = "\<lambda>v. pbx_redeem_deferred_transfer_p_update (\<lambda>_. v)"
          and adj = "\<lambda>m. m\<lparr>pbx_data := proto_gradido_transaction_body_data_redeem_deferred_transfer_e\<rparr>", OF _ _ redeem_need])
      (simp add: body_data_from_wire_def body_data_message_def proto_gradido_transaction_body_redeem_deferred_transfer_alloc_def Let_def,
        simp_all add: body_data_message_def Let_def, use body_data_parts(7) [of "body_data_message b m"] in
        \<open>simp add: body_data_message_def sub_need_def Let_def\<close>)
next
  case 9
  then show ?thesis
    by (intro fills_data [where n = SIZEOF_gradido_timeout_deferred_transfer and init = proto_gradido_gradido_timeout_deferred_transfer_init and old = "pbx_timeout_deferred_transfer_p m"
          and put = "\<lambda>v. m\<lparr>pbx_data := proto_gradido_transaction_body_data_timeout_deferred_transfer_e, pbx_timeout_deferred_transfer_p := v\<rparr>"
          and get = pbx_timeout_deferred_transfer_p and upd = "\<lambda>v. pbx_timeout_deferred_transfer_p_update (\<lambda>_. v)"
          and adj = "\<lambda>m. m\<lparr>pbx_data := proto_gradido_transaction_body_data_timeout_deferred_transfer_e\<rparr>", OF _ _ timeout_need])
      (simp add: body_data_from_wire_def body_data_message_def proto_gradido_transaction_body_timeout_deferred_transfer_alloc_def Let_def,
        simp_all add: body_data_message_def Let_def, use body_data_parts(8) [of "body_data_message b m"] in
        \<open>simp add: body_data_message_def sub_need_def Let_def\<close>)
qed

lemma memos_need:
  "fills (body_memos_from_wire b) (m\<lparr>pbx_memos := []\<rparr>) (m\<lparr>pbx_memos := map memo_message (wbx_memos b)\<rparr>)
    (items_need SIZEOF_encrypted_memo encrypted_memo_need (map memo_message (wbx_memos b)))"
proof (cases "wbx_memos b = []")
  case True
  then show ?thesis by (intro fills_more [OF fills_done]) (simp_all add: body_memos_from_wire_def)
next
  case False
  have image: "fill_items encrypted_memo_from_wire (wbx_memos b)
      (replicate (length (wbx_memos b)) proto_gradido_encrypted_memo_init) = map memo_message (wbx_memos b)"
    by (rule fill_items_image) (simp add: scalar_mapping scalar_messages)
  show ?thesis
    by (rule fills_more [OF fills_items [where n = SIZEOF_encrypted_memo and len = "length (wbx_memos b)" and old = "[]"
          and init = proto_gradido_encrypted_memo_init and put = "\<lambda>v. m\<lparr>pbx_memos := v\<rparr>"
          and fin = "\<lambda>m. m\<lparr>pbx_memos := fill_items encrypted_memo_from_wire (wbx_memos b) (pbx_memos m)\<rparr>"]])
      (use False in \<open>simp_all add: body_memos_from_wire_def proto_gradido_transaction_body_memos_alloc_def image
        items_need_def\<close>)
qed

lemma data_message_memos: "pbx_memos (body_data_message b m) = pbx_memos m"
  "pbx_created_at_p (body_data_message b m) = pbx_created_at_p m"
  "pbx_version_number (body_data_message b m) = pbx_version_number m"
  "pbx_type (body_data_message b m) = pbx_type m"
  "pbx_other_community_uuid (body_data_message b m) = pbx_other_community_uuid m"
  by (simp_all add: body_data_message_def Let_def)

lemma body_need:
  assumes "wbx_transaction_type b \<le> 8"
  shows "fills (body_from_wire b) proto_gradido_transaction_body_init (body_message b) (transaction_body_need (body_message b))"
proof -
  let ?uuid = "case wbx_other_community_uuid b of None \<Rightarrow> [] | Some u \<Rightarrow> uuid_of u"
  let ?m1 = "proto_gradido_transaction_body_init\<lparr>pbx_version_number := GRDU_GRADIDO_PROTOCOL_VERSION\<rparr>"
  let ?m2 = "?m1\<lparr>pbx_memos := map memo_message (wbx_memos b)\<rparr>"
  let ?m3 = "\<lambda>v. ?m2\<lparr>pbx_other_community_uuid := ?uuid, pbx_created_at_p := v\<rparr>"
  let ?m4 = "?m3 (Some (timestamp_message (wbx_created_at b)))\<lparr>pbx_type := wbx_type b\<rparr>"
  have m4: "body_data_message b ?m4 = body_message b" by (simp add: body_message_def proto_gradido_transaction_body_init_def)
  let ?kd = "body_data_need (body_message b)"
  let ?last = "\<lambda>(m, h). body_data_from_wire b
      ((fill_member pbx_created_at_p (\<lambda>v. pbx_created_at_p_update (\<lambda>_. v))
          (timestamp_from_wire (wbx_created_at b)) m)\<lparr>pbx_type := wbx_type b\<rparr>, h)"
  have last: "fills ?last (?m3 (Some proto_gradido_timestamp_init)) (body_message b) ?kd"
    using data_need [OF assms, of ?m4] unfolding m4
    by (simp add: fills_def fill_member_def timestamp_from_wire_def scalar_messages)
  let ?rest = "\<lambda>(m, h). alloc_fill (proto_gradido_transaction_body_created_at_alloc
      (m\<lparr>pbx_other_community_uuid := community_uuid_from_wire (wbx_other_community_uuid b) (pbx_other_community_uuid m)\<rparr>) h) ?last"
  have rest: "fills ?rest ?m2 (body_message b) (SIZEOF_timestamp + 7 + ?kd)"
    by (rule fills_alloc [where old = None and put = ?m3, OF _ last])
      (simp add: proto_gradido_transaction_body_created_at_alloc_def community_uuid_from_wire_def
        proto_gradido_transaction_body_init_def split: option.split)
  have memos: "fills (body_memos_from_wire b) ?m1 ?m2
      (items_need SIZEOF_encrypted_memo encrypted_memo_need (map memo_message (wbx_memos b)))"
    using memos_need [of b ?m1] by (simp add: proto_gradido_transaction_body_init_def)
  let ?k = "items_need SIZEOF_encrypted_memo encrypted_memo_need (map memo_message (wbx_memos b)) + (SIZEOF_timestamp + 7 + ?kd)"
  have "fills (body_from_wire b) proto_gradido_transaction_body_init (body_message b) ?k"
    using fills_bind [OF memos rest] by (simp add: fills_def body_from_wire_def)
  moreover have "?k \<le> transaction_body_need (body_message b)"
    by (simp add: transaction_body_need_def m4 [symmetric] data_message_memos sub_need_def)
  ultimately show ?thesis by (rule fills_more)
qed

lemma signatures_need:
  assumes "length (wgx_sig_map t) < 255"
  shows "fills (sig_map_from_wire t) proto_gradido_gradido_transaction_init
    (proto_gradido_gradido_transaction_init\<lparr>pgx_sig_map_p := pgx_sig_map_p (transaction_message t)\<rparr>)
    (sub_need SIZEOF_signature_map signature_map_need (pgx_sig_map_p (transaction_message t)))"
proof (cases "wgx_sig_map t = []")
  case True
  then show ?thesis by (intro fills_more [OF fills_done])
      (simp_all add: sig_map_from_wire_def transaction_message_def proto_gradido_gradido_transaction_init_def)
next
  case False
  let ?m0 = proto_gradido_gradido_transaction_init
  let ?pairs = "map signature_message (wgx_sig_map t)"
  have image: "fill_items signature_pair_from_wire (wgx_sig_map t)
      (replicate (length (wgx_sig_map t)) proto_gradido_signature_pair_init) = ?pairs"
    by (rule fill_items_image) (simp add: scalar_mapping scalar_messages)
  let ?g = "\<lambda>(sm, h). alloc_fill (proto_gradido_signature_map_sig_pair_alloc sm (length (wgx_sig_map t)) h)
      (\<lambda>(sm, h). (ARNM_SUCCESS, sm\<lparr>psm_sig_pair := fill_items signature_pair_from_wire (wgx_sig_map t) (psm_sig_pair sm)\<rparr>, h))"
  have pairs: "fills ?g proto_gradido_signature_map_init \<lparr>psm_sig_pair = ?pairs\<rparr>
      (SIZEOF_signature_pair * length (wgx_sig_map t) + 7)"
    by (rule fills_items [where old = "[]" and init = proto_gradido_signature_pair_init
          and put = "\<lambda>v. proto_gradido_signature_map_init\<lparr>psm_sig_pair := v\<rparr>"
          and fin = "\<lambda>sm. sm\<lparr>psm_sig_pair := fill_items signature_pair_from_wire (wgx_sig_map t) (psm_sig_pair sm)\<rparr>"])
      (simp_all add: proto_gradido_signature_map_sig_pair_alloc_def proto_gradido_signature_map_init_def image)
  have on: "fills (on_member pgx_sig_map_p (\<lambda>v. pgx_sig_map_p_update (\<lambda>_. v)) ?g)
      (?m0\<lparr>pgx_sig_map_p := Some proto_gradido_signature_map_init\<rparr>) (?m0\<lparr>pgx_sig_map_p := Some \<lparr>psm_sig_pair = ?pairs\<rparr>\<rparr>)
      (SIZEOF_signature_pair * length (wgx_sig_map t) + 7)"
    by (rule fills_on_member [OF _ pairs]) simp_all
  have "fills (sig_map_from_wire t) ?m0 (?m0\<lparr>pgx_sig_map_p := Some \<lparr>psm_sig_pair = ?pairs\<rparr>\<rparr>)
      (SIZEOF_signature_map + 7 + (SIZEOF_signature_pair * length (wgx_sig_map t) + 7))"
    by (rule fills_alloc [where old = None and put = "\<lambda>v. ?m0\<lparr>pgx_sig_map_p := v\<rparr>", OF _ on])
      (use False assms in \<open>simp add: sig_map_from_wire_def proto_gradido_gradido_transaction_sig_map_alloc_def
        proto_gradido_gradido_transaction_init_def\<close>)
  note fill = this
  have eq: "pgx_sig_map_p (transaction_message t) = Some \<lparr>psm_sig_pair = ?pairs\<rparr>"
    using False by (simp add: transaction_message_def)
  show ?thesis
    unfolding eq by (rule fills_more [OF fill]) (simp add: sub_need_def signature_map_need_def items_need_def)
qed

lemma pairing_need:
  "fills (pairing_anchor_from_wire t) (m\<lparr>pgx_pairing_ledger_anchor_p := None\<rparr>)
    (m\<lparr>pgx_pairing_ledger_anchor_p := pgx_pairing_ledger_anchor_p (transaction_message t)\<rparr>)
    (sub_need SIZEOF_ledger_anchor ledger_anchor_need (pgx_pairing_ledger_anchor_p (transaction_message t)))"
proof (cases "la_type (wgx_pairing_ledger_anchor t) = GRDT_LEDGER_ANCHOR_UNSPECIFIED")
  case True
  then show ?thesis by (intro fills_more [OF fills_done]) (simp_all add: pairing_anchor_from_wire_def transaction_message_def)
next
  case False
  let ?a = "wgx_pairing_ledger_anchor t"
  let ?put = "\<lambda>v. m\<lparr>pgx_pairing_ledger_anchor_p := v\<rparr>"
  have eq: "pgx_pairing_ledger_anchor_p (transaction_message t) = Some (anchor_message ?a)"
    using False by (simp add: transaction_message_def)
  have on: "fills (on_member pgx_pairing_ledger_anchor_p (\<lambda>v. pgx_pairing_ledger_anchor_p_update (\<lambda>_. v))
      (ledger_anchor_from_wire ?a)) (?put (Some proto_gradido_ledger_anchor_init)) (?put (Some (anchor_message ?a)))
      (ledger_anchor_need (anchor_message ?a))"
    by (rule fills_on_member [OF _ anchor_need]) simp_all
  have "fills (pairing_anchor_from_wire t) (?put None) (?put (Some (anchor_message ?a)))
      (SIZEOF_ledger_anchor + 7 + ledger_anchor_need (anchor_message ?a))"
    by (rule fills_alloc [where old = None and put = ?put, OF _ on])
      (use False in \<open>simp add: pairing_anchor_from_wire_def proto_gradido_gradido_transaction_pairing_ledger_anchor_alloc_def\<close>)
  then show ?thesis unfolding eq by (simp add: sub_need_def)
qed

lemma transaction_need:
  assumes "length (wgx_sig_map t) < 255"
  shows "fills (transaction_from_wire t) proto_gradido_gradido_transaction_init (transaction_message t)
    (gradido_transaction_need (transaction_message t))"
proof -
  let ?m0 = proto_gradido_gradido_transaction_init
  let ?m1 = "?m0\<lparr>pgx_sig_map_p := pgx_sig_map_p (transaction_message t)\<rparr>"
  let ?m2 = "?m1\<lparr>pgx_pairing_ledger_anchor_p := pgx_pairing_ledger_anchor_p (transaction_message t)\<rparr>"
  let ?last = "\<lambda>(m, h). (ARNM_SUCCESS, m\<lparr>pgx_body_bytes := memory_block_from_wire (wgx_body_bytes t) (pgx_body_bytes m)\<rparr>, h)"
  have last: "fills ?last ?m2 (transaction_message t) 0"
    by (rule fills_done) (simp add: memory_block_from_wire_def proto_gradido_gradido_transaction_init_def transaction_message_def)
  have pairing: "fills (pairing_anchor_from_wire t) ?m1 ?m2
      (sub_need SIZEOF_ledger_anchor ledger_anchor_need (pgx_pairing_ledger_anchor_p (transaction_message t)))"
    using pairing_need [of t ?m1] by (simp add: proto_gradido_gradido_transaction_init_def)
  have "fills (transaction_from_wire t) ?m0 (transaction_message t)
      (sub_need SIZEOF_signature_map signature_map_need (pgx_sig_map_p (transaction_message t)) +
       (sub_need SIZEOF_ledger_anchor ledger_anchor_need (pgx_pairing_ledger_anchor_p (transaction_message t)) + 0))"
    using fills_bind [OF signatures_need [OF assms] fills_bind [OF pairing last]]
    by (simp add: fills_def transaction_from_wire_def)
  then show ?thesis by (rule fills_more) (simp add: gradido_transaction_need_def)
qed

lemma balances_need:
  assumes "length (wcx_account_balances t) < 255"
  shows "fills (balances_from_wire t) (m\<lparr>pcx_account_balances := []\<rparr>)
    (m\<lparr>pcx_account_balances := map balance_message (wcx_account_balances t)\<rparr>)
    (items_need SIZEOF_account_balance account_balance_need (map balance_message (wcx_account_balances t)))"
proof (cases "wcx_account_balances t = []")
  case True
  then show ?thesis by (intro fills_more [OF fills_done]) (simp_all add: balances_from_wire_def)
next
  case False
  have image: "fill_items account_balance_from_wire (wcx_account_balances t)
      (replicate (length (wcx_account_balances t)) proto_gradido_account_balance_init) = map balance_message (wcx_account_balances t)"
    by (rule fill_items_image) (simp add: scalar_mapping scalar_messages)
  show ?thesis
    by (rule fills_more [OF fills_items [where n = SIZEOF_account_balance and len = "length (wcx_account_balances t)" and old = "[]"
          and init = proto_gradido_account_balance_init and put = "\<lambda>v. m\<lparr>pcx_account_balances := v\<rparr>"
          and fin = "\<lambda>m. m\<lparr>pcx_account_balances := fill_items account_balance_from_wire (wcx_account_balances t) (pcx_account_balances m)\<rparr>"]])
      (use False assms in \<open>simp_all add: balances_from_wire_def proto_gradido_confirmed_transaction_account_balances_alloc_def
        image items_need_def\<close>)
qed

lemma confirmed_need:
  assumes "length (wgx_sig_map (wcx_transaction t)) < 255" "length (wcx_account_balances t) < 255"
  shows "fills (confirmed_from_wire t) proto_gradido_confirmed_transaction_init (confirmed_message t)
    (confirmed_transaction_need (confirmed_message t))"
proof -
  let ?tm = "transaction_message (wcx_transaction t)" and ?am = "anchor_message (wcx_ledger_anchor t)"
  let ?m1 = "\<lambda>v. proto_gradido_confirmed_transaction_init\<lparr>pcx_version_number := GRDU_GRADIDO_PROTOCOL_VERSION,
    pcx_id := wcx_id t, pcx_transaction_p := v\<rparr>"
  let ?m2 = "\<lambda>v. (?m1 (Some ?tm))\<lparr>pcx_confirmed_at_p := v\<rparr>"
  let ?m3 = "\<lambda>v. (?m2 (Some (timestamp_message (wcx_confirmed_at t))))
    \<lparr>pcx_running_hash := hash_of (wcx_running_hash t), pcx_ledger_anchor_p := v\<rparr>"
  let ?kb = "items_need SIZEOF_account_balance account_balance_need (map balance_message (wcx_account_balances t))"
  have balances: "fills (balances_from_wire t) (?m3 (Some ?am)) (confirmed_message t) ?kb"
    using balances_need [OF assms(2), of "?m3 (Some ?am)"]
    by (simp add: proto_gradido_confirmed_transaction_init_def confirmed_message_def)
  have anchor: "fills (on_member pcx_ledger_anchor_p (\<lambda>v. pcx_ledger_anchor_p_update (\<lambda>_. v))
      (ledger_anchor_from_wire (wcx_ledger_anchor t))) (?m3 (Some proto_gradido_ledger_anchor_init)) (?m3 (Some ?am))
      (ledger_anchor_need ?am)"
    by (rule fills_on_member [OF _ anchor_need]) simp_all
  let ?g3 = "\<lambda>s. bind_ok (on_member pcx_ledger_anchor_p (\<lambda>v. pcx_ledger_anchor_p_update (\<lambda>_. v))
      (ledger_anchor_from_wire (wcx_ledger_anchor t)) s) (balances_from_wire t)"
  note g3 = fills_bind [OF anchor balances]
  let ?g2 = "\<lambda>(m, h). alloc_fill (proto_gradido_confirmed_transaction_ledger_anchor_alloc
      ((fill_member pcx_confirmed_at_p (\<lambda>v. pcx_confirmed_at_p_update (\<lambda>_. v))
         (timestamp_from_wire (wcx_confirmed_at t)) m)\<lparr>pcx_running_hash := hash_of (wcx_running_hash t)\<rparr>) h) ?g3"
  have g2: "fills ?g2 (?m2 (Some proto_gradido_timestamp_init)) (confirmed_message t)
      (SIZEOF_ledger_anchor + 7 + (ledger_anchor_need ?am + ?kb))"
    by (rule fills_alloc [where old = None and put = ?m3, OF _ g3])
      (simp add: proto_gradido_confirmed_transaction_ledger_anchor_alloc_def fill_member_def timestamp_from_wire_def
        scalar_messages proto_gradido_confirmed_transaction_init_def)
  let ?g1 = "\<lambda>(m, h). alloc_fill (proto_gradido_confirmed_transaction_confirmed_at_alloc m h) ?g2"
  have g1: "fills ?g1 (?m1 (Some ?tm)) (confirmed_message t)
      (SIZEOF_timestamp + 7 + (SIZEOF_ledger_anchor + 7 + (ledger_anchor_need ?am + ?kb)))"
    by (rule fills_alloc [where old = None and put = ?m2, OF _ g2])
      (simp add: proto_gradido_confirmed_transaction_confirmed_at_alloc_def proto_gradido_confirmed_transaction_init_def)
  have inner: "fills (on_member pcx_transaction_p (\<lambda>v. pcx_transaction_p_update (\<lambda>_. v)) (transaction_from_wire (wcx_transaction t)))
      (?m1 (Some proto_gradido_gradido_transaction_init)) (?m1 (Some ?tm)) (gradido_transaction_need ?tm)"
    by (rule fills_on_member [OF _ transaction_need [OF assms(1)]]) simp_all
  have "fills (confirmed_from_wire t) proto_gradido_confirmed_transaction_init (confirmed_message t)
      (SIZEOF_gradido_transaction + 7 + (gradido_transaction_need ?tm +
        (SIZEOF_timestamp + 7 + (SIZEOF_ledger_anchor + 7 + (ledger_anchor_need ?am + ?kb)))))"
    by (rule fills_alloc [where old = None and put = ?m1, OF _ fills_bind [OF inner g1]])
      (simp add: confirmed_from_wire_def proto_gradido_confirmed_transaction_transaction_alloc_def
        proto_gradido_confirmed_transaction_init_def)
  then show ?thesis
    by (rule fills_more) (simp add: confirmed_transaction_need_def sub_need_def confirmed_message_def)
qed

section \<open>These messages are proper\<close>

lemma anchor_message_proper: "ledger_anchor_proper (anchor_message a)"
  by (simp add: anchor_message_def ledger_anchor_proper_def transaction_id_proper_def hiero_message_def account_id_proper_def)

lemma transaction_message_proper: "gradido_transaction_proper (transaction_message t)"
  by (simp add: transaction_message_def gradido_transaction_proper_def anchor_message_proper)

lemma confirmed_message_proper: "confirmed_transaction_proper (confirmed_message t)"
  by (simp add: confirmed_message_def confirmed_transaction_proper_def transaction_message_proper anchor_message_proper)

lemma body_message_proper: "transaction_body_proper (body_message b)"
  by (simp add: body_message_def body_data_message_def transaction_body_proper_def Let_def
      proto_gradido_transaction_body_init_def)

end
