(* ===== verification/GRD_Wire_Round.thy ===== *)
theory GRD_Wire_Round
  imports GRD_Wire_Fills
begin

text \<open>
  From a message back to the wire struct, and the whole way: encode and decode of \<open>data/wire\<close> are each other's
  inverse. What arnm's arena promises is \<open>supplies\<close>: a request that fits is granted and costs what it asks for
  and the padding, what remains can be taken whole, shrinking a block just taken gives its tail back, releasing
  a block takes nothing, and an arena holds less than 2 GiB.
\<close>

section \<open>What the arena promises\<close>

definition supplies :: "'p arnm_memory \<Rightarrow> ('p \<Rightarrow> nat) \<Rightarrow> bool" where
  "supplies A avail \<longleftrightarrow>
     (\<forall>p n. 0 < n \<and> n + 7 \<le> avail p \<longrightarrow>
        (\<exists>p'. mem_alloc A n p = (ARNM_SUCCESS, p') \<and> avail p \<le> avail p' + (n + 7)))
   \<and> (\<forall>p n. 0 < n \<and> unat n + 7 \<le> avail p \<longrightarrow>
        (\<exists>p'. mem_block_alloc A n p = (ARNM_SUCCESS, p') \<and> avail p \<le> avail p' + (unat n + 7)))
   \<and> (\<forall>p. avail p < 2147483648 \<and> avail p \<le> max_alloc_size A \<and> mem_is_arena A p \<and> unat (mem_arena_remaining A p) = avail p)
   \<and> (\<forall>p. 0 < avail p \<longrightarrow>
        (\<exists>p'. mem_block_alloc A (mem_arena_remaining A p) p = (ARNM_SUCCESS, p')
          \<and> (\<forall>used. used \<le> avail p \<longrightarrow>
               (\<exists>n p''. mem_block_realloc A (mem_arena_remaining A p) (word_of_nat used) p' = (ARNM_SUCCESS, n, p'')
                  \<and> avail p \<le> avail p'' + (used + 7)))))
   \<and> (\<forall>p n. avail p \<le> avail (mem_block_free A n p))"

lemma supplies_alloc:
  assumes "supplies A avail" "0 < n" "n + 7 \<le> avail p"
  shows "\<exists>p'. mem_alloc A n p = (ARNM_SUCCESS, p') \<and> avail p \<le> avail p' + (n + 7)"
  using assms unfolding supplies_def by blast

lemma supplies_small:
  assumes "supplies A avail"
  shows "avail p < 2147483648" "avail p \<le> max_alloc_size A"
  using assms unfolding supplies_def by blast+

lemma unat_word_32: "n < 4294967296 \<Longrightarrow> unat (word_of_nat n :: u32) = n"
  by (simp add: unsigned_of_nat take_bit_nat_eq_self)

lemma supplies_block:
  assumes "supplies A avail" "bs \<noteq> []" "length bs + 7 \<le> avail p"
  shows "\<exists>p'. memory_block_from_pbtools A bs (old, p) = (ARNM_SUCCESS, bs, p') \<and> avail p \<le> avail p' + (length bs + 7)"
proof -
  note small = supplies_small [OF assms(1), of p]
  have u: "unat (word_of_nat (length bs) :: u32) = length bs"
    using small(1) assms(3) by (simp add: unsigned_of_nat take_bit_nat_eq_self)
  have "(0 :: u32) < word_of_nat (length bs)" using u assms(2) by (simp add: word_less_unat)
  then obtain p' where "mem_block_alloc A (word_of_nat (length bs)) p = (ARNM_SUCCESS, p')" "avail p \<le> avail p' + (length bs + 7)"
    using assms(1,3) u unfolding supplies_def by metis
  then show ?thesis using assms(2,3) small by (simp add: memory_block_from_pbtools_def)
qed

section \<open>Calls that build a struct\<close>

definition builds ::
  "('p \<Rightarrow> nat) \<Rightarrow> ('w option \<times> 'p \<Rightarrow> c_fault + arnm_result \<times> 'w option \<times> 'p) \<Rightarrow> 'w \<Rightarrow> 'w \<Rightarrow> nat \<Rightarrow> bool" where
  "builds avail f w w' k \<longleftrightarrow>
     (\<forall>p. k \<le> avail p \<longrightarrow> (\<exists>p'. f (Some w, p) = Inr (ARNM_SUCCESS, Some w', p') \<and> avail p \<le> avail p' + k))"

lemma builds_nothing: "(\<And>p. f (Some w, p) = Inr (ARNM_SUCCESS, Some w', p)) \<Longrightarrow> builds avail f w w' k"
  by (simp add: builds_def)

lemma builds_struct: "g w = Inr (ARNM_SUCCESS, w') \<Longrightarrow> builds avail (in_struct g) w w' 0"
  by (rule builds_nothing) (simp add: in_struct_def put_result_def)

lemma builds_then:
  assumes "builds avail f w w1 k1" "builds avail g w1 w2 k2"
  shows "builds avail (\<lambda>s. then_ok (f s) g) w w2 (k1 + k2)"
  unfolding builds_def
proof (intro allI impI)
  fix p assume k: "k1 + k2 \<le> avail p"
  then obtain p1 where p1: "f (Some w, p) = Inr (ARNM_SUCCESS, Some w1, p1)" "avail p \<le> avail p1 + k1"
    using assms(1) unfolding builds_def by (meson add_leD1)
  with k have "k2 \<le> avail p1" by simp
  then obtain p2 where "g (Some w1, p1) = Inr (ARNM_SUCCESS, Some w2, p2)" "avail p1 \<le> avail p2 + k2"
    using assms(2) unfolding builds_def by blast
  with p1 show "\<exists>p'. then_ok (f (Some w, p)) g = Inr (ARNM_SUCCESS, Some w2, p') \<and> avail p \<le> avail p' + (k1 + k2)"
    by (intro exI [of _ p2]) simp
qed

section \<open>Arrays\<close>

text \<open>What the memos take of the arena, and the loop that reads them.\<close>

definition memos_room :: "grdw_encrypted_memo list \<Rightarrow> nat" where
  "memos_room es = sum_list (map (\<lambda>e. length (em_memo e) + 7) es)"

lemma memo_back:
  assumes "supplies A avail" "length (em_memo e) + 7 \<le> avail p"
  shows "\<exists>p'. encrypted_memo_from_pbtools A (Some (memo_message e)) (zero_memo, p) = (ARNM_SUCCESS, e, p')
    \<and> avail p \<le> avail p' + (length (em_memo e) + 7)"
proof (cases "em_memo e = []")
  case True
  then show ?thesis by (cases e) (simp add: encrypted_memo_from_pbtools_def memo_message_def zero_memo_def)
next
  case False
  obtain p' where "memory_block_from_pbtools A (em_memo e) ([], p) = (ARNM_SUCCESS, em_memo e, p')"
    "avail p \<le> avail p' + (length (em_memo e) + 7)"
    using supplies_block [OF assms(1) False assms(2)] by blast
  then show ?thesis using False
    by (intro exI [of _ p']) (simp add: encrypted_memo_from_pbtools_def memo_message_def zero_memo_def)
qed

lemma memos_back:
  assumes A: "supplies A avail"
  shows "memos_room fs \<le> avail p \<Longrightarrow>
    \<exists>p'. memos_from_pbtools A (map memo_message fs) (length es)
        (Some (b\<lparr>wbx_memos := es @ replicate (length fs) zero_memo\<rparr>), p)
      = (ARNM_SUCCESS, Some (b\<lparr>wbx_memos := es @ fs\<rparr>), p') \<and> avail p \<le> avail p' + memos_room fs"
proof (induction fs arbitrary: es p)
  case Nil
  then show ?case by (simp add: memos_room_def)
next
  case (Cons f fs)
  have k: "length (em_memo f) + 7 \<le> avail p" using Cons.prems by (simp add: memos_room_def)
  obtain p1 where p1: "encrypted_memo_from_pbtools A (Some (memo_message f)) (zero_memo, p) = (ARNM_SUCCESS, f, p1)"
    "avail p \<le> avail p1 + (length (em_memo f) + 7)"
    using memo_back [OF A k] by blast
  have "memos_room fs \<le> avail p1" using Cons.prems p1(2) by (simp add: memos_room_def)
  from Cons.IH [OF this, of "es @ [f]"] obtain p2 where
    "memos_from_pbtools A (map memo_message fs) (Suc (length es))
        (Some (b\<lparr>wbx_memos := (es @ [f]) @ replicate (length fs) zero_memo\<rparr>), p1)
      = (ARNM_SUCCESS, Some (b\<lparr>wbx_memos := (es @ [f]) @ fs\<rparr>), p2)" "avail p1 \<le> avail p2 + memos_room fs"
    by auto
  then show ?case using p1
    by (intro exI [of _ p2]) (simp add: grdw_transaction_body_move_memo_def memos_room_def)
qed

lemma body_memos_back:
  assumes A: "supplies A avail" and m: "pbx_memos m = map memo_message es" "length es < 255"
  shows "builds avail (\<lambda>s. Inr (body_memos_from_pbtools A m s)) (b\<lparr>wbx_memos := []\<rparr>) (b\<lparr>wbx_memos := es\<rparr>)
    (SIZEOF_grdw_encrypted_memo A * length es + 7 + memos_room es)"
  unfolding builds_def
proof (intro allI impI)
  fix p assume k: "SIZEOF_grdw_encrypted_memo A * length es + 7 + memos_room es \<le> avail p"
  let ?n = "SIZEOF_grdw_encrypted_memo A * length es"
  show "\<exists>p'. Inr (body_memos_from_pbtools A m (Some (b\<lparr>wbx_memos := []\<rparr>), p)) = Inr (ARNM_SUCCESS, Some (b\<lparr>wbx_memos := es\<rparr>), p')
      \<and> avail p \<le> avail p' + (?n + 7 + memos_room es)"
  proof (cases "es = []")
    case True
    then show ?thesis by (simp add: body_memos_from_pbtools_def m)
  next
    case False
    then have pos: "0 < ?n" by (simp add: SIZEOF_grdw_encrypted_memo_def)
    obtain p1 where p1: "mem_alloc A ?n p = (ARNM_SUCCESS, p1)" "avail p \<le> avail p1 + (?n + 7)"
      using supplies_alloc [OF A pos] k by (metis add_leD1)
    have u: "unat (word_of_nat ?n :: u32) = ?n"
      by (rule unat_word_32) (use supplies_small(1) [OF A, of p] k in linarith)
    have "memos_room es \<le> avail p1" using k p1(2) by simp
    from memos_back [OF A this, of "[]"] p1 u show ?thesis
      using False m by (fastforce simp: body_memos_from_pbtools_def grdw_transaction_body_reserve_memos_def bind_ok_def)
  qed
qed

text \<open>Items read one after the other into the places reserved for them.\<close>

lemma copy_items_back:
  assumes read: "\<And>e x. e \<in> set fs \<Longrightarrow> read (Some (msg e)) x = (ARNM_SUCCESS, e)"
    and copy: "\<And>e i xs. i < length xs \<Longrightarrow> length xs < 255 \<Longrightarrow>
      copy (Some e) (word_of_nat i) (Some (put xs w)) = (ARNM_SUCCESS, Some (put (xs[i := e]) w))"
    and n: "length es + length fs < 255"
  shows "copy_items read copy (map msg fs) (length es) x (Some (put (es @ replicate (length fs) z) w))
    = (ARNM_SUCCESS, Some (put (es @ fs) w))"
  using read n
proof (induction fs arbitrary: es x)
  case (Cons f fs)
  have step: "copy (Some f) (word_of_nat (length es)) (Some (put (es @ replicate (length (f # fs)) z) w))
      = (ARNM_SUCCESS, Some (put ((es @ [f]) @ replicate (length fs) z) w))"
    by (subst copy) (use Cons.prems in \<open>simp_all\<close>)
  show ?case
    using Cons.IH [of "es @ [f]" f] Cons.prems(1) [of f x] Cons.prems step by (simp add: bind_ok_def)
qed simp

section \<open>The body\<close>

lemma amount_back: "amount_ok t \<Longrightarrow> transfer_amount_from_pbtools (Some (amount_message t)) x = (ARNM_SUCCESS, t)"
  by (cases t) (simp add: transfer_amount_from_pbtools_def amount_message_def amount_ok_def community_uuid_from_pbtools_def)

lemma transfer_back: "transfer_ok t \<Longrightarrow> gradido_transfer_from_pbtools (Some (transfer_message t)) x = (ARNM_SUCCESS, t)"
  by (cases t) (simp add: gradido_transfer_from_pbtools_def transfer_message_def transfer_ok_def amount_back)

lemma creation_back: "amount_ok (wgc_recipient t) \<Longrightarrow> gradido_creation_from_pbtools (Some (creation_message t)) x = (ARNM_SUCCESS, t)"
  by (cases t) (simp add: gradido_creation_from_pbtools_def creation_message_def amount_back bind_ok_def
      timestamp_seconds_from_pbtools_def)

lemma friends_back: "community_friends_update_from_pbtools (Some (friends_message t)) x = (ARNM_SUCCESS, t)"
  by (cases t) (simp add: community_friends_update_from_pbtools_def friends_message_def)

lemma register_back: "register_ok t \<Longrightarrow> register_address_from_pbtools (Some (register_message t)) x = (ARNM_SUCCESS, t)"
  by (cases t) (simp add: register_address_from_pbtools_def register_message_def register_ok_def)

lemma root_back: "root_ok t \<Longrightarrow> community_root_from_pbtools (Some (root_message t)) x = (ARNM_SUCCESS, t)"
  by (cases t) (simp add: community_root_from_pbtools_def root_message_def root_ok_def)

lemma seconds_fit: "ucast (n :: u32) \<le> (4294967295 :: u64)"
proof -
  have "unat (ucast n :: u64) = unat n" by (simp add: unsigned_ucast_eq take_bit_nat_eq_self unat_lt_32 less_trans [OF unat_lt_32])
  then show ?thesis using unat_lt_32 [of n] by (simp add: word_le_nat_alt)
qed

lemma deferred_back:
  "transfer_ok (wdt_transfer t) \<Longrightarrow> gradido_deferred_transfer_from_pbtools (Some (deferred_message t)) x = Inr (ARNM_SUCCESS, t)"
  using seconds_fit [of "wdt_timeout_duration t"]
  by (cases t) (simp add: gradido_deferred_transfer_from_pbtools_def deferred_message_def transfer_back Let_def not_less ucast_down_ucast_id)

lemma redeem_back:
  "transfer_ok (wrt_transfer t) \<Longrightarrow> gradido_redeem_deferred_transfer_from_pbtools (Some (redeem_message t)) x = (ARNM_SUCCESS, t)"
  by (cases t) (simp add: gradido_redeem_deferred_transfer_from_pbtools_def redeem_message_def transfer_back)

lemma timeout_back: "gradido_timeout_deferred_transfer_from_pbtools (Some (timeout_message t)) x = (ARNM_SUCCESS, t)"
  by (cases t) (simp add: gradido_timeout_deferred_transfer_from_pbtools_def timeout_message_def)

lemmas specific_back = transfer_back creation_back friends_back register_back root_back deferred_back redeem_back timeout_back

lemma type_cases:
  assumes "(t :: grdt_transaction) \<le> 8"
  obtains "t = 0" | "t = 1" | "t = 2" | "t = 3" | "t = 4" | "t = 5" | "t = 6" | "t = 7" | "t = 8"
proof -
  have "unat t \<le> 8" using assms by (simp add: word_le_nat_alt)
  then have "unat t = 0 \<or> unat t = 1 \<or> unat t = 2 \<or> unat t = 3 \<or> unat t = 4 \<or> unat t = 5 \<or> unat t = 6
      \<or> unat t = 7 \<or> unat t = 8" by linarith
  then show thesis
    using that unfolding word_unat_eq_iff by auto
qed

lemma body_data_back:
  assumes "body_ok b"
  shows "body_data_from_pbtools (body_data_message b m) b0 = Inr (ARNM_SUCCESS, body_data_view b b0)"
proof -
  have le: "wbx_transaction_type b \<le> 8" using assms by (simp add: body_ok_def)
  show ?thesis
    by (rule type_cases [OF le])
      (use assms in \<open>simp_all add: body_ok_def body_data_from_pbtools_def body_data_message_def body_data_view_def
        put_result_def specific_back\<close>)
qed

lemma uuid_back:
  assumes A: "supplies A avail" and m: "pbx_other_community_uuid m = (case u of None \<Rightarrow> [] | Some u \<Rightarrow> uuid_of u)"
    "pred_option (\<lambda>u. length u = 16) u"
  shows "builds avail (\<lambda>s. Inr (body_uuid_from_pbtools A m s)) (b\<lparr>wbx_other_community_uuid := None\<rparr>)
    (b\<lparr>wbx_other_community_uuid := u\<rparr>) 23"
proof (cases u)
  case None
  then show ?thesis using m by (intro builds_nothing) (simp add: body_uuid_from_pbtools_def)
next
  case (Some v)
  then have v: "length v = 16" "v \<noteq> []" using m by auto
  show ?thesis unfolding builds_def
  proof (intro allI impI)
    fix p assume "23 \<le> avail p"
    then have "16 + 7 \<le> avail p" by simp
    from supplies_alloc [OF A _ this] obtain p' where "mem_alloc A 16 p = (ARNM_SUCCESS, p')" "avail p \<le> avail p' + 23"
      by auto
    then show "\<exists>p'. Inr (body_uuid_from_pbtools A m (Some (b\<lparr>wbx_other_community_uuid := None\<rparr>), p))
        = Inr (ARNM_SUCCESS, Some (b\<lparr>wbx_other_community_uuid := u\<rparr>), p') \<and> avail p \<le> avail p' + 23"
      using m Some v by (intro exI [of _ p']) (simp add: body_uuid_from_pbtools_def community_uuid_from_pbtools_def)
  qed
qed

definition body_room :: "'p arnm_memory \<Rightarrow> grdw_transaction_body \<Rightarrow> nat" where
  "body_room A b = SIZEOF_grdw_encrypted_memo A * length (wbx_memos b) + 7 + memos_room (wbx_memos b) + 23"

lemma body_message_fields:
  "pbx_memos (body_message b) = map memo_message (wbx_memos b)"
  "pbx_other_community_uuid (body_message b) = (case wbx_other_community_uuid b of None \<Rightarrow> [] | Some u \<Rightarrow> uuid_of u)"
  "pbx_created_at_p (body_message b) = Some (timestamp_message (wbx_created_at b))"
  "pbx_version_number (body_message b) = GRDU_GRADIDO_PROTOCOL_VERSION"
  "pbx_type (body_message b) = wbx_type b"
  by (simp_all add: body_message_def body_data_message_def Let_def)

lemma timestamp_back: "timestamp_from_pbtools (Some (timestamp_message t)) x = (ARNM_SUCCESS, t)"
  by (cases t) (simp add: timestamp_from_pbtools_def timestamp_message_def)

lemma body_back:
  assumes A: "supplies A avail" and ok: "body_ok b"
  shows "builds avail (grdm_transaction_body_from_pbtools A (Some (body_message b))) grdw_transaction_body_init
    (body_view b) (body_room A b)"
proof -
  let ?m = "body_message b" and ?b0 = grdw_transaction_body_init
  let ?b1 = "?b0\<lparr>wbx_memos := wbx_memos b\<rparr>"
  let ?b2 = "?b1\<lparr>wbx_other_community_uuid := wbx_other_community_uuid b\<rparr>"
  have zero: "?b0 = ?b0\<lparr>wbx_memos := []\<rparr>" "?b1 = ?b1\<lparr>wbx_other_community_uuid := None\<rparr>"
    by (simp_all add: grdw_transaction_body_init_def)
  have memos: "builds avail (\<lambda>s. Inr (body_memos_from_pbtools A ?m s)) ?b0 ?b1
      (SIZEOF_grdw_encrypted_memo A * length (wbx_memos b) + 7 + memos_room (wbx_memos b))"
    using body_memos_back [OF A body_message_fields(1), of b ?b0] ok zero(1) by (simp add: body_ok_def)
  have uuid: "builds avail (\<lambda>s. Inr (body_uuid_from_pbtools A ?m s)) ?b1 ?b2 23"
    using uuid_back [OF A body_message_fields(2), of b ?b1] ok zero(2) by (simp add: body_ok_def)
  have data: "body_data_from_pbtools ?m b0 = Inr (ARNM_SUCCESS, body_data_view b b0)" for b0
    unfolding body_message_def by (rule body_data_back [OF ok])
  have "body_rest_from_pbtools ?m ?b2 = Inr (ARNM_SUCCESS, body_view b)"
    by (simp add: body_rest_from_pbtools_def body_message_fields timestamp_back body_view_def data)
  then have rest: "builds avail (in_struct (body_rest_from_pbtools ?m)) ?b2 (body_view b) 0" by (rule builds_struct)
  have "builds avail (\<lambda>s. then_ok (Inr (body_memos_from_pbtools A ?m s)) (\<lambda>s.
      then_ok (Inr (body_uuid_from_pbtools A ?m s)) (in_struct (body_rest_from_pbtools ?m)))) ?b0 (body_view b)
      (SIZEOF_grdw_encrypted_memo A * length (wbx_memos b) + 7 + memos_room (wbx_memos b) + (23 + 0))"
    by (rule builds_then [OF memos builds_then [OF uuid rest]])
  then show ?thesis
    by (simp add: builds_def grdm_transaction_body_from_pbtools_def body_message_fields body_room_def)
qed

section \<open>The gradido transaction\<close>

lemma hiero_back: "hiero_transaction_id_from_pbtools (Some (hiero_message t)) x = (ARNM_SUCCESS, t)"
  by (cases t; cases "accountID t")
    (simp add: hiero_transaction_id_from_pbtools_def hiero_message_def timestamp_back hiero_account_id_from_pbtools_def bind_ok_def)

lemma anchor_back: "ledger_anchor_from_pbtools (Some (anchor_message a)) zero_anchor = Inr (ARNM_SUCCESS, anchor_view a)"
  by (simp add: ledger_anchor_from_pbtools_def anchor_message_def anchor_view_def hiero_back zero_anchor_def)

lemma pairing_back:
  "wgx_pairing_ledger_anchor t' = zero_anchor \<Longrightarrow>
    pairing_anchor_from_pbtools (transaction_message t) t' = Inr (ARNM_SUCCESS, t'\<lparr>wgx_pairing_ledger_anchor :=
      wgx_pairing_ledger_anchor (transaction_view t)\<rparr>)"
  by (cases t') (simp add: pairing_anchor_from_pbtools_def transaction_message_def transaction_view_def put_result_def anchor_back)

lemma signature_back: "signature_ok q \<Longrightarrow> signature_pair_from_pbtools (Some (signature_message q)) x = (ARNM_SUCCESS, q)"
  by (cases q) (simp add: signature_pair_from_pbtools_def signature_message_def signature_ok_def)

lemma unat_word_8: "n < 256 \<Longrightarrow> unat (word_of_nat n :: u8) = n"
  by (simp add: unsigned_of_nat take_bit_nat_eq_self)

lemma word_8_zero: "n < 256 \<Longrightarrow> (word_of_nat n :: u8) = 0 \<longleftrightarrow> n = 0"
  by (simp add: word_unat_eq_iff unat_word_8)

lemma copy_signature_back:
  "i < length xs \<Longrightarrow> length xs < 255 \<Longrightarrow>
    grdw_gradido_transaction_copy_sig_map (Some q) (word_of_nat i) (Some (t\<lparr>wgx_sig_map := xs\<rparr>))
      = (ARNM_SUCCESS, Some (t\<lparr>wgx_sig_map := xs[i := q]\<rparr>))"
  by (simp add: grdw_gradido_transaction_copy_sig_map_def unat_word_8)

lemma signatures_back:
  assumes A: "supplies A avail" and ok: "list_all signature_ok (wgx_sig_map t)" "length (wgx_sig_map t) < 255"
  shows "builds avail (\<lambda>s. Inr (sig_map_from_pbtools A (transaction_message t) s)) (w\<lparr>wgx_sig_map := []\<rparr>)
    (w\<lparr>wgx_sig_map := wgx_sig_map t\<rparr>) (96 * length (wgx_sig_map t) + 7)"
proof (cases "wgx_sig_map t = []")
  case True
  then show ?thesis by (intro builds_nothing) (simp add: sig_map_from_pbtools_def transaction_message_def)
next
  case False
  let ?qs = "wgx_sig_map t"
  have copy: "copy_items signature_pair_from_pbtools grdw_gradido_transaction_copy_sig_map (map signature_message ?qs) 0
      zero_signature_pair (Some (w\<lparr>wgx_sig_map := replicate (length ?qs) zero_signature_pair\<rparr>))
      = (ARNM_SUCCESS, Some (w\<lparr>wgx_sig_map := ?qs\<rparr>))"
    using copy_items_back [where put = "\<lambda>xs w. w\<lparr>wgx_sig_map := xs\<rparr>" and es = "[]" and fs = ?qs
        and read = signature_pair_from_pbtools and msg = signature_message and copy = grdw_gradido_transaction_copy_sig_map]
      ok by (simp add: signature_back copy_signature_back list_all_iff)
  show ?thesis unfolding builds_def
  proof (intro allI impI)
    fix p assume k: "96 * length ?qs + 7 \<le> avail p"
    have pos: "0 < 96 * length ?qs" using False by simp
    obtain p' where p': "mem_alloc A (96 * length ?qs) p = (ARNM_SUCCESS, p')" "avail p \<le> avail p' + (96 * length ?qs + 7)"
      using supplies_alloc [OF A pos k] by blast
    have m: "pgx_sig_map_p (transaction_message t) = Some \<lparr>psm_sig_pair = map signature_message ?qs\<rparr>"
      using False by (simp add: transaction_message_def)
    show "\<exists>p'. Inr (sig_map_from_pbtools A (transaction_message t) (Some (w\<lparr>wgx_sig_map := []\<rparr>), p))
        = Inr (ARNM_SUCCESS, Some (w\<lparr>wgx_sig_map := ?qs\<rparr>), p') \<and> avail p \<le> avail p' + (96 * length ?qs + 7)"
      using p' ok(2) False
      by (intro exI [of _ p']) (simp add: sig_map_from_pbtools_def m grdw_gradido_transaction_reserve_sig_map_def
          unat_word_8 word_8_zero SIZEOF_grdw_signature_pair_def bind_ok_def copy)
  qed
qed

lemma body_bytes_back:
  assumes A: "supplies A avail" and bs: "wgx_body_bytes t \<noteq> []"
  shows "builds avail (\<lambda>s. Inr (body_bytes_from_pbtools A (transaction_message t) s)) w
    (w\<lparr>wgx_body_bytes := wgx_body_bytes t\<rparr>) (length (wgx_body_bytes t) + 7)"
  unfolding builds_def
proof (intro allI impI)
  fix p assume k: "length (wgx_body_bytes t) + 7 \<le> avail p"
  obtain p' where "memory_block_from_pbtools A (wgx_body_bytes t) (wgx_body_bytes w, p) = (ARNM_SUCCESS, wgx_body_bytes t, p')"
    "avail p \<le> avail p' + (length (wgx_body_bytes t) + 7)"
    using supplies_block [OF A bs k] by blast
  then show "\<exists>p'. Inr (body_bytes_from_pbtools A (transaction_message t) (Some w, p))
      = Inr (ARNM_SUCCESS, Some (w\<lparr>wgx_body_bytes := wgx_body_bytes t\<rparr>), p')
      \<and> avail p \<le> avail p' + (length (wgx_body_bytes t) + 7)"
    by (intro exI [of _ p']) (simp add: body_bytes_from_pbtools_def transaction_message_def)
qed

definition transaction_room :: "grdw_gradido_transaction \<Rightarrow> nat" where
  "transaction_room t = 96 * length (wgx_sig_map t) + 7 + (length (wgx_body_bytes t) + 7)"

lemma transaction_back:
  assumes A: "supplies A avail" and ok: "transaction_ok t"
  shows "builds avail (grdm_gradido_transaction_from_pb A (Some (transaction_message t))) grdw_gradido_transaction_init
    (transaction_view t) (transaction_room t)"
proof -
  let ?m = "transaction_message t" and ?w0 = grdw_gradido_transaction_init
  let ?w1 = "?w0\<lparr>wgx_sig_map := wgx_sig_map t\<rparr>"
  let ?w2 = "?w1\<lparr>wgx_pairing_ledger_anchor := wgx_pairing_ledger_anchor (transaction_view t)\<rparr>"
  have sigs: "builds avail (\<lambda>s. Inr (sig_map_from_pbtools A ?m s)) ?w0 ?w1 (96 * length (wgx_sig_map t) + 7)"
    using signatures_back [OF A, of t ?w0] ok by (simp add: transaction_ok_def grdw_gradido_transaction_init_def)
  have pairing: "builds avail (in_struct (pairing_anchor_from_pbtools ?m)) ?w1 ?w2 0"
    by (intro builds_struct pairing_back) (simp add: grdw_gradido_transaction_init_def)
  have view: "?w2\<lparr>wgx_body_bytes := wgx_body_bytes t\<rparr> = transaction_view t"
    by (cases t) (simp add: transaction_view_def grdw_gradido_transaction_init_def)
  have block: "builds avail (\<lambda>s. Inr (body_bytes_from_pbtools A ?m s)) ?w2 (?w2\<lparr>wgx_body_bytes := wgx_body_bytes t\<rparr>)
      (length (wgx_body_bytes t) + 7)"
    by (rule body_bytes_back [OF A]) (use ok in \<open>simp add: transaction_ok_def\<close>)
  have "builds avail (\<lambda>s. then_ok (Inr (sig_map_from_pbtools A ?m s)) (\<lambda>s.
      then_ok (in_struct (pairing_anchor_from_pbtools ?m) s) (\<lambda>s. Inr (body_bytes_from_pbtools A ?m s)))) ?w0 (transaction_view t)
      (96 * length (wgx_sig_map t) + 7 + (0 + (length (wgx_body_bytes t) + 7)))"
    using builds_then [OF sigs builds_then [OF pairing block]] unfolding view .
  then show ?thesis
    by (simp add: builds_def grdm_gradido_transaction_from_pb_def transaction_room_def)
qed

section \<open>The confirmed transaction\<close>

lemma balance_back: "balance_ok b \<Longrightarrow> account_balance_from_pbtools (Some (balance_message b)) x = (ARNM_SUCCESS, b)"
  by (cases b) (simp add: account_balance_from_pbtools_def balance_message_def balance_ok_def community_uuid_from_pbtools_def)

lemma copy_balance_back:
  "i < length xs \<Longrightarrow> length xs < 255 \<Longrightarrow>
    grdw_confirmed_transaction_copy_account_balance (Some b) (word_of_nat i) (Some (t\<lparr>wcx_account_balances := xs\<rparr>))
      = (ARNM_SUCCESS, Some (t\<lparr>wcx_account_balances := xs[i := b]\<rparr>))"
  by (simp add: grdw_confirmed_transaction_copy_account_balance_def unat_word_8)

lemma balances_back:
  assumes A: "supplies A avail" and ok: "list_all balance_ok bs" "length bs < 255"
    and m: "pcx_account_balances m = map balance_message bs"
  shows "builds avail (\<lambda>s. Inr (balances_from_pbtools A m s)) (w\<lparr>wcx_account_balances := []\<rparr>)
    (w\<lparr>wcx_account_balances := bs\<rparr>) (56 * length bs + 7)"
proof (cases "bs = []")
  case True
  then show ?thesis by (intro builds_nothing) (simp add: balances_from_pbtools_def m)
next
  case False
  have copy: "copy_items account_balance_from_pbtools grdw_confirmed_transaction_copy_account_balance (map balance_message bs) 0
      zero_account_balance (Some (w\<lparr>wcx_account_balances := replicate (length bs) zero_account_balance\<rparr>))
      = (ARNM_SUCCESS, Some (w\<lparr>wcx_account_balances := bs\<rparr>))"
    using copy_items_back [where put = "\<lambda>xs w. w\<lparr>wcx_account_balances := xs\<rparr>" and es = "[]" and fs = bs
        and read = account_balance_from_pbtools and msg = balance_message and copy = grdw_confirmed_transaction_copy_account_balance]
      ok by (simp add: balance_back copy_balance_back list_all_iff)
  show ?thesis unfolding builds_def
  proof (intro allI impI)
    fix p assume k: "56 * length bs + 7 \<le> avail p"
    have pos: "0 < 56 * length bs" using False by simp
    obtain p' where p': "mem_alloc A (56 * length bs) p = (ARNM_SUCCESS, p')" "avail p \<le> avail p' + (56 * length bs + 7)"
      using supplies_alloc [OF A pos k] by blast
    show "\<exists>p'. Inr (balances_from_pbtools A m (Some (w\<lparr>wcx_account_balances := []\<rparr>), p))
        = Inr (ARNM_SUCCESS, Some (w\<lparr>wcx_account_balances := bs\<rparr>), p') \<and> avail p \<le> avail p' + (56 * length bs + 7)"
      using p' ok(2) False
      by (intro exI [of _ p']) (simp add: balances_from_pbtools_def m grdw_confirmed_transaction_reserve_account_balances_def
          unat_word_8 word_8_zero SIZEOF_grdw_account_balance_def bind_ok_def copy)
  qed
qed

definition confirmed_room :: "grdw_confirmed_transaction \<Rightarrow> nat" where
  "confirmed_room t = transaction_room (wcx_transaction t) + (56 * length (wcx_account_balances t) + 7)"

lemma inner_back:
  assumes A: "supplies A avail" and ok: "transaction_ok t"
    and m: "pcx_transaction_p m = Some (transaction_message t)" and w: "wcx_transaction w = grdw_gradido_transaction_init"
  shows "builds avail (inner_transaction_from_pbtools A m) w (w\<lparr>wcx_transaction := transaction_view t\<rparr>) (transaction_room t)"
  unfolding builds_def
proof (intro allI impI)
  fix p assume "transaction_room t \<le> avail p"
  then obtain p' where "grdm_gradido_transaction_from_pb A (Some (transaction_message t)) (Some grdw_gradido_transaction_init, p)
      = Inr (ARNM_SUCCESS, Some (transaction_view t), p')" "avail p \<le> avail p' + transaction_room t"
    using transaction_back [OF A ok] unfolding builds_def by blast
  then show "\<exists>p'. inner_transaction_from_pbtools A m (Some w, p)
      = Inr (ARNM_SUCCESS, Some (w\<lparr>wcx_transaction := transaction_view t\<rparr>), p') \<and> avail p \<le> avail p' + transaction_room t"
    by (intro exI [of _ p']) (simp add: inner_transaction_from_pbtools_def m w put_result_def)
qed

lemma confirmed_back:
  assumes A: "supplies A avail" and ok: "confirmed_ok t"
  shows "builds avail (grdm_confirmed_transaction_from_pb A (Some (confirmed_message t))) grdw_confirmed_transaction_init
    (confirmed_view t) (confirmed_room t)"
proof -
  let ?m = "confirmed_message t"
  let ?w0 = "grdw_confirmed_transaction_init\<lparr>wcx_id := wcx_id t\<rparr>"
  let ?w1 = "?w0\<lparr>wcx_transaction := transaction_view (wcx_transaction t)\<rparr>"
  let ?w2 = "?w1\<lparr>wcx_confirmed_at := wcx_confirmed_at t, wcx_running_hash := wcx_running_hash t,
    wcx_ledger_anchor := anchor_view (wcx_ledger_anchor t)\<rparr>"
  have inner: "builds avail (inner_transaction_from_pbtools A ?m) ?w0 ?w1 (transaction_room (wcx_transaction t))"
    by (rule inner_back [OF A]) (use ok in \<open>simp_all add: confirmed_ok_def confirmed_message_def grdw_confirmed_transaction_init_def\<close>)
  have rest: "builds avail (in_struct (confirmed_rest_from_pbtools ?m)) ?w1 ?w2 0"
    by (rule builds_struct)
      (use ok in \<open>simp add: confirmed_rest_from_pbtools_def confirmed_message_def timestamp_back put_result_def confirmed_ok_def
        grdw_confirmed_transaction_init_def anchor_back\<close>)
  have view: "?w2\<lparr>wcx_account_balances := wcx_account_balances t\<rparr> = confirmed_view t"
    by (cases t) (simp add: confirmed_view_def grdw_confirmed_transaction_init_def)
  have empty: "?w2\<lparr>wcx_account_balances := []\<rparr> = ?w2" by (simp add: grdw_confirmed_transaction_init_def)
  have balances: "builds avail (\<lambda>s. Inr (balances_from_pbtools A ?m s)) ?w2 (?w2\<lparr>wcx_account_balances := wcx_account_balances t\<rparr>)
      (56 * length (wcx_account_balances t) + 7)"
    using balances_back [OF A, of "wcx_account_balances t" ?m ?w2] ok empty by (simp add: confirmed_ok_def confirmed_message_def)
  have "builds avail (\<lambda>s. then_ok (inner_transaction_from_pbtools A ?m s) (\<lambda>s.
      then_ok (in_struct (confirmed_rest_from_pbtools ?m) s) (\<lambda>s. Inr (balances_from_pbtools A ?m s)))) ?w0 (confirmed_view t)
      (transaction_room (wcx_transaction t) + (0 + (56 * length (wcx_account_balances t) + 7)))"
    using builds_then [OF inner builds_then [OF rest balances]] unfolding view .
  then show ?thesis
    by (simp add: builds_def grdm_confirmed_transaction_from_pb_def confirmed_message_def confirmed_room_def)
qed

end
