(* ===== verification/GRD_Wire_Whole.thy ===== *)
theory GRD_Wire_Whole
  imports GRD_Wire_Round
begin

text \<open>
  The whole way of the wire structs: what \<open>encode\<close> writes, \<open>decode\<close> reads back. The locale \<open>wire_form\<close> states what
  the course of an encode and of a decode relies on, that the mappings and the codec of its message keep it, and
  the two courses are carried out once; body, transaction and confirmed transaction interpret it.
\<close>

section \<open>A new message in its workspace\<close>

lemma message_new_room:
  assumes "16 + 7 + n + r \<le> k" "k < 2147483648"
  shows "\<exists>h. pbtools_message_new address k n init = Some (init, h) \<and> heap_room r h \<and> hp_size h = int k"
proof -
  let ?h = "\<lparr>hp_base = address, hp_size = int k, hp_pos = 16\<rparr>"
  have "heap_room (n + 7 + r) ?h" using assms by (simp add: heap_room_def)
  from heap_alloc_room [OF this, of ALIGN_MESSAGE] obtain h where
    "heap_alloc n ALIGN_MESSAGE ?h = (True, h)" "heap_room r h" "hp_size h = hp_size ?h"
    by (auto simp: ALIGN_MESSAGE_def)
  then show ?thesis
    using assms by (simp add: pbtools_message_new_def heap_new_def SIZEOF_HEAP_def c_int_small)
qed

section \<open>The two courses\<close>

locale wire_form =
  fixes new :: "nat \<Rightarrow> nat \<Rightarrow> ('m \<times> pb_heap) option"
    and from_wire :: "'w option \<Rightarrow> 'm option \<times> pb_heap \<Rightarrow> arnm_result \<times> 'm option \<times> pb_heap"
    and encode :: "'m \<Rightarrow> nat \<Rightarrow> c_fault + int \<times> bytes"
    and decode :: "'m \<Rightarrow> bytes \<Rightarrow> nat \<Rightarrow> pb_heap \<Rightarrow> int \<times> 'm \<times> pb_heap"
    and from_pb :: "'p arnm_memory \<Rightarrow> 'm option \<Rightarrow> 'w option \<times> 'p \<Rightarrow> c_fault + arnm_result \<times> 'w option \<times> 'p"
    and init :: 'm
    and message_size :: nat
    and enc :: "'m \<Rightarrow> bytes"
    and need :: "'m \<Rightarrow> nat"
    and message :: "'w \<Rightarrow> 'm"
    and ok :: "'w \<Rightarrow> bool"
    and start :: 'w
    and view :: "'w \<Rightarrow> 'w"
    and struct_room :: "'p arnm_memory \<Rightarrow> 'w \<Rightarrow> nat"
  assumes new_room: "16 + 7 + message_size + r \<le> k \<Longrightarrow> k < 2147483648 \<Longrightarrow>
      \<exists>h. new address k = Some (init, h) \<and> heap_room r h \<and> hp_size h = int k"
    and fills_message: "ok w \<Longrightarrow> heap_room (need (message w)) h \<Longrightarrow>
      \<exists>h'. from_wire (Some w) (Some init, h) = (ARNM_SUCCESS, Some (message w), h')"
    and writes_bytes: "ok w \<Longrightarrow> short (enc (message w)) \<Longrightarrow> length (enc (message w)) < k \<Longrightarrow> k < 2147483648 \<Longrightarrow>
      encode (message w) k = Inr (int (length (enc (message w))), enc (message w))"
    and reads_message: "ok w \<Longrightarrow> short (enc (message w)) \<Longrightarrow> heap_room (need (message w) + r) h \<Longrightarrow>
      \<exists>h'. decode init (enc (message w)) (length (enc (message w))) h = (int (length (enc (message w))), message w, h')
        \<and> heap_room r h' \<and> hp_size h' = hp_size h"
    and builds_struct_back: "ok w \<Longrightarrow> supplies A avail \<Longrightarrow> builds avail (from_pb A (Some (message w))) start (view w) (struct_room A w)"
    and not_empty: "ok w \<Longrightarrow> enc (message w) \<noteq> []"
begin

text \<open>The room in the arena: the header of the workspace, the message and what it holds, each aligned.\<close>

definition encode_room :: "'w \<Rightarrow> nat" where
  "encode_room w = 16 + 7 + message_size + need (message w)"

definition decode_room :: "'p arnm_memory \<Rightarrow> 'w \<Rightarrow> nat" where
  "decode_room A w = encode_room w + 7 + struct_room A w"

lemma workspace_taken:
  assumes A: "supplies A avail" and room: "16 + 7 + message_size + r \<le> avail p"
  shows "\<exists>p' h. mem_block_alloc A (mem_arena_remaining A p) p = (ARNM_SUCCESS, p') \<and> mem_is_arena A p
    \<and> mem_arena_remaining A p \<noteq> 0
    \<and> (\<forall>used. used \<le> avail p \<longrightarrow>
         (\<exists>n p''. mem_block_realloc A (mem_arena_remaining A p) (word_of_nat used) p' = (ARNM_SUCCESS, n, p'')
            \<and> avail p \<le> avail p'' + (used + 7)))
    \<and> new (mem_block_address A p') (unat (mem_arena_remaining A p)) = Some (init, h) \<and> heap_room r h \<and> hp_size h = int (avail p)"
proof -
  have u: "unat (mem_arena_remaining A p) = avail p" and pos: "0 < avail p"
    using A room unfolding supplies_def by auto
  obtain p' where p': "mem_block_alloc A (mem_arena_remaining A p) p = (ARNM_SUCCESS, p')"
    "\<forall>used. used \<le> avail p \<longrightarrow>
       (\<exists>n p''. mem_block_realloc A (mem_arena_remaining A p) (word_of_nat used) p' = (ARNM_SUCCESS, n, p'')
          \<and> avail p \<le> avail p'' + (used + 7))"
    using A pos unfolding supplies_def by blast
  have "mem_is_arena A p" using A unfolding supplies_def by blast
  moreover have "mem_arena_remaining A p \<noteq> 0" using u pos by auto
  ultimately show ?thesis using p' new_room [OF room supplies_small(1) [OF A], of "mem_block_address A p'"] u by auto
qed

lemma encodes_whole:
  assumes A: "supplies A avail" and w: "ok w" "short (enc (message w))"
    and n: "length (enc (message w)) < unat n" "unat n < 2147483648"
    and room: "encode_room w \<le> avail p"
  shows "\<exists>p'. encode_message A new from_wire encode (Some n) (Some w) p
    = Inr (ARNM_SUCCESS, Some (int (length (enc (message w))), enc (message w)), p')"
proof -
  have "16 + 7 + message_size + need (message w) \<le> avail p" using room by (simp add: encode_room_def)
  from workspace_taken [OF A this] obtain p' h where
    p': "mem_block_alloc A (mem_arena_remaining A p) p = (ARNM_SUCCESS, p')"
      "new (mem_block_address A p') (unat (mem_arena_remaining A p)) = Some (init, h)" and h: "heap_room (need (message w)) h"
    by blast
  obtain h' where h': "from_wire (Some w) (Some init, h) = (ARNM_SUCCESS, Some (message w), h')"
    using fills_message [OF w(1) h] by blast
  have "n \<noteq> 0" using n(1) by auto
  then show ?thesis
    using p' h' writes_bytes [OF w n]
    by (simp add: encode_message_def Let_def PBTOOLS_ENCODE_BUFFER_FULL_def PBTOOLS_OUT_OF_MEMORY_def)
qed

lemma decodes_whole:
  assumes A: "supplies A avail" and w: "ok w" "short (enc (message w))"
    and room: "decode_room A w \<le> avail p"
  shows "\<exists>p'. decode_message A new decode (from_pb A) (Some (enc (message w))) (Some start, p) = Inr (ARNM_SUCCESS, Some (view w), p')
    \<and> avail p \<le> avail p' + decode_room A w"
proof -
  let ?bs = "enc (message w)" and ?k = "need (message w)"
  define r where "r = avail p - encode_room w"
  have k: "16 + 7 + message_size + (?k + r) \<le> avail p" using room by (simp add: r_def encode_room_def decode_room_def)
  from workspace_taken [OF A k] obtain p1 h where
    p1: "mem_block_alloc A (mem_arena_remaining A p) p = (ARNM_SUCCESS, p1)" "mem_is_arena A p" "mem_arena_remaining A p \<noteq> 0"
      "new (mem_block_address A p1) (unat (mem_arena_remaining A p)) = Some (init, h)"
    and realloc: "\<And>used. used \<le> avail p \<Longrightarrow>
       \<exists>n p''. mem_block_realloc A (mem_arena_remaining A p) (word_of_nat used) p1 = (ARNM_SUCCESS, n, p'')
          \<and> avail p \<le> avail p'' + (used + 7)"
    and h: "heap_room (?k + r) h" "hp_size h = int (avail p)"
    by blast
  obtain h' where h': "decode init ?bs (length ?bs) h = (int (length ?bs), message w, h')" "heap_room r h'"
    "hp_size h' = int (avail p)"
    using reads_message [OF w h(1)] h(2) by auto
  have used: "0 \<le> hp_pos h'" "nat (hp_pos h') \<le> encode_room w" "nat (hp_pos h') \<le> avail p"
    using h'(2,3) room by (auto simp: heap_room_def r_def decode_room_def)
  obtain n p2 where p2: "mem_block_realloc A (mem_arena_remaining A p) (word_of_nat (nat (hp_pos h'))) p1 = (ARNM_SUCCESS, n, p2)"
    "avail p \<le> avail p2 + (nat (hp_pos h') + 7)"
    using realloc [OF used(3)] by blast
  have "struct_room A w \<le> avail p2" using p2(2) used(2) room by (simp add: decode_room_def)
  then obtain p3 where p3: "from_pb A (Some (message w)) (Some start, p2) = Inr (ARNM_SUCCESS, Some (view w), p3)"
    "avail p2 \<le> avail p3 + struct_room A w"
    using builds_struct_back [OF w(1) A] unfolding builds_def by blast
  have "word_of_int (hp_pos h') = (word_of_nat (nat (hp_pos h')) :: u32)" using used(1) by (metis int_nat_eq of_int_of_nat_eq)
  moreover have "avail p3 \<le> avail (mem_block_free A n p3)" using A unfolding supplies_def by blast
  then have "avail p \<le> avail (mem_block_free A n p3) + decode_room A w"
    using p2(2) p3(2) used(2) by (simp add: decode_room_def)
  ultimately show ?thesis
    using p1 h'(1) p2(1) p3(1) used(1) not_empty [OF w(1)]
    by (simp add: decode_message_def grdw_pb_workspace_take_def grdw_pb_decode_finish_def Let_def)
qed

end

section \<open>Body, transaction, confirmed transaction\<close>

lemma pointers_fill:
  assumes "fills (f w) m m' k" "heap_room k h"
  shows "\<exists>h'. on_pointers f (Some w) (Some m, h) = (ARNM_SUCCESS, Some m', h')"
proof -
  have "heap_room (k + 0) h" using assms(2) by simp
  then obtain h' where "f w (m, h) = (ARNM_SUCCESS, m', h')" using assms(1) unfolding fills_def by blast
  then show ?thesis by (simp add: on_pointers_def)
qed

lemma body_bytes_not_empty: "transaction_body_bytes (body_message b) \<noteq> []"
  by (simp add: transaction_body_bytes_def body_message_fields varint_field_def varint_field_always_def GRDU_GRADIDO_PROTOCOL_VERSION_def
      tag_bytes_def varint_not_empty)

lemma transaction_bytes_not_empty: "transaction_ok t \<Longrightarrow> gradido_transaction_bytes (transaction_message t) \<noteq> []"
  by (simp add: gradido_transaction_bytes_def transaction_ok_def transaction_message_def bytes_field_def length_field_def)

lemma confirmed_bytes_not_empty: "confirmed_transaction_bytes (confirmed_message t) \<noteq> []"
  by (simp add: confirmed_transaction_bytes_def confirmed_message_def sub_field_def length_field_def tag_bytes_def varint_not_empty)

interpretation body_form: wire_form proto_gradido_transaction_body_new grdm_transaction_body_from_wire
  proto_gradido_transaction_body_encode proto_gradido_transaction_body_decode grdm_transaction_body_from_pbtools
  proto_gradido_transaction_body_init SIZEOF_transaction_body transaction_body_bytes transaction_body_need body_message body_ok
  grdw_transaction_body_init body_view body_room
proof unfold_locales
  fix w :: grdw_transaction_body and h r
  assume ok: "body_ok w"
  show "transaction_body_bytes (body_message w) \<noteq> []" by (rule body_bytes_not_empty)
  show "\<exists>h'. grdm_transaction_body_from_wire (Some w) (Some proto_gradido_transaction_body_init, h) = (ARNM_SUCCESS, Some (body_message w), h')"
    if "heap_room (transaction_body_need (body_message w)) h"
    unfolding grdm_transaction_body_from_wire_def
    by (rule pointers_fill [where f = body_from_wire, OF body_need that]) (use ok in \<open>simp add: body_ok_def\<close>)
  show "builds avail (grdm_transaction_body_from_pbtools A (Some (body_message w))) grdw_transaction_body_init (body_view w) (body_room A w)"
    if "supplies A avail" for A :: "'a arnm_memory" and avail
    by (rule body_back [OF that ok])
  assume sh: "short (transaction_body_bytes (body_message w))"
  show "proto_gradido_transaction_body_encode (body_message w) k = Inr (int (length (transaction_body_bytes (body_message w))), transaction_body_bytes (body_message w))"
    if "length (transaction_body_bytes (body_message w)) < k" "k < 2147483648" for k
    unfolding proto_gradido_transaction_body_encode_def by (rule transaction_body.buffer_encodes [OF body_message_proper sh that])
  show "\<exists>h'. proto_gradido_transaction_body_decode proto_gradido_transaction_body_init (transaction_body_bytes (body_message w))
      (length (transaction_body_bytes (body_message w))) h = (int (length (transaction_body_bytes (body_message w))), body_message w, h')
      \<and> heap_room r h' \<and> hp_size h' = hp_size h"
    if "heap_room (transaction_body_need (body_message w) + r) h"
    unfolding proto_gradido_transaction_body_decode_def by (rule transaction_body.buffer_decodes [OF body_message_proper sh that])
qed (simp add: proto_gradido_transaction_body_new_def message_new_room)

interpretation transaction_form: wire_form proto_gradido_gradido_transaction_new grdm_gradido_transaction_from_wire
  proto_gradido_gradido_transaction_encode proto_gradido_gradido_transaction_decode grdm_gradido_transaction_from_pb
  proto_gradido_gradido_transaction_init SIZEOF_gradido_transaction gradido_transaction_bytes gradido_transaction_need transaction_message transaction_ok
  grdw_gradido_transaction_init transaction_view "\<lambda>A. transaction_room"
proof unfold_locales
  fix w :: grdw_gradido_transaction and h r
  assume ok: "transaction_ok w"
  show "gradido_transaction_bytes (transaction_message w) \<noteq> []" by (rule transaction_bytes_not_empty [OF ok])
  show "\<exists>h'. grdm_gradido_transaction_from_wire (Some w) (Some proto_gradido_gradido_transaction_init, h) = (ARNM_SUCCESS, Some (transaction_message w), h')"
    if "heap_room (gradido_transaction_need (transaction_message w)) h"
    unfolding grdm_gradido_transaction_from_wire_def
    by (rule pointers_fill [where f = transaction_from_wire, OF transaction_need that]) (use ok in \<open>simp add: transaction_ok_def\<close>)
  show "builds avail (grdm_gradido_transaction_from_pb A (Some (transaction_message w))) grdw_gradido_transaction_init (transaction_view w) (transaction_room w)"
    if "supplies A avail" for A :: "'a arnm_memory" and avail
    by (rule transaction_back [OF that ok])
  assume sh: "short (gradido_transaction_bytes (transaction_message w))"
  show "proto_gradido_gradido_transaction_encode (transaction_message w) k = Inr (int (length (gradido_transaction_bytes (transaction_message w))), gradido_transaction_bytes (transaction_message w))"
    if "length (gradido_transaction_bytes (transaction_message w)) < k" "k < 2147483648" for k
    unfolding proto_gradido_gradido_transaction_encode_def by (rule gradido_transaction.buffer_encodes [OF transaction_message_proper sh that])
  show "\<exists>h'. proto_gradido_gradido_transaction_decode proto_gradido_gradido_transaction_init (gradido_transaction_bytes (transaction_message w))
      (length (gradido_transaction_bytes (transaction_message w))) h = (int (length (gradido_transaction_bytes (transaction_message w))), transaction_message w, h')
      \<and> heap_room r h' \<and> hp_size h' = hp_size h"
    if "heap_room (gradido_transaction_need (transaction_message w) + r) h"
    unfolding proto_gradido_gradido_transaction_decode_def by (rule gradido_transaction.buffer_decodes [OF transaction_message_proper sh that])
qed (simp add: proto_gradido_gradido_transaction_new_def message_new_room)

interpretation confirmed_form: wire_form proto_gradido_confirmed_transaction_new grdm_confirmed_transaction_from_wire
  proto_gradido_confirmed_transaction_encode proto_gradido_confirmed_transaction_decode grdm_confirmed_transaction_from_pb
  proto_gradido_confirmed_transaction_init SIZEOF_confirmed_transaction confirmed_transaction_bytes confirmed_transaction_need confirmed_message confirmed_ok
  grdw_confirmed_transaction_init confirmed_view "\<lambda>A. confirmed_room"
proof unfold_locales
  fix w :: grdw_confirmed_transaction and h r
  assume ok: "confirmed_ok w"
  show "confirmed_transaction_bytes (confirmed_message w) \<noteq> []" by (rule confirmed_bytes_not_empty)
  show "\<exists>h'. grdm_confirmed_transaction_from_wire (Some w) (Some proto_gradido_confirmed_transaction_init, h) = (ARNM_SUCCESS, Some (confirmed_message w), h')"
    if "heap_room (confirmed_transaction_need (confirmed_message w)) h"
    unfolding grdm_confirmed_transaction_from_wire_def
    by (rule pointers_fill [where f = confirmed_from_wire, OF confirmed_need that]) (use ok in \<open>simp_all add: confirmed_ok_def transaction_ok_def\<close>)
  show "builds avail (grdm_confirmed_transaction_from_pb A (Some (confirmed_message w))) grdw_confirmed_transaction_init (confirmed_view w) (confirmed_room w)"
    if "supplies A avail" for A :: "'a arnm_memory" and avail
    by (rule confirmed_back [OF that ok])
  assume sh: "short (confirmed_transaction_bytes (confirmed_message w))"
  show "proto_gradido_confirmed_transaction_encode (confirmed_message w) k = Inr (int (length (confirmed_transaction_bytes (confirmed_message w))), confirmed_transaction_bytes (confirmed_message w))"
    if "length (confirmed_transaction_bytes (confirmed_message w)) < k" "k < 2147483648" for k
    unfolding proto_gradido_confirmed_transaction_encode_def by (rule confirmed_transaction.buffer_encodes [OF confirmed_message_proper sh that])
  show "\<exists>h'. proto_gradido_confirmed_transaction_decode proto_gradido_confirmed_transaction_init (confirmed_transaction_bytes (confirmed_message w))
      (length (confirmed_transaction_bytes (confirmed_message w))) h = (int (length (confirmed_transaction_bytes (confirmed_message w))), confirmed_message w, h')
      \<and> heap_room r h' \<and> hp_size h' = hp_size h"
    if "heap_room (confirmed_transaction_need (confirmed_message w) + r) h"
    unfolding proto_gradido_confirmed_transaction_decode_def by (rule confirmed_transaction.buffer_decodes [OF confirmed_message_proper sh that])
qed (simp add: proto_gradido_confirmed_transaction_new_def message_new_room)

section \<open>An arena that takes its bytes one after the other\<close>

definition plain_arena :: "31 word arnm_memory" where
  "plain_arena =
     \<lparr>mem_alloc = (\<lambda>n p. if n \<le> unat p then (ARNM_SUCCESS, p - word_of_nat n) else (ARNM_ERROR_OUT_OF_MEMORY, p)),
      mem_free = (\<lambda>n p. p),
      mem_clone = (\<lambda>n p. if n \<le> unat p then (ARNM_SUCCESS, p - word_of_nat n) else (ARNM_ERROR_OUT_OF_MEMORY, p)),
      mem_block_alloc = (\<lambda>n p. if unat n \<le> unat p then (ARNM_SUCCESS, p - word_of_nat (unat n)) else (ARNM_ERROR_OUT_OF_MEMORY, p)),
      mem_block_clone = (\<lambda>bs p. if length bs \<le> unat p then (ARNM_SUCCESS, p - word_of_nat (length bs)) else (ARNM_ERROR_OUT_OF_MEMORY, p)),
      mem_block_realloc = (\<lambda>n n' p. (ARNM_SUCCESS, n', p + word_of_nat (unat n - unat n'))),
      mem_block_free = (\<lambda>n p. p),
      mem_is_arena = (\<lambda>p. True),
      mem_arena_remaining = (\<lambda>p. word_of_nat (unat p)),
      mem_block_address = (\<lambda>p. 0),
      mem_init_arena = (\<lambda>n. (ARNM_SUCCESS, word_of_nat (unat n))),
      mem_init_arena_borrow = (\<lambda>n. (ARNM_SUCCESS, word_of_nat (unat n))),
      mem_align8 = (\<lambda>n. (n + 7) div 8 * 8),
      sizeof_memory_block = 16,
      max_alloc_size = 2147483647\<rparr>"

lemma unat_31: "unat (p :: 31 word) < 2147483648"
  using unsigned_less [of p, where 'a = nat] by simp

lemma unat_word_31: "n < 2147483648 \<Longrightarrow> unat (word_of_nat n :: 31 word) = n"
  by (simp add: unsigned_of_nat take_bit_nat_eq_self)

lemma unat_minus_31: "n \<le> unat p \<Longrightarrow> unat (p - word_of_nat n :: 31 word) = unat p - n"
  using unat_31 [of p] by (simp add: unat_sub word_le_nat_alt unat_word_31)

lemma unat_ucast_31: "unat (ucast (p :: 31 word) :: u32) = unat p"
  using unat_31 [of p] by (simp add: unsigned_ucast_eq take_bit_nat_eq_self)

lemma unat_minus_ucast_31: "unat n \<le> unat p \<Longrightarrow> unat (p - ucast (n :: u32) :: 31 word) = unat p - unat n"
  using unat_minus_31 [of "unat n" p] by simp

lemma plain_arena_supplies: "supplies plain_arena unat"
proof -
  have rest: "unat p \<le> unat (word_of_nat (unat p - used) :: 31 word) + (used + 7)"
    if "used \<le> unat p" for p :: "31 word" and used
    using that by (simp add: unat_minus_31)
  have used: "unat (word_of_nat used :: u32) = used" if "used \<le> unat p" for p :: "31 word" and used
    using that unat_31 [of p] by (simp add: unat_word_32)
  show ?thesis
    unfolding supplies_def using rest unat_31
    by (auto simp: plain_arena_def unat_minus_31 unat_minus_ucast_31 unat_ucast_31 less_Suc_eq_le [symmetric] used)
qed

section \<open>There and back\<close>

definition sample_body :: grdw_transaction_body where
  "sample_body = grdw_transaction_body_init
     \<lparr>wbx_memos := [\<lparr>em_type = 1, em_memo = [104, 105]\<rparr>], wbx_transaction_type := GRDT_TRANSACTION_CREATION\<rparr>"

definition sample_transaction :: grdw_gradido_transaction where
  "sample_transaction = grdw_gradido_transaction_init
     \<lparr>wgx_sig_map := [zero_signature_pair], wgx_body_bytes := [7, 7, 7]\<rparr>"

definition sample_wire :: grdw_confirmed_transaction where
  "sample_wire = grdw_confirmed_transaction_init
     \<lparr>wcx_id := 300, wcx_transaction := sample_transaction, wcx_account_balances := [zero_account_balance]\<rparr>"

lemma sample_wire_ok: "confirmed_ok sample_wire"
  by (simp add: confirmed_ok_def sample_wire_def sample_transaction_def transaction_ok_def signature_ok_def balance_ok_def
      zero_signature_pair_def zero_account_balance_def zeros_def grdw_confirmed_transaction_init_def)

lemma sample_body_ok: "body_ok sample_body"
  by (simp add: body_ok_def sample_body_def amount_ok_def zero_transfer_amount_def zeros_def grdw_transaction_body_init_def)

lemma sample_body_room: "body_room plain_arena sample_body = 63"
  by (simp add: body_room_def SIZEOF_grdw_encrypted_memo_def plain_arena_def memos_room_def sample_body_def grdw_transaction_body_init_def)

lemma sample_wire_sizes:
  "length (confirmed_transaction_bytes (confirmed_message sample_wire)) = 212"
  "confirmed_transaction_need (confirmed_message sample_wire) = 421" "confirmed_room sample_wire = 176"
  by code_simp+

text \<open>C28: A confirmed transaction written to its serialized form is read back from the bytes: every signature, the bytes
  of the body, the date, the hash, every balance and the anchors as far as their type says which member
  counts. The buffer is one byte longer than the encoding, and both arenas have room for the workspace of pbtools;
  reading needs room for what it builds as well.\<close>
theorem confirmed_wire_roundtrip:
  assumes A: "supplies A avail" and w: "confirmed_ok w" "short (confirmed_transaction_bytes (confirmed_message w))"
    and n: "length (confirmed_transaction_bytes (confirmed_message w)) < unat n" "unat n < 2147483648"
    and p: "16 + 7 + SIZEOF_confirmed_transaction + confirmed_transaction_need (confirmed_message w) \<le> avail p"
    and q: "16 + 7 + SIZEOF_confirmed_transaction + confirmed_transaction_need (confirmed_message w) + 7 + confirmed_room w \<le> avail q"
  shows "\<exists>bs p' q'. grdw_confirmed_transaction_encode A (Some n) (Some w) p = Inr (ARNM_SUCCESS, Some (int (length bs), bs), p')
    \<and> grdw_confirmed_transaction_decode A (Some bs) (Some grdw_confirmed_transaction_init, q)
      = Inr (ARNM_SUCCESS, Some (confirmed_view w), q')"
  using confirmed_form.encodes_whole [OF A w n, of p] confirmed_form.decodes_whole [OF A w, of q] p q
  by (auto simp: grdw_confirmed_transaction_encode_def grdw_confirmed_transaction_decode_def
      confirmed_form.encode_room_def confirmed_form.decode_room_def)

theorem confirmed_wire_roundtrip_witness:
  "\<exists>bs p' q'. grdw_confirmed_transaction_encode plain_arena (Some 300) (Some sample_wire) 1000 = Inr (ARNM_SUCCESS, Some (int (length bs), bs), p')
    \<and> grdw_confirmed_transaction_decode plain_arena (Some bs) (Some grdw_confirmed_transaction_init, 1000)
      = Inr (ARNM_SUCCESS, Some (confirmed_view sample_wire), q')"
  by (rule confirmed_wire_roundtrip [OF plain_arena_supplies sample_wire_ok]) (simp_all add: sample_wire_sizes SIZEOF_confirmed_transaction_def short_def)

text \<open>A transaction body written to its serialized form is read back from the bytes: every memo, the other community,
  the date, the type, and the specific transaction the type of the body names; the members of the union it does not name
  are as they were.\<close>
lemma body_wire_roundtrip:
  assumes A: "supplies A avail" and w: "body_ok w" "short (transaction_body_bytes (body_message w))"
    and n: "length (transaction_body_bytes (body_message w)) < unat n" "unat n < 2147483648"
    and p: "16 + 7 + SIZEOF_transaction_body + transaction_body_need (body_message w) \<le> avail p"
    and q: "16 + 7 + SIZEOF_transaction_body + transaction_body_need (body_message w) + 7 + body_room A w \<le> avail q"
  shows "\<exists>bs p' q'. grdw_transaction_body_encode A (Some n) (Some w) p = Inr (ARNM_SUCCESS, Some (int (length bs), bs), p')
    \<and> grdw_transaction_body_decode A (Some bs) (Some grdw_transaction_body_init, q) = Inr (ARNM_SUCCESS, Some (body_view w), q')"
  using body_form.encodes_whole [OF A w n, of p] body_form.decodes_whole [OF A w, of q] p q
  by (auto simp: grdw_transaction_body_encode_def grdw_transaction_body_decode_def
      body_form.encode_room_def body_form.decode_room_def)

lemma sample_body_sizes:
  "length (transaction_body_bytes (body_message sample_body)) = 72" "transaction_body_need (body_message sample_body) = 229"
  by code_simp+

end
