(* ===== verification/GRD_Peek.thy ===== *)
theory GRD_Peek
  imports GRD_Wire_Whole
begin

text \<open>
  Reading the number alone: \<open>grdw_confirmed_transaction_peek_id\<close> walks over the fields without pbtools and without
  memory. On what an encoder wrote it answers the number the decoder would; and whatever the bytes are, it reads
  no byte outside them.
\<close>

section \<open>Varints, tags, lengths\<close>

lemma drop_nth: "drop pos bs = b # rest \<Longrightarrow> pos < length bs \<and> bs ! pos = b \<and> drop (Suc pos) bs = rest"
  by (metis Cons_nth_drop_Suc drop_all leI list.distinct(1) list.inject)

lemma peek_varint_loop_at:
  assumes "drop pos bs = varint_bytes v @ rest" "shift < 64" "unat v < 2 ^ (64 - shift)"
  shows "peek_varint_loop bs shift acc pos = Some (acc OR push_bit shift v, pos + length (varint_bytes v))"
  using assms
proof (induction v arbitrary: acc pos shift rule: varint_bytes.induct)
  case (1 v)
  show ?case
  proof (cases "drop_bit 7 v > 0")
    case False
    let ?b = "(ucast v OR 0x80 :: u8) AND 0x7F"
    have z: "drop_bit 7 v = 0" using False by (simp add: word_less_unat word_unat_eq_iff)
    have vb: "varint_bytes v = [?b]" using False by (subst varint_bytes.simps) (simp add: Let_def)
    have v: "take_bit 7 v = v" using bits_ident [of 7 v] z by simp
    note at = drop_nth [of pos bs ?b rest] "1.prems"(1) [unfolded vb]
    have b: "ucast (?b AND 0x7F) = v"
      using varint_byte_last(2) [of v] v by (simp add: unsigned_and_eq)
    have "unat ?b = unat v"
    proof -
      have "unat (ucast ?b :: u64) = unat ?b" by (simp add: unsigned_ucast_eq take_bit_nat_eq_self less_trans [OF unat_lt_8])
      moreover have "?b AND 0x7F = ?b" by (simp only: and.assoc and.idem)
      ultimately show ?thesis using b by metis
    qed
    then have "\<not> (shift = 63 \<and> 1 < ?b)" using "1.prems"(3) by (auto simp: word_less_nat_alt)
    then show ?thesis
      using at "1.prems"(2) b varint_byte_last(1) [of v] unfolding vb
      by (subst peek_varint_loop.simps) (simp add: Let_def)
  next
    case True
    let ?b = "ucast v OR 0x80 :: u8"
    have vb: "varint_bytes v = ?b # varint_bytes (drop_bit 7 v)"
      using True by (subst varint_bytes.simps) (simp add: Let_def)
    note at = drop_nth [of pos bs ?b "varint_bytes (drop_bit 7 v) @ rest"] "1.prems"(1) [unfolded vb]
    note o = varint_more_fits [OF True "1.prems"(3)]
    have b: "ucast (?b AND 0x7F) = take_bit 7 v"
      using varint_byte_more(2) [of v] by (simp add: unsigned_and_eq)
    have "drop (Suc pos) bs = varint_bytes (drop_bit 7 v) @ rest" using at by simp
    from "1.IH" [OF refl refl True this o] have
      "peek_varint_loop bs (shift + 7) (acc OR push_bit shift (take_bit 7 v)) (Suc pos)
        = Some ((acc OR push_bit shift (take_bit 7 v)) OR push_bit (shift + 7) (drop_bit 7 v),
            Suc pos + length (varint_bytes (drop_bit 7 v)))" .
    moreover have "peek_varint_loop bs shift acc pos = peek_varint_loop bs (shift + 7) (acc OR push_bit shift (take_bit 7 v)) (Suc pos)"
      using at "1.prems"(2) o(1) b varint_byte_more(1) [of v]
      by (subst peek_varint_loop.simps) (simp add: Let_def)
    ultimately show ?thesis by (simp add: vb or.assoc varint_split)
  qed
qed

lemma peek_varint_at:
  "drop pos bs = varint_bytes v @ rest \<Longrightarrow> peek_varint bs pos = Some (v, pos + length (varint_bytes v))"
  unfolding peek_varint_def by (subst peek_varint_loop_at [of pos bs v rest]) (simp_all add: unat_lt_64)

lemma drop_after: "drop pos bs = xs @ rest \<Longrightarrow> drop (pos + length xs) bs = rest"
  by (metis append_eq_conv_conj drop_drop add.commute)

lemma peek_tag_at:
  assumes "drop pos bs = tag_bytes k w @ rest" "field_ok k" "w < 8"
  shows "\<exists>tag. peek_varint bs pos = Some (tag, pos + length (tag_bytes k w)) \<and> drop_bit 3 tag = word_of_nat k
    \<and> ucast (tag AND 7) = (word_of_nat w :: u32)"
proof -
  let ?v = "ucast (push_bit 3 (word_of_nat k :: u32)) OR ucast (word_of_nat w :: u32) :: u64"
  have v: "unat ?v = 8 * k + w" using assms by (intro tag_value) (simp_all add: field_ok_def)
  have k: "unat (word_of_nat k :: u64) = k" using assms(2) by (simp add: field_ok_def unsigned_of_nat take_bit_nat_eq_self)
  have "unat (drop_bit 3 ?v) = k" unfolding unat_drop_bit_div v using assms by simp
  then have "drop_bit 3 ?v = word_of_nat k" using k by (metis word_unat_eq_iff)
  moreover have "ucast (?v AND 7) = (word_of_nat w :: u32)"
  proof -
    have m: "(7 :: u64) = mask 3" by (simp add: mask_eq_exp_minus_1)
    have "unat (?v AND 7) = w" unfolding m take_bit_eq_mask [symmetric] unat_take_bit_mod v using assms by simp
    then show ?thesis using assms(3) by (simp add: word_unat_eq_iff unat_ucast_mod unsigned_of_nat take_bit_nat_eq_self)
  qed
  ultimately show ?thesis using peek_varint_at [of pos bs ?v rest] assms(1) by (auto simp: tag_bytes_def)
qed

section \<open>Fields\<close>

lemma peek_number_at:
  assumes "drop pos bs = varint_field_always 1 v @ rest"
  shows "peek_field bs (k, pos) = Some (v, pos + length (varint_field_always 1 v))"
proof -
  have at: "drop pos bs = tag_bytes 1 0 @ varint_bytes v @ rest" using assms by (simp add: varint_field_always_def)
  obtain tag where tag: "peek_varint bs pos = Some (tag, pos + length (tag_bytes 1 0))" "drop_bit 3 tag = 1"
    "ucast (tag AND 7) = (0 :: u32)"
    using peek_tag_at [OF at] by (auto simp: field_ok_def)
  show ?thesis
    using tag peek_varint_at [OF drop_after [OF at]] by (simp add: peek_field_def varint_field_always_def add.assoc)
qed

lemma other_field:
  assumes "field_ok f" "f \<noteq> 1"
  shows "(word_of_nat f :: u64) \<noteq> 0" "(word_of_nat f :: u64) \<noteq> 1"
proof -
  have u: "unat (word_of_nat f :: u64) = f" using assms(1) by (simp add: field_ok_def unsigned_of_nat take_bit_nat_eq_self)
  show "(word_of_nat f :: u64) \<noteq> 0" using u assms(1) by (auto simp: field_ok_def)
  show "(word_of_nat f :: u64) \<noteq> 1" using u assms(2) by (metis unsigned_1)
qed

lemma peek_varint_field_at:
  assumes "drop pos bs = varint_field_always f v @ rest" "field_ok f" "f \<noteq> 1"
  shows "peek_field bs (k, pos) = Some (k, pos + length (varint_field_always f v))"
proof -
  have at: "drop pos bs = tag_bytes f 0 @ varint_bytes v @ rest" using assms(1) by (simp add: varint_field_always_def)
  obtain tag where tag: "peek_varint bs pos = Some (tag, pos + length (tag_bytes f 0))" "drop_bit 3 tag = word_of_nat f"
    "ucast (tag AND 7) = (0 :: u32)"
    using peek_tag_at [OF at assms(2)] by auto
  show ?thesis
    by (simp add: peek_field_def peek_step_def tag peek_varint_at [OF drop_after [OF at]] other_field [OF assms(2,3)]
        varint_field_always_def add.assoc)
qed

lemma peek_length_field_at:
  assumes "drop pos bs = length_field f xs @ rest" "field_ok f" "f \<noteq> 1" "length xs < 2147483647"
  shows "peek_field bs (k, pos) = Some (k, pos + length (length_field f xs))"
proof -
  have at: "drop pos bs = tag_bytes f 2 @ varint_bytes (word_of_nat (length xs)) @ xs @ rest"
    using assms(1) by (simp add: length_field_def)
  obtain tag where tag: "peek_varint bs pos = Some (tag, pos + length (tag_bytes f 2))" "drop_bit 3 tag = word_of_nat f"
    "ucast (tag AND 7) = (2 :: u32)"
    using peek_tag_at [OF at assms(2)] by auto
  note after = drop_after [OF at]
  have n: "unat (word_of_nat (length xs) :: u64) = length xs" using assms(4) by (simp add: unsigned_of_nat take_bit_nat_eq_self)
  have "length xs \<le> length bs - (pos + length (tag_bytes f 2) + length (varint_bytes (word_of_nat (length xs))))"
    using arg_cong [OF drop_after [OF after], of length] by simp
  then show ?thesis
    by (simp add: peek_field_def peek_step_def peek_skip_def tag peek_varint_at [OF after] other_field [OF assms(2,3)] n
        length_field_def add.assoc)
qed

section \<open>Steps over a message\<close>

text \<open>The loop walks over \<open>xs\<close>, whatever comes after, and has \<open>k'\<close> for \<open>k\<close> then.\<close>

definition peeks :: "bytes \<Rightarrow> u64 \<Rightarrow> u64 \<Rightarrow> bool" where
  "peeks xs k k' \<longleftrightarrow> (\<forall>bs pos rest. drop pos bs = xs @ rest \<longrightarrow> peek_fields bs (k, pos) = peek_fields bs (k', pos + length xs))"

lemma peeks_nil: "peeks [] k k"
  by (simp add: peeks_def)

lemma peeks_append:
  assumes "peeks xs k k1" "peeks ys k1 k2"
  shows "peeks (xs @ ys) k k2"
  unfolding peeks_def
proof (intro allI impI)
  fix bs pos rest assume "drop pos bs = (xs @ ys) @ rest"
  then have at: "drop pos bs = xs @ ys @ rest" by simp
  then have "peek_fields bs (k, pos) = peek_fields bs (k1, pos + length xs)" using assms(1) unfolding peeks_def by blast
  also have "\<dots> = peek_fields bs (k2, pos + length xs + length ys)" using assms(2) drop_after [OF at] unfolding peeks_def by blast
  finally show "peek_fields bs (k, pos) = peek_fields bs (k2, pos + length (xs @ ys))" by (simp add: add.assoc)
qed

lemma peeks_field:
  assumes "\<And>bs pos rest. drop pos bs = xs @ rest \<Longrightarrow> peek_field bs (k, pos) = Some (k', pos + length xs)" "xs \<noteq> []"
  shows "peeks xs k k'"
  unfolding peeks_def
proof (intro allI impI)
  fix bs pos rest assume at: "drop pos bs = xs @ rest"
  then have "pos < length bs" using assms(2) by (metis append_is_Nil_conv drop_all leI)
  then show "peek_fields bs (k, pos) = peek_fields bs (k', pos + length xs)"
    by (subst peek_fields.simps) (simp add: assms(1) [OF at])
qed

lemma fields_not_empty: "varint_field_always f v \<noteq> []" "length_field f xs \<noteq> []"
  by (simp_all add: varint_field_always_def length_field_def tag_bytes_def varint_not_empty)

lemma peeks_number: "peeks (varint_field 1 v) 0 v"
  using peeks_field [of "varint_field_always 1 v" 0 v] peek_number_at fields_not_empty peeks_nil [of v]
  by (auto simp: varint_field_def)

lemma peeks_varint: "field_ok f \<Longrightarrow> f \<noteq> 1 \<Longrightarrow> peeks (varint_field f v) k k"
  using peeks_field [of "varint_field_always f v" k k] peek_varint_field_at fields_not_empty peeks_nil [of k]
  by (auto simp: varint_field_def)

lemma peeks_length: "field_ok f \<Longrightarrow> f \<noteq> 1 \<Longrightarrow> short xs \<Longrightarrow> peeks (length_field f xs) k k"
  using peeks_field [of "length_field f xs" k k] peek_length_field_at fields_not_empty by (auto simp: short_def)

lemma peeks_bytes: "field_ok f \<Longrightarrow> f \<noteq> 1 \<Longrightarrow> short xs \<Longrightarrow> peeks (bytes_field f xs) k k"
  by (simp add: bytes_field_def peeks_nil peeks_length)

lemma peeks_sub: "field_ok f \<Longrightarrow> f \<noteq> 1 \<Longrightarrow> short (sub_field f enc m) \<Longrightarrow> peeks (sub_field f enc m) k k"
  by (cases m) (simp_all add: sub_field_def peeks_nil peeks_length short_parts(3))

lemma peeks_items: "field_ok f \<Longrightarrow> f \<noteq> 1 \<Longrightarrow> short (items_field f enc ms) \<Longrightarrow> peeks (items_field f enc ms) k k"
proof (induction ms)
  case (Cons m ms)
  have "short (length_field f (enc m) @ items_field f enc ms)" using Cons.prems(3) by (simp add: items_field_def)
  then have "short (enc m)" "short (items_field f enc ms)" using short_parts(1-3) by blast+
  then have "peeks (length_field f (enc m) @ items_field f enc ms) k k"
    using Cons.IH Cons.prems(1,2) by (blast intro: peeks_append peeks_length)
  then show ?case by (simp add: items_field_def)
qed (simp add: items_field_def peeks_nil)

section \<open>The number\<close>

lemma peeks_confirmed:
  assumes "short (confirmed_transaction_bytes m)"
  shows "peeks (confirmed_transaction_bytes m) 0 (pcx_id m)"
proof -
  have s: "short (sub_field 2 gradido_transaction_bytes (pcx_transaction_p m))"
    "short (sub_field 3 timestamp_bytes (pcx_confirmed_at_p m))" "short (bytes_field 5 (pcx_running_hash m))"
    "short (sub_field 6 ledger_anchor_bytes (pcx_ledger_anchor_p m))"
    "short (items_field 7 account_balance_bytes (pcx_account_balances m))"
    using assms by (simp_all add: short_def confirmed_transaction_bytes_def)
  show ?thesis
    unfolding confirmed_transaction_bytes_def
    by (rule peeks_append [OF peeks_append [OF peeks_number peeks_append [OF peeks_sub [OF _ _ s(1)]
        peeks_append [OF peeks_sub [OF _ _ s(2)] peeks_append [OF peeks_varint peeks_append [OF
          peeks_bytes [OF _ _ short_parts(4) [OF s(3)]] peeks_sub [OF _ _ s(4)]]]]]] peeks_items [OF _ _ s(5)]])
      (simp_all add: field_ok_def)
qed

lemma peek_confirmed:
  assumes "short (confirmed_transaction_bytes m)"
  shows "grdw_confirmed_transaction_peek_id (Some (confirmed_transaction_bytes m)) = (ARNM_SUCCESS, Some (pcx_id m))"
proof -
  let ?bs = "confirmed_transaction_bytes m"
  have "drop 0 ?bs = ?bs @ []" by simp
  then have "peek_fields ?bs (0, 0) = peek_fields ?bs (pcx_id m, 0 + length ?bs)"
    using peeks_confirmed [OF assms] unfolding peeks_def by blast
  also have "\<dots> = Some (pcx_id m)" by (subst peek_fields.simps) simp
  finally show ?thesis by (simp add: grdw_confirmed_transaction_peek_id_def)
qed

text \<open>C29: The number alone, read by walking over the fields without decoding them, is the number of the transaction that
  was encoded: for the serialized form of every confirmed transaction, and for the bytes \<open>encode\<close> answers.\<close>
theorem peek_id_exact:
  assumes A: "supplies A avail" and w: "confirmed_ok w" "short (confirmed_transaction_bytes (confirmed_message w))"
    and n: "length (confirmed_transaction_bytes (confirmed_message w)) < unat n" "unat n < 2147483648"
    and p: "16 + 7 + SIZEOF_confirmed_transaction + confirmed_transaction_need (confirmed_message w) \<le> avail p"
  shows "\<exists>bs p'. grdw_confirmed_transaction_encode A (Some n) (Some w) p = Inr (ARNM_SUCCESS, Some (int (length bs), bs), p')
    \<and> grdw_confirmed_transaction_peek_id (Some bs) = (ARNM_SUCCESS, Some (wcx_id w))"
  using confirmed_form.encodes_whole [OF A w n, of p] p peek_confirmed [OF w(2)]
  by (fastforce simp: grdw_confirmed_transaction_encode_def confirmed_form.encode_room_def confirmed_message_def)

theorem peek_id_exact_witness:
  "\<exists>bs p'. grdw_confirmed_transaction_encode plain_arena (Some 300) (Some sample_wire) 1000 = Inr (ARNM_SUCCESS, Some (int (length bs), bs), p')
    \<and> grdw_confirmed_transaction_peek_id (Some bs) = (ARNM_SUCCESS, Some (wcx_id sample_wire))"
  by (rule peek_id_exact [OF plain_arena_supplies sample_wire_ok])
    (simp_all add: sample_wire_sizes SIZEOF_confirmed_transaction_def short_def)

end
