(* ===== verification/GRD_Runtime_Whole.thy ===== *)
theory GRD_Runtime_Whole
  imports GRD_Runtime GRD_Wire_Whole
begin

text \<open>
  What the runtime record holds: \<open>runtime_of\<close> says it member by member, from the body, the confirmed transaction and
  the community. The arena opened for a record is as large as \<open>calculate_memory_size\<close> says, and that is enough for
  everything cloned into it; from the bytes \<open>encode\<close> wrote, \<open>init_from_protobuf\<close> builds this record.
\<close>

section \<open>What the arena of a record promises\<close>

definition clones :: "'p arnm_memory \<Rightarrow> ('p \<Rightarrow> nat) \<Rightarrow> bool" where
  "clones A avail \<longleftrightarrow>
     (\<forall>p n. 0 < n \<and> mem_align8 A n \<le> avail p \<longrightarrow>
        (\<exists>p'. mem_alloc A n p = (ARNM_SUCCESS, p') \<and> avail p \<le> avail p' + mem_align8 A n)
      \<and> (\<exists>p'. mem_clone A n p = (ARNM_SUCCESS, p') \<and> avail p \<le> avail p' + mem_align8 A n))
   \<and> (\<forall>p bs. bs \<noteq> [] \<and> mem_align8 A (length bs) \<le> avail p \<longrightarrow>
        (\<exists>p'. mem_block_clone A bs p = (ARNM_SUCCESS, p') \<and> avail p \<le> avail p' + mem_align8 A (length bs)))
   \<and> mem_align8 A ARNM_UUID_BINARY_SIZE = ARNM_UUID_BINARY_SIZE"

definition steps :: "('p \<Rightarrow> nat) \<Rightarrow> 'p tx_step \<Rightarrow> grdr_complete_transaction \<Rightarrow> grdr_complete_transaction \<Rightarrow> nat \<Rightarrow> bool" where
  "steps avail f tx tx' k \<longleftrightarrow>
     (\<forall>p. k \<le> avail p \<longrightarrow> (\<exists>p'. f (tx, p) = (ARNM_SUCCESS, tx', p') \<and> avail p \<le> avail p' + k))"

lemma steps_nothing: "(\<And>p. f (tx, p) = (ARNM_SUCCESS, tx', p)) \<Longrightarrow> steps avail f tx tx' k"
  by (simp add: steps_def)

lemma steps_bind:
  assumes "steps avail f tx tx1 k1" "steps avail g tx1 tx2 k2"
  shows "steps avail (\<lambda>s. bind_ok (f s) g) tx tx2 (k1 + k2)"
  unfolding steps_def
proof (intro allI impI)
  fix p assume k: "k1 + k2 \<le> avail p"
  then obtain p1 where p1: "f (tx, p) = (ARNM_SUCCESS, tx1, p1)" "avail p \<le> avail p1 + k1"
    using assms(1) unfolding steps_def by (meson add_leD1)
  with k have "k2 \<le> avail p1" by simp
  then obtain p2 where "g (tx1, p1) = (ARNM_SUCCESS, tx2, p2)" "avail p1 \<le> avail p2 + k2"
    using assms(2) unfolding steps_def by blast
  with p1 show "\<exists>p'. bind_ok (f (tx, p)) g = (ARNM_SUCCESS, tx2, p') \<and> avail p \<le> avail p' + (k1 + k2)"
    by (intro exI [of _ p2]) (simp add: bind_ok_def)
qed

lemma steps_taken:
  assumes g: "\<And>p. k \<le> avail p \<Longrightarrow> \<exists>p'. g p = (ARNM_SUCCESS, p') \<and> avail p \<le> avail p' + k"
    and f: "\<And>p. f (tx, p) = taken (g p) tx tx'"
  shows "steps avail f tx tx' k"
  unfolding steps_def
proof (intro allI impI)
  fix p assume "k \<le> avail p"
  from g [OF this] show "\<exists>p'. f (tx, p) = (ARNM_SUCCESS, tx', p') \<and> avail p \<le> avail p' + k"
    unfolding f by (auto simp: taken_def)
qed

lemma clones_memory:
  assumes "clones A avail" "0 < n" "mem_align8 A n \<le> avail p"
  shows "\<exists>p'. mem_clone A n p = (ARNM_SUCCESS, p') \<and> avail p \<le> avail p' + mem_align8 A n"
    "\<exists>p'. mem_alloc A n p = (ARNM_SUCCESS, p') \<and> avail p \<le> avail p' + mem_align8 A n"
  using assms unfolding clones_def by blast+

lemma clones_block:
  assumes "clones A avail" "bs \<noteq> []" "mem_align8 A (length bs) \<le> avail p"
  shows "\<exists>p'. mem_block_clone A bs p = (ARNM_SUCCESS, p') \<and> avail p \<le> avail p' + mem_align8 A (length bs)"
  using assms unfolding clones_def by blast

lemma memo_blocks_cloned:
  assumes "clones A avail" "list_all (\<lambda>m. em_memo m \<noteq> []) ms" "sum_list (map (\<lambda>m. mem_align8 A (length (em_memo m))) ms) \<le> avail p"
  shows "\<exists>p'. clone_memo_blocks A ms p = (ARNM_SUCCESS, p')
    \<and> avail p \<le> avail p' + sum_list (map (\<lambda>m. mem_align8 A (length (em_memo m))) ms)"
  using assms(2,3)
proof (induction ms arbitrary: p)
  case (Cons m ms)
  then have "mem_align8 A (length (em_memo m)) \<le> avail p" "em_memo m \<noteq> []" by simp_all
  then obtain p1 where p1: "mem_block_clone A (em_memo m) p = (ARNM_SUCCESS, p1)" "avail p \<le> avail p1 + mem_align8 A (length (em_memo m))"
    using clones_block [OF assms(1)] by blast
  then obtain p2 where "clone_memo_blocks A ms p1 = (ARNM_SUCCESS, p2)"
    "avail p1 \<le> avail p2 + sum_list (map (\<lambda>m. mem_align8 A (length (em_memo m))) ms)"
    using Cons.IH [of p1] Cons.prems by auto
  then show ?case using p1 by (intro exI [of _ p2]) (simp add: bind_ok_def)
qed simp

lemma memos_cloned:
  assumes A: "clones A avail" and ms: "wbx_memos b \<noteq> []" "list_all (\<lambda>m. em_memo m \<noteq> []) (wbx_memos b)"
  shows "steps avail (clone_memos A b) tx (tx\<lparr>encrypted_memos := wbx_memos b\<rparr>)
    (mem_align8 A (length (wbx_memos b) * SIZEOF_grdw_encrypted_memo A)
      + sum_list (map (\<lambda>m. mem_align8 A (length (em_memo m))) (wbx_memos b)))"
  unfolding steps_def
proof (intro allI impI)
  let ?n = "length (wbx_memos b) * SIZEOF_grdw_encrypted_memo A" and ?k = "sum_list (map (\<lambda>m. mem_align8 A (length (em_memo m))) (wbx_memos b))"
  fix p assume k: "mem_align8 A ?n + ?k \<le> avail p"
  have "0 < ?n" using ms(1) by (simp add: SIZEOF_grdw_encrypted_memo_def)
  moreover have "mem_align8 A ?n \<le> avail p" using k by simp
  ultimately obtain p1 where p1: "mem_alloc A ?n p = (ARNM_SUCCESS, p1)" "avail p \<le> avail p1 + mem_align8 A ?n"
    using clones_memory(2) [OF A] by blast
  then have "?k \<le> avail p1" using k by simp
  then obtain p2 where "clone_memo_blocks A (wbx_memos b) p1 = (ARNM_SUCCESS, p2)" "avail p1 \<le> avail p2 + ?k"
    using memo_blocks_cloned [OF A ms(2)] by blast
  then show "\<exists>p'. clone_memos A b (tx, p) = (ARNM_SUCCESS, tx\<lparr>encrypted_memos := wbx_memos b\<rparr>, p') \<and> avail p \<le> avail p' + (mem_align8 A ?n + ?k)"
    using p1 ms(1) by (intro exI [of _ p2]) (simp add: clone_memos_def taken_def bind_ok_def)
qed

section \<open>Everything is cloned\<close>

text \<open>What the record points to, once the steps are done.\<close>

definition with_pointers :: "grdw_transaction_body \<Rightarrow> grdw_confirmed_transaction \<Rightarrow> grdr_complete_transaction \<Rightarrow> grdr_complete_transaction" where
  "with_pointers b c tx = tx
     \<lparr>account_balances := wcx_account_balances c, encrypted_memos := wbx_memos b,
      signature_pairs := wgx_sig_map (wcx_transaction c), cross_group_type := wbx_type b,
      tx_pairing_community_uuid := map_option (\<lambda>u. uuid_of u) (wbx_other_community_uuid b),
      pairing_ledger_anchor := (if la_type (wgx_pairing_ledger_anchor (wcx_transaction c)) = GRDT_LEDGER_ANCHOR_UNSPECIFIED then None
         else Some (wgx_pairing_ledger_anchor (wcx_transaction c))),
      body_bytes := wgx_body_bytes (wcx_transaction c)\<rparr>"

definition no_pointers :: "grdr_complete_transaction \<Rightarrow> bool" where
  "no_pointers tx \<longleftrightarrow> account_balances tx = [] \<and> encrypted_memos tx = [] \<and> signature_pairs tx = []
     \<and> tx_pairing_community_uuid tx = None \<and> pairing_ledger_anchor tx = None"

lemma all_cloned:
  assumes A: "clones A avail" and tx: "no_pointers tx"
    and ms: "list_all (\<lambda>m. em_memo m \<noteq> []) (wbx_memos b)" and bs: "wgx_body_bytes (wcx_transaction c) \<noteq> []"
  shows "steps avail (clone_all A b c) tx (with_pointers b c tx) (calculate_memory_size A c b)"
proof -
  let ?t = "wcx_transaction c"
  let ?tx1 = "tx\<lparr>account_balances := wcx_account_balances c\<rparr>"
  let ?tx2 = "?tx1\<lparr>encrypted_memos := wbx_memos b\<rparr>"
  let ?tx3 = "?tx2\<lparr>signature_pairs := wgx_sig_map ?t\<rparr>"
  let ?tx4 = "?tx3\<lparr>cross_group_type := wbx_type b, tx_pairing_community_uuid := map_option (\<lambda>u. uuid_of u) (wbx_other_community_uuid b)\<rparr>"
  let ?tx5 = "?tx4\<lparr>pairing_ledger_anchor := pairing_ledger_anchor (with_pointers b c tx)\<rparr>"
  let ?k2 = "if wbx_memos b = [] then 0
      else mem_align8 A (length (wbx_memos b) * SIZEOF_grdw_encrypted_memo A)
        + sum_list (map (\<lambda>m. mem_align8 A (length (em_memo m))) (wbx_memos b))"
  let ?k4 = "if wbx_other_community_uuid b = None then 0 else ARNM_UUID_BINARY_SIZE"
  let ?k5 = "if GRDT_LEDGER_ANCHOR_UNSPECIFIED = la_type (wgx_pairing_ledger_anchor ?t) then 0 else mem_align8 A SIZEOF_grdw_ledger_anchor"
  have s1: "steps avail (clone_balances A c) tx ?tx1 (mem_align8 A (length (wcx_account_balances c) * SIZEOF_grdw_account_balance))"
  proof (cases "wcx_account_balances c = []")
    case True
    then show ?thesis using tx by (intro steps_nothing) (simp add: clone_balances_def no_pointers_def)
  next
    case False
    then show ?thesis
      by (intro steps_taken [OF clones_memory(1) [OF A]]) (simp_all add: clone_balances_def SIZEOF_grdw_account_balance_def)
  qed
  have s2: "steps avail (clone_memos A b) ?tx1 ?tx2 ?k2"
    using memos_cloned [OF A _ ms, of ?tx1] tx
    by (cases "wbx_memos b = []") (auto intro!: steps_nothing simp: clone_memos_def no_pointers_def)
  have s3: "steps avail (clone_signatures A ?t) ?tx2 ?tx3 (mem_align8 A (length (wgx_sig_map ?t) * SIZEOF_grdw_signature_pair))"
  proof (cases "wgx_sig_map ?t = []")
    case True
    then show ?thesis using tx by (intro steps_nothing) (simp add: clone_signatures_def no_pointers_def)
  next
    case False
    then show ?thesis
      by (intro steps_taken [OF clones_memory(1) [OF A]]) (simp_all add: clone_signatures_def SIZEOF_grdw_signature_pair_def)
  qed
  have s4: "steps avail (clone_other_uuid A b) ?tx3 ?tx4 ?k4"
  proof (cases "wbx_other_community_uuid b")
    case None
    then show ?thesis using tx by (auto intro!: steps_nothing simp: clone_other_uuid_def no_pointers_def)
  next
    case (Some u)
    have "mem_align8 A ARNM_UUID_BINARY_SIZE = ARNM_UUID_BINARY_SIZE" using A by (simp add: clones_def)
    moreover have "steps avail (clone_other_uuid A b) ?tx3 ?tx4 (mem_align8 A ARNM_UUID_BINARY_SIZE)"
      unfolding steps_def
    proof (intro allI impI)
      fix p assume k: "mem_align8 A ARNM_UUID_BINARY_SIZE \<le> avail p"
      have "0 < ARNM_UUID_BINARY_SIZE" by simp
      from clones_memory(1) [OF A this k]
      show "\<exists>p'. clone_other_uuid A b (?tx3, p) = (ARNM_SUCCESS, ?tx4, p') \<and> avail p \<le> avail p' + mem_align8 A ARNM_UUID_BINARY_SIZE"
        by (auto simp: clone_other_uuid_def Some taken_def)
    qed
    ultimately show ?thesis using Some by simp
  qed
  have s5: "steps avail (clone_pairing_anchor A ?t) ?tx4 ?tx5 ?k5"
  proof (cases "la_type (wgx_pairing_ledger_anchor ?t) = GRDT_LEDGER_ANCHOR_UNSPECIFIED")
    case True
    then show ?thesis using tx by (intro steps_nothing) (simp add: clone_pairing_anchor_def no_pointers_def with_pointers_def)
  next
    case False
    then have "steps avail (clone_pairing_anchor A ?t) ?tx4 ?tx5 (mem_align8 A SIZEOF_grdw_ledger_anchor)"
      by (intro steps_taken [OF clones_memory(1) [OF A]])
        (simp_all add: clone_pairing_anchor_def with_pointers_def SIZEOF_grdw_ledger_anchor_def)
    then show ?thesis using False by simp
  qed
  have s6: "steps avail (clone_body_bytes A ?t) ?tx5 (with_pointers b c tx) (mem_align8 A (length (wgx_body_bytes ?t)))"
    by (rule steps_taken [OF clones_block [OF A bs]]) (simp_all add: clone_body_bytes_def with_pointers_def)
  have course: "clone_all A b c = (\<lambda>s. bind_ok (clone_balances A c s) (\<lambda>s. bind_ok (clone_memos A b s) (\<lambda>s.
      bind_ok (clone_signatures A ?t s) (\<lambda>s. bind_ok (clone_other_uuid A b s) (\<lambda>s.
      bind_ok (clone_pairing_anchor A ?t s) (clone_body_bytes A ?t))))))"
    by (rule ext) (simp add: clone_all_def)
  have size: "calculate_memory_size A c b = mem_align8 A (length (wcx_account_balances c) * SIZEOF_grdw_account_balance) + (?k2
      + (mem_align8 A (length (wgx_sig_map ?t) * SIZEOF_grdw_signature_pair) + (?k4 + (?k5 + mem_align8 A (length (wgx_body_bytes ?t))))))"
    unfolding calculate_memory_size_def by (simp only: ac_simps)
  show ?thesis
    unfolding course size
    by (rule steps_bind [OF s1 steps_bind [OF s2 steps_bind [OF s3 steps_bind [OF s4 steps_bind [OF s5 s6]]]]])
qed

section \<open>What the record holds\<close>

definition transfer_in :: "grdw_transaction_body \<Rightarrow> grdw_gradido_transfer option" where
  "transfer_in b =
     (if wbx_transaction_type b = GRDT_TRANSACTION_TRANSFER then Some (wbx_transfer b)
      else if wbx_transaction_type b = GRDT_TRANSACTION_DEFERRED_TRANSFER then Some (wdt_transfer (wbx_deferred_transfer b))
      else if wbx_transaction_type b = GRDT_TRANSACTION_REDEEM_DEFERRED_TRANSFER then Some (wrt_transfer (wbx_redeem_deferred_transfer b))
      else None)"

definition runtime_of :: "grdw_transaction_body \<Rightarrow> grdw_confirmed_transaction \<Rightarrow> bytes \<Rightarrow> grdr_complete_transaction" where
  "runtime_of b c uuid =
     (let ty = wbx_transaction_type b; t = wcx_transaction c in
      \<lparr>tx_nr = wcx_id c, confirmed_at = wcx_confirmed_at c, created_at = wbx_created_at b, tx_community_uuid = uuid,
       ledger_anchor = wcx_ledger_anchor c,
       transfer = (case transfer_in b of
           Some m \<Rightarrow> \<lparr>sender_pubkey = wta_pubkey (wgt_sender m), recipient_pubkey = wgt_recipient m,
             amount = wta_amount (wgt_sender m), coin_community_uuid = wta_community_uuid (wgt_sender m)\<rparr>
         | None \<Rightarrow> if ty = GRDT_TRANSACTION_CREATION
             then \<lparr>sender_pubkey = zeros SIGN_PUBLIC_KEY_SIZE, recipient_pubkey = wta_pubkey (wgc_recipient (wbx_creation b)),
               amount = wta_amount (wgc_recipient (wbx_creation b)), coin_community_uuid = zeros ARNM_UUID_BINARY_SIZE\<rparr>
             else transfer grdr_complete_transaction_init),
       register_address = (if ty = GRDT_TRANSACTION_REGISTER_ADDRESS
         then \<lparr>user_public_key = wra_user_pubkey (wbx_register_address b), name_hash = wra_name_hash (wbx_register_address b),
           account_public_key = wra_account_pubkey (wbx_register_address b)\<rparr>
         else register_address grdr_complete_transaction_init),
       community_root = (if ty = GRDT_TRANSACTION_COMMUNITY_ROOT
         then \<lparr>public_key = wcr_pubkey (wbx_community_root b), gmw_public_key = wcr_gmw_pubkey (wbx_community_root b),
           auf_public_key = wcr_auf_pubkey (wbx_community_root b)\<rparr>
         else community_root grdr_complete_transaction_init),
       target_date = (if ty = GRDT_TRANSACTION_CREATION then wts_seconds (wgc_target_date (wbx_creation b)) else 0),
       timeout_duration = (if ty = GRDT_TRANSACTION_DEFERRED_TRANSFER then ucast (wdt_timeout_duration (wbx_deferred_transfer b)) else 0),
       previous_tx = (if ty = GRDT_TRANSACTION_REDEEM_DEFERRED_TRANSFER
           then wrt_deferred_transfer_transaction_nr (wbx_redeem_deferred_transfer b)
         else if ty = GRDT_TRANSACTION_TIMEOUT_DEFERRED_TRANSFER
           then wto_deferred_transfer_transaction_nr (wbx_timeout_deferred_transfer b) else 0),
       address_type = (if ty = GRDT_TRANSACTION_REGISTER_ADDRESS then wra_address_type (wbx_register_address b) else 0),
       derivation_index = (if ty = GRDT_TRANSACTION_REGISTER_ADDRESS then wra_derivation_index (wbx_register_address b) else 0),
       transaction_type = ty, tx_running_hash = wcx_running_hash c, account_balances = wcx_account_balances c,
       encrypted_memos = wbx_memos b, signature_pairs = wgx_sig_map t, cross_group_type = wbx_type b,
       tx_pairing_community_uuid = wbx_other_community_uuid b,
       pairing_ledger_anchor = (if la_type (wgx_pairing_ledger_anchor t) = GRDT_LEDGER_ANCHOR_UNSPECIFIED then None
         else Some (wgx_pairing_ledger_anchor t)),
       body_bytes = wgx_body_bytes t\<rparr>)"

text \<open>The types there is a layout for.\<close>

definition has_layout :: "grdw_transaction_body \<Rightarrow> bool" where
  "has_layout b \<longleftrightarrow> wbx_transaction_type b \<le> 8 \<and> wbx_transaction_type b \<noteq> GRDT_TRANSACTION_NONE
     \<and> wbx_transaction_type b \<noteq> GRDT_TRANSACTION_COMMUNITY_FRIENDS_UPDATE"

lemmas copies = copy_specific_def copy_transfer_def copy_creation_def copy_register_address_def copy_deferred_transfer_def
  copy_redeem_deferred_transfer_def copy_timeout_deferred_transfer_def copy_community_root_def

lemma specific_copied:
  assumes b: "body_ok b" "has_layout b" and c: "length (wcx_running_hash c) = 32" and uuid: "length uuid = 16"
  shows "\<exists>tx. copy_specific b (tx_head b c uuid grdr_complete_transaction_init) = Some tx
    \<and> with_pointers b c (tx_tail b c tx) = runtime_of b c uuid"
proof -
  have le: "wbx_transaction_type b \<le> 8" using b(1) by (simp add: body_ok_def)
  have u: "map_option (\<lambda>u. uuid_of u) (wbx_other_community_uuid b) = wbx_other_community_uuid b"
    using b(1) by (cases "wbx_other_community_uuid b") (simp_all add: body_ok_def)
  show ?thesis
    by (rule type_cases [OF le])
      (use b c uuid u in \<open>simp_all add: copies has_layout_def body_ok_def transfer_ok_def amount_ok_def register_ok_def root_ok_def
        runtime_of_def transfer_in_def with_pointers_def tx_head_def tx_tail_def grdr_complete_transaction_init_def Let_def\<close>)
qed

section \<open>From the wire structs\<close>

lemma from_wire_exact:
  assumes A: "clones A avail" and b: "body_ok b" "has_layout b" "list_all (\<lambda>m. em_memo m \<noteq> []) (wbx_memos b)"
    and c: "confirmed_ok c" and uuid: "length uuid = 16"
    and room: "calculate_memory_size A c b \<le> max_alloc_size A" "mem_init_arena A (word_of_nat (calculate_memory_size A c b)) = (ARNM_SUCCESS, p)"
      "calculate_memory_size A c b \<le> avail p"
  shows "\<exists>p'. grdm_complete_transaction_from_wire A (Some old) (Some b) (Some c) uuid = (ARNM_SUCCESS, Some (runtime_of b c uuid, Some p'))"
proof -
  obtain tx where tx: "copy_specific b (tx_head b c uuid grdr_complete_transaction_init) = Some tx"
    "with_pointers b c (tx_tail b c tx) = runtime_of b c uuid"
    using specific_copied [OF b(1,2) _ uuid, of c] c by (auto simp: confirmed_ok_def)
  have "no_pointers tx"
    using tx(1) by (auto simp: copies Let_def no_pointers_def tx_head_def grdr_complete_transaction_init_def split: if_splits)
  then have "no_pointers (tx_tail b c tx)" by (simp add: no_pointers_def tx_tail_def)
  then have "steps avail (clone_all A b c) (tx_tail b c tx) (runtime_of b c uuid) (calculate_memory_size A c b)"
    using all_cloned [OF A _ b(3), of "tx_tail b c tx" c] c tx(2) by (simp add: confirmed_ok_def transaction_ok_def)
  then obtain p' where "clone_all A b c (tx_tail b c tx, p) = (ARNM_SUCCESS, runtime_of b c uuid, p')"
    using room(3) unfolding steps_def by blast
  then show ?thesis
    using room(1,2) tx(1) by (simp add: grdm_complete_transaction_from_wire_def grdr_complete_transaction_release_def Let_def)
qed

section \<open>From the bytes\<close>

lemma body_view_same:
  "wbx_memos (body_view b) = wbx_memos b" "wbx_other_community_uuid (body_view b) = wbx_other_community_uuid b"
  "wbx_transaction_type (body_view b) = wbx_transaction_type b"
  by (simp_all add: body_view_def body_data_view_def Let_def grdw_transaction_body_init_def)

lemma body_view_ok: "body_ok b \<Longrightarrow> body_ok (body_view b)"
  by (simp add: body_ok_def body_view_same) (simp add: body_view_def body_data_view_def Let_def)

lemma confirmed_view_ok: "confirmed_ok c \<Longrightarrow> confirmed_ok (confirmed_view c)"
  by (simp add: confirmed_ok_def confirmed_view_def transaction_ok_def transaction_view_def)

lemma view_size: "calculate_memory_size A (confirmed_view c) (body_view b) = calculate_memory_size A c b"
  by (simp add: calculate_memory_size_def body_view_same confirmed_view_def transaction_view_def anchor_view_def zero_anchor_def)

lemma body_view_runtime:
  "body_ok b \<Longrightarrow> runtime_of (body_view b) c uuid = runtime_of b c uuid"
proof -
  assume "body_ok b"
  then have le: "wbx_transaction_type b \<le> 8" by (simp add: body_ok_def)
  show ?thesis
    by (rule type_cases [OF le])
      (simp_all add: runtime_of_def transfer_in_def body_view_def body_data_view_def grdw_transaction_body_init_def)
qed

lemma from_protobuf_exact:
  assumes A: "supplies A avail" "clones A avail"
    and b: "body_ok b" "has_layout b" "list_all (\<lambda>m. em_memo m \<noteq> []) (wbx_memos b)" "short (transaction_body_bytes (body_message b))"
    and c: "confirmed_ok c" "short (confirmed_transaction_bytes (confirmed_message c))"
      "wgx_body_bytes (wcx_transaction c) = transaction_body_bytes (body_message b)"
    and uuid: "length uuid = 16"
    and buffer: "mem_init_arena_borrow A n = (ARNM_SUCCESS, q)" "0 < n"
      "16 + 7 + SIZEOF_confirmed_transaction + confirmed_transaction_need (confirmed_message c) + 7 + confirmed_room c
        + (16 + 7 + SIZEOF_transaction_body + transaction_body_need (body_message b) + 7 + body_room A b) \<le> avail q"
    and room: "calculate_memory_size A c b \<le> max_alloc_size A" "mem_init_arena A (word_of_nat (calculate_memory_size A c b)) = (ARNM_SUCCESS, p)"
      "calculate_memory_size A c b \<le> avail p"
  shows "\<exists>p'. grdr_complete_transaction_init_from_protobuf A (Some old) (Some (confirmed_transaction_bytes (confirmed_message c)))
      (Some uuid) (Some n) = Inr (ARNM_SUCCESS, Some (runtime_of b (confirmed_view c) uuid, Some p'))"
proof -
  let ?cb = "confirmed_transaction_bytes (confirmed_message c)" and ?bb = "transaction_body_bytes (body_message b)"
  have rooms: "confirmed_form.decode_room A c + body_form.decode_room A b \<le> avail q"
    using buffer(3) by (simp add: confirmed_form.decode_room_def confirmed_form.encode_room_def body_form.decode_room_def body_form.encode_room_def)
  then have "confirmed_form.decode_room A c \<le> avail q" by simp
  from confirmed_form.decodes_whole [OF A(1) c(1,2) this] obtain q1 where
    q1: "grdw_confirmed_transaction_decode A (Some ?cb) (Some grdw_confirmed_transaction_init, q) = Inr (ARNM_SUCCESS, Some (confirmed_view c), q1)"
      "avail q \<le> avail q1 + confirmed_form.decode_room A c"
    unfolding grdw_confirmed_transaction_decode_def by blast
  have "body_form.decode_room A b \<le> avail q1" using rooms q1(2) by simp
  from body_form.decodes_whole [OF A(1) b(1,4) this] obtain q2 where
    q2: "grdw_transaction_body_decode A (Some ?bb) (Some grdw_transaction_body_init, q1) = Inr (ARNM_SUCCESS, Some (body_view b), q2)"
    unfolding grdw_transaction_body_decode_def by blast
  have "wgx_body_bytes (wcx_transaction (confirmed_view c)) = ?bb" using c(3) by (simp add: confirmed_view_def transaction_view_def)
  moreover have "has_layout (body_view b)" using b(2) by (simp add: has_layout_def body_view_same)
  then have "\<exists>p'. grdm_complete_transaction_from_wire A (Some old') (Some (body_view b)) (Some (confirmed_view c)) uuid
      = (ARNM_SUCCESS, Some (runtime_of (body_view b) (confirmed_view c) uuid, Some p'))" for old'
    using from_wire_exact [OF A(2) body_view_ok [OF b(1)] _ _ confirmed_view_ok [OF c(1)] uuid, of p] b(3) room
    by (simp add: view_size body_view_same)
  ultimately show ?thesis
    using buffer(1,2) q1(1) q2 b(1) confirmed_bytes_not_empty [of c] body_bytes_not_empty [of b]
    by (simp add: grdr_complete_transaction_init_from_protobuf_def grdr_complete_transaction_release_def body_view_runtime)
qed


text \<open>A confirmed transaction with the bytes of its body inside.\<close>

definition sample_confirmed :: grdw_confirmed_transaction where
  "sample_confirmed = sample_wire\<lparr>wcx_transaction := sample_transaction\<lparr>wgx_body_bytes := transaction_body_bytes (body_message sample_body)\<rparr>\<rparr>"

lemma sample_confirmed_sizes:
  "length (confirmed_transaction_bytes (confirmed_message sample_confirmed)) = 282"
  "confirmed_transaction_need (confirmed_message sample_confirmed) = 490" "confirmed_room sample_confirmed = 245"
  by code_simp+

lemma sample_body_fields:
  "wbx_memos sample_body = [\<lparr>em_type = 1, em_memo = [104, 105]\<rparr>]" "wbx_other_community_uuid sample_body = None"
  "wbx_transaction_type sample_body = GRDT_TRANSACTION_CREATION"
  by (simp_all add: sample_body_def grdw_transaction_body_init_def)

lemma sample_confirmed_fields:
  "wcx_account_balances sample_confirmed = [zero_account_balance]" "wgx_sig_map (wcx_transaction sample_confirmed) = [zero_signature_pair]"
  "la_type (wgx_pairing_ledger_anchor (wcx_transaction sample_confirmed)) = GRDT_LEDGER_ANCHOR_UNSPECIFIED"
  "wgx_body_bytes (wcx_transaction sample_confirmed) = transaction_body_bytes (body_message sample_body)"
  by (simp_all add: sample_confirmed_def sample_wire_def sample_transaction_def grdw_gradido_transaction_init_def zero_anchor_def)

lemma plain_arena_simps:
  "mem_align8 plain_arena k = (k + 7) div 8 * 8" "sizeof_memory_block plain_arena = 16" "max_alloc_size plain_arena = 2147483647"
  "mem_init_arena plain_arena n = (ARNM_SUCCESS, word_of_nat (unat n))"
  "mem_init_arena_borrow plain_arena n = (ARNM_SUCCESS, word_of_nat (unat n))"
  by (simp_all add: plain_arena_def)

lemma sample_confirmed_ok: "confirmed_ok sample_confirmed"
  using sample_wire_ok body_bytes_not_empty [of sample_body]
  by (simp add: sample_confirmed_def confirmed_ok_def transaction_ok_def sample_wire_def sample_transaction_def)

lemma sample_confirmed_memory: "calculate_memory_size plain_arena sample_confirmed sample_body = 256"
  by (simp add: calculate_memory_size_def plain_arena_simps sample_confirmed_fields sample_body_fields sample_body_sizes
      SIZEOF_grdw_account_balance_def SIZEOF_grdw_encrypted_memo_def SIZEOF_grdw_signature_pair_def)

lemma align_up: "n \<le> (n + 7) div 8 * (8 :: nat)"
  by simp

lemma plain_arena_clones: "clones plain_arena unat"
proof -
  have fits: "n \<le> unat p \<and> unat p \<le> unat (p - word_of_nat n) + (n + 7) div 8 * 8" if "(n + 7) div 8 * 8 \<le> unat p" for p :: "31 word" and n
    using that align_up [of n] by (simp add: unat_minus_31)
  then show ?thesis by (simp add: clones_def plain_arena_def)
qed


end
