(* ===== verification/GRD_Ffi.thy ===== *)
theory GRD_Ffi
  imports GRD_In_Memory GRD_Peek GRD_Runtime_Whole
begin

text \<open>
  The store of \<open>blockchain/ffi.c\<close>: the host keeps the serialized transactions and is asked for the bytes of a
  number. The host is not part of the repository: its calls are the fields of a record, its state a type \<open>'h\<close>.
  Bytes the host points at are an option, \<open>Some []\<close> a size of 0. The transaction that was decoded last is kept with
  its number and its arena.
\<close>

section \<open>The adapter\<close>

abbreviation GRDB_FFI_OK :: i32 where "GRDB_FFI_OK \<equiv> 0"
abbreviation GRDB_FFI_NOT_FOUND :: i32 where "GRDB_FFI_NOT_FOUND \<equiv> 1"
abbreviation GRDB_FFI_SCRATCH_DEFAULT :: u32 where "GRDB_FFI_SCRATCH_DEFAULT \<equiv> 262144"

record 'h grdb_chain_ffi_host =
  host_get :: "('h \<Rightarrow> u64 \<Rightarrow> i32 \<times> bytes option \<times> 'h) option"
  host_release :: "('h \<Rightarrow> bytes option \<Rightarrow> 'h) option"
  host_put :: "('h \<Rightarrow> u64 \<Rightarrow> bytes \<Rightarrow> i32 \<times> 'h) option"

record ('h, 'q) grdb_chain_ffi =
  fa_host :: "'h grdb_chain_ffi_host"
  fa_held :: "'q owned_tx"
  fa_held_tx_nr :: u64
  fa_scratch :: bool
  fa_scratch_size :: u32
  fa_community_uuid :: bytes
  fa_ready :: bool

definition no_host :: "'h grdb_chain_ffi_host" where
  "no_host = \<lparr>host_get = None, host_release = None, host_put = None\<rparr>"

definition zero_ffi :: "('h, 'q) grdb_chain_ffi" where
  "zero_ffi = \<lparr>fa_host = no_host, fa_held = (grdr_complete_transaction_init, None), fa_held_tx_nr = 0, fa_scratch = False,
     fa_scratch_size = 0, fa_community_uuid = zeros ARNM_UUID_BINARY_SIZE, fa_ready = False\<rparr>"

text \<open>The options are the bytes of the scratch.\<close>

definition grdb_chain_ffi_init :: "'p arnm_memory \<Rightarrow> ('h, 'q) grdb_chain_ffi option \<Rightarrow> 'h grdb_chain_ffi_host option \<Rightarrow> u32 option
    \<Rightarrow> bytes option \<Rightarrow> 'p \<Rightarrow> arnm_result \<times> ('h, 'q) grdb_chain_ffi option \<times> 'p" where
  "grdb_chain_ffi_init M adapter host options uuid mem =
     (case (adapter, host, uuid) of
        (Some _, Some host, Some uuid) \<Rightarrow>
          if host_get host = None then (ARNM_ERROR_NULL_POINTER, adapter, mem)
          else (case scratch_size_of GRDB_FFI_SCRATCH_DEFAULT (case options of None \<Rightarrow> 0 | Some n \<Rightarrow> n) of
            None \<Rightarrow> (ARNM_ERROR_ARITHMETIC_OVERFLOW, adapter, mem)
          | Some size' \<Rightarrow>
              case mem_alloc M (unat size') mem of (r, mem) \<Rightarrow>
              if r \<noteq> ARNM_SUCCESS then (r, Some zero_ffi, mem)
              else (ARNM_SUCCESS, Some (zero_ffi\<lparr>fa_host := host, fa_scratch := True, fa_scratch_size := size',
                      fa_community_uuid := uuid, fa_ready := True\<rparr>), mem))
      | _ \<Rightarrow> (ARNM_ERROR_NULL_POINTER, adapter, mem))"

definition grdb_chain_ffi_release :: "'p arnm_memory \<Rightarrow> ('h, 'q) grdb_chain_ffi option \<Rightarrow> 'p \<Rightarrow> ('h, 'q) grdb_chain_ffi option \<times> 'p" where
  "grdb_chain_ffi_release M adapter mem =
     (case adapter of None \<Rightarrow> (None, mem)
      | Some a \<Rightarrow> if \<not> fa_ready a then (adapter, mem)
          else (Some zero_ffi, (if fa_scratch a then mem_free M (unat (fa_scratch_size a)) else id) mem))"

definition host_done :: "'h grdb_chain_ffi_host \<Rightarrow> bytes option \<Rightarrow> 'h \<Rightarrow> 'h" where
  "host_done host data h = (case host_release host of None \<Rightarrow> h | Some f \<Rightarrow> f h data)"

definition ffi_fetch :: "'q arnm_memory \<Rightarrow> ('h, 'q) grdb_chain_ffi option \<Rightarrow> u64 \<Rightarrow> tx_place \<Rightarrow> 'h
    \<Rightarrow> c_fault + arnm_result \<times> tx_place \<times> ('h, 'q) grdb_chain_ffi option \<times> 'h" where
  "ffi_fetch D adapter nr out h =
     (case adapter of None \<Rightarrow> Inr (ARNM_ERROR_NULL_POINTER, out, adapter, h)
      | Some a \<Rightarrow>
          if \<not> fa_ready a \<or> out = None then Inr (ARNM_ERROR_NULL_POINTER, out, adapter, h)
          else if fa_held_tx_nr a \<noteq> 0 \<and> fa_held_tx_nr a = nr then Inr (ARNM_SUCCESS, Some (Some (fst (fa_held a))), adapter, h)
          else (case host_get (fa_host a) of None \<Rightarrow> Inl NullDereference
            | Some get \<Rightarrow> case get h nr of (answer, data, h) \<Rightarrow>
                if answer = GRDB_FFI_NOT_FOUND then Inr (ARNM_ERROR_ARRAY_INDEX_OUT_OF_BOUNDS, out, adapter, h)
                else if answer \<noteq> GRDB_FFI_OK then Inr (ARNM_ERROR_DECODE_FAILED, out, adapter, h)
                else if data = None \<or> data = Some [] then Inr (ARNM_ERROR_DECODE_FAILED, out, adapter, host_done (fa_host a) data h)
                else fbind (grdr_complete_transaction_init_from_protobuf D (Some (fa_held a)) data (Some (fa_community_uuid a))
                       (Some (fa_scratch_size a))) (\<lambda>(r, held).
                  let held = (case held of None \<Rightarrow> fa_held a | Some t \<Rightarrow> t);
                      a = a\<lparr>fa_held := held, fa_held_tx_nr := 0\<rparr>;
                      h = host_done (fa_host a) data h
                  in if r \<noteq> ARNM_SUCCESS then Inr (r, out, Some a, h)
                     else Inr (ARNM_SUCCESS, Some (Some (fst held)), Some (a\<lparr>fa_held_tx_nr := nr\<rparr>), h))))"

definition ffi_append_serialized :: "('h, 'q) grdb_chain_ffi option \<Rightarrow> bytes option \<Rightarrow> 'h \<Rightarrow> arnm_result \<times> 'h" where
  "ffi_append_serialized adapter serialized h =
     (case (adapter, serialized) of
        (Some a, Some bs) \<Rightarrow>
          if \<not> fa_ready a then (ARNM_ERROR_NULL_POINTER, h)
          else (case host_put (fa_host a) of None \<Rightarrow> (ARNM_ERROR_INVALID_STATE, h)
            | Some keep \<Rightarrow>
                if bs = [] then (ARNM_ERROR_INVALID_PARAM, h)
                else case grdw_confirmed_transaction_peek_id (Some bs) of (peeked, id') \<Rightarrow>
                  if peeked \<noteq> ARNM_SUCCESS then (peeked, h)
                  else case id' of None \<Rightarrow> (ARNM_ERROR_INVALID_PARAM, h)
                  | Some nr \<Rightarrow>
                      if nr = 0 then (ARNM_ERROR_INVALID_PARAM, h)
                      else case keep h nr bs of (answer, h) \<Rightarrow>
                        (if answer = GRDB_FFI_OK then ARNM_SUCCESS else ARNM_ERROR_ENCODE_FAILED, h))
      | _ \<Rightarrow> (ARNM_ERROR_NULL_POINTER, h))"

text \<open>Writing needs a host with a \<open>put\<close>.\<close>

definition ffi_store :: "'q arnm_memory \<Rightarrow> bool \<Rightarrow> (('h, 'q) grdb_chain_ffi option \<times> 'h) grdb_chain_store" where
  "ffi_store D writable = no_store\<lparr>
     st_fetch := Some (\<lambda>(a, h) nr out. fbind (ffi_fetch D a nr out h) (\<lambda>(r, out, a, h). Inr (r, out, (a, h)))),
     st_append_serialized := (if writable
       then Some (\<lambda>(a, h) bs. case ffi_append_serialized a bs h of (r, h) \<Rightarrow> Inr (r, (a, h))) else None)\<rparr>"

definition grdb_chain_ffi_as_store :: "'q arnm_memory \<Rightarrow> ('h, 'q) grdb_chain_ffi option
    \<Rightarrow> (('h, 'q) grdb_chain_ffi option \<times> 'h) grdb_chain_store" where
  "grdb_chain_ffi_as_store D adapter =
     (case adapter of None \<Rightarrow> no_store
      | Some a \<Rightarrow> if \<not> fa_ready a then no_store else ffi_store D (host_put (fa_host a) \<noteq> None))"

section \<open>A host that keeps what it is given\<close>

text \<open>What its documentation asks of the host: it answers the row of a number or that there is none, a row it was
  given is the one it answers afterwards, and saying that the bytes are done with changes nothing.\<close>

definition host_keeps :: "'h grdb_chain_ffi_host \<Rightarrow> ('h \<Rightarrow> u64 \<Rightarrow> bytes option) \<Rightarrow> bool" where
  "host_keeps host rows \<longleftrightarrow>
     (\<exists>ask. host_get host = Some ask \<and> (\<forall>h nr. case ask h nr of (answer, data, h') \<Rightarrow> rows h' = rows h
        \<and> (case rows h nr of None \<Rightarrow> answer = GRDB_FFI_NOT_FOUND | Some bs \<Rightarrow> answer = GRDB_FFI_OK \<and> data = Some bs)))
     \<and> (\<forall>free. host_release host = Some free \<longrightarrow> (\<forall>h data. rows (free h data) = rows h))
     \<and> (\<forall>keep. host_put host = Some keep \<longrightarrow> (\<forall>h nr bs. case keep h nr bs of (answer, h') \<Rightarrow>
          rows h' = (if answer = GRDB_FFI_OK then (rows h)(nr \<mapsto> bs) else rows h)))"

text \<open>Whatever was decoded before, the bytes decode to the transaction.\<close>

definition row_decodes :: "'q arnm_memory \<Rightarrow> ('h, 'q) grdb_chain_ffi \<Rightarrow> bytes \<Rightarrow> grdr_complete_transaction \<Rightarrow> bool" where
  "row_decodes D a bs t \<longleftrightarrow> bs \<noteq> [] \<and> (\<forall>old. \<exists>p. grdr_complete_transaction_init_from_protobuf D (Some old) (Some bs)
     (Some (fa_community_uuid a)) (Some (fa_scratch_size a)) = Inr (ARNM_SUCCESS, Some (t, p)))"

definition rows_stand :: "'q arnm_memory \<Rightarrow> ('h, 'q) grdb_chain_ffi \<Rightarrow> (u64 \<Rightarrow> bytes option) \<Rightarrow> grdr_complete_transaction list \<Rightarrow> bool" where
  "rows_stand D a row txs \<longleftrightarrow> (\<forall>nr. case with_number txs nr of None \<Rightarrow> row nr = None | Some t \<Rightarrow> \<exists>bs. row nr = Some bs \<and> row_decodes D a bs t)"

lemma rows_standD:
  "rows_stand D a row txs \<Longrightarrow> with_number txs nr = None \<Longrightarrow> row nr = None"
  "rows_stand D a row txs \<Longrightarrow> with_number txs nr = Some t \<Longrightarrow> \<exists>bs. row nr = Some bs \<and> row_decodes D a bs t"
  unfolding rows_stand_def by (drule spec [of _ nr], simp)+

lemma rows_stand_held: "rows_stand D (a\<lparr>fa_held := t, fa_held_tx_nr := nr\<rparr>) row txs \<longleftrightarrow> rows_stand D a row txs"
  by (simp add: rows_stand_def row_decodes_def cong: option.case_cong)

definition ffi_holds :: "'q arnm_memory \<Rightarrow> ('h \<Rightarrow> u64 \<Rightarrow> bytes option) \<Rightarrow> ('h, 'q) grdb_chain_ffi option \<times> 'h
    \<Rightarrow> grdr_complete_transaction list \<Rightarrow> bool" where
  "ffi_holds D rows u txs \<longleftrightarrow> (\<exists>a. fst u = Some a \<and> fa_ready a \<and> host_keeps (fa_host a) rows
     \<and> run_of txs None \<and> (txs \<noteq> [] \<longrightarrow> tx_nr (hd txs) \<noteq> 0)
     \<and> rows_stand D a (rows (snd u)) txs
     \<and> (fa_held_tx_nr a \<noteq> 0 \<longrightarrow> with_number txs (fa_held_tx_nr a) = Some (fst (fa_held a))))"

lemma host_done_keeps: "host_keeps host rows \<Longrightarrow> rows (host_done host data h) = rows h"
  by (auto simp: host_keeps_def host_done_def split: option.split)

lemma host_kept:
  assumes "host_keeps host rows" "host_put host = Some keep" "keep h nr bs = (GRDB_FFI_OK, h')"
  shows "rows h' = (rows h)(nr \<mapsto> bs)"
proof -
  have "\<forall>h nr bs. case keep h nr bs of (answer, h') \<Rightarrow> rows h' = (if answer = GRDB_FFI_OK then (rows h)(nr \<mapsto> bs) else rows h)"
    using assms(1,2) by (simp add: host_keeps_def)
  from this [rule_format, of h nr bs] show ?thesis by (simp add: assms(3))
qed

lemma host_asked:
  assumes "host_keeps host rows"
  obtains ask answer data h' where "host_get host = Some ask" "ask h nr = (answer, data, h')" "rows h' = rows h"
    "case rows h nr of None \<Rightarrow> answer = GRDB_FFI_NOT_FOUND | Some bs \<Rightarrow> answer = GRDB_FFI_OK \<and> data = Some bs"
proof -
  obtain ask where k: "host_get host = Some ask" "\<forall>h nr. case ask h nr of (answer, data, h') \<Rightarrow> rows h' = rows h
      \<and> (case rows h nr of None \<Rightarrow> answer = GRDB_FFI_NOT_FOUND | Some bs \<Rightarrow> answer = GRDB_FFI_OK \<and> data = Some bs)"
    using assms unfolding host_keeps_def by blast
  obtain answer data h' where e: "ask h nr = (answer, data, h')" by (metis prod_cases3)
  show thesis using that [OF k(1) e] spec [OF spec [OF k(2)], of h nr] unfolding e by simp
qed

text \<open>A row that is not the held one is fetched by decoding it; the held one then is this one.\<close>

lemma row_fetched:
  assumes a: "fa_ready a" "host_keeps (fa_host a) rows" and held: "fa_held_tx_nr a \<noteq> nr" and row: "rows h nr = Some bs" "row_decodes D a bs t"
  shows "\<exists>p h'. ffi_fetch D (Some a) nr (Some x) h = Inr (ARNM_SUCCESS, Some (Some t), Some (a\<lparr>fa_held := (t, p), fa_held_tx_nr := nr\<rparr>), h')
    \<and> rows h' = rows h"
proof -
  obtain ask answer data h1 where g: "host_get (fa_host a) = Some ask" "ask h nr = (answer, data, h1)" "rows h1 = rows h"
    "case rows h nr of None \<Rightarrow> answer = GRDB_FFI_NOT_FOUND | Some bs \<Rightarrow> answer = GRDB_FFI_OK \<and> data = Some bs"
    by (rule host_asked [OF a(2)])
  obtain p where "grdr_complete_transaction_init_from_protobuf D (Some (fa_held a)) (Some bs) (Some (fa_community_uuid a)) (Some (fa_scratch_size a))
    = Inr (ARNM_SUCCESS, Some (t, p))" using row(2) unfolding row_decodes_def by blast
  then show ?thesis using a held row g host_done_keeps [OF a(2), of data h1]
    by (intro exI [of _ p] exI [of _ "host_done (fa_host a) data h1"]) (simp add: ffi_fetch_def row_decodes_def Let_def)
qed

lemma no_row_fetched:
  assumes a: "fa_ready a" "host_keeps (fa_host a) rows" and held: "fa_held_tx_nr a \<noteq> 0 \<longrightarrow> fa_held_tx_nr a \<noteq> nr" and row: "rows h nr = None"
  shows "\<exists>h'. ffi_fetch D (Some a) nr (Some x) h = Inr (ARNM_ERROR_ARRAY_INDEX_OUT_OF_BOUNDS, Some x, Some a, h') \<and> rows h' = rows h"
proof -
  obtain ask answer data h1 where g: "host_get (fa_host a) = Some ask" "ask h nr = (answer, data, h1)" "rows h1 = rows h"
    "case rows h nr of None \<Rightarrow> answer = GRDB_FFI_NOT_FOUND | Some bs \<Rightarrow> answer = GRDB_FFI_OK \<and> data = Some bs"
    by (rule host_asked [OF a(2)])
  then show ?thesis using a held row by (auto simp: ffi_fetch_def)
qed

interpretation hosted: transaction_store "ffi_store D writable" "ffi_holds D rows"
  for D :: "'q arnm_memory" and writable and rows :: "'h \<Rightarrow> u64 \<Rightarrow> bytes option"
proof (unfold_locales, goal_cases)
  case 1
  show ?case by (simp add: ffi_store_def)
next
  case (2 u txs)
  then show ?case by (auto simp: ffi_holds_def)
next
  case (3 u txs t x)
  then obtain a h where u: "u = (Some a, h)" "fa_ready a" "host_keeps (fa_host a) rows" "run_of txs None"
    "fa_held_tx_nr a \<noteq> 0 \<longrightarrow> with_number txs (fa_held_tx_nr a) = Some (fst (fa_held a))" by (cases u) (auto simp: ffi_holds_def)
  obtain i where "i < length txs" "t = txs ! i" using 3(2) by (auto simp: in_set_conv_nth)
  then have n: "with_number txs (tx_nr t) = Some t" using with_number_nth [OF u(4)] by simp
  have "rows_stand D a (rows h) txs" using 3(1) u(1) by (simp add: ffi_holds_def)
  from rows_standD(2) [OF this n] obtain bs where row: "rows h (tx_nr t) = Some bs" "row_decodes D a bs t" by blast
  have f: "grdb_chain_store_fetch (Some (ffi_store D writable)) (tx_nr t) (Some x) u =
      fbind (ffi_fetch D (Some a) (tx_nr t) (Some x) h) (\<lambda>(r, out, a, h). Inr (r, out, (a, h)))"
    by (simp add: grdb_chain_store_fetch_def ffi_store_def u(1))
  show ?case
  proof (cases "fa_held_tx_nr a = tx_nr t \<and> fa_held_tx_nr a \<noteq> 0")
    case True
    then have "ffi_fetch D (Some a) (tx_nr t) (Some x) h = Inr (ARNM_SUCCESS, Some (Some t), Some a, h)"
      using u(2,5) n by (auto simp: ffi_fetch_def)
    then show ?thesis using f 3(1) u(1) by simp
  next
    case False
    have "tx_nr t \<noteq> 0" using numbers_not_zero [OF u(4)] 3 by (auto simp: ffi_holds_def)
    then have n': "fa_held_tx_nr a \<noteq> tx_nr t" using False by auto
    obtain p h' where "ffi_fetch D (Some a) (tx_nr t) (Some x) h = Inr (ARNM_SUCCESS, Some (Some t), Some (a\<lparr>fa_held := (t, p), fa_held_tx_nr := tx_nr t\<rparr>), h')"
      "rows h' = rows h" using row_fetched [OF u(2,3) n' row, of x] by blast
    then show ?thesis using f 3(1) u(1) n by (auto simp: ffi_holds_def rows_stand_held)
  qed
next
  case (4 u txs nr x)
  then obtain a h where u: "u = (Some a, h)" "fa_ready a" "host_keeps (fa_host a) rows"
    "fa_held_tx_nr a \<noteq> 0 \<longrightarrow> with_number txs (fa_held_tx_nr a) = Some (fst (fa_held a))" by (cases u) (auto simp: ffi_holds_def)
  have n: "with_number txs nr = None" using 4(2) by (auto simp: with_number_def find_None_iff)
  have "rows_stand D a (rows h) txs" using 4(1) u(1) by (simp add: ffi_holds_def)
  from rows_standD(1) [OF this n] have "rows h nr = None" .
  then obtain h' where "ffi_fetch D (Some a) nr (Some x) h = Inr (ARNM_ERROR_ARRAY_INDEX_OUT_OF_BOUNDS, Some x, Some a, h')" "rows h' = rows h"
    using no_row_fetched [OF u(2,3)] u(4) n by (metis option.distinct(1))
  then show ?case using 4(1) u(1) by (auto simp: grdb_chain_store_fetch_def ffi_store_def ffi_holds_def)
qed

text \<open>A chain comes up over such a host as it does over the store in memory.\<close>

lemma host_is_loaded:
  assumes "arnm_laws A els ks" "\<forall>t \<in> set txs. wf_transaction t \<and> day_readable t" "length txs \<le> 4294967295"
    and "chain_stands A els ks ch (take k txs) None False" "gc_store ch = grdb_chain_ffi_as_store D (Some a)"
    and "changes ch + 2 * (length txs - k) \<le> 4294967295" "ffi_holds D rows (Some a, h) txs" "k < length txs"
  shows "\<exists>r k' ch' u' mem' pend half. grdb_chain_load A (Some ch) (tx_nr (txs ! k)) 0 (Some x) (Some a, h) mem
        = Some (Inr (r, Some (word_of_nat (k' - k)), Some ch', u', mem'))
    \<and> k \<le> k' \<and> k' \<le> length txs \<and> ffi_holds D rows u' txs \<and> chain_stands A els ks ch' (take k' txs) pend half
    \<and> (if r = ARNM_SUCCESS then k' = length txs \<and> pend = None \<and> \<not> half else k' < length txs \<and> (pend = None \<or> pend = Some (txs ! k')))"
proof -
  have "gc_store ch = ffi_store D (host_put (fa_host a) \<noteq> None)"
    using assms(5,7) by (simp add: grdb_chain_ffi_as_store_def ffi_holds_def)
  from hosted.loads [OF assms(1,2,3,4) this assms(6,7,8)] show ?thesis .
qed


text \<open>A host whose rows are a map.\<close>

definition map_host :: "(u64 \<Rightarrow> bytes option) grdb_chain_ffi_host" where
  "map_host = \<lparr>host_get = Some (\<lambda>h nr. case h nr of None \<Rightarrow> (GRDB_FFI_NOT_FOUND, None, h) | Some bs \<Rightarrow> (GRDB_FFI_OK, Some bs, h)),
     host_release = None, host_put = Some (\<lambda>h nr bs. (GRDB_FFI_OK, h(nr \<mapsto> bs)))\<rparr>"

lemma map_host_keeps: "host_keeps map_host (\<lambda>h. h)"
  by (simp add: host_keeps_def map_host_def split: option.split)

definition sample_adapter :: "(u64 \<Rightarrow> bytes option, 31 word) grdb_chain_ffi" where
  "sample_adapter = zero_ffi\<lparr>fa_host := map_host, fa_scratch := True, fa_scratch_size := 3000, fa_community_uuid := zeros 16, fa_ready := True\<rparr>"


end
