(* ===== verification/GRD_Timestamp.thy ===== *)
theory GRD_Timestamp
  imports GRD_Text GRD_Data "HOL-Library.Signed_Division"
begin

text \<open>
  Points in time, \<open>data/timestamp.c\<close>, and the identifiers of hiero, \<open>data/wire/hiero.c\<close>: arithmetic that stays at the
  end of its range instead of overflowing, and their texts. A pointer into a buffer is the memory and a place in it,
  \<open>None\<close> for NULL; nothing is written past the memory there is.
\<close>

section \<open>Arithmetic\<close>

definition NANOS_PER_SECOND :: int where "NANOS_PER_SECOND = 1000000000"

definition seconds_add :: "i64 \<Rightarrow> i64 \<Rightarrow> i64" where
  "seconds_add a b =
     (if 0 <s b \<and> INT64_MAX - b <s a then INT64_MAX
      else if b <s 0 \<and> a <s INT64_MIN - b then INT64_MIN
      else a + b)"

definition seconds_sub :: "i64 \<Rightarrow> i64 \<Rightarrow> i64" where
  "seconds_sub a b =
     (if b <s 0 \<and> INT64_MAX + b <s a then INT64_MAX
      else if 0 <s b \<and> a <s INT64_MIN + b then INT64_MIN
      else a - b)"

text \<open>The quotient and the remainder are those of C, which truncate towards zero.\<close>

definition normalize_timestamp :: "i64 \<Rightarrow> i64 \<Rightarrow> grdd_timestamp" where
  "normalize_timestamp secs nano =
     (let carry = word_of_int (sint nano sdiv NANOS_PER_SECOND) :: i64;
          rest = word_of_int (sint nano smod NANOS_PER_SECOND) :: i32
      in if rest <s 0 then \<lparr>seconds = seconds_add secs (carry - 1), nanos = rest + word_of_int NANOS_PER_SECOND\<rparr>
         else \<lparr>seconds = seconds_add secs carry, nanos = rest\<rparr>)"

definition grdd_timestamp_minus :: "grdd_timestamp option \<Rightarrow> grdd_timestamp option \<Rightarrow> grdd_timestamp" where
  "grdd_timestamp_minus t1 t2 =
     (case (t1, t2) of
        (Some t1, Some t2) \<Rightarrow> normalize_timestamp (seconds_sub (seconds t1) (seconds t2)) (scast (nanos t1) - scast (nanos t2))
      | _ \<Rightarrow> zero_timestamp)"

definition grdd_timestamp_plus :: "grdd_timestamp option \<Rightarrow> grdd_timestamp option \<Rightarrow> grdd_timestamp" where
  "grdd_timestamp_plus t1 t2 =
     (case (t1, t2) of
        (Some t1, Some t2) \<Rightarrow> normalize_timestamp (seconds_add (seconds t1) (seconds t2)) (scast (nanos t1) + scast (nanos t2))
      | _ \<Rightarrow> zero_timestamp)"

definition grdd_timestamp_from_timestamp_seconds :: "i64 \<Rightarrow> grdd_timestamp" where
  "grdd_timestamp_from_timestamp_seconds s = \<lparr>seconds = s, nanos = 0\<rparr>"

definition grdd_timestamp_seconds_from_timestamp :: "grdd_timestamp \<Rightarrow> i64" where
  "grdd_timestamp_seconds_from_timestamp t = seconds t"

definition grdd_timestamp_get_seconds :: "grdd_timestamp option \<Rightarrow> i64" where
  "grdd_timestamp_get_seconds t = (case t of None \<Rightarrow> 0 | Some t \<Rightarrow> seconds t)"

definition grdd_timestamp_get_nanos :: "grdd_timestamp option \<Rightarrow> i32" where
  "grdd_timestamp_get_nanos t = (case t of None \<Rightarrow> 0 | Some t \<Rightarrow> nanos t)"

definition grdd_timestamp_eq :: "grdd_timestamp \<Rightarrow> grdd_timestamp \<Rightarrow> bool" where
  "grdd_timestamp_eq t1 t2 = (seconds t1 = seconds t2 \<and> nanos t1 = nanos t2)"

definition grdd_timestamp_gt :: "grdd_timestamp \<Rightarrow> grdd_timestamp \<Rightarrow> bool" where
  "grdd_timestamp_gt t1 t2 = (seconds t2 <s seconds t1 \<or> (seconds t1 = seconds t2 \<and> nanos t2 <s nanos t1))"

definition grdd_timestamp_lt :: "grdd_timestamp \<Rightarrow> grdd_timestamp \<Rightarrow> bool" where
  "grdd_timestamp_lt t1 t2 = (seconds t1 <s seconds t2 \<or> (seconds t1 = seconds t2 \<and> nanos t1 <s nanos t2))"

section \<open>Texts\<close>

type_synonym c_buffer = "(string \<times> nat) option"

definition nanos_representable :: "i32 \<Rightarrow> bool" where
  "nanos_representable n = (0 <=s n \<and> n <s word_of_int NANOS_PER_SECOND)"

text \<open>The digits of a number and the terminator behind them, at a place.\<close>

definition put_int64 :: "arnm_conv \<Rightarrow> string \<Rightarrow> nat \<Rightarrow> i64 \<Rightarrow> nat \<Rightarrow> c_fault + string" where
  "put_int64 A mem i v sz = mem_write mem i (int64_to_string_known A v (of_nat sz) @ [NUL])"

definition grdd_timestamp_calculate_string_size :: "arnm_conv \<Rightarrow> grdd_timestamp option \<Rightarrow> nat" where
  "grdd_timestamp_calculate_string_size A t =
     (case t of None \<Rightarrow> 0
      | Some t \<Rightarrow> if \<not> nanos_representable (nanos t) then 0 else int64_to_string_size A (seconds t) + 9 + 1)"

definition grdd_timestamp_to_string :: "arnm_conv \<Rightarrow> c_buffer \<Rightarrow> nat \<Rightarrow> grdd_timestamp option \<Rightarrow> c_fault + nat \<times> c_buffer" where
  "grdd_timestamp_to_string A buffer buffer_size t =
     (case (buffer, t) of
        (Some (mem, i), Some t) \<Rightarrow>
          if buffer_size = 0 then Inr (0, buffer)
          else if \<not> nanos_representable (nanos t) then Inr (0, buffer)
          else let seconds_size = int64_to_string_size A (seconds t);
                   nanos_size = int64_to_string_size A (scast (nanos t));
                   result_size = seconds_size + 1 + 9
            in if buffer_size < result_size + 1 then Inr (result_size, buffer)
            else fbind (put_int64 A mem i (seconds t) seconds_size) (\<lambda>mem.
              let i = i + seconds_size in
              fbind (mem_write mem i [CHR ''.'']) (\<lambda>mem.
              let i = i + 1; zeroPadCount = 9 - nanos_size in
              fbind (if zeroPadCount \<noteq> 0 then mem_set mem i CHR ''0'' zeroPadCount else Inr mem) (\<lambda>mem.
              let i = i + zeroPadCount in
              fbind (put_int64 A mem i (scast (nanos t)) nanos_size) (\<lambda>mem.
              Inr (result_size, Some (mem, snd (the buffer)))))))
      | _ \<Rightarrow> Inr (0, buffer))"

definition grdw_hiero_account_id_get_shared_num :: "grdw_hiero_account_id option \<Rightarrow> i64" where
  "grdw_hiero_account_id_get_shared_num a = (case a of None \<Rightarrow> 0 | Some a \<Rightarrow> shardNum a)"

definition grdw_hiero_account_id_get_realm_num :: "grdw_hiero_account_id option \<Rightarrow> i64" where
  "grdw_hiero_account_id_get_realm_num a = (case a of None \<Rightarrow> 0 | Some a \<Rightarrow> realmNum a)"

definition grdw_hiero_account_id_get_account_num :: "grdw_hiero_account_id option \<Rightarrow> i64" where
  "grdw_hiero_account_id_get_account_num a = (case a of None \<Rightarrow> 0 | Some a \<Rightarrow> accountNum a)"

definition grdw_hiero_account_id_calculate_string_size :: "arnm_conv \<Rightarrow> grdw_hiero_account_id option \<Rightarrow> nat" where
  "grdw_hiero_account_id_calculate_string_size A a =
     (case a of None \<Rightarrow> 0
      | Some a \<Rightarrow> int64_to_string_size A (shardNum a) + int64_to_string_size A (realmNum a) + int64_to_string_size A (accountNum a) + 2)"

definition grdw_hiero_account_id_to_string ::
  "arnm_conv \<Rightarrow> c_buffer \<Rightarrow> nat \<Rightarrow> grdw_hiero_account_id option \<Rightarrow> c_fault + nat \<times> c_buffer" where
  "grdw_hiero_account_id_to_string A buffer buffer_size a =
     (case (buffer, a) of
        (Some (mem, i), Some a) \<Rightarrow>
          if buffer_size = 0 then Inr (0, buffer)
          else let shardNum_size = int64_to_string_size A (shardNum a);
                   realmNum_size = int64_to_string_size A (realmNum a);
                   accountNum_size = int64_to_string_size A (accountNum a);
                   result_size = shardNum_size + realmNum_size + accountNum_size + 2
            in if buffer_size < result_size + 1 then Inr (result_size, buffer)
            else fbind (put_int64 A mem i (shardNum a) shardNum_size) (\<lambda>mem.
              let i = i + shardNum_size in
              fbind (mem_write mem i [CHR ''.'']) (\<lambda>mem.
              let i = i + 1 in
              fbind (put_int64 A mem i (realmNum a) realmNum_size) (\<lambda>mem.
              let i = i + realmNum_size in
              fbind (mem_write mem i [CHR ''.'']) (\<lambda>mem.
              let i = i + 1 in
              fbind (put_int64 A mem i (accountNum a) accountNum_size) (\<lambda>mem.
              Inr (result_size, Some (mem, snd (the buffer))))))))
      | _ \<Rightarrow> Inr (0, buffer))"

definition grdw_hiero_transaction_id_get_transaction_valid_start :: "grdw_hiero_transaction_id option \<Rightarrow> grdd_timestamp option" where
  "grdw_hiero_transaction_id_get_transaction_valid_start t = map_option transactionValidStart t"

definition grdw_hiero_transaction_id_get_account_id :: "grdw_hiero_transaction_id option \<Rightarrow> grdw_hiero_account_id option" where
  "grdw_hiero_transaction_id_get_account_id t = map_option accountID t"

definition grdw_hiero_transaction_id_calculate_string_size :: "arnm_conv \<Rightarrow> grdw_hiero_transaction_id option \<Rightarrow> nat" where
  "grdw_hiero_transaction_id_calculate_string_size A t =
     (case t of None \<Rightarrow> 0
      | Some t \<Rightarrow>
          let timestamp_size = grdd_timestamp_calculate_string_size A (Some (transactionValidStart t))
          in if timestamp_size = 0 then 0
             else grdw_hiero_account_id_calculate_string_size A (Some (accountID t)) + 1 + timestamp_size)"

definition grdw_hiero_transaction_id_to_string ::
  "arnm_conv \<Rightarrow> c_buffer \<Rightarrow> nat \<Rightarrow> grdw_hiero_transaction_id option \<Rightarrow> c_fault + nat \<times> c_buffer" where
  "grdw_hiero_transaction_id_to_string A buffer buffer_size t =
     (case (buffer, t) of
        (Some (mem, i), Some t) \<Rightarrow>
          if buffer_size = 0 then Inr (0, buffer)
          else let timestamp_size = grdd_timestamp_calculate_string_size A (Some (transactionValidStart t))
            in if timestamp_size = 0 then Inr (0, buffer)
            else let account_id_size = grdw_hiero_account_id_calculate_string_size A (Some (accountID t));
                     result_size = account_id_size + 1 + timestamp_size
            in if buffer_size < result_size + 1 then Inr (result_size, buffer)
            else fbind (grdw_hiero_account_id_to_string A (Some (mem, i)) buffer_size (Some (accountID t))) (\<lambda>(_, b).
              let mem = fst (the b); i = i + account_id_size in
              fbind (mem_write mem i [CHR ''@'']) (\<lambda>mem.
              let i = i + 1 in
              fbind (grdd_timestamp_to_string A (Some (mem, i)) (buffer_size - account_id_size - 1) (Some (transactionValidStart t)))
                (\<lambda>(_, b). Inr (result_size, Some (fst (the b), snd (the buffer))))))
      | _ \<Rightarrow> Inr (0, buffer))"

section \<open>What the arithmetic answers\<close>

text \<open>A point in time in nanoseconds, and a number kept within the range of 64 bit.\<close>

definition stamp :: "grdd_timestamp \<Rightarrow> int" where
  "stamp t = sint (seconds t) * NANOS_PER_SECOND + sint (nanos t)"

definition clamp :: "int \<Rightarrow> int" where
  "clamp n = max (- 9223372036854775808) (min 9223372036854775807 n)"

lemma clamp_inside: "- 9223372036854775808 \<le> n \<Longrightarrow> n \<le> 9223372036854775807 \<Longrightarrow> clamp n = n"
  by (simp add: clamp_def)

lemma sint_ends: "sint INT64_MAX = 9223372036854775807" "sint INT64_MIN = - 9223372036854775808"
  by simp_all

lemma sint_sum_64:
  fixes a b :: i64
  assumes "- 9223372036854775808 \<le> sint a + sint b" "sint a + sint b < 9223372036854775808"
  shows "sint (a + b) = sint a + sint b"
proof -
  have "a + b = word_of_int (sint a + sint b)" by (simp add: of_int_add)
  then show ?thesis using sint_word_of_int_64 [of "sint a + sint b"] assms by simp
qed

lemma sint_diff_64:
  fixes a b :: i64
  assumes "- 9223372036854775808 \<le> sint a - sint b" "sint a - sint b < 9223372036854775808"
  shows "sint (a - b) = sint a - sint b"
proof -
  have "a - b = word_of_int (sint a - sint b)" by (simp add: of_int_diff)
  then show ?thesis using sint_word_of_int_64 [of "sint a - sint b"] assms by simp
qed

lemma seconds_add_clamp: "sint (seconds_add a b) = clamp (sint a + sint b)"
proof -
  note r = sint_64_range [of a] sint_64_range [of b]
  have up: "sint (INT64_MAX - b) = 9223372036854775807 - sint b" if "0 < sint b"
    using sint_diff_64 [of INT64_MAX b] that r unfolding sint_ends by simp
  have down: "sint (INT64_MIN - b) = - 9223372036854775808 - sint b" if "sint b < 0"
    using sint_diff_64 [of INT64_MIN b] that r unfolding sint_ends by simp
  show ?thesis
    using up down r sint_sum_64 [of a b] unfolding seconds_add_def word_sless_alt clamp_def by (auto simp: sint_ends)
qed

lemma seconds_sub_clamp: "sint (seconds_sub a b) = clamp (sint a - sint b)"
proof -
  note r = sint_64_range [of a] sint_64_range [of b]
  have up: "sint (INT64_MAX + b) = 9223372036854775807 + sint b" if "sint b < 0"
    using sint_sum_64 [of INT64_MAX b] that r unfolding sint_ends by simp
  have down: "sint (INT64_MIN + b) = - 9223372036854775808 + sint b" if "0 < sint b"
    using sint_sum_64 [of INT64_MIN b] that r unfolding sint_ends by simp
  show ?thesis
    using up down r sint_diff_64 [of a b] unfolding seconds_sub_def word_sless_alt clamp_def by (auto simp: sint_ends)
qed

text \<open>Truncation with the correction for a negative rest is the floor.\<close>

lemma truncated_floor:
  fixes n :: int
  shows "n smod NANOS_PER_SECOND < 0 \<Longrightarrow> n sdiv NANOS_PER_SECOND - 1 = n div NANOS_PER_SECOND
      \<and> n smod NANOS_PER_SECOND + NANOS_PER_SECOND = n mod NANOS_PER_SECOND"
    "0 \<le> n smod NANOS_PER_SECOND \<Longrightarrow> n sdiv NANOS_PER_SECOND = n div NANOS_PER_SECOND \<and> n smod NANOS_PER_SECOND = n mod NANOS_PER_SECOND"
proof -
  have "n sdiv NANOS_PER_SECOND = (if n < 0 then - (- n div NANOS_PER_SECOND) else n div NANOS_PER_SECOND)"
    "n smod NANOS_PER_SECOND = (if n < 0 then - (- n mod NANOS_PER_SECOND) else n mod NANOS_PER_SECOND)"
    by (simp_all add: signed_divide_int_def signed_modulo_int_def NANOS_PER_SECOND_def sgn_if)
  moreover have "n div NANOS_PER_SECOND = (if - n mod NANOS_PER_SECOND = 0 then - (- n div NANOS_PER_SECOND) else - (- n div NANOS_PER_SECOND) - 1)"
    "n mod NANOS_PER_SECOND = (if - n mod NANOS_PER_SECOND = 0 then 0 else NANOS_PER_SECOND - - n mod NANOS_PER_SECOND)"
    using zdiv_zminus1_eq_if [of NANOS_PER_SECOND "- n"] zmod_zminus1_eq_if [of "- n" NANOS_PER_SECOND] by (simp_all add: NANOS_PER_SECOND_def)
  moreover have "0 \<le> - n mod NANOS_PER_SECOND" "0 \<le> n mod NANOS_PER_SECOND" by (simp_all add: NANOS_PER_SECOND_def)
  ultimately show "n smod NANOS_PER_SECOND < 0 \<Longrightarrow> n sdiv NANOS_PER_SECOND - 1 = n div NANOS_PER_SECOND
      \<and> n smod NANOS_PER_SECOND + NANOS_PER_SECOND = n mod NANOS_PER_SECOND"
    "0 \<le> n smod NANOS_PER_SECOND \<Longrightarrow> n sdiv NANOS_PER_SECOND = n div NANOS_PER_SECOND \<and> n smod NANOS_PER_SECOND = n mod NANOS_PER_SECOND"
    by (auto split: if_splits)
qed

lemma smod_small: "\<bar>n smod NANOS_PER_SECOND\<bar> < NANOS_PER_SECOND"
  by (simp add: signed_modulo_int_def NANOS_PER_SECOND_def abs_mult sgn_if)

lemma sint_word_of_int_32:
  assumes "- 2147483648 \<le> k" "k < 2147483648"
  shows "sint (word_of_int k :: i32) = k"
  using assms by (simp add: signed_of_int signed_take_bit_int_eq_self)

lemma sint_add_32:
  fixes a b :: i32
  assumes "- 2147483648 \<le> sint a + sint b" "sint a + sint b < 2147483648"
  shows "sint (a + b) = sint a + sint b"
proof -
  have "a + b = word_of_int (sint a + sint b)" by (simp add: of_int_add)
  then show ?thesis using sint_word_of_int_32 [OF assms] by simp
qed

lemma sint_32_range: "- 2147483648 \<le> sint (w :: i32)" "sint (w :: i32) < 2147483648"
  using sint_greater_eq [of w] sint_less [of w] by simp_all

lemma normalize_floor:
  assumes "\<bar>sint n\<bar> \<le> 4294967296"
  shows "sint (seconds (normalize_timestamp s n)) = clamp (sint s + sint n div NANOS_PER_SECOND)
    \<and> sint (nanos (normalize_timestamp s n)) = sint n mod NANOS_PER_SECOND"
proof -
  define c r where "c = sint n sdiv NANOS_PER_SECOND" and "r = sint n smod NANOS_PER_SECOND"
  have "- 10 \<le> c \<and> c \<le> 10"
    using assms by (auto simp: c_def signed_divide_int_def NANOS_PER_SECOND_def sgn_if)
  then have c: "sint (word_of_int c :: i64) = c" "sint (word_of_int c - 1 :: i64) = c - 1"
    using sint_word_of_int_64 [of c] sint_word_of_int_64 [of "c - 1"] by simp_all
  have small: "\<bar>r\<bar> < 1000000000" using smod_small [of "sint n"] by (simp add: r_def NANOS_PER_SECOND_def)
  then have r: "sint (word_of_int r :: i32) = r" by (intro sint_word_of_int_32) auto
  have rest: "sint (word_of_int r + word_of_int NANOS_PER_SECOND :: i32) = r + NANOS_PER_SECOND" if "r < 0"
  proof -
    have "sint (word_of_int NANOS_PER_SECOND :: i32) = NANOS_PER_SECOND" by (rule sint_word_of_int_32) (simp_all add: NANOS_PER_SECOND_def)
    then show ?thesis using sint_add_32 [of "word_of_int r" "word_of_int NANOS_PER_SECOND"] r small that
      by (simp add: NANOS_PER_SECOND_def)
  qed
  show ?thesis
  proof (cases "r < 0")
    case True
    then have "c - 1 = sint n div NANOS_PER_SECOND" "r + NANOS_PER_SECOND = sint n mod NANOS_PER_SECOND"
      using truncated_floor(1) [of "sint n"] by (simp_all add: c_def r_def)
    then show ?thesis using True r c rest seconds_add_clamp [of s "word_of_int c - 1"]
      by (simp add: normalize_timestamp_def word_sless_alt c_def [symmetric] r_def [symmetric])
  next
    case False
    then have "c = sint n div NANOS_PER_SECOND" "r = sint n mod NANOS_PER_SECOND"
      using truncated_floor(2) [of "sint n"] by (simp_all add: c_def r_def)
    then show ?thesis using False r c seconds_add_clamp [of s "word_of_int c"]
      by (simp add: normalize_timestamp_def word_sless_alt c_def [symmetric] r_def [symmetric])
  qed
qed

lemma widened_nanos:
  fixes a b :: i32
  shows "sint (scast a - scast b :: i64) = sint a - sint b" "sint (scast a + scast b :: i64) = sint a + sint b"
proof -
  have s: "sint (scast (w :: i32) :: i64) = sint w" for w by (simp add: signed_scast_eq signed_take_bit_int_eq_self sint_32_range
      less_trans [OF sint_32_range(2)] order_trans [OF _ sint_32_range(1)])
  show "sint (scast a - scast b :: i64) = sint a - sint b" "sint (scast a + scast b :: i64) = sint a + sint b"
    using sint_32_range [of a] sint_32_range [of b] by (simp_all add: sint_diff_64 sint_sum_64 s)
qed

text \<open>The answers, member by member.\<close>

lemma timestamp_minus_parts:
  "sint (seconds (grdd_timestamp_minus (Some a) (Some b))) =
     clamp (clamp (sint (seconds a) - sint (seconds b)) + (sint (nanos a) - sint (nanos b)) div NANOS_PER_SECOND)"
  "sint (nanos (grdd_timestamp_minus (Some a) (Some b))) = (sint (nanos a) - sint (nanos b)) mod NANOS_PER_SECOND"
  using normalize_floor [of "scast (nanos a) - scast (nanos b)" "seconds_sub (seconds a) (seconds b)"]
    sint_32_range [of "nanos a"] sint_32_range [of "nanos b"]
  by (simp_all add: grdd_timestamp_minus_def widened_nanos seconds_sub_clamp)

lemma timestamp_plus_parts:
  "sint (seconds (grdd_timestamp_plus (Some a) (Some b))) =
     clamp (clamp (sint (seconds a) + sint (seconds b)) + (sint (nanos a) + sint (nanos b)) div NANOS_PER_SECOND)"
  "sint (nanos (grdd_timestamp_plus (Some a) (Some b))) = (sint (nanos a) + sint (nanos b)) mod NANOS_PER_SECOND"
  using normalize_floor [of "scast (nanos a) + scast (nanos b)" "seconds_add (seconds a) (seconds b)"]
    sint_32_range [of "nanos a"] sint_32_range [of "nanos b"]
  by (simp_all add: grdd_timestamp_plus_def widened_nanos seconds_add_clamp)

lemma nanos_carry:
  assumes "- 4294967296 \<le> n" "n < 4294967296"
  shows "- 5 \<le> n div NANOS_PER_SECOND" "n div NANOS_PER_SECOND \<le> 4"
  using zdiv_mono1 [OF assms(1), of 1000000000] zdiv_mono1 [of n 4294967295 1000000000] assms(2)
  by (simp_all add: NANOS_PER_SECOND_def)



section \<open>What the texts are\<close>

definition timestamp_text :: "grdd_timestamp \<Rightarrow> string" where
  "timestamp_text t = decimal_int (sint (seconds t)) @ ''.''
     @ replicate (9 - length (decimal_int (sint (nanos t)))) CHR ''0'' @ decimal_int (sint (nanos t))"

definition account_text :: "grdw_hiero_account_id \<Rightarrow> string" where
  "account_text a = decimal_int (sint (shardNum a)) @ ''.'' @ decimal_int (sint (realmNum a)) @ ''.'' @ decimal_int (sint (accountNum a))"

definition transaction_id_text :: "grdw_hiero_transaction_id \<Rightarrow> string" where
  "transaction_id_text t = account_text (accountID t) @ ''@'' @ timestamp_text (transactionValidStart t)"

text \<open>A memory that has a text at a place, and \<open>n\<close> characters behind it.\<close>

definition holds_text :: "string \<Rightarrow> string \<Rightarrow> string \<Rightarrow> nat \<Rightarrow> bool" where
  "holds_text mem pre txt n \<longleftrightarrow> (\<exists>tail. mem = pre @ txt @ tail \<and> length tail = n)"

lemma holds_more:
  assumes "holds_text mem pre txt (length cs + k)" "i = length pre + length txt"
  shows "\<exists>mem'. mem_write mem i cs = Inr mem' \<and> holds_text mem' pre (txt @ cs) k"
  using assms by (auto simp: holds_text_def mem_write_def)

lemma holds_opened: "holds_text mem pre (txt @ [NUL]) n \<Longrightarrow> holds_text mem pre txt (Suc n)"
  by (auto simp: holds_text_def)

lemma conv_int64:
  assumes "arnm_conv_ok A"
  shows "int64_to_string_size A v = length (decimal_int (sint v))"
    "int64_to_string_known A v (of_nat (length (decimal_int (sint v)))) = decimal_int (sint v)"
  using assms by (simp_all add: arnm_conv_ok_def)

lemma holds_number:
  assumes A: "arnm_conv_ok A" and m: "holds_text mem pre txt (length (decimal_int (sint v)) + Suc k)" "i = length pre + length txt"
  shows "\<exists>mem'. put_int64 A mem i v (int64_to_string_size A v) = Inr mem'
    \<and> holds_text mem' pre (txt @ decimal_int (sint v)) (Suc k) \<and> holds_text mem' pre (txt @ decimal_int (sint v) @ [NUL]) k"
proof -
  have "holds_text mem pre txt (length (decimal_int (sint v) @ [NUL]) + k)" using m(1) by simp
  from holds_more [OF this m(2)] show ?thesis
    using holds_opened [of _ pre "txt @ decimal_int (sint v)"] by (auto simp: put_int64_def conv_int64 [OF A])
qed

lemma account_text_written:
  assumes A: "arnm_conv_ok A" and m: "holds_text mem pre [] (length (account_text a) + Suc n)" "length (account_text a) < k"
  shows "\<exists>mem'. grdw_hiero_account_id_to_string A (Some (mem, length pre)) k (Some a) = Inr (length (account_text a), Some (mem', length pre))
    \<and> holds_text mem' pre (account_text a) (Suc n)"
proof -
  let ?s = "decimal_int (sint (shardNum a))" and ?r = "decimal_int (sint (realmNum a))" and ?c = "decimal_int (sint (accountNum a))"
  have l: "length (account_text a) = length ?s + length ?r + length ?c + 2" by (simp add: account_text_def)
  have h: "holds_text mem pre [] (length ?s + Suc (length ?r + length ?c + 2 + n))" using m(1) l by (simp add: ac_simps)
  obtain m1 where m1: "put_int64 A mem (length pre) (shardNum a) (int64_to_string_size A (shardNum a)) = Inr m1"
    "holds_text m1 pre ?s (length ''.'' + Suc (length ?r + length ?c + 1 + n))"
    using holds_number [OF A h, of "length pre"] by auto
  obtain m2 where m2: "mem_write m1 (length pre + length ?s) ''.'' = Inr m2"
    "holds_text m2 pre (?s @ ''.'') (length ?r + Suc (length ?c + 1 + n))"
    using holds_more [OF m1(2), of "length pre + length ?s"] by (auto simp: ac_simps)
  obtain m3 where m3: "put_int64 A m2 (length pre + length ?s + 1) (realmNum a) (int64_to_string_size A (realmNum a)) = Inr m3"
    "holds_text m3 pre (?s @ ''.'' @ ?r) (length ''.'' + (length ?c + Suc n))"
    using holds_number [OF A m2(2), of "length pre + length ?s + 1"] by auto
  obtain m4 where m4: "mem_write m3 (length pre + length ?s + 1 + length ?r) ''.'' = Inr m4"
    "holds_text m4 pre (?s @ ''.'' @ ?r @ ''.'') (length ?c + Suc n)"
    using holds_more [OF m3(2), of "length pre + length ?s + 1 + length ?r"] by auto
  obtain m5 where m5: "put_int64 A m4 (length pre + length ?s + 1 + length ?r + 1) (accountNum a) (int64_to_string_size A (accountNum a)) = Inr m5"
    "holds_text m5 pre (account_text a) (Suc n)"
    using holds_number [OF A m4(2), of "length pre + length ?s + 1 + length ?r + 1"] by (auto simp: account_text_def)
  show ?thesis
    using m1(1) m2(1) m3(1) m4(1) m5 m(2)
    by (intro exI [of _ m5]) (simp add: grdw_hiero_account_id_to_string_def Let_def conv_int64(1) [OF A] l)
qed

lemma sint_scast_32: "sint (scast (w :: i32) :: i64) = sint w"
  using widened_nanos(2) [of w 0] by simp

lemma nanos_digits:
  assumes "nanos_representable w"
  shows "length (decimal_int (sint w)) \<le> 9"
proof -
  have "sint (word_of_int NANOS_PER_SECOND :: i32) = NANOS_PER_SECOND" by (rule sint_word_of_int_32) (simp_all add: NANOS_PER_SECOND_def)
  then have "0 \<le> sint w" "sint w < 1000000000"
    using assms by (simp_all add: nanos_representable_def word_sless_alt word_sle_eq NANOS_PER_SECOND_def)
  then show ?thesis using decimal_length_le [of "nat (sint w)" 9] by (simp add: decimal_int_def)
qed

lemma timestamp_text_length: "nanos_representable (nanos t) \<Longrightarrow> length (timestamp_text t) = length (decimal_int (sint (seconds t))) + 10"
  using nanos_digits [of "nanos t"] by (simp add: timestamp_text_def)

lemma timestamp_text_written:
  assumes A: "arnm_conv_ok A" and t: "nanos_representable (nanos t)"
    and m: "holds_text mem pre txt (length (timestamp_text t) + Suc n)" "length (timestamp_text t) < k"
  shows "\<exists>mem'. grdd_timestamp_to_string A (Some (mem, length pre + length txt)) k (Some t)
      = Inr (length (timestamp_text t), Some (mem', length pre + length txt))
    \<and> holds_text mem' pre (txt @ timestamp_text t @ [NUL]) n"
proof -
  let ?i = "length pre + length txt" and ?s = "decimal_int (sint (seconds t))" and ?n = "decimal_int (sint (nanos t))"
  let ?z = "replicate (9 - length ?n) CHR ''0''"
  define z where "z = 9 - length ?n"
  note l = timestamp_text_length [OF t] and d = nanos_digits [OF t]
  have h: "holds_text mem pre txt (length ?s + Suc (length ?z + (length ?n + Suc n)))" using m(1) l d by (simp add: ac_simps)
  obtain m1 where m1: "put_int64 A mem ?i (seconds t) (int64_to_string_size A (seconds t)) = Inr m1"
    "holds_text m1 pre (txt @ ?s) (length ''.'' + (length ?z + (length ?n + Suc n)))"
    using holds_number [OF A h, of ?i] by auto
  obtain m2 where m2: "mem_write m1 (?i + length ?s) ''.'' = Inr m2" "holds_text m2 pre (txt @ ?s @ ''.'') (length ?z + (length ?n + Suc n))"
    using holds_more [OF m1(2), of "?i + length ?s"] by auto
  obtain m3 where m3: "(if 9 - length ?n \<noteq> 0 then mem_set m2 (?i + length ?s + 1) CHR ''0'' (9 - length ?n) else Inr m2) = Inr m3"
    "holds_text m3 pre (txt @ ?s @ ''.'' @ ?z) (length ?n + Suc n)"
    using holds_more [OF m2(2), of "?i + length ?s + 1"] m2(2) by (cases "9 - length ?n = 0") (auto simp: mem_set_def)
  have v: "decimal_int (sint (scast (nanos t) :: i64)) = ?n" by (simp add: sint_scast_32)
  obtain m4 where m4: "put_int64 A m3 (?i + length ?s + 1 + (9 - length ?n)) (scast (nanos t)) (int64_to_string_size A (scast (nanos t))) = Inr m4"
    "holds_text m4 pre (txt @ timestamp_text t @ [NUL]) n"
    using holds_number [OF A, of m3 pre "txt @ ?s @ ''.'' @ ?z" "scast (nanos t)" n "?i + length ?s + 1 + (9 - length ?n)"] m3(2)
    unfolding v by (auto simp: timestamp_text_def)
  show ?thesis
    using m1(1) m2(1) m3(1) m4 m(2) t l unfolding z_def [symmetric]
    by (intro exI [of _ m4], cases "z = 0") (simp_all add: grdd_timestamp_to_string_def Let_def conv_int64(1) [OF A] v z_def [symmetric])
qed

lemma text_without_NUL: "NUL \<notin> set (decimal_int n)"
proof -
  have "NUL \<notin> set (decimal k)" for k
  proof
    assume "NUL \<in> set (decimal k)"
    then obtain d where "d < 10" "NUL = digit_char d" using decimal_digits [of k] by blast
    then show False using digit_char_neq(4) [of d] by simp
  qed
  then show ?thesis by (simp add: decimal_int_def) (simp add: NUL_def)
qed

lemma c_string_of_text: "NUL \<notin> set cs \<Longrightarrow> c_string (cs @ NUL # rest) = cs"
  by (induction cs) (auto simp: c_string_def)

text \<open>C32: The text of a hiero transaction id is shard, realm and account number, the second it is valid from and nine
  digits of nanoseconds. A buffer with a character more than the text has receives all of it, closed by a terminator, and
  nothing outside of it is touched; any smaller one is left alone, and either way the answer is the length of the text,
  which is the one the calculation of the size gives.\<close>
theorem transaction_id_text_exact:
  assumes A: "arnm_conv_ok A" and t: "nanos_representable (nanos (transactionValidStart t))"
    and m: "length mem = length pre + length (transaction_id_text t) + 1 + n" "take (length pre) mem = pre"
  shows "grdw_hiero_transaction_id_calculate_string_size A (Some t) = length (transaction_id_text t)
    \<and> (length (transaction_id_text t) < k \<longrightarrow>
         (\<exists>mem'. grdw_hiero_transaction_id_to_string A (Some (mem, length pre)) k (Some t)
              = Inr (length (transaction_id_text t), Some (mem', length pre))
            \<and> c_string (drop (length pre) mem') = transaction_id_text t \<and> take (length pre) mem' = pre \<and> length mem' = length mem))
    \<and> (0 < k \<and> k \<le> length (transaction_id_text t) \<longrightarrow>
         grdw_hiero_transaction_id_to_string A (Some (mem, length pre)) k (Some t)
           = Inr (length (transaction_id_text t), Some (mem, length pre)))"
proof -
  let ?a = "account_text (accountID t)" and ?v = "transactionValidStart t"
  have l: "length (transaction_id_text t) = length ?a + 1 + length (timestamp_text ?v)" by (simp add: transaction_id_text_def)
  have ts: "grdd_timestamp_calculate_string_size A (Some ?v) = length (timestamp_text ?v)" "length (timestamp_text ?v) \<noteq> 0"
    using t timestamp_text_length [OF t] by (simp_all add: grdd_timestamp_calculate_string_size_def conv_int64(1) [OF A])
  have ac: "grdw_hiero_account_id_calculate_string_size A (Some (accountID t)) = length ?a"
    by (simp add: grdw_hiero_account_id_calculate_string_size_def conv_int64(1) [OF A] account_text_def)
  show ?thesis
  proof (intro conjI impI)
    show "grdw_hiero_transaction_id_calculate_string_size A (Some t) = length (transaction_id_text t)"
      using ts ac l by (simp add: grdw_hiero_transaction_id_calculate_string_size_def Let_def)
  next
    assume k: "length (transaction_id_text t) < k"
    let ?n = "length (timestamp_text ?v) + Suc n"
    have "mem = pre @ [] @ drop (length pre) mem" using append_take_drop_id [of "length pre" mem] m(2) by simp
    moreover have "length (drop (length pre) mem) = length ?a + Suc ?n" using m(1) l by simp
    ultimately have h: "holds_text mem pre [] (length ?a + Suc ?n)" unfolding holds_text_def by blast
    obtain m1 where m1: "grdw_hiero_account_id_to_string A (Some (mem, length pre)) k (Some (accountID t)) = Inr (length ?a, Some (m1, length pre))"
      "holds_text m1 pre ?a (length ''@'' + ?n)"
      using account_text_written [OF A h, of k] k l by auto
    obtain m2 where m2: "mem_write m1 (length pre + length ?a) ''@'' = Inr m2" "holds_text m2 pre (?a @ ''@'') ?n"
      using holds_more [OF m1(2), of "length pre + length ?a"] by auto
    have less: "length (timestamp_text ?v) < k - length ?a - 1" using k l by simp
    obtain m3 where m3: "grdd_timestamp_to_string A (Some (m2, length pre + length ?a + 1)) (k - length ?a - 1) (Some ?v)
        = Inr (length (timestamp_text ?v), Some (m3, length pre + length ?a + 1))"
      "holds_text m3 pre (transaction_id_text t @ [NUL]) n"
      using timestamp_text_written [OF A t m2(2), of "k - length ?a - 1"] less by (auto simp: transaction_id_text_def)
    have c: "grdw_hiero_transaction_id_to_string A (Some (mem, length pre)) k (Some t) = Inr (length (transaction_id_text t), Some (m3, length pre))"
      using m1(1) m2(1) m3(1) k l ts ac by (simp add: grdw_hiero_transaction_id_to_string_def Let_def)
    show "\<exists>mem'. grdw_hiero_transaction_id_to_string A (Some (mem, length pre)) k (Some t)
          = Inr (length (transaction_id_text t), Some (mem', length pre))
        \<and> c_string (drop (length pre) mem') = transaction_id_text t \<and> take (length pre) mem' = pre \<and> length mem' = length mem"
    proof (intro exI conjI)
      obtain tail where tail: "m3 = pre @ (transaction_id_text t @ [NUL]) @ tail" "length tail = n" using m3(2) by (auto simp: holds_text_def)
      have "NUL \<notin> set (transaction_id_text t)"
        using text_without_NUL by (auto simp: transaction_id_text_def account_text_def timestamp_text_def NUL_def)
      then show "c_string (drop (length pre) m3) = transaction_id_text t" using tail(1) by (simp add: c_string_of_text)
      show "take (length pre) m3 = pre" "length m3 = length mem" using tail m(1) by simp_all
    qed (rule c)
  next
    assume "0 < k \<and> k \<le> length (transaction_id_text t)"
    then show "grdw_hiero_transaction_id_to_string A (Some (mem, length pre)) k (Some t)
           = Inr (length (transaction_id_text t), Some (mem, length pre))"
      using ts ac l by (simp add: grdw_hiero_transaction_id_to_string_def Let_def)
  qed
qed

theorem transaction_id_text_exact_witness:
  "\<exists>mem'. grdw_hiero_transaction_id_to_string decimal_conv (Some (replicate 30 NUL, 2)) 28
       (Some \<lparr>transactionValidStart = \<lparr>seconds = 7, nanos = 50\<rparr>, accountID = \<lparr>shardNum = 0, realmNum = 0, accountNum = 12\<rparr>\<rparr>)
     = Inr (18, Some (mem', 2)) \<and> c_string (drop 2 mem') = ''0.0.12@7.000000050''"
proof -
  let ?t = "\<lparr>transactionValidStart = \<lparr>seconds = 7, nanos = 50\<rparr>, accountID = \<lparr>shardNum = 0, realmNum = 0, accountNum = 12\<rparr>\<rparr> :: grdw_hiero_transaction_id"
  have t: "transaction_id_text ?t = ''0.0.12@7.000000050''" by code_simp
  have v: "nanos_representable (nanos (transactionValidStart ?t))" by code_simp
  have r: "take (length [NUL, NUL]) (replicate 30 NUL) = [NUL, NUL]" by (simp add: numeral_eq_Suc)
  show ?thesis
    using transaction_id_text_exact [OF decimal_conv_ok v _ r, of 9 28] unfolding t by (auto simp: numeral_2_eq_2)
qed

end
