(* ===== verification/GRD_Names.thy ===== *)
theory GRD_Names
  imports GRD_Wire
begin

text \<open>
  The names of the enumerations, \<open>src/types\<close>: a table from enumerator to name and a chain of comparisons back.
  An enumeration without negative enumerators is an unsigned word, so the test for a negative value never holds and
  is left out. A string with its size is the characters in memory and how many of them count.
\<close>

section \<open>The memo keys\<close>

abbreviation GRDT_MEMO_KEY_SHARED_SECRET :: grdt_memo_key where "GRDT_MEMO_KEY_SHARED_SECRET \<equiv> 0"
abbreviation GRDT_MEMO_KEY_COMMUNITY_SECRET :: grdt_memo_key where "GRDT_MEMO_KEY_COMMUNITY_SECRET \<equiv> 1"
abbreviation GRDT_MEMO_KEY_PLAIN :: grdt_memo_key where "GRDT_MEMO_KEY_PLAIN \<equiv> 2"
abbreviation GRDT_MEMO_KEY_NONE :: grdt_memo_key where "GRDT_MEMO_KEY_NONE \<equiv> 3"

section \<open>Tables\<close>

text \<open>The lookup every table is read with, \<open>None\<close> a place that was not initialised, and \<open>GRDU_STRING_EQUALS\<close>.\<close>

definition message_of :: "string \<Rightarrow> string option list \<Rightarrow> u32 \<Rightarrow> string" where
  "message_of unknown messages value' =
     (if length messages \<le> unat value' then unknown
      else case messages ! unat value' of None \<Rightarrow> unknown | Some msg \<Rightarrow> msg)"

definition GRDU_STRING_EQUALS :: "string \<Rightarrow> nat \<Rightarrow> string \<Rightarrow> bool" where
  "GRDU_STRING_EQUALS str str_size want = (str_size = length want \<and> take (length want) str = want)"

definition address_messages :: "string option list" where
  "address_messages = [Some ''GRDT_ADDRESS_NONE'', Some ''GRDT_ADDRESS_COMMUNITY_HUMAN'', Some ''GRDT_ADDRESS_COMMUNITY_GMW'',
     Some ''GRDT_ADDRESS_COMMUNITY_AUF'', Some ''GRDT_ADDRESS_COMMUNITY_PROJECT'', Some ''GRDT_ADDRESS_SUBACCOUNT'',
     Some ''GRDT_ADDRESS_CRYPTO_ACCOUNT'', Some ''GRDT_ADDRESS_DEFERRED_TRANSFER'']"

definition grdt_address_to_string :: "grdt_address \<Rightarrow> string" where
  "grdt_address_to_string address = message_of ''GRDT_ADDRESS_UNKNOWN'' address_messages address"

definition grdt_address_from_string :: "string \<Rightarrow> nat \<Rightarrow> grdt_address" where
  "grdt_address_from_string str n =
     (if GRDU_STRING_EQUALS str n ''GRDT_ADDRESS_COMMUNITY_HUMAN'' then GRDT_ADDRESS_COMMUNITY_HUMAN
      else if GRDU_STRING_EQUALS str n ''GRDT_ADDRESS_DEFERRED_TRANSFER'' then GRDT_ADDRESS_DEFERRED_TRANSFER
      else if GRDU_STRING_EQUALS str n ''GRDT_ADDRESS_COMMUNITY_GMW'' then GRDT_ADDRESS_COMMUNITY_GMW
      else if GRDU_STRING_EQUALS str n ''GRDT_ADDRESS_COMMUNITY_AUF'' then GRDT_ADDRESS_COMMUNITY_AUF
      else if GRDU_STRING_EQUALS str n ''GRDT_ADDRESS_COMMUNITY_PROJECT'' then GRDT_ADDRESS_COMMUNITY_PROJECT
      else if GRDU_STRING_EQUALS str n ''GRDT_ADDRESS_SUBACCOUNT'' then GRDT_ADDRESS_SUBACCOUNT
      else if GRDU_STRING_EQUALS str n ''GRDT_ADDRESS_CRYPTO_ACCOUNT'' then GRDT_ADDRESS_CRYPTO_ACCOUNT
      else GRDT_ADDRESS_NONE)"

definition cross_group_messages :: "string option list" where
  "cross_group_messages = [Some ''GRDT_CROSS_GROUP_LOCAL'', Some ''GRDT_CROSS_GROUP_INBOUND'', Some ''GRDT_CROSS_GROUP_OUTBOUND'',
     Some ''GRDT_CROSS_GROUP_CROSS'', Some ''GRDT_CROSS_GROUP_NONE'']"

definition grdt_cross_group_to_string :: "grdt_cross_group \<Rightarrow> string" where
  "grdt_cross_group_to_string cross_group = message_of ''GRDT_CROSS_GROUP_UNKNOWN'' cross_group_messages cross_group"

definition grdt_cross_group_from_string :: "string \<Rightarrow> nat \<Rightarrow> grdt_cross_group" where
  "grdt_cross_group_from_string str n =
     (if GRDU_STRING_EQUALS str n ''GRDT_CROSS_GROUP_LOCAL'' then GRDT_CROSS_GROUP_LOCAL
      else if GRDU_STRING_EQUALS str n ''GRDT_CROSS_GROUP_INBOUND'' then GRDT_CROSS_GROUP_INBOUND
      else if GRDU_STRING_EQUALS str n ''GRDT_CROSS_GROUP_OUTBOUND'' then GRDT_CROSS_GROUP_OUTBOUND
      else if GRDU_STRING_EQUALS str n ''GRDT_CROSS_GROUP_CROSS'' then GRDT_CROSS_GROUP_CROSS
      else GRDT_CROSS_GROUP_NONE)"

text \<open>The place of the enumerator 1, which no ledger anchor has any longer, stays empty.\<close>

definition ledger_anchor_messages :: "string option list" where
  "ledger_anchor_messages = [Some ''GRDT_LEDGER_ANCHOR_UNSPECIFIED'', None, Some ''GRDT_LEDGER_ANCHOR_HIERO_TRANSACTION_ID'',
     Some ''GRDT_LEDGER_ANCHOR_LEGACY_GRADIDO_DB_TRANSACTION_ID'', Some ''GRDT_LEDGER_ANCHOR_NODE_TRIGGER_TRANSACTION_ID'',
     Some ''GRDT_LEDGER_ANCHOR_LEGACY_GRADIDO_DB_COMMUNITY_ID'', Some ''GRDT_LEDGER_ANCHOR_LEGACY_GRADIDO_DB_USER_ID'',
     Some ''GRDT_LEDGER_ANCHOR_LEGACY_GRADIDO_DB_CONTRIBUTION_ID'', Some ''GRDT_LEDGER_ANCHOR_LEGACY_GRADIDO_DB_TRANSACTION_LINK_ID'']"

definition grdt_ledger_anchor_to_string :: "grdt_ledger_anchor \<Rightarrow> string" where
  "grdt_ledger_anchor_to_string anchor = message_of ''GRDT_LEDGER_ANCHOR_UNKNOWN'' ledger_anchor_messages anchor"

definition grdt_ledger_anchor_from_string :: "string \<Rightarrow> nat \<Rightarrow> grdt_ledger_anchor" where
  "grdt_ledger_anchor_from_string str n =
     (if GRDU_STRING_EQUALS str n ''GRDT_LEDGER_ANCHOR_HIERO_TRANSACTION_ID'' then GRDT_LEDGER_ANCHOR_HIERO_TRANSACTION_ID
      else if GRDU_STRING_EQUALS str n ''GRDT_LEDGER_ANCHOR_LEGACY_GRADIDO_DB_TRANSACTION_ID'' then GRDT_LEDGER_ANCHOR_LEGACY_GRADIDO_DB_TRANSACTION_ID
      else if GRDU_STRING_EQUALS str n ''GRDT_LEDGER_ANCHOR_NODE_TRIGGER_TRANSACTION_ID'' then GRDT_LEDGER_ANCHOR_NODE_TRIGGER_TRANSACTION_ID
      else if GRDU_STRING_EQUALS str n ''GRDT_LEDGER_ANCHOR_LEGACY_GRADIDO_DB_TRANSACTION_LINK_ID'' then GRDT_LEDGER_ANCHOR_LEGACY_GRADIDO_DB_TRANSACTION_LINK_ID
      else if GRDU_STRING_EQUALS str n ''GRDT_LEDGER_ANCHOR_LEGACY_GRADIDO_DB_CONTRIBUTION_ID'' then GRDT_LEDGER_ANCHOR_LEGACY_GRADIDO_DB_CONTRIBUTION_ID
      else if GRDU_STRING_EQUALS str n ''GRDT_LEDGER_ANCHOR_LEGACY_GRADIDO_DB_USER_ID'' then GRDT_LEDGER_ANCHOR_LEGACY_GRADIDO_DB_USER_ID
      else if GRDU_STRING_EQUALS str n ''GRDT_LEDGER_ANCHOR_LEGACY_GRADIDO_DB_COMMUNITY_ID'' then GRDT_LEDGER_ANCHOR_LEGACY_GRADIDO_DB_COMMUNITY_ID
      else GRDT_LEDGER_ANCHOR_UNSPECIFIED)"

definition memo_key_messages :: "string option list" where
  "memo_key_messages = [Some ''GRDT_MEMO_KEY_SHARED_SECRET'', Some ''GRDT_MEMO_KEY_COMMUNITY_SECRET'', Some ''GRDT_MEMO_KEY_PLAIN'',
     Some ''GRDT_MEMO_KEY_NONE'']"

definition grdt_memo_key_to_string :: "grdt_memo_key \<Rightarrow> string" where
  "grdt_memo_key_to_string memo_key = message_of ''GRDT_MEMO_KEY_UNKNOWN'' memo_key_messages memo_key"

definition grdt_memo_key_from_string :: "string \<Rightarrow> nat \<Rightarrow> grdt_memo_key" where
  "grdt_memo_key_from_string str n =
     (if GRDU_STRING_EQUALS str n ''GRDT_MEMO_KEY_SHARED_SECRET'' then GRDT_MEMO_KEY_SHARED_SECRET
      else if GRDU_STRING_EQUALS str n ''GRDT_MEMO_KEY_COMMUNITY_SECRET'' then GRDT_MEMO_KEY_COMMUNITY_SECRET
      else if GRDU_STRING_EQUALS str n ''GRDT_MEMO_KEY_PLAIN'' then GRDT_MEMO_KEY_PLAIN
      else GRDT_MEMO_KEY_NONE)"

definition transaction_messages :: "string option list" where
  "transaction_messages = [Some ''GRDT_TRANSACTION_NONE'', Some ''GRDT_TRANSACTION_CREATION'', Some ''GRDT_TRANSACTION_TRANSFER'',
     Some ''GRDT_TRANSACTION_COMMUNITY_FRIENDS_UPDATE'', Some ''GRDT_TRANSACTION_REGISTER_ADDRESS'',
     Some ''GRDT_TRANSACTION_DEFERRED_TRANSFER'', Some ''GRDT_TRANSACTION_COMMUNITY_ROOT'',
     Some ''GRDT_TRANSACTION_REDEEM_DEFERRED_TRANSFER'', Some ''GRDT_TRANSACTION_TIMEOUT_DEFERRED_TRANSFER'']"

definition grdt_transaction_to_string :: "grdt_transaction \<Rightarrow> string" where
  "grdt_transaction_to_string type' = message_of ''GRDT_TRANSACTION_UNKNOWN'' transaction_messages type'"

definition grdt_transaction_from_string :: "string \<Rightarrow> nat \<Rightarrow> grdt_transaction" where
  "grdt_transaction_from_string str n =
     (if GRDU_STRING_EQUALS str n ''GRDT_TRANSACTION_TRANSFER'' then GRDT_TRANSACTION_TRANSFER
      else if GRDU_STRING_EQUALS str n ''GRDT_TRANSACTION_CREATION'' then GRDT_TRANSACTION_CREATION
      else if GRDU_STRING_EQUALS str n ''GRDT_TRANSACTION_REGISTER_ADDRESS'' then GRDT_TRANSACTION_REGISTER_ADDRESS
      else if GRDU_STRING_EQUALS str n ''GRDT_TRANSACTION_DEFERRED_TRANSFER'' then GRDT_TRANSACTION_DEFERRED_TRANSFER
      else if GRDU_STRING_EQUALS str n ''GRDT_TRANSACTION_REDEEM_DEFERRED_TRANSFER'' then GRDT_TRANSACTION_REDEEM_DEFERRED_TRANSFER
      else if GRDU_STRING_EQUALS str n ''GRDT_TRANSACTION_TIMEOUT_DEFERRED_TRANSFER'' then GRDT_TRANSACTION_TIMEOUT_DEFERRED_TRANSFER
      else if GRDU_STRING_EQUALS str n ''GRDT_TRANSACTION_COMMUNITY_ROOT'' then GRDT_TRANSACTION_COMMUNITY_ROOT
      else if GRDU_STRING_EQUALS str n ''GRDT_TRANSACTION_COMMUNITY_FRIENDS_UPDATE'' then GRDT_TRANSACTION_COMMUNITY_FRIENDS_UPDATE
      else GRDT_TRANSACTION_NONE)"

section \<open>There and back\<close>

text \<open>A text that starts with a name of its size: what the calls that read names are given.\<close>

lemma string_equals_name [simp]:
  "GRDU_STRING_EQUALS (name @ rest) (length name) want \<longleftrightarrow> name = want"
  by (auto simp: GRDU_STRING_EQUALS_def)

lemma string_equals_eq: "GRDU_STRING_EQUALS str n want \<Longrightarrow> take n str = want \<and> n = length want"
  by (auto simp: GRDU_STRING_EQUALS_def)

lemma small_word:
  fixes v :: u32
  assumes "v \<le> k" "k \<le> 8"
  shows "v = 0 \<or> v = 1 \<or> v = 2 \<or> v = 3 \<or> v = 4 \<or> v = 5 \<or> v = 6 \<or> v = 7 \<or> v = 8"
proof -
  have "unat v \<le> 8" using assms by (simp add: word_le_nat_alt)
  then have "unat v \<in> {0, 1, 2, 3, 4, 5, 6, 7, 8}" by auto
  then have "(word_of_nat (unat v) :: u32) \<in> word_of_nat ` {0, 1, 2, 3, 4, 5, 6, 7, 8}" by (rule imageI)
  then show ?thesis by simp
qed

lemmas name_tables = message_of_def address_messages_def cross_group_messages_def ledger_anchor_messages_def memo_key_messages_def
  transaction_messages_def
lemmas to_strings = grdt_address_to_string_def grdt_cross_group_to_string_def grdt_ledger_anchor_to_string_def
  grdt_memo_key_to_string_def grdt_transaction_to_string_def name_tables

lemma address_back: "a \<le> 7 \<Longrightarrow> grdt_address_from_string (grdt_address_to_string a @ rest) (length (grdt_address_to_string a)) = a"
  unfolding grdt_address_from_string_def string_equals_name by (frule small_word, simp, elim disjE) (simp_all add: to_strings)

lemma cross_group_back: "g \<le> 4 \<Longrightarrow> grdt_cross_group_from_string (grdt_cross_group_to_string g @ rest) (length (grdt_cross_group_to_string g)) = g"
  unfolding grdt_cross_group_from_string_def string_equals_name by (frule small_word, simp, elim disjE) (simp_all add: to_strings)

lemma ledger_anchor_back: "l \<le> 8 \<Longrightarrow> l \<noteq> 1 \<Longrightarrow>
  grdt_ledger_anchor_from_string (grdt_ledger_anchor_to_string l @ rest) (length (grdt_ledger_anchor_to_string l)) = l"
  unfolding grdt_ledger_anchor_from_string_def string_equals_name by (frule small_word, simp, elim disjE) (simp_all add: to_strings)

lemma memo_key_back: "m \<le> 3 \<Longrightarrow> grdt_memo_key_from_string (grdt_memo_key_to_string m @ rest) (length (grdt_memo_key_to_string m)) = m"
  unfolding grdt_memo_key_from_string_def string_equals_name by (frule small_word, simp, elim disjE) (simp_all add: to_strings)

lemma transaction_type_back: "t \<le> 8 \<Longrightarrow>
  grdt_transaction_from_string (grdt_transaction_to_string t @ rest) (length (grdt_transaction_to_string t)) = t"
  unfolding grdt_transaction_from_string_def string_equals_name by (frule small_word, simp, elim disjE) (simp_all add: to_strings)

text \<open>A name that is read as an enumerator is the name of that enumerator, unless it is the one for no such name.\<close>

lemma named_only:
  "grdt_address_from_string str n \<noteq> GRDT_ADDRESS_NONE \<Longrightarrow> take n str = grdt_address_to_string (grdt_address_from_string str n)"
  "grdt_cross_group_from_string str n \<noteq> GRDT_CROSS_GROUP_NONE \<Longrightarrow> take n str = grdt_cross_group_to_string (grdt_cross_group_from_string str n)"
  "grdt_ledger_anchor_from_string str n \<noteq> GRDT_LEDGER_ANCHOR_UNSPECIFIED \<Longrightarrow>
     take n str = grdt_ledger_anchor_to_string (grdt_ledger_anchor_from_string str n)"
  "grdt_memo_key_from_string str n \<noteq> GRDT_MEMO_KEY_NONE \<Longrightarrow> take n str = grdt_memo_key_to_string (grdt_memo_key_from_string str n)"
  "grdt_transaction_from_string str n \<noteq> GRDT_TRANSACTION_NONE \<Longrightarrow>
     take n str = grdt_transaction_to_string (grdt_transaction_from_string str n)"
  unfolding grdt_address_from_string_def grdt_cross_group_from_string_def grdt_ledger_anchor_from_string_def
    grdt_memo_key_from_string_def grdt_transaction_from_string_def
  by (auto simp: to_strings dest: string_equals_eq split: if_splits)

text \<open>The names of the enumerations go there and back: every enumerator of the five types is read from its own
  name, whatever stands behind it in memory; and a text that is read as an enumerator, other than the one that
  says that there is no such name, is that enumerator's name.\<close>
lemma names_roundtrip:
  assumes "a \<le> 7" "g \<le> 4" "l \<le> 8" "l \<noteq> 1" "m \<le> 3" "t \<le> 8"
  shows "grdt_address_from_string (grdt_address_to_string a @ rest) (length (grdt_address_to_string a)) = a
    \<and> grdt_cross_group_from_string (grdt_cross_group_to_string g @ rest) (length (grdt_cross_group_to_string g)) = g
    \<and> grdt_ledger_anchor_from_string (grdt_ledger_anchor_to_string l @ rest) (length (grdt_ledger_anchor_to_string l)) = l
    \<and> grdt_memo_key_from_string (grdt_memo_key_to_string m @ rest) (length (grdt_memo_key_to_string m)) = m
    \<and> grdt_transaction_from_string (grdt_transaction_to_string t @ rest) (length (grdt_transaction_to_string t)) = t
    \<and> (grdt_transaction_from_string str n \<noteq> GRDT_TRANSACTION_NONE \<longrightarrow>
         take n str = grdt_transaction_to_string (grdt_transaction_from_string str n))
    \<and> (grdt_ledger_anchor_from_string str n \<noteq> GRDT_LEDGER_ANCHOR_UNSPECIFIED \<longrightarrow>
         take n str = grdt_ledger_anchor_to_string (grdt_ledger_anchor_from_string str n))"
  using assms address_back cross_group_back ledger_anchor_back memo_key_back transaction_type_back named_only(3,5) by simp

end
