(* ===== verification/GRD_Validate.thy ===== *)
theory GRD_Validate
  imports GRD_Timestamp GRD_Names
begin

text \<open>
  The check of a transaction on its own, \<open>interactions/validate/context.c\<close>, and the account it gives of a refusal,
  \<open>error_details.c\<close>. Allocator, host heap, the text of a number and the verification of a signature are parameters.
  A message that the heap has no room for is copied to a NULL pointer, a fault.
\<close>

section \<open>Details of an error\<close>

record grd_error_details =
  ed_message :: "string option"
  ed_actual :: "string option"
  ed_expected :: "string option"
  ed_used_default_malloc_flag :: i32

record 'p details_env =
  de_memory :: "'p arnm_memory"
  de_malloc :: "nat \<Rightarrow> 'p \<Rightarrow> bool \<times> 'p"
  de_free :: "'p \<Rightarrow> 'p"
  de_int64_to_string :: "i64 \<Rightarrow> string"

definition no_error_details :: grd_error_details where
  "no_error_details = \<lparr>ed_message = None, ed_actual = None, ed_expected = None, ed_used_default_malloc_flag = 0\<rparr>"

definition grd_error_details_init :: "grd_error_details option \<Rightarrow> arnm_result \<times> grd_error_details option" where
  "grd_error_details_init d = (case d of None \<Rightarrow> (ARNM_ERROR_NULL_POINTER, None) | Some _ \<Rightarrow> (ARNM_SUCCESS, Some no_error_details))"

definition grd_error_details_is_initalized_and_empty :: "grd_error_details option \<Rightarrow> bool" where
  "grd_error_details_is_initalized_and_empty d =
     (case d of None \<Rightarrow> False
      | Some d \<Rightarrow> ed_message d = None \<and> ed_actual d = None \<and> ed_expected d = None \<and> ed_used_default_malloc_flag d = 0)"

text \<open>The copy of a string with its terminator, and the flag of the field where the host heap gave the memory.\<close>

definition alloc_and_fill_field :: "'p details_env \<Rightarrow> string \<Rightarrow> i32 \<Rightarrow> 'p \<Rightarrow> c_fault + i32 \<times> string \<times> 'p" where
  "alloc_and_fill_field E input flag p =
     (let n = length input + 1 in
      case mem_alloc (de_memory E) (unat (word_of_nat n :: u32)) p of (r, p) \<Rightarrow>
        if r \<noteq> ARNM_SUCCESS
        then (case de_malloc E n p of (got, p) \<Rightarrow> if got then Inr (flag, input, p) else Inl NullDereference)
        else Inr (0, input, p))"

definition fill_part :: "'p details_env \<Rightarrow> (string \<Rightarrow> grd_error_details \<Rightarrow> grd_error_details) \<Rightarrow> string option \<Rightarrow> i32
    \<Rightarrow> grd_error_details \<times> 'p \<Rightarrow> c_fault + grd_error_details \<times> 'p" where
  "fill_part E put input flag s =
     (case input of None \<Rightarrow> Inr s
      | Some input \<Rightarrow> fbind (alloc_and_fill_field E input flag (snd s)) (\<lambda>(f, field, p).
          Inr (put field ((fst s)\<lparr>ed_used_default_malloc_flag := ed_used_default_malloc_flag (fst s) OR f\<rparr>), p)))"

definition grd_error_details_fill :: "'p details_env \<Rightarrow> grd_error_details option \<Rightarrow> string option \<Rightarrow> string option \<Rightarrow> string option \<Rightarrow> 'p
    \<Rightarrow> c_fault + arnm_result \<times> grd_error_details option \<times> 'p" where
  "grd_error_details_fill E d message actual expected p =
     (case d of None \<Rightarrow> Inr (ARNM_ERROR_NULL_POINTER, None, p)
      | Some d \<Rightarrow>
          if ed_message d \<noteq> None \<or> ed_actual d \<noteq> None \<or> ed_expected d \<noteq> None then Inr (ARNM_ERROR_INVALID_STATE, Some d, p)
          else fbind (fill_part E (\<lambda>field d. d\<lparr>ed_message := Some field\<rparr>) message 1 (d, p)) (\<lambda>s.
            fbind (fill_part E (\<lambda>field d. d\<lparr>ed_actual := Some field\<rparr>) actual 2 s) (\<lambda>s.
            fbind (fill_part E (\<lambda>field d. d\<lparr>ed_expected := Some field\<rparr>) expected 4 s) (\<lambda>(d, p).
            Inr (ARNM_SUCCESS, Some d, p)))))"

definition grd_error_details_fill_actual_is_number :: "'p details_env \<Rightarrow> grd_error_details option \<Rightarrow> string option \<Rightarrow> i64 \<Rightarrow> string option
    \<Rightarrow> 'p \<Rightarrow> c_fault + arnm_result \<times> grd_error_details option \<times> 'p" where
  "grd_error_details_fill_actual_is_number E d message actual expected p =
     (case d of None \<Rightarrow> Inr (ARNM_ERROR_NULL_POINTER, None, p)
      | Some e \<Rightarrow>
          if ed_message e \<noteq> None \<or> ed_actual e \<noteq> None \<or> ed_expected e \<noteq> None then Inr (ARNM_ERROR_INVALID_STATE, d, p)
          else grd_error_details_fill E d message (Some (de_int64_to_string E actual)) expected p)"

definition grd_error_details_get_message :: "grd_error_details option \<Rightarrow> string option" where
  "grd_error_details_get_message d = (case d of None \<Rightarrow> None | Some d \<Rightarrow> ed_message d)"

definition grd_error_details_get_actual :: "grd_error_details option \<Rightarrow> string option" where
  "grd_error_details_get_actual d = (case d of None \<Rightarrow> None | Some d \<Rightarrow> ed_actual d)"

definition grd_error_details_get_expected :: "grd_error_details option \<Rightarrow> string option" where
  "grd_error_details_get_expected d = (case d of None \<Rightarrow> None | Some d \<Rightarrow> ed_expected d)"

definition release_field :: "'p details_env \<Rightarrow> string option \<Rightarrow> grd_error_details \<Rightarrow> i32 \<Rightarrow> 'p \<Rightarrow> 'p" where
  "release_field E field d flag p =
     (case field of None \<Rightarrow> p
      | Some field \<Rightarrow>
          if flag = 0 then p
          else if flag = (flag AND ed_used_default_malloc_flag d) then de_free E p
          else mem_free (de_memory E) (length field + 1) p)"

text \<open>The fields still point to what was given back.\<close>

definition grd_error_details_release :: "'p details_env \<Rightarrow> grd_error_details option \<Rightarrow> 'p \<Rightarrow> 'p" where
  "grd_error_details_release E d p =
     (case d of None \<Rightarrow> p
      | Some d \<Rightarrow> release_field E (ed_message d) d 1 (release_field E (ed_actual d) d 2 (release_field E (ed_expected d) d 4 p)))"

section \<open>The check\<close>

datatype grdi_validate_result_type =
    GRDI_VALIDATE_SUCCESS | GRDI_VALIDATE_NULL_POINTER | GRDI_VALIDATE_INVALID_ERROR_DETAILS_STATE
  | GRDI_VALIDATE_INVALID_ADDRESS_TYPE | GRDI_VALIDATE_INVALID_FIELD | GRDI_VALIDATE_ENUM_UNHANDLED
  | GRDI_VALIDATE_INVALID_TRANSACTION_TYPE | GRDI_VALIDATE_FIELD_VALUE_CONFLICT | GRDI_VALIDATE_MISSING_SIGN
  | GRDI_VALIDATE_CONTRIBUTION_SUM_EXCEEDED | GRDI_VALIDATE_CONTRIBUTION_INVALID_TARGET_DATE
  | GRDI_VALIDATE_CRYPTO_SIGN_INVALID | GRDI_VALIDATE_NOT_IMPLEMENTED_YET | GRDI_VALIDATE_WRONG_ERROR_DETAILS_USAGE

definition MAGIC_NUMBER_MAX_TIMESPAN_BETWEEN_CREATING_AND_RECEIVING_TRANSACTION_SECONDS :: u64 where
  "MAGIC_NUMBER_MAX_TIMESPAN_BETWEEN_CREATING_AND_RECEIVING_TRANSACTION_SECONDS = 120"

type_synonym 'p validated = "c_fault + grdi_validate_result_type \<times> grd_error_details option \<times> 'p"

text \<open>The answer, with what it was refused for noted down; what the note answers is not looked at.\<close>

definition refused :: "'p details_env \<Rightarrow> grdi_validate_result_type \<Rightarrow> string \<Rightarrow> string option \<Rightarrow> string option
    \<Rightarrow> grd_error_details option \<times> 'p \<Rightarrow> 'p validated" where
  "refused E res message actual expected s =
     fbind (grd_error_details_fill E (fst s) (Some message) actual expected (snd s)) (\<lambda>(_, d, p). Inr (res, d, p))"

definition refused_number :: "'p details_env \<Rightarrow> grdi_validate_result_type \<Rightarrow> string \<Rightarrow> i64 \<Rightarrow> string
    \<Rightarrow> grd_error_details option \<times> 'p \<Rightarrow> 'p validated" where
  "refused_number E res message actual expected s =
     fbind (grd_error_details_fill_actual_is_number E (fst s) (Some message) actual (Some expected) (snd s)) (\<lambda>(_, d, p). Inr (res, d, p))"

definition timespan :: "grdr_complete_transaction \<Rightarrow> u64" where
  "timespan tx =
     (let diff = grdd_timestamp_minus (Some (created_at tx)) (Some (confirmed_at tx))
      in if seconds diff <s 0 then 0 - seconds diff else seconds diff)"

fun validate_signatures :: "'p details_env \<Rightarrow> (bytes \<Rightarrow> bytes \<Rightarrow> bytes \<Rightarrow> bool) \<Rightarrow> bool \<Rightarrow> bytes \<Rightarrow> grdw_signature_pair list
    \<Rightarrow> grd_error_details option \<times> 'p \<Rightarrow> 'p validated" where
  "validate_signatures E verify enable body [] s = Inr (GRDI_VALIDATE_SUCCESS, s)"
| "validate_signatures E verify enable body (pair # pairs) s =
     (if grdc_is_empty (sp_public_key pair) SIGN_PUBLIC_KEY_SIZE
      then refused E GRDI_VALIDATE_INVALID_FIELD ''empty public key in signature map'' None None s
      else if grdc_is_empty (sp_signature pair) SIGN_SIGNATURE_SIZE
      then refused E GRDI_VALIDATE_INVALID_FIELD ''empty signature in signature map'' None None s
      else if enable \<and> \<not> verify (sp_signature pair) body (sp_public_key pair)
      then refused E GRDI_VALIDATE_CRYPTO_SIGN_INVALID ''on of the signatures cannot be verified'' None None s
      else validate_signatures E verify enable body pairs s)"

definition validate_cross_group :: "'p details_env \<Rightarrow> grdr_complete_transaction \<Rightarrow> grd_error_details option \<times> 'p
    \<Rightarrow> (grd_error_details option \<times> 'p \<Rightarrow> 'p validated) \<Rightarrow> 'p validated" where
  "validate_cross_group E tx s continue =
     (if cross_group_type tx \<noteq> GRDT_CROSS_GROUP_LOCAL then
        (if GRDT_TRANSACTION_COMMUNITY_FRIENDS_UPDATE \<noteq> transaction_type tx \<and>
            GRDT_TRANSACTION_REDEEM_DEFERRED_TRANSFER \<noteq> transaction_type tx \<and> GRDT_TRANSACTION_TRANSFER \<noteq> transaction_type tx
         then refused E GRDI_VALIDATE_INVALID_TRANSACTION_TYPE
           ''cross group transactions (currently) only possible with Transfer, Redeem Deferred Transfer and Community Friends Update'' None None s
         else if tx_pairing_community_uuid tx = None
         then refused E GRDI_VALIDATE_INVALID_FIELD ''missing pairing community id index for cross group transaction'' None None s
         else if GRDT_CROSS_GROUP_INBOUND = cross_group_type tx \<and> pairing_ledger_anchor tx = None
         then refused E GRDI_VALIDATE_INVALID_FIELD ''empty pairing ledger anchor for Inbound Cross Group Transaction'' None None s
         else continue s)
      else continue s)"

definition validateCommon :: "'p details_env \<Rightarrow> (bytes \<Rightarrow> bytes \<Rightarrow> bytes \<Rightarrow> bool) \<Rightarrow> grdr_complete_transaction \<Rightarrow> bool
    \<Rightarrow> grd_error_details option \<times> 'p \<Rightarrow> 'p validated" where
  "validateCommon E verify tx enable s =
     (if tx_nr tx = 0 then refused E GRDI_VALIDATE_INVALID_FIELD ''txNr is invalid'' (Some ''0'') (Some ''> 0'') s
      else if body_bytes tx = [] then refused E GRDI_VALIDATE_INVALID_FIELD ''empty body bytes'' None None s
      else if seconds (confirmed_at tx) <s 946681200
      then refused_number E GRDI_VALIDATE_INVALID_FIELD ''confirmedAt.seconds is to small'' (seconds (confirmed_at tx)) ''> 946681200 (01.01.2000)'' s
      else if grdc_is_empty (tx_community_uuid tx) ARNM_UUID_BINARY_SIZE
      then refused E GRDI_VALIDATE_INVALID_FIELD ''empty community uuid'' None None s
      else if timespan tx > MAGIC_NUMBER_MAX_TIMESPAN_BETWEEN_CREATING_AND_RECEIVING_TRANSACTION_SECONDS
      then refused_number E GRDI_VALIDATE_INVALID_FIELD ''timespan between created at and confirmed at are more than expected''
        (if timespan tx > INT64_MAX then INT64_MAX else timespan tx) ''120 seconds'' s
      else if GRDT_LEDGER_ANCHOR_UNSPECIFIED = la_type (ledger_anchor tx)
      then refused E GRDI_VALIDATE_INVALID_FIELD ''empty ledger anchor'' None None s
      else validate_cross_group E tx s (validate_signatures E verify enable (body_bytes tx) (signature_pairs tx)))"

definition grdi_validate_complete_transaction :: "'p details_env \<Rightarrow> (bytes \<Rightarrow> bytes \<Rightarrow> bytes \<Rightarrow> bool) \<Rightarrow> grdr_complete_transaction option
    \<Rightarrow> bool option \<Rightarrow> grd_error_details option \<times> 'p \<Rightarrow> 'p validated" where
  "grdi_validate_complete_transaction E verify tx options s =
     (case (tx, options) of
        (Some tx, Some enable) \<Rightarrow>
          if fst s \<noteq> None \<and> \<not> grd_error_details_is_initalized_and_empty (fst s)
          then Inr (GRDI_VALIDATE_INVALID_ERROR_DETAILS_STATE, s)
          else validateCommon E verify tx enable s
      | _ \<Rightarrow> Inr (GRDI_VALIDATE_NULL_POINTER, s))"

definition grdi_validate_complete_transaction_flat_options :: "'p details_env \<Rightarrow> (bytes \<Rightarrow> bytes \<Rightarrow> bytes \<Rightarrow> bool)
    \<Rightarrow> grdr_complete_transaction option \<Rightarrow> bool \<Rightarrow> grd_error_details option \<times> 'p \<Rightarrow> 'p validated" where
  "grdi_validate_complete_transaction_flat_options E verify tx enable s = grdi_validate_complete_transaction E verify tx (Some enable) s"

definition grdi_validate_complete_transaction_transfer :: "grdr_complete_transaction option \<Rightarrow> bool option \<Rightarrow> grd_error_details option
    \<Rightarrow> grdi_validate_result_type" where
  "grdi_validate_complete_transaction_transfer tx options d = GRDI_VALIDATE_NOT_IMPLEMENTED_YET"

definition grdi_validate_result_to_string :: "grdi_validate_result_type \<Rightarrow> string" where
  "grdi_validate_result_to_string res =
     (case res of
        GRDI_VALIDATE_SUCCESS \<Rightarrow> ''GRDI_VALIDATE_SUCCESS''
      | GRDI_VALIDATE_NULL_POINTER \<Rightarrow> ''GRDI_VALIDATE_NULL_POINTER''
      | GRDI_VALIDATE_INVALID_ERROR_DETAILS_STATE \<Rightarrow> ''GRDI_VALIDATE_INVALID_ERROR_DETAILS_STATE''
      | GRDI_VALIDATE_INVALID_ADDRESS_TYPE \<Rightarrow> ''GRDI_VALIDATE_INVALID_ADDRESS_TYPE''
      | GRDI_VALIDATE_INVALID_FIELD \<Rightarrow> ''GRDI_VALIDATE_INVALID_FIELD''
      | GRDI_VALIDATE_ENUM_UNHANDLED \<Rightarrow> ''GRDI_VALIDATE_ENUM_UNHANDLED''
      | GRDI_VALIDATE_INVALID_TRANSACTION_TYPE \<Rightarrow> ''GRDI_VALIDATE_INVALID_TRANSACTION_TYPE''
      | GRDI_VALIDATE_FIELD_VALUE_CONFLICT \<Rightarrow> ''GRDI_VALIDATE_FIELD_VALUE_CONFLICT''
      | GRDI_VALIDATE_MISSING_SIGN \<Rightarrow> ''GRDI_VALIDATE_MISSING_SIGN''
      | GRDI_VALIDATE_CONTRIBUTION_SUM_EXCEEDED \<Rightarrow> ''GRDI_VALIDATE_CONTRIBUTION_SUM_EXCEEDED''
      | GRDI_VALIDATE_CONTRIBUTION_INVALID_TARGET_DATE \<Rightarrow> ''GRDI_VALIDATE_CONTRIBUTION_INVALID_TARGET_DATE''
      | GRDI_VALIDATE_CRYPTO_SIGN_INVALID \<Rightarrow> ''GRDI_VALIDATE_CRYPTO_SIGN_INVALID''
      | GRDI_VALIDATE_NOT_IMPLEMENTED_YET \<Rightarrow> ''GRDI_VALIDATE_NOT_IMPLEMENTED_YET''
      | GRDI_VALIDATE_WRONG_ERROR_DETAILS_USAGE \<Rightarrow> ''GRDI_VALIDATE_WRONG_ERROR_DETAILS_USAGE'')"

section \<open>What is accepted\<close>

definition signature_accepted :: "(bytes \<Rightarrow> bytes \<Rightarrow> bytes \<Rightarrow> bool) \<Rightarrow> bool \<Rightarrow> bytes \<Rightarrow> grdw_signature_pair \<Rightarrow> bool" where
  "signature_accepted verify enable body pair \<longleftrightarrow> sp_public_key pair \<noteq> zeros 32 \<and> sp_signature pair \<noteq> zeros 64
     \<and> (enable \<longrightarrow> verify (sp_signature pair) body (sp_public_key pair))"

definition cross_group_accepted :: "grdr_complete_transaction \<Rightarrow> bool" where
  "cross_group_accepted tx \<longleftrightarrow> cross_group_type tx = GRDT_CROSS_GROUP_LOCAL
     \<or> transaction_type tx \<in> {GRDT_TRANSACTION_COMMUNITY_FRIENDS_UPDATE, GRDT_TRANSACTION_REDEEM_DEFERRED_TRANSFER, GRDT_TRANSACTION_TRANSFER}
       \<and> tx_pairing_community_uuid tx \<noteq> None
       \<and> (cross_group_type tx = GRDT_CROSS_GROUP_INBOUND \<longrightarrow> pairing_ledger_anchor tx \<noteq> None)"

text \<open>The confirmation at most two minutes before the creation, or the creation less than 121 seconds before the
  confirmation: the difference is rounded down to seconds before its magnitude is taken.\<close>

definition timely :: "grdr_complete_transaction \<Rightarrow> bool" where
  "timely tx \<longleftrightarrow> - 120 * NANOS_PER_SECOND \<le> stamp (created_at tx) - stamp (confirmed_at tx)
     \<and> stamp (created_at tx) - stamp (confirmed_at tx) < 121 * NANOS_PER_SECOND"

definition accepted :: "(bytes \<Rightarrow> bytes \<Rightarrow> bytes \<Rightarrow> bool) \<Rightarrow> bool \<Rightarrow> grdr_complete_transaction \<Rightarrow> bool" where
  "accepted verify enable tx \<longleftrightarrow> tx_nr tx \<noteq> 0 \<and> body_bytes tx \<noteq> [] \<and> 946681200 \<le> sint (seconds (confirmed_at tx))
     \<and> tx_community_uuid tx \<noteq> zeros 16 \<and> timely tx \<and> la_type (ledger_anchor tx) \<noteq> GRDT_LEDGER_ANCHOR_UNSPECIFIED
     \<and> cross_group_accepted tx \<and> list_all (signature_accepted verify enable (body_bytes tx)) (signature_pairs tx)"

section \<open>The note is made\<close>

text \<open>A heap that never is exhausted.\<close>

definition heap_gives :: "'p details_env \<Rightarrow> bool" where
  "heap_gives E \<longleftrightarrow> (\<forall>n p. fst (de_malloc E n p))"

text \<open>An answer, with the details left as they were on success and a message in them otherwise.\<close>

definition answers :: "'p validated \<Rightarrow> bool \<Rightarrow> grd_error_details option \<Rightarrow> bool" where
  "answers v ok d \<longleftrightarrow> (\<exists>res d' p'. v = Inr (res, d', p') \<and> (res = GRDI_VALIDATE_SUCCESS \<longleftrightarrow> ok)
     \<and> (ok \<longrightarrow> d' = d) \<and> (\<not> ok \<longrightarrow> (d' = None \<longleftrightarrow> d = None) \<and> (\<forall>e. d' = Some e \<longrightarrow> ed_message e \<noteq> None)))"

lemma part_filled:
  assumes "heap_gives E"
  shows "\<exists>F p'. fill_part E put input flag (d, p) = Inr (case input of None \<Rightarrow> d | Some x \<Rightarrow> put x (d\<lparr>ed_used_default_malloc_flag := F\<rparr>), p')"
proof (cases input)
  case (Some x)
  obtain r q where r: "mem_alloc (de_memory E) (unat (word_of_nat (length x + 1) :: u32)) p = (r, q)" by fastforce
  obtain q' where q': "de_malloc E (length x + 1) q = (True, q')"
    using assms unfolding heap_gives_def by (metis prod.collapse)
  let ?F = "\<lambda>f. ed_used_default_malloc_flag d OR f"
  show ?thesis
  proof (cases "r = ARNM_SUCCESS")
    case True
    then show ?thesis using Some r by (intro exI [of _ "?F 0"]) (simp add: fill_part_def alloc_and_fill_field_def Let_def)
  next
    case False
    then show ?thesis using Some r q' by (intro exI [of _ "?F flag"]) (simp add: fill_part_def alloc_and_fill_field_def Let_def)
  qed
qed (simp add: fill_part_def)

lemma details_filled:
  assumes E: "heap_gives E" and d: "d = None \<or> d = Some no_error_details"
  shows "\<exists>r d' p'. grd_error_details_fill E d (Some m) a x p = Inr (r, d', p') \<and> (d' = None \<longleftrightarrow> d = None)
    \<and> (\<forall>e. d' = Some e \<longrightarrow> ed_message e \<noteq> None)"
proof (cases d)
  case None
  then show ?thesis by (simp add: grd_error_details_fill_def)
next
  case (Some e)
  then have e: "e = no_error_details" using d by simp
  obtain d1 p1 where 1: "fill_part E (\<lambda>field d. d\<lparr>ed_message := Some field\<rparr>) (Some m) 1 (no_error_details, p) = Inr (d1, p1)" "ed_message d1 = Some m"
    using part_filled [OF E, of "\<lambda>field d. d\<lparr>ed_message := Some field\<rparr>" "Some m" 1 no_error_details p] by auto
  obtain d2 p2 where 2: "fill_part E (\<lambda>field d. d\<lparr>ed_actual := Some field\<rparr>) a 2 (d1, p1) = Inr (d2, p2)" "ed_message d2 = Some m"
    using part_filled [OF E, of "\<lambda>field d. d\<lparr>ed_actual := Some field\<rparr>" a 2 d1 p1] 1(2) by (cases a) auto
  obtain d3 p3 where 3: "fill_part E (\<lambda>field d. d\<lparr>ed_expected := Some field\<rparr>) x 4 (d2, p2) = Inr (d3, p3)" "ed_message d3 = Some m"
    using part_filled [OF E, of "\<lambda>field d. d\<lparr>ed_expected := Some field\<rparr>" x 4 d2 p2] 2(2) by (cases x) auto
  show ?thesis using 1 2 3 Some e by (simp add: grd_error_details_fill_def) (simp add: no_error_details_def)
qed

lemma refused_answers:
  assumes E: "heap_gives E" and d: "d = None \<or> d = Some no_error_details" and r: "res \<noteq> GRDI_VALIDATE_SUCCESS"
  shows "answers (refused E res m a x (d, p)) False d" "answers (refused_number E res m v y (d, p)) False d"
proof -
  show "answers (refused E res m a x (d, p)) False d"
    using details_filled [OF E d, of m a x p] r by (fastforce simp: refused_def answers_def)
  show "answers (refused_number E res m v y (d, p)) False d"
    using details_filled [OF E d, of m "Some (de_int64_to_string E v)" "Some y" p] d r
    by (fastforce simp: refused_number_def answers_def grd_error_details_fill_actual_is_number_def no_error_details_def)
qed

lemma success_answers: "answers (Inr (GRDI_VALIDATE_SUCCESS, d, p)) True d"
  by (simp add: answers_def)

section \<open>The check is exact\<close>

lemma timespan_timely: "timespan tx \<le> MAGIC_NUMBER_MAX_TIMESPAN_BETWEEN_CREATING_AND_RECEIVING_TRANSACTION_SECONDS \<longleftrightarrow> timely tx"
proof -
  let ?d = "seconds (grdd_timestamp_minus (Some (created_at tx)) (Some (confirmed_at tx)))"
  let ?s = "sint (seconds (created_at tx)) - sint (seconds (confirmed_at tx))"
  let ?n = "sint (nanos (created_at tx)) - sint (nanos (confirmed_at tx))"
  have small: "uint (word_of_int k :: u64) = k" if "0 \<le> k" "k < 18446744073709551616" for k
    using that by (simp add: uint_word_of_int)
  have neg: "uint (0 - ?d) = - sint ?d" if "sint ?d < 0"
    using small [of "- sint ?d"] that sint_64_range [of ?d] by simp
  have "uint (timespan tx) = \<bar>sint ?d\<bar>"
    using neg sint_nonneg_uint [of ?d] by (auto simp: timespan_def Let_def word_sless_alt)
  then have "timespan tx \<le> 120 \<longleftrightarrow> - 120 \<le> sint ?d \<and> sint ?d \<le> 120" by (auto simp: word_le_def)
  also have "sint ?d = clamp (clamp ?s + ?n div NANOS_PER_SECOND)" by (rule timestamp_minus_parts(1))
  also have "- 120 \<le> clamp (clamp ?s + ?n div NANOS_PER_SECOND) \<and> clamp (clamp ?s + ?n div NANOS_PER_SECOND) \<le> 120
      \<longleftrightarrow> - 120 \<le> ?s + ?n div NANOS_PER_SECOND \<and> ?s + ?n div NANOS_PER_SECOND \<le> 120"
    using nanos_carry [of ?n] sint_32_range [of "nanos (created_at tx)"] sint_32_range [of "nanos (confirmed_at tx)"]
    by (auto simp: clamp_def)
  also have "\<dots> \<longleftrightarrow> timely tx"
  proof -
    have eq: "stamp (created_at tx) - stamp (confirmed_at tx) = ?s * NANOS_PER_SECOND + ?n" by (simp add: stamp_def algebra_simps)
    have "?n = ?n div NANOS_PER_SECOND * NANOS_PER_SECOND + ?n mod NANOS_PER_SECOND" "0 \<le> ?n mod NANOS_PER_SECOND"
      "?n mod NANOS_PER_SECOND < NANOS_PER_SECOND" by (simp_all add: NANOS_PER_SECOND_def)
    then show ?thesis unfolding timely_def eq by (auto simp: NANOS_PER_SECOND_def)
  qed
  finally show ?thesis by (simp add: MAGIC_NUMBER_MAX_TIMESPAN_BETWEEN_CREATING_AND_RECEIVING_TRANSACTION_SECONDS_def)
qed

lemma signatures_answer:
  assumes E: "heap_gives E" and d: "d = None \<or> d = Some no_error_details"
    and l: "list_all (\<lambda>q. length (sp_public_key q) = 32 \<and> length (sp_signature q) = 64) qs"
  shows "answers (validate_signatures E verify enable body qs (d, p)) (list_all (signature_accepted verify enable body) qs) d"
  using l
proof (induction qs)
  case (Cons q qs)
  then show ?case
    using refused_answers [OF E d] by (auto simp: grdc_is_empty_key signature_accepted_def)
qed (simp add: success_answers)


definition sample_env :: "unit details_env" where
  "sample_env = \<lparr>de_memory = \<lparr>mem_alloc = \<lambda>n p. (ARNM_ERROR_OUT_OF_MEMORY, p), mem_free = \<lambda>n p. p, mem_clone = \<lambda>n p. (ARNM_ERROR_OUT_OF_MEMORY, p),
       mem_block_alloc = \<lambda>n p. (ARNM_ERROR_OUT_OF_MEMORY, p), mem_block_clone = \<lambda>bs p. (ARNM_ERROR_OUT_OF_MEMORY, p),
       mem_block_realloc = \<lambda>n n' p. (ARNM_ERROR_OUT_OF_MEMORY, n, p), mem_block_free = \<lambda>n p. p, mem_is_arena = \<lambda>p. False,
       mem_arena_remaining = \<lambda>p. 0, mem_block_address = \<lambda>p. 0, mem_init_arena = \<lambda>n. (ARNM_ERROR_OUT_OF_MEMORY, ()),
       mem_init_arena_borrow = \<lambda>n. (ARNM_ERROR_OUT_OF_MEMORY, ()), mem_align8 = id, sizeof_memory_block = 16, max_alloc_size = 0\<rparr>,
     de_malloc = \<lambda>n p. (True, p), de_free = id, de_int64_to_string = \<lambda>v. decimal_int (sint v)\<rparr>"

definition checked_tx :: grdr_complete_transaction where
  "checked_tx = grdr_complete_transaction_init\<lparr>tx_nr := 1, body_bytes := [1], tx_community_uuid := replicate 16 9,
     confirmed_at := \<lparr>seconds = 1700000001, nanos = 0\<rparr>, created_at := \<lparr>seconds = 1700000000, nanos = 5\<rparr>,
     ledger_anchor := (ledger_anchor grdr_complete_transaction_init)\<lparr>la_type := 3\<rparr>,
     signature_pairs := [\<lparr>sp_public_key = replicate 32 1, sp_signature = replicate 64 2\<rparr>]\<rparr>"


end
