(* ===== verification/GRD_Json.thy ===== *)
theory GRD_Json
  imports GRD_Runtime_Whole GRD_Names
begin

text \<open>
  JSON as the two mappings of \<open>src/mapping\<close> use it: the member names of \<open>complete_transaction_json.h\<close>, the values a
  document has, and the calls of arnm's writer and reader. arnm is not part of the repository: its calls are the fields
  of two records the definitions take as arguments. What a writer is told is a tree of \<open>written\<close> values, laid into it by
  \<open>lay\<close> one call after the other; what a parsed document has is a \<open>json\<close> value, which is what a handle of the reader
  stands for. What the documentation of the two promises of each other is \<open>documented\<close> in \<open>GRD_Json_Round\<close>.
\<close>

section \<open>The members\<close>

abbreviation GRDM_JSON_KEY_TX_NR :: string where "GRDM_JSON_KEY_TX_NR \<equiv> ''tx_nr''"
abbreviation GRDM_JSON_KEY_CONFIRMED_AT :: string where "GRDM_JSON_KEY_CONFIRMED_AT \<equiv> ''confirmed_at''"
abbreviation GRDM_JSON_KEY_CREATED_AT :: string where "GRDM_JSON_KEY_CREATED_AT \<equiv> ''created_at''"
abbreviation GRDM_JSON_KEY_TX_COMMUNITY_UUID :: string where "GRDM_JSON_KEY_TX_COMMUNITY_UUID \<equiv> ''tx_community_uuid''"
abbreviation GRDM_JSON_KEY_LEDGER_ANCHOR :: string where "GRDM_JSON_KEY_LEDGER_ANCHOR \<equiv> ''ledger_anchor''"
abbreviation GRDM_JSON_KEY_TRANSACTION_TYPE :: string where "GRDM_JSON_KEY_TRANSACTION_TYPE \<equiv> ''transaction_type''"
abbreviation GRDM_JSON_KEY_CROSS_GROUP_TYPE :: string where "GRDM_JSON_KEY_CROSS_GROUP_TYPE \<equiv> ''cross_group_type''"
abbreviation GRDM_JSON_KEY_TX_RUNNING_HASH :: string where "GRDM_JSON_KEY_TX_RUNNING_HASH \<equiv> ''tx_running_hash''"
abbreviation GRDM_JSON_KEY_BODY_BYTES :: string where "GRDM_JSON_KEY_BODY_BYTES \<equiv> ''body_bytes''"
abbreviation GRDM_JSON_KEY_SECONDS :: string where "GRDM_JSON_KEY_SECONDS \<equiv> ''seconds''"
abbreviation GRDM_JSON_KEY_NANOS :: string where "GRDM_JSON_KEY_NANOS \<equiv> ''nanos''"
abbreviation GRDM_JSON_KEY_TYPE :: string where "GRDM_JSON_KEY_TYPE \<equiv> ''type''"
abbreviation GRDM_JSON_KEY_ID :: string where "GRDM_JSON_KEY_ID \<equiv> ''id''"
abbreviation GRDM_JSON_KEY_HIERO_TRANSACTION_ID :: string where "GRDM_JSON_KEY_HIERO_TRANSACTION_ID \<equiv> ''hiero_transaction_id''"
abbreviation GRDM_JSON_KEY_TRANSACTION_VALID_START :: string where "GRDM_JSON_KEY_TRANSACTION_VALID_START \<equiv> ''transaction_valid_start''"
abbreviation GRDM_JSON_KEY_ACCOUNT_ID :: string where "GRDM_JSON_KEY_ACCOUNT_ID \<equiv> ''account_id''"
abbreviation GRDM_JSON_KEY_SHARD_NUM :: string where "GRDM_JSON_KEY_SHARD_NUM \<equiv> ''shard_num''"
abbreviation GRDM_JSON_KEY_REALM_NUM :: string where "GRDM_JSON_KEY_REALM_NUM \<equiv> ''realm_num''"
abbreviation GRDM_JSON_KEY_ACCOUNT_NUM :: string where "GRDM_JSON_KEY_ACCOUNT_NUM \<equiv> ''account_num''"
abbreviation GRDM_JSON_KEY_TRANSFER :: string where "GRDM_JSON_KEY_TRANSFER \<equiv> ''transfer''"
abbreviation GRDM_JSON_KEY_SENDER_PUBKEY :: string where "GRDM_JSON_KEY_SENDER_PUBKEY \<equiv> ''sender_pubkey''"
abbreviation GRDM_JSON_KEY_RECIPIENT_PUBKEY :: string where "GRDM_JSON_KEY_RECIPIENT_PUBKEY \<equiv> ''recipient_pubkey''"
abbreviation GRDM_JSON_KEY_AMOUNT :: string where "GRDM_JSON_KEY_AMOUNT \<equiv> ''amount''"
abbreviation GRDM_JSON_KEY_COIN_COMMUNITY_UUID :: string where "GRDM_JSON_KEY_COIN_COMMUNITY_UUID \<equiv> ''coin_community_uuid''"
abbreviation GRDM_JSON_KEY_REGISTER_ADDRESS :: string where "GRDM_JSON_KEY_REGISTER_ADDRESS \<equiv> ''register_address''"
abbreviation GRDM_JSON_KEY_USER_PUBLIC_KEY :: string where "GRDM_JSON_KEY_USER_PUBLIC_KEY \<equiv> ''user_public_key''"
abbreviation GRDM_JSON_KEY_NAME_HASH :: string where "GRDM_JSON_KEY_NAME_HASH \<equiv> ''name_hash''"
abbreviation GRDM_JSON_KEY_ACCOUNT_PUBLIC_KEY :: string where "GRDM_JSON_KEY_ACCOUNT_PUBLIC_KEY \<equiv> ''account_public_key''"
abbreviation GRDM_JSON_KEY_ADDRESS_TYPE :: string where "GRDM_JSON_KEY_ADDRESS_TYPE \<equiv> ''address_type''"
abbreviation GRDM_JSON_KEY_DERIVATION_INDEX :: string where "GRDM_JSON_KEY_DERIVATION_INDEX \<equiv> ''derivation_index''"
abbreviation GRDM_JSON_KEY_COMMUNITY_ROOT :: string where "GRDM_JSON_KEY_COMMUNITY_ROOT \<equiv> ''community_root''"
abbreviation GRDM_JSON_KEY_PUBLIC_KEY :: string where "GRDM_JSON_KEY_PUBLIC_KEY \<equiv> ''public_key''"
abbreviation GRDM_JSON_KEY_GMW_PUBLIC_KEY :: string where "GRDM_JSON_KEY_GMW_PUBLIC_KEY \<equiv> ''gmw_public_key''"
abbreviation GRDM_JSON_KEY_AUF_PUBLIC_KEY :: string where "GRDM_JSON_KEY_AUF_PUBLIC_KEY \<equiv> ''auf_public_key''"
abbreviation GRDM_JSON_KEY_TARGET_DATE :: string where "GRDM_JSON_KEY_TARGET_DATE \<equiv> ''target_date''"
abbreviation GRDM_JSON_KEY_TIMEOUT_DURATION :: string where "GRDM_JSON_KEY_TIMEOUT_DURATION \<equiv> ''timeout_duration''"
abbreviation GRDM_JSON_KEY_PREVIOUS_TX :: string where "GRDM_JSON_KEY_PREVIOUS_TX \<equiv> ''previous_tx''"
abbreviation GRDM_JSON_KEY_ACCOUNT_BALANCES :: string where "GRDM_JSON_KEY_ACCOUNT_BALANCES \<equiv> ''account_balances''"
abbreviation GRDM_JSON_KEY_PUBKEY :: string where "GRDM_JSON_KEY_PUBKEY \<equiv> ''pubkey''"
abbreviation GRDM_JSON_KEY_BALANCE :: string where "GRDM_JSON_KEY_BALANCE \<equiv> ''balance''"
abbreviation GRDM_JSON_KEY_COMMUNITY_UUID :: string where "GRDM_JSON_KEY_COMMUNITY_UUID \<equiv> ''community_uuid''"
abbreviation GRDM_JSON_KEY_ENCRYPTED_MEMOS :: string where "GRDM_JSON_KEY_ENCRYPTED_MEMOS \<equiv> ''encrypted_memos''"
abbreviation GRDM_JSON_KEY_MEMO :: string where "GRDM_JSON_KEY_MEMO \<equiv> ''memo''"
abbreviation GRDM_JSON_KEY_SIGNATURE_PAIRS :: string where "GRDM_JSON_KEY_SIGNATURE_PAIRS \<equiv> ''signature_pairs''"
abbreviation GRDM_JSON_KEY_SIGNATURE :: string where "GRDM_JSON_KEY_SIGNATURE \<equiv> ''signature''"
abbreviation GRDM_JSON_KEY_TX_PAIRING_COMMUNITY_UUID :: string where "GRDM_JSON_KEY_TX_PAIRING_COMMUNITY_UUID \<equiv> ''tx_pairing_community_uuid''"
abbreviation GRDM_JSON_KEY_PAIRING_LEDGER_ANCHOR :: string where "GRDM_JSON_KEY_PAIRING_LEDGER_ANCHOR \<equiv> ''pairing_ledger_anchor''"

section \<open>Values\<close>

text \<open>A number that is no integer is its spelling.\<close>

datatype json =
    JNull
  | JBool bool
  | JInt int
  | JReal string
  | JString string
  | JArray "json list"
  | JObject "(string \<times> json) list"

text \<open>What the writer has a call for; a uuid that is NULL is written as \<open>null\<close>.\<close>

datatype written =
    WNull
  | WInt64 i64
  | WUint64 u64
  | WString string
  | WHex bytes
  | WBase64 bytes
  | WUuid "bytes option"
  | WArray "written list"
  | WObject "(string \<times> written) list"

section \<open>The writer\<close>

text \<open>The writer \<open>'w\<close> holds its allocator, of state \<open>'p\<close>. A key is \<open>None\<close> for an element of an array; the flag for
  escaping a key is false in every call. The hint is the number of values and of bytes in the pool of strings. A refusal to begin is
  its result and the allocator.\<close>

record ('w, 'p) arnm_json_writer =
  jw_init :: "u32 \<Rightarrow> u32 \<times> u32 \<Rightarrow> 'p \<Rightarrow> arnm_result \<times> 'p + 'w"
  jw_begin_object :: "'w \<Rightarrow> 'w"
  jw_open_object :: "string option \<Rightarrow> 'w \<Rightarrow> 'w"
  jw_open_array :: "string option \<Rightarrow> 'w \<Rightarrow> 'w"
  jw_close :: "'w \<Rightarrow> 'w"
  jw_add_null :: "string option \<Rightarrow> 'w \<Rightarrow> 'w"
  jw_add_int64 :: "string option \<Rightarrow> i64 \<Rightarrow> 'w \<Rightarrow> 'w"
  jw_add_uint64 :: "string option \<Rightarrow> u64 \<Rightarrow> 'w \<Rightarrow> 'w"
  jw_add_string :: "string option \<Rightarrow> string \<Rightarrow> 'w \<Rightarrow> 'w"
  jw_add_hex :: "string option \<Rightarrow> bytes \<Rightarrow> 'w \<Rightarrow> 'w"
  jw_add_base64 :: "string option \<Rightarrow> bytes \<Rightarrow> 'w \<Rightarrow> 'w"
  jw_add_uuid :: "string option \<Rightarrow> bytes option \<Rightarrow> 'w \<Rightarrow> 'w"
  jw_write :: "'w \<Rightarrow> arnm_result \<times> bytes \<times> 'w"
  jw_release :: "'w \<Rightarrow> arnm_result \<times> 'p"

text \<open>A value laid into the writer, call by call; the root of a document.\<close>

primrec lay :: "('w, 'p) arnm_json_writer \<Rightarrow> written \<Rightarrow> string option \<Rightarrow> 'w \<Rightarrow> 'w" where
  "lay W WNull k w = jw_add_null W k w"
| "lay W (WInt64 i) k w = jw_add_int64 W k i w"
| "lay W (WUint64 n) k w = jw_add_uint64 W k n w"
| "lay W (WString s) k w = jw_add_string W k s w"
| "lay W (WHex b) k w = jw_add_hex W k b w"
| "lay W (WBase64 b) k w = jw_add_base64 W k b w"
| "lay W (WUuid u) k w = jw_add_uuid W k u w"
| "lay W (WArray vs) k w = jw_close W (fold (\<lambda>f. f None) (map (lay W) vs) (jw_open_array W k w))"
| "lay W (WObject ms) k w =
     jw_close W (fold (\<lambda>(k, f). f (Some k)) (map (map_prod id (lay W)) ms) (jw_open_object W k w))"

abbreviation lay_members :: "('w, 'p) arnm_json_writer \<Rightarrow> (string \<times> written) list \<Rightarrow> 'w \<Rightarrow> 'w" where
  "lay_members W ms \<equiv> fold (\<lambda>(k, v). lay W v (Some k)) ms"

lemma lay_object [simp]: "lay W (WObject ms) k w = jw_close W (lay_members W ms (jw_open_object W k w))"
  by (simp add: fold_map comp_def map_prod_def split_def)

lemma lay_array [simp]: "lay W (WArray vs) k w = jw_close W (fold (\<lambda>v. lay W v None) vs (jw_open_array W k w))"
  by (simp add: fold_map comp_def)

declare lay.simps(8,9) [simp del]

text \<open>How many values a document has, counted as arnm counts them: every value, and every key once more. And what its
  texts take in the pool of the writer.\<close>

primrec nodes :: "written \<Rightarrow> nat" where
  "nodes WNull = 1"
| "nodes (WInt64 i) = 1"
| "nodes (WUint64 n) = 1"
| "nodes (WString s) = 1"
| "nodes (WHex b) = 1"
| "nodes (WBase64 b) = 1"
| "nodes (WUuid u) = 1"
| "nodes (WArray vs) = 1 + sum_list (map nodes vs)"
| "nodes (WObject ms) = 1 + sum_list (map (\<lambda>(k, n). 1 + n) (map (map_prod id nodes) ms))"

primrec pool :: "(u32 \<Rightarrow> u32) \<Rightarrow> written \<Rightarrow> u32" where
  "pool B WNull = 0"
| "pool B (WInt64 i) = 0"
| "pool B (WUint64 n) = 0"
| "pool B (WString s) = 0"
| "pool B (WHex b) = 2 * word_of_nat (length b) + 3"
| "pool B (WBase64 b) = B (word_of_nat (length b)) + 3"
| "pool B (WUuid u) = (if u = None then 0 else 39)"
| "pool B (WArray vs) = sum_list (map (pool B) vs)"
| "pool B (WObject ms) = sum_list (map snd (map (map_prod id (pool B)) ms))"

section \<open>The reader\<close>

text \<open>What a table asks of a member, and what a walk puts where the table points to.\<close>

datatype json_field = FieldUint64 | FieldInt64 | FieldInt32 | FieldUint32 | FieldString | FieldValue | FieldUuid | FieldHexFixed nat

datatype json_found = FoundWord64 u64 | FoundWord32 u32 | FoundString string | FoundValue json | FoundBytes bytes

text \<open>The walk over an object answers an entry for every field of the table, \<open>None\<close> where its bit is clear; a walk that
  fails answers its result alone, since the transaction it wrote into is released then. A document that has been
  parsed is the value of its root and the number of its nodes.\<close>

record 'p arnm_json_reader =
  jr_init :: "'p \<Rightarrow> arnm_result \<times> 'p"
  jr_parse :: "bytes \<Rightarrow> 'p \<Rightarrow> arnm_result \<times> json \<times> u32 \<times> 'p"
  jr_release :: "'p \<Rightarrow> arnm_result \<times> 'p"
  jr_read_object :: "json \<Rightarrow> (string \<times> json_field) list \<Rightarrow> arnm_result + json_found option list"
  jr_read_array :: "json \<Rightarrow> nat \<Rightarrow> arnm_result + json list"
  jr_is_null :: "json \<Rightarrow> bool"
  base64_binary_size :: "string \<Rightarrow> arnm_result \<times> u32"
  binary_from_base64 :: "string \<Rightarrow> arnm_result \<times> bytes"
  binary_from_base64_insitu :: "string \<Rightarrow> arnm_result \<times> bytes"

end
