(* ===== verification/GRD_Json_Write.thy ===== *)
theory GRD_Json_Write
  imports GRD_Json
begin

text \<open>
  The runtime record as JSON, \<open>mapping/json_from_runtime.c\<close>: the calls to the writer in the order of the code, and the
  hint its pools are opened with. \<open>document\<close> is what a record looks like as JSON; the calls lay exactly this into the
  writer, and the hint is exactly what it takes.
\<close>

section \<open>The calls\<close>

definition add_enum_string :: "('w, 'p) arnm_json_writer \<Rightarrow> string option \<Rightarrow> string \<Rightarrow> 'w \<Rightarrow> 'w" where
  "add_enum_string W key name w = jw_add_string W key name w"

definition add_timestamp :: "('w, 'p) arnm_json_writer \<Rightarrow> string option \<Rightarrow> grdd_timestamp \<Rightarrow> 'w \<Rightarrow> 'w" where
  "add_timestamp W key timestamp w =
     (let w = jw_open_object W key w;
          w = jw_add_int64 W (Some GRDM_JSON_KEY_SECONDS) (seconds timestamp) w;
          w = jw_add_int64 W (Some GRDM_JSON_KEY_NANOS) (scast (nanos timestamp)) w
      in jw_close W w)"

definition add_ledger_anchor :: "('w, 'p) arnm_json_writer \<Rightarrow> string option \<Rightarrow> grdw_ledger_anchor option \<Rightarrow> 'w \<Rightarrow> 'w" where
  "add_ledger_anchor W key anchor w =
     (case anchor of None \<Rightarrow> jw_add_null W key w
      | Some a \<Rightarrow>
          (let w = jw_open_object W key w;
               w = add_enum_string W (Some GRDM_JSON_KEY_TYPE) (grdt_ledger_anchor_to_string (la_type a)) w;
               w = (if la_type a = GRDT_LEDGER_ANCHOR_UNSPECIFIED then w
                    else if la_type a = GRDT_LEDGER_ANCHOR_HIERO_TRANSACTION_ID then
                      (let hiero = hiero_transaction_id a;
                           w = jw_open_object W (Some GRDM_JSON_KEY_HIERO_TRANSACTION_ID) w;
                           w = add_timestamp W (Some GRDM_JSON_KEY_TRANSACTION_VALID_START) (transactionValidStart hiero) w;
                           w = jw_open_object W (Some GRDM_JSON_KEY_ACCOUNT_ID) w;
                           w = jw_add_int64 W (Some GRDM_JSON_KEY_SHARD_NUM) (shardNum (accountID hiero)) w;
                           w = jw_add_int64 W (Some GRDM_JSON_KEY_REALM_NUM) (realmNum (accountID hiero)) w;
                           w = jw_add_int64 W (Some GRDM_JSON_KEY_ACCOUNT_NUM) (accountNum (accountID hiero)) w;
                           w = jw_close W w
                       in jw_close W w)
                    else jw_add_uint64 W (Some GRDM_JSON_KEY_ID) (la_id a) w)
           in jw_close W w))"

definition add_transfer :: "('w, 'p) arnm_json_writer \<Rightarrow> grdr_complete_transaction \<Rightarrow> 'w \<Rightarrow> 'w" where
  "add_transfer W tx w =
     (let w = jw_open_object W (Some GRDM_JSON_KEY_TRANSFER) w;
          w = jw_add_hex W (Some GRDM_JSON_KEY_SENDER_PUBKEY) (sender_pubkey (transfer tx)) w;
          w = jw_add_hex W (Some GRDM_JSON_KEY_RECIPIENT_PUBKEY) (recipient_pubkey (transfer tx)) w;
          w = jw_add_int64 W (Some GRDM_JSON_KEY_AMOUNT) (amount (transfer tx)) w;
          w = jw_add_uuid W (Some GRDM_JSON_KEY_COIN_COMMUNITY_UUID) (Some (coin_community_uuid (transfer tx))) w
      in jw_close W w)"

definition add_register_address :: "('w, 'p) arnm_json_writer \<Rightarrow> grdr_complete_transaction \<Rightarrow> 'w \<Rightarrow> 'w" where
  "add_register_address W tx w =
     (let w = jw_open_object W (Some GRDM_JSON_KEY_REGISTER_ADDRESS) w;
          w = jw_add_hex W (Some GRDM_JSON_KEY_USER_PUBLIC_KEY) (user_public_key (register_address tx)) w;
          w = jw_add_hex W (Some GRDM_JSON_KEY_NAME_HASH) (name_hash (register_address tx)) w;
          w = jw_add_hex W (Some GRDM_JSON_KEY_ACCOUNT_PUBLIC_KEY) (account_public_key (register_address tx)) w
      in jw_close W w)"

definition add_community_root :: "('w, 'p) arnm_json_writer \<Rightarrow> grdr_complete_transaction \<Rightarrow> 'w \<Rightarrow> 'w" where
  "add_community_root W tx w =
     (let w = jw_open_object W (Some GRDM_JSON_KEY_COMMUNITY_ROOT) w;
          w = jw_add_hex W (Some GRDM_JSON_KEY_PUBLIC_KEY) (public_key (community_root tx)) w;
          w = jw_add_hex W (Some GRDM_JSON_KEY_GMW_PUBLIC_KEY) (gmw_public_key (community_root tx)) w;
          w = jw_add_hex W (Some GRDM_JSON_KEY_AUF_PUBLIC_KEY) (auf_public_key (community_root tx)) w
      in jw_close W w)"

definition add_transaction_detail ::
  "('w, 'p) arnm_json_writer \<Rightarrow> grdr_complete_transaction \<Rightarrow> 'w \<Rightarrow> arnm_result \<times> 'w" where
  "add_transaction_detail W tx w =
     (let t = transaction_type tx in
      if t = GRDT_TRANSACTION_TRANSFER then (ARNM_SUCCESS, add_transfer W tx w)
      else if t = GRDT_TRANSACTION_CREATION then
        (ARNM_SUCCESS, jw_add_int64 W (Some GRDM_JSON_KEY_TARGET_DATE) (target_date tx) (add_transfer W tx w))
      else if t = GRDT_TRANSACTION_REGISTER_ADDRESS then
        (let w = add_register_address W tx w;
             w = add_enum_string W (Some GRDM_JSON_KEY_ADDRESS_TYPE) (grdt_address_to_string (address_type tx)) w
         in (ARNM_SUCCESS, jw_add_uint64 W (Some GRDM_JSON_KEY_DERIVATION_INDEX) (ucast (derivation_index tx)) w))
      else if t = GRDT_TRANSACTION_DEFERRED_TRANSFER then
        (ARNM_SUCCESS, jw_add_int64 W (Some GRDM_JSON_KEY_TIMEOUT_DURATION) (timeout_duration tx) (add_transfer W tx w))
      else if t = GRDT_TRANSACTION_REDEEM_DEFERRED_TRANSFER then
        (ARNM_SUCCESS, jw_add_uint64 W (Some GRDM_JSON_KEY_PREVIOUS_TX) (previous_tx tx) (add_transfer W tx w))
      else if t = GRDT_TRANSACTION_TIMEOUT_DEFERRED_TRANSFER then
        (ARNM_SUCCESS, jw_add_uint64 W (Some GRDM_JSON_KEY_PREVIOUS_TX) (previous_tx tx) w)
      else if t = GRDT_TRANSACTION_COMMUNITY_ROOT then (ARNM_SUCCESS, add_community_root W tx w)
      else (ARNM_ERROR_ENUM_UNHANDLED, w))"

definition add_balance :: "('w, 'p) arnm_json_writer \<Rightarrow> grdw_account_balance \<Rightarrow> 'w \<Rightarrow> 'w" where
  "add_balance W balance w =
     (let w = jw_open_object W None w;
          w = jw_add_hex W (Some GRDM_JSON_KEY_PUBKEY) (ab_pubkey balance) w;
          w = jw_add_int64 W (Some GRDM_JSON_KEY_BALANCE) (ab_balance balance) w;
          w = jw_add_uuid W (Some GRDM_JSON_KEY_COMMUNITY_UUID) (Some (ab_community_uuid balance)) w
      in jw_close W w)"

definition add_memo :: "('w, 'p) arnm_json_writer \<Rightarrow> grdw_encrypted_memo \<Rightarrow> 'w \<Rightarrow> 'w" where
  "add_memo W memo w =
     (let w = jw_open_object W None w;
          w = add_enum_string W (Some GRDM_JSON_KEY_TYPE) (grdt_memo_key_to_string (em_type memo)) w;
          w = jw_add_base64 W (Some GRDM_JSON_KEY_MEMO) (em_memo memo) w
      in jw_close W w)"

definition add_signature_pair :: "('w, 'p) arnm_json_writer \<Rightarrow> grdw_signature_pair \<Rightarrow> 'w \<Rightarrow> 'w" where
  "add_signature_pair W pair w =
     (let w = jw_open_object W None w;
          w = jw_add_hex W (Some GRDM_JSON_KEY_PUBLIC_KEY) (sp_public_key pair) w;
          w = jw_add_hex W (Some GRDM_JSON_KEY_SIGNATURE) (sp_signature pair) w
      in jw_close W w)"

definition add_arrays :: "('w, 'p) arnm_json_writer \<Rightarrow> grdr_complete_transaction \<Rightarrow> 'w \<Rightarrow> 'w" where
  "add_arrays W tx w =
     (let w = jw_open_array W (Some GRDM_JSON_KEY_ACCOUNT_BALANCES) w;
          w = jw_close W (fold (add_balance W) (account_balances tx) w);
          w = jw_open_array W (Some GRDM_JSON_KEY_ENCRYPTED_MEMOS) w;
          w = jw_close W (fold (add_memo W) (encrypted_memos tx) w);
          w = jw_open_array W (Some GRDM_JSON_KEY_SIGNATURE_PAIRS) w
      in jw_close W (fold (add_signature_pair W) (signature_pairs tx) w))"

definition add_complete_transaction ::
  "('w, 'p) arnm_json_writer \<Rightarrow> grdr_complete_transaction \<Rightarrow> 'w \<Rightarrow> arnm_result \<times> 'w" where
  "add_complete_transaction W tx w =
     (let w = jw_begin_object W w;
          w = add_enum_string W (Some GRDM_JSON_KEY_TRANSACTION_TYPE) (grdt_transaction_to_string (transaction_type tx)) w;
          w = jw_add_uint64 W (Some GRDM_JSON_KEY_TX_NR) (tx_nr tx) w;
          w = add_timestamp W (Some GRDM_JSON_KEY_CONFIRMED_AT) (confirmed_at tx) w;
          w = add_timestamp W (Some GRDM_JSON_KEY_CREATED_AT) (created_at tx) w;
          w = jw_add_uuid W (Some GRDM_JSON_KEY_TX_COMMUNITY_UUID) (Some (tx_community_uuid tx)) w;
          w = add_ledger_anchor W (Some GRDM_JSON_KEY_LEDGER_ANCHOR) (Some (ledger_anchor tx)) w
      in bind_ok (add_transaction_detail W tx w) (\<lambda>w.
         let w = jw_add_hex W (Some GRDM_JSON_KEY_TX_RUNNING_HASH) (tx_running_hash tx) w;
             w = add_arrays W tx w;
             w = add_enum_string W (Some GRDM_JSON_KEY_CROSS_GROUP_TYPE) (grdt_cross_group_to_string (cross_group_type tx)) w;
             w = jw_add_uuid W (Some GRDM_JSON_KEY_TX_PAIRING_COMMUNITY_UUID) (tx_pairing_community_uuid tx) w;
             w = add_ledger_anchor W (Some GRDM_JSON_KEY_PAIRING_LEDGER_ANCHOR) (pairing_ledger_anchor tx) w
         in (ARNM_SUCCESS, jw_add_base64 W (Some GRDM_JSON_KEY_BODY_BYTES) (body_bytes tx) w)))"

section \<open>The hint\<close>

definition HEX_FIELD_BYTES :: "nat \<Rightarrow> u32" where "HEX_FIELD_BYTES n = word_of_nat n * 2 + 3"
definition BASE64_FIELD_BYTES :: "(u32 \<Rightarrow> u32) \<Rightarrow> u32 \<Rightarrow> u32" where "BASE64_FIELD_BYTES B n = B n + 3"
definition UUID_FIELD_BYTES :: u32 where "UUID_FIELD_BYTES = 39"
definition TRANSFER_VALUES :: u32 where "TRANSFER_VALUES = 10"
definition TRANSFER_STRING_BYTES :: u32 where "TRANSFER_STRING_BYTES = 2 * HEX_FIELD_BYTES SIGN_PUBLIC_KEY_SIZE + UUID_FIELD_BYTES"

definition anchor_values :: "grdw_ledger_anchor \<Rightarrow> u32" where
  "anchor_values anchor =
     (if la_type anchor = GRDT_LEDGER_ANCHOR_UNSPECIFIED then 3
      else if la_type anchor = GRDT_LEDGER_ANCHOR_HIERO_TRANSACTION_ID then 19
      else 5)"

text \<open>\<open>B\<close> is arnm's \<open>ARNM_BASE64_STRING_LENGTH\<close>. The answer is the values and the bytes of the strings.\<close>

definition detail_hint :: "grdt_transaction \<Rightarrow> u32 \<times> u32" where
  "detail_hint t =
     (if t = GRDT_TRANSACTION_TRANSFER then (TRANSFER_VALUES, TRANSFER_STRING_BYTES)
      else if t = GRDT_TRANSACTION_CREATION \<or> t = GRDT_TRANSACTION_DEFERRED_TRANSFER
        \<or> t = GRDT_TRANSACTION_REDEEM_DEFERRED_TRANSFER then (TRANSFER_VALUES + 2, TRANSFER_STRING_BYTES)
      else if t = GRDT_TRANSACTION_TIMEOUT_DEFERRED_TRANSFER then (2, 0)
      else if t = GRDT_TRANSACTION_REGISTER_ADDRESS then
        (12, 2 * HEX_FIELD_BYTES SIGN_PUBLIC_KEY_SIZE + HEX_FIELD_BYTES GENERIC_HASH_SIZE)
      else if t = GRDT_TRANSACTION_COMMUNITY_ROOT then (8, 3 * HEX_FIELD_BYTES SIGN_PUBLIC_KEY_SIZE)
      else (0, 0))"

definition calculate_hint :: "(u32 \<Rightarrow> u32) \<Rightarrow> grdr_complete_transaction \<Rightarrow> u32 \<times> u32" where
  "calculate_hint B tx =
     (let values = 1 + 2 * 5 + 2 + 6 + 6 + 3 * 2;
          string_bytes = HEX_FIELD_BYTES GENERIC_HASH_SIZE + UUID_FIELD_BYTES + BASE64_FIELD_BYTES B (word_of_nat (length (body_bytes tx)));
          values = values + (1 + anchor_values (ledger_anchor tx));
          values = values + fst (detail_hint (transaction_type tx));
          string_bytes = string_bytes + snd (detail_hint (transaction_type tx));
          values = values + word_of_nat (length (account_balances tx)) * 7;
          string_bytes = string_bytes + word_of_nat (length (account_balances tx)) * (HEX_FIELD_BYTES SIGN_PUBLIC_KEY_SIZE + UUID_FIELD_BYTES);
          values = values + word_of_nat (length (encrypted_memos tx)) * 5;
          string_bytes = fold (\<lambda>memo n. n + BASE64_FIELD_BYTES B (word_of_nat (length (em_memo memo)))) (encrypted_memos tx) string_bytes;
          values = values + word_of_nat (length (signature_pairs tx)) * 5;
          string_bytes = string_bytes
            + word_of_nat (length (signature_pairs tx)) * (HEX_FIELD_BYTES SIGN_PUBLIC_KEY_SIZE + HEX_FIELD_BYTES SIGN_SIGNATURE_SIZE);
          values = values + 2;
          string_bytes = string_bytes + (if tx_pairing_community_uuid tx = None then 0 else UUID_FIELD_BYTES);
          values = values + (case pairing_ledger_anchor tx of None \<Rightarrow> 2 | Some anchor \<Rightarrow> 1 + anchor_values anchor)
      in (values, string_bytes))"

section \<open>The text\<close>

text \<open>A NULL pointer is \<open>None\<close>; the text that \<open>out\<close> points to is written when the writer renders it.\<close>

definition grdm_json_from_complete_transaction ::
  "('w, 'p) arnm_json_writer \<Rightarrow> (u32 \<Rightarrow> u32) \<Rightarrow> bytes option \<Rightarrow> grdr_complete_transaction option \<Rightarrow> 'p \<Rightarrow> u32
    \<Rightarrow> arnm_result \<times> bytes option \<times> 'p" where
  "grdm_json_from_complete_transaction W B out tx p flags =
     (case (out, tx) of
        (Some _, Some tx) \<Rightarrow>
          (case jw_init W flags (calculate_hint B tx) p of
             Inl (r, p) \<Rightarrow> (r, out, p)
           | Inr w \<Rightarrow>
               (case add_complete_transaction W tx w of (r, w) \<Rightarrow>
                 (case (if r = ARNM_SUCCESS then jw_write W w else (r, [], w)) of (r, text', w) \<Rightarrow>
                   let out = (if r = ARNM_SUCCESS then Some text' else out) in
                   (case jw_release W w of (reclaim, p) \<Rightarrow>
                      if r = ARNM_SUCCESS \<and> reclaim \<noteq> ARNM_SUCCESS then (reclaim, out, p) else (r, out, p)))))
      | _ \<Rightarrow> (ARNM_ERROR_NULL_POINTER, out, p))"


section \<open>What a record looks like\<close>

definition written_timestamp :: "grdd_timestamp \<Rightarrow> written" where
  "written_timestamp t = WObject [(GRDM_JSON_KEY_SECONDS, WInt64 (seconds t)), (GRDM_JSON_KEY_NANOS, WInt64 (scast (nanos t)))]"

definition written_account_id :: "grdw_hiero_account_id \<Rightarrow> written" where
  "written_account_id a = WObject [(GRDM_JSON_KEY_SHARD_NUM, WInt64 (shardNum a)), (GRDM_JSON_KEY_REALM_NUM, WInt64 (realmNum a)),
     (GRDM_JSON_KEY_ACCOUNT_NUM, WInt64 (accountNum a))]"

definition written_hiero :: "grdw_hiero_transaction_id \<Rightarrow> written" where
  "written_hiero h = WObject [(GRDM_JSON_KEY_TRANSACTION_VALID_START, written_timestamp (transactionValidStart h)),
     (GRDM_JSON_KEY_ACCOUNT_ID, written_account_id (accountID h))]"

definition written_anchor :: "grdw_ledger_anchor \<Rightarrow> written" where
  "written_anchor a = WObject ((GRDM_JSON_KEY_TYPE, WString (grdt_ledger_anchor_to_string (la_type a)))
     # (if la_type a = GRDT_LEDGER_ANCHOR_UNSPECIFIED then []
        else if la_type a = GRDT_LEDGER_ANCHOR_HIERO_TRANSACTION_ID
        then [(GRDM_JSON_KEY_HIERO_TRANSACTION_ID, written_hiero (hiero_transaction_id a))]
        else [(GRDM_JSON_KEY_ID, WUint64 (la_id a))]))"

definition written_transfer :: "transfer_detail \<Rightarrow> written" where
  "written_transfer t = WObject [(GRDM_JSON_KEY_SENDER_PUBKEY, WHex (sender_pubkey t)), (GRDM_JSON_KEY_RECIPIENT_PUBKEY, WHex (recipient_pubkey t)),
     (GRDM_JSON_KEY_AMOUNT, WInt64 (amount t)), (GRDM_JSON_KEY_COIN_COMMUNITY_UUID, WUuid (Some (coin_community_uuid t)))]"

definition written_register :: "register_detail \<Rightarrow> written" where
  "written_register t = WObject [(GRDM_JSON_KEY_USER_PUBLIC_KEY, WHex (user_public_key t)), (GRDM_JSON_KEY_NAME_HASH, WHex (name_hash t)),
     (GRDM_JSON_KEY_ACCOUNT_PUBLIC_KEY, WHex (account_public_key t))]"

definition written_root :: "root_detail \<Rightarrow> written" where
  "written_root t = WObject [(GRDM_JSON_KEY_PUBLIC_KEY, WHex (public_key t)), (GRDM_JSON_KEY_GMW_PUBLIC_KEY, WHex (gmw_public_key t)),
     (GRDM_JSON_KEY_AUF_PUBLIC_KEY, WHex (auf_public_key t))]"

definition written_balance :: "grdw_account_balance \<Rightarrow> written" where
  "written_balance b = WObject [(GRDM_JSON_KEY_PUBKEY, WHex (ab_pubkey b)), (GRDM_JSON_KEY_BALANCE, WInt64 (ab_balance b)),
     (GRDM_JSON_KEY_COMMUNITY_UUID, WUuid (Some (ab_community_uuid b)))]"

definition written_memo :: "grdw_encrypted_memo \<Rightarrow> written" where
  "written_memo m = WObject [(GRDM_JSON_KEY_TYPE, WString (grdt_memo_key_to_string (em_type m))), (GRDM_JSON_KEY_MEMO, WBase64 (em_memo m))]"

definition written_signature :: "grdw_signature_pair \<Rightarrow> written" where
  "written_signature p = WObject [(GRDM_JSON_KEY_PUBLIC_KEY, WHex (sp_public_key p)), (GRDM_JSON_KEY_SIGNATURE, WHex (sp_signature p))]"

definition written_maybe :: "('a \<Rightarrow> written) \<Rightarrow> 'a option \<Rightarrow> written" where
  "written_maybe f x = (case x of None \<Rightarrow> WNull | Some a \<Rightarrow> f a)"

text \<open>The members a type has of its own; the members before them, and the whole object.\<close>

definition detail_members :: "grdr_complete_transaction \<Rightarrow> (string \<times> written) list" where
  "detail_members tx =
     (let t = transaction_type tx; transfer_member = (GRDM_JSON_KEY_TRANSFER, written_transfer (transfer tx)) in
      if t = GRDT_TRANSACTION_TRANSFER then [transfer_member]
      else if t = GRDT_TRANSACTION_CREATION then [transfer_member, (GRDM_JSON_KEY_TARGET_DATE, WInt64 (target_date tx))]
      else if t = GRDT_TRANSACTION_REGISTER_ADDRESS then
        [(GRDM_JSON_KEY_REGISTER_ADDRESS, written_register (register_address tx)),
         (GRDM_JSON_KEY_ADDRESS_TYPE, WString (grdt_address_to_string (address_type tx))),
         (GRDM_JSON_KEY_DERIVATION_INDEX, WUint64 (ucast (derivation_index tx)))]
      else if t = GRDT_TRANSACTION_DEFERRED_TRANSFER then [transfer_member, (GRDM_JSON_KEY_TIMEOUT_DURATION, WInt64 (timeout_duration tx))]
      else if t = GRDT_TRANSACTION_REDEEM_DEFERRED_TRANSFER then [transfer_member, (GRDM_JSON_KEY_PREVIOUS_TX, WUint64 (previous_tx tx))]
      else if t = GRDT_TRANSACTION_TIMEOUT_DEFERRED_TRANSFER then [(GRDM_JSON_KEY_PREVIOUS_TX, WUint64 (previous_tx tx))]
      else if t = GRDT_TRANSACTION_COMMUNITY_ROOT then [(GRDM_JSON_KEY_COMMUNITY_ROOT, written_root (community_root tx))]
      else [])"

definition head_members :: "grdr_complete_transaction \<Rightarrow> (string \<times> written) list" where
  "head_members tx =
     [(GRDM_JSON_KEY_TRANSACTION_TYPE, WString (grdt_transaction_to_string (transaction_type tx))),
      (GRDM_JSON_KEY_TX_NR, WUint64 (tx_nr tx)),
      (GRDM_JSON_KEY_CONFIRMED_AT, written_timestamp (confirmed_at tx)),
      (GRDM_JSON_KEY_CREATED_AT, written_timestamp (created_at tx)),
      (GRDM_JSON_KEY_TX_COMMUNITY_UUID, WUuid (Some (tx_community_uuid tx))),
      (GRDM_JSON_KEY_LEDGER_ANCHOR, written_anchor (ledger_anchor tx))]"

definition tail_members :: "grdr_complete_transaction \<Rightarrow> (string \<times> written) list" where
  "tail_members tx =
     [(GRDM_JSON_KEY_TX_RUNNING_HASH, WHex (tx_running_hash tx)),
      (GRDM_JSON_KEY_ACCOUNT_BALANCES, WArray (map written_balance (account_balances tx))),
      (GRDM_JSON_KEY_ENCRYPTED_MEMOS, WArray (map written_memo (encrypted_memos tx))),
      (GRDM_JSON_KEY_SIGNATURE_PAIRS, WArray (map written_signature (signature_pairs tx))),
      (GRDM_JSON_KEY_CROSS_GROUP_TYPE, WString (grdt_cross_group_to_string (cross_group_type tx))),
      (GRDM_JSON_KEY_TX_PAIRING_COMMUNITY_UUID, WUuid (tx_pairing_community_uuid tx)),
      (GRDM_JSON_KEY_PAIRING_LEDGER_ANCHOR, written_maybe written_anchor (pairing_ledger_anchor tx)),
      (GRDM_JSON_KEY_BODY_BYTES, WBase64 (body_bytes tx))]"

definition document :: "grdr_complete_transaction \<Rightarrow> written" where
  "document tx = WObject (head_members tx @ detail_members tx @ tail_members tx)"

text \<open>The types that have a layout.\<close>

definition json_layout :: "grdt_transaction \<Rightarrow> bool" where
  "json_layout t \<longleftrightarrow> t = GRDT_TRANSACTION_TRANSFER \<or> t = GRDT_TRANSACTION_CREATION \<or> t = GRDT_TRANSACTION_REGISTER_ADDRESS
     \<or> t = GRDT_TRANSACTION_DEFERRED_TRANSFER \<or> t = GRDT_TRANSACTION_REDEEM_DEFERRED_TRANSFER
     \<or> t = GRDT_TRANSACTION_TIMEOUT_DEFERRED_TRANSFER \<or> t = GRDT_TRANSACTION_COMMUNITY_ROOT"

section \<open>The calls lay the document\<close>

lemmas written_defs = written_timestamp_def written_account_id_def written_hiero_def written_anchor_def written_transfer_def
  written_register_def written_root_def written_balance_def written_memo_def written_signature_def

lemma timestamp_laid: "add_timestamp W k t w = lay W (written_timestamp t) k w"
  by (simp add: add_timestamp_def written_timestamp_def)

lemma anchor_laid: "add_ledger_anchor W k a w = lay W (written_maybe written_anchor a) k w"
  by (simp add: add_ledger_anchor_def written_maybe_def written_anchor_def written_hiero_def written_account_id_def timestamp_laid
      add_enum_string_def Let_def split: option.split)

lemma details_laid:
  "add_transfer W tx w = lay W (written_transfer (transfer tx)) (Some GRDM_JSON_KEY_TRANSFER) w"
  "add_register_address W tx w = lay W (written_register (register_address tx)) (Some GRDM_JSON_KEY_REGISTER_ADDRESS) w"
  "add_community_root W tx w = lay W (written_root (community_root tx)) (Some GRDM_JSON_KEY_COMMUNITY_ROOT) w"
  by (simp_all add: add_transfer_def add_register_address_def add_community_root_def written_defs)

lemma elements_laid:
  "add_balance W b w = lay W (written_balance b) None w"
  "add_memo W m w = lay W (written_memo m) None w"
  "add_signature_pair W p w = lay W (written_signature p) None w"
  by (simp_all add: add_balance_def add_memo_def add_signature_pair_def add_enum_string_def written_defs)

lemma detail_laid:
  "json_layout (transaction_type tx) \<Longrightarrow> add_transaction_detail W tx w = (ARNM_SUCCESS, lay_members W (detail_members tx) w)"
  "\<not> json_layout (transaction_type tx) \<Longrightarrow> add_transaction_detail W tx w = (ARNM_ERROR_ENUM_UNHANDLED, w)"
  by (auto simp: add_transaction_detail_def detail_members_def json_layout_def details_laid add_enum_string_def Let_def)

lemma fold_laid: "(\<And>x w. f x w = lay W (g x) None w) \<Longrightarrow> fold f xs w = fold (\<lambda>v. lay W v None) (map g xs) w"
  by (induction xs arbitrary: w) simp_all

lemma arrays_laid: "add_arrays W tx w = lay_members W
    [(GRDM_JSON_KEY_ACCOUNT_BALANCES, WArray (map written_balance (account_balances tx))),
     (GRDM_JSON_KEY_ENCRYPTED_MEMOS, WArray (map written_memo (encrypted_memos tx))),
     (GRDM_JSON_KEY_SIGNATURE_PAIRS, WArray (map written_signature (signature_pairs tx)))] w"
  unfolding add_arrays_def
  by (simp add: fold_laid [of "add_balance W" W written_balance] fold_laid [of "add_memo W" W written_memo]
      fold_laid [of "add_signature_pair W" W written_signature] elements_laid)

lemma complete_transaction_laid:
  "json_layout (transaction_type tx) \<Longrightarrow> add_complete_transaction W tx w
     = (ARNM_SUCCESS, lay_members W (head_members tx @ detail_members tx @ tail_members tx) (jw_begin_object W w))"
  "\<not> json_layout (transaction_type tx) \<Longrightarrow> add_complete_transaction W tx w
     = (ARNM_ERROR_ENUM_UNHANDLED, lay_members W (head_members tx) (jw_begin_object W w))"
  by (simp_all add: add_complete_transaction_def detail_laid bind_ok_def arrays_laid timestamp_laid anchor_laid add_enum_string_def
      head_members_def tail_members_def Let_def written_maybe_def)

section \<open>The hint is exact\<close>

lemma counted:
  "nodes (written_timestamp t) = 5" "nodes (written_account_id a) = 7" "nodes (written_hiero h) = 15"
  "nodes (written_transfer d) = 9" "nodes (written_register r) = 7" "nodes (written_root c) = 7"
  "nodes (written_balance b) = 7" "nodes (written_memo m) = 5" "nodes (written_signature p) = 5"
  by (simp_all add: written_defs)

lemma anchor_counted: "word_of_nat (nodes (written_anchor a)) = anchor_values a" "pool B (written_anchor a) = 0"
  by (simp_all add: written_anchor_def anchor_values_def counted)
    (simp_all add: written_hiero_def written_timestamp_def written_account_id_def)

lemma balances_counted: "sum_list (map (nodes \<circ> written_balance) bs) = 7 * length bs"
  "sum_list (map (pool B \<circ> written_balance) bs) = word_of_nat (length bs) * (HEX_FIELD_BYTES SIGN_PUBLIC_KEY_SIZE + UUID_FIELD_BYTES)"
  if "list_all balance_ok bs"
  using that by (induction bs) (simp_all add: written_balance_def balance_ok_def HEX_FIELD_BYTES_def UUID_FIELD_BYTES_def algebra_simps)

lemma memos_counted: "sum_list (map (nodes \<circ> written_memo) ms) = 5 * length ms"
  "fold (\<lambda>memo n. n + BASE64_FIELD_BYTES B (word_of_nat (length (em_memo memo)))) ms k = k + sum_list (map (pool B \<circ> written_memo) ms)"
  by (induction ms arbitrary: k) (simp_all add: written_memo_def BASE64_FIELD_BYTES_def algebra_simps)

lemma signatures_counted: "sum_list (map (nodes \<circ> written_signature) ps) = 5 * length ps"
  "sum_list (map (pool B \<circ> written_signature) ps)
     = word_of_nat (length ps) * (HEX_FIELD_BYTES SIGN_PUBLIC_KEY_SIZE + HEX_FIELD_BYTES SIGN_SIGNATURE_SIZE)"
  if "list_all signature_ok ps"
  using that by (induction ps) (simp_all add: written_signature_def signature_ok_def HEX_FIELD_BYTES_def algebra_simps)

text \<open>The sizes of the arrays in the structs.\<close>

definition record_ok :: "grdr_complete_transaction \<Rightarrow> bool" where
  "record_ok tx \<longleftrightarrow> length (tx_community_uuid tx) = ARNM_UUID_BINARY_SIZE
     \<and> length (sender_pubkey (transfer tx)) = SIGN_PUBLIC_KEY_SIZE \<and> length (recipient_pubkey (transfer tx)) = SIGN_PUBLIC_KEY_SIZE
     \<and> length (coin_community_uuid (transfer tx)) = ARNM_UUID_BINARY_SIZE
     \<and> length (user_public_key (register_address tx)) = SIGN_PUBLIC_KEY_SIZE \<and> length (name_hash (register_address tx)) = GENERIC_HASH_SIZE
     \<and> length (account_public_key (register_address tx)) = SIGN_PUBLIC_KEY_SIZE
     \<and> length (public_key (community_root tx)) = SIGN_PUBLIC_KEY_SIZE \<and> length (gmw_public_key (community_root tx)) = SIGN_PUBLIC_KEY_SIZE
     \<and> length (auf_public_key (community_root tx)) = SIGN_PUBLIC_KEY_SIZE
     \<and> length (tx_running_hash tx) = GENERIC_HASH_SIZE
     \<and> list_all balance_ok (account_balances tx) \<and> list_all signature_ok (signature_pairs tx)
     \<and> pred_option (\<lambda>u. length u = ARNM_UUID_BINARY_SIZE) (tx_pairing_community_uuid tx)"

lemma record_okD:
  assumes "record_ok tx"
  shows "length (tx_community_uuid tx) = 16" "length (sender_pubkey (transfer tx)) = 32" "length (recipient_pubkey (transfer tx)) = 32"
    "length (coin_community_uuid (transfer tx)) = 16" "length (user_public_key (register_address tx)) = 32"
    "length (name_hash (register_address tx)) = 32" "length (account_public_key (register_address tx)) = 32"
    "length (public_key (community_root tx)) = 32" "length (gmw_public_key (community_root tx)) = 32"
    "length (auf_public_key (community_root tx)) = 32" "length (tx_running_hash tx) = 32" "list_all balance_ok (account_balances tx)"
    "list_all signature_ok (signature_pairs tx)" "tx_pairing_community_uuid tx = Some u \<Longrightarrow> length u = 16"
  using assms by (simp_all add: record_ok_def)

lemma detail_counted:
  assumes "json_layout (transaction_type tx)" "record_ok tx"
  shows "word_of_nat (sum_list (map (\<lambda>(k, v). 1 + nodes v) (detail_members tx))) = fst (detail_hint (transaction_type tx))"
    "sum_list (map (\<lambda>(k, v). pool B v) (detail_members tx)) = snd (detail_hint (transaction_type tx))"
  using assms(1) record_okD [OF assms(2)]
  by (auto simp: json_layout_def detail_members_def detail_hint_def counted Let_def TRANSFER_VALUES_def TRANSFER_STRING_BYTES_def
      HEX_FIELD_BYTES_def UUID_FIELD_BYTES_def)
    (auto simp: written_defs)

lemma nodes_object: "nodes (WObject ms) = 1 + sum_list (map (\<lambda>(k, v). 1 + nodes v) ms)"
  by (induction ms) auto

lemma pool_object: "pool B (WObject ms) = sum_list (map (\<lambda>(k, v). pool B v) ms)"
  by (induction ms) auto

declare nodes.simps(9) [simp del] pool.simps(9) [simp del]

lemma head_counted:
  "sum_list (map (\<lambda>(k, v). 1 + nodes v) (head_members tx)) = 19 + nodes (written_anchor (ledger_anchor tx))"
  "sum_list (map (\<lambda>(k, v). pool B v) (head_members tx)) = UUID_FIELD_BYTES"
  by (simp_all add: head_members_def counted anchor_counted UUID_FIELD_BYTES_def) (simp add: written_timestamp_def pool_object)

lemma tail_counted:
  assumes "record_ok tx"
  shows "sum_list (map (\<lambda>(k, v). 1 + nodes v) (tail_members tx)) = 15
      + 7 * length (account_balances tx) + 5 * length (encrypted_memos tx) + 5 * length (signature_pairs tx)
      + nodes (written_maybe written_anchor (pairing_ledger_anchor tx))"
    "sum_list (map (\<lambda>(k, v). pool B v) (tail_members tx)) = HEX_FIELD_BYTES GENERIC_HASH_SIZE
      + word_of_nat (length (account_balances tx)) * (HEX_FIELD_BYTES SIGN_PUBLIC_KEY_SIZE + UUID_FIELD_BYTES)
      + sum_list (map (pool B \<circ> written_memo) (encrypted_memos tx))
      + word_of_nat (length (signature_pairs tx)) * (HEX_FIELD_BYTES SIGN_PUBLIC_KEY_SIZE + HEX_FIELD_BYTES SIGN_SIGNATURE_SIZE)
      + (if tx_pairing_community_uuid tx = None then 0 else UUID_FIELD_BYTES)
      + BASE64_FIELD_BYTES B (word_of_nat (length (body_bytes tx)))"
  using record_okD [OF assms]
  by (simp_all add: tail_members_def balances_counted memos_counted signatures_counted)
    (simp_all add: HEX_FIELD_BYTES_def UUID_FIELD_BYTES_def BASE64_FIELD_BYTES_def written_maybe_def anchor_counted algebra_simps
      split: option.split)

lemma hint_counted:
  assumes tx: "json_layout (transaction_type tx)" "record_ok tx"
  shows "calculate_hint B tx = (word_of_nat (nodes (document tx)), pool B (document tx))"
proof -
  have pair: "word_of_nat (nodes (written_maybe written_anchor a)) + 1 = (case a of None \<Rightarrow> 2 | Some anchor \<Rightarrow> 1 + anchor_values anchor)"
    for a :: "grdw_ledger_anchor option"
    by (cases a) (simp_all add: written_maybe_def anchor_counted)
  show ?thesis
    unfolding document_def nodes_object pool_object map_append sum_list_append of_nat_add head_counted tail_counted [OF tx(2)]
      detail_counted [OF tx] anchor_counted
    by (simp add: calculate_hint_def memos_counted anchor_counted pair [symmetric] algebra_simps)
qed

section \<open>What is written\<close>

definition laid :: "('w, 'p) arnm_json_writer \<Rightarrow> grdr_complete_transaction \<Rightarrow> 'w \<Rightarrow> 'w" where
  "laid W tx w = lay_members W (head_members tx @ detail_members tx @ tail_members tx) (jw_begin_object W w)"

lemma written_laid:
  assumes "json_layout (transaction_type tx)" "record_ok tx"
  shows "grdm_json_from_complete_transaction W B (Some out) (Some tx) p flags =
    (case jw_init W flags (word_of_nat (nodes (document tx)), pool B (document tx)) p of
       Inl (r, p) \<Rightarrow> (r, Some out, p)
     | Inr w \<Rightarrow> (case jw_write W (laid W tx w) of (r, text', w) \<Rightarrow>
         (case jw_release W w of (reclaim, p) \<Rightarrow>
           (if r = ARNM_SUCCESS then reclaim else r, Some (if r = ARNM_SUCCESS then text' else out), p))))"
  using assms by (auto simp: grdm_json_from_complete_transaction_def hint_counted complete_transaction_laid laid_def Let_def
      split: sum.split prod.split)

text \<open>C38: A record of a type that has a layout is written as its document: the calls lay exactly this tree into the writer,
  one member after the other, the two pools of the writer are opened for exactly the values and the bytes it takes, and
  \<open>out\<close> changes only when the text has been rendered; a warning of the release is answered next to the text. A record of
  another type is refused, after the members before its detail, and \<open>out\<close> stays as it was.\<close>
theorem json_written_exact:
  assumes "record_ok tx"
  shows "grdm_json_from_complete_transaction W B (Some out) (Some tx) p flags =
    (if json_layout (transaction_type tx)
     then (case jw_init W flags (word_of_nat (nodes (document tx)), pool B (document tx)) p of
         Inl (r, p) \<Rightarrow> (r, Some out, p)
       | Inr w \<Rightarrow> (case jw_write W (laid W tx w) of (r, text', w) \<Rightarrow>
           (case jw_release W w of (reclaim, p) \<Rightarrow>
             (if r = ARNM_SUCCESS then reclaim else r, Some (if r = ARNM_SUCCESS then text' else out), p))))
     else (case jw_init W flags (calculate_hint B tx) p of
         Inl (r, p) \<Rightarrow> (r, Some out, p)
       | Inr w \<Rightarrow> (ARNM_ERROR_ENUM_UNHANDLED, Some out, snd (jw_release W (lay_members W (head_members tx) (jw_begin_object W w))))))"
proof (cases "json_layout (transaction_type tx)")
  case True
  then show ?thesis using written_laid [OF True assms] by simp
next
  case False
  then show ?thesis
    by (simp add: grdm_json_from_complete_transaction_def complete_transaction_laid(2) Let_def split: sum.split prod.split)
qed

text \<open>A writer that counts its calls and answers the count as its text.\<close>

definition counting_writer :: "(nat, unit) arnm_json_writer" where
  "counting_writer =
     \<lparr>jw_init = (\<lambda>flags hint p. Inr 0), jw_begin_object = Suc, jw_open_object = (\<lambda>k. Suc), jw_open_array = (\<lambda>k. Suc), jw_close = Suc,
      jw_add_null = (\<lambda>k. Suc), jw_add_int64 = (\<lambda>k i. Suc), jw_add_uint64 = (\<lambda>k n. Suc), jw_add_string = (\<lambda>k s. Suc),
      jw_add_hex = (\<lambda>k b. Suc), jw_add_base64 = (\<lambda>k b. Suc), jw_add_uuid = (\<lambda>k u. Suc),
      jw_write = (\<lambda>w. (ARNM_SUCCESS, [word_of_nat w], w)), jw_release = (\<lambda>w. (ARNM_SUCCESS, ()))\<rparr>"

definition sample_record :: grdr_complete_transaction where
  "sample_record = grdr_complete_transaction_init\<lparr>transaction_type := GRDT_TRANSACTION_CREATION, target_date := 77, body_bytes := [1, 2],
     encrypted_memos := [\<lparr>em_type = GRDT_MEMO_KEY_PLAIN, em_memo = [104, 105]\<rparr>]\<rparr>"

lemma sample_record_ok: "record_ok sample_record" "json_layout (transaction_type sample_record)"
  by (simp_all add: record_ok_def sample_record_def grdr_complete_transaction_init_def zeros_def json_layout_def)

lemma counting_simps: "jw_init counting_writer flags hint p = Inr 0" "jw_write counting_writer w = (ARNM_SUCCESS, [word_of_nat w], w)"
  "jw_release counting_writer w = (ARNM_SUCCESS, ())"
  by (simp_all add: counting_writer_def)

lemma sample_laid: "laid counting_writer sample_record 0 = 37"
  by (simp add: laid_def counting_writer_def sample_record_def grdr_complete_transaction_init_def head_members_def detail_members_def
      tail_members_def written_defs written_maybe_def zero_anchor_def)

theorem json_written_exact_witness:
  "grdm_json_from_complete_transaction counting_writer (\<lambda>n. n) (Some []) (Some sample_record) () 0 = (ARNM_SUCCESS, Some [37], ())"
  using json_written_exact [OF sample_record_ok(1), of counting_writer "\<lambda>n. n" "[]" "()" 0] sample_record_ok(2)
  by (simp add: sample_laid counting_simps)

end
