(* ===== verification/GRD_Json_Read.thy ===== *)
theory GRD_Json_Read
  imports GRD_Json
begin

text \<open>
  The runtime record out of JSON, \<open>mapping/runtime_from_json.c\<close>: the walks over the objects with their tables, the arrays
  as the handles of their elements, the size of the arena, and what is copied into it. A walk that fails ends the
  whole reading and the record is released, so a reader that fails answers its result alone and what it wrote on the
  way is not kept; the states of the allocators are passed along in every case.
\<close>

section \<open>What a walk found\<close>

text \<open>The target of an entry keeps what it had when its bit is clear.\<close>

definition found_word64 :: "u64 \<Rightarrow> json_found option \<Rightarrow> u64" where
  "found_word64 old x = (case x of Some (FoundWord64 w) \<Rightarrow> w | _ \<Rightarrow> old)"

definition found_word32 :: "u32 \<Rightarrow> json_found option \<Rightarrow> u32" where
  "found_word32 old x = (case x of Some (FoundWord32 w) \<Rightarrow> w | _ \<Rightarrow> old)"

definition found_string :: "string \<Rightarrow> json_found option \<Rightarrow> string" where
  "found_string old x = (case x of Some (FoundString s) \<Rightarrow> s | _ \<Rightarrow> old)"

definition found_bytes :: "bytes \<Rightarrow> json_found option \<Rightarrow> bytes" where
  "found_bytes old x = (case x of Some (FoundBytes b) \<Rightarrow> b | _ \<Rightarrow> old)"

definition found_value :: "json_found option \<Rightarrow> json option" where
  "found_value x = (case x of Some (FoundValue v) \<Rightarrow> Some v | _ \<Rightarrow> None)"

definition all_seen :: "json_found option list \<Rightarrow> bool" where
  "all_seen xs = list_all (\<lambda>x. x \<noteq> None) xs"

text \<open>An object of which every member of the table is wanted.\<close>

definition walk_all :: "'p arnm_json_reader \<Rightarrow> json option \<Rightarrow> (string \<times> json_field) list \<Rightarrow> arnm_result + json_found option list" where
  "walk_all R object table =
     (case object of None \<Rightarrow> Inl ARNM_ERROR_DECODE_FAILED
      | Some v \<Rightarrow> fbind (jr_read_object R v table) (\<lambda>xs. if all_seen xs then Inr xs else Inl ARNM_ERROR_DECODE_FAILED))"

section \<open>The shapes below the root\<close>

definition read_timestamp :: "'p arnm_json_reader \<Rightarrow> grdd_timestamp \<Rightarrow> json option \<Rightarrow> arnm_result + grdd_timestamp" where
  "read_timestamp R out object =
     fbind (walk_all R object [(GRDM_JSON_KEY_SECONDS, FieldInt64), (GRDM_JSON_KEY_NANOS, FieldInt32)]) (\<lambda>xs.
       Inr (out\<lparr>seconds := found_word64 (seconds out) (xs ! 0), nanos := found_word32 (nanos out) (xs ! 1)\<rparr>))"

definition read_account_id :: "'p arnm_json_reader \<Rightarrow> grdw_hiero_account_id \<Rightarrow> json option \<Rightarrow> arnm_result + grdw_hiero_account_id" where
  "read_account_id R out object =
     fbind (walk_all R object [(GRDM_JSON_KEY_SHARD_NUM, FieldInt64), (GRDM_JSON_KEY_REALM_NUM, FieldInt64),
         (GRDM_JSON_KEY_ACCOUNT_NUM, FieldInt64)]) (\<lambda>xs.
       Inr (out\<lparr>shardNum := found_word64 (shardNum out) (xs ! 0), realmNum := found_word64 (realmNum out) (xs ! 1),
         accountNum := found_word64 (accountNum out) (xs ! 2)\<rparr>))"

definition read_hiero_transaction_id ::
  "'p arnm_json_reader \<Rightarrow> grdw_hiero_transaction_id \<Rightarrow> json option \<Rightarrow> arnm_result + grdw_hiero_transaction_id" where
  "read_hiero_transaction_id R out object =
     fbind (walk_all R object [(GRDM_JSON_KEY_TRANSACTION_VALID_START, FieldValue), (GRDM_JSON_KEY_ACCOUNT_ID, FieldValue)]) (\<lambda>xs.
     fbind (read_timestamp R (transactionValidStart out) (found_value (xs ! 0))) (\<lambda>t.
     fbind (read_account_id R (accountID out) (found_value (xs ! 1))) (\<lambda>a.
       Inr (out\<lparr>transactionValidStart := t, accountID := a\<rparr>))))"

text \<open>The type name is required; the struct is cleared before anything is read into it.\<close>

definition read_ledger_anchor :: "'p arnm_json_reader \<Rightarrow> json option \<Rightarrow> arnm_result + grdw_ledger_anchor" where
  "read_ledger_anchor R object =
     (case object of None \<Rightarrow> Inl ARNM_ERROR_DECODE_FAILED
      | Some v \<Rightarrow>
          fbind (jr_read_object R v [(GRDM_JSON_KEY_TYPE, FieldString), (GRDM_JSON_KEY_HIERO_TRANSACTION_ID, FieldValue),
              (GRDM_JSON_KEY_ID, FieldUint64)]) (\<lambda>xs.
            if xs ! 0 = None then Inl ARNM_ERROR_DECODE_FAILED
            else (let type_name = found_string [] (xs ! 0);
                      out = zero_anchor\<lparr>la_type := grdt_ledger_anchor_from_string type_name (length type_name)\<rparr>
              in if la_type out = GRDT_LEDGER_ANCHOR_UNSPECIFIED then Inr out
                 else if la_type out = GRDT_LEDGER_ANCHOR_HIERO_TRANSACTION_ID then
                   fbind (read_hiero_transaction_id R (hiero_transaction_id out) (found_value (xs ! 1))) (\<lambda>h.
                     Inr (out\<lparr>hiero_transaction_id := h\<rparr>))
                 else if xs ! 2 = None then Inl ARNM_ERROR_DECODE_FAILED
                 else Inr (out\<lparr>la_id := found_word64 0 (xs ! 2)\<rparr>))))"

section \<open>The detail, branch by branch\<close>

definition read_transfer :: "'p arnm_json_reader \<Rightarrow> grdr_complete_transaction \<Rightarrow> json option \<Rightarrow> arnm_result + grdr_complete_transaction" where
  "read_transfer R tx object =
     fbind (walk_all R object [(GRDM_JSON_KEY_SENDER_PUBKEY, FieldHexFixed SIGN_PUBLIC_KEY_SIZE),
         (GRDM_JSON_KEY_RECIPIENT_PUBKEY, FieldHexFixed SIGN_PUBLIC_KEY_SIZE), (GRDM_JSON_KEY_AMOUNT, FieldInt64),
         (GRDM_JSON_KEY_COIN_COMMUNITY_UUID, FieldUuid)]) (\<lambda>xs.
       Inr (tx\<lparr>transfer := (transfer tx)\<lparr>sender_pubkey := found_bytes (sender_pubkey (transfer tx)) (xs ! 0),
         recipient_pubkey := found_bytes (recipient_pubkey (transfer tx)) (xs ! 1), amount := found_word64 (amount (transfer tx)) (xs ! 2),
         coin_community_uuid := found_bytes (coin_community_uuid (transfer tx)) (xs ! 3)\<rparr>\<rparr>))"

definition read_register_address ::
  "'p arnm_json_reader \<Rightarrow> grdr_complete_transaction \<Rightarrow> json option \<Rightarrow> arnm_result + grdr_complete_transaction" where
  "read_register_address R tx object =
     fbind (walk_all R object [(GRDM_JSON_KEY_USER_PUBLIC_KEY, FieldHexFixed SIGN_PUBLIC_KEY_SIZE),
         (GRDM_JSON_KEY_NAME_HASH, FieldHexFixed GENERIC_HASH_SIZE),
         (GRDM_JSON_KEY_ACCOUNT_PUBLIC_KEY, FieldHexFixed SIGN_PUBLIC_KEY_SIZE)]) (\<lambda>xs.
       Inr (tx\<lparr>register_address := (register_address tx)\<lparr>user_public_key := found_bytes (user_public_key (register_address tx)) (xs ! 0),
         name_hash := found_bytes (name_hash (register_address tx)) (xs ! 1),
         account_public_key := found_bytes (account_public_key (register_address tx)) (xs ! 2)\<rparr>\<rparr>))"

definition read_community_root ::
  "'p arnm_json_reader \<Rightarrow> grdr_complete_transaction \<Rightarrow> json option \<Rightarrow> arnm_result + grdr_complete_transaction" where
  "read_community_root R tx object =
     fbind (walk_all R object [(GRDM_JSON_KEY_PUBLIC_KEY, FieldHexFixed SIGN_PUBLIC_KEY_SIZE),
         (GRDM_JSON_KEY_GMW_PUBLIC_KEY, FieldHexFixed SIGN_PUBLIC_KEY_SIZE),
         (GRDM_JSON_KEY_AUF_PUBLIC_KEY, FieldHexFixed SIGN_PUBLIC_KEY_SIZE)]) (\<lambda>xs.
       Inr (tx\<lparr>community_root := (community_root tx)\<lparr>public_key := found_bytes (public_key (community_root tx)) (xs ! 0),
         gmw_public_key := found_bytes (gmw_public_key (community_root tx)) (xs ! 1),
         auf_public_key := found_bytes (auf_public_key (community_root tx)) (xs ! 2)\<rparr>\<rparr>))"

section \<open>The root, walked once\<close>

text \<open>The handles and borrowed strings the root walk leaves; the uuid is there when its bit was set.\<close>

record root_view =
  rv_confirmed_at :: "json option"
  rv_created_at :: "json option"
  rv_ledger_anchor :: "json option"
  rv_transfer :: "json option"
  rv_register_address :: "json option"
  rv_community_root :: "json option"
  rv_account_balances :: "json option"
  rv_encrypted_memos :: "json option"
  rv_signature_pairs :: "json option"
  rv_tx_pairing_community_uuid :: "bytes option"
  rv_pairing_ledger_anchor :: "json option"
  rv_cross_group_type :: string
  rv_body_bytes :: string

text \<open>The table of the root: key, type, and whether a document must carry it.\<close>

definition root_fields :: "grdt_transaction \<Rightarrow> (string \<times> json_field \<times> bool) list" where
  "root_fields t =
     [(GRDM_JSON_KEY_TRANSACTION_TYPE, FieldString, True), (GRDM_JSON_KEY_TX_NR, FieldUint64, True),
      (GRDM_JSON_KEY_CONFIRMED_AT, FieldValue, True), (GRDM_JSON_KEY_CREATED_AT, FieldValue, True),
      (GRDM_JSON_KEY_TX_COMMUNITY_UUID, FieldUuid, True), (GRDM_JSON_KEY_LEDGER_ANCHOR, FieldValue, True)]
     @ (if t = GRDT_TRANSACTION_TRANSFER \<or> t = GRDT_TRANSACTION_CREATION \<or> t = GRDT_TRANSACTION_DEFERRED_TRANSFER
          \<or> t = GRDT_TRANSACTION_REDEEM_DEFERRED_TRANSFER then [(GRDM_JSON_KEY_TRANSFER, FieldValue, True)]
        else if t = GRDT_TRANSACTION_REGISTER_ADDRESS then [(GRDM_JSON_KEY_REGISTER_ADDRESS, FieldValue, True)]
        else if t = GRDT_TRANSACTION_COMMUNITY_ROOT then [(GRDM_JSON_KEY_COMMUNITY_ROOT, FieldValue, True)]
        else [])
     @ (if t = GRDT_TRANSACTION_CREATION then [(GRDM_JSON_KEY_TARGET_DATE, FieldInt64, True)]
        else if t = GRDT_TRANSACTION_DEFERRED_TRANSFER then [(GRDM_JSON_KEY_TIMEOUT_DURATION, FieldInt64, True)]
        else if t = GRDT_TRANSACTION_REDEEM_DEFERRED_TRANSFER \<or> t = GRDT_TRANSACTION_TIMEOUT_DEFERRED_TRANSFER
          then [(GRDM_JSON_KEY_PREVIOUS_TX, FieldUint64, True)]
        else if t = GRDT_TRANSACTION_REGISTER_ADDRESS
          then [(GRDM_JSON_KEY_ADDRESS_TYPE, FieldString, True), (GRDM_JSON_KEY_DERIVATION_INDEX, FieldUint32, True)]
        else [])
     @ [(GRDM_JSON_KEY_TX_RUNNING_HASH, FieldHexFixed GENERIC_HASH_SIZE, True),
        (GRDM_JSON_KEY_ACCOUNT_BALANCES, FieldValue, False), (GRDM_JSON_KEY_ENCRYPTED_MEMOS, FieldValue, False),
        (GRDM_JSON_KEY_SIGNATURE_PAIRS, FieldValue, False), (GRDM_JSON_KEY_CROSS_GROUP_TYPE, FieldString, True),
        (GRDM_JSON_KEY_TX_PAIRING_COMMUNITY_UUID, FieldUuid, False), (GRDM_JSON_KEY_PAIRING_LEDGER_ANCHOR, FieldValue, False),
        (GRDM_JSON_KEY_BODY_BYTES, FieldString, True)]"

text \<open>What the walk put where the entry of a key points to; a key that is not in the table was not asked for.\<close>

definition found_at :: "(string \<times> json_field \<times> bool) list \<Rightarrow> json_found option list \<Rightarrow> string \<Rightarrow> json_found option" where
  "found_at table xs key = (case map_of (zip (map fst table) xs) key of Some x \<Rightarrow> x | None \<Rightarrow> None)"

definition root_view_of :: "(string \<Rightarrow> json_found option) \<Rightarrow> root_view" where
  "root_view_of g =
     \<lparr>rv_confirmed_at = found_value (g GRDM_JSON_KEY_CONFIRMED_AT), rv_created_at = found_value (g GRDM_JSON_KEY_CREATED_AT),
      rv_ledger_anchor = found_value (g GRDM_JSON_KEY_LEDGER_ANCHOR), rv_transfer = found_value (g GRDM_JSON_KEY_TRANSFER),
      rv_register_address = found_value (g GRDM_JSON_KEY_REGISTER_ADDRESS),
      rv_community_root = found_value (g GRDM_JSON_KEY_COMMUNITY_ROOT),
      rv_account_balances = found_value (g GRDM_JSON_KEY_ACCOUNT_BALANCES),
      rv_encrypted_memos = found_value (g GRDM_JSON_KEY_ENCRYPTED_MEMOS),
      rv_signature_pairs = found_value (g GRDM_JSON_KEY_SIGNATURE_PAIRS),
      rv_tx_pairing_community_uuid = map_option (\<lambda>x. found_bytes [] (Some x)) (g GRDM_JSON_KEY_TX_PAIRING_COMMUNITY_UUID),
      rv_pairing_ledger_anchor = found_value (g GRDM_JSON_KEY_PAIRING_LEDGER_ANCHOR),
      rv_cross_group_type = found_string [] (g GRDM_JSON_KEY_CROSS_GROUP_TYPE),
      rv_body_bytes = found_string [] (g GRDM_JSON_KEY_BODY_BYTES)\<rparr>"

definition root_into :: "(string \<Rightarrow> json_found option) \<Rightarrow> grdr_complete_transaction \<Rightarrow> grdr_complete_transaction" where
  "root_into g tx = tx
     \<lparr>tx_nr := found_word64 (tx_nr tx) (g GRDM_JSON_KEY_TX_NR),
      tx_community_uuid := found_bytes (tx_community_uuid tx) (g GRDM_JSON_KEY_TX_COMMUNITY_UUID),
      tx_running_hash := found_bytes (tx_running_hash tx) (g GRDM_JSON_KEY_TX_RUNNING_HASH),
      target_date := found_word64 (target_date tx) (g GRDM_JSON_KEY_TARGET_DATE),
      timeout_duration := found_word64 (timeout_duration tx) (g GRDM_JSON_KEY_TIMEOUT_DURATION),
      previous_tx := found_word64 (previous_tx tx) (g GRDM_JSON_KEY_PREVIOUS_TX),
      derivation_index := found_word32 (derivation_index tx) (g GRDM_JSON_KEY_DERIVATION_INDEX)\<rparr>"

definition read_root ::
  "'p arnm_json_reader \<Rightarrow> grdr_complete_transaction \<Rightarrow> json \<Rightarrow> grdt_transaction \<Rightarrow> arnm_result + root_view \<times> grdr_complete_transaction" where
  "read_root R tx root t =
     (let table = root_fields t in
      fbind (jr_read_object R root (map (\<lambda>(k, f, _). (k, f)) table)) (\<lambda>xs.
        if \<not> list_all2 (\<lambda>(_, _, required) x. required \<longrightarrow> x \<noteq> None) table xs then Inl ARNM_ERROR_DECODE_FAILED
        else (let g = found_at table xs; tx = root_into g tx in
          if t = GRDT_TRANSACTION_REGISTER_ADDRESS then
            (let address_name = found_string [] (g GRDM_JSON_KEY_ADDRESS_TYPE);
                 tx = tx\<lparr>address_type := grdt_address_from_string address_name (length address_name)\<rparr>
             in if GRDT_ADDRESS_NONE = address_type tx then Inl ARNM_ERROR_ENUM_UNKNOWN else Inr (root_view_of g, tx))
          else Inr (root_view_of g, tx))))"

definition read_transaction_detail ::
  "'p arnm_json_reader \<Rightarrow> grdr_complete_transaction \<Rightarrow> root_view \<Rightarrow> arnm_result + grdr_complete_transaction" where
  "read_transaction_detail R tx view =
     (let t = transaction_type tx in
      if t = GRDT_TRANSACTION_TRANSFER \<or> t = GRDT_TRANSACTION_CREATION \<or> t = GRDT_TRANSACTION_DEFERRED_TRANSFER
        \<or> t = GRDT_TRANSACTION_REDEEM_DEFERRED_TRANSFER then read_transfer R tx (rv_transfer view)
      else if t = GRDT_TRANSACTION_REGISTER_ADDRESS then read_register_address R tx (rv_register_address view)
      else if t = GRDT_TRANSACTION_COMMUNITY_ROOT then read_community_root R tx (rv_community_root view)
      else if t = GRDT_TRANSACTION_TIMEOUT_DEFERRED_TRANSFER then Inr tx
      else Inl ARNM_ERROR_ENUM_UNHANDLED)"

section \<open>An array, as the handles of its elements\<close>

definition ELEMENTS_INLINE :: nat where "ELEMENTS_INLINE = 5"
definition DEFAULT_MAX_MEMOS_COUNT :: nat where "DEFAULT_MAX_MEMOS_COUNT = 4"

text \<open>A pointer of a 64 bit target.\<close>

definition SIZEOF_json_value_pointer :: nat where "SIZEOF_json_value_pointer = 8"

text \<open>The buffer of a list that was widened is its size, 0 when there is none.\<close>

record element_list =
  el_values :: "json list"
  el_widened :: u32

definition init_elements :: element_list where
  "init_elements = \<lparr>el_values = [], el_widened = 0\<rparr>"

definition read_elements ::
  "'p arnm_memory \<Rightarrow> 'p arnm_json_reader \<Rightarrow> json option \<Rightarrow> u32 \<Rightarrow> 'p \<Rightarrow> arnm_result \<times> element_list \<times> 'p" where
  "read_elements A R array upper_bound p =
     (case array of None \<Rightarrow> (ARNM_SUCCESS, init_elements, p)
      | Some v \<Rightarrow>
          (case jr_read_array R v ELEMENTS_INLINE of
             Inr vs \<Rightarrow> (ARNM_SUCCESS, init_elements\<lparr>el_values := vs\<rparr>, p)
           | Inl r \<Rightarrow>
               if ARNM_ERROR_INVALID_ENUM_TYPE = r then (ARNM_SUCCESS, init_elements, p)
               else if ARNM_ERROR_DESTINATION_BUFFER_TO_SMALL \<noteq> r then (r, init_elements, p)
               else if max_alloc_size A div SIZEOF_json_value_pointer < unat upper_bound
                 then (ARNM_ERROR_RESOURCE_SIZE_EXCEED, init_elements, p)
               else (let buffer = upper_bound * word_of_nat SIZEOF_json_value_pointer in
                 case mem_block_alloc A buffer p of (r, p) \<Rightarrow>
                   if r \<noteq> ARNM_SUCCESS then (r, init_elements, p)
                   else (case jr_read_array R v (unat upper_bound) of
                       Inr vs \<Rightarrow> (ARNM_SUCCESS, \<lparr>el_values = vs, el_widened = buffer\<rparr>, p)
                     | Inl r \<Rightarrow> (r, \<lparr>el_values = [], el_widened = buffer\<rparr>, p)))))"

definition release_elements :: "'p arnm_memory \<Rightarrow> element_list \<Rightarrow> 'p \<Rightarrow> 'p" where
  "release_elements A list p = (if el_widened list = 0 then p else mem_block_free A (el_widened list) p)"

text \<open>Elements read one after the other, up to the first that is refused.\<close>

primrec read_each :: "('a \<Rightarrow> arnm_result + 'b) \<Rightarrow> 'a list \<Rightarrow> arnm_result + 'b list" where
  "read_each f [] = Inr []"
| "read_each f (v # vs) = fbind (f v) (\<lambda>b. fbind (read_each f vs) (\<lambda>bs. Inr (b # bs)))"

text \<open>A memo is its key and its base64 text, until its bytes have a place in the arena.\<close>

definition read_encrypted_memo :: "'p arnm_json_reader \<Rightarrow> json \<Rightarrow> arnm_result + grdt_memo_key \<times> string" where
  "read_encrypted_memo R v =
     fbind (walk_all R (Some v) [(GRDM_JSON_KEY_TYPE, FieldString), (GRDM_JSON_KEY_MEMO, FieldString)]) (\<lambda>xs.
       let type_name = found_string [] (xs ! 0); type' = grdt_memo_key_from_string type_name (length type_name)
       in if GRDT_MEMO_KEY_NONE = type' then Inl ARNM_ERROR_ENUM_UNKNOWN else Inr (type', found_string [] (xs ! 1)))"

definition read_encrypted_memos :: "'p arnm_json_reader \<Rightarrow> json list \<Rightarrow> arnm_result + (grdt_memo_key \<times> string) list" where
  "read_encrypted_memos R vs = read_each (read_encrypted_memo R) vs"

section \<open>The size of the arena\<close>

primrec memo_bytes :: "'p arnm_memory \<Rightarrow> 'p arnm_json_reader \<Rightarrow> (grdt_memo_key \<times> string) list \<Rightarrow> arnm_result + nat" where
  "memo_bytes A R [] = Inr 0"
| "memo_bytes A R (m # ms) =
     (case base64_binary_size R (snd m) of (r, n) \<Rightarrow>
        if r \<noteq> ARNM_SUCCESS then Inl r
        else fbind (memo_bytes A R ms) (\<lambda>k. Inr (mem_align8 A (unat n) + k)))"

definition has_pairing_anchor :: "'p arnm_json_reader \<Rightarrow> root_view \<Rightarrow> bool" where
  "has_pairing_anchor R view = (case rv_pairing_ledger_anchor view of None \<Rightarrow> False | Some v \<Rightarrow> \<not> jr_is_null R v)"

definition calculate_json_memory_size ::
  "'p arnm_memory \<Rightarrow> 'p arnm_json_reader \<Rightarrow> root_view \<Rightarrow> element_list \<Rightarrow> element_list \<Rightarrow> element_list
    \<Rightarrow> arnm_result + nat \<times> (grdt_memo_key \<times> string) list" where
  "calculate_json_memory_size A R view balances memos signatures =
     fbind (read_encrypted_memos R (el_values memos)) (\<lambda>staged.
     fbind (memo_bytes A R staged) (\<lambda>memo_total.
       case base64_binary_size R (rv_body_bytes view) of (sized, body_size) \<Rightarrow>
         if sized \<noteq> ARNM_SUCCESS then Inl sized
         else (let total =
             mem_align8 A (length (el_values balances) * SIZEOF_grdw_account_balance)
             + mem_align8 A (length (el_values memos) * SIZEOF_grdw_encrypted_memo A) + memo_total
             + mem_align8 A (length (el_values signatures) * SIZEOF_grdw_signature_pair)
             + (if rv_tx_pairing_community_uuid view = None then 0 else mem_align8 A ARNM_UUID_BINARY_SIZE)
             + (if has_pairing_anchor R view then mem_align8 A SIZEOF_grdw_ledger_anchor else 0)
             + mem_align8 A (unat body_size)
           in if max_alloc_size A < total then Inl ARNM_ERROR_RESOURCE_SIZE_EXCEED else Inr (total, staged))))"

section \<open>The arrays and the blocks, once the arena is open\<close>

definition read_base64_block :: "'p arnm_memory \<Rightarrow> 'p arnm_json_reader \<Rightarrow> string \<Rightarrow> 'p tx_step" where
  "read_base64_block A R text' s =
     (case binary_from_base64_insitu R text' of (r, bs) \<Rightarrow>
        if r \<noteq> ARNM_SUCCESS then (ARNM_ERROR_DECODE_FAILED, s)
        else if bs = [] then (ARNM_SUCCESS, s)
        else taken (mem_block_alloc A (word_of_nat (length bs)) (snd s)) (fst s) ((fst s)\<lparr>body_bytes := bs\<rparr>))"

text \<open>The elements of an array that has been taken from the arena.\<close>

definition filled :: "arnm_result + 'b \<Rightarrow> ('b \<Rightarrow> grdr_complete_transaction) \<Rightarrow> 'p tx_step" where
  "filled x f s = (case x of Inl r \<Rightarrow> (r, s) | Inr b \<Rightarrow> (ARNM_SUCCESS, f b, snd s))"

definition read_account_balance :: "'p arnm_json_reader \<Rightarrow> json \<Rightarrow> arnm_result + grdw_account_balance" where
  "read_account_balance R v =
     fbind (walk_all R (Some v) [(GRDM_JSON_KEY_PUBKEY, FieldHexFixed SIGN_PUBLIC_KEY_SIZE), (GRDM_JSON_KEY_BALANCE, FieldInt64),
         (GRDM_JSON_KEY_COMMUNITY_UUID, FieldUuid)]) (\<lambda>xs.
       Inr \<lparr>ab_pubkey = found_bytes [] (xs ! 0), ab_balance = found_word64 0 (xs ! 1), ab_community_uuid = found_bytes [] (xs ! 2)\<rparr>)"

definition read_account_balances :: "'p arnm_memory \<Rightarrow> 'p arnm_json_reader \<Rightarrow> element_list \<Rightarrow> 'p tx_step" where
  "read_account_balances A R list s =
     (if el_values list = [] then (ARNM_SUCCESS, s)
      else bind_ok (taken (mem_alloc A (length (el_values list) * SIZEOF_grdw_account_balance) (snd s)) (fst s) (fst s)) (\<lambda>s.
        filled (read_each (read_account_balance R) (el_values list)) (\<lambda>bs. (fst s)\<lparr>account_balances := bs\<rparr>) s))"

text \<open>The decoder writes as many bytes as the block was sized for.\<close>

fun deserialize_memos :: "'p arnm_memory \<Rightarrow> 'p arnm_json_reader \<Rightarrow> (grdt_memo_key \<times> string) list
    \<Rightarrow> grdw_encrypted_memo list \<times> 'p \<Rightarrow> arnm_result \<times> grdw_encrypted_memo list \<times> 'p" where
  "deserialize_memos A R [] s = (ARNM_SUCCESS, s)"
| "deserialize_memos A R ((type', text') # ms) (out, p) =
     (case base64_binary_size R text' of (r, n) \<Rightarrow>
        if r \<noteq> ARNM_SUCCESS then (r, out, p)
        else (case mem_block_alloc A n p of (r, p) \<Rightarrow>
          if r \<noteq> ARNM_SUCCESS then (r, out, p)
          else (case binary_from_base64 R text' of (r, bs) \<Rightarrow>
            if r \<noteq> ARNM_SUCCESS then (r, out, p)
            else deserialize_memos A R ms (out @ [\<lparr>em_type = type', em_memo = bs\<rparr>], p))))"

definition deserialize_encrypted_memos ::
  "'p arnm_memory \<Rightarrow> 'p arnm_json_reader \<Rightarrow> (grdt_memo_key \<times> string) list \<Rightarrow> 'p tx_step" where
  "deserialize_encrypted_memos A R memos s =
     (if memos = [] then (ARNM_SUCCESS, s)
      else bind_ok (taken (mem_alloc A (SIZEOF_grdw_encrypted_memo A * length memos) (snd s)) (fst s) (fst s)) (\<lambda>s.
        case deserialize_memos A R memos ([], snd s) of (r, out, p) \<Rightarrow> (r, (fst s)\<lparr>encrypted_memos := out\<rparr>, p)))"

definition read_signature_pair :: "'p arnm_json_reader \<Rightarrow> json \<Rightarrow> arnm_result + grdw_signature_pair" where
  "read_signature_pair R v =
     fbind (walk_all R (Some v) [(GRDM_JSON_KEY_PUBLIC_KEY, FieldHexFixed SIGN_PUBLIC_KEY_SIZE),
         (GRDM_JSON_KEY_SIGNATURE, FieldHexFixed SIGN_SIGNATURE_SIZE)]) (\<lambda>xs.
       Inr \<lparr>sp_public_key = found_bytes [] (xs ! 0), sp_signature = found_bytes [] (xs ! 1)\<rparr>)"

definition read_signature_pairs :: "'p arnm_memory \<Rightarrow> 'p arnm_json_reader \<Rightarrow> element_list \<Rightarrow> 'p tx_step" where
  "read_signature_pairs A R list s =
     (if el_values list = [] then (ARNM_SUCCESS, s)
      else bind_ok (taken (mem_alloc A (length (el_values list) * SIZEOF_grdw_signature_pair) (snd s)) (fst s) (fst s)) (\<lambda>s.
        filled (read_each (read_signature_pair R) (el_values list)) (\<lambda>ps. (fst s)\<lparr>signature_pairs := ps\<rparr>) s))"

definition read_pairing_uuid :: "'p arnm_memory \<Rightarrow> root_view \<Rightarrow> 'p tx_step" where
  "read_pairing_uuid A view s =
     (case rv_tx_pairing_community_uuid view of None \<Rightarrow> (ARNM_SUCCESS, s)
      | Some u \<Rightarrow> taken (mem_alloc A ARNM_UUID_BINARY_SIZE (snd s)) (fst s) ((fst s)\<lparr>tx_pairing_community_uuid := Some u\<rparr>))"

definition read_pairing_anchor :: "'p arnm_memory \<Rightarrow> 'p arnm_json_reader \<Rightarrow> root_view \<Rightarrow> 'p tx_step" where
  "read_pairing_anchor A R view s =
     (if \<not> has_pairing_anchor R view then (ARNM_SUCCESS, s)
      else bind_ok (taken (mem_alloc A SIZEOF_grdw_ledger_anchor (snd s)) (fst s) (fst s)) (\<lambda>s.
        filled (read_ledger_anchor R (rv_pairing_ledger_anchor view)) (\<lambda>a. (fst s)\<lparr>pairing_ledger_anchor := Some a\<rparr>) s))"

section \<open>The whole transaction\<close>

text \<open>What is read before the arrays; \<open>host\<close> is the zeroed allocator of a record whose arena was not opened.\<close>

definition read_fixed :: "'p arnm_json_reader \<Rightarrow> grdr_complete_transaction \<Rightarrow> root_view \<Rightarrow> arnm_result + grdr_complete_transaction" where
  "read_fixed R tx view =
     fbind (read_timestamp R (confirmed_at tx) (rv_confirmed_at view)) (\<lambda>c.
     fbind (read_timestamp R (created_at tx) (rv_created_at view)) (\<lambda>d.
     fbind (read_ledger_anchor R (rv_ledger_anchor view)) (\<lambda>a.
       read_transaction_detail R (tx\<lparr>confirmed_at := c, created_at := d, ledger_anchor := a\<rparr>) view)))"

definition read_pointers ::
  "'p arnm_memory \<Rightarrow> 'p arnm_json_reader \<Rightarrow> root_view \<Rightarrow> (grdt_memo_key \<times> string) list \<Rightarrow> element_list \<Rightarrow> element_list
    \<Rightarrow> 'p tx_step" where
  "read_pointers A R view staged balances signatures s =
     bind_ok (read_account_balances A R balances s) (\<lambda>s.
     bind_ok (deserialize_encrypted_memos A R staged s) (\<lambda>s.
     bind_ok (read_signature_pairs A R signatures s) (\<lambda>s.
     bind_ok (read_pairing_uuid A view s) (\<lambda>s.
     bind_ok (read_pairing_anchor A R view s) (read_base64_block A R (rv_body_bytes view))))))"

definition read_complete_transaction ::
  "'p arnm_memory \<Rightarrow> 'p arnm_json_reader \<Rightarrow> 'p \<Rightarrow> grdr_complete_transaction \<Rightarrow> root_view
    \<Rightarrow> element_list \<Rightarrow> element_list \<Rightarrow> element_list \<Rightarrow> arnm_result \<times> grdr_complete_transaction \<times> 'p" where
  "read_complete_transaction A R host tx view balances memos signatures =
     (case calculate_json_memory_size A R view balances memos signatures of
        Inl r \<Rightarrow> (r, tx, host)
      | Inr (memory_size, staged) \<Rightarrow>
          (case (if memory_size = 0 then (ARNM_SUCCESS, host) else mem_init_arena A (word_of_nat memory_size)) of (r, area) \<Rightarrow>
            if r \<noteq> ARNM_SUCCESS then (r, tx, area)
            else (case read_fixed R tx view of
                Inl r \<Rightarrow> (r, tx, area)
              | Inr tx \<Rightarrow> read_pointers A R view staged balances signatures (tx, area))))"

text \<open>The buffer of the memos is given back by their number, also when it was refused.\<close>

definition read_arrays ::
  "'p arnm_memory \<Rightarrow> 'p arnm_json_reader \<Rightarrow> root_view \<Rightarrow> u32 \<Rightarrow> 'p
    \<Rightarrow> arnm_result \<times> element_list \<times> element_list \<times> element_list \<times> 'p" where
  "read_arrays A R view node_count p =
     (case read_elements A R (rv_account_balances view) node_count p of (result, balances, p) \<Rightarrow>
      (case (if result \<noteq> ARNM_SUCCESS then (result, init_elements, p)
             else (case read_elements A R (rv_encrypted_memos view) node_count p of (result, memos, p) \<Rightarrow>
               if DEFAULT_MAX_MEMOS_COUNT < length (el_values memos)
               then (case mem_alloc A (unat (word_of_nat (SIZEOF_grdw_encrypted_memo A * length (el_values memos)) :: u32)) p of (r, p) \<Rightarrow>
                 (r, memos, p))
               else (result, memos, p))) of (result, memos, p) \<Rightarrow>
       (case (if result \<noteq> ARNM_SUCCESS then (result, init_elements, p)
              else read_elements A R (rv_signature_pairs view) node_count p) of (result, signatures, p) \<Rightarrow>
         (result, balances, memos, signatures, p))))"

definition release_arrays :: "'p arnm_memory \<Rightarrow> element_list \<Rightarrow> element_list \<Rightarrow> element_list \<Rightarrow> 'p \<Rightarrow> 'p" where
  "release_arrays A balances memos signatures p =
     (let p = release_elements A signatures p;
          p = (if DEFAULT_MAX_MEMOS_COUNT < length (el_values memos)
               then mem_free A (unat (word_of_nat (SIZEOF_grdw_encrypted_memo A * length (el_values memos)) :: u32)) p else p);
          p = release_elements A memos p
      in release_elements A balances p)"

text \<open>The answer is the result, the record with its arena, and the allocator of the caller.\<close>

definition read_document ::
  "'p arnm_memory \<Rightarrow> 'p arnm_json_reader \<Rightarrow> 'p \<Rightarrow> grdr_complete_transaction \<Rightarrow> json \<Rightarrow> u32 \<Rightarrow> 'p
    \<Rightarrow> arnm_result \<times> (grdr_complete_transaction \<times> 'p) \<times> 'p" where
  "read_document A R host tx root node_count p =
     (case jr_read_object R root [(GRDM_JSON_KEY_TRANSACTION_TYPE, FieldString)] of
        Inl r \<Rightarrow> (r, (tx, host), p)
      | Inr xs \<Rightarrow>
          let type_name = found_string [] (xs ! 0) in
          if type_name = [] then (ARNM_ERROR_DECODE_FAILED, (tx, host), p)
          else (let tx = tx\<lparr>transaction_type := grdt_transaction_from_string type_name (length type_name)\<rparr> in
            if GRDT_TRANSACTION_NONE = transaction_type tx then (ARNM_ERROR_ENUM_UNKNOWN, (tx, host), p)
            else (case read_root R tx root (transaction_type tx) of
                Inl r \<Rightarrow> (r, (tx, host), p)
              | Inr (view, tx) \<Rightarrow>
                  let tx = tx\<lparr>cross_group_type := grdt_cross_group_from_string (rv_cross_group_type view) (length (rv_cross_group_type view))\<rparr> in
                  if GRDT_CROSS_GROUP_NONE = cross_group_type tx then (ARNM_ERROR_ENUM_UNKNOWN, (tx, host), p)
                  else (case read_arrays A R view node_count p of (result, balances, memos, signatures, p) \<Rightarrow>
                    (case (if result \<noteq> ARNM_SUCCESS then (result, tx, host)
                           else read_complete_transaction A R host tx view balances memos signatures) of (result, s) \<Rightarrow>
                      (result, s, release_arrays A balances memos signatures p))))))"

text \<open>A NULL pointer is \<open>None\<close>. Nothing happens to the record before the document has been parsed.\<close>

definition grdm_complete_transaction_from_json ::
  "'p arnm_memory \<Rightarrow> 'p arnm_json_reader \<Rightarrow> 'p \<Rightarrow> 'p owned_tx option \<Rightarrow> bytes option \<Rightarrow> 'p \<Rightarrow> arnm_result \<times> 'p owned_tx option \<times> 'p" where
  "grdm_complete_transaction_from_json A R host tx json' p =
     (case (tx, json') of
        (Some _, Some text') \<Rightarrow>
          if text' = [] then (ARNM_ERROR_INVALID_PARAM, tx, p)
          else (case jr_init R p of (r, p) \<Rightarrow>
            if r \<noteq> ARNM_SUCCESS then (r, tx, p)
            else (case jr_parse R text' p of (r, root, node_count, p) \<Rightarrow>
              (case (if r \<noteq> ARNM_SUCCESS then (r, tx, p)
                     else (case read_document A R host grdr_complete_transaction_init root node_count p of (r, (tx', area), p) \<Rightarrow>
                       if r \<noteq> ARNM_SUCCESS then (r, grdr_complete_transaction_release (Some (tx', Some area)), p)
                       else (r, Some (tx', Some area), p))) of (r, tx, p) \<Rightarrow>
                (r, tx, snd (jr_release R p)))))
      | _ \<Rightarrow> (ARNM_ERROR_NULL_POINTER, tx, p))"

section \<open>A refusal\<close>


text \<open>A reader that cannot make anything of a document, and one that parses and finds a number at its root.\<close>

definition refusing_reader :: "arnm_result \<Rightarrow> 'p arnm_json_reader" where
  "refusing_reader r =
     \<lparr>jr_init = (\<lambda>p. (ARNM_SUCCESS, p)), jr_parse = (\<lambda>text p. (r, JInt 7, 1, p)), jr_release = (\<lambda>p. (ARNM_SUCCESS, p)),
      jr_read_object = (\<lambda>v table. Inl ARNM_ERROR_INVALID_ENUM_TYPE), jr_read_array = (\<lambda>v n. Inl ARNM_ERROR_INVALID_ENUM_TYPE),
      jr_is_null = (\<lambda>v. False), base64_binary_size = (\<lambda>s. (ARNM_ERROR_DECODE_FAILED, 0)),
      binary_from_base64 = (\<lambda>s. (ARNM_ERROR_DECODE_FAILED, [])), binary_from_base64_insitu = (\<lambda>s. (ARNM_ERROR_DECODE_FAILED, []))\<rparr>"

lemma refusing_result:
  "fst (grdm_complete_transaction_from_json A (refusing_reader r) host (Some old) (Some [55]) p) =
    (if r = ARNM_SUCCESS then ARNM_ERROR_INVALID_ENUM_TYPE else r)"
  by (simp add: grdm_complete_transaction_from_json_def refusing_reader_def read_document_def)


end
