(* ===== verification/GRD_Json_Round.thy ===== *)
theory GRD_Json_Round
  imports GRD_Json_Write GRD_Json_Read
begin

text \<open>
  There and back: what \<open>json_from_runtime.c\<close> writes, \<open>runtime_from_json.c\<close> reads into the same record. \<open>documented\<close>
  is what the documentation of arnm's reader promises of the walks, the arrays and the two alphabets, about the values
  \<open>value_of\<close> the writer's calls stand for. A record comes back without the members its type does not own, which
  are not written: \<open>stored\<close>.
\<close>

section \<open>What reader and writer promise of each other\<close>

text \<open>The two alphabets and the canonical form of a uuid.\<close>

record json_codec =
  to_hex :: "bytes \<Rightarrow> string"
  to_base64 :: "bytes \<Rightarrow> string"
  uuid_text :: "bytes \<Rightarrow> string"

primrec value_of :: "json_codec \<Rightarrow> written \<Rightarrow> json" where
  "value_of C WNull = JNull"
| "value_of C (WInt64 i) = JInt (sint i)"
| "value_of C (WUint64 n) = JInt (uint n)"
| "value_of C (WString s) = JString s"
| "value_of C (WHex b) = JString (to_hex C b)"
| "value_of C (WBase64 b) = JString (to_base64 C b)"
| "value_of C (WUuid u) = (case u of None \<Rightarrow> JNull | Some b \<Rightarrow> JString (uuid_text C b))"
| "value_of C (WArray vs) = JArray (map (value_of C) vs)"
| "value_of C (WObject ms) = JObject (map (map_prod id (value_of C)) ms)"

text \<open>What an entry of a table finds in a member: a typed entry passes a \<open>null\<close> over as if it were not there.\<close>

fun field_reads :: "json_codec \<Rightarrow> json_field \<Rightarrow> json option \<Rightarrow> json_found option \<Rightarrow> bool" where
  "field_reads C f None x \<longleftrightarrow> x = None"
| "field_reads C FieldValue (Some v) x \<longleftrightarrow> x = Some (FoundValue v)"
| "field_reads C f (Some JNull) x \<longleftrightarrow> x = None"
| "field_reads C FieldUint64 (Some (JInt i)) x \<longleftrightarrow> 0 \<le> i \<and> i < 2 ^ 64 \<and> x = Some (FoundWord64 (word_of_int i))"
| "field_reads C FieldInt64 (Some (JInt i)) x \<longleftrightarrow> - (2 ^ 63) \<le> i \<and> i < 2 ^ 63 \<and> x = Some (FoundWord64 (word_of_int i))"
| "field_reads C FieldUint32 (Some (JInt i)) x \<longleftrightarrow> 0 \<le> i \<and> i < 2 ^ 32 \<and> x = Some (FoundWord32 (word_of_int i))"
| "field_reads C FieldInt32 (Some (JInt i)) x \<longleftrightarrow> - (2 ^ 31) \<le> i \<and> i < 2 ^ 31 \<and> x = Some (FoundWord32 (word_of_int i))"
| "field_reads C FieldString (Some (JString s)) x \<longleftrightarrow> x = Some (FoundString s)"
| "field_reads C (FieldHexFixed n) (Some (JString s)) x \<longleftrightarrow> (\<exists>b. length b = n \<and> s = to_hex C b \<and> x = Some (FoundBytes b))"
| "field_reads C FieldUuid (Some (JString s)) x \<longleftrightarrow> (\<exists>b. length b = ARNM_UUID_BINARY_SIZE \<and> s = uuid_text C b \<and> x = Some (FoundBytes b))"
| "field_reads C _ _ _ \<longleftrightarrow> False"

definition walk_finds :: "json_codec \<Rightarrow> (string \<times> json) list \<Rightarrow> (string \<times> json_field) list \<Rightarrow> json_found option list \<Rightarrow> bool" where
  "walk_finds C ms table xs \<longleftrightarrow> distinct (map fst ms) \<and> distinct (map fst table)
     \<and> list_all2 (\<lambda>(k, f) x. field_reads C f (map_of ms k) x) table xs"

definition documented :: "'p arnm_json_reader \<Rightarrow> json_codec \<Rightarrow> bool" where
  "documented R C \<longleftrightarrow>
     (\<forall>ms table xs. walk_finds C ms table xs \<longrightarrow> jr_read_object R (JObject ms) table = Inr xs)
   \<and> (\<forall>vs n. jr_read_array R (JArray vs) n = (if length vs \<le> n then Inr vs else Inl ARNM_ERROR_DESTINATION_BUFFER_TO_SMALL))
   \<and> (\<forall>v. jr_is_null R v \<longleftrightarrow> v = JNull)
   \<and> (\<forall>b. length b < 1073741824 \<longrightarrow>
        base64_binary_size R (to_base64 C b) = (ARNM_SUCCESS, word_of_nat (length b))
        \<and> binary_from_base64 R (to_base64 C b) = (ARNM_SUCCESS, b)
        \<and> binary_from_base64_insitu R (to_base64 C b) = (ARNM_SUCCESS, b))"

lemma documentedD:
  assumes "documented R C"
  shows "walk_finds C ms table xs \<Longrightarrow> jr_read_object R (JObject ms) table = Inr xs"
    "jr_read_array R (JArray vs) n = (if length vs \<le> n then Inr vs else Inl ARNM_ERROR_DESTINATION_BUFFER_TO_SMALL)"
    "jr_is_null R v \<longleftrightarrow> v = JNull"
    "length b < 1073741824 \<Longrightarrow> base64_binary_size R (to_base64 C b) = (ARNM_SUCCESS, word_of_nat (length b))"
    "length b < 1073741824 \<Longrightarrow> binary_from_base64 R (to_base64 C b) = (ARNM_SUCCESS, b)"
    "length b < 1073741824 \<Longrightarrow> binary_from_base64_insitu R (to_base64 C b) = (ARNM_SUCCESS, b)"
  using assms unfolding documented_def by blast+

section \<open>Numbers\<close>

lemma nanos_range: "- (2 ^ 31) \<le> sint (n :: i32)" "sint (n :: i32) < 2 ^ 31"
  using sint_greater_eq [of n] sint_less [of n] by simp_all

lemma nanos_back: "sint (scast (n :: i32) :: i64) = sint n"
proof -
  have "sint (scast n :: i64) = signed_take_bit 63 (sint n)" by (simp add: signed_scast_eq)
  also have "\<dots> = sint n" by (rule signed_take_bit_int_eq_self) (use nanos_range [of n] in simp_all)
  finally show ?thesis .
qed

lemma index_range: "uint (n :: u32) < 2 ^ 32"
  using uint_bounded [of n] by simp

lemma index_back: "uint (ucast (n :: u32) :: u64) = uint n"
proof -
  have "uint (ucast n :: u64) = take_bit 64 (uint n)" by (simp add: unsigned_ucast_eq)
  also have "\<dots> = uint n" by (rule take_bit_int_eq_self) (use index_range [of n] in simp_all)
  finally show ?thesis .
qed

lemma numbers_read:
  "field_reads C FieldUint64 (Some (JInt (uint (w :: u64)))) x \<longleftrightarrow> x = Some (FoundWord64 w)"
  "field_reads C FieldInt64 (Some (JInt (sint (i :: i64)))) x \<longleftrightarrow> x = Some (FoundWord64 i)"
  "field_reads C FieldInt32 (Some (JInt (sint (scast (n :: i32) :: i64)))) x \<longleftrightarrow> x = Some (FoundWord32 n)"
  "field_reads C FieldUint32 (Some (JInt (uint (ucast (d :: u32) :: u64)))) x \<longleftrightarrow> x = Some (FoundWord32 d)"
  using uint_lt_64 [of w] sint_64_range [of i] nanos_range [of n] index_range [of d]
  unfolding nanos_back index_back by auto

lemma texts_read:
  "length b = n \<Longrightarrow> field_reads C (FieldHexFixed n) (Some (JString (to_hex C b))) (Some (FoundBytes b))"
  "length b = 16 \<Longrightarrow> field_reads C FieldUuid (Some (JString (uuid_text C b))) (Some (FoundBytes b))"
  "field_reads C FieldUuid (Some JNull) x \<longleftrightarrow> x = None"
  "field_reads C FieldString (Some (JString s)) x \<longleftrightarrow> x = Some (FoundString s)"
  "field_reads C FieldValue (Some v) x \<longleftrightarrow> x = Some (FoundValue v)"
  "field_reads C f None x \<longleftrightarrow> x = None"
  by auto

declare field_reads.simps [simp del]
declare numbers_read [simp] texts_read [simp]

section \<open>The shapes below the root\<close>

lemma object_back:
  assumes "documented R C" "walk_finds C (map (map_prod id (value_of C)) ms) table xs"
  shows "jr_read_object R (value_of C (WObject ms)) table = Inr xs"
    "list_all (\<lambda>x. x \<noteq> None) xs \<Longrightarrow> walk_all R (Some (value_of C (WObject ms))) table = Inr xs"
  using documentedD(1) [OF assms] by (simp_all add: walk_all_def all_seen_def)

lemmas found_defs = found_word64_def found_word32_def found_string_def found_bytes_def found_value_def

lemma json_timestamp_back:
  assumes R: "documented R C"
  shows "read_timestamp R out (Some (value_of C (written_timestamp t))) = Inr t"
proof -
  have "walk_all R (Some (value_of C (written_timestamp t))) [(GRDM_JSON_KEY_SECONDS, FieldInt64), (GRDM_JSON_KEY_NANOS, FieldInt32)]
      = Inr [Some (FoundWord64 (seconds t)), Some (FoundWord32 (nanos t))]"
    unfolding written_timestamp_def by (rule object_back(2) [OF R]) (simp_all add: walk_finds_def)
  then show ?thesis by (simp add: read_timestamp_def found_defs)
qed

lemma account_id_back:
  assumes R: "documented R C"
  shows "read_account_id R out (Some (value_of C (written_account_id a))) = Inr a"
proof -
  have "walk_all R (Some (value_of C (written_account_id a)))
      [(GRDM_JSON_KEY_SHARD_NUM, FieldInt64), (GRDM_JSON_KEY_REALM_NUM, FieldInt64), (GRDM_JSON_KEY_ACCOUNT_NUM, FieldInt64)]
      = Inr [Some (FoundWord64 (shardNum a)), Some (FoundWord64 (realmNum a)), Some (FoundWord64 (accountNum a))]"
    unfolding written_account_id_def by (rule object_back(2) [OF R]) (simp_all add: walk_finds_def)
  then show ?thesis by (simp add: read_account_id_def found_defs)
qed

lemma json_hiero_back:
  assumes R: "documented R C"
  shows "read_hiero_transaction_id R out (Some (value_of C (written_hiero h))) = Inr h"
proof -
  have "walk_all R (Some (value_of C (written_hiero h)))
      [(GRDM_JSON_KEY_TRANSACTION_VALID_START, FieldValue), (GRDM_JSON_KEY_ACCOUNT_ID, FieldValue)]
      = Inr [Some (FoundValue (value_of C (written_timestamp (transactionValidStart h)))),
          Some (FoundValue (value_of C (written_account_id (accountID h))))]"
    unfolding written_hiero_def by (rule object_back(2) [OF R]) (simp_all add: walk_finds_def)
  then show ?thesis
    by (simp add: read_hiero_transaction_id_def found_value_def json_timestamp_back [OF R] account_id_back [OF R])
qed

text \<open>An anchor has one branch of its union; the enumerator 1 has no name.\<close>

definition anchor_named :: "grdw_ledger_anchor \<Rightarrow> bool" where
  "anchor_named a \<longleftrightarrow> la_type a \<le> 8 \<and> la_type a \<noteq> 1"

definition stored_anchor :: "grdw_ledger_anchor \<Rightarrow> grdw_ledger_anchor" where
  "stored_anchor a =
     (if la_type a = GRDT_LEDGER_ANCHOR_UNSPECIFIED then zero_anchor
      else if la_type a = GRDT_LEDGER_ANCHOR_HIERO_TRANSACTION_ID
      then zero_anchor\<lparr>la_type := la_type a, hiero_transaction_id := hiero_transaction_id a\<rparr>
      else zero_anchor\<lparr>la_type := la_type a, la_id := la_id a\<rparr>)"

lemma json_anchor_back:
  assumes R: "documented R C" and a: "anchor_named a"
  shows "read_ledger_anchor R (Some (value_of C (written_anchor a))) = Inr (stored_anchor a)"
proof -
  let ?name = "grdt_ledger_anchor_to_string (la_type a)" and ?t = "la_type a"
  let ?hiero = "if ?t = GRDT_LEDGER_ANCHOR_HIERO_TRANSACTION_ID then Some (FoundValue (value_of C (written_hiero (hiero_transaction_id a)))) else None"
  let ?id = "if ?t = GRDT_LEDGER_ANCHOR_UNSPECIFIED \<or> ?t = GRDT_LEDGER_ANCHOR_HIERO_TRANSACTION_ID then None else Some (FoundWord64 (la_id a))"
  have "jr_read_object R (value_of C (written_anchor a)) [(GRDM_JSON_KEY_TYPE, FieldString),
      (GRDM_JSON_KEY_HIERO_TRANSACTION_ID, FieldValue), (GRDM_JSON_KEY_ID, FieldUint64)] = Inr [Some (FoundString ?name), ?hiero, ?id]"
    unfolding written_anchor_def by (rule object_back(1) [OF R]) (simp add: walk_finds_def)
  moreover have "grdt_ledger_anchor_from_string ?name (length ?name) = ?t"
    using ledger_anchor_back [of ?t "[]"] a by (simp add: anchor_named_def)
  ultimately show ?thesis
    by (simp add: read_ledger_anchor_def found_string_def found_word64_def stored_anchor_def found_value_def json_hiero_back [OF R])
      (simp add: zero_anchor_def)
qed

lemma json_transfer_back:
  assumes R: "documented R C" and tx: "record_ok tx"
  shows "read_transfer R tx0 (Some (value_of C (written_transfer (transfer tx)))) = Inr (tx0\<lparr>transfer := transfer tx\<rparr>)"
proof -
  let ?t = "transfer tx"
  have "walk_all R (Some (value_of C (written_transfer ?t))) [(GRDM_JSON_KEY_SENDER_PUBKEY, FieldHexFixed SIGN_PUBLIC_KEY_SIZE),
        (GRDM_JSON_KEY_RECIPIENT_PUBKEY, FieldHexFixed SIGN_PUBLIC_KEY_SIZE), (GRDM_JSON_KEY_AMOUNT, FieldInt64),
        (GRDM_JSON_KEY_COIN_COMMUNITY_UUID, FieldUuid)]
      = Inr [Some (FoundBytes (sender_pubkey ?t)), Some (FoundBytes (recipient_pubkey ?t)), Some (FoundWord64 (amount ?t)),
          Some (FoundBytes (coin_community_uuid ?t))]"
    unfolding written_transfer_def using record_okD [OF tx] by (intro object_back(2) [OF R]) (simp_all add: walk_finds_def)
  then show ?thesis by (simp add: read_transfer_def found_defs)
qed

lemma register_address_back:
  assumes R: "documented R C" and tx: "record_ok tx"
  shows "read_register_address R tx0 (Some (value_of C (written_register (register_address tx))))
    = Inr (tx0\<lparr>register_address := register_address tx\<rparr>)"
proof -
  let ?t = "register_address tx"
  have "walk_all R (Some (value_of C (written_register ?t))) [(GRDM_JSON_KEY_USER_PUBLIC_KEY, FieldHexFixed SIGN_PUBLIC_KEY_SIZE),
         (GRDM_JSON_KEY_NAME_HASH, FieldHexFixed GENERIC_HASH_SIZE),
         (GRDM_JSON_KEY_ACCOUNT_PUBLIC_KEY, FieldHexFixed SIGN_PUBLIC_KEY_SIZE)]
      = Inr [Some (FoundBytes (user_public_key ?t)), Some (FoundBytes (name_hash ?t)), Some (FoundBytes (account_public_key ?t))]"
    unfolding written_register_def using record_okD [OF tx] by (intro object_back(2) [OF R]) (simp_all add: walk_finds_def)
  then show ?thesis by (simp add: read_register_address_def found_defs)
qed

lemma community_root_back:
  assumes R: "documented R C" and tx: "record_ok tx"
  shows "read_community_root R tx0 (Some (value_of C (written_root (community_root tx))))
    = Inr (tx0\<lparr>community_root := community_root tx\<rparr>)"
proof -
  let ?t = "community_root tx"
  have "walk_all R (Some (value_of C (written_root ?t))) [(GRDM_JSON_KEY_PUBLIC_KEY, FieldHexFixed SIGN_PUBLIC_KEY_SIZE),
         (GRDM_JSON_KEY_GMW_PUBLIC_KEY, FieldHexFixed SIGN_PUBLIC_KEY_SIZE),
         (GRDM_JSON_KEY_AUF_PUBLIC_KEY, FieldHexFixed SIGN_PUBLIC_KEY_SIZE)]
      = Inr [Some (FoundBytes (public_key ?t)), Some (FoundBytes (gmw_public_key ?t)), Some (FoundBytes (auf_public_key ?t))]"
    unfolding written_root_def using record_okD [OF tx] by (intro object_back(2) [OF R]) (simp_all add: walk_finds_def)
  then show ?thesis by (simp add: read_community_root_def found_defs)
qed

section \<open>The elements of the arrays\<close>

lemma read_each_map: "list_all (\<lambda>x. f (g x) = Inr (h x)) xs \<Longrightarrow> read_each f (map g xs) = Inr (map h xs)"
  by (induction xs) simp_all

lemma json_balance_back:
  assumes R: "documented R C" and b: "balance_ok b"
  shows "read_account_balance R (value_of C (written_balance b)) = Inr b"
proof -
  have "walk_all R (Some (value_of C (written_balance b))) [(GRDM_JSON_KEY_PUBKEY, FieldHexFixed SIGN_PUBLIC_KEY_SIZE),
        (GRDM_JSON_KEY_BALANCE, FieldInt64), (GRDM_JSON_KEY_COMMUNITY_UUID, FieldUuid)]
      = Inr [Some (FoundBytes (ab_pubkey b)), Some (FoundWord64 (ab_balance b)), Some (FoundBytes (ab_community_uuid b))]"
    unfolding written_balance_def using b by (intro object_back(2) [OF R]) (simp_all add: walk_finds_def balance_ok_def)
  then show ?thesis by (simp add: read_account_balance_def found_defs)
qed

lemma json_signature_back:
  assumes R: "documented R C" and p: "signature_ok p"
  shows "read_signature_pair R (value_of C (written_signature p)) = Inr p"
proof -
  have "walk_all R (Some (value_of C (written_signature p))) [(GRDM_JSON_KEY_PUBLIC_KEY, FieldHexFixed SIGN_PUBLIC_KEY_SIZE),
        (GRDM_JSON_KEY_SIGNATURE, FieldHexFixed SIGN_SIGNATURE_SIZE)]
      = Inr [Some (FoundBytes (sp_public_key p)), Some (FoundBytes (sp_signature p))]"
    unfolding written_signature_def using p by (intro object_back(2) [OF R]) (simp_all add: walk_finds_def signature_ok_def)
  then show ?thesis by (simp add: read_signature_pair_def found_defs)
qed

definition memo_named :: "grdw_encrypted_memo \<Rightarrow> bool" where
  "memo_named m \<longleftrightarrow> em_type m \<le> 2 \<and> em_memo m \<noteq> [] \<and> length (em_memo m) < 1073741824"

lemma json_memo_back:
  assumes R: "documented R C" and m: "memo_named m"
  shows "read_encrypted_memo R (value_of C (written_memo m)) = Inr (em_type m, to_base64 C (em_memo m))"
proof -
  let ?name = "grdt_memo_key_to_string (em_type m)"
  have "walk_all R (Some (value_of C (written_memo m))) [(GRDM_JSON_KEY_TYPE, FieldString), (GRDM_JSON_KEY_MEMO, FieldString)]
      = Inr [Some (FoundString ?name), Some (FoundString (to_base64 C (em_memo m)))]"
    unfolding written_memo_def by (rule object_back(2) [OF R]) (simp_all add: walk_finds_def)
  moreover have "em_type m \<le> 3" using m by (simp add: memo_named_def word_le_nat_alt)
  then have "grdt_memo_key_from_string ?name (length ?name) = em_type m" using memo_key_back [of "em_type m" "[]"] by simp
  moreover have "em_type m \<noteq> 3" using m by (auto simp: memo_named_def)
  ultimately show ?thesis by (simp add: read_encrypted_memo_def found_string_def)
qed

section \<open>The root\<close>

lemma walk_aligned:
  assumes "distinct (map fst table)" "map fst ms = map fst table"
    and "list_all2 (\<lambda>(v, f) x. field_reads C f (Some v) x) (zip (map snd ms) (map snd table)) xs"
  shows "walk_finds C ms table xs"
proof -
  have len: "length ms = length table" using assms(2) by (metis length_map)
  have "map_of ms (fst (table ! i)) = Some (snd (ms ! i))" if "i < length table" for i
  proof -
    have "fst (table ! i) = fst (ms ! i)" using assms(2) that len by (metis nth_map)
    moreover have "(fst (ms ! i), snd (ms ! i)) \<in> set ms" using that len by simp
    ultimately show ?thesis using assms(1,2) by simp
  qed
  then have "\<forall>i < length table. field_reads C (snd (table ! i)) (map_of ms (fst (table ! i))) (xs ! i)" "length table = length xs"
    using assms(3) len by (simp_all add: list_all2_conv_all_nth split_def del: map_of_eq_Some_iff)
  then show ?thesis using assms(1,2) by (simp add: walk_finds_def list_all2_conv_all_nth split_def)
qed

definition uses_transfer :: "grdt_transaction \<Rightarrow> bool" where
  "uses_transfer t \<longleftrightarrow> t = GRDT_TRANSACTION_TRANSFER \<or> t = GRDT_TRANSACTION_CREATION \<or> t = GRDT_TRANSACTION_DEFERRED_TRANSFER
     \<or> t = GRDT_TRANSACTION_REDEEM_DEFERRED_TRANSFER"

definition detail_found :: "json_codec \<Rightarrow> grdr_complete_transaction \<Rightarrow> json_found option list" where
  "detail_found C tx =
     (let t = transaction_type tx; transfer_found = Some (FoundValue (value_of C (written_transfer (transfer tx)))) in
      if t = GRDT_TRANSACTION_TRANSFER then [transfer_found]
      else if t = GRDT_TRANSACTION_CREATION then [transfer_found, Some (FoundWord64 (target_date tx))]
      else if t = GRDT_TRANSACTION_REGISTER_ADDRESS then
        [Some (FoundValue (value_of C (written_register (register_address tx)))),
         Some (FoundString (grdt_address_to_string (address_type tx))), Some (FoundWord32 (derivation_index tx))]
      else if t = GRDT_TRANSACTION_DEFERRED_TRANSFER then [transfer_found, Some (FoundWord64 (timeout_duration tx))]
      else if t = GRDT_TRANSACTION_REDEEM_DEFERRED_TRANSFER then [transfer_found, Some (FoundWord64 (previous_tx tx))]
      else if t = GRDT_TRANSACTION_TIMEOUT_DEFERRED_TRANSFER then [Some (FoundWord64 (previous_tx tx))]
      else if t = GRDT_TRANSACTION_COMMUNITY_ROOT then [Some (FoundValue (value_of C (written_root (community_root tx))))]
      else [])"

definition root_found :: "json_codec \<Rightarrow> grdr_complete_transaction \<Rightarrow> json_found option list" where
  "root_found C tx =
     [Some (FoundString (grdt_transaction_to_string (transaction_type tx))), Some (FoundWord64 (tx_nr tx)),
      Some (FoundValue (value_of C (written_timestamp (confirmed_at tx)))), Some (FoundValue (value_of C (written_timestamp (created_at tx)))),
      Some (FoundBytes (tx_community_uuid tx)), Some (FoundValue (value_of C (written_anchor (ledger_anchor tx))))]
     @ detail_found C tx
     @ [Some (FoundBytes (tx_running_hash tx)),
        Some (FoundValue (JArray (map (\<lambda>b. value_of C (written_balance b)) (account_balances tx)))),
        Some (FoundValue (JArray (map (\<lambda>m. value_of C (written_memo m)) (encrypted_memos tx)))),
        Some (FoundValue (JArray (map (\<lambda>p. value_of C (written_signature p)) (signature_pairs tx)))),
        Some (FoundString (grdt_cross_group_to_string (cross_group_type tx))),
        map_option FoundBytes (tx_pairing_community_uuid tx),
        Some (FoundValue (value_of C (written_maybe written_anchor (pairing_ledger_anchor tx)))),
        Some (FoundString (to_base64 C (body_bytes tx)))]"

lemma layout_cases:
  assumes "json_layout t"
  obtains "t = GRDT_TRANSACTION_TRANSFER" | "t = GRDT_TRANSACTION_CREATION" | "t = GRDT_TRANSACTION_REGISTER_ADDRESS"
    | "t = GRDT_TRANSACTION_DEFERRED_TRANSFER" | "t = GRDT_TRANSACTION_REDEEM_DEFERRED_TRANSFER"
    | "t = GRDT_TRANSACTION_TIMEOUT_DEFERRED_TRANSFER" | "t = GRDT_TRANSACTION_COMMUNITY_ROOT"
  using assms unfolding json_layout_def by blast

text \<open>The members of a document stand in the order of the table.\<close>

lemma members_aligned:
  "json_layout (transaction_type tx) \<Longrightarrow>
    map fst (head_members tx @ detail_members tx @ tail_members tx) = map fst (root_fields (transaction_type tx))"
  by (erule layout_cases) (simp_all add: head_members_def detail_members_def tail_members_def root_fields_def)

lemma table_distinct: "json_layout t \<Longrightarrow> distinct (map fst (root_fields t))"
  by (erule layout_cases) (simp_all add: root_fields_def)

lemma found_cases:
  "json_layout (transaction_type tx) \<Longrightarrow> record_ok tx \<Longrightarrow>
    list_all2 (\<lambda>(v, f) x. field_reads C f (Some v) x)
      (zip (map (\<lambda>(k, v). value_of C v) (head_members tx @ detail_members tx @ tail_members tx))
        (map (\<lambda>(k, f, r). f) (root_fields (transaction_type tx)))) (root_found C tx)"
  by (frule record_okD(1), frule record_okD(11), erule layout_cases)
    (auto simp: head_members_def detail_members_def tail_members_def root_fields_def root_found_def detail_found_def
      record_ok_def split: option.split)

lemma root_walked:
  assumes R: "documented R C" and tx: "json_layout (transaction_type tx)" "record_ok tx"
  shows "jr_read_object R (value_of C (document tx)) (map (\<lambda>(k, f, _). (k, f)) (root_fields (transaction_type tx))) = Inr (root_found C tx)"
proof -
  let ?table = "map (\<lambda>(k, f, _). (k, f)) (root_fields (transaction_type tx))"
  let ?ms = "head_members tx @ detail_members tx @ tail_members tx" and ?v = "map_prod id (value_of C)"
  have t: "map fst ?table = map fst (root_fields (transaction_type tx))" "map snd ?table = map (\<lambda>(k, f, r). f) (root_fields (transaction_type tx))"
    by (simp_all add: comp_def split_def)
  have m: "map fst (map ?v ?ms) = map fst ?ms" "map snd (map ?v ?ms) = map (\<lambda>(k, v). value_of C v) ?ms"
    by (simp_all add: comp_def split_def)
  have "walk_finds C (map ?v ?ms) ?table (root_found C tx)"
    by (rule walk_aligned) (unfold t m, rule table_distinct [OF tx(1)], rule members_aligned [OF tx(1)], rule found_cases [OF tx])
  then show ?thesis unfolding document_def by (rule object_back(1) [OF R])
qed

definition view_of :: "json_codec \<Rightarrow> grdr_complete_transaction \<Rightarrow> root_view" where
  "view_of C tx =
     (let t = transaction_type tx in
     \<lparr>rv_confirmed_at = Some (value_of C (written_timestamp (confirmed_at tx))),
      rv_created_at = Some (value_of C (written_timestamp (created_at tx))),
      rv_ledger_anchor = Some (value_of C (written_anchor (ledger_anchor tx))),
      rv_transfer = (if uses_transfer t then Some (value_of C (written_transfer (transfer tx))) else None),
      rv_register_address = (if t = GRDT_TRANSACTION_REGISTER_ADDRESS then Some (value_of C (written_register (register_address tx))) else None),
      rv_community_root = (if t = GRDT_TRANSACTION_COMMUNITY_ROOT then Some (value_of C (written_root (community_root tx))) else None),
      rv_account_balances = Some (JArray (map (\<lambda>b. value_of C (written_balance b)) (account_balances tx))),
      rv_encrypted_memos = Some (JArray (map (\<lambda>m. value_of C (written_memo m)) (encrypted_memos tx))),
      rv_signature_pairs = Some (JArray (map (\<lambda>p. value_of C (written_signature p)) (signature_pairs tx))),
      rv_tx_pairing_community_uuid = tx_pairing_community_uuid tx,
      rv_pairing_ledger_anchor = Some (value_of C (written_maybe written_anchor (pairing_ledger_anchor tx))),
      rv_cross_group_type = grdt_cross_group_to_string (cross_group_type tx),
      rv_body_bytes = to_base64 C (body_bytes tx)\<rparr>)"

definition root_of :: "grdr_complete_transaction \<Rightarrow> grdr_complete_transaction \<Rightarrow> grdr_complete_transaction" where
  "root_of tx tx0 =
     (let t = transaction_type tx in tx0
     \<lparr>tx_nr := tx_nr tx, tx_community_uuid := tx_community_uuid tx, tx_running_hash := tx_running_hash tx,
      target_date := (if t = GRDT_TRANSACTION_CREATION then target_date tx else target_date tx0),
      timeout_duration := (if t = GRDT_TRANSACTION_DEFERRED_TRANSFER then timeout_duration tx else timeout_duration tx0),
      previous_tx := (if t = GRDT_TRANSACTION_REDEEM_DEFERRED_TRANSFER \<or> t = GRDT_TRANSACTION_TIMEOUT_DEFERRED_TRANSFER
        then previous_tx tx else previous_tx tx0),
      derivation_index := (if t = GRDT_TRANSACTION_REGISTER_ADDRESS then derivation_index tx else derivation_index tx0)\<rparr>)"

lemmas root_defs = root_found_def detail_found_def root_fields_def found_at_def

lemma root_found_into:
  "json_layout (transaction_type tx) \<Longrightarrow> root_into (found_at (root_fields (transaction_type tx)) (root_found C tx)) tx0 = root_of tx tx0"
  by (erule layout_cases) (simp_all add: root_into_def root_of_def root_defs found_defs)

lemma root_found_view:
  "json_layout (transaction_type tx) \<Longrightarrow> root_view_of (found_at (root_fields (transaction_type tx)) (root_found C tx)) = view_of C tx"
  by (erule layout_cases)
    (simp_all add: root_view_of_def view_of_def uses_transfer_def root_defs found_defs option.map_comp comp_def option.map_ident)

lemma root_found_required:
  "json_layout (transaction_type tx) \<Longrightarrow>
    list_all2 (\<lambda>(_, _, required) x. required \<longrightarrow> x \<noteq> None) (root_fields (transaction_type tx)) (root_found C tx)"
  by (erule layout_cases) (simp_all add: root_defs)

lemma root_found_address:
  "transaction_type tx = GRDT_TRANSACTION_REGISTER_ADDRESS \<Longrightarrow>
    found_at (root_fields GRDT_TRANSACTION_REGISTER_ADDRESS) (root_found C tx) GRDM_JSON_KEY_ADDRESS_TYPE
      = Some (FoundString (grdt_address_to_string (address_type tx)))"
  by (simp add: root_defs)

lemma json_root_back:
  assumes R: "documented R C" and tx: "json_layout (transaction_type tx)" "record_ok tx"
    and a: "transaction_type tx = GRDT_TRANSACTION_REGISTER_ADDRESS \<Longrightarrow> address_type tx \<noteq> GRDT_ADDRESS_NONE \<and> address_type tx \<le> 7"
  shows "read_root R tx0 (value_of C (document tx)) (transaction_type tx)
    = Inr (view_of C tx, if transaction_type tx = GRDT_TRANSACTION_REGISTER_ADDRESS
        then (root_of tx tx0)\<lparr>address_type := address_type tx\<rparr> else root_of tx tx0)"
proof -
  have "grdt_address_from_string (grdt_address_to_string k) (length (grdt_address_to_string k)) = k" if "k \<le> 7" for k
    using address_back [OF that, of "[]"] by simp
  then show ?thesis
    using a unfolding read_root_def Let_def root_walked [OF R tx] fbind_simps root_found_into [OF tx(1)] root_found_view [OF tx(1)]
      eqTrueI [OF root_found_required [OF tx(1)]] not_True_eq_False if_False
    by (auto simp: root_found_address found_string_def)
qed
section \<open>The arena\<close>

definition arena_holds :: "'p arnm_memory \<Rightarrow> ('p \<Rightarrow> nat) \<Rightarrow> bool" where
  "arena_holds A avail \<longleftrightarrow> clones A avail
   \<and> (\<forall>p n. 0 < n \<and> mem_align8 A (unat n) \<le> avail p \<longrightarrow>
        (\<exists>p'. mem_block_alloc A n p = (ARNM_SUCCESS, p') \<and> avail p \<le> avail p' + mem_align8 A (unat n)))
   \<and> (\<forall>n. n \<le> mem_align8 A n) \<and> max_alloc_size A < 4294967296"

lemma arena_block:
  assumes "arena_holds A avail" "bs \<noteq> []" "length bs < 1073741824" "mem_align8 A (length bs) \<le> avail p"
  shows "\<exists>p'. mem_block_alloc A (word_of_nat (length bs)) p = (ARNM_SUCCESS, p') \<and> avail p \<le> avail p' + mem_align8 A (length bs)"
proof -
  have "unat (word_of_nat (length bs) :: u32) = length bs" using assms(3) by (simp add: unsigned_of_nat take_bit_nat_eq_self)
  moreover from this have "0 < (word_of_nat (length bs) :: u32)" using assms(2) by (metis length_0_conv unat_0 word_gt_0)
  ultimately show ?thesis using assms(1,4) unfolding arena_holds_def by metis
qed

text \<open>What the arena of a record is opened with.\<close>

definition json_room :: "'p arnm_memory \<Rightarrow> grdr_complete_transaction \<Rightarrow> nat" where
  "json_room A tx =
     mem_align8 A (length (account_balances tx) * SIZEOF_grdw_account_balance)
     + mem_align8 A (length (encrypted_memos tx) * SIZEOF_grdw_encrypted_memo A)
     + sum_list (map (\<lambda>m. mem_align8 A (length (em_memo m))) (encrypted_memos tx))
     + mem_align8 A (length (signature_pairs tx) * SIZEOF_grdw_signature_pair)
     + (if tx_pairing_community_uuid tx = None then 0 else mem_align8 A ARNM_UUID_BINARY_SIZE)
     + (if pairing_ledger_anchor tx = None then 0 else mem_align8 A SIZEOF_grdw_ledger_anchor)
     + mem_align8 A (length (body_bytes tx))"

definition staged_memos :: "json_codec \<Rightarrow> grdw_encrypted_memo list \<Rightarrow> (grdt_memo_key \<times> string) list" where
  "staged_memos C ms = map (\<lambda>m. (em_type m, to_base64 C (em_memo m))) ms"

lemma memos_staged:
  assumes "documented R C" "list_all memo_named ms"
  shows "read_encrypted_memos R (map (\<lambda>m. value_of C (written_memo m)) ms) = Inr (staged_memos C ms)"
proof -
  have "list_all (\<lambda>m. read_encrypted_memo R (value_of C (written_memo m)) = Inr (em_type m, to_base64 C (em_memo m))) ms"
    using assms(2) json_memo_back [OF assms(1)] by (simp add: list_all_iff)
  then show ?thesis unfolding read_encrypted_memos_def staged_memos_def by (rule read_each_map)
qed

lemma memos_sized:
  assumes "documented R C" "list_all memo_named ms"
  shows "memo_bytes A R (staged_memos C ms) = Inr (sum_list (map (\<lambda>m. mem_align8 A (length (em_memo m))) ms))"
  using assms(2) by (induction ms)
    (simp_all add: staged_memos_def memo_named_def documentedD(4) [OF assms(1)] unsigned_of_nat take_bit_nat_eq_self)

lemma anchor_there:
  "documented R C \<Longrightarrow> has_pairing_anchor R (view_of C tx) \<longleftrightarrow> pairing_ledger_anchor tx \<noteq> None"
  by (cases "pairing_ledger_anchor tx") (simp_all add: has_pairing_anchor_def view_of_def Let_def documentedD(3) written_maybe_def written_anchor_def)

lemma size_read:
  assumes R: "documented R C" and tx: "list_all memo_named (encrypted_memos tx)" "length (body_bytes tx) < 1073741824"
    and e: "length (el_values b) = length (account_balances tx)" "length (el_values s) = length (signature_pairs tx)"
      "el_values m = map (\<lambda>m. value_of C (written_memo m)) (encrypted_memos tx)"
    and room: "json_room A tx \<le> max_alloc_size A"
  shows "calculate_json_memory_size A R (view_of C tx) b m s = Inr (json_room A tx, staged_memos C (encrypted_memos tx))"
proof -
  have "rv_body_bytes (view_of C tx) = to_base64 C (body_bytes tx)" "rv_tx_pairing_community_uuid (view_of C tx) = tx_pairing_community_uuid tx"
    by (simp_all add: view_of_def Let_def)
  then show ?thesis
    using room tx(2) unfolding calculate_json_memory_size_def e(3) memos_staged [OF R tx(1)] memos_sized [OF R tx(1)] fbind_simps
    by (cases "pairing_ledger_anchor tx"; cases "tx_pairing_community_uuid tx")
      (simp_all add: documentedD(4) [OF R] anchor_there [OF R] e(1,2) json_room_def unsigned_of_nat take_bit_nat_eq_self Let_def)
qed

section \<open>What the record points to\<close>

lemma steps_filled:
  assumes A: "clones A avail" and n: "0 < n" and f: "\<And>p. f (tx, p) = bind_ok (taken (mem_alloc A n p) tx tx) (\<lambda>s. filled (Inr b) (g s) s)"
    and g: "\<And>p. g (tx, p) b = tx'"
  shows "steps avail f tx tx' (mem_align8 A n)"
  unfolding steps_def f
proof (intro allI impI)
  fix p assume "mem_align8 A n \<le> avail p"
  from clones_memory(2) [OF A n this] show "\<exists>p'. bind_ok (taken (mem_alloc A n p) tx tx) (\<lambda>s. filled (Inr b) (g s) s) = (ARNM_SUCCESS, tx', p')
      \<and> avail p \<le> avail p' + mem_align8 A n"
    by (auto simp: taken_def bind_ok_def filled_def g)
qed

lemma balances_stepped:
  assumes A: "clones A avail" and R: "documented R C" and bs: "list_all balance_ok bs" "account_balances tx0 = []"
    and e: "el_values l = map (\<lambda>b. value_of C (written_balance b)) bs"
  shows "steps avail (read_account_balances A R l) tx0 (tx0\<lparr>account_balances := bs\<rparr>) (mem_align8 A (length bs * SIZEOF_grdw_account_balance))"
proof (cases "bs = []")
  case True
  then show ?thesis using e bs(2) by (intro steps_nothing) (simp add: read_account_balances_def)
next
  case False
  have "list_all (\<lambda>b. read_account_balance R (value_of C (written_balance b)) = Inr b) bs"
    using bs(1) json_balance_back [OF R] by (simp add: list_all_iff)
  then have "read_each (read_account_balance R) (el_values l) = Inr (map (\<lambda>b. b) bs)" unfolding e by (rule read_each_map)
  then show ?thesis
    using False e by (intro steps_filled [OF A, where b = bs and g = "\<lambda>s b. (fst s)\<lparr>account_balances := b\<rparr>"])
      (simp_all add: read_account_balances_def SIZEOF_grdw_account_balance_def)
qed

lemma signatures_stepped:
  assumes A: "clones A avail" and R: "documented R C" and ps: "list_all signature_ok ps" "signature_pairs tx0 = []"
    and e: "el_values l = map (\<lambda>p. value_of C (written_signature p)) ps"
  shows "steps avail (read_signature_pairs A R l) tx0 (tx0\<lparr>signature_pairs := ps\<rparr>) (mem_align8 A (length ps * SIZEOF_grdw_signature_pair))"
proof (cases "ps = []")
  case True
  then show ?thesis using e ps(2) by (intro steps_nothing) (simp add: read_signature_pairs_def)
next
  case False
  have "list_all (\<lambda>p. read_signature_pair R (value_of C (written_signature p)) = Inr p) ps"
    using ps(1) json_signature_back [OF R] by (simp add: list_all_iff)
  then have "read_each (read_signature_pair R) (el_values l) = Inr (map (\<lambda>p. p) ps)" unfolding e by (rule read_each_map)
  then show ?thesis
    using False e by (intro steps_filled [OF A, where b = ps and g = "\<lambda>s b. (fst s)\<lparr>signature_pairs := b\<rparr>"])
      (simp_all add: read_signature_pairs_def SIZEOF_grdw_signature_pair_def)
qed

lemma memo_split: "\<lparr>em_type = em_type m, em_memo = em_memo m\<rparr> = m"
  by (cases m) simp

lemma memos_decoded:
  assumes A: "arena_holds A avail" and R: "documented R C" and ms: "list_all memo_named ms"
    and room: "sum_list (map (\<lambda>m. mem_align8 A (length (em_memo m))) ms) \<le> avail p"
  shows "\<exists>p'. deserialize_memos A R (staged_memos C ms) (out, p) = (ARNM_SUCCESS, out @ ms, p')
    \<and> avail p \<le> avail p' + sum_list (map (\<lambda>m. mem_align8 A (length (em_memo m))) ms)"
  using ms room
proof (induction ms arbitrary: out p)
  case (Cons m ms)
  then have m: "em_memo m \<noteq> []" "length (em_memo m) < 1073741824" "mem_align8 A (length (em_memo m)) \<le> avail p"
    by (simp_all add: memo_named_def)
  from arena_block [OF A this] obtain p1 where p1: "mem_block_alloc A (word_of_nat (length (em_memo m))) p = (ARNM_SUCCESS, p1)"
    "avail p \<le> avail p1 + mem_align8 A (length (em_memo m))" by blast
  then obtain p2 where "deserialize_memos A R (staged_memos C ms) (out @ [m], p1) = (ARNM_SUCCESS, (out @ [m]) @ ms, p2)"
    "avail p1 \<le> avail p2 + sum_list (map (\<lambda>m. mem_align8 A (length (em_memo m))) ms)"
    using Cons.IH [of p1 "out @ [m]"] Cons.prems by auto
  then show ?case
    using p1 by (intro exI [of _ p2]) (simp add: staged_memos_def documentedD(4,5) [OF R m(2)] memo_split)
qed (simp add: staged_memos_def)

lemma memos_stepped:
  assumes A: "arena_holds A avail" and R: "documented R C" and ms: "list_all memo_named ms" "encrypted_memos tx0 = []"
  shows "steps avail (deserialize_encrypted_memos A R (staged_memos C ms)) tx0 (tx0\<lparr>encrypted_memos := ms\<rparr>)
    (mem_align8 A (length ms * SIZEOF_grdw_encrypted_memo A) + sum_list (map (\<lambda>m. mem_align8 A (length (em_memo m))) ms))"
proof (cases "ms = []")
  case True
  then show ?thesis using ms(2) by (intro steps_nothing) (simp add: deserialize_encrypted_memos_def staged_memos_def)
next
  case False
  let ?n = "length ms * SIZEOF_grdw_encrypted_memo A" and ?k = "sum_list (map (\<lambda>m. mem_align8 A (length (em_memo m))) ms)"
  have n: "0 < ?n" using False by (simp add: SIZEOF_grdw_encrypted_memo_def)
  have c: "clones A avail" using A by (simp add: arena_holds_def)
  have staged: "staged_memos C ms \<noteq> []" "length (staged_memos C ms) = length ms" using False by (simp_all add: staged_memos_def)
  show ?thesis
    unfolding steps_def
  proof (intro allI impI)
    fix p assume k: "mem_align8 A ?n + ?k \<le> avail p"
    then have "mem_align8 A ?n \<le> avail p" by simp
    from clones_memory(2) [OF c n this] obtain p1 where p1: "mem_alloc A ?n p = (ARNM_SUCCESS, p1)" "avail p \<le> avail p1 + mem_align8 A ?n"
      by (elim exE conjE)
    then have "?k \<le> avail p1" using k by simp
    from memos_decoded [OF A R ms(1) this, of "[]", unfolded append_Nil] obtain p2 where
      p2: "deserialize_memos A R (staged_memos C ms) ([], p1) = (ARNM_SUCCESS, ms, p2)" "avail p1 \<le> avail p2 + ?k" by (elim exE conjE)
    have "avail p \<le> avail p2 + (mem_align8 A ?n + ?k)" using p1(2) p2(2) by linarith
    moreover have "deserialize_encrypted_memos A R (staged_memos C ms) (tx0, p) = (ARNM_SUCCESS, tx0\<lparr>encrypted_memos := ms\<rparr>, p2)"
      using p1(1) p2(1) staged(1)
      unfolding deserialize_encrypted_memos_def staged(2) mult.commute [of "SIZEOF_grdw_encrypted_memo A" "length ms"]
      by (simp add: taken_def bind_ok_def)
    ultimately show "\<exists>p'. deserialize_encrypted_memos A R (staged_memos C ms) (tx0, p) = (ARNM_SUCCESS, tx0\<lparr>encrypted_memos := ms\<rparr>, p')
        \<and> avail p \<le> avail p' + (mem_align8 A ?n + ?k)"
      by blast
  qed
qed
lemma pairing_uuid_stepped:
  assumes A: "clones A avail" and tx0: "tx_pairing_community_uuid tx0 = None"
  shows "steps avail (read_pairing_uuid A (view_of C tx)) tx0 (tx0\<lparr>tx_pairing_community_uuid := tx_pairing_community_uuid tx\<rparr>)
    (if tx_pairing_community_uuid tx = None then 0 else mem_align8 A ARNM_UUID_BINARY_SIZE)"
proof (cases "tx_pairing_community_uuid tx")
  case None
  then show ?thesis using tx0 by (intro steps_nothing) (simp add: read_pairing_uuid_def view_of_def Let_def)
next
  case (Some u)
  then show ?thesis
    by (simp, intro steps_taken [where g = "mem_alloc A ARNM_UUID_BINARY_SIZE"] clones_memory(2) [OF A])
      (simp_all add: read_pairing_uuid_def view_of_def Let_def)
qed

lemma pairing_anchor_stepped:
  assumes A: "clones A avail" and R: "documented R C" and tx0: "pairing_ledger_anchor tx0 = None"
    and a: "pred_option anchor_named (pairing_ledger_anchor tx)"
  shows "steps avail (read_pairing_anchor A R (view_of C tx)) tx0 (tx0\<lparr>pairing_ledger_anchor := map_option stored_anchor (pairing_ledger_anchor tx)\<rparr>)
    (if pairing_ledger_anchor tx = None then 0 else mem_align8 A SIZEOF_grdw_ledger_anchor)"
proof (cases "pairing_ledger_anchor tx")
  case None
  then show ?thesis using tx0 by (intro steps_nothing) (simp add: read_pairing_anchor_def anchor_there [OF R])
next
  case (Some a)
  then have "rv_pairing_ledger_anchor (view_of C tx) = Some (value_of C (written_anchor a))"
    by (simp add: view_of_def Let_def written_maybe_def)
  moreover have "anchor_named a" using assms(4) Some by simp
  ultimately have "read_ledger_anchor R (rv_pairing_ledger_anchor (view_of C tx)) = Inr (stored_anchor a)"
    by (simp add: json_anchor_back [OF R])
  then have "steps avail (read_pairing_anchor A R (view_of C tx)) tx0 (tx0\<lparr>pairing_ledger_anchor := Some (stored_anchor a)\<rparr>)
      (mem_align8 A SIZEOF_grdw_ledger_anchor)"
    using Some by (intro steps_filled [OF A, where b = "stored_anchor a" and g = "\<lambda>s b. (fst s)\<lparr>pairing_ledger_anchor := Some b\<rparr>"])
      (simp_all add: read_pairing_anchor_def anchor_there [OF R] SIZEOF_grdw_ledger_anchor_def)
  then show ?thesis using Some by simp
qed

lemma body_stepped:
  assumes A: "arena_holds A avail" and R: "documented R C" and bs: "length bs < 1073741824" "body_bytes tx0 = []"
  shows "steps avail (read_base64_block A R (to_base64 C bs)) tx0 (tx0\<lparr>body_bytes := bs\<rparr>) (mem_align8 A (length bs))"
proof (cases "bs = []")
  case True
  then show ?thesis using bs by (intro steps_nothing) (simp add: read_base64_block_def documentedD(6) [OF R])
next
  case False
  then show ?thesis
    by (intro steps_taken [where g = "mem_block_alloc A (word_of_nat (length bs))"] arena_block [OF A False bs(1)])
      (simp_all add: read_base64_block_def documentedD(6) [OF R bs(1)])
qed

text \<open>A record can be written and read back when its names are, its memos and its body are not too long.\<close>

definition json_ok :: "grdr_complete_transaction \<Rightarrow> bool" where
  "json_ok tx \<longleftrightarrow> record_ok tx \<and> json_layout (transaction_type tx) \<and> cross_group_type tx \<le> 3
     \<and> (transaction_type tx = GRDT_TRANSACTION_REGISTER_ADDRESS \<longrightarrow> address_type tx \<noteq> GRDT_ADDRESS_NONE \<and> address_type tx \<le> 7)
     \<and> anchor_named (ledger_anchor tx) \<and> pred_option anchor_named (pairing_ledger_anchor tx)
     \<and> list_all memo_named (encrypted_memos tx) \<and> length (body_bytes tx) < 1073741824"

definition json_pointers :: "grdr_complete_transaction \<Rightarrow> grdr_complete_transaction \<Rightarrow> grdr_complete_transaction" where
  "json_pointers tx tx0 = tx0
     \<lparr>account_balances := account_balances tx, encrypted_memos := encrypted_memos tx, signature_pairs := signature_pairs tx,
      tx_pairing_community_uuid := tx_pairing_community_uuid tx,
      pairing_ledger_anchor := map_option stored_anchor (pairing_ledger_anchor tx), body_bytes := body_bytes tx\<rparr>"

lemma pointers_stepped:
  assumes A: "arena_holds A avail" and R: "documented R C" and tx: "json_ok tx" and tx0: "no_pointers tx0" "body_bytes tx0 = []"
    and b: "el_values b = map (\<lambda>b. value_of C (written_balance b)) (account_balances tx)"
    and s: "el_values s = map (\<lambda>p. value_of C (written_signature p)) (signature_pairs tx)"
  shows "steps avail (read_pointers A R (view_of C tx) (staged_memos C (encrypted_memos tx)) b s) tx0 (json_pointers tx tx0) (json_room A tx)"
proof -
  let ?b = "account_balances tx" and ?m = "encrypted_memos tx" and ?s = "signature_pairs tx"
  let ?tx1 = "tx0\<lparr>account_balances := ?b\<rparr>"
  let ?tx2 = "?tx1\<lparr>encrypted_memos := ?m\<rparr>"
  let ?tx3 = "?tx2\<lparr>signature_pairs := ?s\<rparr>"
  let ?tx4 = "?tx3\<lparr>tx_pairing_community_uuid := tx_pairing_community_uuid tx\<rparr>"
  let ?tx5 = "?tx4\<lparr>pairing_ledger_anchor := map_option stored_anchor (pairing_ledger_anchor tx)\<rparr>"
  have c: "clones A avail" using A by (simp add: arena_holds_def)
  have ok: "list_all balance_ok ?b" "list_all signature_ok ?s" "list_all memo_named ?m" "pred_option anchor_named (pairing_ledger_anchor tx)"
    "length (body_bytes tx) < 1073741824"
    using tx by (simp_all add: json_ok_def record_ok_def)
  have n: "account_balances tx0 = []" "encrypted_memos tx0 = []" "signature_pairs tx0 = []" "tx_pairing_community_uuid tx0 = None"
    "pairing_ledger_anchor tx0 = None"
    using tx0(1) by (simp_all add: no_pointers_def)
  note b1 = balances_stepped [OF c R ok(1) n(1) b]
  note b2 = memos_stepped [OF A R ok(3), of ?tx1]
  note b3 = signatures_stepped [OF c R ok(2) _ s, of ?tx2]
  note b4 = pairing_uuid_stepped [OF c, of ?tx3 C tx]
  note b5 = pairing_anchor_stepped [OF c R _ ok(4), of ?tx4]
  note b6 = body_stepped [OF A R ok(5), of ?tx5]
  have body: "rv_body_bytes (view_of C tx) = to_base64 C (body_bytes tx)" by (simp add: view_of_def Let_def)
  note all = steps_bind [OF b1 steps_bind [OF b2 steps_bind [OF b3 steps_bind [OF b4 steps_bind [OF b5 b6]]]]]
  show ?thesis
    using all n tx0(2) unfolding read_pointers_def body json_pointers_def json_room_def by (simp add: add.assoc)
qed
section \<open>The whole record\<close>

text \<open>What is read of a record: the members its type owns, the others as \<open>init\<close> leaves them.\<close>

definition stored :: "grdr_complete_transaction \<Rightarrow> grdr_complete_transaction" where
  "stored tx =
     (let t = transaction_type tx; z = grdr_complete_transaction_init in tx
     \<lparr>ledger_anchor := stored_anchor (ledger_anchor tx),
      transfer := (if uses_transfer t then transfer tx else transfer z),
      register_address := (if t = GRDT_TRANSACTION_REGISTER_ADDRESS then register_address tx else register_address z),
      community_root := (if t = GRDT_TRANSACTION_COMMUNITY_ROOT then community_root tx else community_root z),
      target_date := (if t = GRDT_TRANSACTION_CREATION then target_date tx else 0),
      timeout_duration := (if t = GRDT_TRANSACTION_DEFERRED_TRANSFER then timeout_duration tx else 0),
      previous_tx := (if t = GRDT_TRANSACTION_REDEEM_DEFERRED_TRANSFER \<or> t = GRDT_TRANSACTION_TIMEOUT_DEFERRED_TRANSFER
        then previous_tx tx else 0),
      address_type := (if t = GRDT_TRANSACTION_REGISTER_ADDRESS then address_type tx else 0),
      derivation_index := (if t = GRDT_TRANSACTION_REGISTER_ADDRESS then derivation_index tx else 0),
      pairing_ledger_anchor := map_option stored_anchor (pairing_ledger_anchor tx)\<rparr>)"

definition detail_of :: "grdr_complete_transaction \<Rightarrow> grdr_complete_transaction \<Rightarrow> grdr_complete_transaction" where
  "detail_of tx tx0 =
     (let t = transaction_type tx in tx0
     \<lparr>confirmed_at := confirmed_at tx, created_at := created_at tx, ledger_anchor := stored_anchor (ledger_anchor tx),
      transfer := (if uses_transfer t then transfer tx else transfer tx0),
      register_address := (if t = GRDT_TRANSACTION_REGISTER_ADDRESS then register_address tx else register_address tx0),
      community_root := (if t = GRDT_TRANSACTION_COMMUNITY_ROOT then community_root tx else community_root tx0)\<rparr>)"

lemma fixed_back:
  assumes R: "documented R C" and tx: "json_ok tx" and tx0: "transaction_type tx0 = transaction_type tx"
  shows "read_fixed R tx0 (view_of C tx) = Inr (detail_of tx tx0)"
proof -
  have ok: "record_ok tx" "anchor_named (ledger_anchor tx)" "json_layout (transaction_type tx)" using tx by (simp_all add: json_ok_def)
  have v: "rv_confirmed_at (view_of C tx) = Some (value_of C (written_timestamp (confirmed_at tx)))"
    "rv_created_at (view_of C tx) = Some (value_of C (written_timestamp (created_at tx)))"
    "rv_ledger_anchor (view_of C tx) = Some (value_of C (written_anchor (ledger_anchor tx)))"
    by (simp_all add: view_of_def Let_def)
  have d: "read_transaction_detail R tx1 (view_of C tx) = Inr (tx1
     \<lparr>transfer := (if uses_transfer (transaction_type tx) then transfer tx else transfer tx1),
      register_address := (if transaction_type tx = GRDT_TRANSACTION_REGISTER_ADDRESS then register_address tx else register_address tx1),
      community_root := (if transaction_type tx = GRDT_TRANSACTION_COMMUNITY_ROOT then community_root tx else community_root tx1)\<rparr>)"
    if "transaction_type tx1 = transaction_type tx" for tx1
    using ok(3) that
    by (elim layout_cases) (simp_all add: read_transaction_detail_def view_of_def uses_transfer_def
        json_transfer_back [OF R ok(1)] register_address_back [OF R ok(1)] community_root_back [OF R ok(1)])
  show ?thesis
    unfolding read_fixed_def v json_timestamp_back [OF R] json_anchor_back [OF R ok(2)] fbind_simps
    by (subst d) (simp_all add: tx0 detail_of_def Let_def)
qed

lemma stored_whole:
  assumes "json_layout (transaction_type tx)"
  shows "json_pointers tx (detail_of tx ((if transaction_type tx = GRDT_TRANSACTION_REGISTER_ADDRESS
        then (root_of tx (grdr_complete_transaction_init\<lparr>transaction_type := transaction_type tx\<rparr>))\<lparr>address_type := address_type tx\<rparr>
        else root_of tx (grdr_complete_transaction_init\<lparr>transaction_type := transaction_type tx\<rparr>))
      \<lparr>cross_group_type := cross_group_type tx\<rparr>)) = stored tx"
  by (simp add: json_pointers_def detail_of_def root_of_def stored_def Let_def grdr_complete_transaction_init_def)

lemma complete_transaction_back:
  assumes A: "arena_holds A avail" and R: "documented R C" and tx: "json_ok tx"
    and tx0: "transaction_type tx0 = transaction_type tx" "no_pointers tx0" "body_bytes tx0 = []"
    and b: "el_values b = map (\<lambda>b. value_of C (written_balance b)) (account_balances tx)"
    and m: "el_values m = map (\<lambda>m. value_of C (written_memo m)) (encrypted_memos tx)"
    and s: "el_values s = map (\<lambda>p. value_of C (written_signature p)) (signature_pairs tx)"
    and room: "json_room A tx \<le> max_alloc_size A" "json_room A tx \<le> avail q"
      "(if json_room A tx = 0 then (ARNM_SUCCESS, host) else mem_init_arena A (word_of_nat (json_room A tx))) = (ARNM_SUCCESS, q)"
  shows "\<exists>q'. read_complete_transaction A R host tx0 (view_of C tx) b m s = (ARNM_SUCCESS, json_pointers tx (detail_of tx tx0), q')"
proof -
  have "list_all memo_named (encrypted_memos tx)" "length (body_bytes tx) < 1073741824" using tx by (simp_all add: json_ok_def)
  then have z: "calculate_json_memory_size A R (view_of C tx) b m s = Inr (json_room A tx, staged_memos C (encrypted_memos tx))"
    using size_read [OF R] b m s room(1) by simp
  have "no_pointers (detail_of tx tx0)" "body_bytes (detail_of tx tx0) = []"
    using tx0 by (simp_all add: detail_of_def no_pointers_def Let_def)
  from pointers_stepped [OF A R tx this b s] room(2) obtain q' where
    "read_pointers A R (view_of C tx) (staged_memos C (encrypted_memos tx)) b s (detail_of tx tx0, q)
      = (ARNM_SUCCESS, json_pointers tx (detail_of tx tx0), q')" unfolding steps_def by blast
  then show ?thesis
    unfolding read_complete_transaction_def z sum.case prod.case room(3) fixed_back [OF R tx tx0(1)] by simp
qed

section \<open>The handles of the elements\<close>

lemma elements_read:
  assumes A: "arena_holds A avail" and R: "documented R C"
    and n: "length vs \<le> unat n" "unat n * 8 \<le> max_alloc_size A" "mem_align8 A (unat n * 8) \<le> avail p"
  shows "\<exists>l p'. read_elements A R (Some (JArray vs)) n p = (ARNM_SUCCESS, l, p') \<and> el_values l = vs
    \<and> avail p \<le> avail p' + mem_align8 A (unat n * 8)"
proof (cases "length vs \<le> 5")
  case True
  then show ?thesis by (simp add: read_elements_def documentedD(2) [OF R] ELEMENTS_INLINE_def init_elements_def)
next
  case False
  have "unat n * 8 < 4294967296" using n(2) A by (simp add: arena_holds_def)
  then have u: "unat (n * 8) = unat n * 8" by (simp add: unat_word_ariths)
  moreover have "0 < n * 8" using u False n(1) by (simp add: word_less_nat_alt)
  ultimately obtain p' where "mem_block_alloc A (n * 8) p = (ARNM_SUCCESS, p')" "avail p \<le> avail p' + mem_align8 A (unat n * 8)"
    using A n(3) unfolding arena_holds_def by metis
  moreover have "\<not> max_alloc_size A div 8 < unat n" using n(2) by (simp add: not_less less_eq_div_iff_mult_less_eq)
  ultimately show ?thesis
    using False n(1) by (simp add: read_elements_def documentedD(2) [OF R] ELEMENTS_INLINE_def SIZEOF_json_value_pointer_def)
qed

text \<open>What the caller's allocator lends at most: three lists of handles and the memos in between.\<close>

definition lent :: "'p arnm_memory \<Rightarrow> u32 \<Rightarrow> grdr_complete_transaction \<Rightarrow> nat" where
  "lent A n tx = 3 * mem_align8 A (unat n * 8) + mem_align8 A (SIZEOF_grdw_encrypted_memo A * length (encrypted_memos tx))"

lemma unat_u32: "k < 4294967296 \<Longrightarrow> unat (word_of_nat k :: u32) = k"
  by (simp add: unsigned_of_nat take_bit_nat_eq_self)

lemma arrays_read:
  assumes A: "arena_holds A avail" and R: "documented R C"
    and n: "length (account_balances tx) \<le> unat n" "length (encrypted_memos tx) \<le> unat n" "length (signature_pairs tx) \<le> unat n"
      "unat n * 8 \<le> max_alloc_size A" "json_room A tx \<le> max_alloc_size A" "lent A n tx \<le> avail p"
  shows "\<exists>b m s p'. read_arrays A R (view_of C tx) n p = (ARNM_SUCCESS, b, m, s, p')
    \<and> el_values b = map (\<lambda>b. value_of C (written_balance b)) (account_balances tx)
    \<and> el_values m = map (\<lambda>m. value_of C (written_memo m)) (encrypted_memos tx)
    \<and> el_values s = map (\<lambda>p. value_of C (written_signature p)) (signature_pairs tx)"
proof -
  let ?k = "mem_align8 A (unat n * 8)" and ?j = "mem_align8 A (SIZEOF_grdw_encrypted_memo A * length (encrypted_memos tx))"
  let ?e = "\<lambda>f xs. map (\<lambda>x. value_of C (f x)) xs"
  have c: "clones A avail" using A by (simp add: arena_holds_def)
  have p: "3 * ?k + ?j \<le> avail p" using n(6) by (simp add: lent_def)
  obtain b p1 where b: "read_elements A R (Some (JArray (?e written_balance (account_balances tx)))) n p = (ARNM_SUCCESS, b, p1)"
    "el_values b = ?e written_balance (account_balances tx)" "avail p \<le> avail p1 + ?k"
    using elements_read [OF A R, of "?e written_balance (account_balances tx)" n p] n(1,4) p by auto
  obtain m p2 where m: "read_elements A R (Some (JArray (?e written_memo (encrypted_memos tx)))) n p1 = (ARNM_SUCCESS, m, p2)"
    "el_values m = ?e written_memo (encrypted_memos tx)" "avail p1 \<le> avail p2 + ?k"
    using elements_read [OF A R, of "?e written_memo (encrypted_memos tx)" n p1] n(2,4) p b(3) by auto
  have "length (encrypted_memos tx) * SIZEOF_grdw_encrypted_memo A \<le> json_room A tx"
  proof -
    have "length (encrypted_memos tx) * SIZEOF_grdw_encrypted_memo A \<le> mem_align8 A (length (encrypted_memos tx) * SIZEOF_grdw_encrypted_memo A)"
      using A by (simp add: arena_holds_def)
    then show ?thesis unfolding json_room_def by linarith
  qed
  then have u: "unat (word_of_nat (SIZEOF_grdw_encrypted_memo A * length (encrypted_memos tx)) :: u32)
      = SIZEOF_grdw_encrypted_memo A * length (encrypted_memos tx)"
    using n(5) A by (intro unat_u32) (simp add: arena_holds_def mult.commute)
  have "\<exists>p3. (if 4 < length (encrypted_memos tx) then mem_alloc A (SIZEOF_grdw_encrypted_memo A * length (encrypted_memos tx)) p2
      else (ARNM_SUCCESS, p2)) = (ARNM_SUCCESS, p3) \<and> avail p2 \<le> avail p3 + ?j"
  proof (cases "4 < length (encrypted_memos tx)")
    case True
    then have "0 < SIZEOF_grdw_encrypted_memo A * length (encrypted_memos tx)" by (auto simp: SIZEOF_grdw_encrypted_memo_def)
    moreover have "?j \<le> avail p2" using p b(3) m(3) by linarith
    ultimately show ?thesis using clones_memory(2) [OF c] True by simp
  qed simp
  then obtain p3 where p3: "(if 4 < length (encrypted_memos tx) then mem_alloc A (SIZEOF_grdw_encrypted_memo A * length (encrypted_memos tx)) p2
      else (ARNM_SUCCESS, p2)) = (ARNM_SUCCESS, p3)" "avail p2 \<le> avail p3 + ?j" by blast
  have "?k \<le> avail p3" using p b(3) m(3) p3(2) by linarith
  then obtain s p4 where s: "read_elements A R (Some (JArray (?e written_signature (signature_pairs tx)))) n p3 = (ARNM_SUCCESS, s, p4)"
    "el_values s = ?e written_signature (signature_pairs tx)"
    using elements_read [OF A R, of "?e written_signature (signature_pairs tx)" n p3] n(3,4) by auto
  have v: "rv_account_balances (view_of C tx) = Some (JArray (?e written_balance (account_balances tx)))"
    "rv_encrypted_memos (view_of C tx) = Some (JArray (?e written_memo (encrypted_memos tx)))"
    "rv_signature_pairs (view_of C tx) = Some (JArray (?e written_signature (signature_pairs tx)))"
    by (simp_all add: view_of_def Let_def)
  have "length (el_values m) = length (encrypted_memos tx)" using m(2) by simp
  then have "read_arrays A R (view_of C tx) n p = (ARNM_SUCCESS, b, m, s, p4)"
    using p3(1) s(1) unfolding read_arrays_def v b(1) prod.case
    by (simp add: m(1) DEFAULT_MAX_MEMOS_COUNT_def u del: of_nat_mult split: if_splits)
  then show ?thesis using b(2) m(2) s(2) by blast
qed

section \<open>There and back\<close>

lemma document_lengths:
  assumes "record_ok tx" "nodes (document tx) \<le> n"
  shows "length (account_balances tx) \<le> n" "length (encrypted_memos tx) \<le> n" "length (signature_pairs tx) \<le> n"
proof -
  have "7 * length (account_balances tx) + 5 * length (encrypted_memos tx) + 5 * length (signature_pairs tx) \<le> nodes (document tx)"
    unfolding document_def nodes_object map_append sum_list_append tail_counted(1) [OF assms(1)] by simp
  then show "length (account_balances tx) \<le> n" "length (encrypted_memos tx) \<le> n" "length (signature_pairs tx) \<le> n"
    using assms(2) by linarith+
qed

lemma type_walked:
  assumes R: "documented R C" and tx: "json_layout (transaction_type tx)"
  shows "jr_read_object R (value_of C (document tx)) [(GRDM_JSON_KEY_TRANSACTION_TYPE, FieldString)]
    = Inr [Some (FoundString (grdt_transaction_to_string (transaction_type tx)))]"
proof -
  have "distinct (map fst (head_members tx @ detail_members tx @ tail_members tx))"
    unfolding members_aligned [OF tx] by (rule table_distinct [OF tx])
  then have "distinct (map fst (map (map_prod id (value_of C)) (head_members tx @ detail_members tx @ tail_members tx)))"
    by (simp add: comp_def)
  moreover have "map_of (map (map_prod id (value_of C)) (head_members tx @ ms)) GRDM_JSON_KEY_TRANSACTION_TYPE
      = Some (JString (grdt_transaction_to_string (transaction_type tx)))" for ms
    by (simp add: head_members_def)
  ultimately show ?thesis
    unfolding document_def by (intro object_back(1) [OF R]) (simp add: walk_finds_def del: map_append)
qed

lemma document_back:
  assumes A: "arena_holds A avail" and R: "documented R C" and tx: "json_ok tx"
    and n: "nodes (document tx) \<le> unat n" "unat n * 8 \<le> max_alloc_size A" "lent A n tx \<le> avail p"
    and room: "json_room A tx \<le> max_alloc_size A" "json_room A tx \<le> avail q"
      "(if json_room A tx = 0 then (ARNM_SUCCESS, host) else mem_init_arena A (word_of_nat (json_room A tx))) = (ARNM_SUCCESS, q)"
  shows "\<exists>q' p'. read_document A R host grdr_complete_transaction_init (value_of C (document tx)) n p = (ARNM_SUCCESS, (stored tx, q'), p')"
proof -
  let ?t = "transaction_type tx" and ?z = "grdr_complete_transaction_init"
  let ?name = "grdt_transaction_to_string ?t"
  let ?tx1 = "if ?t = GRDT_TRANSACTION_REGISTER_ADDRESS then (root_of tx (?z\<lparr>transaction_type := ?t\<rparr>))\<lparr>address_type := address_type tx\<rparr>
    else root_of tx (?z\<lparr>transaction_type := ?t\<rparr>)"
  let ?tx2 = "?tx1\<lparr>cross_group_type := cross_group_type tx\<rparr>"
  have ok: "json_layout ?t" "record_ok tx" using tx by (simp_all add: json_ok_def)
  have t: "?t \<le> 8" "?t \<noteq> GRDT_TRANSACTION_NONE" using ok(1) by (elim layout_cases; simp)+
  have "?name \<noteq> []" using ok(1) by (elim layout_cases) (simp_all add: to_strings)
  moreover have "grdt_transaction_from_string ?name (length ?name) = ?t" using transaction_type_back [OF t(1), of "[]"] by simp
  moreover note root = json_root_back [OF R ok, of "?z\<lparr>transaction_type := ?t\<rparr>"]
  have "read_root R (?z\<lparr>transaction_type := ?t\<rparr>) (value_of C (document tx)) ?t = Inr (view_of C tx, ?tx1)"
    using tx by (intro root) (simp add: json_ok_def)
  moreover have "cross_group_type tx \<le> 3" using tx by (simp add: json_ok_def)
  then have g: "cross_group_type tx \<le> 4" "cross_group_type tx \<noteq> 4" by (simp_all add: word_le_nat_alt) auto
  then have "grdt_cross_group_from_string (rv_cross_group_type (view_of C tx)) (length (rv_cross_group_type (view_of C tx))) = cross_group_type tx"
    using cross_group_back [OF g(1), of "[]"] by (simp add: view_of_def Let_def)
  moreover obtain b m s p1 where arrays: "read_arrays A R (view_of C tx) n p = (ARNM_SUCCESS, b, m, s, p1)"
    "el_values b = map (\<lambda>b. value_of C (written_balance b)) (account_balances tx)"
    "el_values m = map (\<lambda>m. value_of C (written_memo m)) (encrypted_memos tx)"
    "el_values s = map (\<lambda>p. value_of C (written_signature p)) (signature_pairs tx)"
    using arrays_read [OF A R document_lengths [OF ok(2) n(1)] n(2) room(1) n(3)] by blast
  have "transaction_type ?tx2 = ?t" "no_pointers ?tx2" "body_bytes ?tx2 = []"
    by (simp_all add: root_of_def no_pointers_def Let_def grdr_complete_transaction_init_def)
  from complete_transaction_back [OF A R tx this arrays(2-4) room]
  obtain q' where "read_complete_transaction A R host ?tx2 (view_of C tx) b m s = (ARNM_SUCCESS, stored tx, q')"
    unfolding stored_whole [OF ok(1)] by blast
  ultimately show ?thesis
    using t(2) g(2) unfolding read_document_def type_walked [OF R ok(1)] sum.case nth_Cons_0
    by (simp add: found_string_def arrays(1))
qed

section \<open>An instance\<close>

text \<open>A reader whose alphabets spell every byte as one character.\<close>

definition plain_text :: "bytes \<Rightarrow> string" where "plain_text b = map (\<lambda>w. char_of (unat w)) b"
definition plain_bytes :: "string \<Rightarrow> bytes" where "plain_bytes s = map (\<lambda>c. word_of_nat (of_char c)) s"

lemma plain_back: "plain_bytes (plain_text b) = b" "length (plain_text b) = length b"
proof -
  have "word_of_nat (of_char (char_of (unat w) :: char)) = w" for w :: u8
    using unat_lt_8 [of w] by simp
  then show "plain_bytes (plain_text b) = b" by (simp add: plain_bytes_def plain_text_def comp_def)
qed (simp add: plain_text_def)

definition plain_codec :: json_codec where
  "plain_codec = \<lparr>to_hex = plain_text, to_base64 = plain_text, uuid_text = plain_text\<rparr>"

definition plain_read :: "json_field \<Rightarrow> json option \<Rightarrow> json_found option" where
  "plain_read f v =
     (case v of None \<Rightarrow> None
      | Some v \<Rightarrow> (case f of FieldValue \<Rightarrow> Some (FoundValue v)
          | FieldUint64 \<Rightarrow> (case v of JInt i \<Rightarrow> Some (FoundWord64 (word_of_int i)) | _ \<Rightarrow> None)
          | FieldInt64 \<Rightarrow> (case v of JInt i \<Rightarrow> Some (FoundWord64 (word_of_int i)) | _ \<Rightarrow> None)
          | FieldInt32 \<Rightarrow> (case v of JInt i \<Rightarrow> Some (FoundWord32 (word_of_int i)) | _ \<Rightarrow> None)
          | FieldUint32 \<Rightarrow> (case v of JInt i \<Rightarrow> Some (FoundWord32 (word_of_int i)) | _ \<Rightarrow> None)
          | FieldString \<Rightarrow> (case v of JString s \<Rightarrow> Some (FoundString s) | _ \<Rightarrow> None)
          | FieldUuid \<Rightarrow> (case v of JString s \<Rightarrow> Some (FoundBytes (plain_bytes s)) | _ \<Rightarrow> None)
          | FieldHexFixed n \<Rightarrow> (case v of JString s \<Rightarrow> Some (FoundBytes (plain_bytes s)) | _ \<Rightarrow> None)))"

definition plain_reader :: "json \<Rightarrow> u32 \<Rightarrow> 'p arnm_json_reader" where
  "plain_reader root n =
     \<lparr>jr_init = (\<lambda>p. (ARNM_SUCCESS, p)), jr_parse = (\<lambda>text p. (ARNM_SUCCESS, root, n, p)), jr_release = (\<lambda>p. (ARNM_SUCCESS, p)),
      jr_read_object = (\<lambda>v table. case v of JObject ms \<Rightarrow> Inr (map (\<lambda>(k, f). plain_read f (map_of ms k)) table)
        | _ \<Rightarrow> Inl ARNM_ERROR_INVALID_ENUM_TYPE),
      jr_read_array = (\<lambda>v n. case v of JArray vs \<Rightarrow> if length vs \<le> n then Inr vs else Inl ARNM_ERROR_DESTINATION_BUFFER_TO_SMALL
        | _ \<Rightarrow> Inl ARNM_ERROR_INVALID_ENUM_TYPE),
      jr_is_null = (\<lambda>v. v = JNull),
      base64_binary_size = (\<lambda>s. (ARNM_SUCCESS, word_of_nat (length s))),
      binary_from_base64 = (\<lambda>s. (ARNM_SUCCESS, plain_bytes s)), binary_from_base64_insitu = (\<lambda>s. (ARNM_SUCCESS, plain_bytes s))\<rparr>"

lemma plain_read_finds: "field_reads plain_codec f v x \<Longrightarrow> plain_read f v = x"
  by (cases "(plain_codec, f, v, x)" rule: field_reads.cases)
    (auto simp: field_reads.simps plain_read_def plain_codec_def plain_back)

lemma plain_documented: "documented (plain_reader root n) plain_codec"
proof -
  have "map (\<lambda>(k, f). plain_read f (map_of ms k)) table = xs"
    if "list_all2 (\<lambda>(k, f) x. field_reads plain_codec f (map_of ms k) x) table xs" for ms :: "(string \<times> json) list" and table xs
    using that by (induction table xs rule: list_all2_induct) (auto dest: plain_read_finds)
  then show ?thesis
    by (auto simp: documented_def walk_finds_def plain_reader_def plain_back) (simp_all add: plain_codec_def plain_back)
qed

lemma plain_arena_holds: "arena_holds plain_arena unat"
proof -
  have "\<exists>p'. mem_block_alloc plain_arena n p = (ARNM_SUCCESS, p') \<and> unat p \<le> unat p' + mem_align8 plain_arena (unat n)"
    if "mem_align8 plain_arena (unat n) \<le> unat p" for p :: "31 word" and n
    using that align_up [of "unat n"] unat_minus_31 [of "unat n" p] by (simp add: plain_arena_def)
  then show ?thesis using plain_arena_clones align_up by (simp add: arena_holds_def plain_arena_simps)
qed

lemma sample_json_ok: "json_ok sample_record"
  using sample_record_ok by (simp add: json_ok_def sample_record_def grdr_complete_transaction_init_def anchor_named_def zero_anchor_def memo_named_def)

lemma sample_room: "json_room plain_arena sample_record = 40" "lent plain_arena 56 sample_record = 1368"
  by (simp_all add: json_room_def lent_def sample_record_def grdr_complete_transaction_init_def plain_arena_simps SIZEOF_grdw_encrypted_memo_def)

lemma sample_nodes: "nodes (document sample_record) = 56"
  unfolding document_def nodes_object map_append sum_list_append head_counted tail_counted(1) [OF sample_record_ok(1)]
  by (simp add: sample_record_def grdr_complete_transaction_init_def detail_members_def counted written_maybe_def)
    (simp add: written_anchor_def zero_anchor_def)

end
