(* ===== verification/GRD_Crypto.thy ===== *)
theory GRD_Crypto
  imports GRD_Wire
begin

text \<open>
  The keys of \<open>crypto/sign.c\<close>, the hash of \<open>crypto/hash.c\<close>, the conversions of \<open>utils/converter.c\<close> and the sizes of
  \<open>const.c\<close>. libsodium is not part of the repository: what the code calls of it is a record of functions. A key pair is
  its private key, whose halves are the seed and the public key, and its chain code. A text is its characters before
  the NUL; a NULL pointer is \<open>None\<close>.
\<close>

section \<open>What is called of libsodium\<close>

text \<open>A pair of keys from a seed answers the public and the private key; a decoder answers its result and what it wrote.
  \<open>sodium_misuse\<close> aborts the process when a text does not fit.\<close>

record sodium =
  crypto_auth_hmacsha512 :: "bytes \<Rightarrow> bytes \<Rightarrow> bytes"
  crypto_sign_seed_keypair :: "bytes \<Rightarrow> bytes \<times> bytes"
  crypto_generichash :: "nat \<Rightarrow> bytes \<Rightarrow> bytes"
  sodium_bin2hex :: "bytes \<Rightarrow> bytes"
  sodium_hex2bin :: "nat \<Rightarrow> bytes \<Rightarrow> int \<times> bytes"
  sodium_base64_encoded_len :: "nat \<Rightarrow> nat"
  sodium_base64_text :: "bytes \<Rightarrow> bytes"
  sodium_base642bin :: "nat \<Rightarrow> bytes \<Rightarrow> int \<times> bytes"

definition sodium_bin2base64 :: "sodium \<Rightarrow> nat \<Rightarrow> bytes \<Rightarrow> c_fault + bytes" where
  "sodium_bin2base64 S maxlen bin = (if maxlen < sodium_base64_encoded_len S (length bin) then Inl AssertFailed else Inr (sodium_base64_text S bin))"

section \<open>Sizes\<close>

definition SIGN_SEED_MIN_SIZE :: nat where "SIGN_SEED_MIN_SIZE = 16"
definition SIGN_SEED_MAX_SIZE :: nat where "SIGN_SEED_MAX_SIZE = 64"
definition SIGN_SEED_SIZE :: nat where "SIGN_SEED_SIZE = 32"
definition SIGN_CHAIN_CODE_SIZE :: nat where "SIGN_CHAIN_CODE_SIZE = 32"
definition SIGN_PRIVATE_KEY_SIZE :: nat where "SIGN_PRIVATE_KEY_SIZE = 64"

definition grdc_sign_public_key_size :: i32 where "grdc_sign_public_key_size = word_of_nat SIGN_PUBLIC_KEY_SIZE"
definition grdc_sign_seed_size :: i32 where "grdc_sign_seed_size = word_of_nat SIGN_SEED_SIZE"
definition grdc_sign_chain_code_size :: i32 where "grdc_sign_chain_code_size = word_of_nat SIGN_CHAIN_CODE_SIZE"
definition grdc_sign_private_key_size :: i32 where "grdc_sign_private_key_size = word_of_nat SIGN_PRIVATE_KEY_SIZE"
definition grdc_sign_signature_size :: i32 where "grdc_sign_signature_size = word_of_nat SIGN_SIGNATURE_SIZE"
definition grdc_generic_hash_size :: i32 where "grdc_generic_hash_size = word_of_nat GENERIC_HASH_SIZE"
definition grdc_uuid_binary_size :: i32 where "grdc_uuid_binary_size = word_of_nat ARNM_UUID_BINARY_SIZE"
definition grdc_decay_respite_cent :: i64 where "grdc_decay_respite_cent = 100"

section \<open>Key pairs\<close>

record grdc_sign_key_pair =
  kp_private_key :: bytes
  kp_chain_code :: bytes

definition kp_seed :: "grdc_sign_key_pair \<Rightarrow> bytes" where
  "kp_seed kp = take SIGN_SEED_SIZE (kp_private_key kp)"

definition kp_public_key :: "grdc_sign_key_pair \<Rightarrow> bytes" where
  "kp_public_key kp = drop SIGN_SEED_SIZE (kp_private_key kp)"

definition grdc_sign_key_pair_init :: "grdc_sign_key_pair option \<Rightarrow> grdc_sign_key_pair option" where
  "grdc_sign_key_pair_init kp =
     map_option (\<lambda>_. \<lparr>kp_private_key = zeros SIGN_PRIVATE_KEY_SIZE, kp_chain_code = zeros SIGN_CHAIN_CODE_SIZE\<rparr>) kp"

text \<open>The keys of the first half of a digest, with the second half as the chain code.\<close>

definition split_digest :: "sodium \<Rightarrow> bytes \<Rightarrow> grdc_sign_key_pair" where
  "split_digest S I = \<lparr>kp_private_key = snd (crypto_sign_seed_keypair S (take SIGN_SEED_SIZE I)),
     kp_chain_code = take SIGN_CHAIN_CODE_SIZE (drop 32 I)\<rparr>"

definition curveId :: bytes where
  "curveId = [0x65, 0x64, 0x32, 0x35, 0x35, 0x31, 0x39, 0x20, 0x73, 0x65, 0x65, 0x64]"

definition grdc_sign_key_pair_generate_from_seed ::
  "sodium \<Rightarrow> grdc_sign_key_pair option \<Rightarrow> bytes option \<Rightarrow> arnm_result \<times> grdc_sign_key_pair option" where
  "grdc_sign_key_pair_generate_from_seed S kp seed =
     (case (kp, seed) of
        (Some _, Some seed) \<Rightarrow>
          if length seed < SIGN_SEED_MIN_SIZE \<or> SIGN_SEED_MAX_SIZE < length seed then (ARNM_ERROR_INVALID_PARAM, kp)
          else (ARNM_SUCCESS, Some (split_digest S (crypto_auth_hmacsha512 S curveId seed)))
      | _ \<Rightarrow> (ARNM_ERROR_NULL_POINTER, kp))"

definition grdc_sign_key_pair_copy_slip10_public_key ::
  "bytes option \<Rightarrow> grdc_sign_key_pair option \<Rightarrow> arnm_result \<times> bytes option" where
  "grdc_sign_key_pair_copy_slip10_public_key out kp =
     (case (out, kp) of
        (Some _, Some kp) \<Rightarrow> (ARNM_SUCCESS, Some (0 # kp_public_key kp))
      | _ \<Rightarrow> (ARNM_ERROR_NULL_POINTER, out))"

definition HARDENED_KEY_BITMASK :: u32 where "HARDENED_KEY_BITMASK = 0x80000000"

definition derive_data :: "grdc_sign_key_pair \<Rightarrow> u32 \<Rightarrow> bytes" where
  "derive_data parent harden_index = 0 # kp_seed parent
     @ [ucast (drop_bit 24 harden_index AND 0xFF), ucast (drop_bit 16 harden_index AND 0xFF),
        ucast (drop_bit 8 harden_index AND 0xFF), ucast (harden_index AND 0xFF)]"

definition grdc_sign_key_pair_derive ::
  "sodium \<Rightarrow> grdc_sign_key_pair option \<Rightarrow> grdc_sign_key_pair option \<Rightarrow> u32 \<Rightarrow> arnm_result \<times> grdc_sign_key_pair option" where
  "grdc_sign_key_pair_derive S kp parent index =
     (case (kp, parent) of
        (Some _, Some parent) \<Rightarrow>
          if HARDENED_KEY_BITMASK \<le> index then (ARNM_ERROR_INVALID_PARAM, kp)
          else (let harden_index = drop_bit 0 (index OR HARDENED_KEY_BITMASK);
                    I = crypto_auth_hmacsha512 S (kp_chain_code parent) (derive_data parent harden_index)
            in (ARNM_SUCCESS, Some (split_digest S I)))
      | _ \<Rightarrow> (ARNM_ERROR_NULL_POINTER, kp))"

text \<open>Four bytes of the uuid, the first the highest; the hardening bit is taken out of the word.\<close>

definition uuid_word :: "bytes \<Rightarrow> nat \<Rightarrow> u32" where
  "uuid_word uuid i = push_bit 24 (ucast (uuid ! (i * 4))) OR push_bit 16 (ucast (uuid ! (i * 4 + 1)))
     OR push_bit 8 (ucast (uuid ! (i * 4 + 2))) OR ucast (uuid ! (i * 4 + 3))"

definition uuid_index :: "bytes \<Rightarrow> nat \<Rightarrow> u32" where
  "uuid_index uuid i =
     (let word' = uuid_word uuid i in if HARDENED_KEY_BITMASK \<le> word' then word' - HARDENED_KEY_BITMASK else word')"

text \<open>The loop over the words: the first derives from the parent, the others from the result in place.\<close>

fun derive_uuid_loop ::
  "sodium \<Rightarrow> bytes \<Rightarrow> grdc_sign_key_pair option \<Rightarrow> nat list \<Rightarrow> grdc_sign_key_pair option \<Rightarrow> arnm_result \<times> grdc_sign_key_pair option" where
  "derive_uuid_loop S uuid parent [] kp = (ARNM_SUCCESS, kp)"
| "derive_uuid_loop S uuid parent (i # is) kp =
     (case grdc_sign_key_pair_derive S kp (if i = 0 then parent else kp) (uuid_index uuid i) of (r, kp) \<Rightarrow>
        if r \<noteq> ARNM_SUCCESS then (r, kp) else derive_uuid_loop S uuid parent is kp)"

definition grdc_sign_key_pair_derive_uuid ::
  "sodium \<Rightarrow> grdc_sign_key_pair option \<Rightarrow> grdc_sign_key_pair option \<Rightarrow> bytes option \<Rightarrow> arnm_result \<times> grdc_sign_key_pair option" where
  "grdc_sign_key_pair_derive_uuid S kp parent uuid =
     (case (kp, parent, uuid) of
        (Some _, Some _, Some uuid) \<Rightarrow> derive_uuid_loop S uuid parent [0, 1, 2, 3] kp
      | _ \<Rightarrow> (ARNM_ERROR_NULL_POINTER, kp))"

definition grdc_sign_key_pair_derive_account_from_community ::
  "sodium \<Rightarrow> grdc_sign_key_pair option \<Rightarrow> bytes option \<Rightarrow> bytes option \<Rightarrow> u32 \<Rightarrow> arnm_result \<times> grdc_sign_key_pair option" where
  "grdc_sign_key_pair_derive_account_from_community S kp seed uuid account_index =
     (case (kp, seed, uuid) of
        (Some _, Some seed, Some _) \<Rightarrow>
          if account_index = 0 then (ARNM_ERROR_INVALID_PARAM, kp)
          else (case grdc_sign_key_pair_generate_from_seed S kp (Some (take SIGN_SEED_SIZE seed)) of (r, kp) \<Rightarrow>
            if r \<noteq> ARNM_SUCCESS then (r, kp)
            else (case grdc_sign_key_pair_derive_uuid S kp kp uuid of (r, kp) \<Rightarrow>
              if r \<noteq> ARNM_SUCCESS then (r, kp)
              else grdc_sign_key_pair_derive S kp kp account_index))
      | _ \<Rightarrow> (ARNM_ERROR_NULL_POINTER, kp))"

section \<open>Hash\<close>

definition grdc_hash_generic :: "sodium \<Rightarrow> bytes option \<Rightarrow> bytes option \<Rightarrow> arnm_result \<times> bytes option" where
  "grdc_hash_generic S hash data =
     (case (hash, data) of
        (Some _, Some data) \<Rightarrow>
          if data = [] then (ARNM_ERROR_INVALID_PARAM, hash)
          else (ARNM_SUCCESS, Some (crypto_generichash S GENERIC_HASH_SIZE data))
      | _ \<Rightarrow> (ARNM_ERROR_NULL_POINTER, hash))"

section \<open>Hex and base64\<close>

text \<open>A memory block is its bytes, \<open>None\<close> when its data is NULL; what is written to a buffer replaces its front.\<close>

definition written_over :: "bytes \<Rightarrow> bytes \<Rightarrow> bytes" where
  "written_over buffer bs = bs @ drop (length bs) buffer"

definition grdu_secret_to_hex :: "sodium \<Rightarrow> bytes option \<Rightarrow> bytes option option \<Rightarrow> arnm_result \<times> bytes option" where
  "grdu_secret_to_hex S buffer data =
     (case (buffer, data) of
        (Some old, Some (Some data)) \<Rightarrow>
          if data = [] then (ARNM_ERROR_INVALID_PARAM, buffer)
          else (ARNM_SUCCESS, Some (written_over old (sodium_bin2hex S data)))
      | _ \<Rightarrow> (ARNM_ERROR_NULL_POINTER, buffer))"

definition grdu_secret_from_hex :: "sodium \<Rightarrow> bytes option \<Rightarrow> bytes option \<Rightarrow> arnm_result \<times> bytes option" where
  "grdu_secret_from_hex S buffer hex =
     (case (buffer, hex) of
        (Some old, Some hex) \<Rightarrow>
          let bin_size = length hex div 2 in
          if bin_size * 2 \<noteq> length hex then (ARNM_ERROR_INVALID_PARAM, buffer)
          else (case sodium_hex2bin S bin_size hex of (r, decoded) \<Rightarrow>
            if r \<noteq> 0 then (ARNM_ERROR_DECODE_FAILED, Some (written_over (written_over old decoded) (zeros bin_size)))
            else (ARNM_SUCCESS, Some (written_over old decoded)))
      | _ \<Rightarrow> (ARNM_ERROR_NULL_POINTER, buffer))"

definition grdu_binary_to_base64_length :: "sodium \<Rightarrow> nat \<Rightarrow> nat" where
  "grdu_binary_to_base64_length S binSize = sodium_base64_encoded_len S binSize"

definition grdu_binary_to_base64_with_known_size ::
  "sodium \<Rightarrow> bytes option option \<Rightarrow> bytes option option \<Rightarrow> c_fault + arnm_result \<times> bytes option option" where
  "grdu_binary_to_base64_with_known_size S block data =
     (case (block, data) of
        (Some (Some old), Some (Some data)) \<Rightarrow>
          if length old < sodium_base64_encoded_len S (length data) then Inr (ARNM_ERROR_DESTINATION_BUFFER_TO_SMALL, block)
          else fbind (sodium_bin2base64 S (length old) data) (\<lambda>text'. Inr (ARNM_SUCCESS, Some (Some (written_over old text'))))
      | _ \<Rightarrow> Inr (ARNM_ERROR_NULL_POINTER, block))"

text \<open>A block that was reserved has as many bytes as asked for; \<open>garbage\<close> is what they are then.\<close>

definition grdu_binary_to_base64 ::
  "'p arnm_memory \<Rightarrow> sodium \<Rightarrow> (nat \<Rightarrow> bytes) \<Rightarrow> bytes option option \<Rightarrow> bytes option option \<Rightarrow> 'p option
    \<Rightarrow> c_fault + arnm_result \<times> bytes option option \<times> 'p option" where
  "grdu_binary_to_base64 A S garbage block data allocator =
     (case (block, data, allocator) of
        (Some _, Some d, Some p) \<Rightarrow>
          let strSize = sodium_base64_encoded_len S (case d of None \<Rightarrow> 0 | Some bs \<Rightarrow> length bs) in
          if unat UINT32_MAX - 7 < strSize then Inr (ARNM_ERROR_ARITHMETIC_OVERFLOW, block, allocator)
          else (case mem_block_alloc A (word_of_nat strSize) p of (r, p) \<Rightarrow>
            if r \<noteq> ARNM_SUCCESS then Inr (r, block, Some p)
            else fbind (grdu_binary_to_base64_with_known_size S (Some (Some (garbage strSize))) data)
                   (\<lambda>(r, block). Inr (r, block, Some p)))
      | _ \<Rightarrow> Inr (ARNM_ERROR_NULL_POINTER, block, allocator))"

definition grdu_binary_from_base64 :: "sodium \<Rightarrow> bytes option \<Rightarrow> bytes option \<Rightarrow> nat \<times> bytes option" where
  "grdu_binary_from_base64 S block base64_str =
     (case (block, base64_str) of
        (Some old, Some text') \<Rightarrow>
          (case sodium_base642bin S (length old) text' of (r, decoded) \<Rightarrow>
             (if r \<noteq> 0 then 0 else length decoded, Some (written_over old decoded)))
      | _ \<Rightarrow> (0, block))"

section \<open>What the derivations are\<close>

text \<open>SLIP-10: the master key of a seed, and the hardened child of a key.\<close>

definition master_key :: "sodium \<Rightarrow> bytes \<Rightarrow> grdc_sign_key_pair" where
  "master_key S seed = split_digest S (crypto_auth_hmacsha512 S curveId seed)"

definition hardened_child :: "sodium \<Rightarrow> grdc_sign_key_pair \<Rightarrow> u32 \<Rightarrow> grdc_sign_key_pair" where
  "hardened_child S kp i = split_digest S (crypto_auth_hmacsha512 S (kp_chain_code kp) (derive_data kp (i OR HARDENED_KEY_BITMASK)))"

definition uuid_path :: "bytes \<Rightarrow> u32 list" where
  "uuid_path uuid = map (\<lambda>i. take_bit 31 (uuid_word uuid i)) [0, 1, 2, 3]"

lemma uuid_index_bits: "uuid_index uuid i = take_bit 31 (uuid_word uuid i)"
proof -
  have "unat (if 0x80000000 \<le> w then w - 0x80000000 else w) = unat (take_bit 31 w)" for w :: u32
    using unat_lt_32 [of w] by (auto simp: word_nat word_le_nat_alt unat_sub not_le le_mod_geq)
  then show ?thesis unfolding uuid_index_def HARDENED_KEY_BITMASK_def Let_def by (intro word_eq_unatI)
qed

lemma take_bit_below: "take_bit 31 (w :: u32) < HARDENED_KEY_BITMASK"
  by (simp add: HARDENED_KEY_BITMASK_def word_less_unat word_nat)

lemma derive_child:
  "grdc_sign_key_pair_derive S (Some kp) (Some parent) i =
    (if i < HARDENED_KEY_BITMASK then (ARNM_SUCCESS, Some (hardened_child S parent i)) else (ARNM_ERROR_INVALID_PARAM, Some kp))"
  by (auto simp: grdc_sign_key_pair_derive_def hardened_child_def Let_def not_le [symmetric])

lemma derive_uuid_path:
  "grdc_sign_key_pair_derive_uuid S (Some kp) (Some parent) (Some uuid) = (ARNM_SUCCESS, Some (foldl (hardened_child S) parent (uuid_path uuid)))"
  by (simp add: grdc_sign_key_pair_derive_uuid_def derive_child uuid_index_bits take_bit_below uuid_path_def)


text \<open>Two users of one key, with functions that only copy in the place of libsodium's.\<close>

definition copying_sodium :: sodium where
  "copying_sodium = \<lparr>crypto_auth_hmacsha512 = (\<lambda>key data. take 64 (data @ key @ zeros 64)),
     crypto_sign_seed_keypair = (\<lambda>seed. (seed, seed @ seed)), crypto_generichash = (\<lambda>n bs. take n (bs @ zeros n)),
     sodium_bin2hex = (\<lambda>bs. bs @ bs), sodium_hex2bin = (\<lambda>n bs. (0, take n bs)), sodium_base64_encoded_len = (\<lambda>n. n),
     sodium_base64_text = (\<lambda>bs. bs), sodium_base642bin = (\<lambda>n bs. (0, take n bs))\<rparr>"


section \<open>No misuse, nothing left of a secret\<close>

text \<open>libsodium is never asked for a text that does not fit, which would end the process.\<close>

lemma base64_never_aborts:
  assumes "\<And>n. length (garbage n) = n"
  shows "grdu_binary_to_base64_with_known_size S block data \<noteq> Inl e" "grdu_binary_to_base64 A S garbage block data p \<noteq> Inl e"
proof -
  show *: "grdu_binary_to_base64_with_known_size S block data \<noteq> Inl e" for block data
    by (auto simp: grdu_binary_to_base64_with_known_size_def sodium_bin2base64_def split: option.split)
  show "grdu_binary_to_base64 A S garbage block data p \<noteq> Inl e"
    using * by (auto simp: grdu_binary_to_base64_def fbind_def Let_def split: option.split prod.split sum.split)
qed

text \<open>A secret that cannot be decoded leaves zeros where its bytes would stand, and the rest of the buffer as it was.\<close>

lemma secret_wiped:
  assumes "sodium_hex2bin S (length hex div 2) hex = (r, decoded)" "r \<noteq> 0" "length decoded \<le> length hex div 2" "even (length hex)"
  shows "grdu_secret_from_hex S (Some buffer) (Some hex)
    = (ARNM_ERROR_DECODE_FAILED, Some (zeros (length hex div 2) @ drop (length hex div 2) buffer))"
  using assms by (auto simp: grdu_secret_from_hex_def written_over_def zeros_def Let_def)

end
