(* ===== verification/Spec2Isabelle.thy ===== *)
theory Spec2Isabelle
  imports GRD_Decay_Windowed GRD_Unit GRD_Protocol GRD_Ffi GRD_Validate GRD_Json_Round GRD_Crypto
begin

text \<open>
  A verification library for the core of gradido-blockchain-core, the C library that keeps and reads Gradido
  blockchains. It translates the functions of \<open>src/src\<close>, \<open>src/helper\<close> and of the third party sources they rest on
  (\<open>r128\<close>, the 256 bit multiplication, pbtools) into definitions that compute, under the names they have in C, and
  proves what makes them correct. Paths below are relative to \<open>src/\<close>.

  \<^bold>\<open>The program and how its parts interact.\<close>
  A transaction arrives as the bytes of a protobuf message (\<open>src/data/proto\<close>, generated code over
  \<open>third_party/pbtools\<close>). \<open>src/mapping/wire_from_pbtools.c\<close> copies the message into a wire struct (\<open>src/data/wire\<close>),
  \<open>src/mapping/runtime_from_wire.c\<close> copies wire structs into the runtime record \<open>grdr_complete_transaction\<close>
  (\<open>src/data/runtime\<close>), and \<open>pbtools_from_wire.c\<close> goes the other way. The runtime record can be written as JSON and
  read back (\<open>json_from_runtime.c\<close>, \<open>runtime_from_json.c\<close>), checked on its own (\<open>src/interactions/validate\<close>), and
  added to a chain (\<open>src/blockchain/chain.c\<close>). A chain is a row of indices (\<open>transactions.c\<close>), each over a window of
  transaction numbers, one register of addresses (\<open>addresses.c\<close>), and a store that keeps the transactions
  themselves behind an interface (\<open>store.c\<close>), implemented in memory (\<open>in_memory.c\<close>) and by a host of another language
  (\<open>ffi.c\<close>). Questions are filters (\<open>transactions_filter.c\<close>) that are counted, paged and searched. Amounts are
  integers in ten thousandths of a Gradido (\<open>src/data/unit.c\<close>) that decay by half a year after year, computed in
  Q64.64 fixed point from tables that two helper programs print.

  \<^bold>\<open>How the code is represented.\<close>
  A C integer is a word of its width, wrap-around included, and a signed one the same word read by \<open>sint\<close>. An array of
  bytes is a list, a counted array a list of its elements, a pointer that may be NULL an option, an out parameter part
  of the answer. A struct is a record; the members of a union are separate fields, each read behind the test the code
  has. A function that can abort or run into undefined behaviour answers \<open>c_fault + 'a\<close>; every other failure is the
  \<open>arnm_result\<close> the C function answers. State that is changed is passed along and returned: the allocator as a value of
  type \<open>'p\<close>, the heap of a message as a \<open>pb_heap\<close>, the state of a store or of a host as a value of its own type. The
  sizes of structs are those of a 64 bit target.

  \<^bold>\<open>The theories.\<close>
  \<^item> \<open>GRD_Prelude\<close>: machine types, faults, result codes (\<open>result.c\<close>) and the lemmas on words all others share.
  \<^item> \<open>GRD_Fixed128\<close>, \<open>GRD_R128_Div\<close>: \<open>third_party/r128\<close> and \<open>third_party/fp256\<close> as far as \<open>unit.c\<close> reaches them; the
    three multiplications agree and are the exact product cut off below 2 to the power -64.
  \<^item> \<open>GRD_Decay\<close>, \<open>GRD_Decay_Tables\<close>, \<open>GRD_Decay_Windowed\<close>: the two decay functions of \<open>unit.c\<close>; the first ends without a
    fault with exactly the specified amount, is monotone and splits over whole years; its tables are what
    \<open>helper/precalculate_decay_table.c\<close> and \<open>precalculate_decay_windows.c\<close> compute; the windowed one stays within one
    unit of it for realistic balances.
  \<^item> \<open>GRD_Text\<close>, \<open>GRD_Unit\<close>: C strings and buffers with checked writes; parsing, printing, rounding of amounts and the
    seconds that count for the decay.
  \<^item> \<open>GRD_Timestamp\<close>: \<open>timestamp.c\<close>, \<open>timestamp_seconds.c\<close>, \<open>hiero.c\<close>; arithmetic that saturates, and texts.
  \<^item> \<open>GRD_Names\<close>: \<open>src/types\<close>, the names of the enumerations and back.
  \<^item> \<open>GRD_Data\<close>: the enumerations, the runtime record and its readings (\<open>complete_transaction.c\<close>).
  \<^item> \<open>GRD_Pbtools\<close>, \<open>GRD_Wire_Bytes\<close>: \<open>third_party/pbtools/pbtools.c\<close>, with what each call does to bytes.
  \<^item> \<open>GRD_Messages\<close>, \<open>GRD_Message_Api\<close>: the generated code of \<open>src/data/proto/gradido\<close>, message by message.
    \<open>GRD_Codec\<close>, \<open>GRD_Codec_Tx\<close> hold the contract of every message (the locale \<open>message\<close>: what encoding writes,
    decoding reads, with the room it takes), \<open>GRD_Decode_Ends\<close> the reading of arbitrary bytes (the locale \<open>switch\<close>),
    \<open>GRD_Protocol\<close> what follows for the root messages.
  \<^item> \<open>GRD_Wire\<close>, \<open>GRD_Wire_Codec\<close>: the wire structs of \<open>src/data/wire\<close>, filled, released, encoded and decoded.
    \<open>GRD_Pb_From_Wire\<close>, \<open>GRD_Wire_From_Pb\<close>: the two mappings. \<open>GRD_Wire_Fills\<close>, \<open>GRD_Wire_Round\<close>, \<open>GRD_Wire_Whole\<close>: each
    mapping fills exactly the struct or message that is meant, and both ways together are the identity (the locale
    \<open>wire_form\<close>, interpreted by body, transaction and confirmed transaction). \<open>GRD_Peek\<close>: reading the number alone.
  \<^item> \<open>GRD_Runtime\<close>, \<open>GRD_Runtime_Whole\<close>: \<open>runtime_from_wire.c\<close> and \<open>init_from_protobuf\<close>; the record that is built,
    member by member, and that the arena opened for it is large enough.
  \<^item> \<open>GRD_Arnm\<close>, \<open>GRD_Arnm_List\<close>: the containers of arnm the index uses, as parameters with laws, and an instance.
  \<^item> \<open>GRD_Filter\<close>, \<open>GRD_Transactions\<close>, \<open>GRD_Marks\<close>, \<open>GRD_Index\<close>, \<open>GRD_Query\<close>: filters and the index; \<open>stands_for\<close> is the
    invariant that an index holds exactly the marks of a list of transactions, adding refines appending to the list,
    and every question is answered from the list.
  \<^item> \<open>GRD_Addresses\<close>: the register; types and balances of an address through time.
  \<^item> \<open>GRD_Store\<close>, \<open>GRD_Chain\<close>, \<open>GRD_Row\<close>, \<open>GRD_Load\<close>: the interface of a store, the chain, what a chain answers (the
    locale \<open>segment_answers\<close>, which the index fulfils) and loading a chain from a store (the locale
    \<open>transaction_store\<close>).
  \<^item> \<open>GRD_In_Memory\<close>, \<open>GRD_Ffi\<close>: the two stores; both interpret \<open>transaction_store\<close>.
  \<^item> \<open>GRD_Validate\<close>: the check of a transaction (\<open>context.c\<close>) and \<open>error_details.c\<close>.
  \<^item> \<open>GRD_Json\<close>, \<open>GRD_Json_Write\<close>, \<open>GRD_Json_Read\<close>, \<open>GRD_Json_Round\<close>: the runtime record as JSON and back. The calls to
    the writer lay exactly one tree, \<open>document\<close>, for which the hint of its pools is exact; the reader takes it back into
    the same record, and a refusal leaves nothing half read.
  \<^item> \<open>GRD_Crypto\<close>: \<open>sign.c\<close>, \<open>hash.c\<close>, \<open>converter.c\<close>, \<open>const.c\<close>; the key of an account is a SLIP-10 path.

  \<^bold>\<open>Loops and bounds.\<close>
  Loops over lists are structural. The loops over the links of the register take fuel, one step more than the table
  has records, and \<open>register_loops_end\<close> shows that this is enough, since every link leads to an earlier record. The
  decoding loops of pbtools are \<open>while\<close>; \<open>any_bytes_are_read\<close> shows that they end on any bytes, since every reading call
  moves on or fails. \<open>load_loop\<close> is a \<open>partial_function\<close>, and \<open>load_ends\<close> shows that it answers whatever the store
  does. The other loops are functions with a measure. Arenas hold less than 2 GiB, as arnm caps them; the decay is
  exact for non-negative balances and durations, the windowed one close for balances below 61 trillion Gradido; memos
  and bodies are shorter than 1 GiB in JSON, which is where the writer refuses them.

  \<^bold>\<open>Parameters.\<close>
  arnm, libsodium and the host of another language are not part of the repository. Their calls are fields of the
  records \<open>arnm_ops\<close>, \<open>arnm_memory\<close>, \<open>arnm_conv\<close>, \<open>arnm_json_writer\<close>, \<open>arnm_json_reader\<close>, \<open>sodium\<close> and of the host in
  \<open>GRD_Ffi\<close>. What a property relies on of them is a named predicate among its premises (\<open>arnm_laws\<close>, \<open>supplies\<close>,
  \<open>clones\<close>, \<open>arena_holds\<close>, \<open>arnm_conv_ok\<close>, \<open>documented\<close>), and a concrete instance fulfils it (\<open>list_arnm\<close>,
  \<open>plain_arena\<close>, \<open>plain_reader\<close> and others), on which the property is applied once.

  \<^bold>\<open>Not modelled.\<close>
  \<^item> The conversions of an amount from and to \<open>double\<close> in \<open>unit.c\<close>: there is no IEEE arithmetic in the library.
  \<^item> Of \<open>pbtools.c\<close> the calls no generated message uses (packed fields, maps, fixed width and signed variants), and of
    \<open>r128.h\<close> everything \<open>unit.c\<close> does not reach (conversions, text, square root, the compiler and processor variants).
  \<^item> The static assertions between the enumerations (\<open>*_pb_compat.h\<close>, \<open>*_sodium_compat.h\<close>): checked by the compiler.
  \<^item> The allocation and release of a record on the heap of the process (\<open>_create\<close>, \<open>_free\<close>), where it is a \<open>malloc\<close> or
    \<open>free\<close> around a modelled call.
  \<^item> The printing of the helper programs, the tests, the benchmarks and the build files.
  \<^item> arnm and libsodium themselves, and that two threads use a chain: the library leaves locking to its caller.
\<close>

end
